(* ===== verification/Py_Prelude.thy ===== *)
theory Py_Prelude
  imports Complex_Main
begin

text \<open>
  The part of Python that every component of the model shares: dynamically typed values
  (also the values that \<open>json.dumps\<close> and \<open>json.loads\<close> carry), dictionaries as
  association lists in insertion order, exceptions as values of a sum type, truth values
  of objects, and the list lemmas the component theories use.
\<close>

section \<open>Automation\<close>

named_theorems step_defs "the definitions of one component's state transitions"
named_theorems inv_intros "preservation facts of a component's invariant"

section \<open>Exceptions\<close>

text \<open>
  \<open>Exception\<close> subclasses the sources raise or rely on. A raising call returns
  \<open>Inl e\<close>. \<open>Redis_Error\<close> is any failure of a command sent to Redis and
  \<open>DB_Error\<close> any failure of the relational database.
\<close>

datatype exn =
    ZeroDivisionError
  | TypeError
  | ValueError
  | AttributeError
  | KeyError string
  | IndexError
  | OverflowError
  | NameError
  | RuntimeError string
  | Redis_Error string
  | DB_Error string

type_synonym 'a res = "exn + 'a"

definition res_bind :: "'a res \<Rightarrow> ('a \<Rightarrow> 'b res) \<Rightarrow> 'b res" where
  "res_bind r k = (case r of Inl e \<Rightarrow> Inl e | Inr x \<Rightarrow> k x)"

lemma res_bind_simps [simp]:
  "res_bind (Inl e) k = Inl e"
  "res_bind (Inr x) k = k x"
  by (simp_all add: res_bind_def)

lemma res_bind_Inr_iff: "res_bind r k = Inr y \<longleftrightarrow> (\<exists>x. r = Inr x \<and> k x = Inr y)"
  by (cases r) simp_all

section \<open>Dynamically typed values\<close>

datatype pyval =
    PNone
  | PBool bool
  | PInt int
  | PFloat rat
  | PStr string
  | PList "pyval list"
  | PDict "(string \<times> pyval) list"

text \<open>
  \<open>bool(v)\<close>, the value an \<open>if v:\<close> or \<open>v or w\<close> tests.
\<close>

fun truthy :: "pyval \<Rightarrow> bool" where
  "truthy PNone = False"
| "truthy (PBool b) = b"
| "truthy (PInt n) = (n \<noteq> 0)"
| "truthy (PFloat x) = (x \<noteq> 0)"
| "truthy (PStr s) = (s \<noteq> [])"
| "truthy (PList xs) = (xs \<noteq> [])"
| "truthy (PDict kvs) = (kvs \<noteq> [])"

text \<open>
  \<open>v.get(key, default)\<close>: a dictionary answers, every other value raises
  \<open>AttributeError\<close>.
\<close>

fun py_get :: "pyval \<Rightarrow> string \<Rightarrow> pyval \<Rightarrow> pyval res" where
  "py_get (PDict kvs) k d = Inr (case map_of kvs k of None \<Rightarrow> d | Some v \<Rightarrow> v)"
| "py_get _ _ _ = Inl AttributeError"

text \<open>A value used as a number: \<open>bool\<close> is a subclass of \<open>int\<close>.\<close>

fun as_num :: "pyval \<Rightarrow> rat res" where
  "as_num (PInt n) = Inr (of_int n)"
| "as_num (PFloat x) = Inr x"
| "as_num (PBool b) = Inr (if b then 1 else 0)"
| "as_num _ = Inl TypeError"

section \<open>Dictionaries\<close>

text \<open>
  \<open>d[k] = v\<close> on a dictionary in insertion order: an existing key keeps its place,
  a new key goes to the end.
\<close>

fun dict_set :: "'k \<Rightarrow> 'v \<Rightarrow> ('k \<times> 'v) list \<Rightarrow> ('k \<times> 'v) list" where
  "dict_set k v [] = [(k, v)]"
| "dict_set k v ((k', v') # kvs) =
     (if k = k' then (k, v) # kvs else (k', v') # dict_set k v kvs)"

definition dict_get :: "('k \<times> 'v) list \<Rightarrow> 'k \<Rightarrow> 'v \<Rightarrow> 'v" where
  "dict_get kvs k d = (case map_of kvs k of None \<Rightarrow> d | Some v \<Rightarrow> v)"

definition dict_pop :: "'k \<Rightarrow> ('k \<times> 'v) list \<Rightarrow> ('k \<times> 'v) list" where
  "dict_pop k kvs = filter (\<lambda>(k', _). k' \<noteq> k) kvs"

lemma map_of_dict_set [simp]: "map_of (dict_set k v kvs) = (map_of kvs)(k \<mapsto> v)"
  by (induction k v kvs rule: dict_set.induct) (auto simp: fun_upd_twist)

lemma set_keys_dict_set [simp]: "fst ` set (dict_set k v kvs) = insert k (fst ` set kvs)"
  by (induction k v kvs rule: dict_set.induct) auto

lemma distinct_keys_dict_set [simp]:
  "distinct (map fst (dict_set k v kvs)) = distinct (map fst kvs)"
proof (induction k v kvs rule: dict_set.induct)
  case (2 k v k' v' kvs)
  then show ?case using set_keys_dict_set [of k v kvs] by auto
qed simp

lemma map_of_dict_pop [simp]: "map_of (dict_pop k kvs) = (map_of kvs)(k := None)"
  by (induction kvs) (auto simp: dict_pop_def)

lemma dict_get_set [simp]:
  "dict_get (dict_set k v kvs) k' d = (if k' = k then v else dict_get kvs k' d)"
  by (simp add: dict_get_def)

lemma dict_get_Nil [simp]: "dict_get [] k d = d"
  by (simp add: dict_get_def)

text \<open>The value of an optional entry, with a default.\<close>

definition opt_or :: "'a \<Rightarrow> 'a option \<Rightarrow> 'a" where
  "opt_or d x = (case x of None \<Rightarrow> d | Some v \<Rightarrow> v)"

section \<open>Stored texts\<close>

text \<open>
  What a string-valued cell (a Redis value) holds: the text \<open>json.dumps(v)\<close>, or a
  text the program writes itself (\<open>"true"\<close>, \<open>"LOCKED"\<close>, \<open>"1"\<close>, an identifier).
  \<open>json_loads\<close> is \<open>json.loads\<close>: it inverts \<open>json.dumps\<close>, reads the bare words
  \<open>true\<close>, \<open>false\<close>, \<open>null\<close> and the unsigned decimal integers, and raises
  (\<open>JSONDecodeError\<close>, a \<open>ValueError\<close>) on any other text the program writes.
\<close>

datatype payload = Text string | Dumps pyval

definition digit_val :: "char \<Rightarrow> int option" where
  "digit_val c = (if of_char c \<ge> (48::nat) \<and> of_char c \<le> (57::nat)
     then Some (int (of_char c) - 48) else None)"

fun read_digits :: "int \<Rightarrow> string \<Rightarrow> int option" where
  "read_digits acc [] = Some acc"
| "read_digits acc (c # cs) =
     (case digit_val c of None \<Rightarrow> None | Some d \<Rightarrow> read_digits (10 * acc + d) cs)"

definition json_loads :: "payload \<Rightarrow> pyval res" where
  "json_loads p = (case p of
     Dumps v \<Rightarrow> Inr v
   | Text s \<Rightarrow>
       if s = ''true'' then Inr (PBool True)
       else if s = ''false'' then Inr (PBool False)
       else if s = ''null'' then Inr PNone
       else (case (if s = [] \<or> (hd s = CHR ''0'' \<and> tl s \<noteq> []) then None
                   else read_digits 0 s) of
               Some n \<Rightarrow> Inr (PInt n)
             | None \<Rightarrow> Inl ValueError))"

lemma json_loads_Dumps [simp]: "json_loads (Dumps v) = Inr v"
  by (simp add: json_loads_def)

text \<open>\<open>if text:\<close> on the text read back: only the empty text is false.\<close>

definition text_truthy :: "payload \<Rightarrow> bool" where
  "text_truthy p = (p \<noteq> Text [])"

lemma text_truthy_Dumps [simp]: "text_truthy (Dumps v)"
  by (simp add: text_truthy_def)

section \<open>Handlers\<close>

text \<open>
  A step of a handler returns from the handler, raises, or goes on with a value; it changes
  the state in every case.
\<close>

datatype ('o, 'a) flow = Return 'o | Raise exn | Next 'a

definition and_then ::
  "('o, 'a) flow \<times> 'w \<Rightarrow> ('a \<Rightarrow> 'w \<Rightarrow> ('o, 'b) flow \<times> 'w) \<Rightarrow> ('o, 'b) flow \<times> 'w" where
  "and_then r k = (case r of (Return o', w) \<Rightarrow> (Return o', w) | (Raise e, w) \<Rightarrow> (Raise e, w)
     | (Next a, w) \<Rightarrow> k a w)"

lemma and_then_simps [simp]:
  "and_then (Return o', w) k = (Return o', w)"
  "and_then (Raise e, w) k = (Raise e, w)"
  "and_then (Next a, w) k = k a w"
  by (simp_all add: and_then_def)

definition lift_res :: "'a res \<Rightarrow> 'w \<Rightarrow> ('o, 'a) flow \<times> 'w" where
  "lift_res r w = (case r of Inl e \<Rightarrow> (Raise e, w) | Inr x \<Rightarrow> (Next x, w))"

lemma lift_res_simps [simp]:
  "lift_res (Inl e) w = (Raise e, w)" "lift_res (Inr x) w = (Next x, w)"
  by (simp_all add: lift_res_def)

lemma and_then_Next: "and_then r k = (Next b, w') \<longleftrightarrow> (\<exists>a w. r = (Next a, w) \<and> k a w = (Next b, w'))"
  by (cases r; cases "fst r") (auto simp: and_then_def)

lemma lift_res_Next: "lift_res r w = (Next x, w') \<longleftrightarrow> r = Inr x \<and> w' = w"
  by (cases r) auto

text \<open>What every step keeps a sequence of steps keeps.\<close>

lemma snd_lift_res [simp]: "snd (lift_res r w) = w"
  by (cases r) simp_all

lemma and_then_keeps:
  assumes "f (snd r) = v" "\<And>x w. f w = v \<Longrightarrow> f (snd (k x w)) = v"
  shows "f (snd (and_then r k)) = v"
  using assms by (cases r; cases "fst r") auto

end
