(* ===== verification/PyFloat.thy ===== *)
theory PyFloat
  imports Complex_Main Py_Prelude
begin

text \<open>
  Python's \<open>float\<close>, IEEE 754 binary64, on the rational numbers: a finite float is a
  rational, and each arithmetic operation is the exact operation followed by \<open>fl\<close>,
  which rounds to the nearest multiple of the unit in the last place (52 bits below the
  leading bit, not below \<open>2\<^sup>-\<^sup>1\<^sup>0\<^sup>7\<^sup>4\<close>), ties to even. Infinities, NaN and the
  sign of zero are outside the model: a result that would overflow keeps its rounded
  value. The lemmas give what the components need of rounding: it is monotone, exact on
  representable numbers, sign preserving, and its relative error is at most \<open>2\<^sup>-\<^sup>5\<^sup>3\<close>.
\<close>

section \<open>Rounding to an integer\<close>

definition round_half_even :: "rat \<Rightarrow> int" where
  "round_half_even x = (let f = \<lfloor>x\<rfloor>; r = x - of_int f in
     if r < 1/2 then f else if r > 1/2 then f + 1 else if even f then f else f + 1)"

lemma round_half_even_of_int [simp]: "round_half_even (of_int n) = n"
  by (simp add: round_half_even_def)

lemma round_half_even_cases: "round_half_even x = \<lfloor>x\<rfloor> \<or> round_half_even x = \<lfloor>x\<rfloor> + 1"
  by (simp add: round_half_even_def Let_def)

lemma round_half_even_error: "\<bar>of_int (round_half_even x) - x\<bar> \<le> 1/2"
proof -
  have "of_int \<lfloor>x\<rfloor> \<le> x" and "x < of_int \<lfloor>x\<rfloor> + 1" by (simp_all add: of_int_floor_le, linarith)
  then show ?thesis
    by (simp add: round_half_even_def Let_def abs_le_iff)
qed

lemma round_half_even_mono:
  assumes "x \<le> y"
  shows "round_half_even x \<le> round_half_even y"
proof (cases "\<lfloor>x\<rfloor> = \<lfloor>y\<rfloor>")
  case True
  then show ?thesis using assms by (auto simp: round_half_even_def Let_def)
next
  case False
  with floor_mono [OF assms] have "\<lfloor>x\<rfloor> + 1 \<le> \<lfloor>y\<rfloor>" by linarith
  then show ?thesis
    using round_half_even_cases [of x] round_half_even_cases [of y] by linarith
qed

lemma round_half_even_minus: "round_half_even (- x) = - round_half_even x"
proof (cases "x = of_int \<lfloor>x\<rfloor>")
  case True
  then have "round_half_even x = \<lfloor>x\<rfloor>" by (metis round_half_even_of_int)
  moreover have "round_half_even (- x) = - \<lfloor>x\<rfloor>"
    using True by (metis of_int_minus round_half_even_of_int)
  ultimately show ?thesis by simp
next
  case False
  have lo: "of_int \<lfloor>x\<rfloor> < x" using False of_int_floor_le [of x] by linarith
  have hi: "x < of_int \<lfloor>x\<rfloor> + 1" by linarith
  have f: "\<lfloor>- x\<rfloor> = - \<lfloor>x\<rfloor> - 1"
    using lo hi by (intro floor_unique) auto
  show ?thesis
    unfolding round_half_even_def Let_def f using lo hi by auto
qed

section \<open>Powers of two and the binary exponent\<close>

definition two_pow :: "int \<Rightarrow> rat" where
  "two_pow e = (if 0 \<le> e then 2 ^ nat e else 1 / 2 ^ nat (- e))"

lemma two_pow_pos [simp]: "0 < two_pow e"
  by (simp add: two_pow_def)

lemma two_pow_neq_0 [simp]: "two_pow e \<noteq> 0"
  using two_pow_pos [of e] by linarith

lemma two_pow_0 [simp]: "two_pow 0 = 1"
  by (simp add: two_pow_def)

lemma two_pow_powi: "two_pow e = 2 powi e"
  by (cases "0 \<le> e") (simp_all only: two_pow_def power_int_def if_True if_False divide_inverse power_inverse mult_1_left)

lemma two_pow_nonneg [simp]: "0 \<le> two_pow e"
  by (rule less_imp_le) simp

lemma two_pow_add: "two_pow (a + b) = two_pow a * two_pow b"
  by (simp add: two_pow_powi power_int_add)

lemma two_pow_minus: "two_pow (- a) = 1 / two_pow a"
  by (simp add: two_pow_powi power_int_minus divide_inverse)

lemma two_pow_strict: "a < b \<Longrightarrow> two_pow a < two_pow b"
  by (simp add: two_pow_powi power_int_strict_increasing)

lemma two_pow_le_iff [simp]: "two_pow a \<le> two_pow b \<longleftrightarrow> a \<le> b"
  using two_pow_strict [of b a] two_pow_strict [of a b] by (cases a b rule: linorder_cases) auto

lemma two_pow_less_iff [simp]: "two_pow a < two_pow b \<longleftrightarrow> a < b"
  by (simp add: not_le [symmetric])

lemma two_pow_nat: "0 \<le> e \<Longrightarrow> two_pow e = of_int (2 ^ nat e)"
  by (simp add: two_pow_def)

function intlog2 :: "int \<Rightarrow> int" where
  "intlog2 n = (if n \<le> 1 then 0 else 1 + intlog2 (n div 2))"
  by pat_completeness auto
termination by (relation "measure nat") auto
declare intlog2.simps [simp del]

lemma intlog2_nonneg: "0 \<le> intlog2 n"
proof (induction n rule: intlog2.induct)
  case (1 n) then show ?case by (subst intlog2.simps) auto
qed

lemma intlog2_bounds:
  "1 \<le> n \<Longrightarrow> two_pow (intlog2 n) \<le> of_int n \<and> of_int n < two_pow (intlog2 n + 1)"
proof (induction n rule: intlog2.induct)
  case (1 n)
  show ?case
  proof (cases "n \<le> 1")
    case True
    with 1 have "n = 1" by simp
    then show ?thesis by (simp add: intlog2.simps [of 1] two_pow_def)
  next
    case False
    then have "1 \<le> n div 2" by auto
    with 1 False have ih: "two_pow (intlog2 (n div 2)) \<le> of_int (n div 2)"
      "of_int (n div 2) < two_pow (intlog2 (n div 2) + 1)" by auto
    have step: "intlog2 n = intlog2 (n div 2) + 1"
      using False by (simp add: intlog2.simps [of n])
    define k where "k = intlog2 (n div 2)"
    have k0: "0 \<le> k" by (simp add: k_def intlog2_nonneg)
    from ih(1) have a: "2 ^ nat k \<le> n div 2"
      unfolding k_def [symmetric] two_pow_nat [OF k0] by (simp only: of_int_le_iff)
    from ih(2) have b: "n div 2 < 2 ^ nat (k + 1)"
      unfolding k_def [symmetric] using k0 by (simp only: two_pow_nat [of "k + 1"] of_int_less_iff)
    have nk: "nat (k + 1) = Suc (nat k)" "nat (k + 2) = Suc (Suc (nat k))" using k0 by auto
    from a have "2 ^ nat (k + 1) \<le> n" by (simp add: nk)
    moreover from b have "n < 2 ^ nat (k + 2)" by (simp add: nk)
    ultimately show ?thesis
      unfolding step k_def [symmetric] using k0
      by (simp only: two_pow_nat add.assoc one_add_one of_int_le_iff of_int_less_iff)
  qed
qed

definition ilog2 :: "rat \<Rightarrow> int" where
  "ilog2 x = (let (n, d) = quotient_of x; k = intlog2 n - intlog2 d
    in if two_pow k \<le> x then k else k - 1)"

lemma ilog2_bounds:
  assumes "0 < x"
  shows "two_pow (ilog2 x) \<le> x" and "x < two_pow (ilog2 x + 1)"
proof -
  obtain n d where q: "quotient_of x = (n, d)" by force
  have x: "x = of_int n / of_int d" by (rule quotient_of_div [OF q])
  have d: "1 \<le> d" using quotient_of_denom_pos [OF q] by simp
  have n: "1 \<le> n" using assms d by (simp add: x zero_less_divide_iff)
  define k where "k = intlog2 n - intlog2 d"
  have nb: "two_pow (intlog2 n) \<le> of_int n" "of_int n < two_pow (intlog2 n + 1)"
    using intlog2_bounds [OF n] by auto
  have db: "two_pow (intlog2 d) \<le> of_int d" "of_int d < two_pow (intlog2 d + 1)"
    using intlog2_bounds [OF d] by auto
  have dpos: "(0::rat) < of_int d" using d by simp
  have "two_pow (k - 1) * of_int d \<le> two_pow (k - 1) * two_pow (intlog2 d + 1)"
    using db by (intro mult_left_mono) auto
  also have "\<dots> = two_pow (intlog2 n)"
    by (simp add: two_pow_add [symmetric] k_def)
  also note nb(1)
  finally have lo: "two_pow (k - 1) \<le> x" using dpos by (simp add: x field_simps)
  have "of_int n < two_pow (intlog2 n + 1)" by (rule nb)
  also have "\<dots> = two_pow (k + 1) * two_pow (intlog2 d)"
    by (simp add: two_pow_add [symmetric] k_def)
  also have "\<dots> \<le> two_pow (k + 1) * of_int d"
    using db by (intro mult_left_mono) auto
  finally have hi: "x < two_pow (k + 1)" using dpos by (simp add: x field_simps)
  have il: "ilog2 x = (if two_pow k \<le> x then k else k - 1)"
    by (simp add: ilog2_def q k_def)
  show "two_pow (ilog2 x) \<le> x" using lo by (simp add: il)
  show "x < two_pow (ilog2 x + 1)" using hi by (simp add: il)
qed

lemma ilog2_mono: "0 < x \<Longrightarrow> x \<le> y \<Longrightarrow> ilog2 x \<le> ilog2 y"
proof -
  assume "0 < x" "x \<le> y"
  then have "two_pow (ilog2 x) < two_pow (ilog2 y + 1)"
    using ilog2_bounds(1) [of x] ilog2_bounds(2) [of y] by linarith
  then show ?thesis by simp
qed

section \<open>Rounding to a float\<close>

definition fexp :: "rat \<Rightarrow> int" where
  "fexp x = max (ilog2 \<bar>x\<bar> - 52) (- 1074)"

definition fl :: "rat \<Rightarrow> rat" where
  "fl x = (if x = 0 then 0
     else of_int (round_half_even (x * two_pow (- fexp x))) * two_pow (fexp x))"

definition on_grid :: "int \<Rightarrow> rat \<Rightarrow> bool" where
  "on_grid e z \<longleftrightarrow> (\<exists>m. z = of_int m * two_pow e)"

lemma on_grid_mono: "on_grid e z \<Longrightarrow> e' \<le> e \<Longrightarrow> on_grid e' z"
proof -
  assume "on_grid e z" "e' \<le> e"
  then obtain m where "z = of_int m * two_pow e" by (auto simp: on_grid_def)
  also have "two_pow e = two_pow (e - e') * two_pow e'" by (simp add: two_pow_add [symmetric])
  also have "two_pow (e - e') = of_int (2 ^ nat (e - e'))"
    using \<open>e' \<le> e\<close> by (simp add: two_pow_def)
  finally show ?thesis
    unfolding on_grid_def by (intro exI [of _ "m * 2 ^ nat (e - e')"]) simp
qed

lemma on_grid_fl: "on_grid (fexp x) (fl x)"
  by (auto simp: on_grid_def fl_def intro: exI [of _ 0])

lemma fl_0 [simp]: "fl 0 = 0" by (simp add: fl_def)

lemma grid_scale: "on_grid e z \<Longrightarrow> of_int (round_half_even (z * two_pow (- e))) * two_pow e = z"
proof -
  assume "on_grid e z"
  then obtain m where m: "z = of_int m * two_pow e" by (auto simp: on_grid_def)
  have "two_pow e * two_pow (- e) = 1" by (simp add: two_pow_add [symmetric])
  then have "z * two_pow (- e) = of_int m" by (simp only: m mult.assoc mult_1_right)
  then have "round_half_even (z * two_pow (- e)) = m" by simp
  then show ?thesis by (simp add: m)
qed

lemma fl_le_grid:
  assumes "x \<le> z" "on_grid (fexp x) z"
  shows "fl x \<le> z"
proof (cases "x = 0")
  case False
  have "round_half_even (x * two_pow (- fexp x)) \<le> round_half_even (z * two_pow (- fexp x))"
    using assms(1) by (intro round_half_even_mono mult_right_mono) (auto intro: less_imp_le)
  then have "fl x \<le> of_int (round_half_even (z * two_pow (- fexp x))) * two_pow (fexp x)"
    using False by (simp add: fl_def)
  with grid_scale [OF assms(2)] show ?thesis by simp
qed (use assms in simp)

lemma fl_ge_grid:
  assumes "z \<le> x" "on_grid (fexp x) z"
  shows "z \<le> fl x"
proof (cases "x = 0")
  case False
  have "round_half_even (z * two_pow (- fexp x)) \<le> round_half_even (x * two_pow (- fexp x))"
    using assms(1) by (intro round_half_even_mono mult_right_mono) (auto intro: less_imp_le)
  then have "of_int (round_half_even (z * two_pow (- fexp x))) * two_pow (fexp x) \<le> fl x"
    using False by (simp add: fl_def)
  with grid_scale [OF assms(2)] show ?thesis by simp
qed (use assms in simp)

lemma fl_minus [simp]: "fl (- x) = - fl x"
  by (simp add: fl_def fexp_def round_half_even_minus)

lemma on_grid_0 [simp]: "on_grid e 0"
  by (auto simp: on_grid_def intro: exI [of _ 0])

lemma fl_nonneg: "0 \<le> x \<Longrightarrow> 0 \<le> fl x"
  by (rule fl_ge_grid) auto

lemma on_grid_two_pow: "e \<le> k \<Longrightarrow> on_grid e (two_pow k)"
  by (rule on_grid_mono [of k]) (auto simp: on_grid_def intro: exI [of _ 1])

lemma fl_mono_pos:
  assumes "0 < x" "x \<le> y"
  shows "fl x \<le> fl y"
proof (cases "fexp x = fexp y")
  case True
  have "round_half_even (x * two_pow (- fexp x)) \<le> round_half_even (y * two_pow (- fexp x))"
    using assms(2) by (intro round_half_even_mono mult_right_mono) (auto intro: less_imp_le)
  with True assms show ?thesis by (simp add: fl_def)
next
  case False
  define k where "k = ilog2 y"
  have i: "ilog2 x \<le> k" using assms ilog2_mono by (simp add: k_def)
  with False assms have lt: "ilog2 x < k" and e: "fexp y = k - 52" "fexp x \<le> k"
    by (auto simp: fexp_def k_def)
  have "x \<le> two_pow k"
    using ilog2_bounds(2) [OF assms(1)] two_pow_le_iff [of "ilog2 x + 1" k] lt by linarith
  then have "fl x \<le> two_pow k" using e by (intro fl_le_grid on_grid_two_pow) auto
  also have "two_pow k \<le> fl y"
    using assms e by (intro fl_ge_grid on_grid_two_pow) (auto simp: k_def ilog2_bounds)
  finally show ?thesis .
qed

lemma fl_mono: "x \<le> y \<Longrightarrow> fl x \<le> fl y"
proof -
  assume le: "x \<le> y"
  consider "0 < x" | "x \<le> 0" "0 \<le> y" | "y < 0" by linarith
  then show ?thesis
  proof cases
    case 1 then show ?thesis using le by (rule fl_mono_pos)
  next
    case 2
    then have "0 \<le> fl (- x)" and "0 \<le> fl y" by (simp_all only: fl_nonneg neg_0_le_iff_le)
    then show ?thesis by simp
  next
    case 3
    with le fl_mono_pos [of "- y" "- x"] show ?thesis by simp
  qed
qed

lemma fl_error: "\<bar>fl x - x\<bar> \<le> two_pow (fexp x) / 2"
proof (cases "x = 0")
  case False
  let ?e = "fexp x"
  have x: "x = (x * two_pow (- ?e)) * two_pow ?e"
    by (simp add: mult.assoc two_pow_add [symmetric])
  have "fl x - x = (of_int (round_half_even (x * two_pow (- ?e))) - x * two_pow (- ?e)) * two_pow ?e"
    using False by (subst (2) x) (simp add: fl_def left_diff_distrib)
  then have "\<bar>fl x - x\<bar> = \<bar>of_int (round_half_even (x * two_pow (- ?e))) - x * two_pow (- ?e)\<bar> * two_pow ?e"
    by (simp add: abs_mult)
  also have "\<dots> \<le> 1/2 * two_pow ?e"
    by (intro mult_right_mono round_half_even_error) (auto intro: less_imp_le)
  finally show ?thesis by simp
qed (auto intro: less_imp_le)

lemma fl_rel_error:
  assumes "two_pow (- 1022) \<le> \<bar>x\<bar>"
  shows "\<bar>fl x - x\<bar> \<le> \<bar>x\<bar> * two_pow (- 53)"
proof -
  have pos: "0 < \<bar>x\<bar>" using assms two_pow_pos [of "- 1022"] by linarith
  have "- 1022 \<le> ilog2 \<bar>x\<bar>"
    using assms ilog2_bounds(2) [OF pos] two_pow_less_iff [of "- 1022" "ilog2 \<bar>x\<bar> + 1"] by linarith
  then have e: "fexp x = ilog2 \<bar>x\<bar> - 52" by (simp add: fexp_def)
  have "\<bar>fl x - x\<bar> \<le> two_pow (fexp x) / 2" by (rule fl_error)
  also have "\<dots> = two_pow (ilog2 \<bar>x\<bar>) * two_pow (- 53)"
    using two_pow_add [of "ilog2 \<bar>x\<bar> - 53" 1] two_pow_add [of "ilog2 \<bar>x\<bar>" "- 53"]
    by (simp add: e two_pow_def [of 1])
  also have "\<dots> \<le> \<bar>x\<bar> * two_pow (- 53)"
    using ilog2_bounds(1) [OF pos] by (intro mult_right_mono) (auto intro: less_imp_le)
  finally show ?thesis .
qed

lemma fl_eq_grid: "on_grid (fexp x) x \<Longrightarrow> fl x = x"
  using fl_le_grid [of x x] fl_ge_grid [of x x] by simp

lemma fl_representable:
  assumes "\<bar>m\<bar> \<le> 2 ^ 53" "- 1074 \<le> e"
  shows "fl (of_int m * two_pow e) = of_int m * two_pow e"
proof (cases "m = 0")
  case False
  let ?x = "of_int m * two_pow e"
  have pos: "0 < \<bar>?x\<bar>" using False by simp
  have up: "\<bar>?x\<bar> \<le> two_pow (e + 53)"
  proof -
    have "\<bar>of_int m\<bar> \<le> (two_pow 53 :: rat)"
      using assms(1) by (simp add: two_pow_def flip: of_int_abs)
    then show ?thesis by (simp add: abs_mult two_pow_add)
  qed
  show ?thesis
  proof (cases "\<bar>?x\<bar> = two_pow (e + 53)")
    case True
    have "two_pow (ilog2 \<bar>?x\<bar>) \<le> two_pow (e + 53)" using ilog2_bounds(1) [OF pos] True by simp
    then have "fexp ?x \<le> e + 53" using assms(2) by (auto simp: fexp_def)
    then have "on_grid (fexp ?x) \<bar>?x\<bar>" unfolding True by (rule on_grid_two_pow)
    moreover have "fexp \<bar>?x\<bar> = fexp ?x" by (simp add: fexp_def)
    ultimately have "fl \<bar>?x\<bar> = \<bar>?x\<bar>" using fl_eq_grid by metis
    then show ?thesis by (auto simp: abs_if split: if_splits)
  next
    case False
    with up have "two_pow (ilog2 \<bar>?x\<bar>) < two_pow (e + 53)" using ilog2_bounds(1) [OF pos] by linarith
    then have "fexp ?x \<le> e" using assms(2) by (auto simp: fexp_def)
    moreover have "on_grid e ?x" by (auto simp: on_grid_def)
    ultimately show ?thesis by (intro fl_eq_grid) (rule on_grid_mono)
  qed
qed simp

lemma fl_of_int: "\<bar>n\<bar> \<le> 2 ^ 53 \<Longrightarrow> fl (of_int n) = of_int n"
  using fl_representable [of n 0] by simp


lemma fl_idem [simp]: "fl (fl x) = fl x"
proof (cases "x = 0")
  case False
  define m where "m = round_half_even (x * two_pow (- fexp x))"
  have e: "- 1074 \<le> fexp x" by (simp add: fexp_def)
  have pos: "0 < \<bar>x\<bar>" using False by simp
  have "\<bar>x\<bar> < two_pow (ilog2 \<bar>x\<bar> + 1)" by (rule ilog2_bounds(2) [OF pos])
  also have "\<dots> \<le> two_pow (53 + fexp x)" by (simp add: fexp_def)
  finally have "\<bar>x\<bar> < two_pow 53 * two_pow (fexp x)" by (simp add: two_pow_add)
  then have "\<bar>x\<bar> * two_pow (- fexp x) \<le> two_pow 53"
    by (simp add: two_pow_minus pos_divide_le_eq)
  then have b: "\<bar>x * two_pow (- fexp x)\<bar> \<le> of_int (2 ^ 53)"
    by (simp add: abs_mult two_pow_def [of 53])
  have "m \<le> round_half_even (of_int (2 ^ 53))"
    unfolding m_def using b by (intro round_half_even_mono) (simp add: abs_le_iff)
  moreover have "round_half_even (of_int (- (2 ^ 53))) \<le> m"
    unfolding m_def using b by (intro round_half_even_mono) (simp add: abs_le_iff)
  ultimately have "\<bar>m\<bar> \<le> 2 ^ 53"
    unfolding round_half_even_of_int by (simp add: abs_le_iff)
  then have "fl (of_int m * two_pow (fexp x)) = of_int m * two_pow (fexp x)"
    using e by (rule fl_representable)
  then show ?thesis using False by (simp add: fl_def [of x] m_def [symmetric])
qed simp

section \<open>Arithmetic\<close>

text \<open>
  A decimal literal of the source such as \<open>0.7\<close> is \<open>fl (7/10)\<close>; literals that
  are dyadic (\<open>2.0\<close>, \<open>0.5\<close>, \<open>100.0\<close>) are written as they are. An \<open>int\<close>
  operand of a mixed operation is converted first, by \<open>of_py_int\<close>. Division is
  guarded by the caller or by \<open>py_fdiv\<close>, which raises.
\<close>

definition fadd :: "rat \<Rightarrow> rat \<Rightarrow> rat" where "fadd x y = fl (x + y)"
definition fsub :: "rat \<Rightarrow> rat \<Rightarrow> rat" where "fsub x y = fl (x - y)"
definition fmul :: "rat \<Rightarrow> rat \<Rightarrow> rat" where "fmul x y = fl (x * y)"
definition fdiv :: "rat \<Rightarrow> rat \<Rightarrow> rat" where "fdiv x y = fl (x / y)"
definition of_py_int :: "int \<Rightarrow> rat" where "of_py_int n = fl (of_int n)"

definition py_fdiv :: "rat \<Rightarrow> rat \<Rightarrow> rat res" where
  "py_fdiv x y = (if y = 0 then Inl ZeroDivisionError else Inr (fdiv x y))"

text \<open>\<open>int(x)\<close> truncates; \<open>round(x, n)\<close> rounds the exact value half to even.\<close>

definition py_int :: "rat \<Rightarrow> int" where
  "py_int x = (if 0 \<le> x then \<lfloor>x\<rfloor> else - \<lfloor>- x\<rfloor>)"

definition py_round :: "nat \<Rightarrow> rat \<Rightarrow> rat" where
  "py_round n x = fl (of_int (round_half_even (x * 10 ^ n)) / 10 ^ n)"

lemmas float_defs = fadd_def fsub_def fmul_def fdiv_def of_py_int_def

lemma fl_pos_le: "x \<le> 0 \<Longrightarrow> fl x \<le> 0"
  using fl_mono [of x 0] by simp

lemma fadd_mono: "a \<le> b \<Longrightarrow> c \<le> d \<Longrightarrow> fadd a c \<le> fadd b d"
  by (simp add: fadd_def fl_mono)

lemma fsub_mono: "a \<le> b \<Longrightarrow> d \<le> c \<Longrightarrow> fsub a c \<le> fsub b d"
  by (simp add: fsub_def fl_mono)

lemma fmul_left_mono: "0 \<le> c \<Longrightarrow> a \<le> b \<Longrightarrow> fmul c a \<le> fmul c b"
  by (simp add: fmul_def fl_mono mult_left_mono)

lemma fmul_right_mono: "0 \<le> c \<Longrightarrow> a \<le> b \<Longrightarrow> fmul a c \<le> fmul b c"
  by (simp add: fmul_def fl_mono mult_right_mono)

lemma fdiv_right_mono: "0 \<le> c \<Longrightarrow> a \<le> b \<Longrightarrow> fdiv a c \<le> fdiv b c"
  by (simp add: fdiv_def fl_mono divide_right_mono)

lemma fmul_nonneg: "0 \<le> a \<Longrightarrow> 0 \<le> b \<Longrightarrow> 0 \<le> fmul a b"
  by (simp add: fmul_def fl_nonneg)

lemma fdiv_nonneg: "0 \<le> a \<Longrightarrow> 0 \<le> b \<Longrightarrow> 0 \<le> fdiv a b"
  by (simp add: fdiv_def fl_nonneg)

lemma fadd_nonneg: "0 \<le> a \<Longrightarrow> 0 \<le> b \<Longrightarrow> 0 \<le> fadd a b"
  by (simp add: fadd_def fl_nonneg)

lemma fl_1 [simp]: "fl 1 = 1" using fl_of_int [of 1] by simp

lemma fl_numeral: "numeral n \<le> (2 ^ 53 :: int) \<Longrightarrow> fl (numeral n) = numeral n"
  using fl_of_int [of "numeral n"] by simp

lemma fmul_1_right [simp]: "fl x = x \<Longrightarrow> fmul x 1 = x"
  by (simp add: fmul_def)

lemma fsub_self [simp]: "fsub x x = 0"
  by (simp add: fsub_def)

lemma fl_ge_float: "fl z = z \<Longrightarrow> z \<le> x \<Longrightarrow> z \<le> fl x"
  using fl_mono [of z x] by simp

lemma fl_le_float: "fl z = z \<Longrightarrow> x \<le> z \<Longrightarrow> fl x \<le> z"
  using fl_mono [of x z] by simp

lemma of_py_int_mono: "m \<le> n \<Longrightarrow> of_py_int m \<le> of_py_int n"
  by (simp add: of_py_int_def fl_mono)

lemma of_py_int_small: "\<bar>n\<bar> \<le> 2 ^ 53 \<Longrightarrow> of_py_int n = of_int n"
  by (simp add: of_py_int_def fl_of_int)

lemma py_int_nonneg: "0 \<le> x \<Longrightarrow> py_int x = \<lfloor>x\<rfloor>"
  by (simp add: py_int_def)

lemma py_int_le: "0 \<le> x \<Longrightarrow> of_int (py_int x) \<le> x"
  by (simp add: py_int_def)

lemma py_int_mono: "x \<le> y \<Longrightarrow> py_int x \<le> py_int y"
proof -
  assume xy: "x \<le> y"
  consider "0 \<le> x" | "x < 0" "0 \<le> y" | "y < 0" by linarith
  then show ?thesis
  proof cases
    case 1
    with xy show ?thesis by (simp add: py_int_def floor_mono)
  next
    case 2
    then have "py_int x \<le> 0" and "0 \<le> py_int y" by (simp_all add: py_int_def)
    then show ?thesis by linarith
  next
    case 3
    with xy show ?thesis by (simp add: py_int_def floor_mono)
  qed
qed

lemma py_int_of_int [simp]: "py_int (of_int n) = n"
  by (simp add: py_int_def)

lemma py_int_ge_0_iff: "0 \<le> py_int x \<longleftrightarrow> - 1 < x"
  by (auto simp: py_int_def le_floor_iff floor_le_iff less_le_not_le)

text \<open>Above a thousandth the relative error is below a millionth.\<close>

lemma fl_close: "(1/1000 :: rat) \<le> x \<Longrightarrow> (1 - 1/10^6) * x \<le> fl x \<and> fl x \<le> (1 + 1/10^6) * x"
proof -
  assume x: "1/1000 \<le> x"
  have "two_pow (- 1022) \<le> two_pow (- 10)" by simp
  moreover have "two_pow (- 10) \<le> (1/1000 :: rat)" by (simp add: two_pow_def)
  ultimately have "two_pow (- 1022) \<le> \<bar>x\<bar>" using x by linarith
  from fl_rel_error [OF this] have e: "\<bar>fl x - x\<bar> \<le> x * two_pow (- 53)" using x by simp
  have "two_pow (- 53) \<le> (1/10^6 :: rat)" by (simp add: two_pow_def)
  then have "x * two_pow (- 53) \<le> x * (1/10^6)" using x by (intro mult_left_mono) auto
  with e show ?thesis by (simp add: algebra_simps abs_le_iff)
qed

end
