(* ===== verification/Circuit_Breaker.thy ===== *)
theory Circuit_Breaker
  imports PyFloat
begin

text \<open>
  The circuit breaker around the broker's HTTP API, \<open>shared/kis/circuit_breaker.py\<close>:
  its three states, the counters that drive the transitions, the exponential backoff,
  the decorator \<open>protect\<close>, and the steps of several threads that share one breaker
  (each method body under \<open>self._lock\<close> is one atomic step).
\<close>

section \<open>State\<close>

datatype circuit_state = CLOSED | OPEN | HALF_OPEN

record breaker_config =
  failure_threshold :: int
  success_threshold :: int
  timeout_seconds :: rat
  half_open_max_calls :: int
  initial_backoff :: rat
  max_backoff :: rat
  backoff_multiplier :: rat

definition default_breaker_config :: breaker_config where
  "default_breaker_config = \<lparr>failure_threshold = 5, success_threshold = 3,
     timeout_seconds = 30, half_open_max_calls = 3, initial_backoff = 1,
     max_backoff = 60, backoff_multiplier = 2\<rparr>"

record breaker =
  cb_name :: string
  cb_config :: breaker_config
  cb_state :: circuit_state
  failure_count :: int
  success_count :: int
  last_failure_time :: rat
  current_backoff :: rat
  half_open_calls :: int
  open_count :: int

definition new_breaker :: "string \<Rightarrow> breaker_config \<Rightarrow> breaker" where
  "new_breaker name cfg = \<lparr>cb_name = name, cb_config = cfg, cb_state = CLOSED,
     failure_count = 0, success_count = 0, last_failure_time = 0,
     current_backoff = initial_backoff cfg, half_open_calls = 0, open_count = 0\<rparr>"

text \<open>\<open>get_kis_circuit_breaker\<close>: the global instance, created on first use.\<close>

definition kis_config :: breaker_config where
  "kis_config = default_breaker_config\<lparr>failure_threshold := 5, success_threshold := 3,
     timeout_seconds := 30, initial_backoff := 5, max_backoff := 120\<rparr>"

definition get_kis_circuit_breaker :: "breaker option \<Rightarrow> breaker" where
  "get_kis_circuit_breaker g = (case g of None \<Rightarrow> new_breaker ''KIS_API'' kis_config | Some b \<Rightarrow> b)"

section \<open>Operations\<close>

definition transition_to_half_open :: "breaker \<Rightarrow> breaker" where
  "transition_to_half_open b = b\<lparr>cb_state := HALF_OPEN, half_open_calls := 0, success_count := 0\<rparr>"

definition check_and_update_state :: "rat \<Rightarrow> breaker \<Rightarrow> bool \<times> breaker" where
  "check_and_update_state now b = (case cb_state b of
     CLOSED \<Rightarrow> (True, b)
   | OPEN \<Rightarrow>
       (if fsub now (last_failure_time b) \<ge> current_backoff b
        then (True, transition_to_half_open b) else (False, b))
   | HALF_OPEN \<Rightarrow> (half_open_calls b < half_open_max_calls (cb_config b), b))"

definition transition_to_open :: "breaker \<Rightarrow> breaker" where
  "transition_to_open b =
     (let was_already_open = (cb_state b = OPEN);
          b1 = b\<lparr>cb_state := OPEN, open_count := open_count b + 1\<rparr>
      in if was_already_open \<or> open_count b1 > 1
         then b1\<lparr>current_backoff :=
                min (fmul (current_backoff b1) (backoff_multiplier (cb_config b1)))
                    (max_backoff (cb_config b1))\<rparr>
         else b1\<lparr>current_backoff := initial_backoff (cb_config b1)\<rparr>)"

definition transition_to_closed :: "breaker \<Rightarrow> breaker" where
  "transition_to_closed b = b\<lparr>cb_state := CLOSED, failure_count := 0, success_count := 0,
     open_count := 0, current_backoff := initial_backoff (cb_config b)\<rparr>"

definition record_success :: "breaker \<Rightarrow> breaker" where
  "record_success b = (case cb_state b of
     HALF_OPEN \<Rightarrow>
       (let b1 = b\<lparr>success_count := success_count b + 1\<rparr>
        in if success_count b1 \<ge> success_threshold (cb_config b1)
           then transition_to_closed b1 else b1)
   | CLOSED \<Rightarrow> b\<lparr>failure_count := max 0 (failure_count b - 1)\<rparr>
   | OPEN \<Rightarrow> b)"

definition record_failure :: "rat \<Rightarrow> breaker \<Rightarrow> breaker" where
  "record_failure now b =
     (let b1 = b\<lparr>failure_count := failure_count b + 1, last_failure_time := now\<rparr>
      in case cb_state b1 of
           HALF_OPEN \<Rightarrow> transition_to_open b1
         | CLOSED \<Rightarrow>
             (if failure_count b1 \<ge> failure_threshold (cb_config b1)
              then transition_to_open b1 else b1)
         | OPEN \<Rightarrow> b1)"

definition reset_breaker :: "breaker \<Rightarrow> breaker" where
  "reset_breaker b = b\<lparr>cb_state := CLOSED, failure_count := 0, success_count := 0,
     open_count := 0, current_backoff := initial_backoff (cb_config b)\<rparr>"

record breaker_status =
  status_name :: string
  status_state :: circuit_state
  status_failure_count :: int
  status_success_count :: int
  status_current_backoff :: rat
  status_is_available :: bool

text \<open>
  \<open>get_status\<close> reads the fields before it calls \<open>_check_and_update_state\<close>, which may
  itself move the breaker to \<open>HALF_OPEN\<close>.
\<close>

definition get_status :: "rat \<Rightarrow> breaker \<Rightarrow> breaker_status \<times> breaker" where
  "get_status now b = (let (avail, b') = check_and_update_state now b in
     (\<lparr>status_name = cb_name b, status_state = cb_state b,
       status_failure_count = failure_count b, status_success_count = success_count b,
       status_current_backoff = current_backoff b, status_is_available = avail\<rparr>, b'))"

section \<open>The decorator\<close>

text \<open>
  What a call of the wrapped function does: it returns, raises an \<open>Exception\<close>, or is
  left by a \<open>BaseException\<close> (\<open>KeyboardInterrupt\<close>, \<open>SystemExit\<close>, \<open>GeneratorExit\<close>),
  which \<open>except Exception\<close> does not catch.
\<close>

datatype 'a outcome = Returned 'a | Raised exn | Aborted

datatype 'a protected =
    Value 'a
  | Func_Raised exn
  | Func_Aborted
  | Circuit_Breaker_Error circuit_state rat

text \<open>
  \<open>protect\<close>: \<open>t1\<close>, \<open>t2\<close>, \<open>t3\<close> are the readings of \<open>time.time()\<close> in the
  availability check, in the computation of \<open>retry_after\<close> and in \<open>record_failure\<close>;
  \<open>func\<close> acts on a world \<open>w\<close>.
\<close>

definition protect ::
  "rat \<Rightarrow> rat \<Rightarrow> rat \<Rightarrow> ('w \<Rightarrow> 'a outcome \<times> 'w) \<Rightarrow> breaker \<times> 'w \<Rightarrow> 'a protected \<times> breaker \<times> 'w" where
  "protect t1 t2 t3 func bw = (let (b, w) = bw; (avail, b1) = check_and_update_state t1 b in
     if \<not> avail then
       (let retry_after = fsub (current_backoff b1) (fsub t2 (last_failure_time b1))
        in (Circuit_Breaker_Error (cb_state b1) (max 0 retry_after), b1, w))
     else
       (let b2 = (if cb_state b1 = HALF_OPEN
                  then b1\<lparr>half_open_calls := half_open_calls b1 + 1\<rparr> else b1)
        in case func w of
             (Returned x, w') \<Rightarrow> (Value x, record_success b2, w')
           | (Raised e, w') \<Rightarrow> (Func_Raised e, record_failure t3 b2, w')
           | (Aborted, w') \<Rightarrow> (Func_Aborted, b2, w')))"

text \<open>A sequence of protected calls by one thread; the world is not of interest.\<close>

fun run_calls :: "(rat \<times> unit outcome) list \<Rightarrow> breaker \<Rightarrow> unit protected list \<times> breaker" where
  "run_calls [] b = ([], b)"
| "run_calls ((t, out) # cs) b =
     (let (r, b', _) = protect t t t (\<lambda>w. (out, w)) (b, ());
          (rs, b'') = run_calls cs b'
      in (r # rs, b''))"

lemmas breaker_ops =
  check_and_update_state_def transition_to_half_open_def transition_to_open_def
  transition_to_closed_def record_success_def record_failure_def reset_breaker_def Let_def

section \<open>Threads that share the breaker\<close>

text \<open>
  Where a thread is inside \<open>wrapper\<close>: not in it, past \<open>self.is_available\<close>, past
  the unlocked test \<open>self._state == HALF_OPEN\<close> and about to take the lock, or running
  \<open>func\<close>.
\<close>

datatype call_pc = Idle | Admitted | Counting | Running

record breaker_sys =
  brk :: breaker
  clock :: rat
  pcs :: "nat \<Rightarrow> call_pc"

inductive breaker_step :: "breaker_sys \<Rightarrow> breaker_sys \<Rightarrow> bool" where
  tick: "breaker_step s (s\<lparr>clock := t\<rparr>)"
| admit: "pcs s i = Idle \<Longrightarrow> check_and_update_state (clock s) (brk s) = (True, b) \<Longrightarrow>
    breaker_step s (s\<lparr>brk := b, pcs := (pcs s)(i := Admitted)\<rparr>)"
| reject: "pcs s i = Idle \<Longrightarrow> check_and_update_state (clock s) (brk s) = (False, b) \<Longrightarrow>
    breaker_step s (s\<lparr>brk := b\<rparr>)"
| see_half_open: "pcs s i = Admitted \<Longrightarrow> cb_state (brk s) = HALF_OPEN \<Longrightarrow>
    breaker_step s (s\<lparr>pcs := (pcs s)(i := Counting)\<rparr>)"
| see_other: "pcs s i = Admitted \<Longrightarrow> cb_state (brk s) \<noteq> HALF_OPEN \<Longrightarrow>
    breaker_step s (s\<lparr>pcs := (pcs s)(i := Running)\<rparr>)"
| count: "pcs s i = Counting \<Longrightarrow>
    breaker_step s (s\<lparr>brk := (brk s)\<lparr>half_open_calls := half_open_calls (brk s) + 1\<rparr>,
                     pcs := (pcs s)(i := Running)\<rparr>)"
| succeed: "pcs s i = Running \<Longrightarrow>
    breaker_step s (s\<lparr>brk := record_success (brk s), pcs := (pcs s)(i := Idle)\<rparr>)"
| fail: "pcs s i = Running \<Longrightarrow>
    breaker_step s (s\<lparr>brk := record_failure (clock s) (brk s), pcs := (pcs s)(i := Idle)\<rparr>)"
| abort: "pcs s i = Running \<Longrightarrow> breaker_step s (s\<lparr>pcs := (pcs s)(i := Idle)\<rparr>)"
| reset: "breaker_step s (s\<lparr>brk := reset_breaker (brk s)\<rparr>)"
| status: "breaker_step s (s\<lparr>brk := snd (get_status (clock s) (brk s))\<rparr>)"

definition breaker_init :: "breaker_config \<Rightarrow> breaker_sys" where
  "breaker_init cfg = \<lparr>brk = new_breaker ''KIS_API'' cfg, clock = 0, pcs = (\<lambda>_. Idle)\<rparr>"

inductive breaker_reachable :: "breaker_config \<Rightarrow> breaker_sys \<Rightarrow> bool" for cfg where
  start: "breaker_reachable cfg (breaker_init cfg)"
| step: "breaker_reachable cfg s \<Longrightarrow> breaker_step s s' \<Longrightarrow> breaker_reachable cfg s'"

section \<open>The backoff sequence and the invariant\<close>

text \<open>The backoff after the \<open>n\<close>-th opening without a recovery in between.\<close>

fun backoff_seq :: "breaker_config \<Rightarrow> nat \<Rightarrow> rat" where
  "backoff_seq cfg 0 = initial_backoff cfg"
| "backoff_seq cfg (Suc n) =
     min (fmul (backoff_seq cfg n) (backoff_multiplier cfg)) (max_backoff cfg)"

definition config_ok :: "breaker_config \<Rightarrow> bool" where
  "config_ok cfg \<longleftrightarrow> 1 \<le> failure_threshold cfg \<and> 1 \<le> success_threshold cfg"

definition breaker_inv :: "breaker_config \<Rightarrow> breaker \<Rightarrow> bool" where
  "breaker_inv cfg b \<longleftrightarrow> cb_config b = cfg \<and> 0 \<le> failure_count b \<and>
     (case cb_state b of
        CLOSED \<Rightarrow> open_count b = 0 \<and> current_backoff b = initial_backoff cfg \<and>
                  failure_count b < failure_threshold cfg
      | OPEN \<Rightarrow> 1 \<le> open_count b \<and> current_backoff b = backoff_seq cfg (nat (open_count b - 1))
      | HALF_OPEN \<Rightarrow> 1 \<le> open_count b \<and>
                  current_backoff b = backoff_seq cfg (nat (open_count b - 1)) \<and>
                  0 \<le> success_count b \<and> success_count b < success_threshold cfg)"

lemma breaker_inv_new: "config_ok cfg \<Longrightarrow> breaker_inv cfg (new_breaker name cfg)"
  by (simp add: breaker_inv_def new_breaker_def config_ok_def)

lemma breaker_inv_check [inv_intros]:
  "config_ok cfg \<Longrightarrow> breaker_inv cfg b \<Longrightarrow> breaker_inv cfg (snd (check_and_update_state now b))"
  by (auto simp: breaker_inv_def config_ok_def breaker_ops split: circuit_state.splits)

lemma breaker_inv_check_eq:
  "config_ok cfg \<Longrightarrow> breaker_inv cfg b \<Longrightarrow> check_and_update_state now b = (a, b') \<Longrightarrow>
   breaker_inv cfg b'"
  using breaker_inv_check [of cfg b now] by simp

lemma breaker_inv_success [inv_intros]:
  "config_ok cfg \<Longrightarrow> breaker_inv cfg b \<Longrightarrow> breaker_inv cfg (record_success b)"
  by (auto simp: breaker_inv_def config_ok_def breaker_ops split: circuit_state.splits)

text \<open>
  Opening from the other two states: a first opening starts at the initial backoff, a
  reopening takes the next element of the sequence.
\<close>

lemma transition_to_open_inv:
  assumes "breaker_inv cfg b" "cb_state b \<noteq> OPEN"
  shows "breaker_inv cfg (transition_to_open (b\<lparr>failure_count := failure_count b + 1, last_failure_time := now\<rparr>))"
proof (cases "cb_state b")
  case HALF_OPEN
  with assms(1) have oc: "1 \<le> open_count b" by (simp add: breaker_inv_def)
  then have "nat (open_count b) = Suc (nat (open_count b - 1))" by simp
  with HALF_OPEN assms(1) oc show ?thesis by (simp add: breaker_inv_def breaker_ops)
qed (use assms in \<open>auto simp: breaker_inv_def breaker_ops\<close>)

lemma breaker_inv_failure [inv_intros]:
  assumes "breaker_inv cfg b"
  shows "breaker_inv cfg (record_failure now b)"
proof (cases "cb_state b = OPEN")
  case True
  with assms show ?thesis by (simp add: breaker_inv_def record_failure_def Let_def)
next
  case False
  with transition_to_open_inv [OF assms False, of now] assms show ?thesis
    by (auto simp: record_failure_def Let_def breaker_inv_def split: circuit_state.splits)
qed

lemma breaker_inv_reset [inv_intros]:
  "config_ok cfg \<Longrightarrow> breaker_inv cfg b \<Longrightarrow> breaker_inv cfg (reset_breaker b)"
  by (auto simp: breaker_inv_def config_ok_def reset_breaker_def)

lemma breaker_inv_half_open_calls [simp]:
  "breaker_inv cfg (b\<lparr>half_open_calls := n\<rparr>) = breaker_inv cfg b"
  by (simp add: breaker_inv_def split: circuit_state.split)

lemma snd_get_status [simp]: "snd (get_status now b) = snd (check_and_update_state now b)"
  by (simp add: get_status_def split: prod.splits)

lemma breaker_step_inv:
  "breaker_step s s' \<Longrightarrow> config_ok cfg \<Longrightarrow> breaker_inv cfg (brk s) \<Longrightarrow> breaker_inv cfg (brk s')"
  by (induction rule: breaker_step.induct) (auto intro: inv_intros breaker_inv_check_eq)

lemma breaker_reachable_inv:
  "breaker_reachable cfg s \<Longrightarrow> config_ok cfg \<Longrightarrow> breaker_inv cfg (brk s)"
proof (induction rule: breaker_reachable.induct)
  case start
  then show ?case by (simp add: breaker_init_def breaker_inv_new)
next
  case (step s s')
  then show ?case by (blast intro: breaker_step_inv)
qed

section \<open>Bounds of the backoff\<close>

definition backoff_ok :: "breaker_config \<Rightarrow> bool" where
  "backoff_ok cfg \<longleftrightarrow> 0 \<le> initial_backoff cfg \<and> initial_backoff cfg \<le> max_backoff cfg \<and>
     1 \<le> backoff_multiplier cfg \<and> fl (initial_backoff cfg) = initial_backoff cfg \<and>
     fl (max_backoff cfg) = max_backoff cfg"

lemma backoff_seq_bounds:
  assumes "backoff_ok cfg"
  shows "initial_backoff cfg \<le> backoff_seq cfg n \<and> backoff_seq cfg n \<le> max_backoff cfg \<and>
    fl (backoff_seq cfg n) = backoff_seq cfg n \<and> backoff_seq cfg n \<le> backoff_seq cfg (Suc n)"
proof (induction n)
  case 0
  have "initial_backoff cfg \<le> fmul (initial_backoff cfg) (backoff_multiplier cfg)"
    unfolding fmul_def using assms
    by (intro fl_ge_float) (auto simp: backoff_ok_def mult_le_cancel_left1 intro: order_trans)
  with assms show ?case by (simp add: backoff_ok_def)
next
  case (Suc n)
  let ?x = "backoff_seq cfg (Suc n)"
  have lo: "initial_backoff cfg \<le> ?x" and hi: "?x \<le> max_backoff cfg"
    using Suc by (auto simp del: backoff_seq.simps intro: order_trans simp: backoff_seq.simps(2) [of cfg n])
  have flx: "fl ?x = ?x"
    using assms by (auto simp: min_def fmul_def backoff_ok_def)
  have "0 \<le> ?x" using lo assms by (simp only: backoff_ok_def) linarith
  then have "?x \<le> ?x * backoff_multiplier cfg"
    using assms mult_left_mono [of 1 "backoff_multiplier cfg" ?x] by (simp only: backoff_ok_def mult_1_right)
  then have "?x \<le> fmul ?x (backoff_multiplier cfg)"
    unfolding fmul_def by (rule fl_ge_float [OF flx])
  with hi have "?x \<le> backoff_seq cfg (Suc (Suc n))" by (subst backoff_seq.simps(2)) simp
  with lo hi flx show ?case by blast
qed


section \<open>Recovery\<close>

text \<open>A breaker testing the recovery: \<open>k\<close> of the test calls were made and succeeded.\<close>

definition probing :: "int \<Rightarrow> breaker \<Rightarrow> bool" where
  "probing k b \<longleftrightarrow> cb_state b = HALF_OPEN \<and> half_open_calls b = k \<and> success_count b = k"

lemma protect_returned:
  "check_and_update_state t1 b = (True, b1) \<Longrightarrow> protect t1 t2 t3 (\<lambda>w. (Returned x, w)) (b, w) =
     (Value x, record_success (if cb_state b1 = HALF_OPEN
        then b1\<lparr>half_open_calls := half_open_calls b1 + 1\<rparr> else b1), w)"
  by (simp add: protect_def Let_def)

lemma protect_rejected:
  "check_and_update_state t1 b = (False, b1) \<Longrightarrow> protect t1 t2 t3 f (b, w) =
     (Circuit_Breaker_Error (cb_state b1)
        (max 0 (fsub (current_backoff b1) (fsub t2 (last_failure_time b1)))), b1, w)"
  by (simp add: protect_def Let_def)

lemma probing_step:
  assumes "probing k b" "k < success_threshold (cb_config b)" "k < half_open_max_calls (cb_config b)"
  shows "\<exists>b'. run_calls ((t, Returned ()) # cs) b =
      (Value () # fst (run_calls cs b'), snd (run_calls cs b')) \<and>
    (if k + 1 = success_threshold (cb_config b) then cb_state b' = CLOSED \<and> failure_count b' = 0 \<and> open_count b' = 0
        \<and> current_backoff b' = initial_backoff (cb_config b)
     else probing (k + 1) b' \<and> cb_config b' = cb_config b)"
proof -
  have chk: "check_and_update_state t b = (True, b)"
    using assms by (simp add: probing_def check_and_update_state_def)
  let ?b = "record_success (b\<lparr>half_open_calls := half_open_calls b + 1\<rparr>)"
  have "run_calls ((t, Returned ()) # cs) b = (Value () # fst (run_calls cs ?b), snd (run_calls cs ?b))"
    using assms by (simp add: protect_returned [OF chk] probing_def case_prod_beta)
  moreover have "if k + 1 = success_threshold (cb_config b)
    then cb_state ?b = CLOSED \<and> failure_count ?b = 0 \<and> open_count ?b = 0
      \<and> current_backoff ?b = initial_backoff (cb_config b)
    else probing (k + 1) ?b \<and> cb_config ?b = cb_config b"
    using assms by (auto simp: probing_def record_success_def transition_to_closed_def)
  ultimately show ?thesis by blast
qed

lemma probing_closes:
  assumes "probing k b" "0 \<le> k" "success_threshold (cb_config b) \<le> half_open_max_calls (cb_config b)"
    and "int (length ts) = success_threshold (cb_config b) - k" "ts \<noteq> []"
  shows "\<exists>b'. run_calls (map (\<lambda>t. (t, Returned ())) ts) b = (replicate (length ts) (Value ()), b') \<and>
     cb_state b' = CLOSED \<and> failure_count b' = 0 \<and> open_count b' = 0 \<and>
     current_backoff b' = initial_backoff (cb_config b)"
  using assms
proof (induction ts arbitrary: k b)
  case (Cons t ts)
  then have k: "k < success_threshold (cb_config b)" "k < half_open_max_calls (cb_config b)" by simp_all
  from probing_step [OF Cons.prems(1) k, of t "map (\<lambda>t. (t, Returned ())) ts"]
  obtain b1 where run: "run_calls ((t, Returned ()) # map (\<lambda>t. (t, Returned ())) ts) b =
      (Value () # fst (run_calls (map (\<lambda>t. (t, Returned ())) ts) b1),
       snd (run_calls (map (\<lambda>t. (t, Returned ())) ts) b1))"
    and post: "if k + 1 = success_threshold (cb_config b)
      then cb_state b1 = CLOSED \<and> failure_count b1 = 0 \<and> open_count b1 = 0 \<and>
        current_backoff b1 = initial_backoff (cb_config b)
      else probing (k + 1) b1 \<and> cb_config b1 = cb_config b" by blast
  show ?case
  proof (cases "ts = []")
    case True
    with Cons.prems(4) post have "cb_state b1 = CLOSED \<and> failure_count b1 = 0 \<and> open_count b1 = 0 \<and>
        current_backoff b1 = initial_backoff (cb_config b)" by simp
    with run True show ?thesis by (simp del: run_calls.simps(2))
  next
    case False
    then have "0 < length ts" by simp
    with Cons.prems(4) have "k + 1 \<noteq> success_threshold (cb_config b)" by (simp del: length_greater_0_conv)
    with post have p: "probing (k + 1) b1" "cb_config b1 = cb_config b" by simp_all
    with Cons.IH [OF p(1)] Cons.prems False obtain b' where
      "run_calls (map (\<lambda>t. (t, Returned ())) ts) b1 = (replicate (length ts) (Value ()), b')"
      "cb_state b' = CLOSED \<and> failure_count b' = 0 \<and> open_count b' = 0 \<and>
        current_backoff b' = initial_backoff (cb_config b)" by auto
    with run show ?thesis by (simp del: run_calls.simps(2))
  qed
qed simp

text \<open>The first test call finds the timeout elapsed and moves the breaker to \<open>HALF_OPEN\<close>.\<close>

lemma run_calls_elapsed:
  assumes "cb_state b = OPEN" "current_backoff b \<le> fsub t (last_failure_time b)"
    and "0 < half_open_max_calls (cb_config b)"
  shows "run_calls ((t, out) # cs) b = run_calls ((t, out) # cs) (transition_to_half_open b)"
proof -
  have "check_and_update_state t b = check_and_update_state t (transition_to_half_open b)"
    using assms by (simp add: check_and_update_state_def transition_to_half_open_def)
  then show ?thesis by (simp add: protect_def)
qed

section \<open>Exhausted test calls\<close>

lemma exhausted_rejects:
  assumes "cb_state b = HALF_OPEN" "half_open_max_calls (cb_config b) \<le> half_open_calls b"
  shows "snd (run_calls cs b) = b \<and>
    (\<forall>r \<in> set (fst (run_calls cs b)). \<exists>d. r = Circuit_Breaker_Error HALF_OPEN d)"
proof (induction cs)
  case (Cons c cs)
  obtain t out where c: "c = (t, out)" by force
  have "check_and_update_state t b = (False, b)"
    using assms by (simp add: check_and_update_state_def)
  then show ?case using Cons assms by (auto simp: c protect_rejected split: prod.splits)
qed simp

section \<open>Executable interleavings\<close>

text \<open>
  One thread's move by name; \<open>exec_move\<close> answers \<open>None\<close> where the thread is not at
  that point. Every executed schedule is a run of the step relation.
\<close>

datatype move =
    M_Tick rat | M_Check nat | M_See nat | M_Count nat | M_Success nat | M_Failure nat | M_Abort nat

fun exec_move :: "move \<Rightarrow> breaker_sys \<Rightarrow> breaker_sys option" where
  "exec_move (M_Tick t) s = Some (s\<lparr>clock := t\<rparr>)"
| "exec_move (M_Check i) s =
     (if pcs s i = Idle then
        (let (a, b) = check_and_update_state (clock s) (brk s)
         in Some (if a then s\<lparr>brk := b, pcs := (pcs s)(i := Admitted)\<rparr> else s\<lparr>brk := b\<rparr>))
      else None)"
| "exec_move (M_See i) s =
     (if pcs s i = Admitted then
        Some (s\<lparr>pcs := (pcs s)(i := (if cb_state (brk s) = HALF_OPEN then Counting else Running))\<rparr>)
      else None)"
| "exec_move (M_Count i) s =
     (if pcs s i = Counting then
        Some (s\<lparr>brk := (brk s)\<lparr>half_open_calls := half_open_calls (brk s) + 1\<rparr>,
                pcs := (pcs s)(i := Running)\<rparr>)
      else None)"
| "exec_move (M_Success i) s =
     (if pcs s i = Running then Some (s\<lparr>brk := record_success (brk s), pcs := (pcs s)(i := Idle)\<rparr>)
      else None)"
| "exec_move (M_Failure i) s =
     (if pcs s i = Running
      then Some (s\<lparr>brk := record_failure (clock s) (brk s), pcs := (pcs s)(i := Idle)\<rparr>)
      else None)"
| "exec_move (M_Abort i) s =
     (if pcs s i = Running then Some (s\<lparr>pcs := (pcs s)(i := Idle)\<rparr>) else None)"

fun exec_moves :: "move list \<Rightarrow> breaker_sys \<Rightarrow> breaker_sys option" where
  "exec_moves [] s = Some s"
| "exec_moves (m # ms) s = (case exec_move m s of None \<Rightarrow> None | Some s' \<Rightarrow> exec_moves ms s')"

lemma exec_move_step: "exec_move m s = Some s' \<Longrightarrow> breaker_step s s'"
  by (cases m) (auto intro: breaker_step.intros split: if_splits prod.splits)

lemma exec_moves_reachable:
  "exec_moves ms s = Some s' \<Longrightarrow> breaker_reachable cfg s \<Longrightarrow> breaker_reachable cfg s'"
  by (induction ms arbitrary: s)
     (auto split: option.splits, metis breaker_reachable.step exec_move_step)

text \<open>Thread \<open>i\<close> makes one call in the \<open>CLOSED\<close> state, and it fails.\<close>

definition failing_call :: "nat \<Rightarrow> move list" where
  "failing_call i = [M_Check i, M_See i, M_Failure i]"

text \<open>Four threads pass the availability check before any of them counts its call.\<close>

definition overrun_schedule :: "move list" where
  "overrun_schedule = M_Tick 100 # concat (replicate 5 (failing_call 0)) @ [M_Tick 200] @
     map M_Check [0, 1, 2, 3] @ map M_See [0, 1, 2, 3] @ map M_Count [0, 1, 2, 3]"

section \<open>Properties\<close>

text \<open>
  Claim C1. In every state that any number of threads can reach together (calls, failures,
  aborted calls, status queries and manual resets in any order, at any clock readings),
  the breaker keeps its invariant: \<open>CLOSED\<close> has fewer than \<open>failure_threshold\<close> failures
  and the initial backoff, \<open>OPEN\<close> and \<open>HALF_OPEN\<close> have the backoff of the exponential
  sequence at the number of openings since the last recovery, \<open>HALF_OPEN\<close> has fewer than
  \<open>success_threshold\<close> successes; and with a sane backoff configuration the backoff stays
  between the initial and the maximal one.
\<close>

theorem breaker_reachable_safe:
  assumes "breaker_reachable cfg s" "config_ok cfg" "backoff_ok cfg"
  shows "breaker_inv cfg (brk s) \<and> initial_backoff cfg \<le> current_backoff (brk s) \<and>
    current_backoff (brk s) \<le> max_backoff cfg"
proof -
  have "breaker_inv cfg (brk s)" by (rule breaker_reachable_inv [OF assms(1,2)])
  moreover from this have "current_backoff (brk s) \<in> range (backoff_seq cfg)"
    by (auto simp: breaker_inv_def split: circuit_state.splits)
       (metis backoff_seq.simps(1) rangeI)
  ultimately show ?thesis using backoff_seq_bounds [OF assms(3)] by auto
qed

lemma kis_config_ok: "config_ok kis_config \<and> backoff_ok kis_config"
  using fl_of_int [of 5] fl_of_int [of 120]
  by (simp add: config_ok_def backoff_ok_def kis_config_def default_breaker_config_def)

theorem breaker_reachable_safe_witness:
  "breaker_inv kis_config (new_breaker ''KIS_API'' kis_config) \<and>
   initial_backoff kis_config \<le> current_backoff (new_breaker ''KIS_API'' kis_config)"
  using breaker_reachable_safe [OF breaker_reachable.start, of kis_config] kis_config_ok
  by (simp add: breaker_init_def)

text \<open>
  Fast failure: while the breaker is \<open>OPEN\<close> and less than the backoff has
  passed since the last failure, a protected call does not run the wrapped function
  (the world is unchanged), leaves the breaker as it is, and raises the circuit breaker
  error of an open circuit with the remaining time, never negative, to retry.
\<close>

theorem open_breaker_fails_fast:
  assumes "cb_state b = OPEN" "fsub t1 (last_failure_time b) < current_backoff b"
  shows "\<exists>d \<ge> 0. protect t1 t2 t3 f (b, w) = (Circuit_Breaker_Error OPEN d, b, w)"
proof -
  have "check_and_update_state t1 b = (False, b)"
    using assms by (simp add: check_and_update_state_def)
  from protect_rejected [OF this, of t2 t3 f w] assms(1) show ?thesis by auto
qed

definition opened_breaker :: breaker where
  "opened_breaker = (new_breaker ''KIS_API'' kis_config)\<lparr>cb_state := OPEN, failure_count := 5,
     open_count := 1, last_failure_time := 100\<rparr>"

theorem open_breaker_fails_fast_witness:
  "\<exists>d \<ge> 0. protect 102 102 102 (\<lambda>n. (Returned n, n + 1)) (opened_breaker, 7 :: int) =
     (Circuit_Breaker_Error OPEN d, opened_breaker, 7)"
  by (rule open_breaker_fails_fast) code_simp+

text \<open>
  Claim C2. Recovery: from an \<open>OPEN\<close> breaker whose backoff has elapsed, if the success
  threshold is positive and not above the number of test calls allowed, then
  \<open>success_threshold\<close> successful calls in a row are all let through and close the breaker
  with its failure count, opening count and backoff reset.
\<close>

theorem breaker_recovers:
  assumes "cb_state b = OPEN" "1 \<le> success_threshold (cb_config b)"
    and "success_threshold (cb_config b) \<le> half_open_max_calls (cb_config b)"
    and "int (length ts) = success_threshold (cb_config b)"
    and "current_backoff b \<le> fsub (hd ts) (last_failure_time b)"
  shows "\<exists>b'. run_calls (map (\<lambda>t. (t, Returned ())) ts) b = (replicate (length ts) (Value ()), b') \<and>
     cb_state b' = CLOSED \<and> failure_count b' = 0 \<and> open_count b' = 0 \<and>
     current_backoff b' = initial_backoff (cb_config b)"
proof -
  from assms(2,4) obtain t ts' where ts: "ts = t # ts'" by (cases ts) auto
  have "probing 0 (transition_to_half_open b)"
    by (simp add: probing_def transition_to_half_open_def)
  from probing_closes [OF this, of ts] assms ts
  show ?thesis
    using run_calls_elapsed [OF assms(1), of t "Returned ()" "map (\<lambda>t. (t, Returned ())) ts'"]
    by (simp add: transition_to_half_open_def del: run_calls.simps(2))
qed

theorem breaker_recovers_witness:
  "\<exists>b'. run_calls (map (\<lambda>t. (t, Returned ())) [200, 201, 202]) opened_breaker =
      (replicate 3 (Value ()), b') \<and> cb_state b' = CLOSED \<and> failure_count b' = 0 \<and>
      open_count b' = 0 \<and> current_backoff b' = initial_backoff (cb_config opened_breaker)"
proof -
  have h: "cb_state opened_breaker = OPEN" "1 \<le> success_threshold (cb_config opened_breaker)"
    "success_threshold (cb_config opened_breaker) \<le> half_open_max_calls (cb_config opened_breaker)"
    "int (length [200, 201, 202 :: rat]) = success_threshold (cb_config opened_breaker)"
    "current_backoff opened_breaker \<le> fsub (hd [200, 201, 202]) (last_failure_time opened_breaker)"
    by code_simp+
  have "length [200, 201, 202 :: rat] = 3" by simp
  with breaker_recovers [OF h] show ?thesis by metis
qed

text \<open>
  The test calls are a budget that is only refilled by a new opening: once a
  \<open>HALF_OPEN\<close> breaker has counted \<open>half_open_max_calls\<close> calls, every later protected call,
  at any time and whatever the wrapped function would do, is rejected and leaves the
  breaker unchanged, so only the manual reset (or a test call still running) ends the
  state. Three test calls left by a \<open>BaseException\<close> bring the configured breaker there.
\<close>

theorem half_open_budget_exhausted:
  "(cb_state b = HALF_OPEN \<longrightarrow> half_open_max_calls (cb_config b) \<le> half_open_calls b \<longrightarrow>
     snd (run_calls cs b) = b \<and>
     (\<forall>r \<in> set (fst (run_calls cs b)). \<exists>d. r = Circuit_Breaker_Error HALF_OPEN d)) \<and>
   (let b3 = snd (run_calls [(200, Aborted), (201, Aborted), (202, Aborted)] opened_breaker)
    in cb_state b3 = HALF_OPEN \<and> half_open_max_calls (cb_config b3) \<le> half_open_calls b3)"
proof -
  have "let b3 = snd (run_calls [(200, Aborted), (201, Aborted), (202, Aborted)] opened_breaker)
    in cb_state b3 = HALF_OPEN \<and> half_open_max_calls (cb_config b3) \<le> half_open_calls b3"
    by code_simp
  then show ?thesis using exhausted_rejects [of b cs] by blast
qed

theorem half_open_budget_exhausted_witness:
  "snd (run_calls [(10 ^ 9, Returned ())] (opened_breaker\<lparr>cb_state := HALF_OPEN, half_open_calls := 3\<rparr>)) =
     opened_breaker\<lparr>cb_state := HALF_OPEN, half_open_calls := 3\<rparr>"
proof -
  let ?b = "opened_breaker\<lparr>cb_state := HALF_OPEN, half_open_calls := 3\<rparr>"
  have "cb_state ?b = HALF_OPEN" "half_open_max_calls (cb_config ?b) \<le> half_open_calls ?b"
    by (simp_all add: opened_breaker_def new_breaker_def kis_config_def default_breaker_config_def)
  then show ?thesis using half_open_budget_exhausted [of ?b "[(10 ^ 9, Returned ())]"] by blast
qed


text \<open>
  The limit on test calls is not enforced between threads: the availability
  check and the counting of the call are two critical sections, so with the program's
  configuration a state is reachable in which four threads run the wrapped function in
  \<open>HALF_OPEN\<close> although \<open>half_open_max_calls\<close> is three.
\<close>

theorem half_open_limit_overrun:
  "\<exists>s. breaker_reachable kis_config s \<and> cb_state (brk s) = HALF_OPEN \<and>
     half_open_max_calls (cb_config (brk s)) = 3 \<and> half_open_calls (brk s) = 4 \<and>
     list_all (\<lambda>i. pcs s i = Running) [0, 1, 2, 3]"
proof -
  let ?r = "exec_moves overrun_schedule (breaker_init kis_config)"
  have run: "?r \<noteq> None" "cb_state (brk (the ?r)) = HALF_OPEN"
    "half_open_max_calls (cb_config (brk (the ?r))) = 3" "half_open_calls (brk (the ?r)) = 4"
    "list_all (\<lambda>i. pcs (the ?r) i = Running) [0, 1, 2, 3]"
    by code_simp+
  obtain s where s: "?r = Some s" using run(1) by blast
  have "breaker_reachable kis_config s"
    by (rule exec_moves_reachable [OF s breaker_reachable.start])
  then show ?thesis using run s by auto
qed

end
