(* ===== verification/Py_Text.thy ===== *)
theory Py_Text
  imports PyFloat
begin

text \<open>
  Texts and numbers in Python: \<open>str.lower\<close>, \<open>str.upper\<close>, \<open>in\<close>, \<open>str.strip\<close>, \<open>str(n)\<close> of an integer,
  \<open>int(text)\<close> and \<open>float(text)\<close>. Texts are ASCII; \<open>float\<close> accepts the decimal
  notations but not \<open>inf\<close> and \<open>nan\<close>, which are no values of the float model.
\<close>

section \<open>Case and space\<close>

definition to_lower_char :: "char \<Rightarrow> char" where
  "to_lower_char c = (if (65::nat) \<le> of_char c \<and> of_char c \<le> (90::nat)
     then char_of (of_char c + (32::nat)) else c)"

definition str_lower :: "string \<Rightarrow> string" where
  "str_lower s = map to_lower_char s"

definition to_upper_char :: "char \<Rightarrow> char" where
  "to_upper_char c = (if (97::nat) \<le> of_char c \<and> of_char c \<le> (122::nat)
     then char_of (of_char c - (32::nat)) else c)"

definition str_upper :: "string \<Rightarrow> string" where
  "str_upper s = map to_upper_char s"

text \<open>\<open>p in s\<close> for texts.\<close>

fun substr :: "string \<Rightarrow> string \<Rightarrow> bool" where
  "substr p [] = (p = [])"
| "substr p (c # cs) = (take (length p) (c # cs) = p \<or> substr p cs)"

definition is_space :: "char \<Rightarrow> bool" where
  "is_space c = ((of_char c :: nat) \<in> {9, 10, 11, 12, 13, 28, 29, 30, 31, 32})"

definition py_strip :: "string \<Rightarrow> string" where
  "py_strip s = rev (dropWhile is_space (rev (dropWhile is_space s)))"

section \<open>Integers\<close>

fun show_nat :: "nat \<Rightarrow> string" where
  "show_nat n = (if n < 10 then [char_of (n + 48)] else show_nat (n div 10) @ [char_of (n mod 10 + 48)])"

declare show_nat.simps [simp del]

definition py_str_int :: "int \<Rightarrow> string" where
  "py_str_int n = (if n < 0 then CHR ''-'' # show_nat (nat (- n)) else show_nat (nat n))"

text \<open>
  A group of digits: single underscores are allowed between digits and dropped. The flag
  says whether the character before was a digit.
\<close>

fun plain_digits :: "bool \<Rightarrow> string \<Rightarrow> string option" where
  "plain_digits p [] = (if p then Some [] else None)"
| "plain_digits p (c # cs) =
     (if c = CHR ''_'' then (if p then plain_digits False cs else None)
      else if digit_val c = None then None
      else map_option (Cons c) (plain_digits True cs))"

definition split_sign :: "string \<Rightarrow> bool \<times> string" where
  "split_sign s = (case s of [] \<Rightarrow> (False, [])
     | c # cs \<Rightarrow> if c = CHR ''-'' then (True, cs) else if c = CHR ''+'' then (False, cs)
                 else (False, s))"

definition parse_nat :: "string \<Rightarrow> int option" where
  "parse_nat s = Option.bind (plain_digits False s) (read_digits 0)"

definition parse_int :: "string \<Rightarrow> int res" where
  "parse_int s = (let (neg, ds) = split_sign (py_strip s)
     in case parse_nat ds of None \<Rightarrow> Inl ValueError | Some n \<Rightarrow> Inr (if neg then - n else n))"

section \<open>Floats\<close>

definition split_at :: "char \<Rightarrow> string \<Rightarrow> string \<times> string option" where
  "split_at c s = (let a = takeWhile (\<lambda>x. x \<noteq> c) s; r = dropWhile (\<lambda>x. x \<noteq> c) s
     in (a, case r of [] \<Rightarrow> None | _ # b \<Rightarrow> Some b))"

definition ten_pow :: "int \<Rightarrow> rat" where
  "ten_pow e = (if 0 \<le> e then 10 ^ nat e else 1 / 10 ^ nat (- e))"

definition opt_digits :: "string \<Rightarrow> string option" where
  "opt_digits s = (if s = [] then Some [] else plain_digits False s)"

definition parse_float :: "string \<Rightarrow> rat res" where
  "parse_float s =
     (let (neg, t) = split_sign (py_strip s);
          (m, ex) = split_at (CHR ''e'') (str_lower t);
          (a, fr) = split_at (CHR ''.'') m;
          b = (case fr of None \<Rightarrow> [] | Some b \<Rightarrow> b)
      in case (opt_digits a, opt_digits b,
               (case ex of None \<Rightarrow> Some 0
                | Some x \<Rightarrow> (let (n, ds) = split_sign x
                    in map_option (\<lambda>k. if n then - k else k) (parse_nat ds)))) of
           (Some da, Some db, Some e) \<Rightarrow>
             if da @ db = [] then Inl ValueError
             else (case read_digits 0 (da @ db) of
                None \<Rightarrow> Inl ValueError
              | Some n \<Rightarrow> Inr ((if neg then - 1 else 1) * fl (of_int n * ten_pow (e - int (length db)))))
         | _ \<Rightarrow> Inl ValueError)"

lemma parse_float_examples:
  "parse_float ''0.85'' = Inr (fl (85/100))" "parse_float '' -3 '' = Inr (- 3)"
  "parse_float ''1e3'' = Inr 1000" "parse_float ''.5'' = Inr (1/2)"
  "parse_float ''true'' = Inl ValueError" "parse_float ''.'' = Inl ValueError"
  by code_simp+

section \<open>Printing and reading integers\<close>

lemma digit_val_char: "n < 10 \<Longrightarrow> digit_val (char_of (n + 48)) = Some (int n)"
  by (simp add: digit_val_def)

lemma read_digits_append:
  "read_digits acc (xs @ ys) = (case read_digits acc xs of None \<Rightarrow> None | Some a \<Rightarrow> read_digits a ys)"
  by (induction acc xs rule: read_digits.induct) (auto split: option.splits)

lemma read_digits_show_nat: "read_digits 0 (show_nat n) = Some (int n)"
proof (induction n rule: show_nat.induct)
  case (1 n)
  show ?case
  proof (cases "n < 10")
    case True
    then show ?thesis using digit_val_char [of n] by (simp add: show_nat.simps [of n])
  next
    case False
    with 1 have "read_digits 0 (show_nat (n div 10)) = Some (int (n div 10))" by simp
    with False digit_val_char [of "n mod 10"] show ?thesis
      by (simp add: show_nat.simps [of n] read_digits_append flip: of_nat_mult of_nat_add)
         (metis div_mult_mod_eq mult.commute of_nat_add of_nat_mult of_nat_numeral)
  qed
qed

lemma show_nat_nonempty [simp]: "show_nat n \<noteq> []"
  by (subst show_nat.simps) simp

lemma show_nat_digits: "c \<in> set (show_nat n) \<Longrightarrow> digit_val c \<noteq> None"
proof (induction n rule: show_nat.induct)
  case (1 n)
  show ?case
    using 1 digit_val_char [of n] digit_val_char [of "n mod 10"]
    by (auto simp: show_nat.simps [of n] split: if_splits)
qed

lemma digit_not_special:
  "digit_val c \<noteq> None \<Longrightarrow> c \<noteq> CHR ''-'' \<and> c \<noteq> CHR ''+'' \<and> c \<noteq> CHR ''_'' \<and> \<not> is_space c"
  by (auto simp: digit_val_def is_space_def split: if_splits)

lemma plain_digits_id: "(\<forall>c \<in> set s. digit_val c \<noteq> None) \<Longrightarrow> p \<or> s \<noteq> [] \<Longrightarrow> plain_digits p s = Some s"
proof (induction s arbitrary: p)
  case (Cons c cs)
  then have "digit_val c \<noteq> None" by simp
  moreover from digit_not_special [OF this] have "c \<noteq> CHR ''_''" by simp
  moreover have "plain_digits True cs = Some cs" using Cons by simp
  ultimately show ?case by simp
qed simp

lemma strip_id: "(\<forall>c \<in> set s. \<not> is_space c) \<Longrightarrow> py_strip s = s"
proof -
  assume a: "\<forall>c \<in> set s. \<not> is_space c"
  have d: "dropWhile is_space t = t" if "\<forall>c \<in> set t. \<not> is_space c" for t
    using that by (cases t) auto
  show ?thesis using d [of s] d [of "rev s"] a by (simp add: py_strip_def)
qed

lemma parse_nat_show [simp]: "parse_nat (show_nat n) = Some (int n)"
  using show_nat_digits [of _ n] by (simp add: parse_nat_def plain_digits_id read_digits_show_nat)

lemma parse_int_str [simp]: "parse_int (py_str_int n) = Inr n"
proof (cases "n < 0")
  case True
  have "\<not> is_space CHR ''-''" by code_simp
  then have "py_strip (CHR ''-'' # show_nat (nat (- n))) = CHR ''-'' # show_nat (nat (- n))"
    using show_nat_digits digit_not_special by (intro strip_id) auto
  with True show ?thesis by (simp add: py_str_int_def parse_int_def split_sign_def)
next
  case False
  obtain c cs where s: "show_nat (nat n) = c # cs" by (cases "show_nat (nat n)") auto
  then have "c \<noteq> CHR ''-'' \<and> c \<noteq> CHR ''+''"
    using show_nat_digits [of c "nat n"] digit_not_special [of c] by simp
  moreover have "py_strip (show_nat (nat n)) = show_nat (nat n)"
    using show_nat_digits digit_not_special by (intro strip_id) blast
  ultimately show ?thesis
    using False s parse_nat_show [of "nat n"] by (simp add: py_str_int_def parse_int_def split_sign_def)
qed

lemma py_str_int_nonempty [simp]: "py_str_int n \<noteq> []"
  by (simp add: py_str_int_def)

end
