(* ===== verification/Redis_Iface.thy ===== *)
theory Redis_Iface
  imports Py_Text
begin

text \<open>
  The Redis server as the sources use it. Redis is not part of the repository: the
  commands are the fields of a record \<open>redis\<close> that every definition takes as its
  argument, acting on a state of an arbitrary type \<open>'s\<close>. A command answers
  \<open>Inl e\<close> where the client library raises, and may change the state in both cases.
  What the theorems rely on is the predicate \<open>redis_laws\<close>, the documented behaviour of
  \<open>GET\<close>, \<open>SET\<close>, \<open>SETEX\<close>, \<open>SET NX EX\<close>, \<open>DEL\<close>, \<open>EXISTS\<close> and \<open>TTL\<close> of a
  reachable server, over a view \<open>look\<close> of the live keys. \<open>map_redis\<close> is one instance,
  used by the witnesses only.
\<close>

section \<open>Commands\<close>

record 's redis =
  r_conn :: "'s \<Rightarrow> bool"
  r_get :: "string \<Rightarrow> 's \<Rightarrow> payload option res \<times> 's"
  r_set :: "string \<Rightarrow> payload \<Rightarrow> 's \<Rightarrow> unit res \<times> 's"
  r_setex :: "string \<Rightarrow> int \<Rightarrow> payload \<Rightarrow> 's \<Rightarrow> unit res \<times> 's"
  r_set_nx_ex :: "string \<Rightarrow> int \<Rightarrow> payload \<Rightarrow> 's \<Rightarrow> bool res \<times> 's"
  r_delete :: "string \<Rightarrow> 's \<Rightarrow> nat res \<times> 's"
  r_exists :: "string \<Rightarrow> 's \<Rightarrow> nat res \<times> 's"
  r_ttl :: "string \<Rightarrow> 's \<Rightarrow> int res \<times> 's"

text \<open>
  \<open>r_conn\<close> says whether \<open>get_redis_connection()\<close> finds a client. Sequencing of
  commands inside a \<open>try\<close> block, and the \<open>except Exception\<close> that ends it.
\<close>

definition cmd_bind :: "'a res \<times> 's \<Rightarrow> ('a \<Rightarrow> 's \<Rightarrow> 'b res \<times> 's) \<Rightarrow> 'b res \<times> 's" where
  "cmd_bind r k = (case r of (Inl e, s) \<Rightarrow> (Inl e, s) | (Inr x, s) \<Rightarrow> k x s)"

definition catching :: "'a \<Rightarrow> 'a res \<times> 's \<Rightarrow> 'a \<times> 's" where
  "catching d r = (case r of (Inl e, s) \<Rightarrow> (d, s) | (Inr x, s) \<Rightarrow> (x, s))"

definition with_redis :: "'s redis \<Rightarrow> 'a \<Rightarrow> ('s \<Rightarrow> 'a \<times> 's) \<Rightarrow> 's \<Rightarrow> 'a \<times> 's" where
  "with_redis R d f s = (if r_conn R s then f s else (d, s))"

lemma cmd_bind_simps [simp]:
  "cmd_bind (Inl e, s) k = (Inl e, s)"
  "cmd_bind (Inr x, s) k = k x s"
  by (simp_all add: cmd_bind_def)

lemma catching_simps [simp]:
  "catching d (Inl e, s) = (d, s)"
  "catching d (Inr x, s) = (x, s)"
  by (simp_all add: catching_def)

section \<open>The documented behaviour\<close>

definition redis_laws ::
  "'s redis \<Rightarrow> ('s \<Rightarrow> bool) \<Rightarrow> ('s \<Rightarrow> string \<Rightarrow> payload option) \<Rightarrow> bool" where
  "redis_laws R up look \<longleftrightarrow> (\<forall>s. up s \<longrightarrow>
     r_conn R s \<and>
     (\<forall>k. r_get R k s = (Inr (look s k), s)) \<and>
     (\<forall>k v. fst (r_set R k v s) = Inr () \<and> up (snd (r_set R k v s)) \<and>
        look (snd (r_set R k v s)) = (look s)(k \<mapsto> v)) \<and>
     (\<forall>k t v. 0 < t \<longrightarrow> fst (r_setex R k t v s) = Inr () \<and> up (snd (r_setex R k t v s)) \<and>
        look (snd (r_setex R k t v s)) = (look s)(k \<mapsto> v)) \<and>
     (\<forall>k t v. 0 < t \<longrightarrow> fst (r_set_nx_ex R k t v s) = Inr (look s k = None) \<and>
        up (snd (r_set_nx_ex R k t v s)) \<and>
        look (snd (r_set_nx_ex R k t v s)) =
          (if look s k = None then (look s)(k \<mapsto> v) else look s)) \<and>
     (\<forall>k. fst (r_delete R k s) = Inr (if look s k = None then 0 else 1) \<and>
        up (snd (r_delete R k s)) \<and> look (snd (r_delete R k s)) = (look s)(k := None)) \<and>
     (\<forall>k. r_exists R k s = (Inr (if look s k = None then 0 else 1), s)) \<and>
     (\<forall>k. look s k = None \<longrightarrow> r_ttl R k s = (Inr (- 2), s)))"

text \<open>The laws as rewrite rules; \<open>r_get R k s\<close> and its kin need \<open>up s\<close>.\<close>

lemma redis_conn: "redis_laws R up look \<Longrightarrow> up s \<Longrightarrow> r_conn R s"
  by (simp add: redis_laws_def)

lemma redis_get: "redis_laws R up look \<Longrightarrow> up s \<Longrightarrow> r_get R k s = (Inr (look s k), s)"
  by (simp add: redis_laws_def)

lemma redis_exists:
  "redis_laws R up look \<Longrightarrow> up s \<Longrightarrow> r_exists R k s = (Inr (if look s k = None then 0 else 1), s)"
  by (simp add: redis_laws_def)

text \<open>A write answers \<open>Inr\<close> in a reachable state with the new view.\<close>

lemma redis_set:
  assumes "redis_laws R up look" "up s"
  obtains s' where "r_set R k v s = (Inr (), s')" "up s'" "look s' = (look s)(k \<mapsto> v)"
proof (cases "r_set R k v s")
  case (Pair x y)
  have "fst (r_set R k v s) = Inr () \<and> up (snd (r_set R k v s)) \<and>
    look (snd (r_set R k v s)) = (look s)(k \<mapsto> v)"
    using assms by (simp add: redis_laws_def)
  with Pair that show ?thesis by simp
qed

lemma redis_setex:
  assumes "redis_laws R up look" "up s" "0 < t"
  obtains s' where "r_setex R k t v s = (Inr (), s')" "up s'" "look s' = (look s)(k \<mapsto> v)"
proof (cases "r_setex R k t v s")
  case (Pair x y)
  have "fst (r_setex R k t v s) = Inr () \<and> up (snd (r_setex R k t v s)) \<and>
    look (snd (r_setex R k t v s)) = (look s)(k \<mapsto> v)"
    using assms by (simp add: redis_laws_def)
  with Pair that show ?thesis by simp
qed

lemma redis_set_nx_ex:
  assumes "redis_laws R up look" "up s" "0 < t"
  obtains s' where "r_set_nx_ex R k t v s = (Inr (look s k = None), s')" "up s'"
    "look s' = (if look s k = None then (look s)(k \<mapsto> v) else look s)"
proof (cases "r_set_nx_ex R k t v s")
  case (Pair x y)
  have "fst (r_set_nx_ex R k t v s) = Inr (look s k = None) \<and> up (snd (r_set_nx_ex R k t v s)) \<and>
    look (snd (r_set_nx_ex R k t v s)) = (if look s k = None then (look s)(k \<mapsto> v) else look s)"
    using assms by (simp add: redis_laws_def)
  with Pair that show ?thesis by simp
qed

lemma redis_delete:
  assumes "redis_laws R up look" "up s"
  obtains s' where "r_delete R k s = (Inr (if look s k = None then 0 else 1), s')" "up s'"
    "look s' = (look s)(k := None)"
proof (cases "r_delete R k s")
  case (Pair x y)
  have "fst (r_delete R k s) = Inr (if look s k = None then 0 else 1) \<and> up (snd (r_delete R k s)) \<and>
    look (snd (r_delete R k s)) = (look s)(k := None)"
    using assms by (simp add: redis_laws_def)
  with Pair that show ?thesis by simp
qed

text \<open>
  The same facts in the form the simplifier uses on a sequence of commands: what follows a
  command runs on the state the command leaves, whose reachability and view are known.
\<close>

lemma redis_bind:
  assumes "redis_laws R up look" "up s"
  shows "cmd_bind (r_get R k s) f = f (look s k) s"
    "cmd_bind (r_set R k v s) g = g () (snd (r_set R k v s))"
    "0 < t \<Longrightarrow> cmd_bind (r_setex R k t v s) g = g () (snd (r_setex R k t v s))"
    "0 < t \<Longrightarrow> cmd_bind (r_set_nx_ex R k t v s) h = h (look s k = None) (snd (r_set_nx_ex R k t v s))"
    "cmd_bind (r_delete R k s) n = n (if look s k = None then 0 else 1) (snd (r_delete R k s))"
    "cmd_bind (r_exists R k s) n = n (if look s k = None then 0 else 1) s"
  using assms by (simp_all add: redis_laws_def cmd_bind_def case_prod_beta)

lemma redis_after:
  assumes "redis_laws R up look" "up s"
  shows "up (snd (r_set R k v s))" "look (snd (r_set R k v s)) = (look s)(k \<mapsto> v)"
    "0 < t \<Longrightarrow> up (snd (r_setex R k t v s))"
    "0 < t \<Longrightarrow> look (snd (r_setex R k t v s)) = (look s)(k \<mapsto> v)"
    "0 < t \<Longrightarrow> up (snd (r_set_nx_ex R k t v s))"
    "0 < t \<Longrightarrow> look (snd (r_set_nx_ex R k t v s)) =
       (if look s k = None then (look s)(k \<mapsto> v) else look s)"
    "up (snd (r_delete R k s))" "look (snd (r_delete R k s)) = (look s)(k := None)"
  using assms by (simp_all add: redis_laws_def)

lemma with_redis_up: "redis_laws R up look \<Longrightarrow> up s \<Longrightarrow> with_redis R d f s = f s"
  by (simp add: with_redis_def redis_conn)

lemmas redis_rules = redis_bind redis_after with_redis_up redis_get redis_exists redis_conn

section \<open>An instance\<close>

text \<open>
  Keys with a value and, where a TTL was given, the second it expires at; the server's
  clock; whether it can be reached.
\<close>

record map_store =
  cells :: "string \<Rightarrow> (payload \<times> int option) option"
  server_time :: int
  alive :: bool

definition ms_look :: "map_store \<Rightarrow> string \<Rightarrow> payload option" where
  "ms_look s k = (case cells s k of
     None \<Rightarrow> None
   | Some (v, None) \<Rightarrow> Some v
   | Some (v, Some t) \<Rightarrow> if server_time s < t then Some v else None)"

definition ms_put :: "string \<Rightarrow> payload \<Rightarrow> int option \<Rightarrow> map_store \<Rightarrow> map_store" where
  "ms_put k v t s = s\<lparr>cells := (cells s)(k \<mapsto> (v, t))\<rparr>"

definition ms_wait :: "int \<Rightarrow> map_store \<Rightarrow> map_store" where
  "ms_wait d s = s\<lparr>server_time := server_time s + d\<rparr>"

definition ms_empty :: map_store where
  "ms_empty = \<lparr>cells = (\<lambda>_. None), server_time = 0, alive = True\<rparr>"

definition ms_guard :: "map_store \<Rightarrow> 'a res \<times> map_store \<Rightarrow> 'a res \<times> map_store" where
  "ms_guard s r = (if alive s then r else (Inl (Redis_Error ''connection''), s))"

definition map_redis :: "map_store redis" where
  "map_redis = \<lparr>r_conn = alive,
     r_get = (\<lambda>k s. ms_guard s (Inr (ms_look s k), s)),
     r_set = (\<lambda>k v s. ms_guard s (Inr (), ms_put k v None s)),
     r_setex = (\<lambda>k t v s. ms_guard s
        (if 0 < t then (Inr (), ms_put k v (Some (server_time s + t)) s)
         else (Inl (Redis_Error ''invalid expire time''), s))),
     r_set_nx_ex = (\<lambda>k t v s. ms_guard s
        (if t \<le> 0 then (Inl (Redis_Error ''invalid expire time''), s)
         else if ms_look s k = None then (Inr True, ms_put k v (Some (server_time s + t)) s)
         else (Inr False, s))),
     r_delete = (\<lambda>k s. ms_guard s
        (Inr (if ms_look s k = None then 0 else 1), s\<lparr>cells := (cells s)(k := None)\<rparr>)),
     r_exists = (\<lambda>k s. ms_guard s (Inr (if ms_look s k = None then 0 else 1), s)),
     r_ttl = (\<lambda>k s. ms_guard s (Inr (case cells s k of
        None \<Rightarrow> - 2
      | Some (v, None) \<Rightarrow> - 1
      | Some (v, Some t) \<Rightarrow> if server_time s < t then t - server_time s else - 2), s))\<rparr>"

lemma map_redis_laws: "redis_laws map_redis alive ms_look"
  unfolding redis_laws_def map_redis_def
  by (auto simp: ms_guard_def ms_put_def ms_look_def fun_eq_iff split: option.splits prod.splits)

end
