(* ===== verification/Redis_Cache.thy ===== *)
theory Redis_Cache
  imports Redis_Iface
begin

text \<open>
  The shared trading state in Redis, \<open>shared/redis_cache.py\<close>: the trading control flags
  and the combined permission check, dynamic configuration values, the notification mute,
  price alerts, and the state kept per position (high watermark, profit floor, scale-out
  level, RSI sale, stop-loss cooldown). Every function takes the Redis interface, catches
  what a command or the decoding raises, and answers a default. \<open>stamp\<close> is the text of the
  current time, \<open>now\<close> the current Unix time in seconds.
\<close>

section \<open>Trading control flags\<close>

definition TRADING_PAUSE_KEY :: string where "TRADING_PAUSE_KEY = ''trading:pause''"
definition TRADING_STOP_KEY :: string where "TRADING_STOP_KEY = ''trading:stop''"
definition TRADING_DRYRUN_KEY :: string where "TRADING_DRYRUN_KEY = ''trading:dryrun''"
definition NOTIFICATION_MUTE_KEY :: string where "NOTIFICATION_MUTE_KEY = ''notification:mute''"

lemmas flag_keys = TRADING_PAUSE_KEY_def TRADING_STOP_KEY_def TRADING_DRYRUN_KEY_def

definition flag_key_map :: "string \<Rightarrow> string option" where
  "flag_key_map name = (if name = ''pause'' then Some TRADING_PAUSE_KEY
     else if name = ''stop'' then Some TRADING_STOP_KEY
     else if name = ''dryrun'' then Some TRADING_DRYRUN_KEY else None)"

definition set_trading_flag ::
  "'s redis \<Rightarrow> string \<Rightarrow> string \<Rightarrow> bool \<Rightarrow> string \<Rightarrow> int \<Rightarrow> 's \<Rightarrow> bool \<times> 's" where
  "set_trading_flag R stamp flag_name value reason ttl_seconds =
     with_redis R False (\<lambda>s. case flag_key_map (str_lower flag_name) of
       None \<Rightarrow> (False, s)
     | Some key \<Rightarrow> catching False
         (cmd_bind (r_setex R key ttl_seconds (Dumps (PDict
            [(''value'', PBool value), (''reason'', PStr reason), (''set_at'', PStr stamp)])) s)
          (\<lambda>_ s. (Inr True, s))))"

definition default_flag :: pyval where
  "default_flag = PDict [(''value'', PBool False), (''reason'', PStr []), (''set_at'', PNone)]"

definition get_trading_flag :: "'s redis \<Rightarrow> string \<Rightarrow> 's \<Rightarrow> pyval \<times> 's" where
  "get_trading_flag R flag_name =
     with_redis R default_flag (\<lambda>s. case flag_key_map (str_lower flag_name) of
       None \<Rightarrow> (default_flag, s)
     | Some key \<Rightarrow> catching default_flag
         (cmd_bind (r_get R key s) (\<lambda>data s. case data of
            None \<Rightarrow> (Inr default_flag, s)
          | Some d \<Rightarrow> if text_truthy d then (json_loads d, s) else (Inr default_flag, s))))"

text \<open>
  The callers apply \<open>.get\<close> to what was decoded, outside the \<open>try\<close> block: a stored
  value that is not a dictionary raises. The answer is the stored value itself, tested for
  truth by the caller.
\<close>

definition is_trading_paused :: "'s redis \<Rightarrow> 's \<Rightarrow> pyval res \<times> 's" where
  "is_trading_paused R s =
     (let (flag, s') = get_trading_flag R ''pause'' s in (py_get flag ''value'' (PBool False), s'))"

definition is_trading_stopped :: "'s redis \<Rightarrow> 's \<Rightarrow> pyval res \<times> 's" where
  "is_trading_stopped R s =
     (let (flag, s') = get_trading_flag R ''stop'' s in (py_get flag ''value'' (PBool False), s'))"

text \<open>\<open>env\<close> is \<open>os.getenv("DRY_RUN", "true")\<close>.\<close>

definition is_dryrun_enabled :: "'s redis \<Rightarrow> string \<Rightarrow> 's \<Rightarrow> pyval res \<times> 's" where
  "is_dryrun_enabled R env s =
     (let (flag, s') = get_trading_flag R ''dryrun'' s
      in (res_bind (py_get flag ''set_at'' PNone) (\<lambda>set_at.
            if truthy set_at then py_get flag ''value'' (PBool False)
            else Inr (PBool (str_lower env = ''true''))), s'))"

definition get_all_trading_flags :: "'s redis \<Rightarrow> 's \<Rightarrow> (string \<times> pyval) list \<times> 's" where
  "get_all_trading_flags R s =
     (let (p, s1) = get_trading_flag R ''pause'' s;
          (t, s2) = get_trading_flag R ''stop'' s1;
          (d, s3) = get_trading_flag R ''dryrun'' s2
      in ([(''pause'', p), (''stop'', t), (''dryrun'', d)], s3))"

text \<open>The combined check of both executors; an exception of the flag test propagates.\<close>

definition check_trading_allowed ::
  "'s redis \<Rightarrow> string \<Rightarrow> string \<Rightarrow> 's \<Rightarrow> (bool \<times> string) res \<times> 's" where
  "check_trading_allowed R operation source s =
     cmd_bind (is_trading_stopped R s) (\<lambda>stopped s.
       if truthy stopped \<and> \<not> (operation = ''SELL'' \<and> source = ''manual'')
       then (Inr (False, ''Emergency Stop Active''), s)
       else if operation = ''BUY'' then
         cmd_bind (is_trading_paused R s) (\<lambda>paused s.
           if truthy paused \<and> source \<noteq> ''manual''
           then (Inr (False, ''Trading Paused''), s)
           else (Inr (True, []), s))
       else (Inr (True, []), s))"

section \<open>Dynamic configuration values\<close>

definition config_key_map :: "string \<Rightarrow> string option" where
  "config_key_map name = (if name = ''min_llm_score'' then Some ''config:min_llm_score''
     else if name = ''max_buy_per_day'' then Some ''config:max_buy_per_day''
     else if name = ''risk_level'' then Some ''config:risk_level'' else None)"

definition set_config_value ::
  "'s redis \<Rightarrow> string \<Rightarrow> string \<Rightarrow> pyval \<Rightarrow> int \<Rightarrow> 's \<Rightarrow> bool \<times> 's" where
  "set_config_value R stamp config_name value ttl_seconds =
     with_redis R False (\<lambda>s. case config_key_map (str_lower config_name) of
       None \<Rightarrow> (False, s)
     | Some key \<Rightarrow> catching False
         (cmd_bind (r_setex R key ttl_seconds
            (Dumps (PDict [(''value'', value), (''set_at'', PStr stamp)])) s)
          (\<lambda>_ s. (Inr True, s))))"

definition get_config_value :: "'s redis \<Rightarrow> string \<Rightarrow> pyval \<Rightarrow> 's \<Rightarrow> pyval \<times> 's" where
  "get_config_value R config_name default_value =
     with_redis R default_value (\<lambda>s. case config_key_map (str_lower config_name) of
       None \<Rightarrow> (default_value, s)
     | Some key \<Rightarrow> catching default_value
         (cmd_bind (r_get R key s) (\<lambda>data s. case data of
            None \<Rightarrow> (Inr default_value, s)
          | Some d \<Rightarrow> if text_truthy d
              then (res_bind (json_loads d) (\<lambda>v. py_get v ''value'' default_value), s)
              else (Inr default_value, s))))"

section \<open>Notification mute\<close>

definition set_notification_mute :: "'s redis \<Rightarrow> int \<Rightarrow> string \<Rightarrow> int \<Rightarrow> 's \<Rightarrow> bool \<times> 's" where
  "set_notification_mute R now stamp until =
     with_redis R False (\<lambda>s. catching False
       (let ttl = max 0 (until - now)
        in cmd_bind (r_setex R NOTIFICATION_MUTE_KEY ttl
             (Dumps (PDict [(''until'', PInt until), (''set_at'', PStr stamp)])) s)
           (\<lambda>_ s. (Inr True, s))))"

definition is_notification_muted :: "'s redis \<Rightarrow> int \<Rightarrow> 's \<Rightarrow> bool \<times> 's" where
  "is_notification_muted R now =
     with_redis R False (\<lambda>s. catching False
       (cmd_bind (r_get R NOTIFICATION_MUTE_KEY s) (\<lambda>data s. case data of
          None \<Rightarrow> (Inr False, s)
        | Some d \<Rightarrow> if text_truthy d
            then (res_bind (json_loads d) (\<lambda>v. res_bind (py_get v ''until'' (PInt 0))
                   (\<lambda>u. res_bind (as_num u) (\<lambda>x. Inr (of_int now < x)))), s)
            else (Inr False, s))))"

definition clear_notification_mute :: "'s redis \<Rightarrow> 's \<Rightarrow> bool \<times> 's" where
  "clear_notification_mute R =
     with_redis R False (\<lambda>s. catching False
       (cmd_bind (r_delete R NOTIFICATION_MUTE_KEY s) (\<lambda>_ s. (Inr True, s))))"

section \<open>General data\<close>

definition set_redis_data :: "'s redis \<Rightarrow> string \<Rightarrow> pyval \<Rightarrow> int \<Rightarrow> 's \<Rightarrow> bool \<times> 's" where
  "set_redis_data R key data ttl =
     with_redis R False (\<lambda>s. catching False
       (cmd_bind (r_setex R key ttl (Dumps data) s) (\<lambda>_ s. (Inr True, s))))"

definition get_redis_data :: "'s redis \<Rightarrow> string \<Rightarrow> 's \<Rightarrow> pyval \<times> 's" where
  "get_redis_data R key =
     with_redis R (PDict []) (\<lambda>s. catching (PDict [])
       (cmd_bind (r_get R key s) (\<lambda>data s. case data of
          None \<Rightarrow> (Inr (PDict []), s)
        | Some d \<Rightarrow> if text_truthy d then (json_loads d, s) else (Inr (PDict []), s))))"

section \<open>Price alerts\<close>

definition PRICE_ALERT_PREFIX :: string where "PRICE_ALERT_PREFIX = ''price_alert:''"

definition set_price_alert ::
  "'s redis \<Rightarrow> string \<Rightarrow> string \<Rightarrow> rat \<Rightarrow> string \<Rightarrow> string \<Rightarrow> int \<Rightarrow> 's \<Rightarrow> bool \<times> 's" where
  "set_price_alert R stamp stock_code target_price stock_name alert_type ttl_seconds =
     with_redis R False (\<lambda>s. catching False
       (cmd_bind (r_setex R (PRICE_ALERT_PREFIX @ stock_code) ttl_seconds (Dumps (PDict
          [(''stock_code'', PStr stock_code), (''stock_name'', PStr stock_name),
           (''target_price'', PFloat target_price), (''alert_type'', PStr alert_type),
           (''created_at'', PStr stamp), (''triggered'', PBool False)])) s)
        (\<lambda>_ s. (Inr True, s))))"

definition delete_price_alert :: "'s redis \<Rightarrow> string \<Rightarrow> 's \<Rightarrow> bool \<times> 's" where
  "delete_price_alert R stock_code =
     with_redis R False (\<lambda>s. catching False
       (cmd_bind (r_delete R (PRICE_ALERT_PREFIX @ stock_code) s)
          (\<lambda>deleted s. (Inr (deleted \<noteq> 0), s))))"

section \<open>High watermark\<close>

definition HIGH_WATERMARK_PREFIX :: string where "HIGH_WATERMARK_PREFIX = ''high_watermark:''"
definition PROFIT_FLOOR_PREFIX :: string where "PROFIT_FLOOR_PREFIX = ''profit_floor:''"
definition SCALE_OUT_PREFIX :: string where "SCALE_OUT_PREFIX = ''scale_out:''"
definition RSI_SOLD_PREFIX :: string where "RSI_SOLD_PREFIX = ''rsi_sold:''"
definition STOPLOSS_COOLDOWN_PREFIX :: string where
  "STOPLOSS_COOLDOWN_PREFIX = ''stoploss_cooldown:''"

lemmas key_prefixes = HIGH_WATERMARK_PREFIX_def PROFIT_FLOOR_PREFIX_def SCALE_OUT_PREFIX_def
  RSI_SOLD_PREFIX_def STOPLOSS_COOLDOWN_PREFIX_def

text \<open>
  The answer of \<open>update_high_watermark\<close>, and the high price it writes to the
  \<open>portfolio\<close> table (\<open>None\<close>: no \<open>UPDATE\<close> is issued; a failing one is caught).
\<close>

record watermark =
  wm_high_price :: rat
  wm_buy_price :: rat
  wm_profit_from_high_pct :: rat
  wm_updated :: bool
  wm_db_write :: "rat option"

definition default_watermark :: "rat \<Rightarrow> rat \<Rightarrow> watermark" where
  "default_watermark current_price buy_price = \<lparr>wm_high_price = current_price,
     wm_buy_price = buy_price, wm_profit_from_high_pct = 0, wm_updated = False, wm_db_write = None\<rparr>"

text \<open>
  The high price before the current price is compared, and whether an update is forced:
  a first price, a changed buy price (a new position), or a stored high below the buy
  price.
\<close>

definition stored_high ::
  "payload option \<Rightarrow> rat \<Rightarrow> rat \<Rightarrow> (rat \<times> bool) res" where
  "stored_high existing current_price buy_price = (case existing of
     None \<Rightarrow> Inr (max buy_price current_price, True)
   | Some d \<Rightarrow>
       if \<not> text_truthy d then Inr (max buy_price current_price, True)
       else res_bind (json_loads d) (\<lambda>data.
         res_bind (res_bind (py_get data ''buy_price'' (PInt 0)) as_num) (\<lambda>old_buy_price.
           if \<bar>fsub old_buy_price buy_price\<bar> > 1 then Inr (max buy_price current_price, True)
           else res_bind (res_bind (py_get data ''high_price'' (PFloat buy_price)) as_num) (\<lambda>high.
             if high < buy_price then Inr (max buy_price current_price, True)
             else Inr (high, False)))))"

definition update_high_watermark ::
  "'s redis \<Rightarrow> string \<Rightarrow> string \<Rightarrow> rat \<Rightarrow> rat \<Rightarrow> 's \<Rightarrow> watermark \<times> 's" where
  "update_high_watermark R stamp stock_code current_price buy_price =
     with_redis R (default_watermark current_price buy_price) (\<lambda>s.
       catching (default_watermark current_price buy_price)
       (cmd_bind (r_get R (HIGH_WATERMARK_PREFIX @ stock_code) s) (\<lambda>existing s.
          case stored_high existing current_price buy_price of
            Inl e \<Rightarrow> (Inl e, s)
          | Inr (high0, force_update) \<Rightarrow>
              (let high_price = (if current_price > high0 then current_price else high0);
                   updated = (force_update \<or> current_price > high0);
                   pct = (if high_price > 0
                     then fmul (fdiv (fsub current_price high_price) high_price) 100 else 0)
               in cmd_bind (r_setex R (HIGH_WATERMARK_PREFIX @ stock_code) 2592000
                    (Dumps (PDict [(''high_price'', PFloat high_price),
                       (''buy_price'', PFloat buy_price), (''updated_at'', PStr stamp)])) s)
                  (\<lambda>_ s. (Inr \<lparr>wm_high_price = high_price, wm_buy_price = buy_price,
                     wm_profit_from_high_pct = py_round 2 pct, wm_updated = updated,
                     wm_db_write = (if updated then Some high_price else None)\<rparr>, s))))))"

definition get_high_watermark :: "'s redis \<Rightarrow> string \<Rightarrow> 's \<Rightarrow> pyval \<times> 's" where
  "get_high_watermark R stock_code =
     (let default_result = PDict [(''high_price'', PNone), (''buy_price'', PNone), (''updated_at'', PNone)]
      in with_redis R default_result (\<lambda>s. catching default_result
        (cmd_bind (r_get R (HIGH_WATERMARK_PREFIX @ stock_code) s) (\<lambda>data s. case data of
           None \<Rightarrow> (Inr default_result, s)
         | Some d \<Rightarrow> if text_truthy d then (json_loads d, s) else (Inr default_result, s)))))"

definition delete_key :: "'s redis \<Rightarrow> string \<Rightarrow> 's \<Rightarrow> bool \<times> 's" where
  "delete_key R key =
     with_redis R False (\<lambda>s. catching False (cmd_bind (r_delete R key s) (\<lambda>_ s. (Inr True, s))))"

definition delete_high_watermark :: "'s redis \<Rightarrow> string \<Rightarrow> 's \<Rightarrow> bool \<times> 's" where
  "delete_high_watermark R stock_code = delete_key R (HIGH_WATERMARK_PREFIX @ stock_code)"

section \<open>Profit floor\<close>

definition set_profit_floor :: "'s redis \<Rightarrow> string \<Rightarrow> string \<Rightarrow> rat \<Rightarrow> int \<Rightarrow> 's \<Rightarrow> bool \<times> 's" where
  "set_profit_floor R stamp stock_code floor_pct ttl =
     with_redis R False (\<lambda>s. catching False
       (cmd_bind (r_setex R (PROFIT_FLOOR_PREFIX @ stock_code) ttl
          (Dumps (PDict [(''floor_pct'', PFloat floor_pct), (''set_at'', PStr stamp)])) s)
        (\<lambda>_ s. (Inr True, s))))"

definition get_profit_floor :: "'s redis \<Rightarrow> string \<Rightarrow> 's \<Rightarrow> pyval \<times> 's" where
  "get_profit_floor R stock_code =
     with_redis R PNone (\<lambda>s. catching PNone
       (cmd_bind (r_get R (PROFIT_FLOOR_PREFIX @ stock_code) s) (\<lambda>data s. case data of
          None \<Rightarrow> (Inr PNone, s)
        | Some d \<Rightarrow> if text_truthy d
            then (res_bind (json_loads d) (\<lambda>v. py_get v ''floor_pct'' PNone), s)
            else (Inr PNone, s))))"

definition delete_profit_floor :: "'s redis \<Rightarrow> string \<Rightarrow> 's \<Rightarrow> bool \<times> 's" where
  "delete_profit_floor R stock_code = delete_key R (PROFIT_FLOOR_PREFIX @ stock_code)"

section \<open>Scale-out level\<close>

text \<open>
  The program stores levels 1 to 4 with \<open>str\<close> and reads them back with \<open>int\<close>.
\<close>

definition int_of_payload :: "payload \<Rightarrow> int res" where
  "int_of_payload p = (case p of Text s \<Rightarrow> parse_int s
     | Dumps (PInt n) \<Rightarrow> Inr n | Dumps _ \<Rightarrow> Inl ValueError)"

definition get_scale_out_level :: "'s redis \<Rightarrow> string \<Rightarrow> 's \<Rightarrow> int \<times> 's" where
  "get_scale_out_level R stock_code =
     with_redis R 0 (\<lambda>s. catching 0
       (cmd_bind (r_get R (SCALE_OUT_PREFIX @ stock_code) s) (\<lambda>level s. case level of
          None \<Rightarrow> (Inr 0, s)
        | Some p \<Rightarrow> if text_truthy p then (int_of_payload p, s) else (Inr 0, s))))"

definition set_scale_out_level :: "'s redis \<Rightarrow> string \<Rightarrow> int \<Rightarrow> 's \<Rightarrow> bool \<times> 's" where
  "set_scale_out_level R stock_code level =
     with_redis R False (\<lambda>s. catching False
       (cmd_bind (r_setex R (SCALE_OUT_PREFIX @ stock_code) 2592000 (Text (py_str_int level)) s)
        (\<lambda>_ s. (Inr True, s))))"

definition delete_scale_out_level :: "'s redis \<Rightarrow> string \<Rightarrow> 's \<Rightarrow> bool \<times> 's" where
  "delete_scale_out_level R stock_code = delete_key R (SCALE_OUT_PREFIX @ stock_code)"

section \<open>RSI sale\<close>

definition get_rsi_overbought_sold :: "'s redis \<Rightarrow> string \<Rightarrow> 's \<Rightarrow> bool \<times> 's" where
  "get_rsi_overbought_sold R stock_code =
     with_redis R False (\<lambda>s. catching False
       (cmd_bind (r_get R (RSI_SOLD_PREFIX @ stock_code) s) (\<lambda>val s. (Inr (val = Some (Text ''1'')), s))))"

definition set_rsi_overbought_sold :: "'s redis \<Rightarrow> string \<Rightarrow> bool \<Rightarrow> 's \<Rightarrow> bool \<times> 's" where
  "set_rsi_overbought_sold R stock_code is_sold =
     with_redis R False (\<lambda>s. catching False
       (if is_sold
        then cmd_bind (r_setex R (RSI_SOLD_PREFIX @ stock_code) 2592000 (Text ''1'') s) (\<lambda>_ s. (Inr True, s))
        else cmd_bind (r_delete R (RSI_SOLD_PREFIX @ stock_code) s) (\<lambda>_ s. (Inr True, s))))"

definition delete_rsi_overbought_sold :: "'s redis \<Rightarrow> string \<Rightarrow> 's \<Rightarrow> bool \<times> 's" where
  "delete_rsi_overbought_sold R stock_code = set_rsi_overbought_sold R stock_code False"

section \<open>New position\<close>

definition reset_trading_state_for_stock :: "'s redis \<Rightarrow> string \<Rightarrow> 's \<Rightarrow> bool \<times> 's" where
  "reset_trading_state_for_stock R stock_code s =
     (let (a, s1) = delete_high_watermark R stock_code s;
          (b, s2) = delete_scale_out_level R stock_code s1;
          (c, s3) = delete_profit_floor R stock_code s2;
          (d, s4) = delete_rsi_overbought_sold R stock_code s3
      in (a \<and> b \<and> c \<and> d, s4))"

section \<open>Stop-loss cooldown\<close>

text \<open>\<open>int(cooldown_days * 1.4 + 0.5)\<close>.\<close>

definition cooldown_calendar_days :: "int \<Rightarrow> int" where
  "cooldown_calendar_days d = py_int (fadd (fmul (of_py_int d) (fl (14/10))) (1/2))"

definition set_stoploss_cooldown :: "'s redis \<Rightarrow> string \<Rightarrow> string \<Rightarrow> int \<Rightarrow> 's \<Rightarrow> bool \<times> 's" where
  "set_stoploss_cooldown R stamp stock_code cooldown_days =
     with_redis R False (\<lambda>s.
       if cooldown_days \<le> 0 then (True, s)
       else (let calendar_days = cooldown_calendar_days cooldown_days;
                 ttl_seconds = calendar_days * 86400
             in catching False
               (cmd_bind (r_setex R (STOPLOSS_COOLDOWN_PREFIX @ stock_code) ttl_seconds
                  (Dumps (PDict [(''cooldown_days'', PInt cooldown_days),
                     (''calendar_days'', PInt calendar_days), (''set_at'', PStr stamp)])) s)
                (\<lambda>_ s. (Inr True, s)))))"

definition get_stoploss_cooldown :: "'s redis \<Rightarrow> string \<Rightarrow> 's \<Rightarrow> int option \<times> 's" where
  "get_stoploss_cooldown R stock_code =
     with_redis R None (\<lambda>s. catching None
       (cmd_bind (r_ttl R (STOPLOSS_COOLDOWN_PREFIX @ stock_code) s) (\<lambda>ttl s.
          if ttl > 0 then
            (let remaining_calendar = max 1 (ttl div 86400);
                 remaining_trading = max 1 (py_int (fadd (fdiv (of_py_int remaining_calendar) (fl (14/10))) (1/2)))
             in (Inr (Some remaining_trading), s))
          else (Inr None, s))))"

definition is_stoploss_blacklisted :: "'s redis \<Rightarrow> string \<Rightarrow> 's \<Rightarrow> bool \<times> 's" where
  "is_stoploss_blacklisted R stock_code =
     with_redis R False (\<lambda>s. catching False
       (cmd_bind (r_exists R (STOPLOSS_COOLDOWN_PREFIX @ stock_code) s) (\<lambda>n s. (Inr (n > 0), s))))"

section \<open>What the operations do to a reachable server\<close>

lemma key_neq [simp]:
  "HIGH_WATERMARK_PREFIX @ c \<noteq> SCALE_OUT_PREFIX @ d" "SCALE_OUT_PREFIX @ c \<noteq> HIGH_WATERMARK_PREFIX @ d"
  "HIGH_WATERMARK_PREFIX @ c \<noteq> PROFIT_FLOOR_PREFIX @ d" "PROFIT_FLOOR_PREFIX @ c \<noteq> HIGH_WATERMARK_PREFIX @ d"
  "HIGH_WATERMARK_PREFIX @ c \<noteq> RSI_SOLD_PREFIX @ d" "RSI_SOLD_PREFIX @ c \<noteq> HIGH_WATERMARK_PREFIX @ d"
  "SCALE_OUT_PREFIX @ c \<noteq> PROFIT_FLOOR_PREFIX @ d" "PROFIT_FLOOR_PREFIX @ c \<noteq> SCALE_OUT_PREFIX @ d"
  "SCALE_OUT_PREFIX @ c \<noteq> RSI_SOLD_PREFIX @ d" "RSI_SOLD_PREFIX @ c \<noteq> SCALE_OUT_PREFIX @ d"
  "PROFIT_FLOOR_PREFIX @ c \<noteq> RSI_SOLD_PREFIX @ d" "RSI_SOLD_PREFIX @ c \<noteq> PROFIT_FLOOR_PREFIX @ d"
  by (simp_all add: key_prefixes)

lemma delete_key_up:
  assumes "redis_laws R up look" "up s"
  shows "fst (delete_key R k s)" "up (snd (delete_key R k s))"
    "look (snd (delete_key R k s)) = (look s)(k := None)"
  by (simp_all add: delete_key_def redis_rules [OF assms])

lemma scale_out_set_up:
  assumes "redis_laws R up look" "up s"
  shows "fst (set_scale_out_level R c n s)" "up (snd (set_scale_out_level R c n s))"
    "look (snd (set_scale_out_level R c n s)) = (look s)(SCALE_OUT_PREFIX @ c \<mapsto> Text (py_str_int n))"
  by (simp_all add: set_scale_out_level_def redis_rules [OF assms])

lemma get_scale_out_up:
  assumes "redis_laws R up look" "up s"
  shows "get_scale_out_level R c s = (case look s (SCALE_OUT_PREFIX @ c) of None \<Rightarrow> 0
     | Some p \<Rightarrow> (case (if text_truthy p then int_of_payload p else Inr 0) of Inl _ \<Rightarrow> 0 | Inr n \<Rightarrow> n), s)"
  by (auto simp: get_scale_out_level_def redis_rules [OF assms] split: option.splits sum.splits)

lemma reset_trading_state_up:
  assumes L: "redis_laws R up look" and U: "up s"
  shows "fst (reset_trading_state_for_stock R c s)" "up (snd (reset_trading_state_for_stock R c s))"
    "look (snd (reset_trading_state_for_stock R c s)) = (look s)(HIGH_WATERMARK_PREFIX @ c := None,
       SCALE_OUT_PREFIX @ c := None, PROFIT_FLOOR_PREFIX @ c := None, RSI_SOLD_PREFIX @ c := None)"
  using U
  by (simp_all add: reset_trading_state_for_stock_def delete_high_watermark_def delete_scale_out_level_def
      delete_profit_floor_def delete_rsi_overbought_sold_def set_rsi_overbought_sold_def case_prod_beta
      delete_key_up [OF L] redis_rules [OF L] del: fun_upd_apply)

section \<open>The running maximum\<close>

definition watermark_cell :: "string \<Rightarrow> rat \<Rightarrow> rat \<Rightarrow> payload" where
  "watermark_cell stamp high bp = Dumps (PDict [(''high_price'', PFloat high),
     (''buy_price'', PFloat bp), (''updated_at'', PStr stamp)])"

lemma stored_high_None: "stored_high None cp bp = Inr (max bp cp, True)"
  by (simp add: stored_high_def)

lemma stored_high_cell:
  "bp \<le> h \<Longrightarrow> stored_high (Some (watermark_cell stamp h bp)) cp bp = Inr (h, False)"
  by (simp add: stored_high_def watermark_cell_def)

lemma update_watermark_up:
  assumes L: "redis_laws R up look" and U: "up s"
    and sh: "stored_high (look s (HIGH_WATERMARK_PREFIX @ c)) cp bp = Inr (h, f)"
  shows "wm_high_price (fst (update_high_watermark R stamp c cp bp s)) = max cp h"
    "wm_db_write (fst (update_high_watermark R stamp c cp bp s)) =
       (if f \<or> h < cp then Some (max cp h) else None)"
    "up (snd (update_high_watermark R stamp c cp bp s))"
    "look (snd (update_high_watermark R stamp c cp bp s)) =
       (look s)(HIGH_WATERMARK_PREFIX @ c \<mapsto> watermark_cell stamp (max cp h) bp)"
  by (auto simp: update_high_watermark_def redis_rules [OF L U] sh Let_def watermark_cell_def max_def
      simp del: fun_upd_apply)

text \<open>The price updates of one position, in the order the ticks arrive.\<close>

fun feed_prices :: "'s redis \<Rightarrow> string \<Rightarrow> string \<Rightarrow> rat \<Rightarrow> rat list \<Rightarrow> 's \<Rightarrow> 's" where
  "feed_prices R stamp c bp [] s = s"
| "feed_prices R stamp c bp (p # ps) s =
     feed_prices R stamp c bp ps (snd (update_high_watermark R stamp c p bp s))"

lemma feed_prices_from_cell:
  assumes L: "redis_laws R up look"
  shows "up s \<Longrightarrow> bp \<le> h \<Longrightarrow> look s (HIGH_WATERMARK_PREFIX @ c) = Some (watermark_cell stamp h bp) \<Longrightarrow>
    up (feed_prices R stamp c bp ps s) \<and>
    look (feed_prices R stamp c bp ps s) =
      (look s)(HIGH_WATERMARK_PREFIX @ c \<mapsto> watermark_cell stamp (Max (insert h (set ps))) bp)"
proof (induction ps arbitrary: s h)
  case Nil
  then show ?case by (auto simp: fun_eq_iff)
next
  case (Cons p ps)
  note sh = stored_high_cell [OF Cons.prems(2), of stamp p]
  let ?s = "snd (update_high_watermark R stamp c p bp s)"
  have s': "up ?s" "look ?s = (look s)(HIGH_WATERMARK_PREFIX @ c \<mapsto> watermark_cell stamp (max p h) bp)"
    using update_watermark_up [OF L Cons.prems(1), of c p bp h False stamp] sh Cons.prems(3)
    by simp_all
  have "bp \<le> max p h" using Cons.prems(2) by simp
  have lk: "look ?s (HIGH_WATERMARK_PREFIX @ c) = Some (watermark_cell stamp (max p h) bp)"
    by (simp add: s'(2))
  have "up (feed_prices R stamp c bp ps ?s) \<and> look (feed_prices R stamp c bp ps ?s) =
      (look s)(HIGH_WATERMARK_PREFIX @ c \<mapsto> watermark_cell stamp (Max (insert (max p h) (set ps))) bp)"
    using Cons.IH [OF s'(1) \<open>bp \<le> max p h\<close> lk] by (simp only: s'(2) fun_upd_upd)
  moreover have "Max (insert (max p h) (set ps)) = Max (insert h (set (p # ps)))"
    by (cases "ps = []") (simp_all add: Max_insert max.assoc max.left_commute max.commute)
  ultimately show ?case by simp
qed

lemma feed_prices_from_empty:
  assumes "redis_laws R up look" "up s" "look s (HIGH_WATERMARK_PREFIX @ c) = None" "ps \<noteq> []"
  shows "up (feed_prices R stamp c bp ps s) \<and>
    look (feed_prices R stamp c bp ps s) =
      (look s)(HIGH_WATERMARK_PREFIX @ c \<mapsto> watermark_cell stamp (Max (insert bp (set ps))) bp)"
proof -
  obtain p qs where ps: "ps = p # qs" using assms(4) by (cases ps) auto
  let ?s = "snd (update_high_watermark R stamp c p bp s)"
  have s': "up ?s" "look ?s = (look s)(HIGH_WATERMARK_PREFIX @ c \<mapsto> watermark_cell stamp (max bp p) bp)"
    using update_watermark_up [OF assms(1,2), of c p bp "max bp p" True stamp] assms(3)
    by (simp_all add: stored_high_None max.commute)
  have "bp \<le> max bp p" by simp
  have lk: "look ?s (HIGH_WATERMARK_PREFIX @ c) = Some (watermark_cell stamp (max bp p) bp)"
    by (simp add: s'(2))
  have "up (feed_prices R stamp c bp qs ?s) \<and> look (feed_prices R stamp c bp qs ?s) =
      (look s)(HIGH_WATERMARK_PREFIX @ c \<mapsto> watermark_cell stamp (Max (insert (max bp p) (set qs))) bp)"
    using feed_prices_from_cell [OF assms(1) s'(1) \<open>bp \<le> max bp p\<close> lk] by (simp only: s'(2) fun_upd_upd)
  moreover have "Max (insert (max bp p) (set qs)) = Max (insert bp (set ps))"
    by (cases "qs = []") (simp_all add: ps Max_insert max.assoc)
  ultimately show ?thesis by (simp add: ps)
qed

section \<open>Properties\<close>

text \<open>
  Claim C3. The high watermark of a position is the running maximum: on a reachable server
  with no watermark for the stock, after the prices of a non-empty sequence have been
  processed the stored high is the largest of the buy price and all of them, stored with
  the buy price, and no other key has changed.
\<close>

theorem watermark_is_running_maximum:
  assumes "redis_laws R up look" "up s" "look s (HIGH_WATERMARK_PREFIX @ c) = None" "ps \<noteq> []"
  shows "up (feed_prices R stamp c bp ps s) \<and>
    look (feed_prices R stamp c bp ps s) =
      (look s)(HIGH_WATERMARK_PREFIX @ c \<mapsto> watermark_cell stamp (Max (insert bp (set ps))) bp)"
  using assms by (rule feed_prices_from_empty)

theorem watermark_is_running_maximum_witness:
  "ms_look (feed_prices map_redis ''t'' ''005930'' 70000 [70500, 72000, 71000] ms_empty)
     (HIGH_WATERMARK_PREFIX @ ''005930'') = Some (watermark_cell ''t'' 72000 70000)"
proof -
  have "alive ms_empty" "ms_look ms_empty (HIGH_WATERMARK_PREFIX @ ''005930'') = None"
    by (simp_all add: ms_empty_def ms_look_def)
  from watermark_is_running_maximum [OF map_redis_laws, OF this, of "[70500, 72000, 71000]" "''t''" 70000]
  have "ms_look (feed_prices map_redis ''t'' ''005930'' 70000 [70500, 72000, 71000] ms_empty)
     (HIGH_WATERMARK_PREFIX @ ''005930'') = Some (watermark_cell ''t'' (Max (insert 70000 (set [70500, 72000, 71000]))) 70000)"
    by (simp only: fun_upd_same list.distinct not_False_eq_True True_implies_equals)
  moreover have "Max (insert 70000 (set [70500, 72000, 71000])) = (72000 :: rat)" by simp
  ultimately show ?thesis by (simp only:)
qed

text \<open>
  A stored scale-out level is read back: on a reachable server, reading the level
  after setting it gives the level that was set, whatever integer it was, through the
  decimal text that Redis holds.
\<close>

theorem scale_out_level_roundtrip:
  assumes "redis_laws R up look" "up s"
  shows "fst (get_scale_out_level R c (snd (set_scale_out_level R c n s))) = n"
  using scale_out_set_up [OF assms, of c n]
  by (simp add: get_scale_out_up [OF assms(1)] int_of_payload_def text_truthy_def)

theorem scale_out_level_roundtrip_witness:
  "fst (get_scale_out_level map_redis ''005930''
     (snd (set_scale_out_level map_redis ''005930'' 3 ms_empty))) = 3"
  by (rule scale_out_level_roundtrip [OF map_redis_laws]) (simp add: ms_empty_def)

text \<open>
  A new position starts clean: after \<open>reset_trading_state_for_stock\<close> on a
  reachable server, which reports success, the scale-out level reads zero, the RSI sale
  reads false, the profit floor and the watermark are absent, and every key of another
  stock and every stop-loss cooldown is untouched.
\<close>

theorem reset_clears_position_state:
  assumes "redis_laws R up look" "up s"
  shows "fst (reset_trading_state_for_stock R c s) \<and>
    (let s' = snd (reset_trading_state_for_stock R c s) in
       fst (get_scale_out_level R c s') = 0 \<and> \<not> fst (get_rsi_overbought_sold R c s') \<and>
       fst (get_profit_floor R c s') = PNone \<and>
       fst (get_high_watermark R c s') =
         PDict [(''high_price'', PNone), (''buy_price'', PNone), (''updated_at'', PNone)] \<and>
       (\<forall>k. k \<notin> {HIGH_WATERMARK_PREFIX @ c, SCALE_OUT_PREFIX @ c, PROFIT_FLOOR_PREFIX @ c,
                    RSI_SOLD_PREFIX @ c} \<longrightarrow> look s' k = look s k))"
proof -
  let ?s = "snd (reset_trading_state_for_stock R c s)"
  have u: "up ?s" by (rule reset_trading_state_up [OF assms])
  show ?thesis
    unfolding Let_def get_high_watermark_def
    by (simp add: reset_trading_state_up [OF assms] get_scale_out_up [OF assms(1) u]
        get_rsi_overbought_sold_def get_profit_floor_def
        redis_rules [OF assms(1) u])
qed

theorem reset_clears_position_state_witness:
  "let s = snd (set_scale_out_level map_redis ''005930'' 2 ms_empty);
       s' = snd (reset_trading_state_for_stock map_redis ''005930'' s)
   in fst (get_scale_out_level map_redis ''005930'' s) = 2 \<and>
      fst (get_scale_out_level map_redis ''005930'' s') = 0"
proof -
  have e: "alive ms_empty" by (simp add: ms_empty_def)
  then have u: "alive (snd (set_scale_out_level map_redis ''005930'' 2 ms_empty))"
    by (rule scale_out_set_up [OF map_redis_laws])
  have two: "fst (get_scale_out_level map_redis ''005930''
      (snd (set_scale_out_level map_redis ''005930'' 2 ms_empty))) = 2"
    using scale_out_set_up [OF map_redis_laws, OF e, of "''005930''" 2]
    by (simp add: get_scale_out_up [OF map_redis_laws] int_of_payload_def text_truthy_def)
  show ?thesis
    using reset_clears_position_state [OF map_redis_laws, OF u, of "''005930''"] two
    unfolding Let_def by blast
qed

lemma set_flag_up:
  assumes "redis_laws R up look" "up s" "flag_key_map (str_lower f) = Some k" "0 < t"
  shows "fst (set_trading_flag R stamp f v why t s)" "up (snd (set_trading_flag R stamp f v why t s))"
    "look (snd (set_trading_flag R stamp f v why t s)) = (look s)(k \<mapsto> Dumps (PDict
       [(''value'', PBool v), (''reason'', PStr why), (''set_at'', PStr stamp)]))"
  using assms(3,4) by (simp_all add: set_trading_flag_def redis_rules [OF assms(1,2)])

lemma get_flag_up:
  assumes "redis_laws R up look" "up s" "flag_key_map (str_lower f) = Some k"
  shows "get_trading_flag R f s = (case look s k of None \<Rightarrow> default_flag
     | Some d \<Rightarrow> (case (if text_truthy d then json_loads d else Inr default_flag) of
         Inl _ \<Rightarrow> default_flag | Inr v \<Rightarrow> v), s)"
  using assms(3)
  by (auto simp: get_trading_flag_def redis_rules [OF assms(1,2)] split: option.splits sum.splits)

lemma flag_names [simp]:
  "flag_key_map (str_lower ''pause'') = Some TRADING_PAUSE_KEY"
  "flag_key_map (str_lower ''stop'') = Some TRADING_STOP_KEY"
  "flag_key_map (str_lower ''dryrun'') = Some TRADING_DRYRUN_KEY"
  by code_simp+

text \<open>
  The permission check obeys the flags: after the stop flag was set to \<open>a\<close> and the
  pause flag to \<open>b\<close> on a reachable server, an emergency stop forbids everything but a
  manual sale, a pause forbids exactly the purchases that are not manual, and everything
  else is allowed.
\<close>

theorem trading_permission_table:
  assumes "redis_laws R up look" "up s"
  shows "let s1 = snd (set_trading_flag R st ''stop'' a r1 86400 s);
             s2 = snd (set_trading_flag R st ''pause'' b r2 86400 s1)
    in fst (check_trading_allowed R op src s2) =
       Inr (if a \<and> \<not> (op = ''SELL'' \<and> src = ''manual'') then (False, ''Emergency Stop Active'')
            else if op = ''BUY'' \<and> b \<and> src \<noteq> ''manual'' then (False, ''Trading Paused'')
            else (True, []))"
proof -
  define s1 where "s1 = snd (set_trading_flag R st ''stop'' a r1 86400 s)"
  define s2 where "s2 = snd (set_trading_flag R st ''pause'' b r2 86400 s1)"
  have u1: "up s1" and l1: "look s1 TRADING_STOP_KEY = Some (Dumps (PDict
       [(''value'', PBool a), (''reason'', PStr r1), (''set_at'', PStr st)]))"
    unfolding s1_def by (simp_all add: set_flag_up [OF assms])
  have u2: "up s2" and l2: "look s2 TRADING_PAUSE_KEY = Some (Dumps (PDict
       [(''value'', PBool b), (''reason'', PStr r2), (''set_at'', PStr st)]))"
    unfolding s2_def by (simp_all add: set_flag_up [OF assms(1) u1])
  have l3: "look s2 TRADING_STOP_KEY = look s1 TRADING_STOP_KEY"
    unfolding s2_def by (simp add: set_flag_up [OF assms(1) u1]) (simp add: flag_keys)
  have "is_trading_stopped R s2 = (Inr (PBool a), s2)"
    unfolding is_trading_stopped_def get_flag_up [OF assms(1) u2 flag_names(2)] l3 l1 by simp
  moreover have "is_trading_paused R s2 = (Inr (PBool b), s2)"
    unfolding is_trading_paused_def get_flag_up [OF assms(1) u2 flag_names(1)] l2 by simp
  ultimately have "fst (check_trading_allowed R op src s2) =
       Inr (if a \<and> \<not> (op = ''SELL'' \<and> src = ''manual'') then (False, ''Emergency Stop Active'')
            else if op = ''BUY'' \<and> b \<and> src \<noteq> ''manual'' then (False, ''Trading Paused'')
            else (True, []))"
    by (simp add: check_trading_allowed_def)
  then show ?thesis by (simp add: Let_def s2_def s1_def)
qed

theorem trading_permission_table_witness:
  "let s1 = snd (set_trading_flag map_redis ''t'' ''stop'' False [] 86400 ms_empty);
       s2 = snd (set_trading_flag map_redis ''t'' ''pause'' True ''op'' 86400 s1)
   in fst (check_trading_allowed map_redis ''BUY'' ''auto'' s2) = Inr (False, ''Trading Paused'')"
proof -
  have "alive ms_empty" by (simp add: ms_empty_def)
  from trading_permission_table [OF map_redis_laws, OF this, of "''t''" False "[]" True "''op''" "''BUY''" "''auto''"]
  show ?thesis by simp
qed

lemma cooldown_calendar_bounds:
  assumes "1 \<le> d" "d \<le> 2 ^ 50"
  shows "d \<le> cooldown_calendar_days d \<and> cooldown_calendar_days d \<le> 2 * d"
proof -
  have d: "of_py_int d = of_int d" using assms by (intro of_py_int_small) simp
  have r0: "(0::rat) < of_int d" using assms by simp
  have c: "1 \<le> fl (14/10)" "fl (14/10) \<le> 3/2" by code_simp+
  let ?p = "fmul (of_int d) (fl (14/10))"
  have fd: "fl (of_int d) = of_int d" using assms by (intro fl_of_int) simp
  have lo: "of_int d \<le> ?p"
    unfolding fmul_def using c r0 by (intro fl_ge_float [OF fd]) simp
  have "fl (of_int (3 * d) * two_pow (- 1)) = of_int (3 * d) * two_pow (- 1)"
    using assms by (intro fl_representable) auto
  then have f3: "fl (of_int d * (3/2)) = of_int d * (3/2)"
    by (simp add: two_pow_def mult.commute)
  have hi: "?p \<le> of_int d * (3/2)"
    unfolding fmul_def using c r0 by (intro fl_le_float [OF f3] mult_left_mono) auto
  have "of_int d \<le> fadd ?p (1/2)"
    unfolding fadd_def using lo by (intro fl_ge_float [OF fd]) simp
  then have "py_int (of_int d) \<le> cooldown_calendar_days d"
    unfolding cooldown_calendar_days_def d by (rule py_int_mono)
  moreover have "fl (of_int (2 * d)) = of_int (2 * d)" using assms by (intro fl_of_int) simp
  then have f2: "fl (of_int d * 2) = of_int d * 2" by (simp add: mult.commute)
  have "fadd ?p (1/2) \<le> of_int d * 2"
  proof -
    have "(1::rat) \<le> of_int d" using assms by simp
    then show ?thesis unfolding fadd_def using hi by (intro fl_le_float [OF f2]) linarith
  qed
  then have "cooldown_calendar_days d \<le> py_int (of_int (2 * d))"
    unfolding cooldown_calendar_days_def d by (intro py_int_mono) (simp add: mult.commute)
  ultimately show ?thesis by (simp only: py_int_of_int simp_thms)
qed

text \<open>
  A stop-loss cooldown blocks the stock: setting a positive number of trading days
  on a reachable server blacklists the stock, for a number of calendar days that lies
  between the trading days and twice their number in spite of floating point rounding.
\<close>

theorem cooldown_blacklists:
  assumes "redis_laws R up look" "up s" "1 \<le> d" "d \<le> 2 ^ 50"
  shows "fst (set_stoploss_cooldown R stamp c d s) \<and>
    fst (is_stoploss_blacklisted R c (snd (set_stoploss_cooldown R stamp c d s))) \<and>
    d \<le> cooldown_calendar_days d \<and> cooldown_calendar_days d \<le> 2 * d"
proof -
  have b: "d \<le> cooldown_calendar_days d" "cooldown_calendar_days d \<le> 2 * d"
    using cooldown_calendar_bounds [OF assms(3,4)] by auto
  then have t: "0 < cooldown_calendar_days d * 86400" using assms(3) by simp
  let ?s = "snd (set_stoploss_cooldown R stamp c d s)"
  have s: "fst (set_stoploss_cooldown R stamp c d s)" "up ?s"
    "look ?s (STOPLOSS_COOLDOWN_PREFIX @ c) \<noteq> None"
    using assms(3) t by (simp_all add: set_stoploss_cooldown_def redis_rules [OF assms(1,2)] Let_def)
  then show ?thesis using b
    by (simp add: is_stoploss_blacklisted_def redis_rules [OF assms(1) s(2)])
qed

theorem cooldown_blacklists_witness:
  "fst (is_stoploss_blacklisted map_redis ''005930''
      (snd (set_stoploss_cooldown map_redis ''t'' ''005930'' 5 ms_empty))) \<and>
   cooldown_calendar_days 5 = 7 \<and> cooldown_calendar_days 3 = 4 \<and> cooldown_calendar_days 10 = 14"
proof -
  have "alive ms_empty" by (simp add: ms_empty_def)
  from cooldown_blacklists [OF map_redis_laws, OF this, of 5 "''t''" "''005930''"]
  have "fst (is_stoploss_blacklisted map_redis ''005930''
      (snd (set_stoploss_cooldown map_redis ''t'' ''005930'' 5 ms_empty)))" by simp
  moreover have "cooldown_calendar_days 5 = 7 \<and> cooldown_calendar_days 3 = 4 \<and> cooldown_calendar_days 10 = 14"
    by code_simp
  ultimately show ?thesis by blast
qed

end
