(* ===== verification/Redis_Lock.thy ===== *)
theory Redis_Lock
  imports Redis_Iface
begin

text \<open>
  The distributed lock, \<open>shared/redis_lock.py\<close>: the context manager
  \<open>DistributedLock\<close>, the generator \<open>distributed_lock\<close>, and the plain
  \<open>acquire_lock\<close> and \<open>release_lock\<close>. A system of clients of one key runs the enter
  and exit operations in any order, with the passage of time on the server between them.
\<close>

section \<open>The lock object\<close>

record lock =
  lk_key :: string
  lk_ttl :: int
  lk_acquired :: bool

definition new_lock :: "string \<Rightarrow> int \<Rightarrow> lock" where
  "new_lock key ttl = \<lparr>lk_key = key, lk_ttl = ttl, lk_acquired = False\<rparr>"

definition lock_enter :: "'s redis \<Rightarrow> lock \<Rightarrow> 's \<Rightarrow> (bool \<times> lock) \<times> 's" where
  "lock_enter R lk s =
     (if \<not> r_conn R s then ((True, lk), s)
      else case r_set_nx_ex R (lk_key lk) (lk_ttl lk) (Text ''LOCKED'') s of
        (Inl e, s') \<Rightarrow> ((False, lk), s')
      | (Inr ok, s') \<Rightarrow> ((ok, lk\<lparr>lk_acquired := ok\<rparr>), s'))"

definition lock_exit :: "'s redis \<Rightarrow> lock \<Rightarrow> 's \<Rightarrow> 's" where
  "lock_exit R lk s =
     (if lk_acquired lk \<and> r_conn R s then snd (r_delete R (lk_key lk) s) else s)"

text \<open>The body of the \<open>with\<close> statement gets the answer; its exception propagates.\<close>

definition distributed_lock ::
  "'s redis \<Rightarrow> string \<Rightarrow> int \<Rightarrow> (bool \<Rightarrow> 's \<Rightarrow> 'a res \<times> 's) \<Rightarrow> 's \<Rightarrow> 'a res \<times> 's" where
  "distributed_lock R key ttl body s =
     (let ((ok, lk), s1) = lock_enter R (new_lock key ttl) s;
          (r, s2) = body ok s1
      in (r, lock_exit R lk s2))"

definition acquire_lock :: "'s redis \<Rightarrow> string \<Rightarrow> int \<Rightarrow> 's \<Rightarrow> bool \<times> 's" where
  "acquire_lock R key ttl =
     with_redis R True (\<lambda>s. catching False (r_set_nx_ex R key ttl (Text ''LOCKED'') s))"

definition release_lock :: "'s redis \<Rightarrow> string \<Rightarrow> 's \<Rightarrow> bool \<times> 's" where
  "release_lock R key =
     with_redis R True (\<lambda>s. catching False (cmd_bind (r_delete R key s) (\<lambda>_ s. (Inr True, s))))"

section \<open>The clients of one key\<close>

text \<open>
  A client is outside (\<open>None\<close>) or in its \<open>with\<close> block, with its lock object and
  the answer of \<open>__enter__\<close>; it is in the critical section if the answer was true.
  \<open>Passage d\<close> lets \<open>d\<close> seconds pass on the server, which is \<open>wait\<close>.
\<close>

datatype lock_event = Enter nat | Exit nat | Passage int

type_synonym clients = "nat \<Rightarrow> (bool \<times> lock) option"

fun lock_do ::
  "'s redis \<Rightarrow> (int \<Rightarrow> 's \<Rightarrow> 's) \<Rightarrow> string \<Rightarrow> int \<Rightarrow> lock_event \<Rightarrow> clients \<times> 's \<Rightarrow> clients \<times> 's" where
  "lock_do R wait key ttl (Enter i) (cl, s) =
     (if cl i = None
      then (let (x, s') = lock_enter R (new_lock key ttl) s in (cl(i \<mapsto> x), s'))
      else (cl, s))"
| "lock_do R wait key ttl (Exit i) (cl, s) =
     (case cl i of None \<Rightarrow> (cl, s) | Some (_, lk) \<Rightarrow> (cl(i := None), lock_exit R lk s))"
| "lock_do R wait key ttl (Passage d) (cl, s) = (cl, wait d s)"

fun lock_run ::
  "'s redis \<Rightarrow> (int \<Rightarrow> 's \<Rightarrow> 's) \<Rightarrow> string \<Rightarrow> int \<Rightarrow> lock_event list \<Rightarrow> clients \<times> 's \<Rightarrow> clients \<times> 's" where
  "lock_run R wait key ttl [] c = c"
| "lock_run R wait key ttl (e # es) c = lock_run R wait key ttl es (lock_do R wait key ttl e c)"

definition critical :: "clients \<Rightarrow> nat \<Rightarrow> bool" where
  "critical cl i = (case cl i of None \<Rightarrow> False | Some (ok, _) \<Rightarrow> ok)"

text \<open>
  The invariant: a client in the critical section owns its lock object, of this key; the
  key is live while there is one; there is at most one.
\<close>

definition lock_inv ::
  "('s \<Rightarrow> bool) \<Rightarrow> ('s \<Rightarrow> string \<Rightarrow> payload option) \<Rightarrow> string \<Rightarrow> clients \<times> 's \<Rightarrow> bool" where
  "lock_inv up look key c \<longleftrightarrow> (case c of (cl, s) \<Rightarrow>
     up s \<and>
     (\<forall>i ok lk. cl i = Some (ok, lk) \<longrightarrow> lk_key lk = key \<and> lk_acquired lk = ok) \<and>
     (\<forall>i. critical cl i \<longrightarrow> look s key \<noteq> None) \<and>
     (\<forall>i j. critical cl i \<longrightarrow> critical cl j \<longrightarrow> i = j))"

lemma critical_upd [simp]:
  "critical (cl(i := x)) j = (if j = i then (case x of None \<Rightarrow> False | Some (ok, _) \<Rightarrow> ok)
     else critical cl j)"
  by (simp add: critical_def)

lemma lock_enter_up:
  assumes "redis_laws R up look" "up s" "0 < ttl"
  obtains s' where "lock_enter R (new_lock key ttl) s =
      ((look s key = None, \<lparr>lk_key = key, lk_ttl = ttl, lk_acquired = (look s key = None)\<rparr>), s')"
    "up s'" "look s' = (if look s key = None then (look s)(key \<mapsto> Text ''LOCKED'') else look s)"
proof -
  obtain s' where "r_set_nx_ex R key ttl (Text ''LOCKED'') s = (Inr (look s key = None), s')" "up s'"
    "look s' = (if look s key = None then (look s)(key \<mapsto> Text ''LOCKED'') else look s)"
    by (rule redis_set_nx_ex [OF assms])
  then show ?thesis using that assms
    by (simp add: lock_enter_def new_lock_def redis_conn [OF assms(1,2)])
qed

lemma lock_exit_up:
  assumes "redis_laws R up look" "up s"
  shows "up (lock_exit R lk s)"
    "look (lock_exit R lk s) = (if lk_acquired lk then (look s)(lk_key lk := None) else look s)"
  using assms(2) by (simp_all add: lock_exit_def redis_rules [OF assms])

lemma lock_do_inv:
  assumes L: "redis_laws R up look" and "0 < ttl"
    and W: "\<And>d s. up s \<Longrightarrow> up (wait d s) \<and> look (wait d s) key = look s key"
    and I: "lock_inv up look key (cl, s)"
  shows "lock_inv up look key (lock_do R wait key ttl e (cl, s))"
proof (cases e)
  case (Enter i)
  have U: "up s" using I by (simp add: lock_inv_def)
  obtain s' where s': "lock_enter R (new_lock key ttl) s =
      ((look s key = None, \<lparr>lk_key = key, lk_ttl = ttl, lk_acquired = (look s key = None)\<rparr>), s')"
    "up s'" "look s' = (if look s key = None then (look s)(key \<mapsto> Text ''LOCKED'') else look s)"
    by (rule lock_enter_up [OF L U assms(2)])
  show ?thesis
    using I s' by (cases "cl i"; cases "look s key") (auto simp: Enter lock_inv_def critical_def)
next
  case (Exit i)
  have U: "up s" using I by (simp add: lock_inv_def)
  show ?thesis
  proof (cases "cl i")
    case (Some p)
    obtain ok lk where p: "cl i = Some (ok, lk)" using Some by (cases p) auto
    then have lk: "lk_key lk = key" "lk_acquired lk = ok" using I by (auto simp: lock_inv_def)
    have one: "j = k" if "critical cl j" "critical cl k" for j k
      using I that by (simp add: lock_inv_def)
    have live: "look s key \<noteq> None" if "critical cl j" for j
      using I that unfolding lock_inv_def by blast
    have own: "lk_key l = key \<and> lk_acquired l = b" if "cl j = Some (b, l)" for j b l
      using I that by (simp add: lock_inv_def)
    have "look (lock_exit R lk s) key \<noteq> None" if "critical cl j" "j \<noteq> i" for j
    proof -
      have "\<not> ok" using one [OF that(1), of i] that(2) p by (auto simp: critical_def)
      then show ?thesis using live [OF that(1)] by (simp add: lock_exit_up [OF L U] lk)
    qed
    then show ?thesis
      unfolding Exit lock_inv_def using one own
      by (simp add: p lock_exit_up(1) [OF L U], auto split: if_splits)
  qed (use I Exit in simp)
next
  case (Passage d)
  then show ?thesis using I W by (auto simp: lock_inv_def)
qed

lemma lock_run_inv:
  assumes "redis_laws R up look" "0 < ttl"
    and "\<And>d s. up s \<Longrightarrow> up (wait d s) \<and> look (wait d s) key = look s key"
  shows "lock_inv up look key c \<Longrightarrow> lock_inv up look key (lock_run R wait key ttl es c)"
proof (induction es arbitrary: c)
  case (Cons e es)
  obtain cl s where "c = (cl, s)" by (cases c)
  then show ?case using lock_do_inv [OF assms] Cons by simp
qed simp

section \<open>Properties\<close>

text \<open>
  Claim C4. Mutual exclusion: on a reachable server on which the passage of time removes no
  key, however the clients of a key enter and leave, at most one of them is in the critical
  section at any moment.
\<close>

theorem lock_mutual_exclusion:
  assumes "redis_laws R up look" "up s" "0 < ttl"
    and "\<And>d s. up s \<Longrightarrow> up (wait d s) \<and> look (wait d s) key = look s key"
    and "critical (fst (lock_run R wait key ttl es (Map.empty, s))) i"
    and "critical (fst (lock_run R wait key ttl es (Map.empty, s))) j"
  shows "i = j"
proof -
  have "lock_inv up look key (Map.empty, s)"
    using assms(2) by (simp add: lock_inv_def critical_def)
  from lock_run_inv [OF assms(1) assms(3) assms(4) this]
  have "lock_inv up look key (lock_run R wait key ttl es (Map.empty, s))" .
  with assms(5,6) show ?thesis by (auto simp: lock_inv_def split: prod.splits)
qed

theorem lock_mutual_exclusion_witness:
  "\<not> critical (fst (lock_run map_redis (\<lambda>d s. s) ''lock:buy:005930'' 60
       [Enter 0, Enter 1, Exit 1, Enter 2, Exit 0, Enter 3] (Map.empty, ms_empty))) 0 \<and>
   critical (fst (lock_run map_redis (\<lambda>d s. s) ''lock:buy:005930'' 60
       [Enter 0, Enter 1, Exit 1, Enter 2, Exit 0, Enter 3] (Map.empty, ms_empty))) 3 \<and>
   \<not> critical (fst (lock_run map_redis (\<lambda>d s. s) ''lock:buy:005930'' 60
       [Enter 0, Enter 1, Exit 1, Enter 2, Exit 0, Enter 3] (Map.empty, ms_empty))) 2"
proof -
  let ?c = "lock_run map_redis (\<lambda>d s. s) ''lock:buy:005930'' 60
       [Enter 0, Enter 1, Exit 1, Enter 2, Exit 0, Enter 3] (Map.empty, ms_empty)"
  have c3: "critical (fst ?c) 3" by code_simp
  have e: "alive ms_empty" by (simp add: ms_empty_def)
  have "i = 3" if "critical (fst ?c) i" for i
    by (rule lock_mutual_exclusion [OF map_redis_laws, OF e, OF _ _ that c3]) simp_all
  then show ?thesis using c3 by force
qed

text \<open>
  The lock is always given back: when \<open>distributed_lock\<close> got the lock, the key is
  free after the block, whether the block returned or raised; when the key was taken, the
  block ran with the answer false and the key is left to its owner.
\<close>

theorem distributed_lock_releases:
  assumes "redis_laws R up look" "up s" "0 < ttl"
    and "\<And>ok s. up s \<Longrightarrow> up (snd (body ok s)) \<and> look (snd (body ok s)) key = look s key"
  shows "up (snd (distributed_lock R key ttl body s)) \<and>
    look (snd (distributed_lock R key ttl body s)) key = look s key \<and>
    fst (distributed_lock R key ttl body s) =
      fst (body (look s key = None) (snd (lock_enter R (new_lock key ttl) s)))"
proof -
  obtain s' where s': "lock_enter R (new_lock key ttl) s =
      ((look s key = None, \<lparr>lk_key = key, lk_ttl = ttl, lk_acquired = (look s key = None)\<rparr>), s')"
    "up s'" "look s' = (if look s key = None then (look s)(key \<mapsto> Text ''LOCKED'') else look s)"
    by (rule lock_enter_up [OF assms(1-3)])
  let ?b = "body (look s key = None) s'"
  have b: "up (snd ?b)" "look (snd ?b) key = look s' key" using assms(4) [OF s'(2)] by auto
  show ?thesis
    using s'(3) b
    by (cases ?b; cases "look s key")
       (simp_all add: distributed_lock_def s'(1) lock_exit_up [OF assms(1)])
qed

theorem distributed_lock_releases_witness:
  "ms_look (snd (distributed_lock map_redis ''lock:sell'' 30
     (\<lambda>ok s. (Inl (RuntimeError ''boom'') :: unit res, s)) ms_empty)) ''lock:sell'' = None"
proof -
  have e: "alive ms_empty" by (simp add: ms_empty_def)
  have "(0::int) < 30" by simp
  from distributed_lock_releases [OF map_redis_laws, OF e, OF this,
      of "\<lambda>ok s. (Inl (RuntimeError ''boom'') :: unit res, s)" "''lock:sell''"]
  show ?thesis by (simp add: ms_empty_def ms_look_def)
qed

text \<open>
  The lock does not survive its TTL, and its release does not check the owner. A
  client that outlives the TTL shares the critical section with the next one; its exit
  deletes the key that the next one holds, so that a third one enters while the second is
  still inside.
\<close>

theorem lock_overlap_after_ttl:
  "let c = lock_run map_redis ms_wait ''lock:buy:005930'' 60
        [Enter 0, Passage 61, Enter 1] (Map.empty, ms_empty);
      d = lock_run map_redis ms_wait ''lock:buy:005930'' 60 [Exit 0, Enter 2] c
   in critical (fst c) 0 \<and> critical (fst c) 1 \<and> critical (fst d) 1 \<and> critical (fst d) 2"
  by code_simp

text \<open>
  Without Redis the lock lets everybody in: every client that enters is told that
  it holds the lock, and neither entering nor leaving touches the server.
\<close>

theorem lock_fails_open:
  assumes "\<not> r_conn R s" "cl i = None"
  shows "critical (fst (lock_do R wait key ttl (Enter i) (cl, s))) i \<and>
    snd (lock_do R wait key ttl (Exit i) (lock_do R wait key ttl (Enter i) (cl, s))) = s \<and>
    acquire_lock R key ttl' s = (True, s) \<and> release_lock R key s = (True, s)"
  using assms
  by (simp add: lock_enter_def lock_exit_def new_lock_def acquire_lock_def release_lock_def with_redis_def)

theorem lock_fails_open_witness:
  "critical (fst (lock_do map_redis ms_wait ''k'' 60 (Enter 1)
     (lock_do map_redis ms_wait ''k'' 60 (Enter 0) (Map.empty, ms_empty\<lparr>alive := False\<rparr>)))) 1"
proof -
  let ?c = "lock_do map_redis ms_wait ''k'' 60 (Enter 0) (Map.empty, ms_empty\<lparr>alive := False\<rparr>)"
  have "\<not> r_conn map_redis (snd ?c)" "fst ?c 1 = None" by code_simp+
  from lock_fails_open [of map_redis "snd ?c" "fst ?c" 1, OF this] show ?thesis by simp
qed

end
