(* ===== verification/Deploy_Safety.thy ===== *)
theory Deploy_Safety
  imports Redis_Cache
begin

text \<open>
  The deployment guard, \<open>shared/deploy_safety.py\<close>: the context manager that pauses
  trading while services are deployed, and the module-level switch. It opens its own client
  (\<open>redis.from_url\<close>, which does not connect) and shares the key \<open>trading:pause\<close> with
  the trading flags of \<open>Redis_Cache\<close>.
\<close>

definition DEPLOY_STATE_KEY :: string where "DEPLOY_STATE_KEY = ''deploy:state''"
definition DEPLOY_START_TIME_KEY :: string where "DEPLOY_START_TIME_KEY = ''deploy:start_time''"
definition DEPLOY_SERVICE_KEY :: string where "DEPLOY_SERVICE_KEY = ''deploy:current_service''"
definition TRADING_PAUSE_REASON_KEY :: string where
  "TRADING_PAUSE_REASON_KEY = ''trading:pause_reason''"

lemmas deploy_keys = DEPLOY_STATE_KEY_def DEPLOY_START_TIME_KEY_def DEPLOY_SERVICE_KEY_def
  TRADING_PAUSE_REASON_KEY_def TRADING_PAUSE_KEY_def TRADING_STOP_KEY_def TRADING_DRYRUN_KEY_def

text \<open>
  Whether the text read back is \<open>"true"\<close>: a stored JSON document equals it only when it
  is the boolean itself.
\<close>

definition reads_true :: "payload option \<Rightarrow> bool" where
  "reads_true p = (p = Some (Text ''true'') \<or> p = Some (Dumps (PBool True)))"

record deploy_guard =
  pause_on_deploy :: bool
  deployment_id :: string
  previous_pause_state :: "payload option"

text \<open>\<open>env\<close> is \<open>os.getenv("DEPLOY_PAUSE_ENABLED", "true")\<close>, \<open>clock\<close> the default identifier.\<close>

definition new_guard :: "bool \<Rightarrow> string \<Rightarrow> string \<Rightarrow> string \<Rightarrow> deploy_guard" where
  "new_guard pause env ident clock = \<lparr>pause_on_deploy = (pause \<and> str_lower env = ''true''),
     deployment_id = (if ident = [] then clock else ident), previous_pause_state = None\<rparr>"

text \<open>
  The previous state is kept as soon as it was read, whatever a later command raises.
\<close>

definition guard_enter :: "'s redis \<Rightarrow> string \<Rightarrow> deploy_guard \<Rightarrow> 's \<Rightarrow> deploy_guard \<times> 's" where
  "guard_enter R stamp g s =
     (if \<not> pause_on_deploy g then (g, s)
      else case r_get R TRADING_PAUSE_KEY s of
        (Inl e, s1) \<Rightarrow> (g, s1)
      | (Inr p, s1) \<Rightarrow> (g\<lparr>previous_pause_state := p\<rparr>,
          snd (cmd_bind (r_set R TRADING_PAUSE_KEY (Text ''true'') s1) (\<lambda>_ s.
               cmd_bind (r_set R TRADING_PAUSE_REASON_KEY
                 (Text (''deployment:'' @ deployment_id g)) s) (\<lambda>_ s.
               cmd_bind (r_set R DEPLOY_STATE_KEY (Text ''in_progress'') s) (\<lambda>_ s.
               r_set R DEPLOY_START_TIME_KEY (Text stamp) s))))))"

text \<open>\<open>failure\<close> is the name of the exception that leaves the block, if one does.\<close>

definition guard_exit :: "'s redis \<Rightarrow> string option \<Rightarrow> deploy_guard \<Rightarrow> 's \<Rightarrow> 's" where
  "guard_exit R failure g s =
     (if \<not> pause_on_deploy g then s
      else snd (cmd_bind
        (if \<not> reads_true (previous_pause_state g)
         then cmd_bind (r_delete R TRADING_PAUSE_KEY s) (\<lambda>_ s.
              cmd_bind (r_delete R TRADING_PAUSE_REASON_KEY s) (\<lambda>_ s. (Inr (), s)))
         else (Inr (), s))
        (\<lambda>_ s. case failure of
           None \<Rightarrow> r_set R DEPLOY_STATE_KEY (Text ''completed'') s
         | Some e \<Rightarrow> r_set R DEPLOY_STATE_KEY (Text (''failed:'' @ e)) s)))"

definition mark_service_deploying :: "'s redis \<Rightarrow> string \<Rightarrow> 's \<Rightarrow> 's" where
  "mark_service_deploying R name s = snd (r_set R DEPLOY_SERVICE_KEY (Text name) s)"

definition mark_service_completed :: "'s redis \<Rightarrow> string \<Rightarrow> 's \<Rightarrow> 's" where
  "mark_service_completed R name s =
     snd (cmd_bind (r_get R DEPLOY_SERVICE_KEY s) (\<lambda>current s.
       if current = Some (Text name)
       then cmd_bind (r_delete R DEPLOY_SERVICE_KEY s) (\<lambda>_ s. (Inr (), s))
       else (Inr (), s)))"

definition set_trading_pause :: "'s redis \<Rightarrow> bool \<Rightarrow> string \<Rightarrow> 's \<Rightarrow> bool \<times> 's" where
  "set_trading_pause R paused reason s = catching False
     (if paused
      then cmd_bind (r_set R TRADING_PAUSE_KEY (Text ''true'') s) (\<lambda>_ s.
           cmd_bind (r_set R TRADING_PAUSE_REASON_KEY (Text reason) s) (\<lambda>_ s. (Inr True, s)))
      else cmd_bind (r_delete R TRADING_PAUSE_KEY s) (\<lambda>_ s.
           cmd_bind (r_delete R TRADING_PAUSE_REASON_KEY s) (\<lambda>_ s. (Inr True, s))))"

definition is_deployment_in_progress :: "'s redis \<Rightarrow> 's \<Rightarrow> bool \<times> 's" where
  "is_deployment_in_progress R s = catching False
     (cmd_bind (r_get R DEPLOY_STATE_KEY s) (\<lambda>state s. (Inr (state = Some (Text ''in_progress'')), s)))"

text \<open>What \<open>get_deployment_info\<close> answers; \<open>None\<close> is the empty dictionary.\<close>

record deploy_info =
  di_state :: "payload option"
  di_start_time :: "payload option"
  di_current_service :: "payload option"
  di_trading_paused :: bool
  di_pause_reason :: "payload option"

definition get_deployment_info :: "'s redis \<Rightarrow> 's \<Rightarrow> deploy_info option \<times> 's" where
  "get_deployment_info R s = catching None
     (cmd_bind (r_get R DEPLOY_STATE_KEY s) (\<lambda>st s.
      cmd_bind (r_get R DEPLOY_START_TIME_KEY s) (\<lambda>t s.
      cmd_bind (r_get R DEPLOY_SERVICE_KEY s) (\<lambda>c s.
      cmd_bind (r_get R TRADING_PAUSE_KEY s) (\<lambda>p s.
      cmd_bind (r_get R TRADING_PAUSE_REASON_KEY s) (\<lambda>w s.
        (Inr (Some \<lparr>di_state = st, di_start_time = t, di_current_service = c,
           di_trading_paused = reads_true p, di_pause_reason = w\<rparr>), s)))))))"

section \<open>On a reachable server\<close>

text \<open>The view before and after a deployment.\<close>

definition deploying_view ::
  "string \<Rightarrow> deploy_guard \<Rightarrow> (string \<Rightarrow> payload option) \<Rightarrow> string \<Rightarrow> payload option" where
  "deploying_view stamp g v = v(TRADING_PAUSE_KEY \<mapsto> Text ''true'',
     TRADING_PAUSE_REASON_KEY \<mapsto> Text (''deployment:'' @ deployment_id g),
     DEPLOY_STATE_KEY \<mapsto> Text ''in_progress'', DEPLOY_START_TIME_KEY \<mapsto> Text stamp)"

lemma guard_enter_up:
  assumes L: "redis_laws R up look" and U: "up s" and "pause_on_deploy g"
  shows "fst (guard_enter R stamp g s) = g\<lparr>previous_pause_state := look s TRADING_PAUSE_KEY\<rparr>"
    "up (snd (guard_enter R stamp g s))"
    "look (snd (guard_enter R stamp g s)) = deploying_view stamp g (look s)"
  using U assms(3)
  by (simp_all add: guard_enter_def redis_rules [OF L] deploying_view_def del: fun_upd_apply)

lemma guard_exit_up:
  assumes L: "redis_laws R up look" and U: "up s" and "pause_on_deploy g"
  shows "up (guard_exit R e g s)"
    "k \<noteq> DEPLOY_STATE_KEY \<Longrightarrow> look (guard_exit R e g s) k =
       (if \<not> reads_true (previous_pause_state g) \<and>
           k \<in> {TRADING_PAUSE_KEY, TRADING_PAUSE_REASON_KEY} then None else look s k)"
  using U assms(3)
  by (auto simp: guard_exit_def redis_rules [OF L] split: option.split)

text \<open>A deployment: enter the guard, deploy, leave it.\<close>

definition deployment ::
  "'s redis \<Rightarrow> string \<Rightarrow> string option \<Rightarrow> deploy_guard \<Rightarrow> 's \<Rightarrow> 's" where
  "deployment R stamp failure g s =
     (let (g', s') = guard_enter R stamp g s in guard_exit R failure g' s')"

lemma deployment_up:
  assumes L: "redis_laws R up look" and U: "up s" and P: "pause_on_deploy g"
  shows "up (deployment R stamp e g s)"
    "look (deployment R stamp e g s) TRADING_PAUSE_KEY =
       (if reads_true (look s TRADING_PAUSE_KEY) then Some (Text ''true'') else None)"
    "k \<noteq> TRADING_PAUSE_KEY \<Longrightarrow> k \<noteq> TRADING_PAUSE_REASON_KEY \<Longrightarrow> k \<noteq> DEPLOY_STATE_KEY \<Longrightarrow>
       k \<noteq> DEPLOY_START_TIME_KEY \<Longrightarrow> look (deployment R stamp e g s) k = look s k"
proof -
  let ?e = "guard_enter R stamp g s"
  have d: "deployment R stamp e g s = guard_exit R e (fst ?e) (snd ?e)"
    by (simp add: deployment_def case_prod_beta)
  note e = guard_enter_up [OF L U P, of stamp]
  have P': "pause_on_deploy (fst ?e)" using e(1) P by simp
  note x = guard_exit_up [OF L e(2) P', where e = e, folded d]
  have n: "TRADING_PAUSE_KEY \<noteq> DEPLOY_STATE_KEY" "TRADING_PAUSE_KEY \<noteq> TRADING_PAUSE_REASON_KEY"
    "TRADING_PAUSE_KEY \<noteq> DEPLOY_START_TIME_KEY"
    by (simp_all add: deploy_keys)
  show "up (deployment R stamp e g s)" by (rule x(1))
  show "look (deployment R stamp e g s) TRADING_PAUSE_KEY =
       (if reads_true (look s TRADING_PAUSE_KEY) then Some (Text ''true'') else None)"
    using n by (simp add: x(2) e(1,3) deploying_view_def)
  show "k \<noteq> TRADING_PAUSE_KEY \<Longrightarrow> k \<noteq> TRADING_PAUSE_REASON_KEY \<Longrightarrow> k \<noteq> DEPLOY_STATE_KEY \<Longrightarrow>
       k \<noteq> DEPLOY_START_TIME_KEY \<Longrightarrow> look (deployment R stamp e g s) k = look s k"
    by (simp add: x(2) e(1,3) deploying_view_def)
qed

section \<open>Properties\<close>

text \<open>
  A deployment on a running system ends with trading resumed: where the pause key
  was absent on a reachable server, it is absent again after the deployment, whether it
  succeeded or failed, and the other trading flags are untouched; where a pause had been
  set by \<open>set_trading_pause\<close>, it is still there.
\<close>

theorem deployment_restores_pause:
  assumes "redis_laws R up look" "up s" "pause_on_deploy g"
  shows "(look s TRADING_PAUSE_KEY = None \<longrightarrow>
      look (deployment R stamp e g s) TRADING_PAUSE_KEY = None) \<and>
    look (deployment R stamp e g (snd (set_trading_pause R True why s))) TRADING_PAUSE_KEY =
      Some (Text ''true'') \<and>
    look (deployment R stamp e g s) TRADING_STOP_KEY = look s TRADING_STOP_KEY \<and>
    look (deployment R stamp e g s) TRADING_DRYRUN_KEY = look s TRADING_DRYRUN_KEY"
proof -
  let ?p = "snd (set_trading_pause R True why s)"
  have "TRADING_PAUSE_KEY \<noteq> TRADING_PAUSE_REASON_KEY" by (simp add: deploy_keys)
  then have p: "up ?p" "look ?p TRADING_PAUSE_KEY = Some (Text ''true'')"
    using assms(2) by (simp_all add: set_trading_pause_def redis_rules [OF assms(1)])
  have "look (deployment R stamp e g ?p) TRADING_PAUSE_KEY = Some (Text ''true'')"
    by (simp add: deployment_up(2) [OF assms(1) p(1) assms(3)] p(2) reads_true_def)
  moreover have "look (deployment R stamp e g s) TRADING_STOP_KEY = look s TRADING_STOP_KEY"
    "look (deployment R stamp e g s) TRADING_DRYRUN_KEY = look s TRADING_DRYRUN_KEY"
    by (rule deployment_up(3) [OF assms]; simp add: deploy_keys)+
  ultimately show ?thesis
    by (simp add: deployment_up(2) [OF assms] reads_true_def)
qed

theorem deployment_restores_pause_witness:
  "ms_look (deployment map_redis ''t'' None (new_guard True ''true'' ''d'' ''c'')
     (snd (set_trading_pause map_redis True ''manual'' ms_empty))) TRADING_PAUSE_KEY = Some (Text ''true'')"
proof -
  have e: "alive ms_empty" by (simp add: ms_empty_def)
  have g: "pause_on_deploy (new_guard True ''true'' ''d'' ''c'')" by code_simp
  from deployment_restores_pause [OF map_redis_laws, OF e, OF g] show ?thesis by blast
qed

text \<open>
  A deployment discards an operator's pause. After \<open>set_trading_flag\<close> has paused
  trading on a reachable server, a purchase is refused; after a deployment it is allowed,
  although nobody has resumed trading: the guard compares the stored JSON document with the
  text \<open>true\<close>.
\<close>

theorem deployment_discards_operator_pause:
  assumes "redis_laws R up look" "up s" "pause_on_deploy g" "look s TRADING_STOP_KEY = None"
  shows "let s1 = snd (set_trading_flag R st ''pause'' True why 86400 s);
             s2 = deployment R stamp e g s1
    in fst (check_trading_allowed R ''BUY'' ''scanner'' s1) = Inr (False, ''Trading Paused'') \<and>
       fst (check_trading_allowed R ''BUY'' ''scanner'' s2) = Inr (True, [])"
proof -
  define s1 where "s1 = snd (set_trading_flag R st ''pause'' True why 86400 s)"
  define s2 where "s2 = deployment R stamp e g s1"
  have n: "TRADING_STOP_KEY \<noteq> TRADING_PAUSE_KEY" "TRADING_STOP_KEY \<noteq> TRADING_PAUSE_REASON_KEY"
    "TRADING_STOP_KEY \<noteq> DEPLOY_STATE_KEY" "TRADING_STOP_KEY \<noteq> DEPLOY_START_TIME_KEY"
    by (simp_all add: deploy_keys)
  have u1: "up s1" and l1: "look s1 = (look s)(TRADING_PAUSE_KEY \<mapsto> Dumps (PDict
       [(''value'', PBool True), (''reason'', PStr why), (''set_at'', PStr st)]))"
    using set_flag_up [OF assms(1,2) flag_names(1), of 86400] by (simp_all add: s1_def)
  have u2: "up s2" and l2: "look s2 TRADING_PAUSE_KEY = None" "look s2 TRADING_STOP_KEY = None"
    using deployment_up(1,2) [OF assms(1) u1 assms(3)]
      deployment_up(3) [OF assms(1) u1 assms(3), of TRADING_STOP_KEY] n l1 assms(4)
    by (simp_all add: s2_def reads_true_def)
  have "fst (check_trading_allowed R ''BUY'' ''scanner'' s1) = Inr (False, ''Trading Paused'')"
    using n assms(4)
    by (simp add: check_trading_allowed_def is_trading_stopped_def is_trading_paused_def
        get_flag_up [OF assms(1) u1] l1 default_flag_def)
  moreover have "fst (check_trading_allowed R ''BUY'' ''scanner'' s2) = Inr (True, [])"
    by (simp add: check_trading_allowed_def is_trading_stopped_def is_trading_paused_def
        get_flag_up [OF assms(1) u2] l2 default_flag_def)
  ultimately show ?thesis by (simp add: Let_def s1_def s2_def)
qed

theorem deployment_discards_operator_pause_witness:
  "fst (check_trading_allowed map_redis ''BUY'' ''scanner''
     (deployment map_redis ''t'' None (new_guard True ''true'' ''d'' ''c'')
       (snd (set_trading_flag map_redis ''t'' ''pause'' True ''op'' 86400 ms_empty)))) = Inr (True, [])"
proof -
  have e: "alive ms_empty" "ms_look ms_empty TRADING_STOP_KEY = None"
    by (simp_all add: ms_empty_def ms_look_def)
  have g: "pause_on_deploy (new_guard True ''true'' ''d'' ''c'')" by code_simp
  from deployment_discards_operator_pause [OF map_redis_laws, OF e(1), OF g, OF e(2)]
  show ?thesis unfolding Let_def by blast
qed

text \<open>
  While a deployment is in progress the permission check raises: the guard writes
  the bare text \<open>true\<close>, the flag functions expect a dictionary, and every purchase check
  on a reachable server without an emergency stop ends in an \<open>AttributeError\<close>, not in the
  answer that trading is paused. The guard's own report says paused.
\<close>

theorem deployment_pause_raises:
  assumes "redis_laws R up look" "up s" "pause_on_deploy g" "look s TRADING_STOP_KEY = None"
  shows "let s' = snd (guard_enter R stamp g s)
    in fst (check_trading_allowed R ''BUY'' src s') = Inl AttributeError \<and>
       fst (is_deployment_in_progress R s') \<and>
       map_option di_trading_paused (fst (get_deployment_info R s')) = Some True"
proof -
  let ?s = "snd (guard_enter R stamp g s)"
  have n: "TRADING_STOP_KEY \<noteq> TRADING_PAUSE_KEY" "TRADING_STOP_KEY \<noteq> TRADING_PAUSE_REASON_KEY"
    "TRADING_STOP_KEY \<noteq> DEPLOY_STATE_KEY" "TRADING_STOP_KEY \<noteq> DEPLOY_START_TIME_KEY"
    "TRADING_PAUSE_KEY \<noteq> DEPLOY_STATE_KEY" "TRADING_PAUSE_KEY \<noteq> TRADING_PAUSE_REASON_KEY"
    "TRADING_PAUSE_KEY \<noteq> DEPLOY_START_TIME_KEY" "DEPLOY_STATE_KEY \<noteq> DEPLOY_START_TIME_KEY"
    by (simp_all add: deploy_keys)
  note u = guard_enter_up(2) [OF assms(1-3), of stamp]
  have v: "look ?s TRADING_PAUSE_KEY = Some (Text ''true'')" "look ?s TRADING_STOP_KEY = None"
    "look ?s DEPLOY_STATE_KEY = Some (Text ''in_progress'')"
    using n assms(4) by (simp_all add: guard_enter_up(3) [OF assms(1-3)] deploying_view_def)
  show ?thesis
    using v
    by (simp add: check_trading_allowed_def is_trading_stopped_def is_trading_paused_def Let_def
        get_flag_up [OF assms(1) u] default_flag_def is_deployment_in_progress_def
        get_deployment_info_def redis_rules [OF assms(1) u] reads_true_def json_loads_def text_truthy_def)
qed

theorem deployment_pause_raises_witness:
  "fst (check_trading_allowed map_redis ''BUY'' ''scanner''
     (snd (guard_enter map_redis ''t'' (new_guard True ''true'' ''d'' ''c'') ms_empty))) = Inl AttributeError"
proof -
  have e: "alive ms_empty" "ms_look ms_empty TRADING_STOP_KEY = None"
    by (simp_all add: ms_empty_def ms_look_def)
  have g: "pause_on_deploy (new_guard True ''true'' ''d'' ''c'')" by code_simp
  from deployment_pause_raises [OF map_redis_laws, OF e(1), OF g, OF e(2)]
  show ?thesis unfolding Let_def by blast
qed

end
