(* ===== verification/Config_Manager.thy ===== *)
theory Config_Manager
  imports Py_Text
begin

text \<open>
  Central configuration, \<open>shared/config.py\<close>, with the built-in defaults and the registry of
  \<open>shared/settings/registry.py\<close>: one value per key from the memory cache, the environment,
  the \<open>CONFIG\<close> table (behind a cache with a TTL) and the defaults; conversion by the type of
  the default; typed getters; values per symbol with a JSON file of overrides.

  The environment is the map \<open>E\<close> of \<open>os.getenv\<close>; the database is a record of operations
  on a state of an arbitrary type; \<open>now\<close> is \<open>time.time()\<close>. The clients of the
  configuration read it through the record \<open>cfg\<close> of the three getters they use, for which
  the locale \<open>config_source\<close> states what they rely on.
\<close>

section \<open>Values\<close>

text \<open>
  A configuration value: a Python value, or the text \<open>str(v)\<close> of a float or a collection,
  whose digits are not spelt out.
\<close>

datatype cval = V pyval | Repr pyval

definition py_str :: "cval \<Rightarrow> cval" where
  "py_str v = (case v of
     V (PStr s) \<Rightarrow> V (PStr s)
   | V (PInt n) \<Rightarrow> V (PStr (py_str_int n))
   | V (PBool b) \<Rightarrow> V (PStr (if b then ''True'' else ''False''))
   | V PNone \<Rightarrow> V (PStr ''None'')
   | V x \<Rightarrow> Repr x
   | Repr x \<Rightarrow> Repr x)"

definition to_int :: "cval \<Rightarrow> int res" where
  "to_int v = (case v of
     V (PInt n) \<Rightarrow> Inr n
   | V (PBool b) \<Rightarrow> Inr (if b then 1 else 0)
   | V (PFloat x) \<Rightarrow> Inr (py_int x)
   | V (PStr s) \<Rightarrow> parse_int s
   | V _ \<Rightarrow> Inl TypeError
   | Repr _ \<Rightarrow> Inl ValueError)"

definition to_float :: "cval \<Rightarrow> rat res" where
  "to_float v = (case v of
     V (PInt n) \<Rightarrow> Inr (of_py_int n)
   | V (PBool b) \<Rightarrow> Inr (if b then 1 else 0)
   | V (PFloat x) \<Rightarrow> Inr x
   | V (PStr s) \<Rightarrow> parse_float s
   | V _ \<Rightarrow> Inl TypeError
   | Repr (PFloat x) \<Rightarrow> Inr x
   | Repr _ \<Rightarrow> Inl ValueError)"

definition true_words :: "string list" where
  "true_words = [''true'', ''1'', ''yes'', ''on'']"

definition to_bool :: "cval \<Rightarrow> bool" where
  "to_bool v = (case v of
     V (PStr s) \<Rightarrow> str_lower s \<in> set true_words
   | V x \<Rightarrow> truthy x
   | Repr _ \<Rightarrow> False)"

section \<open>Defaults\<close>

record conf_entry =
  ce_value :: pyval
  db_priority :: bool

definition builtin_defaults :: "(string \<times> conf_entry) list" where
  "builtin_defaults = [
     (''SCAN_INTERVAL_SEC'', \<lparr>ce_value = PInt 600, db_priority = False\<rparr>),
     (''MARKET_INDEX_MA_PERIOD'', \<lparr>ce_value = PInt 20, db_priority = False\<rparr>),
     (''BUY_BOLLINGER_PERIOD'', \<lparr>ce_value = PInt 20, db_priority = False\<rparr>),
     (''BUY_QUANTITY_PER_TRADE'', \<lparr>ce_value = PInt 1, db_priority = False\<rparr>),
     (''ALLOW_BEAR_TRADING'', \<lparr>ce_value = PBool False, db_priority = False\<rparr>),
     (''MIN_LLM_CONFIDENCE_BEAR'', \<lparr>ce_value = PInt 85, db_priority = False\<rparr>),
     (''ATR_PERIOD'', \<lparr>ce_value = PInt 14, db_priority = False\<rparr>),
     (''ATR_MULTIPLIER_INITIAL_STOP'', \<lparr>ce_value = PFloat 2, db_priority = False\<rparr>),
     (''ATR_MULTIPLIER_TRAILING_STOP'', \<lparr>ce_value = PFloat (3/2), db_priority = False\<rparr>),
     (''SELL_RSI_THRESHOLD'', \<lparr>ce_value = PInt 70, db_priority = False\<rparr>),
     (''PROFIT_TARGET_FULL'', \<lparr>ce_value = PFloat 8, db_priority = False\<rparr>),
     (''SELL_STOP_LOSS_PCT'', \<lparr>ce_value = PFloat 5, db_priority = False\<rparr>),
     (''TIME_BASED_BULL'', \<lparr>ce_value = PInt 20, db_priority = False\<rparr>),
     (''TIME_BASED_SIDEWAYS'', \<lparr>ce_value = PInt 35, db_priority = False\<rparr>),
     (''MAX_POSITION_PCT'', \<lparr>ce_value = PInt 15, db_priority = False\<rparr>),
     (''MAX_POSITION_VALUE_PCT'', \<lparr>ce_value = PFloat 15, db_priority = False\<rparr>),
     (''RISK_PER_TRADE_PCT'', \<lparr>ce_value = PFloat 2, db_priority = False\<rparr>)]"

definition REGISTRY :: "(string \<times> conf_entry) list" where
  "REGISTRY = [
     (''RECON_POSITION_MULT'', \<lparr>ce_value = PFloat (fl (3/10)), db_priority = True\<rparr>),
     (''TIER2_POSITION_MULT'', \<lparr>ce_value = PFloat (1/2), db_priority = True\<rparr>),
     (''RECON_STOP_LOSS_PCT'', \<lparr>ce_value = PFloat (fl (- 1/40)), db_priority = True\<rparr>),
     (''RECON_MOMENTUM_MIN'', \<lparr>ce_value = PFloat 20, db_priority = True\<rparr>),
     (''RECON_VOLUME_RATIO_MIN'', \<lparr>ce_value = PFloat (3/2), db_priority = True\<rparr>),
     (''ENABLE_RECON_IN_BEAR'', \<lparr>ce_value = PBool True, db_priority = True\<rparr>),
     (''BUY_GOLDEN_CROSS_SHORT'', \<lparr>ce_value = PInt 5, db_priority = True\<rparr>),
     (''BUY_GOLDEN_CROSS_LONG'', \<lparr>ce_value = PInt 20, db_priority = True\<rparr>),
     (''BUY_RSI_OVERSOLD_THRESHOLD'', \<lparr>ce_value = PInt 30, db_priority = True\<rparr>),
     (''BUY_RSI_OVERSOLD_BULL_THRESHOLD'', \<lparr>ce_value = PInt 40, db_priority = True\<rparr>),
     (''TIER2_VOLUME_MULTIPLIER'', \<lparr>ce_value = PFloat (fl (6/5)), db_priority = True\<rparr>),
     (''TIER2_RSI_MIN'', \<lparr>ce_value = PInt 40, db_priority = True\<rparr>),
     (''TIER2_RSI_MAX'', \<lparr>ce_value = PInt 70, db_priority = True\<rparr>),
     (''TIER2_MIN_CONDITIONS'', \<lparr>ce_value = PInt 3, db_priority = True\<rparr>),
     (''MAX_BUY_COUNT_PER_DAY'', \<lparr>ce_value = PInt 6, db_priority = True\<rparr>),
     (''MAX_PORTFOLIO_SIZE'', \<lparr>ce_value = PInt 10, db_priority = True\<rparr>),
     (''MAX_POSITION_VALUE_PCT'', \<lparr>ce_value = PFloat 10, db_priority = True\<rparr>),
     (''MAX_SECTOR_PCT'', \<lparr>ce_value = PFloat 30, db_priority = True\<rparr>),
     (''CASH_KEEP_PCT'', \<lparr>ce_value = PFloat 10, db_priority = True\<rparr>),
     (''SELL_RSI_OVERBOUGHT_THRESHOLD'', \<lparr>ce_value = PFloat 75, db_priority = True\<rparr>),
     (''TRAILING_TAKE_PROFIT_ENABLED'', \<lparr>ce_value = PBool True, db_priority = True\<rparr>),
     (''TRAILING_TAKE_PROFIT_ACTIVATION_PCT'', \<lparr>ce_value = PFloat 5, db_priority = True\<rparr>),
     (''TRAILING_TAKE_PROFIT_ATR_MULT'', \<lparr>ce_value = PFloat (3/2), db_priority = True\<rparr>),
     (''SCALE_OUT_ENABLED'', \<lparr>ce_value = PBool True, db_priority = True\<rparr>),
     (''SCALE_OUT_LEVEL_1_PCT'', \<lparr>ce_value = PFloat 5, db_priority = True\<rparr>),
     (''SCALE_OUT_LEVEL_1_SELL_PCT'', \<lparr>ce_value = PFloat 25, db_priority = True\<rparr>),
     (''SCALE_OUT_LEVEL_2_PCT'', \<lparr>ce_value = PFloat 10, db_priority = True\<rparr>),
     (''SCALE_OUT_LEVEL_2_SELL_PCT'', \<lparr>ce_value = PFloat 25, db_priority = True\<rparr>),
     (''SCALE_OUT_LEVEL_3_PCT'', \<lparr>ce_value = PFloat 15, db_priority = True\<rparr>),
     (''SCALE_OUT_LEVEL_3_SELL_PCT'', \<lparr>ce_value = PFloat 25, db_priority = True\<rparr>),
     (''CORRELATION_CHECK_ENABLED'', \<lparr>ce_value = PBool True, db_priority = True\<rparr>),
     (''CORRELATION_THRESHOLD'', \<lparr>ce_value = PFloat (fl (7/10)), db_priority = True\<rparr>),
     (''CORRELATION_BLOCK_THRESHOLD'', \<lparr>ce_value = PFloat (fl (17/20)), db_priority = True\<rparr>),
     (''CORRELATION_ADJUST_POSITION'', \<lparr>ce_value = PBool True, db_priority = True\<rparr>),
     (''OPENAI_API_KEY'', \<lparr>ce_value = PStr '''', db_priority = False\<rparr>),
     (''GEMINI_API_KEY'', \<lparr>ce_value = PStr '''', db_priority = False\<rparr>),
     (''ANTHROPIC_API_KEY'', \<lparr>ce_value = PStr '''', db_priority = False\<rparr>),
     (''KIS_APP_KEY'', \<lparr>ce_value = PStr '''', db_priority = False\<rparr>),
     (''KIS_APP_SECRET'', \<lparr>ce_value = PStr '''', db_priority = False\<rparr>),
     (''KIS_ACCOUNT_NO'', \<lparr>ce_value = PStr '''', db_priority = False\<rparr>),
     (''KIS_ACCOUNT_SUFFIX'', \<lparr>ce_value = PStr '''', db_priority = False\<rparr>),
     (''KIS_VIRTUAL_ACCOUNT_NO'', \<lparr>ce_value = PStr '''', db_priority = False\<rparr>),
     (''KIS_VIRTUAL_ACCOUNT_SUFFIX'', \<lparr>ce_value = PStr '''', db_priority = False\<rparr>),
     (''TELEGRAM_BOT_TOKEN'', \<lparr>ce_value = PStr '''', db_priority = False\<rparr>),
     (''TELEGRAM_CHAT_ID'', \<lparr>ce_value = PStr '''', db_priority = False\<rparr>),
     (''JWT_SECRET'', \<lparr>ce_value = PStr '''', db_priority = False\<rparr>),
     (''DASHBOARD_PASSWORD'', \<lparr>ce_value = PStr '''', db_priority = False\<rparr>),
     (''MARIADB_PASSWORD'', \<lparr>ce_value = PStr '''', db_priority = False\<rparr>),
     (''REDIS_PASSWORD'', \<lparr>ce_value = PStr '''', db_priority = False\<rparr>),
     (''PORTFOLIO_GUARD_ENABLED'', \<lparr>ce_value = PBool True, db_priority = True\<rparr>),
     (''MAX_SECTOR_STOCKS'', \<lparr>ce_value = PInt 3, db_priority = True\<rparr>),
     (''CASH_FLOOR_STRONG_BULL_PCT'', \<lparr>ce_value = PFloat 5, db_priority = True\<rparr>),
     (''CASH_FLOOR_BULL_PCT'', \<lparr>ce_value = PFloat 10, db_priority = True\<rparr>),
     (''CASH_FLOOR_SIDEWAYS_PCT'', \<lparr>ce_value = PFloat 15, db_priority = True\<rparr>),
     (''CASH_FLOOR_BEAR_PCT'', \<lparr>ce_value = PFloat 25, db_priority = True\<rparr>),
     (''DYNAMIC_SECTOR_BUDGET_ENABLED'', \<lparr>ce_value = PBool True, db_priority = True\<rparr>),
     (''MOMENTUM_LIMIT_ORDER_ENABLED'', \<lparr>ce_value = PBool False, db_priority = False\<rparr>),
     (''MOMENTUM_LIMIT_PREMIUM'', \<lparr>ce_value = PFloat (fl (3/1000)), db_priority = False\<rparr>),
     (''MOMENTUM_LIMIT_TIMEOUT_SEC'', \<lparr>ce_value = PInt 10, db_priority = False\<rparr>),
     (''MOMENTUM_CONFIRMATION_BARS'', \<lparr>ce_value = PInt 0, db_priority = False\<rparr>),
     (''DISABLE_MARKET_OPEN_CHECK'', \<lparr>ce_value = PBool False, db_priority = True\<rparr>),
     (''RISK_GATE_VOLUME_RATIO'', \<lparr>ce_value = PFloat 2, db_priority = True\<rparr>),
     (''RISK_GATE_VWAP_DEVIATION'', \<lparr>ce_value = PFloat (fl (1/50)), db_priority = True\<rparr>),
     (''RISK_GATE_RSI_MAX'', \<lparr>ce_value = PInt 70, db_priority = True\<rparr>),
     (''GOLDEN_CROSS_MIN_VOLUME_RATIO'', \<lparr>ce_value = PFloat (3/2), db_priority = True\<rparr>),
     (''NO_TRADE_WINDOW_START'', \<lparr>ce_value = PStr ''09:00'', db_priority = True\<rparr>),
     (''NO_TRADE_WINDOW_END'', \<lparr>ce_value = PStr ''09:15'', db_priority = True\<rparr>),
     (''DANGER_ZONE_START'', \<lparr>ce_value = PStr ''14:00'', db_priority = True\<rparr>),
     (''DANGER_ZONE_END'', \<lparr>ce_value = PStr ''15:00'', db_priority = True\<rparr>),
     (''SIGNAL_COOLDOWN_SECONDS'', \<lparr>ce_value = PInt 600, db_priority = True\<rparr>)]"

section \<open>The manager\<close>

text \<open>
  The two caches map a key to a value and the time it was stored. The cache of the file of
  overrides holds its content, its modification time and the time it was read.
\<close>

record conf =
  cache_ttl :: rat
  memory_cache :: "string \<Rightarrow> (cval \<times> rat) option"
  db_cache :: "string \<Rightarrow> (cval \<times> rat) option"
  defaults :: "(string \<times> conf_entry) list"
  symbol_overrides_cache :: "pyval option"
  symbol_overrides_mtime :: "rat option"
  symbol_overrides_loaded_at :: rat

definition new_conf :: "rat \<Rightarrow> conf" where
  "new_conf ttl = \<lparr>cache_ttl = ttl, memory_cache = (\<lambda>_. None), db_cache = (\<lambda>_. None),
     defaults = foldl (\<lambda>d (k, v). dict_set k v d) builtin_defaults REGISTRY,
     symbol_overrides_cache = None, symbol_overrides_mtime = None, symbol_overrides_loaded_at = 0\<rparr>"

text \<open>\<open>database.get_config\<close> and \<open>database.set_config\<close> in a session of their own.\<close>

record 'd conf_db =
  db_get_config :: "string \<Rightarrow> 'd \<Rightarrow> cval option res \<times> 'd"
  db_set_config :: "string \<Rightarrow> cval \<Rightarrow> 'd \<Rightarrow> unit res \<times> 'd"

definition cache_read :: "rat \<Rightarrow> rat \<Rightarrow> (string \<Rightarrow> (cval \<times> rat) option) \<Rightarrow> string \<Rightarrow> cval option" where
  "cache_read ttl now c key = (case c key of None \<Rightarrow> None
     | Some (v, ts) \<Rightarrow> if fsub now ts < ttl then Some v else None)"

definition get_from_db ::
  "'d conf_db \<Rightarrow> rat \<Rightarrow> bool \<Rightarrow> string \<Rightarrow> conf \<times> 'd \<Rightarrow> cval option \<times> conf \<times> 'd" where
  "get_from_db D now use_cache key md =
     (let (m, d) = md in
      case (if use_cache then cache_read (cache_ttl m) now (db_cache m) key else None) of
        Some v \<Rightarrow> (Some v, m, d)
      | None \<Rightarrow> (case db_get_config D key d of
          (Inr (Some v), d') \<Rightarrow> (Some v, m\<lparr>db_cache := (db_cache m)(key \<mapsto> (v, now))\<rparr>, d')
        | (_, d') \<Rightarrow> (None, m, d')))"

text \<open>
  The conversion follows the type of the default. \<open>bool\<close> is a subclass of \<open>int\<close>: the
  first branch takes the boolean defaults as well.
\<close>

definition convert_type :: "conf \<Rightarrow> string \<Rightarrow> cval \<Rightarrow> cval" where
  "convert_type m key v =
     (if v = V PNone then V PNone
      else case map_of (defaults m) key of
        None \<Rightarrow> v
      | Some e \<Rightarrow> (case ce_value e of
          PInt _ \<Rightarrow> (case to_int v of Inr n \<Rightarrow> V (PInt n) | Inl _ \<Rightarrow> v)
        | PBool _ \<Rightarrow> (case to_int v of Inr n \<Rightarrow> V (PInt n) | Inl _ \<Rightarrow> v)
        | PFloat _ \<Rightarrow> (case to_float v of Inr x \<Rightarrow> V (PFloat x) | Inl _ \<Rightarrow> v)
        | _ \<Rightarrow> v))"

definition is_db_priority :: "conf \<Rightarrow> string \<Rightarrow> bool" where
  "is_db_priority m key = (case map_of (defaults m) key of None \<Rightarrow> False | Some e \<Rightarrow> db_priority e)"

text \<open>The last step of \<open>get\<close>: the caller's default, then the registered one, then \<open>None\<close>.\<close>

definition fallback :: "conf \<Rightarrow> string \<Rightarrow> cval \<Rightarrow> cval" where
  "fallback m key dflt =
     (if dflt \<noteq> V PNone then dflt
      else case map_of (defaults m) key of None \<Rightarrow> V PNone | Some e \<Rightarrow> V (ce_value e))"

definition conf_get ::
  "(string \<Rightarrow> string option) \<Rightarrow> 'd conf_db \<Rightarrow> rat \<Rightarrow> bool \<Rightarrow> string \<Rightarrow> cval \<Rightarrow> conf \<times> 'd
    \<Rightarrow> cval \<times> conf \<times> 'd" where
  "conf_get E D now use_cache key dflt md =
     (let m = fst md;
          env = map_option (\<lambda>t. V (PStr t)) (E key);
          conv = (\<lambda>v. convert_type m key v)
      in case (if use_cache then cache_read (cache_ttl m) now (memory_cache m) key else None) of
        Some v \<Rightarrow> (v, md)
      | None \<Rightarrow>
        if is_db_priority m key then
          (case get_from_db D now use_cache key md of
             (Some v, md') \<Rightarrow> (conv v, md')
           | (None, md') \<Rightarrow> (case env of
               Some v \<Rightarrow> (conv v, md') | None \<Rightarrow> (fallback m key dflt, md')))
        else
          (case env of
             Some v \<Rightarrow> (conv v, md)
           | None \<Rightarrow> (case get_from_db D now use_cache key md of
               (Some v, md') \<Rightarrow> (conv v, md')
             | (None, md') \<Rightarrow> (fallback m key dflt, md'))))"

definition conf_set ::
  "'d conf_db \<Rightarrow> rat \<Rightarrow> string \<Rightarrow> cval \<Rightarrow> bool \<Rightarrow> conf \<times> 'd \<Rightarrow> bool \<times> conf \<times> 'd" where
  "conf_set D now key v persist md =
     (let (m, d) = md;
          m1 = m\<lparr>memory_cache := (memory_cache m)(key \<mapsto> (v, now))\<rparr>
      in if persist then
           (case db_set_config D key (py_str v) d of
              (Inr _, d') \<Rightarrow> (True, m1\<lparr>db_cache := (db_cache m1)(key \<mapsto> (py_str v, now))\<rparr>, d')
            | (Inl _, d') \<Rightarrow> (False, m1, d'))
         else (True, m1, d))"

definition clear_cache :: "string \<Rightarrow> conf \<Rightarrow> conf" where
  "clear_cache key m =
     (if key \<noteq> [] then m\<lparr>memory_cache := (memory_cache m)(key := None),
        db_cache := (db_cache m)(key := None)\<rparr>
      else m\<lparr>memory_cache := (\<lambda>_. None), db_cache := (\<lambda>_. None)\<rparr>)"

section \<open>Typed getters\<close>

definition conf_get_int ::
  "(string \<Rightarrow> string option) \<Rightarrow> 'd conf_db \<Rightarrow> rat \<Rightarrow> string \<Rightarrow> int option \<Rightarrow> conf \<times> 'd \<Rightarrow> int \<times> conf \<times> 'd" where
  "conf_get_int E D now key dflt md =
     (let (v, md') = conf_get E D now True key (case dflt of None \<Rightarrow> V PNone | Some n \<Rightarrow> V (PInt n)) md;
          d = (case dflt of None \<Rightarrow> 0 | Some n \<Rightarrow> n)
      in (if v = V PNone then d else case to_int v of Inr n \<Rightarrow> n | Inl _ \<Rightarrow> d, md'))"

definition conf_get_float ::
  "(string \<Rightarrow> string option) \<Rightarrow> 'd conf_db \<Rightarrow> rat \<Rightarrow> string \<Rightarrow> rat option \<Rightarrow> conf \<times> 'd \<Rightarrow> rat \<times> conf \<times> 'd" where
  "conf_get_float E D now key dflt md =
     (let (v, md') = conf_get E D now True key (case dflt of None \<Rightarrow> V PNone | Some x \<Rightarrow> V (PFloat x)) md;
          d = (case dflt of None \<Rightarrow> 0 | Some x \<Rightarrow> x)
      in (if v = V PNone then d else case to_float v of Inr x \<Rightarrow> x | Inl _ \<Rightarrow> d, md'))"

definition conf_get_bool ::
  "(string \<Rightarrow> string option) \<Rightarrow> 'd conf_db \<Rightarrow> rat \<Rightarrow> string \<Rightarrow> bool option \<Rightarrow> conf \<times> 'd \<Rightarrow> bool \<times> conf \<times> 'd" where
  "conf_get_bool E D now key dflt md =
     (let (v, md') = conf_get E D now True key (case dflt of None \<Rightarrow> V PNone | Some b \<Rightarrow> V (PBool b)) md;
          d = (case dflt of None \<Rightarrow> False | Some b \<Rightarrow> b)
      in (if v = V PNone then d
          else to_bool v, md'))"

fun conf_get_all ::
  "(string \<Rightarrow> string option) \<Rightarrow> 'd conf_db \<Rightarrow> rat \<Rightarrow> string list \<Rightarrow> conf \<times> 'd
    \<Rightarrow> (string \<times> cval) list \<times> conf \<times> 'd" where
  "conf_get_all E D now [] md = ([], md)"
| "conf_get_all E D now (k # ks) md =
     (let (v, md1) = conf_get E D now True k (V PNone) md;
          (rest, md2) = conf_get_all E D now ks md1
      in ((k, v) # rest, md2))"

definition get_all :: "(string \<Rightarrow> string option) \<Rightarrow> 'd conf_db \<Rightarrow> rat \<Rightarrow> conf \<times> 'd
    \<Rightarrow> (string \<times> cval) list \<times> conf \<times> 'd" where
  "get_all E D now md = conf_get_all E D now (map fst (defaults (fst md))) md"

section \<open>Values per symbol\<close>

text \<open>The file of overrides: whether it exists, its modification time, \<open>json.load\<close> of it.\<close>

record override_file =
  of_exists :: bool
  of_mtime :: "rat option"
  of_content :: "pyval res"

definition symbol_override_key :: "string \<Rightarrow> string \<Rightarrow> string" where
  "symbol_override_key stock_code key = ''SYMBOL_'' @ stock_code @ ''__'' @ key"

definition load_symbol_overrides_json :: "override_file \<Rightarrow> rat \<Rightarrow> bool \<Rightarrow> conf \<Rightarrow> pyval \<times> conf" where
  "load_symbol_overrides_json F now force_reload m =
     (if \<not> of_exists F then (PDict [], m)
      else if \<not> force_reload \<and> symbol_overrides_cache m \<noteq> None
          \<and> fsub now (symbol_overrides_loaded_at m) < 60
          \<and> (of_mtime F = None \<or> symbol_overrides_mtime m = of_mtime F)
        then (the (symbol_overrides_cache m), m)
      else (let data = (case of_content F of
                  Inl _ \<Rightarrow> PDict [] | Inr (PDict kvs) \<Rightarrow> PDict kvs | Inr _ \<Rightarrow> PDict [])
            in (data, m\<lparr>symbol_overrides_cache := Some data, symbol_overrides_mtime := of_mtime F,
                 symbol_overrides_loaded_at := now\<rparr>)))"

definition dict_entry :: "pyval \<Rightarrow> string \<Rightarrow> pyval option" where
  "dict_entry v k = (case v of PDict kvs \<Rightarrow> map_of kvs k | _ \<Rightarrow> None)"

definition get_symbol_override_from_file ::
  "override_file \<Rightarrow> rat \<Rightarrow> string \<Rightarrow> string \<Rightarrow> conf \<Rightarrow> pyval \<times> conf" where
  "get_symbol_override_from_file F now stock_code key m =
     (let (data, m') = load_symbol_overrides_json F now False m
      in (case Option.bind (dict_entry data ''symbols'') (\<lambda>s.
                Option.bind (dict_entry s stock_code) (\<lambda>p. dict_entry p key)) of
            None \<Rightarrow> PNone | Some v \<Rightarrow> v, m'))"

definition get_for_symbol ::
  "(string \<Rightarrow> string option) \<Rightarrow> 'd conf_db \<Rightarrow> override_file \<Rightarrow> rat \<Rightarrow> string \<Rightarrow> string \<Rightarrow> cval
    \<Rightarrow> conf \<times> 'd \<Rightarrow> cval \<times> conf \<times> 'd" where
  "get_for_symbol E D F now stock_code key dflt md =
     (let (v, m1, d1) = conf_get E D now True (symbol_override_key stock_code key) (V PNone) md
      in if v \<noteq> V PNone then (v, m1, d1)
         else (let (fv, m2) = get_symbol_override_from_file F now stock_code key m1
               in if fv \<noteq> PNone then (V fv, m2, d1)
                  else conf_get E D now True key dflt (m2, d1)))"

definition get_int_for_symbol ::
  "(string \<Rightarrow> string option) \<Rightarrow> 'd conf_db \<Rightarrow> override_file \<Rightarrow> rat \<Rightarrow> string \<Rightarrow> string \<Rightarrow> int option
    \<Rightarrow> conf \<times> 'd \<Rightarrow> int \<times> conf \<times> 'd" where
  "get_int_for_symbol E D F now stock_code key dflt md =
     (let (v, md') = get_for_symbol E D F now stock_code key (V PNone) md;
          d = (case dflt of None \<Rightarrow> 0 | Some n \<Rightarrow> n)
      in (if v = V PNone then d else case to_int v of Inr n \<Rightarrow> n | Inl _ \<Rightarrow> d, md'))"

definition get_float_for_symbol ::
  "(string \<Rightarrow> string option) \<Rightarrow> 'd conf_db \<Rightarrow> override_file \<Rightarrow> rat \<Rightarrow> string \<Rightarrow> string \<Rightarrow> rat option
    \<Rightarrow> conf \<times> 'd \<Rightarrow> rat \<times> conf \<times> 'd" where
  "get_float_for_symbol E D F now stock_code key dflt md =
     (let (v, md') = get_for_symbol E D F now stock_code key (V PNone) md;
          d = (case dflt of None \<Rightarrow> 0 | Some x \<Rightarrow> x)
      in (if v = V PNone then d else case to_float v of Inr x \<Rightarrow> x | Inl _ \<Rightarrow> d, md'))"

definition get_bool_for_symbol ::
  "(string \<Rightarrow> string option) \<Rightarrow> 'd conf_db \<Rightarrow> override_file \<Rightarrow> rat \<Rightarrow> string \<Rightarrow> string \<Rightarrow> bool option
    \<Rightarrow> conf \<times> 'd \<Rightarrow> bool \<times> conf \<times> 'd" where
  "get_bool_for_symbol E D F now stock_code key dflt md =
     (let (v, md') = get_for_symbol E D F now stock_code key (V PNone) md
      in (if v = V PNone then (case dflt of None \<Rightarrow> False | Some b \<Rightarrow> b) else to_bool v, md'))"

section \<open>What the clients use\<close>

text \<open>
  The three getters, on the state of one moment. A client passes its own default.
\<close>

record cfg =
  cf_int :: "string \<Rightarrow> int \<Rightarrow> int"
  cf_float :: "string \<Rightarrow> rat \<Rightarrow> rat"
  cf_bool :: "string \<Rightarrow> bool \<Rightarrow> bool"

definition cfg_of :: "(string \<Rightarrow> string option) \<Rightarrow> 'd conf_db \<Rightarrow> rat \<Rightarrow> conf \<times> 'd \<Rightarrow> cfg" where
  "cfg_of E D now md = \<lparr>cf_int = (\<lambda>k d. fst (conf_get_int E D now k (Some d) md)),
     cf_float = (\<lambda>k d. fst (conf_get_float E D now k (Some d) md)),
     cf_bool = (\<lambda>k d. fst (conf_get_bool E D now k (Some d) md))\<rparr>"

text \<open>Nothing holds a value of the key: memory, environment, table and its cache.\<close>

definition conf_unset :: "(string \<Rightarrow> string option) \<Rightarrow> 'd conf_db \<Rightarrow> rat \<Rightarrow> conf \<times> 'd \<Rightarrow> string \<Rightarrow> bool" where
  "conf_unset E D now md k \<longleftrightarrow>
     cache_read (cache_ttl (fst md)) now (memory_cache (fst md)) k = None \<and> E k = None \<and>
     fst (get_from_db D now True k md) = None"

text \<open>
  The contract of a source of configuration: a key without a value answers the default of
  the call, and a key with a number answers it.
\<close>

locale config_source =
  fixes C :: cfg and unset :: "string \<Rightarrow> bool"
  assumes int_default: "unset k \<Longrightarrow> cf_int C k n = n"
    and float_default: "unset k \<Longrightarrow> cf_float C k x = x"
    and bool_default: "unset k \<Longrightarrow> cf_bool C k b = b"
begin

lemmas unset_defaults = int_default float_default bool_default

end

lemma conf_get_unset:
  assumes "conf_unset E D now md k" "dflt \<noteq> V PNone"
  shows "fst (conf_get E D now True k dflt md) = dflt"
  using assms
  by (auto simp: conf_unset_def conf_get_def fallback_def Let_def split: prod.splits option.splits)

interpretation cm: config_source "cfg_of E D now md" "conf_unset E D now md" for E D now md
proof
  fix k assume u: "conf_unset E D now md k"
  show "cf_int (cfg_of E D now md) k n = n" for n
    using conf_get_unset [OF u, of "V (PInt n)"]
    by (simp add: cfg_of_def conf_get_int_def case_prod_beta Let_def to_int_def)
  show "cf_float (cfg_of E D now md) k x = x" for x
    using conf_get_unset [OF u, of "V (PFloat x)"]
    by (simp add: cfg_of_def conf_get_float_def case_prod_beta Let_def to_float_def)
  show "cf_bool (cfg_of E D now md) k b = b" for b
    using conf_get_unset [OF u, of "V (PBool b)"]
    by (simp add: cfg_of_def conf_get_bool_def case_prod_beta Let_def to_bool_def)
qed

section \<open>The merged defaults\<close>

lemma map_of_fold_dict_set:
  "map_of (foldl (\<lambda>d (k, v). dict_set k v d) d r) k =
     (case map_of (rev r) k of None \<Rightarrow> map_of d k | Some v \<Rightarrow> Some v)"
  by (induction r arbitrary: d) (auto split: option.splits simp: map_add_def)

lemma new_conf_default:
  "map_of (defaults (new_conf t)) k =
     (case map_of (rev REGISTRY) k of None \<Rightarrow> map_of builtin_defaults k | Some e \<Rightarrow> Some e)"
  by (simp add: new_conf_def map_of_fold_dict_set)

lemma registered_defaults:
  "map_of (defaults (new_conf t)) ''CASH_KEEP_PCT'' = Some \<lparr>ce_value = PFloat 10, db_priority = True\<rparr>"
  "map_of (defaults (new_conf t)) ''SCALE_OUT_ENABLED'' = Some \<lparr>ce_value = PBool True, db_priority = True\<rparr>"
  "map_of (defaults (new_conf t)) ''ATR_PERIOD'' = Some \<lparr>ce_value = PInt 14, db_priority = False\<rparr>"
  unfolding new_conf_default by code_simp+

section \<open>Properties\<close>

text \<open>An in-memory table, for the witnesses.\<close>

definition map_db :: "(string \<Rightarrow> cval option) conf_db" where
  "map_db = \<lparr>db_get_config = (\<lambda>k d. (Inr (d k), d)),
     db_set_config = (\<lambda>k v d. (Inr (), d(k \<mapsto> v)))\<rparr>"

text \<open>
  A value that was set is the value that is read, for as long as the cache keeps
  it: whatever the environment and the table hold, also when the table could not be
  written; the typed getters return the number that was set.
\<close>

theorem config_set_then_get:
  assumes "fsub later now < cache_ttl (fst md)"
  shows "fst (conf_get E D later True k dflt (snd (conf_set D now k v persist md))) = v \<and>
    fst (conf_get_int E D later k nd (snd (conf_set D now k (V (PInt n)) persist md))) = n \<and>
    fst (conf_get_float E D later k xd (snd (conf_set D now k (V (PFloat x)) persist md))) = x \<and>
    fst (conf_get_bool E D later k bd (snd (conf_set D now k (V (PBool b)) persist md))) = b"
proof -
  have m: "cache_read (cache_ttl (fst (snd (conf_set D now k w persist md)))) later
      (memory_cache (fst (snd (conf_set D now k w persist md)))) k = Some w" for w
    using assms
    by (auto simp: conf_set_def cache_read_def Let_def split: prod.splits sum.splits)
  then have g: "conf_get E D later True k d (snd (conf_set D now k w persist md)) =
      (w, snd (conf_set D now k w persist md))" for d w
    by (simp add: conf_get_def Let_def)
  then show ?thesis
    by (simp add: conf_get_int_def conf_get_float_def conf_get_bool_def Let_def to_int_def
        to_float_def to_bool_def)
qed

theorem config_set_then_get_witness:
  "fst (conf_get_float (\<lambda>_. Some ''3.5'') map_db 100 ''CASH_KEEP_PCT'' None
     (snd (conf_set map_db 0 ''CASH_KEEP_PCT'' (V (PFloat 20)) False (new_conf 300, Map.empty)))) = 20"
proof -
  have "fsub 100 0 < cache_ttl (fst (new_conf 300, Map.empty :: string \<Rightarrow> cval option))"
    by (simp add: new_conf_def fsub_def fl_numeral)
  from config_set_then_get [OF this] show ?thesis by blast
qed

text \<open>
  The precedence of the sources, with no live cache entry for the key: a tuning
  key (\<open>db_priority\<close>) takes the table, then the environment, any other key the environment,
  then the table; both through the conversion by the type of the default; without either the
  caller's default wins over the registered one.
\<close>

theorem config_precedence:
  assumes "cache_read (cache_ttl m) now (memory_cache m) k = None"
    "cache_read (cache_ttl m) now (db_cache m) k = None"
    "db_get_config D k d = (Inr row, d)"
  shows "fst (conf_get E D now True k dflt (m, d)) =
    (let env = map_option (\<lambda>t. V (PStr t)) (E k);
         found = (if is_db_priority m k then (if row \<noteq> None then row else env)
                  else (if env \<noteq> None then env else row))
     in case found of
          Some v \<Rightarrow> convert_type m k v
        | None \<Rightarrow> if dflt \<noteq> V PNone then dflt
            else (case map_of (defaults m) k of None \<Rightarrow> V PNone | Some e \<Rightarrow> V (ce_value e)))"
  using assms
  by (cases row; cases "E k")
     (simp_all add: conf_get_def get_from_db_def fallback_def Let_def)

theorem config_precedence_witness:
  "fst (conf_get (\<lambda>_. Some ''7'') map_db 0 True ''CASH_KEEP_PCT'' (V PNone)
     (new_conf 300, [''CASH_KEEP_PCT'' \<mapsto> V (PStr ''12.5'')])) = V (PFloat (25/2)) \<and>
   fst (conf_get (\<lambda>_. Some ''7'') map_db 0 True ''ATR_PERIOD'' (V PNone)
     (new_conf 300, [''ATR_PERIOD'' \<mapsto> V (PStr ''12'')])) = V (PInt 7)"
proof -
  let ?m = "new_conf 300"
  have c: "cache_read (cache_ttl ?m) 0 (memory_cache ?m) k = None"
    "cache_read (cache_ttl ?m) 0 (db_cache ?m) k = None" for k
    by (simp_all add: new_conf_def cache_read_def)
  have d1: "db_get_config map_db ''CASH_KEEP_PCT'' [''CASH_KEEP_PCT'' \<mapsto> V (PStr ''12.5'')] =
      (Inr (Some (V (PStr ''12.5''))), [''CASH_KEEP_PCT'' \<mapsto> V (PStr ''12.5'')])"
    and d2: "db_get_config map_db ''ATR_PERIOD'' [''ATR_PERIOD'' \<mapsto> V (PStr ''12'')] =
      (Inr (Some (V (PStr ''12''))), [''ATR_PERIOD'' \<mapsto> V (PStr ''12'')])"
    by (simp_all add: map_db_def)
  have p: "is_db_priority ?m ''CASH_KEEP_PCT''" "\<not> is_db_priority ?m ''ATR_PERIOD''"
    by (simp_all add: is_db_priority_def registered_defaults)
  have "to_float (V (PStr ''12.5'')) = Inr (25/2)" "to_int (V (PStr ''7'')) = Inr 7"
    by code_simp+
  then have v: "convert_type ?m ''CASH_KEEP_PCT'' (V (PStr ''12.5'')) = V (PFloat (25/2))"
    "convert_type ?m ''ATR_PERIOD'' (V (PStr ''7'')) = V (PInt 7)"
    by (simp_all add: convert_type_def registered_defaults)
  show ?thesis
    using config_precedence [OF c d1, of "\<lambda>_. Some ''7''" "V PNone"]
      config_precedence [OF c d2, of "\<lambda>_. Some ''7''" "V PNone"] p v
    by simp
qed

text \<open>
  A boolean switch read from the environment stays a text: the integer branch of
  the conversion takes the boolean defaults, so \<open>get\<close> answers the text \<open>false\<close>, which is
  true in a condition, while \<open>get_bool\<close> answers false; the text \<open>1\<close> becomes an integer.
\<close>

theorem config_switch_stays_text:
  assumes "map_of (defaults m) k = Some e" "ce_value e = PBool b"
  shows "convert_type m k (V (PStr ''false'')) = V (PStr ''false'') \<and> truthy (PStr ''false'') \<and>
    \<not> to_bool (V (PStr ''false'')) \<and> convert_type m k (V (PStr ''1'')) = V (PInt 1)"
proof -
  have "to_int (V (PStr ''false'')) = Inl ValueError" "to_int (V (PStr ''1'')) = Inr 1"
    "truthy (PStr ''false'')" "\<not> to_bool (V (PStr ''false''))"
    by code_simp+
  then show ?thesis using assms by (simp add: convert_type_def)
qed

theorem config_switch_stays_text_witness:
  "convert_type (new_conf 300) ''SCALE_OUT_ENABLED'' (V (PStr ''false'')) = V (PStr ''false'')"
  using config_switch_stays_text [OF registered_defaults(2), of True] by simp

end
