(* ===== verification/Position_Sizing.thy ===== *)
theory Position_Sizing
  imports Config_Manager
begin

text \<open>
  Position sizing, \<open>shared/position_sizing.py\<close>: the ATR based quantity of one purchase with
  its caps (minimum and maximum quantity, share of the total assets by score, cash to keep,
  portfolio heat) and the intraday ATR from five-minute bars. Amounts are floats, quantities
  integers.
\<close>

section \<open>The sizer\<close>

definition MAX_POSITION_PCT_DEFAULT :: rat where "MAX_POSITION_PCT_DEFAULT = 12"
definition MAX_POSITION_PCT_A_PLUS :: rat where "MAX_POSITION_PCT_A_PLUS = 18"
definition LLM_SCORE_A_PLUS_THRESHOLD :: rat where "LLM_SCORE_A_PLUS_THRESHOLD = 80"
definition PORTFOLIO_HEAT_LIMIT :: rat where "PORTFOLIO_HEAT_LIMIT = 5"
definition SECTOR_RISK_MULTIPLIER :: rat where "SECTOR_RISK_MULTIPLIER = fl (7/10)"

record sizer =
  sz_config :: cfg
  risk_per_trade_pct :: rat
  atr_multiplier :: rat
  min_quantity :: int
  max_quantity :: int
  max_position_value_pct :: rat

definition new_sizer :: "cfg \<Rightarrow> sizer" where
  "new_sizer C = \<lparr>sz_config = C,
     risk_per_trade_pct = cf_float C ''RISK_PER_TRADE_PCT'' 1,
     atr_multiplier = cf_float C ''ATR_MULTIPLIER'' 2,
     min_quantity = cf_int C ''MIN_QUANTITY'' 1,
     max_quantity = cf_int C ''MAX_QUANTITY'' 1000,
     max_position_value_pct = cf_float C ''MAX_POSITION_VALUE_PCT'' 12\<rparr>"

definition refresh_from_config :: "sizer \<Rightarrow> sizer" where
  "refresh_from_config sz = (let C = sz_config sz in \<lparr>sz_config = C,
     risk_per_trade_pct = cf_float C ''RISK_PER_TRADE_PCT'' (risk_per_trade_pct sz),
     atr_multiplier = cf_float C ''ATR_MULTIPLIER'' (atr_multiplier sz),
     min_quantity = cf_int C ''MIN_QUANTITY'' (min_quantity sz),
     max_quantity = cf_int C ''MAX_QUANTITY'' (max_quantity sz),
     max_position_value_pct = cf_float C ''MAX_POSITION_VALUE_PCT'' (max_position_value_pct sz)\<rparr>)"

definition get_dynamic_max_position_pct :: "rat \<Rightarrow> rat" where
  "get_dynamic_max_position_pct llm_score =
     (if LLM_SCORE_A_PLUS_THRESHOLD \<le> llm_score then MAX_POSITION_PCT_A_PLUS
      else MAX_POSITION_PCT_DEFAULT)"

definition check_portfolio_heat :: "rat \<Rightarrow> rat \<Rightarrow> bool" where
  "check_portfolio_heat current_portfolio_risk_pct new_risk_pct =
     (\<not> PORTFOLIO_HEAT_LIMIT < fadd current_portfolio_risk_pct new_risk_pct)"

definition get_sector_risk_multiplier :: "string option \<Rightarrow> string list \<Rightarrow> rat" where
  "get_sector_risk_multiplier sector held_sectors = (case sector of
     None \<Rightarrow> 1
   | Some s \<Rightarrow> if s = [] \<or> held_sectors = [] then 1
       else if s \<in> set held_sectors then SECTOR_RISK_MULTIPLIER else 1)"

section \<open>Intraday ATR\<close>

text \<open>
  A bar is open, high, low, close. \<open>rows\<close> is what the query answers or raises.
\<close>

type_synonym bar = "rat \<times> rat \<times> rat \<times> rat"

definition true_range :: "bar \<Rightarrow> bar \<Rightarrow> rat" where
  "true_range prev cur =
     (let (_, high, low, _) = cur; (_, _, _, prev_close) = prev
      in max (max (fsub high low) \<bar>fsub high prev_close\<bar>) \<bar>fsub low prev_close\<bar>)"

fun tr_sum :: "rat \<Rightarrow> bar list \<Rightarrow> rat" where
  "tr_sum acc (prev # cur # rest) = tr_sum (fadd acc (true_range prev cur)) (cur # rest)"
| "tr_sum acc _ = acc"

definition calculate_intraday_atr :: "bar list res \<Rightarrow> nat \<Rightarrow> rat option" where
  "calculate_intraday_atr rows window = (case rows of
     Inl _ \<Rightarrow> None
   | Inr rs \<Rightarrow>
       if length rs < window + 1 then None
       else case py_fdiv (tr_sum 0 (drop (length rs - (window + 1)) rs)) (of_py_int (int window)) of
         Inl _ \<Rightarrow> None | Inr x \<Rightarrow> Some x)"

section \<open>The quantity\<close>

text \<open>The ATR argument can be \<open>None\<close>, a float that is not a number, or a number.\<close>

datatype atr_value = ATR_None | ATR_NaN | ATR rat

datatype size_reason = No_assets | Smart_skip int int | Below_minimum | Heat_limit rat rat
  | Risk_parity rat rat | Calculation_error exn

record size_result =
  quantity :: int
  risk_amount :: rat
  position_value :: rat
  risk_pct :: rat
  position_pct :: rat
  reason :: size_reason

definition create_result :: "int \<Rightarrow> size_reason \<Rightarrow> size_result" where
  "create_result q why = \<lparr>quantity = q, risk_amount = 0, position_value = 0, risk_pct = 0,
     position_pct = 0, reason = why\<rparr>"

record size_request =
  sq_price :: rat
  sq_atr :: atr_value
  sq_balance :: rat
  sq_portfolio_value :: rat
  sq_llm_score :: rat
  sq_sector :: "string option"
  sq_held_sectors :: "string list"
  sq_current_risk_pct :: rat

definition total_assets_of :: "size_request \<Rightarrow> rat" where
  "total_assets_of q = fadd (sq_balance q) (sq_portfolio_value q)"

definition effective_risk_pct :: "sizer \<Rightarrow> size_request \<Rightarrow> rat" where
  "effective_risk_pct sz q =
     fmul (risk_per_trade_pct sz) (get_sector_risk_multiplier (sq_sector q) (sq_held_sectors q))"

definition target_risk :: "sizer \<Rightarrow> size_request \<Rightarrow> rat" where
  "target_risk sz q = fmul (total_assets_of q) (fdiv (effective_risk_pct sz q) 100)"

definition effective_atr :: "size_request \<Rightarrow> rat" where
  "effective_atr q = (case sq_atr q of
     ATR x \<Rightarrow> if x \<le> 0 then fmul (sq_price q) (fl (2/100)) else x
   | _ \<Rightarrow> fmul (sq_price q) (fl (2/100)))"

definition risk_per_share :: "sizer \<Rightarrow> size_request \<Rightarrow> rat" where
  "risk_per_share sz q = fmul (effective_atr q) (atr_multiplier sz)"

definition clamp_quantity :: "sizer \<Rightarrow> int \<Rightarrow> int" where
  "clamp_quantity sz n = (if n < min_quantity sz then min_quantity sz
     else if max_quantity sz < n then max_quantity sz else n)"

definition cap_by_assets :: "size_request \<Rightarrow> rat" where
  "cap_by_assets q =
     fmul (total_assets_of q) (fdiv (get_dynamic_max_position_pct (sq_llm_score q)) 100)"

definition cap_by_cash :: "sizer \<Rightarrow> size_request \<Rightarrow> rat" where
  "cap_by_cash sz q = max 0 (fsub (sq_balance q)
     (fmul (total_assets_of q) (fdiv (cf_float (sz_config sz) ''CASH_KEEP_PCT'' 10) 100)))"

definition position_cap :: "sizer \<Rightarrow> size_request \<Rightarrow> rat" where
  "position_cap sz q = min (cap_by_assets q) (cap_by_cash sz q)"

text \<open>The final part: the minimum, the heat and the answer.\<close>

definition finish_sizing :: "sizer \<Rightarrow> size_request \<Rightarrow> int \<Rightarrow> rat \<Rightarrow> size_result" where
  "finish_sizing sz q n value =
     (if n < min_quantity sz then create_result 0 Below_minimum
      else (let rps = risk_per_share sz q; total = total_assets_of q;
                actual = fmul (fdiv (fmul (of_py_int n) rps) total) 100
            in if \<not> check_portfolio_heat (sq_current_risk_pct q) actual
               then create_result 0 (Heat_limit (sq_current_risk_pct q) actual)
               else \<lparr>quantity = n, risk_amount = fmul (of_py_int n) rps, position_value = value,
                 risk_pct = actual, position_pct = fmul (fdiv value total) 100,
                 reason = Risk_parity (effective_risk_pct sz q) actual\<rparr>))"

text \<open>
  The \<open>try\<close> block. The first log line formats the ATR with \<open>:,.0f\<close>, which raises on
  \<open>None\<close>.
\<close>

definition size_try :: "sizer \<Rightarrow> size_request \<Rightarrow> size_result res" where
  "size_try sz q =
     (if sq_atr q = ATR_None then Inl TypeError
      else if total_assets_of q \<le> 0 then Inr (create_result 0 No_assets)
      else res_bind (py_fdiv (target_risk sz q) (risk_per_share sz q)) (\<lambda>raw.
        let n = clamp_quantity sz (py_int raw);
            value = fmul (of_py_int n) (sq_price q);
            cap = position_cap sz q
        in if cap < value then
             res_bind (py_fdiv cap (sq_price q)) (\<lambda>quot.
               let n' = py_int quot;
                   target = py_int raw
               in if cap = cap_by_cash sz q \<and> 0 < target
                     \<and> of_int n' < fmul (of_py_int target) (1/2)
                  then Inr (create_result 0 (Smart_skip n' target))
                  else Inr (finish_sizing sz q n' (fmul (of_py_int n') (sq_price q))))
           else Inr (finish_sizing sz q n value)))"

definition calculate_quantity :: "sizer \<Rightarrow> size_request \<Rightarrow> size_result" where
  "calculate_quantity sz q = (case size_try sz q of
     Inl e \<Rightarrow> create_result 0 (Calculation_error e) | Inr r \<Rightarrow> r)"

section \<open>Under an unset configuration\<close>

context config_source begin

lemma default_sizer:
  assumes "\<And>k. k \<in> {''RISK_PER_TRADE_PCT'', ''ATR_MULTIPLIER'', ''MIN_QUANTITY'', ''MAX_QUANTITY'',
    ''MAX_POSITION_VALUE_PCT''} \<Longrightarrow> unset k"
  shows "new_sizer C = \<lparr>sz_config = C, risk_per_trade_pct = 1, atr_multiplier = 2,
    min_quantity = 1, max_quantity = 1000, max_position_value_pct = 12\<rparr>"
  using assms by (simp add: new_sizer_def unset_defaults)

lemma refresh_keeps_unset:
  assumes "\<And>k. unset k" "sz_config sz = C"
  shows "refresh_from_config sz = sz"
  using assms by (simp add: refresh_from_config_def unset_defaults Let_def)

end

section \<open>Rounding\<close>

text \<open>A whole number of shares that a rounded quotient allows costs at most one rounding more.\<close>

lemma shares_cost:
  assumes "0 \<le> m" "0 < p" "n = py_int (fdiv m p)"
  shows "of_int n * p \<le> m * (1 + two_pow (- 53))"
proof (cases "two_pow (- 1022) \<le> m / p")
  case True
  have "0 \<le> fdiv m p" using assms by (intro fdiv_nonneg) auto
  then have "of_int n \<le> fl (m / p)"
    using py_int_le [of "fdiv m p"] assms(3) by (simp add: fdiv_def)
  also have "\<dots> \<le> m / p + m / p * two_pow (- 53)"
    using fl_rel_error [of "m / p"] True assms by simp
  finally have "of_int n * p \<le> (m / p + m / p * two_pow (- 53)) * p"
    using assms(2) by (intro mult_right_mono) auto
  also have "\<dots> = m * (1 + two_pow (- 53))" using assms(2) by (simp add: field_simps)
  finally show ?thesis .
next
  case False
  have half: "fl (1/2) = 1/2" by code_simp
  have "two_pow (- 1022) \<le> two_pow (- 1)" by (simp only: two_pow_le_iff)
  moreover have "two_pow (- 1) = 1/2" by (simp add: two_pow_def)
  ultimately have "m / p \<le> 1/2" using False by linarith
  then have "fdiv m p \<le> 1/2" unfolding fdiv_def by (rule fl_le_float [OF half])
  moreover have "0 \<le> fdiv m p" using assms by (intro fdiv_nonneg) auto
  ultimately have "n = 0"
    using assms(3) by (simp add: py_int_nonneg floor_eq_iff)
  then show ?thesis using assms(1) by (simp add: less_imp_le)
qed

text \<open>If the rounded product does not exceed a bound, the product exceeds it by a rounding.\<close>

lemma product_bound:
  assumes "fl x \<le> m" "0 \<le> x" "two_pow (- 1022) \<le> x \<or> x = 0" "0 \<le> m"
  shows "x \<le> m * (1 + two_pow (- 52))"
proof (cases "x = 0")
  case True
  have "0 < two_pow (- 52)" by simp
  with True assms(4) show ?thesis by (simp add: add_nonneg_nonneg less_imp_le)
next
  case False
  with assms have r: "\<bar>fl x - x\<bar> \<le> x * two_pow (- 53)" using fl_rel_error [of x] by simp
  then have "x * (1 - two_pow (- 53)) \<le> m"
    using assms(1) by (simp add: right_diff_distrib)
  then have "x * (1 - two_pow (- 53)) * (1 + two_pow (- 52)) \<le> m * (1 + two_pow (- 52))"
    by (intro mult_right_mono) (auto intro: add_nonneg_nonneg less_imp_le)
  moreover have "1 \<le> (1 - two_pow (- 53)) * (1 + two_pow (- 52) :: rat)"
    by (simp add: two_pow_def)
  then have "x * 1 \<le> x * ((1 - two_pow (- 53)) * (1 + two_pow (- 52)))"
    using assms(2) by (intro mult_left_mono)
  ultimately show ?thesis by (simp add: mult.assoc)
qed

section \<open>The caps\<close>

lemma sector_multiplier_bounds:
  "0 \<le> get_sector_risk_multiplier s h" "get_sector_risk_multiplier s h \<le> 1"
proof -
  have "0 \<le> SECTOR_RISK_MULTIPLIER" "SECTOR_RISK_MULTIPLIER \<le> 1" by code_simp+
  then show "0 \<le> get_sector_risk_multiplier s h" "get_sector_risk_multiplier s h \<le> 1"
    by (simp_all add: get_sector_risk_multiplier_def split: option.split)
qed

lemma position_cap_nonneg: "0 \<le> total_assets_of q \<Longrightarrow> 0 \<le> position_cap sz q"
  by (simp add: position_cap_def cap_by_cash_def cap_by_assets_def get_dynamic_max_position_pct_def
      MAX_POSITION_PCT_DEFAULT_def MAX_POSITION_PCT_A_PLUS_def fmul_nonneg fdiv_nonneg)

lemma finish_sizing_cases:
  assumes "quantity (finish_sizing sz q n v) \<noteq> 0"
  shows "quantity (finish_sizing sz q n v) = n \<and> min_quantity sz \<le> n \<and>
    check_portfolio_heat (sq_current_risk_pct q) (risk_pct (finish_sizing sz q n v))"
  using assms by (auto simp: finish_sizing_def create_result_def Let_def split: if_splits)

lemma shares_within_clamp:
  assumes "1 \<le> p" "0 \<le> n" "n \<le> 2 ^ 50" "0 \<le> c" "c < fmul (of_py_int n) p"
  shows "py_int (fdiv c p) \<le> n"
proof -
  have n: "of_py_int n = of_int n" using assms by (intro of_py_int_small) auto
  have p1: "n \<noteq> 0"
  proof
    assume "n = 0"
    then have "fmul (of_py_int n) p = 0" by (simp add: fmul_def of_py_int_def)
    with assms(4,5) show False by simp
  qed
  then have n1: "1 \<le> (of_int n :: rat)" using assms(2) by simp
  have tiny: "two_pow (- 1022) \<le> (1 :: rat)" using two_pow_le_iff [of "- 1022" 0] by (simp add: two_pow_def)
  have "1 * 1 \<le> of_int n * p" using n1 assms(1) by (intro mult_mono) auto
  then have np: "two_pow (- 1022) \<le> \<bar>of_int n * p\<bar>" using tiny by simp
  have "c \<le> of_int n * p * (1 + two_pow (- 53))"
    using fl_rel_error [OF np] assms(5) \<open>1 * 1 \<le> of_int n * p\<close>
    by (simp add: fmul_def n distrib_left abs_le_iff)
  then have "c / p \<le> of_int n * (1 + two_pow (- 53))"
    using assms(1) by (simp add: pos_divide_le_eq mult.commute mult.left_commute)
  then have "fdiv c p \<le> fl (of_int n * (1 + two_pow (- 53)))"
    unfolding fdiv_def by (rule fl_mono)
  also have "\<dots> \<le> of_int n * (1 + two_pow (- 53)) * (1 + two_pow (- 53))"
  proof -
    have "1 * 1 \<le> of_int n * (1 + two_pow (- 53) :: rat)"
      using n1 by (intro mult_mono) (auto intro: less_imp_le)
    then have "two_pow (- 1022) \<le> \<bar>of_int n * (1 + two_pow (- 53) :: rat)\<bar>" using tiny by simp
    from fl_rel_error [OF this] show ?thesis
      using \<open>1 * 1 \<le> of_int n * (1 + two_pow (- 53))\<close> by (simp add: distrib_left abs_le_iff)
  qed
  also have "\<dots> \<le> of_int n + of_int n * two_pow (- 51)"
    using n1 by (simp add: two_pow_def field_simps)
  also have "\<dots> < of_int n + 1"
  proof -
    have "of_int n * two_pow (- 51) \<le> (2 ^ 50) * (two_pow (- 51) :: rat)"
    proof (intro mult_right_mono)
      have "of_int n \<le> (of_int (2 ^ 50) :: rat)" using assms(3) by (simp only: of_int_le_iff)
      then show "of_int n \<le> (2 ^ 50 :: rat)" by simp
    qed (auto intro: less_imp_le)
    also have "\<dots> < 1" by (simp add: two_pow_def)
    finally show ?thesis by simp
  qed
  finally have "fdiv c p < of_int n + 1" .
  moreover have "of_int (py_int (fdiv c p)) \<le> fdiv c p"
    using assms by (intro py_int_le fdiv_nonneg) auto
  ultimately have "of_int (py_int (fdiv c p)) < (of_int (n + 1) :: rat)" by simp
  then show ?thesis by (simp only: of_int_less_iff)
qed

text \<open>The two ways a non-zero quantity comes about.\<close>

lemma size_try_cases:
  assumes "quantity (calculate_quantity sz q) \<noteq> 0"
  obtains raw n where "0 < total_assets_of q" "risk_per_share sz q \<noteq> 0"
      "raw = fdiv (target_risk sz q) (risk_per_share sz q)" "n = clamp_quantity sz (py_int raw)"
      "\<not> position_cap sz q < fmul (of_py_int n) (sq_price q)"
      "calculate_quantity sz q = finish_sizing sz q n (fmul (of_py_int n) (sq_price q))"
  | raw n n' where "0 < total_assets_of q" "risk_per_share sz q \<noteq> 0"
      "raw = fdiv (target_risk sz q) (risk_per_share sz q)" "n = clamp_quantity sz (py_int raw)"
      "position_cap sz q < fmul (of_py_int n) (sq_price q)" "sq_price q \<noteq> 0"
      "n' = py_int (fdiv (position_cap sz q) (sq_price q))"
      "calculate_quantity sz q = finish_sizing sz q n' (fmul (of_py_int n') (sq_price q))"
proof -
  let ?n = "clamp_quantity sz (py_int (fdiv (target_risk sz q) (risk_per_share sz q)))"
  have t: "sq_atr q \<noteq> ATR_None" "0 < total_assets_of q" "risk_per_share sz q \<noteq> 0"
    using assms
    by (auto simp: calculate_quantity_def size_try_def create_result_def py_fdiv_def split: if_splits)
  show thesis
  proof (cases "position_cap sz q < fmul (of_py_int ?n) (sq_price q)")
    case True
    then show thesis
      using assms t that(2) [OF t(2,3) refl refl True _ refl]
      by (auto simp: calculate_quantity_def size_try_def create_result_def py_fdiv_def Let_def
          split: if_splits)
  next
    case False
    then show thesis
      using t that(1) [OF t(2,3) refl refl False]
      by (simp add: calculate_quantity_def size_try_def py_fdiv_def Let_def)
  qed
qed

lemma clamp_bounds:
  "min_quantity sz \<le> max_quantity sz \<Longrightarrow>
     min_quantity sz \<le> clamp_quantity sz n \<and> clamp_quantity sz n \<le> max_quantity sz"
  by (simp add: clamp_quantity_def)

section \<open>Properties\<close>

text \<open>
  Claim C5. Every sized position respects every limit: a non-zero quantity lies between the
  minimum and the maximum quantity, its cost exceeds the cap (the smaller of the share of
  total assets allowed for the score and the cash above the reserve) by no more than
  rounding, and the portfolio heat with it is at most five per cent.
\<close>

theorem sizing_respects_limits:
  assumes "quantity (calculate_quantity sz q) \<noteq> 0"
    and "1 \<le> sq_price q" "0 \<le> min_quantity sz" "min_quantity sz \<le> max_quantity sz"
      "max_quantity sz \<le> 2 ^ 50"
  shows "min_quantity sz \<le> quantity (calculate_quantity sz q) \<and>
    quantity (calculate_quantity sz q) \<le> max_quantity sz \<and>
    of_int (quantity (calculate_quantity sz q)) * sq_price q \<le> position_cap sz q * (1 + two_pow (- 52)) \<and>
    fadd (sq_current_risk_pct q) (risk_pct (calculate_quantity sz q)) \<le> 5"
  using assms(1)
proof (cases rule: size_try_cases)
  case (1 raw n)
  note f = finish_sizing_cases [OF assms(1) [unfolded 1(6)], folded 1(6)]
  have n: "min_quantity sz \<le> n" "n \<le> max_quantity sz" using clamp_bounds [OF assms(4)] 1(4) by auto
  then have ni: "of_py_int n = of_int n" using assms(3,5) by (intro of_py_int_small) auto
  have "(two_pow (- 1022) :: rat) \<le> 1" using two_pow_le_iff [of "- 1022" 0] by (simp add: two_pow_def)
  moreover have "1 * 1 \<le> of_int n * sq_price q" if "n \<noteq> 0"
    using that n assms(2,3) by (intro mult_mono) auto
  ultimately have norm: "two_pow (- 1022) \<le> of_int n * sq_price q \<or> of_int n * sq_price q = 0" by fastforce
  have "of_int n * sq_price q \<le> position_cap sz q * (1 + two_pow (- 52))"
    using 1(1,5) n assms(2,3) ni norm
    by (intro product_bound position_cap_nonneg) (auto simp: fmul_def)
  then show ?thesis using f n by (simp add: check_portfolio_heat_def PORTFOLIO_HEAT_LIMIT_def not_less)
next
  case (2 raw n n')
  note f = finish_sizing_cases [OF assms(1) [unfolded 2(8)], folded 2(8)]
  have n: "min_quantity sz \<le> n" "n \<le> max_quantity sz" using clamp_bounds [OF assms(4)] 2(4) by auto
  have c: "0 \<le> position_cap sz q" using 2(1) by (intro position_cap_nonneg) simp
  have "n' \<le> n"
    unfolding 2(7) using 2(5) n assms(2,3,5) c by (intro shares_within_clamp) auto
  moreover have "of_int n' * sq_price q \<le> position_cap sz q * (1 + two_pow (- 53))"
    using 2(7) assms(2) c by (intro shares_cost) auto
  moreover have "position_cap sz q * (1 + two_pow (- 53)) \<le> position_cap sz q * (1 + two_pow (- 52))"
    using c by (intro mult_left_mono) simp_all
  ultimately show ?thesis
    using f n by (auto simp: check_portfolio_heat_def PORTFOLIO_HEAT_LIMIT_def not_less)
qed

text \<open>A configuration without values, and a request.\<close>

definition empty_cfg :: cfg where
  "empty_cfg = cfg_of (\<lambda>_. None) map_db 0 (new_conf 300, Map.empty)"

definition sample_request :: size_request where
  "sample_request = \<lparr>sq_price = 70000, sq_atr = ATR 1500, sq_balance = 50000000,
     sq_portfolio_value = 50000000, sq_llm_score = 85, sq_sector = None, sq_held_sectors = [],
     sq_current_risk_pct = 1\<rparr>"

lemma empty_cfg_eq:
  "empty_cfg = \<lparr>cf_int = (\<lambda>_ n. n), cf_float = (\<lambda>_ x. x), cf_bool = (\<lambda>_ b. b)\<rparr>"
proof -
  have u: "conf_unset (\<lambda>_. None) map_db 0 (new_conf 300, Map.empty) k" for k
    by (simp add: conf_unset_def new_conf_def cache_read_def get_from_db_def map_db_def)
  show ?thesis
    using cm.unset_defaults [OF u] by (intro cfg.equality ext) (simp_all add: empty_cfg_def)
qed

lemma sample_amounts:
  "risk_per_share (new_sizer empty_cfg) sample_request = 3000"
  "target_risk (new_sizer empty_cfg) sample_request = 1000000"
  "position_cap (new_sizer empty_cfg) sample_request = 18000000"
  "cap_by_cash (new_sizer empty_cfg) sample_request = 40000000"
  "total_assets_of sample_request = 100000000"
  "min_quantity (new_sizer empty_cfg) = 1" "max_quantity (new_sizer empty_cfg) = 1000"
  unfolding empty_cfg_eq by code_simp+

lemma sample_quotients:
  "py_int (fdiv 1000000 3000) = 333" "fmul (of_py_int 333) 70000 = 23310000"
  "py_int (fdiv 18000000 70000) = 257"
  "\<not> 5 < fadd 1 (fmul (fdiv (fmul (of_py_int 257) 3000) 100000000) 100)"
  by code_simp+

lemma sample_quantity: "quantity (calculate_quantity (new_sizer empty_cfg) sample_request) = 257"
proof -
  have "sq_price sample_request = 70000" "sq_atr sample_request \<noteq> ATR_None"
    "sq_current_risk_pct sample_request = 1"
    by (simp_all add: sample_request_def)
  then show ?thesis
    by (simp add: calculate_quantity_def size_try_def sample_amounts sample_quotients clamp_quantity_def
        py_fdiv_def finish_sizing_def check_portfolio_heat_def PORTFOLIO_HEAT_LIMIT_def Let_def)
qed

theorem sizing_respects_limits_witness:
  "quantity (calculate_quantity (new_sizer empty_cfg) sample_request) = 257 \<and>
   257 * 70000 \<le> position_cap (new_sizer empty_cfg) sample_request * (1 + two_pow (- 52))"
proof -
  have "1 \<le> sq_price sample_request" "0 \<le> min_quantity (new_sizer empty_cfg)"
    "min_quantity (new_sizer empty_cfg) \<le> max_quantity (new_sizer empty_cfg)"
    "max_quantity (new_sizer empty_cfg) \<le> 2 ^ 50"
    by (simp_all add: sample_amounts sample_request_def)
  from sizing_respects_limits [OF _ this] show ?thesis
    unfolding sample_quantity by (simp add: sample_request_def)
qed

text \<open>
  Every position above the minimum quantity risks at most its target: the shares
  times the risk per share exceed the risk budget of the trade by no more than rounding.
\<close>

theorem sizing_risk_target:
  assumes "min_quantity sz < quantity (calculate_quantity sz q)" "0 \<le> min_quantity sz"
    "min_quantity sz \<le> max_quantity sz" "max_quantity sz \<le> 2 ^ 50" "1 \<le> sq_price q" "0 < risk_per_share sz q" "0 \<le> target_risk sz q"
  shows "of_int (quantity (calculate_quantity sz q)) * risk_per_share sz q
    \<le> target_risk sz q * (1 + two_pow (- 53))"
proof -
  have nz: "quantity (calculate_quantity sz q) \<noteq> 0" using assms(1,2) by simp
  define raw where "raw = fdiv (target_risk sz q) (risk_per_share sz q)"
  have le: "quantity (calculate_quantity sz q) \<le> py_int raw"
    using nz
  proof (cases rule: size_try_cases)
    case (1 r n)
    note f = finish_sizing_cases [OF nz [unfolded 1(6)], folded 1(6)]
    then show ?thesis
      using assms(1) 1(3,4) by (auto simp: clamp_quantity_def raw_def split: if_splits)
  next
    case (2 r n n')
    note f = finish_sizing_cases [OF nz [unfolded 2(8)], folded 2(8)]
    have q: "quantity (calculate_quantity sz q) = n'" using f by simp
    have c: "0 \<le> position_cap sz q" using 2(1) by (intro position_cap_nonneg) simp
    have n: "0 \<le> n" "n \<le> 2 ^ 50"
      using 2(4) assms(2-4) by (auto simp: clamp_quantity_def)
    have "n' \<le> n" unfolding 2(7) using 2(5) n assms(5) c by (intro shares_within_clamp)
    then show ?thesis
      using q assms(1) 2(3,4) by (auto simp: clamp_quantity_def raw_def split: if_splits)
  qed
  have "of_int (py_int raw) * risk_per_share sz q \<le> target_risk sz q * (1 + two_pow (- 53))"
    using assms(6,7) by (intro shares_cost) (simp_all add: raw_def)
  moreover have "of_int (quantity (calculate_quantity sz q)) * risk_per_share sz q
      \<le> of_int (py_int raw) * risk_per_share sz q"
    using le assms(6) by (intro mult_right_mono) simp_all
  ultimately show ?thesis by linarith
qed

theorem sizing_risk_target_witness:
  "257 * risk_per_share (new_sizer empty_cfg) sample_request
     \<le> target_risk (new_sizer empty_cfg) sample_request * (1 + two_pow (- 53))"
proof -
  have "min_quantity (new_sizer empty_cfg) < 257" "0 \<le> min_quantity (new_sizer empty_cfg)"
    "min_quantity (new_sizer empty_cfg) \<le> max_quantity (new_sizer empty_cfg)"
    "max_quantity (new_sizer empty_cfg) \<le> 2 ^ 50" "1 \<le> sq_price sample_request"
    "0 < risk_per_share (new_sizer empty_cfg) sample_request"
    "0 \<le> target_risk (new_sizer empty_cfg) sample_request"
    by (simp_all add: sample_amounts) (simp add: sample_request_def)
  from sizing_risk_target [of "new_sizer empty_cfg" sample_request, unfolded sample_quantity, OF this]
  show ?thesis by simp
qed

text \<open>
  An absent ATR is not sized: the fallback of two per cent of the price, written
  for \<open>None\<close> as well, is never reached for it, because the log line before it formats the
  value and raises; the answer is a quantity of zero. For a value that is not a number or
  not positive the fallback does apply.
\<close>

theorem absent_atr_not_sized:
  "calculate_quantity sz (q\<lparr>sq_atr := ATR_None\<rparr>) = create_result 0 (Calculation_error TypeError) \<and>
   effective_atr (q\<lparr>sq_atr := ATR_NaN\<rparr>) = fmul (sq_price q) (fl (2/100)) \<and>
   calculate_quantity sz (q\<lparr>sq_atr := ATR_NaN\<rparr>) = calculate_quantity sz (q\<lparr>sq_atr := ATR 0\<rparr>)"
proof -
  have "size_try sz (q\<lparr>sq_atr := ATR_NaN\<rparr>) = size_try sz (q\<lparr>sq_atr := ATR 0\<rparr>)"
    by (simp add: size_try_def total_assets_of_def target_risk_def effective_risk_pct_def
        risk_per_share_def effective_atr_def position_cap_def cap_by_assets_def cap_by_cash_def
        finish_sizing_def cong: if_cong)
  then show ?thesis
    by (simp add: calculate_quantity_def size_try_def [of sz "q\<lparr>sq_atr := ATR_None\<rparr>"] effective_atr_def)
qed

text \<open>
  The configured maximum share of one position has no effect on the size: the
  sizer reads \<open>MAX_POSITION_VALUE_PCT\<close>, but two sizers that differ only in it size every
  request alike.
\<close>

theorem sizing_ignores_position_value_pct:
  "calculate_quantity (sz\<lparr>max_position_value_pct := x\<rparr>) q = calculate_quantity sz q"
proof -
  have "size_try (sz\<lparr>max_position_value_pct := x\<rparr>) q = size_try sz q"
    by (simp add: size_try_def target_risk_def effective_risk_pct_def clamp_quantity_def
        risk_per_share_def position_cap_def cap_by_cash_def finish_sizing_def cong: if_cong)
  then show ?thesis by (simp add: calculate_quantity_def)
qed

end
