(* ===== verification/Sector_Classifier.thy ===== *)
theory Sector_Classifier
  imports Redis_Iface
begin

text \<open>
  Sectors of stocks: the taxonomy \<open>shared/sector_taxonomy.py\<close> and the classifier
  \<open>shared/sector_classifier.py\<close> with its cache, its row of \<open>STOCK_MASTER\<close> and the guess
  from the name. Korean names are their UTF-8 bytes; a substring test on the bytes is the
  test on the texts, since UTF-8 is self-synchronising.
\<close>

definition utf8 :: "nat list \<Rightarrow> string" where
  "utf8 bs = map char_of bs"

text \<open>The catch-all sector, and the label of an unclassified stock.\<close>

definition SECTOR_OTHER :: string where
  "SECTOR_OTHER = utf8 [234, 184, 176, 237, 131, 128]"

definition SECTOR_UNCLASSIFIED :: string where
  "SECTOR_UNCLASSIFIED = utf8 [235, 175, 184, 235, 182, 132, 235, 165, 152]"

section \<open>Tables\<close>

definition NAVER_TO_GROUP :: "(string \<times> string) list" where
  "NAVER_TO_GROUP = [
     (utf8 [235, 176, 152, 235, 143, 132, 236, 178, 180, 236, 153, 128, 235, 176, 152, 235, 143, 132, 236, 178, 180, 236, 158, 165, 235, 185, 132], utf8 [235, 176, 152, 235, 143, 132, 236, 178, 180, 47, 73, 84]),
     (utf8 [235, 148, 148, 236, 138, 164, 237, 148, 140, 235, 160, 136, 236, 157, 180, 236, 158, 165, 235, 185, 132, 235, 176, 143, 235, 182, 128, 237, 146, 136], utf8 [235, 176, 152, 235, 143, 132, 236, 178, 180, 47, 73, 84]),
     (utf8 [235, 148, 148, 236, 138, 164, 237, 148, 140, 235, 160, 136, 236, 157, 180, 237, 140, 168, 235, 132, 144], utf8 [235, 176, 152, 235, 143, 132, 236, 178, 180, 47, 73, 84]),
     (utf8 [236, 160, 132, 236, 158, 144, 236, 158, 165, 235, 185, 132, 236, 153, 128, 234, 184, 176, 234, 184, 176], utf8 [235, 176, 152, 235, 143, 132, 236, 178, 180, 47, 73, 84]),
     (utf8 [236, 160, 132, 236, 158, 144, 236, 160, 156, 237, 146, 136], utf8 [235, 176, 152, 235, 143, 132, 236, 178, 180, 47, 73, 84]),
     (utf8 [236, 187, 180, 237, 147, 168, 237, 132, 176, 236, 153, 128, 236, 163, 188, 235, 179, 128, 234, 184, 176, 234, 184, 176], utf8 [235, 176, 152, 235, 143, 132, 236, 178, 180, 47, 73, 84]),
     (utf8 [237, 149, 184, 235, 147, 156, 236, 133, 139], utf8 [235, 176, 152, 235, 143, 132, 236, 178, 180, 47, 73, 84]),
     (utf8 [236, 130, 172, 235, 172, 180, 236, 154, 169, 236, 160, 132, 236, 158, 144, 236, 160, 156, 237, 146, 136], utf8 [235, 176, 152, 235, 143, 132, 236, 178, 180, 47, 73, 84]),
     (utf8 [236, 160, 132, 234, 184, 176, 236, 160, 156, 237, 146, 136], utf8 [235, 176, 152, 235, 143, 132, 236, 178, 180, 47, 73, 84]),
     (utf8 [236, 134, 140, 237, 148, 132, 237, 138, 184, 236, 155, 168, 236, 150, 180], ''IT/SW''),
     (utf8 [73, 84, 236, 132, 156, 235, 185, 132, 236, 138, 164], ''IT/SW''),
     (utf8 [236, 150, 145, 235, 176, 169, 237, 150, 165, 235, 175, 184, 235, 148, 148, 236, 150, 180, 236, 153, 128, 236, 132, 156, 235, 185, 132, 236, 138, 164], ''IT/SW''),
     (utf8 [236, 157, 184, 237, 132, 176, 235, 132, 183, 234, 179, 188, 236, 185, 180, 237, 131, 136, 235, 161, 156, 234, 183, 184, 236, 134, 140, 235, 167, 164], ''IT/SW''),
     (utf8 [237, 134, 181, 236, 139, 160, 236, 158, 165, 235, 185, 132], utf8 [237, 134, 181, 236, 139, 160]),
     (utf8 [235, 139, 164, 234, 176, 129, 237, 153, 148, 235, 144, 156, 237, 134, 181, 236, 139, 160, 236, 132, 156, 235, 185, 132, 236, 138, 164], utf8 [237, 134, 181, 236, 139, 160]),
     (utf8 [235, 172, 180, 236, 132, 160, 237, 134, 181, 236, 139, 160, 236, 132, 156, 235, 185, 132, 236, 138, 164], utf8 [237, 134, 181, 236, 139, 160]),
     (utf8 [234, 178, 140, 236, 158, 132, 236, 151, 148, 237, 132, 176, 237, 133, 140, 236, 157, 184, 235, 168, 188, 237, 138, 184], utf8 [234, 178, 140, 236, 158, 132, 47, 236, 151, 148, 237, 132, 176]),
     (utf8 [235, 176, 169, 236, 134, 161, 234, 179, 188, 236, 151, 148, 237, 132, 176, 237, 133, 140, 236, 157, 184, 235, 168, 188, 237, 138, 184], utf8 [234, 178, 140, 236, 158, 132, 47, 236, 151, 148, 237, 132, 176]),
     (utf8 [235, 160, 136, 236, 160, 128, 236, 154, 169, 236, 158, 165, 235, 185, 132, 236, 153, 128, 236, 160, 156, 237, 146, 136], utf8 [234, 178, 140, 236, 158, 132, 47, 236, 151, 148, 237, 132, 176]),
     (utf8 [234, 180, 145, 234, 179, 160], utf8 [234, 178, 140, 236, 158, 132, 47, 236, 151, 148, 237, 132, 176]),
     (utf8 [236, 182, 156, 237, 140, 144], utf8 [234, 178, 140, 236, 158, 132, 47, 236, 151, 148, 237, 132, 176]),
     (utf8 [236, 158, 144, 235, 143, 153, 236, 176, 168], utf8 [236, 158, 144, 235, 143, 153, 236, 176, 168]),
     (utf8 [236, 158, 144, 235, 143, 153, 236, 176, 168, 235, 182, 128, 237, 146, 136], utf8 [236, 158, 144, 235, 143, 153, 236, 176, 168]),
     (utf8 [236, 161, 176, 236, 132, 160], utf8 [236, 161, 176, 236, 132, 160, 47, 235, 176, 169, 236, 130, 176]),
     (utf8 [236, 154, 176, 236, 163, 188, 237, 149, 173, 234, 179, 181, 234, 179, 188, 234, 181, 173, 235, 176, 169], utf8 [236, 161, 176, 236, 132, 160, 47, 235, 176, 169, 236, 130, 176]),
     (utf8 [237, 153, 148, 237, 149, 153], utf8 [236, 151, 144, 235, 132, 136, 236, 167, 128, 47, 237, 153, 148, 237, 149, 153]),
     (utf8 [236, 132, 157, 236, 156, 160, 236, 153, 128, 234, 176, 128, 236, 138, 164], utf8 [236, 151, 144, 235, 132, 136, 236, 167, 128, 47, 237, 153, 148, 237, 149, 153]),
     (utf8 [236, 151, 144, 235, 132, 136, 236, 167, 128, 236, 158, 165, 235, 185, 132, 235, 176, 143, 236, 132, 156, 235, 185, 132, 236, 138, 164], utf8 [236, 151, 144, 235, 132, 136, 236, 167, 128, 47, 237, 153, 148, 237, 149, 153]),
     (utf8 [234, 176, 128, 236, 138, 164, 236, 156, 160, 237, 139, 184, 235, 166, 172, 237, 139, 176], utf8 [236, 151, 144, 235, 132, 136, 236, 167, 128, 47, 237, 153, 148, 237, 149, 153]),
     (utf8 [236, 160, 132, 234, 184, 176, 236, 156, 160, 237, 139, 184, 235, 166, 172, 237, 139, 176], utf8 [236, 160, 132, 235, 160, 165, 47, 236, 156, 160, 237, 139, 184, 235, 166, 172, 237, 139, 176]),
     (utf8 [235, 179, 181, 237, 149, 169, 236, 156, 160, 237, 139, 184, 235, 166, 172, 237, 139, 176], utf8 [236, 160, 132, 235, 160, 165, 47, 236, 156, 160, 237, 139, 184, 235, 166, 172, 237, 139, 176]),
     (utf8 [236, 160, 132, 234, 184, 176, 236, 158, 165, 235, 185, 132], utf8 [236, 160, 132, 235, 160, 165, 47, 236, 156, 160, 237, 139, 184, 235, 166, 172, 237, 139, 176]),
     (utf8 [236, 160, 156, 236, 149, 189], utf8 [235, 176, 148, 236, 157, 180, 236, 152, 164]),
     (utf8 [236, 131, 157, 235, 172, 188, 234, 179, 181, 237, 149, 153], utf8 [235, 176, 148, 236, 157, 180, 236, 152, 164]),
     (utf8 [236, 131, 157, 235, 170, 133, 234, 179, 188, 237, 149, 153, 235, 143, 132, 234, 181, 172, 235, 176, 143, 236, 132, 156, 235, 185, 132, 236, 138, 164], utf8 [235, 176, 148, 236, 157, 180, 236, 152, 164]),
     (utf8 [234, 177, 180, 234, 176, 149, 234, 180, 128, 235, 166, 172, 236, 158, 165, 235, 185, 132, 236, 153, 128, 236, 154, 169, 237, 146, 136], utf8 [235, 176, 148, 236, 157, 180, 236, 152, 164]),
     (utf8 [234, 177, 180, 234, 176, 149, 234, 180, 128, 235, 166, 172, 236, 151, 133, 236, 178, 180, 235, 176, 143, 236, 132, 156, 235, 185, 132, 236, 138, 164], utf8 [235, 176, 148, 236, 157, 180, 236, 152, 164]),
     (utf8 [234, 177, 180, 234, 176, 149, 234, 180, 128, 235, 166, 172, 234, 184, 176, 236, 136, 160], utf8 [235, 176, 148, 236, 157, 180, 236, 152, 164]),
     (utf8 [236, 157, 128, 237, 150, 137], utf8 [234, 184, 136, 236, 156, 181]),
     (utf8 [236, 166, 157, 234, 182, 140], utf8 [234, 184, 136, 236, 156, 181]),
     (utf8 [236, 134, 144, 237, 149, 180, 235, 179, 180, 237, 151, 152], utf8 [234, 184, 136, 236, 156, 181]),
     (utf8 [236, 131, 157, 235, 170, 133, 235, 179, 180, 237, 151, 152], utf8 [234, 184, 136, 236, 156, 181]),
     (utf8 [236, 185, 180, 235, 147, 156], utf8 [234, 184, 136, 236, 156, 181]),
     (utf8 [234, 184, 176, 237, 131, 128, 234, 184, 136, 236, 156, 181], utf8 [234, 184, 136, 236, 156, 181]),
     (utf8 [236, 176, 189, 236, 151, 133, 237, 136, 172, 236, 158, 144], utf8 [234, 184, 136, 236, 156, 181]),
     (utf8 [236, 139, 157, 237, 146, 136], utf8 [236, 134, 140, 235, 185, 132, 236, 158, 172]),
     (utf8 [236, 139, 157, 237, 146, 136, 234, 179, 188, 234, 184, 176, 235, 179, 184, 236, 139, 157, 235, 163, 140, 237, 146, 136, 236, 134, 140, 235, 167, 164], utf8 [236, 134, 140, 235, 185, 132, 236, 158, 172]),
     (utf8 [236, 157, 140, 235, 163, 140], utf8 [236, 134, 140, 235, 185, 132, 236, 158, 172]),
     (utf8 [235, 139, 180, 235, 176, 176], utf8 [236, 134, 140, 235, 185, 132, 236, 158, 172]),
     (utf8 [234, 176, 128, 236, 160, 149, 236, 154, 169, 237, 146, 136], utf8 [236, 134, 140, 235, 185, 132, 236, 158, 172]),
     (utf8 [234, 176, 128, 236, 160, 149, 236, 154, 169, 234, 184, 176, 234, 184, 176, 236, 153, 128, 236, 154, 169, 237, 146, 136], utf8 [236, 134, 140, 235, 185, 132, 236, 158, 172]),
     (utf8 [237, 153, 148, 236, 158, 165, 237, 146, 136], utf8 [236, 134, 140, 235, 185, 132, 236, 158, 172]),
     (utf8 [236, 132, 172, 236, 156, 160, 44, 236, 157, 152, 235, 165, 152, 44, 236, 139, 160, 235, 176, 156, 44, 237, 152, 184, 237, 153, 148, 237, 146, 136], utf8 [236, 134, 140, 235, 185, 132, 236, 158, 172]),
     (utf8 [237, 152, 184, 237, 133, 148, 44, 235, 160, 136, 236, 138, 164, 237, 134, 160, 235, 158, 145, 44, 235, 160, 136, 236, 160, 128], utf8 [236, 134, 140, 235, 185, 132, 236, 158, 172]),
     (utf8 [235, 139, 164, 234, 176, 129, 237, 153, 148, 235, 144, 156, 236, 134, 140, 235, 185, 132, 236, 158, 144, 236, 132, 156, 235, 185, 132, 236, 138, 164], utf8 [236, 134, 140, 235, 185, 132, 236, 158, 172]),
     (utf8 [234, 181, 144, 236, 156, 161, 236, 132, 156, 235, 185, 132, 236, 138, 164], utf8 [236, 134, 140, 235, 185, 132, 236, 158, 172]),
     (utf8 [235, 176, 177, 237, 153, 148, 236, 160, 144, 234, 179, 188, 236, 157, 188, 235, 176, 152, 236, 131, 129, 236, 160, 144], utf8 [236, 156, 160, 237, 134, 181]),
     (utf8 [236, 160, 132, 235, 172, 184, 236, 134, 140, 235, 167, 164], utf8 [236, 156, 160, 237, 134, 181]),
     (utf8 [237, 140, 144, 235, 167, 164, 236, 151, 133, 236, 178, 180], utf8 [236, 156, 160, 237, 134, 181]),
     (utf8 [235, 172, 180, 236, 151, 173, 237, 154, 140, 236, 130, 172, 236, 153, 128, 237, 140, 144, 235, 167, 164, 236, 151, 133, 236, 178, 180], utf8 [236, 156, 160, 237, 134, 181]),
     (utf8 [234, 177, 180, 236, 132, 164], utf8 [234, 177, 180, 236, 132, 164, 47, 236, 134, 140, 236, 158, 172]),
     (utf8 [234, 177, 180, 236, 182, 149, 236, 158, 144, 236, 158, 172], utf8 [234, 177, 180, 236, 132, 164, 47, 236, 134, 140, 236, 158, 172]),
     (utf8 [234, 177, 180, 236, 182, 149, 236, 160, 156, 237, 146, 136], utf8 [234, 177, 180, 236, 132, 164, 47, 236, 134, 140, 236, 158, 172]),
     (utf8 [236, 178, 160, 234, 176, 149], utf8 [236, 178, 160, 234, 176, 149, 47, 236, 134, 140, 236, 158, 172]),
     (utf8 [235, 185, 132, 236, 178, 160, 234, 184, 136, 236, 134, 141], utf8 [236, 178, 160, 234, 176, 149, 47, 236, 134, 140, 236, 158, 172]),
     (utf8 [237, 143, 172, 236, 158, 165, 236, 158, 172], utf8 [236, 178, 160, 234, 176, 149, 47, 236, 134, 140, 236, 158, 172]),
     (utf8 [236, 162, 133, 236, 157, 180, 236, 153, 128, 235, 170, 169, 236, 158, 172], utf8 [236, 178, 160, 234, 176, 149, 47, 236, 134, 140, 236, 158, 172]),
     (utf8 [234, 184, 176, 234, 179, 132], utf8 [234, 184, 176, 234, 179, 132]),
     (utf8 [237, 149, 180, 236, 154, 180, 236, 130, 172], utf8 [236, 154, 180, 236, 134, 161]),
     (utf8 [237, 149, 173, 234, 179, 181, 236, 130, 172], utf8 [236, 154, 180, 236, 134, 161]),
     (utf8 [237, 149, 173, 234, 179, 181, 237, 153, 148, 235, 172, 188, 236, 154, 180, 236, 134, 161, 234, 179, 188, 235, 172, 188, 235, 165, 152], utf8 [236, 154, 180, 236, 134, 161]),
     (utf8 [235, 143, 132, 235, 161, 156, 236, 153, 128, 236, 178, 160, 235, 143, 132, 236, 154, 180, 236, 134, 161], utf8 [236, 154, 180, 236, 134, 161]),
     (utf8 [236, 154, 180, 236, 134, 161, 236, 157, 184, 237, 148, 132, 235, 157, 188], utf8 [236, 154, 180, 236, 134, 161]),
     (utf8 [236, 131, 129, 236, 151, 133, 236, 132, 156, 235, 185, 132, 236, 138, 164, 236, 153, 128, 234, 179, 181, 234, 184, 137, 237, 146, 136], utf8 [234, 184, 176, 237, 131, 128]),
     (utf8 [235, 182, 128, 235, 143, 153, 236, 130, 176], utf8 [234, 184, 176, 237, 131, 128]),
     (utf8 [235, 179, 181, 237, 149, 169, 234, 184, 176, 236, 151, 133], utf8 [234, 184, 176, 237, 131, 128]),
     (utf8 [234, 176, 128, 234, 181, 172], utf8 [234, 184, 176, 237, 131, 128]),
     (utf8 [235, 172, 184, 234, 181, 172, 235, 165, 152], utf8 [234, 184, 176, 237, 131, 128]),
     (utf8 [234, 184, 176, 237, 131, 128], utf8 [234, 184, 176, 237, 131, 128])]"

definition SECTOR_KEYWORDS :: "(string \<times> string list) list" where
  "SECTOR_KEYWORDS = [
     (utf8 [236, 160, 149, 235, 179, 180, 237, 134, 181, 236, 139, 160], [utf8 [236, 130, 188, 236, 132, 177, 236, 160, 132, 236, 158, 144],
        utf8 [83, 75, 237, 149, 152, 236, 157, 180, 235, 139, 137, 236, 138, 164],
        ''NAVER'',
        utf8 [236, 185, 180, 236, 185, 180, 236, 152, 164],
        utf8 [236, 130, 188, 236, 132, 177, 83, 68, 73],
        utf8 [76, 71, 236, 160, 132, 236, 158, 144],
        utf8 [236, 130, 188, 236, 132, 177, 236, 160, 132, 234, 184, 176],
        utf8 [83, 75, 237, 133, 148, 235, 160, 136, 236, 189, 164],
        utf8 [237, 149, 152, 236, 157, 180, 235, 184, 140],
        utf8 [237, 129, 172, 235, 158, 152, 237, 148, 132, 237, 134, 164],
        ''KT'',
        utf8 [235, 140, 128, 235, 141, 149, 236, 160, 132, 236, 158, 144],
        utf8 [236, 157, 180, 236, 136, 152, 237, 142, 152, 237, 131, 128, 236, 139, 156, 236, 138, 164],
        utf8 [235, 148, 148, 236, 149, 132, 236, 157, 180],
        utf8 [236, 189, 148, 235, 166, 172, 236, 149, 132, 236, 141, 168, 237, 130, 164, 237, 138, 184],
        utf8 [237, 149, 180, 236, 132, 177, 235, 148, 148, 236, 151, 144, 236, 138, 164],
        utf8 [236, 130, 188, 236, 152, 129]]),
     (utf8 [236, 158, 144, 236, 156, 160, 236, 134, 140, 235, 185, 132, 236, 158, 172], [utf8 [237, 152, 132, 235, 140, 128, 236, 176, 168],
        utf8 [234, 184, 176, 236, 149, 132],
        utf8 [237, 152, 132, 235, 140, 128, 235, 170, 168, 235, 185, 132, 236, 138, 164],
        utf8 [235, 167, 140, 235, 143, 132],
        utf8 [237, 149, 156, 236, 152, 168, 236, 139, 156, 236, 138, 164, 237, 133, 156],
        utf8 [76, 71, 236, 131, 157, 237, 153, 156, 234, 177, 180, 234, 176, 149],
        utf8 [236, 149, 132, 235, 170, 168, 235, 160, 136, 237, 141, 188, 236, 139, 156, 237, 148, 189],
        utf8 [236, 139, 160, 236, 132, 184, 234, 179, 132],
        utf8 [234, 184, 176, 236, 149, 132, 236, 176, 168],
        utf8 [236, 189, 148, 236, 152, 164, 235, 161, 177, 235, 170, 168, 235, 185, 140, 235, 166, 172, 237, 139, 176],
        utf8 [236, 160, 156, 236, 157, 180, 236, 164, 128, 236, 189, 148, 236, 138, 164, 235, 169, 148, 237, 139, 177],
        utf8 [236, 157, 188, 236, 160, 149, 236, 139, 164, 236, 151, 133],
        utf8 [235, 140, 128, 236, 157, 188],
        utf8 [237, 149, 156, 236, 132, 184, 236, 139, 164, 236, 151, 133]]),
     (utf8 [236, 151, 144, 235, 132, 136, 236, 167, 128, 237, 153, 148, 237, 149, 153], [utf8 [76, 71, 237, 153, 148, 237, 149, 153],
        utf8 [83, 75, 236, 157, 180, 235, 133, 184, 235, 178, 160, 236, 157, 180, 236, 133, 152],
        ''S-Oil'',
        utf8 [235, 161, 175, 235, 141, 176, 236, 188, 128, 235, 175, 184, 236, 185, 188],
        utf8 [237, 143, 172, 236, 138, 164, 236, 189, 148, 237, 147, 168, 236, 178, 152, 236, 151, 160],
        utf8 [80, 79, 83, 67, 79, 237, 147, 168, 236, 178, 152, 236, 151, 160],
        utf8 [235, 161, 175, 235, 141, 176, 236, 151, 144, 235, 132, 136, 236, 167, 128, 235, 168, 184, 237, 139, 176, 235, 166, 172, 236, 150, 188, 236, 166, 136],
        utf8 [236, 151, 152, 236, 149, 164, 236, 151, 144, 237, 148, 132],
        utf8 [237, 154, 168, 236, 132, 177],
        utf8 [236, 157, 180, 236, 136, 152, 237, 153, 148, 237, 149, 153]]),
     (utf8 [234, 184, 136, 236, 156, 181], [utf8 [75, 66, 234, 184, 136, 236, 156, 181],
        utf8 [236, 139, 160, 237, 149, 156, 236, 167, 128, 236, 163, 188],
        utf8 [237, 149, 152, 235, 130, 152, 234, 184, 136, 236, 156, 181, 236, 167, 128, 236, 163, 188],
        utf8 [236, 130, 188, 236, 132, 177, 236, 131, 157, 235, 170, 133],
        utf8 [236, 185, 180, 236, 185, 180, 236, 152, 164, 235, 177, 133, 237, 129, 172],
        utf8 [234, 184, 176, 236, 151, 133, 236, 157, 128, 237, 150, 137],
        utf8 [236, 151, 144, 236, 157, 180, 237, 148, 140, 235, 159, 172, 236, 138, 164, 236, 151, 144, 236, 133, 139]]),
     (utf8 [237, 149, 132, 236, 136, 152, 236, 134, 140, 235, 185, 132, 236, 158, 172], [utf8 [236, 130, 188, 236, 132, 177, 235, 176, 148, 236, 157, 180, 236, 152, 164, 235, 161, 156, 236, 167, 129, 236, 138, 164],
        utf8 [236, 133, 128, 237, 138, 184, 235, 166, 172, 236, 152, 168],
        utf8 [83, 75, 235, 176, 148, 236, 157, 180, 236, 152, 164, 236, 130, 172, 236, 157, 180, 236, 150, 184, 236, 138, 164],
        ''KT&G'',
        utf8 [236, 149, 132, 235, 170, 168, 235, 160, 136, 71],
        utf8 [236, 157, 188, 235, 143, 153, 237, 153, 128, 235, 148, 169, 236, 138, 164],
        utf8 [237, 140, 140, 235, 175, 184, 236, 133, 128],
        utf8 [237, 149, 156, 236, 152, 172, 235, 176, 148, 236, 157, 180, 236, 152, 164, 237, 140, 140, 235, 167, 136],
        utf8 [237, 149, 156, 235, 175, 184, 236, 149, 189, 237, 146, 136],
        utf8 [236, 157, 188, 235, 143, 153, 236, 160, 156, 236, 149, 189],
        utf8 [236, 130, 188, 236, 132, 177, 235, 176, 148, 236, 157, 180, 236, 152, 164]]),
     (utf8 [236, 178, 160, 234, 176, 149, 236, 134, 140, 236, 158, 172], [utf8 [80, 79, 83, 67, 79, 237, 153, 128, 235, 148, 169, 236, 138, 164],
        utf8 [234, 179, 160, 235, 160, 164, 236, 149, 132, 236, 151, 176]]),
     (utf8 [236, 161, 176, 236, 132, 160, 236, 154, 180, 236, 134, 161], [utf8 [237, 149, 156, 234, 181, 173, 236, 161, 176, 236, 132, 160, 237, 149, 180, 236, 150, 145],
        ''HMM'',
        utf8 [235, 140, 128, 237, 149, 156, 237, 149, 173, 234, 179, 181],
        utf8 [235, 143, 153, 236, 150, 145, 234, 179, 160, 236, 134, 141]]),
     (utf8 [234, 177, 180, 236, 132, 164, 234, 184, 176, 234, 179, 132], [utf8 [236, 130, 188, 236, 132, 177, 235, 172, 188, 236, 130, 176],
        utf8 [237, 152, 132, 235, 140, 128, 234, 177, 180, 236, 132, 164],
        utf8 [235, 145, 144, 236, 130, 176, 236, 151, 144, 235, 132, 136, 235, 185, 140, 235, 166, 172, 237, 139, 176],
        ''LS ELECTRIC'',
        utf8 [235, 145, 144, 236, 130, 176],
        utf8 [235, 140, 128, 237, 149, 156, 236, 160, 132, 236, 132, 160],
        utf8 [236, 157, 188, 236, 167, 132, 236, 160, 132, 234, 184, 176],
        utf8 [236, 154, 176, 236, 167, 132],
        utf8 [234, 184, 136, 234, 176, 149, 234, 179, 181, 236, 151, 133]]),
     (utf8 [234, 184, 176, 237, 131, 128], [])]"

definition sector_map :: "(string \<times> string) list" where
  "sector_map = [
     (utf8 [236, 160, 132, 234, 184, 176, 236, 160, 132, 236, 158, 144], utf8 [235, 176, 152, 235, 143, 132, 236, 178, 180]),
     (utf8 [236, 154, 180, 236, 136, 152, 236, 158, 165, 235, 185, 132], utf8 [236, 158, 144, 235, 143, 153, 236, 176, 168]),
     (utf8 [237, 153, 148, 237, 149, 153], utf8 [237, 153, 148, 237, 149, 153]),
     (utf8 [236, 157, 128, 237, 150, 137], utf8 [234, 184, 136, 236, 156, 181]),
     (utf8 [236, 166, 157, 234, 182, 140], utf8 [234, 184, 136, 236, 156, 181]),
     (utf8 [236, 157, 152, 236, 149, 189, 237, 146, 136], utf8 [235, 176, 148, 236, 157, 180, 236, 152, 164])]"

section \<open>Lookups\<close>

definition get_sector_group :: "string \<Rightarrow> string" where
  "get_sector_group naver_sector = dict_get NAVER_TO_GROUP naver_sector naver_sector"

definition normalize_sector :: "string \<Rightarrow> string" where
  "normalize_sector sector_raw = dict_get sector_map sector_raw SECTOR_OTHER"

definition infer_sector_from_name :: "string \<Rightarrow> string" where
  "infer_sector_from_name stock_name =
     (case find (\<lambda>(sector, keywords). sector \<noteq> SECTOR_OTHER
                   \<and> (\<exists>k \<in> set keywords. substr k stock_name)) SECTOR_KEYWORDS of
        None \<Rightarrow> SECTOR_OTHER | Some (sector, _) \<Rightarrow> sector)"

text \<open>The two sector columns of the row of a stock; \<open>rows\<close> is the query, which can fail.\<close>

record sector_row =
  sr_naver :: "string option"
  sr_kospi200 :: "string option"

definition row_sector :: "sector_row \<Rightarrow> string \<Rightarrow> string" where
  "row_sector r stock_name = (case sr_naver r of
     Some s \<Rightarrow> if s \<noteq> [] then s else
       (case sr_kospi200 r of
          Some k \<Rightarrow> if k \<noteq> [] \<and> k \<notin> {''etc'', SECTOR_UNCLASSIFIED} then k
                    else infer_sector_from_name stock_name
        | None \<Rightarrow> infer_sector_from_name stock_name)
   | None \<Rightarrow>
       (case sr_kospi200 r of
          Some k \<Rightarrow> if k \<noteq> [] \<and> k \<notin> {''etc'', SECTOR_UNCLASSIFIED} then k
                    else infer_sector_from_name stock_name
        | None \<Rightarrow> infer_sector_from_name stock_name))"

definition get_sector ::
  "bool \<Rightarrow> (string \<Rightarrow> sector_row option res) \<Rightarrow> string \<Rightarrow> string \<Rightarrow> (string \<times> string) list
    \<Rightarrow> string \<times> (string \<times> string) list" where
  "get_sector db_pool_initialized rows stock_code stock_name cache =
     (case map_of cache stock_code of
        Some s \<Rightarrow> (s, cache)
      | None \<Rightarrow>
          (let sector = (if db_pool_initialized then
                 (case rows stock_code of
                    Inr (Some r) \<Rightarrow> row_sector r stock_name
                  | _ \<Rightarrow> infer_sector_from_name stock_name)
               else infer_sector_from_name stock_name)
           in (sector, dict_set stock_code sector cache)))"

definition stock_sector_group ::
  "bool \<Rightarrow> (string \<Rightarrow> sector_row option res) \<Rightarrow> string \<Rightarrow> string \<Rightarrow> (string \<times> string) list
    \<Rightarrow> string \<times> (string \<times> string) list" where
  "stock_sector_group init rows stock_code stock_name cache =
     (let (s, cache') = get_sector init rows stock_code stock_name cache in (get_sector_group s, cache'))"

section \<open>The contract of a classifier\<close>

text \<open>
  A classifier answers a sector and its new cache; once it has answered for a code, it
  answers the same for ever, whatever the name and the database say later.
\<close>

locale classifier =
  fixes classify :: "string \<Rightarrow> string \<Rightarrow> (string \<times> string) list \<Rightarrow> string \<times> (string \<times> string) list"
  assumes remembers: "map_of (snd (classify c n k)) c = Some (fst (classify c n k))"
    and from_cache: "map_of k c = Some s \<Longrightarrow> classify c n k = (s, k)"
    and keeps: "map_of k d = Some s \<Longrightarrow> map_of (snd (classify c n k)) d = Some s"
begin

lemma stable: "classify c n' (snd (classify c n k)) = (fst (classify c n k), snd (classify c n k))"
  by (rule from_cache [OF remembers])

fun classify_all :: "(string \<times> string) list \<Rightarrow> (string \<times> string) list \<Rightarrow> (string \<times> string) list" where
  "classify_all [] k = k"
| "classify_all ((c, n) # r) k = classify_all r (snd (classify c n k))"

lemma keeps_all: "map_of k d = Some s \<Longrightarrow> map_of (classify_all r k) d = Some s"
  by (induction r k rule: classify_all.induct) (auto intro: keeps)

lemma stable_later:
  "fst (classify c n' (classify_all r (snd (classify c n k)))) = fst (classify c n k)"
  using from_cache [OF keeps_all [OF remembers]] by simp

end

interpretation sc: classifier "get_sector init rows" for init rows
proof
  show "map_of (snd (get_sector init rows c n k)) c = Some (fst (get_sector init rows c n k))" for c n k
    by (simp add: get_sector_def Let_def split: option.split)
  show "map_of k c = Some s \<Longrightarrow> get_sector init rows c n k = (s, k)" for k c s n
    by (simp add: get_sector_def)
  show "map_of k d = Some s \<Longrightarrow> map_of (snd (get_sector init rows c n k)) d = Some s" for k d s c n
    by (auto simp: get_sector_def Let_def split: option.split)
qed

end
