(* ===== verification/Sector_Budget.thy ===== *)
theory Sector_Budget
  imports Sector_Classifier "HOL-Library.Multiset"
begin

text \<open>
  The dynamic sector budget, \<open>shared/sector_budget.py\<close>: the aggregation of the detailed
  sectors into groups, the tier of a group by its return and its share of falling stocks,
  the caps per tier, and the greedy choice of the watchlist within the caps. Sector names
  are texts; \<open>resolver\<close> is the function that names the group of a candidate.
\<close>

section \<open>Aggregation\<close>

text \<open>One detailed sector; a missing key of its dictionary is \<open>None\<close>.\<close>

record sector_info =
  si_avg_return :: "rat option"
  si_stock_count :: "int option"
  si_trend_status :: "string option"

record group_sum =
  total_return_weighted :: rat
  total_count :: int
  falling_knife_count :: int

record group_info =
  avg_return :: rat
  stock_count :: int
  falling_knife_ratio :: rat

definition add_sector ::
  "(string \<times> group_sum) list \<Rightarrow> string \<times> sector_info \<Rightarrow> (string \<times> group_sum) list" where
  "add_sector gd p =
     (let (sub_sector, info) = p;
          gname = get_sector_group sub_sector;
          avg_ret = opt_or 0 (si_avg_return info);
          count = opt_or 0 (si_stock_count info);
          trend = opt_or ''NEUTRAL'' (si_trend_status info);
          g = dict_get gd gname
                \<lparr>total_return_weighted = 0, total_count = 0, falling_knife_count = 0\<rparr>
      in dict_set gname
           \<lparr>total_return_weighted = fadd (total_return_weighted g) (fmul avg_ret (of_py_int count)),
            total_count = total_count g + count,
            falling_knife_count = (if trend = ''FALLING_KNIFE'' then falling_knife_count g + count
                                   else falling_knife_count g)\<rparr> gd)"

definition group_result :: "string \<times> group_sum \<Rightarrow> (string \<times> group_info) option" where
  "group_result p =
     (let (gname, g) = p
      in if 0 < total_count g then Some (gname,
           \<lparr>avg_return = fdiv (total_return_weighted g) (of_py_int (total_count g)),
            stock_count = total_count g,
            falling_knife_ratio = fdiv (of_int (falling_knife_count g)) (of_int (total_count g))\<rparr>)
         else None)"

definition aggregate_sector_analysis_to_groups ::
  "(string \<times> sector_info) list \<Rightarrow> (string \<times> group_info) list" where
  "aggregate_sector_analysis_to_groups sector_analysis =
     List.map_filter group_result (foldl add_sector [] sector_analysis)"

section \<open>Tiers\<close>

datatype tier = HOT | WARM | COOL

definition FALLING_KNIFE_THRESHOLD :: rat where "FALLING_KNIFE_THRESHOLD = fl (3/10)"

definition p25_idx :: "nat \<Rightarrow> nat" where
  "p25_idx n = nat (max 0 (py_int (fmul (of_py_int (int n)) (1/4)) - 1))"

definition p75_idx :: "nat \<Rightarrow> nat" where
  "p75_idx n = nat (min (int n - 1) (py_int (fmul (of_py_int (int n)) (3/4))))"

definition tier_of :: "rat \<Rightarrow> rat \<Rightarrow> group_info \<Rightarrow> tier" where
  "tier_of p25 p75 info =
     (if FALLING_KNIFE_THRESHOLD \<le> falling_knife_ratio info
         \<or> (avg_return info \<le> p25 \<and> avg_return info < 0) then COOL
      else if p75 \<le> avg_return info \<and> 0 < avg_return info then HOT
      else WARM)"

definition assign_sector_tiers :: "(string \<times> group_info) list \<Rightarrow> (string \<times> tier) list" where
  "assign_sector_tiers ga =
     (if ga = [] then []
      else (let returns = sort (map (avg_return \<circ> snd) ga);
                n = length returns;
                p25 = returns ! p25_idx n;
                p75 = returns ! p75_idx n
            in map (\<lambda>(gname, info). (gname, tier_of p25 p75 info)) ga))"

section \<open>Budget\<close>

fun tier_caps :: "tier \<Rightarrow> int" where
  "tier_caps HOT = 5"
| "tier_caps WARM = 3"
| "tier_caps COOL = 2"

record budget_entry =
  sb_tier :: tier
  watchlist_cap :: int
  portfolio_cap :: int
  effective_watchlist_cap :: int

definition budget_for :: "tier \<Rightarrow> int \<Rightarrow> budget_entry" where
  "budget_for t current_held =
     (let wl_cap = tier_caps t; pf_cap = tier_caps t;
          portfolio_room = max 0 (pf_cap - current_held)
      in \<lparr>sb_tier = t, watchlist_cap = wl_cap, portfolio_cap = pf_cap,
          effective_watchlist_cap = max 1 (min wl_cap (portfolio_room + 1))\<rparr>)"

definition compute_sector_budget ::
  "(string \<times> tier) list \<Rightarrow> (string \<times> int) list \<Rightarrow> (string \<times> budget_entry) list" where
  "compute_sector_budget tiers holdings =
     map (\<lambda>(gname, t). (gname, budget_for t (dict_get holdings gname 0))) tiers"

section \<open>Selection\<close>

record candidate =
  cand_code :: string
  cand_name :: string
  cand_score :: rat

text \<open>\<open>sorted(..., reverse=True)\<close> keeps the order of equal scores.\<close>

definition by_score :: "candidate list \<Rightarrow> candidate list" where
  "by_score cs = sort_key (\<lambda>c. - cand_score c) cs"

definition cap_of :: "(string \<times> budget_entry) list \<Rightarrow> string \<Rightarrow> int" where
  "cap_of budget gname = (case map_of budget gname of
     None \<Rightarrow> tier_caps WARM | Some b \<Rightarrow> effective_watchlist_cap b)"

text \<open>
  The greedy loop: the slots left, the count per group, the candidates in order. It answers
  those selected and those skipped because their group was full.
\<close>

fun greedy ::
  "(string \<Rightarrow> int) \<Rightarrow> (candidate \<Rightarrow> string) \<Rightarrow> nat \<Rightarrow> (string \<times> int) list
    \<Rightarrow> candidate list \<Rightarrow> candidate list \<times> candidate list" where
  "greedy cap grp slots counts [] = ([], [])"
| "greedy cap grp slots counts (c # cs) =
     (if slots = 0 then ([], [])
      else if dict_get counts (grp c) 0 < cap (grp c) then
        (let (sel, skp) = greedy cap grp (slots - 1) (dict_set (grp c) (dict_get counts (grp c) 0 + 1) counts) cs
         in (c # sel, skp))
      else
        (let (sel, skp) = greedy cap grp slots counts cs in (sel, c # skp)))"

definition select_with_sector_budget ::
  "(string \<times> budget_entry) list \<Rightarrow> nat \<Rightarrow> (string \<Rightarrow> string \<Rightarrow> string) \<Rightarrow> candidate list \<Rightarrow> candidate list" where
  "select_with_sector_budget budget max_size resolver candidates =
     (if candidates = [] then []
      else if budget = [] then take max_size (by_score candidates)
      else (let (selected, skipped) = greedy (cap_of budget)
                  (\<lambda>c. resolver (cand_code c) (cand_name c)) max_size [] (by_score candidates)
            in if length selected < max_size \<and> skipped \<noteq> []
               then selected @ take (max_size - length selected) skipped
               else selected))"

section \<open>Storage\<close>

definition REDIS_KEY :: string where "REDIS_KEY = ''sector_budget:active''"
definition REDIS_TTL :: int where "REDIS_TTL = 86400"

fun tier_name :: "tier \<Rightarrow> string" where
  "tier_name HOT = ''HOT''" | "tier_name WARM = ''WARM''" | "tier_name COOL = ''COOL''"

definition budget_json :: "(string \<times> budget_entry) list \<Rightarrow> pyval" where
  "budget_json budget = PDict (map (\<lambda>(gname, b). (gname, PDict
     [(''tier'', PStr (tier_name (sb_tier b))), (''watchlist_cap'', PInt (watchlist_cap b)),
      (''portfolio_cap'', PInt (portfolio_cap b)),
      (''effective_watchlist_cap'', PInt (effective_watchlist_cap b))])) budget)"

definition save_sector_budget_to_redis ::
  "'s redis \<Rightarrow> (string \<times> budget_entry) list \<Rightarrow> 's \<Rightarrow> bool \<times> 's" where
  "save_sector_budget_to_redis R budget = with_redis R False (\<lambda>s. catching False
     (cmd_bind (r_setex R REDIS_KEY REDIS_TTL (Dumps (budget_json budget)) s) (\<lambda>_ s. (Inr True, s))))"

definition load_sector_budget_from_redis :: "'s redis \<Rightarrow> 's \<Rightarrow> pyval option \<times> 's" where
  "load_sector_budget_from_redis R = with_redis R None (\<lambda>s. catching None
     (cmd_bind (r_get R REDIS_KEY s) (\<lambda>raw s. case raw of
        None \<Rightarrow> (Inr None, s)
      | Some d \<Rightarrow> (res_bind (json_loads d) (\<lambda>v. Inr (Some v)), s))))"

section \<open>The greedy loop\<close>

definition group_count :: "(candidate \<Rightarrow> string) \<Rightarrow> string \<Rightarrow> candidate list \<Rightarrow> int" where
  "group_count grp g cs = int (length (filter (\<lambda>c. grp c = g) cs))"

lemma group_count_simps [simp]:
  "group_count grp g [] = 0"
  "group_count grp g (c # cs) = (if grp c = g then 1 else 0) + group_count grp g cs"
  by (simp_all add: group_count_def)

lemma greedy_length: "length (fst (greedy cap grp n k cs)) \<le> n"
  by (induction cap grp n k cs rule: greedy.induct) (auto simp: case_prod_beta)

lemma greedy_caps:
  "dict_get counts g 0 + group_count grp g (fst (greedy cap grp n counts cs)) \<le> max (dict_get counts g 0) (cap g)"
proof (induction cap grp n counts cs rule: greedy.induct)
  case (2 cap grp n counts c cs)
  show ?case
  proof (cases "n = 0 \<or> \<not> dict_get counts (grp c) 0 < cap (grp c)")
    case True
    then show ?thesis using 2(2) by (auto simp: case_prod_beta)
  next
    case False
    with 2(1) have "dict_get (dict_set (grp c) (dict_get counts (grp c) 0 + 1) counts) g 0 + group_count grp g
        (fst (greedy cap grp (n - 1) (dict_set (grp c) (dict_get counts (grp c) 0 + 1) counts) cs))
      \<le> max (dict_get (dict_set (grp c) (dict_get counts (grp c) 0 + 1) counts) g 0) (cap g)" by simp
    with False show ?thesis
      by (auto simp: case_prod_beta max_def split: if_splits)
  qed
qed simp

text \<open>A skipped candidate's group is full with what was selected.\<close>

lemma greedy_skipped_full:
  "c \<in> set (snd (greedy cap grp n counts cs)) \<Longrightarrow>
   cap (grp c) \<le> dict_get counts (grp c) 0 + group_count grp (grp c) (fst (greedy cap grp n counts cs))"
proof (induction cap grp n counts cs rule: greedy.induct)
  case (2 cap grp n counts d cs)
  show ?case
  proof (cases "n = 0")
    case False
    show ?thesis
    proof (cases "dict_get counts (grp d) 0 < cap (grp d)")
      case True
      then show ?thesis using 2 False by (auto simp: case_prod_beta split: if_splits)
    next
      case full: False
      have "0 \<le> group_count grp (grp d) xs" for xs by (simp add: group_count_def)
      then have "cap (grp d) \<le> dict_get counts (grp d) 0 + group_count grp (grp d) xs" for xs
        using full by (simp add: add_increasing2)
      then show ?thesis using 2 False full by (auto simp: case_prod_beta)
    qed
  qed (use 2 in simp)
qed simp

text \<open>Nothing is lost while slots remain.\<close>

lemma greedy_all:
  "length (fst (greedy cap grp n counts cs)) < n \<Longrightarrow>
   mset (fst (greedy cap grp n counts cs)) + mset (snd (greedy cap grp n counts cs)) = mset cs"
proof (induction cap grp n counts cs rule: greedy.induct)
  case (2 cap grp n counts c cs)
  then show ?case
    by (cases "n = 0"; cases "dict_get counts (grp c) 0 < cap (grp c)")
       (simp_all add: case_prod_beta)
qed simp

lemma greedy_part:
  "mset (fst (greedy cap grp n counts cs)) + mset (snd (greedy cap grp n counts cs)) \<subseteq># mset cs"
  by (induction cap grp n counts cs rule: greedy.induct) (auto simp: case_prod_beta)

lemma mset_take_subset: "mset (take n xs) \<subseteq># mset xs"
  by (metis append_take_drop_id mset_append mset_subset_eq_add_left)

section \<open>The contract of the caps\<close>

text \<open>What the selection needs from the caps: no group is shut out.\<close>

locale sector_caps =
  fixes cap :: "string \<Rightarrow> int"
  assumes cap_pos: "1 \<le> cap g"
begin

lemma greedy_takes_first:
  "n \<noteq> 0 \<Longrightarrow> fst (greedy cap grp n [] (c # cs)) \<noteq> [] \<and>
    hd (fst (greedy cap grp n [] (c # cs))) = c"
  using cap_pos [of "grp c"] by (simp add: case_prod_beta)

lemma skipped_group_present:
  assumes "c \<in> set (snd (greedy cap grp n [] cs))"
  shows "\<exists>d \<in> set (fst (greedy cap grp n [] cs)). grp d = grp c"
proof -
  have "1 \<le> group_count grp (grp c) (fst (greedy cap grp n [] cs))"
    using greedy_skipped_full [OF assms] cap_pos [of "grp c"] by simp
  then have "filter (\<lambda>d. grp d = grp c) (fst (greedy cap grp n [] cs)) \<noteq> []"
    by (auto simp: group_count_def)
  then show ?thesis by (auto simp: filter_empty_conv)
qed

end

lemma budget_for_bounds:
  "1 \<le> effective_watchlist_cap (budget_for t h)"
  "effective_watchlist_cap (budget_for t h) \<le> watchlist_cap (budget_for t h)"
  "watchlist_cap (budget_for t h) = tier_caps t" "portfolio_cap (budget_for t h) = tier_caps t"
  by (cases t; simp add: budget_for_def Let_def)+

lemma compute_budget_lookup:
  "map_of (compute_sector_budget tiers h) g =
     map_option (\<lambda>t. budget_for t (dict_get h g 0)) (map_of tiers g)"
  by (induction tiers) (auto simp: compute_sector_budget_def)

interpretation sb: sector_caps "cap_of (compute_sector_budget tiers holdings)" for tiers holdings
  by unfold_locales
     (simp add: cap_of_def compute_budget_lookup budget_for_bounds split: option.split)

section \<open>Properties\<close>

text \<open>
  The watchlist keeps to the sector caps as long as it can: it is the greedy
  selection, which respects the effective cap of every group, followed by candidates taken
  only to fill slots that are still free, each of a group that is at its cap; it is as long
  as slots and candidates allow, and takes no candidate twice.
\<close>

theorem watchlist_respects_caps:
  assumes "candidates \<noteq> []" "budget \<noteq> []" "\<And>g. 0 \<le> cap_of budget g"
  shows "\<exists>sel fill. select_with_sector_budget budget n resolver candidates = sel @ fill \<and>
    (\<forall>g. group_count (\<lambda>c. resolver (cand_code c) (cand_name c)) g sel \<le> cap_of budget g) \<and>
    (\<forall>c \<in> set fill. group_count (\<lambda>c. resolver (cand_code c) (cand_name c))
        (resolver (cand_code c) (cand_name c)) sel = cap_of budget (resolver (cand_code c) (cand_name c))) \<and>
    length (sel @ fill) = min n (length candidates) \<and>
    mset (sel @ fill) \<subseteq># mset candidates"
proof -
  let ?grp = "\<lambda>c. resolver (cand_code c) (cand_name c)"
  let ?p = "greedy (cap_of budget) ?grp n [] (by_score candidates)"
  let ?sel = "fst ?p" and ?skp = "snd ?p"
  let ?fill = "take (n - length ?sel) ?skp"
  have ms: "mset (by_score candidates) = mset candidates" by (simp add: by_score_def)
  have caps: "group_count ?grp g ?sel \<le> cap_of budget g" for g
    using greedy_caps [of "[]" g ?grp "cap_of budget" n "by_score candidates"] assms(3) [of g]
    by (simp add: max_def)
  have full: "group_count ?grp (?grp c) ?sel = cap_of budget (?grp c)" if "c \<in> set ?fill" for c
    using greedy_skipped_full [of c "cap_of budget" ?grp n "[]" "by_score candidates"]
      caps [of "?grp c"] in_set_takeD [OF that] by simp
  have len: "length ?sel \<le> n" by (rule greedy_length)
  have sub: "mset ?sel + mset ?skp \<subseteq># mset candidates"
    using greedy_part [of "cap_of budget" ?grp n "[]" "by_score candidates"] ms by simp
  have "length ?sel + length ?fill = min n (length candidates)"
  proof (cases "length ?sel < n")
    case True
    from greedy_all [OF True] have "size (mset ?sel + mset ?skp) = size (mset candidates)"
      by (simp only: ms)
    then show ?thesis using len by simp
  next
    case False
    then have "length ?sel = n" using len by simp
    moreover have "length ?sel + length ?skp \<le> length candidates"
      using size_mset_mono [OF sub] by simp
    ultimately show ?thesis by simp
  qed
  moreover have "mset (?sel @ ?fill) \<subseteq># mset candidates"
    using subset_mset.order_trans [OF subset_mset.add_left_mono [OF mset_take_subset] sub]
    by (simp only: mset_append)
  moreover have "select_with_sector_budget budget n resolver candidates = ?sel @ ?fill"
    using assms(1,2) len by (auto simp: select_with_sector_budget_def case_prod_beta)
  ultimately show ?thesis using caps full by (intro exI [of _ ?sel] exI [of _ ?fill]) auto
qed

text \<open>The example of the header: three slots, two banks allowed.\<close>

definition sample_candidates :: "candidate list" where
  "sample_candidates = [\<lparr>cand_code = ''1'', cand_name = ''bank'', cand_score = 90\<rparr>,
     \<lparr>cand_code = ''2'', cand_name = ''bank'', cand_score = 80\<rparr>,
     \<lparr>cand_code = ''3'', cand_name = ''bank'', cand_score = 85\<rparr>,
     \<lparr>cand_code = ''4'', cand_name = ''chip'', cand_score = 70\<rparr>]"

theorem watchlist_respects_caps_witness:
  "length (select_with_sector_budget (compute_sector_budget [(''bank'', COOL)] []) 3
     (\<lambda>_ n. n) sample_candidates) = 3 \<and>
   map cand_code (select_with_sector_budget (compute_sector_budget [(''bank'', COOL)] []) 3
     (\<lambda>_ n. n) sample_candidates) = [''1'', ''3'', ''4'']"
proof -
  have "sample_candidates \<noteq> []" "compute_sector_budget [(''bank'', COOL)] [] \<noteq> []"
    by (simp_all add: sample_candidates_def compute_sector_budget_def)
  moreover have "0 \<le> cap_of (compute_sector_budget [(''bank'', COOL)] []) g" for g
    using sb.cap_pos [of "[(''bank'', COOL)]" "[]" g] by simp
  ultimately have "length (select_with_sector_budget (compute_sector_budget [(''bank'', COOL)] []) 3
     (\<lambda>_ n. n) sample_candidates) = min 3 (length sample_candidates)"
    using watchlist_respects_caps [of sample_candidates "compute_sector_budget [(''bank'', COOL)] []" 3 "\<lambda>_ n. n"]
    by (metis (no_types, lifting))
  then show ?thesis by (simp add: sample_candidates_def) code_simp
qed

text \<open>
  No sector is shut out: with a budget computed from tiers, whatever is already
  held, the candidate with the highest score is selected first, and the sector of every
  candidate the loop skips is represented in the selection.
\<close>

theorem budget_shuts_no_sector_out:
  assumes "n \<noteq> 0" "by_score candidates = c # cs" "tiers \<noteq> []"
  shows "hd (select_with_sector_budget (compute_sector_budget tiers held) n resolver candidates) = c \<and>
    (\<forall>d \<in> set (snd (greedy (cap_of (compute_sector_budget tiers held)) grp n [] candidates)).
       \<exists>e \<in> set (fst (greedy (cap_of (compute_sector_budget tiers held)) grp n [] candidates)).
         grp e = grp d)"
proof -
  have "candidates \<noteq> []" using assms(2) by (auto simp: by_score_def)
  moreover have "compute_sector_budget tiers held \<noteq> []"
    using assms(3) by (simp add: compute_sector_budget_def)
  moreover define p where "p = greedy (cap_of (compute_sector_budget tiers held))
      (\<lambda>c. resolver (cand_code c) (cand_name c)) n [] (by_score candidates)"
  moreover have "fst p \<noteq> [] \<and> hd (fst p) = c"
    unfolding p_def assms(2) by (rule sb.greedy_takes_first [OF assms(1)])
  ultimately have "hd (select_with_sector_budget (compute_sector_budget tiers held) n resolver candidates) = c"
    by (simp add: select_with_sector_budget_def case_prod_beta Let_def)
  then show ?thesis using sb.skipped_group_present by blast
qed

theorem budget_shuts_no_sector_out_witness:
  "cand_code (hd (select_with_sector_budget (compute_sector_budget [(''bank'', COOL)] [(''bank'', 9)]) 3
     (\<lambda>_ n. n) sample_candidates)) = ''1''"
proof -
  have "by_score sample_candidates = hd sample_candidates # tl (by_score sample_candidates)"
    by code_simp
  from budget_shuts_no_sector_out [OF _ this, of 3 "[(''bank'', COOL)]" "[(''bank'', 9)]" "\<lambda>_ n. n"]
  show ?thesis by (simp add: sample_candidates_def)
qed

text \<open>
  Tiers follow the returns: of two groups in one analysis, neither of them cooled
  by its falling stocks, the one with the higher return never has the lower tier; a hot
  group has a positive return and a cold one a negative return.
\<close>

theorem tiers_follow_returns:
  assumes "map_of (assign_sector_tiers ga) g = Some t" "map_of (assign_sector_tiers ga) h = Some u"
    "map_of ga g = Some i" "map_of ga h = Some j"
    "falling_knife_ratio i < FALLING_KNIFE_THRESHOLD" "falling_knife_ratio j < FALLING_KNIFE_THRESHOLD"
    "avg_return i \<le> avg_return j"
  shows "tier_caps t \<le> tier_caps u \<and> (t = HOT \<longrightarrow> 0 < avg_return i) \<and> (u = COOL \<longrightarrow> avg_return j < 0)"
proof -
  define r where "r = sort (map (avg_return \<circ> snd) ga)"
  define p25 p75 where "p25 = r ! p25_idx (length r)" and "p75 = r ! p75_idx (length r)"
  have "ga \<noteq> []" using assms(3) by auto
  then have a: "assign_sector_tiers ga = map (\<lambda>(n, info). (n, tier_of p25 p75 info)) ga"
    by (simp add: assign_sector_tiers_def Let_def r_def p25_def p75_def)
  have l: "map_of (map (\<lambda>(n, info). (n, tier_of p25 p75 info)) xs) k = map_option (tier_of p25 p75) (map_of xs k)" for xs k
    by (induction xs) auto
  have "t = tier_of p25 p75 i" "u = tier_of p25 p75 j"
    using assms(1-4) by (simp_all add: a l)
  then show ?thesis using assms(5-7) by (auto simp: tier_of_def)
qed

definition sample_groups :: "(string \<times> group_info) list" where
  "sample_groups = [(''bank'', \<lparr>avg_return = 3, stock_count = 10, falling_knife_ratio = 0\<rparr>),
     (''chip'', \<lparr>avg_return = - 2, stock_count = 40, falling_knife_ratio = 0\<rparr>)]"

theorem tiers_follow_returns_witness:
  "assign_sector_tiers sample_groups = [(''bank'', HOT), (''chip'', COOL)] \<and>
   tier_caps COOL \<le> tier_caps HOT"
proof -
  have a: "assign_sector_tiers sample_groups = [(''bank'', HOT), (''chip'', COOL)]" by code_simp
  have "map_of (assign_sector_tiers sample_groups) ''chip'' = Some COOL"
    "map_of (assign_sector_tiers sample_groups) ''bank'' = Some HOT"
    by (simp_all add: a)
  moreover have "map_of sample_groups ''chip'' = Some \<lparr>avg_return = - 2, stock_count = 40, falling_knife_ratio = 0\<rparr>"
    "map_of sample_groups ''bank'' = Some \<lparr>avg_return = 3, stock_count = 10, falling_knife_ratio = 0\<rparr>"
    by (simp_all add: sample_groups_def)
  moreover have "0 < FALLING_KNIFE_THRESHOLD" by code_simp
  ultimately have "tier_caps COOL \<le> tier_caps HOT"
    using tiers_follow_returns [of sample_groups "''chip''" COOL "''bank''" HOT] by simp
  with a show ?thesis by simp
qed

end
