(* ===== verification/Portfolio_Guard.thy ===== *)
theory Portfolio_Guard
  imports Position_Sizing Sector_Budget
begin

text \<open>
  Portfolio limits: the guard of \<open>shared/portfolio_guard.py\<close> (number of stocks per sector
  group, cash floor per market regime, shadow mode). The classifier is the function
  \<open>group_of\<close> of a code and a name; the stored sector budget comes through the Redis
  interface.
\<close>

section \<open>Portfolio items\<close>

text \<open>
  A dictionary of the portfolio with the keys the checks look up; \<open>None\<close> is a missing key.
\<close>

record pf_item =
  pf_stock_code :: "string option"
  pf_code :: "string option"
  pf_stock_name :: "string option"
  pf_name :: "string option"
  pf_quantity :: "int option"
  pf_buy_price :: "rat option"
  pf_avg_price :: "rat option"
  pf_current_price :: "rat option"

definition str_or :: "string option \<Rightarrow> string option \<Rightarrow> string option" where
  "str_or a b = (case a of Some s \<Rightarrow> if s \<noteq> [] then a else b | None \<Rightarrow> b)"

definition item_code :: "pf_item \<Rightarrow> string" where
  "item_code i = opt_or [] (str_or (pf_stock_code i) (pf_code i))"

definition item_name :: "pf_item \<Rightarrow> string" where
  "item_name i = opt_or (item_code i) (str_or (pf_stock_name i) (pf_name i))"

section \<open>Sector count\<close>

text \<open>
  \<open>budget[group].get("portfolio_cap")\<close>; anything that raises, and a missing group, is no
  cap.
\<close>

definition dynamic_cap_of :: "pyval option \<Rightarrow> string \<Rightarrow> pyval" where
  "dynamic_cap_of budget sector_group = (case budget of
     Some (PDict kvs) \<Rightarrow> (case map_of kvs sector_group of
         None \<Rightarrow> PNone
       | Some e \<Rightarrow> (case py_get e ''portfolio_cap'' PNone of Inl _ \<Rightarrow> PNone | Inr c \<Rightarrow> c))
   | _ \<Rightarrow> PNone)"

definition get_dynamic_sector_cap :: "cfg \<Rightarrow> 's redis \<Rightarrow> string \<Rightarrow> 's \<Rightarrow> pyval \<times> 's" where
  "get_dynamic_sector_cap C R sector_group s =
     (if \<not> cf_bool C ''DYNAMIC_SECTOR_BUDGET_ENABLED'' True then (PNone, s)
      else (let (budget, s') = load_sector_budget_from_redis R s
            in (dynamic_cap_of budget sector_group, s')))"

record sector_check =
  sk_passed :: bool
  sk_group :: string
  sk_count :: int
  sk_max :: pyval

definition same_group_count :: "(string \<Rightarrow> string \<Rightarrow> string) \<Rightarrow> string \<Rightarrow> pf_item list \<Rightarrow> int" where
  "same_group_count group_of g items =
     int (length (filter (\<lambda>i. item_code i \<noteq> [] \<and> group_of (item_code i) (item_name i) = g) items))"

text \<open>The comparison with a stored cap that is not a number raises.\<close>

definition check_sector_stock_count ::
  "cfg \<Rightarrow> 's redis \<Rightarrow> (string \<Rightarrow> string \<Rightarrow> string) \<Rightarrow> string \<Rightarrow> string \<Rightarrow> pf_item list \<Rightarrow> 's
    \<Rightarrow> sector_check res \<times> 's" where
  "check_sector_stock_count C R group_of candidate_code candidate_name portfolio s =
     (let static_max = cf_int C ''MAX_SECTOR_STOCKS'' 3;
          g = group_of candidate_code candidate_name;
          (dynamic_cap, s') = get_dynamic_sector_cap C R g s;
          cap = (if dynamic_cap \<noteq> PNone then dynamic_cap else PInt static_max);
          count = same_group_count group_of g portfolio
      in (res_bind (as_num cap) (\<lambda>m. Inr \<lparr>sk_passed = \<not> m \<le> of_int count, sk_group = g,
            sk_count = count, sk_max = cap\<rparr>), s'))"

section \<open>Cash floor\<close>

definition floor_key :: "string \<Rightarrow> string option" where
  "floor_key regime = (if regime = ''STRONG_BULL'' then Some ''CASH_FLOOR_STRONG_BULL_PCT''
     else if regime = ''BULL'' then Some ''CASH_FLOOR_BULL_PCT''
     else if regime = ''SIDEWAYS'' then Some ''CASH_FLOOR_SIDEWAYS_PCT''
     else if regime = ''BEAR'' then Some ''CASH_FLOOR_BEAR_PCT'' else None)"

definition floor_default :: "string \<Rightarrow> rat" where
  "floor_default regime = (if regime = ''STRONG_BULL'' then 5 else if regime = ''BULL'' then 10
     else if regime = ''SIDEWAYS'' then 15 else if regime = ''BEAR'' then 25 else 15)"

definition floor_pct_of :: "cfg \<Rightarrow> string \<Rightarrow> rat" where
  "floor_pct_of C regime = (case floor_key regime of
     Some k \<Rightarrow> cf_float C k (floor_default regime)
   | None \<Rightarrow> cf_float C ''CASH_FLOOR_SIDEWAYS_PCT'' 15)"

record cash_check =
  ck_passed :: bool
  ck_cash_after_pct :: rat
  ck_floor_pct :: rat

definition cash_after_pct :: "rat \<Rightarrow> rat \<Rightarrow> rat \<Rightarrow> rat" where
  "cash_after_pct buy_amount available_cash total_assets =
     fmul (fdiv (fsub available_cash buy_amount) total_assets) 100"

definition check_cash_floor :: "cfg \<Rightarrow> rat \<Rightarrow> rat \<Rightarrow> rat \<Rightarrow> string \<Rightarrow> cash_check" where
  "check_cash_floor C buy_amount available_cash total_assets regime =
     (if total_assets \<le> 0 then \<lparr>ck_passed = False, ck_cash_after_pct = 0, ck_floor_pct = 0\<rparr>
      else (let floor_pct = floor_pct_of C regime;
                after = cash_after_pct buy_amount available_cash total_assets
            in \<lparr>ck_passed = \<not> after < floor_pct, ck_cash_after_pct = py_round 2 after,
                ck_floor_pct = floor_pct\<rparr>))"

section \<open>All checks\<close>

datatype guard_reason = Guard_OK | Sector_full sector_check | Below_cash_floor cash_check

record guard_result =
  gr_passed :: bool
  gr_reason :: guard_reason
  gr_shadow :: bool
  gr_sector :: sector_check
  gr_cash :: "cash_check option"

definition check_all ::
  "cfg \<Rightarrow> 's redis \<Rightarrow> (string \<Rightarrow> string \<Rightarrow> string) \<Rightarrow> string \<Rightarrow> string \<Rightarrow> pf_item list
    \<Rightarrow> rat \<Rightarrow> rat \<Rightarrow> rat \<Rightarrow> string \<Rightarrow> 's \<Rightarrow> guard_result res \<times> 's" where
  "check_all C R group_of code name portfolio buy_amount available_cash total_assets regime s =
     (let enabled = cf_bool C ''PORTFOLIO_GUARD_ENABLED'' True in
      cmd_bind (check_sector_stock_count C R group_of code name portfolio s) (\<lambda>sector s.
        if \<not> sk_passed sector \<and> enabled
        then (Inr \<lparr>gr_passed = False, gr_reason = Sector_full sector, gr_shadow = False,
                gr_sector = sector, gr_cash = None\<rparr>, s)
        else (let cash = check_cash_floor C buy_amount available_cash total_assets regime
              in if \<not> ck_passed cash \<and> enabled
                 then (Inr \<lparr>gr_passed = False, gr_reason = Below_cash_floor cash, gr_shadow = False,
                         gr_sector = sector, gr_cash = Some cash\<rparr>, s)
                 else (Inr \<lparr>gr_passed = True, gr_reason = Guard_OK, gr_shadow = \<not> enabled,
                         gr_sector = sector, gr_cash = Some cash\<rparr>, s))))"

section \<open>Lemmas\<close>

lemma cash_after_antimono:
  assumes "a \<le> b" "0 \<le> t"
  shows "cash_after_pct b c t \<le> cash_after_pct a c t"
  unfolding cash_after_pct_def
  using assms by (intro fmul_right_mono fdiv_right_mono fsub_mono) auto

lemma check_cash_floor_smaller:
  "a \<le> b \<Longrightarrow> ck_passed (check_cash_floor C b c t m) \<Longrightarrow> ck_passed (check_cash_floor C a c t m)"
  using cash_after_antimono [of a b t c]
  by (auto simp: check_cash_floor_def Let_def split: if_splits)

text \<open>
  The contract the purchase relies on: what the guard lets pass it lets pass for every
  smaller amount.
\<close>

locale amount_guard =
  fixes ok :: "rat \<Rightarrow> bool"
  assumes smaller: "a \<le> b \<Longrightarrow> ok b \<Longrightarrow> ok a"
begin

lemma fewer_shares: "0 \<le> p \<Longrightarrow> m \<le> n \<Longrightarrow> ok (fmul (of_py_int n) p) \<Longrightarrow> ok (fmul (of_py_int m) p)"
  by (rule smaller [OF fmul_right_mono [OF _ of_py_int_mono]])

end

definition guard_passes ::
  "cfg \<Rightarrow> 's redis \<Rightarrow> (string \<Rightarrow> string \<Rightarrow> string) \<Rightarrow> string \<Rightarrow> string \<Rightarrow> pf_item list
    \<Rightarrow> rat \<Rightarrow> rat \<Rightarrow> string \<Rightarrow> 's \<Rightarrow> rat \<Rightarrow> bool" where
  "guard_passes C R group_of code name portfolio cash assets regime s amount =
     (case fst (check_all C R group_of code name portfolio amount cash assets regime s) of
        Inl _ \<Rightarrow> False | Inr r \<Rightarrow> gr_passed r)"

interpretation pg: amount_guard "guard_passes C R group_of code name portfolio cash assets regime s"
  for C R group_of code name portfolio cash assets regime s
proof
  fix a b :: rat
  assume le: "a \<le> b" and ok: "guard_passes C R group_of code name portfolio cash assets regime s b"
  obtain x s' where r: "check_sector_stock_count C R group_of code name portfolio s = (x, s')"
    by fastforce
  show "guard_passes C R group_of code name portfolio cash assets regime s a"
    using ok check_cash_floor_smaller [OF le, of C cash assets regime]
    by (cases x) (auto simp: guard_passes_def check_all_def r Let_def split: if_splits)
qed

section \<open>Properties\<close>

text \<open>
  Claim C6. What the enabled guard lets pass keeps the limits: the sector group of the
  candidate holds fewer stocks than its cap, there are assets, and the cash share that
  remains is not below the floor of the regime. A refusal names the limit that is broken.
\<close>

theorem guard_enforces_limits:
  assumes "cf_bool C ''PORTFOLIO_GUARD_ENABLED'' True"
    and "fst (check_all C R group_of code name portfolio amount cash assets regime s) = Inr r"
  shows "(if gr_passed r then
       (\<exists>cap. as_num (sk_max (gr_sector r)) = Inr cap \<and>
          of_int (same_group_count group_of (group_of code name) portfolio) < cap) \<and>
       0 < assets \<and> floor_pct_of C regime \<le> cash_after_pct amount cash assets
     else case gr_reason r of
       Guard_OK \<Rightarrow> False
     | Sector_full k \<Rightarrow> \<exists>cap. as_num (sk_max k) = Inr cap \<and>
          cap \<le> of_int (same_group_count group_of (group_of code name) portfolio)
     | Below_cash_floor k \<Rightarrow> assets \<le> 0 \<or> cash_after_pct amount cash assets < floor_pct_of C regime)"
proof -
  obtain x s' where x: "check_sector_stock_count C R group_of code name portfolio s = (x, s')"
    by fastforce
  from assms obtain k where k: "x = Inr k"
    by (cases x) (auto simp: check_all_def x)
  have c: "\<exists>m. as_num (sk_max k) = Inr m \<and>
      sk_passed k = (\<not> m \<le> of_int (same_group_count group_of (group_of code name) portfolio))"
    using x by (auto simp: k check_sector_stock_count_def Let_def case_prod_beta res_bind_Inr_iff)
  show ?thesis
    using assms(2) c
    by (auto simp: check_all_def x k Let_def assms(1) check_cash_floor_def split: if_splits)
qed

text \<open>
  The guard in shadow mode blocks nothing: with the switch off every purchase
  passes, whatever the portfolio and the cash, as long as the stored cap is a number.
\<close>

theorem shadow_guard_blocks_nothing:
  assumes "\<not> cf_bool C ''PORTFOLIO_GUARD_ENABLED'' True"
    and "fst (check_all C R group_of code name portfolio amount cash assets regime s) = Inr r"
  shows "gr_passed r \<and> gr_shadow r"
  using assms
  by (auto simp: check_all_def cmd_bind_def Let_def split: prod.splits sum.splits if_splits)

text \<open>
  Buying less is never refused where buying more is allowed: if the guard passes
  an order of some shares at a price, it passes every smaller order at that price.
\<close>

theorem guard_passes_fewer_shares:
  assumes "0 \<le> price" "m \<le> n"
    "guard_passes C R group_of code name portfolio cash assets regime s (fmul (of_py_int n) price)"
  shows "guard_passes C R group_of code name portfolio cash assets regime s (fmul (of_py_int m) price)"
  using assms by (rule pg.fewer_shares)

section \<open>Witnesses\<close>

definition plain_item :: "string \<Rightarrow> string \<Rightarrow> int \<Rightarrow> rat \<Rightarrow> pf_item" where
  "plain_item c n q p = \<lparr>pf_stock_code = None, pf_code = Some c, pf_stock_name = None,
     pf_name = Some n, pf_quantity = Some q, pf_buy_price = None, pf_avg_price = Some p,
     pf_current_price = None\<rparr>"

definition sample_portfolio :: "pf_item list" where
  "sample_portfolio = [plain_item ''000001'' ''bank'' 10 1000, plain_item ''000002'' ''chip'' 5 2000]"

lemma sample_guard:
  "fst (check_all empty_cfg map_redis (\<lambda>_ n. n) ''000003'' ''bank'' sample_portfolio 20000 80000 100000
     ''BULL'' ms_empty) = Inr \<lparr>gr_passed = True, gr_reason = Guard_OK, gr_shadow = False,
       gr_sector = \<lparr>sk_passed = True, sk_group = ''bank'', sk_count = 1, sk_max = PInt 3\<rparr>,
       gr_cash = Some \<lparr>ck_passed = True, ck_cash_after_pct = 60, ck_floor_pct = 10\<rparr>\<rparr>"
  unfolding empty_cfg_eq by code_simp

theorem guard_enforces_limits_witness:
  "0 < (100000 :: rat) \<and> floor_pct_of empty_cfg ''BULL'' \<le> cash_after_pct 20000 80000 100000"
proof -
  have "cf_bool empty_cfg ''PORTFOLIO_GUARD_ENABLED'' True" by (simp add: empty_cfg_eq)
  from guard_enforces_limits [OF this sample_guard] show ?thesis by simp
qed

theorem shadow_guard_blocks_nothing_witness:
  "case fst (check_all (empty_cfg\<lparr>cf_bool := \<lambda>_ _. False\<rparr>) map_redis (\<lambda>_ n. n) ''000003'' ''bank'' []
     99000 100000 100000 ''BEAR'' ms_empty) of Inl _ \<Rightarrow> False | Inr r \<Rightarrow> gr_passed r \<and> gr_shadow r"
proof -
  let ?C = "empty_cfg\<lparr>cf_bool := \<lambda>_ _. False\<rparr>"
  obtain r where r: "fst (check_all ?C map_redis (\<lambda>_ n. n) ''000003'' ''bank'' []
     99000 100000 100000 ''BEAR'' ms_empty) = Inr r"
  proof -
    have "\<not> isl (fst (check_all ?C map_redis (\<lambda>_ n. n) ''000003'' ''bank'' []
       99000 100000 100000 ''BEAR'' ms_empty))"
      unfolding empty_cfg_eq by code_simp
    then show thesis using that by (auto simp: isl_def) (metis sum.exhaust)
  qed
  have "\<not> cf_bool ?C ''PORTFOLIO_GUARD_ENABLED'' True" by simp
  from shadow_guard_blocks_nothing [OF this r] r show ?thesis by simp
qed

theorem guard_passes_fewer_shares_witness:
  "guard_passes empty_cfg map_redis (\<lambda>_ n. n) ''000003'' ''bank'' sample_portfolio 80000 100000 ''BULL''
     ms_empty (fmul (of_py_int 7) 1000)"
proof (rule guard_passes_fewer_shares)
  show "(0::rat) \<le> 1000" "(7::int) \<le> 20" by simp_all
  have "fmul (of_py_int 20) 1000 = 20000" by code_simp
  then show "guard_passes empty_cfg map_redis (\<lambda>_ n. n) ''000003'' ''bank'' sample_portfolio 80000 100000
      ''BULL'' ms_empty (fmul (of_py_int 20) 1000)"
    by (simp add: guard_passes_def sample_guard)
qed

end
