(* ===== verification/Diversification.thy ===== *)
theory Diversification
  imports Portfolio_Guard
begin

text \<open>
  Diversification: the concentration check \<open>shared/portfolio_diversification.py\<close> (share of
  a sector and of a stock after a purchase) and the correlation check
  \<open>shared/correlation.py\<close>. \<open>sector_of\<close> is the classifier. The correlation coefficient of
  two return series is computed by numpy (not part of the repository): it is the parameter
  \<open>corrcoef\<close> of the definitions here, with \<open>None\<close> for a value that is not a number.
\<close>

section \<open>Concentration\<close>

text \<open>
  An entry of the portfolio cache: the prices are Python values, since the cache is built
  from dictionaries whose prices may be missing; \<open>None\<close> is a missing current price.
\<close>

record div_item =
  dv_code :: string
  dv_name :: string
  dv_quantity :: int
  dv_avg_price :: pyval
  dv_current_price :: "pyval option"

record div_candidate =
  dc_code :: string
  dc_name :: string
  dc_quantity :: int
  dc_price :: rat

datatype div_reason = No_total_assets | Sector_exceeded string rat rat | Stock_exceeded rat rat
  | Diversified string rat | Div_failed exn

datatype concentration = RISK_UNKNOWN | RISK_HIGH | RISK_LOW

record div_result =
  dr_approved :: bool
  dr_reason :: div_reason
  dr_sector_exposure :: "(string \<times> rat) list"
  dr_current_sector_exposure :: "rat option"
  dr_risk :: concentration

definition item_value :: "div_item \<Rightarrow> rat res" where
  "item_value i = res_bind (as_num (opt_or (dv_avg_price i) (dv_current_price i)))
     (\<lambda>p. Inr (fmul (of_py_int (dv_quantity i)) p))"

fun item_values :: "div_item list \<Rightarrow> rat list res" where
  "item_values [] = Inr []"
| "item_values (i # is) = res_bind (item_value i) (\<lambda>v. res_bind (item_values is) (\<lambda>vs. Inr (v # vs)))"

definition fsum :: "rat list \<Rightarrow> rat" where
  "fsum xs = foldl fadd 0 xs"

definition add_exposure :: "(string \<times> rat) list \<Rightarrow> string \<times> rat \<Rightarrow> (string \<times> rat) list" where
  "add_exposure e p = dict_set (fst p) (fadd (dict_get e (fst p) 0) (snd p)) e"

definition sector_exposures ::
  "(string \<Rightarrow> string \<Rightarrow> string) \<Rightarrow> div_item list \<Rightarrow> rat list \<Rightarrow> (string \<times> rat) list" where
  "sector_exposures sector_of items values =
     foldl add_exposure [] (zip (map (\<lambda>i. sector_of (dv_code i) (dv_name i)) items) values)"

definition pct_of :: "rat \<Rightarrow> rat \<Rightarrow> rat" where
  "pct_of total_assets v = fmul (fdiv v total_assets) 100"

definition check_diversification ::
  "cfg \<Rightarrow> (string \<Rightarrow> string \<Rightarrow> string) \<Rightarrow> div_candidate \<Rightarrow> div_item list \<Rightarrow> rat
    \<Rightarrow> rat option \<Rightarrow> rat option \<Rightarrow> div_result" where
  "check_diversification C sector_of cand cache account_balance override_sector override_stock =
     (let max_sector_pct = (case override_sector of Some x \<Rightarrow> x | None \<Rightarrow> cf_float C ''MAX_SECTOR_PCT'' 30);
          max_stock_pct = (case override_stock of Some x \<Rightarrow> x | None \<Rightarrow> cf_float C ''MAX_POSITION_VALUE_PCT'' 10)
      in case item_values cache of
           Inl e \<Rightarrow> \<lparr>dr_approved = True, dr_reason = Div_failed e, dr_sector_exposure = [],
             dr_current_sector_exposure = None, dr_risk = RISK_UNKNOWN\<rparr>
         | Inr values \<Rightarrow>
             (let total_assets = fadd account_balance (fsum values)
              in if total_assets \<le> 0
                 then \<lparr>dr_approved = True, dr_reason = No_total_assets, dr_sector_exposure = [],
                   dr_current_sector_exposure = None, dr_risk = RISK_UNKNOWN\<rparr>
                 else (let sector = sector_of (dc_code cand) (dc_name cand);
                           value = fmul (of_py_int (dc_quantity cand)) (dc_price cand);
                           exposure = add_exposure (sector_exposures sector_of cache values) (sector, value);
                           pcts = map (\<lambda>(s, v). (s, pct_of total_assets v)) exposure;
                           sector_pct = pct_of total_assets (dict_get exposure sector 0);
                           current = fmul (fdiv (fsub (dict_get exposure sector 0) value) total_assets) 100;
                           stock_pct = pct_of total_assets value
                       in if max_sector_pct < sector_pct
                          then \<lparr>dr_approved = False, dr_reason = Sector_exceeded sector sector_pct max_sector_pct,
                            dr_sector_exposure = pcts, dr_current_sector_exposure = Some current, dr_risk = RISK_HIGH\<rparr>
                          else if max_stock_pct < stock_pct
                          then \<lparr>dr_approved = False, dr_reason = Stock_exceeded stock_pct max_stock_pct,
                            dr_sector_exposure = pcts, dr_current_sector_exposure = None, dr_risk = RISK_HIGH\<rparr>
                          else \<lparr>dr_approved = True, dr_reason = Diversified sector sector_pct,
                            dr_sector_exposure = pcts, dr_current_sector_exposure = Some current,
                            dr_risk = RISK_LOW\<rparr>)))"

section \<open>Correlation\<close>

definition tail_of :: "nat \<Rightarrow> 'a list \<Rightarrow> 'a list" where
  "tail_of n xs = drop (length xs - n) xs"

text \<open>
  \<open>corrcoef a b\<close> is the coefficient of the log returns, \<open>Inl\<close> if numpy raises and
  \<open>Inr None\<close> if it is not a number.
\<close>

definition calculate_correlation ::
  "(rat list \<Rightarrow> rat list \<Rightarrow> rat option res) \<Rightarrow> rat list \<Rightarrow> rat list \<Rightarrow> nat \<Rightarrow> rat option" where
  "calculate_correlation corrcoef prices_a prices_b min_periods =
     (if length prices_a < min_periods \<or> length prices_b < min_periods then None
      else (let n = min (length prices_a) (length prices_b)
            in case corrcoef (tail_of n prices_a) (tail_of n prices_b) of
                 Inl _ \<Rightarrow> None | Inr None \<Rightarrow> None | Inr (Some c) \<Rightarrow> Some (py_round 4 c)))"

record corr_holding =
  ch_code :: "string option"
  ch_stock_code :: "string option"
  ch_name :: "string option"
  ch_stock_name :: "string option"

definition ch_the_code :: "corr_holding \<Rightarrow> string" where
  "ch_the_code h = opt_or (opt_or [] (ch_stock_code h)) (ch_code h)"

definition ch_the_name :: "corr_holding \<Rightarrow> string" where
  "ch_the_name h = opt_or (opt_or (ch_the_code h) (ch_stock_name h)) (ch_name h)"

text \<open>The running maximum over the holdings and the holding that reached it.\<close>

definition corr_step ::
  "(rat list \<Rightarrow> rat list \<Rightarrow> rat option res) \<Rightarrow> string \<Rightarrow> rat list \<Rightarrow> (string \<Rightarrow> rat list option res)
    \<Rightarrow> nat \<Rightarrow> rat \<times> (string \<times> string \<times> rat) option \<Rightarrow> corr_holding
    \<Rightarrow> rat \<times> (string \<times> string \<times> rat) option" where
  "corr_step corrcoef new_code new_prices lookup min_periods acc h =
     (let code = ch_the_code h in
      if code = [] \<or> code = new_code then acc
      else case lookup code of
        Inr (Some ps) \<Rightarrow>
          if ps = [] \<or> length ps < min_periods then acc
          else (case calculate_correlation corrcoef new_prices ps min_periods of
              None \<Rightarrow> acc
            | Some c \<Rightarrow> if fst acc < \<bar>c\<bar> then (\<bar>c\<bar>, Some (code, ch_the_name h, c)) else acc)
      | _ \<Rightarrow> acc)"

definition check_portfolio_correlation ::
  "(rat list \<Rightarrow> rat list \<Rightarrow> rat option res) \<Rightarrow> string \<Rightarrow> rat list \<Rightarrow> corr_holding list
    \<Rightarrow> (string \<Rightarrow> rat list option res) \<Rightarrow> rat \<Rightarrow> nat \<Rightarrow> bool \<times> (string \<times> string \<times> rat) option \<times> rat" where
  "check_portfolio_correlation corrcoef new_code new_prices portfolio lookup threshold min_periods =
     (if portfolio = [] then (True, None, 0)
      else (let (mx, high) = foldl (corr_step corrcoef new_code new_prices lookup min_periods) (0, None) portfolio
            in if threshold \<le> mx \<and> high \<noteq> None then (False, high, mx) else (True, None, mx)))"

definition get_correlation_risk_adjustment :: "rat \<Rightarrow> rat \<Rightarrow> rat" where
  "get_correlation_risk_adjustment max_correlation base =
     (if max_correlation < fl (3/10) then base
      else if max_correlation < 1/2 then fmul base (fl (9/10))
      else if max_correlation < fl (7/10) then fmul base (3/4)
      else fmul base (1/2))"

section \<open>Lemmas\<close>

lemma adjustment_values:
  "get_correlation_risk_adjustment c 1 \<in> {1, fl (9/10), 3/4, 1/2}"
proof -
  have "fmul 1 (fl (9/10)) = fl (9/10)" "fmul 1 (3/4) = 3/4" "fmul 1 (1/2) = 1/2" by code_simp+
  then show ?thesis by (simp add: get_correlation_risk_adjustment_def)
qed

lemma adjustment_antimono:
  assumes "a \<le> b"
  shows "get_correlation_risk_adjustment b 1 \<le> get_correlation_risk_adjustment a 1"
proof -
  have "fmul 1 (fl (9/10)) = fl (9/10)" "fmul 1 (3/4) = 3/4" "fmul 1 (1/2) = 1/2"
    "fl (9/10) \<le> 1" "3/4 \<le> fl (9/10)" "fl (3/10) \<le> 1/2" "1/2 \<le> fl (7/10)" by code_simp+
  then show ?thesis using assms by (simp add: get_correlation_risk_adjustment_def)
qed

text \<open>The correlations the check looks at.\<close>

definition seen_correlations ::
  "(rat list \<Rightarrow> rat list \<Rightarrow> rat option res) \<Rightarrow> string \<Rightarrow> rat list \<Rightarrow> (string \<Rightarrow> rat list option res)
    \<Rightarrow> nat \<Rightarrow> corr_holding list \<Rightarrow> rat list" where
  "seen_correlations corrcoef new_code new_prices lookup min_periods hs =
     List.map_filter (\<lambda>h. if ch_the_code h = [] \<or> ch_the_code h = new_code then None
        else case lookup (ch_the_code h) of
          Inr (Some ps) \<Rightarrow> if ps = [] then None
             else calculate_correlation corrcoef new_prices ps min_periods
        | _ \<Rightarrow> None) hs"

lemma corr_fold:
  "fst (foldl (corr_step corrcoef code prices lookup n) (m, h) hs) =
     foldl max m (map abs (seen_correlations corrcoef code prices lookup n hs))"
proof (induction hs arbitrary: m h)
  case (Cons x hs)
  obtain m' h' where s: "corr_step corrcoef code prices lookup n (m, h) x = (m', h')" by fastforce
  then have "m' = (case (if ch_the_code x = [] \<or> ch_the_code x = code then None
        else case lookup (ch_the_code x) of
          Inr (Some ps) \<Rightarrow> if ps = [] then None else calculate_correlation corrcoef prices ps n
        | _ \<Rightarrow> None) of None \<Rightarrow> m | Some c \<Rightarrow> max m \<bar>c\<bar>)"
    by (auto simp: corr_step_def Let_def max_def calculate_correlation_def
        split: if_splits sum.splits option.splits)
  with s Cons.IH show ?case
    by (auto simp: seen_correlations_def map_filter_simps split: option.splits)
qed (simp add: seen_correlations_def map_filter_simps)

lemma foldl_max: "foldl max (m :: rat) xs = Max (insert m (set xs))"
proof (induction xs arbitrary: m)
  case (Cons a xs)
  then show ?case
    by (cases "xs = []") (simp_all add: Max_insert max.assoc max.commute max.left_commute)
qed simp

lemma corr_step_None: "snd (corr_step corrcoef code prices lookup n acc h) = None \<Longrightarrow>
    corr_step corrcoef code prices lookup n acc h = acc"
  by (auto simp: corr_step_def Let_def split: if_splits sum.splits option.splits)

lemma corr_fold_None:
  "snd (foldl (corr_step corrcoef code prices lookup n) acc hs) = None \<Longrightarrow>
   foldl (corr_step corrcoef code prices lookup n) acc hs = acc"
proof (induction hs arbitrary: acc)
  case (Cons a hs)
  let ?f = "corr_step corrcoef code prices lookup n"
  have "snd (foldl ?f (?f acc a) hs) = None" using Cons.prems by simp
  from Cons.IH [OF this] this have "foldl ?f (?f acc a) hs = ?f acc a" "snd (?f acc a) = None" by simp_all
  with corr_step_None [OF this(2)] show ?case by simp
qed simp

section \<open>Properties\<close>

text \<open>
  An approved purchase keeps the concentration limits: unless the values of the
  portfolio could not be computed or there are no assets, the share of the candidate's
  sector after the purchase and the share of the stock are within their limits; a refusal
  names the limit that the computed share exceeds.
\<close>

theorem diversification_enforces_limits:
  assumes "item_values cache = Inr values" "0 < fadd cash (fsum values)"
  shows "let r = check_diversification C sector_of cand cache cash (Some max_sector) (Some max_stock);
      t = fadd cash (fsum values); sector = sector_of (dc_code cand) (dc_name cand);
      value = fmul (of_py_int (dc_quantity cand)) (dc_price cand);
      sector_pct = pct_of t (fadd (dict_get (sector_exposures sector_of cache values) sector 0) value);
      stock_pct = pct_of t value
    in (dr_approved r \<longleftrightarrow> sector_pct \<le> max_sector \<and> stock_pct \<le> max_stock) \<and>
       (\<not> dr_approved r \<longrightarrow> dr_reason r = (if max_sector < sector_pct
          then Sector_exceeded sector sector_pct max_sector else Stock_exceeded stock_pct max_stock))"
  using assms by (auto simp: check_diversification_def Let_def add_exposure_def not_less)

text \<open>
  A portfolio value that cannot be computed approves every purchase: one item
  without a usable price makes the check answer that the purchase is approved, of any size.
\<close>

theorem diversification_fails_open:
  assumes "i \<in> set cache" "item_value i = Inl e"
  shows "dr_approved (check_diversification C sector_of cand cache cash a b)"
proof -
  have "\<exists>e. item_values is = Inl e" if "i \<in> set is" for "is"
    using that assms(2)
  proof (induction "is")
    case (Cons j js)
    show ?case
    proof (cases "item_value j")
      case (Inr v)
      then have "i \<in> set js" using Cons.prems by auto
      with Cons.IH Cons.prems(2) show ?thesis by (auto simp: Inr)
    qed simp
  qed simp
  with assms(1) obtain e' where "item_values cache = Inl e'" by blast
  then show ?thesis by (simp add: check_diversification_def Let_def)
qed

text \<open>
  The correlation check reports the largest absolute correlation with any holding
  that could be compared, and refuses exactly when it reaches the threshold; a larger
  correlation never allows a larger position.
\<close>

theorem correlation_check_is_maximum:
  assumes "portfolio \<noteq> []" "0 < threshold"
  shows "(case check_portfolio_correlation corrcoef code prices portfolio lookup threshold n of
     (passed, _, mx) \<Rightarrow>
       mx = Max (insert 0 (abs ` set (seen_correlations corrcoef code prices lookup n portfolio))) \<and>
       (passed \<longleftrightarrow> (\<forall>c \<in> set (seen_correlations corrcoef code prices lookup n portfolio). \<bar>c\<bar> < threshold)) \<and>
       get_correlation_risk_adjustment mx 1 \<le> 1)"
proof -
  let ?f = "corr_step corrcoef code prices lookup n"
  let ?S = "set (seen_correlations corrcoef code prices lookup n portfolio)"
  obtain mx high where f: "foldl ?f (0, None) portfolio = (mx, high)" by fastforce
  have m: "mx = Max (insert 0 (abs ` ?S))"
    using corr_fold [of corrcoef code prices lookup n 0 None portfolio] f by (simp add: foldl_max)
  have h: "high = None \<longrightarrow> mx = 0"
    using corr_fold_None [of corrcoef code prices lookup n "(0, None)" portfolio] f by auto
  have t: "mx < threshold \<longleftrightarrow> (\<forall>c \<in> ?S. \<bar>c\<bar> < threshold)"
    using assms(2) by (simp add: m)
  have "get_correlation_risk_adjustment mx 1 \<le> 1"
  proof -
    have "fl (9/10) \<le> 1" by code_simp
    then show ?thesis using adjustment_values [of mx] by auto
  qed
  moreover have "check_portfolio_correlation corrcoef code prices portfolio lookup threshold n =
      (mx < threshold, if mx < threshold then None else high, mx)"
    using assms f h by (auto simp: check_portfolio_correlation_def)
  ultimately show ?thesis using m t by simp
qed

section \<open>Witnesses\<close>

definition sample_cache :: "div_item list" where
  "sample_cache = [\<lparr>dv_code = ''1'', dv_name = ''bank'', dv_quantity = 10, dv_avg_price = PFloat 1000,
     dv_current_price = Some (PFloat 1000)\<rparr>]"

definition sample_buy :: "div_candidate" where
  "sample_buy = \<lparr>dc_code = ''2'', dc_name = ''bank'', dc_quantity = 30, dc_price = 1000\<rparr>"

theorem diversification_enforces_limits_witness:
  "\<not> dr_approved (check_diversification empty_cfg (\<lambda>_ n. n) sample_buy sample_cache 90000 (Some 30) (Some 50))"
proof -
  have v: "item_values sample_cache = Inr [10000]" by code_simp
  have t: "0 < fadd 90000 (fsum [10000])" by code_simp
  have "\<not> pct_of (fadd 90000 (fsum [10000])) (fadd (dict_get (sector_exposures (\<lambda>_ n. n) sample_cache [10000])
      (dc_name sample_buy) 0) (fmul (of_py_int (dc_quantity sample_buy)) (dc_price sample_buy))) \<le> 30"
    by code_simp
  then show ?thesis
    using diversification_enforces_limits [OF v t, of empty_cfg "\<lambda>_ n. n" sample_buy 30 50]
    unfolding Let_def by blast
qed

theorem diversification_fails_open_witness:
  "dr_approved (check_diversification empty_cfg (\<lambda>_ n. n) (sample_buy\<lparr>dc_quantity := 1000000\<rparr>)
     [(hd sample_cache)\<lparr>dv_current_price := Some PNone\<rparr>] 1000 None None)"
  by (rule diversification_fails_open [of _ _ TypeError]) (simp, code_simp)

theorem correlation_check_is_maximum_witness:
  "snd (snd (check_portfolio_correlation (\<lambda>_ _. Inr (Some (- 1/2))) ''1'' [1, 2, 3]
     [\<lparr>ch_code = Some ''2'', ch_stock_code = None, ch_name = Some ''x'', ch_stock_name = None\<rparr>]
     (\<lambda>_. Inr (Some [4, 5, 6])) (fl (7/10)) 2)) = 1/2"
proof -
  let ?p = "[\<lparr>ch_code = Some ''2'', ch_stock_code = None, ch_name = Some ''x'', ch_stock_name = None\<rparr>]"
  have s: "seen_correlations (\<lambda>_ _. Inr (Some (- 1/2))) ''1'' [1, 2, 3] (\<lambda>_. Inr (Some [4, 5, 6])) 2 ?p = [- 1/2]"
    by code_simp
  have "?p \<noteq> []" "0 < fl (7/10)" by (simp, code_simp)
  from correlation_check_is_maximum [OF this, of "\<lambda>_ _. Inr (Some (- 1/2))" "''1''" "[1, 2, 3]"
      "\<lambda>_. Inr (Some [4, 5, 6])" 2]
  show ?thesis unfolding s by (simp split: prod.splits)
qed

end
