(* ===== verification/Price_Monitor.thy ===== *)
theory Price_Monitor
  imports Config_Manager Redis_Cache
begin

text \<open>
  The price monitor, \<open>services/price-monitor/monitor.py\<close> with \<open>safety.py\<close>: the decision to
  sell one holding at one price (profit lock, ATR stop, fixed stop with the gap-down guard,
  trailing take profit, scale-out, RSI, target, death cross, holding time), the double check
  against the database, and the handler of a price tick that publishes the sell order and
  keeps the cache of holdings and the state in Redis. Indicators computed by pandas and
  numpy from daily prices are the fields of the record \<open>market_view\<close>.
\<close>

section \<open>Gap-down guard\<close>

record gap_safety =
  wait_minutes :: int
  gap_down_threshold :: rat
  hard_stop_threshold :: rat

definition new_gap_safety :: "'a cfg_scheme \<Rightarrow> gap_safety" where
  "new_gap_safety C = \<lparr>wait_minutes = cf_int C ''GAP_DOWN_WAIT_MINUTES'' 5,
     gap_down_threshold = cf_float C ''GAP_DOWN_THRESHOLD_PCT'' (- 5),
     hard_stop_threshold = cf_float C ''GAP_DOWN_HARD_STOP_PCT'' (- 10)\<rparr>"

datatype safety_reason = Hard_stop rat rat | Outside_window | Gap_down_active rat int | Normal_condition

text \<open>The wall clock is an hour and a minute.\<close>

definition check_safety :: "gap_safety \<Rightarrow> int \<Rightarrow> int \<Rightarrow> rat \<Rightarrow> bool \<times> safety_reason" where
  "check_safety g hour minute profit_pct =
     (if profit_pct \<le> hard_stop_threshold g then (True, Hard_stop profit_pct (hard_stop_threshold g))
      else if \<not> (hour = 9 \<and> minute < wait_minutes g) then (True, Outside_window)
      else if profit_pct \<le> gap_down_threshold g then (False, Gap_down_active profit_pct (wait_minutes g))
      else (True, Normal_condition))"

section \<open>Holdings, views and signals\<close>

text \<open>
  A holding of the cache. \<open>h_days_held\<close> is the age computed from the key \<open>buy_date\<close>,
  \<open>None\<close> when the dictionary has no such key or an empty value.
\<close>

record holding =
  h_id :: string
  h_code :: string
  h_name :: string
  h_quantity :: int
  h_avg_price :: rat
  h_days_held :: "int option"

text \<open>
  What the code computes from the daily prices and the macro context: the number of rows;
  ATR and RSI; the bearish MACD divergence; stage and exhaustion of the chart phase (\<open>None\<close>
  when the analyser is missing or fails); the macro stop multiplier (\<open>None\<close> without
  context); the death cross with the current price appended.
\<close>

record market_view =
  mv_rows :: nat
  mv_atr :: "rat option"
  mv_rsi :: "rat option"
  mv_macd_bearish :: bool
  mv_chart :: "(int \<times> rat) option"
  mv_macro_mult :: "rat option"
  mv_death_cross :: bool

text \<open>The configuration with the values per symbol the monitor reads.\<close>

record mon_cfg = cfg +
  cf_float_symbol :: "string \<Rightarrow> string \<Rightarrow> rat \<Rightarrow> rat"

datatype sell_reason = Profit_lock_break rat rat | Profit_lock_L2 rat rat rat | Profit_lock_L1 rat rat rat
  | ATR_stop rat rat | Fixed_stop rat rat | Trailing_TP rat rat rat
  | Scale_out nat rat rat | Scale_out_force nat rat
  | RSI_overbought rat rat | Target_profit rat | Death_cross | Max_holding int

record signal =
  sg_reason :: sell_reason
  sg_quantity_pct :: rat

definition sell_all :: "sell_reason \<Rightarrow> signal option" where
  "sell_all r = Some \<lparr>sg_reason = r, sg_quantity_pct = 100\<rparr>"

text \<open>\<open>if not potential_signal:\<close>.\<close>

definition or_else :: "signal option \<Rightarrow> signal option \<Rightarrow> signal option" where
  "or_else a b = (case a of None \<Rightarrow> b | Some x \<Rightarrow> Some x)"

lemma or_else_simps [simp]: "or_else None b = b" "or_else (Some x) b = Some x"
  by (simp_all add: or_else_def)

section \<open>The rules\<close>

definition nonzero :: "rat option \<Rightarrow> rat option" where
  "nonzero x = (case x of Some v \<Rightarrow> if v = 0 then None else x | None \<Rightarrow> None)"

definition view_atr :: "market_view \<Rightarrow> rat option" where
  "view_atr mv = (if 15 \<le> mv_rows mv then nonzero (mv_atr mv) else None)"

definition view_rsi :: "market_view \<Rightarrow> rat option" where
  "view_rsi mv = (if 15 \<le> mv_rows mv then nonzero (mv_rsi mv) else None)"

definition lock_trigger :: "rat \<Rightarrow> rat \<Rightarrow> rat \<Rightarrow> rat \<Rightarrow> rat" where
  "lock_trigger lo hi factor atr_pct = max lo (min hi (fmul atr_pct factor))"

definition atr_pct_of :: "market_view \<Rightarrow> rat \<Rightarrow> rat" where
  "atr_pct_of mv buy_price = (case view_atr mv of
     Some a \<Rightarrow> if 0 < buy_price then fmul (fdiv a buy_price) 100 else 2
   | None \<Rightarrow> 2)"

definition l1_trigger :: "market_view \<Rightarrow> rat \<Rightarrow> rat" where
  "l1_trigger mv buy_price = lock_trigger (3/2) 3 (3/2) (atr_pct_of mv buy_price)"

definition l2_trigger :: "market_view \<Rightarrow> rat \<Rightarrow> rat" where
  "l2_trigger mv buy_price = lock_trigger 3 5 (5/2) (atr_pct_of mv buy_price)"

text \<open>The first profit lock, on the current price alone.\<close>

definition profit_lock_break :: "market_view \<Rightarrow> rat \<Rightarrow> rat \<Rightarrow> signal option" where
  "profit_lock_break mv buy_price profit_pct =
     (if l1_trigger mv buy_price \<le> profit_pct \<and> profit_pct < 1/2
      then sell_all (Profit_lock_break (l1_trigger mv buy_price) profit_pct) else None)"

text \<open>The second, on the high watermark.\<close>

definition profit_lock :: "market_view \<Rightarrow> rat \<Rightarrow> rat \<Rightarrow> rat \<Rightarrow> signal option" where
  "profit_lock mv buy_price high_profit_pct profit_pct =
     (let l1 = l1_trigger mv buy_price; l2 = l2_trigger mv buy_price
      in if l2 \<le> high_profit_pct \<and> profit_pct < 3/2
         then sell_all (Profit_lock_L2 high_profit_pct l2 profit_pct)
         else if l1 \<le> high_profit_pct \<and> profit_pct < 1/2
         then sell_all (Profit_lock_L1 high_profit_pct l1 profit_pct)
         else None)"

definition chart_warning :: "market_view \<Rightarrow> bool" where
  "chart_warning mv = (125 \<le> mv_rows mv \<and>
     (case mv_chart mv of None \<Rightarrow> False | Some (stage, exhaustion) \<Rightarrow> stage = 3 \<or> 40 < exhaustion))"

definition macd_warning :: "signal option \<Rightarrow> market_view \<Rightarrow> bool" where
  "macd_warning sig mv = (sig = None \<and> 36 \<le> mv_rows mv \<and> mv_macd_bearish mv)"

definition macro_stop_mult :: "market_view \<Rightarrow> rat" where
  "macro_stop_mult mv = (case mv_macro_mult mv of None \<Rightarrow> 1 | Some m \<Rightarrow> m)"

definition atr_stop_price :: "'a cfg_scheme \<Rightarrow> market_view \<Rightarrow> bool \<Rightarrow> rat \<Rightarrow> rat \<Rightarrow> rat" where
  "atr_stop_price C mv macd buy_price atr =
     (let m1 = fmul (cf_float C ''ATR_MULTIPLIER'' 2) (macro_stop_mult mv);
          m2 = (if macd then fmul m1 (3/4) else m1);
          m3 = (if chart_warning mv then fmul m2 (fl (8/10)) else m2)
      in fsub buy_price (fmul m3 atr))"

definition atr_stop :: "'a cfg_scheme \<Rightarrow> market_view \<Rightarrow> bool \<Rightarrow> rat \<Rightarrow> rat \<Rightarrow> signal option" where
  "atr_stop C mv macd buy_price current_price = (case view_atr mv of
     None \<Rightarrow> None
   | Some a \<Rightarrow> if current_price < atr_stop_price C mv macd buy_price a
       then sell_all (ATR_stop current_price (atr_stop_price C mv macd buy_price a)) else None)"

definition stop_loss_limit :: "'a cfg_scheme \<Rightarrow> market_view \<Rightarrow> rat" where
  "stop_loss_limit C mv =
     (let sl = cf_float C ''SELL_STOP_LOSS_PCT'' (- 6);
          sl1 = (if 0 < sl then - sl else sl)
      in if 1 < macro_stop_mult mv then fmul sl1 (macro_stop_mult mv) else sl1)"

definition fixed_stop ::
  "'a cfg_scheme \<Rightarrow> gap_safety option \<Rightarrow> market_view \<Rightarrow> int \<Rightarrow> int \<Rightarrow> rat \<Rightarrow> signal option" where
  "fixed_stop C G mv hour minute profit_pct =
     (if profit_pct \<le> stop_loss_limit C mv
         \<and> (case G of None \<Rightarrow> True | Some g \<Rightarrow> fst (check_safety g hour minute profit_pct))
      then sell_all (Fixed_stop profit_pct (stop_loss_limit C mv)) else None)"

definition trailing_tp ::
  "'a cfg_scheme \<Rightarrow> market_view \<Rightarrow> bool \<Rightarrow> rat \<Rightarrow> rat \<Rightarrow> rat \<Rightarrow> rat \<Rightarrow> signal option" where
  "trailing_tp C mv macd high_price high_profit_pct current_price profit_pct =
     (let activation0 = cf_float C ''TRAILING_TAKE_PROFIT_ACTIVATION_PCT'' 5;
          min_profit = cf_float C ''TRAILING_MIN_PROFIT_PCT'' 3;
          drop0 = cf_float C ''TRAILING_DROP_FROM_HIGH_PCT'' (7/2);
          activation1 = (if macd then fmul activation0 (fl (8/10)) else activation0);
          activation = (if chart_warning mv then fmul activation1 (fl (7/10)) else activation1);
          drop = (if chart_warning mv then fmul drop0 (fl (7/10)) else drop0);
          stop = fmul high_price (fsub 1 (fdiv drop 100))
      in if cf_bool C ''TRAILING_TAKE_PROFIT_ENABLED'' True \<and> activation \<le> high_profit_pct
            \<and> current_price \<le> stop \<and> min_profit \<le> profit_pct
         then sell_all (Trailing_TP high_price stop profit_pct) else None)"

section \<open>Scale-out\<close>

definition scale_levels :: "string \<Rightarrow> (rat \<times> rat) list" where
  "scale_levels market_regime =
     (if market_regime = ''BULL'' then [(3, 25), (7, 25), (15, 25), (25, 15)]
      else if market_regime = ''BEAR'' then [(2, 25), (5, 25), (8, 25), (12, 15)]
      else [(3, 25), (7, 25), (12, 25), (18, 15)])"

text \<open>\<open>int(quantity * (pct / 100.0)) or 1\<close>.\<close>

definition sell_qty :: "int \<Rightarrow> rat \<Rightarrow> int" where
  "sell_qty quantity pct =
     (let n = py_int (fmul (of_py_int quantity) (fdiv pct 100)) in if n = 0 then 1 else n)"

text \<open>
  The scan of the levels: the first level above the stored one whose target is reached
  decides. \<open>Hold\<close>: none is reached; \<open>Skip\<close>: it is reached, but the sale is too small.
\<close>

datatype scale_step = Hold | Skip nat | Sell_level nat rat rat | Force_sell nat

fun scale_scan :: "int \<Rightarrow> int \<Rightarrow> rat \<Rightarrow> rat \<Rightarrow> nat \<Rightarrow> (rat \<times> rat) list \<Rightarrow> scale_step" where
  "scale_scan current_level quantity current_price profit_pct level_idx [] = Hold"
| "scale_scan current_level quantity current_price profit_pct level_idx ((target_pct, sell_pct) # ls) =
     (if current_level < int level_idx \<and> target_pct \<le> profit_pct then
        (let q = sell_qty quantity sell_pct;
             amount = fmul (of_py_int q) current_price
         in if amount < 500000 \<or> q < 50
            then (if level_idx = 4 then Force_sell level_idx else Skip level_idx)
            else Sell_level level_idx target_pct sell_pct)
      else scale_scan current_level quantity current_price profit_pct (level_idx + 1) ls)"

definition regime_of :: "pyval \<Rightarrow> string" where
  "regime_of data =
     (if truthy data then (case py_get data ''regime'' (PStr ''SIDEWAYS'') of
        Inr (PStr r) \<Rightarrow> r | Inr _ \<Rightarrow> ''?'' | Inl _ \<Rightarrow> ''SIDEWAYS'')
      else ''SIDEWAYS'')"

definition scale_out ::
  "'s redis \<Rightarrow> 'a cfg_scheme \<Rightarrow> string \<Rightarrow> int \<Rightarrow> rat \<Rightarrow> rat \<Rightarrow> 's \<Rightarrow> signal option \<times> 's" where
  "scale_out R C stock_code quantity current_price profit_pct s =
     (if cf_bool C ''SCALE_OUT_ENABLED'' True \<and> 0 < profit_pct then
        (let (current_level, s1) = get_scale_out_level R stock_code s;
             (data, s2) = get_redis_data R ''market_regime:current'' s1
         in case scale_scan current_level quantity current_price profit_pct 1 (scale_levels (regime_of data)) of
              Hold \<Rightarrow> (None, s2)
            | Skip _ \<Rightarrow> (None, s2)
            | Sell_level n target pct \<Rightarrow>
                (Some \<lparr>sg_reason = Scale_out n profit_pct target, sg_quantity_pct = pct\<rparr>,
                 snd (set_scale_out_level R stock_code (int n) s2))
            | Force_sell n \<Rightarrow>
                (sell_all (Scale_out_force n profit_pct),
                 snd (set_scale_out_level R stock_code (int n) s2)))
      else (None, s))"

section \<open>The remaining rules\<close>

definition rsi_rule ::
  "'s redis \<Rightarrow> 'a mon_cfg_scheme \<Rightarrow> market_view \<Rightarrow> string \<Rightarrow> rat \<Rightarrow> 's \<Rightarrow> signal option \<times> 's" where
  "rsi_rule R C mv stock_code profit_pct s =
     (let threshold = cf_float_symbol C stock_code ''SELL_RSI_OVERBOUGHT_THRESHOLD'' 75;
          min_rsi_profit = cf_float C ''SELL_RSI_MIN_PROFIT_PCT'' 3;
          (already, s1) = get_rsi_overbought_sold R stock_code s
      in case view_rsi mv of
           None \<Rightarrow> (None, s1)
         | Some rsi \<Rightarrow>
             if threshold \<le> rsi \<and> min_rsi_profit \<le> profit_pct \<and> \<not> already
             then (Some \<lparr>sg_reason = RSI_overbought rsi profit_pct, sg_quantity_pct = 50\<rparr>,
                   snd (set_rsi_overbought_sold R stock_code True s1))
             else (None, s1))"

definition target_rule :: "'a cfg_scheme \<Rightarrow> rat \<Rightarrow> signal option" where
  "target_rule C profit_pct =
     (if \<not> cf_bool C ''TRAILING_TAKE_PROFIT_ENABLED'' True
         \<and> cf_float C ''SELL_TARGET_PROFIT_PCT'' 10 \<le> profit_pct
      then sell_all (Target_profit profit_pct) else None)"

definition death_cross_rule :: "market_view \<Rightarrow> signal option" where
  "death_cross_rule mv = (if 20 \<le> mv_rows mv \<and> mv_death_cross mv then sell_all Death_cross else None)"

definition max_holding_rule :: "'a cfg_scheme \<Rightarrow> holding \<Rightarrow> signal option" where
  "max_holding_rule C h = (case h_days_held h of
     None \<Rightarrow> None
   | Some d \<Rightarrow> if cf_int C ''MAX_HOLDING_DAYS'' 30 \<le> d then sell_all (Max_holding d) else None)"

section \<open>The decision\<close>

record tick =
  tk_price :: rat
  tk_hour :: int
  tk_minute :: int
  tk_stamp :: string

definition profit_pct_of :: "rat \<Rightarrow> rat \<Rightarrow> rat" where
  "profit_pct_of price buy_price = fmul (fdiv (fsub price buy_price) buy_price) 100"

text \<open>
  The rules in the order of the code, on the profit and the watermark: the signal of the
  stop and trailing rules first, then the rules that touch Redis.
\<close>

definition protective_signal ::
  "'a mon_cfg_scheme \<Rightarrow> gap_safety option \<Rightarrow> market_view \<Rightarrow> tick \<Rightarrow> rat \<Rightarrow> rat \<Rightarrow> signal option" where
  "protective_signal C G mv tk buy_price high_price =
     (let price = tk_price tk;
          pct = profit_pct_of price buy_price;
          high_pct = (if 0 < buy_price then profit_pct_of high_price buy_price else 0);
          sig1 = or_else (profit_lock_break mv buy_price pct) (profit_lock mv buy_price high_pct pct);
          macd = macd_warning sig1 mv;
          sig2 = or_else sig1 (atr_stop C mv macd buy_price price);
          sig3 = or_else sig2 (fixed_stop C G mv (tk_hour tk) (tk_minute tk) pct)
      in or_else sig3 (trailing_tp C mv macd high_price high_pct price pct))"

definition gain_signal ::
  "'s redis \<Rightarrow> 'a mon_cfg_scheme \<Rightarrow> market_view \<Rightarrow> string \<Rightarrow> holding \<Rightarrow> rat \<Rightarrow> rat \<Rightarrow> 's
    \<Rightarrow> signal option \<times> 's" where
  "gain_signal R C mv stock_code h price pct s =
     (let (sig4, s1) = scale_out R C stock_code (h_quantity h) price pct s
      in if sig4 \<noteq> None then (sig4, s1)
         else (let (sig5, s2) = rsi_rule R C mv stock_code pct s1
               in (or_else sig5 (or_else (target_rule C pct)
                     (or_else (death_cross_rule mv) (max_holding_rule C h))), s2)))"

definition evaluate_rules ::
  "'s redis \<Rightarrow> 'a mon_cfg_scheme \<Rightarrow> gap_safety option \<Rightarrow> market_view \<Rightarrow> tick \<Rightarrow> string \<Rightarrow> rat \<Rightarrow> holding
    \<Rightarrow> 's \<Rightarrow> signal option res \<times> 's" where
  "evaluate_rules R C G mv tk stock_code buy_price h s =
     (if buy_price = 0 then (Inl ZeroDivisionError, s)
      else (let price = tk_price tk;
                (wm, s1) = update_high_watermark R (tk_stamp tk) stock_code price buy_price s;
                sig = protective_signal C G mv tk buy_price (wm_high_price wm)
            in if sig \<noteq> None then (Inr sig, s1)
               else (let (sig', s2) = gain_signal R C mv stock_code h price (profit_pct_of price buy_price) s1
                     in (Inr sig', s2))))"

text \<open>
  What the decision records for observation: the snapshot of the logic and the history of
  signals in Redis. Nothing in the monitor reads them back; they are listed, not stored.
\<close>

datatype observation = Snapshot string "signal option" | History string sell_reason rat

text \<open>
  \<open>_check_sell_signal\<close>: \<open>view\<close> is the market view, which fails with the query of the daily
  prices; \<open>fresh\<close> is the portfolio read again from the database. The cache maps an
  identifier to its holding. A failure ends in no signal.
\<close>

definition find_code :: "string \<Rightarrow> holding list \<Rightarrow> holding option" where
  "find_code code hs = find (\<lambda>h. h_code h = code) hs"

definition finish_check ::
  "string \<Rightarrow> rat \<Rightarrow> signal option \<Rightarrow> observation list" where
  "finish_check stock_code price sig =
     Snapshot stock_code sig # (case sig of None \<Rightarrow> [] | Some g \<Rightarrow> [History stock_code (sg_reason g) price])"

definition refresh_cache :: "holding \<Rightarrow> holding \<Rightarrow> (string \<times> holding) list \<Rightarrow> holding \<times> (string \<times> holding) list" where
  "refresh_cache h f cache =
     (if map_of cache (h_id h) \<noteq> None
      then (let h' = f\<lparr>h_days_held := h_days_held h\<rparr> in (h', dict_set (h_id h) h' cache))
      else (h, cache))"

definition check_sell_signal ::
  "'s redis \<Rightarrow> 'a mon_cfg_scheme \<Rightarrow> gap_safety option \<Rightarrow> market_view res \<Rightarrow> tick \<Rightarrow> holding list res \<Rightarrow> bool
    \<Rightarrow> string \<Rightarrow> rat \<Rightarrow> holding \<Rightarrow> (string \<times> holding) list \<Rightarrow> 's
    \<Rightarrow> signal option \<times> holding \<times> (string \<times> holding) list \<times> observation list \<times> 's" where
  "check_sell_signal R C G view tk fresh check stock_code buy_price h cache s =
     (case view of Inl _ \<Rightarrow> (None, h, cache, [], s) | Inr mv \<Rightarrow>
      case evaluate_rules R C G mv tk stock_code buy_price h s of
        (Inl _, s1) \<Rightarrow> (None, h, cache, [], s1)
      | (Inr None, s1) \<Rightarrow> (None, h, cache, finish_check stock_code (tk_price tk) None, s1)
      | (Inr (Some g), s1) \<Rightarrow>
          if \<not> check then (Some g, h, cache, finish_check stock_code (tk_price tk) (Some g), s1)
          else (case fresh of
            Inl _ \<Rightarrow> (None, h, cache, [], s1)
          | Inr hs \<Rightarrow> (case find_code stock_code hs of
              None \<Rightarrow> (None, h, dict_pop (h_id h) cache, [], s1)
            | Some f \<Rightarrow>
                if 1 < \<bar>fsub (h_avg_price f) (h_avg_price h)\<bar>
                then (let (h', cache') = refresh_cache h f cache
                      in case evaluate_rules R C G mv tk stock_code (h_avg_price f) h' s1 of
                           (Inl _, s2) \<Rightarrow> (None, h', cache', [], s2)
                         | (Inr sig, s2) \<Rightarrow>
                             (sig, h', cache', finish_check stock_code (tk_price tk) sig, s2))
                else (Some g, h, cache, finish_check stock_code (tk_price tk) (Some g), s1))))"

section \<open>The price tick\<close>

record sell_order =
  so_code :: string
  so_name :: string
  so_quantity :: int
  so_price :: rat
  so_reason :: sell_reason
  so_holding_id :: string

definition publish_sell_order :: "signal \<Rightarrow> holding \<Rightarrow> rat \<Rightarrow> sell_order" where
  "publish_sell_order g h price = \<lparr>so_code = h_code h, so_name = h_name h,
     so_quantity = sell_qty (h_quantity h) (sg_quantity_pct g), so_price = price,
     so_reason = sg_reason g, so_holding_id = h_id h\<rparr>"

text \<open>
  The state of the handler: the cache, Redis, the orders handed to the publisher with its
  answer, the observations. \<open>publish\<close> is the publisher: a message identifier was returned
  (true), none was (false), or it raised.
\<close>

record 's monitor =
  mo_cache :: "(string \<times> holding) list"
  mo_redis :: 's
  mo_orders :: "(sell_order \<times> bool) list"
  mo_seen :: "observation list"

definition clear_position :: "'s redis \<Rightarrow> string \<Rightarrow> 's \<Rightarrow> 's" where
  "clear_position R stock_code s =
     snd (delete_scale_out_level R stock_code
       (snd (delete_high_watermark R stock_code
         (snd (delete_rsi_overbought_sold R stock_code s)))))"

definition after_order ::
  "'s redis \<Rightarrow> string \<Rightarrow> signal \<Rightarrow> holding \<Rightarrow> 's monitor \<Rightarrow> 's monitor" where
  "after_order R stock_code g h m =
     (if 100 \<le> sg_quantity_pct g
      then m\<lparr>mo_cache := dict_pop (h_id h) (mo_cache m),
             mo_redis := clear_position R stock_code (mo_redis m)\<rparr>
      else (let h' = h\<lparr>h_quantity := h_quantity h - sell_qty (h_quantity h) (sg_quantity_pct g)\<rparr>
            in if map_of (mo_cache m) (h_id h) = None then m
               else m\<lparr>mo_cache := dict_set (h_id h) h' (mo_cache m)\<rparr>))"

text \<open>One holding; the flag says whether the handler goes on (no exception left the step).\<close>

definition process_holding ::
  "'s redis \<Rightarrow> 'a mon_cfg_scheme \<Rightarrow> gap_safety option \<Rightarrow> market_view res \<Rightarrow> (sell_order \<Rightarrow> bool res)
    \<Rightarrow> holding list res \<Rightarrow> tick \<Rightarrow> string \<Rightarrow> holding \<Rightarrow> 's monitor \<Rightarrow> bool \<times> 's monitor" where
  "process_holding R C G view publish fresh tk stock_code h m =
     (let (sig, h', cache', seen, s') =
        check_sell_signal R C G view tk fresh True stock_code (h_avg_price h) h (mo_cache m) (mo_redis m);
          m1 = m\<lparr>mo_cache := cache', mo_redis := s', mo_seen := mo_seen m @ seen\<rparr>
      in case sig of
           None \<Rightarrow> (True, m1)
         | Some g \<Rightarrow>
             (let order = publish_sell_order g h' (tk_price tk)
              in case publish order of
                   Inl _ \<Rightarrow> (False, m1)
                 | Inr ok \<Rightarrow> (True, after_order R stock_code g h'
                     (m1\<lparr>mo_orders := mo_orders m1 @ [(order, ok)]\<rparr>))))"

fun process_holdings ::
  "'s redis \<Rightarrow> 'a mon_cfg_scheme \<Rightarrow> gap_safety option \<Rightarrow> market_view res \<Rightarrow> (sell_order \<Rightarrow> bool res)
    \<Rightarrow> holding list res \<Rightarrow> tick \<Rightarrow> string \<Rightarrow> holding list \<Rightarrow> 's monitor \<Rightarrow> 's monitor" where
  "process_holdings R C G view publish fresh tk stock_code [] m = m"
| "process_holdings R C G view publish fresh tk stock_code (h # hs) m =
     (let (go_on, m') = process_holding R C G view publish fresh tk stock_code h m
      in if go_on then process_holdings R C G view publish fresh tk stock_code hs m' else m')"

definition on_websocket_price_update ::
  "'s redis \<Rightarrow> 'a mon_cfg_scheme \<Rightarrow> gap_safety option \<Rightarrow> market_view res \<Rightarrow> (sell_order \<Rightarrow> bool res)
    \<Rightarrow> holding list res \<Rightarrow> tick \<Rightarrow> string \<Rightarrow> 's monitor \<Rightarrow> 's monitor" where
  "on_websocket_price_update R C G view publish fresh tk stock_code m =
     process_holdings R C G view publish fresh tk stock_code
       (filter (\<lambda>h. h_code h = stock_code) (map snd (mo_cache m))) m"

section \<open>Price alerts\<close>

text \<open>
  \<open>alerts\<close> is what \<open>get_price_alerts\<close> answers, \<open>price_of\<close> the current price of a stock (zero
  when there is none). An exception ends the loop; what was triggered stays triggered. The
  answer lists the alerts that were sent.
\<close>

definition alert_triggered :: "string \<Rightarrow> pyval \<Rightarrow> rat \<Rightarrow> bool res" where
  "alert_triggered alert_type target price =
     (if alert_type = ''above'' then res_bind (as_num target) (\<lambda>t. Inr (t \<le> price))
      else if alert_type = ''below'' then res_bind (as_num target) (\<lambda>t. Inr (price \<le> t))
      else Inr False)"

definition alert_step :: "(string \<Rightarrow> rat res) \<Rightarrow> string \<times> pyval \<Rightarrow> bool res" where
  "alert_step price_of a =
     (let (code, info) = a in
      res_bind (py_get info ''target_price'' PNone) (\<lambda>target.
      res_bind (py_get info ''alert_type'' (PStr ''above'')) (\<lambda>ty.
      res_bind (price_of code) (\<lambda>price.
        if price \<le> 0 then Inr False
        else case ty of PStr t \<Rightarrow> alert_triggered t target price | _ \<Rightarrow> Inr False))))"

fun process_price_alerts ::
  "'s redis \<Rightarrow> (string \<Rightarrow> rat res) \<Rightarrow> (string \<times> pyval) list \<Rightarrow> 's \<Rightarrow> string list \<times> 's" where
  "process_price_alerts R price_of [] s = ([], s)"
| "process_price_alerts R price_of (a # as) s =
     (case alert_step price_of a of
        Inl _ \<Rightarrow> ([], s)
      | Inr False \<Rightarrow> process_price_alerts R price_of as s
      | Inr True \<Rightarrow> (let (sent, s') = process_price_alerts R price_of as (snd (delete_price_alert R (fst a) s))
                    in (fst a # sent, s')))"

section \<open>The contract of the guard\<close>

text \<open>
  What the fixed stop needs from its guard: it holds a sale back only above the hard stop
  and only before some time of the day.
\<close>

locale sell_guard =
  fixes allows :: "int \<Rightarrow> int \<Rightarrow> rat \<Rightarrow> bool" and hard :: rat and until :: int
  assumes allows_hard: "pct \<le> hard \<Longrightarrow> allows hour minute pct"
    and allows_later: "hour \<noteq> 9 \<or> until \<le> minute \<Longrightarrow> allows hour minute pct"
begin

lemma holds_back: "\<not> allows hour minute pct \<Longrightarrow> hour = 9 \<and> minute < until \<and> hard < pct"
  using allows_hard [of pct hour minute] allows_later [of hour minute pct] by linarith

end

interpretation gap: sell_guard "\<lambda>h m p. fst (check_safety g h m p)" "hard_stop_threshold g" "wait_minutes g" for g
  by unfold_locales (auto simp: check_safety_def)

section \<open>Lemmas\<close>

lemma sell_all_simps [simp]: "sell_all r = Some g \<longleftrightarrow> g = \<lparr>sg_reason = r, sg_quantity_pct = 100\<rparr>"
  "sell_all r \<noteq> None"
  by (auto simp: sell_all_def)

lemma or_else_None [simp]: "or_else a b = None \<longleftrightarrow> a = None \<and> b = None"
  by (cases a) simp_all

lemma or_else_Some: "or_else a b = Some g \<longleftrightarrow> a = Some g \<or> (a = None \<and> b = Some g)"
  by (cases a) simp_all

text \<open>Every protective rule sells the whole holding.\<close>

lemma protective_sells_all:
  "protective_signal C G mv tk bp hp = Some g \<Longrightarrow> sg_quantity_pct g = 100"
  by (auto simp: protective_signal_def Let_def or_else_Some profit_lock_break_def profit_lock_def
      atr_stop_def fixed_stop_def trailing_tp_def split: if_splits option.splits)

lemma trigger_bounds:
  "3/2 \<le> l1_trigger mv bp" "l1_trigger mv bp \<le> 3" "3 \<le> l2_trigger mv bp" "l2_trigger mv bp \<le> 5"
  by (simp_all add: l1_trigger_def l2_trigger_def lock_trigger_def)

lemma profit_lock_break_dead: "profit_lock_break mv bp pct = None"
  using trigger_bounds(1) [of mv bp] by (auto simp: profit_lock_break_def)

lemma evaluate_protective:
  assumes "bp \<noteq> 0"
    "protective_signal C G mv tk bp (wm_high_price (fst (update_high_watermark R (tk_stamp tk) code (tk_price tk) bp s)))
      = Some g"
  shows "fst (evaluate_rules R C G mv tk code bp h s) = Inr (Some g)"
  using assms by (simp add: evaluate_rules_def case_prod_beta Let_def)

lemma of_py_int_div100:
  assumes "0 \<le> q" "q \<le> 2 ^ 53" "0 \<le> pct" "pct \<le> 100"
  shows "0 \<le> sell_qty q pct" "sell_qty q pct \<le> max 1 q" "1 \<le> sell_qty q pct"
proof -
  have q: "of_py_int q = of_int q" using assms by (intro of_py_int_small) auto
  have p: "0 \<le> fdiv pct 100" "fdiv pct 100 \<le> 1"
    using assms by (auto simp: fdiv_def intro: fl_nonneg fl_le_float)
  have qr: "0 \<le> (of_int q :: rat)" using assms by simp
  have "0 \<le> fmul (of_int q) (fdiv pct 100)" using qr p by (intro fmul_nonneg)
  moreover have "fmul (of_int q) (fdiv pct 100) \<le> of_int q"
    unfolding fmul_def using assms(1,2) qr p
    by (intro fl_le_float fl_of_int mult_left_le) auto
  ultimately have n: "0 \<le> py_int (fmul (of_int q) (fdiv pct 100))"
    "py_int (fmul (of_int q) (fdiv pct 100)) \<le> q"
    using py_int_mono [of "fmul (of_int q) (fdiv pct 100)" "of_int q"] by (auto simp: py_int_ge_0_iff)
  then show "0 \<le> sell_qty q pct" "sell_qty q pct \<le> max 1 q" "1 \<le> sell_qty q pct"
    by (auto simp: sell_qty_def Let_def q)
qed

lemma scale_scan_small:
  assumes "sell_qty q 25 < 50"
  shows "scale_scan 0 q price pct 1 (scale_levels regime) \<in> {Hold, Skip 1}"
  using assms by (auto simp: scale_levels_def Let_def)

lemma scale_out_small:
  assumes "get_scale_out_level R code s = (0, s1)" "sell_qty q 25 < 50"
  shows "fst (scale_out R C code q price pct s) = None"
  using assms(1) scale_scan_small [OF assms(2), of price pct]
  by (auto simp: scale_out_def case_prod_beta split: scale_step.split) (metis empty_iff insert_iff scale_step.distinct)+

section \<open>Properties\<close>

text \<open>
  Claim C7. The stop loss always fires: when the loss has reached the limit, the decision is
  to sell the whole holding, by whichever protective rule comes first, in every state of
  Redis; it is held back only by the gap-down guard, in the first minutes after nine o'clock
  and above the hard stop.
\<close>

theorem stop_loss_always_fires:
  assumes "bp \<noteq> 0" "profit_pct_of (tk_price tk) bp \<le> stop_loss_limit C mv"
  shows "(\<exists>g. fst (evaluate_rules R C (Some G) mv tk code bp h s) = Inr (Some g) \<and> sg_quantity_pct g = 100) \<or>
    (tk_hour tk = 9 \<and> tk_minute tk < wait_minutes G \<and>
     hard_stop_threshold G < profit_pct_of (tk_price tk) bp)"
proof (cases "fst (check_safety G (tk_hour tk) (tk_minute tk) (profit_pct_of (tk_price tk) bp))")
  case True
  let ?hp = "wm_high_price (fst (update_high_watermark R (tk_stamp tk) code (tk_price tk) bp s))"
  have "fixed_stop C (Some G) mv (tk_hour tk) (tk_minute tk) (profit_pct_of (tk_price tk) bp) \<noteq> None"
    using assms(2) True by (simp add: fixed_stop_def)
  then have "protective_signal C (Some G) mv tk bp ?hp \<noteq> None"
    by (simp add: protective_signal_def Let_def)
  then obtain g where g: "protective_signal C (Some G) mv tk bp ?hp = Some g" by blast
  with evaluate_protective [OF assms(1) g] protective_sells_all [OF g] show ?thesis by blast
next
  case False
  with gap.holds_back [OF False] show ?thesis by blast
qed

text \<open>A quiet market, the default configuration of the monitor, a holding, a tick.\<close>

definition quiet_view :: market_view where
  "quiet_view = \<lparr>mv_rows = 0, mv_atr = None, mv_rsi = None, mv_macd_bearish = False, mv_chart = None,
     mv_macro_mult = None, mv_death_cross = False\<rparr>"

definition default_mon_cfg :: mon_cfg where
  "default_mon_cfg = \<lparr>cf_int = (\<lambda>_ n. n), cf_float = (\<lambda>_ x. x), cf_bool = (\<lambda>_ b. b),
     cf_float_symbol = (\<lambda>_ _ x. x)\<rparr>"

definition sample_holding :: "int \<Rightarrow> holding" where
  "sample_holding q = \<lparr>h_id = ''005930'', h_code = ''005930'', h_name = ''s'', h_quantity = q,
     h_avg_price = 10000, h_days_held = None\<rparr>"

definition tick_at :: "rat \<Rightarrow> tick" where
  "tick_at p = \<lparr>tk_price = p, tk_hour = 10, tk_minute = 0, tk_stamp = ''t''\<rparr>"

theorem stop_loss_always_fires_witness:
  "\<exists>g. fst (evaluate_rules map_redis default_mon_cfg (Some (new_gap_safety default_mon_cfg)) quiet_view
     (tick_at 9300) ''005930'' 10000 (sample_holding 10) ms_empty) = Inr (Some g) \<and> sg_quantity_pct g = 100"
proof -
  have "profit_pct_of (tk_price (tick_at 9300)) 10000 \<le> stop_loss_limit default_mon_cfg quiet_view"
    by code_simp
  from stop_loss_always_fires [OF _ this, of map_redis "new_gap_safety default_mon_cfg" "''005930''"
      "sample_holding 10" ms_empty]
  show ?thesis by (simp add: tick_at_def)
qed

text \<open>
  Claim C8. A gain is not given back: once the price of a fresh position has been five per
  cent above the buy price, a tick on which the profit has fallen below one and a half per
  cent sells the whole holding, whatever came in between, on a reachable server.
\<close>

theorem profit_lock_protects_gain:
  assumes "redis_laws R up look" "up s" "look s (HIGH_WATERMARK_PREFIX @ code) = None"
    and "p \<in> set ps" "5 \<le> profit_pct_of p bp" "0 < bp" "profit_pct_of (tk_price tk) bp < 3/2"
  shows "\<exists>g. fst (evaluate_rules R C G mv tk code bp h (feed_prices R stamp code bp ps s)) = Inr (Some g)
    \<and> sg_quantity_pct g = 100"
proof -
  let ?s = "feed_prices R stamp code bp ps s"
  define hi where "hi = Max (insert bp (set ps))"
  have "ps \<noteq> []" using assms(4) by auto
  from feed_prices_from_empty [OF assms(1-3) this]
  have u: "up ?s" and l: "look ?s (HIGH_WATERMARK_PREFIX @ code) = Some (watermark_cell stamp hi bp)"
    by (simp_all add: hi_def)
  have "bp \<le> hi" and ph: "p \<le> hi" using assms(4) by (simp_all add: hi_def)
  define hp where "hp = wm_high_price (fst (update_high_watermark R (tk_stamp tk) code (tk_price tk) bp ?s))"
  have "stored_high (look ?s (HIGH_WATERMARK_PREFIX @ code)) (tk_price tk) bp = Inr (hi, False)"
    unfolding l by (rule stored_high_cell [OF \<open>bp \<le> hi\<close>])
  then have "hp = max (tk_price tk) hi"
    unfolding hp_def by (rule update_watermark_up(1) [OF assms(1) u])
  then have "p \<le> hp" using ph by simp
  then have "profit_pct_of p bp \<le> profit_pct_of hp bp"
    unfolding profit_pct_of_def using assms(6)
    by (intro fmul_right_mono fdiv_right_mono fsub_mono) auto
  then have hpct: "l2_trigger mv bp \<le> profit_pct_of hp bp"
    using assms(5) trigger_bounds(4) [of mv bp] by simp
  have "profit_lock mv bp (profit_pct_of hp bp) (profit_pct_of (tk_price tk) bp) \<noteq> None"
    using hpct assms(7) by (simp add: profit_lock_def Let_def)
  then have "protective_signal C G mv tk bp hp \<noteq> None"
    using assms(6) by (auto simp: protective_signal_def Let_def)
  then obtain g where "protective_signal C G mv tk bp hp = Some g" by blast
  from evaluate_protective [OF _ this [unfolded hp_def]] protective_sells_all [OF this] assms(6)
  show ?thesis by auto
qed

theorem profit_lock_protects_gain_witness:
  "\<exists>g. fst (evaluate_rules map_redis default_mon_cfg None quiet_view (tick_at 10100) ''005930'' 10000
      (sample_holding 10) (feed_prices map_redis ''t'' ''005930'' 10000 [10200, 10600] ms_empty)) = Inr (Some g)
    \<and> sg_quantity_pct g = 100"
proof -
  have "alive ms_empty" "ms_look ms_empty (HIGH_WATERMARK_PREFIX @ ''005930'') = None"
    by (simp_all add: ms_empty_def ms_look_def)
  moreover have "10600 \<in> set [10200, 10600 :: rat]" by simp
  moreover have "5 \<le> profit_pct_of 10600 10000" "profit_pct_of (tk_price (tick_at 10100)) 10000 < 3/2"
    by code_simp+
  ultimately show ?thesis
    using profit_lock_protects_gain [OF map_redis_laws, of ms_empty "''005930''" 10600 "[10200, 10600]" 10000
      "tick_at 10100" default_mon_cfg None quiet_view "sample_holding 10" "''t''"] by simp
qed

text \<open>
  A small position never scales out: with no level stored and fewer than fifty
  shares in a quarter of the holding, no profit in any regime makes the scale-out rule sell.
  The first level is skipped as too small and the scan ends there, so that the following
  levels, and the forced sale at the last one, are never reached.
\<close>

theorem small_position_never_scales_out:
  assumes "get_scale_out_level R code s = (0, s1)" "sell_qty quantity 25 < 50"
  shows "fst (scale_out R C code quantity price pct s) = None"
  using assms by (rule scale_out_small)

theorem small_position_never_scales_out_witness:
  "fst (scale_out map_redis default_mon_cfg ''005930'' 150 10000 90 ms_empty) = None"
proof -
  have "get_scale_out_level map_redis ''005930'' ms_empty = (0, ms_empty)"
    by (simp add: get_scale_out_up [OF map_redis_laws] ms_empty_def ms_look_def)
  moreover have "sell_qty 150 25 < 50" by code_simp
  ultimately show ?thesis by (rule small_position_never_scales_out)
qed

text \<open>
  Claim C9. The quantity of an order fits the holding: for a holding of at least one share
  and any share of it up to all, the order is for at least one and at most all of the
  shares; of an emptied holding it is still for one share.
\<close>

theorem order_quantity_fits_holding:
  assumes "0 \<le> sg_quantity_pct g" "sg_quantity_pct g \<le> 100" "1 \<le> h_quantity h" "h_quantity h \<le> 2 ^ 53"
  shows "1 \<le> so_quantity (publish_sell_order g h price) \<and>
    so_quantity (publish_sell_order g h price) \<le> h_quantity h \<and>
    so_quantity (publish_sell_order g (h\<lparr>h_quantity := 0\<rparr>) price) = 1"
  using of_py_int_div100 [of "h_quantity h" "sg_quantity_pct g"]
    of_py_int_div100(2,3) [of 0 "sg_quantity_pct g"] assms
  by (auto simp: publish_sell_order_def)

theorem order_quantity_fits_holding_witness:
  "so_quantity (publish_sell_order \<lparr>sg_reason = Death_cross, sg_quantity_pct = 50\<rparr> (sample_holding 7) 10000) \<le> 7"
  using order_quantity_fits_holding [of "\<lparr>sg_reason = Death_cross, sg_quantity_pct = 50\<rparr>" "sample_holding 7" 10000]
  by (simp add: sample_holding_def)

text \<open>
  The tick handler does not look at the publisher's answer: a sell order that
  could not be published leaves the cache and the state in Redis exactly as one that was,
  so a holding to be sold as a whole is dropped from the watch although no order exists.
\<close>

theorem failed_publish_is_ignored:
  assumes "check_sell_signal R C G view tk fresh True code (h_avg_price h) h (mo_cache m) (mo_redis m)
      = (Some g, h', cache', seen, s')" "100 \<le> sg_quantity_pct g"
  shows "let failed = snd (process_holding R C G view (\<lambda>_. Inr False) fresh tk code h m);
             sent = snd (process_holding R C G view (\<lambda>_. Inr True) fresh tk code h m)
    in mo_cache failed = mo_cache sent \<and> mo_redis failed = mo_redis sent \<and>
       map_of (mo_cache failed) (h_id h') = None \<and> snd (last (mo_orders failed)) = False"
  using assms by (simp add: process_holding_def after_order_def Let_def)

definition sample_monitor :: "map_store monitor" where
  "sample_monitor = \<lparr>mo_cache = [(''005930'', sample_holding 10)], mo_redis = ms_empty, mo_orders = [], mo_seen = []\<rparr>"

theorem failed_publish_is_ignored_witness:
  "map_of (mo_cache (snd (process_holding map_redis default_mon_cfg None (Inr quiet_view) (\<lambda>_. Inr False)
     (Inr [sample_holding 10]) (tick_at 9300) ''005930'' (sample_holding 10) sample_monitor))) ''005930'' = None"
proof -
  let ?r = "check_sell_signal map_redis default_mon_cfg None (Inr quiet_view) (tick_at 9300)
      (Inr [sample_holding 10]) True ''005930'' (h_avg_price (sample_holding 10)) (sample_holding 10)
      (mo_cache sample_monitor) (mo_redis sample_monitor)"
  have d: "map_option sg_quantity_pct (fst ?r) = Some 100" "h_id (fst (snd ?r)) = ''005930''" by code_simp+
  obtain g h' c' seen s' where r: "?r = (Some g, h', c', seen, s')" "sg_quantity_pct g = 100"
    "h_id h' = ''005930''"
    using d by (cases ?r) auto
  have "100 \<le> sg_quantity_pct g" by (simp add: r(2))
  from failed_publish_is_ignored [OF r(1) this] show ?thesis unfolding Let_def r(3) by blast
qed

end
