(* ===== verification/Trade_Ledger.thy ===== *)
theory Trade_Ledger
  imports Price_Monitor "HOL-Library.List_Lexorder" "HOL-Library.Char_ord"
begin

text \<open>
  The ledger in the database: the rows of \<open>ACTIVE_PORTFOLIO\<close> and \<open>TRADELOG\<close>, the write of
  one trade (\<open>shared/database/trading.py\<close>) and the queries of the executors
  (\<open>shared/db/repository.py\<close>). Time is in seconds. SQL expressions are exact; the MariaDB
  upsert is kept as its list of assignments, read one after the other (the default of the
  server) or simultaneously (its mode \<open>SIMULTANEOUS_ASSIGNMENT\<close>).
\<close>

section \<open>Rows\<close>

record position =
  ps_name :: string
  ps_quantity :: int
  ps_average :: rat
  ps_total :: rat
  ps_stop_loss :: rat
  ps_high :: rat
  ps_created :: rat

datatype side = BUY | SELL

record trade_log =
  tl_code :: string
  tl_side :: side
  tl_quantity :: int
  tl_price :: rat
  tl_reason :: string
  tl_time :: rat

record ledger =
  lg_positions :: "(string \<times> position) list"
  lg_trades :: "trade_log list"

section \<open>A trade\<close>

text \<open>
  The assignments of \<open>ON DUPLICATE KEY UPDATE\<close>: each reads the columns of its first
  argument and writes the second.
\<close>

definition upsert_assignments :: "int \<Rightarrow> rat \<Rightarrow> (position \<Rightarrow> position \<Rightarrow> position) list" where
  "upsert_assignments qty total_amount =
     [\<lambda>r w. w\<lparr>ps_quantity := ps_quantity r + qty\<rparr>,
      \<lambda>r w. w\<lparr>ps_total := ps_total r + total_amount\<rparr>,
      \<lambda>r w. w\<lparr>ps_average := (ps_total r + total_amount) / of_int (ps_quantity r + qty)\<rparr>]"

definition run_assignments ::
  "bool \<Rightarrow> (position \<Rightarrow> position \<Rightarrow> position) list \<Rightarrow> position \<Rightarrow> position" where
  "run_assignments simultaneous as row =
     foldl (\<lambda>w f. f (if simultaneous then row else w) w) row as"

definition new_position :: "string \<Rightarrow> int \<Rightarrow> rat \<Rightarrow> rat option \<Rightarrow> rat \<Rightarrow> position" where
  "new_position name qty price stop now = \<lparr>ps_name = name, ps_quantity = qty, ps_average = price,
     ps_total = of_int qty * price, ps_stop_loss = opt_or 0 stop, ps_high = price, ps_created = now\<rparr>"

text \<open>The two databases: SQLite reads, computes and writes, MariaDB runs the upsert.\<close>

datatype database = SQLite | MariaDB bool

definition add_to_position :: "database \<Rightarrow> int \<Rightarrow> rat \<Rightarrow> position \<Rightarrow> position" where
  "add_to_position db qty total_amount p = (case db of
     SQLite \<Rightarrow> (let new_qty = ps_quantity p + qty; new_total = ps_total p + total_amount
       in p\<lparr>ps_quantity := new_qty, ps_total := new_total,
            ps_average := (if 0 < new_qty then new_total / of_int new_qty else 0)\<rparr>)
   | MariaDB simultaneous \<Rightarrow> run_assignments simultaneous (upsert_assignments qty total_amount) p)"

definition buy_position ::
  "database \<Rightarrow> string \<Rightarrow> string \<Rightarrow> int \<Rightarrow> rat \<Rightarrow> rat option \<Rightarrow> rat
    \<Rightarrow> (string \<times> position) list \<Rightarrow> (string \<times> position) list" where
  "buy_position db code name qty price stop now ps =
     (case map_of ps code of
        None \<Rightarrow> dict_set code (new_position name qty price stop now) ps
      | Some p \<Rightarrow> dict_set code (add_to_position db qty (of_int qty * price) p) ps)"

definition sell_position ::
  "string \<Rightarrow> int \<Rightarrow> (string \<times> position) list \<Rightarrow> (string \<times> position) list" where
  "sell_position code qty ps = (case map_of ps code of
     None \<Rightarrow> ps
   | Some p \<Rightarrow>
       if ps_quantity p \<le> qty then dict_pop code ps
       else (let new_qty = ps_quantity p - qty
             in dict_set code (p\<lparr>ps_quantity := new_qty, ps_total := of_int new_qty * ps_average p\<rparr>) ps))"

text \<open>Where a statement of the trade can fail: not at all, at the log, at the portfolio.\<close>

datatype db_fault = No_fault | Log_fault | Portfolio_fault

record trade =
  td_side :: side
  td_code :: string
  td_name :: string
  td_quantity :: int
  td_price :: rat
  td_reason :: string
  td_stop_loss :: "rat option"

definition write_trade :: "database \<Rightarrow> db_fault \<Rightarrow> rat \<Rightarrow> trade \<Rightarrow> ledger \<Rightarrow> unit res \<times> ledger" where
  "write_trade db fault now t l =
     (if fault = Log_fault then (Inl (DB_Error ''insert''), l)
      else (let l1 = l\<lparr>lg_trades := lg_trades l @ [\<lparr>tl_code = td_code t, tl_side = td_side t,
                  tl_quantity = td_quantity t, tl_price = td_price t, tl_reason = td_reason t,
                  tl_time = now\<rparr>]\<rparr>
            in if fault = Portfolio_fault then (Inl (DB_Error ''update''), l1)
               else (Inr (), l1\<lparr>lg_positions := (case td_side t of
                   BUY \<Rightarrow> buy_position db (td_code t) (td_name t) (td_quantity t) (td_price t)
                            (td_stop_loss t) now (lg_positions l1)
                 | SELL \<Rightarrow> sell_position (td_code t) (td_quantity t) (lg_positions l1))\<rparr>)))"

text \<open>The exception is caught and becomes the answer false.\<close>

definition execute_trade_and_log ::
  "bool \<Rightarrow> database \<Rightarrow> db_fault \<Rightarrow> rat \<Rightarrow> trade \<Rightarrow> ledger \<Rightarrow> bool \<times> ledger" where
  "execute_trade_and_log ready db fault now t l =
     (if ready then (case write_trade db fault now t l of (Inl _, l') \<Rightarrow> (False, l') | (Inr _, l') \<Rightarrow> (True, l'))
      else (False, l))"

section \<open>Queries\<close>

definition row_holding :: "string \<times> position \<Rightarrow> holding" where
  "row_holding r = \<lparr>h_id = fst r, h_code = fst r, h_name = ps_name (snd r),
     h_quantity = ps_quantity (snd r), h_avg_price = ps_average (snd r), h_days_held = None\<rparr>"

text \<open>
  The dictionaries of \<open>get_active_portfolio\<close> have the key \<open>created_at\<close>; they have no
  \<open>buy_date\<close>, which is what the monitor looks up: \<open>h_days_held\<close> is \<open>None\<close>.
\<close>

definition get_active_portfolio :: "ledger \<Rightarrow> holding list" where
  "get_active_portfolio l =
     sort_key h_code (map row_holding (filter (\<lambda>(_, p). 0 < ps_quantity p) (lg_positions l)))"

definition traded_since :: "ledger \<Rightarrow> string \<Rightarrow> side option \<Rightarrow> rat \<Rightarrow> bool" where
  "traded_since l code s since \<longleftrightarrow> (\<exists>t \<in> set (lg_trades l). tl_code t = code
     \<and> (case s of None \<Rightarrow> True | Some x \<Rightarrow> tl_side t = x) \<and> since \<le> tl_time t)"

definition was_traded_recently :: "ledger \<Rightarrow> rat \<Rightarrow> string \<Rightarrow> rat \<Rightarrow> side option \<Rightarrow> bool" where
  "was_traded_recently l now code hours s = traded_since l code s (now - hours * 3600)"

definition check_duplicate_order :: "ledger \<Rightarrow> rat \<Rightarrow> string \<Rightarrow> side \<Rightarrow> int \<Rightarrow> bool" where
  "check_duplicate_order l now code s minutes = traded_since l code (Some s) (now - of_int minutes * 60)"

text \<open>\<open>day\<close> is the start of the current day in UTC.\<close>

definition get_today_buy_count :: "ledger \<Rightarrow> rat \<Rightarrow> int" where
  "get_today_buy_count l day = int (length (filter (\<lambda>t. tl_side t = BUY \<and> day \<le> tl_time t
     \<and> tl_time t < day + 86400) (lg_trades l)))"

section \<open>Transactions\<close>

text \<open>
  \<open>session_scope\<close> of \<open>shared/db/connection.py\<close>: an exception rolls the ledger back, a return
  commits. \<open>begin_answer\<close> and \<open>commit_answer\<close> are the answers of the database,
  \<open>rollback w w'\<close> the state \<open>w'\<close> with the ledger of \<open>w\<close>.
\<close>

definition session_scope ::
  "unit res \<Rightarrow> unit res \<Rightarrow> ('w \<Rightarrow> 'w \<Rightarrow> 'w) \<Rightarrow> ('w \<Rightarrow> ('o, 'a) flow \<times> 'w) \<Rightarrow> 'w \<Rightarrow> ('o, 'a) flow \<times> 'w" where
  "session_scope begin_answer commit_answer rollback body w = (case begin_answer of
     Inl e \<Rightarrow> (Raise e, w)
   | Inr _ \<Rightarrow> (case body w of
       (Raise e, w') \<Rightarrow> (Raise e, rollback w w')
     | (r, w') \<Rightarrow> (case commit_answer of Inl e \<Rightarrow> (Raise e, rollback w w') | Inr _ \<Rightarrow> (r, w'))))"

lemma session_scope_Next:
  "session_scope b c rb body w = (Next x, w') \<longleftrightarrow> b = Inr () \<and> c = Inr () \<and> body w = (Next x, w')"
  by (auto simp: session_scope_def split: sum.splits prod.splits flow.splits)

section \<open>The invariant of the ledger\<close>

text \<open>One row per code, and every row holds shares.\<close>

definition ledger_ok :: "ledger \<Rightarrow> bool" where
  "ledger_ok l \<longleftrightarrow> distinct (map fst (lg_positions l)) \<and>
     (\<forall>p \<in> snd ` set (lg_positions l). 0 < ps_quantity p)"

lemma distinct_dict_pop: "distinct (map fst kvs) \<Longrightarrow> distinct (map fst (dict_pop k kvs))"
  by (induction kvs) (auto simp: dict_pop_def)

lemma set_dict_set: "set (dict_set k v kvs) \<subseteq> insert (k, v) (set kvs)"
  by (induction k v kvs rule: dict_set.induct) auto

lemma set_dict_pop: "set (dict_pop k kvs) \<subseteq> set kvs"
  by (auto simp: dict_pop_def)

lemma held_dict_set:
  assumes "\<forall>p \<in> snd ` set ps. 0 < ps_quantity p" "0 < ps_quantity q"
  shows "\<forall>p \<in> snd ` set (dict_set k q ps). 0 < ps_quantity p"
proof
  fix p assume "p \<in> snd ` set (dict_set k q ps)"
  then obtain c where "(c, p) \<in> set (dict_set k q ps)" by auto
  then have "(c, p) = (k, q) \<or> (c, p) \<in> set ps" using set_dict_set [of k q ps] by blast
  then show "0 < ps_quantity p" using assms by force
qed

lemma upsert_quantity [simp]:
  "ps_quantity (add_to_position db qty amount p) = ps_quantity p + qty"
  by (cases db) (auto simp: add_to_position_def run_assignments_def upsert_assignments_def Let_def)

definition rows_ok :: "(string \<times> position) list \<Rightarrow> bool" where
  "rows_ok ps \<longleftrightarrow> distinct (map fst ps) \<and> (\<forall>p \<in> snd ` set ps. 0 < ps_quantity p)"

lemma ledger_rows: "ledger_ok l = rows_ok (lg_positions l)"
  by (simp only: ledger_ok_def rows_ok_def)

lemma rows_ok_set: "rows_ok ps \<Longrightarrow> 0 < ps_quantity q \<Longrightarrow> rows_ok (dict_set k q ps)"
  using held_dict_set [of ps q k] by (simp add: rows_ok_def del: ball_simps image_iff)

lemma rows_ok_pop: "rows_ok ps \<Longrightarrow> rows_ok (dict_pop k ps)"
  unfolding rows_ok_def using set_dict_pop [of k ps] distinct_dict_pop [of ps k] by blast

lemma rows_ok_lookup: "rows_ok ps \<Longrightarrow> map_of ps k = Some q \<Longrightarrow> 0 < ps_quantity q"
  unfolding rows_ok_def by (auto dest!: map_of_SomeD)

lemma buy_position_ok: "rows_ok ps \<Longrightarrow> 0 < qty \<Longrightarrow> rows_ok (buy_position db c n qty pr st now ps)"
  using rows_ok_lookup [of ps c]
  by (auto simp: buy_position_def new_position_def intro!: rows_ok_set split: option.split)

lemma sell_position_ok: "rows_ok ps \<Longrightarrow> rows_ok (sell_position c qty ps)"
  by (auto simp: sell_position_def Let_def intro!: rows_ok_set rows_ok_pop split: option.split)

lemma write_trade_ok:
  assumes "ledger_ok l" "0 < td_quantity t"
  shows "ledger_ok (snd (write_trade db fault now t l))"
  using assms
  by (auto simp: ledger_rows write_trade_def Let_def intro: buy_position_ok sell_position_ok
      split: side.split)

text \<open>The trades a system writes, in their order; faults may strike any of them.\<close>

fun run_trades :: "bool \<Rightarrow> database \<Rightarrow> (db_fault \<times> rat \<times> trade) list \<Rightarrow> ledger \<Rightarrow> ledger" where
  "run_trades ready db [] l = l"
| "run_trades ready db ((fault, now, t) # ts) l =
     run_trades ready db ts (snd (execute_trade_and_log ready db fault now t l))"

lemma execute_ok:
  "ledger_ok l \<Longrightarrow> 0 < td_quantity t \<Longrightarrow> ledger_ok (snd (execute_trade_and_log ready db fault now t l))"
  using write_trade_ok [of l t db fault now]
  by (auto simp: execute_trade_and_log_def split: prod.splits sum.splits)

section \<open>Properties\<close>

text \<open>
  Claim C12. The portfolio stays well formed: whatever trades of at least one share are
  written, on either database and with faults at any statement, every code has at most one
  row and every row holds at least one share.
\<close>

theorem ledger_invariant:
  assumes "ledger_ok l" "\<forall>(fault, now, t) \<in> set ts. 0 < td_quantity t"
  shows "ledger_ok (run_trades ready db ts l)"
  using assms
  by (induction ready db ts l rule: run_trades.induct) (auto intro: execute_ok)

definition sample_buy_trade :: "int \<Rightarrow> rat \<Rightarrow> trade" where
  "sample_buy_trade q p = \<lparr>td_side = BUY, td_code = ''005930'', td_name = ''s'', td_quantity = q,
     td_price = p, td_reason = [], td_stop_loss = None\<rparr>"

definition empty_ledger :: ledger where
  "empty_ledger = \<lparr>lg_positions = [], lg_trades = []\<rparr>"

theorem ledger_invariant_witness:
  "ledger_ok (run_trades True (MariaDB False) [(No_fault, 0, sample_buy_trade 10 100),
     (Portfolio_fault, 1, sample_buy_trade 5 100), (No_fault, 2, (sample_buy_trade 3 90)\<lparr>td_side := SELL\<rparr>)]
     empty_ledger)"
  by (rule ledger_invariant) (simp_all add: ledger_ok_def empty_ledger_def sample_buy_trade_def)

text \<open>
  The average price after a second purchase: SQLite, and MariaDB with simultaneous
  assignments, store the total cost over the total shares; MariaDB with its default
  assignments counts the new purchase twice, so that the stored average is the true one only
  if the price paid is the old average, and otherwise lies strictly on the side of the new
  price.
\<close>

theorem upsert_average:
  assumes "0 < ps_quantity p" "0 < qty" "ps_total p = of_int (ps_quantity p) * ps_average p"
  shows "ps_average (add_to_position SQLite qty (of_int qty * price) p) =
      (ps_total p + of_int qty * price) / of_int (ps_quantity p + qty) \<and>
    ps_average (add_to_position (MariaDB True) qty (of_int qty * price) p) =
      ps_average (add_to_position SQLite qty (of_int qty * price) p) \<and>
    ps_average (add_to_position (MariaDB False) qty (of_int qty * price) p) =
      (ps_total p + 2 * (of_int qty * price)) / of_int (ps_quantity p + 2 * qty) \<and>
    (ps_average p < price \<longrightarrow> ps_average (add_to_position SQLite qty (of_int qty * price) p)
       < ps_average (add_to_position (MariaDB False) qty (of_int qty * price) p)) \<and>
    (price < ps_average p \<longrightarrow> ps_average (add_to_position (MariaDB False) qty (of_int qty * price) p)
       < ps_average (add_to_position SQLite qty (of_int qty * price) p))"
proof -
  define Q q a where "Q = (of_int (ps_quantity p) :: rat)" and "q = (of_int qty :: rat)"
    and "a = ps_average p"
  have pos: "0 < Q" "0 < q" using assms(1,2) by (simp_all add: Q_def q_def)
  have avg: "ps_average (add_to_position SQLite qty (of_int qty * price) p) = (Q * a + q * price) / (Q + q)"
    "ps_average (add_to_position (MariaDB True) qty (of_int qty * price) p) = (Q * a + q * price) / (Q + q)"
    "ps_average (add_to_position (MariaDB False) qty (of_int qty * price) p)
       = (Q * a + 2 * (q * price)) / (Q + 2 * q)"
    using assms
    by (simp_all add: add_to_position_def run_assignments_def upsert_assignments_def Let_def Q_def q_def
        a_def algebra_simps)
  have cross: "(Q * a + 2 * (q * price)) * (Q + q) - (Q * a + q * price) * (Q + 2 * q) = q * Q * (price - a)"
    by (simp add: algebra_simps)
  have d: "(Q * a + 2 * (q * price)) / (Q + 2 * q) - (Q * a + q * price) / (Q + q) =
      q * Q * (price - a) / ((Q + 2 * q) * (Q + q))"
    using pos by (simp add: diff_frac_eq cross)
  have den: "0 < (Q + 2 * q) * (Q + q)" using pos by simp
  have "a < price \<Longrightarrow> 0 < q * Q * (price - a) / ((Q + 2 * q) * (Q + q))"
    "price < a \<Longrightarrow> q * Q * (price - a) / ((Q + 2 * q) * (Q + q)) < 0"
    using pos den by (auto intro!: divide_neg_pos mult_pos_neg)
  then have "a < price \<Longrightarrow> (Q * a + q * price) / (Q + q) < (Q * a + 2 * (q * price)) / (Q + 2 * q)"
    "price < a \<Longrightarrow> (Q * a + 2 * (q * price)) / (Q + 2 * q) < (Q * a + q * price) / (Q + q)"
    unfolding d [symmetric] by simp_all
  then show ?thesis
    using assms(3) by (simp add: avg Q_def q_def a_def)
qed

theorem upsert_average_witness:
  "ps_average (add_to_position (MariaDB False) 10 (10 * 250) (new_position ''s'' 10 100 None 0)) = 200 \<and>
   ps_average (add_to_position SQLite 10 (10 * 250) (new_position ''s'' 10 100 None 0)) = 175"
  using upsert_average [of "new_position ''s'' 10 100 None 0" 10 250]
  by (simp add: new_position_def)

text \<open>
  The holding time never sells: no holding that the repository returns carries the
  date under the key the monitor reads, so the rule of the maximum holding days gives no
  signal for any of them, at any age.
\<close>

theorem holding_days_never_sell:
  "\<forall>h \<in> set (get_active_portfolio l). max_holding_rule C h = None"
  by (auto simp: get_active_portfolio_def max_holding_rule_def row_holding_def)

theorem holding_days_never_sell_witness:
  "max_holding_rule default_mon_cfg (row_holding (''005930'', new_position ''s'' 10 100 None 0)) = None"
proof -
  let ?l = "\<lparr>lg_positions = [(''005930'', new_position ''s'' 10 100 None 0)], lg_trades = []\<rparr>"
  have "row_holding (''005930'', new_position ''s'' 10 100 None 0) \<in> set (get_active_portfolio ?l)"
    by (simp add: get_active_portfolio_def new_position_def)
  with holding_days_never_sell [of ?l default_mon_cfg] show ?thesis by blast
qed

end
