(* ===== verification/Strategy_Presets.thy ===== *)
theory Strategy_Presets
  imports Config_Manager
begin

text \<open>
  Strategy presets, \<open>shared/strategy_presets.py\<close>: the table of presets read from a JSON file,
  the choice of a preset by market regime, and its injection into the configuration.
  \<open>raw\<close> is the decoded file, \<open>None\<close> when it does not exist.
\<close>

type_synonym params = "(string \<times> pyval) list"

definition STRATEGY_PARAM_DEFAULTS :: params where
  "STRATEGY_PARAM_DEFAULTS = [
     (''rsi_buy'', PInt 30), (''breakout_buffer_pct'', PFloat (1/2)),
     (''bb_buffer_pct'', PFloat (3/2)), (''llm_threshold'', PInt 70),
     (''max_position_allocation'', PFloat 12), (''max_stock_pct'', PFloat 15),
     (''max_sector_pct'', PFloat 30), (''cash_keep_pct'', PFloat 5),
     (''target_profit_pct'', PFloat 8), (''base_stop_loss_pct'', PFloat 5),
     (''stop_loss_atr_mult'', PFloat (fl (18/10))), (''sell_rsi_1'', PFloat 70),
     (''sell_rsi_2'', PFloat 75), (''sell_rsi_3'', PFloat 80),
     (''max_buys_per_day'', PInt 3), (''max_hold_days'', PInt 30)]"

definition DEFAULT_REGIME_PRESETS :: "(string \<times> string) list" where
  "DEFAULT_REGIME_PRESETS = [(''BULL'', ''aggressive_swing''),
     (''SIDEWAYS'', ''balanced_champion''), (''BEAR'', ''iron_shield'')]"

definition CONFIG_KEY_MAP :: "(string \<times> string) list" where
  "CONFIG_KEY_MAP = [
     (''rsi_buy'', ''BUY_RSI_OVERSOLD_THRESHOLD''), (''target_profit_pct'', ''PROFIT_TARGET_FULL''),
     (''base_stop_loss_pct'', ''SELL_STOP_LOSS_PCT''),
     (''stop_loss_atr_mult'', ''ATR_MULTIPLIER_INITIAL_STOP''),
     (''sell_rsi_1'', ''RSI_THRESHOLD_1''), (''sell_rsi_2'', ''RSI_THRESHOLD_2''),
     (''sell_rsi_3'', ''RSI_THRESHOLD_3''), (''max_position_allocation'', ''MAX_POSITION_VALUE_PCT''),
     (''max_stock_pct'', ''MAX_STOCK_PCT''), (''max_sector_pct'', ''MAX_SECTOR_PCT''),
     (''cash_keep_pct'', ''CASH_KEEP_PCT''), (''max_buys_per_day'', ''MAX_BUY_COUNT_PER_DAY''),
     (''max_hold_days'', ''MAX_HOLDING_DAYS'')]"

text \<open>A preset without parameters is left out; an entry that is no dictionary raises.\<close>

fun collect_presets :: "(string \<times> pyval) list \<Rightarrow> (string \<times> pyval) list res" where
  "collect_presets [] = Inr []"
| "collect_presets ((key, meta) # rest) =
     res_bind (py_get meta ''params'' PNone) (\<lambda>params.
       res_bind (collect_presets rest) (\<lambda>ps.
         Inr (if truthy params then (key, params) # ps else ps)))"

definition load_strategy_presets :: "pyval res option \<Rightarrow> (string \<times> pyval) list res" where
  "load_strategy_presets raw = (case raw of
     None \<Rightarrow> Inr []
   | Some (Inl _) \<Rightarrow> Inr []
   | Some (Inr (PDict kvs)) \<Rightarrow> collect_presets kvs
   | Some (Inr _) \<Rightarrow> Inl AttributeError)"

definition get_preset :: "(string \<times> pyval) list \<Rightarrow> string \<Rightarrow> pyval" where
  "get_preset presets name = (if name = [] then PDict [] else dict_get presets name (PDict []))"

definition resolve_preset_for_regime ::
  "(string \<times> pyval) list \<Rightarrow> string \<Rightarrow> string \<Rightarrow> string \<times> pyval" where
  "resolve_preset_for_regime presets regime fallback_name =
     (let preset_name = dict_get DEFAULT_REGIME_PRESETS regime fallback_name;
          preset = get_preset presets preset_name
      in if truthy preset then (preset_name, preset)
         else (fallback_name, (let p = get_preset presets fallback_name
               in if truthy p then p else PDict STRATEGY_PARAM_DEFAULTS)))"

fun apply_keys :: "'d conf_db \<Rightarrow> rat \<Rightarrow> params \<Rightarrow> (string \<times> string) list \<Rightarrow> conf \<times> 'd \<Rightarrow> conf \<times> 'd" where
  "apply_keys D now params [] md = md"
| "apply_keys D now params ((param_key, config_key) # ks) md =
     apply_keys D now params ks (case map_of params param_key of
       None \<Rightarrow> md | Some v \<Rightarrow> snd (conf_set D now config_key (V v) False md))"

text \<open>A truthy value that is not a dictionary of parameters is outside the contract of the callers.\<close>

definition apply_preset_to_config :: "'d conf_db \<Rightarrow> rat \<Rightarrow> pyval \<Rightarrow> conf \<times> 'd \<Rightarrow> conf \<times> 'd" where
  "apply_preset_to_config D now preset md = (case preset of
     PDict kvs \<Rightarrow> apply_keys D now kvs CONFIG_KEY_MAP md | _ \<Rightarrow> md)"

lemma resolve_truthy: "truthy (snd (resolve_preset_for_regime presets regime f))"
  by (simp add: resolve_preset_for_regime_def Let_def STRATEGY_PARAM_DEFAULTS_def)

lemma conf_set_memory:
  "memory_cache (fst (snd (conf_set D now k v False md))) = (memory_cache (fst md))(k \<mapsto> (v, now))"
  "cache_ttl (fst (snd (conf_set D now k v False md))) = cache_ttl (fst md)"
  by (simp_all add: conf_set_def case_prod_beta Let_def)

lemma find_SomeD: "find P xs = Some x \<Longrightarrow> x \<in> set xs \<and> P x"
  by (induction xs) (auto split: if_splits)

text \<open>What an application leaves in the memory cache.\<close>

lemma apply_keys_memory:
  assumes "distinct (map snd ks)"
  shows "memory_cache (fst (apply_keys D now params ks md)) k =
    (case find (\<lambda>(p, c). c = k \<and> map_of params p \<noteq> None) ks of
       Some (p, _) \<Rightarrow> Some (V (the (map_of params p)), now) | None \<Rightarrow> memory_cache (fst md) k)"
  using assms
proof (induction D now params ks md rule: apply_keys.induct)
  case (2 D now params p c ks md)
  have n: "find (\<lambda>(p, c'). c' = c \<and> map_of params p \<noteq> None) ks = None"
    using 2(2) by (auto simp: find_None_iff image_iff)
  show ?case
    using 2 n by (cases "map_of params p") (auto simp: conf_set_memory split: option.splits)
qed simp

lemma apply_keys_ttl: "cache_ttl (fst (apply_keys D now params ks md)) = cache_ttl (fst md)"
  by (induction D now params ks md rule: apply_keys.induct) (auto simp: conf_set_memory split: option.split)

section \<open>Properties\<close>

text \<open>
  An applied preset rules the configuration: as long as the cache lives, every
  mapped key whose parameter the preset has reads as the value of the preset, whatever the
  environment and the table hold, and the memory of every other key is untouched.
\<close>

theorem preset_rules_configuration:
  assumes "fsub later now < cache_ttl (fst md)"
  shows "(\<forall>(p, c) \<in> set CONFIG_KEY_MAP. \<forall>v. map_of params p = Some v \<longrightarrow>
      fst (conf_get E D later True c dflt (apply_preset_to_config D now (PDict params) md)) = V v) \<and>
    (\<forall>k. k \<notin> snd ` set CONFIG_KEY_MAP \<longrightarrow>
      memory_cache (fst (apply_preset_to_config D now (PDict params) md)) k = memory_cache (fst md) k)"
proof -
  let ?md = "apply_keys D now params CONFIG_KEY_MAP md"
  have d: "distinct (map snd CONFIG_KEY_MAP)" "distinct (map fst CONFIG_KEY_MAP)" by code_simp+
  note m = apply_keys_memory [OF d(1), of D now params md]
  have "fst (conf_get E D later True c dflt ?md) = V v"
    if "(p, c) \<in> set CONFIG_KEY_MAP" "map_of params p = Some v" for p c v
  proof -
    have "find (\<lambda>(q, c'). c' = c \<and> map_of params q \<noteq> None) CONFIG_KEY_MAP = Some (p, c)"
    proof (cases "find (\<lambda>(q, c'). c' = c \<and> map_of params q \<noteq> None) CONFIG_KEY_MAP")
      case None
      then show ?thesis using that by (auto simp: find_None_iff)
    next
      case (Some r)
      then have "r \<in> set CONFIG_KEY_MAP" "snd r = c"
        using find_SomeD [OF Some] by (simp_all add: case_prod_beta)
      moreover have "r = (p, c)"
        using d(1) that(1) calculation by (auto simp: distinct_map inj_on_def)
      ultimately show ?thesis using Some by simp
    qed
    then have "cache_read (cache_ttl (fst ?md)) later (memory_cache (fst ?md)) c = Some (V v)"
      using assms that(2) by (simp add: cache_read_def m apply_keys_ttl)
    then show ?thesis by (simp add: conf_get_def Let_def)
  qed
  moreover have "memory_cache (fst ?md) k = memory_cache (fst md) k" if "k \<notin> snd ` set CONFIG_KEY_MAP" for k
  proof -
    have "find (\<lambda>(q, c'). c' = k \<and> map_of params q \<noteq> None) CONFIG_KEY_MAP = None"
      using that by (force simp: find_None_iff)
    then show ?thesis by (simp add: m)
  qed
  ultimately show ?thesis by (auto simp: apply_preset_to_config_def)
qed

theorem preset_rules_configuration_witness:
  "fst (conf_get (\<lambda>_. Some ''9'') map_db 60 True ''CASH_KEEP_PCT'' (V PNone)
     (apply_preset_to_config map_db 0 (PDict [(''cash_keep_pct'', PFloat 20)]) (new_conf 300, Map.empty)))
   = V (PFloat 20)"
proof -
  have t: "fsub 60 0 < cache_ttl (fst (new_conf 300, Map.empty :: string \<Rightarrow> cval option))"
    by (simp add: new_conf_def fsub_def fl_numeral)
  have i: "(''cash_keep_pct'', ''CASH_KEEP_PCT'') \<in> set CONFIG_KEY_MAP"
    by (simp add: CONFIG_KEY_MAP_def)
  show ?thesis
    using preset_rules_configuration [OF t, of "[(''cash_keep_pct'', PFloat 20)]" "\<lambda>_. Some ''9''" map_db "V PNone"] i
    by force
qed

end
