(* ===== verification/Sell_Executor.thy ===== *)
theory Sell_Executor
  imports Trade_Ledger Strategy_Presets
begin

text \<open>
  The execution of a sell order, \<open>services/sell-executor/executor.py\<close>: emergency stop, lock in
  Redis, strategy preset, holding, duplicate check, price, profit, order at the broker, ledger,
  clean-up of the position state, stop-loss cooldown. The record \<open>sell_env\<close> holds what the code
  outside the handler answers during one call (regime cache, preset file, prices, broker,
  faults of the database, environment, clock); one clock value stands for all readings of one
  call. Notifications and the metrics written beside the trade are left out.
\<close>

section \<open>Request, answer, environment and state\<close>

record sell_request =
  sr_code :: string
  sr_name :: string
  sr_quantity :: int
  sr_reason :: string
  sr_preset :: pyval
  sr_risk :: pyval
  sr_dry_run :: bool
  sr_price :: "rat option"

datatype sell_error = No_holding | No_price | No_current_price | Order_failed | Failed exn

datatype skip_reason = Emergency_stop | Locked | Duplicate

record receipt =
  rc_order_no :: string
  rc_quantity :: int
  rc_sell_price :: rat
  rc_buy_price :: rat
  rc_profit_pct :: rat
  rc_profit_amount :: rat
  rc_risk :: pyval
  rc_dry_run :: bool

datatype sell_answer = Sold receipt | Sell_skipped skip_reason | Sell_error sell_error

record sell_env =
  se_now :: rat
  se_clock :: rat
  se_stamp :: string
  se_digits :: string
  se_regime :: pyval
  se_presets :: "(string \<times> pyval) list res"
  se_mode :: string
  se_daily :: "rat option res"
  se_snapshot :: "pyval res"
  se_order :: "string option res"
  se_ready :: bool
  se_db :: database
  se_fault :: db_fault
  se_session :: "unit res"
  se_commit :: "unit res"
  se_cooldown :: string

text \<open>\<open>sw_orders\<close> lists the calls of \<open>place_sell_order\<close> with what the broker answered.\<close>

record ('s, 'd) sell_world =
  sw_redis :: 's
  sw_conf :: "conf \<times> 'd"
  sw_ledger :: ledger
  sw_orders :: "(string \<times> int \<times> string option res) list"

section \<open>Stages\<close>

definition is_manual :: "sell_request \<Rightarrow> bool" where
  "is_manual q = substr ''MANUAL'' (str_upper (sr_reason q))"

definition lock_key :: "string \<Rightarrow> string" where
  "lock_key code = ''lock:sell:'' @ code"

definition val_or :: "pyval \<Rightarrow> pyval \<Rightarrow> pyval" where
  "val_or v d = (if truthy v then v else d)"

text \<open>The parameters of the preset, and the regime cache if it was read.\<close>

definition choose_preset :: "sell_env \<Rightarrow> pyval \<Rightarrow> (pyval \<times> pyval) res" where
  "choose_preset EV strategy_preset =
     res_bind (py_get (val_or strategy_preset (PDict [])) ''params'' (PDict [])) (\<lambda>params.
       if truthy params then Inr (params, PNone)
       else res_bind
         (if truthy (se_regime EV)
          then res_bind (py_get (se_regime EV) ''strategy_preset'' (PDict []))
                 (\<lambda>shared. py_get (val_or shared (PDict [])) ''params'' params)
          else Inr params) (\<lambda>params'.
         if truthy params' then Inr (params', se_regime EV)
         else res_bind (se_presets EV) (\<lambda>presets.
           Inr (snd (resolve_preset_for_regime presets ''SIDEWAYS'' ''balanced_champion''), se_regime EV))))"

definition choose_risk :: "sell_env \<Rightarrow> pyval \<Rightarrow> pyval \<Rightarrow> pyval res" where
  "choose_risk EV risk cache =
     res_bind (if risk = PNone
       then (let cache' = (if cache = PNone then se_regime EV else cache)
             in if truthy cache' then py_get cache' ''risk_setting'' PNone else Inr PNone)
       else Inr risk) (\<lambda>r. Inr (val_or r (PDict [])))"

definition snapshot_price :: "pyval \<Rightarrow> rat res" where
  "snapshot_price v = (case v of
     PDict kvs \<Rightarrow> (case map_of kvs ''price'' of None \<Rightarrow> Inl (KeyError ''price'') | Some p \<Rightarrow> as_num p)
   | _ \<Rightarrow> Inl TypeError)"

definition look_up_price ::
  "sell_env \<Rightarrow> ('s, 'd) sell_world \<Rightarrow> (sell_answer, rat) flow \<times> ('s, 'd) sell_world" where
  "look_up_price EV w =
     (if se_mode EV = ''MOCK''
      then and_then (lift_res (se_daily EV) w) (\<lambda>close w. case close of
             None \<Rightarrow> (Return (Sell_error No_price), w) | Some p \<Rightarrow> (Next p, w))
      else and_then (lift_res (se_snapshot EV) w) (\<lambda>v w.
             if truthy v then lift_res (snapshot_price v) w
             else (Return (Sell_error No_current_price), w)))"

definition effective_price ::
  "sell_env \<Rightarrow> sell_request \<Rightarrow> ('s, 'd) sell_world \<Rightarrow> (sell_answer, rat) flow \<times> ('s, 'd) sell_world" where
  "effective_price EV q w = (case sr_price q of
     Some p \<Rightarrow> if 0 < p then (Next p, w) else look_up_price EV w
   | None \<Rightarrow> look_up_price EV w)"

definition sale_profit_pct :: "rat \<Rightarrow> rat \<Rightarrow> rat res" where
  "sale_profit_pct price buy_price =
     (if buy_price = 0 then Inl ZeroDivisionError
      else Inr (fmul (fdiv (fsub price buy_price) buy_price) 100))"

definition send_order ::
  "sell_env \<Rightarrow> sell_request \<Rightarrow> ('s, 'd) sell_world \<Rightarrow> (sell_answer, string) flow \<times> ('s, 'd) sell_world" where
  "send_order EV q w =
     (if sr_dry_run q then (Next (''DRY_RUN_SELL_'' @ se_digits EV), w)
      else and_then
        (lift_res (se_order EV) (w\<lparr>sw_orders := sw_orders w @ [(sr_code q, sr_quantity q, se_order EV)]\<rparr>))
        (\<lambda>no w. case no of
           None \<Rightarrow> (Return (Sell_error Order_failed), w)
         | Some n \<Rightarrow> if n = [] then (Return (Sell_error Order_failed), w) else (Next n, w)))"

text \<open>The answer of \<open>execute_trade_and_log\<close> is not used.\<close>

definition sale_of :: "sell_request \<Rightarrow> rat \<Rightarrow> trade" where
  "sale_of q price = \<lparr>td_side = SELL, td_code = sr_code q, td_name = sr_name q,
     td_quantity = sr_quantity q, td_price = price, td_reason = sr_reason q, td_stop_loss = None\<rparr>"

definition record_sell_trade ::
  "sell_env \<Rightarrow> sell_request \<Rightarrow> rat \<Rightarrow> ('s, 'd) sell_world \<Rightarrow> ('s, 'd) sell_world" where
  "record_sell_trade EV q price w = w\<lparr>sw_ledger :=
     snd (execute_trade_and_log (se_ready EV) (se_db EV) (se_fault EV) (se_now EV) (sale_of q price)
       (sw_ledger w))\<rparr>"

definition is_stop_loss_reason :: "string \<Rightarrow> bool" where
  "is_stop_loss_reason reason \<longleftrightarrow>
     (\<exists>kw \<in> set [''stop_loss'', ''stop loss'', ''atr stop'']. substr kw (str_lower reason))"

definition clean_state :: "'s redis \<Rightarrow> sell_env \<Rightarrow> sell_request \<Rightarrow> 's \<Rightarrow> 's" where
  "clean_state R EV q s =
     (let s1 = snd (delete_high_watermark R (sr_code q) s);
          s2 = snd (delete_scale_out_level R (sr_code q) s1);
          s3 = snd (delete_profit_floor R (sr_code q) s2)
      in if is_stop_loss_reason (sr_reason q)
         then (case parse_int (se_cooldown EV) of
             Inl _ \<Rightarrow> s3
           | Inr days \<Rightarrow> snd (set_stoploss_cooldown R (se_stamp EV) (sr_code q) days s3))
         else s3)"

definition unlock :: "'s redis \<Rightarrow> bool \<Rightarrow> string \<Rightarrow> 's \<Rightarrow> 's" where
  "unlock R locked code s = (if locked then snd (r_delete R (lock_key code) s) else s)"

section \<open>The handler\<close>

definition in_session ::
  "'s redis \<Rightarrow> sell_env \<Rightarrow> sell_request \<Rightarrow> bool \<Rightarrow> pyval \<Rightarrow> ('s, 'd) sell_world
    \<Rightarrow> (sell_answer, receipt) flow \<times> ('s, 'd) sell_world" where
  "in_session R EV q locked risk w =
     (case find_code (sr_code q) (get_active_portfolio (sw_ledger w)) of
        None \<Rightarrow> (Return (Sell_error No_holding), w)
      | Some h \<Rightarrow>
          if \<not> is_manual q \<and> check_duplicate_order (sw_ledger w) (se_now EV) (sr_code q) SELL 10
          then (Return (Sell_skipped Duplicate), w)
          else and_then (effective_price EV q w) (\<lambda>price w.
            and_then (lift_res (sale_profit_pct price (h_avg_price h)) w) (\<lambda>pct w.
            and_then (send_order EV q w) (\<lambda>order_no w.
              (let w1 = record_sell_trade EV q price w;
                   w2 = w1\<lparr>sw_redis := unlock R locked (sr_code q) (clean_state R EV q (sw_redis w1))\<rparr>
               in (Next \<lparr>rc_order_no = order_no, rc_quantity = sr_quantity q, rc_sell_price = price,
                     rc_buy_price = h_avg_price h, rc_profit_pct = py_round 2 pct,
                     rc_profit_amount = py_round 0 (fmul (fsub price (h_avg_price h)) (of_py_int (sr_quantity q))),
                     rc_risk = risk, rc_dry_run = sr_dry_run q\<rparr>, w2))))))"

definition with_session ::
  "sell_env \<Rightarrow> (('s, 'd) sell_world \<Rightarrow> ('o, 'a) flow \<times> ('s, 'd) sell_world) \<Rightarrow> ('s, 'd) sell_world
    \<Rightarrow> ('o, 'a) flow \<times> ('s, 'd) sell_world" where
  "with_session EV = session_scope (se_session EV) (se_commit EV) (\<lambda>w w'. w'\<lparr>sw_ledger := sw_ledger w\<rparr>)"

definition sell_stages ::
  "'s redis \<Rightarrow> 'd conf_db \<Rightarrow> sell_env \<Rightarrow> sell_request \<Rightarrow> bool \<Rightarrow> ('s, 'd) sell_world
    \<Rightarrow> (sell_answer, receipt) flow \<times> ('s, 'd) sell_world" where
  "sell_stages R D EV q locked w =
     and_then (lift_res (choose_preset EV (sr_preset q)) w) (\<lambda>(params, cache) w.
       let w1 = w\<lparr>sw_conf := apply_preset_to_config D (se_clock EV) params (sw_conf w)\<rparr>
       in and_then (lift_res (choose_risk EV (sr_risk q) cache) w1) (\<lambda>risk.
            with_session EV (in_session R EV q locked risk)))"

definition finish_sell ::
  "'s redis \<Rightarrow> sell_request \<Rightarrow> bool \<Rightarrow> (sell_answer, receipt) flow \<times> ('s, 'd) sell_world
    \<Rightarrow> sell_answer \<times> ('s, 'd) sell_world" where
  "finish_sell R q locked r = (case r of
     (Return a, w) \<Rightarrow> (a, w)
   | (Next rc, w) \<Rightarrow> (Sold rc, w)
   | (Raise e, w) \<Rightarrow> (Sell_error (Failed e), w\<lparr>sw_redis := unlock R locked (sr_code q) (sw_redis w)\<rparr>))"

definition locked_sell ::
  "'s redis \<Rightarrow> 'd conf_db \<Rightarrow> sell_env \<Rightarrow> sell_request \<Rightarrow> ('s, 'd) sell_world
    \<Rightarrow> sell_answer \<times> ('s, 'd) sell_world" where
  "locked_sell R D EV q w =
     (if r_conn R (sw_redis w)
      then (case r_set_nx_ex R (lock_key (sr_code q)) 30 (Text ''LOCKED'') (sw_redis w) of
          (Inl e, s) \<Rightarrow> (Sell_error (Failed e), w\<lparr>sw_redis := s\<rparr>)
        | (Inr False, s) \<Rightarrow> (Sell_skipped Locked, w\<lparr>sw_redis := s\<rparr>)
        | (Inr True, s) \<Rightarrow> finish_sell R q True (sell_stages R D EV q True (w\<lparr>sw_redis := s\<rparr>)))
      else finish_sell R q False (sell_stages R D EV q False w))"

text \<open>The emergency stop is read before the \<open>try\<close> block.\<close>

definition execute_sell_order ::
  "'s redis \<Rightarrow> 'd conf_db \<Rightarrow> sell_env \<Rightarrow> sell_request \<Rightarrow> ('s, 'd) sell_world
    \<Rightarrow> sell_answer res \<times> ('s, 'd) sell_world" where
  "execute_sell_order R D EV q w =
     (if is_manual q then map_prod Inr id (locked_sell R D EV q w)
      else (case is_trading_stopped R (sw_redis w) of
          (Inl e, s) \<Rightarrow> (Inl e, w\<lparr>sw_redis := s\<rparr>)
        | (Inr v, s) \<Rightarrow>
            if truthy v then (Inr (Sell_skipped Emergency_stop), w\<lparr>sw_redis := s\<rparr>)
            else map_prod Inr id (locked_sell R D EV q (w\<lparr>sw_redis := s\<rparr>))))"

section \<open>What a completed sale needs\<close>

text \<open>The price and the order number of a sale that goes through.\<close>

definition looked_up :: "sell_env \<Rightarrow> rat option" where
  "looked_up EV = (if se_mode EV = ''MOCK''
     then (case se_daily EV of Inr (Some p) \<Rightarrow> Some p | _ \<Rightarrow> None)
     else (case se_snapshot EV of
         Inr v \<Rightarrow> if truthy v then (case snapshot_price v of Inr p \<Rightarrow> Some p | _ \<Rightarrow> None) else None
       | _ \<Rightarrow> None))"

definition sale_price :: "sell_env \<Rightarrow> sell_request \<Rightarrow> rat option" where
  "sale_price EV q = (case sr_price q of
     Some p \<Rightarrow> if 0 < p then Some p else looked_up EV | None \<Rightarrow> looked_up EV)"

definition sale_number :: "sell_env \<Rightarrow> sell_request \<Rightarrow> string option" where
  "sale_number EV q = (if sr_dry_run q then Some (''DRY_RUN_SELL_'' @ se_digits EV)
     else (case se_order EV of Inr (Some n) \<Rightarrow> if n = [] then None else Some n | _ \<Rightarrow> None))"

definition sent :: "sell_env \<Rightarrow> sell_request \<Rightarrow> (string \<times> int \<times> string option res) list" where
  "sent EV q = (if sr_dry_run q then [] else [(sr_code q, sr_quantity q, se_order EV)])"

lemma look_up_price_Next: "look_up_price EV w = (Next p, w') \<longleftrightarrow> w' = w \<and> looked_up EV = Some p"
proof (cases "se_mode EV = ''MOCK''")
  case True
  then show ?thesis
    by (cases "se_daily EV") (auto simp: look_up_price_def looked_up_def split: option.splits)
next
  case False
  then show ?thesis
  proof (cases "se_snapshot EV")
    case (Inr v)
    with False show ?thesis
      by (cases "snapshot_price v") (auto simp: look_up_price_def looked_up_def)
  qed (simp add: look_up_price_def looked_up_def)
qed

lemma effective_price_Next:
  "effective_price EV q w = (Next p, w') \<longleftrightarrow> w' = w \<and> sale_price EV q = Some p"
  by (cases "sr_price q") (auto simp: effective_price_def sale_price_def look_up_price_Next)

lemma send_order_Next:
  "send_order EV q w = (Next n, w') \<longleftrightarrow>
    w' = w\<lparr>sw_orders := sw_orders w @ sent EV q\<rparr> \<and> sale_number EV q = Some n"
proof (cases "sr_dry_run q")
  case False
  show ?thesis
  proof (cases "se_order EV")
    case (Inr no)
    with False show ?thesis by (cases no) (auto simp: send_order_def sale_number_def sent_def)
  qed (use False in \<open>simp add: send_order_def sale_number_def\<close>)
qed (auto simp: send_order_def sale_number_def sent_def)

text \<open>
  The terms of a sale: the ledger and the answers of the environment under which the stages
  behind the lock come to their end, with the receipt they give.
\<close>

definition sell_terms :: "sell_env \<Rightarrow> sell_request \<Rightarrow> ledger \<Rightarrow> receipt \<Rightarrow> bool" where
  "sell_terms EV q l rc \<longleftrightarrow> (\<exists>h params cache.
     find_code (sr_code q) (get_active_portfolio l) = Some h \<and>
     (is_manual q \<or> \<not> check_duplicate_order l (se_now EV) (sr_code q) SELL 10) \<and>
     sale_price EV q = Some (rc_sell_price rc) \<and> rc_buy_price rc = h_avg_price h \<and> h_avg_price h \<noteq> 0 \<and>
     sale_number EV q = Some (rc_order_no rc) \<and>
     choose_preset EV (sr_preset q) = Inr (params, cache) \<and>
     choose_risk EV (sr_risk q) cache = Inr (rc_risk rc) \<and>
     se_session EV = Inr () \<and> se_commit EV = Inr () \<and>
     rc_quantity rc = sr_quantity q \<and> rc_dry_run rc = sr_dry_run q \<and>
     rc_profit_pct rc = py_round 2 (fmul (fdiv (fsub (rc_sell_price rc) (h_avg_price h)) (h_avg_price h)) 100) \<and>
     rc_profit_amount rc =
       py_round 0 (fmul (fsub (rc_sell_price rc) (h_avg_price h)) (of_py_int (sr_quantity q))))"

definition after_sale ::
  "'s redis \<Rightarrow> sell_env \<Rightarrow> sell_request \<Rightarrow> bool \<Rightarrow> rat \<Rightarrow> ('s, 'd) sell_world \<Rightarrow> ('s, 'd) sell_world" where
  "after_sale R EV q locked price w = w\<lparr>sw_orders := sw_orders w @ sent EV q,
     sw_ledger := snd (execute_trade_and_log (se_ready EV) (se_db EV) (se_fault EV) (se_now EV) (sale_of q price)
       (sw_ledger w)),
     sw_redis := unlock R locked (sr_code q) (clean_state R EV q (sw_redis w))\<rparr>"

lemma profit_Inr: "sale_profit_pct p b = Inr x \<longleftrightarrow> b \<noteq> 0 \<and> x = fmul (fdiv (fsub p b) b) 100"
  by (auto simp: sale_profit_pct_def)

lemma in_session_Next:
  "in_session R EV q locked risk w = (Next rc, w') \<longleftrightarrow>
    (\<exists>h. find_code (sr_code q) (get_active_portfolio (sw_ledger w)) = Some h \<and>
     (is_manual q \<or> \<not> check_duplicate_order (sw_ledger w) (se_now EV) (sr_code q) SELL 10) \<and>
     sale_price EV q = Some (rc_sell_price rc) \<and> rc_buy_price rc = h_avg_price h \<and> h_avg_price h \<noteq> 0 \<and>
     sale_number EV q = Some (rc_order_no rc) \<and> rc_risk rc = risk \<and>
     rc_quantity rc = sr_quantity q \<and> rc_dry_run rc = sr_dry_run q \<and>
     rc_profit_pct rc = py_round 2 (fmul (fdiv (fsub (rc_sell_price rc) (h_avg_price h)) (h_avg_price h)) 100) \<and>
     rc_profit_amount rc =
       py_round 0 (fmul (fsub (rc_sell_price rc) (h_avg_price h)) (of_py_int (sr_quantity q)))) \<and>
    w' = after_sale R EV q locked (rc_sell_price rc) w"
  unfolding in_session_def
  by (cases rc) (auto simp: and_then_Next lift_res_Next effective_price_Next send_order_Next profit_Inr
      Let_def record_sell_trade_def after_sale_def split: option.splits if_splits)

lemma with_session_Next:
  "with_session EV body w = (Next x, w') \<longleftrightarrow>
    se_session EV = Inr () \<and> se_commit EV = Inr () \<and> body w = (Next x, w')"
  by (simp add: with_session_def session_scope_Next)

lemma sell_stages_Next:
  "sell_stages R D EV q locked w = (Next rc, w') \<longleftrightarrow> (\<exists>params cache risk.
     choose_preset EV (sr_preset q) = Inr (params, cache) \<and> choose_risk EV (sr_risk q) cache = Inr risk \<and>
     se_session EV = Inr () \<and> se_commit EV = Inr () \<and>
     in_session R EV q locked risk (w\<lparr>sw_conf := apply_preset_to_config D (se_clock EV) params (sw_conf w)\<rparr>)
       = (Next rc, w'))"
  by (simp add: sell_stages_def and_then_Next lift_res_Next with_session_Next Let_def case_prod_beta)

lemma sell_stages_terms:
  assumes "sell_stages R D EV q locked w = (Next rc, w')"
  shows "sell_terms EV q (sw_ledger w) rc"
    "\<exists>m. w' = after_sale R EV q locked (rc_sell_price rc) (w\<lparr>sw_conf := m\<rparr>)"
proof -
  from assms obtain params cache risk where
    a: "choose_preset EV (sr_preset q) = Inr (params, cache)" "choose_risk EV (sr_risk q) cache = Inr risk"
      "se_session EV = Inr ()" "se_commit EV = Inr ()"
    and b: "in_session R EV q locked risk
      (w\<lparr>sw_conf := apply_preset_to_config D (se_clock EV) params (sw_conf w)\<rparr>) = (Next rc, w')"
    unfolding sell_stages_Next by blast
  from b have "w' = after_sale R EV q locked (rc_sell_price rc)
      (w\<lparr>sw_conf := apply_preset_to_config D (se_clock EV) params (sw_conf w)\<rparr>)"
    unfolding in_session_Next by blast
  then show "\<exists>m. w' = after_sale R EV q locked (rc_sell_price rc) (w\<lparr>sw_conf := m\<rparr>)" by blast
  from a b show "sell_terms EV q (sw_ledger w) rc"
    unfolding in_session_Next sell_terms_def by auto
qed

lemma sell_stages_done:
  assumes "sell_terms EV q (sw_ledger w) rc"
  shows "\<exists>m. sell_stages R D EV q locked w = (Next rc, after_sale R EV q locked (rc_sell_price rc) (w\<lparr>sw_conf := m\<rparr>))"
proof -
  from assms obtain params cache where
    a: "choose_preset EV (sr_preset q) = Inr (params, cache)" "choose_risk EV (sr_risk q) cache = Inr (rc_risk rc)"
      "se_session EV = Inr ()" "se_commit EV = Inr ()"
    unfolding sell_terms_def by blast
  let ?w = "w\<lparr>sw_conf := apply_preset_to_config D (se_clock EV) params (sw_conf w)\<rparr>"
  have "in_session R EV q locked (rc_risk rc) ?w = (Next rc, after_sale R EV q locked (rc_sell_price rc) ?w)"
    using assms unfolding in_session_Next sell_terms_def by auto
  with a show ?thesis using sell_stages_Next [of R D EV q locked w rc] by blast
qed


lemma finish_Sold:
  "finish_sell R q locked r = (Sold rc, w') \<Longrightarrow> fst r \<noteq> Return (Sold rc) \<Longrightarrow> r = (Next rc, w')"
  by (auto simp: finish_sell_def split: prod.splits flow.splits)

section \<open>Early ends\<close>

text \<open>The answers given by a \<open>return\<close> between the lock and the end of the handler.\<close>

definition early :: "sell_answer \<Rightarrow> bool" where
  "early a \<longleftrightarrow> a \<in> {Sell_error No_holding, Sell_error No_price, Sell_error No_current_price,
     Sell_error Order_failed, Sell_skipped Duplicate}"

definition sell_allowed :: "sell_env \<Rightarrow> sell_request \<Rightarrow> ledger \<Rightarrow> bool" where
  "sell_allowed EV q l \<longleftrightarrow> find_code (sr_code q) (get_active_portfolio l) \<noteq> None \<and>
     (is_manual q \<or> \<not> check_duplicate_order l (se_now EV) (sr_code q) SELL 10)"

lemma effective_price_early:
  assumes "effective_price EV q w = (f, w')"
  shows "w' = w" "f = Return a \<Longrightarrow> early a"
proof -
  have l: "w' = w \<and> (\<forall>a. f = Return a \<longrightarrow> early a)" if "look_up_price EV w = (f, w')" for f w'
  proof (cases "se_mode EV = ''MOCK''")
    case True
    with that show ?thesis
      by (cases "se_daily EV") (auto simp: look_up_price_def early_def split: option.splits)
  next
    case False
    with that show ?thesis
    proof (cases "se_snapshot EV")
      case (Inr v)
      with False that show ?thesis
        by (cases "snapshot_price v") (auto simp: look_up_price_def early_def split: if_splits)
    qed (use False that in \<open>auto simp: look_up_price_def\<close>)
  qed
  show "w' = w" "f = Return a \<Longrightarrow> early a"
    using assms l by (auto simp: effective_price_def split: option.splits if_splits)
qed

lemma send_order_early:
  assumes "send_order EV q w = (f, w')"
  shows "w' = w\<lparr>sw_orders := sw_orders w @ sent EV q\<rparr>" "f = Return a \<Longrightarrow> early a"
proof -
  have "w' = w\<lparr>sw_orders := sw_orders w @ sent EV q\<rparr> \<and> (\<forall>a. f = Return a \<longrightarrow> early a)"
  proof (cases "sr_dry_run q")
    case False
    show ?thesis
    proof (cases "se_order EV")
      case (Inr no)
      with False assms show ?thesis
        by (cases no) (auto simp: send_order_def sent_def early_def split: if_splits)
    qed (use False assms in \<open>auto simp: send_order_def sent_def\<close>)
  qed (use assms in \<open>auto simp: send_order_def sent_def\<close>)
  then show "w' = w\<lparr>sw_orders := sw_orders w @ sent EV q\<rparr>" "f = Return a \<Longrightarrow> early a" by auto
qed

text \<open>What a call that ends before the record of the trade has done.\<close>

definition cut_short ::
  "sell_env \<Rightarrow> sell_request \<Rightarrow> (sell_answer, 'a) flow \<Rightarrow> ('s, 'd) sell_world \<Rightarrow> ('s, 'd) sell_world \<Rightarrow> bool" where
  "cut_short EV q f w w' \<longleftrightarrow> sw_redis w' = sw_redis w \<and> sw_ledger w' = sw_ledger w \<and>
     (sw_orders w' = sw_orders w \<or>
      sw_orders w' = sw_orders w @ sent EV q \<and> sell_allowed EV q (sw_ledger w)) \<and>
     (\<forall>a. f = Return a \<longrightarrow> early a)"

lemma cut_in_session:
  assumes "in_session R EV q locked risk w = (f, w')" "\<forall>rc. f \<noteq> Next rc"
  shows "cut_short EV q f w w'"
proof (cases "find_code (sr_code q) (get_active_portfolio (sw_ledger w))")
  case None
  with assms show ?thesis by (auto simp: in_session_def cut_short_def early_def)
next
  case (Some h)
  show ?thesis
  proof (cases "\<not> is_manual q \<and> check_duplicate_order (sw_ledger w) (se_now EV) (sr_code q) SELL 10")
    case True
    with Some assms show ?thesis by (auto simp: in_session_def cut_short_def early_def)
  next
    case False
    then have al: "sell_allowed EV q (sw_ledger w)" using Some by (auto simp: sell_allowed_def)
    obtain fp w1 where p: "effective_price EV q w = (fp, w1)" by fastforce
    note pe = effective_price_early [OF p]
    show ?thesis
    proof (cases fp)
      case (Next price)
      show ?thesis
      proof (cases "sale_profit_pct price (h_avg_price h)")
        case (Inl e)
        with Some False assms p pe(1) Next show ?thesis
          by (auto simp: in_session_def cut_short_def)
      next
        case (Inr pct)
        obtain fo w2 where o: "send_order EV q w = (fo, w2)" by fastforce
        note oe = send_order_early [OF o]
        from Some False assms p pe(1) Next Inr o oe al show ?thesis
          by (cases fo) (auto simp: in_session_def cut_short_def Let_def)
      qed
    qed (use Some False assms p pe in \<open>auto simp: in_session_def cut_short_def\<close>)
  qed
qed

lemma after_sale_simps [simp]:
  "sw_ledger (after_sale R EV q locked p w) = snd (execute_trade_and_log (se_ready EV) (se_db EV) (se_fault EV)
     (se_now EV) (sale_of q p) (sw_ledger w))"
  "sw_orders (after_sale R EV q locked p w) = sw_orders w @ sent EV q"
  "sw_redis (after_sale R EV q locked p w) = unlock R locked (sr_code q) (clean_state R EV q (sw_redis w))"
  by (simp_all add: after_sale_def)

lemma with_session_cases:
  assumes "with_session EV body w = (f, w')"
  obtains "f \<in> range Raise" "w' = w"
  | w1 where "body w = (f, w1)" "\<forall>e. f \<noteq> Raise e" "w' = w1"
  | g w1 where "body w = (g, w1)" "f \<in> range Raise" "w' = w1\<lparr>sw_ledger := sw_ledger w\<rparr>"
proof (cases "se_session EV")
  case (Inl e)
  with assms that(1) show ?thesis by (auto simp: with_session_def session_scope_def)
next
  case (Inr u)
  obtain g w1 where b: "body w = (g, w1)" by fastforce
  show ?thesis
  proof (cases "g \<in> range Raise")
    case True
    then obtain e where "g = Raise e" by blast
    with Inr b assms that(3) show ?thesis by (auto simp: with_session_def session_scope_def)
  next
    case False
    then have n: "\<forall>e. g \<noteq> Raise e" by blast
    show ?thesis
    proof (cases "se_commit EV")
      case (Inl e)
      with Inr b assms that(3) n show ?thesis by (cases g) (auto simp: with_session_def session_scope_def)
    next
      case (Inr v)
      with \<open>se_session EV = Inr u\<close> b assms that(2) n show ?thesis
        by (cases g) (auto simp: with_session_def session_scope_def)
    qed
  qed
qed

lemma cut_stages:
  assumes "sell_stages R D EV q locked w = (f, w')" "\<forall>rc. f \<noteq> Next rc"
  shows "cut_short EV q f w w' \<or>
    (f \<in> range Raise \<and> sw_ledger w' = sw_ledger w \<and> sw_orders w' = sw_orders w @ sent EV q \<and>
     sell_allowed EV q (sw_ledger w) \<and> sw_redis w' = unlock R locked (sr_code q) (clean_state R EV q (sw_redis w)))"
proof -
  have early_raise: ?thesis if "f = Raise e" "sw_redis w' = sw_redis w" "sw_ledger w' = sw_ledger w"
    "sw_orders w' = sw_orders w" for e
    using that by (simp add: cut_short_def)
  show ?thesis
  proof (cases "choose_preset EV (sr_preset q)")
    case (Inl e)
    with assms early_raise show ?thesis by (auto simp: sell_stages_def)
  next
    case (Inr pc)
    let ?w = "w\<lparr>sw_conf := apply_preset_to_config D (se_clock EV) (fst pc) (sw_conf w)\<rparr>"
    show ?thesis
    proof (cases "choose_risk EV (sr_risk q) (snd pc)")
      case (Inl e)
      with Inr assms early_raise show ?thesis by (auto simp: sell_stages_def case_prod_beta Let_def)
    next
      case (Inr risk)
      with \<open>choose_preset EV (sr_preset q) = Inr pc\<close> assms(1)
      have w: "with_session EV (in_session R EV q locked risk) ?w = (f, w')"
        by (simp add: sell_stages_def case_prod_beta Let_def)
      have s: "cut_short EV q f ?w x \<Longrightarrow> cut_short EV q f w x" for x
        by (simp add: cut_short_def)
      from w show ?thesis
      proof (cases rule: with_session_cases)
        case 1
        then show ?thesis using early_raise by auto
      next
        case (2 w1)
        with assms(2) s cut_in_session [of R EV q locked risk ?w f w1] show ?thesis by simp
      next
        case (3 g w1)
        show ?thesis
        proof (cases g)
          case (Next rc)
          with 3(1) have "in_session R EV q locked risk ?w = (Next rc, w1)" by simp
          then have "w1 = after_sale R EV q locked (rc_sell_price rc) ?w" "sell_allowed EV q (sw_ledger w)"
            unfolding in_session_Next by (auto simp: sell_allowed_def)
          with 3 show ?thesis by simp
        qed (use 3 cut_in_session [of R EV q locked risk ?w g w1] in \<open>auto simp: cut_short_def\<close>)
      qed
    qed
  qed
qed

text \<open>The handler behind the lock: its orders, for any answer.\<close>

definition order_step :: "sell_env \<Rightarrow> sell_request \<Rightarrow> ('s, 'd) sell_world \<Rightarrow> ('s, 'd) sell_world \<Rightarrow> bool" where
  "order_step EV q w w' \<longleftrightarrow> sw_orders w' = sw_orders w \<or>
     sw_orders w' = sw_orders w @ sent EV q \<and> sell_allowed EV q (sw_ledger w)"

lemma terms_allowed: "sell_terms EV q l rc \<Longrightarrow> sell_allowed EV q l"
  by (auto simp: sell_terms_def sell_allowed_def)

lemma stages_order_step:
  assumes "sell_stages R D EV q locked w = (f, w')"
  shows "order_step EV q w w'"
proof (cases f)
  case (Next rc)
  with assms have "sell_stages R D EV q locked w = (Next rc, w')" by simp
  with sell_stages_terms [OF this] terms_allowed show ?thesis by (auto simp: order_step_def)
qed (use cut_stages [OF assms] in \<open>auto simp: cut_short_def order_step_def\<close>)

lemma finish_orders: "sw_orders (snd (finish_sell R q locked r)) = sw_orders (snd r)"
  by (simp add: finish_sell_def case_prod_beta split: flow.splits)

lemma locked_order_step:
  "order_step EV q w (snd (locked_sell R D EV q w)) \<and>
   (sw_orders (snd (locked_sell R D EV q w)) = sw_orders w \<or> \<not> r_conn R (sw_redis w) \<or>
    fst (r_set_nx_ex R (lock_key (sr_code q)) 30 (Text ''LOCKED'') (sw_redis w)) = Inr True)"
proof -
  have a: "order_step EV q w (snd (finish_sell R q locked (sell_stages R D EV q locked (w\<lparr>sw_redis := s\<rparr>))))" for locked s
    using stages_order_step [of R D EV q locked "w\<lparr>sw_redis := s\<rparr>"]
    by (cases "sell_stages R D EV q locked (w\<lparr>sw_redis := s\<rparr>)") (simp add: order_step_def finish_orders)
  have b: "order_step EV q w (snd (finish_sell R q False (sell_stages R D EV q False w)))"
    using a [of False "sw_redis w"] by simp
  show ?thesis
    using a b by (auto simp: locked_sell_def order_step_def split: prod.splits sum.splits bool.splits)
qed

section \<open>The server after a call\<close>

definition stop_answer :: "payload option \<Rightarrow> pyval res" where
  "stop_answer c = py_get (case c of None \<Rightarrow> default_flag
     | Some d \<Rightarrow> if text_truthy d then (case json_loads d of Inl _ \<Rightarrow> default_flag | Inr v \<Rightarrow> v)
         else default_flag) ''value'' (PBool False)"

lemma is_trading_stopped_up:
  assumes "redis_laws R up look" "up s"
  shows "is_trading_stopped R s = (stop_answer (look s TRADING_STOP_KEY), s)"
proof -
  have k: "flag_key_map (str_lower ''stop'') = Some TRADING_STOP_KEY" by code_simp
  show ?thesis
    by (auto simp: is_trading_stopped_def get_trading_flag_def k redis_rules [OF assms] stop_answer_def Let_def
        split: option.splits sum.splits)
qed

lemma cooldown_positive: "0 < d \<Longrightarrow> 0 < cooldown_calendar_days d"
proof -
  assume "0 < d"
  then have "of_py_int 1 \<le> of_py_int d" by (intro of_py_int_mono) simp
  moreover have "(0::rat) \<le> fl (14/10)" by code_simp
  ultimately have "fmul (of_py_int 1) (fl (14/10)) \<le> fmul (of_py_int d) (fl (14/10))"
    unfolding fmul_def by (intro fl_mono mult_right_mono)
  then have "cooldown_calendar_days 1 \<le> cooldown_calendar_days d"
    unfolding cooldown_calendar_days_def fadd_def by (intro py_int_mono fl_mono) simp
  moreover have "cooldown_calendar_days 1 = 1" by code_simp
  ultimately show ?thesis by linarith
qed

lemma set_cooldown_up:
  assumes "redis_laws R up look" "up s"
  shows "up (snd (set_stoploss_cooldown R stamp c d s))"
    "k \<noteq> STOPLOSS_COOLDOWN_PREFIX @ c \<Longrightarrow> look (snd (set_stoploss_cooldown R stamp c d s)) k = look s k"
    "0 < d \<Longrightarrow> look (snd (set_stoploss_cooldown R stamp c d s)) (STOPLOSS_COOLDOWN_PREFIX @ c) \<noteq> None"
  using cooldown_positive [of d] assms(2)
  by (auto simp: set_stoploss_cooldown_def redis_rules [OF assms] Let_def)

definition cleared :: "string \<Rightarrow> (string \<Rightarrow> payload option) \<Rightarrow> string \<Rightarrow> payload option" where
  "cleared c f = f(HIGH_WATERMARK_PREFIX @ c := None, SCALE_OUT_PREFIX @ c := None, PROFIT_FLOOR_PREFIX @ c := None)"

lemma clean_state_up:
  assumes L: "redis_laws R up look" and U: "up s"
  shows "up (clean_state R EV q s)"
    "k \<noteq> STOPLOSS_COOLDOWN_PREFIX @ sr_code q \<Longrightarrow> look (clean_state R EV q s) k = cleared (sr_code q) (look s) k"
    "is_stop_loss_reason (sr_reason q) \<Longrightarrow> parse_int (se_cooldown EV) = Inr d \<Longrightarrow> 0 < d \<Longrightarrow>
      look (clean_state R EV q s) (STOPLOSS_COOLDOWN_PREFIX @ sr_code q) \<noteq> None"
  using U
  by (auto simp: clean_state_def delete_high_watermark_def delete_scale_out_level_def delete_profit_floor_def
      Let_def delete_key_up [OF L] set_cooldown_up [OF L] cleared_def split: sum.splits simp del: fun_upd_apply)

lemma unlock_up:
  assumes "redis_laws R up look" "up s"
  shows "up (unlock R locked c s)"
    "look (unlock R locked c s) = (if locked then (look s)(lock_key c := None) else look s)"
  using assms(2) by (simp_all add: unlock_def redis_rules [OF assms])

lemma lock_key_neq [simp]:
  "lock_key c \<noteq> STOPLOSS_COOLDOWN_PREFIX @ d" "lock_key c \<noteq> HIGH_WATERMARK_PREFIX @ d"
  "lock_key c \<noteq> SCALE_OUT_PREFIX @ d" "lock_key c \<noteq> PROFIT_FLOOR_PREFIX @ d" "lock_key c \<noteq> TRADING_STOP_KEY"
  "TRADING_STOP_KEY \<noteq> STOPLOSS_COOLDOWN_PREFIX @ d" "TRADING_STOP_KEY \<noteq> HIGH_WATERMARK_PREFIX @ d"
  "TRADING_STOP_KEY \<noteq> SCALE_OUT_PREFIX @ d" "TRADING_STOP_KEY \<noteq> PROFIT_FLOOR_PREFIX @ d"
  by (simp_all add: lock_key_def key_prefixes TRADING_STOP_KEY_def)

text \<open>A call that gets past the emergency stop runs behind the lock.\<close>

definition passes_stop :: "sell_request \<Rightarrow> payload option \<Rightarrow> bool" where
  "passes_stop q c \<longleftrightarrow> is_manual q \<or> (\<exists>v. stop_answer c = Inr v \<and> \<not> truthy v)"

lemma execute_up:
  assumes "redis_laws R up look" "up (sw_redis w)"
  shows "execute_sell_order R D EV q w =
    (if passes_stop q (look (sw_redis w) TRADING_STOP_KEY) then map_prod Inr id (locked_sell R D EV q w)
     else (case stop_answer (look (sw_redis w) TRADING_STOP_KEY) of Inl e \<Rightarrow> Inl e
        | Inr _ \<Rightarrow> Inr (Sell_skipped Emergency_stop), w))"
  by (auto simp: execute_sell_order_def passes_stop_def is_trading_stopped_up [OF assms] split: sum.splits)

lemma locked_up:
  assumes "redis_laws R up look" "up (sw_redis w)"
  shows "locked_sell R D EV q w =
    (let s = snd (r_set_nx_ex R (lock_key (sr_code q)) 30 (Text ''LOCKED'') (sw_redis w))
     in if look (sw_redis w) (lock_key (sr_code q)) \<noteq> None then (Sell_skipped Locked, w\<lparr>sw_redis := s\<rparr>)
        else finish_sell R q True (sell_stages R D EV q True (w\<lparr>sw_redis := s\<rparr>)))"
proof -
  have n: "(0::int) < 30" by simp
  obtain s where "r_set_nx_ex R (lock_key (sr_code q)) 30 (Text ''LOCKED'') (sw_redis w) =
      (Inr (look (sw_redis w) (lock_key (sr_code q)) = None), s)"
    by (rule redis_set_nx_ex [OF assms n])
  then show ?thesis using redis_conn [OF assms] by (simp add: locked_sell_def Let_def split: bool.split)
qed

lemma taken_lock_up:
  assumes "redis_laws R up look" "up s" "look s (lock_key c) = None"
  shows "up (snd (r_set_nx_ex R (lock_key c) 30 (Text ''LOCKED'') s))"
    "look (snd (r_set_nx_ex R (lock_key c) 30 (Text ''LOCKED'') s)) = (look s)(lock_key c \<mapsto> Text ''LOCKED'')"
  using assms(3) by (simp_all add: redis_after [OF assms(1,2)])

lemma not_early_Sold [simp]: "\<not> early (Sold rc)" "\<not> early (Sell_error (Failed e))"
  "\<not> early (Sell_skipped Locked)" "\<not> early (Sell_skipped Emergency_stop)"
  by (simp_all add: early_def)

lemma finish_cases:
  assumes "finish_sell R q True (sell_stages R D EV q True w) = (a, w')"
  obtains (Done) rc m where "a = Sold rc" "sell_terms EV q (sw_ledger w) rc"
      "w' = after_sale R EV q True (rc_sell_price rc) (w\<lparr>sw_conf := m\<rparr>)"
  | (Early) "early a" "sw_redis w' = sw_redis w" "sw_ledger w' = sw_ledger w"
  | (Error) e s where "a = Sell_error (Failed e)" "sw_redis w' = unlock R True (sr_code q) s"
      "s = sw_redis w \<or> s = unlock R True (sr_code q) (clean_state R EV q (sw_redis w))"
      "sw_ledger w' = sw_ledger w"
proof -
  obtain f w1 where st: "sell_stages R D EV q True w = (f, w1)" by fastforce
  show ?thesis
  proof (cases f)
    case (Next rc)
    with st have s: "sell_stages R D EV q True w = (Next rc, w1)" by simp
    with sell_stages_terms [OF s] Done assms Next st show ?thesis by (auto simp: finish_sell_def)
  next
    case (Return x)
    with cut_stages [OF st] have "cut_short EV q f w w1" by auto
    with Return st assms Early show ?thesis by (simp add: finish_sell_def cut_short_def)
  next
    case (Raise e)
    with st assms have "a = Sell_error (Failed e)"
      "sw_redis w' = unlock R True (sr_code q) (sw_redis w1)" "sw_ledger w' = sw_ledger w1"
      by (auto simp: finish_sell_def)
    moreover from cut_stages [OF st] Raise have "sw_ledger w1 = sw_ledger w \<and> (sw_redis w1 = sw_redis w \<or>
        sw_redis w1 = unlock R True (sr_code q) (clean_state R EV q (sw_redis w)))"
      by (auto simp: cut_short_def)
    ultimately show ?thesis using Error by metis
  qed
qed

lemma blacklisted_up:
  assumes "redis_laws R up look" "up s"
  shows "fst (is_stoploss_blacklisted R c s) \<longleftrightarrow> look s (STOPLOSS_COOLDOWN_PREFIX @ c) \<noteq> None"
  by (simp add: is_stoploss_blacklisted_def redis_rules [OF assms])

lemma map_prod_eq: "map_prod f id p = (x, w) \<longleftrightarrow> x = f (fst p) \<and> w = snd p"
  by (cases p) auto

section \<open>Properties\<close>

text \<open>
  Claim C10. Orders are guarded: whatever the server and the environment answer, one call sends
  at most one order; it is the order of the request, it is not a dry run, the stock is held,
  and the lock was taken if there is a connection. An automatic sale moreover has no sale of the last
  ten minutes in the ledger and was not stopped; manual sales pass both checks by design. The
  quantity is that of the request: it is not compared with the holding.
\<close>

theorem sell_order_guarded:
  assumes "execute_sell_order R D EV q w = (ans, w')" "sw_orders w' \<noteq> sw_orders w"
  shows "sw_orders w' = sw_orders w @ [(sr_code q, sr_quantity q, se_order EV)] \<and> \<not> sr_dry_run q \<and>
    (\<exists>h \<in> set (get_active_portfolio (sw_ledger w)). h_code h = sr_code q) \<and>
    (is_manual q \<or> \<not> check_duplicate_order (sw_ledger w) (se_now EV) (sr_code q) SELL 10 \<and>
       (\<exists>v. fst (is_trading_stopped R (sw_redis w)) = Inr v \<and> \<not> truthy v)) \<and>
    (let s = (if is_manual q then sw_redis w else snd (is_trading_stopped R (sw_redis w)))
     in r_conn R s \<longrightarrow> fst (r_set_nx_ex R (lock_key (sr_code q)) 30 (Text ''LOCKED'') s) = Inr True)"
proof -
  let ?w = "\<lambda>s. w\<lparr>sw_redis := s\<rparr>"
  obtain s where "w' = snd (locked_sell R D EV q (?w s))"
    and sd: "s = (if is_manual q then sw_redis w else snd (is_trading_stopped R (sw_redis w)))"
    and st: "is_manual q \<or> (\<exists>v. fst (is_trading_stopped R (sw_redis w)) = Inr v \<and> \<not> truthy v)"
  proof (cases "is_manual q")
    case True
    with assms(1) have "w' = snd (locked_sell R D EV q w)"
      by (auto simp: execute_sell_order_def map_prod_eq)
    with True that [of "sw_redis w"] show ?thesis by simp
  next
    case False
    obtain x s where x: "is_trading_stopped R (sw_redis w) = (x, s)" by fastforce
    obtain v where v: "x = Inr v" "\<not> truthy v"
      using False x assms by (cases x) (auto simp: execute_sell_order_def split: if_splits)
    then have eq: "execute_sell_order R D EV q w = map_prod Inr id (locked_sell R D EV q (?w s))"
      by (simp add: execute_sell_order_def False x)
    have "map_prod Inr id (locked_sell R D EV q (?w s)) = (ans, w')"
      by (rule trans [OF sym [OF eq] assms(1)])
    then have "w' = snd (locked_sell R D EV q (?w s))" by (simp only: map_prod_eq)
    moreover have "s = snd (is_trading_stopped R (sw_redis w))" by (simp add: x)
    moreover have "fst (is_trading_stopped R (sw_redis w)) = Inr v" by (simp add: x v(1))
    ultimately show ?thesis using False v(2) that [of s] by metis
  qed
  with assms(2) locked_order_step [of EV q "?w s" R D]
  have o: "sw_orders w' = sw_orders w @ sent EV q" "sell_allowed EV q (sw_ledger w)"
    "\<not> r_conn R s \<or> fst (r_set_nx_ex R (lock_key (sr_code q)) 30 (Text ''LOCKED'') s) = Inr True"
    by (auto simp: order_step_def)
  from assms(2) o(1) have d: "\<not> sr_dry_run q" by (auto simp: sent_def)
  from o(2) obtain h where "find_code (sr_code q) (get_active_portfolio (sw_ledger w)) = Some h"
    by (auto simp: sell_allowed_def)
  from find_SomeD [OF this [unfolded find_code_def]]
  have "\<exists>h \<in> set (get_active_portfolio (sw_ledger w)). h_code h = sr_code q" by blast
  moreover have "is_manual q \<or> \<not> check_duplicate_order (sw_ledger w) (se_now EV) (sr_code q) SELL 10"
    using o(2) by (simp add: sell_allowed_def)
  moreover have "sw_orders w' = sw_orders w @ [(sr_code q, sr_quantity q, se_order EV)]"
    using o(1) d by (simp add: sent_def)
  ultimately show ?thesis using st d o(3) unfolding sd Let_def by blast
qed

lemma sold_effects:
  assumes "redis_laws R up look" "up (sw_redis w)"
    "execute_sell_order R D EV q w = (Inr (Sold rc), w')"
  shows "look (sw_redis w) (lock_key (sr_code q)) = None \<and> up (sw_redis w') \<and>
    (\<forall>k. k \<noteq> STOPLOSS_COOLDOWN_PREFIX @ sr_code q \<longrightarrow>
       look (sw_redis w') k = cleared (sr_code q) (look (sw_redis w)) k) \<and>
    (\<forall>d > 0. is_stop_loss_reason (sr_reason q) \<and> parse_int (se_cooldown EV) = Inr d \<longrightarrow>
       fst (is_stoploss_blacklisted R (sr_code q) (sw_redis w'))) \<and>
    sw_orders w' = sw_orders w @
      (if sr_dry_run q then [] else [(sr_code q, sr_quantity q, Inr (Some (rc_order_no rc)))]) \<and>
    sw_ledger w' = snd (execute_trade_and_log (se_ready EV) (se_db EV) (se_fault EV) (se_now EV)
      (sale_of q (rc_sell_price rc)) (sw_ledger w))"
proof -
  let ?c = "sr_code q" and ?look = "look (sw_redis w)"
  let ?s = "snd (r_set_nx_ex R (lock_key ?c) 30 (Text ''LOCKED'') (sw_redis w))"
  have l: "locked_sell R D EV q w = (Sold rc, w')"
    using assms(3) unfolding execute_up [OF assms(1,2)] by (auto simp: map_prod_eq split: if_splits sum.splits)
  then have free: "?look (lock_key ?c) = None"
    and fin: "finish_sell R q True (sell_stages R D EV q True (w\<lparr>sw_redis := ?s\<rparr>)) = (Sold rc, w')"
    unfolding locked_up [OF assms(1,2)] by (auto simp: Let_def split: if_splits)
  note t = taken_lock_up [OF assms(1), OF assms(2), OF free]
  from fin obtain m where terms: "sell_terms EV q (sw_ledger w) rc"
    and w': "w' = after_sale R EV q True (rc_sell_price rc) (w\<lparr>sw_redis := ?s, sw_conf := m\<rparr>)"
    by (rule finish_cases) auto
  note c = clean_state_up [OF assms(1), OF t(1), where EV = EV and q = q]
  have r: "sw_redis w' = unlock R True ?c (clean_state R EV q ?s)" by (simp add: w')
  note u = unlock_up [OF assms(1), OF c(1), of True ?c]
  have keys: "look (sw_redis w') k = cleared ?c ?look k" if "k \<noteq> STOPLOSS_COOLDOWN_PREFIX @ ?c" for k
    using that free t(2) by (simp add: r u(2) c(2)) (auto simp: cleared_def)
  moreover have "fst (is_stoploss_blacklisted R ?c (sw_redis w'))"
    if "0 < d" "is_stop_loss_reason (sr_reason q)" "parse_int (se_cooldown EV) = Inr d" for d
    using c(3) [OF that(2,3,1)] u
    by (auto simp: blacklisted_up [OF assms(1), OF u(1)] r dest: lock_key_neq(1) [THEN notE, OF sym])
  moreover from terms have "sent EV q = (if sr_dry_run q then [] else [(?c, sr_quantity q, Inr (Some (rc_order_no rc)))])"
    by (auto simp: sell_terms_def sent_def sale_number_def split: sum.splits option.splits if_splits)
  ultimately show ?thesis using free u(1) r by (auto simp: w')
qed

text \<open>
  Claim C11. A completed sale on a reachable server: the lock was free and is free again, the
  watermark, scale-out level and profit floor of the stock are gone, a stop-loss sale with a
  positive number of days has blacklisted the stock, every other key is as before; exactly
  the order of the receipt was sent (none in a dry run), and the ledger is what the write of
  this sale leaves, at the price of the receipt.
\<close>

theorem completed_sale:
  assumes "redis_laws R up look" "up (sw_redis w)"
    "execute_sell_order R D EV q w = (Inr (Sold rc), w')"
  shows "look (sw_redis w) (lock_key (sr_code q)) = None \<and> up (sw_redis w') \<and>
    (\<forall>k. k \<noteq> STOPLOSS_COOLDOWN_PREFIX @ sr_code q \<longrightarrow>
       look (sw_redis w') k = cleared (sr_code q) (look (sw_redis w)) k) \<and>
    (\<forall>d > 0. is_stop_loss_reason (sr_reason q) \<and> parse_int (se_cooldown EV) = Inr d \<longrightarrow>
       fst (is_stoploss_blacklisted R (sr_code q) (sw_redis w'))) \<and>
    sw_orders w' = sw_orders w @
      (if sr_dry_run q then [] else [(sr_code q, sr_quantity q, Inr (Some (rc_order_no rc)))]) \<and>
    sw_ledger w' = snd (execute_trade_and_log (se_ready EV) (se_db EV) (se_fault EV) (se_now EV)
      (sale_of q (rc_sell_price rc)) (sw_ledger w))"
  by (rule sold_effects [OF assms])

text \<open>
  A call that ends early keeps the lock: after no holding, no price, a failed order or
  a duplicate, the key is still there, and until it expires every further call for the stock
  that passes the emergency stop is skipped as locked and sends nothing, a manual one too. Every
  other answer of a call that found the lock free leaves it free.
\<close>

theorem early_end_keeps_lock:
  assumes "redis_laws R up look" "up (sw_redis w)" "look (sw_redis w) (lock_key (sr_code q)) = None"
    "execute_sell_order R D EV q w = (Inr a, w')"
  shows "(if early a
     then look (sw_redis w') (lock_key (sr_code q)) = Some (Text ''LOCKED'') \<and>
       (\<forall>D2 EV2 q2. sr_code q2 = sr_code q \<and> passes_stop q2 (look (sw_redis w') TRADING_STOP_KEY) \<longrightarrow>
          fst (execute_sell_order R D2 EV2 q2 w') = Inr (Sell_skipped Locked) \<and>
          sw_orders (snd (execute_sell_order R D2 EV2 q2 w')) = sw_orders w')
     else look (sw_redis w') (lock_key (sr_code q)) = None)"
proof (cases "passes_stop q (look (sw_redis w) TRADING_STOP_KEY)")
  case False
  with assms(3,4) have "w' = w" "a = Sell_skipped Emergency_stop"
    unfolding execute_up [OF assms(1,2)] by (auto split: sum.splits)
  with assms(3) show ?thesis by simp
next
  case True
  let ?c = "sr_code q"
  let ?s = "snd (r_set_nx_ex R (lock_key ?c) 30 (Text ''LOCKED'') (sw_redis w))"
  have "locked_sell R D EV q w = (a, w')"
    using True assms(4) unfolding execute_up [OF assms(1,2)] by (auto simp: map_prod_eq)
  then have "finish_sell R q True (sell_stages R D EV q True (w\<lparr>sw_redis := ?s\<rparr>)) = (a, w')"
    unfolding locked_up [OF assms(1,2)] using assms(3) by (simp add: Let_def)
  then show ?thesis
  proof (cases rule: finish_cases)
    case (Done rc m)
    note t = taken_lock_up [OF assms(1), OF assms(2), OF assms(3)]
    show ?thesis using Done unlock_up(2) [OF assms(1), OF clean_state_up(1) [OF assms(1), OF t(1)]] by simp
  next
    case Early
    note t = taken_lock_up [OF assms(1), OF assms(2), OF assms(3)]
    have l: "up (sw_redis w')" "look (sw_redis w') (lock_key ?c) = Some (Text ''LOCKED'')"
      using Early t by simp_all
    then have "fst (execute_sell_order R D2 EV2 q2 w') = Inr (Sell_skipped Locked) \<and>
        sw_orders (snd (execute_sell_order R D2 EV2 q2 w')) = sw_orders w'"
      if "sr_code q2 = ?c" "passes_stop q2 (look (sw_redis w') TRADING_STOP_KEY)" for D2 EV2 q2
      using that by (simp add: execute_up [OF assms(1), OF l(1)] locked_up [OF assms(1), OF l(1)] Let_def)
    with Early l show ?thesis by simp
  next
    case (Error e s)
    note t = taken_lock_up [OF assms(1), OF assms(2), OF assms(3)]
    have "up s" using Error(3) t(1) unlock_up(1) [OF assms(1), OF clean_state_up(1) [OF assms(1), OF t(1)]] by auto
    from unlock_up(2) [OF assms(1), OF this, of True ?c] Error show ?thesis by simp
  qed
qed


text \<open>The converse: a sale whose terms hold is completed when the stop and the lock let it.\<close>

lemma terms_suffice:
  assumes "redis_laws R up look" "up (sw_redis w)" "passes_stop q (look (sw_redis w) TRADING_STOP_KEY)"
    "look (sw_redis w) (lock_key (sr_code q)) = None" "sell_terms EV q (sw_ledger w) rc"
  obtains w' where "execute_sell_order R D EV q w = (Inr (Sold rc), w')"
proof -
  let ?w = "w\<lparr>sw_redis := snd (r_set_nx_ex R (lock_key (sr_code q)) 30 (Text ''LOCKED'') (sw_redis w))\<rparr>"
  obtain m where "sell_stages R D EV q True ?w = (Next rc,
      after_sale R EV q True (rc_sell_price rc) (?w\<lparr>sw_conf := m\<rparr>))"
    using sell_stages_done [of EV q ?w rc R D True] assms(5) by auto
  with assms(3,4) that show ?thesis
    by (simp add: execute_up [OF assms(1,2)] locked_up [OF assms(1,2)] Let_def finish_sell_def)
qed

text \<open>
  A sale whose record fails is reported as done and can be repeated: if the write fails
  before its first statement, the ledger after the successful answer is the old one, the lock
  is free, and the same call is a success again and sends the same order a second time.
\<close>

theorem unrecorded_sale_repeats:
  assumes "redis_laws R up look" "up (sw_redis w)" "\<not> sr_dry_run q"
    "execute_sell_order R D EV q w = (Inr (Sold rc), w')"
    "se_fault EV = Log_fault \<or> \<not> se_ready EV"
  shows "sw_ledger w' = sw_ledger w \<and>
    (let o1 = (sr_code q, sr_quantity q, Inr (Some (rc_order_no rc)));
         r2 = execute_sell_order R D EV q w'
     in fst r2 = Inr (Sold rc) \<and> sw_orders (snd r2) = sw_orders w @ [o1, o1])"
proof -
  let ?c = "sr_code q" and ?s = "\<lambda>w. snd (r_set_nx_ex R (lock_key (sr_code q)) 30 (Text ''LOCKED'') (sw_redis w))"
  note eff = sold_effects [OF assms(1), OF assms(2), OF assms(4)]
  have stop: "passes_stop q (look (sw_redis w) TRADING_STOP_KEY)"
    using assms(4) unfolding execute_up [OF assms(1,2)] by (auto split: if_splits sum.splits)
  then have l: "locked_sell R D EV q w = (Sold rc, w')"
    using assms(4) unfolding execute_up [OF assms(1,2)] by (auto simp: map_prod_eq)
  with eff have "finish_sell R q True (sell_stages R D EV q True (w\<lparr>sw_redis := ?s w\<rparr>)) = (Sold rc, w')"
    unfolding locked_up [OF assms(1,2)] by (simp add: Let_def)
  then have terms: "sell_terms EV q (sw_ledger w) rc" by (rule finish_cases) auto
  have same: "sw_ledger w' = sw_ledger w"
    using eff assms(5) by (auto simp: execute_trade_and_log_def write_trade_def)
  have up': "up (sw_redis w')" and free: "look (sw_redis w') (lock_key ?c) = None"
    and key: "look (sw_redis w') TRADING_STOP_KEY = look (sw_redis w) TRADING_STOP_KEY"
    using eff by (auto simp: cleared_def)
  obtain w2 where r2: "execute_sell_order R D EV q w' = (Inr (Sold rc), w2)"
    using terms_suffice [OF assms(1), OF up', of q EV rc D] stop key free terms same by auto
  note eff2 = sold_effects [OF assms(1), OF up', OF r2]
  show ?thesis using r2 eff eff2 assms(3) same by (simp add: Let_def)
qed

section \<open>Witnesses\<close>

definition sample_sell :: sell_request where
  "sample_sell = \<lparr>sr_code = ''005930'', sr_name = ''s'', sr_quantity = 10, sr_reason = ''Stop Loss'',
     sr_preset = PDict [(''params'', PDict [(''cash_keep_pct'', PFloat 5)])], sr_risk = PDict [],
     sr_dry_run = False, sr_price = Some 90\<rparr>"

definition sample_env :: "db_fault \<Rightarrow> string option \<Rightarrow> sell_env" where
  "sample_env fault no = \<lparr>se_now = 100000, se_clock = 0, se_stamp = ''t'', se_digits = ''0'', se_regime = PNone,
     se_presets = Inr [], se_mode = ''REAL'', se_daily = Inr None, se_snapshot = Inr PNone,
     se_order = Inr no, se_ready = True, se_db = SQLite, se_fault = fault, se_session = Inr (),
     se_commit = Inr (), se_cooldown = ''5''\<rparr>"

definition sample_world :: "(map_store, string \<Rightarrow> cval option) sell_world" where
  "sample_world = \<lparr>sw_redis = ms_empty, sw_conf = (new_conf 300, Map.empty),
     sw_ledger = \<lparr>lg_positions = [(''005930'', new_position ''s'' 10 100 None 0)], lg_trades = []\<rparr>,
     sw_orders = []\<rparr>"

lemma sample_alive: "alive (sw_redis sample_world)"
  by (simp add: sample_world_def ms_empty_def)

lemma sample_facts:
  "passes_stop sample_sell (ms_look (sw_redis sample_world) TRADING_STOP_KEY)"
  "ms_look (sw_redis sample_world) (lock_key (sr_code sample_sell)) = None"
  "find_code ''005930'' (get_active_portfolio (sw_ledger sample_world)) =
     Some (row_holding (''005930'', new_position ''s'' 10 100 None 0))"
  "\<not> check_duplicate_order (sw_ledger sample_world) n c s m"
  by (simp_all add: passes_stop_def stop_answer_def default_flag_def sample_world_def ms_empty_def ms_look_def
      get_active_portfolio_def find_code_def new_position_def row_holding_def check_duplicate_order_def
      traded_since_def)

lemma sample_sale:
  obtains rc w' where "execute_sell_order map_redis map_db (sample_env f (Some ''n1'')) sample_sell sample_world =
      (Inr (Sold rc), w')" "rc_order_no rc = ''n1''"
proof -
  let ?EV = "sample_env f (Some ''n1'')"
  let ?rc = "\<lparr>rc_order_no = ''n1'', rc_quantity = 10, rc_sell_price = 90, rc_buy_price = 100,
    rc_profit_pct = py_round 2 (fmul (fdiv (fsub 90 100) 100) 100),
    rc_profit_amount = py_round 0 (fmul (fsub 90 100) (of_py_int 10)), rc_risk = PDict [], rc_dry_run = False\<rparr>"
  note stop = sample_facts(1) and free = sample_facts(2) and h = sample_facts(3) and no_dup = sample_facts(4)
  have parts: "sale_price ?EV sample_sell = Some 90" "sale_number ?EV sample_sell = Some ''n1''"
    "choose_preset ?EV (sr_preset sample_sell) = Inr (PDict [(''cash_keep_pct'', PFloat 5)], PNone)"
    "se_session ?EV = Inr ()" "se_commit ?EV = Inr ()"
    "sr_code sample_sell = ''005930''" "sr_quantity sample_sell = 10" "\<not> sr_dry_run sample_sell"
    by (simp_all add: sample_sell_def sample_env_def sale_price_def sale_number_def choose_preset_def
         choose_risk_def val_or_def)
  have risk: "choose_risk ?EV (sr_risk sample_sell) PNone = Inr (PDict [])"
    by (simp add: choose_risk_def sample_sell_def val_or_def)
  have avg: "h_avg_price (row_holding (''005930'', new_position ''s'' 10 100 None 0)) = 100"
    by (simp add: row_holding_def new_position_def)
  have terms: "sell_terms ?EV sample_sell (sw_ledger sample_world) ?rc"
    unfolding sell_terms_def parts(6)
    by (rule exI [of _ "row_holding (''005930'', new_position ''s'' 10 100 None 0)"],
        rule exI [of _ "PDict [(''cash_keep_pct'', PFloat 5)]"], rule exI [of _ PNone], intro conjI,
        rule h, rule disjI2, rule no_dup) (simp_all add: parts risk avg)
  obtain w' where e: "execute_sell_order map_redis map_db ?EV sample_sell sample_world = (Inr (Sold ?rc), w')"
    by (rule terms_suffice [OF map_redis_laws, OF sample_alive, OF stop, OF free, OF terms])
  show ?thesis by (rule that [OF e]) simp
qed


theorem sell_order_guarded_witness:
  "\<exists>w'. sw_orders w' = [(''005930'', 10, Inr (Some ''n1''))] \<and>
     w' = snd (execute_sell_order map_redis map_db (sample_env No_fault (Some ''n1'')) sample_sell sample_world)"
proof -
  obtain rc w' where e: "execute_sell_order map_redis map_db (sample_env No_fault (Some ''n1'')) sample_sell
      sample_world = (Inr (Sold rc), w')" "rc_order_no rc = ''n1''" by (rule sample_sale)
  from sold_effects [OF map_redis_laws, OF sample_alive, OF e(1)]
  have "sw_orders w' \<noteq> sw_orders sample_world" by (simp add: sample_sell_def)
  from sell_order_guarded [OF e(1) this] e(1)
  show ?thesis by (intro exI [of _ w']) (simp add: sample_sell_def sample_env_def sample_world_def)
qed

theorem completed_sale_witness:
  "\<exists>rc w'. execute_sell_order map_redis map_db (sample_env No_fault (Some ''n1'')) sample_sell sample_world =
     (Inr (Sold rc), w') \<and> sw_orders w' = [(''005930'', 10, Inr (Some ''n1''))] \<and>
     get_active_portfolio (sw_ledger w') = [] \<and> fst (is_stoploss_blacklisted map_redis ''005930'' (sw_redis w'))"
proof -
  obtain rc w' where e: "execute_sell_order map_redis map_db (sample_env No_fault (Some ''n1'')) sample_sell
      sample_world = (Inr (Sold rc), w')" "rc_order_no rc = ''n1''" by (rule sample_sale)
  have "is_stop_loss_reason (sr_reason sample_sell)" "parse_int (se_cooldown (sample_env No_fault (Some ''n1''))) = Inr 5"
    by code_simp+
  with completed_sale [OF map_redis_laws, OF sample_alive, OF e(1)] e
  show ?thesis
    by (intro exI [of _ rc] exI [of _ w'])
       (simp add: sample_sell_def sample_world_def execute_trade_and_log_def write_trade_def sale_of_def
         sample_env_def sell_position_def dict_pop_def new_position_def get_active_portfolio_def)
qed

theorem unrecorded_sale_repeats_witness:
  "\<exists>w'. snd (execute_sell_order map_redis map_db (sample_env Log_fault (Some ''n1'')) sample_sell sample_world) = w' \<and>
     sw_ledger w' = sw_ledger sample_world \<and>
     length (sw_orders (snd (execute_sell_order map_redis map_db (sample_env Log_fault (Some ''n1'')) sample_sell w'))) = 2"
proof -
  obtain rc w' where e: "execute_sell_order map_redis map_db (sample_env Log_fault (Some ''n1'')) sample_sell
      sample_world = (Inr (Sold rc), w')" "rc_order_no rc = ''n1''" by (rule sample_sale)
  have f: "\<not> sr_dry_run sample_sell" "se_fault (sample_env Log_fault (Some ''n1'')) = Log_fault"
    by (simp_all add: sample_sell_def sample_env_def)
  have "sw_orders sample_world = []" by (simp add: sample_world_def)
  with unrecorded_sale_repeats [OF map_redis_laws, OF sample_alive, OF f(1), OF e(1)] f(2) e(1)
  show ?thesis by (simp add: Let_def)
qed

lemma sample_failed_order:
  "\<exists>w'. execute_sell_order map_redis map_db (sample_env No_fault None) sample_sell sample_world =
     (Inr (Sell_error Order_failed), w')"
proof -
  let ?EV = "sample_env No_fault None"
  note stop = sample_facts(1) and free = sample_facts(2) and h = sample_facts(3) and no_dup = sample_facts(4)
  have parts: "effective_price ?EV sample_sell w = (Next 90, w)"
    "send_order ?EV sample_sell w = (Return (Sell_error Order_failed),
       w\<lparr>sw_orders := sw_orders w @ [(''005930'', 10, Inr None)]\<rparr>)"
    "choose_preset ?EV (sr_preset sample_sell) = Inr (PDict [(''cash_keep_pct'', PFloat 5)], PNone)"
    "choose_risk ?EV (sr_risk sample_sell) PNone = Inr (PDict [])"
    "se_session ?EV = Inr ()" "se_commit ?EV = Inr ()" "sr_code sample_sell = ''005930''"
    "h_avg_price (row_holding (''005930'', new_position ''s'' 10 100 None 0)) = 100" for w :: "(map_store, string \<Rightarrow> cval option) sell_world"
    by (simp_all add: sample_sell_def sample_env_def effective_price_def send_order_def choose_preset_def
         choose_risk_def val_or_def row_holding_def new_position_def)
  have s: "fst (sell_stages map_redis map_db ?EV sample_sell True w) = Return (Sell_error Order_failed)"
    if "sw_ledger w = sw_ledger sample_world" for w
    using that by (simp add: sell_stages_def parts with_session_def session_scope_def in_session_def h no_dup sale_profit_pct_def)
  show ?thesis
    using s [of "sample_world\<lparr>sw_redis := s\<rparr>" for s]
    by (simp add: execute_up [OF map_redis_laws, OF sample_alive] locked_up [OF map_redis_laws, OF sample_alive]
        stop free Let_def finish_sell_def map_prod_def case_prod_beta)
qed

theorem early_end_keeps_lock_witness:
  "\<exists>w'. execute_sell_order map_redis map_db (sample_env No_fault None) sample_sell sample_world =
      (Inr (Sell_error Order_failed), w') \<and>
    fst (execute_sell_order map_redis map_db (sample_env No_fault (Some ''n2''))
      (sample_sell\<lparr>sr_reason := ''Manual sale''\<rparr>) w') = Inr (Sell_skipped Locked)"
proof -
  obtain w' where e: "execute_sell_order map_redis map_db (sample_env No_fault None) sample_sell sample_world =
     (Inr (Sell_error Order_failed), w')" using sample_failed_order by blast
  note free = sample_facts(2)
  have early: "early (Sell_error Order_failed)" by (simp add: early_def)
  have manual: "is_manual (sample_sell\<lparr>sr_reason := ''Manual sale''\<rparr>)" by code_simp
  from early_end_keeps_lock [OF map_redis_laws, OF sample_alive, OF free, OF e] early manual e
  show ?thesis by (intro exI [of _ w']) (simp add: passes_stop_def)
qed

end
