(* ===== verification/Buy_Rules.thy ===== *)
theory Buy_Rules
  imports PyFloat
begin

text \<open>
  The arithmetic of \<open>services/buy-executor/executor.py\<close>: the tick size of the exchange, and the
  age of a score in business days with the position multiplier it gives.
\<close>

section \<open>Tick size\<close>

text \<open>Prices are Python integers.\<close>

definition tick_size :: "int \<Rightarrow> int" where
  "tick_size price = (if price \<le> 2000 then 1 else if price \<le> 5000 then 5 else if price \<le> 20000 then 10
     else if price \<le> 50000 then 50 else if price \<le> 200000 then 100 else if price \<le> 500000 then 500
     else 1000)"

definition align_to_tick_size :: "int \<Rightarrow> int" where
  "align_to_tick_size price =
     (let tick = tick_size price; remainder = price mod tick
      in if remainder = 0 then price else price - remainder + tick)"

text \<open>A price the exchange accepts.\<close>

definition tick_price :: "int \<Rightarrow> bool" where
  "tick_price p \<longleftrightarrow> p mod tick_size p = 0"

section \<open>Business days\<close>

text \<open>
  Days are proleptic Gregorian ordinals (\<open>date.toordinal\<close>); \<open>date.weekday\<close> is 0 on Monday.
\<close>

definition weekday :: "int \<Rightarrow> int" where
  "weekday d = (d + 6) mod 7"

function count_business_days :: "int \<Rightarrow> int \<Rightarrow> int \<Rightarrow> int" where
  "count_business_days current_date today n =
     (if current_date \<le> today
      then count_business_days (current_date + 1) today (if weekday current_date < 5 then n + 1 else n)
      else n)"
  by auto
termination by (relation "measure (\<lambda>(c, t, _). nat (t + 1 - c))") auto

declare count_business_days.simps [simp del]

text \<open>\<open>scored\<close> is the day after which the count starts, \<open>None\<close> when there is no usable date.\<close>

definition stale_multiplier :: "int option \<Rightarrow> int \<Rightarrow> rat" where
  "stale_multiplier scored today = (case scored of
     None \<Rightarrow> 1
   | Some d \<Rightarrow> (let business_days = count_business_days (d + 1) today 0
       in if 3 \<le> business_days then fl (3/10) else if 2 \<le> business_days then 1/2 else 1))"

section \<open>Lemmas\<close>

lemma round_up:
  fixes p t :: int
  assumes "0 < t"
  defines "q \<equiv> if p mod t = 0 then p else p - p mod t + t"
  shows "p \<le> q" "q < p + t" "t dvd q" "t dvd v \<Longrightarrow> p \<le> v \<Longrightarrow> q \<le> v"
proof -
  have m: "0 \<le> p mod t" "p mod t < t" using assms(1) by simp_all
  show "p \<le> q" "q < p + t" using m by (auto simp: q_def)
  have d: "t dvd p - p mod t" by (rule dvd_minus_mod)
  show dq: "t dvd q" using d by (auto simp: q_def intro: dvd_add)
  assume v: "t dvd v" "p \<le> v"
  show "q \<le> v"
  proof (rule ccontr)
    assume "\<not> q \<le> v"
    moreover from dq v(1) have "t dvd q - v" by (rule dvd_diff)
    ultimately have "t \<le> q - v" by (intro zdvd_imp_le) auto
    with \<open>q < p + t\<close> v(2) show False by simp
  qed
qed

text \<open>Every bound between two tick sizes is a price on both grids.\<close>

lemma tick_pos [simp]: "0 < tick_size p"
  by (simp add: tick_size_def)

lemma tick_mono: "p \<le> v \<Longrightarrow> tick_size p dvd tick_size v"
  by (auto simp: tick_size_def)

lemma tick_same: "p \<le> v \<Longrightarrow> v < p + tick_size p \<Longrightarrow> tick_size p dvd v \<Longrightarrow> tick_size v = tick_size p"
  by (auto simp: tick_size_def dvd_def split: if_splits)


text \<open>The loop counts the weekdays of the interval.\<close>

definition weekdays :: "int \<Rightarrow> int \<Rightarrow> int set" where
  "weekdays a b = {d. a \<le> d \<and> d \<le> b \<and> weekday d < 5}"

lemma finite_weekdays [simp]: "finite (weekdays a b)"
  by (rule finite_subset [of _ "{a..b}"]) (auto simp: weekdays_def)

lemma weekdays_step:
  "a \<le> b \<Longrightarrow> weekdays a b = (if weekday a < 5 then insert a (weekdays (a + 1) b) else weekdays (a + 1) b)"
proof -
  assume "a \<le> b"
  moreover have "a \<le> d \<longleftrightarrow> d = a \<or> a + 1 \<le> d" for d by arith
  ultimately show ?thesis by (auto simp: weekdays_def)
qed

lemma count_is_card: "count_business_days a b n = n + int (card (weekdays a b))"
proof (induction a b n rule: count_business_days.induct)
  case (1 a b n)
  show ?case
  proof (cases "a \<le> b")
    case True
    have "a \<notin> weekdays (a + 1) b" by (simp add: weekdays_def)
    with True 1 show ?thesis
      by (simp add: count_business_days.simps [of a b] weekdays_step [OF True])
  next
    case False
    then have "weekdays a b = {}" by (auto simp: weekdays_def)
    with False show ?thesis by (simp add: count_business_days.simps [of a b])
  qed
qed

lemma count_mono: "b \<le> c \<Longrightarrow> count_business_days a b n \<le> count_business_days a c n"
  unfolding count_is_card by (auto simp: weekdays_def intro!: card_mono [OF finite_weekdays [unfolded weekdays_def]])

lemma stale_values: "fl (3/10) < 1/2" "fl (3/10) < (1 :: rat)" "fl (3/10) \<le> 1/2"
  by code_simp+

section \<open>Properties\<close>

text \<open>
  The aligned price of a limit order is the least price of the exchange's grid that is
  not below the wanted one: it is on the grid of its own band, less than one tick above, and
  no price on the grid lies between, across the bounds of the bands too.
\<close>

theorem aligned_price_is_least:
  "price \<le> align_to_tick_size price \<and> align_to_tick_size price < price + tick_size price \<and>
   tick_price (align_to_tick_size price) \<and> (\<forall>v. tick_price v \<and> price \<le> v \<longrightarrow> align_to_tick_size price \<le> v)"
proof -
  have q: "align_to_tick_size price = (if price mod tick_size price = 0 then price
      else price - price mod tick_size price + tick_size price)"
    by (simp add: align_to_tick_size_def Let_def)
  note r = round_up [OF tick_pos, of price price, folded q]
  have "tick_size (align_to_tick_size price) = tick_size price"
    by (rule tick_same [OF r(1-3)])
  then have "tick_price (align_to_tick_size price)"
    using r(3) by (simp add: tick_price_def mod_eq_0_iff_dvd)
  moreover have "align_to_tick_size price \<le> v" if "tick_price v" "price \<le> v" for v
    using that dvd_trans [OF tick_mono [OF that(2)], of v] round_up(4) [OF tick_pos, of price v price, folded q]
    by (simp add: tick_price_def mod_eq_0_iff_dvd)
  ultimately show ?thesis using r(1,2) by blast
qed

theorem aligned_price_is_least_witness:
  "align_to_tick_size 4998 = 5000 \<and> align_to_tick_size 199999 = 200000 \<and> align_to_tick_size 200001 = 200500 \<and>
   tick_price (align_to_tick_size 72016) \<and> align_to_tick_size 72016 \<le> 72100"
  using aligned_price_is_least [of 72016] by (auto simp: align_to_tick_size_def tick_size_def Let_def tick_price_def)

text \<open>
  The age of a score: the loop over calendar days ends with the number of weekdays
  after the day of the score up to today, every seven days count five, the multiplier never
  grows with time, and a score of a Friday keeps its full position on the next Monday.
\<close>

theorem stale_score_rule:
  "count_business_days (d + 1) today n = n + int (card {x. d < x \<and> x \<le> today \<and> weekday x < 5}) \<and>
   count_business_days (d + 1) (d + 7) n = n + 5 \<and>
   (today \<le> later \<longrightarrow> stale_multiplier (Some d) later \<le> stale_multiplier (Some d) today) \<and>
   (weekday d = 4 \<longrightarrow> stale_multiplier (Some d) (d + 3) = 1)"
proof -
  have "weekdays (d + 1) today = {x. d < x \<and> x \<le> today \<and> weekday x < 5}"
    by (auto simp: weekdays_def)
  moreover have "count_business_days (d + 1) (d + 7) n = n + 5"
  proof -
    have "d mod 7 \<in> {0..6}" by auto
    then consider "d mod 7 = 0" | "d mod 7 = 1" | "d mod 7 = 2" | "d mod 7 = 3" | "d mod 7 = 4"
      | "d mod 7 = 5" | "d mod 7 = 6" by fastforce
    moreover have w: "weekday (k + d) = (d mod 7 + (k + 6)) mod 7" for k
      using mod_add_left_eq [of d 7 "k + 6"] by (simp add: weekday_def ac_simps)
    from w [of 1] have "weekday (d + 1) = (d mod 7 + 7) mod 7" by (simp add: add.commute)
    ultimately show ?thesis
      by cases (simp_all add: count_business_days.simps w)
  qed
  moreover have "stale_multiplier (Some d) later \<le> stale_multiplier (Some d) today" if "today \<le> later"
    using count_mono [OF that, of "d + 1" 0] stale_values by (auto simp: stale_multiplier_def Let_def)
  moreover have "stale_multiplier (Some d) (d + 3) = 1" if "weekday d = 4"
  proof -
    have "weekday (d + 1) = 5" "weekday (2 + d) = 6" "weekday (3 + d) = 0"
      using that by (simp_all add: weekday_def) presburger+
    then show ?thesis by (simp add: stale_multiplier_def Let_def count_business_days.simps)
  qed
  ultimately show ?thesis by (simp add: count_is_card)
qed

theorem stale_score_rule_witness:
  "stale_multiplier (Some 739296) 739298 \<le> stale_multiplier (Some 739296) 739297 \<and>
   weekday 739296 = 4 \<and> stale_multiplier (Some 739296) (739296 + 3) = 1"
  using stale_score_rule [of 739296 739297 0 739298] by (simp add: weekday_def)

end
