(* ===== verification/Buy_Executor.thy ===== *)
theory Buy_Executor
  imports Buy_Rules Trade_Ledger Strategy_Presets Position_Sizing Diversification
begin

text \<open>
  The execution of a buy signal, \<open>services/buy-executor/executor.py\<close>: permission, candidates,
  choice of the best score, lock in Redis, cash, price and volatility, quantity, portfolio
  guard, diversification with resizing, order at the broker, record of the trade, reset of the
  position state. The record \<open>buy_env\<close> holds what the code outside the handler answers during
  one call; one clock value stands for all readings of one call. Notifications and the metrics
  stored beside the trade are left out. Exceptions leave the handler: the answer is \<open>Inl\<close>.
\<close>

section \<open>Signal, answer, environment and state\<close>

text \<open>
  A candidate with the values its dictionary gives for the keys the code reads: an absent tier
  and reason are empty, an absent score, price and manual quantity are 0, an absent risk
  setting has no entries; \<open>cd_scored_on\<close> is the day of a readable \<open>llm_scored_at\<close>.
\<close>

record buy_candidate =
  cd_code :: string
  cd_name :: string
  cd_score :: rat
  cd_tradable :: bool
  cd_tier :: string
  cd_scored_on :: "int option"
  cd_risk :: params
  cd_price :: rat
  cd_signal :: string
  cd_reason :: string
  cd_manual :: int

record buy_signal =
  sg_candidates :: "buy_candidate list"
  sg_regime :: pyval
  sg_preset :: pyval
  sg_risk :: params
  sg_source :: string
  sg_manual :: int

datatype buy_skip = Stop_active | Trading_paused | No_candidates | Daily_limit int int | Portfolio_full int int
  | All_held | Recently_bought string | Recently_sold string | Below_hard_floor rat | Lock_active string
  | Lock_failure | High_correlation rat | Invalid_manual_quantity | Size_too_small | Guard_refused guard_reason
  | Smart_skip_sector | Smart_skip_stock | Not_diversified_after_resize | Resized_to_zero
  | Not_diversified | Limit_not_filled int

datatype buy_fail = No_snapshot | Insufficient_cash | Buy_order_failed

record buy_receipt =
  br_code :: string
  br_order_no :: string
  br_quantity :: int
  br_price :: rat
  br_total :: rat
  br_dry_run :: bool
  br_stale :: rat

text \<open>An early end of the handler, and its answer.\<close>

datatype buy_end = Buy_skipped buy_skip | Buy_failed buy_fail

datatype buy_answer = Bought buy_receipt | Ended buy_end

record buy_env =
  be_now :: rat
  be_day :: rat
  be_today :: int
  be_clock :: rat
  be_digits :: string
  be_vars :: "string \<Rightarrow> string option"
  be_regime :: pyval
  be_presets :: "(string \<times> pyval) list res"
  be_cash :: "rat res"
  be_snapshot :: "pyval res"
  be_bars :: "bar list res"
  be_daily_atr :: "rat option res"
  be_prices :: "string \<Rightarrow> rat list option res"
  be_corrcoef :: "rat list \<Rightarrow> rat list \<Rightarrow> rat option res"
  be_sector :: "string \<Rightarrow> string \<Rightarrow> string"
  be_group :: "string \<Rightarrow> string \<Rightarrow> string"
  be_order :: "string option res"
  be_cancel :: "bool res"
  be_ready :: bool
  be_db :: database
  be_fault :: db_fault
  be_session :: "unit res"
  be_commit :: "unit res"

text \<open>
  The state: Redis, the configuration with its database, the sizer of the executor, the ledger,
  and the calls of \<open>place_buy_order\<close> (code, shares, price with 0 for a market order).
\<close>

record ('s, 'd) buy_world =
  bw_redis :: 's
  bw_conf :: "conf \<times> 'd"
  bw_sizer :: sizer
  bw_ledger :: ledger
  bw_orders :: "(string \<times> int \<times> int) list"

type_synonym ('s, 'd, 'a) buy_step = "('s, 'd) buy_world \<Rightarrow> (buy_end, 'a) flow \<times> ('s, 'd) buy_world"

definition skip :: "buy_skip \<Rightarrow> ('s, 'd, 'a) buy_step" where
  "skip why w = (Return (Buy_skipped why), w)"

section \<open>Permission\<close>

definition read_flag :: "('s \<Rightarrow> pyval res \<times> 's) \<Rightarrow> ('s, 'd, pyval) buy_step" where
  "read_flag f w = (let (r, s) = f (bw_redis w) in lift_res r (w\<lparr>bw_redis := s\<rparr>))"

definition check_permission :: "'s redis \<Rightarrow> buy_signal \<Rightarrow> ('s, 'd, unit) buy_step" where
  "check_permission R sg w =
     and_then (read_flag (is_trading_stopped R) w) (\<lambda>stopped w.
       if truthy stopped then skip Stop_active w
       else and_then (read_flag (is_trading_paused R) w) (\<lambda>paused w.
         if truthy paused \<and> sg_source sg \<noteq> ''telegram-manual'' then skip Trading_paused w
         else (Next (), w)))"

section \<open>Regime and preset\<close>

text \<open>The regime cache is read when the signal lacks one of the three; \<open>PNone\<close>: not read or absent.\<close>

definition read_regime_cache :: "buy_env \<Rightarrow> buy_signal \<Rightarrow> pyval" where
  "read_regime_cache EV sg =
     (if sg_regime sg = PNone \<or> sg_regime sg = PStr ''UNKNOWN'' \<or> \<not> truthy (sg_preset sg) \<or> sg_risk sg = []
      then be_regime EV else PNone)"

definition market_regime_of :: "buy_env \<Rightarrow> buy_signal \<Rightarrow> pyval res" where
  "market_regime_of EV sg = (let cache = read_regime_cache EV sg
     in if truthy cache then py_get cache ''regime'' (sg_regime sg) else Inr (sg_regime sg))"

text \<open>The regime as a dictionary key: a value that is no text is in none of the tables.\<close>

definition regime_text :: "pyval \<Rightarrow> string" where
  "regime_text v = (case v of PStr s \<Rightarrow> s | _ \<Rightarrow> [])"

definition preset_params_of :: "pyval \<Rightarrow> pyval res" where
  "preset_params_of info = py_get (if truthy info then info else PDict []) ''params'' (PDict [])"

definition buy_preset :: "buy_env \<Rightarrow> buy_signal \<Rightarrow> pyval \<Rightarrow> pyval res" where
  "buy_preset EV sg regime =
     res_bind (preset_params_of (sg_preset sg)) (\<lambda>params.
     res_bind (let cache = read_regime_cache EV sg
       in if \<not> truthy params \<and> truthy cache
          then res_bind (py_get cache ''strategy_preset'' (PDict [])) preset_params_of
          else Inr params) (\<lambda>params'.
       if truthy params' then Inr params'
       else res_bind (be_presets EV) (\<lambda>presets.
         Inr (snd (resolve_preset_for_regime presets (regime_text regime) ''balanced_champion'')))))"

definition current_cfg :: "'d conf_db \<Rightarrow> buy_env \<Rightarrow> ('s, 'd) buy_world \<Rightarrow> cfg" where
  "current_cfg D EV w = cfg_of (be_vars EV) D (be_clock EV) (bw_conf w)"

definition apply_preset :: "'d conf_db \<Rightarrow> buy_env \<Rightarrow> pyval \<Rightarrow> ('s, 'd) buy_world \<Rightarrow> ('s, 'd) buy_world" where
  "apply_preset D EV params w =
     (let w1 = w\<lparr>bw_conf := apply_preset_to_config D (be_clock EV) params (bw_conf w)\<rparr>
      in w1\<lparr>bw_sizer := refresh_from_config ((bw_sizer w1)\<lparr>sz_config := current_cfg D EV w1\<rparr>)\<rparr>)"

section \<open>Safety constraints and candidates\<close>

definition check_safety_constraints :: "cfg \<Rightarrow> ledger \<Rightarrow> rat \<Rightarrow> buy_skip option" where
  "check_safety_constraints C l day =
     (let max_buy_count = cf_int C ''MAX_BUY_COUNT_PER_DAY'' 5;
          today_buy_count = get_today_buy_count l day;
          max_portfolio_size = cf_int C ''MAX_PORTFOLIO_SIZE'' 10;
          size = int (length (get_active_portfolio l))
      in if max_buy_count \<le> today_buy_count then Some (Daily_limit today_buy_count max_buy_count)
         else if max_portfolio_size \<le> size then Some (Portfolio_full size max_portfolio_size)
         else None)"

definition not_held :: "ledger \<Rightarrow> buy_candidate list \<Rightarrow> buy_candidate list" where
  "not_held l cs = filter (\<lambda>c. cd_code c \<notin> h_code ` set (get_active_portfolio l)) cs"

fun recent_trade :: "ledger \<Rightarrow> rat \<Rightarrow> buy_candidate list \<Rightarrow> buy_skip option" where
  "recent_trade l now [] = None"
| "recent_trade l now (c # cs) =
     (if was_traded_recently l now (cd_code c) (17/100) (Some BUY) then Some (Recently_bought (cd_code c))
      else if was_traded_recently l now (cd_code c) 24 (Some SELL) then Some (Recently_sold (cd_code c))
      else recent_trade l now cs)"

text \<open>\<open>sort(key=score, reverse=True)\<close> keeps the order of equal scores.\<close>

definition by_score :: "buy_candidate list \<Rightarrow> buy_candidate list" where
  "by_score cs = sort_key (\<lambda>c. - cd_score c) cs"

definition ABSOLUTE_MIN_SCORE :: rat where "ABSOLUTE_MIN_SCORE = 40"

definition trade_tier_of :: "buy_candidate \<Rightarrow> string" where
  "trade_tier_of c = (if cd_tier c \<noteq> [] then cd_tier c else if cd_tradable c then ''TIER1'' else ''TIER2'')"

definition select_candidate :: "cfg \<Rightarrow> buy_env \<Rightarrow> buy_signal \<Rightarrow> ('s, 'd, buy_candidate) buy_step" where
  "select_candidate C EV sg w =
     (case check_safety_constraints C (bw_ledger w) (be_day EV) of
        Some why \<Rightarrow> skip why w
      | None \<Rightarrow>
          (let cs = not_held (bw_ledger w) (sg_candidates sg)
           in if cs = [] then skip All_held w
              else (case recent_trade (bw_ledger w) (be_now EV) cs of
                  Some why \<Rightarrow> skip why w
                | None \<Rightarrow> (let c = hd (by_score cs)
                    in if cd_score c < ABSOLUTE_MIN_SCORE then skip (Below_hard_floor (cd_score c)) w
                       else (Next c, w)))))"

section \<open>The lock\<close>

definition buy_lock_key :: "string \<Rightarrow> string" where
  "buy_lock_key code = ''lock:buy:'' @ code"

definition take_lock :: "'s redis \<Rightarrow> string \<Rightarrow> ('s, 'd, unit) buy_step" where
  "take_lock R code w =
     (if r_conn R (bw_redis w)
      then (case r_set_nx_ex R (buy_lock_key code) 180 (Text ''1'') (bw_redis w) of
          (Inl _, s) \<Rightarrow> skip Lock_failure (w\<lparr>bw_redis := s\<rparr>)
        | (Inr False, s) \<Rightarrow> skip (Lock_active code) (w\<lparr>bw_redis := s\<rparr>)
        | (Inr True, s) \<Rightarrow> (Next (), w\<lparr>bw_redis := s\<rparr>))
      else (Next (), w))"

section \<open>Price and volatility\<close>

definition current_price_of :: "buy_env \<Rightarrow> buy_candidate \<Rightarrow> ('s, 'd, rat) buy_step" where
  "current_price_of EV c w =
     (if cd_price c \<noteq> 0 then (Next (cd_price c), w)
      else and_then (lift_res (be_snapshot EV) w) (\<lambda>v w.
        if \<not> truthy v then (Return (Buy_failed No_snapshot), w)
        else (case v of
            PDict kvs \<Rightarrow> (case map_of kvs ''price'' of
                None \<Rightarrow> (Raise (KeyError ''price''), w)
              | Some p \<Rightarrow> lift_res (to_float (V p)) w)
          | _ \<Rightarrow> (Raise TypeError, w))))"

text \<open>
  The ATR of the five-minute bars, else of the daily prices (any failure is no value); without
  a positive one two per cent of the price; at last its share of the price is held between
  one and five per cent.
\<close>

definition raw_atr :: "cfg \<Rightarrow> buy_env \<Rightarrow> rat option" where
  "raw_atr C EV =
     (case (if cf_bool C ''USE_INTRADAY_ATR'' True \<and> cf_bool C ''ENABLE_INTRADAY_LOGIC'' True
            then calculate_intraday_atr (be_bars EV) 20 else None) of
        Some a \<Rightarrow> Some a
      | None \<Rightarrow> (case be_daily_atr EV of Inl _ \<Rightarrow> None | Inr a \<Rightarrow> a))"

definition capped_atr :: "rat option \<Rightarrow> rat \<Rightarrow> rat" where
  "capped_atr raw price =
     (let atr = (case raw of Some a \<Rightarrow> if a \<le> 0 then fmul price (fl (2/100)) else a
                 | None \<Rightarrow> fmul price (fl (2/100)));
          atr_pct = (if 0 < price then fdiv atr price else fl (2/100))
      in fmul price (max (fl (1/100)) (min (fl (5/100)) atr_pct)))"

definition portfolio_value_of :: "holding list \<Rightarrow> rat" where
  "portfolio_value_of hs = fsum (map (\<lambda>h. fmul (of_py_int (h_quantity h)) (h_avg_price h)) hs)"

section \<open>Correlation\<close>

definition corr_of_holding :: "holding \<Rightarrow> corr_holding" where
  "corr_of_holding h = \<lparr>ch_code = Some (h_code h), ch_stock_code = None, ch_name = Some (h_name h),
     ch_stock_name = None\<rparr>"

text \<open>The factor of the quantity, or the correlation that forbids the purchase.\<close>

definition correlation_factor :: "cfg \<Rightarrow> buy_env \<Rightarrow> string \<Rightarrow> holding list \<Rightarrow> rat + rat" where
  "correlation_factor C EV code hs =
     (if \<not> (cf_bool C ''CORRELATION_CHECK_ENABLED'' True \<and> hs \<noteq> []) then Inr 1
      else case be_prices EV code of
        Inr (Some prices) \<Rightarrow>
          (let threshold = cf_float C ''CORRELATION_THRESHOLD'' (fl (7/10));
               block = cf_float C ''CORRELATION_BLOCK_THRESHOLD'' (fl (85/100));
               (_, _, max_corr) = check_portfolio_correlation (be_corrcoef EV) code prices
                 (map corr_of_holding hs) (be_prices EV) threshold 30
           in if block \<le> max_corr then Inl max_corr
              else if cf_bool C ''CORRELATION_ADJUST_POSITION'' True
              then Inr (get_correlation_risk_adjustment max_corr 1) else Inr 1)
      | _ \<Rightarrow> Inr 1)"

section \<open>Quantity\<close>

text \<open>The sizer is called without score, sector, held sectors and current risk.\<close>

definition sizing_request :: "rat \<Rightarrow> rat \<Rightarrow> rat \<Rightarrow> rat \<Rightarrow> size_request" where
  "sizing_request price atr cash pv = \<lparr>sq_price = price, sq_atr = ATR atr, sq_balance = cash,
     sq_portfolio_value = pv, sq_llm_score = 0, sq_sector = None, sq_held_sectors = [], sq_current_risk_pct = 0\<rparr>"

definition risk_setting_of :: "buy_env \<Rightarrow> buy_signal \<Rightarrow> buy_candidate \<Rightarrow> params res" where
  "risk_setting_of EV sg c =
     (let r = (if cd_risk c \<noteq> [] then cd_risk c else sg_risk sg); cache = read_regime_cache EV sg
      in if r = [] \<and> truthy cache
         then res_bind (py_get cache ''risk_setting'' PNone) (\<lambda>v. case v of PDict kvs \<Rightarrow> Inr kvs
           | _ \<Rightarrow> if truthy v then Inl AttributeError else Inr [])
         else Inr r)"

definition tier_ratio :: "cfg \<Rightarrow> string \<Rightarrow> rat \<Rightarrow> rat" where
  "tier_ratio C tier ratio =
     (let r1 = (if tier = ''TIER2'' then fmul ratio (cf_float C ''TIER2_POSITION_MULT'' (1/2)) else ratio)
      in if tier = ''RECON'' then fmul r1 (cf_float C ''RECON_POSITION_MULT'' (fl (3/10))) else r1)"

definition tier_risk :: "cfg \<Rightarrow> string \<Rightarrow> params \<Rightarrow> params" where
  "tier_risk C tier risk = (if tier = ''RECON''
     then dict_set ''recon_mode'' (PBool True)
       (dict_set ''stop_loss_pct'' (PFloat (cf_float C ''RECON_STOP_LOSS_PCT'' (fl (- 1/40)))) risk)
     else risk)"

definition scaled_quantity :: "int \<Rightarrow> rat \<Rightarrow> int" where
  "scaled_quantity base ratio =
     (let n = py_int (fmul (of_py_int base) ratio) in if n < 1 \<and> 1 \<le> base then 1 else n)"

definition manual_quantity_of :: "buy_signal \<Rightarrow> buy_candidate \<Rightarrow> int" where
  "manual_quantity_of sg c = (if sg_manual sg \<noteq> 0 then sg_manual sg else cd_manual c)"

definition auto_quantity ::
  "cfg \<Rightarrow> sizer \<Rightarrow> buy_candidate \<Rightarrow> params \<Rightarrow> rat \<Rightarrow> rat \<Rightarrow> rat \<Rightarrow> rat \<Rightarrow> rat \<Rightarrow> rat \<Rightarrow> int res" where
  "auto_quantity C sz c risk price atr cash pv corr stale =
     (let base = quantity (calculate_quantity sz (sizing_request price atr cash pv))
      in res_bind (as_num (dict_get risk ''position_size_ratio'' (PFloat 1))) (\<lambda>ratio.
           Inr (scaled_quantity base (fmul (fmul (tier_ratio C (trade_tier_of c) ratio) corr) stale))))"

text \<open>The quantity before the checks, with the risk setting the record will use.\<close>

definition first_quantity ::
  "cfg \<Rightarrow> buy_env \<Rightarrow> buy_signal \<Rightarrow> bool \<Rightarrow> buy_candidate \<Rightarrow> params \<Rightarrow> rat \<Rightarrow> rat \<Rightarrow> rat \<Rightarrow> holding list
    \<Rightarrow> ('s, 'd, int \<times> params) buy_step" where
  "first_quantity C EV sg dry_run c risk price atr cash hs w =
     (case correlation_factor C EV (cd_code c) hs of
        Inl max_corr \<Rightarrow> skip (High_correlation max_corr) w
      | Inr corr \<Rightarrow>
          (let m = manual_quantity_of sg c
           in if m \<noteq> 0 then
                (if m \<le> 0 then skip Invalid_manual_quantity w
                 else if \<not> dry_run \<and> cash < fmul (of_py_int m) price then (Return (Buy_failed Insufficient_cash), w)
                 else (Next (m, risk), w))
              else and_then (lift_res (auto_quantity C (bw_sizer w) c risk price atr cash (portfolio_value_of hs)
                     corr (stale_multiplier (cd_scored_on c) (be_today EV))) w) (\<lambda>n w.
                if n \<le> 0 then skip Size_too_small w
                else (Next (n, tier_risk C (trade_tier_of c) risk), w))))"

section \<open>Guard and diversification\<close>

definition guard_item :: "holding \<Rightarrow> pf_item" where
  "guard_item h = \<lparr>pf_stock_code = None, pf_code = Some (h_code h), pf_stock_name = None,
     pf_name = Some (h_name h), pf_quantity = Some (h_quantity h), pf_buy_price = None,
     pf_avg_price = Some (h_avg_price h), pf_current_price = None\<rparr>"

definition pass_guard ::
  "cfg \<Rightarrow> 's redis \<Rightarrow> buy_env \<Rightarrow> string \<Rightarrow> buy_candidate \<Rightarrow> rat \<Rightarrow> rat \<Rightarrow> rat \<Rightarrow> ('s, 'd, unit) buy_step" where
  "pass_guard C R EV regime c amount cash assets w =
     (let (r, s) = check_all C R (be_group EV) (cd_code c) (cd_name c)
            (map guard_item (get_active_portfolio (bw_ledger w))) amount cash assets regime (bw_redis w)
      in and_then (lift_res r (w\<lparr>bw_redis := s\<rparr>)) (\<lambda>g w.
           if gr_passed g then (Next (), w) else skip (Guard_refused (gr_reason g)) w))"

text \<open>The portfolio cache is keyed by code; the holdings have no current price of their own.\<close>

definition div_cache :: "holding list \<Rightarrow> div_item list" where
  "div_cache hs = map snd (foldl (\<lambda>d h. if h_code h = [] then d else dict_set (h_code h)
     \<lparr>dv_code = h_code h, dv_name = h_name h, dv_quantity = h_quantity h,
      dv_avg_price = PFloat (h_avg_price h), dv_current_price = Some (PFloat (h_avg_price h))\<rparr> d) [] hs)"

definition diversify ::
  "cfg \<Rightarrow> buy_env \<Rightarrow> buy_candidate \<Rightarrow> holding list \<Rightarrow> rat \<Rightarrow> int \<Rightarrow> rat \<Rightarrow> rat \<Rightarrow> rat \<Rightarrow> div_result" where
  "diversify C EV c hs cash qty price max_sector max_stock = check_diversification C (be_sector EV)
     \<lparr>dc_code = cd_code c, dc_name = cd_name c, dc_quantity = qty, dc_price = price\<rparr>
     (div_cache hs) cash (Some max_sector) (Some max_stock)"

text \<open>The shares that fit into a share of the assets, and the half rule.\<close>

definition resized :: "rat \<Rightarrow> rat \<Rightarrow> rat \<Rightarrow> int res" where
  "resized assets pct price = res_bind (py_fdiv (fmul assets (fdiv (max 0 (fsub pct (fl (1/10)))) 100)) price)
     (\<lambda>x. Inr (py_int x))"

definition accept_resized ::
  "(int \<Rightarrow> div_result) \<Rightarrow> buy_skip \<Rightarrow> int \<Rightarrow> int \<Rightarrow> ('s, 'd, int) buy_step" where
  "accept_resized check why qty new_qty w =
     (if fdiv (of_py_int new_qty) (of_py_int qty) < 1/2 then skip why w
      else if dr_approved (check new_qty) then (Next new_qty, w)
      else skip Not_diversified_after_resize w)"

definition final_quantity ::
  "(int \<Rightarrow> div_result) \<Rightarrow> rat \<Rightarrow> rat \<Rightarrow> rat \<Rightarrow> rat \<Rightarrow> int \<Rightarrow> ('s, 'd, int) buy_step" where
  "final_quantity check assets price max_sector max_stock qty w =
     (let r = check qty
      in if dr_approved r then (Next qty, w)
         else (case dr_reason r of
             Sector_exceeded _ _ _ \<Rightarrow>
               (let room = fsub max_sector (opt_or 0 (dr_current_sector_exposure r))
                in if 1/2 < room
                   then and_then (lift_res (resized assets room price) w) (\<lambda>n w.
                     if 0 < n then accept_resized check Smart_skip_sector qty n w
                     else skip Resized_to_zero w)
                   else skip Not_diversified w)
           | Stock_exceeded _ _ \<Rightarrow>
               and_then (lift_res (resized assets max_stock price) w) (\<lambda>n w.
                 if 0 < n \<and> n < qty then accept_resized check Smart_skip_stock qty n w
                 else skip Resized_to_zero w)
           | _ \<Rightarrow> skip Not_diversified w))"

definition sector_limit :: "cfg \<Rightarrow> string \<Rightarrow> rat" where
  "sector_limit C regime = (if regime = ''STRONG_BULL'' then 50 else cf_float C ''MAX_SECTOR_PCT'' 30)"

definition stock_limit :: "cfg \<Rightarrow> string \<Rightarrow> rat" where
  "stock_limit C regime = (if regime = ''STRONG_BULL'' then 20 else cf_float C ''MAX_POSITION_VALUE_PCT'' 10)"

section \<open>Order\<close>

definition MOMENTUM_STRATEGIES :: "string list" where
  "MOMENTUM_STRATEGIES = [''MOMENTUM'', ''MOMENTUM_CONTINUATION_BULL'', ''SHORT_TERM_HIGH_BREAKOUT'', ''VCP_BREAKOUT'']"

definition use_limit :: "cfg \<Rightarrow> buy_candidate \<Rightarrow> bool" where
  "use_limit C c \<longleftrightarrow> cf_bool C ''MOMENTUM_LIMIT_ORDER_ENABLED'' False \<and> cd_signal c \<in> set MOMENTUM_STRATEGIES"

definition limit_price_of :: "cfg \<Rightarrow> rat \<Rightarrow> int" where
  "limit_price_of C price =
     align_to_tick_size (py_int (fmul price (fadd 1 (cf_float C ''MOMENTUM_LIMIT_PREMIUM'' (fl (3/1000))))))"

definition call_broker :: "buy_env \<Rightarrow> string \<Rightarrow> int \<Rightarrow> int \<Rightarrow> ('s, 'd, string) buy_step" where
  "call_broker EV code qty price w =
     and_then (lift_res (be_order EV) (w\<lparr>bw_orders := bw_orders w @ [(code, qty, price)]\<rparr>)) (\<lambda>no w.
       case no of
         None \<Rightarrow> (Return (Buy_failed Buy_order_failed), w)
       | Some n \<Rightarrow> if n = [] then (Return (Buy_failed Buy_order_failed), w) else (Next n, w))"

text \<open>
  A limit order is cancelled after the timeout; a cancellation that succeeds means it was not
  filled.
\<close>

definition place_order ::
  "cfg \<Rightarrow> buy_env \<Rightarrow> bool \<Rightarrow> buy_candidate \<Rightarrow> int \<Rightarrow> rat \<Rightarrow> ('s, 'd, string) buy_step" where
  "place_order C EV dry_run c qty price w =
     (if dry_run then (Next (''DRY_RUN_'' @ be_digits EV), w)
      else if use_limit C c then
        and_then (call_broker EV (cd_code c) qty (limit_price_of C price) w) (\<lambda>no w.
        and_then (lift_res (be_cancel EV) w) (\<lambda>cancelled w.
          if cancelled then skip (Limit_not_filled (cf_int C ''MOMENTUM_LIMIT_TIMEOUT_SEC'' 10)) w
          else (Next no, w)))
      else call_broker EV (cd_code c) qty 0 w)"

section \<open>Record\<close>

text \<open>The stop loss computed from the ATR replaces the one of the risk setting.\<close>

definition atr_stop_pct :: "cfg \<Rightarrow> rat \<Rightarrow> rat \<Rightarrow> rat" where
  "atr_stop_pct C atr price = py_round 4 (fdiv (- fmul atr (cf_float C ''ATR_MULTIPLIER'' 2)) price)"

definition final_risk :: "cfg \<Rightarrow> rat \<Rightarrow> rat \<Rightarrow> params \<Rightarrow> params" where
  "final_risk C atr price risk = (if atr \<noteq> 0 \<and> 0 < price
     then dict_set ''atr_used'' (PFloat (py_round 0 atr))
       (dict_set ''stop_loss_pct'' (PFloat (atr_stop_pct C atr price)) risk)
     else risk)"

definition initial_stop_price :: "params \<Rightarrow> rat \<Rightarrow> rat res" where
  "initial_stop_price risk price =
     (let v = dict_get risk ''stop_loss_pct'' PNone
      in res_bind (as_num (if v = PNone then PFloat (fl (- 5/100)) else v)) (\<lambda>pct.
           Inr (fmul price (fadd 1 (if 0 < pct then - pct else pct)))))"

definition record_trade ::
  "buy_env \<Rightarrow> buy_candidate \<Rightarrow> int \<Rightarrow> rat \<Rightarrow> params \<Rightarrow> ('s, 'd, unit) buy_step" where
  "record_trade EV c qty price risk w =
     and_then (lift_res (initial_stop_price risk price) w) (\<lambda>stop w.
       (let (ok, l) = execute_trade_and_log (be_ready EV) (be_db EV) (be_fault EV) (be_now EV)
              \<lparr>td_side = BUY, td_code = cd_code c, td_name = cd_name c, td_quantity = qty, td_price = price,
               td_reason = cd_reason c, td_stop_loss = Some stop\<rparr> (bw_ledger w);
            w1 = w\<lparr>bw_ledger := l\<rparr>
        in if ok then (Next (), w1) else (Raise (RuntimeError ''Failed to execute trade transaction (DB error)''), w1)))"

section \<open>The handler\<close>

text \<open>What is bought: the candidate, its price and volatility, shares and risk setting.\<close>

record buy_plan =
  bp_candidate :: buy_candidate
  bp_price :: rat
  bp_atr :: rat
  bp_first :: int
  bp_quantity :: int
  bp_risk :: params
  bp_cash :: rat

definition plan_purchase ::
  "'s redis \<Rightarrow> cfg \<Rightarrow> buy_env \<Rightarrow> buy_signal \<Rightarrow> string \<Rightarrow> bool \<Rightarrow> ('s, 'd, buy_plan) buy_step" where
  "plan_purchase R C EV sg regime dry_run w =
     and_then (select_candidate C EV sg w) (\<lambda>c w.
     and_then (take_lock R (cd_code c) w) (\<lambda>_ w.
     and_then (lift_res (be_cash EV) w) (\<lambda>cash w.
     and_then (lift_res (risk_setting_of EV sg c) w) (\<lambda>risk w.
     and_then (current_price_of EV c w) (\<lambda>price w.
       let atr = capped_atr (raw_atr C EV) price;
           hs = get_active_portfolio (bw_ledger w);
           assets = fadd cash (portfolio_value_of hs);
           max_sector = sector_limit C regime; max_stock = stock_limit C regime
       in and_then (first_quantity C EV sg dry_run c risk price atr cash hs w) (\<lambda>(n, risk') w.
          and_then (pass_guard C R EV regime c (fmul (of_py_int n) price) cash assets w) (\<lambda>_ w.
          and_then (final_quantity (\<lambda>q. diversify C EV c hs cash q price max_sector max_stock) assets price
              max_sector max_stock n w) (\<lambda>m w.
            (Next \<lparr>bp_candidate = c, bp_price = price, bp_atr = atr, bp_first = n, bp_quantity = m,
               bp_risk = risk', bp_cash = cash\<rparr>, w)))))))))"

definition execute_plan ::
  "'s redis \<Rightarrow> cfg \<Rightarrow> buy_env \<Rightarrow> bool \<Rightarrow> buy_plan \<Rightarrow> ('s, 'd, buy_receipt) buy_step" where
  "execute_plan R C EV dry_run p w =
     (let c = bp_candidate p; n = bp_quantity p; price = bp_price p
      in and_then (place_order C EV dry_run c n price w) (\<lambda>no w.
         and_then (record_trade EV c n price (final_risk C (bp_atr p) price (bp_risk p)) w) (\<lambda>_ w.
           (Next \<lparr>br_code = cd_code c, br_order_no = no, br_quantity = n, br_price = price,
              br_total = fmul (of_py_int n) price, br_dry_run = dry_run,
              br_stale = stale_multiplier (cd_scored_on c) (be_today EV)\<rparr>,
            w\<lparr>bw_redis := snd (reset_trading_state_for_stock R (cd_code c) (bw_redis w))\<rparr>))))"

definition buy_in_session ::
  "'s redis \<Rightarrow> 'd conf_db \<Rightarrow> buy_env \<Rightarrow> buy_signal \<Rightarrow> bool \<Rightarrow> ('s, 'd, buy_receipt) buy_step" where
  "buy_in_session R D EV sg dry_run w =
     (if sg_candidates sg = [] then skip No_candidates w
      else and_then (lift_res (market_regime_of EV sg) w) (\<lambda>regime w.
        and_then (lift_res (buy_preset EV sg regime) w) (\<lambda>params w.
          let w1 = apply_preset D EV params w; C = current_cfg D EV w1
          in and_then (plan_purchase R C EV sg (regime_text regime) dry_run w1) (execute_plan R C EV dry_run))))"

definition process_buy_signal ::
  "'s redis \<Rightarrow> 'd conf_db \<Rightarrow> buy_env \<Rightarrow> buy_signal \<Rightarrow> bool \<Rightarrow> ('s, 'd) buy_world
    \<Rightarrow> buy_answer res \<times> ('s, 'd) buy_world" where
  "process_buy_signal R D EV sg dry_run w =
     (case and_then (check_permission R sg w) (\<lambda>_.
         session_scope (be_session EV) (be_commit EV) (\<lambda>w w'. w'\<lparr>bw_ledger := bw_ledger w\<rparr>)
           (buy_in_session R D EV sg dry_run)) of
        (Return a, w') \<Rightarrow> (Inr (Ended a), w')
      | (Next r, w') \<Rightarrow> (Inr (Bought r), w')
      | (Raise e, w') \<Rightarrow> (Inl e, w'))"

section \<open>What the stages keep\<close>

text \<open>The part of the state that only the last stages change.\<close>

definition kept :: "('s, 'd) buy_world \<Rightarrow> (string \<times> int \<times> int) list \<times> ledger \<times> (conf \<times> 'd) \<times> sizer" where
  "kept w = (bw_orders w, bw_ledger w, bw_conf w, bw_sizer w)"

lemma kept_redis [simp]: "kept (w\<lparr>bw_redis := s\<rparr>) = kept w"
  by (simp add: kept_def)

lemma snd_skip [simp]: "snd (skip why w) = w"
  by (simp add: skip_def)

lemma skip_not_Next [simp]: "skip why w \<noteq> (Next x, w')"
  by (simp add: skip_def)

lemma select_keeps: "snd (select_candidate C EV sg w) = w"
  by (simp add: select_candidate_def Let_def split: option.splits)

lemma take_lock_keeps: "kept (snd (take_lock R c w)) = kept w"
  by (simp add: take_lock_def split: prod.splits sum.splits bool.splits)

lemma price_keeps: "snd (current_price_of EV c w) = w"
  by (rule and_then_keeps [where f = "\<lambda>w. w"] | auto simp: current_price_of_def split: pyval.splits option.splits)+

lemma first_quantity_keeps: "snd (first_quantity C EV sg dry c risk price atr cash hs w) = w"
  by (cases "correlation_factor C EV (cd_code c) hs")
     (auto simp: first_quantity_def Let_def intro!: and_then_keeps [where f = "\<lambda>w. w"])

lemma pass_guard_keeps: "kept (snd (pass_guard C R EV regime c amount cash assets w)) = kept w"
  by (auto simp: pass_guard_def case_prod_beta Let_def intro!: and_then_keeps [where f = kept])

lemma accept_keeps: "snd (accept_resized check why qty n w) = w"
  by (simp add: accept_resized_def)

lemma final_quantity_keeps: "snd (final_quantity check assets price ms mt n w) = w"
  by (auto simp: final_quantity_def Let_def accept_keeps split: div_reason.splits
      intro!: and_then_keeps [where f = "\<lambda>w. w"])

lemma plan_keeps: "kept (snd (plan_purchase R C EV sg regime dry w)) = kept w"
  unfolding plan_purchase_def Let_def
  by (auto simp: select_keeps take_lock_keeps price_keeps first_quantity_keeps pass_guard_keeps
       final_quantity_keeps split: prod.splits intro!: and_then_keeps [where f = kept])


section \<open>What a plan has passed\<close>

lemma recent_trade_None:
  "recent_trade l now cs = None \<longleftrightarrow> (\<forall>c \<in> set cs. \<not> was_traded_recently l now (cd_code c) (17/100) (Some BUY) \<and>
     \<not> was_traded_recently l now (cd_code c) 24 (Some SELL))"
  by (induction cs) auto

lemma best_score:
  assumes "cs \<noteq> []"
  shows "hd (by_score cs) \<in> set cs" "c \<in> set cs \<Longrightarrow> cd_score c \<le> cd_score (hd (by_score cs))"
proof -
  obtain b bs where b: "by_score cs = b # bs"
    using assms by (cases "by_score cs") (auto simp: by_score_def dest: arg_cong [of _ _ length])
  have "set (by_score cs) = set cs" by (simp add: by_score_def)
  then show "hd (by_score cs) \<in> set cs" using b by auto
  have "sorted (map (\<lambda>c. - cd_score c) (b # bs))"
    unfolding b [symmetric] by_score_def by (rule sorted_sort_key)
  then show "cd_score c \<le> cd_score (hd (by_score cs))" if "c \<in> set cs"
    using that \<open>set (by_score cs) = set cs\<close> b by auto
qed

text \<open>The candidate that is chosen.\<close>

definition eligible :: "cfg \<Rightarrow> buy_env \<Rightarrow> buy_signal \<Rightarrow> ledger \<Rightarrow> buy_candidate \<Rightarrow> bool" where
  "eligible C EV sg l c \<longleftrightarrow> c \<in> set (sg_candidates sg) \<and>
     get_today_buy_count l (be_day EV) < cf_int C ''MAX_BUY_COUNT_PER_DAY'' 5 \<and>
     int (length (get_active_portfolio l)) < cf_int C ''MAX_PORTFOLIO_SIZE'' 10 \<and>
     (\<forall>h \<in> set (get_active_portfolio l). h_code h \<noteq> cd_code c) \<and>
     \<not> was_traded_recently l (be_now EV) (cd_code c) (17/100) (Some BUY) \<and>
     \<not> was_traded_recently l (be_now EV) (cd_code c) 24 (Some SELL) \<and>
     40 \<le> cd_score c \<and> (\<forall>d \<in> set (not_held l (sg_candidates sg)). cd_score d \<le> cd_score c)"

lemma select_Next:
  assumes "select_candidate C EV sg w = (Next c, w')"
  shows "w' = w" "eligible C EV sg (bw_ledger w) c"
proof -
  let ?cs = "not_held (bw_ledger w) (sg_candidates sg)"
  from assms have n: "check_safety_constraints C (bw_ledger w) (be_day EV) = None" "?cs \<noteq> []"
    "recent_trade (bw_ledger w) (be_now EV) ?cs = None" "c = hd (by_score ?cs)" "\<not> cd_score c < 40"
    and "w' = w"
    by (auto simp: select_candidate_def Let_def ABSOLUTE_MIN_SCORE_def split: option.splits if_splits)
  then show "w' = w" by simp
  have c: "c \<in> set ?cs" "\<forall>d \<in> set ?cs. cd_score d \<le> cd_score c"
    using best_score [OF n(2)] n(4) by auto
  then have "c \<in> set (sg_candidates sg)" "\<forall>h \<in> set (get_active_portfolio (bw_ledger w)). h_code h \<noteq> cd_code c"
    by (auto simp: not_held_def) (metis image_eqI)
  with n c show "eligible C EV sg (bw_ledger w) c"
    by (auto simp: eligible_def recent_trade_None check_safety_constraints_def Let_def split: if_splits)
qed

lemma first_quantity_Next:
  "first_quantity C EV sg dry c risk price atr cash hs w = (Next (n, r), w') \<Longrightarrow> 0 < n"
  by (auto simp: first_quantity_def and_then_Next Let_def split: sum.splits if_splits)

lemma pass_guard_Next:
  assumes "pass_guard C R EV regime c amount cash assets w = (Next u, w')"
  shows "\<exists>g. fst (check_all C R (be_group EV) (cd_code c) (cd_name c) (map guard_item (get_active_portfolio (bw_ledger w)))
     amount cash assets regime (bw_redis w)) = Inr g \<and> gr_passed g"
  using assms
  by (auto simp: pass_guard_def and_then_Next lift_res_Next case_prod_beta Let_def split: if_splits)

lemma accept_Next:
  "accept_resized check why qty n w = (Next m, w') \<Longrightarrow> m = n \<and> dr_approved (check m)"
  by (auto simp: accept_resized_def split: if_splits)

lemma final_quantity_Next:
  assumes "final_quantity check assets price ms mt qty w = (Next m, w')" "0 < qty"
  shows "dr_approved (check m)" "0 < m"
  using assms
  by (auto simp: final_quantity_def and_then_Next Let_def split: if_splits div_reason.splits dest!: accept_Next)


lemma div_item_prices:
  "\<forall>i \<in> set (div_cache hs). \<exists>x. dv_current_price i = Some (PFloat x)"
proof -
  let ?f = "\<lambda>d h. if h_code h = [] then d else dict_set (h_code h)
     \<lparr>dv_code = h_code h, dv_name = h_name h, dv_quantity = h_quantity h,
      dv_avg_price = PFloat (h_avg_price h), dv_current_price = Some (PFloat (h_avg_price h))\<rparr> d"
  have "(\<forall>i \<in> snd ` set d. \<exists>x. dv_current_price i = Some (PFloat x)) \<Longrightarrow>
      \<forall>i \<in> snd ` set (foldl ?f d hs). \<exists>x. dv_current_price i = Some (PFloat x)" for d
  proof (induction hs arbitrary: d)
    case (Cons h hs)
    have "\<forall>i \<in> snd ` set (?f d h). \<exists>x. dv_current_price i = Some (PFloat x)"
    proof
      fix i assume "i \<in> snd ` set (?f d h)"
      then have "i \<in> snd ` set d \<or> dv_current_price i = Some (PFloat (h_avg_price h))"
        using set_dict_set [of "h_code h" _ d] by (auto split: if_splits dest!: subsetD [OF set_dict_set])
      with Cons.prems show "\<exists>x. dv_current_price i = Some (PFloat x)" by blast
    qed
    from Cons.IH [OF this] show ?case by simp
  qed simp
  from this [of "[]"] show ?thesis by (simp add: div_cache_def)
qed

lemma item_values_Inr:
  "\<forall>i \<in> set is. \<exists>x. dv_current_price i = Some (PFloat x) \<Longrightarrow> \<exists>vs. item_values is = Inr vs"
  by (induction "is") (auto simp: item_value_def opt_or_def)

text \<open>The check of the executor never ends in the approval given on a failure.\<close>

lemma diversify_not_failed: "dr_reason (diversify C EV c hs cash qty price ms mt) \<noteq> Div_failed e"
proof -
  obtain vs where "item_values (div_cache hs) = Inr vs" using item_values_Inr [OF div_item_prices] by blast
  then show ?thesis by (simp add: diversify_def check_diversification_def Let_def)
qed

definition planned ::
  "'s redis \<Rightarrow> cfg \<Rightarrow> buy_env \<Rightarrow> buy_signal \<Rightarrow> string \<Rightarrow> ledger \<Rightarrow> buy_plan \<Rightarrow> bool" where
  "planned R C EV sg regime l p \<longleftrightarrow>
     (let c = bp_candidate p; hs = get_active_portfolio l; price = bp_price p
      in eligible C EV sg l c \<and> 0 < bp_quantity p \<and> be_cash EV = Inr (bp_cash p) \<and>
         bp_atr p = capped_atr (raw_atr C EV) price \<and>
         (\<exists>s g. fst (check_all C R (be_group EV) (cd_code c) (cd_name c) (map guard_item hs)
            (fmul (of_py_int (bp_first p)) price) (bp_cash p) (fadd (bp_cash p) (portfolio_value_of hs)) regime s)
            = Inr g \<and> gr_passed g) \<and>
         dr_approved (diversify C EV c hs (bp_cash p) (bp_quantity p) price (sector_limit C regime) (stock_limit C regime)))"

lemma plan_stages:
  assumes "plan_purchase R C EV sg regime dry w = (Next p, w')"
  obtains c w1 u w2 cash price n risk w5 m u' where
    "select_candidate C EV sg w = (Next c, w1)" "take_lock R (cd_code c) w1 = (Next u, w2)" "be_cash EV = Inr cash"
    "0 < n"
    "pass_guard C R EV regime c (fmul (of_py_int n) price) cash
      (fadd cash (portfolio_value_of (get_active_portfolio (bw_ledger w2)))) w2 = (Next u', w5)"
    "final_quantity (\<lambda>q. diversify C EV c (get_active_portfolio (bw_ledger w2)) cash q price
        (sector_limit C regime) (stock_limit C regime))
      (fadd cash (portfolio_value_of (get_active_portfolio (bw_ledger w2)))) price
      (sector_limit C regime) (stock_limit C regime) n w5 = (Next m, w')"
    "p = \<lparr>bp_candidate = c, bp_price = price, bp_atr = capped_atr (raw_atr C EV) price, bp_first = n,
      bp_quantity = m, bp_risk = risk, bp_cash = cash\<rparr>"
proof -
  from assms obtain c w1 u w2 cash risk price w3 n risk' w4 u' w5 m where
    s: "select_candidate C EV sg w = (Next c, w1)" and l: "take_lock R (cd_code c) w1 = (Next u, w2)"
    and ca: "be_cash EV = Inr cash" and pr: "current_price_of EV c w2 = (Next price, w3)"
    and fq: "first_quantity C EV sg dry c risk price (capped_atr (raw_atr C EV) price) cash
      (get_active_portfolio (bw_ledger w3)) w3 = (Next (n, risk'), w4)"
    and g: "pass_guard C R EV regime c (fmul (of_py_int n) price) cash
      (fadd cash (portfolio_value_of (get_active_portfolio (bw_ledger w3)))) w4 = (Next u', w5)"
    and q: "final_quantity (\<lambda>q. diversify C EV c (get_active_portfolio (bw_ledger w3)) cash q price
        (sector_limit C regime) (stock_limit C regime))
      (fadd cash (portfolio_value_of (get_active_portfolio (bw_ledger w3)))) price
      (sector_limit C regime) (stock_limit C regime) n w5 = (Next m, w')"
    and p: "p = \<lparr>bp_candidate = c, bp_price = price, bp_atr = capped_atr (raw_atr C EV) price, bp_first = n,
      bp_quantity = m, bp_risk = risk', bp_cash = cash\<rparr>"
    unfolding plan_purchase_def Let_def and_then_Next lift_res_Next by (auto simp: and_then_Next)
  have "w3 = w2" using price_keeps [of EV c w2] pr by simp
  moreover have "w4 = w3" using first_quantity_keeps [of C EV sg dry c risk price] fq by (metis snd_conv)
  ultimately show thesis using that s l ca first_quantity_Next [OF fq] g q p by simp
qed

lemma plan_Next:
  assumes "plan_purchase R C EV sg regime dry w = (Next p, w')"
  shows "planned R C EV sg regime (bw_ledger w) p"
  using assms
proof (rule plan_stages)
  fix c w1 u w2 cash price n risk w5 m u'
  assume s: "select_candidate C EV sg w = (Next c, w1)" and l: "take_lock R (cd_code c) w1 = (Next u, w2)"
    and r: "be_cash EV = Inr cash" "0 < n"
    and g: "pass_guard C R EV regime c (fmul (of_py_int n) price) cash
      (fadd cash (portfolio_value_of (get_active_portfolio (bw_ledger w2)))) w2 = (Next u', w5)"
    and q: "final_quantity (\<lambda>q. diversify C EV c (get_active_portfolio (bw_ledger w2)) cash q price
        (sector_limit C regime) (stock_limit C regime))
      (fadd cash (portfolio_value_of (get_active_portfolio (bw_ledger w2)))) price
      (sector_limit C regime) (stock_limit C regime) n w5 = (Next m, w')"
    and p: "p = \<lparr>bp_candidate = c, bp_price = price, bp_atr = capped_atr (raw_atr C EV) price, bp_first = n,
      bp_quantity = m, bp_risk = risk, bp_cash = cash\<rparr>"
  note e = select_Next [OF s]
  have k: "bw_ledger w2 = bw_ledger w"
    using take_lock_keeps [of R "cd_code c" w1] l e(1) by (simp add: kept_def)
  from pass_guard_Next [OF g] final_quantity_Next [OF q r(2)] e(2) r show ?thesis
    unfolding planned_def Let_def p k by (auto simp: k)
qed

section \<open>The order\<close>

definition order_of :: "cfg \<Rightarrow> buy_plan \<Rightarrow> string \<times> int \<times> int" where
  "order_of C p = (cd_code (bp_candidate p), bp_quantity p,
     if use_limit C (bp_candidate p) then limit_price_of C (bp_price p) else 0)"

lemma call_broker_effect:
  "snd (call_broker EV code qty price w) = w\<lparr>bw_orders := bw_orders w @ [(code, qty, price)]\<rparr>"
  "call_broker EV code qty price w = (Next n, w') \<Longrightarrow> be_order EV = Inr (Some n) \<and> n \<noteq> []"
  by (cases "be_order EV"; auto simp: call_broker_def split: option.splits if_splits)+

lemma place_order_effect:
  "snd (place_order C EV dry c qty price w) = (if dry then w else w\<lparr>bw_orders := bw_orders w @
     [(cd_code c, qty, if use_limit C c then limit_price_of C price else 0)]\<rparr>)"
proof (cases "dry \<or> \<not> use_limit C c")
  case False
  let ?w = "w\<lparr>bw_orders := bw_orders w @ [(cd_code c, qty, limit_price_of C price)]\<rparr>"
  have "snd (place_order C EV dry c qty price w) = ?w"
    unfolding place_order_def using False
    by (auto simp: call_broker_effect intro!: and_then_keeps [where f = "\<lambda>w. w"])
  with False show ?thesis by simp
qed (auto simp: place_order_def call_broker_effect)

lemma record_orders: "bw_orders (snd (record_trade EV c n price risk w)) = bw_orders w"
  unfolding record_trade_def
  by (intro and_then_keeps [where f = bw_orders]) (auto simp: case_prod_beta Let_def)

lemma execute_orders:
  "bw_orders (snd (execute_plan R C EV dry p w)) = (if dry then bw_orders w else bw_orders w @ [order_of C p])"
  unfolding execute_plan_def Let_def order_of_def
  by (intro and_then_keeps [where f = bw_orders]) (auto simp: place_order_effect record_orders)

lemma scope_orders:
  "bw_orders (snd (session_scope b c (\<lambda>w w'. w'\<lparr>bw_ledger := bw_ledger w\<rparr>) body w)) = bw_orders w \<or>
   bw_orders (snd (session_scope b c (\<lambda>w w'. w'\<lparr>bw_ledger := bw_ledger w\<rparr>) body w)) = bw_orders (snd (body w))"
  by (cases b; cases "body w"; cases "fst (body w)"; cases c) (simp_all add: session_scope_def)

section \<open>Permission\<close>

lemma permission_keeps: "kept (snd (check_permission R sg w)) = kept w"
  unfolding check_permission_def
  by (intro and_then_keeps [where f = kept])
     (auto simp: read_flag_def case_prod_beta Let_def intro!: and_then_keeps [where f = kept])

definition permitted :: "'s redis \<Rightarrow> buy_signal \<Rightarrow> 's \<Rightarrow> bool" where
  "permitted R sg s \<longleftrightarrow> (\<exists>v. fst (is_trading_stopped R s) = Inr v \<and> \<not> truthy v) \<and>
     (\<exists>v. fst (is_trading_paused R (snd (is_trading_stopped R s))) = Inr v \<and>
        (truthy v \<longrightarrow> sg_source sg = ''telegram-manual''))"

lemma permission_Next:
  assumes "check_permission R sg w = (Next u, w')"
  shows "permitted R sg (bw_redis w)"
  using assms unfolding check_permission_def read_flag_def
  by (auto simp: and_then_Next lift_res_Next permitted_def case_prod_beta Let_def split: if_splits)

section \<open>The configuration of a call\<close>

text \<open>The regime and the configuration a call works with.\<close>

definition call_context :: "'d conf_db \<Rightarrow> buy_env \<Rightarrow> buy_signal \<Rightarrow> conf \<times> 'd \<Rightarrow> string \<Rightarrow> cfg \<Rightarrow> bool" where
  "call_context D EV sg md regime C \<longleftrightarrow> (\<exists>v params. market_regime_of EV sg = Inr v \<and> regime = regime_text v \<and>
     buy_preset EV sg v = Inr params \<and>
     C = cfg_of (be_vars EV) D (be_clock EV) (apply_preset_to_config D (be_clock EV) params md))"

lemma apply_preset_kept:
  "bw_orders (apply_preset D EV params w) = bw_orders w" "bw_ledger (apply_preset D EV params w) = bw_ledger w"
  "bw_redis (apply_preset D EV params w) = bw_redis w"
  "current_cfg D EV (apply_preset D EV params w) =
     cfg_of (be_vars EV) D (be_clock EV) (apply_preset_to_config D (be_clock EV) params (bw_conf w))"
  by (simp_all add: apply_preset_def current_cfg_def Let_def)

text \<open>How far the stages of a session go.\<close>

lemma session_cases:
  assumes "buy_in_session R D EV sg dry w = (f, w')"
  obtains (Cut) "bw_orders w' = bw_orders w" "bw_ledger w' = bw_ledger w" "\<forall>r. f \<noteq> Next r"
  | (Run) regime C p w1 where "call_context D EV sg (bw_conf w) regime C"
      "planned R C EV sg regime (bw_ledger w) p" "bw_ledger w1 = bw_ledger w" "bw_orders w1 = bw_orders w"
      "execute_plan R C EV dry p w1 = (f, w')"
proof -
  have skip_cut: thesis if "w' = w" "\<forall>r. f \<noteq> Next r" using that Cut by simp
  show thesis
  proof (cases "sg_candidates sg = []")
    case True
    with assms skip_cut show ?thesis by (auto simp: buy_in_session_def skip_def)
  next
    case ne: False
    show ?thesis
    proof (cases "market_regime_of EV sg")
      case (Inl e)
      with assms ne skip_cut show ?thesis by (auto simp: buy_in_session_def)
    next
      case r: (Inr v)
      show ?thesis
      proof (cases "buy_preset EV sg v")
        case (Inl e)
        with assms ne r skip_cut show ?thesis by (auto simp: buy_in_session_def)
      next
        case b: (Inr params)
        let ?w = "apply_preset D EV params w"
        let ?C = "current_cfg D EV ?w"
        obtain g w1 where pl: "plan_purchase R ?C EV sg (regime_text v) dry ?w = (g, w1)" by fastforce
        have k: "bw_orders w1 = bw_orders w" "bw_ledger w1 = bw_ledger w"
          using plan_keeps [of R ?C EV sg "regime_text v" dry ?w] pl by (simp_all add: kept_def apply_preset_kept)
        have run: "and_then (g, w1) (execute_plan R ?C EV dry) = (f, w')"
          using assms ne r b pl by (simp add: buy_in_session_def Let_def)
        show ?thesis
        proof (cases g)
          case (Next p)
          have c: "call_context D EV sg (bw_conf w) (regime_text v) ?C"
            unfolding call_context_def apply_preset_kept using r b by blast
          from plan_Next [of R ?C EV sg "regime_text v" dry ?w p w1] pl Next
          have "planned R ?C EV sg (regime_text v) (bw_ledger w) p" by (simp add: apply_preset_kept)
          with Run [OF c] k run Next show ?thesis by simp
        qed (use run k Cut in auto)
      qed
    qed
  qed
qed


text \<open>A call as one sequence: the permission, then the transaction.\<close>

definition buy_flow ::
  "'s redis \<Rightarrow> 'd conf_db \<Rightarrow> buy_env \<Rightarrow> buy_signal \<Rightarrow> bool \<Rightarrow> ('s, 'd, buy_receipt) buy_step" where
  "buy_flow R D EV sg dry_run w = and_then (check_permission R sg w) (\<lambda>_.
     session_scope (be_session EV) (be_commit EV) (\<lambda>w w'. w'\<lparr>bw_ledger := bw_ledger w\<rparr>)
       (buy_in_session R D EV sg dry_run))"

lemma process_flow:
  "process_buy_signal R D EV sg dry w = (ans, w') \<longleftrightarrow> (\<exists>f. buy_flow R D EV sg dry w = (f, w') \<and>
     ans = (case f of Return a \<Rightarrow> Inr (Ended a) | Next r \<Rightarrow> Inr (Bought r) | Raise e \<Rightarrow> Inl e))"
  by (cases "buy_flow R D EV sg dry w") (auto simp: process_buy_signal_def buy_flow_def split: flow.splits)

text \<open>Either nothing was ordered and written, or the permission was given and the session run.\<close>

lemma flow_cases:
  assumes "buy_flow R D EV sg dry w = (f, w')"
  obtains (Stopped) "kept w' = kept w" "\<forall>r. f \<noteq> Next r"
  | (Session) w1 where "permitted R sg (bw_redis w)" "check_permission R sg w = (Next (), w1)" "kept w1 = kept w"
      "session_scope (be_session EV) (be_commit EV) (\<lambda>w w'. w'\<lparr>bw_ledger := bw_ledger w\<rparr>)
       (buy_in_session R D EV sg dry) w1 = (f, w')"
proof -
  obtain g w1 where c: "check_permission R sg w = (g, w1)" by fastforce
  with permission_keeps [of R sg w] have k: "kept w1 = kept w" by simp
  show thesis
  proof (cases g)
    case (Next u)
    with c have c': "check_permission R sg w = (Next (), w1)" by simp
    show ?thesis
      by (rule Session [OF permission_Next [OF c'] c' k]) (use assms c' in \<open>simp add: buy_flow_def\<close>)
  qed (use assms c k Stopped in \<open>auto simp: buy_flow_def\<close>)
qed

section \<open>Properties\<close>

text \<open>
  Claim C13. Purchases are guarded: whatever the server and the environment answer, one call
  sends at most one order. It is not a dry run; trading is not stopped, and not paused unless
  the signal is manual; below the daily and the portfolio limit; for a candidate of the signal
  with the best score of those not held, of at least 40, neither held nor bought in the last
  ten minutes nor sold in the last day; the portfolio guard has passed the first quantity and
  the diversification check has approved, not just failed open, the positive quantity that is
  ordered, under the configuration after the preset.
\<close>

theorem purchase_guarded:
  assumes "process_buy_signal R D EV sg dry w = (ans, w')" "bw_orders w' \<noteq> bw_orders w"
  shows "\<not> dry \<and> permitted R sg (bw_redis w) \<and>
    (\<exists>regime C p. call_context D EV sg (bw_conf w) regime C \<and>
       bw_orders w' = bw_orders w @ [order_of C p] \<and> planned R C EV sg regime (bw_ledger w) p \<and>
       (\<forall>e. dr_reason (diversify C EV (bp_candidate p) (get_active_portfolio (bw_ledger w)) (bp_cash p)
          (bp_quantity p) (bp_price p) (sector_limit C regime) (stock_limit C regime)) \<noteq> Div_failed e))"
proof -
  from assms(1) obtain f where f: "buy_flow R D EV sg dry w = (f, w')" unfolding process_flow by blast
  then show ?thesis
  proof (cases rule: flow_cases)
    case Stopped
    with assms(2) show ?thesis by (simp add: kept_def)
  next
    case (Session w1)
    obtain g w2 where b: "buy_in_session R D EV sg dry w1 = (g, w2)" by fastforce
    have o1: "bw_orders w1 = bw_orders w" "bw_ledger w1 = bw_ledger w" "bw_conf w1 = bw_conf w"
      using Session(3) by (simp_all add: kept_def)
    have o2: "bw_orders w' = bw_orders w2" "bw_orders w2 \<noteq> bw_orders w1"
      using scope_orders [of "be_session EV" "be_commit EV" "buy_in_session R D EV sg dry" w1] Session(4) b assms(2) o1
      by auto
    from b show ?thesis
    proof (cases rule: session_cases)
      case Cut
      with o2 show ?thesis by simp
    next
      case (Run regime C p w3)
      have e: "bw_orders w2 = (if dry then bw_orders w3 else bw_orders w3 @ [order_of C p])"
        using execute_orders [of R C EV dry p w3] Run(5) by simp
      then have "\<not> dry" using o2 Run(4) by auto
      with e Run o1 o2 Session(1) show ?thesis by (auto simp: diversify_not_failed)
    qed
  qed
qed

section \<open>Stop loss\<close>

lemma atr_share_bounds:
  assumes "1 \<le> price"
  shows "(997/100000 :: rat) * price \<le> capped_atr raw price" "capped_atr raw price \<le> (500002/10000000) * price"
proof -
  define m where "m = max (fl (1/100)) (min (fl (5/100)) (fdiv (case raw of Some a \<Rightarrow> if a \<le> 0 then fmul price (fl (2/100)) else a
      | None \<Rightarrow> fmul price (fl (2/100))) price))"
  have c: "(99999/10000000 :: rat) \<le> fl (1/100)" "fl (5/100) \<le> (5000001/100000000 :: rat)" "fl (1/100) \<le> (fl (5/100) :: rat)"
    by code_simp+
  have m: "99999/10000000 \<le> m" "m \<le> 5000001/100000000" using c by (auto simp: m_def)
  have p: "capped_atr raw price = fl (price * m)"
    using assms by (simp add: capped_atr_def Let_def m_def fmul_def)
  have "99999/10000000 * price \<le> price * m" "price * m \<le> 5000001/100000000 * price"
    using m assms by (simp_all add: mult.commute [of price] mult_right_mono)
  moreover from this(1) assms have "1/1000 \<le> price * m" by linarith
  ultimately show "997/100000 * price \<le> capped_atr raw price" "capped_atr raw price \<le> (500002/10000000) * price"
    using fl_close [of "price * m"] assms unfolding p by (simp_all, linarith+)
qed

lemma atr_stop_pct_bounds:
  assumes "1 \<le> price" "cf_float C ''ATR_MULTIPLIER'' 2 = 2"
  shows "atr_stop_pct C (capped_atr raw price) price \<in> {fl (of_int k / 10^4) |k. - 1000 \<le> k \<and> k \<le> - 199}"
proof -
  define a where "a = capped_atr raw price"
  have a: "997/100000 * price \<le> a" "a \<le> (500002/10000000) * price"
    using atr_share_bounds [OF assms(1), of raw] by (simp_all add: a_def)
  have b: "(1 - 1/10^6) * (a * 2) \<le> fl (a * 2)" "fl (a * 2) \<le> (1 + 1/10^6) * (a * 2)"
    using fl_close [of "a * 2"] a assms(1) by auto
  define q where "q = fl (a * 2) / price"
  have q: "199351/10000000 \<le> q" "q \<le> 1000101/10000000"
    using a b assms(1) by (simp_all add: q_def pos_le_divide_eq pos_divide_le_eq)
  define x where "x = fl q * 10 ^ 4"
  have x: "199 \<le> x" "x \<le> 1000 + 1/4"
    using fl_close [of q] q by (simp_all add: x_def)
  have f: "atr_stop_pct C a price = fl (of_int (round_half_even (- x)) / 10 ^ 4)"
    by (simp add: atr_stop_pct_def assms(2) fmul_def fdiv_def py_round_def x_def q_def)
  have "\<bar>of_int (round_half_even (- x)) - (- x)\<bar> \<le> 1/2" by (rule round_half_even_error)
  then have "- 1001 < (of_int (round_half_even (- x)) :: rat)" "of_int (round_half_even (- x)) < (- 198 :: rat)"
    using x by linarith+
  then have "- 1001 < round_half_even (- x)" "round_half_even (- x) < - 198" by linarith+
  then show ?thesis unfolding a_def [symmetric] f by (intro CollectI exI [of _ "round_half_even (- x)"]) auto
qed

lemma final_risk_stop:
  assumes "atr \<noteq> 0" "0 < price"
  shows "initial_stop_price (final_risk C atr price risk) price = Inr (fmul price (fadd 1
    (if 0 < atr_stop_pct C atr price then - atr_stop_pct C atr price else atr_stop_pct C atr price)))"
  using assms by (simp add: initial_stop_price_def final_risk_def)

text \<open>
  The recorded stop loss is the one of the volatility: whatever stop loss the signal,
  the candidate or the tier asks for, a reconnaissance purchase with its tighter setting too,
  the price recorded at a purchase of at least one won a share depends on price and ATR only;
  with the default multiplier it lies a rounded 1.99 to 10.00 per cent below the price.
\<close>

theorem stop_loss_ignores_tier:
  assumes "1 \<le> price" "cf_float C ''ATR_MULTIPLIER'' 2 = 2"
  shows "initial_stop_price (final_risk C (capped_atr raw price) price (tier_risk C tier risk)) price =
      initial_stop_price (final_risk C (capped_atr raw price) price []) price \<and>
    (\<exists>k. 199 \<le> k \<and> k \<le> 1000 \<and>
      initial_stop_price (final_risk C (capped_atr raw price) price (tier_risk C tier risk)) price =
        Inr (fmul price (fadd 1 (fl (- of_int k / 10^4)))))"
proof -
  have "capped_atr raw price \<noteq> 0" "0 < price"
    using atr_share_bounds(1) [OF assms(1), of raw] assms(1) by auto
  note s = final_risk_stop [OF this]
  obtain k where k: "atr_stop_pct C (capped_atr raw price) price = fl (of_int k / 10^4)" "- 1000 \<le> k" "k \<le> - 199"
    using atr_stop_pct_bounds [OF assms, of raw] by blast
  have "\<not> 0 < (fl (of_int k / 10^4) :: rat)" using k(3) by (simp add: not_less fl_pos_le divide_nonpos_pos)
  then show ?thesis unfolding s k(1) using k by (intro conjI refl exI [of _ "- k"]) simp_all
qed

section \<open>On a reachable server\<close>

lemma load_budget_up:
  assumes "redis_laws R up look" "up s"
  shows "snd (load_sector_budget_from_redis R s) = s"
  by (auto simp: load_sector_budget_from_redis_def redis_rules [OF assms] catching_def
      split: option.splits sum.splits prod.splits)

lemma check_all_up:
  assumes "redis_laws R up look" "up s"
  shows "snd (check_all C R g code name pf amount cash assets regime s) = s"
proof -
  have "snd (check_sector_stock_count C R g code name pf s) = s"
    using load_budget_up [OF assms]
    by (simp add: check_sector_stock_count_def get_dynamic_sector_cap_def case_prod_beta Let_def)
  then obtain x where "check_sector_stock_count C R g code name pf s = (x, s)"
    by (cases "check_sector_stock_count C R g code name pf s") simp
  then show ?thesis by (cases x) (simp_all add: check_all_def Let_def)
qed

lemma flag_read_up:
  assumes "redis_laws R up look" "up s"
  shows "snd (get_trading_flag R n s) = s"
  by (auto simp: get_trading_flag_def redis_rules [OF assms] catching_def split: option.splits sum.splits prod.splits)

lemma flags_up:
  assumes "redis_laws R up look" "up s"
  shows "snd (is_trading_stopped R s) = s" "snd (is_trading_paused R s) = s"
  using flag_read_up [OF assms] by (simp_all add: is_trading_stopped_def is_trading_paused_def case_prod_beta Let_def)

lemma permission_up:
  assumes "redis_laws R up look" "up (bw_redis w)" "check_permission R sg w = (Next u, w')"
  shows "w' = w"
  using assms(3) flags_up [OF assms(1,2)]
  by (auto simp: check_permission_def read_flag_def and_then_Next lift_res_Next case_prod_beta Let_def
      split: if_splits)

lemma plan_up:
  assumes "redis_laws R up look" "up (bw_redis w)" "plan_purchase R C EV sg regime dry w = (Next p, w')"
  shows "look (bw_redis w) (buy_lock_key (cd_code (bp_candidate p))) = None" "up (bw_redis w')"
    "look (bw_redis w') = (look (bw_redis w))(buy_lock_key (cd_code (bp_candidate p)) \<mapsto> Text ''1'')"
proof -
  from assms(3) obtain c w1 u w2 cash price n risk w5 m u' where
    s: "select_candidate C EV sg w = (Next c, w1)" and l: "take_lock R (cd_code c) w1 = (Next u, w2)"
    and g: "pass_guard C R EV regime c (fmul (of_py_int n) price) cash
      (fadd cash (portfolio_value_of (get_active_portfolio (bw_ledger w2)))) w2 = (Next u', w5)"
    and q: "final_quantity (\<lambda>q. diversify C EV c (get_active_portfolio (bw_ledger w2)) cash q price
        (sector_limit C regime) (stock_limit C regime))
      (fadd cash (portfolio_value_of (get_active_portfolio (bw_ledger w2)))) price
      (sector_limit C regime) (stock_limit C regime) n w5 = (Next m, w')"
    and c: "bp_candidate p = c" by (rule plan_stages) simp
  let ?K = "buy_lock_key (cd_code c)"
  have w1: "w1 = w" using select_Next(1) [OF s] .
  have n: "(0::int) < 180" by simp
  obtain s where nx: "r_set_nx_ex R ?K 180 (Text ''1'') (bw_redis w) = (Inr (look (bw_redis w) ?K = None), s)"
    and "up s" and ls: "look s = (if look (bw_redis w) ?K = None
      then (look (bw_redis w))(?K \<mapsto> Text ''1'') else look (bw_redis w))"
    by (rule redis_set_nx_ex [OF assms(1,2) n])
  from l have free: "look (bw_redis w) ?K = None" and w2: "bw_redis w2 = s"
    using redis_conn [OF assms(1,2)] nx w1 by (auto simp: take_lock_def split: bool.splits)
  have "bw_redis w5 = s"
    using g check_all_up [OF assms(1), OF \<open>up s\<close>] w2
    by (auto simp: pass_guard_def and_then_Next lift_res_Next case_prod_beta Let_def split: if_splits)
  moreover have "w' = w5" using final_quantity_keeps q by (metis snd_conv)
  ultimately show "look (bw_redis w) (buy_lock_key (cd_code (bp_candidate p))) = None" "up (bw_redis w')"
    "look (bw_redis w') = (look (bw_redis w))(buy_lock_key (cd_code (bp_candidate p)) \<mapsto> Text ''1'')"
    using \<open>up s\<close> ls free c by simp_all
qed

lemma execute_plan_Next:
  assumes "execute_plan R C EV dry p w = (Next r, w')"
  obtains stop where "initial_stop_price (final_risk C (bp_atr p) (bp_price p) (bp_risk p)) (bp_price p) = Inr stop"
    "execute_trade_and_log (be_ready EV) (be_db EV) (be_fault EV) (be_now EV)
      \<lparr>td_side = BUY, td_code = cd_code (bp_candidate p), td_name = cd_name (bp_candidate p),
       td_quantity = bp_quantity p, td_price = bp_price p, td_reason = cd_reason (bp_candidate p),
       td_stop_loss = Some stop\<rparr> (bw_ledger w) = (True, bw_ledger w')"
    "bw_redis w' = snd (reset_trading_state_for_stock R (cd_code (bp_candidate p)) (bw_redis w))"
    "br_code r = cd_code (bp_candidate p)" "br_quantity r = bp_quantity p" "br_price r = bp_price p"
proof -
  from assms obtain no w1 u w2 where
    o: "place_order C EV dry (bp_candidate p) (bp_quantity p) (bp_price p) w = (Next no, w1)" and
    rt: "record_trade EV (bp_candidate p) (bp_quantity p) (bp_price p)
      (final_risk C (bp_atr p) (bp_price p) (bp_risk p)) w1 = (Next u, w2)" and
    e: "bw_redis w' = snd (reset_trading_state_for_stock R (cd_code (bp_candidate p)) (bw_redis w2))"
      "bw_ledger w' = bw_ledger w2" "br_code r = cd_code (bp_candidate p)" "br_quantity r = bp_quantity p"
      "br_price r = bp_price p"
    unfolding execute_plan_def Let_def and_then_Next by auto
  from place_order_effect [of C EV dry "bp_candidate p" "bp_quantity p" "bp_price p" w] o
  have k: "bw_ledger w1 = bw_ledger w" "bw_redis w1 = bw_redis w" by (auto split: if_splits)
  from rt e k that show thesis
    unfolding record_trade_def and_then_Next lift_res_Next
    by (auto simp: case_prod_beta Let_def split: if_splits) (metis prod.collapse)
qed

text \<open>A first purchase opens the row it says.\<close>

lemma first_purchase:
  assumes "ledger_ok l" "\<forall>h \<in> set (get_active_portfolio l). h_code h \<noteq> td_code t" "td_side t = BUY"
    "execute_trade_and_log ready db fault now t l = (True, l')"
  shows "map_of (lg_positions l') (td_code t) =
    Some (new_position (td_name t) (td_quantity t) (td_price t) (td_stop_loss t) now)"
proof -
  have n: "map_of (lg_positions l) (td_code t) = None"
  proof (rule ccontr)
    assume "map_of (lg_positions l) (td_code t) \<noteq> None"
    then obtain q where q: "map_of (lg_positions l) (td_code t) = Some q" by blast
    from assms(1) have "0 < ps_quantity q" by (rule rows_ok_lookup [OF iffD1 [OF ledger_rows] q])
    with map_of_SomeD [OF q] have "row_holding (td_code t, q) \<in> set (get_active_portfolio l)"
      by (auto simp: get_active_portfolio_def)
    with assms(2) show False by (auto simp: row_holding_def)
  qed
  from assms(4) have "lg_positions l' = buy_position db (td_code t) (td_name t) (td_quantity t) (td_price t)
      (td_stop_loss t) now (lg_positions l)"
    using assms(3) by (auto simp: execute_trade_and_log_def write_trade_def Let_def split: if_splits)
  with n show ?thesis by (simp add: buy_position_def)
qed

lemma bought_run:
  assumes "redis_laws R up look" "up (bw_redis w)"
    "process_buy_signal R D EV sg dry w = (Inr (Bought r), w')"
  obtains v params p w1 where "check_permission R sg w = (Next (), w)" "be_session EV = Inr ()" "be_commit EV = Inr ()"
    "sg_candidates sg \<noteq> []" "market_regime_of EV sg = Inr v" "buy_preset EV sg v = Inr params"
    "plan_purchase R (current_cfg D EV (apply_preset D EV params w)) EV sg (regime_text v) dry
      (apply_preset D EV params w) = (Next p, w1)"
    "execute_plan R (current_cfg D EV (apply_preset D EV params w)) EV dry p w1 = (Next r, w')"
proof -
  from assms(3) obtain f where f: "buy_flow R D EV sg dry w = (f, w')"
    and a: "(Inr (Bought r) :: exn + buy_answer) = (case f of Return a \<Rightarrow> Inr (Ended a) | Next r \<Rightarrow> Inr (Bought r) | Raise e \<Rightarrow> Inl e)"
    unfolding process_flow by blast
  from f a have "buy_flow R D EV sg dry w = (Next r, w')" by (cases f) simp_all
  then obtain u w0 where c: "check_permission R sg w = (Next u, w0)" and s: "be_session EV = Inr ()"
    "be_commit EV = Inr ()" "buy_in_session R D EV sg dry w0 = (Next r, w')"
    unfolding buy_flow_def and_then_Next session_scope_Next by blast
  have "w0 = w" by (rule permission_up [OF assms(1,2) c])
  with s(3) obtain v params p w1 where "sg_candidates sg \<noteq> []" "market_regime_of EV sg = Inr v"
    "buy_preset EV sg v = Inr params"
    "plan_purchase R (current_cfg D EV (apply_preset D EV params w)) EV sg (regime_text v) dry
      (apply_preset D EV params w) = (Next p, w1)"
    "execute_plan R (current_cfg D EV (apply_preset D EV params w)) EV dry p w1 = (Next r, w')"
    unfolding buy_in_session_def Let_def by (auto simp: and_then_Next lift_res_Next split: if_splits)
  with that c s \<open>w0 = w\<close> show thesis by auto
qed

text \<open>
  Claim C14. A completed purchase on a reachable server and a well-formed ledger: the lock of the
  stock was free and stays taken until it expires, so that every further signal for the stock
  finds it; the watermark, scale-out level, profit floor and RSI mark of the stock are gone,
  every other key is as before; the ledger has gained the row of the plan, with the shares and
  price of the answer and the stop loss computed for it, and is well formed.
\<close>

theorem completed_purchase:
  assumes "redis_laws R up look" "up (bw_redis w)" "ledger_ok (bw_ledger w)"
    "process_buy_signal R D EV sg dry w = (Inr (Bought r), w')"
  shows "\<exists>regime C p stop. call_context D EV sg (bw_conf w) regime C \<and> planned R C EV sg regime (bw_ledger w) p \<and>
    br_code r = cd_code (bp_candidate p) \<and> br_quantity r = bp_quantity p \<and> br_price r = bp_price p \<and>
    look (bw_redis w) (buy_lock_key (br_code r)) = None \<and>
    look (bw_redis w') = (look (bw_redis w))(buy_lock_key (br_code r) \<mapsto> Text ''1'',
      HIGH_WATERMARK_PREFIX @ br_code r := None, SCALE_OUT_PREFIX @ br_code r := None,
      PROFIT_FLOOR_PREFIX @ br_code r := None, RSI_SOLD_PREFIX @ br_code r := None) \<and>
    initial_stop_price (final_risk C (bp_atr p) (bp_price p) (bp_risk p)) (bp_price p) = Inr stop \<and>
    map_of (lg_positions (bw_ledger w')) (br_code r) =
      Some (new_position (cd_name (bp_candidate p)) (br_quantity r) (br_price r) (Some stop) (be_now EV)) \<and>
    ledger_ok (bw_ledger w')"
proof -
  obtain v params p w1 where m: "market_regime_of EV sg = Inr v" "buy_preset EV sg v = Inr params"
    and pl: "plan_purchase R (current_cfg D EV (apply_preset D EV params w)) EV sg (regime_text v) dry
      (apply_preset D EV params w) = (Next p, w1)"
    and ex: "execute_plan R (current_cfg D EV (apply_preset D EV params w)) EV dry p w1 = (Next r, w')"
    using assms(1,2,4) by (rule bought_run)
  let ?w = "apply_preset D EV params w"
  let ?C = "current_cfg D EV ?w"
  let ?c = "bp_candidate p"
  have ctx: "call_context D EV sg (bw_conf w) (regime_text v) ?C"
    unfolding call_context_def apply_preset_kept using m by blast
  have plan: "planned R ?C EV sg (regime_text v) (bw_ledger w) p"
    using plan_Next [OF pl] by (simp add: apply_preset_kept)
  have l1: "bw_ledger w1 = bw_ledger w"
    using plan_keeps [of R ?C EV sg "regime_text v" dry ?w] pl by (simp add: kept_def apply_preset_kept)
  have u: "up (bw_redis ?w)" using assms(2) by (simp add: apply_preset_kept)
  note lk = plan_up [OF assms(1) u pl, unfolded apply_preset_kept]
  obtain stop where st: "initial_stop_price (final_risk ?C (bp_atr p) (bp_price p) (bp_risk p)) (bp_price p) = Inr stop"
    and tr: "execute_trade_and_log (be_ready EV) (be_db EV) (be_fault EV) (be_now EV)
      \<lparr>td_side = BUY, td_code = cd_code ?c, td_name = cd_name ?c, td_quantity = bp_quantity p,
       td_price = bp_price p, td_reason = cd_reason ?c, td_stop_loss = Some stop\<rparr> (bw_ledger w) = (True, bw_ledger w')"
    and rd: "bw_redis w' = snd (reset_trading_state_for_stock R (cd_code ?c) (bw_redis w1))"
    and r: "br_code r = cd_code ?c" "br_quantity r = bp_quantity p" "br_price r = bp_price p"
    using ex l1 by (auto elim: execute_plan_Next)
  have el: "\<forall>h \<in> set (get_active_portfolio (bw_ledger w)). h_code h \<noteq> cd_code ?c" "0 < bp_quantity p"
    using plan by (simp_all add: planned_def eligible_def Let_def)
  have row: "map_of (lg_positions (bw_ledger w')) (cd_code ?c) =
      Some (new_position (cd_name ?c) (bp_quantity p) (bp_price p) (Some stop) (be_now EV))"
    using first_purchase [OF assms(3) _ _ tr] el(1) by simp
  have ok: "ledger_ok (bw_ledger w')" using execute_ok [OF assms(3), of _ "be_ready EV" "be_db EV"] tr el(2)
    by (metis snd_conv trade.select_convs(4))
  show ?thesis
    using ctx plan lk(1) st row ok r reset_trading_state_up(3) [OF assms(1) lk(2), of "cd_code ?c"]
    unfolding rd lk(3) r by (intro exI [of _ "regime_text v"] exI [of _ ?C] exI [of _ p] exI [of _ stop] conjI)
qed

section \<open>A record that fails\<close>

lemma other_answers:
  "be_now (EV\<lparr>be_fault := f\<rparr>) = be_now EV"
  "be_day (EV\<lparr>be_fault := f\<rparr>) = be_day EV"
  "be_today (EV\<lparr>be_fault := f\<rparr>) = be_today EV"
  "be_clock (EV\<lparr>be_fault := f\<rparr>) = be_clock EV"
  "be_digits (EV\<lparr>be_fault := f\<rparr>) = be_digits EV"
  "be_vars (EV\<lparr>be_fault := f\<rparr>) = be_vars EV"
  "be_regime (EV\<lparr>be_fault := f\<rparr>) = be_regime EV"
  "be_presets (EV\<lparr>be_fault := f\<rparr>) = be_presets EV"
  "be_cash (EV\<lparr>be_fault := f\<rparr>) = be_cash EV"
  "be_snapshot (EV\<lparr>be_fault := f\<rparr>) = be_snapshot EV"
  "be_bars (EV\<lparr>be_fault := f\<rparr>) = be_bars EV"
  "be_daily_atr (EV\<lparr>be_fault := f\<rparr>) = be_daily_atr EV"
  "be_prices (EV\<lparr>be_fault := f\<rparr>) = be_prices EV"
  "be_corrcoef (EV\<lparr>be_fault := f\<rparr>) = be_corrcoef EV"
  "be_sector (EV\<lparr>be_fault := f\<rparr>) = be_sector EV"
  "be_group (EV\<lparr>be_fault := f\<rparr>) = be_group EV"
  "be_order (EV\<lparr>be_fault := f\<rparr>) = be_order EV"
  "be_cancel (EV\<lparr>be_fault := f\<rparr>) = be_cancel EV"
  by simp_all

lemma read_regime_fault: "read_regime_cache (EV\<lparr>be_fault := f\<rparr>) = read_regime_cache EV"
  unfolding fun_eq_iff read_regime_cache_def other_answers by simp

lemma fault_free:
  "select_candidate C (EV\<lparr>be_fault := f\<rparr>) = select_candidate C EV"
  "risk_setting_of (EV\<lparr>be_fault := f\<rparr>) = risk_setting_of EV"
  "current_price_of (EV\<lparr>be_fault := f\<rparr>) = current_price_of EV"
  "raw_atr C (EV\<lparr>be_fault := f\<rparr>) = raw_atr C EV"
  "correlation_factor C (EV\<lparr>be_fault := f\<rparr>) = correlation_factor C EV"
  "first_quantity C (EV\<lparr>be_fault := f\<rparr>) = first_quantity C EV"
  "pass_guard C R (EV\<lparr>be_fault := f\<rparr>) = pass_guard C R EV"
  "diversify C (EV\<lparr>be_fault := f\<rparr>) = diversify C EV"
  "market_regime_of (EV\<lparr>be_fault := f\<rparr>) = market_regime_of EV"
  "buy_preset (EV\<lparr>be_fault := f\<rparr>) = buy_preset EV"
  "apply_preset D (EV\<lparr>be_fault := f\<rparr>) = apply_preset D EV"
  "current_cfg D (EV\<lparr>be_fault := f\<rparr>) = current_cfg D EV"
  "place_order C (EV\<lparr>be_fault := f\<rparr>) = place_order C EV"
  unfolding fun_eq_iff select_candidate_def risk_setting_of_def read_regime_fault current_price_of_def
      raw_atr_def correlation_factor_def first_quantity_def pass_guard_def diversify_def market_regime_of_def
      buy_preset_def apply_preset_def current_cfg_def place_order_def call_broker_def other_answers
  by (rule allI | rule refl)+

lemma plan_fault_free: "plan_purchase R C (EV\<lparr>be_fault := f\<rparr>) = plan_purchase R C EV"
  unfolding fun_eq_iff plan_purchase_def fault_free other_answers by (rule allI | rule refl)+

lemma record_faulty:
  assumes "record_trade EV c n price risk w = (Next u, w')" "f \<noteq> No_fault"
  shows "\<exists>w2. record_trade (EV\<lparr>be_fault := f\<rparr>) c n price risk w =
    (Raise (RuntimeError ''Failed to execute trade transaction (DB error)''), w2) \<and> bw_orders w2 = bw_orders w"
  using assms
  by (cases f)
    (auto simp: record_trade_def and_then_Next lift_res_Next execute_trade_and_log_def write_trade_def Let_def
      split: if_splits)

lemma execute_faulty:
  assumes "execute_plan R C EV dry p w = (Next r, w')" "f \<noteq> No_fault"
  obtains w2 where "execute_plan R C (EV\<lparr>be_fault := f\<rparr>) dry p w =
    (Raise (RuntimeError ''Failed to execute trade transaction (DB error)''), w2)" "bw_orders w2 = bw_orders w'"
proof -
  from assms(1) obtain no w1 u w3 where
    o: "place_order C EV dry (bp_candidate p) (bp_quantity p) (bp_price p) w = (Next no, w1)" and
    rt: "record_trade EV (bp_candidate p) (bp_quantity p) (bp_price p)
      (final_risk C (bp_atr p) (bp_price p) (bp_risk p)) w1 = (Next u, w3)"
    and w': "bw_orders w' = bw_orders w3"
    unfolding execute_plan_def Let_def and_then_Next by auto
  have "bw_orders w3 = bw_orders w1" using record_orders rt by (metis snd_conv)
  with record_faulty [OF rt assms(2)] o w' that show thesis
    by (auto simp: execute_plan_def Let_def fault_free)
qed

text \<open>
  An order whose record fails is bought and not recorded: if a call buys, the same
  call with a database that fails at either statement sends the same order, raises, and rolls
  the ledger back to what it was; nothing in the ledger tells that the shares are held.
\<close>

theorem unrecorded_purchase:
  assumes "process_buy_signal R D EV sg False w = (Inr (Bought r), w')" "f \<noteq> No_fault"
  shows "\<exists>w2 order. process_buy_signal R D (EV\<lparr>be_fault := f\<rparr>) sg False w =
      (Inl (RuntimeError ''Failed to execute trade transaction (DB error)''), w2) \<and>
    bw_orders w2 = bw_orders w @ [order] \<and> bw_orders w2 = bw_orders w' \<and> bw_ledger w2 = bw_ledger w"
proof -
  from assms(1) obtain g where f: "buy_flow R D EV sg False w = (g, w')"
    and a: "(Inr (Bought r) :: exn + buy_answer) = (case g of Return a \<Rightarrow> Inr (Ended a) | Next r \<Rightarrow> Inr (Bought r) | Raise e \<Rightarrow> Inl e)"
    unfolding process_flow by blast
  from f a have "buy_flow R D EV sg False w = (Next r, w')" by (cases g) simp_all
  then obtain u w0 where c: "check_permission R sg w = (Next u, w0)" and s: "be_session EV = Inr ()"
    "be_commit EV = Inr ()" and b: "buy_in_session R D EV sg False w0 = (Next r, w')"
    unfolding buy_flow_def and_then_Next session_scope_Next by blast
  from b obtain v params p w1 where m: "sg_candidates sg \<noteq> []" "market_regime_of EV sg = Inr v"
    "buy_preset EV sg v = Inr params" and
    pl: "plan_purchase R (current_cfg D EV (apply_preset D EV params w0)) EV sg (regime_text v) False
      (apply_preset D EV params w0) = (Next p, w1)" and
    ex: "execute_plan R (current_cfg D EV (apply_preset D EV params w0)) EV False p w1 = (Next r, w')"
    unfolding buy_in_session_def Let_def by (auto simp: and_then_Next lift_res_Next split: if_splits)
  obtain w2 where ex2: "execute_plan R (current_cfg D EV (apply_preset D EV params w0)) (EV\<lparr>be_fault := f\<rparr>) False p w1 =
    (Raise (RuntimeError ''Failed to execute trade transaction (DB error)''), w2)" "bw_orders w2 = bw_orders w'"
    by (rule execute_faulty [OF ex assms(2)])
  have b2: "buy_in_session R D (EV\<lparr>be_fault := f\<rparr>) sg False w0 =
      (Raise (RuntimeError ''Failed to execute trade transaction (DB error)''), w2)"
    using m pl ex2 by (simp add: buy_in_session_def Let_def fault_free plan_fault_free)
  have k0: "bw_ledger w0 = bw_ledger w" "bw_orders w0 = bw_orders w"
    using permission_keeps [of R sg w] c by (simp_all add: kept_def)
  have k1: "bw_orders w1 = bw_orders w0"
    using plan_keeps [of R "current_cfg D EV (apply_preset D EV params w0)" EV sg "regime_text v" False
        "apply_preset D EV params w0"] pl by (simp add: kept_def apply_preset_kept)
  have "bw_orders w' = bw_orders w @ [order_of (current_cfg D EV (apply_preset D EV params w0)) p]"
    using execute_orders [of R "current_cfg D EV (apply_preset D EV params w0)" EV False p w1] ex k0 k1 by simp
  then have "\<exists>order. bw_orders w' = bw_orders w @ [order]" by blast
  then show ?thesis
    using c s b2 k0 ex2(2) by (simp add: process_buy_signal_def session_scope_def)
qed

section \<open>Witnesses\<close>

definition sample_buy_candidate :: buy_candidate where
  "sample_buy_candidate = \<lparr>cd_code = ''005930'', cd_name = ''chip'', cd_score = 80, cd_tradable = True, cd_tier = [],
     cd_scored_on = None, cd_risk = [], cd_price = 50000, cd_signal = ''GOLDEN_CROSS'', cd_reason = ''r'', cd_manual = 0\<rparr>"

definition sample_buy_signal :: buy_signal where
  "sample_buy_signal = \<lparr>sg_candidates = [sample_buy_candidate], sg_regime = PStr ''BULL'',
     sg_preset = PDict [(''params'', PDict [(''bb_buffer_pct'', PFloat (3/2))])], sg_risk = [(''position_size_ratio'', PFloat 1)],
     sg_source = ''scanner'', sg_manual = 10\<rparr>"

definition sample_buy_env :: "db_fault \<Rightarrow> buy_env" where
  "sample_buy_env fault = \<lparr>be_now = 1000000, be_day = 999000, be_today = 0, be_clock = 0, be_digits = ''0'',
     be_vars = (\<lambda>_. None), be_regime = PNone, be_presets = Inr [], be_cash = Inr 10000000, be_snapshot = Inr PNone,
     be_bars = Inr [], be_daily_atr = Inr (Some 1000), be_prices = (\<lambda>_. Inr None), be_corrcoef = (\<lambda>_ _. Inr None),
     be_sector = (\<lambda>_ n. n), be_group = (\<lambda>_ n. n), be_order = Inr (Some ''n1''), be_cancel = Inr False,
     be_ready = True, be_db = SQLite, be_fault = fault, be_session = Inr (), be_commit = Inr ()\<rparr>"

definition sample_buy_world :: "(map_store, string \<Rightarrow> cval option) buy_world" where
  "sample_buy_world = \<lparr>bw_redis = ms_empty, bw_conf = (new_conf 300, Map.empty), bw_sizer = new_sizer empty_cfg,
     bw_ledger = \<lparr>lg_positions = [], lg_trades = []\<rparr>, bw_orders = []\<rparr>"

lemma sample_call:
  "market_regime_of (sample_buy_env f) sample_buy_signal = Inr (PStr ''BULL'')"
  "buy_preset (sample_buy_env f) sample_buy_signal (PStr ''BULL'') = Inr (PDict [(''bb_buffer_pct'', PFloat (3/2))])"
  "apply_preset map_db (sample_buy_env f) (PDict [(''bb_buffer_pct'', PFloat (3/2))]) sample_buy_world =
     sample_buy_world\<lparr>bw_sizer := refresh_from_config (new_sizer empty_cfg)\<rparr>"
  "current_cfg map_db (sample_buy_env f) (sample_buy_world\<lparr>bw_sizer := z\<rparr>) = empty_cfg"
     apply code_simp
    apply code_simp
  apply (simp_all add: apply_preset_def apply_preset_to_config_def CONFIG_KEY_MAP_def Let_def current_cfg_def sample_buy_env_def sample_buy_world_def empty_cfg_def new_sizer_def)
  done

lemma sample_up: "alive (bw_redis sample_buy_world)"
  by (simp add: sample_buy_world_def ms_empty_def)

lemma sample_permission:
  "check_permission map_redis sample_buy_signal sample_buy_world = (Next (), sample_buy_world)"
proof -
  note keeps = flags_up [OF map_redis_laws, OF sample_up]
  have "fst (is_trading_stopped map_redis ms_empty) = Inr (PBool False)"
    "fst (is_trading_paused map_redis ms_empty) = Inr (PBool False)" by code_simp+
  with keeps have "is_trading_stopped map_redis (bw_redis sample_buy_world) = (Inr (PBool False), bw_redis sample_buy_world)"
    "is_trading_paused map_redis (bw_redis sample_buy_world) = (Inr (PBool False), bw_redis sample_buy_world)"
    by (simp_all add: sample_buy_world_def prod_eq_iff)
  then show ?thesis by (simp add: check_permission_def read_flag_def)
qed

definition sample_locked :: map_store where
  "sample_locked = snd (r_set_nx_ex map_redis (buy_lock_key ''005930'') 180 (Text ''1'') ms_empty)"

lemma sample_select:
  assumes "bw_ledger w = bw_ledger sample_buy_world"
  shows "select_candidate empty_cfg (sample_buy_env f) sample_buy_signal w = (Next sample_buy_candidate, w)"
proof -
  have e: "bw_ledger sample_buy_world = \<lparr>lg_positions = [], lg_trades = []\<rparr>" by (simp add: sample_buy_world_def)
  have l: "not_held (bw_ledger w) [sample_buy_candidate] = [sample_buy_candidate]"
    "check_safety_constraints empty_cfg (bw_ledger w) (be_day (sample_buy_env f)) = None"
    "recent_trade (bw_ledger w) (be_now (sample_buy_env f)) [sample_buy_candidate] = None"
    unfolding assms e empty_cfg_eq by code_simp+
  have "by_score [sample_buy_candidate] = [sample_buy_candidate]" by (simp add: by_score_def)
  with l show ?thesis
    by (simp add: select_candidate_def Let_def sample_buy_signal_def sample_buy_candidate_def ABSOLUTE_MIN_SCORE_def)
qed

lemma sample_first_quantity:
  "first_quantity empty_cfg (sample_buy_env f) sample_buy_signal False sample_buy_candidate risk 50000 atr 10000000 [] w
     = (Next (10, risk), w)"
proof -
  have "fmul (of_py_int 10) 50000 = 500000" by code_simp
  then show ?thesis
    by (simp add: first_quantity_def correlation_factor_def manual_quantity_of_def sample_buy_signal_def)
qed

lemma sample_guard_passes:
  assumes "bw_redis w = sample_locked" "bw_ledger w = bw_ledger sample_buy_world"
  shows "\<exists>s. pass_guard empty_cfg map_redis (sample_buy_env f) ''BULL'' sample_buy_candidate (fmul (of_py_int 10) 50000)
    10000000 (fadd 10000000 (portfolio_value_of [])) w = (Next (), w\<lparr>bw_redis := s\<rparr>)"
proof -
  have "case fst (check_all empty_cfg map_redis (\<lambda>_ n. n) ''005930'' ''chip'' [] (fmul (of_py_int 10) 50000) 10000000
     (fadd 10000000 (portfolio_value_of [])) ''BULL'' sample_locked) of Inl _ \<Rightarrow> False | Inr g \<Rightarrow> gr_passed g"
    unfolding empty_cfg_eq by code_simp
  then show ?thesis
    using assms by (auto simp: pass_guard_def sample_buy_env_def sample_buy_candidate_def case_prod_beta Let_def
        get_active_portfolio_def sample_buy_world_def split: sum.splits)
qed

lemma sample_diversified:
  "dr_approved (diversify empty_cfg (sample_buy_env f) sample_buy_candidate [] 10000000 10 50000
     (sector_limit empty_cfg ''BULL'') (stock_limit empty_cfg ''BULL''))"
  unfolding empty_cfg_eq by code_simp

lemma sample_lock:
  "take_lock map_redis ''005930'' (sample_buy_world\<lparr>bw_sizer := z\<rparr>) =
     (Next (), sample_buy_world\<lparr>bw_sizer := z, bw_redis := sample_locked\<rparr>)"
proof -
  have "fst (r_set_nx_ex map_redis (buy_lock_key ''005930'') 180 (Text ''1'') ms_empty) = Inr True" "r_conn map_redis ms_empty"
    by code_simp+
  then show ?thesis
    by (cases "r_set_nx_ex map_redis (buy_lock_key ''005930'') 180 (Text ''1'') ms_empty")
       (simp add: take_lock_def sample_buy_world_def sample_locked_def)
qed

definition sample_plan :: "params \<Rightarrow> buy_plan" where
  "sample_plan risk = \<lparr>bp_candidate = sample_buy_candidate, bp_price = 50000,
     bp_atr = capped_atr (raw_atr empty_cfg (sample_buy_env No_fault)) 50000,
     bp_first = 10, bp_quantity = 10, bp_risk = risk, bp_cash = 10000000\<rparr>"

lemma sample_planned:
  "\<exists>s. plan_purchase map_redis empty_cfg (sample_buy_env f) sample_buy_signal ''BULL'' False
      (sample_buy_world\<lparr>bw_sizer := z\<rparr>) =
    (Next (sample_plan [(''position_size_ratio'', PFloat 1)]), sample_buy_world\<lparr>bw_sizer := z, bw_redis := s\<rparr>)"
proof -
  let ?w = "sample_buy_world\<lparr>bw_sizer := z, bw_redis := sample_locked\<rparr>"
  have e: "be_bars (sample_buy_env f) = Inr []" "be_daily_atr (sample_buy_env f) = Inr (Some 1000)" for f
    by (simp_all add: sample_buy_env_def)
  have v: "cd_code sample_buy_candidate = ''005930''" "be_cash (sample_buy_env f) = Inr 10000000"
    "current_price_of (sample_buy_env f) sample_buy_candidate w = (Next 50000, w)"
    "get_active_portfolio (bw_ledger sample_buy_world) = []" for w :: "(map_store, string \<Rightarrow> cval option) buy_world"
    by (simp_all add: sample_buy_candidate_def sample_buy_env_def current_price_of_def sample_buy_world_def
        get_active_portfolio_def)
  have r: "risk_setting_of (sample_buy_env f) sample_buy_signal sample_buy_candidate = Inr [(''position_size_ratio'', PFloat 1)]"
    by code_simp
  have a: "raw_atr empty_cfg (sample_buy_env f) = raw_atr empty_cfg (sample_buy_env No_fault)"
    unfolding raw_atr_def e by (rule refl)
  obtain s where g: "pass_guard empty_cfg map_redis (sample_buy_env f) ''BULL'' sample_buy_candidate (fmul (of_py_int 10) 50000)
    10000000 (fadd 10000000 (portfolio_value_of [])) ?w = (Next (), ?w\<lparr>bw_redis := s\<rparr>)"
    using sample_guard_passes [of ?w f] by auto
  show ?thesis
    by (rule exI [of _ s]) (simp add: plan_purchase_def sample_select v a sample_lock r Let_def sample_first_quantity g
        final_quantity_def sample_diversified sample_plan_def)
qed

lemma sample_purchase:
  obtains r w' where "process_buy_signal map_redis map_db (sample_buy_env No_fault) sample_buy_signal False
      sample_buy_world = (Inr (Bought r), w')" "bw_orders w' = [(''005930'', 10, 0)]"
    "br_code r = ''005930''" "br_quantity r = 10"
proof -
  let ?EV = "sample_buy_env No_fault"
  let ?z = "refresh_from_config (new_sizer empty_cfg)"
  let ?p = "sample_plan [(''position_size_ratio'', PFloat 1)]"
  obtain s where pl: "plan_purchase map_redis empty_cfg ?EV sample_buy_signal ''BULL'' False (sample_buy_world\<lparr>bw_sizer := ?z\<rparr>) =
    (Next ?p, sample_buy_world\<lparr>bw_sizer := ?z, bw_redis := s\<rparr>)" using sample_planned by blast
  have atr: "capped_atr (raw_atr empty_cfg ?EV) 50000 \<noteq> 0" using atr_share_bounds(1) [of 50000 "raw_atr empty_cfg ?EV"] by auto
  obtain stop where st: "initial_stop_price (final_risk empty_cfg (bp_atr ?p) (bp_price ?p) (bp_risk ?p)) (bp_price ?p) = Inr stop"
    using final_risk_stop [OF atr, where C = empty_cfg] by (simp add: sample_plan_def)
  have v: "\<not> use_limit empty_cfg (bp_candidate ?p)" "cd_code (bp_candidate ?p) = ''005930''" "bp_quantity ?p = 10"
    "sg_candidates sample_buy_signal \<noteq> []" "be_order ?EV = Inr (Some ''n1'')" "be_session ?EV = Inr ()" "be_commit ?EV = Inr ()"
    by (simp_all add: use_limit_def empty_cfg_eq sample_plan_def sample_buy_candidate_def sample_buy_signal_def sample_buy_env_def)
  have t: "fst (execute_trade_and_log (be_ready ?EV) (be_db ?EV) (be_fault ?EV) n t l)" for n t l
    by (simp add: execute_trade_and_log_def write_trade_def sample_buy_env_def Let_def)
  obtain r w' where ex: "execute_plan map_redis empty_cfg ?EV False ?p (sample_buy_world\<lparr>bw_sizer := ?z, bw_redis := s\<rparr>) =
      (Next r, w')" "br_code r = ''005930''" "br_quantity r = 10"
    using t by (simp add: execute_plan_def place_order_def call_broker_def v record_trade_def st Let_def case_prod_beta)
  have "buy_in_session map_redis map_db ?EV sample_buy_signal False sample_buy_world = (Next r, w')"
    using v(4) pl ex by (simp add: buy_in_session_def sample_call regime_text_def Let_def)
  then have run: "process_buy_signal map_redis map_db ?EV sample_buy_signal False sample_buy_world = (Inr (Bought r), w')"
    by (simp add: process_buy_signal_def sample_permission session_scope_def v)
  have "bw_orders w' = [(''005930'', 10, 0)]"
    using execute_orders [of map_redis empty_cfg ?EV False ?p "sample_buy_world\<lparr>bw_sizer := ?z, bw_redis := s\<rparr>"] ex v
    by (simp add: order_of_def sample_buy_world_def)
  with that run ex show thesis by blast
qed

theorem purchase_guarded_witness:
  "permitted map_redis sample_buy_signal (bw_redis sample_buy_world) \<and>
   (\<exists>w'. process_buy_signal map_redis map_db (sample_buy_env No_fault) sample_buy_signal False sample_buy_world = w' \<and>
     bw_orders (snd w') \<noteq> [])"
proof -
  obtain r w' where e: "process_buy_signal map_redis map_db (sample_buy_env No_fault) sample_buy_signal False
      sample_buy_world = (Inr (Bought r), w')" "bw_orders w' = [(''005930'', 10, 0)]" by (rule sample_purchase)
  then have "bw_orders w' \<noteq> bw_orders sample_buy_world" by (simp add: sample_buy_world_def)
  from purchase_guarded [OF e(1) this] e show ?thesis by simp
qed

theorem stop_loss_ignores_tier_witness:
  "initial_stop_price (final_risk empty_cfg (capped_atr None 50000) 50000 (tier_risk empty_cfg ''RECON'' [])) 50000 =
   initial_stop_price (final_risk empty_cfg (capped_atr None 50000) 50000 []) 50000"
  using stop_loss_ignores_tier [where price = 50000 and C = empty_cfg and raw = None and tier = "''RECON''" and risk = "[]"] by (simp add: empty_cfg_eq)

theorem completed_purchase_witness:
  "\<exists>r w'. process_buy_signal map_redis map_db (sample_buy_env No_fault) sample_buy_signal False sample_buy_world =
      (Inr (Bought r), w') \<and> ledger_ok (bw_ledger w') \<and> ms_look (bw_redis w') (buy_lock_key ''005930'') = Some (Text ''1'')"
proof -
  obtain r w' where e: "process_buy_signal map_redis map_db (sample_buy_env No_fault) sample_buy_signal False
      sample_buy_world = (Inr (Bought r), w')" "br_code r = ''005930''" by (rule sample_purchase)
  have "ledger_ok (bw_ledger sample_buy_world)" by (simp add: ledger_ok_def sample_buy_world_def rows_ok_def)
  from completed_purchase [OF map_redis_laws, OF sample_up, OF this e(1)] e show ?thesis
    by (auto simp: buy_lock_key_def HIGH_WATERMARK_PREFIX_def SCALE_OUT_PREFIX_def PROFIT_FLOOR_PREFIX_def RSI_SOLD_PREFIX_def)
qed

theorem unrecorded_purchase_witness:
  "\<exists>w2. process_buy_signal map_redis map_db (sample_buy_env Log_fault) sample_buy_signal False sample_buy_world =
      (Inl (RuntimeError ''Failed to execute trade transaction (DB error)''), w2) \<and>
    bw_orders w2 = [(''005930'', 10, 0)] \<and> bw_ledger w2 = bw_ledger sample_buy_world"
proof -
  obtain r w' where e: "process_buy_signal map_redis map_db (sample_buy_env No_fault) sample_buy_signal False
      sample_buy_world = (Inr (Bought r), w')" "bw_orders w' = [(''005930'', 10, 0)]" by (rule sample_purchase)
  have "(sample_buy_env No_fault)\<lparr>be_fault := Log_fault\<rparr> = sample_buy_env Log_fault" by (simp add: sample_buy_env_def)
  with unrecorded_purchase [OF e(1), where f = Log_fault] e(2) show ?thesis by auto
qed

end
