(* ===== verification/Py_Num.thy ===== *)
theory Py_Num
  imports PyFloat
begin

text \<open>
  Python and NumPy floats with infinities and NaN, for the code that works on pandas columns:
  a finite value is a rational, an operation on finite values rounds with \<open>fl\<close> and becomes an
  infinity from \<open>2\<^sup>1\<^sup>0\<^sup>2\<^sup>4\<close> on. Comparisons with NaN are false, and \<open>min\<close> and
  \<open>max\<close> are Python's: the first argument unless the second is smaller (larger). The sign of
  zero is not kept.
\<close>

section \<open>Values\<close>

datatype flt = Fin rat | PInf | MInf | NaN

definition rnd :: "rat \<Rightarrow> flt" where
  "rnd x = (let r = fl x in if two_pow 1024 \<le> r then PInf else if r \<le> - two_pow 1024 then MInf else Fin r)"

text \<open>A decimal literal, and an integer converted.\<close>

definition lit :: "rat \<Rightarrow> flt" where "lit x = Fin (fl x)"

definition xint :: "int \<Rightarrow> flt" where "xint n = rnd (of_int n)"

fun xneg :: "flt \<Rightarrow> flt" where
  "xneg (Fin a) = Fin (- a)" | "xneg PInf = MInf" | "xneg MInf = PInf" | "xneg NaN = NaN"

fun xadd :: "flt \<Rightarrow> flt \<Rightarrow> flt" where
  "xadd (Fin a) (Fin b) = rnd (a + b)"
| "xadd NaN y = NaN"
| "xadd x NaN = NaN"
| "xadd PInf MInf = NaN"
| "xadd MInf PInf = NaN"
| "xadd PInf y = PInf"
| "xadd MInf y = MInf"
| "xadd x PInf = PInf"
| "xadd x MInf = MInf"

definition xsub :: "flt \<Rightarrow> flt \<Rightarrow> flt" where "xsub x y = xadd x (xneg y)"

text \<open>The infinity of a sign; a zero factor gives NaN.\<close>

definition xsign :: "flt \<Rightarrow> int" where
  "xsign x = (case x of Fin a \<Rightarrow> if 0 < a then 1 else if a < 0 then - 1 else 0 | PInf \<Rightarrow> 1 | MInf \<Rightarrow> - 1 | NaN \<Rightarrow> 0)"

definition xinf :: "int \<Rightarrow> flt" where
  "xinf s = (if 0 < s then PInf else if s < 0 then MInf else NaN)"

fun xmul :: "flt \<Rightarrow> flt \<Rightarrow> flt" where
  "xmul (Fin a) (Fin b) = rnd (a * b)"
| "xmul x y = xinf (xsign x * xsign y)"

text \<open>NumPy's division: by zero it answers an infinity or NaN.\<close>

fun xdiv :: "flt \<Rightarrow> flt \<Rightarrow> flt" where
  "xdiv (Fin a) (Fin b) = (if b = 0 then xinf (xsign (Fin a)) else rnd (a / b))"
| "xdiv NaN y = NaN"
| "xdiv x NaN = NaN"
| "xdiv (Fin a) y = Fin 0"
| "xdiv x (Fin b) = (if b < 0 then xneg x else x)"
| "xdiv x y = NaN"

text \<open>Python's division raises.\<close>

definition pdiv :: "flt \<Rightarrow> flt \<Rightarrow> flt res" where
  "pdiv x y = (if y = Fin 0 then Inl ZeroDivisionError else Inr (xdiv x y))"

fun xlt :: "flt \<Rightarrow> flt \<Rightarrow> bool" where
  "xlt (Fin a) (Fin b) = (a < b)"
| "xlt NaN y = False"
| "xlt x NaN = False"
| "xlt x MInf = False"
| "xlt PInf y = False"
| "xlt x y = True"

definition xle :: "flt \<Rightarrow> flt \<Rightarrow> bool" where
  "xle x y = (x \<noteq> NaN \<and> y \<noteq> NaN \<and> \<not> xlt y x)"

definition xeq :: "flt \<Rightarrow> flt \<Rightarrow> bool" where "xeq x y = (x \<noteq> NaN \<and> x = y)"

fun xabs :: "flt \<Rightarrow> flt" where
  "xabs (Fin a) = Fin \<bar>a\<bar>" | "xabs NaN = NaN" | "xabs _ = PInf"

definition xround :: "nat \<Rightarrow> flt \<Rightarrow> flt" where
  "xround n x = (case x of Fin a \<Rightarrow> Fin (py_round n a) | _ \<Rightarrow> x)"

text \<open>\<open>int(x)\<close>.\<close>

definition xtrunc :: "flt \<Rightarrow> int res" where
  "xtrunc x = (case x of Fin a \<Rightarrow> Inr (py_int a) | NaN \<Rightarrow> Inl ValueError | _ \<Rightarrow> Inl OverflowError)"

definition py_max :: "flt \<Rightarrow> flt \<Rightarrow> flt" where "py_max x y = (if xlt x y then y else x)"
definition py_min :: "flt \<Rightarrow> flt \<Rightarrow> flt" where "py_min x y = (if xlt y x then y else x)"

text \<open>\<open>max(lo, min(hi, x))\<close>.\<close>

definition clamp :: "rat \<Rightarrow> rat \<Rightarrow> flt \<Rightarrow> flt" where
  "clamp lo hi x = py_max (Fin lo) (py_min (Fin hi) x)"

section \<open>Bounds\<close>

text \<open>A finite value in an interval.\<close>

definition between :: "rat \<Rightarrow> rat \<Rightarrow> flt \<Rightarrow> bool" where
  "between lo hi x \<longleftrightarrow> (\<exists>a. x = Fin a \<and> lo \<le> a \<and> a \<le> hi)"

lemma between_code [code]:
  "between lo hi x = (case x of Fin a \<Rightarrow> lo \<le> a \<and> a \<le> hi | _ \<Rightarrow> False)"
  by (cases x) (auto simp: between_def)

lemma between_Fin [simp]: "between lo hi (Fin a) \<longleftrightarrow> lo \<le> a \<and> a \<le> hi"
  by (auto simp: between_def)

lemma between_not [simp]: "\<not> between lo hi NaN" "\<not> between lo hi PInf" "\<not> between lo hi MInf"
  by (auto simp: between_def)

lemma between_weaken: "between a b x \<Longrightarrow> a' \<le> a \<Longrightarrow> b \<le> b' \<Longrightarrow> between a' b' x"
  by (auto simp: between_def)

text \<open>A clamped value is in the interval whatever it was; NaN is clamped to the upper end.\<close>

lemma between_clamp: "lo \<le> hi \<Longrightarrow> between lo hi (clamp lo hi x)"
  by (cases x) (auto simp: clamp_def py_max_def py_min_def)

lemma clamp_NaN: "lo \<le> hi \<Longrightarrow> clamp lo hi NaN = Fin hi"
  by (auto simp: clamp_def py_max_def py_min_def)

lemma between_max: "between lo hi x \<Longrightarrow> between (max c lo) (max c hi) (py_max (Fin c) x)"
  by (cases x) (auto simp: py_max_def)

lemma between_min: "between lo hi x \<Longrightarrow> between (min c lo) (min c hi) (py_min (Fin c) x)"
  by (cases x) (auto simp: py_min_def)

text \<open>\<open>max(0, x)\<close> and \<open>min(c, x)\<close> keep one bound for every value.\<close>

lemma max_upper:
  assumes "\<And>a. x = Fin a \<Longrightarrow> a \<le> hi" "x \<noteq> PInf" "c \<le> hi"
  shows "between c hi (py_max (Fin c) x)"
  using assms by (cases x) (auto simp: py_max_def)

lemma min_lower:
  assumes "\<And>a. x = Fin a \<Longrightarrow> lo \<le> a" "x \<noteq> MInf" "lo \<le> c"
  shows "between lo c (py_min (Fin c) x)"
  using assms by (cases x) (auto simp: py_min_def)

lemma two_pow_1024: "(2 :: rat) ^ 53 < two_pow 1024"
  by (simp add: two_pow_def)

lemma rnd_small:
  assumes "\<bar>x\<bar> \<le> 2 ^ 53"
  shows "rnd x = Fin (fl x)"
proof -
  have g: "fl (2 ^ 53) = (2 ^ 53 :: rat)" using fl_of_int [of "2 ^ 53"] by simp
  have "fl x \<le> 2 ^ 53" "- (2 ^ 53) \<le> fl x"
    using assms fl_le_float [OF g, of x] fl_ge_float [of "- (2 ^ 53)" x] g by (auto simp: abs_le_iff)
  with two_pow_1024 show ?thesis by (auto simp: rnd_def Let_def)
qed

text \<open>Evaluation compares with the large bound only where it has to.\<close>

lemma rnd_code [code]:
  "rnd x = (let r = fl x in if \<bar>r\<bar> \<le> 2 ^ 53 then Fin r
     else if two_pow 1024 \<le> r then PInf else if r \<le> - two_pow 1024 then MInf else Fin r)"
  using two_pow_1024 by (auto simp: rnd_def Let_def)

text \<open>Bounds that are floats themselves survive rounding.\<close>

lemma between_rnd:
  assumes "fl lo = lo" "fl hi = hi" "lo \<le> x" "x \<le> hi" "- (2 ^ 53) \<le> lo" "hi \<le> 2 ^ 53"
  shows "between lo hi (rnd x)"
proof -
  have "\<bar>x\<bar> \<le> 2 ^ 53" using assms by linarith
  then show ?thesis using assms fl_ge_float [of lo x] fl_le_float [of hi x] by (simp add: rnd_small)
qed

lemma between_add:
  assumes "between a b x" "between c d y" "fl (a + c) = a + c" "fl (b + d) = b + d" "- (2 ^ 53) \<le> a + c" "b + d \<le> 2 ^ 53"
  shows "between (a + c) (b + d) (xadd x y)"
proof -
  from assms(1,2) obtain p q where "x = Fin p" "y = Fin q" "a \<le> p" "p \<le> b" "c \<le> q" "q \<le> d"
    by (auto simp: between_def)
  with assms(3-6) show ?thesis by (auto intro!: between_rnd)
qed

lemma between_mul:
  assumes "between 0 b x" "between 0 d y" "fl (b * d) = b * d" "b * d \<le> 2 ^ 53"
  shows "between 0 (b * d) (xmul x y)"
proof -
  from assms(1,2) obtain p q where "x = Fin p" "y = Fin q" "0 \<le> p" "p \<le> b" "0 \<le> q" "q \<le> d"
    by (auto simp: between_def)
  moreover from this have "p * q \<le> b * d" by (intro mult_mono) auto
  ultimately show ?thesis using assms(3,4) by (auto intro!: between_rnd)
qed

lemma py_round_mono: "a \<le> b \<Longrightarrow> py_round n a \<le> py_round n b"
  by (auto simp: py_round_def intro!: fl_mono divide_right_mono round_half_even_mono mult_right_mono)

lemma py_round_fixed:
  assumes "c * 10 ^ n = of_int k" "fl c = c"
  shows "py_round n c = c"
proof -
  have "(of_int k / 10 ^ n :: rat) = c" using assms(1) by (simp add: field_simps)
  with assms show ?thesis by (simp add: py_round_def)
qed

lemma py_round_of_int: "\<bar>k\<bar> \<le> 2 ^ 53 \<Longrightarrow> py_round n (of_int k) = of_int k"
  by (rule py_round_fixed [of _ _ "k * 10 ^ n"]) (simp_all add: fl_of_int)

lemma between_round:
  assumes "between lo hi x" "py_round n lo = lo" "py_round n hi = hi"
  shows "between lo hi (xround n x)"
  using assms py_round_mono [of lo _ n] py_round_mono [of _ hi n]
  by (force simp: between_def xround_def)

section \<open>One-sided bounds\<close>

text \<open>NaN satisfies both: it is what no comparison refutes.\<close>

definition atleast :: "rat \<Rightarrow> flt \<Rightarrow> bool" where "atleast c x = (\<not> xlt x (Fin c))"
definition atmost :: "rat \<Rightarrow> flt \<Rightarrow> bool" where "atmost c x = (\<not> xlt (Fin c) x)"

lemma atleast_simps [simp]:
  "atleast c (Fin a) \<longleftrightarrow> c \<le> a" "atleast c PInf" "\<not> atleast c MInf" "atleast c NaN"
  by (auto simp: atleast_def)

lemma atmost_simps [simp]:
  "atmost c (Fin a) \<longleftrightarrow> a \<le> c" "\<not> atmost c PInf" "atmost c MInf" "atmost c NaN"
  by (auto simp: atmost_def)

lemma between_atleast: "between lo hi x \<Longrightarrow> c \<le> lo \<Longrightarrow> atleast c x"
  by (auto simp: between_def)

lemma between_atmost: "between lo hi x \<Longrightarrow> hi \<le> c \<Longrightarrow> atmost c x"
  by (auto simp: between_def)

lemma rnd_atleast:
  assumes "fl c = c" "c \<le> 2 ^ 53" "- (2 ^ 53) \<le> c" "c \<le> x"
  shows "atleast c (rnd x)"
  using assms fl_ge_float [of c x] two_pow_1024 by (auto simp: rnd_def Let_def)

lemma rnd_atmost:
  assumes "fl c = c" "c \<le> 2 ^ 53" "- (2 ^ 53) \<le> c" "x \<le> c"
  shows "atmost c (rnd x)"
  using assms fl_le_float [of c x] two_pow_1024 by (auto simp: rnd_def Let_def)

lemma atleast_add:
  assumes "atleast a x" "atleast b y" "fl (a + b) = a + b" "\<bar>a + b\<bar> \<le> 2 ^ 53"
  shows "atleast (a + b) (xadd x y)"
  using assms by (cases x; cases y) (auto intro!: rnd_atleast simp: abs_le_iff)

lemma atmost_add:
  assumes "atmost a x" "atmost b y" "fl (a + b) = a + b" "\<bar>a + b\<bar> \<le> 2 ^ 53"
  shows "atmost (a + b) (xadd x y)"
  using assms by (cases x; cases y) (auto intro!: rnd_atmost simp: abs_le_iff)

lemma atmost_sub:
  assumes "atmost a x" "atleast b y" "fl (a - b) = a - b" "\<bar>a - b\<bar> \<le> 2 ^ 53"
  shows "atmost (a - b) (xsub x y)"
proof -
  have "atmost (- b) (xneg y)" using assms(2) by (cases y) auto
  from atmost_add [OF assms(1) this] assms(3,4) show ?thesis by (simp add: xsub_def)
qed

lemma atleast_sub:
  assumes "atleast a x" "atmost b y" "fl (a - b) = a - b" "\<bar>a - b\<bar> \<le> 2 ^ 53"
  shows "atleast (a - b) (xsub x y)"
proof -
  have "atleast (- b) (xneg y)" using assms(2) by (cases y) auto
  from atleast_add [OF assms(1) this] assms(3,4) show ?thesis by (simp add: xsub_def)
qed

lemma between_sub:
  assumes "between a b x" "between c d y" "fl (a - d) = a - d" "fl (b - c) = b - c" "- (2 ^ 53) \<le> a - d" "b - c \<le> 2 ^ 53"
  shows "between (a - d) (b - c) (xsub x y)"
proof -
  have "between (- d) (- c) (xneg y)" using assms(2) by (auto simp: between_def)
  from between_add [OF assms(1) this] assms(3-6) show ?thesis by (simp add: xsub_def)
qed

lemma atleast_mul:
  assumes "atleast 0 x" "0 \<le> c"
  shows "atleast 0 (xmul x (Fin c))"
  using assms by (cases x) (auto intro!: rnd_atleast simp: xinf_def xsign_def)

lemma atmost_mul:
  assumes "atmost 0 x" "0 \<le> c"
  shows "atmost 0 (xmul x (Fin c))"
  using assms by (cases x) (auto intro!: rnd_atmost mult_nonpos_nonneg simp: xinf_def xsign_def)

lemma atleast_max [simp]: "atleast c (py_max (Fin c) x)"
  by (cases x) (auto simp: py_max_def)

lemma max_atmost: "atmost c x \<Longrightarrow> d \<le> c \<Longrightarrow> between d c (py_max (Fin d) x)"
  by (cases x) (auto simp: py_max_def)

lemma min_atleast: "atleast c x \<Longrightarrow> c \<le> d \<Longrightarrow> between c d (py_min (Fin d) x)"
  by (cases x) (auto simp: py_min_def)

lemma fl_half [simp]: "fl (1/2) = (1/2 :: rat)" "fl (3/2) = (3/2 :: rat)" "fl (5/2) = (5/2 :: rat)" "fl (1/4) = (1/4 :: rat)"
  "fl (5/4) = (5/4 :: rat)" "fl (7/2) = (7/2 :: rat)"
  by code_simp+

end
