(* ===== verification/Pandas.thy ===== *)
theory Pandas
  imports Py_Num
begin

text \<open>
  The columns and frames the analysis code works on. A column is a list of floats, oldest
  first. The statistics whose summation order and algorithm are the library's own (means,
  deviations, sums, rolling and exponentially weighted windows) are parameters, collected in
  the record \<open>pandas\<close>; the elementwise operations and the selections are written out.
\<close>

record pandas =
  pd_mean :: "flt list \<Rightarrow> flt"
  pd_std :: "flt list \<Rightarrow> flt"
  pd_sum :: "flt list \<Rightarrow> flt"
  pd_pct_change :: "flt list \<Rightarrow> flt list"
  pd_rolling_mean :: "nat \<Rightarrow> flt list \<Rightarrow> flt list"
  pd_rolling_std :: "nat \<Rightarrow> flt list \<Rightarrow> flt list"
  pd_ewm_com :: "nat \<Rightarrow> nat \<Rightarrow> flt list \<Rightarrow> flt list"
  pd_ewm_span :: "nat \<Rightarrow> flt list \<Rightarrow> flt list"
  np_mean :: "flt list \<Rightarrow> flt"

text \<open>\<open>iloc[-k]\<close> on a column of at least \<open>k\<close> values, \<open>iloc[-n:]\<close> and \<open>iloc[-a:-b]\<close>.\<close>

definition at_end :: "'a list \<Rightarrow> nat \<Rightarrow> 'a" where "at_end xs k = xs ! (length xs - k)"

definition iloc_end :: "'a list \<Rightarrow> nat \<Rightarrow> 'a res" where
  "iloc_end xs k = (if k \<le> length xs \<and> 0 < k then Inr (at_end xs k) else Inl IndexError)"

definition last_n :: "nat \<Rightarrow> 'a list \<Rightarrow> 'a list" where "last_n n xs = drop (length xs - n) xs"

definition slice_end :: "nat \<Rightarrow> nat \<Rightarrow> 'a list \<Rightarrow> 'a list" where
  "slice_end a b xs = drop (length xs - a) (take (length xs - b) xs)"

definition dropna :: "flt list \<Rightarrow> flt list" where "dropna xs = filter (\<lambda>x. x \<noteq> NaN) xs"

text \<open>\<open>max()\<close> and \<open>min()\<close> of a column skip NaN; without a value they are NaN.\<close>

definition col_max :: "flt list \<Rightarrow> flt" where
  "col_max xs = (case dropna xs of [] \<Rightarrow> NaN | y # ys \<Rightarrow> foldl (\<lambda>m x. if xlt m x then x else m) y ys)"

definition col_min :: "flt list \<Rightarrow> flt" where
  "col_min xs = (case dropna xs of [] \<Rightarrow> NaN | y # ys \<Rightarrow> foldl (\<lambda>m x. if xlt x m then x else m) y ys)"

text \<open>\<open>shift(1)\<close> and \<open>diff()\<close>: the first value is NaN.\<close>

definition shifted :: "flt list \<Rightarrow> flt list" where
  "shifted xs = (if xs = [] then [] else NaN # butlast xs)"

definition col2 :: "(flt \<Rightarrow> flt \<Rightarrow> flt) \<Rightarrow> flt list \<Rightarrow> flt list \<Rightarrow> flt list" where
  "col2 f xs ys = map (\<lambda>(x, y). f x y) (zip xs ys)"

text \<open>\<open>try: ... except Exception:\<close> with a value for the failure.\<close>

definition try_or :: "'a \<Rightarrow> 'a res \<Rightarrow> 'a" where
  "try_or d r = (case r of Inl _ \<Rightarrow> d | Inr x \<Rightarrow> x)"

lemma try_or_simps [simp]: "try_or d (Inl e) = d" "try_or d (Inr x) = x"
  by (simp_all add: try_or_def)

definition diff_col :: "flt list \<Rightarrow> flt list" where "diff_col xs = col2 xsub xs (shifted xs)"

text \<open>The daily prices of a stock, oldest first; the volume column may be missing.\<close>

record price_frame =
  dp_close :: "flt list"
  dp_high :: "flt list"
  dp_low :: "flt list"
  dp_volume :: "flt list option"

definition frame_len :: "price_frame \<Rightarrow> nat" where "frame_len df = length (dp_close df)"

section \<open>Lemmas\<close>

lemma xlt_trans: "xlt x y \<Longrightarrow> xlt y z \<Longrightarrow> xlt x z"
  by (cases x; cases y; cases z) auto

lemma xlt_irrefl [simp]: "\<not> xlt x x"
  by (cases x) auto

lemma xlt_not_NaN [simp]: "\<not> xlt NaN x" "\<not> xlt x NaN"
  by (cases x; simp)+

lemma xlt_total: "x \<noteq> NaN \<Longrightarrow> y \<noteq> NaN \<Longrightarrow> xlt x y \<or> x = y \<or> xlt y x"
  by (cases x; cases y) auto

lemma not_xlt_trans: "y \<noteq> NaN \<Longrightarrow> \<not> xlt x y \<Longrightarrow> \<not> xlt y z \<Longrightarrow> \<not> xlt x z"
  by (cases x; cases y; cases z) auto

lemma foldl_max_ge:
  "y \<noteq> NaN \<Longrightarrow> NaN \<notin> set ys \<Longrightarrow> z \<in> insert y (set ys) \<Longrightarrow>
    \<not> xlt (foldl (\<lambda>m x. if xlt m x then x else m) y ys) z"
proof (induction ys arbitrary: y z)
  case (Cons x xs)
  let ?m = "if xlt y x then x else y"
  have m: "?m \<noteq> NaN" "\<not> xlt ?m y" "\<not> xlt ?m x" using Cons.prems xlt_trans [of x y x] xlt_trans [of y x y] by auto
  note ih = Cons.IH [OF m(1)]
  have "\<not> xlt (foldl (\<lambda>m x. if xlt m x then x else m) ?m xs) ?m" using ih Cons.prems(2) by simp
  with not_xlt_trans [OF m(1)] m have "\<not> xlt (foldl (\<lambda>m x. if xlt m x then x else m) ?m xs) y"
    "\<not> xlt (foldl (\<lambda>m x. if xlt m x then x else m) ?m xs) x" by blast+
  with ih Cons.prems show ?case by auto
qed simp

text \<open>No value of a column is above its maximum.\<close>

lemma col_max_ge: "x \<in> set xs \<Longrightarrow> \<not> xlt (col_max xs) x"
proof (cases "x = NaN")
  case False
  assume "x \<in> set xs"
  with False have x: "x \<in> set (dropna xs)" by (simp add: dropna_def)
  then obtain y ys where d: "dropna xs = y # ys" by (cases "dropna xs") auto
  have "NaN \<notin> set (dropna xs)" by (simp add: dropna_def)
  with d x show ?thesis using foldl_max_ge [of y ys x] by (auto simp: col_max_def)
qed simp

lemma length_diff_col [simp]: "length (diff_col xs) = length xs"
  by (simp add: diff_col_def col2_def shifted_def)

lemma at_end_in: "0 < k \<Longrightarrow> k \<le> length xs \<Longrightarrow> at_end xs k \<in> set xs"
  by (simp add: at_end_def)

lemma at_end_last_n:
  assumes "0 < k" "k \<le> n" "k \<le> length xs"
  shows "at_end xs k \<in> set (last_n n xs)"
proof -
  have "last_n n xs ! (min n (length xs) - k) = xs ! (length xs - k)"
    using assms by (cases "n \<le> length xs") (auto simp: last_n_def)
  moreover have "min n (length xs) - k < length (last_n n xs)" using assms by (simp add: last_n_def)
  ultimately show ?thesis unfolding at_end_def by (metis nth_mem)
qed

end
