(* ===== verification/Chart_Phase.thy ===== *)
theory Chart_Phase
  imports Pandas
begin

text \<open>
  The stage of a chart, \<open>shared/hybrid_scoring/chart_phase.py\<close>: alignment and slopes of three
  moving averages, ADX, an exhaustion score, and the multiplier or block they give. Columns have
  the default index; the notes are left out. None of the operations used raises on a frame with
  its columns, so the exception branches of the class are not reached.
\<close>

section \<open>Constants and result\<close>

definition MA_SHORT :: nat where "MA_SHORT = 20"
definition MA_MID :: nat where "MA_MID = 60"
definition MA_LONG :: nat where "MA_LONG = 120"
definition ADX_PERIOD :: nat where "ADX_PERIOD = 14"
definition SLOPE_LOOKBACK :: nat where "SLOPE_LOOKBACK = 5"
definition ADX_STRONG_TREND :: flt where "ADX_STRONG_TREND = Fin 40"
definition SLOPE_FLAT_THRESHOLD :: flt where "SLOPE_FLAT_THRESHOLD = Fin (1/2)"

record chart_phase =
  ch_stage :: int
  ch_stage_name :: string
  ch_trend_direction :: string
  ch_trend_strength :: flt
  ch_exhaustion_score :: flt
  ch_score_multiplier :: flt
  ch_is_blocked :: bool

definition default_phase :: chart_phase where
  "default_phase = \<lparr>ch_stage = 0, ch_stage_name = ''TRANSITION'', ch_trend_direction = ''SIDE'',
     ch_trend_strength = Fin 0, ch_exhaustion_score = Fin 0, ch_score_multiplier = Fin 1, ch_is_blocked = False\<rparr>"

section \<open>Indicators\<close>

definition calc_normalized_slope :: "flt list \<Rightarrow> flt" where
  "calc_normalized_slope ma_series =
     (if length ma_series < SLOPE_LOOKBACK + 1 then Fin 0
      else (let current = at_end ma_series 1; prev = at_end ma_series (1 + SLOPE_LOOKBACK)
            in if current = NaN \<or> prev = NaN \<or> prev = Fin 0 then Fin 0
               else xmul (xdiv (xsub current prev) prev) (Fin 100)))"

definition phase_true_range :: "price_frame \<Rightarrow> flt list" where
  "phase_true_range df = map (\<lambda>(h, l, pc). col_max [xsub h l, xabs (xsub h pc), xabs (xsub l pc)])
     (zip (dp_high df) (zip (dp_low df) (shifted (dp_close df))))"

definition up_moves :: "price_frame \<Rightarrow> flt list" where
  "up_moves df = col2 xsub (dp_high df) (shifted (dp_high df))"

definition down_moves :: "price_frame \<Rightarrow> flt list" where
  "down_moves df = col2 xsub (shifted (dp_low df)) (dp_low df)"

text \<open>\<open>np.where((a > b) & (a > 0), a, 0)\<close>\<close>

definition directional :: "flt list \<Rightarrow> flt list \<Rightarrow> flt list" where
  "directional a b = col2 (\<lambda>x y. if xlt y x \<and> xlt (Fin 0) x then x else Fin 0) a b"

definition directional_index :: "pandas \<Rightarrow> flt list \<Rightarrow> flt list \<Rightarrow> flt list" where
  "directional_index P dm atr = col2 xdiv (map (xmul (Fin 100)) (pd_rolling_mean P ADX_PERIOD dm)) atr"

definition calc_adx :: "pandas \<Rightarrow> price_frame \<Rightarrow> flt option" where
  "calc_adx P df =
     (if frame_len df < ADX_PERIOD + 1 then None
      else (let atr = pd_rolling_mean P ADX_PERIOD (phase_true_range df);
                plus_di = directional_index P (directional (up_moves df) (down_moves df)) atr;
                minus_di = directional_index P (directional (down_moves df) (up_moves df)) atr;
                dx = col2 xdiv (map (\<lambda>x. xmul (Fin 100) (xabs x)) (col2 xsub plus_di minus_di)) (col2 xadd plus_di minus_di);
                adx = at_end (pd_rolling_mean P ADX_PERIOD dx) 1
            in if adx = NaN then None else Some adx))"

text \<open>The RSI with plain rolling means.\<close>

definition rolling_rsi :: "pandas \<Rightarrow> nat \<Rightarrow> flt list \<Rightarrow> flt list" where
  "rolling_rsi P period close =
     (let delta = diff_col close;
          gain = pd_rolling_mean P period (map (\<lambda>d. if xlt (Fin 0) d then d else Fin 0) delta);
          loss = pd_rolling_mean P period (map (\<lambda>d. xneg (if xlt d (Fin 0) then d else Fin 0)) delta);
          rs = col2 xdiv gain loss
      in map (\<lambda>r. xsub (Fin 100) (xdiv (Fin 100) (xadd (Fin 1) r))) rs)"

definition calc_bbw :: "pandas \<Rightarrow> price_frame \<Rightarrow> nat \<Rightarrow> flt \<Rightarrow> flt option" where
  "calc_bbw P df period std_mult =
     (let sma = at_end (pd_rolling_mean P period (dp_close df)) 1;
          std = at_end (pd_rolling_std P period (dp_close df)) 1;
          bbw = xmul (xdiv (xsub (xadd sma (xmul std_mult std)) (xsub sma (xmul std_mult std))) sma) (Fin 100)
      in if bbw = NaN then None else Some bbw)"

text \<open>The share of the last deviations below the value; the metric is not looked at.\<close>

definition get_percentile :: "pandas \<Rightarrow> price_frame \<Rightarrow> flt \<Rightarrow> nat \<Rightarrow> flt option" where
  "get_percentile P df current_val lookback =
     (let std = pd_rolling_std P 20 (dp_close df); recent = dropna (last_n lookback std)
      in if length std < lookback \<or> recent = [] then None
         else Some (xmul (xdiv (xint (int (length (filter (\<lambda>s. xlt s current_val) recent))))
           (xint (int (length recent)))) (Fin 100)))"

section \<open>Stage\<close>

definition determine_stage ::
  "flt \<Rightarrow> flt \<Rightarrow> flt \<Rightarrow> flt \<Rightarrow> flt \<Rightarrow> flt \<Rightarrow> int \<times> string \<times> string" where
  "determine_stage price ma_s ma_m ma_l slope_m slope_l =
     (if xlt ma_s price \<and> xlt ma_m ma_s \<and> xlt ma_l ma_m \<and> xlt SLOPE_FLAT_THRESHOLD slope_l then (2, ''UPTREND'', ''UP'')
      else if xlt price ma_s \<and> xlt ma_s ma_m \<and> xlt ma_m ma_l \<and> xlt slope_l (xneg SLOPE_FLAT_THRESHOLD)
      then (4, ''DOWNTREND'', ''DOWN'')
      else if xlt price ma_s \<and> xlt (Fin 0) slope_m \<and> xlt (Fin 0) slope_l then (3, ''DISTRIBUTION'', ''SIDE'')
      else if xlt ma_s price \<and> xlt ma_m ma_l then (1, ''ACCUMULATION'', ''SIDE'')
      else (0, ''TRANSITION'', if xlt (Fin 0) slope_m then ''UP'' else if xlt slope_m (Fin 0) then ''DOWN'' else ''SIDE''))"

section \<open>Exhaustion and multiplier\<close>

definition adx_points :: "flt option \<Rightarrow> rat" where
  "adx_points adx = (case adx of None \<Rightarrow> 0
     | Some a \<Rightarrow> if xlt ADX_STRONG_TREND a then 20 else if xlt (Fin 25) a then 10 else 0)"

definition z_points :: "pandas \<Rightarrow> price_frame \<Rightarrow> rat" where
  "z_points P df =
     (if 20 \<le> frame_len df
      then (let sma20 = at_end (pd_rolling_mean P 20 (dp_close df)) 1; std20 = at_end (pd_rolling_std P 20 (dp_close df)) 1
            in if xlt (Fin 0) std20
               then (let z = xdiv (xsub (at_end (dp_close df) 1) sma20) std20
                     in if xlt (Fin (5/2)) z then 25 else if xlt (Fin 2) z then 15 else if xlt (Fin (3/2)) z then 5 else 0)
               else 0)
      else 0)"

definition rsi_points :: "pandas \<Rightarrow> price_frame \<Rightarrow> rat" where
  "rsi_points P df = (let rsi = rolling_rsi P 14 (dp_close df)
     in if 3 \<le> length rsi
        then (let c = at_end rsi 1; slope = xsub c (at_end rsi 3)
              in if xlt (Fin 60) c \<and> xlt slope (Fin (- 5)) then 20
                 else if xlt (Fin 50) c \<and> xlt slope (Fin (- 3)) then 10 else 0)
        else 0)"

definition bbw_points :: "pandas \<Rightarrow> price_frame \<Rightarrow> int \<Rightarrow> rat" where
  "bbw_points P df stage =
     (if stage = 3
      then (case calc_bbw P df 20 (Fin 2) of None \<Rightarrow> 0
          | Some bbw \<Rightarrow> (case get_percentile P df bbw 60 of None \<Rightarrow> 0
              | Some p \<Rightarrow> if xlt (Fin 80) p then 20 else 0))
      else 0)"

text \<open>The points are small integers, so their float sum is exact.\<close>

definition calc_exhaustion :: "pandas \<Rightarrow> price_frame \<Rightarrow> flt option \<Rightarrow> int \<Rightarrow> flt" where
  "calc_exhaustion P df adx stage =
     py_min (Fin (adx_points adx + z_points P df + rsi_points P df + bbw_points P df stage)) (Fin 100)"

definition get_multiplier :: "int \<Rightarrow> flt \<Rightarrow> flt \<times> bool" where
  "get_multiplier stage exhaustion =
     (if stage = 4 then (Fin 0, True)
      else if xle (Fin 50) exhaustion then (lit (7/10), False)
      else if stage = 2 then (lit (12/10), False)
      else if stage = 1 then (lit (11/10), False)
      else if stage = 3 then (lit (8/10), False) else (Fin 1, False))"

definition analyze :: "pandas \<Rightarrow> price_frame option \<Rightarrow> chart_phase" where
  "analyze P frame = (case frame of
     None \<Rightarrow> default_phase
   | Some df \<Rightarrow> if frame_len df < MA_LONG + SLOPE_LOOKBACK then default_phase
       else (let close = dp_close df;
                 ma_short = pd_rolling_mean P MA_SHORT close; ma_mid = pd_rolling_mean P MA_MID close;
                 ma_long = pd_rolling_mean P MA_LONG close;
                 adx = calc_adx P df;
                 (stage, name, direction) = determine_stage (at_end close 1) (at_end ma_short 1) (at_end ma_mid 1)
                   (at_end ma_long 1) (calc_normalized_slope ma_mid) (calc_normalized_slope ma_long);
                 exhaustion = calc_exhaustion P df adx stage;
                 (multiplier, blocked) = get_multiplier stage exhaustion
             in \<lparr>ch_stage = stage, ch_stage_name = name, ch_trend_direction = direction,
                ch_trend_strength = (case adx of Some a \<Rightarrow> a | None \<Rightarrow> Fin 0), ch_exhaustion_score = exhaustion,
                ch_score_multiplier = multiplier, ch_is_blocked = blocked\<rparr>))"

section \<open>Properties\<close>

lemma stage_range: "determine_stage p s m l sm sl = (stage, n, d) \<Longrightarrow> stage \<in> {0, 1, 2, 3, 4}"
  by (auto simp: determine_stage_def split: if_splits)

lemma multiplier_values:
  "get_multiplier stage e = (m, b) \<Longrightarrow> (b \<longleftrightarrow> stage = 4) \<and> (b \<longrightarrow> m = Fin 0) \<and>
    m \<in> {Fin 0, lit (7/10), lit (8/10), Fin 1, lit (11/10), lit (12/10)} \<and> (m = Fin 0 \<longrightarrow> b)"
proof -
  have "lit (7/10) \<noteq> Fin 0" "lit (8/10) \<noteq> Fin 0" "lit (11/10) \<noteq> Fin 0" "lit (12/10) \<noteq> Fin 0" by code_simp+
  then show "get_multiplier stage e = (m, b) \<Longrightarrow> (b \<longleftrightarrow> stage = 4) \<and> (b \<longrightarrow> m = Fin 0) \<and>
    m \<in> {Fin 0, lit (7/10), lit (8/10), Fin 1, lit (11/10), lit (12/10)} \<and> (m = Fin 0 \<longrightarrow> b)"
    by (auto simp: get_multiplier_def split: if_splits)
qed

lemma multiplier_bounds:
  "get_multiplier stage e = (m, b) \<Longrightarrow> between 0 (fl (12/10)) m"
proof -
  have "fl (7/10) \<ge> (0 :: rat)" "fl (8/10) \<ge> (0 :: rat)" "fl (11/10) \<ge> (0 :: rat)"
    "fl (12/10) \<ge> (1 :: rat)" "fl (7/10) \<le> (1 :: rat)" "fl (8/10) \<le> (1 :: rat)" "fl (11/10) \<le> (fl (12/10) :: rat)"
    by code_simp+
  moreover from this have "fl (7/10) \<le> (fl (12/10) :: rat)" "fl (8/10) \<le> (fl (12/10) :: rat)" by linarith+
  ultimately show "get_multiplier stage e = (m, b) \<Longrightarrow> between 0 (fl (12/10)) m"
    by (auto simp: get_multiplier_def lit_def split: if_splits)
qed

lemma analyze_cases:
  obtains (Default) "analyze P frame = default_phase"
  | (Staged) df stage e m b where "frame = Some df" "get_multiplier stage e = (m, b)"
      "ch_stage (analyze P frame) = stage" "ch_score_multiplier (analyze P frame) = m" "ch_is_blocked (analyze P frame) = b"
      "stage \<in> {0, 1, 2, 3, 4}"
proof (cases "analyze P frame = default_phase")
  case False
  then obtain df where f: "frame = Some df" "\<not> frame_len df < MA_LONG + SLOPE_LOOKBACK"
    by (auto simp: analyze_def split: option.splits if_splits)
  let ?close = "dp_close df"
  obtain stage n d where s: "determine_stage (at_end ?close 1) (at_end (pd_rolling_mean P MA_SHORT ?close) 1)
      (at_end (pd_rolling_mean P MA_MID ?close) 1) (at_end (pd_rolling_mean P MA_LONG ?close) 1)
      (calc_normalized_slope (pd_rolling_mean P MA_MID ?close)) (calc_normalized_slope (pd_rolling_mean P MA_LONG ?close))
      = (stage, n, d)" by (rule prod_cases3)
  obtain m b where "get_multiplier stage (calc_exhaustion P df (calc_adx P df) stage) = (m, b)" by fastforce
  with f s show thesis
    by (intro Staged [of df stage _ m b]) (use stage_range [OF s] in \<open>simp_all add: analyze_def Let_def\<close>)
qed

text \<open>
  The stage decides: the analysis gives one of the five stages, blocks exactly the
  downtrend, and its multiplier is one of six values from 0 to 1.2, 0 exactly when it blocks.
\<close>

theorem stage_decides_block:
  "let r = analyze P frame in ch_stage r \<in> {0, 1, 2, 3, 4} \<and> (ch_is_blocked r \<longleftrightarrow> ch_stage r = 4) \<and>
     (ch_is_blocked r \<longleftrightarrow> ch_score_multiplier r = Fin 0) \<and> between 0 (fl (12/10)) (ch_score_multiplier r)"
proof (cases rule: analyze_cases [of P frame])
  case Default
  have "(1 :: rat) \<le> fl (12/10)" by code_simp
  with Default show ?thesis by (simp add: default_phase_def)
next
  case (Staged df stage e m b)
  with multiplier_values [OF Staged(2)] multiplier_bounds [OF Staged(2)] show ?thesis by (auto simp: Let_def)
qed

text \<open>
  A history of fewer than 125 days is never blocked, whatever the prices do: it gets
  the neutral multiplier.
\<close>

theorem short_history_never_blocked:
  assumes "frame_len df < 125"
  shows "\<not> ch_is_blocked (analyze P (Some df)) \<and> ch_score_multiplier (analyze P (Some df)) = Fin 1"
  using assms by (simp add: analyze_def default_phase_def MA_LONG_def SLOPE_LOOKBACK_def)

end
