(* ===== verification/Quant_Base.thy ===== *)
theory Quant_Base
  imports Strategy_Indicators Chart_Phase Config_Manager Sector_Classifier
begin

text \<open>
  What the factors of \<open>shared/hybrid_scoring/quant_scorer.py\<close> share: the constants of
  \<open>quant_constants.py\<close>, the confidence levels of \<open>schema.py\<close>, the dictionaries of details, and
  the statement that a score lies in its range. Korean keys are their UTF-8 bytes; free texts
  (notes, reasons, error messages) are the value \<open>FNote\<close>.
\<close>

section \<open>Constants\<close>

definition DEFAULT_FILTER_CUTOFF :: rat where "DEFAULT_FILTER_CUTOFF = fl (6/10)"
definition DEFAULT_HOLDING_DAYS :: int where "DEFAULT_HOLDING_DAYS = 5"
definition MIN_PRICE_DATA_DAYS :: nat where "MIN_PRICE_DATA_DAYS = 30"

definition SECTOR_RSI_MULTIPLIER :: "(string \<times> rat) list" where
  "SECTOR_RSI_MULTIPLIER = [
     (utf8 [236, 161, 176, 236, 132, 160, 236, 154, 180, 236, 134, 161], fl (13/10)),
     (utf8 [234, 184, 136, 236, 156, 181], fl (5/4)),
     (utf8 [236, 158, 144, 236, 156, 160, 236, 134, 140, 235, 185, 132, 236, 158, 172], fl (11/10)),
     (utf8 [236, 160, 149, 235, 179, 180, 237, 134, 181, 236, 139, 160], fl (11/10)),
     (utf8 [236, 151, 144, 235, 132, 136, 236, 167, 128, 237, 153, 148, 237, 149, 153], fl (105/100)),
     (''etc'', fl (105/100)),
     (utf8 [235, 175, 184, 235, 182, 132, 235, 165, 152], fl (105/100)),
     (utf8 [237, 149, 132, 236, 136, 152, 236, 134, 140, 235, 185, 132, 236, 158, 172], fl (9/10)),
     (utf8 [234, 177, 180, 236, 132, 164, 234, 184, 176, 234, 179, 132], fl (7/10))]"

definition NEWS_LONG_TERM_POSITIVE :: "string list" where
  "NEWS_LONG_TERM_POSITIVE = [utf8 [236, 136, 152, 236, 163, 188], utf8 [236, 139, 164, 236, 160, 129], utf8 [235, 176, 176, 235, 139, 185]]"

record news_effect =
  ne_d5_win :: rat
  ne_d60_win :: rat
  ne_d60_return :: rat

definition NEWS_TIME_EFFECT :: "(string \<times> news_effect) list" where
  "NEWS_TIME_EFFECT = [
     (utf8 [236, 136, 152, 236, 163, 188], \<lparr>ne_d5_win = fl (437/1000), ne_d60_win = fl (727/1000), ne_d60_return = fl (1936/10000)\<rparr>),
     (utf8 [236, 139, 164, 236, 160, 129], \<lparr>ne_d5_win = fl (484/1000), ne_d60_win = fl (648/1000), ne_d60_return = fl (1403/10000)\<rparr>),
     (utf8 [235, 176, 176, 235, 139, 185], \<lparr>ne_d5_win = fl (376/1000), ne_d60_win = fl (540/1000), ne_d60_return = fl (998/10000)\<rparr>),
     (utf8 [236, 139, 160, 236, 130, 172, 236, 151, 133], \<lparr>ne_d5_win = fl (469/1000), ne_d60_win = fl (571/1000), ne_d60_return = fl (636/10000)\<rparr>),
     (''M&A'', \<lparr>ne_d5_win = fl (483/1000), ne_d60_win = fl (571/1000), ne_d60_return = fl (795/10000)\<rparr>)]"

text \<open>The neutral values of the second version.\<close>

definition NEUTRAL_ROE_TREND :: flt where "NEUTRAL_ROE_TREND = Fin 4"
definition NEUTRAL_PER_HISTORICAL :: flt where "NEUTRAL_PER_HISTORICAL = Fin (5/2)"
definition NEUTRAL_PEG_LIKE :: flt where "NEUTRAL_PEG_LIKE = Fin (5/2)"
definition NEUTRAL_SENTIMENT_MOMENTUM :: flt where "NEUTRAL_SENTIMENT_MOMENTUM = Fin 3"
definition NEUTRAL_FOREIGN_RATIO_TREND :: flt where "NEUTRAL_FOREIGN_RATIO_TREND = Fin 1"

definition get_confidence_level :: "int \<Rightarrow> string" where
  "get_confidence_level n = (if 30 \<le> n then ''HIGH'' else if 15 \<le> n then ''MID'' else ''LOW'')"

definition get_confidence_weight :: "int \<Rightarrow> rat" where
  "get_confidence_weight n = (if 30 \<le> n then 1 else if 20 \<le> n then fl (8/10) else if 10 \<le> n then 1/2
     else if 5 \<le> n then fl (3/10) else 0)"

section \<open>Details\<close>

datatype fact = FNum flt | FInt int | FText string | FFlag bool | FNums "flt list" | FTexts "string list" | FNone | FNote

type_synonym facts = "(string \<times> fact) list"

text \<open>A number of the details; the other values are never looked up as numbers.\<close>

definition fact_num :: "facts \<Rightarrow> string \<Rightarrow> flt option" where
  "fact_num fs k = (case map_of fs k of Some (FNum x) \<Rightarrow> Some x | _ \<Rightarrow> None)"

definition fact_text :: "facts \<Rightarrow> string \<Rightarrow> string option" where
  "fact_text fs k = (case map_of fs k of Some (FText s) \<Rightarrow> Some s | _ \<Rightarrow> None)"

definition rounded :: "string \<Rightarrow> flt \<Rightarrow> string \<times> fact" where
  "rounded k x = (k, FNum (xround 2 x))"

text \<open>\<open>total += s\<close> from \<open>0.0\<close>, in order.\<close>

definition add_scores :: "flt list \<Rightarrow> flt" where "add_scores = foldl xadd (Fin 0)"

text \<open>Every factor catches its exceptions and answers a middle score.\<close>

definition factor_or :: "rat \<Rightarrow> (flt \<times> facts) res \<Rightarrow> flt \<times> facts" where
  "factor_or d r = try_or (Fin d, [(''error'', FNote)]) r"

section \<open>Returns\<close>

text \<open>\<open>(last / first - 1) * 100\<close>: on Python floats a zero price raises, on column values not.\<close>

definition float_return :: "flt list \<Rightarrow> nat \<Rightarrow> flt res" where
  "float_return close k = res_bind (pdiv (at_end close 1) (at_end close k))
     (\<lambda>q. Inr (xmul (xsub q (Fin 1)) (Fin 100)))"

definition column_return :: "flt list \<Rightarrow> nat \<Rightarrow> flt" where
  "column_return close k = xmul (xsub (xdiv (at_end close 1) (at_end close k)) (Fin 1)) (Fin 100)"

text \<open>The frame of the index, if it is long enough.\<close>

definition long_enough :: "nat \<Rightarrow> price_frame option \<Rightarrow> price_frame option" where
  "long_enough k frame = (case frame of Some df \<Rightarrow> if k \<le> frame_len df then frame else None | None \<Rightarrow> None)"

definition price_volatility :: "pandas \<Rightarrow> price_frame \<Rightarrow> flt" where
  "price_volatility P df = xmul (pd_std P (dropna (pd_pct_change P (dp_close df)))) (Fin 100)"

definition stability_of :: "flt \<Rightarrow> flt" where
  "stability_of volatility = py_max (Fin 0) (xsub (Fin 3) (xmul volatility (lit (6/10))))"

text \<open>The last factor of both quality scores.\<close>

definition stability_part :: "pandas \<Rightarrow> price_frame \<Rightarrow> flt \<times> facts" where
  "stability_part P df =
     (if 60 \<le> frame_len df
      then (let volatility = price_volatility P df; s = stability_of volatility
            in (s, [rounded ''volatility'' volatility, rounded ''stability_score'' s]))
      else (Fin (3/2), [(''stability_score'', FNum (Fin (3/2)))]))"

text \<open>Recent over past mean volume, if there is a positive past volume.\<close>

definition volume_ratio :: "pandas \<Rightarrow> price_frame \<Rightarrow> flt option" where
  "volume_ratio P df = (case dp_volume df of
     None \<Rightarrow> None
   | Some vol \<Rightarrow> if 25 \<le> frame_len df
       then (let recent = pd_mean P (last_n 5 vol); past = pd_mean P (slice_end 25 5 vol)
             in if xlt (Fin 0) past then Some (xdiv recent past) else None)
       else None)"

definition avg_volume_20 :: "pandas \<Rightarrow> price_frame \<Rightarrow> flt option" where
  "avg_volume_20 P df = (case dp_volume df of
     None \<Rightarrow> None
   | Some vol \<Rightarrow> if 20 \<le> frame_len df then Some (pd_mean P (last_n 20 vol)) else None)"

text \<open>The falling line through oversold, 50 and 70.\<close>

definition rsi_level_score :: "flt \<Rightarrow> flt \<Rightarrow> flt" where
  "rsi_level_score oversold rsi =
     (if xle rsi oversold then Fin 3
      else if xle rsi (Fin 50)
      then xsub (Fin 3) (xmul (xsub rsi oversold) (xdiv (Fin (3/2)) (xsub (Fin 50) oversold)))
      else if xle rsi (Fin 70) then xsub (Fin (3/2)) (xmul (xsub rsi (Fin 50)) (lit (5/100)))
      else py_max (Fin 0) (xsub (Fin (1/2)) (xmul (xsub rsi (Fin 70)) (lit (25/1000)))))"

definition sector_multiplier :: "string \<Rightarrow> rat" where
  "sector_multiplier sector = dict_get SECTOR_RSI_MULTIPLIER sector 1"

text \<open>\<open>_calculate_rsi\<close>: plain rolling means; an empty column raises and is \<open>None\<close>.\<close>

definition calculate_rsi_fallback :: "pandas \<Rightarrow> price_frame \<Rightarrow> nat \<Rightarrow> flt option" where
  "calculate_rsi_fallback P df period =
     (case iloc_end (rolling_rsi P period (dp_close df)) 1 of Inl _ \<Rightarrow> None | Inr v \<Rightarrow> Some v)"

text \<open>Foreign and institutional trading by day.\<close>

record investor_frame =
  iv_foreign :: "flt list"
  iv_institution :: "flt list"
  iv_individual :: "flt list option"

definition investor_len :: "investor_frame \<Rightarrow> nat" where "investor_len iv = length (iv_foreign iv)"

text \<open>Net buying over the mean volume, or over a fixed number of shares (exact quotient of integers).\<close>

definition volume_normalized :: "flt option \<Rightarrow> flt option" where
  "volume_normalized avg_volume = (case avg_volume of Some v \<Rightarrow> if xlt (Fin 0) v then Some v else None | None \<Rightarrow> None)"

definition int_quotient :: "int \<Rightarrow> int \<Rightarrow> flt" where "int_quotient m n = rnd (of_int m / of_int n)"

section \<open>Ranges\<close>

lemma add_scores_from:
  assumes "list_all2 (\<lambda>(l, h) s. between (of_int l) (of_int h) s) bs ss" "\<forall>(l, h) \<in> set bs. l \<le> 0 \<and> 0 \<le> h"
    "between (of_int a) (of_int b) x" "- (2 ^ 53) \<le> a + sum_list (map fst bs)" "b + sum_list (map snd bs) \<le> 2 ^ 53"
    "a \<le> 0" "0 \<le> b"
  shows "between (of_int (a + sum_list (map fst bs))) (of_int (b + sum_list (map snd bs))) (foldl xadd x ss)"
  using assms
proof (induction ss arbitrary: bs a b x rule: list.induct)
  case (Cons s ss)
  then obtain l h bs' where bs: "bs = (l, h) # bs'" and s: "between (of_int l) (of_int h) s" by (auto simp: list_all2_Cons2)
  have tail: "sum_list (map fst bs') \<le> 0" "0 \<le> sum_list (map snd bs')"
    using Cons.prems(2) bs by (force intro!: sum_list_nonpos sum_list_nonneg)+
  have small: "- (2 ^ 53) \<le> a + l" "b + h \<le> 2 ^ 53" "a + l \<le> 0" "0 \<le> b + h"
    using Cons.prems(2,4-7) tail bs by auto
  have r: "- (2 ^ 53 :: rat) \<le> of_int (a + l)" "of_int (b + h) \<le> (2 ^ 53 :: rat)"
    using of_int_le_iff [of "- (2 ^ 53)" "a + l", where 'a = rat] of_int_le_iff [of "b + h" "2 ^ 53", where 'a = rat] small by auto
  have "between (of_int a + of_int l) (of_int b + of_int h) (xadd x s)"
    using r fl_of_int [of "a + l"] fl_of_int [of "b + h"] small
    by (intro between_add [OF Cons.prems(3) s]) (auto simp: abs_le_iff)
  then have x: "between (of_int (a + l)) (of_int (b + h)) (xadd x s)" by simp
  have "between (of_int (a + l + sum_list (map fst bs'))) (of_int (b + h + sum_list (map snd bs'))) (foldl xadd (xadd x s) ss)"
    by (rule Cons.IH [OF _ _ x]) (use Cons.prems bs small in \<open>auto simp: add.assoc\<close>)
  then show ?case using bs by (simp add: add.assoc)
qed simp

text \<open>Scores that lie in their ranges add up to a score in the sum of the ranges.\<close>

lemma between_add_scores:
  assumes "list_all2 (\<lambda>(l, h) s. between (of_int l) (of_int h) s) bs ss" "\<forall>(l, h) \<in> set bs. l \<le> 0 \<and> 0 \<le> h"
    "- (2 ^ 53) \<le> sum_list (map fst bs)" "sum_list (map snd bs) \<le> 2 ^ 53"
  shows "between (of_int (sum_list (map fst bs))) (of_int (sum_list (map snd bs))) (add_scores ss)"
  using add_scores_from [OF assms(1,2), of 0 0 "Fin 0"] assms(3,4) by (simp add: add_scores_def)

lemma factor_or_cases:
  obtains (Raised) "factor_or d r = (Fin d, [(''error'', FNote)])" | (Scored) x where "r = Inr x" "factor_or d r = x"
  by (cases r) (auto simp: factor_or_def)

text \<open>The contract of a factor: its score lies between 0 and its full marks on admissible inputs.\<close>

locale bounded_factor =
  fixes score :: "'i \<Rightarrow> flt \<times> facts" and admissible :: "'i \<Rightarrow> bool" and full :: int
  assumes in_range: "admissible i \<Longrightarrow> between 0 (of_int full) (fst (score i))"
    and small: "0 \<le> full" "full \<le> 1000"
begin

lemma rounded_range: "admissible i \<Longrightarrow> between 0 (of_int full) (xround 2 (fst (score i)))"
  using in_range [of i] small py_round_of_int [of 0 2] py_round_of_int [of full 2] by (auto intro: between_round)

end

text \<open>A deviation is not negative.\<close>

definition std_ok :: "pandas \<Rightarrow> bool" where "std_ok P \<longleftrightarrow> (\<forall>xs. atleast 0 (pd_std P xs))"

lemma stability_range: "std_ok P \<Longrightarrow> between 0 3 (fst (stability_part P df))"
proof -
  assume P: "std_ok P"
  have "atleast 0 (price_volatility P df)"
    unfolding price_volatility_def using P by (intro atleast_mul) (auto simp: std_ok_def)
  moreover have "(0 :: rat) \<le> fl (6/10)" by code_simp
  ultimately have "atleast 0 (xmul (price_volatility P df) (lit (6/10)))"
    unfolding lit_def by (intro atleast_mul)
  then have "atmost (3 - 0) (xsub (Fin 3) (xmul (price_volatility P df) (lit (6/10))))"
    by (intro atmost_sub) (auto intro: fl_numeral)
  then have "between 0 3 (stability_of (price_volatility P df))"
    unfolding stability_of_def by (intro max_atmost) auto
  then show ?thesis by (simp add: stability_part_def Let_def)
qed

lemma sector_multiplier_nonneg: "0 \<le> sector_multiplier sector"
proof -
  have "\<forall>(k, v) \<in> set SECTOR_RSI_MULTIPLIER. 0 \<le> v" by code_simp
  then show ?thesis by (auto simp: sector_multiplier_def dict_get_def split: option.splits dest!: map_of_SomeD)
qed

text \<open>The line of the RSI does not fall below zero.\<close>

lemma rsi_level_atleast:
  assumes "0 \<le> t" "t \<le> 49"
  shows "atleast 0 (rsi_level_score (Fin t) rsi)"
proof (cases "\<not> xle rsi (Fin t) \<and> xle rsi (Fin 50)")
  case True
  then obtain r where r: "rsi = Fin r" "t < r" "r \<le> 50" by (cases rsi) (auto simp: xle_def)
  have small: "\<bar>r - t\<bar> \<le> 2 ^ 53" "\<bar>50 - t\<bar> \<le> 2 ^ 53" using r assms by auto
  define x d where "x = fl (r - t)" and "d = fl (50 - t)"
  have x: "0 \<le> x" "x \<le> d" "xsub rsi (Fin t) = Fin x" "xsub (Fin 50) (Fin t) = Fin d" "d \<le> 50"
    using r assms small fl_nonneg [of "r - t"] fl_mono [of "r - t" "50 - t"] fl_le_float [of 50 "50 - t"]
    by (auto simp: x_def d_def xsub_def rnd_small fl_numeral)
  have d: "1 \<le> d" using assms fl_ge_float [of 1 "50 - t"] by (auto simp: d_def)
  then have q: "0 \<le> (3/2) / d" "(3/2) / d \<le> 3/2" "3/100 \<le> (3/2) / d" using x(5) by (simp_all add: field_simps)
  have c: "fl ((3/2) / d) \<le> (1 + 1/10^6) * ((3/2) / d)" "0 \<le> fl ((3/2) / d)"
    using fl_close [of "(3/2) / d"] fl_nonneg [of "(3/2) / d"] q by linarith+
  then have "x * fl ((3/2) / d) \<le> d * ((1 + 1/10^6) * ((3/2) / d))" using x by (intro mult_mono) auto
  also have "\<dots> \<le> 2" using d by simp
  finally have "atmost 2 (rnd (x * fl ((3/2) / d)))" by (intro rnd_atmost) (auto intro: fl_numeral)
  moreover have "rnd ((3/2) / d) = Fin (fl ((3/2) / d))" using q by (intro rnd_small) auto
  ultimately have "atmost 2 (xmul (Fin x) (xdiv (Fin (3/2)) (Fin d)))" using d by simp
  then have "atleast (3 - 2) (xsub (Fin 3) (xmul (Fin x) (xdiv (Fin (3/2)) (Fin d))))" by (intro atleast_sub) auto
  then have "atleast 0 (xsub (Fin 3) (xmul (Fin x) (xdiv (Fin (3/2)) (Fin d))))" by (auto simp: atleast_def dest: xlt_trans [of _ "Fin 0" "Fin 1"])
  then show ?thesis using True x by (simp add: rsi_level_score_def)
next
  case False
  have "atleast 0 (xsub (Fin (3/2)) (xmul (xsub rsi (Fin 50)) (lit (5/100))))" if "\<not> xle rsi (Fin 50)" "xle rsi (Fin 70)"
  proof -
    from that obtain r where r: "rsi = Fin r" "50 < r" "r \<le> 70" by (cases rsi) (auto simp: xle_def)
    have "between 0 20 (xsub rsi (Fin 50))" using r by (auto simp: xsub_def intro!: between_rnd fl_numeral)
    moreover have "between 0 (1/16) (lit (5/100))" by code_simp
    ultimately have "between 0 (20 * (1/16)) (xmul (xsub rsi (Fin 50)) (lit (5/100)))"
      by (rule between_mul) simp_all
    then have "atmost (5/4) (xmul (xsub rsi (Fin 50)) (lit (5/100)))" by (rule between_atmost) simp
    then have "atleast (3/2 - 5/4) (xsub (Fin (3/2)) (xmul (xsub rsi (Fin 50)) (lit (5/100))))"
      by (intro atleast_sub) auto
    then show ?thesis by (cases "xsub (Fin (3/2)) (xmul (xsub rsi (Fin 50)) (lit (5/100)))") auto
  qed
  with False show ?thesis by (auto simp: rsi_level_score_def)
qed

end
