(* ===== verification/Quant_Factors.thy ===== *)
theory Quant_Factors
  imports Quant_Base
begin

text \<open>
  The six factors of the first version of \<open>QuantScorer\<close> (momentum, quality, value, technical,
  news statistics, supply and demand), the bonus for compound conditions and the news timing.
  A factor answers its score and the dictionary of details in the order of insertion; what
  raises in it is caught and gives its middle score.
\<close>

section \<open>Momentum\<close>

definition momentum_6m :: "price_frame \<Rightarrow> price_frame option \<Rightarrow> (flt \<times> facts) res" where
  "momentum_6m df kospi =
     (if 120 \<le> frame_len df
      then res_bind (float_return (dp_close df) 120) (\<lambda>stock_return.
        (case long_enough 120 kospi of
           Some k \<Rightarrow> res_bind (float_return (dp_close k) 120) (\<lambda>kospi_return.
             let relative = xsub stock_return kospi_return;
                 s = clamp 0 15 (xadd (Fin (15/2)) (xmul relative (Fin (1/4))))
             in Inr (s, [rounded ''relative_momentum_6m'' relative, (''momentum_type'', FText ''relative''),
                  rounded ''momentum_6m_score'' s]))
         | None \<Rightarrow> (let s = clamp 0 15 (xadd (Fin 5) (xmul stock_return (Fin (1/4))))
             in Inr (s, [rounded ''absolute_momentum_6m'' stock_return, (''momentum_type'', FText ''absolute''),
                  rounded ''momentum_6m_score'' s]))))
      else Inr (Fin (15/2), [(''momentum_6m_score'', FNum (Fin (15/2))), (''momentum_6m_note'', FNote)]))"

definition momentum_1m :: "price_frame \<Rightarrow> price_frame option \<Rightarrow> flt \<times> facts" where
  "momentum_1m df kospi =
     (if 20 \<le> frame_len df
      then (let stock_return = column_return (dp_close df) 20
            in case long_enough 20 kospi of
                 Some k \<Rightarrow> (let relative = xsub stock_return (column_return (dp_close k) 20);
                     s = clamp 0 5 (xadd (Fin (5/2)) (xmul relative (Fin (1/4))))
                   in (s, [rounded ''relative_momentum_1m'' relative, rounded ''momentum_1m_score'' s]))
               | None \<Rightarrow> (let s = clamp 0 5 (xadd (Fin (5/2)) (xmul stock_return (Fin (1/4))))
                   in (s, [rounded ''absolute_momentum_1m'' stock_return, rounded ''momentum_1m_score'' s])))
      else (Fin (5/2), [(''momentum_1m_score'', FNum (Fin (5/2)))]))"

text \<open>Six periods of twenty days, the last one to yesterday's price from the end.\<close>

definition monthly_returns :: "flt list \<Rightarrow> flt list" where
  "monthly_returns close = map (\<lambda>i. xmul (xsub (xdiv (at_end close (if i < 5 then 100 - 20 * i else 1))
     (at_end close (120 - 20 * i))) (Fin 1)) (Fin 100)) [0..<6]"

definition momentum_consistency :: "price_frame \<Rightarrow> flt \<times> facts" where
  "momentum_consistency df =
     (if 120 \<le> frame_len df
      then (let returns = monthly_returns (dp_close df);
                consistency = int_quotient (int (length (filter (xlt (Fin 0)) returns))) (int (length returns));
                s = xmul consistency (Fin 5)
            in (s, [rounded ''momentum_consistency'' consistency, rounded ''consistency_score'' s]))
      else (Fin (5/2), [(''consistency_score'', FNum (Fin (5/2)))]))"

definition calculate_momentum_score :: "price_frame \<Rightarrow> price_frame option \<Rightarrow> flt \<times> facts" where
  "calculate_momentum_score df kospi = factor_or (25/2) (res_bind (momentum_6m df kospi) (\<lambda>(s6, f6).
     let (s1, f1) = momentum_1m df kospi; (sc, fc) = momentum_consistency df
     in Inr (add_scores [s6, s1, sc], f6 @ f1 @ fc)))"

section \<open>Quality\<close>

definition clamped_part :: "string \<Rightarrow> string \<Rightarrow> rat \<Rightarrow> rat \<Rightarrow> rat \<Rightarrow> flt option \<Rightarrow> flt \<times> facts" where
  "clamped_part key score_key hi base slope v = (case v of
     Some x \<Rightarrow> (let s = clamp 0 hi (xadd (Fin base) (xmul x (lit slope)))
       in (s, [rounded key x, rounded score_key s]))
   | None \<Rightarrow> (Fin base, [(score_key, FNum (Fin base))]))"

definition calculate_quality_score :: "pandas \<Rightarrow> flt option \<Rightarrow> flt option \<Rightarrow> flt option \<Rightarrow> price_frame \<Rightarrow> flt \<times> facts" where
  "calculate_quality_score P roe sales_growth eps_growth df =
     (let (s_roe, f_roe) = clamped_part ''roe'' ''roe_score'' 10 5 (167/1000) roe;
          (s_sales, f_sales) = clamped_part ''sales_growth'' ''sales_score'' (7/2) (7/4) (875/10000) sales_growth;
          (s_eps, f_eps) = clamped_part ''eps_growth'' ''eps_score'' (7/2) (7/4) (58/1000) eps_growth;
          (s_st, f_st) = stability_part P df
      in (add_scores [s_roe, add_scores [s_sales, s_eps], s_st], f_roe @ f_sales @ f_eps @ f_st))"

section \<open>Value\<close>

definition positive :: "flt option \<Rightarrow> flt option" where
  "positive v = (case v of Some x \<Rightarrow> if xlt (Fin 0) x then v else None | None \<Rightarrow> None)"

definition calculate_value_score :: "flt option \<Rightarrow> flt option \<Rightarrow> flt \<times> facts" where
  "calculate_value_score pbr per =
     (let (s_pbr, f_pbr) = (case positive pbr of
            Some x \<Rightarrow> (let s = clamp 0 (15/2) (xsub (Fin (15/2)) (xmul (xsub x (Fin (1/2))) (Fin 3)))
              in (s, [rounded ''pbr'' x, rounded ''pbr_score'' s]))
          | None \<Rightarrow> (Fin (15/4), [(''pbr_score'', FNum (Fin (15/4))), (''pbr_note'', FNote)]));
          (s_per, f_per) = (case positive per of
            Some x \<Rightarrow> (let s = clamp 0 (15/2) (xsub (Fin (15/2)) (xmul (xsub x (Fin 5)) (lit (3/10))))
              in (s, [rounded ''per'' x, rounded ''per_score'' s]))
          | None \<Rightarrow> (Fin 0, [(''per_score'', FInt 0), (''per_note'', FNote)]))
      in (add_scores [s_pbr, s_per], f_pbr @ f_per))"

section \<open>Technical\<close>

definition volume_part :: "pandas \<Rightarrow> price_frame \<Rightarrow> flt \<times> facts" where
  "volume_part P df = (case volume_ratio P df of
     Some r \<Rightarrow> (let s = clamp 0 4 (xmul (xsub r (Fin (1/2))) (lit (16/10)))
       in (s, [rounded ''volume_ratio'' r, rounded ''volume_score'' s]))
   | None \<Rightarrow> (Fin 2, [(''volume_score'', FInt 2)]))"

text \<open>The momentum of the last month in the details of the momentum factor; absent counts as 0.\<close>

definition momentum_1m_positive :: "facts option \<Rightarrow> bool" where
  "momentum_1m_positive details = (case details of
     None \<Rightarrow> False
   | Some fs \<Rightarrow> fs \<noteq> [] \<and> (case fact_num fs ''relative_momentum_1m'' of
         Some x \<Rightarrow> xlt (Fin 0) x
       | None \<Rightarrow> (case fact_num fs ''absolute_momentum_1m'' of Some x \<Rightarrow> xlt (Fin 0) x | None \<Rightarrow> False)))"

definition exempted_score :: "cfg \<Rightarrow> flt option \<Rightarrow> facts option \<Rightarrow> flt \<Rightarrow> flt \<Rightarrow> flt \<times> facts" where
  "exempted_score C momentum details rsi rsi_score =
     (let threshold = Fin (cf_float C ''RECON_MOMENTUM_MIN'' 20);
          strong = (case momentum of Some m \<Rightarrow> xle threshold m | None \<Rightarrow> False);
          up = momentum_1m_positive details
      in if strong \<and> xle (Fin 50) rsi \<and> xlt rsi (Fin 60) \<and> up
         then (py_max rsi_score (Fin (3/2)), [(''rsi_penalty_exempted'', FFlag True),
           (''rsi_penalty_exempted_reason'', FNote), rounded ''rsi_score_before_exempt'' rsi_score])
         else if strong \<and> xle (Fin 50) rsi \<and> xle rsi (Fin 70)
         then (rsi_score, (''rsi_penalty_exempted'', FFlag False) #
           (if xle (Fin 60) rsi \<or> \<not> up then [(''rsi_recon_blocked_reason'', FNote)] else []))
         else (rsi_score, []))"

definition rsi_part ::
  "cfg \<Rightarrow> string \<Rightarrow> flt option \<Rightarrow> facts option \<Rightarrow> flt option \<Rightarrow> flt \<times> facts" where
  "rsi_part C sector momentum details rsi_value = (case rsi_value of
     Some rsi \<Rightarrow>
       (let oversold = Fin (cf_float C ''BUY_RSI_OVERSOLD_THRESHOLD'' 30);
            (raw, f) = exempted_score C momentum details rsi (rsi_level_score oversold rsi);
            m = sector_multiplier sector;
            s = py_min (Fin 3) (xmul raw (Fin m))
        in (s, f @ [rounded ''rsi'' rsi, rounded ''rsi_score_raw'' raw, rounded ''rsi_score'' s,
             (''sector'', FText sector), (''sector_rsi_multiplier'', FNum (Fin m))]))
   | None \<Rightarrow> (Fin (3/2), [(''rsi_score'', FNum (Fin (3/2)))]))"

definition trend_facts :: "pandas \<Rightarrow> price_frame \<Rightarrow> facts" where
  "trend_facts P df = [(''golden_cross_5_20'', FFlag (check_golden_cross P df 5 20)),
     (''ma20_slope_5d'', if 25 \<le> frame_len df
        then (let ma20 = pd_rolling_mean P 20 (dp_close df) in FNum (xround 4 (xsub (at_end ma20 1) (at_end ma20 6))))
        else FNone)]"

text \<open>The score of the band has no upper limit: below the lower band it exceeds 3.\<close>

definition band_score :: "flt \<Rightarrow> flt" where
  "band_score position = py_max (Fin 0) (xsub (Fin 3) (xmul position (Fin 3)))"

definition band_part :: "pandas \<Rightarrow> price_frame \<Rightarrow> flt \<times> facts" where
  "band_part P df =
     (if 20 \<le> frame_len df
      then (let ma20 = at_end (pd_rolling_mean P 20 (dp_close df)) 1; std20 = at_end (pd_rolling_std P 20 (dp_close df)) 1;
                upper = xadd ma20 (xmul (Fin 2) std20); lower = xsub ma20 (xmul (Fin 2) std20)
            in if xlt lower upper
               then (let position = xdiv (xsub (at_end (dp_close df) 1) lower) (xsub upper lower);
                         s = band_score position
                     in (s, [rounded ''bb_position'' position, rounded ''bb_score'' s]))
               else (Fin (3/2), [(''bb_score'', FNum (Fin (3/2)))]))
      else (Fin (3/2), [(''bb_score'', FNum (Fin (3/2)))]))"

definition peak_penalty :: "flt \<Rightarrow> flt \<Rightarrow> rat" where
  "peak_penalty drawdown rsi = (if xlt (Fin (- 3)) drawdown \<and> xlt (Fin 70) rsi then - 3/2
     else if xlt (Fin (- 2)) drawdown \<and> xlt (Fin 65) rsi then - 1 else 0)"

definition drawdown_20 :: "price_frame \<Rightarrow> flt" where
  "drawdown_20 df = (let peak = col_max (last_n 20 (dp_high df))
     in xmul (xdiv (xsub (at_end (dp_close df) 1) peak) peak) (Fin 100))"

definition calculate_technical_score ::
  "rust_backend option \<Rightarrow> pandas \<Rightarrow> cfg \<Rightarrow> price_frame \<Rightarrow> string \<Rightarrow> flt option \<Rightarrow> facts option \<Rightarrow> flt \<times> facts" where
  "calculate_technical_score B P C df sector momentum details =
     (let (s_vol, f_vol) = volume_part P df;
          rsi = calculate_rsi B P df 14;
          (s_rsi, f_rsi) = rsi_part C sector momentum details rsi;
          (s_bb, f_bb) = band_part P df;
          sum3 = add_scores [s_vol, s_rsi, s_bb];
          fs = f_vol @ f_rsi @ trend_facts P df @ f_bb
      in case rsi of
           Some r \<Rightarrow> if 20 \<le> frame_len df
             then (let d = drawdown_20 df; penalty = peak_penalty d r
                   in if penalty < 0
                      then (py_max (Fin 0) (xadd sum3 (Fin penalty)), fs @ [(''peak_proximity_penalty'', FNum (Fin penalty)),
                        rounded ''drawdown_from_20d_peak'' d, (''peak_penalty_reason'', FNote)])
                      else (sum3, fs))
             else (sum3, fs)
         | None \<Rightarrow> (sum3, fs))"

section \<open>News statistics\<close>

record news_stats =
  ns_win_rate :: "rat option"
  ns_avg_return :: "rat option"
  ns_samples :: int
  ns_confidence :: string

text \<open>Mean sentiment of the last week and the number of stocks, if the query answers a row.\<close>

type_synonym sentiment_row = "(rat option \<times> int option) option"

definition fallback_scores :: "sentiment_row res option \<Rightarrow> flt \<times> flt \<times> facts" where
  "fallback_scores row = (case row of
     None \<Rightarrow> (Fin 2, Fin 4, [])
   | Some (Inl _) \<Rightarrow> (Fin 2, Fin 4, [])
   | Some (Inr r) \<Rightarrow> (case r of
       Some (avg, Some n) \<Rightarrow> if n \<noteq> 0 \<and> 5 \<le> n
         then (case avg of
             None \<Rightarrow> (Fin 2, Fin 4, [])
           | Some a \<Rightarrow> (let target = xmul (Fin a) (lit (8/10)); share = xdiv target (Fin 100)
               in (xmul share (Fin 7), xmul share (Fin 8), [(''news_stat_note'', FNote)])))
         else (Fin 2, Fin 4, [(''news_stat_note'', FNote)])
     | _ \<Rightarrow> (Fin 2, Fin 4, [(''news_stat_note'', FNote)])))"

definition win_rate_score :: "rat \<Rightarrow> int \<Rightarrow> flt" where
  "win_rate_score win_rate samples =
     (let x = xmul (xsub (Fin win_rate) (Fin (1/2))) (Fin 14);
          base = (if win_rate < 1/2 then py_max (Fin (- 3)) x else clamp 0 7 x)
      in xmul base (Fin (get_confidence_weight samples)))"

text \<open>
  With a win rate the variable \<open>stat_score\<close> is never assigned: the statement after the branches
  reads it and raises, and the factor answers its middle score.
\<close>

definition calculate_news_stat_score :: "news_stats \<Rightarrow> sentiment_row res option \<Rightarrow> flt \<Rightarrow> flt \<times> facts" where
  "calculate_news_stat_score stats row sentiment = factor_or 5 (
     let (before, stat, fallback, f) = (case ns_win_rate stats of
           Some w \<Rightarrow> (let s = win_rate_score w (ns_samples stats)
             in (add_scores [s], None, Fin 4, (if w < 1/2 then [(''reverse_signal_penalty'', FFlag True)] else []) @
                [(''news_win_rate'', FNum (xround 4 (Fin w))), (''news_sample_count'', FInt (ns_samples stats)),
                 (''news_confidence'', FText (ns_confidence stats)), rounded ''news_stat_score'' s,
                 (''confidence_weight'', FNum (Fin (get_confidence_weight (ns_samples stats))))]))
         | None \<Rightarrow> (case fallback_scores row of (stat, sent, f) \<Rightarrow> (Fin 0, Some stat, sent, f)))
     in case stat of
          None \<Rightarrow> Inl NameError
        | Some st \<Rightarrow> (let s = (if xlt (Fin 0) sentiment
                then (if xeq sentiment (Fin 50) then lit (64/10) else xmul (xdiv sentiment (Fin 100)) (Fin 8))
                else fallback)
            in Inr (py_max (Fin 0) (xadd (xadd before st) s),
                 f @ [(''news_win_rate'', FNone), (''news_sample_count'', FInt 0), (''news_confidence'', FText ''LOW''),
                   rounded ''news_stat_score'' st, (''confidence_weight'', FNum (Fin 0)),
                   (''current_sentiment'', FNum sentiment), rounded ''sentiment_score'' s,
                   (''is_reverse_signal'', FFlag False)])))"

section \<open>Supply and demand\<close>

definition foreign_part ::
  "int option \<Rightarrow> flt option \<Rightarrow> price_frame option \<Rightarrow> flt \<times> facts" where
  "foreign_part foreign_net_buy volume frame = (case foreign_net_buy of
     None \<Rightarrow> (Fin (7/2), [(''foreign_score'', FNum (Fin (7/2)))])
   | Some n \<Rightarrow>
       (let (s, f) = (case volume of
            Some v \<Rightarrow>
              (let ratio = xdiv (xint n) v;
                   s0 = clamp 0 7 (xadd (Fin (7/2)) (xmul (xdiv ratio (lit (5/100))) (Fin (7/2))));
                   f0 = [rounded ''foreign_ratio'' (xmul ratio (Fin 100)), (''normalize_method'', FText ''volume_ratio'')]
               in case long_enough 5 frame of
                    Some df \<Rightarrow> (let p5 = at_end (dp_close df) 5; r5 = xdiv (xsub (at_end (dp_close df) 1) p5) p5
                      in if xlt (lit (1/100)) ratio \<and> xlt r5 (Fin 0)
                         then (py_min (Fin 7) (xadd s0 (Fin 3)), f0 @ [(''foreign_dip_bonus'', FNum (Fin 3)),
                           rounded ''return_5d'' (xmul r5 (Fin 100))])
                         else (s0, f0))
                  | None \<Rightarrow> (s0, f0))
          | None \<Rightarrow> (clamp 0 7 (xadd (Fin (7/2)) (xmul (int_quotient n 1000000) (Fin (7/2)))),
              [(''normalize_method'', FText ''absolute'')]))
        in (s, f @ [(''foreign_net_buy'', FInt n), rounded ''foreign_score'' s])))"

definition institution_part :: "int option \<Rightarrow> flt option \<Rightarrow> flt \<times> facts" where
  "institution_part institution_net_buy volume = (case institution_net_buy of
     None \<Rightarrow> (Fin (5/2), [(''institution_score'', FNum (Fin (5/2)))])
   | Some n \<Rightarrow>
       (let (s, f) = (case volume of
            Some v \<Rightarrow> (let ratio = xdiv (xint n) v
              in (clamp 0 5 (xadd (Fin (5/2)) (xmul (xdiv ratio (lit (3/100))) (Fin (5/2)))),
                  [rounded ''institution_ratio'' (xmul ratio (Fin 100))]))
          | None \<Rightarrow> (clamp 0 5 (xadd (Fin (5/2)) (xmul (int_quotient n 500000) (Fin (5/2)))), []))
        in (s, f @ [(''institution_net_buy'', FInt n), rounded ''institution_score'' s])))"

definition holding_part :: "flt option \<Rightarrow> flt \<times> facts" where
  "holding_part ratio = (case ratio of
     Some r \<Rightarrow> (let s = py_min (Fin 3) (xmul (xdiv r (Fin 50)) (Fin 3))
       in (s, [rounded ''foreign_holding_ratio'' r, rounded ''holding_score'' s]))
   | None \<Rightarrow> (Fin (3/2), [(''holding_score'', FNum (Fin (3/2)))]))"

text \<open>The sign of the foreign flow of the last five days against the five days before.\<close>

definition flow_sums :: "pandas \<Rightarrow> investor_frame option \<Rightarrow> (flt \<times> flt) option" where
  "flow_sums P investors = (case investors of
     Some iv \<Rightarrow> if 10 \<le> investor_len iv
       then Some (pd_sum P (slice_end 10 5 (iv_foreign iv)), pd_sum P (last_n 5 (iv_foreign iv))) else None
   | None \<Rightarrow> None)"

definition flow_reversal :: "flt \<Rightarrow> flt \<Rightarrow> string option" where
  "flow_reversal prev recent = (if xlt (Fin 0) prev \<and> xlt recent (Fin 0) then Some ''SELL_TURN''
     else if xlt prev (Fin 0) \<and> xlt (Fin 0) recent then Some ''BUY_TURN'' else None)"

definition reversal_part :: "pandas \<Rightarrow> investor_frame option \<Rightarrow> flt \<times> facts" where
  "reversal_part P investors = (case flow_sums P investors of
     None \<Rightarrow> (Fin 0, [])
   | Some (prev, recent) \<Rightarrow> (case flow_reversal prev recent of
         None \<Rightarrow> (Fin 0, [])
       | Some turn \<Rightarrow> (let adj = Fin (if turn = ''SELL_TURN'' then - 2 else 3/2)
           in (adj, [(''flow_reversal'', FText turn), (''flow_reversal_adj'', FNum adj),
                (''flow_reversal_reason'', FNote)]))))"

text \<open>The integers are converted one after the other; a failure keeps those already stored.\<close>

definition sync_ints :: "(string \<times> flt) list \<Rightarrow> facts res \<times> facts" where
  "sync_ints ks = fold (\<lambda>(k, x) (r, fs). case r of
       Inl e \<Rightarrow> (Inl e, fs)
     | Inr _ \<Rightarrow> (case xtrunc x of Inl e \<Rightarrow> (Inl e, fs) | Inr n \<Rightarrow> (Inr [], fs @ [(k, FInt n)]))) ks (Inr [], [])"

definition smart_bonus :: "flt option \<Rightarrow> flt \<Rightarrow> flt \<times> facts" where
  "smart_bonus volume smart = (case volume of
     Some v \<Rightarrow> (let ratio = xdiv smart v
       in (if xlt (lit (2/100)) ratio then py_min (Fin 3) (xmul (xdiv ratio (lit (5/100))) (Fin 3)) else Fin 0,
           [rounded ''smart_money_5d_ratio'' (xmul ratio (Fin 100))]))
   | None \<Rightarrow> (if xlt (Fin 1000000) smart then py_min (Fin 3) (xmul (xdiv smart (Fin 5000000)) (Fin 3)) else Fin 0, []))"

definition smart_money_part :: "pandas \<Rightarrow> flt option \<Rightarrow> investor_frame option \<Rightarrow> flt \<times> facts" where
  "smart_money_part P volume investors = (case investors of
     Some iv \<Rightarrow> if 5 \<le> investor_len iv
       then (let f5 = pd_sum P (last_n 5 (iv_foreign iv)); i5 = pd_sum P (last_n 5 (iv_institution iv));
                 smart = xadd f5 i5;
                 (ok, fs) = sync_ints [(''smart_money_5d'', smart), (''foreign_5d'', f5), (''institution_5d'', i5)]
             in case ok of
                  Inl _ \<Rightarrow> (Fin 0, fs @ [(''smart_money_5d_error'', FNote)])
                | Inr _ \<Rightarrow> (let (b, fb) = smart_bonus volume smart
                    in (b, fs @ fb @ (if xlt (Fin 0) b then [rounded ''smart_money_bonus'' b] else []))))
       else (Fin 0, [(''smart_money_5d_note'', FNote)])
   | None \<Rightarrow> (Fin 0, [(''smart_money_5d_note'', FNote)]))"

definition calculate_supply_demand_score ::
  "pandas \<Rightarrow> int option \<Rightarrow> int option \<Rightarrow> flt option \<Rightarrow> flt option \<Rightarrow> price_frame option \<Rightarrow> investor_frame option
    \<Rightarrow> flt \<times> facts" where
  "calculate_supply_demand_score P foreign_net_buy institution_net_buy foreign_holding_ratio avg_volume frame investors =
     (let volume = volume_normalized avg_volume;
          (s_f, f_f) = foreign_part foreign_net_buy volume frame;
          (s_i, f_i) = institution_part institution_net_buy volume;
          (s_h, f_h) = holding_part foreign_holding_ratio;
          (s_r, f_r) = reversal_part P investors;
          (s_b, f_b) = smart_money_part P volume investors
      in (add_scores [s_f, s_i, s_h, s_r, s_b],
          f_f @ f_i @ f_h @ f_r @ f_b @ (case volume of Some v \<Rightarrow> [(''avg_volume'', FNum v)] | None \<Rightarrow> [])))"

section \<open>Compound conditions and timing\<close>

definition foreign_buying :: "int option \<Rightarrow> flt option \<Rightarrow> bool" where
  "foreign_buying foreign_net_buy avg_volume = (case foreign_net_buy of
     None \<Rightarrow> False
   | Some n \<Rightarrow> (case volume_normalized avg_volume of
         Some v \<Rightarrow> xlt (lit (1/100)) (xdiv (xint n) v)
       | None \<Rightarrow> 100000 < n))"

record compound =
  cp_bonus :: flt
  cp_met :: "string list"
  cp_rsi_oversold :: bool
  cp_foreign_buying :: bool

definition calculate_compound_condition_bonus :: "cfg \<Rightarrow> flt option \<Rightarrow> int option \<Rightarrow> flt option \<Rightarrow> compound" where
  "calculate_compound_condition_bonus C rsi foreign_net_buy avg_volume =
     (let threshold = Fin (cf_float C ''BUY_RSI_OVERSOLD_THRESHOLD'' 30);
          oversold = (case rsi of Some r \<Rightarrow> xlt r threshold | None \<Rightarrow> False);
          buying = foreign_buying foreign_net_buy avg_volume
      in \<lparr>cp_bonus = (if oversold \<and> buying then Fin 5 else Fin 0),
         cp_met = (if oversold \<and> buying then [''RSI_OVERSOLD_FOREIGN_BUY''] else []),
         cp_rsi_oversold = oversold, cp_foreign_buying = buying\<rparr>)"

text \<open>The signal and the recommended number of days; the reason text is left out.\<close>

definition calculate_news_timing_signal :: "string \<Rightarrow> flt \<Rightarrow> string \<times> int" where
  "calculate_news_timing_signal category sentiment = (case map_of NEWS_TIME_EFFECT category of
     None \<Rightarrow> (''NEUTRAL'', 5)
   | Some e \<Rightarrow> if xle (Fin 70) sentiment
       then (if ne_d5_win e < 1/2 \<and> fl (6/10) \<le> ne_d60_win e then (''WAIT_DIP'', 60)
             else if fl (55/100) \<le> ne_d5_win e then (''BUY_NOW'', 5) else (''NEUTRAL'', 20))
       else if xlt sentiment (Fin 30) then (''SELL_NEWS'', 0)
       else (''NEUTRAL'', 5))"

end
