(* ===== verification/Quant_Factors_V2.thy ===== *)
theory Quant_Factors_V2
  imports Quant_Factors
begin

text \<open>
  The six factors of the second version of \<open>QuantScorer\<close>, \<open>QUANT_SCORER_VERSION=v2\<close>, and the
  range of each of them. A financial trend is a dictionary of lists with missing values.
\<close>

section \<open>Momentum\<close>

definition momentum_6m_v2 :: "price_frame \<Rightarrow> price_frame option \<Rightarrow> (flt \<times> facts) res" where
  "momentum_6m_v2 df kospi =
     (if 120 \<le> frame_len df
      then res_bind (float_return (dp_close df) 120) (\<lambda>stock_return.
        res_bind (case long_enough 120 kospi of
            Some k \<Rightarrow> res_bind (float_return (dp_close k) 120) (\<lambda>kospi_return.
              let relative = xsub stock_return kospi_return
              in Inr (relative, [rounded ''relative_momentum_6m'' relative, (''momentum_type'', FText ''relative'')]))
          | None \<Rightarrow> Inr (stock_return, [rounded ''absolute_momentum_6m'' stock_return, (''momentum_type'', FText ''absolute'')]))
        (\<lambda>(relative, f). let s = clamp 0 5 (xadd (Fin (5/2)) (xmul relative (lit (83/1000))))
          in Inr (s, f @ [rounded ''momentum_6m_score'' s])))
      else Inr (Fin (5/2), [(''momentum_6m_score'', FNum (Fin (5/2))), (''momentum_6m_note'', FNote)]))"

definition bounce_score :: "flt \<Rightarrow> flt" where
  "bounce_score pct =
     (if xle (Fin 10) pct \<and> xle pct (Fin 30) then Fin 5
      else if xle (Fin 5) pct \<and> xlt pct (Fin 10) then xsub pct (Fin 5)
      else if xlt (Fin 30) pct \<and> xle pct (Fin 50)
      then py_max (Fin 0) (xsub (Fin 5) (xmul (xsub pct (Fin 30)) (Fin (1/4))))
      else Fin 0)"

text \<open>Both prices are Python floats; the low is tested before the division.\<close>

definition bounce_part :: "price_frame \<Rightarrow> flt \<times> facts" where
  "bounce_part df =
     (if 20 \<le> frame_len df
      then (let low = col_min (last_n 20 (dp_low df)); current = at_end (dp_close df) 1;
                pct = (if xlt (Fin 0) low then xmul (xsub (xdiv current low) (Fin 1)) (Fin 100) else Fin 0);
                s = bounce_score pct
            in (s, [rounded ''bounce_from_20d_low'' pct, rounded ''bounce_score'' s]))
      else (Fin 0, [(''bounce_score'', FNum (Fin 0))]))"

definition base_part :: "pandas \<Rightarrow> price_frame \<Rightarrow> flt \<times> facts" where
  "base_part P df =
     (if 40 \<le> frame_len df
      then (let close = dp_close df;
                volatility = xmul (pd_std P (dropna (pd_pct_change P (last_n 40 close)))) (Fin 100);
                ma20 = at_end (pd_rolling_mean P 20 close) 1; std20 = at_end (pd_rolling_std P 20 close) 1;
                upper = xadd ma20 (xmul (Fin 2) std20); current = at_end close 1;
                low_vol = xlt volatility (Fin 3); breakout = xlt upper current;
                s = (if low_vol \<and> breakout then Fin 5 else if low_vol \<and> xlt ma20 current then Fin (5/2)
                  else if breakout then Fin (3/2) else Fin 0)
            in (s, [rounded ''volatility_40d'' volatility, (''bb_breakout'', FFlag breakout),
                 rounded ''base_breakout_score'' s]))
      else (Fin 0, [(''base_breakout_score'', FNum (Fin 0))]))"

definition calculate_momentum_score_v2 :: "pandas \<Rightarrow> price_frame \<Rightarrow> price_frame option \<Rightarrow> flt \<times> facts" where
  "calculate_momentum_score_v2 P df kospi = factor_or 10 (res_bind (momentum_6m_v2 df kospi) (\<lambda>(s6, f6).
     let (s1, f1) = momentum_1m df kospi; (sb, fb) = bounce_part df; (sx, fx) = base_part P df
     in Inr (add_scores [s6, s1, sb, sx], f6 @ f1 @ fb @ fx)))"

section \<open>Quality\<close>

record financial_trend =
  ft_roe :: "flt option list option"
  ft_per :: "flt option list option"

definition present :: "flt option list \<Rightarrow> flt list" where "present xs = List.map_filter (\<lambda>x. x) xs"

definition roe_trend_part :: "financial_trend option \<Rightarrow> flt \<times> facts" where
  "roe_trend_part trend = (case (case trend of None \<Rightarrow> None | Some t \<Rightarrow> ft_roe t) of
     None \<Rightarrow> (NEUTRAL_ROE_TREND, [rounded ''roe_trend_score'' NEUTRAL_ROE_TREND])
   | Some values \<Rightarrow>
       (let roe = present values;
            (s, f) = (if 3 \<le> length roe
              then (let d1 = xsub (at_end roe 2) (at_end roe 3); d2 = xsub (at_end roe 1) (at_end roe 2)
                    in (if xlt (Fin 0) d2 \<and> xlt (Fin 0) d1 then py_min (Fin 8) (xadd (Fin 4) (xmul d2 (lit (8/10))))
                        else if xlt (Fin 0) d2 then py_min (Fin 5) (xadd (Fin 2) (xmul d2 (lit (6/10))))
                        else if xlt d2 (Fin 0) then py_max (Fin 0) (xadd (Fin 2) (xmul d2 (lit (4/10))))
                        else Fin 3,
                        [rounded ''roe_delta_recent'' d2, rounded ''roe_delta_prev'' d1]))
              else if 2 \<le> length roe
              then (let d = xsub (at_end roe 1) (at_end roe 2)
                    in (if xlt (Fin 0) d then py_min (Fin 6) (xadd (Fin 3) (xmul d (lit (6/10))))
                        else if xlt d (Fin 0) then py_max (Fin 0) (xadd (Fin 2) (xmul d (lit (4/10))))
                        else NEUTRAL_ROE_TREND,
                        [rounded ''roe_delta_recent'' d]))
              else (NEUTRAL_ROE_TREND, []))
        in (s, f @ [(''roe_trend_values'', FNums roe), rounded ''roe_trend_score'' s])))"

definition calculate_quality_score_v2 ::
  "pandas \<Rightarrow> flt option \<Rightarrow> flt option \<Rightarrow> price_frame \<Rightarrow> financial_trend option \<Rightarrow> flt \<times> facts" where
  "calculate_quality_score_v2 P roe eps_growth df trend =
     (let (s_roe, f_roe) = clamped_part ''roe'' ''roe_level_score'' 4 2 (67/1000) roe;
          (s_tr, f_tr) = roe_trend_part trend;
          (s_eps, f_eps) = clamped_part ''eps_growth'' ''eps_score'' 5 (5/2) (83/1000) eps_growth;
          (s_st, f_st) = stability_part P df
      in (add_scores [s_roe, s_tr, s_eps, s_st], f_roe @ f_tr @ f_eps @ f_st))"

section \<open>Value\<close>

text \<open>The historical mean is \<open>sum(...) / len(...)\<close> on Python floats, over two values at least.\<close>

definition per_discount_part :: "financial_trend option \<Rightarrow> flt \<times> facts" where
  "per_discount_part trend = (case (case trend of None \<Rightarrow> None | Some t \<Rightarrow> ft_per t) of
     None \<Rightarrow> (NEUTRAL_PER_HISTORICAL, [rounded ''per_discount_score'' NEUTRAL_PER_HISTORICAL])
   | Some values \<Rightarrow>
       (let per = filter (xlt (Fin 0)) (present values);
            (s, f) = (if 3 \<le> length per
              then (let hist = xdiv (add_scores (butlast per)) (xint (int (length per - 1)))
                    in if xlt (Fin 0) hist
                       then (let discount = xdiv (xsub hist (last per)) hist;
                                 s = clamp 0 5 (xmul discount (lit (167/10)))
                             in (s, [rounded ''per_hist_avg'' hist, (''per_discount_ratio'', FNum (xround 3 discount))]))
                       else (NEUTRAL_PER_HISTORICAL, []))
              else (NEUTRAL_PER_HISTORICAL, []))
        in (s, f @ [(''per_trend_values'', FNums per), rounded ''per_discount_score'' s])))"

definition peg_score :: "flt \<Rightarrow> flt" where
  "peg_score peg =
     (if xlt peg (Fin (1/2)) then Fin 5
      else if xlt peg (Fin 1) then xsub (Fin 5) (xmul (xsub peg (Fin (1/2))) (Fin 4))
      else if xlt peg (Fin 2) then xsub (Fin 3) (xmul (xsub peg (Fin 1)) (Fin 2))
      else py_max (Fin 0) (xsub (Fin 1) (xmul (xsub peg (Fin 2)) (Fin (1/2)))))"

definition peg_part :: "flt option \<Rightarrow> flt option \<Rightarrow> flt \<times> facts" where
  "peg_part per eps_growth = (case (positive per, eps_growth) of
     (Some p, Some g) \<Rightarrow> (let peg = xdiv p (py_max g (Fin 1)); s = peg_score peg
       in (s, [rounded ''peg_ratio'' peg, rounded ''peg_score'' s]))
   | _ \<Rightarrow> (NEUTRAL_PEG_LIKE, [rounded ''peg_score'' NEUTRAL_PEG_LIKE]))"

definition calculate_value_score_v2 ::
  "flt option \<Rightarrow> flt option \<Rightarrow> financial_trend option \<Rightarrow> flt option \<Rightarrow> flt \<times> facts" where
  "calculate_value_score_v2 pbr per trend eps_growth =
     (let (s_pbr, f_pbr) = (case positive pbr of
            Some x \<Rightarrow> (let s = clamp 0 5 (xsub (Fin 5) (xmul (xsub x (Fin (1/2))) (Fin 2)))
              in (s, [rounded ''pbr'' x, rounded ''pbr_score'' s]))
          | None \<Rightarrow> (Fin (5/2), [(''pbr_score'', FNum (Fin (5/2)))]));
          (s_per, f_per) = (case positive per of
            Some x \<Rightarrow> (let s = clamp 0 5 (xsub (Fin 5) (xmul (xsub x (Fin 5)) (lit (2/10))))
              in (s, [rounded ''per'' x, rounded ''per_score'' s]))
          | None \<Rightarrow> (Fin 0, [(''per_score'', FInt 0), (''per_note'', FNote)]));
          (s_d, f_d) = per_discount_part trend;
          (s_g, f_g) = peg_part per eps_growth
      in (add_scores [s_pbr, s_per, s_d, s_g], f_pbr @ f_per @ f_d @ f_g))"

section \<open>Technical\<close>

definition volume_part_v2 :: "pandas \<Rightarrow> price_frame \<Rightarrow> flt \<times> facts" where
  "volume_part_v2 P df = (case volume_ratio P df of
     Some r \<Rightarrow> (let s = clamp 0 3 (xmul (xsub r (Fin (1/2))) (lit (12/10)))
       in (s, [rounded ''volume_ratio'' r, rounded ''volume_score'' s]))
   | None \<Rightarrow> (Fin (3/2), [(''volume_score'', FNum (Fin (3/2)))]))"

definition rsi_part_v2 :: "cfg \<Rightarrow> string \<Rightarrow> flt option \<Rightarrow> flt \<times> facts" where
  "rsi_part_v2 C sector rsi_value = (case rsi_value of
     Some rsi \<Rightarrow>
       (let raw = rsi_level_score (Fin (cf_float C ''BUY_RSI_OVERSOLD_THRESHOLD'' 30)) rsi;
            s = py_min (Fin 3) (xmul raw (Fin (sector_multiplier sector)))
        in (s, [rounded ''rsi'' rsi, rounded ''rsi_score'' s, (''sector'', FText sector)]))
   | None \<Rightarrow> (Fin (3/2), [(''rsi_score'', FNum (Fin (3/2)))]))"

definition accumulation_score :: "flt \<Rightarrow> flt \<Rightarrow> flt" where
  "accumulation_score change ratio =
     (if xlt change (Fin (- 5)) \<and> xlt (lit (12/10)) ratio then Fin 4
      else if xlt change (Fin (- 3)) \<and> xlt (lit (11/10)) ratio then Fin 3
      else if xlt change (Fin 0) \<and> xlt (Fin 1) ratio then Fin 2
      else if xlt change (Fin (- 5)) \<and> xlt (lit (8/10)) ratio then Fin 1 else Fin 0)"

definition accumulation_part :: "pandas \<Rightarrow> price_frame \<Rightarrow> (flt \<times> facts) res" where
  "accumulation_part P df = (case dp_volume df of
     Some vol \<Rightarrow> if 40 \<le> frame_len df
       then res_bind (float_return (dp_close df) 20) (\<lambda>change.
         let past = pd_mean P (slice_end 40 20 vol);
             ratio = (if xlt (Fin 0) past then xdiv (pd_mean P (last_n 20 vol)) past else Fin 1);
             s = accumulation_score change ratio
         in Inr (s, [rounded ''price_change_20d'' change, rounded ''vol_ratio_20d'' ratio, rounded ''accumulation_score'' s]))
       else Inr (Fin 0, [(''accumulation_score'', FNum (Fin 0))])
   | None \<Rightarrow> Inr (Fin 0, [(''accumulation_score'', FNum (Fin 0))]))"

definition calculate_technical_score_v2 :: "pandas \<Rightarrow> cfg \<Rightarrow> price_frame \<Rightarrow> string \<Rightarrow> flt \<times> facts" where
  "calculate_technical_score_v2 P C df sector = factor_or 5 (
     let (s_vol, f_vol) = volume_part_v2 P df;
         (s_rsi, f_rsi) = rsi_part_v2 C sector (calculate_rsi_fallback P df 14)
     in res_bind (accumulation_part P df) (\<lambda>(s_acc, f_acc).
          Inr (add_scores [s_vol, s_rsi, s_acc], f_vol @ f_rsi @ f_acc)))"

section \<open>News\<close>

definition sentiment_momentum_score :: "flt option \<Rightarrow> flt" where
  "sentiment_momentum_score momentum = (case momentum of
     None \<Rightarrow> NEUTRAL_SENTIMENT_MOMENTUM
   | Some m \<Rightarrow> if xlt (Fin 30) m then Fin 6
       else if xlt (Fin 10) m then py_min (Fin 6) (xmul m (lit (3/10)))
       else if xlt (Fin 0) m then xadd (Fin 2) (xmul m (lit (1/10)))
       else if xlt (Fin (- 20)) m then py_max (Fin 1) (xadd (Fin 2) (xmul m (lit (5/100))))
       else Fin 0)"

definition calculate_news_score_v2 :: "flt \<Rightarrow> flt option \<Rightarrow> flt \<times> facts" where
  "calculate_news_score_v2 sentiment momentum =
     (let s1 = (if xlt (Fin 0) sentiment then xmul (xdiv sentiment (Fin 100)) (Fin 4) else Fin 2);
          s2 = sentiment_momentum_score momentum
      in (add_scores [s1, s2], [(''current_sentiment'', FNum sentiment), rounded ''sentiment_level_score'' s1] @
           (case momentum of Some m \<Rightarrow> [rounded ''sentiment_momentum'' m] | None \<Rightarrow> []) @
           [rounded ''sentiment_momentum_score'' s2]))"

section \<open>Supply and demand\<close>

definition net_buy_part ::
  "string \<Rightarrow> string \<Rightarrow> rat \<Rightarrow> rat \<Rightarrow> int \<Rightarrow> int option \<Rightarrow> flt option \<Rightarrow> flt \<times> facts" where
  "net_buy_part key score_key hi full shares net_buy volume = (case net_buy of
     None \<Rightarrow> (Fin (hi / 2), [(score_key, FNum (Fin (hi / 2)))])
   | Some n \<Rightarrow>
       (let s = clamp 0 hi (xadd (Fin (hi / 2)) (xmul (case volume of
              Some v \<Rightarrow> xdiv (xdiv (xint n) v) (lit full)
            | None \<Rightarrow> int_quotient n shares) (Fin (hi / 2))))
        in (s, [(key, FInt n), rounded score_key s])))"

text \<open>
  The handlers inside use a variable that the method does not have: what raises there leaves
  the factor with its middle score.
\<close>

definition reversal_part_v2 :: "pandas \<Rightarrow> investor_frame option \<Rightarrow> (flt \<times> facts) res" where
  "reversal_part_v2 P investors = (case flow_sums P investors of
     None \<Rightarrow> Inr (Fin 0, [])
   | Some (prev, recent) \<Rightarrow> (case flow_reversal prev recent of
         None \<Rightarrow> Inr (Fin 0, [(''flow_reversal_adj'', FNum (Fin 0))])
       | Some turn \<Rightarrow> (case (xtrunc prev, xtrunc recent) of
             (Inr p, Inr r) \<Rightarrow> (let adj = Fin (if turn = ''SELL_TURN'' then - 3 else 3)
               in Inr (adj, [(''flow_reversal'', FText turn), (''flow_reversal_adj'', FNum adj),
                    (''flow_prev_5d'', FInt p), (''flow_recent_5d'', FInt r)]))
           | _ \<Rightarrow> Inl NameError)))"

definition ratio_trend_score :: "flt option \<Rightarrow> flt" where
  "ratio_trend_score trend = (case trend of
     None \<Rightarrow> NEUTRAL_FOREIGN_RATIO_TREND
   | Some t \<Rightarrow> if xlt (Fin 1) t then Fin 5
       else if xlt (lit (3/10)) t then xmul t (lit (33/10))
       else if xlt t (Fin (- 1)) then Fin 0 else Fin 1)"

definition sync_part :: "pandas \<Rightarrow> investor_frame option \<Rightarrow> (flt \<times> facts) res" where
  "sync_part P investors = (case investors of
     Some iv \<Rightarrow> if 5 \<le> investor_len iv
       then (let f = pd_sum P (last_n 5 (iv_foreign iv)); i = pd_sum P (last_n 5 (iv_institution iv));
                 ind = (case iv_individual iv of Some xs \<Rightarrow> Some (pd_sum P (last_n 5 xs)) | None \<Rightarrow> None)
             in if xlt (Fin 0) f \<and> xlt (Fin 0) i
                then (case sync_ints ([(''sync_foreign_5d'', f), (''sync_institution_5d'', i)] @
                      (case ind of Some x \<Rightarrow> [(''sync_individual_5d'', x)] | None \<Rightarrow> [])) of
                    (Inl _, _) \<Rightarrow> Inl NameError
                  | (Inr _, fs) \<Rightarrow> (let s = (case ind of Some x \<Rightarrow> if xlt x (Fin 0) then Fin 4 else Fin 3 | None \<Rightarrow> Fin 3)
                      in Inr (s, (''smart_money_sync'', FFlag True) # fs @ [rounded ''sync_score'' s])))
                else Inr (Fin 0, [(''sync_score'', FNum (Fin 0))]))
       else Inr (Fin 0, [(''sync_score'', FNum (Fin 0))])
   | None \<Rightarrow> Inr (Fin 0, [(''sync_score'', FNum (Fin 0))]))"

definition calculate_supply_demand_score_v2 ::
  "pandas \<Rightarrow> int option \<Rightarrow> int option \<Rightarrow> flt option \<Rightarrow> investor_frame option \<Rightarrow> flt option \<Rightarrow> flt \<times> facts" where
  "calculate_supply_demand_score_v2 P foreign_net_buy institution_net_buy avg_volume investors trend = factor_or 10 (
     let volume = volume_normalized avg_volume;
         (s_f, f_f) = net_buy_part ''foreign_net_buy'' ''foreign_score'' 5 (5/100) 1000000 foreign_net_buy volume;
         (s_i, f_i) = net_buy_part ''institution_net_buy'' ''institution_score'' 3 (3/100) 500000 institution_net_buy volume;
         ratio_fact = (case (foreign_net_buy, volume) of
           (Some n, Some v) \<Rightarrow> [rounded ''foreign_ratio'' (xmul (xdiv (xint n) v) (Fin 100))] | _ \<Rightarrow> [])
     in res_bind (reversal_part_v2 P investors) (\<lambda>(s_r, f_r).
        let s_t = ratio_trend_score trend;
            f_t = (case trend of Some t \<Rightarrow> [(''foreign_ratio_trend'', FNum (xround 3 t))] | None \<Rightarrow> [])
              @ [rounded ''ratio_trend_score'' s_t]
        in res_bind (sync_part P investors) (\<lambda>(s_s, f_s).
             Inr (py_max (Fin 0) (add_scores [s_f, s_i, s_r, s_t, s_s]), ratio_fact @ f_f @ f_i @ f_r @ f_t @ f_s))))"

section \<open>Ranges\<close>

lemma fl_nums [simp]: "numeral n \<le> (2 ^ 53 :: int) \<Longrightarrow> fl (numeral n) = numeral n"
  by (rule fl_numeral)

lemma momentum_1m_range: "between 0 5 (fst (momentum_1m df kospi))"
  by (auto simp: momentum_1m_def Let_def between_clamp split: option.splits)

lemma momentum_6m_v2_range: "momentum_6m_v2 df kospi = Inr (s, f) \<Longrightarrow> between 0 5 s"
  by (auto simp: momentum_6m_v2_def res_bind_Inr_iff Let_def between_clamp split: if_splits)

lemma bounce_range: "between 0 5 (bounce_score pct)"
proof -
  consider (a) "xle (Fin 5) pct" "xlt pct (Fin 10)" | (b) "xlt (Fin 30) pct" "xle pct (Fin 50)"
    | (c) "\<not> (xle (Fin 5) pct \<and> xlt pct (Fin 10))" "\<not> (xlt (Fin 30) pct \<and> xle pct (Fin 50))" by blast
  then show ?thesis
  proof cases
    case a
    then obtain p where "pct = Fin p" "5 \<le> p" "p < 10" by (cases pct) (auto simp: xle_def)
    then show ?thesis by (auto simp: bounce_score_def xle_def xsub_def intro!: between_rnd)
  next
    case b
    then obtain p where p: "pct = Fin p" "30 < p" "p \<le> 50" by (cases pct) (auto simp: xle_def)
    then have "between 0 20 (xsub pct (Fin 30))" by (auto simp: xsub_def intro!: between_rnd)
    then have "between 0 (20 * (1/4)) (xmul (xsub pct (Fin 30)) (Fin (1/4)))" by (rule between_mul) simp_all
    then have "between (5 - 5) (5 - 0) (xsub (Fin 5) (xmul (xsub pct (Fin 30)) (Fin (1/4))))" by (intro between_sub) simp_all
    then have "between 0 5 (py_max (Fin 0) (xsub (Fin 5) (xmul (xsub pct (Fin 30)) (Fin (1/4)))))"
      by (intro max_atmost) (auto elim: between_atmost)
    with p show ?thesis by (simp add: bounce_score_def xle_def)
  next
    case c
    then show ?thesis unfolding bounce_score_def by (simp only: c if_False) simp
  qed
qed

lemma base_range: "between 0 5 (fst (base_part P df))"
  by (simp add: base_part_def Let_def)

lemma add4:
  assumes "between 0 (of_int a) p" "between 0 (of_int b) q" "between 0 (of_int c) r" "between 0 (of_int d) s"
    "0 \<le> a" "0 \<le> b" "0 \<le> c" "0 \<le> d" "a + b + c + d \<le> 1000"
  shows "between 0 (of_int (a + b + c + d)) (add_scores [p, q, r, s])"
  using between_add_scores [of "[(0, a), (0, b), (0, c), (0, d)]" "[p, q, r, s]"] assms by (simp add: add.assoc)

lemma add3:
  assumes "between 0 (of_int a) p" "between 0 (of_int b) q" "between 0 (of_int c) r"
    "0 \<le> a" "0 \<le> b" "0 \<le> c" "a + b + c \<le> 1000"
  shows "between 0 (of_int (a + b + c)) (add_scores [p, q, r])"
  using between_add_scores [of "[(0, a), (0, b), (0, c)]" "[p, q, r]"] assms by (simp add: add.assoc)

lemma momentum_v2_range: "between 0 20 (fst (calculate_momentum_score_v2 P df kospi))"
proof (cases "momentum_6m_v2 df kospi")
  case (Inr x)
  then obtain s f where x: "momentum_6m_v2 df kospi = Inr (s, f)" by (cases x) simp
  obtain sb fb where b: "bounce_part df = (sb, fb)" by fastforce
  have sb: "between 0 5 sb" using b bounce_range by (auto simp: bounce_part_def Let_def split: if_splits)
  show ?thesis
    using add4 [of 5 s 5 "fst (momentum_1m df kospi)" 5 sb 5 "fst (base_part P df)"]
      momentum_6m_v2_range [OF x] momentum_1m_range base_range sb
    by (simp add: calculate_momentum_score_v2_def factor_or_def x b case_prod_beta Let_def)
qed (simp add: calculate_momentum_score_v2_def factor_or_def)

lemma clamped_part_range:
  "0 \<le> base \<Longrightarrow> base \<le> hi \<Longrightarrow> between 0 hi (fst (clamped_part k sk hi base slope v))"
  by (auto simp: clamped_part_def Let_def between_clamp split: option.splits)

lemma lit_pos: "0 \<le> q \<Longrightarrow> 0 \<le> fl q"
  by (rule fl_nonneg)

lemma raised_range:
  assumes "xlt (Fin 0) d" "0 \<le> b" "0 \<le> q" "b \<le> c" "fl b = b" "b \<le> 100"
  shows "between 0 c (py_min (Fin c) (xadd (Fin b) (xmul d (lit q))))"
proof -
  have "atleast 0 d" using assms(1) by (cases d) auto
  then have "atleast 0 (xmul d (lit q))" unfolding lit_def using assms(3) by (intro atleast_mul lit_pos)
  then have "atleast (b + 0) (xadd (Fin b) (xmul d (lit q)))" using assms by (intro atleast_add) auto
  then have "between b c (py_min (Fin c) (xadd (Fin b) (xmul d (lit q))))" using assms by (intro min_atleast) auto
  then show ?thesis using assms(2) by (rule between_weaken) auto
qed

lemma lowered_range:
  assumes "xlt d (Fin 0)" "0 \<le> b" "0 \<le> q" "fl b = b" "b \<le> 100" "c \<le> b"
  shows "between c b (py_max (Fin c) (xadd (Fin b) (xmul d (lit q))))"
proof -
  have "atmost 0 d" using assms(1) by (cases d) auto
  then have "atmost 0 (xmul d (lit q))" unfolding lit_def using assms(3) by (intro atmost_mul lit_pos)
  then have "atmost (b + 0) (xadd (Fin b) (xmul d (lit q)))" using assms by (intro atmost_add) auto
  then show ?thesis using assms by (intro max_atmost) auto
qed

lemma roe_trend_range: "between 0 8 (fst (roe_trend_part trend))"
proof -
  have up: "between 0 8 (py_min (Fin 8) (xadd (Fin 4) (xmul d (lit (8/10)))))"
    "between 0 8 (py_min (Fin 5) (xadd (Fin 2) (xmul d (lit (6/10)))))"
    "between 0 8 (py_min (Fin 6) (xadd (Fin 3) (xmul d (lit (6/10)))))" if "xlt (Fin 0) d" for d
    by (rule between_weaken [OF raised_range [OF that]]; simp)+
  have down: "between 0 8 (py_max (Fin 0) (xadd (Fin 2) (xmul d (lit (4/10)))))" if "xlt d (Fin 0)" for d
    using lowered_range [OF that, of 2 "4/10" 0] by (auto elim: between_weaken)
  show ?thesis
    by (auto simp: roe_trend_part_def Let_def NEUTRAL_ROE_TREND_def intro!: up [simplified] down [simplified] split: option.splits)
qed

lemma quality_v2_range: "std_ok P \<Longrightarrow> between 0 20 (fst (calculate_quality_score_v2 P roe eps df trend))"
  using add4 [of 4 "fst (clamped_part ''roe'' ''roe_level_score'' 4 2 (67/1000) roe)" 8 "fst (roe_trend_part trend)"
      5 "fst (clamped_part ''eps_growth'' ''eps_score'' 5 (5/2) (83/1000) eps)" 3 "fst (stability_part P df)"]
    clamped_part_range [of 2 4] clamped_part_range [of "5/2" 5] roe_trend_range stability_range
  by (simp add: calculate_quality_score_v2_def case_prod_beta)

lemma peg_range: "between 0 5 (peg_score peg)"
proof -
  consider (a) "\<not> xlt peg (Fin (1/2))" "xlt peg (Fin 1)" | (b) "\<not> xlt peg (Fin 1)" "xlt peg (Fin 2)"
    | (c) "\<not> xlt peg (Fin 2)" | (d) "xlt peg (Fin (1/2))" by blast
  then show ?thesis
  proof cases
    case a
    then obtain p where p: "peg = Fin p" "1/2 \<le> p" "p < 1" by (cases peg) auto
    then have "between 0 (1/2) (xsub peg (Fin (1/2)))" by (auto simp: xsub_def intro!: between_rnd)
    then have "between 0 (1/2 * 4) (xmul (xsub peg (Fin (1/2))) (Fin 4))" by (rule between_mul) simp_all
    then have "between (5 - 2) (5 - 0) (xsub (Fin 5) (xmul (xsub peg (Fin (1/2))) (Fin 4)))" by (intro between_sub) simp_all
    with p show ?thesis by (auto simp: peg_score_def elim: between_weaken)
  next
    case b
    then obtain p where p: "peg = Fin p" "1 \<le> p" "p < 2" by (cases peg) auto
    then have "between 0 1 (xsub peg (Fin 1))" by (auto simp: xsub_def intro!: between_rnd)
    then have "between 0 (1 * 2) (xmul (xsub peg (Fin 1)) (Fin 2))" by (rule between_mul) simp_all
    then have "between (3 - 2) (3 - 0) (xsub (Fin 3) (xmul (xsub peg (Fin 1)) (Fin 2)))" by (intro between_sub) simp_all
    with p show ?thesis by (auto simp: peg_score_def elim: between_weaken)
  next
    case c
    have "atleast (2 - 2) (xsub peg (Fin 2))" using c by (intro atleast_sub) (auto simp: atleast_def)
    then have "atleast 0 (xmul (xsub peg (Fin 2)) (Fin (1/2)))" by (intro atleast_mul) simp_all
    then have "atmost (1 - 0) (xsub (Fin 1) (xmul (xsub peg (Fin 2)) (Fin (1/2))))" by (intro atmost_sub) auto
    then have "between 0 1 (py_max (Fin 0) (xsub (Fin 1) (xmul (xsub peg (Fin 2)) (Fin (1/2)))))" by (intro max_atmost) auto
    moreover have "\<not> xlt peg (Fin (1/2))" "\<not> xlt peg (Fin 1)" using c by (cases peg; auto)+
    ultimately show ?thesis using c by (auto simp: peg_score_def elim: between_weaken)
  qed (simp add: peg_score_def)
qed

lemma value_v2_range: "between 0 20 (fst (calculate_value_score_v2 pbr per trend eps))"
proof -
  have d: "between 0 5 (fst (per_discount_part trend))"
    by (auto simp: per_discount_part_def Let_def NEUTRAL_PER_HISTORICAL_def between_clamp split: option.splits)
  have g: "between 0 5 (fst (peg_part per eps))"
    by (auto simp: peg_part_def Let_def NEUTRAL_PEG_LIKE_def peg_range split: option.splits)
  obtain sb fb where b: "(case positive pbr of
            Some x \<Rightarrow> (let s = clamp 0 5 (xsub (Fin 5) (xmul (xsub x (Fin (1/2))) (Fin 2)))
              in (s, [rounded ''pbr'' x, rounded ''pbr_score'' s]))
          | None \<Rightarrow> (Fin (5/2), [(''pbr_score'', FNum (Fin (5/2)))])) = (sb, fb)" by fastforce
  obtain sp fp where p: "(case positive per of
            Some x \<Rightarrow> (let s = clamp 0 5 (xsub (Fin 5) (xmul (xsub x (Fin 5)) (lit (2/10))))
              in (s, [rounded ''per'' x, rounded ''per_score'' s]))
          | None \<Rightarrow> (Fin 0, [(''per_score'', FInt 0), (''per_note'', FNote)])) = (sp, fp)" by fastforce
  have "between 0 5 sb" "between 0 5 sp" using b p by (auto simp: Let_def between_clamp split: option.splits)
  with add4 [of 5 sb 5 sp 5 "fst (per_discount_part trend)" 5 "fst (peg_part per eps)"] d g show ?thesis
    by (simp add: calculate_value_score_v2_def b p case_prod_beta)
qed

lemma add2:
  assumes "between 0 (of_int a) p" "between 0 (of_int b) q" "0 \<le> a" "0 \<le> b" "a + b \<le> 1000"
  shows "between 0 (of_int (a + b)) (add_scores [p, q])"
  using between_add_scores [of "[(0, a), (0, b)]" "[p, q]"] assms by simp

text \<open>The threshold of the RSI is the setting \<open>BUY_RSI_OVERSOLD_THRESHOLD\<close>, 30 if unset.\<close>

definition oversold_ok :: "cfg \<Rightarrow> bool" where
  "oversold_ok C \<longleftrightarrow> 0 \<le> cf_float C ''BUY_RSI_OVERSOLD_THRESHOLD'' 30 \<and> cf_float C ''BUY_RSI_OVERSOLD_THRESHOLD'' 30 \<le> 49"

lemma volume_part_v2_range: "between 0 3 (fst (volume_part_v2 P df))"
  by (auto simp: volume_part_v2_def Let_def between_clamp split: option.splits)

lemma rsi_part_v2_range: "oversold_ok C \<Longrightarrow> between 0 3 (fst (rsi_part_v2 C sector v))"
  unfolding oversold_ok_def
  by (auto simp: rsi_part_v2_def Let_def sector_multiplier_nonneg rsi_level_atleast
      intro!: min_atleast atleast_mul split: option.splits)

lemma accumulation_range: "accumulation_part P df = Inr (s, f) \<Longrightarrow> between 0 4 s"
  by (auto simp: accumulation_part_def accumulation_score_def res_bind_Inr_iff Let_def
      split: option.splits if_splits)

lemma technical_v2_range:
  "oversold_ok C \<Longrightarrow> between 0 10 (fst (calculate_technical_score_v2 P C df sector))"
proof (cases "accumulation_part P df")
  case (Inr x)
  assume "oversold_ok C"
  obtain s f where x: "accumulation_part P df = Inr (s, f)" using Inr by (cases x) simp
  from add3 [of 3 "fst (volume_part_v2 P df)" 3 "fst (rsi_part_v2 C sector (calculate_rsi_fallback P df 14))" 4 s]
    volume_part_v2_range rsi_part_v2_range [OF \<open>oversold_ok C\<close>] accumulation_range [OF x]
  show ?thesis
    by (simp add: calculate_technical_score_v2_def factor_or_def x case_prod_beta Let_def)
qed (simp add: calculate_technical_score_v2_def factor_or_def case_prod_beta Let_def)

lemma sentiment_momentum_range: "between 0 6 (sentiment_momentum_score momentum)"
proof (cases momentum)
  case (Some m)
  have hi: "between 0 6 (py_min (Fin 6) (xmul m (lit (3/10))))" if "xlt (Fin 10) m"
  proof -
    have "atleast 0 m" using that by (cases m) auto
    then show ?thesis unfolding lit_def by (intro min_atleast atleast_mul lit_pos) auto
  qed
  have mid: "between 0 6 (xadd (Fin 2) (xmul m (lit (1/10))))" if "xlt (Fin 0) m" "\<not> xlt (Fin 10) m"
  proof -
    from that obtain r where "m = Fin r" "0 < r" "r \<le> 10" by (cases m) auto
    then have "between 0 10 m" by simp
    moreover have "between 0 (1/8) (lit (1/10))" by code_simp
    ultimately have "between 0 (10 * (1/8)) (xmul m (lit (1/10)))" by (rule between_mul) simp_all
    then have "between 0 2 (xmul m (lit (1/10)))" by (rule between_weaken) simp_all
    then have "between (2 + 0) (2 + 2) (xadd (Fin 2) (xmul m (lit (1/10))))" by (intro between_add) auto
    then show ?thesis by (rule between_weaken) simp_all
  qed
  have low: "between 0 6 (py_max (Fin 1) (xadd (Fin 2) (xmul m (lit (5/100)))))" if "\<not> xlt (Fin 0) m"
  proof -
    have "atmost 0 m" using that by (auto simp: atmost_def)
    then have "atmost 0 (xmul m (lit (5/100)))" unfolding lit_def by (intro atmost_mul lit_pos) auto
    then have "atmost (2 + 0) (xadd (Fin 2) (xmul m (lit (5/100))))" by (intro atmost_add) auto
    then have "between 1 2 (py_max (Fin 1) (xadd (Fin 2) (xmul m (lit (5/100)))))" by (intro max_atmost) auto
    then show ?thesis by (rule between_weaken) simp_all
  qed
  show ?thesis using Some hi mid low unfolding sentiment_momentum_score_def by auto
qed (simp add: sentiment_momentum_score_def NEUTRAL_SENTIMENT_MOMENTUM_def)

lemma news_v2_range:
  assumes "atmost 100 sentiment"
  shows "between 0 10 (fst (calculate_news_score_v2 sentiment momentum))"
proof -
  have "between 0 4 (xmul (xdiv sentiment (Fin 100)) (Fin 4))" if pos: "xlt (Fin 0) sentiment"
  proof -
    from pos assms obtain r where "sentiment = Fin r" "0 < r" "r \<le> 100" by (cases sentiment) auto
    then have "between 0 1 (xdiv sentiment (Fin 100))" by (auto intro!: between_rnd)
    then have "between 0 (1 * 4) (xmul (xdiv sentiment (Fin 100)) (Fin 4))" by (rule between_mul) simp_all
    then show ?thesis by simp
  qed
  then have "between 0 4 (if xlt (Fin 0) sentiment then xmul (xdiv sentiment (Fin 100)) (Fin 4) else Fin 2)" by simp
  with add2 [of 4 "if xlt (Fin 0) sentiment then xmul (xdiv sentiment (Fin 100)) (Fin 4) else Fin 2"
      6 "sentiment_momentum_score momentum"] sentiment_momentum_range
  show ?thesis by (simp add: calculate_news_score_v2_def Let_def)
qed

lemma net_buy_range: "0 \<le> hi \<Longrightarrow> between 0 hi (fst (net_buy_part k sk hi full shares n v))"
  by (auto simp: net_buy_part_def Let_def between_clamp split: option.splits)

lemma reversal_v2_range: "reversal_part_v2 P investors = Inr (s, f) \<Longrightarrow> between (- 3) 3 s"
  by (auto simp: reversal_part_v2_def Let_def split: option.splits sum.splits if_splits)

lemma ratio_trend_range: "between 0 5 (ratio_trend_score trend)"
proof (cases trend)
  case (Some t)
  have "between 0 5 (xmul t (lit (33/10)))" if "xlt (lit (3/10)) t" "\<not> xlt (Fin 1) t"
  proof -
    have "(0 :: rat) \<le> fl (3/10)" by code_simp
    with that obtain r where "t = Fin r" "0 \<le> r" "r \<le> 1" by (cases t) (auto simp: lit_def)
    then have "between 0 1 t" by simp
    moreover have "between 0 4 (lit (33/10))" by code_simp
    ultimately have "between 0 (1 * 4) (xmul t (lit (33/10)))" by (rule between_mul) simp_all
    then show ?thesis by (rule between_weaken) simp_all
  qed
  then show ?thesis using Some by (auto simp: ratio_trend_score_def)
qed (simp add: ratio_trend_score_def NEUTRAL_FOREIGN_RATIO_TREND_def)

lemma sync_range: "sync_part P investors = Inr (s, f) \<Longrightarrow> between 0 4 s"
  by (auto simp: sync_part_def Let_def split: option.splits sum.splits if_splits prod.splits)

lemma supply_v2_range: "between 0 20 (fst (calculate_supply_demand_score_v2 P fo inst vol investors trend))"
proof (cases "reversal_part_v2 P investors")
  case (Inr x)
  obtain sr fr where r: "reversal_part_v2 P investors = Inr (sr, fr)" using Inr by (cases x) simp
  show ?thesis
  proof (cases "sync_part P investors")
    case (Inr y)
    obtain ss fs where y: "sync_part P investors = Inr (ss, fs)" using Inr by (cases y) simp
    define sf si where "sf = fst (net_buy_part ''foreign_net_buy'' ''foreign_score'' 5 (5/100) 1000000 fo (volume_normalized vol))"
      and "si = fst (net_buy_part ''institution_net_buy'' ''institution_score'' 3 (3/100) 500000 inst (volume_normalized vol))"
    have "between (of_int (- 3)) (of_int 20) (add_scores [sf, si, sr, ratio_trend_score trend, ss])"
      using between_add_scores [of "[(0, 5), (0, 3), (- 3, 3), (0, 5), (0, 4)]" "[sf, si, sr, ratio_trend_score trend, ss]"]
        net_buy_range [of 5] net_buy_range [of 3] reversal_v2_range [OF r] ratio_trend_range sync_range [OF y]
      by (simp add: sf_def si_def)
    then have "atmost 20 (add_scores [sf, si, sr, ratio_trend_score trend, ss])" by (auto elim: between_atmost)
    then show ?thesis
      by (simp add: calculate_supply_demand_score_v2_def factor_or_def r y case_prod_beta Let_def sf_def si_def max_atmost)
  qed (simp add: calculate_supply_demand_score_v2_def factor_or_def r case_prod_beta Let_def)
qed (simp add: calculate_supply_demand_score_v2_def factor_or_def case_prod_beta Let_def)

end
