(* ===== verification/Quant_Scorer.thy ===== *)
theory Quant_Scorer
  imports Quant_Factors_V2 "HOL-Library.Multiset"
begin

text \<open>
  The class \<open>QuantScorer\<close> of \<open>shared/hybrid_scoring/quant_scorer.py\<close> around its factors: the
  loaders with their caches, the two total scores, the filter, the two writers and the risk tag.
  The database is a record of query answers; what a query raises is an answer too.
\<close>

section \<open>Results\<close>

datatype detail = DFacts facts | DFact fact

record score_result =
  sr_stock_code :: string
  sr_stock_name :: string
  sr_total :: flt
  sr_momentum :: flt
  sr_quality :: flt
  sr_value :: flt
  sr_technical :: flt
  sr_news :: flt
  sr_supply :: flt
  sr_matched :: "string list"
  sr_win_rate :: "rat option"
  sr_samples :: int
  sr_confidence :: string
  sr_news_win_rate :: "fact option"
  sr_news_samples :: "int option"
  sr_news_confidence :: string
  sr_rank :: nat
  sr_passed :: bool
  sr_valid :: bool
  sr_bonus :: flt
  sr_compound :: "string list"
  sr_sector :: string
  sr_long_hold :: bool
  sr_short_score :: flt
  sr_short_grade :: string
  sr_short_rec :: string
  sr_long_score :: flt
  sr_long_grade :: string
  sr_long_rec :: string
  sr_timing :: string
  sr_holding_days :: int
  sr_details :: "(string \<times> detail) list"

definition UNCLASSIFIED :: string where "UNCLASSIFIED = utf8 [235, 175, 184, 235, 182, 132, 235, 165, 152]"
definition WATCH :: string where "WATCH = utf8 [234, 180, 128, 235, 167, 157]"

text \<open>The defaults of the dataclass, with the fields that every caller passes at zero.\<close>

definition blank_result :: "string \<Rightarrow> string \<Rightarrow> score_result" where
  "blank_result code name = \<lparr>sr_stock_code = code, sr_stock_name = name, sr_total = Fin 0, sr_momentum = Fin 0,
     sr_quality = Fin 0, sr_value = Fin 0, sr_technical = Fin 0, sr_news = Fin 0, sr_supply = Fin 0, sr_matched = [],
     sr_win_rate = None, sr_samples = 0, sr_confidence = ''LOW'', sr_news_win_rate = None, sr_news_samples = None,
     sr_news_confidence = ''LOW'', sr_rank = 0,
     sr_passed = False, sr_valid = True, sr_bonus = Fin 0, sr_compound = [], sr_sector = UNCLASSIFIED,
     sr_long_hold = False, sr_short_score = Fin 0, sr_short_grade = ''C'', sr_short_rec = WATCH,
     sr_long_score = Fin 0, sr_long_grade = ''C'', sr_long_rec = WATCH, sr_timing = ''NEUTRAL'',
     sr_holding_days = 5, sr_details = []\<rparr>"

definition invalid_result :: "string \<Rightarrow> string \<Rightarrow> score_result" where
  "invalid_result code name = (blank_result code name)\<lparr>sr_valid := False, sr_details := [(''error'', DFact FNote)]\<rparr>"

section \<open>Loaders\<close>

record perf_condition =
  pc_key :: string
  pc_win_rate :: rat
  pc_samples :: int
  pc_confidence :: string

record factor_performance =
  fp_conditions :: "perf_condition list"
  fp_best_win_rate :: "rat option"
  fp_samples :: int
  fp_confidence :: string

text \<open>
  The answers of the queries: weights by regime, conditions by stock and holding days, news
  statistics by stock and category, the sector of a stock, the market's sentiment. A column of
  a row is missing when it is NULL.
\<close>

record quant_db =
  qd_weights :: "string \<Rightarrow> (string \<times> rat option) list res"
  qd_performance :: "string \<Rightarrow> int \<Rightarrow> (string \<times> rat option \<times> int option \<times> string option) list res"
  qd_news :: "string \<Rightarrow> string option \<Rightarrow> (rat option \<times> rat option \<times> int option \<times> string option) option res"
  qd_sector :: "string \<Rightarrow> string option option res"
  qd_sentiment :: "sentiment_row res"

record scorer_env =
  se_db :: "quant_db option"
  se_regime :: string
  se_cfg :: cfg
  se_cutoff :: rat
  se_holding :: int
  se_version :: string
  se_pandas :: pandas
  se_rust :: "rust_backend option"

record scorer_caches =
  ca_performance :: "(string \<times> factor_performance) list"
  ca_news :: "(string \<times> news_stats) list"
  ca_sector :: "(string \<times> string) list"

definition empty_caches :: scorer_caches where
  "empty_caches = \<lparr>ca_performance = [], ca_news = [], ca_sector = []\<rparr>"

text \<open>A missing or zero number, a missing or empty text.\<close>

definition num_or :: "'a::zero \<Rightarrow> 'a option \<Rightarrow> 'a" where
  "num_or d v = (case v of Some x \<Rightarrow> if x = 0 then d else x | None \<Rightarrow> d)"

definition text_or :: "string \<Rightarrow> string option \<Rightarrow> string" where
  "text_or d v = (case v of Some s \<Rightarrow> if s = [] then d else s | None \<Rightarrow> d)"

definition nonzero :: "rat option \<Rightarrow> rat option" where
  "nonzero v = (case v of Some x \<Rightarrow> if x = 0 then None else v | None \<Rightarrow> None)"

definition load_factor_weights :: "(string \<times> rat) list \<Rightarrow> scorer_env \<Rightarrow> (string \<times> rat) list" where
  "load_factor_weights weights E = (case se_db E of
     None \<Rightarrow> weights
   | Some db \<Rightarrow> (case qd_weights db (se_regime E) of
       Inl _ \<Rightarrow> weights
     | Inr rows \<Rightarrow> foldl (\<lambda>ws (k, w). case w of Some x \<Rightarrow> if k = [] then ws else dict_set k x ws | None \<Rightarrow> ws) weights rows))"

definition no_performance :: factor_performance where
  "no_performance = \<lparr>fp_conditions = [], fp_best_win_rate = None, fp_samples = 0, fp_confidence = ''LOW''\<rparr>"

text \<open>\<open>max(..., key=...)\<close>: the first of the largest.\<close>

definition best_condition :: "perf_condition list \<Rightarrow> perf_condition" where
  "best_condition cs = foldl (\<lambda>m c. if pc_win_rate m < pc_win_rate c then c else m) (hd cs) (tl cs)"

definition performance_of ::
  "(string \<times> rat option \<times> int option \<times> string option) list res \<Rightarrow> factor_performance" where
  "performance_of answer = (case answer of
     Inl _ \<Rightarrow> no_performance
   | Inr [] \<Rightarrow> no_performance
   | Inr rows \<Rightarrow>
       (let cs = map (\<lambda>(k, w, n, c). \<lparr>pc_key = k, pc_win_rate = num_or 0 w, pc_samples = num_or 0 n,
              pc_confidence = text_or ''LOW'' c\<rparr>) rows;
            best = best_condition cs
        in \<lparr>fp_conditions = cs, fp_best_win_rate = Some (pc_win_rate best), fp_samples = pc_samples best,
            fp_confidence = pc_confidence best\<rparr>))"

definition load_factor_performance :: "scorer_env \<Rightarrow> string \<Rightarrow> scorer_caches \<Rightarrow> factor_performance \<times> scorer_caches" where
  "load_factor_performance E code c = (case map_of (ca_performance c) code of
     Some p \<Rightarrow> (p, c)
   | None \<Rightarrow> (case se_db E of
       None \<Rightarrow> (no_performance, c)
     | Some db \<Rightarrow> (let p = performance_of (qd_performance db code (se_holding E))
         in (p, c\<lparr>ca_performance := dict_set code p (ca_performance c)\<rparr>))))"

definition no_news_stats :: news_stats where
  "no_news_stats = \<lparr>ns_win_rate = None, ns_avg_return = None, ns_samples = 0, ns_confidence = ''LOW''\<rparr>"

definition news_of :: "(rat option \<times> rat option \<times> int option \<times> string option) option res \<Rightarrow> news_stats" where
  "news_of answer = (case answer of
     Inr (Some (w, a, n, c)) \<Rightarrow> \<lparr>ns_win_rate = nonzero w, ns_avg_return = nonzero a, ns_samples = num_or 0 n,
       ns_confidence = text_or ''LOW'' c\<rparr>
   | _ \<Rightarrow> no_news_stats)"

definition news_key :: "string \<Rightarrow> string option \<Rightarrow> string" where
  "news_key code category = code @ '':'' @ text_or ''ALL'' category"

definition load_news_stats :: "scorer_env \<Rightarrow> string \<Rightarrow> string option \<Rightarrow> scorer_caches \<Rightarrow> news_stats \<times> scorer_caches" where
  "load_news_stats E code category c = (let key = news_key code category in case map_of (ca_news c) key of
     Some s \<Rightarrow> (s, c)
   | None \<Rightarrow> (case se_db E of
       None \<Rightarrow> (no_news_stats, c)
     | Some db \<Rightarrow> (let s = news_of (qd_news db code (if text_or [] category = [] then None else category))
         in (s, c\<lparr>ca_news := dict_set key s (ca_news c)\<rparr>))))"

definition get_stock_sector :: "scorer_env \<Rightarrow> string \<Rightarrow> scorer_caches \<Rightarrow> string \<times> scorer_caches" where
  "get_stock_sector E code c = (case map_of (ca_sector c) code of
     Some s \<Rightarrow> (s, c)
   | None \<Rightarrow> (case se_db E of
       None \<Rightarrow> (UNCLASSIFIED, c)
     | Some db \<Rightarrow> (let s = (case qd_sector db code of Inr (Some v) \<Rightarrow> text_or UNCLASSIFIED v | _ \<Rightarrow> UNCLASSIFIED)
         in (s, c\<lparr>ca_sector := dict_set code s (ca_sector c)\<rparr>))))"

text \<open>The sector passed in, or the stored one when that is missing or unclassified.\<close>

definition sector_used :: "scorer_env \<Rightarrow> string \<Rightarrow> string option \<Rightarrow> scorer_caches \<Rightarrow> string \<times> scorer_caches" where
  "sector_used E code sector c = (case sector of
     Some s \<Rightarrow> if s = [] \<or> s = UNCLASSIFIED then get_stock_sector E code c else (s, c)
   | None \<Rightarrow> get_stock_sector E code c)"

text \<open>The query of the market's sentiment is made when there is a connection.\<close>

definition sentiment_query :: "scorer_env \<Rightarrow> sentiment_row res option" where
  "sentiment_query E = map_option qd_sentiment (se_db E)"

section \<open>Total scores\<close>

record quant_input =
  qi_code :: string
  qi_name :: string
  qi_prices :: "price_frame option"
  qi_kospi :: "price_frame option"
  qi_roe :: "flt option"
  qi_sales :: "flt option"
  qi_eps :: "flt option"
  qi_pbr :: "flt option"
  qi_per :: "flt option"
  qi_sentiment :: flt
  qi_category :: "string option"
  qi_foreign :: "int option"
  qi_institution :: "int option"
  qi_holding :: "flt option"
  qi_sector :: "string option"
  qi_investors :: "investor_frame option"
  qi_trend :: "financial_trend option"
  qi_sentiment_momentum :: "flt option"
  qi_ratio_trend :: "flt option"

definition phase_facts :: "chart_phase \<Rightarrow> facts" where
  "phase_facts ph = [(''stage'', FInt (ch_stage ph)), (''stage_name'', FText (ch_stage_name ph)),
     (''trend_direction'', FText (ch_trend_direction ph)), (''trend_strength'', FNum (xround 1 (ch_trend_strength ph))),
     (''exhaustion_score'', FNum (xround 1 (ch_exhaustion_score ph))), (''multiplier'', FNum (ch_score_multiplier ph)),
     (''is_blocked'', FFlag (ch_is_blocked ph)), (''notes'', FNote)]"

text \<open>The sum of the factors times the multiplier of the chart phase, nothing in a downtrend.\<close>

definition phased_total :: "chart_phase \<Rightarrow> flt list \<Rightarrow> flt" where
  "phased_total ph scores = (if ch_is_blocked ph then Fin 0
     else xmul (foldl xadd (hd scores) (tl scores)) (ch_score_multiplier ph))"

definition block_detail :: "chart_phase \<Rightarrow> (string \<times> detail) list" where
  "block_detail ph = (if ch_is_blocked ph then [(''phase_block_reason'', DFact FNote)] else [])"

definition with_performance :: "factor_performance \<Rightarrow> score_result \<Rightarrow> score_result" where
  "with_performance p r = r\<lparr>sr_matched := map pc_key (fp_conditions p), sr_win_rate := fp_best_win_rate p,
     sr_samples := fp_samples p, sr_confidence := fp_confidence p\<rparr>"

definition with_scores :: "flt \<Rightarrow> flt \<Rightarrow> flt \<Rightarrow> flt \<Rightarrow> flt \<Rightarrow> flt \<Rightarrow> flt \<Rightarrow> score_result \<Rightarrow> score_result" where
  "with_scores t m q v k n s r = r\<lparr>sr_total := xround 2 t, sr_momentum := xround 2 m, sr_quality := xround 2 q,
     sr_value := xround 2 v, sr_technical := xround 2 k, sr_news := xround 2 n, sr_supply := xround 2 s\<rparr>"

subsection \<open>The two tracks of the first version\<close>

definition short_base :: "bool \<Rightarrow> bool \<Rightarrow> string \<Rightarrow> rat" where
  "short_base oversold buying sector =
     (if oversold \<and> buying then 35 else if oversold then 20 else if buying then 15 else 0) +
     (let m = sector_multiplier sector in if fl (12/10) \<le> m then 10 else if m \<le> fl (8/10) then - 10 else 0)"

definition short_term_score :: "bool \<Rightarrow> bool \<Rightarrow> string \<Rightarrow> flt \<Rightarrow> flt \<Rightarrow> flt" where
  "short_term_score oversold buying sector supply quality =
     clamp 0 100 (xadd (xadd (Fin (short_base oversold buying sector)) (xmul supply (lit (20/15)))) (xmul quality (Fin (1/2))))"

definition roe_points :: "flt option \<Rightarrow> rat" where
  "roe_points roe = (case roe of None \<Rightarrow> 0
     | Some x \<Rightarrow> if xlt (Fin 15) x then 30 else if xlt (Fin 10) x then 20 else if xlt (Fin 5) x then 10 else 0)"

definition long_news_points :: "string option \<Rightarrow> rat" where
  "long_news_points category = (case (case category of Some k \<Rightarrow> map_of NEWS_TIME_EFFECT k | None \<Rightarrow> None) of
     None \<Rightarrow> 0
   | Some e \<Rightarrow> if fl (70/100) \<le> ne_d60_win e then 25 else if fl (60/100) \<le> ne_d60_win e then 18
       else if fl (55/100) \<le> ne_d60_win e then 10 else 0)"

definition long_rsi_points :: "bool \<Rightarrow> flt option \<Rightarrow> rat" where
  "long_rsi_points oversold rsi = (if oversold then 15
     else case rsi of Some r \<Rightarrow> if xlt r (Fin 40) then 8 else 0 | None \<Rightarrow> 0)"

text \<open>An absent PER is read as 0, which is below 20.\<close>

definition per_points :: "flt option \<Rightarrow> rat" where
  "per_points per = (let x = (case per of Some x \<Rightarrow> x | None \<Rightarrow> Fin 0)
     in if xlt (Fin 5) x \<and> xlt x (Fin 15) then 10 else if xlt x (Fin 20) then 5 else 0)"

definition long_term_score :: "flt option \<Rightarrow> string option \<Rightarrow> bool \<Rightarrow> flt option \<Rightarrow> flt option \<Rightarrow> flt \<Rightarrow> flt" where
  "long_term_score roe category oversold rsi per supply =
     clamp 0 100 (xadd (Fin (roe_points roe + long_news_points category + long_rsi_points oversold rsi + per_points per))
       (xmul supply (lit (10/15))))"

definition STRONG_BUY :: string where "STRONG_BUY = utf8 [234, 176, 149, 235, 160, 165, 235, 167, 164, 236, 136, 152]"
definition BUY_REC :: string where "BUY_REC = utf8 [235, 167, 164, 236, 136, 152]"
definition CAREFUL :: string where "CAREFUL = utf8 [236, 163, 188, 236, 157, 152]"
definition AVOID :: string where "AVOID = utf8 [237, 154, 140, 237, 148, 188]"

text \<open>The warning sign and the words for waiting.\<close>

definition DIP_WAIT :: string where
  "DIP_WAIT = utf8 [226, 154, 160, 239, 184, 143, 32, 235, 136, 140, 235, 166, 188, 235, 170, 169, 32, 235, 140, 128, 234, 184, 176]"

definition OTHER_NEWS :: string where "OTHER_NEWS = utf8 [234, 184, 176, 237, 131, 128]"

definition grade_and_rec :: "flt \<Rightarrow> string \<times> string" where
  "grade_and_rec s = (if xle (Fin 80) s then (''A'', STRONG_BUY) else if xle (Fin 65) s then (''B'', BUY_REC)
     else if xle (Fin 50) s then (''C'', WATCH) else if xle (Fin 35) s then (''D'', CAREFUL) else (''F'', AVOID))"

definition compound_facts :: "compound \<Rightarrow> facts" where
  "compound_facts c = [(''compound_conditions_met'', FTexts (cp_met c)), (''bonus_applied'', FNum (cp_bonus c)),
     (''is_rsi_oversold'', FFlag (cp_rsi_oversold c)), (''is_foreign_buying'', FFlag (cp_foreign_buying c))]"

subsection \<open>The first version\<close>

definition calculate_total_v1 :: "scorer_env \<Rightarrow> quant_input \<Rightarrow> price_frame \<Rightarrow> scorer_caches \<Rightarrow> score_result \<times> scorer_caches" where
  "calculate_total_v1 E q df c =
     (let P = se_pandas E; C = se_cfg E;
          (m, f_m) = calculate_momentum_score df (qi_kospi q);
          (k_q, f_q) = calculate_quality_score P (qi_roe q) (qi_sales q) (qi_eps q) df;
          (v, f_v) = calculate_value_score (qi_pbr q) (qi_per q);
          (sector, c) = sector_used E (qi_code q) (qi_sector q) c;
          (t, f_t) = calculate_technical_score (se_rust E) P C df sector (Some m) (Some f_m);
          (stats, c) = load_news_stats E (qi_code q) (qi_category q) c;
          (n, f_n) = calculate_news_stat_score stats (sentiment_query E) (qi_sentiment q);
          avg_volume = avg_volume_20 P df;
          (s, f_s) = calculate_supply_demand_score P (qi_foreign q) (qi_institution q) (qi_holding q) avg_volume
            (Some df) (qi_investors q);
          rsi = fact_num f_t ''rsi'';
          comp = calculate_compound_condition_bonus C rsi (qi_foreign q) avg_volume;
          ph = analyze P (Some df);
          total = phased_total ph [m, k_q, v, t, n, s, cp_bonus comp];
          hold = (case qi_category q of Some k \<Rightarrow> k \<in> set NEWS_LONG_TERM_POSITIVE \<and> xle (Fin 70) (qi_sentiment q) | None \<Rightarrow> False);
          (perf, c) = load_factor_performance E (qi_code q) c;
          (timing, days) = calculate_news_timing_signal (text_or OTHER_NEWS (qi_category q)) (qi_sentiment q);
          oversold = (case rsi of Some r \<Rightarrow> xlt r (Fin 30) | None \<Rightarrow> False);
          short = short_term_score oversold (cp_foreign_buying comp) sector s k_q;
          long = long_term_score (fact_num f_q ''roe'') (qi_category q) oversold rsi (fact_num f_v ''per'') s;
          (short_grade, short_rec0) = grade_and_rec short;
          (long_grade, long_rec) = grade_and_rec long;
          short_rec = (if timing = ''WAIT_DIP'' then DIP_WAIT else short_rec0);
          days = (if timing = ''WAIT_DIP'' then 60 else days);
          details = [(''momentum'', DFacts f_m), (''quality'', DFacts f_q), (''value'', DFacts f_v),
            (''technical'', DFacts f_t), (''news'', DFacts f_n), (''supply_demand'', DFacts f_s),
            (''compound_condition'', DFacts (compound_facts comp)), (''chart_phase'', DFacts (phase_facts ph))] @
            block_detail ph @ [(''long_term_hold_recommended'', DFact (FFlag hold)), (''sector'', DFact (FText sector)),
            (''dual_track'', DFacts [rounded ''short_term_score'' short, (''short_term_grade'', FText short_grade),
               rounded ''long_term_score'' long, (''long_term_grade'', FText long_grade),
               (''news_timing_signal'', FText timing), (''recommended_holding_days'', FInt days)])]
      in ((with_performance perf (with_scores total m k_q v t n s (blank_result (qi_code q) (qi_name q))))
            \<lparr>sr_news_win_rate := map_of f_n ''news_win_rate'',
             sr_news_samples := Some (case map_of f_n ''news_sample_count'' of Some (FInt k) \<Rightarrow> k | _ \<Rightarrow> 0),
             sr_news_confidence := opt_or ''LOW'' (fact_text f_n ''news_confidence''), sr_bonus := xround 2 (cp_bonus comp),
             sr_compound := cp_met comp, sr_sector := sector, sr_long_hold := hold,
             sr_short_score := xround 2 short, sr_short_grade := short_grade, sr_short_rec := short_rec,
             sr_long_score := xround 2 long, sr_long_grade := long_grade, sr_long_rec := long_rec,
             sr_timing := timing, sr_holding_days := days, sr_details := details\<rparr>, c))"

subsection \<open>The second version\<close>

definition calculate_total_quant_score_v2 ::
  "scorer_env \<Rightarrow> quant_input \<Rightarrow> price_frame \<Rightarrow> scorer_caches \<Rightarrow> score_result \<times> scorer_caches" where
  "calculate_total_quant_score_v2 E q df c =
     (let P = se_pandas E; C = se_cfg E;
          (sector, c) = sector_used E (qi_code q) (qi_sector q) c;
          avg_volume = avg_volume_20 P df;
          (m, f_m) = calculate_momentum_score_v2 P df (qi_kospi q);
          (k_q, f_q) = calculate_quality_score_v2 P (qi_roe q) (qi_eps q) df (qi_trend q);
          (v, f_v) = calculate_value_score_v2 (qi_pbr q) (qi_per q) (qi_trend q) (qi_eps q);
          (t, f_t) = calculate_technical_score_v2 P C df sector;
          (n, f_n) = calculate_news_score_v2 (qi_sentiment q) (qi_sentiment_momentum q);
          (s, f_s) = calculate_supply_demand_score_v2 P (qi_foreign q) (qi_institution q) avg_volume (qi_investors q) (qi_ratio_trend q);
          ph = analyze P (Some df);
          total = phased_total ph [m, k_q, v, t, n, s];
          (perf, c) = load_factor_performance E (qi_code q) c;
          details = [(''scorer_version'', DFact (FText ''v2'')), (''momentum'', DFacts f_m), (''quality'', DFacts f_q),
            (''value'', DFacts f_v), (''technical'', DFacts f_t), (''news'', DFacts f_n), (''supply_demand'', DFacts f_s),
            (''chart_phase'', DFacts (phase_facts ph))] @ block_detail ph @ [(''sector'', DFact (FText sector))]
      in ((with_performance perf (with_scores total m k_q v t n s (blank_result (qi_code q) (qi_name q))))
            \<lparr>sr_sector := sector, sr_details := details\<rparr>, c))"

text \<open>No prices or fewer than thirty days: an invalid result. No operation of the totals raises.\<close>

definition calculate_total_quant_score ::
  "scorer_env \<Rightarrow> quant_input \<Rightarrow> scorer_caches \<Rightarrow> score_result \<times> scorer_caches" where
  "calculate_total_quant_score E q c = (case qi_prices q of
     None \<Rightarrow> (invalid_result (qi_code q) (qi_name q), c)
   | Some df \<Rightarrow> if frame_len df < MIN_PRICE_DATA_DAYS then (invalid_result (qi_code q) (qi_name q), c)
       else if se_version E = ''v2'' then calculate_total_quant_score_v2 E q df c
       else calculate_total_v1 E q df c)"

section \<open>Filter\<close>

text \<open>
  The stable sort by falling total score; with a NaN among the scores the order of Python's sort is
  not specified and not claimed.
\<close>

fun insert_desc :: "('a \<Rightarrow> flt) \<Rightarrow> 'a \<Rightarrow> 'a list \<Rightarrow> 'a list" where
  "insert_desc f x [] = [x]"
| "insert_desc f x (y # ys) = (if xlt (f x) (f y) then y # insert_desc f x ys else x # y # ys)"

definition sort_desc :: "('a \<Rightarrow> flt) \<Rightarrow> 'a list \<Rightarrow> 'a list" where
  "sort_desc f xs = foldr (insert_desc f) xs []"

definition pass_count :: "nat \<Rightarrow> rat \<Rightarrow> nat" where
  "pass_count n cutoff = nat (max 1 (py_int (fl (of_nat n * fl (1 - cutoff)))))"

definition ranked :: "score_result list \<Rightarrow> score_result list" where
  "ranked rs = map (\<lambda>(i, r). r\<lparr>sr_rank := i\<rparr>) (enumerate 1 (sort_desc sr_total (filter sr_valid rs)))"

definition filter_candidates :: "scorer_env \<Rightarrow> score_result list \<Rightarrow> rat option \<Rightarrow> score_result list" where
  "filter_candidates E results cutoff_ratio =
     (let cutoff = (case cutoff_ratio of Some x \<Rightarrow> x | None \<Rightarrow> se_cutoff E); sorted_results = ranked results
      in map (\<lambda>r. r\<lparr>sr_passed := True\<rparr>) (take (pass_count (length sorted_results) cutoff) sorted_results))"

section \<open>Writers\<close>

text \<open>
  Both writers use \<open>self.db_connection\<close>; an object has the attributes its methods assign. The
  statement that raises in the loop is caught per row; the commit raises outside, and so does
  the test in its handler.
\<close>

definition scorer_attributes :: "string list" where
  "scorer_attributes = [''db_conn'', ''market_regime'', ''strategy_mode'', ''config'', ''DEFAULT_FILTER_CUTOFF'',
     ''DEFAULT_HOLDING_DAYS'', ''SECTOR_RSI_MULTIPLIER'', ''factor_weights'', ''_factor_performance_cache'',
     ''_news_stats_cache'', ''_sector_cache'']"

record 'r score_table =
  st_execute :: "'r \<Rightarrow> bool"
  st_commit :: bool

text \<open>The rows written and the count, or the exception that leaves the method.\<close>

definition write_rows :: "'r score_table option \<Rightarrow> 'r list \<Rightarrow> ('r list \<times> nat) res" where
  "write_rows connection rows = (case connection of
     None \<Rightarrow> Inl AttributeError
   | Some t \<Rightarrow> (let ok = filter (st_execute t) rows in Inr (if st_commit t then ok else [], length ok)))"

definition db_connection :: "'r score_table \<Rightarrow> 'r score_table option" where
  "db_connection t = (if ''db_connection'' \<in> set scorer_attributes then Some t else None)"

record score_row =
  rw_code :: string
  rw_total :: flt
  rw_condition :: string
  rw_passed :: int
  rw_rank :: nat
  rw_regime :: string

definition joined :: "string list \<Rightarrow> string" where
  "joined ws = (case ws of [] \<Rightarrow> [] | w # rest \<Rightarrow> w @ concat (map (\<lambda>v. '','' @ v) rest))"

definition row_of :: "string \<Rightarrow> score_result \<Rightarrow> score_row" where
  "row_of regime r = \<lparr>rw_code = sr_stock_code r, rw_total = sr_total r,
     rw_condition = take 200 (joined (take 5 (sr_matched r))), rw_passed = (if sr_passed r then 1 else 0),
     rw_rank = sr_rank r, rw_regime = regime\<rparr>"

definition save_daily_scores :: "score_row score_table \<Rightarrow> string \<Rightarrow> score_result list \<Rightarrow> (score_row list \<times> nat) res" where
  "save_daily_scores t regime results = write_rows (db_connection t) (map (row_of regime) results)"

section \<open>Risk tag\<close>

definition detail_facts :: "score_result \<Rightarrow> string \<Rightarrow> facts" where
  "detail_facts r k = (case map_of (sr_details r) k of Some (DFacts fs) \<Rightarrow> fs | _ \<Rightarrow> [])"

definition classify_risk_tag :: "score_result \<Rightarrow> string" where
  "classify_risk_tag r =
     (let tech = detail_facts r ''technical'';
          rsi = fact_num tech ''rsi''; reversal = fact_text tech ''flow_reversal'';
          drawdown = fact_num tech ''drawdown_from_high'';
          rsi_above = (\<lambda>x. case rsi of Some v \<Rightarrow> xlt (Fin x) v | None \<Rightarrow> False)
      in if rsi_above 70 \<and> (case drawdown of Some d \<Rightarrow> xlt (Fin (- 3)) d | None \<Rightarrow> False) \<and> reversal = Some ''SELL_TURN''
         then ''DISTRIBUTION_RISK''
         else if rsi_above 75 then ''CAUTION''
         else if reversal = Some ''SELL_TURN'' \<and> rsi_above 65 then ''CAUTION''
         else if reversal = Some ''BUY_TURN'' \<and> xle (Fin 10) (sr_supply r) \<and>
           (case rsi of Some v \<Rightarrow> xlt v (Fin 70) | None \<Rightarrow> True) \<and> xle (Fin 15) (sr_momentum r)
         then ''BULLISH'' else ''NEUTRAL'')"

section \<open>Ranges of the totals\<close>

text \<open>The factors of the second version meet the contract of a factor.\<close>

interpretation momentum2: bounded_factor "\<lambda>(P, df, kospi). calculate_momentum_score_v2 P df kospi" "\<lambda>_. True" 20
  by unfold_locales (auto simp: momentum_v2_range)

interpretation quality2: bounded_factor "\<lambda>(P, roe, eps, df, trend). calculate_quality_score_v2 P roe eps df trend"
    "\<lambda>(P, _). std_ok P" 20
  by unfold_locales (auto simp: quality_v2_range)

interpretation value2: bounded_factor "\<lambda>(pbr, per, trend, eps). calculate_value_score_v2 pbr per trend eps" "\<lambda>_. True" 20
  by unfold_locales (auto simp: value_v2_range)

interpretation technical2: bounded_factor "\<lambda>(P, C, df, sector). calculate_technical_score_v2 P C df sector"
    "\<lambda>(P, C, _). oversold_ok C" 10
  by unfold_locales (auto simp: technical_v2_range)

interpretation news2: bounded_factor "\<lambda>(s, m). calculate_news_score_v2 s m" "\<lambda>(s, m). atmost 100 s" 10
  by unfold_locales (auto simp: news_v2_range)

interpretation supply2: bounded_factor
    "\<lambda>(P, fo, inst, vol, iv, trend). calculate_supply_demand_score_v2 P fo inst vol iv trend" "\<lambda>_. True" 20
  by unfold_locales (auto simp: supply_v2_range)

text \<open>The rounded scores of the six factors.\<close>

lemmas factor_ranges_v2 =
  momentum2.rounded_range [of "(P, df, kospi)" for P df kospi, simplified]
  quality2.rounded_range [of "(P, roe, eps, df, trend)" for P roe eps df trend, simplified]
  value2.rounded_range [of "(pbr, per, trend, eps)" for pbr per trend eps, simplified]
  technical2.rounded_range [of "(P, C, df, sector)" for P C df sector, simplified]
  news2.rounded_range [of "(s, m)" for s m, simplified]
  supply2.rounded_range [of "(P, fo, inst, vol, iv, trend)" for P fo inst vol iv trend, simplified]

lemma sum6_range:
  assumes "between 0 20 a" "between 0 20 b" "between 0 20 c" "between 0 10 d" "between 0 10 e" "between 0 20 f"
  shows "between 0 100 (foldl xadd a [b, c, d, e, f])"
  using add_scores_from [of "[(0, 20), (0, 20), (0, 10), (0, 10), (0, 20)]" "[b, c, d, e, f]" 0 20 a] assms by simp

lemma multiplier_le: "between 0 (6/5) (ch_score_multiplier (analyze P frame))"
proof -
  have "fl (12/10) \<le> (6/5 :: rat)" by code_simp
  moreover have "between 0 (fl (12/10)) (ch_score_multiplier (analyze P frame))"
  proof (cases rule: analyze_cases [of P frame])
    case Default
    have "(1 :: rat) \<le> fl (12/10)" by code_simp
    with Default show ?thesis by (simp add: default_phase_def)
  next
    case (Staged df stage e m b)
    with multiplier_bounds [OF Staged(2)] show ?thesis by simp
  qed
  ultimately show ?thesis by (elim between_weaken) auto
qed

lemma phased_total_range:
  assumes "between 0 100 (foldl xadd (hd ss) (tl ss))"
  shows "between 0 120 (phased_total (analyze P frame) ss)"
  using between_mul [OF assms multiplier_le [of P frame]] by (auto simp: phased_total_def)

text \<open>
  Claim C15. The score of the second version: with the setting of the RSI threshold between 0
  and 49 and a sentiment of at most 100, the total lies between 0 and 120, every factor within
  its full marks, and a stock in a downtrend has the total 0.
\<close>

theorem total_score_v2_range:
  assumes "se_version E = ''v2''" "oversold_ok (se_cfg E)" "std_ok (se_pandas E)" "atmost 100 (qi_sentiment q)"
  shows "let r = fst (calculate_total_quant_score E q c) in between 0 120 (sr_total r) \<and>
     between 0 20 (sr_momentum r) \<and> between 0 20 (sr_quality r) \<and> between 0 20 (sr_value r) \<and>
     between 0 10 (sr_technical r) \<and> between 0 10 (sr_news r) \<and> between 0 20 (sr_supply r) \<and>
     (ch_is_blocked (analyze (se_pandas E) (qi_prices q)) \<longrightarrow> sr_total r = Fin 0)"
proof (cases "\<exists>df. qi_prices q = Some df \<and> \<not> frame_len df < MIN_PRICE_DATA_DAYS")
  case False
  then show ?thesis
    by (auto simp: calculate_total_quant_score_def invalid_result_def blank_result_def split: option.splits)
next
  case True
  then obtain df where df: "qi_prices q = Some df" "\<not> frame_len df < MIN_PRICE_DATA_DAYS" by blast
  let ?P = "se_pandas E"
  obtain sector c' where s: "sector_used E (qi_code q) (qi_sector q) c = (sector, c')" by fastforce
  let ?ss = "[fst (calculate_momentum_score_v2 ?P df (qi_kospi q)),
      fst (calculate_quality_score_v2 ?P (qi_roe q) (qi_eps q) df (qi_trend q)),
      fst (calculate_value_score_v2 (qi_pbr q) (qi_per q) (qi_trend q) (qi_eps q)),
      fst (calculate_technical_score_v2 ?P (se_cfg E) df sector),
      fst (calculate_news_score_v2 (qi_sentiment q) (qi_sentiment_momentum q)),
      fst (calculate_supply_demand_score_v2 ?P (qi_foreign q) (qi_institution q) (avg_volume_20 ?P df) (qi_investors q) (qi_ratio_trend q))]"
  have "between 0 100 (foldl xadd (hd ?ss) (tl ?ss))"
    unfolding list.sel using assms
    by (intro sum6_range momentum_v2_range quality_v2_range value_v2_range technical_v2_range news_v2_range supply_v2_range)
  then have "between 0 120 (phased_total (analyze ?P (Some df)) ?ss)" by (rule phased_total_range)
  then have total: "between 0 120 (xround 2 (phased_total (analyze ?P (Some df)) ?ss))"
    using py_round_of_int [of 120 2] py_round_of_int [of 0 2] by (auto intro: between_round)
  have zero: "ch_is_blocked (analyze ?P (Some df)) \<Longrightarrow> xround 2 (phased_total (analyze ?P (Some df)) ?ss) = Fin 0"
    using py_round_of_int [of 0 2] by (simp add: phased_total_def xround_def)
  show ?thesis
    using df total zero assms factor_ranges_v2
    by (simp add: calculate_total_quant_score_def calculate_total_quant_score_v2_def s case_prod_beta Let_def
        with_scores_def with_performance_def del: fl_half)
qed

section \<open>Filtering\<close>

abbreviation (input) "falling f \<equiv> sorted_wrt (\<lambda>x y. \<not> xlt (f x) (f y))"

lemma mset_insert_desc [simp]: "mset (insert_desc f x ys) = add_mset x (mset ys)"
  by (induction f x ys rule: insert_desc.induct) auto

lemma mset_sort_desc: "mset (sort_desc f xs) = mset xs"
  unfolding sort_desc_def by (induction xs) auto

lemma set_insert_desc [simp]: "set (insert_desc f x ys) = insert x (set ys)"
  by (induction f x ys rule: insert_desc.induct) auto

lemma insert_desc_falling:
  "falling f ys \<Longrightarrow> f x \<noteq> NaN \<Longrightarrow> \<forall>y \<in> set ys. f y \<noteq> NaN \<Longrightarrow> falling f (insert_desc f x ys)"
proof (induction f x ys rule: insert_desc.induct)
  case (2 f x y ys)
  have "\<not> xlt (f x) (f z)" if "\<not> xlt (f x) (f y)" "z \<in> set ys" for z
    using not_xlt_trans [of "f y" "f x" "f z"] that 2(2,4) by auto
  moreover have "\<not> xlt (f y) (f x)" if "xlt (f x) (f y)" using xlt_trans [OF that, of "f x"] by auto
  ultimately show ?case using 2 by auto
qed simp

lemma sort_desc_falling: "\<forall>x \<in> set xs. f x \<noteq> NaN \<Longrightarrow> falling f (sort_desc f xs)"
proof (induction xs)
  case (Cons x xs)
  have "set (foldr (insert_desc f) xs []) = set xs"
    using mset_sort_desc [of f xs, THEN mset_eq_setD] by (simp add: sort_desc_def)
  with Cons show ?case by (simp add: sort_desc_def insert_desc_falling)
qed (simp add: sort_desc_def)

lemma pass_count_pos: "1 \<le> pass_count n cutoff"
  by (simp add: pass_count_def)

definition marked :: "nat \<times> score_result \<Rightarrow> score_result" where
  "marked = (\<lambda>(i, r). r\<lparr>sr_rank := i, sr_passed := True\<rparr>)"

lemma take_enumerate_from: "take k (enumerate n xs) = enumerate n (take k xs)"
proof (induction xs arbitrary: k n)
  case (Cons x xs)
  then show ?case by (cases k) simp_all
qed simp

lemma filter_candidates_take:
  "filter_candidates E results cutoff =
    (let s = sort_desc sr_total (filter sr_valid results);
         k = pass_count (length s) (case cutoff of Some x \<Rightarrow> x | None \<Rightarrow> se_cutoff E)
     in map marked (enumerate 1 (take k s)))"
  by (simp add: filter_candidates_def ranked_def Let_def take_map take_enumerate_from marked_def case_prod_beta)

text \<open>
  The filter keeps the best: for scores without NaN its answer is a part of the valid
  results, in falling order of the total, ranked from 1 and marked, of the size that the cutoff
  gives but at least one if any is valid; no valid result left out has a higher total.
\<close>

theorem filter_keeps_best:
  assumes "\<forall>r \<in> set results. sr_total r \<noteq> NaN"
  shows "\<exists>kept dropped. mset (kept @ dropped) = mset (filter sr_valid results) \<and>
     filter_candidates E results (Some cutoff) = map (\<lambda>(i, r). r\<lparr>sr_rank := i, sr_passed := True\<rparr>) (enumerate 1 kept) \<and>
     length kept = min (length (filter sr_valid results)) (pass_count (length (filter sr_valid results)) cutoff) \<and>
     sorted_wrt (\<lambda>x y. \<not> xlt (sr_total x) (sr_total y)) kept \<and>
     (\<forall>x \<in> set kept. \<forall>y \<in> set dropped. \<not> xlt (sr_total x) (sr_total y)) \<and>
     (filter sr_valid results \<noteq> [] \<longrightarrow> kept \<noteq> [])"
proof -
  define s where "s = sort_desc sr_total (filter sr_valid results)"
  define k where "k = pass_count (length s) cutoff"
  have m: "mset s = mset (filter sr_valid results)" by (simp add: s_def mset_sort_desc)
  have l: "length s = length (filter sr_valid results)" by (rule mset_eq_length [OF m])
  have "falling sr_total s" unfolding s_def using assms by (intro sort_desc_falling) auto
  then have f: "falling sr_total (take k s @ drop k s)" by simp
  have "mset (take k s @ drop k s) = mset (filter sr_valid results)" using m by simp
  moreover have "filter_candidates E results (Some cutoff) = map (\<lambda>(i, r). r\<lparr>sr_rank := i, sr_passed := True\<rparr>) (enumerate 1 (take k s))"
    by (simp add: filter_candidates_take Let_def s_def k_def marked_def)
  moreover have "length (take k s) = min (length (filter sr_valid results)) (pass_count (length (filter sr_valid results)) cutoff)"
    using l by (simp add: k_def)
  moreover have "filter sr_valid results \<noteq> [] \<longrightarrow> take k s \<noteq> []"
    using pass_count_pos [of "length s" cutoff] l by (auto simp: k_def)
  ultimately show ?thesis using f unfolding sorted_wrt_append by (intro exI [of _ "take k s"] exI [of _ "drop k s"]) blast
qed

section \<open>What is lost\<close>

text \<open>
  A downtrend blocks a stock in both versions: with at least thirty days of prices the
  total is 0 although the result counts as valid.
\<close>

theorem downtrend_scores_zero:
  assumes "qi_prices q = Some df" "30 \<le> frame_len df" "ch_is_blocked (analyze (se_pandas E) (Some df))"
  shows "let r = fst (calculate_total_quant_score E q c) in sr_total r = Fin 0 \<and> sr_valid r"
proof -
  have "phased_total (analyze (se_pandas E) (Some df)) ss = Fin 0" for ss using assms(3) by (simp add: phased_total_def)
  moreover have "xround 2 (Fin 0) = Fin 0" using py_round_of_int [of 0 2] by (simp add: xround_def)
  ultimately show ?thesis using assms
    by (simp add: calculate_total_quant_score_def calculate_total_quant_score_v2_def calculate_total_v1_def
        case_prod_beta Let_def with_scores_def with_performance_def MIN_PRICE_DATA_DAYS_def blank_result_def)
qed

text \<open>
  News statistics are lost: as soon as the database holds a win rate for the stock, the
  news factor of the first version answers the middle score of its error handler, whatever the
  win rate, the sample and the sentiment are.
\<close>

theorem news_statistics_lost:
  assumes "ns_win_rate stats = Some w"
  shows "calculate_news_stat_score stats row sentiment = (Fin 5, [(''error'', FNote)])"
  using assms by (simp add: calculate_news_stat_score_def factor_or_def Let_def case_prod_beta)

text \<open>
  No daily score is ever stored: the writer raises for every connection and every list
  of results, because the attribute it uses is not assigned.
\<close>

theorem daily_scores_never_saved: "save_daily_scores t regime results = Inl AttributeError"
proof -
  have "''db_connection'' \<notin> set scorer_attributes" by code_simp
  then show ?thesis by (simp add: save_daily_scores_def write_rows_def db_connection_def)
qed

text \<open>Reading the two keys that no factor writes.\<close>

lemma no_key_parts_v2:
  "map_of (snd (volume_part_v2 P df)) ''flow_reversal'' = None"
  "map_of (snd (rsi_part_v2 C sector v)) ''flow_reversal'' = None"
  "accumulation_part P df = Inr x \<Longrightarrow> map_of (snd x) ''flow_reversal'' = None"
    apply (simp add: volume_part_v2_def Let_def rounded_def split: option.split)
   apply (simp add: rsi_part_v2_def Let_def rounded_def split: option.split)
  apply (auto simp: accumulation_part_def Let_def rounded_def res_bind_Inr_iff split: option.splits if_splits)
  done

lemma no_key_technical_v2:
  "map_of (snd (calculate_technical_score_v2 P C df sector)) ''flow_reversal'' = None"
proof (cases "accumulation_part P df")
  case (Inr x)
  with no_key_parts_v2(3) [OF this] show ?thesis
    by (simp add: calculate_technical_score_v2_def factor_or_def case_prod_beta Let_def no_key_parts_v2(1,2))
qed (simp add: calculate_technical_score_v2_def factor_or_def case_prod_beta Let_def)

lemma no_key_parts:
  "map_of (snd (volume_part P df)) ''flow_reversal'' = None"
  "map_of (snd (band_part P df)) ''flow_reversal'' = None"
  "map_of (trend_facts P df) ''flow_reversal'' = None"
  "map_of (snd (exempted_score C m d r s)) ''flow_reversal'' = None"
    apply (simp add: volume_part_def Let_def rounded_def split: option.split)
   apply (simp add: band_part_def Let_def rounded_def)
  apply (simp add: trend_facts_def)
  apply (simp add: exempted_score_def Let_def rounded_def)
  done

lemma no_key_rsi: "map_of (snd (rsi_part C sector m d v)) ''flow_reversal'' = None"
  by (cases v) (simp_all add: rsi_part_def Let_def rounded_def case_prod_beta no_key_parts)

lemma no_key_technical_v1:
  "map_of (snd (calculate_technical_score B P C df sector m d)) ''flow_reversal'' = None"
  by (simp add: calculate_technical_score_def case_prod_beta Let_def rounded_def no_key_parts no_key_rsi split: option.split)

lemma no_key_pair_v1:
  "calculate_technical_score B P C df sector m d = (t, f) \<Longrightarrow> map_of f ''flow_reversal'' = None"
  using no_key_technical_v1 by (metis snd_conv)

lemma no_key_pair_v2:
  "calculate_technical_score_v2 P C df sector = (t, f) \<Longrightarrow> map_of f ''flow_reversal'' = None"
  using no_key_technical_v2 by (metis snd_conv)

lemma no_reversal_v1:
  "map_of (detail_facts (fst (calculate_total_v1 E q df c)) ''technical'') ''flow_reversal'' = None"
  unfolding calculate_total_v1_def Let_def
  by (simp split: prod.split) (simp add: detail_facts_def no_key_pair_v1)

lemma no_reversal_v2:
  "map_of (detail_facts (fst (calculate_total_quant_score_v2 E q df c)) ''technical'') ''flow_reversal'' = None"
  unfolding calculate_total_quant_score_v2_def Let_def
  by (simp split: prod.split) (simp add: detail_facts_def no_key_pair_v2)

lemma no_reversal:
  "map_of (detail_facts (fst (calculate_total_quant_score E q c)) ''technical'') ''flow_reversal'' = None"
proof -
  have "detail_facts (invalid_result code name) k = []" for code name k by (simp add: detail_facts_def invalid_result_def blank_result_def)
  then show ?thesis by (cases "qi_prices q") (simp_all add: calculate_total_quant_score_def no_reversal_v1 no_reversal_v2)
qed

text \<open>
  The risk tag of a computed score is never \<open>DISTRIBUTION_RISK\<close> and never \<open>BULLISH\<close>:
  it is \<open>CAUTION\<close> exactly when the RSI of the technical details is above 75 and \<open>NEUTRAL\<close> otherwise.
\<close>

theorem risk_tag_two_values:
  "let r = fst (calculate_total_quant_score E q c)
   in classify_risk_tag r = (case fact_num (detail_facts r ''technical'') ''rsi'' of
        Some v \<Rightarrow> if xlt (Fin 75) v then ''CAUTION'' else ''NEUTRAL'' | None \<Rightarrow> ''NEUTRAL'')"
  using no_reversal [of E q c] by (simp add: classify_risk_tag_def Let_def fact_text_def split: option.splits)

text \<open>
  A missing last price gets full marks: with a NaN close on the last of at least 120 days and no index, both the
  six-month and the one-month momentum are at their maximum, because a clamped NaN is the upper end.
\<close>

theorem missing_price_full_momentum:
  assumes "120 \<le> frame_len df" "at_end (dp_close df) 1 = NaN" "at_end (dp_close df) 120 \<noteq> Fin 0"
  shows "(\<exists>f. momentum_6m df None = Inr (Fin 15, f)) \<and> fst (momentum_1m df None) = Fin 5"
proof -
  have nan: "xdiv NaN y = NaN" "xsub NaN y = NaN" "xmul NaN y = NaN" "xadd y NaN = NaN" for y
    by (cases y; simp add: xsub_def xinf_def xsign_def)+
  have "clamp 0 15 NaN = Fin 15" "clamp 0 5 NaN = Fin 5" by (simp_all add: clamp_def py_max_def py_min_def)
  then show ?thesis using assms
    by (simp add: momentum_6m_def momentum_1m_def float_return_def column_return_def pdiv_def nan long_enough_def Let_def xinf_def xsign_def)
qed

text \<open>
  The two tracks of the first version: both scores lie between 0 and 100, each
  grade is one of five, and a waiting signal always asks for sixty days and replaces the recommendation.
\<close>

theorem dual_track_consistent:
  assumes "se_version E \<noteq> ''v2''"
  shows "let r = fst (calculate_total_quant_score E q c) in
     between 0 100 (sr_short_score r) \<and> between 0 100 (sr_long_score r) \<and>
     {sr_short_grade r, sr_long_grade r} \<subseteq> {''A'', ''B'', ''C'', ''D'', ''F''} \<and>
     (sr_timing r = ''WAIT_DIP'' \<longrightarrow> sr_holding_days r = 60 \<and> sr_short_rec r = DIP_WAIT)"
proof -
  have r: "between 0 100 (xround 2 (clamp 0 100 x))" for x
    using py_round_of_int [of 100 2] py_round_of_int [of 0 2] between_clamp [of 0 100 x] by (auto intro: between_round)
  have g: "fst (grade_and_rec s) \<in> {''A'', ''B'', ''C'', ''D'', ''F''}" for s by (simp add: grade_and_rec_def)
  show ?thesis using assms r g
    by (simp add: calculate_total_quant_score_def calculate_total_v1_def case_prod_beta Let_def short_term_score_def
        long_term_score_def invalid_result_def blank_result_def with_performance_def with_scores_def del: insert_iff
        split: option.splits) simp
qed

section \<open>Witnesses\<close>

definition plain_cfg :: cfg where
  "plain_cfg = \<lparr>cf_int = (\<lambda>_ d. d), cf_float = (\<lambda>_ d. d), cf_bool = (\<lambda>_ d. d)\<rparr>"

definition sample_scorer :: "string \<Rightarrow> scorer_env" where
  "sample_scorer version = \<lparr>se_db = None, se_regime = ''BULL'', se_cfg = plain_cfg, se_cutoff = DEFAULT_FILTER_CUTOFF,
     se_holding = 5, se_version = version, se_pandas = plain_pandas, se_rust = None\<rparr>"

definition flat_frame :: "nat \<Rightarrow> flt \<Rightarrow> price_frame" where
  "flat_frame n p = (let xs = replicate (n - 1) (Fin 10) @ [p]
     in \<lparr>dp_close = xs, dp_high = xs, dp_low = xs, dp_volume = None\<rparr>)"

definition sample_input :: "price_frame \<Rightarrow> quant_input" where
  "sample_input df = \<lparr>qi_code = ''005930'', qi_name = ''Samsung'', qi_prices = Some df, qi_kospi = None, qi_roe = Some (Fin 12),
     qi_sales = None, qi_eps = Some (Fin 8), qi_pbr = Some (Fin 1), qi_per = Some (Fin 9), qi_sentiment = Fin 80,
     qi_category = None, qi_foreign = Some 50000, qi_institution = None, qi_holding = None, qi_sector = Some ''etc'',
     qi_investors = None, qi_trend = None, qi_sentiment_momentum = Some (Fin 15), qi_ratio_trend = None\<rparr>"

theorem total_score_v2_range_witness:
  "between 0 120 (sr_total (fst (calculate_total_quant_score (sample_scorer ''v2'') (sample_input (flat_frame 40 (Fin 11))) empty_caches)))"
proof -
  have "oversold_ok (se_cfg (sample_scorer ''v2''))" by (simp add: oversold_ok_def sample_scorer_def plain_cfg_def)
  moreover have "std_ok (se_pandas (sample_scorer ''v2''))" by (simp add: std_ok_def sample_scorer_def plain_pandas_def)
  ultimately show ?thesis
    using total_score_v2_range [of "sample_scorer ''v2''" "sample_input (flat_frame 40 (Fin 11))" empty_caches]
    by (simp add: sample_scorer_def sample_input_def Let_def)
qed

definition scored :: "string \<Rightarrow> rat \<Rightarrow> score_result" where
  "scored code x = (blank_result code code)\<lparr>sr_total := Fin x\<rparr>"

theorem filter_keeps_best_witness:
  "\<exists>kept dropped. mset (kept @ dropped) = mset [scored ''A'' 40, scored ''B'' 70] \<and> length kept = 1 \<and>
     filter_candidates (sample_scorer ''v1'') [scored ''A'' 40, scored ''B'' 70] (Some (fl (6/10))) =
       map (\<lambda>(i, r). r\<lparr>sr_rank := i, sr_passed := True\<rparr>) (enumerate 1 kept) \<and>
     (\<forall>x \<in> set kept. \<forall>y \<in> set dropped. \<not> xlt (sr_total x) (sr_total y))"
proof -
  have v: "filter sr_valid [scored ''A'' 40, scored ''B'' 70] = [scored ''A'' 40, scored ''B'' 70]"
    by (simp add: scored_def blank_result_def)
  have n: "min 2 (pass_count 2 (fl (6/10))) = 1" by code_simp
  have nan: "\<forall>r \<in> set [scored ''A'' 40, scored ''B'' 70]. sr_total r \<noteq> NaN" by (simp add: scored_def)
  show ?thesis
    using filter_keeps_best [OF nan, of "sample_scorer ''v1''" "fl (6/10)"] n
    unfolding v by (simp add: numeral_2_eq_2) blast
qed

definition falling_pandas :: pandas where
  "falling_pandas = plain_pandas\<lparr>pd_rolling_mean := \<lambda>w xs. map (\<lambda>x. case x of Fin a \<Rightarrow> Fin (a + of_nat w) | y \<Rightarrow> y) xs\<rparr>"

lemma flat_frame_len: "0 < n \<Longrightarrow> frame_len (flat_frame n x) = n"
  by (simp add: frame_len_def flat_frame_def Let_def)

lemma falling_blocked: "ch_is_blocked (analyze falling_pandas (Some (flat_frame 125 (Fin 1))))"
proof -
  let ?c = "dp_close (flat_frame 125 (Fin 1))" and ?m = "pd_rolling_mean falling_pandas"
  have "determine_stage (at_end ?c 1) (at_end (?m MA_SHORT ?c) 1) (at_end (?m MA_MID ?c) 1) (at_end (?m MA_LONG ?c) 1)
      (calc_normalized_slope (?m MA_MID ?c)) (calc_normalized_slope (?m MA_LONG ?c)) = (4, ''DOWNTREND'', ''DOWN'')"
    by code_simp
  then show ?thesis by (simp add: analyze_def flat_frame_len get_multiplier_def MA_LONG_def SLOPE_LOOKBACK_def Let_def)
qed

theorem downtrend_scores_zero_witness:
  "sr_total (fst (calculate_total_quant_score (sample_scorer ''v1''\<lparr>se_pandas := falling_pandas\<rparr>)
     (sample_input (flat_frame 125 (Fin 1))) empty_caches)) = Fin 0"
  using downtrend_scores_zero [of "sample_input (flat_frame 125 (Fin 1))" "flat_frame 125 (Fin 1)"
      "sample_scorer ''v1''\<lparr>se_pandas := falling_pandas\<rparr>" empty_caches] falling_blocked
  by (simp add: sample_input_def flat_frame_len Let_def)

theorem news_statistics_lost_witness:
  "calculate_news_stat_score \<lparr>ns_win_rate = Some (7/10), ns_avg_return = None, ns_samples = 40, ns_confidence = ''HIGH''\<rparr>
     None (Fin 90) = (Fin 5, [(''error'', FNote)])"
  by (rule news_statistics_lost [where w = "7/10"]) simp

theorem missing_price_full_momentum_witness: "fst (momentum_1m (flat_frame 120 NaN) None) = Fin 5"
  by (rule conjunct2 [OF missing_price_full_momentum])
    (simp_all add: flat_frame_len, simp_all add: flat_frame_def at_end_def Let_def nth_append)

theorem dual_track_consistent_witness:
  "between 0 100 (sr_short_score (fst (calculate_total_quant_score (sample_scorer ''v1'') (sample_input (flat_frame 40 (Fin 11))) empty_caches)))"
  using dual_track_consistent [of "sample_scorer ''v1''" "sample_input (flat_frame 40 (Fin 11))" empty_caches]
  by (simp add: sample_scorer_def Let_def)

end
