(* ===== verification/Hybrid_Scorer.thy ===== *)
theory Hybrid_Scorer
  imports Quant_Scorer
begin

text \<open>
  \<open>shared/hybrid_scoring/hybrid_scorer.py\<close>: the weighting of the quantitative and the LLM score
  with its safety lock, the corrections for small samples, the selection by quota and the
  pipeline over all candidates. The LLM is a parameter; reports and prompts are texts and left out.
\<close>

section \<open>Weights\<close>

definition SAFETY_LOCK_THRESHOLD :: flt where "SAFETY_LOCK_THRESHOLD = Fin 30"
definition MIN_QUALITY_SCORE :: flt where "MIN_QUALITY_SCORE = Fin 40"
definition MAX_WATCHLIST_SIZE :: nat where "MAX_WATCHLIST_SIZE = 15"

definition REGIME_WEIGHTS :: "(string \<times> rat \<times> rat) list" where
  "REGIME_WEIGHTS = [(''STRONG_BULL'', fl (55/100), fl (45/100)), (''BULL'', fl (60/100), fl (40/100)),
     (''SIDEWAYS'', fl (60/100), fl (40/100)), (''BEAR'', fl (65/100), fl (35/100))]"

definition regime_weights :: "string \<Rightarrow> rat \<times> rat" where
  "regime_weights regime = dict_get REGIME_WEIGHTS regime (fl (60/100), fl (40/100))"

text \<open>A difference of thirty points and more moves weight to the lower score.\<close>

definition apply_safety_lock :: "string \<Rightarrow> flt \<Rightarrow> flt \<Rightarrow> rat \<times> rat \<times> bool" where
  "apply_safety_lock regime quant llm =
     (let (qw, lw) = regime_weights regime
      in if xlt (xabs (xsub quant llm)) SAFETY_LOCK_THRESHOLD then (qw, lw, False)
         else if xlt quant llm then (let q = min (fl (80/100)) (fl (qw + fl (15/100))) in (q, fl (1 - q), True))
         else (let l = min (fl (55/100)) (fl (lw + fl (15/100))) in (fl (1 - l), l, True)))"

definition determine_grade :: "flt \<Rightarrow> string" where
  "determine_grade s = (if xle (Fin 80) s then ''A'' else if xle (Fin 65) s then ''B'' else if xle (Fin 50) s then ''C''
     else if xle (Fin 40) s then ''D'' else ''F'')"

section \<open>One stock\<close>

record hybrid_result =
  hr_code :: string
  hr_name :: string
  hr_quant :: flt
  hr_llm :: flt
  hr_hybrid :: flt
  hr_quant_weight :: rat
  hr_llm_weight :: rat
  hr_locked :: bool
  hr_selected :: bool
  hr_rank :: nat
  hr_grade :: string
  hr_reason :: string
  hr_win_rate :: "rat option"
  hr_samples :: int
  hr_confidence :: string

text \<open>Few samples of the conditions pull the quantitative part towards 50.\<close>

definition blended :: "flt \<Rightarrow> flt \<Rightarrow> rat \<Rightarrow> rat \<Rightarrow> int \<Rightarrow> flt" where
  "blended quant llm qw lw samples =
     (let cw = get_confidence_weight samples
      in if cw < 1
         then xadd (xadd (xmul (xmul quant (Fin qw)) (Fin cw)) (xmul (xmul (Fin 50) (Fin qw)) (xsub (Fin 1) (Fin cw))))
           (xmul llm (Fin lw))
         else xadd (xmul quant (Fin qw)) (xmul llm (Fin lw)))"

text \<open>Few news samples pull the news score towards 7.5.\<close>

definition news_corrected :: "int option \<Rightarrow> flt \<Rightarrow> rat \<Rightarrow> flt \<Rightarrow> flt" where
  "news_corrected samples news qw hybrid = (case samples of
     None \<Rightarrow> hybrid
   | Some n \<Rightarrow> (let cw = get_confidence_weight n
       in if n < 30 \<and> cw < 1
          then xadd hybrid (xmul (xsub (xadd (xmul news (Fin cw)) (xmul (Fin (15/2)) (xsub (Fin 1) (Fin cw)))) news) (Fin qw))
          else hybrid))"

definition calculate_hybrid_score :: "string \<Rightarrow> score_result \<Rightarrow> flt \<Rightarrow> string \<Rightarrow> hybrid_result" where
  "calculate_hybrid_score regime r llm reason =
     (let (qw, lw, locked) = apply_safety_lock regime (sr_total r) llm;
          hybrid = news_corrected (sr_news_samples r) (sr_news r) qw (blended (sr_total r) llm qw lw (sr_samples r));
          grade = (if xlt hybrid MIN_QUALITY_SCORE then ''F'' else determine_grade hybrid)
      in \<lparr>hr_code = sr_stock_code r, hr_name = sr_stock_name r, hr_quant = sr_total r, hr_llm = llm,
          hr_hybrid = xround 2 hybrid, hr_quant_weight = qw, hr_llm_weight = lw, hr_locked = locked, hr_selected = False,
          hr_rank = 0, hr_grade = grade, hr_reason = reason, hr_win_rate = sr_win_rate r, hr_samples = sr_samples r,
          hr_confidence = sr_confidence r\<rparr>)"

text \<open>Grades A and B may be bought.\<close>

record watchlist_entry =
  wl_code :: string
  wl_name :: string
  wl_tradable :: bool
  wl_score :: flt
  wl_grade :: string

definition to_watchlist_entry :: "hybrid_result \<Rightarrow> watchlist_entry" where
  "to_watchlist_entry h = \<lparr>wl_code = hr_code h, wl_name = hr_name h, wl_tradable = (hr_grade h \<in> {''A'', ''B''}),
     wl_score = hr_hybrid h, wl_grade = hr_grade h\<rparr>"

section \<open>Batch, selection, pipeline\<close>

definition NO_LLM :: string where "NO_LLM = ''no LLM analysis''"

definition calculate_batch_hybrid_scores ::
  "string \<Rightarrow> score_result list \<Rightarrow> (string \<times> flt \<times> string) list \<Rightarrow> hybrid_result list" where
  "calculate_batch_hybrid_scores regime rs llm_scores = map (\<lambda>r.
     let (s, reason) = dict_get llm_scores (sr_stock_code r) (Fin 50, NO_LLM)
     in calculate_hybrid_score regime r s reason) rs"

definition select_top_candidates :: "hybrid_result list \<Rightarrow> nat option \<Rightarrow> hybrid_result list" where
  "select_top_candidates results max_count =
     map (\<lambda>(i, h). h\<lparr>hr_rank := i, hr_selected := True\<rparr>)
       (enumerate 1 (take (opt_or MAX_WATCHLIST_SIZE max_count) (sort_desc hr_hybrid (filter (\<lambda>h. hr_grade h \<noteq> ''F'') results))))"

text \<open>The pipeline passes neither the sector nor the inputs of the second version.\<close>

definition pipeline_input :: "quant_input \<Rightarrow> quant_input" where
  "pipeline_input q = q\<lparr>qi_sector := None, qi_investors := None, qi_trend := None, qi_sentiment_momentum := None,
     qi_ratio_trend := None\<rparr>"

definition score_all :: "scorer_env \<Rightarrow> quant_input list \<Rightarrow> scorer_caches \<Rightarrow> score_result list \<times> scorer_caches" where
  "score_all E qs c = foldl (\<lambda>(rs, c) q. let (r, c') = calculate_total_quant_score E (pipeline_input q) c in (rs @ [r], c')) ([], c) qs"

text \<open>The analyzer sees the score as a prompt; without one, or when it raises, the score is 50.\<close>

definition llm_answer :: "(score_result \<Rightarrow> (flt \<times> string) res) option \<Rightarrow> score_result \<Rightarrow> flt \<times> string" where
  "llm_answer analyzer r = (case analyzer of
     Some f \<Rightarrow> (case f r of Inr a \<Rightarrow> a | Inl _ \<Rightarrow> (Fin 50, ''failed''))
   | None \<Rightarrow> (Fin 50, ''skipped''))"

definition llm_scores_of ::
  "(score_result \<Rightarrow> (flt \<times> string) res) option \<Rightarrow> score_result list \<Rightarrow> (string \<times> flt \<times> string) list" where
  "llm_scores_of analyzer rs = foldl (\<lambda>d r. dict_set (sr_stock_code r) (llm_answer analyzer r) d) [] rs"

definition run_hybrid_scoring_pipeline ::
  "scorer_env \<Rightarrow> (score_result \<Rightarrow> (flt \<times> string) res) option \<Rightarrow> string \<Rightarrow> rat \<Rightarrow> nat \<Rightarrow> quant_input list \<Rightarrow> scorer_caches
    \<Rightarrow> hybrid_result list" where
  "run_hybrid_scoring_pipeline E analyzer regime cutoff max_watchlist candidates c =
     (let filtered = filter_candidates E (fst (score_all E candidates c)) (Some cutoff)
      in if filtered = [] then []
         else select_top_candidates
           (calculate_batch_hybrid_scores regime filtered (llm_scores_of analyzer filtered)) (Some max_watchlist))"

text \<open>The second writer of \<open>QuantScorer\<close>.\<close>

definition update_hybrid_scores ::
  "(string \<times> flt \<times> flt \<times> int) score_table \<Rightarrow> hybrid_result list \<Rightarrow> ((string \<times> flt \<times> flt \<times> int) list \<times> nat) res" where
  "update_hybrid_scores t results = write_rows (db_connection t)
     (map (\<lambda>h. (hr_code h, hr_llm h, hr_hybrid h, if hr_selected h then 1 else 0)) results)"

section \<open>Properties\<close>

text \<open>The weights are shares: three pairs for each of the three rows.\<close>

definition shifted_weights :: "rat \<times> rat \<Rightarrow> (rat \<times> rat) list" where
  "shifted_weights = (\<lambda>(qw, lw). let q = min (fl (80/100)) (fl (qw + fl (15/100))); l = min (fl (55/100)) (fl (lw + fl (15/100)))
     in [(qw, lw), (q, fl (1 - q)), (fl (1 - l), l)])"

definition share :: "rat \<times> rat \<Rightarrow> bool" where
  "share = (\<lambda>(q, l). 0 \<le> q \<and> q \<le> 1 \<and> 0 \<le> l \<and> l \<le> 1)"

lemma dict_get_in: "dict_get kvs k d \<in> set (d # map snd kvs)"
proof (cases "map_of kvs k")
  case (Some v)
  from imageI [OF map_of_SomeD [OF this], of snd] Some show ?thesis by (simp add: dict_get_def)
qed (simp add: dict_get_def)

lemma shifted_shares:
  assumes "share w" "w' \<in> set (shifted_weights w)"
  shows "share w'"
proof -
  obtain qw lw where w: "w = (qw, lw)" by fastforce
  define q l where "q = min (fl (80/100)) (fl (qw + fl (15/100)))" and "l = min (fl (55/100)) (fl (lw + fl (15/100)))"
  have c: "0 \<le> fl (80/100 :: rat)" "fl (80/100) \<le> (1 :: rat)" "0 \<le> fl (55/100 :: rat)" "fl (55/100) \<le> (1 :: rat)" "0 \<le> fl (15/100 :: rat)"
    by (intro fl_nonneg fl_le_float; simp)+
  have "0 \<le> q" "0 \<le> l" using assms(1) c by (auto simp: q_def l_def w share_def intro!: fl_nonneg)
  moreover have "q \<le> 1" "l \<le> 1" using c unfolding q_def l_def by linarith+
  moreover from this have "0 \<le> fl (1 - q)" "fl (1 - q) \<le> 1" "0 \<le> fl (1 - l)" "fl (1 - l) \<le> 1"
    using \<open>0 \<le> q\<close> \<open>0 \<le> l\<close> by (intro fl_nonneg fl_le_float; simp)+
  moreover have "w' = w \<or> w' = (q, fl (1 - q)) \<or> w' = (fl (1 - l), l)"
    using assms(2) unfolding w shifted_weights_def q_def l_def Let_def prod.case list.set by blast
  ultimately show ?thesis using assms(1) by (auto simp: share_def)
qed

lemma regime_share: "share (regime_weights regime)"
proof -
  have c: "\<And>x :: rat. 0 \<le> x \<Longrightarrow> x \<le> 1 \<Longrightarrow> 0 \<le> fl x \<and> fl x \<le> 1" by (intro conjI fl_nonneg fl_le_float) auto
  have "share (fl x, fl y)" if "0 \<le> x" "x \<le> 1" "0 \<le> y" "y \<le> 1" for x y using c that by (simp add: share_def)
  then have "\<forall>w \<in> set (map snd REGIME_WEIGHTS). share w" "share (fl (60/100), fl (40/100))"
    unfolding REGIME_WEIGHTS_def list.map snd_conv list.set by simp_all
  then show ?thesis using dict_get_in [of REGIME_WEIGHTS regime "(fl (60/100), fl (40/100))"]
    unfolding regime_weights_def list.set by (metis insert_iff)
qed

lemma lock_weights: "apply_safety_lock regime a b = (qw, lw, locked) \<Longrightarrow> (qw, lw) \<in> set (shifted_weights (regime_weights regime))"
  by (cases "regime_weights regime", cases "xlt (xabs (xsub a b)) SAFETY_LOCK_THRESHOLD", simp add: apply_safety_lock_def shifted_weights_def Let_def, cases "xlt a b")
    (simp_all only: apply_safety_lock_def shifted_weights_def Let_def prod.case if_True if_False prod.inject list.set, blast+)

lemma weight_share: "apply_safety_lock regime a b = (qw, lw, locked) \<Longrightarrow> share (qw, lw)"
  by (rule shifted_shares [OF regime_share lock_weights])

text \<open>What is selected is graded, and the rank is the position.\<close>

lemma selected_from:
  assumes "h \<in> set (select_top_candidates results n)"
  shows "\<exists>i h'. h' \<in> set results \<and> h = h'\<lparr>hr_rank := i, hr_selected := True\<rparr> \<and> hr_grade h \<noteq> ''F''"
proof -
  let ?s = "sort_desc hr_hybrid (filter (\<lambda>h. hr_grade h \<noteq> ''F'') results)"
  from assms obtain i h' where h: "(i, h') \<in> set (enumerate 1 (take (opt_or MAX_WATCHLIST_SIZE n) ?s))"
    "h = h'\<lparr>hr_rank := i, hr_selected := True\<rparr>" by (auto simp: select_top_candidates_def)
  from imageI [OF h(1), of snd] have "h' \<in> set (take (opt_or MAX_WATCHLIST_SIZE n) ?s)"
    by (simp only: set_map [symmetric] map_snd_enumerate snd_conv)
  then have "h' \<in> set ?s" by (rule in_set_takeD)
  then have "h' \<in> set results" "hr_grade h' \<noteq> ''F''"
    using mset_eq_setD [OF mset_sort_desc, of hr_hybrid "filter (\<lambda>h. hr_grade h \<noteq> ''F'') results"] by auto
  with h(2) show ?thesis by auto
qed

text \<open>
  The quota: the selection is at most \<open>max_count\<close> long (15 if not given), holds no F, is
  in falling order of the hybrid score, ranked from 1, and leaves out no better qualified result.
\<close>

theorem selection_keeps_best:
  assumes "\<forall>h \<in> set results. hr_hybrid h \<noteq> NaN"
  shows "\<exists>kept dropped. mset (kept @ dropped) = mset (filter (\<lambda>h. hr_grade h \<noteq> ''F'') results) \<and>
     select_top_candidates results (Some n) = map (\<lambda>(i, h). h\<lparr>hr_rank := i, hr_selected := True\<rparr>) (enumerate 1 kept) \<and>
     length kept = min n (length (filter (\<lambda>h. hr_grade h \<noteq> ''F'') results)) \<and>
     sorted_wrt (\<lambda>x y. \<not> xlt (hr_hybrid x) (hr_hybrid y)) kept \<and>
     (\<forall>x \<in> set kept. \<forall>y \<in> set dropped. \<not> xlt (hr_hybrid x) (hr_hybrid y))"
proof -
  define s where "s = sort_desc hr_hybrid (filter (\<lambda>h. hr_grade h \<noteq> ''F'') results)"
  have m: "mset s = mset (filter (\<lambda>h. hr_grade h \<noteq> ''F'') results)" by (simp only: s_def mset_sort_desc)
  have "falling hr_hybrid s" unfolding s_def using assms by (intro sort_desc_falling) auto
  then have f: "falling hr_hybrid (take n s @ drop n s)" by simp
  have "mset (take n s @ drop n s) = mset (filter (\<lambda>h. hr_grade h \<noteq> ''F'') results)" using m by simp
  moreover have "length (take n s) = min n (length (filter (\<lambda>h. hr_grade h \<noteq> ''F'') results))"
    using mset_eq_length [OF m] by (simp add: min.commute)
  moreover have "select_top_candidates results (Some n) = map (\<lambda>(i, h). h\<lparr>hr_rank := i, hr_selected := True\<rparr>) (enumerate 1 (take n s))"
    by (simp add: select_top_candidates_def s_def opt_or_def)
  ultimately show ?thesis using f unfolding sorted_wrt_append by (intro exI [of _ "take n s"] exI [of _ "drop n s"]) blast
qed

text \<open>
  Without samples of its conditions a stock's quantitative score does not count: it only
  decides the weights, and the hybrid score is that of a stock with 50 points.
\<close>

theorem quant_score_ignored:
  assumes "sr_samples r = 0" "sr_news_samples r = None" "sr_total r = Fin x" "\<bar>x\<bar> \<le> 1000"
    "apply_safety_lock regime (Fin x) llm = (qw, lw, locked)"
  shows "hr_hybrid (calculate_hybrid_score regime r llm reason) =
     xround 2 (xadd (xmul (Fin 50) (Fin qw)) (xmul llm (Fin lw)))"
proof -
  have q: "0 \<le> qw" "qw \<le> 1" using weight_share [OF assms(5)] by (auto simp: share_def)
  have "\<bar>x * qw\<bar> \<le> 1000 * 1" unfolding abs_mult using assms(4) q by (intro mult_mono) auto
  then have x: "xmul (xmul (Fin x) (Fin qw)) (Fin 0) = Fin 0" by (simp add: rnd_small)
  have "\<bar>50 * qw\<bar> \<le> 2 ^ 53" "\<bar>fl (50 * qw)\<bar> \<le> 50" using q fl_nonneg [of "50 * qw"] fl_le_float [of 50 "50 * qw"] fl_numeral [of "num.Bit0 (num.Bit1 (num.Bit0 (num.Bit0 (num.Bit1 num.One))))"] by auto
  then have n: "xadd (Fin 0) (xmul (xmul (Fin 50) (Fin qw)) (xsub (Fin 1) (Fin 0))) = xmul (Fin 50) (Fin qw)"
    by (simp add: rnd_small xsub_def)
  show ?thesis using assms x n
    by (simp add: calculate_hybrid_score_def blended_def news_corrected_def get_confidence_weight_def Let_def del: xmul.simps xadd.simps)
qed

text \<open>
  The safety lock engages from a difference of 30 points on, and the weight of the lower
  score never falls by it; the weights stay between 0 and 1.
\<close>

theorem safety_lock_moves_weight:
  assumes "apply_safety_lock regime (Fin q) (Fin l) = (qw, lw, locked)" "\<bar>q - l\<bar> \<le> 1000"
  shows "(locked \<longleftrightarrow> 30 \<le> fl \<bar>q - l\<bar>) \<and> (\<not> locked \<longrightarrow> (qw, lw) = regime_weights regime) \<and>
     (locked \<longrightarrow> (if q < l then fst (regime_weights regime) \<le> qw else snd (regime_weights regime) \<le> lw)) \<and>
     0 \<le> qw \<and> qw \<le> 1 \<and> 0 \<le> lw \<and> lw \<le> 1"
proof -
  obtain q0 l0 where w: "regime_weights regime = (q0, l0)" by fastforce
  have "\<forall>w \<in> set ((fl (60/100), fl (40/100)) # map snd REGIME_WEIGHTS). fl (fst w) = fst w \<and> fl (snd w) = snd w \<and>
      fst w \<le> fl (80/100) \<and> snd w \<le> fl (55/100)"
    unfolding REGIME_WEIGHTS_def list.map snd_conv list.set by (auto intro!: fl_mono)
  then have g: "fl q0 = q0" "fl l0 = l0" "q0 \<le> fl (80/100)" "l0 \<le> fl (55/100)"
    using dict_get_in [of REGIME_WEIGHTS regime "(fl (60/100), fl (40/100))"] w unfolding regime_weights_def by force+
  have "0 \<le> fl (15/100 :: rat)" by (rule fl_nonneg) simp
  then have up: "q0 \<le> fl (q0 + fl (15/100))" "l0 \<le> fl (l0 + fl (15/100))" using g by (intro fl_ge_float; simp)+
  have "xabs (xsub (Fin q) (Fin l)) = Fin (fl \<bar>q - l\<bar>)"
    using assms(2) fl_nonneg [of "q - l"] fl_nonneg [of "l - q"] fl_minus [of "q - l"]
    by (cases "0 \<le> q - l") (auto simp: xsub_def rnd_small)
  then have lock: "xlt (xabs (xsub (Fin q) (Fin l))) SAFETY_LOCK_THRESHOLD \<longleftrightarrow> \<not> 30 \<le> fl \<bar>q - l\<bar>"
    by (simp add: SAFETY_LOCK_THRESHOLD_def not_le)
  have s: "share (qw, lw)" by (rule weight_share [OF assms(1)])
  consider (a) "\<not> 30 \<le> fl \<bar>q - l\<bar>" | (b) "30 \<le> fl \<bar>q - l\<bar>" "q < l" | (c) "30 \<le> fl \<bar>q - l\<bar>" "\<not> q < l" by blast
  then show ?thesis
  proof cases
    case a
    with assms(1) lock w have "qw = q0" "lw = l0" "\<not> locked" by (simp_all add: apply_safety_lock_def)
    with a s w show ?thesis by (simp add: share_def)
  next
    case b
    with assms(1) lock w have "qw = min (fl (80/100)) (fl (q0 + fl (15/100)))" "locked"
      by (auto simp only: apply_safety_lock_def Let_def prod.case if_False if_True xlt.simps prod.inject simp_thms)
    with b s w g up show ?thesis by (simp add: share_def)
  next
    case c
    with assms(1) lock w have "lw = min (fl (55/100)) (fl (l0 + fl (15/100)))" "locked"
      by (auto simp only: apply_safety_lock_def Let_def prod.case if_False if_True xlt.simps prod.inject simp_thms)
    with c s w g up show ?thesis by (simp add: share_def)
  qed
qed

lemma sideways_lock: "apply_safety_lock ''SIDEWAYS'' (Fin 0) (Fin 90) = (3/4, 1/4, True)"
  by code_simp

lemma result_of_v2:
  assumes "qi_prices q = Some df" "30 \<le> frame_len df" "se_version E = ''v2''" "se_db E = None" "ca_performance c = []"
  shows "sr_stock_code (fst (calculate_total_quant_score E q c)) = qi_code q"
    "sr_samples (fst (calculate_total_quant_score E q c)) = 0"
    "sr_news_samples (fst (calculate_total_quant_score E q c)) = None"
    "ca_performance (snd (calculate_total_quant_score E q c)) = []"
  using assms
  by (simp_all add: calculate_total_quant_score_def calculate_total_quant_score_v2_def case_prod_beta Let_def
      MIN_PRICE_DATA_DAYS_def with_scores_def with_performance_def blank_result_def load_factor_performance_def
      no_performance_def sector_used_def get_stock_sector_def split: option.split)

lemma filter_single: "sr_valid r \<Longrightarrow> filter_candidates E [r] cutoff = [r\<lparr>sr_rank := 1, sr_passed := True\<rparr>]"
proof -
  assume "sr_valid r"
  moreover have "take (pass_count n x) [r] = [r]" for n x using pass_count_pos [of n x] by (simp add: take_Cons')
  ultimately show ?thesis by (simp add: filter_candidates_take sort_desc_def Let_def marked_def)
qed

text \<open>
  A stock in a downtrend, total 0, still reaches the watch list: without samples of its
  conditions its score counts as 50, and an LLM score of 90 makes it a selected C.
\<close>

theorem pipeline_selects_downtrend:
  assumes "qi_prices q = Some df" "30 \<le> frame_len df" "ch_is_blocked (analyze (se_pandas E) (Some df))"
    "se_version E = ''v2''" "se_db E = None" "\<And>r. f r = Inr (Fin 90, reason)" "ca_performance c = []"
  shows "\<exists>h. run_hybrid_scoring_pipeline E (Some f) ''SIDEWAYS'' cutoff 15 [q] c = [h] \<and>
     hr_code h = qi_code q \<and> hr_quant h = Fin 0 \<and> hr_selected h \<and> hr_rank h = 1 \<and> hr_grade h = ''C''"
proof -
  let ?q = "pipeline_input q"
  define r where "r = fst (calculate_total_quant_score E ?q c)"
  have p: "qi_prices ?q = Some df" "qi_code ?q = qi_code q" using assms(1) by (simp_all add: pipeline_input_def)
  have total: "sr_total r = Fin 0" "sr_valid r"
    using downtrend_scores_zero [OF p(1) assms(2,3), of c] by (simp_all add: r_def Let_def)
  note fields = result_of_v2 [OF p(1) assms(2,4,5,7), folded r_def]
  define r' where "r' = r\<lparr>sr_rank := 1, sr_passed := True\<rparr>"
  have r': "sr_total r' = Fin 0" "sr_samples r' = 0" "sr_news_samples r' = None" "sr_stock_code r' = qi_code q"
    using total fields p(2) by (simp_all add: r'_def)
  have all: "fst (score_all E [q] c) = [r]" by (simp add: score_all_def r_def case_prod_beta Let_def)
  have kept: "filter_candidates E [r] (Some cutoff) = [r']" using filter_single [OF total(2)] by (simp add: r'_def)
  define h where "h = calculate_hybrid_score ''SIDEWAYS'' r' (Fin 90) reason"
  have hybrid: "xadd (xadd (Fin 0) (xmul (xmul (Fin 50) (Fin (3/4))) (xsub (Fin 1) (Fin 0)))) (xmul (Fin 90) (Fin (1/4))) = Fin 60"
    "xmul (xmul (Fin 0) (Fin (3/4))) (Fin 0) = Fin 0" by code_simp+
  have "hr_grade h = ''C''" "hr_code h = qi_code q" "hr_quant h = Fin 0"
    using r' sideways_lock hybrid
    by (simp_all add: h_def calculate_hybrid_score_def blended_def news_corrected_def get_confidence_weight_def Let_def
        determine_grade_def MIN_QUALITY_SCORE_def xle_def del: xmul.simps xadd.simps)
  moreover have "run_hybrid_scoring_pipeline E (Some f) ''SIDEWAYS'' cutoff 15 [q] c = [h\<lparr>hr_rank := 1, hr_selected := True\<rparr>]"
    using calculation r' assms(6)
    by (simp add: run_hybrid_scoring_pipeline_def all kept Let_def
        calculate_batch_hybrid_scores_def llm_scores_of_def llm_answer_def dict_get_def select_top_candidates_def
        sort_desc_def h_def opt_or_def)
  ultimately show ?thesis by simp
qed

section \<open>Witnesses\<close>

definition hybrid_of :: "string \<Rightarrow> rat \<Rightarrow> string \<Rightarrow> hybrid_result" where
  "hybrid_of code x grade = (calculate_hybrid_score ''BULL'' (scored code x) (Fin x) [])\<lparr>hr_hybrid := Fin x, hr_grade := grade\<rparr>"

theorem selection_keeps_best_witness:
  "\<exists>kept dropped. mset (kept @ dropped) = mset [hybrid_of ''A'' 60 ''C'', hybrid_of ''B'' 70 ''B''] \<and> length kept = 1 \<and>
     (\<forall>x \<in> set kept. \<forall>y \<in> set dropped. \<not> xlt (hr_hybrid x) (hr_hybrid y))"
proof -
  have "filter (\<lambda>h. hr_grade h \<noteq> ''F'') [hybrid_of ''A'' 60 ''C'', hybrid_of ''B'' 70 ''B''] = [hybrid_of ''A'' 60 ''C'', hybrid_of ''B'' 70 ''B'']"
    by (simp add: hybrid_of_def)
  moreover have "\<forall>h \<in> set [hybrid_of ''A'' 60 ''C'', hybrid_of ''B'' 70 ''B'']. hr_hybrid h \<noteq> NaN" by (simp add: hybrid_of_def)
  from selection_keeps_best [OF this, of 1] show ?thesis unfolding calculation by (simp only: list.size) auto
qed

theorem quant_score_ignored_witness:
  "hr_hybrid (calculate_hybrid_score ''SIDEWAYS'' (scored ''A'' 0) (Fin 90) []) = Fin 60"
proof -
  have "hr_hybrid (calculate_hybrid_score ''SIDEWAYS'' (scored ''A'' 0) (Fin 90) []) =
      xround 2 (xadd (xmul (Fin 50) (Fin (3/4))) (xmul (Fin 90) (Fin (1/4))))"
    by (rule quant_score_ignored [OF _ _ _ _ sideways_lock]) (simp_all add: scored_def blank_result_def)
  also have "\<dots> = Fin 60" by code_simp
  finally show ?thesis .
qed

theorem safety_lock_moves_weight_witness: "fst (regime_weights ''SIDEWAYS'') \<le> 3/4 \<and> 30 \<le> fl \<bar>0 - (90 :: rat)\<bar>"
  using safety_lock_moves_weight [OF sideways_lock] by simp

theorem pipeline_selects_downtrend_witness:
  "\<exists>h. run_hybrid_scoring_pipeline (sample_scorer ''v2''\<lparr>se_pandas := falling_pandas\<rparr>) (Some (\<lambda>r. Inr (Fin 90, [])))
     ''SIDEWAYS'' (1/2) 15 [sample_input (flat_frame 125 (Fin 1))] empty_caches = [h] \<and> hr_quant h = Fin 0 \<and> hr_selected h"
  using pipeline_selects_downtrend [of "sample_input (flat_frame 125 (Fin 1))" "flat_frame 125 (Fin 1)"
      "sample_scorer ''v2''\<lparr>se_pandas := falling_pandas\<rparr>" "\<lambda>r. Inr (Fin 90, [])" "[]" empty_caches "1/2"] falling_blocked
  by (fastforce simp: sample_input_def sample_scorer_def flat_frame_len empty_caches_def)

end
