(* ===== verification/Bar_Aggregator.thy ===== *)
theory Bar_Aggregator
  imports Diversification
begin

text \<open>
  The class \<open>BarAggregator\<close> of \<open>services/buy-scanner/opportunity_watcher.py\<close>: ticks become
  candles of a fixed length, a volume history and the volume-weighted price of the day. Times
  are seconds since the epoch; every method holds the lock, so a call is one step.
\<close>

section \<open>State\<close>

record minute_bar =
  br_time :: int
  br_open :: rat
  br_high :: rat
  br_low :: rat
  br_close :: rat
  br_volume :: int
  br_ticks :: nat

record vwap_info =
  vw_date :: "int option"
  vw_cum_pv :: rat
  vw_cum_vol :: rat
  vw_vwap :: rat

record aggregator =
  ag_interval :: int
  ag_current :: "(string \<times> minute_bar) list"
  ag_completed :: "(string \<times> minute_bar list) list"
  ag_vwap :: "(string \<times> vwap_info) list"
  ag_volumes :: "(string \<times> int list) list"

definition MAX_BAR_HISTORY :: nat where "MAX_BAR_HISTORY = 60"

definition no_vwap :: vwap_info where
  "no_vwap = \<lparr>vw_date = None, vw_cum_pv = 0, vw_cum_vol = 0, vw_vwap = 0\<rparr>"

definition new_aggregator :: "int \<Rightarrow> aggregator" where
  "new_aggregator interval =
     \<lparr>ag_interval = interval, ag_current = [], ag_completed = [], ag_vwap = [], ag_volumes = []\<rparr>"

section \<open>Operations\<close>

text \<open>The start of the candle within the hour; the day in Korea is nine hours ahead.\<close>

definition bar_start :: "int \<Rightarrow> rat \<Rightarrow> int" where
  "bar_start interval now =
     (let s = floor now; seconds = s mod 3600 in s - seconds + (seconds div interval) * interval)"

text \<open>A negative length rounds up and can ask \<open>replace\<close> for a sixtieth minute.\<close>

definition get_bar_timestamp :: "int \<Rightarrow> rat \<Rightarrow> int res" where
  "get_bar_timestamp interval now =
     (if interval = 0 then Inl ZeroDivisionError
      else (let seconds = floor now mod 3600
            in if 59 < (seconds div interval) * interval div 60 then Inl ValueError else Inr (bar_start interval now)))"

definition kst_day :: "rat \<Rightarrow> int" where
  "kst_day now = floor ((now + 32400) / 86400)"

definition update_vwap :: "int \<Rightarrow> rat \<Rightarrow> int \<Rightarrow> vwap_info \<Rightarrow> vwap_info" where
  "update_vwap today price volume v =
     (let v1 = (if vw_date v = Some today then v
            else \<lparr>vw_date = Some today, vw_cum_pv = 0, vw_cum_vol = 0, vw_vwap = price\<rparr>)
      in if 0 < volume
         then (let pv = fadd (vw_cum_pv v1) (fmul price (of_py_int volume)); vol = fadd (vw_cum_vol v1) (of_py_int volume)
               in v1\<lparr>vw_cum_pv := pv, vw_cum_vol := vol, vw_vwap := fdiv pv vol\<rparr>)
         else v1)"

definition new_bar :: "int \<Rightarrow> rat \<Rightarrow> int \<Rightarrow> minute_bar" where
  "new_bar start price volume = \<lparr>br_time = start, br_open = price, br_high = price, br_low = price, br_close = price,
     br_volume = volume, br_ticks = 1\<rparr>"

definition merge_tick :: "rat \<Rightarrow> int \<Rightarrow> minute_bar \<Rightarrow> minute_bar" where
  "merge_tick price volume b = b\<lparr>br_high := max (br_high b) price, br_low := min (br_low b) price, br_close := price,
     br_volume := br_volume b + volume, br_ticks := br_ticks b + 1\<rparr>"

text \<open>\<open>append\<close>, then \<open>pop(0)\<close> above the limit.\<close>

definition push_capped :: "nat \<Rightarrow> 'a \<Rightarrow> 'a list \<Rightarrow> 'a list" where
  "push_capped n x xs = (let ys = xs @ [x] in if n < length ys then tl ys else ys)"

definition agg_update :: "rat \<Rightarrow> string \<Rightarrow> rat \<Rightarrow> int \<Rightarrow> aggregator \<Rightarrow> minute_bar option res \<times> aggregator" where
  "agg_update now code price volume a = (case get_bar_timestamp (ag_interval a) now of
     Inl e \<Rightarrow> (Inl e, a)
   | Inr start \<Rightarrow>
       (let a1 = a\<lparr>ag_vwap := dict_set code (update_vwap (kst_day now) price volume (dict_get (ag_vwap a) code no_vwap)) (ag_vwap a)\<rparr>
        in case map_of (ag_current a1) code of
             None \<Rightarrow> (Inr None, a1\<lparr>ag_current := dict_set code (new_bar start price volume) (ag_current a1)\<rparr>)
           | Some b \<Rightarrow>
               if br_time b < start
               then (Inr (Some b), a1\<lparr>
                  ag_completed := dict_set code (push_capped MAX_BAR_HISTORY b (dict_get (ag_completed a1) code [])) (ag_completed a1),
                  ag_volumes := dict_set code (push_capped MAX_BAR_HISTORY (br_volume b) (dict_get (ag_volumes a1) code [])) (ag_volumes a1),
                  ag_current := dict_set code (new_bar start price volume) (ag_current a1)\<rparr>)
               else (Inr None, a1\<lparr>ag_current := dict_set code (merge_tick price volume b) (ag_current a1)\<rparr>)))"

text \<open>Reading a missing entry of the default dictionary stores its default.\<close>

definition get_vwap :: "string \<Rightarrow> aggregator \<Rightarrow> rat \<times> aggregator" where
  "get_vwap code a = (let v = dict_get (ag_vwap a) code no_vwap
     in (vw_vwap v, a\<lparr>ag_vwap := dict_set code v (ag_vwap a)\<rparr>))"

record volume_info =
  vi_current :: int
  vi_avg :: rat
  vi_ratio :: rat

definition get_volume_info :: "aggregator \<Rightarrow> string \<Rightarrow> volume_info" where
  "get_volume_info a code = (let volumes = dict_get (ag_volumes a) code [] in
     if volumes = [] then \<lparr>vi_current = 0, vi_avg = 0, vi_ratio = 0\<rparr>
     else (let current = last volumes; avg = fl (of_int (sum_list volumes) / of_nat (length volumes))
           in \<lparr>vi_current = current, vi_avg = avg, vi_ratio = (if 0 < avg then fdiv (of_py_int current) avg else 0)\<rparr>))"

definition last_bars :: "nat \<Rightarrow> 'a list \<Rightarrow> 'a list" where
  "last_bars n xs = drop (length xs - n) xs"

definition get_recent_bars :: "aggregator \<Rightarrow> string \<Rightarrow> nat \<Rightarrow> minute_bar list" where
  "get_recent_bars a code n = (let xs = dict_get (ag_completed a) code [] in if n = 0 then xs else last_bars n xs)"

section \<open>The history is a window\<close>

lemma push_capped_last:
  assumes "0 < n"
  shows "push_capped n x (last_bars n xs) = last_bars n (xs @ [x])"
proof (cases "n \<le> length xs")
  case True
  let ?m = "length xs - n"
  have "push_capped n x (drop ?m xs) = tl (drop ?m xs @ [x])" using True by (simp add: push_capped_def Let_def)
  also have "drop ?m xs @ [x] = drop ?m (xs @ [x])" by simp
  also have "tl (drop ?m (xs @ [x])) = drop (Suc ?m) (xs @ [x])" by (simp only: drop_Suc tl_drop)
  finally show ?thesis using True by (simp only: last_bars_def length_append_singleton Suc_diff_le)
qed (simp add: push_capped_def last_bars_def Let_def)

section \<open>Candles\<close>

text \<open>
  What a candle is, without any state: the first, highest, lowest and last price, the volume
  and the number of the ticks that fall into it.
\<close>

type_synonym market_tick = "rat \<times> rat \<times> int"

definition in_bucket :: "int \<Rightarrow> int \<Rightarrow> market_tick list \<Rightarrow> market_tick list" where
  "in_bucket i k ts = filter (\<lambda>(t, _). bar_start i t = k) ts"

definition candle :: "int \<Rightarrow> market_tick list \<Rightarrow> int \<Rightarrow> minute_bar" where
  "candle i ts k = (let g = in_bucket i k ts; prices = map (fst \<circ> snd) g
     in \<lparr>br_time = k, br_open = hd prices, br_high = Max (set prices), br_low = Min (set prices), br_close = last prices,
        br_volume = sum_list (map (snd \<circ> snd) g), br_ticks = length g\<rparr>)"

definition bucket_starts :: "int \<Rightarrow> market_tick list \<Rightarrow> int list" where
  "bucket_starts i ts = remdups_adj (map (\<lambda>(t, _). bar_start i t) ts)"

lemma bar_start_mono:
  assumes "0 < i" "t \<le> t'"
  shows "bar_start i t \<le> bar_start i t'"
proof -
  let ?s = "floor t" and ?s' = "floor t'"
  have s: "?s \<le> ?s'" using assms(2) by (rule floor_mono)
  have b: "0 \<le> (x mod 3600) div i * i" "(x mod 3600) div i * i \<le> x mod 3600" for x :: int
    using assms(1) by (simp_all add: pos_imp_zdiv_nonneg_iff mult.commute times_div_less_eq_dividend)
      (metis add_increasing2 div_mult_mod_eq le_add_same_cancel1 mult.commute pos_mod_sign)
  show ?thesis
  proof (cases "?s div 3600 = ?s' div 3600")
    case True
    then have d: "?s - ?s mod 3600 = ?s' - ?s' mod 3600" by (simp add: minus_mod_eq_mult_div)
    with s have "?s mod 3600 \<le> ?s' mod 3600" by linarith
    then have "(?s mod 3600) div i * i \<le> (?s' mod 3600) div i * i"
      using assms(1) by (intro mult_right_mono zdiv_mono1) auto
    with d show ?thesis by (simp add: bar_start_def Let_def)
  next
    case False
    with s have "?s div 3600 + 1 \<le> ?s' div 3600" using zdiv_mono1 [of ?s ?s' 3600] by linarith
    then have "3600 * (?s div 3600) + 3600 \<le> 3600 * (?s' div 3600)" by linarith
    moreover have "?s mod 3600 < 3600" by (rule pos_mod_bound) simp
    moreover have "bar_start i t = 3600 * (?s div 3600) + (?s mod 3600) div i * i"
      "bar_start i t' = 3600 * (?s' div 3600) + (?s' mod 3600) div i * i"
      by (simp_all add: bar_start_def Let_def minus_mod_eq_mult_div)
    ultimately show ?thesis using b(2) [of ?s] b(1) [of ?s'] by linarith
  qed
qed

lemma in_bucket_snoc: "in_bucket i k (ts @ [(t, p, v)]) = in_bucket i k ts @ (if bar_start i t = k then [(t, p, v)] else [])"
  by (simp add: in_bucket_def)

lemma candle_other: "bar_start i t \<noteq> k \<Longrightarrow> candle i (ts @ [(t, p, v)]) k = candle i ts k"
  by (simp add: candle_def in_bucket_snoc)

lemma candle_new: "in_bucket i (bar_start i t) ts = [] \<Longrightarrow> candle i (ts @ [(t, p, v)]) (bar_start i t) = new_bar (bar_start i t) p v"
  by (simp add: candle_def in_bucket_snoc new_bar_def)

lemma candle_merge:
  "in_bucket i (bar_start i t) ts \<noteq> [] \<Longrightarrow>
    candle i (ts @ [(t, p, v)]) (bar_start i t) = merge_tick p v (candle i ts (bar_start i t))"
  by (simp add: candle_def in_bucket_snoc merge_tick_def Let_def max.commute min.commute)

section \<open>A run over the ticks of all stocks\<close>

type_synonym feed = "(string \<times> market_tick) list"

definition agg_step :: "string \<times> market_tick \<Rightarrow> aggregator \<times> (string \<times> minute_bar) list \<Rightarrow> aggregator \<times> (string \<times> minute_bar) list" where
  "agg_step = (\<lambda>(code, t, p, v) (a, out). case agg_update t code p v a of
     (Inr (Some b), a') \<Rightarrow> (a', out @ [(code, b)])
   | (_, a') \<Rightarrow> (a', out))"

definition agg_run :: "int \<Rightarrow> feed \<Rightarrow> aggregator \<times> (string \<times> minute_bar) list" where
  "agg_run interval feed = fold agg_step feed (new_aggregator interval, [])"

definition ticks_of :: "string \<Rightarrow> feed \<Rightarrow> market_tick list" where
  "ticks_of code feed = map snd (filter (\<lambda>(c, _). c = code) feed)"

definition emitted_for :: "string \<Rightarrow> (string \<times> minute_bar) list \<Rightarrow> minute_bar list" where
  "emitted_for code out = map snd (filter (\<lambda>(c, _). c = code) out)"

text \<open>What the state must say of one stock whose ticks so far are \<open>ts\<close>.\<close>

definition shows_stock :: "int \<Rightarrow> market_tick list \<Rightarrow> minute_bar option \<Rightarrow> minute_bar list \<Rightarrow> int list \<Rightarrow> minute_bar list \<Rightarrow> bool" where
  "shows_stock i ts current completed vols out \<longleftrightarrow>
     (let ks = bucket_starts i ts; finished = map (candle i ts) (butlast ks)
      in current = (if ts = [] then None else Some (candle i ts (last ks)))
       \<and> completed = last_bars MAX_BAR_HISTORY finished
       \<and> vols = last_bars MAX_BAR_HISTORY (map br_volume finished)
       \<and> out = finished)"

lemma get_bar_timestamp_ok: "0 < i \<Longrightarrow> get_bar_timestamp i t = Inr (bar_start i t)"
proof -
  assume i: "0 < i"
  have "(floor t mod 3600) div i * i \<le> floor t mod 3600" using i
    by (metis add_increasing2 div_mult_mod_eq le_add_same_cancel1 mult.commute order_less_imp_le pos_mod_sign)
  moreover have "floor t mod 3600 < 3600" by (rule pos_mod_bound) simp
  ultimately have "(floor t mod 3600) div i * i div 60 \<le> 59" by linarith
  with i show ?thesis by (simp add: get_bar_timestamp_def Let_def)
qed

lemma bucket_starts_Nil [simp]: "bucket_starts i [] = []"
  by (simp add: bucket_starts_def)

lemma bucket_starts_eq_Nil [simp]: "bucket_starts i ts = [] \<longleftrightarrow> ts = []"
  by (simp add: bucket_starts_def)

lemma bucket_starts_single [simp]: "bucket_starts i [(t, p, v)] = [bar_start i t]"
  by (simp add: bucket_starts_def)

lemma bucket_starts_snoc:
  "bucket_starts i (ts @ [(t, p, v)]) =
     (if ts \<noteq> [] \<and> last (bucket_starts i ts) = bar_start i t then bucket_starts i ts
      else bucket_starts i ts @ [bar_start i t])"
  by (cases "ts = []") (auto simp: bucket_starts_def remdups_adj_append'' last_remdups_adj)

lemma in_bucket_Nil_iff: "in_bucket i k ts = [] \<longleftrightarrow> k \<notin> set (bucket_starts i ts)"
  by (auto simp: in_bucket_def bucket_starts_def filter_empty_conv split_def)

lemma bucket_starts_le:
  assumes "0 < i" "\<forall>x \<in> set ts. fst x \<le> t" "k \<in> set (bucket_starts i ts)"
  shows "k \<le> bar_start i t"
proof -
  obtain a p v where "(a, p, v) \<in> set ts" "k = bar_start i a" using assms(3) by (auto simp: bucket_starts_def)
  with assms(2) show ?thesis by (auto intro!: bar_start_mono [OF assms(1)] dest!: bspec)
qed

lemma sorted_wrt_last_less:
  fixes x :: int
  assumes "sorted_wrt (<) ks" "\<forall>k \<in> set ks. k \<le> x" "last ks \<noteq> x" "ks \<noteq> []"
  shows "\<forall>k \<in> set ks. k < x"
proof -
  obtain js l where ks: "ks = js @ [l]" using assms(4) by (cases ks rule: rev_cases) auto
  with assms show ?thesis by (force simp: sorted_wrt_append)
qed

lemma bucket_starts_sorted:
  assumes "0 < i" "sorted (map fst ts)"
  shows "sorted_wrt (<) (bucket_starts i ts)"
  using assms(2)
proof (induction ts rule: rev_induct)
  case (snoc x ts)
  obtain t p v where x: "x = (t, p, v)" by (cases x)
  from snoc.prems have s: "sorted (map fst ts)" and le: "\<forall>y \<in> set ts. fst y \<le> t" by (auto simp: sorted_append x)
  have "\<forall>k \<in> set (bucket_starts i ts). k \<le> bar_start i t" using bucket_starts_le [OF assms(1) le] by blast
  then have "\<forall>k \<in> set (bucket_starts i ts). k < bar_start i t"
    if "ts \<noteq> []" "last (bucket_starts i ts) \<noteq> bar_start i t"
    using sorted_wrt_last_less [OF snoc.IH [OF s]] that by simp
  with snoc.IH [OF s] show ?case
    by (cases "ts = []"; cases "last (bucket_starts i ts) = bar_start i t") (simp_all add: x bucket_starts_snoc sorted_wrt_append)
qed simp

text \<open>One tick of the stock keeps the description true.\<close>

lemma shows_stock_first: "shows_stock i [] None [] [] [] \<and> shows_stock i [(t, p, v)] (Some (new_bar (bar_start i t) p v)) [] [] []"
proof -
  have "bucket_starts i [(t, p, v)] = [bar_start i t]" using bucket_starts_snoc [of i "[]" t p v] by simp
  moreover have "candle i ([] @ [(t, p, v)]) (bar_start i t) = new_bar (bar_start i t) p v"
    by (rule candle_new) (simp add: in_bucket_def)
  ultimately show ?thesis by (simp add: shows_stock_def last_bars_def)
qed

lemma shows_stock_merge:
  assumes "shows_stock i ts (Some b) cs vs out" "last (bucket_starts i ts) = bar_start i t"
    "0 < i" "sorted (map fst ts)" "ts \<noteq> []"
  shows "shows_stock i (ts @ [(t, p, v)]) (Some (merge_tick p v b)) cs vs out"
proof -
  let ?ks = "bucket_starts i ts"
  have ne: "?ks \<noteq> []" using assms(5) by simp
  then have ks: "butlast ?ks @ [bar_start i t] = ?ks" using append_butlast_last_id [OF ne] unfolding assms(2) by simp
  have "sorted_wrt (<) (butlast ?ks @ [bar_start i t])" using bucket_starts_sorted [OF assms(3,4)] by (simp only: ks)
  then have "\<forall>k \<in> set (butlast ?ks). bar_start i t \<noteq> k" by (auto simp only: sorted_wrt_append list.set)
  then have m: "map (candle i (ts @ [(t, p, v)])) (butlast ?ks) = map (candle i ts) (butlast ?ks)"
    by (intro map_cong refl candle_other) blast
  have "in_bucket i (bar_start i t) ts \<noteq> []" using ne assms(2) last_in_set [of ?ks] by (simp add: in_bucket_Nil_iff)
  then have "candle i (ts @ [(t, p, v)]) (bar_start i t) = merge_tick p v (candle i ts (bar_start i t))" by (rule candle_merge)
  moreover have "bucket_starts i (ts @ [(t, p, v)]) = ?ks" using assms(2,5) by (simp add: bucket_starts_snoc)
  moreover have "b = candle i ts (bar_start i t)" using assms(1,2,5) by (simp add: shows_stock_def Let_def)
  ultimately show ?thesis using assms(1,5) by (simp only: shows_stock_def Let_def m assms(2)) simp
qed

lemma shows_stock_close:
  assumes "shows_stock i ts (Some b) cs vs out" "last (bucket_starts i ts) < bar_start i t"
    "0 < i" "sorted (map fst ts)" "\<forall>y \<in> set ts. fst y \<le> t" "ts \<noteq> []"
  shows "shows_stock i (ts @ [(t, p, v)]) (Some (new_bar (bar_start i t) p v))
     (push_capped MAX_BAR_HISTORY b cs) (push_capped MAX_BAR_HISTORY (br_volume b) vs) (out @ [b])"
proof -
  let ?ks = "bucket_starts i ts" and ?ts' = "ts @ [(t, p, v)]"
  have ne: "?ks \<noteq> []" using assms(6) by simp
  have "\<forall>k \<in> set ?ks. k < bar_start i t"
    using sorted_wrt_last_less [OF bucket_starts_sorted [OF assms(3,4)]] bucket_starts_le [OF assms(3,5)] assms(2) ne by fastforce
  then have out: "bar_start i t \<notin> set ?ks" by blast
  then have m: "map (candle i ?ts') ?ks = map (candle i ts) ?ks" by (intro map_cong refl candle_other) blast
  have b: "b = candle i ts (last ?ks)" using assms(1,6) by (simp add: shows_stock_def Let_def)
  have "map (candle i ts) (butlast ?ks @ [last ?ks]) = map (candle i ts) ?ks" by (simp only: append_butlast_last_id [OF ne])
  then have f: "map (candle i ts) (butlast ?ks) @ [b] = map (candle i ts) ?ks" by (simp add: b)
  have ks': "bucket_starts i ?ts' = ?ks @ [bar_start i t]" using assms(2) by (simp add: bucket_starts_snoc)
  have new: "candle i ?ts' (bar_start i t) = new_bar (bar_start i t) p v" using out by (intro candle_new) (simp add: in_bucket_Nil_iff)
  have fv: "map br_volume (map (candle i ts) (butlast ?ks)) @ [br_volume b] = map br_volume (map (candle i ts) ?ks)"
    using f by (metis list.simps(8,9) map_append)
  have pos: "0 < MAX_BAR_HISTORY" by (simp add: MAX_BAR_HISTORY_def)
  from assms(1) have st: "cs = last_bars MAX_BAR_HISTORY (map (candle i ts) (butlast ?ks))"
    "vs = last_bars MAX_BAR_HISTORY (map br_volume (map (candle i ts) (butlast ?ks)))" "out = map (candle i ts) (butlast ?ks)"
    by (simp_all add: shows_stock_def Let_def)
  show ?thesis unfolding shows_stock_def Let_def ks' butlast_snoc last_snoc m new st
    by (simp only: push_capped_last [OF pos] f fv) simp
qed

section \<open>The run refines the candles\<close>

definition shows_feed :: "int \<Rightarrow> feed \<Rightarrow> aggregator \<times> (string \<times> minute_bar) list \<Rightarrow> string \<Rightarrow> bool" where
  "shows_feed i feed = (\<lambda>(a, out) c. ag_interval a = i \<and>
     shows_stock i (ticks_of c feed) (map_of (ag_current a) c) (dict_get (ag_completed a) c []) (dict_get (ag_volumes a) c [])
       (emitted_for c out))"

lemma ticks_of_snoc: "ticks_of c (feed @ [(c', x)]) = ticks_of c feed @ (if c' = c then [x] else [])"
  by (simp add: ticks_of_def)

lemma emitted_for_snoc [simp]: "emitted_for c (out @ [(c', b)]) = emitted_for c out @ (if c' = c then [b] else [])"
  by (simp add: emitted_for_def)

lemma agg_update_other:
  assumes "0 < ag_interval a" "c' \<noteq> c"
  shows "shows_feed (ag_interval a) feed (a, out) c \<Longrightarrow>
    shows_feed (ag_interval a) (feed @ [(c', t, p, v)]) (agg_step (c', t, p, v) (a, out)) c"
  using assms by (auto simp: shows_feed_def ticks_of_snoc agg_step_def agg_update_def get_bar_timestamp_ok Let_def split: option.splits)

lemma agg_update_same:
  assumes "0 < ag_interval a" "sorted (map fst (ticks_of c (feed @ [(c, t, p, v)])))"
    and inv: "shows_feed (ag_interval a) feed (a, out) c"
  shows "shows_feed (ag_interval a) (feed @ [(c, t, p, v)]) (agg_step (c, t, p, v) (a, out)) c"
proof -
  let ?i = "ag_interval a" and ?ts = "ticks_of c feed"
  from inv have st: "shows_stock ?i ?ts (map_of (ag_current a) c) (dict_get (ag_completed a) c []) (dict_get (ag_volumes a) c []) (emitted_for c out)"
    by (simp add: shows_feed_def)
  from assms(2) have s: "sorted (map fst ?ts)" and le: "\<forall>y \<in> set ?ts. fst y \<le> t" by (auto simp: ticks_of_snoc sorted_append)
  show ?thesis
  proof (cases "map_of (ag_current a) c")
    case None
    with st have e: "?ts = []" by (auto simp: shows_stock_def Let_def split: if_splits)
    with st None have "dict_get (ag_completed a) c [] = []" "dict_get (ag_volumes a) c [] = []" "emitted_for c out = []"
      by (simp_all add: shows_stock_def last_bars_def)
    with None e assms(1) show ?thesis using shows_stock_first [of ?i t p v]
      by (simp add: shows_feed_def agg_step_def agg_update_def get_bar_timestamp_ok Let_def ticks_of_snoc)
  next
    case (Some b)
    with st have ne: "?ts \<noteq> []" and b: "b = candle ?i ?ts (last (bucket_starts ?i ?ts))"
      by (auto simp: shows_stock_def Let_def split: if_splits)
    then have bt: "br_time b = last (bucket_starts ?i ?ts)" by (simp add: candle_def Let_def)
    have "last (bucket_starts ?i ?ts) \<le> bar_start ?i t"
      using bucket_starts_le [OF assms(1) le] ne last_in_set [of "bucket_starts ?i ?ts"] by simp
    then consider "br_time b < bar_start ?i t" | "br_time b = bar_start ?i t" using bt by linarith
    then show ?thesis
    proof cases
      case 1
      with Some assms(1) show ?thesis using shows_stock_close [OF st [unfolded Some] _ assms(1) s le ne, of p v] bt
        by (simp add: shows_feed_def agg_step_def agg_update_def get_bar_timestamp_ok Let_def ticks_of_snoc)
    next
      case 2
      with Some assms(1) show ?thesis using shows_stock_merge [OF st [unfolded Some] _ assms(1) s ne, of t p v] bt
        by (simp add: shows_feed_def agg_step_def agg_update_def get_bar_timestamp_ok Let_def ticks_of_snoc)
    qed
  qed
qed

lemma agg_step_interval: "ag_interval (fst (agg_step x (a, out))) = ag_interval a"
  by (cases x) (auto simp: agg_step_def agg_update_def Let_def split: sum.splits option.splits)

lemma agg_run_shows_feed:
  assumes "0 < i" "\<forall>c. sorted (map fst (ticks_of c feed))"
  shows "shows_feed i feed (agg_run i feed) c"
  using assms(2)
proof (induction feed rule: rev_induct)
  case Nil
  then show ?case using shows_stock_first
    by (simp add: shows_feed_def agg_run_def new_aggregator_def ticks_of_def emitted_for_def)
next
  case (snoc x feed)
  obtain c' t p v where x: "x = (c', t, p, v)" by (cases x)
  from snoc.prems have "\<forall>c. sorted (map fst (ticks_of c feed))" by (auto simp: x ticks_of_snoc sorted_append split: if_splits)
  with snoc.IH have IH: "shows_feed i feed (agg_run i feed) c" by blast
  obtain a out where r: "agg_run i feed = (a, out)" by force
  with IH have i: "i = ag_interval a" by (simp add: shows_feed_def)
  have step: "agg_run i (feed @ [x]) = agg_step (c', t, p, v) (a, out)" using r by (simp add: agg_run_def x)
  show ?case
  proof (cases "c' = c")
    case True
    with snoc.prems have "sorted (map fst (ticks_of c (feed @ [(c, t, p, v)])))" by (simp add: x)
    with agg_update_same [of a c feed t p v out] IH r i assms(1) True show ?thesis unfolding step by (simp add: x)
  next
    case False
    with agg_update_other [of a c' c feed out t p v] IH r i assms(1) show ?thesis unfolding step by (simp add: x)
  qed
qed

text \<open>
  Claim C16. The aggregator refines the candles of the ticks. Feed it the ticks of any number of
  stocks in any interleaving, each stock's own ticks in the order of time: for every stock the
  candles it has answered are, one per interval that has ended and in order, the opening,
  highest, lowest and closing price and the volume of the ticks of that interval, whatever the
  other stocks did; the open candle is the one of the last interval, and the histories hold the
  last sixty of the answered ones and their volumes.
\<close>

theorem aggregator_refines_candles:
  assumes "0 < i" "\<forall>c. sorted (map fst (ticks_of c feed))" "agg_run i feed = (a, out)"
  shows "let ts = ticks_of c feed; ks = bucket_starts i ts; finished = map (candle i ts) (butlast ks)
    in emitted_for c out = finished
     \<and> map_of (ag_current a) c = (if ts = [] then None else Some (candle i ts (last ks)))
     \<and> get_recent_bars a c 0 = last_bars 60 finished
     \<and> dict_get (ag_volumes a) c [] = last_bars 60 (map br_volume finished)"
  using agg_run_shows_feed [OF assms(1,2), of c] assms(3)
  by (simp add: shows_feed_def shows_stock_def Let_def get_recent_bars_def MAX_BAR_HISTORY_def)

definition sample_feed :: feed where
  "sample_feed = [(''A'', 0, 10, 5), (''B'', 1, 7, 2), (''A'', 30, 12, 1), (''A'', 59, 9, 4), (''B'', 61, 8, 1), (''A'', 125, 11, 3)]"

lemma sample_feed_sorted: "sorted (map fst (ticks_of c sample_feed))"
  by (simp add: sample_feed_def ticks_of_def)

theorem aggregator_refines_candles_witness:
  "emitted_for ''A'' (snd (agg_run 60 sample_feed)) =
     [\<lparr>br_time = 0, br_open = 10, br_high = 12, br_low = 9, br_close = 9, br_volume = 10, br_ticks = 3\<rparr>]"
proof -
  have "emitted_for ''A'' (snd (agg_run 60 sample_feed)) =
    map (candle 60 (ticks_of ''A'' sample_feed)) (butlast (bucket_starts 60 (ticks_of ''A'' sample_feed)))"
    using aggregator_refines_candles [of 60 sample_feed "fst (agg_run 60 sample_feed)" "snd (agg_run 60 sample_feed)" "''A''"]
      sample_feed_sorted by (simp add: Let_def)
  also have "\<dots> = [\<lparr>br_time = 0, br_open = 10, br_high = 12, br_low = 9, br_close = 9, br_volume = 10, br_ticks = 3\<rparr>]"
    by code_simp
  finally show ?thesis .
qed

end
