(* ===== verification/Buy_Signals.thy ===== *)
theory Buy_Signals
  imports Bar_Aggregator Config_Manager
begin

text \<open>
  The buy strategies of \<open>services/buy-scanner/opportunity_watcher.py\<close>: what each decides from the
  recent one-minute candles, the configuration and the watchlist entry. The texts of the
  reasons are not modelled: a strategy answers whether it triggers. Prices are finite floats
  and volumes integers; the power function of the C library is a parameter.
\<close>

section \<open>Lists\<close>

text \<open>\<open>xs[-w:]\<close>, for any integer.\<close>

definition from_end :: "int \<Rightarrow> 'a list \<Rightarrow> 'a list" where
  "from_end w xs = (if 0 < w then drop (length xs - nat w) xs else drop (nat (- w)) xs)"

definition mean_of :: "rat list \<Rightarrow> int \<Rightarrow> rat res" where
  "mean_of xs w = py_fdiv (fsum xs) (of_py_int w)"

definition mean_volume :: "int list \<Rightarrow> rat" where
  "mean_volume vs = (if vs = [] then 0 else fl (of_int (sum_list vs) / of_nat (length vs)))"

definition closes_of :: "minute_bar list \<Rightarrow> rat list" where "closes_of = map br_close"

section \<open>RSI\<close>

definition price_deltas :: "rat list \<Rightarrow> rat list" where
  "price_deltas prices = map (\<lambda>(a, b). fsub b a) (zip prices (tl prices))"

definition simple_rsi :: "nat \<Rightarrow> rat list \<Rightarrow> rat option" where
  "simple_rsi period prices =
     (if length prices < period + 1 then None
      else (let recent = last_bars period (price_deltas prices);
                gains = filter (\<lambda>d. 0 < d) recent;
                losses = map uminus (filter (\<lambda>d. d < 0) recent);
                avg_gain = (if gains = [] then 0 else fdiv (fsum gains) (of_nat period));
                avg_loss = (if losses = [] then 0 else fdiv (fsum losses) (of_nat period))
            in if avg_loss = 0 then Some 100
               else (let rs = fdiv avg_gain avg_loss in Some (fsub 100 (fdiv 100 (fadd 1 rs))))))"

section \<open>Strategies of the watchlist\<close>

text \<open>The parameters the checks read, absent as \<open>None\<close>.\<close>

record strat =
  st_id :: string
  st_short :: "int option"
  st_long :: "int option"
  st_threshold :: "rat option"
  st_period :: "int option"

definition bare_strat :: "string \<Rightarrow> strat" where
  "bare_strat i = \<lparr>st_id = i, st_short = None, st_long = None, st_threshold = None, st_period = None\<rparr>"

datatype cross = No_cross | Weak_volume | Crossed

definition watch_golden_cross :: "'a cfg_scheme \<Rightarrow> minute_bar list \<Rightarrow> strat \<Rightarrow> rat \<Rightarrow> cross res" where
  "watch_golden_cross C bars st volume_ratio =
     (let closes = closes_of bars; short_w = opt_or 5 (st_short st); long_w = opt_or 20 (st_long st) in
      if int (length closes) < long_w then Inr No_cross
      else res_bind (mean_of (from_end short_w closes) short_w) (\<lambda>ma_short.
        res_bind (mean_of (from_end long_w closes) long_w) (\<lambda>ma_long.
        let prev_closes = butlast closes in
        res_bind (if short_w \<le> int (length prev_closes) then mean_of (from_end short_w prev_closes) short_w else Inr ma_short)
          (\<lambda>prev_ma_short. Inr (
             if prev_ma_short \<le> ma_long \<and> ma_long < ma_short
             then (if volume_ratio < cf_float C ''GOLDEN_CROSS_MIN_VOLUME_RATIO'' (3/2) then Weak_volume else Crossed)
             else No_cross)))))"

definition watch_rsi_rebound :: "minute_bar list \<Rightarrow> strat \<Rightarrow> bool" where
  "watch_rsi_rebound bars st =
     (let closes = closes_of bars; threshold = opt_or 30 (st_threshold st)
      in case (simple_rsi 14 closes, simple_rsi 14 (butlast closes)) of
           (Some now_rsi, Some prev_rsi) \<Rightarrow> 2 \<le> length closes \<and> prev_rsi < threshold \<and> threshold \<le> now_rsi
         | _ \<Rightarrow> False)"

definition check_bb_lower :: "(rat \<Rightarrow> rat \<Rightarrow> rat) \<Rightarrow> minute_bar list \<Rightarrow> strat \<Rightarrow> rat \<Rightarrow> bool res" where
  "check_bb_lower pow bars st current_price =
     (let closes = closes_of bars; period = opt_or 20 (st_period st) in
      if int (length closes) < period then Inr False
      else (let recent = from_end period closes in
        res_bind (mean_of recent period) (\<lambda>ma.
        res_bind (mean_of (map (\<lambda>x. pow (fsub x ma) 2) recent) period) (\<lambda>variance.
        Inr (current_price \<le> fsub ma (fmul 2 (pow variance (1/2))))))))"

definition pct_change :: "rat \<Rightarrow> rat \<Rightarrow> rat res" where
  "pct_change base x = res_bind (py_fdiv (fsub x base) base) (\<lambda>q. Inr (fmul q 100))"

definition check_momentum :: "'a cfg_scheme \<Rightarrow> minute_bar list \<Rightarrow> strat \<Rightarrow> bool res" where
  "check_momentum C bars st =
     (let closes = closes_of bars; threshold = opt_or 3 (st_threshold st) in
      if length closes < 2 then Inr False
      else res_bind (pct_change (hd closes) (last closes)) (\<lambda>momentum.
        Inr (threshold \<le> momentum \<and> momentum < cf_float C ''MOMENTUM_MAX_GAIN_PCT'' 7)))"

section \<open>Strategies of a rising market\<close>

definition bull_regime :: "string \<Rightarrow> bool" where "bull_regime r = (r = ''BULL'' \<or> r = ''STRONG_BULL'')"

definition check_momentum_continuation :: "'a cfg_scheme \<Rightarrow> string \<Rightarrow> rat \<Rightarrow> minute_bar list \<Rightarrow> bool res" where
  "check_momentum_continuation C market_regime llm_score bars =
     (if \<not> cf_bool C ''ENABLE_MOMENTUM_CONTINUATION'' True \<or> \<not> bull_regime market_regime \<or> llm_score < 65
         \<or> length bars < 20 then Inr False
      else (let closes = closes_of bars;
                ma5 = fdiv (fsum (last_bars 5 closes)) 5; ma20 = fdiv (fsum (last_bars 20 closes)) 20
            in if ma5 \<le> ma20 then Inr False
               else res_bind (pct_change (br_open (hd bars)) (br_close (last bars))) (\<lambda>change.
                 Inr (2 \<le> change \<and> change < cf_float C ''MOMENTUM_CONT_MAX_GAIN_PCT'' 5))))"

definition volume_at_least :: "rat \<Rightarrow> int list \<Rightarrow> int \<Rightarrow> bool" where
  "volume_at_least factor others current =
     (let avg = mean_volume others in avg \<noteq> 0 \<and> factor \<le> fdiv (of_py_int current) avg)"

definition check_short_term_high_breakout :: "minute_bar list \<Rightarrow> bool" where
  "check_short_term_high_breakout bars =
     (30 \<le> length bars \<and> Max (set (map br_high (butlast bars))) < br_close (last bars)
      \<and> volume_at_least 2 (last_bars 30 (map br_volume (butlast bars))) (br_volume (last bars)))"

definition check_volume_breakout_1min :: "minute_bar list \<Rightarrow> bool" where
  "check_volume_breakout_1min bars =
     (20 \<le> length bars \<and> Max (set (last_bars 20 (closes_of (butlast bars)))) < br_close (last bars)
      \<and> volume_at_least 3 (map br_volume (butlast bars)) (br_volume (last bars)))"

definition dynamic_rsi_threshold :: "string \<Rightarrow> rat" where
  "dynamic_rsi_threshold market_regime =
     (if bull_regime market_regime then 50 else if market_regime = ''SIDEWAYS'' then 40 else 30)"

text \<open>\<open>bars[-k:-1]\<close>.\<close>

definition before_last :: "nat \<Rightarrow> 'a list \<Rightarrow> 'a list" where
  "before_last k xs = butlast (last_bars k xs)"

definition check_bull_pullback :: "minute_bar list \<Rightarrow> bool" where
  "check_bull_pullback bars =
     (20 \<le> length bars \<and>
      (let closes = closes_of bars; cur = last bars;
           ma5 = fdiv (fsum (last_bars 5 closes)) 5; ma20 = fdiv (fsum (last_bars 20 closes)) 20;
           volumes = map br_volume (before_last 6 bars)
       in ma20 < ma5 \<and> ma20 < br_close cur
        \<and> 2 \<le> length (filter (\<lambda>b. br_close b < br_open b) (before_last 4 bars))
        \<and> br_open cur < br_close cur
        \<and> last volumes \<noteq> 0
        \<and> fmul (mean_volume volumes) (fl (8/10)) < of_int (br_volume cur)))"

definition mean_range :: "minute_bar list \<Rightarrow> rat" where
  "mean_range bs = fdiv (fsum (map (\<lambda>b. fsub (br_high b) (br_low b)) bs)) (of_nat (length bs))"

definition check_vcp_breakout :: "minute_bar list \<Rightarrow> bool" where
  "check_vcp_breakout bars =
     (20 \<le> length bars \<and>
      (let cur = last bars; analysis = before_last 21 bars in
       20 \<le> length analysis \<and>
       (let avg_first = mean_range (take 10 analysis); avg_second = mean_range (drop 10 analysis)
        in avg_first \<noteq> 0 \<and> fdiv avg_second avg_first \<le> fl (7/10)
         \<and> volume_at_least 3 (map br_volume analysis) (br_volume cur)
         \<and> Max (set (map br_high analysis)) < br_close cur)))"

definition check_institutional_buying :: "minute_bar list \<Rightarrow> bool" where
  "check_institutional_buying bars =
     (5 \<le> length bars \<and>
      (let cur = last bars; earlier = last (butlast bars);
           rng = fsub (br_high cur) (br_low cur);
           body = \<bar>fsub (br_close cur) (br_open cur)\<bar>;
           prev_body = \<bar>fsub (br_close earlier) (br_open earlier)\<bar>
       in br_open cur < br_close cur \<and> 0 < rng
        \<and> fdiv (fsub (br_high cur) (br_close cur)) rng < fl (1/10)
        \<and> 2 \<le> fdiv body (if prev_body = 0 then 1 else prev_body)
        \<and> br_volume earlier < br_volume cur))"

section \<open>Entries from the watchlist\<close>

record stock_info =
  si_name :: string
  si_llm_score :: rat
  si_rank :: int
  si_tradable :: bool
  si_strategies :: "strat list"
  si_trade_tier :: "string option"
  si_hybrid_score :: rat

text \<open>First day on the watchlist of the last five, and the close of that day.\<close>

record entry_info =
  en_date :: "int option"
  en_price :: "rat option"

text \<open>\<open>entry_data.get("entry_price")\<close> in a condition: a price of 0 counts as missing.\<close>

definition entry_price :: "entry_info option \<Rightarrow> rat option" where
  "entry_price e = (case e of None \<Rightarrow> None
     | Some i \<Rightarrow> (case en_price i of Some p \<Rightarrow> if p = 0 then None else Some p | None \<Rightarrow> None))"

definition check_dip_buy :: "'a cfg_scheme \<Rightarrow> string \<Rightarrow> int \<Rightarrow> entry_info option \<Rightarrow> rat \<Rightarrow> rat \<Rightarrow> bool" where
  "check_dip_buy C market_regime today entry current_price llm_score =
     (case (entry_price entry, Option.bind entry en_date) of
        (Some p, Some d) \<Rightarrow>
          (let bull = bull_regime market_regime; days = today - d;
               dip_min = (if bull then cf_float C ''DIP_BUY_MIN_DROP_BULL'' (- 1/2) else - 2);
               dip_max = (if bull then cf_float C ''DIP_BUY_MAX_DROP_BULL'' (- 3) else - 5);
               max_days = (if bull then 5 else 3);
               change = fmul (fdiv (fsub current_price p) p) 100
           in 1 \<le> days \<and> days \<le> max_days \<and> change \<le> dip_min \<and> dip_max \<le> change \<and> 65 \<le> llm_score)
      | _ \<Rightarrow> False)"

text \<open>Seconds of the day in Korea.\<close>

definition kst_seconds :: "rat \<Rightarrow> rat" where
  "kst_seconds now = now + 32400 - 86400 * of_int (kst_day now)"

text \<open>The configuration with the texts of the entry window.\<close>

record watch_cfg = cfg +
  cf_text :: "string \<Rightarrow> string \<Rightarrow> string"

definition clock_text :: "string \<Rightarrow> (int \<times> int) res" where
  "clock_text s = res_bind (parse_int (take 2 s)) (\<lambda>h. res_bind (parse_int (drop 2 s)) (\<lambda>m. Inr (h, m)))"

text \<open>\<open>now_kst.replace(hour=h, minute=m, second=0)\<close>, as seconds of the day.\<close>

definition clock_at :: "int \<times> int \<Rightarrow> rat res" where
  "clock_at = (\<lambda>(h, m). if 0 \<le> h \<and> h \<le> 23 \<and> 0 \<le> m \<and> m \<le> 59 then Inr (of_int (h * 3600 + m * 60)) else Inl ValueError)"

definition entry_window :: "'a watch_cfg_scheme \<Rightarrow> (rat \<times> rat) res" where
  "entry_window C =
     (let (start, stop) = (case (clock_text (cf_text C ''CONVICTION_ENTRY_WINDOW_START'' ''0915''),
                                 clock_text (cf_text C ''CONVICTION_ENTRY_WINDOW_END'' ''1030'')) of
            (Inr a, Inr b) \<Rightarrow> (a, b) | _ \<Rightarrow> ((9, 15), (10, 30)))
      in res_bind (clock_at start) (\<lambda>a. res_bind (clock_at stop) (\<lambda>b. Inr (a, b))))"

definition conviction_scores :: "'a cfg_scheme \<Rightarrow> string \<Rightarrow> stock_info \<Rightarrow> bool" where
  "conviction_scores C market_regime si =
     ((bull_regime market_regime \<or> market_regime = ''SIDEWAYS'' \<and> 75 \<le> si_hybrid_score si)
      \<and> (cf_float C ''CONVICTION_MIN_HYBRID_SCORE'' 70 \<le> si_hybrid_score si
         \<or> cf_float C ''CONVICTION_MIN_LLM_SCORE'' 72 \<le> si_llm_score si))"

definition days_on_list :: "int \<Rightarrow> entry_info option \<Rightarrow> int" where
  "days_on_list today entry = (case Option.bind entry en_date of None \<Rightarrow> 0 | Some d \<Rightarrow> today - d)"

definition check_conviction_entry ::
  "'a watch_cfg_scheme \<Rightarrow> string \<Rightarrow> rat \<Rightarrow> int \<Rightarrow> entry_info option \<Rightarrow> stock_info \<Rightarrow> rat \<Rightarrow> rat \<Rightarrow> minute_bar list \<Rightarrow> bool res" where
  "check_conviction_entry C market_regime now today entry si vwap current_price bars =
     (if \<not> cf_bool C ''ENABLE_WATCHLIST_CONVICTION_ENTRY'' True \<or> \<not> conviction_scores C market_regime si
         \<or> (Option.bind entry en_date \<noteq> None \<and> cf_int C ''CONVICTION_MAX_DAYS_SINCE_ENTRY'' 2 < days_on_list today entry)
      then Inr False
      else res_bind (entry_window C) (\<lambda>(start, stop).
        if \<not> (start \<le> kst_seconds now \<and> kst_seconds now \<le> stop) \<or> bars = [] then Inr False
        else (let ref = opt_or (br_open (hd bars)) (entry_price entry);
                  gain = (if 0 < ref then fmul (fdiv (fsub current_price ref) ref) 100 else 0);
                  rsi = (if 15 \<le> length bars then simple_rsi 14 (closes_of bars) else None)
              in Inr (gain < cf_float C ''CONVICTION_MAX_INTRADAY_GAIN_PCT'' 3
                \<and> (0 < vwap \<longrightarrow> fmul (fdiv (fsub current_price vwap) vwap) 100 \<le> cf_float C ''CONVICTION_MAX_VWAP_DEVIATION'' (3/2))
                \<and> (case rsi of None \<Rightarrow> True | Some r \<Rightarrow> r < 65)))))"

section \<open>Foreign buying\<close>

text \<open>Rows are trading day and net purchase; the last five days by date.\<close>

definition check_legendary_pattern :: "(int \<times> int) list option \<Rightarrow> minute_bar list \<Rightarrow> bool" where
  "check_legendary_pattern supply bars = (case supply of
     None \<Rightarrow> False
   | Some rows \<Rightarrow> rows \<noteq> [] \<and> 0 < sum_list (map snd (last_bars 5 (sort_key fst rows)))
       \<and> (case simple_rsi 14 (closes_of bars) of None \<Rightarrow> False | Some r \<Rightarrow> r \<noteq> 0 \<and> r \<le> 40))"

section \<open>Guards on candles\<close>

definition check_rsi_guard :: "'a cfg_scheme \<Rightarrow> rat option \<Rightarrow> bool" where
  "check_rsi_guard C rsi = (case rsi of None \<Rightarrow> True | Some r \<Rightarrow> r \<le> of_int (cf_int C ''RISK_GATE_RSI_MAX'' 70))"

definition check_no_trade_window :: "rat \<Rightarrow> bool" where
  "check_no_trade_window now = (\<not> (32400 \<le> kst_seconds now \<and> kst_seconds now \<le> 33300))"

definition check_danger_zone :: "rat \<Rightarrow> bool" where
  "check_danger_zone now = (\<not> (50400 \<le> kst_seconds now \<and> kst_seconds now < 54000))"

datatype micro = Micro_ok | Shooting_star | Bearish_engulfing

definition check_micro_timing :: "minute_bar list \<Rightarrow> micro" where
  "check_micro_timing bars =
     (if length bars < 2 then Micro_ok
      else (let cur = last bars; earlier = last (butlast bars);
                body = \<bar>fsub (br_close cur) (br_open cur)\<bar>;
                upper_wick = fsub (br_high cur) (max (br_close cur) (br_open cur))
            in if 0 < body \<and> fmul body 2 < upper_wick then Shooting_star
               else if br_open earlier < br_close earlier \<and> br_close cur < br_open cur
                   \<and> br_close earlier \<le> br_open cur \<and> br_close cur \<le> br_open earlier \<and> br_volume earlier < br_volume cur
               then Bearish_engulfing else Micro_ok))"

end
