(* ===== verification/Trading_Context.thy ===== *)
theory Trading_Context
  imports Py_Num Sector_Classifier
begin

text \<open>
  The macro context of the trading services: \<open>shared/macro_insight/trading_context.py\<close> (risk-off
  level, multipliers, sector signals, hints, the context built from the global snapshot and the
  council's insight, its thirty-minute cache) and the readers of
  \<open>shared/macro_insight/daily_insight.py\<close>. The values of the sector signals are dynamically
  typed; an object of the class \<open>SectorSignal\<close> is read like the dictionary of its fields.
\<close>

section \<open>Risk-off level\<close>

datatype risk_signal = Vix_crisis | Vix_elevated | Yield_inverted | Yield_flat | Sentiment_very_bearish
  | Sentiment_bearish | News_very_negative | News_negative | Political_critical | Political_high

fun signal_points :: "risk_signal \<Rightarrow> nat" where
  "signal_points Vix_crisis = 2" | "signal_points Vix_elevated = 1"
| "signal_points Yield_inverted = 2" | "signal_points Yield_flat = 1"
| "signal_points Sentiment_very_bearish = 2" | "signal_points Sentiment_bearish = 1"
| "signal_points News_very_negative = 1" | "signal_points News_negative = 1"
| "signal_points Political_critical = 2" | "signal_points Political_high = 1"

text \<open>\<open>vix and vix >= limit\<close>: a reading of 0 counts as missing.\<close>

definition reading_above :: "rat \<Rightarrow> rat option \<Rightarrow> bool" where
  "reading_above limit x = (case x of None \<Rightarrow> False | Some v \<Rightarrow> v \<noteq> 0 \<and> limit \<le> v)"

definition reading_below :: "rat \<Rightarrow> rat option \<Rightarrow> bool" where
  "reading_below limit x = (case x of None \<Rightarrow> False | Some v \<Rightarrow> v < limit)"

definition first_signal :: "(bool \<times> risk_signal) list \<Rightarrow> risk_signal list" where
  "first_signal rules = (case filter fst rules of [] \<Rightarrow> [] | (_, sig) # _ \<Rightarrow> [sig])"

definition risk_signals :: "rat option \<Rightarrow> string \<Rightarrow> rat option \<Rightarrow> int \<Rightarrow> rat option \<Rightarrow> string \<Rightarrow> risk_signal list" where
  "risk_signals vix vix_regime treasury_spread sentiment_score news_sentiment political_risk_level =
     first_signal [(vix_regime = ''crisis'' \<or> reading_above 35 vix, Vix_crisis),
                   (vix_regime = ''elevated'' \<or> reading_above 25 vix, Vix_elevated)]
   @ first_signal [(reading_below 0 treasury_spread, Yield_inverted), (reading_below (fl (3/10)) treasury_spread, Yield_flat)]
   @ first_signal [(sentiment_score < 30, Sentiment_very_bearish), (sentiment_score < 40, Sentiment_bearish)]
   @ first_signal [(reading_below (- fl (3/10)) news_sentiment, News_very_negative),
                   (reading_below (- fl (15/100)) news_sentiment, News_negative)]
   @ first_signal [(political_risk_level = ''critical'', Political_critical), (political_risk_level = ''high'', Political_high)]"

definition level_of :: "risk_signal list \<Rightarrow> nat" where
  "level_of signals = (let total_score = sum_list (map signal_points signals) in
     if 3 \<le> length signals \<and> 4 \<le> total_score then 3
     else if 2 \<le> length signals \<and> 3 \<le> total_score then 2
     else if 2 \<le> length signals \<or> 2 \<le> total_score then 1
     else 0)"

definition calculate_risk_off_level ::
  "rat option \<Rightarrow> string \<Rightarrow> rat option \<Rightarrow> int \<Rightarrow> rat option \<Rightarrow> string \<Rightarrow> nat \<times> risk_signal list" where
  "calculate_risk_off_level vix vix_regime treasury_spread sentiment_score news_sentiment political_risk_level =
     (let signals = risk_signals vix vix_regime treasury_spread sentiment_score news_sentiment political_risk_level
      in (level_of signals, signals))"

section \<open>Multipliers\<close>

definition vix_adjustment :: "string \<Rightarrow> rat" where
  "vix_adjustment vix_regime =
     (if vix_regime = ''low_vol'' then fl (1/10) else if vix_regime = ''elevated'' then - fl (1/10)
      else if vix_regime = ''crisis'' then - fl (2/10) else 0)"

definition risk_adjustment :: "nat \<Rightarrow> rat" where
  "risk_adjustment level = (if level = 1 then - fl (1/10) else if level = 2 then - fl (2/10)
     else if level = 3 then - fl (3/10) else 0)"

definition sentiment_adjustment :: "int \<Rightarrow> rat" where
  "sentiment_adjustment score =
     (if 70 \<le> score then fl (1/10) else if 60 \<le> score then fl (5/100)
      else if score \<le> 30 then - fl (1/10) else if score \<le> 40 then - fl (5/100) else 0)"

definition calculate_position_multiplier :: "string \<Rightarrow> nat \<Rightarrow> int \<Rightarrow> rat" where
  "calculate_position_multiplier vix_regime risk_off_level sentiment_score =
     (let multiplier = fadd (fadd (fadd 1 (vix_adjustment vix_regime)) (risk_adjustment risk_off_level))
            (sentiment_adjustment sentiment_score)
      in max (1/2) (min (fl (13/10)) (py_round 2 multiplier)))"

definition calculate_stop_loss_multiplier :: "string \<Rightarrow> nat \<Rightarrow> rat" where
  "calculate_stop_loss_multiplier vix_regime risk_off_level =
     (let base = (if vix_regime = ''crisis'' then 3/2 else if vix_regime = ''elevated'' then fl (13/10)
            else if vix_regime = ''low_vol'' then fl (9/10) else 1);
          widened = (if 2 \<le> risk_off_level then min (3/2) (fmul base (fl (11/10))) else base)
      in py_round 2 widened)"

definition calculate_max_positions :: "string \<Rightarrow> nat \<Rightarrow> int \<Rightarrow> int" where
  "calculate_max_positions vix_regime risk_off_level base_max =
     (if 3 \<le> risk_off_level \<or> vix_regime = ''crisis'' then max 3 (base_max div 3)
      else if 2 \<le> risk_off_level \<or> vix_regime = ''elevated'' then max 5 (base_max div 2)
      else if 1 \<le> risk_off_level then max 7 (py_int (fmul (of_py_int base_max) (fl (7/10))))
      else base_max)"

section \<open>Sector signals\<close>

definition bullish_word :: string where "bullish_word = utf8 [234, 176, 149, 236, 132, 184]"
definition bearish_word :: string where "bearish_word = utf8 [236, 149, 189, 236, 132, 184]"

definition signal_value :: "pyval \<Rightarrow> rat res" where
  "signal_value v = (case v of
     PInt n \<Rightarrow> Inr (of_py_int n)
   | PFloat x \<Rightarrow> Inr x
   | PBool b \<Rightarrow> Inr (if b then 1 else 0)
   | PStr s \<Rightarrow> (let s' = str_lower s in
       Inr (if substr bullish_word s' \<or> substr ''bullish'' s' then 1/2
            else if substr bearish_word s' \<or> substr ''bearish'' s' then - 1/2 else 0))
   | PDict kvs \<Rightarrow> as_num (dict_get kvs ''score'' (PFloat 0))
   | _ \<Rightarrow> Inr 0)"

type_synonym sector_split = "(string \<times> rat) list \<times> string list \<times> string list"

fun extract_from :: "rat \<Rightarrow> (string \<times> pyval) list \<Rightarrow> sector_split \<Rightarrow> sector_split res" where
  "extract_from threshold [] acc = Inr acc"
| "extract_from threshold ((sector, sig) # rest) (normalized, avoid, favor) =
     res_bind (signal_value sig) (\<lambda>x.
       let v = max (- 1) (min 1 x)
       in extract_from threshold rest (dict_set sector v normalized,
            (if v \<le> - threshold then avoid @ [sector] else avoid),
            (if \<not> v \<le> - threshold \<and> threshold \<le> v then favor @ [sector] else favor)))"

definition extract_sector_signals :: "(string \<times> pyval) list \<Rightarrow> rat \<Rightarrow> sector_split res" where
  "extract_sector_signals raw threshold = extract_from threshold raw ([], [], [])"

section \<open>Hints\<close>

text \<open>\<open>list(set(hints))\<close>: the order is unspecified, so the hints are a set.\<close>

definition get_strategy_hints :: "string \<Rightarrow> nat \<Rightarrow> string \<Rightarrow> string \<Rightarrow> string set" where
  "get_strategy_hints vix_regime risk_off_level sentiment regime_hint = set (
     (if vix_regime = ''crisis'' then [''avoid_breakout'', ''prefer_pullback'', ''reduce_position'']
      else if vix_regime = ''elevated'' then [''cautious_breakout'', ''prefer_pullback'']
      else if vix_regime = ''low_vol'' then [''momentum_ok'', ''breakout_ok''] else [])
   @ (if 2 \<le> risk_off_level then [''defensive_only'', ''no_new_entry'']
      else if 1 \<le> risk_off_level then [''reduce_aggression''] else [])
   @ (if sentiment = ''bullish'' then [''momentum_ok''] else if sentiment = ''bearish'' then [''prefer_rebound''] else [])
   @ (let h = str_lower regime_hint in
      if substr ''bull'' h then [''trend_following_ok''] else if substr ''bear'' h then [''counter_trend_ok''] else []))"

section \<open>The context\<close>

text \<open>
  What the context uses of \<open>GlobalMacroSnapshot.to_dict()\<close> and of the dictionary made from a
  \<open>DailyMacroInsight\<close>; both have all their keys.
\<close>

record macro_snapshot =
  ms_vix :: "rat option"
  ms_vix_regime :: string
  ms_treasury_spread :: "rat option"
  ms_korea_news :: "rat option"
  ms_fed_rate :: "rat option"
  ms_usd_krw :: "rat option"
  ms_kospi :: "rat option"
  ms_sources :: "string list"
  ms_completeness :: rat
  ms_political_score :: "rat option"
  ms_political_level :: string

record insight =
  in_sentiment :: string
  in_score :: int
  in_sector_signals :: "(string \<times> pyval) list"
  in_regime_hint :: string
  in_position_pct :: int
  in_stop_loss_pct :: int
  in_favor_strategies :: "string list"
  in_avoid_strategies :: "string list"
  in_favor_sectors :: "string list"
  in_avoid_sectors :: "string list"
  in_reasoning :: string
  in_political_level :: string

record macro_context =
  mc_date :: int
  mc_updated :: rat
  mc_vix :: "rat option"
  mc_vix_regime :: string
  mc_political_score :: "rat option"
  mc_political_level :: string
  mc_position_mult :: rat
  mc_max_positions :: int
  mc_level :: nat
  mc_reasons :: "risk_signal list"
  mc_sector_signals :: "(string \<times> rat) list"
  mc_avoid_sectors :: "string list"
  mc_favor_sectors :: "string list"
  mc_hints :: "string set"
  mc_favor_strategies :: "string list"
  mc_avoid_strategies :: "string list"
  mc_stop_mult :: rat
  mc_take_mult :: rat
  mc_reasoning :: string
  mc_sentiment :: string
  mc_score :: int
  mc_regime_hint :: string
  mc_fed_rate :: "rat option"
  mc_spread :: "rat option"
  mc_usd_krw :: "rat option"
  mc_kospi :: "rat option"
  mc_completeness :: rat
  mc_sources :: "string list"
  mc_has_global :: bool
  mc_has_council :: bool

definition no_snapshot :: macro_snapshot where
  "no_snapshot = \<lparr>ms_vix = None, ms_vix_regime = ''normal'', ms_treasury_spread = None, ms_korea_news = None,
     ms_fed_rate = None, ms_usd_krw = None, ms_kospi = None, ms_sources = [], ms_completeness = 0,
     ms_political_score = None, ms_political_level = ''low''\<rparr>"

definition no_insight :: insight where
  "no_insight = \<lparr>in_sentiment = ''neutral'', in_score = 50, in_sector_signals = [], in_regime_hint = [],
     in_position_pct = 0, in_stop_loss_pct = 0, in_favor_strategies = [], in_avoid_strategies = [],
     in_favor_sectors = [], in_avoid_sectors = [], in_reasoning = [], in_political_level = []\<rparr>"

text \<open>\<open>if pct and pct != 100\<close>: the recommendation of the council, else the computed value.\<close>

definition recommended :: "int \<Rightarrow> rat \<Rightarrow> rat" where
  "recommended pct computed = (if pct \<noteq> 0 \<and> pct \<noteq> 100 then fdiv (of_py_int pct) 100 else computed)"

definition political_level :: "macro_snapshot \<Rightarrow> insight \<Rightarrow> string" where
  "political_level g c = (if in_political_level c \<in> {''low'', ''medium'', ''high'', ''critical''}
     then in_political_level c else ms_political_level g)"

definition build_trading_context ::
  "rat \<Rightarrow> int \<Rightarrow> macro_snapshot option \<Rightarrow> insight option \<Rightarrow> macro_context res" where
  "build_trading_context now today snap council =
     (let g = opt_or no_snapshot snap; c = opt_or no_insight council;
          regime = ms_vix_regime g; political = political_level g c;
          (level, reasons) = calculate_risk_off_level (ms_vix g) regime (ms_treasury_spread g) (in_score c)
             (ms_korea_news g) political
      in res_bind (extract_sector_signals (in_sector_signals c) (fl (3/10))) (\<lambda>(signals, avoid, favor).
        Inr \<lparr>mc_date = today, mc_updated = now, mc_vix = ms_vix g, mc_vix_regime = regime,
          mc_political_score = ms_political_score g, mc_political_level = political,
          mc_position_mult = recommended (in_position_pct c) (calculate_position_multiplier regime level (in_score c)),
          mc_max_positions = calculate_max_positions regime level 10,
          mc_level = level, mc_reasons = reasons, mc_sector_signals = signals,
          mc_avoid_sectors = (if in_avoid_sectors c \<noteq> [] then in_avoid_sectors c else avoid),
          mc_favor_sectors = (if in_favor_sectors c \<noteq> [] then in_favor_sectors c else favor),
          mc_hints = get_strategy_hints regime level (in_sentiment c) (in_regime_hint c),
          mc_favor_strategies = in_favor_strategies c, mc_avoid_strategies = in_avoid_strategies c,
          mc_stop_mult = recommended (in_stop_loss_pct c) (calculate_stop_loss_multiplier regime level),
          mc_take_mult = 1, mc_reasoning = in_reasoning c, mc_sentiment = in_sentiment c, mc_score = in_score c,
          mc_regime_hint = in_regime_hint c, mc_fed_rate = ms_fed_rate g, mc_spread = ms_treasury_spread g,
          mc_usd_krw = ms_usd_krw g, mc_kospi = ms_kospi g, mc_completeness = ms_completeness g,
          mc_sources = ms_sources g, mc_has_global = (snap \<noteq> None), mc_has_council = (council \<noteq> None)\<rparr>))"

definition is_risk_off :: "macro_context \<Rightarrow> bool" where "is_risk_off ctx = (2 \<le> mc_level ctx)"

definition should_reduce_exposure :: "macro_context \<Rightarrow> bool" where
  "should_reduce_exposure ctx = (1 \<le> mc_level ctx \<or> mc_vix_regime ctx \<in> {''elevated'', ''crisis''})"

definition all_strategies :: "string list" where
  "all_strategies = [''RECON_BULL_ENTRY'', ''MOMENTUM_CONTINUATION'', ''SHORT_TERM_HIGH_BREAKOUT'',
     ''VOLUME_BREAKOUT_1MIN'', ''BULL_PULLBACK'', ''VCP_BREAKOUT'', ''INSTITUTIONAL_ENTRY'', ''GOLDEN_CROSS'',
     ''RSI_REBOUND'', ''MOMENTUM'']"

definition get_allowed_strategies :: "macro_context \<Rightarrow> string list" where
  "get_allowed_strategies ctx =
     (if mc_avoid_strategies ctx \<noteq> [] then filter (\<lambda>s. s \<notin> set (mc_avoid_strategies ctx)) all_strategies
      else if 3 \<le> mc_level ctx then [''RSI_REBOUND'', ''BULL_PULLBACK'']
      else if 2 \<le> mc_level ctx then [''GOLDEN_CROSS'', ''RSI_REBOUND'', ''MOMENTUM'', ''BULL_PULLBACK'', ''INSTITUTIONAL_ENTRY'']
      else all_strategies)"

definition listed_strategy :: "string list \<Rightarrow> string \<Rightarrow> bool" where
  "listed_strategy xs strategy = (xs \<noteq> [] \<and> str_upper strategy \<in> set (map str_upper xs))"

definition is_strategy_favored :: "macro_context \<Rightarrow> string \<Rightarrow> bool" where
  "is_strategy_favored ctx = listed_strategy (mc_favor_strategies ctx)"

definition should_avoid_strategy :: "macro_context \<Rightarrow> string \<Rightarrow> bool" where
  "should_avoid_strategy ctx = listed_strategy (mc_avoid_strategies ctx)"

section \<open>The cache\<close>

record ctx_cache =
  cc_context :: "macro_context option"
  cc_time :: "rat option"

text \<open>
  The loaders of \<open>shared.macro_data\<close> and of the insight read a database and Redis: what they
  answer at this moment is the record. A loader that raises leaves its part out.
\<close>

record macro_sources =
  so_today :: "macro_snapshot option res"
  so_recent :: "macro_snapshot list res"
  so_insight :: "insight option res"

definition load_snapshot :: "macro_sources \<Rightarrow> macro_snapshot option" where
  "load_snapshot S = (case so_today S of
     Inl _ \<Rightarrow> None
   | Inr (Some g) \<Rightarrow> Some g
   | Inr None \<Rightarrow> (case so_recent S of Inr (g # _) \<Rightarrow> Some g | _ \<Rightarrow> None))"

definition load_insight :: "macro_sources \<Rightarrow> insight option" where
  "load_insight S = (case so_insight S of Inr c \<Rightarrow> c | Inl _ \<Rightarrow> None)"

definition cache_fresh :: "rat \<Rightarrow> ctx_cache \<Rightarrow> macro_context option" where
  "cache_fresh now cc = (case (cc_context cc, cc_time cc) of
     (Some ctx, Some t) \<Rightarrow> if now - t < 1800 then Some ctx else None | _ \<Rightarrow> None)"

definition get_enhanced_trading_context ::
  "macro_sources \<Rightarrow> rat \<Rightarrow> int \<Rightarrow> bool \<Rightarrow> ctx_cache \<Rightarrow> macro_context res \<times> ctx_cache" where
  "get_enhanced_trading_context S now today force_refresh cc =
     (case (if force_refresh then None else cache_fresh now cc) of
        Some ctx \<Rightarrow> (Inr ctx, cc)
      | None \<Rightarrow> (case build_trading_context now today (load_snapshot S) (load_insight S) of
            Inl e \<Rightarrow> (Inl e, cc)
          | Inr ctx \<Rightarrow> (Inr ctx, \<lparr>cc_context = Some ctx, cc_time = Some now\<rparr>)))"

definition clear_trading_context_cache :: "ctx_cache \<Rightarrow> ctx_cache" where
  "clear_trading_context_cache cc = \<lparr>cc_context = None, cc_time = None\<rparr>"

section \<open>Readers of the daily insight\<close>

text \<open>Each takes an insight or asks for today's; \<open>today\<close> is what that call answers.\<close>

definition insight_or_today :: "insight option \<Rightarrow> insight option \<Rightarrow> insight option" where
  "insight_or_today today i = (case i of None \<Rightarrow> today | Some _ \<Rightarrow> i)"

definition get_position_multiplier :: "insight option \<Rightarrow> insight option \<Rightarrow> rat" where
  "get_position_multiplier today i = (case insight_or_today today i of
     None \<Rightarrow> 1
   | Some c \<Rightarrow> (let score = in_score c in recommended (in_position_pct c)
       (if 70 \<le> score then fl (12/10) else if 60 \<le> score then fl (11/10) else if score \<le> 30 then fl (7/10)
        else if score \<le> 40 then fl (85/100) else 1)))"

definition names_match :: "string \<Rightarrow> string \<Rightarrow> bool" where
  "names_match a b = (substr (str_lower a) (str_lower b) \<or> substr (str_lower b) (str_lower a))"

fun scan_signal :: "string \<Rightarrow> (string \<times> pyval) list \<Rightarrow> pyval" where
  "scan_signal sector [] = PStr ''neutral''"
| "scan_signal sector ((key, data) # rest) =
     (if names_match sector key
      then (case data of PDict kvs \<Rightarrow> dict_get kvs ''signal'' (PStr ''neutral'') | _ \<Rightarrow> scan_signal sector rest)
      else scan_signal sector rest)"

definition get_sector_signal :: "insight option \<Rightarrow> string \<Rightarrow> insight option \<Rightarrow> pyval" where
  "get_sector_signal today sector i = (case insight_or_today today i of
     None \<Rightarrow> PStr ''neutral'' | Some c \<Rightarrow> scan_signal sector (in_sector_signals c))"

definition get_sector_score_adjustment :: "insight option \<Rightarrow> string \<Rightarrow> insight option \<Rightarrow> rat" where
  "get_sector_score_adjustment today sector i =
     (let sig = get_sector_signal today sector i
      in if sig = PStr ''bullish'' then fl (11/10) else if sig = PStr ''bearish'' then fl (9/10) else 1)"

definition is_high_volatility_regime :: "insight option \<Rightarrow> insight option \<Rightarrow> bool" where
  "is_high_volatility_regime today i = (case insight_or_today today i of
     None \<Rightarrow> False
   | Some c \<Rightarrow> (let h = str_lower (in_regime_hint c) in substr ''volatility'' h \<or> substr ''high'' h))"

definition get_stop_loss_multiplier :: "insight option \<Rightarrow> insight option \<Rightarrow> rat" where
  "get_stop_loss_multiplier today i = (case insight_or_today today i of
     None \<Rightarrow> 1
   | Some c \<Rightarrow> recommended (in_stop_loss_pct c) (if is_high_volatility_regime today (Some c) then 3/2 else 1))"

definition should_skip_sector :: "insight option \<Rightarrow> string \<Rightarrow> insight option \<Rightarrow> bool" where
  "should_skip_sector today sector i = (case insight_or_today today i of
     None \<Rightarrow> False
   | Some c \<Rightarrow> (\<exists>a \<in> set (in_avoid_sectors c). names_match sector a)
       \<or> get_sector_signal today sector (Some c) = PStr ''bearish'')"

definition insight_favors_strategy :: "insight option \<Rightarrow> string \<Rightarrow> insight option \<Rightarrow> bool" where
  "insight_favors_strategy today strategy i = (case insight_or_today today i of
     None \<Rightarrow> False | Some c \<Rightarrow> listed_strategy (in_favor_strategies c) strategy)"

definition insight_avoids_strategy :: "insight option \<Rightarrow> string \<Rightarrow> insight option \<Rightarrow> bool" where
  "insight_avoids_strategy today strategy i = (case insight_or_today today i of
     None \<Rightarrow> False | Some c \<Rightarrow> listed_strategy (in_avoid_strategies c) strategy)"

definition get_trading_reasoning :: "insight option \<Rightarrow> insight option \<Rightarrow> string" where
  "get_trading_reasoning today i = (case insight_or_today today i of None \<Rightarrow> [] | Some c \<Rightarrow> in_reasoning c)"

section \<open>Levels\<close>

lemma first_signal_two [simp]:
  "first_signal [(a, x), (b, y)] = (if a then [x] else if b then [y] else [])"
  by (simp add: first_signal_def)

lemma level_of_mono:
  assumes "length xs \<le> length ys" "sum_list (map signal_points xs) \<le> sum_list (map signal_points ys)"
  shows "level_of xs \<le> level_of ys"
  using assms by (auto simp: level_of_def Let_def)

lemma level_of_bounds: "level_of xs \<le> 3" "2 \<le> level_of xs \<Longrightarrow> 2 \<le> length xs" "level_of xs = 3 \<Longrightarrow> 3 \<le> length xs"
  by (auto simp: level_of_def Let_def split: if_splits)

text \<open>
  One indicator is at least as bad as another reading of it: it contributes no fewer signals
  and no fewer points.
\<close>

definition worse :: "risk_signal list \<Rightarrow> risk_signal list \<Rightarrow> bool" where
  "worse xs ys \<longleftrightarrow> length xs \<le> length ys \<and> sum_list (map signal_points xs) \<le> sum_list (map signal_points ys)"

lemma worse_append: "worse a a' \<Longrightarrow> worse b b' \<Longrightarrow> worse (a @ b) (a' @ b')"
  by (simp add: worse_def)

lemma worse_pair:
  assumes "a \<longrightarrow> a'" "b \<longrightarrow> a' \<or> b'" "signal_points y \<le> signal_points x"
  shows "worse (first_signal [(a, x), (b, y)]) (first_signal [(a', x), (b', y)])"
  using assms by (auto simp: worse_def)

lemma worse_refl: "worse xs xs" by (simp add: worse_def)

lemma reading_above_mono: "reading_above limit (Some v) \<Longrightarrow> v \<le> v' \<Longrightarrow> 0 < limit \<Longrightarrow> reading_above limit (Some v')"
  by (simp add: reading_above_def)

section \<open>Properties\<close>

text \<open>
  No single indicator takes the market out: the level lies between 0 and 3, level 2
  needs at least two of the five indicators and level 3 at least three, and no indicator is
  counted twice. A worse reading, a higher volatility index, a lower yield spread, a lower
  sentiment score or worse news, never lowers the level.
\<close>

theorem risk_off_needs_several:
  assumes "v \<le> v'" "sp' \<le> sp" "sc' \<le> sc" "nw' \<le> nw"
  shows "let (level, reasons) = calculate_risk_off_level (Some v) regime (Some sp) sc (Some nw) political;
             (level', reasons') = calculate_risk_off_level (Some v') regime (Some sp') sc' (Some nw') political
    in level \<le> level' \<and> level' \<le> 3 \<and> (2 \<le> level' \<longrightarrow> 2 \<le> length reasons') \<and> (level' = 3 \<longrightarrow> 3 \<le> length reasons')
     \<and> distinct reasons' \<and> length reasons' \<le> 5"
proof -
  let ?s = "risk_signals (Some v) regime (Some sp) sc (Some nw) political"
  let ?s' = "risk_signals (Some v') regime (Some sp') sc' (Some nw') political"
  have "worse ?s ?s'" unfolding risk_signals_def
  proof (intro worse_append worse_pair worse_refl)
    show "regime = ''crisis'' \<or> reading_above 35 (Some v) \<longrightarrow> regime = ''crisis'' \<or> reading_above 35 (Some v')"
      "regime = ''elevated'' \<or> reading_above 25 (Some v) \<longrightarrow>
        (regime = ''crisis'' \<or> reading_above 35 (Some v')) \<or> regime = ''elevated'' \<or> reading_above 25 (Some v')"
      using assms(1) reading_above_mono [of 35 v v'] reading_above_mono [of 25 v v'] by auto
  qed (use assms in \<open>auto simp: reading_below_def\<close>)
  then have "level_of ?s \<le> level_of ?s'" by (simp add: worse_def level_of_mono)
  moreover have "distinct ?s' \<and> length ?s' \<le> 5" by (simp add: risk_signals_def)
  ultimately show ?thesis using level_of_bounds [of ?s'] by (simp add: calculate_risk_off_level_def Let_def)
qed

theorem risk_off_needs_several_witness:
  "fst (calculate_risk_off_level (Some 20) ''normal'' (Some 1) 50 (Some 0) ''low'')
    \<le> fst (calculate_risk_off_level (Some 40) ''normal'' (Some 1) 25 (Some 0) ''low'')
   \<and> calculate_risk_off_level (Some 40) ''normal'' (Some 1) 25 (Some 0) ''low'' = (3, [Vix_crisis, Sentiment_very_bearish]) = False
   \<and> fst (calculate_risk_off_level (Some 40) ''normal'' (Some 1) 25 (Some 0) ''low'') = 2"
proof -
  have l: "calculate_risk_off_level (Some 40) ''normal'' (Some 1) 25 (Some 0) ''low'' = (2, [Vix_crisis, Sentiment_very_bearish])"
    by code_simp
  show ?thesis using risk_off_needs_several [of 20 40 1 1 25 50 0 0 "''normal''" "''low''"]
    by (simp add: l case_prod_beta Let_def)
qed

lemma rounded_constants:
  "py_round 2 (3/2) = 3/2" "py_round 2 (fl (9/10)) = fl (9/10)" "fl (9/10) \<le> 1" "fl (9/10) \<le> fl (13/10)"
  "fl (13/10) \<le> 3/2" "1 \<le> fl (11/10)"
  by code_simp+

lemma stop_multiplier_range:
  "fl (9/10) \<le> calculate_stop_loss_multiplier regime level \<and> calculate_stop_loss_multiplier regime level \<le> 3/2"
proof -
  have "fl (9/10) \<le> py_round 2 x \<and> py_round 2 x \<le> 3/2" if "fl (9/10) \<le> x" "x \<le> 3/2" for x
    using py_round_mono [OF that(1), of 2] py_round_mono [OF that(2), of 2] rounded_constants(1,2) by simp
  moreover have "fl (9/10) \<le> fmul b (fl (11/10))" if "fl (9/10) \<le> b" for b
  proof -
    have "0 \<le> fl (9/10)" by (rule fl_nonneg) simp
    with that have "0 \<le> b" by linarith
    then have "b * 1 \<le> b * fl (11/10)" by (intro mult_left_mono rounded_constants(6))
    with that show ?thesis unfolding fmul_def by (intro fl_ge_float) simp_all
  qed
  ultimately show ?thesis using rounded_constants(3-5) unfolding calculate_stop_loss_multiplier_def Let_def by simp
qed

text \<open>
  The multipliers of every context are bounded, unless the council says otherwise. The
  level is at most 3 and the number of positions lies between 3 and 10; without a
  recommendation of the council (none, 0 or 100 per cent) the position multiplier lies in
  0.5..1.3 and the stop multiplier in 0.9..1.5. A recommendation is used as it is: divided by a
  hundred, with no limit.
\<close>

theorem context_multipliers_bounded:
  assumes "build_trading_context now today snap council = Inr ctx"
  shows "mc_level ctx \<le> 3 \<and> 3 \<le> mc_max_positions ctx \<and> mc_max_positions ctx \<le> 10
    \<and> (let pct = in_position_pct (opt_or no_insight council) in
         if pct = 0 \<or> pct = 100 then 1/2 \<le> mc_position_mult ctx \<and> mc_position_mult ctx \<le> fl (13/10)
         else mc_position_mult ctx = fdiv (of_py_int pct) 100)
    \<and> (let pct = in_stop_loss_pct (opt_or no_insight council) in
         if pct = 0 \<or> pct = 100 then fl (9/10) \<le> mc_stop_mult ctx \<and> mc_stop_mult ctx \<le> 3/2
         else mc_stop_mult ctx = fdiv (of_py_int pct) 100)"
proof -
  have seven: "py_int (fmul (of_py_int 10) (fl (7/10))) = 7" by code_simp
  have "1/2 \<le> fl (13/10)" by code_simp
  then have pos: "1/2 \<le> calculate_position_multiplier r l x \<and> calculate_position_multiplier r l x \<le> fl (13/10)" for r l x
    by (simp add: calculate_position_multiplier_def Let_def)
  have ten: "3 \<le> calculate_max_positions r l 10 \<and> calculate_max_positions r l 10 \<le> 10" for r l
    by (simp add: calculate_max_positions_def seven)
  from assms obtain g c lvl rs signals avoid favor where
    "calculate_risk_off_level (ms_vix g) (ms_vix_regime g) (ms_treasury_spread g) (in_score c) (ms_korea_news g) (political_level g c) = (lvl, rs)"
    "c = opt_or no_insight council" "mc_level ctx = lvl" "mc_max_positions ctx = calculate_max_positions (ms_vix_regime g) lvl 10"
    "mc_position_mult ctx = recommended (in_position_pct c) (calculate_position_multiplier (ms_vix_regime g) lvl (in_score c))"
    "mc_stop_mult ctx = recommended (in_stop_loss_pct c) (calculate_stop_loss_multiplier (ms_vix_regime g) lvl)"
    by (auto simp: build_trading_context_def Let_def res_bind_Inr_iff split: prod.splits)
  then show ?thesis using ten pos stop_multiplier_range level_of_bounds(1)
    by (simp add: recommended_def Let_def calculate_risk_off_level_def) blast
qed

definition council_sample :: insight where
  "council_sample = no_insight\<lparr>in_position_pct := 200, in_sector_signals := [(''Semiconductor'', PStr ''bearish'')]\<rparr>"

theorem context_multipliers_bounded_witness:
  "\<exists>ctx. build_trading_context 0 0 None (Some council_sample) = Inr ctx \<and> mc_position_mult ctx = 2 \<and> mc_stop_mult ctx \<le> 3/2"
proof -
  obtain ctx where ctx: "build_trading_context 0 0 None (Some council_sample) = Inr ctx"
    by (auto simp: build_trading_context_def council_sample_def Let_def calculate_risk_off_level_def extract_sector_signals_def
        signal_value_def no_insight_def opt_or_def)
  have "fdiv (of_py_int 200) 100 = 2" by code_simp
  with context_multipliers_bounded [OF ctx] ctx show ?thesis
    by (simp add: council_sample_def opt_or_def Let_def no_insight_def)
qed

text \<open>
  The two readers of the sector signals disagree. The council writes each signal as a
  word; on words the reader of the daily insight answers neutral for every sector, so it
  adjusts no score and skips only the sectors the council lists to avoid, while the context
  puts a sector with the word bearish on its list to avoid.
\<close>

theorem sector_words_ignored:
  assumes "\<forall>(k, v) \<in> set (in_sector_signals c). \<exists>w. v = PStr w"
  shows "get_sector_signal today sector (Some c) = PStr ''neutral''
    \<and> get_sector_score_adjustment today sector (Some c) = 1
    \<and> (should_skip_sector today sector (Some c) \<longleftrightarrow> (\<exists>a \<in> set (in_avoid_sectors c). names_match sector a))
    \<and> (in_sector_signals c = [(sector', PStr ''bearish'')] \<longrightarrow>
         extract_sector_signals (in_sector_signals c) (fl (3/10)) = Inr ([(sector', - 1/2)], [sector'], []))"
proof -
  have "scan_signal sector kvs = PStr ''neutral''" if "\<forall>(k, v) \<in> set kvs. \<exists>w. v = PStr w" for kvs
    using that by (induction kvs) (auto split: pyval.splits)
  with assms have n: "get_sector_signal today sector (Some c) = PStr ''neutral''"
    by (simp add: get_sector_signal_def insight_or_today_def)
  have "fl (3/10) \<le> 1/2" by code_simp
  moreover have "signal_value (PStr ''bearish'') = Inr (- 1/2)" by code_simp
  ultimately have "extract_sector_signals [(sector', PStr ''bearish'')] (fl (3/10)) = Inr ([(sector', - 1/2)], [sector'], [])"
    by (simp add: extract_sector_signals_def)
  with n show ?thesis
    by (simp add: get_sector_score_adjustment_def should_skip_sector_def insight_or_today_def Let_def)
qed

theorem sector_words_ignored_witness:
  "\<not> should_skip_sector None ''Semiconductor'' (Some council_sample) \<and>
   extract_sector_signals (in_sector_signals council_sample) (fl (3/10)) = Inr ([(''Semiconductor'', - 1/2)], [''Semiconductor''], [])"
  using sector_words_ignored [of council_sample None "''Semiconductor''" "''Semiconductor''"]
  by (simp add: council_sample_def no_insight_def)

end
