(* ===== verification/Buy_Watcher.thy ===== *)
theory Buy_Watcher
  imports Buy_Signals Trading_Context Redis_Cache
begin

text \<open>
  The class \<open>BuyOpportunityWatcher\<close> of \<open>services/buy-scanner/opportunity_watcher.py\<close> and the price
  callback of \<open>services/buy-scanner/main.py\<close>: the watchlist and the macro context it keeps, the
  risk gates and strategies that turn a completed candle into a buy signal, the confirmation
  of momentum signals, the cooldown, and the message that is published. One handler call runs
  at one instant. Texts for people (reasons, log lines) are not modelled; the publisher, the
  database queries and the decoder of the stored watchlist are parameters.
\<close>

section \<open>State\<close>

record watch_signal =
  bs_code :: string
  bs_name :: string
  bs_type :: string
  bs_price :: rat
  bs_llm_score :: rat
  bs_regime :: string
  bs_time :: rat
  bs_tier :: "string option"
  bs_super_prime :: bool
  bs_position_mult :: rat
  bs_macro :: "(string \<times> nat \<times> rat) option"

record pending =
  pd_price :: rat
  pd_signal :: watch_signal

record metrics =
  mt_ticks :: nat
  mt_bars :: nat
  mt_signals :: nat
  mt_window_blocked :: nat
  mt_loads :: nat
  mt_macro_blocked :: nat
  mt_last_tick :: "rat option"
  mt_last_signal :: "rat option"

record watcher =
  wt_agg :: aggregator
  wt_connected :: bool
  wt_watchlist :: "(string \<times> stock_info) list"
  wt_regime :: string
  wt_threshold :: rat
  wt_last_load :: rat
  wt_version :: "string option"
  wt_supply :: "(string \<times> (int \<times> int) list) list"
  wt_entries :: "(string \<times> entry_info) list"
  wt_cooldown_seconds :: int
  wt_pending :: "(string \<times> pending) list"
  wt_confirmation_bars :: int
  wt_ctx :: "macro_context option"
  wt_ctx_at :: "rat option"
  wt_metrics :: metrics

text \<open>
  What is published for the executor: the candidate with its risk settings.
\<close>

record risk_setting =
  rs_position_ratio :: rat
  rs_stop_mult :: rat
  rs_level :: nat
  rs_vix_regime :: string
  rs_stop_loss_pct :: rat

record buy_message =
  bm_signal :: watch_signal
  bm_factor_score :: rat
  bm_risk :: risk_setting

record 's scan_world =
  sw_watcher :: watcher
  sw_redis :: 's
  sw_cache :: ctx_cache
  sw_sent :: "buy_message list"

text \<open>
  What a call meets: the clock (seconds since the epoch, the day of the local calendar, the
  text of the time stamp), the environment's number of candles, the macro data, and the answer
  of the publisher, which is missing, raises, or says whether the message got an identifier.
\<close>

record scan_env =
  te_now :: rat
  te_today :: int
  te_stamp :: string
  te_min_bars :: int
  te_sources :: macro_sources
  te_publish :: "(buy_message \<Rightarrow> bool res) option"
  te_pow :: "rat \<Rightarrow> rat \<Rightarrow> rat"

definition WATCH_MOMENTUM_STRATEGIES :: "string set" where
  "WATCH_MOMENTUM_STRATEGIES = {''MOMENTUM'', ''MOMENTUM_CONTINUATION_BULL'', ''SHORT_TERM_HIGH_BREAKOUT''}"

definition on_watcher :: "(watcher \<Rightarrow> watcher) \<Rightarrow> 's scan_world \<Rightarrow> 's scan_world" where
  "on_watcher f w = w\<lparr>sw_watcher := f (sw_watcher w)\<rparr>"

definition on_metrics :: "(metrics \<Rightarrow> metrics) \<Rightarrow> 's scan_world \<Rightarrow> 's scan_world" where
  "on_metrics f = on_watcher (\<lambda>v. v\<lparr>wt_metrics := f (wt_metrics v)\<rparr>)"

definition pop_key :: "'k \<Rightarrow> ('k \<times> 'v) list \<Rightarrow> ('k \<times> 'v) list" where
  "pop_key k = filter (\<lambda>(k', _). k' \<noteq> k)"

section \<open>Macro context\<close>

text \<open>\<open>_load_trading_context\<close>: a failure keeps the context that is there.\<close>

definition load_trading_context :: "scan_env \<Rightarrow> 's scan_world \<Rightarrow> 's scan_world" where
  "load_trading_context E w =
     (case get_enhanced_trading_context (te_sources E) (te_now E) (kst_day (te_now E)) False (sw_cache w) of
        (Inl _, cc) \<Rightarrow> w\<lparr>sw_cache := cc\<rparr>
      | (Inr ctx, cc) \<Rightarrow> on_watcher (\<lambda>v. v\<lparr>wt_ctx := Some ctx, wt_ctx_at := Some (te_now E)\<rparr>) (w\<lparr>sw_cache := cc\<rparr>))"

definition get_trading_context :: "scan_env \<Rightarrow> 's scan_world \<Rightarrow> macro_context option \<times> 's scan_world" where
  "get_trading_context E w =
     (let w' = (case wt_ctx_at (sw_watcher w) of
            None \<Rightarrow> load_trading_context E w
          | Some t \<Rightarrow> if 1800 < fsub (te_now E) t then load_trading_context E w else w)
      in (wt_ctx (sw_watcher w'), w'))"

definition check_macro_risk_gate :: "macro_context option \<Rightarrow> bool" where
  "check_macro_risk_gate ctx = (case ctx of
     None \<Rightarrow> True | Some c \<Rightarrow> \<not> 2 \<le> mc_level c \<and> mc_vix_regime c \<noteq> ''crisis'')"

definition context_position_mult :: "macro_context option \<Rightarrow> rat" where
  "context_position_mult ctx = (case ctx of None \<Rightarrow> 1 | Some c \<Rightarrow> mc_position_mult c)"

definition strategy_allowed :: "macro_context option \<Rightarrow> string \<Rightarrow> bool" where
  "strategy_allowed ctx name = (case ctx of None \<Rightarrow> True | Some c \<Rightarrow> name \<in> set (get_allowed_strategies c))"

section \<open>Redis\<close>

definition ensure_redis_connection :: "'s redis \<Rightarrow> 's scan_world \<Rightarrow> bool \<times> 's scan_world" where
  "ensure_redis_connection R w =
     (let up = r_conn R (sw_redis w) in (up, on_watcher (\<lambda>v. v\<lparr>wt_connected := up\<rparr>) w))"

definition cooldown_key :: "string \<Rightarrow> string" where "cooldown_key code = ''buy_signal_cooldown:'' @ code"

definition check_cooldown :: "'s redis \<Rightarrow> string \<Rightarrow> 's scan_world \<Rightarrow> bool res \<times> 's scan_world" where
  "check_cooldown R code w =
     (if \<not> wt_connected (sw_watcher w) then (Inr True, w)
      else (case r_exists R (cooldown_key code) (sw_redis w) of
              (Inl e, s) \<Rightarrow> (Inl e, w\<lparr>sw_redis := s\<rparr>)
            | (Inr n, s) \<Rightarrow> (Inr (n = 0), w\<lparr>sw_redis := s\<rparr>)))"

text \<open>A write in a \<open>try\<close> block of its own: a failure is logged.\<close>

definition quiet_setex :: "'s redis \<Rightarrow> string \<Rightarrow> int \<Rightarrow> payload \<Rightarrow> 's scan_world \<Rightarrow> 's scan_world" where
  "quiet_setex R key ttl p w =
     (if wt_connected (sw_watcher w) then w\<lparr>sw_redis := snd (r_setex R key ttl p (sw_redis w))\<rparr> else w)"

definition set_cooldown :: "'s redis \<Rightarrow> string \<Rightarrow> 's scan_world \<Rightarrow> 's scan_world" where
  "set_cooldown R code w = quiet_setex R (cooldown_key code) (wt_cooldown_seconds (sw_watcher w)) (Text ''1'') w"

type_synonym checks = "(string \<times> bool) list"

record snap_info =
  sn_code :: string
  sn_stock :: stock_info
  sn_price :: rat
  sn_vwap :: rat
  sn_volume :: volume_info
  sn_rsi :: "rat option"

definition checks_value :: "string \<Rightarrow> string \<Rightarrow> checks \<Rightarrow> pyval" where
  "checks_value name flag cs = PList (map (\<lambda>(n, b). PDict [(name, PStr n), (flag, PBool b)]) cs)"

definition opt_value :: "('a \<Rightarrow> pyval) \<Rightarrow> 'a option \<Rightarrow> pyval" where
  "opt_value f x = (case x of None \<Rightarrow> PNone | Some y \<Rightarrow> f y)"

definition save_snapshot ::
  "'s redis \<Rightarrow> scan_env \<Rightarrow> snap_info \<Rightarrow> bool \<Rightarrow> checks \<Rightarrow> checks \<Rightarrow> string option \<Rightarrow> 's scan_world \<Rightarrow> 's scan_world" where
  "save_snapshot R E sn passed gates strategies triggered w =
     quiet_setex R (''buy_logic:snapshot:'' @ sn_code sn) 60
       (Dumps (PDict [(''timestamp'', PStr (te_stamp E)), (''stock_code'', PStr (sn_code sn)), (''stock_name'', PStr (si_name (sn_stock sn))),
          (''current_price'', PFloat (sn_price sn)), (''vwap'', PFloat (sn_vwap sn)),
          (''volume_ratio'', PFloat (vi_ratio (sn_volume sn))), (''rsi'', opt_value PFloat (sn_rsi sn)),
          (''market_regime'', PStr (wt_regime (sw_watcher w))), (''llm_score'', PFloat (si_llm_score (sn_stock sn))),
          (''trade_tier'', opt_value PStr (si_trade_tier (sn_stock sn))),
          (''risk_gate'', PDict [(''passed'', PBool passed), (''checks'', checks_value ''name'' ''passed'' gates)]),
          (''signal_checks'', checks_value ''strategy'' ''triggered'' strategies),
          (''triggered_signal'', opt_value PStr triggered)])) w"

definition save_signal_history ::
  "'s redis \<Rightarrow> scan_env \<Rightarrow> string \<Rightarrow> string \<Rightarrow> string \<Rightarrow> rat \<Rightarrow> 's scan_world \<Rightarrow> 's scan_world" where
  "save_signal_history R E code name sig_type price w =
     (if \<not> wt_connected (sw_watcher w) then w
      else (let key = ''logic:signals:'' @ code;
                entry = PDict [(''timestamp'', PStr (te_stamp E)), (''type'', PStr ''BUY''), (''signal_type'', PStr sig_type),
                  (''price'', PFloat price), (''stock_name'', PStr name)]
            in w\<lparr>sw_redis := snd (cmd_bind (r_get R key (sw_redis w)) (\<lambda>raw s.
                 case (case raw of None \<Rightarrow> Inr (PList []) | Some p \<Rightarrow> if text_truthy p then json_loads p else Inr (PList [])) of
                   Inl e \<Rightarrow> (Inl e, s)
                 | Inr existing \<Rightarrow> r_setex R key 604800 (Dumps (PList (last_bars 50
                     ((case existing of PList xs \<Rightarrow> xs | _ \<Rightarrow> []) @ [entry])))) s))\<rparr>))"

section \<open>The strategies in order\<close>

text \<open>
  One rule: the name in the log of checks, the signal it gives, whether the macro context must
  allow it, whether it is switched on, and its outcome. The first rule that triggers decides.
\<close>

record rule =
  ru_name :: string
  ru_signal :: string
  ru_macro :: bool
  ru_enabled :: bool
  ru_outcome :: "bool res"

definition add_check :: "string \<Rightarrow> (string option \<times> checks) res \<Rightarrow> (string option \<times> checks) res" where
  "add_check name r = res_bind r (\<lambda>(t, cs). Inr (t, (name, False) # cs))"

fun first_rule :: "(string \<Rightarrow> bool) \<Rightarrow> rule list \<Rightarrow> (string option \<times> checks) res" where
  "first_rule allowed [] = Inr (None, [])"
| "first_rule allowed (r # rs) =
     (if (ru_macro r \<longrightarrow> allowed (ru_name r)) \<and> ru_enabled r
      then res_bind (ru_outcome r) (\<lambda>b. if b then Inr (Some (ru_signal r), [(ru_name r, True)])
             else add_check (ru_name r) (first_rule allowed rs))
      else add_check (ru_name r) (first_rule allowed rs))"

definition bull_rules :: "'a cfg_scheme \<Rightarrow> string \<Rightarrow> stock_info \<Rightarrow> minute_bar list \<Rightarrow> rule list" where
  "bull_rules C market_regime si bars =
     (if \<not> bull_regime market_regime then []
      else [\<lparr>ru_name = ''MOMENTUM_CONTINUATION'', ru_signal = ''MOMENTUM_CONTINUATION_BULL'', ru_macro = False, ru_enabled = True,
              ru_outcome = check_momentum_continuation C market_regime (si_llm_score si) bars\<rparr>,
            \<lparr>ru_name = ''SHORT_TERM_HIGH_BREAKOUT'', ru_signal = ''SHORT_TERM_HIGH_BREAKOUT'', ru_macro = True,
              ru_enabled = cf_bool C ''ENABLE_SHORT_TERM_HIGH_BREAKOUT'' False,
              ru_outcome = Inr (check_short_term_high_breakout bars)\<rparr>,
            \<lparr>ru_name = ''VOLUME_BREAKOUT_1MIN'', ru_signal = ''VOLUME_BREAKOUT_1MIN'', ru_macro = True,
              ru_enabled = cf_bool C ''ENABLE_VOLUME_BREAKOUT_1MIN'' False, ru_outcome = Inr (check_volume_breakout_1min bars)\<rparr>,
            \<lparr>ru_name = ''BULL_PULLBACK'', ru_signal = ''BULL_PULLBACK'', ru_macro = False,
              ru_enabled = cf_bool C ''ENABLE_BULL_PULLBACK'' False, ru_outcome = Inr (check_bull_pullback bars)\<rparr>,
            \<lparr>ru_name = ''VCP_BREAKOUT'', ru_signal = ''VCP_BREAKOUT'', ru_macro = True,
              ru_enabled = cf_bool C ''ENABLE_VCP_BREAKOUT'' False, ru_outcome = Inr (check_vcp_breakout bars)\<rparr>,
            \<lparr>ru_name = ''INSTITUTIONAL_ENTRY'', ru_signal = ''INSTITUTIONAL_ENTRY'', ru_macro = False,
              ru_enabled = cf_bool C ''ENABLE_INSTITUTIONAL_ENTRY'' False,
              ru_outcome = Inr (check_institutional_buying bars)\<rparr>])"

definition golden_cross_signal :: "(int \<times> int) list option \<Rightarrow> minute_bar list \<Rightarrow> string" where
  "golden_cross_signal supply bars =
     (if check_legendary_pattern supply bars then ''GOLDEN_CROSS_SUPER_PRIME'' else ''GOLDEN_CROSS'')"

text \<open>A strategy of the watchlist; an unknown one, and \<open>RSI_OVERSOLD\<close>, is passed over.\<close>

definition strategy_rule ::
  "'a cfg_scheme \<Rightarrow> (rat \<Rightarrow> rat \<Rightarrow> rat) \<Rightarrow> string \<Rightarrow> (int \<times> int) list option \<Rightarrow> rat \<Rightarrow> rat \<Rightarrow> minute_bar list \<Rightarrow> strat \<Rightarrow> rule list" where
  "strategy_rule C pow market_regime supply volume_ratio price bars st =
     (if st_id st = ''GOLDEN_CROSS'' then
        [\<lparr>ru_name = ''GOLDEN_CROSS'', ru_signal = golden_cross_signal supply bars, ru_macro = False, ru_enabled = True,
          ru_outcome = res_bind (watch_golden_cross C bars st volume_ratio) (\<lambda>c. Inr (c = Crossed))\<rparr>]
      else if st_id st = ''RSI_REBOUND'' then
        [\<lparr>ru_name = ''RSI_REBOUND'', ru_signal = ''RSI_REBOUND'', ru_macro = False, ru_enabled = (\<not> bull_regime market_regime),
          ru_outcome = Inr (watch_rsi_rebound bars st)\<rparr>]
      else if st_id st = ''BB_LOWER'' then
        [\<lparr>ru_name = ''BB_LOWER'', ru_signal = ''BB_LOWER'', ru_macro = False, ru_enabled = (\<not> bull_regime market_regime),
          ru_outcome = check_bb_lower pow bars st price\<rparr>]
      else if st_id st = ''MOMENTUM'' then
        [\<lparr>ru_name = ''MOMENTUM'', ru_signal = ''MOMENTUM'', ru_macro = False, ru_enabled = True,
          ru_outcome = check_momentum C bars st\<rparr>]
      else [])"

definition default_strategies :: "string \<Rightarrow> strat list" where
  "default_strategies market_regime =
     [(bare_strat ''GOLDEN_CROSS'')\<lparr>st_short := Some 5, st_long := Some 20\<rparr>,
      (bare_strat ''RSI_REBOUND'')\<lparr>st_threshold := Some (dynamic_rsi_threshold market_regime)\<rparr>,
      (bare_strat ''MOMENTUM'')\<lparr>st_threshold := Some (3/2)\<rparr>]"

definition strategies_of :: "string \<Rightarrow> stock_info \<Rightarrow> strat list" where
  "strategies_of market_regime si = (if si_strategies si = [] then default_strategies market_regime else si_strategies si)"

definition dip_rule :: "'a cfg_scheme \<Rightarrow> scan_env \<Rightarrow> watcher \<Rightarrow> string \<Rightarrow> stock_info \<Rightarrow> rat \<Rightarrow> rule" where
  "dip_rule C E v code si price =
     \<lparr>ru_name = ''DIP_BUY'', ru_signal = ''DIP_BUY'', ru_macro = False, ru_enabled = True,
      ru_outcome = Inr (check_dip_buy C (wt_regime v) (te_today E) (map_of (wt_entries v) code) price (si_llm_score si))\<rparr>"

definition rules_of :: "'a cfg_scheme \<Rightarrow> scan_env \<Rightarrow> watcher \<Rightarrow> string \<Rightarrow> stock_info \<Rightarrow> rat \<Rightarrow> rat \<Rightarrow> minute_bar list \<Rightarrow> rule list" where
  "rules_of C E v code si price volume_ratio bars =
     bull_rules C (wt_regime v) si bars @ [dip_rule C E v code si price]
     @ concat (map (strategy_rule C (te_pow E) (wt_regime v) (map_of (wt_supply v) code) volume_ratio price bars)
         (strategies_of (wt_regime v) si))"

section \<open>The gates\<close>

text \<open>
  The gates pass on the list of their checks; the first that fails stores the snapshot and ends
  the call without a signal.
\<close>

type_synonym 's gate_result = "(watch_signal option, checks) flow \<times> 's scan_world"

definition gate ::
  "'s redis \<Rightarrow> scan_env \<Rightarrow> snap_info \<Rightarrow> string \<Rightarrow> bool \<Rightarrow> checks \<Rightarrow> 's scan_world \<Rightarrow> 's gate_result" where
  "gate R E sn name passed cs w =
     (let cs' = cs @ [(name, passed)] in
      if passed then (Next cs', w) else (Return None, save_snapshot R E sn False cs' [] None w))"

definition window_gate :: "'s redis \<Rightarrow> scan_env \<Rightarrow> snap_info \<Rightarrow> checks \<Rightarrow> 's scan_world \<Rightarrow> 's gate_result" where
  "window_gate R E sn cs w =
     (let ok = check_no_trade_window (te_now E);
          w' = (if ok then w else on_metrics (\<lambda>m. m\<lparr>mt_window_blocked := mt_window_blocked m + 1\<rparr>) w)
      in gate R E sn ''No-Trade Window'' ok cs w')"

definition macro_gate :: "'s redis \<Rightarrow> scan_env \<Rightarrow> snap_info \<Rightarrow> checks \<Rightarrow> 's scan_world \<Rightarrow> 's gate_result" where
  "macro_gate R E sn cs w =
     (let (ctx, w1) = get_trading_context E w;
          ok = check_macro_risk_gate ctx;
          w2 = (if ok then w1 else on_metrics (\<lambda>m. m\<lparr>mt_macro_blocked := mt_macro_blocked m + 1\<rparr>) w1)
      in gate R E sn ''Macro Risk'' ok cs w2)"

definition regime_gate :: "'s redis \<Rightarrow> 'a cfg_scheme \<Rightarrow> scan_env \<Rightarrow> snap_info \<Rightarrow> checks \<Rightarrow> 's scan_world \<Rightarrow> 's gate_result" where
  "regime_gate R C E sn cs w =
     (if cf_bool C ''ENABLE_BEAR_ENTRY_BLOCK'' True
      then gate R E sn ''Regime Gate'' (wt_regime (sw_watcher w) \<notin> {''BEAR'', ''STRONG_BEAR''}) cs w
      else (Next cs, w))"

definition volume_ok :: "'a cfg_scheme \<Rightarrow> snap_info \<Rightarrow> bool" where
  "volume_ok C sn = (vi_ratio (sn_volume sn) \<le> cf_float C ''RISK_GATE_VOLUME_RATIO'' 2)"

definition vwap_ok :: "'a cfg_scheme \<Rightarrow> snap_info \<Rightarrow> bool" where
  "vwap_ok C sn = (\<not> (0 < sn_vwap sn \<and>
     fmul (sn_vwap sn) (fadd 1 (cf_float C ''RISK_GATE_VWAP_DEVIATION'' (fl (2/100)))) < sn_price sn))"

definition combined_gate :: "'s redis \<Rightarrow> 'a cfg_scheme \<Rightarrow> scan_env \<Rightarrow> snap_info \<Rightarrow> checks \<Rightarrow> 's scan_world \<Rightarrow> 's gate_result" where
  "combined_gate R C E sn cs w =
     gate R E sn ''Combined Risk'' (volume_ok C sn \<or> vwap_ok C sn)
       (cs @ [(''Volume Gate'', volume_ok C sn), (''VWAP Gate'', vwap_ok C sn)]) w"

definition stoploss_gate :: "'s redis \<Rightarrow> scan_env \<Rightarrow> snap_info \<Rightarrow> checks \<Rightarrow> 's scan_world \<Rightarrow> 's gate_result" where
  "stoploss_gate R E sn cs w =
     (let (listed, s) = is_stoploss_blacklisted R (sn_code sn) (sw_redis w)
      in gate R E sn ''SL Cooldown'' (\<not> listed) cs (w\<lparr>sw_redis := s\<rparr>))"

definition cooldown_gate :: "'s redis \<Rightarrow> scan_env \<Rightarrow> snap_info \<Rightarrow> checks \<Rightarrow> 's scan_world \<Rightarrow> 's gate_result" where
  "cooldown_gate R E sn cs w = (case check_cooldown R (sn_code sn) w of
     (Inl e, w') \<Rightarrow> (Raise e, w') | (Inr ok, w') \<Rightarrow> gate R E sn ''Cooldown'' ok cs w')"

definition micro_gate :: "'s redis \<Rightarrow> 'a cfg_scheme \<Rightarrow> scan_env \<Rightarrow> snap_info \<Rightarrow> minute_bar list \<Rightarrow> checks \<Rightarrow> 's scan_world \<Rightarrow> 's gate_result" where
  "micro_gate R C E sn bars cs w =
     (if cf_bool C ''ENABLE_MICRO_TIMING'' True then gate R E sn ''Micro-Timing'' (check_micro_timing bars = Micro_ok) cs w
      else (Next cs, w))"

definition risk_gates ::
  "'s redis \<Rightarrow> 'a cfg_scheme \<Rightarrow> scan_env \<Rightarrow> snap_info \<Rightarrow> minute_bar list \<Rightarrow> 's scan_world \<Rightarrow> 's gate_result" where
  "risk_gates R C E sn bars w =
     and_then (gate R E sn ''Min Bars'' (te_min_bars E \<le> int (length bars)) [] w) (\<lambda>c1 w.
     and_then (window_gate R E sn c1 w) (\<lambda>c2 w.
     and_then (gate R E sn ''Danger Zone'' (check_danger_zone (te_now E)) c2 w) (\<lambda>c3 w.
     and_then (gate R E sn ''RSI Guard'' (check_rsi_guard C (sn_rsi sn)) c3 w) (\<lambda>c4 w.
     and_then (macro_gate R E sn c4 w) (\<lambda>c5 w.
     and_then (regime_gate R C E sn c5 w) (\<lambda>c6 w.
     and_then (combined_gate R C E sn c6 w) (\<lambda>c7 w.
     and_then (stoploss_gate R E sn c7 w) (\<lambda>c8 w.
     and_then (cooldown_gate R E sn c8 w) (\<lambda>c9 w.
     micro_gate R C E sn bars c9 w)))))))))"

section \<open>Signals\<close>

definition make_signal :: "scan_env \<Rightarrow> string \<Rightarrow> stock_info \<Rightarrow> string \<Rightarrow> rat \<Rightarrow> string \<Rightarrow> macro_context option \<Rightarrow> watch_signal" where
  "make_signal E code si sig_type price market_regime ctx =
     \<lparr>bs_code = code, bs_name = si_name si, bs_type = sig_type, bs_price = price, bs_llm_score = si_llm_score si,
      bs_regime = market_regime, bs_time = te_now E, bs_tier = si_trade_tier si,
      bs_super_prime = (sig_type = ''GOLDEN_CROSS_SUPER_PRIME''), bs_position_mult = context_position_mult ctx,
      bs_macro = map_option (\<lambda>c. (mc_vix_regime c, mc_level c, mc_stop_mult c)) ctx\<rparr>"

definition issue_signal ::
  "'s redis \<Rightarrow> scan_env \<Rightarrow> snap_info \<Rightarrow> string \<Rightarrow> 's scan_world \<Rightarrow> watch_signal \<times> 's scan_world" where
  "issue_signal R E sn sig_type w =
     (let (ctx, w1) = get_trading_context E w;
          sig = make_signal E (sn_code sn) (sn_stock sn) sig_type (sn_price sn) (wt_regime (sw_watcher w1)) ctx;
          w2 = set_cooldown R (sn_code sn) w1
      in (sig, save_signal_history R E (sn_code sn) (si_name (sn_stock sn)) sig_type (sn_price sn) w2))"

text \<open>A momentum signal that waits for the next candle: the cooldown starts, nothing is published.\<close>

definition hold_signal ::
  "'s redis \<Rightarrow> scan_env \<Rightarrow> snap_info \<Rightarrow> string \<Rightarrow> 's scan_world \<Rightarrow> 's scan_world" where
  "hold_signal R E sn sig_type w =
     (let (ctx, w1) = get_trading_context E w;
          sig = make_signal E (sn_code sn) (sn_stock sn) sig_type (sn_price sn) (wt_regime (sw_watcher w1)) ctx
      in set_cooldown R (sn_code sn)
           (on_watcher (\<lambda>v. v\<lparr>wt_pending := dict_set (sn_code sn) \<lparr>pd_price = sn_price sn, pd_signal = sig\<rparr> (wt_pending v)\<rparr>) w1))"

definition conviction_of :: "'a watch_cfg_scheme \<Rightarrow> scan_env \<Rightarrow> snap_info \<Rightarrow> minute_bar list \<Rightarrow> watcher \<Rightarrow> bool res" where
  "conviction_of C E sn bars v =
     (if 3 \<le> length bars
      then check_conviction_entry C (wt_regime v) (te_now E) (te_today E) (map_of (wt_entries v) (sn_code sn))
             (sn_stock sn) (sn_vwap sn) (sn_price sn) bars
      else Inr False)"

definition scan_strategies ::
  "'s redis \<Rightarrow> 'a cfg_scheme \<Rightarrow> scan_env \<Rightarrow> snap_info \<Rightarrow> minute_bar list \<Rightarrow> checks \<Rightarrow> 's scan_world
    \<Rightarrow> (watch_signal option, unit) flow \<times> 's scan_world" where
  "scan_strategies R C E sn bars gates w =
     (let (ctx, w1) = get_trading_context E w
      in case first_rule (strategy_allowed ctx)
           (rules_of C E (sw_watcher w1) (sn_code sn) (sn_stock sn) (sn_price sn) (vi_ratio (sn_volume sn)) bars) of
           Inl e \<Rightarrow> (Raise e, w1)
         | Inr (None, cs) \<Rightarrow> (Return None, save_snapshot R E sn True gates cs None w1)
         | Inr (Some t, cs) \<Rightarrow>
             (let w2 = save_snapshot R E sn True gates cs (Some t) w1
              in if 0 < wt_confirmation_bars (sw_watcher w2) \<and> t \<in> WATCH_MOMENTUM_STRATEGIES
                 then (Return None, hold_signal R E sn t w2)
                 else (let (sig, w3) = issue_signal R E sn t w2 in (Return (Some sig), w3))))"

definition snap_of :: "string \<Rightarrow> stock_info \<Rightarrow> rat \<Rightarrow> rat \<Rightarrow> aggregator \<Rightarrow> snap_info" where
  "snap_of code si price vwap a =
     (let bars = get_recent_bars a code 30
      in \<lparr>sn_code = code, sn_stock = si, sn_price = price, sn_vwap = vwap, sn_volume = get_volume_info a code,
         sn_rsi = (if 15 \<le> length bars then simple_rsi 14 (closes_of bars) else None)\<rparr>)"

definition finish :: "(watch_signal option, unit) flow \<times> 's scan_world \<Rightarrow> watch_signal option res \<times> 's scan_world" where
  "finish r = (case r of (Return x, w) \<Rightarrow> (Inr x, w) | (Raise e, w) \<Rightarrow> (Inl e, w) | (Next _, w) \<Rightarrow> (Inr None, w))"

definition check_buy_signal ::
  "'s redis \<Rightarrow> 'a watch_cfg_scheme \<Rightarrow> scan_env \<Rightarrow> string \<Rightarrow> stock_info \<Rightarrow> rat \<Rightarrow> 's scan_world
    \<Rightarrow> watch_signal option res \<times> 's scan_world" where
  "check_buy_signal R C E code si price w =
     (let a = wt_agg (sw_watcher w); bars = get_recent_bars a code 30;
          (vwap, a') = get_vwap code a;
          w0 = on_watcher (\<lambda>v. v\<lparr>wt_agg := a'\<rparr>) w;
          sn = snap_of code si price vwap a'
      in case conviction_of C E sn bars (sw_watcher w0) of
           Inl e \<Rightarrow> (Inl e, w0)
         | Inr True \<Rightarrow>
             (let w1 = save_snapshot R E sn True [(''Early Conviction'', True)] [(''WATCHLIST_CONVICTION_ENTRY'', True)]
                         (Some ''WATCHLIST_CONVICTION_ENTRY'') w0;
                  (sig, w2) = issue_signal R E sn ''WATCHLIST_CONVICTION_ENTRY'' w1
              in (Inr (Some sig), w2))
         | Inr False \<Rightarrow> finish (and_then (risk_gates R C E sn bars w0) (\<lambda>cs w. scan_strategies R C E sn bars cs w)))"

section \<open>Publishing\<close>

text \<open>
  \<open>publish_signal\<close>: everything is in a \<open>try\<close> block. The dashboard copy, sent after a successful
  publication, has no effect on the state.
\<close>

definition risk_setting_for :: "macro_context option \<Rightarrow> risk_setting" where
  "risk_setting_for ctx =
     \<lparr>rs_position_ratio = context_position_mult ctx,
      rs_stop_mult = (case ctx of None \<Rightarrow> 1 | Some c \<Rightarrow> mc_stop_mult c),
      rs_level = (case ctx of None \<Rightarrow> 0 | Some c \<Rightarrow> mc_level c),
      rs_vix_regime = (case ctx of None \<Rightarrow> ''NORMAL'' | Some c \<Rightarrow> mc_vix_regime c),
      rs_stop_loss_pct = fmul (- fl (5/100)) (case ctx of None \<Rightarrow> 1 | Some c \<Rightarrow> mc_stop_mult c)\<rparr>"

definition message_of :: "watch_signal \<Rightarrow> macro_context option \<Rightarrow> buy_message" where
  "message_of sig ctx = \<lparr>bm_signal = sig, bm_factor_score = (if bs_super_prime sig then 520 else 500),
     bm_risk = risk_setting_for ctx\<rparr>"

definition publish_signal :: "scan_env \<Rightarrow> watch_signal \<Rightarrow> 's scan_world \<Rightarrow> bool \<times> 's scan_world" where
  "publish_signal E sig w = (case te_publish E of
     None \<Rightarrow> (False, w)
   | Some pub \<Rightarrow>
       (let (ctx, w1) = get_trading_context E w; msg = message_of sig ctx;
            w2 = w1\<lparr>sw_sent := sw_sent w1 @ [msg]\<rparr>
        in case pub msg of
             Inr True \<Rightarrow> (True, on_metrics (\<lambda>m. m\<lparr>mt_signals := mt_signals m + 1, mt_last_signal := Some (te_now E)\<rparr>) w2)
           | _ \<Rightarrow> (False, w2)))"

section \<open>Ticks\<close>

definition check_pending_momentum :: "scan_env \<Rightarrow> string \<Rightarrow> minute_bar \<Rightarrow> 's scan_world \<Rightarrow> watch_signal option \<times> 's scan_world" where
  "check_pending_momentum E code b w = (case map_of (wt_pending (sw_watcher w)) code of
     None \<Rightarrow> (None, w)
   | Some pd \<Rightarrow>
       (let w1 = on_watcher (\<lambda>v. v\<lparr>wt_pending := pop_key code (wt_pending v)\<rparr>) w
        in if pd_price pd \<le> br_close b
           then (let sig = (pd_signal pd)\<lparr>bs_price := br_close b\<rparr>
                 in (Some sig, snd (publish_signal E sig w1)))
           else (None, w1)))"

definition on_price_update ::
  "'s redis \<Rightarrow> 'a watch_cfg_scheme \<Rightarrow> scan_env \<Rightarrow> string \<Rightarrow> rat \<Rightarrow> int \<Rightarrow> 's scan_world \<Rightarrow> watch_signal option res \<times> 's scan_world" where
  "on_price_update R C E code price volume w =
     (let w1 = on_metrics (\<lambda>m. m\<lparr>mt_ticks := mt_ticks m + 1, mt_last_tick := Some (te_now E)\<rparr>) w
      in case map_of (wt_watchlist (sw_watcher w1)) code of
           None \<Rightarrow> (Inr None, w1)
         | Some si \<Rightarrow> (case agg_update (te_now E) code price volume (wt_agg (sw_watcher w1)) of
              (Inl e, a) \<Rightarrow> (Inl e, on_watcher (\<lambda>v. v\<lparr>wt_agg := a\<rparr>) w1)
            | (Inr None, a) \<Rightarrow> (Inr None, on_watcher (\<lambda>v. v\<lparr>wt_agg := a\<rparr>) w1)
            | (Inr (Some b), a) \<Rightarrow>
                (let w2 = on_metrics (\<lambda>m. m\<lparr>mt_bars := mt_bars m + 1\<rparr>) (on_watcher (\<lambda>v. v\<lparr>wt_agg := a\<rparr>) w1);
                     (confirmed, w3) = check_pending_momentum E code b w2
                 in if confirmed \<noteq> None then (Inr confirmed, w3)
                    else check_buy_signal R C E code si price w3)))"

text \<open>
  The callback of \<open>main.py\<close>, for the stream and for the socket: nothing while trading is
  stopped or paused, else the signal that comes back is published.
\<close>

definition price_callback ::
  "'s redis \<Rightarrow> 'a watch_cfg_scheme \<Rightarrow> scan_env \<Rightarrow> string \<Rightarrow> rat \<Rightarrow> int \<Rightarrow> 's scan_world \<Rightarrow> unit res \<times> 's scan_world" where
  "price_callback R C E code price volume w =
     (case is_trading_stopped R (sw_redis w) of
        (Inl e, s) \<Rightarrow> (Inl e, w\<lparr>sw_redis := s\<rparr>)
      | (Inr stopped, s) \<Rightarrow>
          if truthy stopped then (Inr (), w\<lparr>sw_redis := s\<rparr>)
          else (case is_trading_paused R s of
             (Inl e, s') \<Rightarrow> (Inl e, w\<lparr>sw_redis := s'\<rparr>)
           | (Inr paused, s') \<Rightarrow>
               if truthy paused then (Inr (), w\<lparr>sw_redis := s'\<rparr>)
               else (case on_price_update R C E code price volume (w\<lparr>sw_redis := s'\<rparr>) of
                  (Inl e, w1) \<Rightarrow> (Inl e, w1)
                | (Inr None, w1) \<Rightarrow> (Inr (), w1)
                | (Inr (Some sig), w1) \<Rightarrow> (Inr (), snd (publish_signal E sig w1)))))"

section \<open>The watchlist\<close>

text \<open>
  The stored watchlist as it is read: an entry has a code; every other key may be
  missing, and then the default of the code applies.
\<close>

record stored_stock =
  ss_code :: string
  ss_name :: "string option"
  ss_llm_score :: "rat option"
  ss_rank :: "int option"
  ss_tradable :: "bool option"
  ss_strategies :: "strat list option"
  ss_tier :: "string option"
  ss_hybrid :: "rat option"

record stored_watchlist =
  sl_stocks :: "stored_stock list option"
  sl_regime :: "string option"
  sl_threshold :: "rat option"

text \<open>
  The fields have the types the scout stores. A value of another type, which Python would keep and
  stumble over where it is used, makes the reading fail here.
\<close>

definition text_value :: "pyval \<Rightarrow> string res" where
  "text_value v = (case v of PStr t \<Rightarrow> Inr t | _ \<Rightarrow> Inl TypeError)"

definition int_value :: "pyval \<Rightarrow> int res" where
  "int_value v = (case v of PInt n \<Rightarrow> Inr n | _ \<Rightarrow> Inl TypeError)"

definition bool_value :: "pyval \<Rightarrow> bool res" where
  "bool_value v = (case v of PBool b \<Rightarrow> Inr b | _ \<Rightarrow> Inl TypeError)"

definition read_field :: "(pyval \<Rightarrow> 'a res) \<Rightarrow> (string \<times> pyval) list \<Rightarrow> string \<Rightarrow> 'a option res" where
  "read_field conv kvs k = (case map_of kvs k of None \<Rightarrow> Inr None | Some v \<Rightarrow> res_bind (conv v) (\<lambda>x. Inr (Some x)))"

definition read_nullable :: "(pyval \<Rightarrow> 'a res) \<Rightarrow> (string \<times> pyval) list \<Rightarrow> string \<Rightarrow> 'a option res" where
  "read_nullable conv kvs k = (if map_of kvs k = Some PNone then Inr None else read_field conv kvs k)"

fun read_all :: "('a \<Rightarrow> 'b res) \<Rightarrow> 'a list \<Rightarrow> 'b list res" where
  "read_all f [] = Inr []"
| "read_all f (x # xs) = res_bind (f x) (\<lambda>y. res_bind (read_all f xs) (\<lambda>ys. Inr (y # ys)))"

definition read_strategy :: "pyval \<Rightarrow> strat res" where
  "read_strategy v =
     res_bind (py_get v ''id'' PNone) (\<lambda>i. res_bind (text_value i) (\<lambda>st_name.
     res_bind (py_get v ''params'' (PDict [])) (\<lambda>p. case p of
       PDict params \<Rightarrow>
         res_bind (read_field int_value params ''short_window'') (\<lambda>short_w.
         res_bind (read_field int_value params ''long_window'') (\<lambda>long_w.
         res_bind (read_field as_num params ''threshold'') (\<lambda>threshold.
         res_bind (read_field int_value params ''period'') (\<lambda>period.
         Inr \<lparr>st_id = st_name, st_short = short_w, st_long = long_w, st_threshold = threshold, st_period = period\<rparr>))))
     | _ \<Rightarrow> Inl AttributeError)))"

definition read_strategies :: "pyval \<Rightarrow> strat list res" where
  "read_strategies v = (case v of PList l \<Rightarrow> read_all read_strategy l | _ \<Rightarrow> Inl TypeError)"

definition read_stock :: "pyval \<Rightarrow> stored_stock res" where
  "read_stock s = (case s of
     PDict kvs \<Rightarrow> (case map_of kvs ''code'' of
       None \<Rightarrow> Inl (KeyError ''code'')
     | Some c \<Rightarrow>
         res_bind (text_value c) (\<lambda>code.
         res_bind (read_field text_value kvs ''name'') (\<lambda>name.
         res_bind (read_field as_num kvs ''llm_score'') (\<lambda>score.
         res_bind (read_field int_value kvs ''rank'') (\<lambda>rank.
         res_bind (read_field bool_value kvs ''is_tradable'') (\<lambda>tradable.
         res_bind (read_field read_strategies kvs ''strategies'') (\<lambda>strategies.
         res_bind (read_nullable text_value kvs ''trade_tier'') (\<lambda>tier.
         res_bind (read_field as_num kvs ''hybrid_score'') (\<lambda>hybrid.
         Inr \<lparr>ss_code = code, ss_name = name, ss_llm_score = score, ss_rank = rank, ss_tradable = tradable,
           ss_strategies = strategies, ss_tier = tier, ss_hybrid = hybrid\<rparr>)))))))))
   | _ \<Rightarrow> Inl TypeError)"

text \<open>Without the key \<open>stocks\<close> the list is empty; a value that is no list cannot be read as one.\<close>

definition read_stocks :: "pyval \<Rightarrow> stored_stock list res" where
  "read_stocks v = (case v of PList l \<Rightarrow> read_all read_stock l | _ \<Rightarrow> Inl TypeError)"

definition read_watchlist :: "payload \<Rightarrow> stored_watchlist res" where
  "read_watchlist d = res_bind (json_loads d) (\<lambda>v. case v of
     PDict kvs \<Rightarrow>
       res_bind (read_field read_stocks kvs ''stocks'') (\<lambda>stocks.
       res_bind (read_field text_value kvs ''market_regime'') (\<lambda>regime.
       res_bind (read_field as_num kvs ''score_threshold'') (\<lambda>threshold.
       Inr \<lparr>sl_stocks = stocks, sl_regime = regime, sl_threshold = threshold\<rparr>)))
   | _ \<Rightarrow> Inl AttributeError)"

record watch_db =
  wd_supply :: "string list \<Rightarrow> (string \<times> (int \<times> int) list) list res"
  wd_entries :: "string list \<Rightarrow> (string \<times> entry_info) list res"

definition stock_of :: "stored_stock \<Rightarrow> stock_info" where
  "stock_of s = \<lparr>si_name = opt_or (ss_code s) (ss_name s), si_llm_score = opt_or 0 (ss_llm_score s),
     si_rank = opt_or 99 (ss_rank s), si_tradable = opt_or True (ss_tradable s),
     si_strategies = opt_or [] (ss_strategies s), si_trade_tier = ss_tier s, si_hybrid_score = opt_or 0 (ss_hybrid s)\<rparr>"

definition watchlist_of :: "stored_stock list \<Rightarrow> (string \<times> stock_info) list" where
  "watchlist_of ss = foldl (\<lambda>d s. dict_set (ss_code s) (stock_of s) d) [] ss"

definition load_supply_demand :: "watch_db \<Rightarrow> string list \<Rightarrow> watcher \<Rightarrow> watcher" where
  "load_supply_demand D codes v =
     (if codes = [] then v else (case wd_supply D codes of Inl _ \<Rightarrow> v | Inr d \<Rightarrow> v\<lparr>wt_supply := d\<rparr>))"

definition load_watchlist_entries :: "watch_db \<Rightarrow> string list \<Rightarrow> watcher \<Rightarrow> watcher" where
  "load_watchlist_entries D codes v =
     (if codes = [] then v else v\<lparr>wt_entries := (case wd_entries D codes of Inl _ \<Rightarrow> [] | Inr d \<Rightarrow> d)\<rparr>)"

definition accept_watchlist :: "watch_db \<Rightarrow> rat \<Rightarrow> string \<Rightarrow> stored_watchlist \<Rightarrow> watcher \<Rightarrow> watcher" where
  "accept_watchlist D now version sl v =
     (let stocks = watchlist_of (opt_or [] (sl_stocks sl)); codes = map fst stocks;
          v1 = v\<lparr>wt_watchlist := stocks, wt_regime := opt_or ''SIDEWAYS'' (sl_regime sl),
                 wt_threshold := opt_or 65 (sl_threshold sl), wt_last_load := now, wt_version := Some version\<rparr>;
          v2 = load_watchlist_entries D codes (load_supply_demand D codes v1)
      in v2\<lparr>wt_metrics := (wt_metrics v2)\<lparr>mt_loads := mt_loads (wt_metrics v2) + 1\<rparr>\<rparr>)"

text \<open>The key of the active version is a plain text; a key of another form is never stored.\<close>

definition version_text :: "payload \<Rightarrow> string" where
  "version_text p = (case p of Text t \<Rightarrow> t | Dumps _ \<Rightarrow> [])"

definition load_hot_watchlist :: "'s redis \<Rightarrow> watch_db \<Rightarrow> scan_env \<Rightarrow> 's scan_world \<Rightarrow> bool \<times> 's scan_world" where
  "load_hot_watchlist R D E w =
     (let (up, w1) = ensure_redis_connection R w in
      if \<not> up then (False, w1)
      else (case r_get R ''hot_watchlist:active'' (sw_redis w1) of
        (Inl _, s) \<Rightarrow> (False, w1\<lparr>sw_redis := s\<rparr>)
      | (Inr active, s) \<Rightarrow>
          (let w2 = w1\<lparr>sw_redis := s\<rparr> in
           case active of
             None \<Rightarrow> (False, on_watcher (\<lambda>v. v\<lparr>wt_version := None\<rparr>) w2)
           | Some p \<Rightarrow>
               if \<not> text_truthy p then (False, on_watcher (\<lambda>v. v\<lparr>wt_version := None\<rparr>) w2)
               else (case r_get R (version_text p) s of
                  (Inr (Some data), s') \<Rightarrow>
                    (if \<not> text_truthy data then (False, w2\<lparr>sw_redis := s'\<rparr>)
                     else (case read_watchlist data of
                        Inl _ \<Rightarrow> (False, w2\<lparr>sw_redis := s'\<rparr>)
                      | Inr sl \<Rightarrow> (True, on_watcher (accept_watchlist D (te_now E) (version_text p) sl) (w2\<lparr>sw_redis := s'\<rparr>))))
                | (_, s') \<Rightarrow> (False, w2\<lparr>sw_redis := s'\<rparr>)))))"

definition check_for_update :: "'s redis \<Rightarrow> 's scan_world \<Rightarrow> bool \<times> 's scan_world" where
  "check_for_update R w =
     (let (up, w1) = ensure_redis_connection R w in
      if \<not> up then (False, w1)
      else (case r_get R ''hot_watchlist:active'' (sw_redis w1) of
        (Inr (Some p), s) \<Rightarrow> (text_truthy p \<and> Some (version_text p) \<noteq> wt_version (sw_watcher w1), w1\<lparr>sw_redis := s\<rparr>)
      | (_, s) \<Rightarrow> (False, w1\<lparr>sw_redis := s\<rparr>)))"

definition get_watchlist_codes :: "'s redis \<Rightarrow> watch_db \<Rightarrow> scan_env \<Rightarrow> 's scan_world \<Rightarrow> string list \<times> 's scan_world" where
  "get_watchlist_codes R D E w =
     (let w' = (if 60 < fsub (te_now E) (wt_last_load (sw_watcher w)) then snd (load_hot_watchlist R D E w) else w)
      in (map fst (wt_watchlist (sw_watcher w')), w'))"

definition publish_heartbeat :: "'s redis \<Rightarrow> scan_env \<Rightarrow> 's scan_world \<Rightarrow> 's scan_world" where
  "publish_heartbeat R E w =
     (let v = sw_watcher w; m = wt_metrics v; count = (\<lambda>n. PInt (int n)) in
      quiet_setex R ''monitoring:buy_scanner_websocket'' 15
        (Dumps (PDict [(''tick_count'', count (mt_ticks m)), (''bar_count'', count (mt_bars m)), (''signal_count'', count (mt_signals m)),
           (''cooldown_blocked'', count (mt_window_blocked m)), (''watchlist_loads'', count (mt_loads m)),
           (''last_tick_time'', opt_value PFloat (mt_last_tick m)), (''last_signal_time'', opt_value PFloat (mt_last_signal m)),
           (''macro_risk_blocked'', count (mt_macro_blocked m)), (''hot_watchlist_size'', PInt (int (length (wt_watchlist v)))),
           (''market_regime'', PStr (wt_regime v)), (''updated_at'', PStr (te_stamp E))])) w)"

text \<open>The constructor, with the length of a candle from the environment.\<close>

definition new_watcher :: "'s redis \<Rightarrow> 'a cfg_scheme \<Rightarrow> scan_env \<Rightarrow> int \<Rightarrow> 's \<Rightarrow> ctx_cache \<Rightarrow> 's scan_world" where
  "new_watcher R C E interval s cc = load_trading_context E
     \<lparr>sw_watcher = \<lparr>wt_agg = new_aggregator interval, wt_connected = r_conn R s, wt_watchlist = [], wt_regime = ''SIDEWAYS'',
        wt_threshold = 65, wt_last_load = 0, wt_version = None, wt_supply = [], wt_entries = [],
        wt_cooldown_seconds = cf_int C ''SIGNAL_COOLDOWN_SECONDS'' 600, wt_pending = [],
        wt_confirmation_bars = cf_int C ''MOMENTUM_CONFIRMATION_BARS'' 0, wt_ctx = None, wt_ctx_at = None,
        wt_metrics = \<lparr>mt_ticks = 0, mt_bars = 0, mt_signals = 0, mt_window_blocked = 0, mt_loads = 0, mt_macro_blocked = 0,
          mt_last_tick = None, mt_last_signal = None\<rparr>\<rparr>,
      sw_redis = s, sw_cache = cc, sw_sent = []\<rparr>"

end
