(* ===== verification/Buy_Watcher_Facts.thy ===== *)
theory Buy_Watcher_Facts
  imports Buy_Watcher
begin

text \<open>
  What the watcher guarantees, and what it does not: a signal of a strategy has passed every
  gate, the cooldown silences the strategies, the early entry passes no gate, the avoid list of
  the council and the momentum confirmation do not do what they are for.
\<close>

section \<open>The macro context\<close>

lemma on_watcher_simps [simp]:
  "sw_watcher (on_watcher f w) = f (sw_watcher w)" "sw_redis (on_watcher f w) = sw_redis w"
  "sw_cache (on_watcher f w) = sw_cache w" "sw_sent (on_watcher f w) = sw_sent w"
  "sw_watcher (on_metrics g w) = (sw_watcher w)\<lparr>wt_metrics := g (wt_metrics (sw_watcher w))\<rparr>"
  "sw_redis (on_metrics g w) = sw_redis w" "sw_cache (on_metrics g w) = sw_cache w" "sw_sent (on_metrics g w) = sw_sent w"
  by (simp_all add: on_watcher_def on_metrics_def)

text \<open>Loading touches the context, its time and the cache of the module only.\<close>

lemma load_trading_context_keeps [simp]:
  "sw_redis (load_trading_context E w) = sw_redis w" "sw_sent (load_trading_context E w) = sw_sent w"
  "wt_agg (sw_watcher (load_trading_context E w)) = wt_agg (sw_watcher w)"
  "wt_connected (sw_watcher (load_trading_context E w)) = wt_connected (sw_watcher w)"
  "wt_watchlist (sw_watcher (load_trading_context E w)) = wt_watchlist (sw_watcher w)"
  "wt_regime (sw_watcher (load_trading_context E w)) = wt_regime (sw_watcher w)"
  "wt_supply (sw_watcher (load_trading_context E w)) = wt_supply (sw_watcher w)"
  "wt_entries (sw_watcher (load_trading_context E w)) = wt_entries (sw_watcher w)"
  "wt_cooldown_seconds (sw_watcher (load_trading_context E w)) = wt_cooldown_seconds (sw_watcher w)"
  "wt_pending (sw_watcher (load_trading_context E w)) = wt_pending (sw_watcher w)"
  "wt_confirmation_bars (sw_watcher (load_trading_context E w)) = wt_confirmation_bars (sw_watcher w)"
  by (simp_all add: load_trading_context_def split: prod.splits sum.splits)

lemma get_trading_context_snd:
  "snd (get_trading_context E w) = w \<or> snd (get_trading_context E w) = load_trading_context E w"
  by (simp add: get_trading_context_def Let_def split: option.splits)

lemma get_trading_context_keeps [simp]:
  "sw_redis (snd (get_trading_context E w)) = sw_redis w" "sw_sent (snd (get_trading_context E w)) = sw_sent w"
  "wt_agg (sw_watcher (snd (get_trading_context E w))) = wt_agg (sw_watcher w)"
  "wt_connected (sw_watcher (snd (get_trading_context E w))) = wt_connected (sw_watcher w)"
  "wt_watchlist (sw_watcher (snd (get_trading_context E w))) = wt_watchlist (sw_watcher w)"
  "wt_regime (sw_watcher (snd (get_trading_context E w))) = wt_regime (sw_watcher w)"
  "wt_supply (sw_watcher (snd (get_trading_context E w))) = wt_supply (sw_watcher w)"
  "wt_entries (sw_watcher (snd (get_trading_context E w))) = wt_entries (sw_watcher w)"
  "wt_cooldown_seconds (sw_watcher (snd (get_trading_context E w))) = wt_cooldown_seconds (sw_watcher w)"
  "wt_pending (sw_watcher (snd (get_trading_context E w))) = wt_pending (sw_watcher w)"
  "wt_confirmation_bars (sw_watcher (snd (get_trading_context E w))) = wt_confirmation_bars (sw_watcher w)"
  using get_trading_context_snd [of E w] by (elim disjE; simp)+

lemma get_trading_context_fst: "fst (get_trading_context E w) = wt_ctx (sw_watcher (snd (get_trading_context E w)))"
  by (simp add: get_trading_context_def Let_def)

section \<open>Gates\<close>

lemma gate_Next [simp]: "gate R E sn name p cs w = (Next cs', w') \<longleftrightarrow> p \<and> cs' = cs @ [(name, p)] \<and> w' = w"
  by (auto simp: gate_def Let_def)

lemma window_gate_Next [simp]:
  "window_gate R E sn cs w = (Next cs', w') \<longleftrightarrow> check_no_trade_window (te_now E) \<and> cs' = cs @ [(''No-Trade Window'', True)] \<and> w' = w"
  by (auto simp: window_gate_def Let_def)

lemma macro_gate_Next [simp]:
  "macro_gate R E sn cs w = (Next cs', w') \<longleftrightarrow>
    check_macro_risk_gate (fst (get_trading_context E w)) \<and> cs' = cs @ [(''Macro Risk'', True)] \<and> w' = snd (get_trading_context E w)"
  by (auto simp: macro_gate_def Let_def split: prod.splits)

lemma regime_gate_Next:
  "regime_gate R C E sn cs w = (Next cs', w') \<Longrightarrow>
    (cf_bool C ''ENABLE_BEAR_ENTRY_BLOCK'' True \<longrightarrow> wt_regime (sw_watcher w) \<notin> {''BEAR'', ''STRONG_BEAR''}) \<and> w' = w"
  by (auto simp: regime_gate_def split: if_splits)

lemma combined_gate_Next:
  "combined_gate R C E sn cs w = (Next cs', w') \<Longrightarrow> (volume_ok C sn \<or> vwap_ok C sn) \<and> w' = w"
  by (simp add: combined_gate_def)

lemma stoploss_gate_Next:
  assumes "redis_laws R up look" "up (sw_redis w)"
  shows "stoploss_gate R E sn cs w = (Next cs', w') \<Longrightarrow>
    look (sw_redis w) (STOPLOSS_COOLDOWN_PREFIX @ sn_code sn) = None \<and> w' = w"
  by (simp add: stoploss_gate_def is_stoploss_blacklisted_def redis_rules [OF assms] Let_def split: if_splits)

lemma cooldown_gate_Next:
  assumes "redis_laws R up look" "up (sw_redis w)" "wt_connected (sw_watcher w)"
  shows "cooldown_gate R E sn cs w = (Next cs', w') \<Longrightarrow> look (sw_redis w) (cooldown_key (sn_code sn)) = None \<and> w' = w"
  using assms(3) by (simp add: cooldown_gate_def check_cooldown_def redis_rules [OF assms(1,2)] split: if_splits)

lemma micro_gate_Next:
  "micro_gate R C E sn bars cs w = (Next cs', w') \<Longrightarrow>
    (cf_bool C ''ENABLE_MICRO_TIMING'' True \<longrightarrow> check_micro_timing bars = Micro_ok) \<and> w' = w"
  by (auto simp: micro_gate_def split: if_splits)

text \<open>What all gates together have checked.\<close>

definition gates_open ::
  "'a cfg_scheme \<Rightarrow> scan_env \<Rightarrow> ('s \<Rightarrow> string \<Rightarrow> payload option) \<Rightarrow> snap_info \<Rightarrow> minute_bar list \<Rightarrow> 's scan_world \<Rightarrow> bool" where
  "gates_open C E look sn bars w \<longleftrightarrow>
     te_min_bars E \<le> int (length bars) \<and> check_no_trade_window (te_now E) \<and> check_danger_zone (te_now E)
   \<and> check_rsi_guard C (sn_rsi sn) \<and> check_macro_risk_gate (fst (get_trading_context E w))
   \<and> (cf_bool C ''ENABLE_BEAR_ENTRY_BLOCK'' True \<longrightarrow> wt_regime (sw_watcher w) \<notin> {''BEAR'', ''STRONG_BEAR''})
   \<and> (volume_ok C sn \<or> vwap_ok C sn)
   \<and> look (sw_redis w) (STOPLOSS_COOLDOWN_PREFIX @ sn_code sn) = None
   \<and> look (sw_redis w) (cooldown_key (sn_code sn)) = None
   \<and> (cf_bool C ''ENABLE_MICRO_TIMING'' True \<longrightarrow> check_micro_timing bars = Micro_ok)"

lemma risk_gates_open:
  assumes "redis_laws R up look" "up (sw_redis w)" "wt_connected (sw_watcher w)"
    "risk_gates R C E sn bars w = (Next cs, w')"
  shows "gates_open C E look sn bars w \<and> w' = snd (get_trading_context E w)"
proof -
  let ?w = "snd (get_trading_context E w)"
  from assms(4) obtain c5 c6 c7 c8 c9 w6 w7 w8 w9 where
    g: "te_min_bars E \<le> int (length bars)" "check_no_trade_window (te_now E)" "check_danger_zone (te_now E)"
      "check_rsi_guard C (sn_rsi sn)" "check_macro_risk_gate (fst (get_trading_context E w))"
    and n: "regime_gate R C E sn c5 ?w = (Next c6, w6)" "combined_gate R C E sn c6 w6 = (Next c7, w7)"
      "stoploss_gate R E sn c7 w7 = (Next c8, w8)" "cooldown_gate R E sn c8 w8 = (Next c9, w9)"
      "micro_gate R C E sn bars c9 w9 = (Next cs, w')"
    by (auto simp: risk_gates_def and_then_Next)
  from regime_gate_Next [OF n(1)] combined_gate_Next [OF n(2)] have w7: "w7 = ?w" by simp
  with assms have "up (sw_redis w7)" "wt_connected (sw_watcher w7)" by simp_all
  note sl = stoploss_gate_Next [OF assms(1) this(1) n(3)]
  with assms w7 have "up (sw_redis w8)" "wt_connected (sw_watcher w8)" by simp_all
  note cd = cooldown_gate_Next [OF assms(1) this n(4)]
  show ?thesis using g regime_gate_Next [OF n(1)] combined_gate_Next [OF n(2)] sl cd micro_gate_Next [OF n(5)] w7
    by (simp add: gates_open_def)
qed

text \<open>A gate ends the call without a signal.\<close>

definition no_signal :: "(watch_signal option, 'a) flow \<times> 'w \<Rightarrow> bool" where
  "no_signal r \<longleftrightarrow> (case fst r of Return x \<Rightarrow> x = None | _ \<Rightarrow> True)"

lemma no_signal_and_then: "no_signal r \<Longrightarrow> (\<And>a w. no_signal (k a w)) \<Longrightarrow> no_signal (and_then r k)"
  by (cases r; cases "fst r") (auto simp: and_then_def no_signal_def)

lemma no_signal_Next: "no_signal (Next x, w)"
  by (simp add: no_signal_def)

lemma no_signal_gates:
  "no_signal (gate R E sn name p cs w)" "no_signal (window_gate R E sn cs w)" "no_signal (macro_gate R E sn cs w)"
  "no_signal (regime_gate R C E sn cs w)" "no_signal (combined_gate R C E sn cs w)" "no_signal (stoploss_gate R E sn cs w)"
  "no_signal (cooldown_gate R E sn cs w)" "no_signal (micro_gate R C E sn bars cs w)"
proof -
  show gate: "no_signal (gate R E sn name p cs w)" for name p cs w by (simp add: no_signal_def gate_def Let_def)
  show "no_signal (window_gate R E sn cs w)" unfolding window_gate_def Let_def by (rule gate)
  show "no_signal (macro_gate R E sn cs w)" unfolding macro_gate_def Let_def split_def by (rule gate)
  show "no_signal (regime_gate R C E sn cs w)" by (simp add: regime_gate_def gate) (simp add: no_signal_def)
  show "no_signal (combined_gate R C E sn cs w)" unfolding combined_gate_def by (rule gate)
  show "no_signal (stoploss_gate R E sn cs w)" unfolding stoploss_gate_def Let_def split_def by (rule gate)
  show "no_signal (cooldown_gate R E sn cs w)"
    by (auto simp: cooldown_gate_def gate split: prod.split sum.split) (simp add: no_signal_def)
  show "no_signal (micro_gate R C E sn bars cs w)" unfolding micro_gate_def
    by (cases "cf_bool C ''ENABLE_MICRO_TIMING'' True") (simp_all only: if_True if_False gate no_signal_Next)
qed

lemma no_signal_risk_gates: "no_signal (risk_gates R C E sn bars w)"
  unfolding risk_gates_def by (intro no_signal_and_then no_signal_gates)

section \<open>The rule that triggers\<close>

lemma first_rule_sound:
  "first_rule allowed rs = Inr (Some t, cs) \<Longrightarrow>
    \<exists>r \<in> set rs. ru_signal r = t \<and> ru_enabled r \<and> ru_outcome r = Inr True \<and> (ru_macro r \<longrightarrow> allowed (ru_name r))"
proof (induction rs arbitrary: cs)
  case (Cons r rs)
  show ?case
  proof (cases "(ru_macro r \<longrightarrow> allowed (ru_name r)) \<and> ru_enabled r \<and> ru_outcome r = Inr True")
    case True
    with Cons.prems show ?thesis by auto
  next
    case False
    with Cons.prems obtain cs' where "first_rule allowed rs = Inr (Some t, cs')"
      by (auto simp: add_check_def res_bind_Inr_iff split: if_splits)
    from Cons.IH [OF this] show ?thesis by auto
  qed
qed simp

lemma rule_signals:
  "r \<in> set (rules_of C E v code si price ratio bars) \<Longrightarrow> ru_signal r \<noteq> ''WATCHLIST_CONVICTION_ENTRY''"
  by (auto simp: rules_of_def bull_rules_def dip_rule_def strategy_rule_def golden_cross_signal_def split: if_splits)

section \<open>One candle\<close>

definition recent_bars :: "'s scan_world \<Rightarrow> string \<Rightarrow> minute_bar list" where
  "recent_bars w code = get_recent_bars (wt_agg (sw_watcher w)) code 30"

definition scan_view :: "string \<Rightarrow> stock_info \<Rightarrow> rat \<Rightarrow> 's scan_world \<Rightarrow> snap_info" where
  "scan_view code si price w =
     (let (vwap, a') = get_vwap code (wt_agg (sw_watcher w)) in snap_of code si price vwap a')"

definition after_vwap :: "string \<Rightarrow> 's scan_world \<Rightarrow> 's scan_world" where
  "after_vwap code w = on_watcher (\<lambda>v. v\<lparr>wt_agg := snd (get_vwap code (wt_agg (sw_watcher w)))\<rparr>) w"

lemma check_buy_signal_unfold:
  "check_buy_signal R C E code si price w =
     (let w0 = after_vwap code w; sn = scan_view code si price w; bars = recent_bars w code
      in case conviction_of C E sn bars (sw_watcher w0) of
           Inl e \<Rightarrow> (Inl e, w0)
         | Inr True \<Rightarrow>
             (let w1 = save_snapshot R E sn True [(''Early Conviction'', True)] [(''WATCHLIST_CONVICTION_ENTRY'', True)]
                         (Some ''WATCHLIST_CONVICTION_ENTRY'') w0;
                  (sig, w2) = issue_signal R E sn ''WATCHLIST_CONVICTION_ENTRY'' w1
              in (Inr (Some sig), w2))
         | Inr False \<Rightarrow> finish (and_then (risk_gates R C E sn bars w0) (\<lambda>cs w. scan_strategies R C E sn bars cs w)))"
  by (simp add: check_buy_signal_def scan_view_def after_vwap_def recent_bars_def Let_def split_def)

lemma after_vwap_keeps [simp]:
  "sw_redis (after_vwap code w) = sw_redis w" "sw_sent (after_vwap code w) = sw_sent w"
  "wt_connected (sw_watcher (after_vwap code w)) = wt_connected (sw_watcher w)"
  "wt_regime (sw_watcher (after_vwap code w)) = wt_regime (sw_watcher w)"
  "wt_supply (sw_watcher (after_vwap code w)) = wt_supply (sw_watcher w)"
  "wt_entries (sw_watcher (after_vwap code w)) = wt_entries (sw_watcher w)"
  "wt_cooldown_seconds (sw_watcher (after_vwap code w)) = wt_cooldown_seconds (sw_watcher w)"
  "fst (get_trading_context E (after_vwap code w)) = fst (get_trading_context E w)"
  by (simp_all add: after_vwap_def get_trading_context_def load_trading_context_def Let_def
      split: option.splits prod.splits sum.splits)

lemma scan_view_simps [simp]:
  "sn_code (scan_view code si price w) = code" "sn_stock (scan_view code si price w) = si"
  "sn_price (scan_view code si price w) = price"
  by (simp_all add: scan_view_def snap_of_def Let_def split_def)

lemma gates_open_after [simp]: "gates_open C E look sn bars (after_vwap code w) = gates_open C E look sn bars w"
  by (simp add: gates_open_def)

lemma rules_of_cong:
  "wt_regime v = wt_regime v' \<Longrightarrow> wt_entries v = wt_entries v' \<Longrightarrow> wt_supply v = wt_supply v' \<Longrightarrow>
    rules_of C E v code si price ratio bars = rules_of C E v' code si price ratio bars"
  by (simp add: rules_of_def dip_rule_def)

lemma issue_signal_fields:
  "bs_type (fst (issue_signal R E sn t w)) = t" "bs_code (fst (issue_signal R E sn t w)) = sn_code sn"
  "bs_price (fst (issue_signal R E sn t w)) = sn_price sn"
  by (simp_all add: issue_signal_def make_signal_def Let_def split_def)

text \<open>Where a signal of a call comes from.\<close>

lemma scan_signal_origin:
  assumes "scan_strategies R C E sn bars gates w = (Return (Some sig), w')"
  obtains t cs where "first_rule (strategy_allowed (fst (get_trading_context E w)))
      (rules_of C E (sw_watcher w) (sn_code sn) (sn_stock sn) (sn_price sn) (vi_ratio (sn_volume sn)) bars) = Inr (Some t, cs)"
    "(sig, w') = issue_signal R E sn t (save_snapshot R E sn True gates cs (Some t) (snd (get_trading_context E w)))"
proof -
  let ?w1 = "snd (get_trading_context E w)"
  let ?rs = "rules_of C E (sw_watcher w) (sn_code sn) (sn_stock sn) (sn_price sn) (vi_ratio (sn_volume sn)) bars"
  let ?f = "first_rule (strategy_allowed (fst (get_trading_context E w))) ?rs"
  have "rules_of C E (sw_watcher ?w1) = rules_of C E (sw_watcher w)" by (intro ext rules_of_cong) simp_all
  then have u: "scan_strategies R C E sn bars gates w = (case ?f of
       Inl e \<Rightarrow> (Raise e, ?w1)
     | Inr (None, cs) \<Rightarrow> (Return None, save_snapshot R E sn True gates cs None ?w1)
     | Inr (Some t, cs) \<Rightarrow>
         (let w2 = save_snapshot R E sn True gates cs (Some t) ?w1
          in if 0 < wt_confirmation_bars (sw_watcher w2) \<and> t \<in> WATCH_MOMENTUM_STRATEGIES
             then (Return None, hold_signal R E sn t w2)
             else (let (sig, w3) = issue_signal R E sn t w2 in (Return (Some sig), w3))))"
    by (simp only: scan_strategies_def Let_def split_def)
  then obtain t cs where f: "?f = Inr (Some t, cs)" using assms
    by (cases ?f; cases "fst (projr ?f)") (auto simp: split_def split: option.splits)
  let ?w2 = "save_snapshot R E sn True gates cs (Some t) ?w1"
  from u assms f have "\<not> (0 < wt_confirmation_bars (sw_watcher ?w2) \<and> t \<in> WATCH_MOMENTUM_STRATEGIES)"
    by (auto simp: Let_def)
  with u assms f have "(sig, w') = issue_signal R E sn t ?w2" by (simp add: Let_def split_def prod_eq_iff)
  with f that show thesis by blast
qed

lemma call_signal_origin:
  assumes "check_buy_signal R C E code si price w = (Inr (Some sig), w')"
  obtains (early) "(sig, w') = issue_signal R E (scan_view code si price w) ''WATCHLIST_CONVICTION_ENTRY''
         (save_snapshot R E (scan_view code si price w) True [(''Early Conviction'', True)]
           [(''WATCHLIST_CONVICTION_ENTRY'', True)] (Some ''WATCHLIST_CONVICTION_ENTRY'') (after_vwap code w))"
    | (rule) cs w1 where "risk_gates R C E (scan_view code si price w) (recent_bars w code) (after_vwap code w) = (Next cs, w1)"
      "scan_strategies R C E (scan_view code si price w) (recent_bars w code) cs w1 = (Return (Some sig), w')"
proof -
  let ?sn = "scan_view code si price w" and ?bars = "recent_bars w code" and ?w0 = "after_vwap code w"
  consider "conviction_of C E ?sn ?bars (sw_watcher ?w0) = Inr True"
    | "conviction_of C E ?sn ?bars (sw_watcher ?w0) = Inr False"
    using assms by (cases "conviction_of C E ?sn ?bars (sw_watcher ?w0)") (auto simp: check_buy_signal_unfold Let_def)
  then show thesis
  proof cases
    case 1
    with assms have "(sig, w') = issue_signal R E ?sn ''WATCHLIST_CONVICTION_ENTRY''
        (save_snapshot R E ?sn True [(''Early Conviction'', True)] [(''WATCHLIST_CONVICTION_ENTRY'', True)]
          (Some ''WATCHLIST_CONVICTION_ENTRY'') ?w0)"
      by (simp add: check_buy_signal_unfold Let_def split_def prod_eq_iff)
    with early show thesis by blast
  next
    case 2
    with assms have "finish (and_then (risk_gates R C E ?sn ?bars ?w0) (\<lambda>cs w. scan_strategies R C E ?sn ?bars cs w)) = (Inr (Some sig), w')"
      by (simp add: check_buy_signal_unfold Let_def)
    then have "and_then (risk_gates R C E ?sn ?bars ?w0) (\<lambda>cs w. scan_strategies R C E ?sn ?bars cs w) = (Return (Some sig), w')"
      by (simp add: finish_def split: prod.splits flow.splits)
    moreover have "risk_gates R C E ?sn ?bars ?w0 \<noteq> (Return (Some sig), w'')" for w''
      using no_signal_risk_gates [of R C E ?sn ?bars ?w0] by (auto simp: no_signal_def)
    ultimately show thesis using rule
      by (cases "risk_gates R C E ?sn ?bars ?w0"; cases "fst (risk_gates R C E ?sn ?bars ?w0)") auto
  qed
qed

section \<open>Gates and cooldown\<close>

lemma save_snapshot_keeps [simp]:
  "sw_watcher (save_snapshot R E sn ok gs ss t w) = sw_watcher w" "sw_sent (save_snapshot R E sn ok gs ss t w) = sw_sent w"
  by (simp_all add: save_snapshot_def quiet_setex_def)

lemma strategy_signal_gates:
  assumes "redis_laws R up look" "up (sw_redis w)" "wt_connected (sw_watcher w)"
    "check_buy_signal R C E code si price w = (Inr (Some sig), w')" "bs_type sig \<noteq> ''WATCHLIST_CONVICTION_ENTRY''"
  shows "gates_open C E look (scan_view code si price w) (recent_bars w code) w
    \<and> (\<exists>r \<in> set (rules_of C E (sw_watcher w) code si price (vi_ratio (sn_volume (scan_view code si price w))) (recent_bars w code)).
         ru_signal r = bs_type sig \<and> ru_enabled r \<and> ru_outcome r = Inr True)
    \<and> bs_code sig = code \<and> bs_price sig = price"
proof (cases rule: call_signal_origin [OF assms(4)])
  case 1
  then have "bs_type sig = ''WATCHLIST_CONVICTION_ENTRY''" by (metis fst_conv issue_signal_fields(1))
  with assms(5) show ?thesis by contradiction
next
  case (2 cs w1)
  let ?sn = "scan_view code si price w"
  have o: "gates_open C E look ?sn (recent_bars w code) w" "w1 = snd (get_trading_context E (after_vwap code w))"
    using risk_gates_open [OF assms(1) _ _ 2(1)] assms(2,3) by simp_all
  then have r: "rules_of C E (sw_watcher w1) = rules_of C E (sw_watcher w)" by (intro ext rules_of_cong) simp_all
  obtain t cs' where f: "first_rule (strategy_allowed (fst (get_trading_context E w1)))
      (rules_of C E (sw_watcher w1) (sn_code ?sn) (sn_stock ?sn) (sn_price ?sn) (vi_ratio (sn_volume ?sn)) (recent_bars w code)) = Inr (Some t, cs')"
    and i: "(sig, w') = issue_signal R E ?sn t (save_snapshot R E ?sn True cs cs' (Some t) (snd (get_trading_context E w1)))"
    by (rule scan_signal_origin [OF 2(2)])
  from i have "bs_type sig = t" "bs_code sig = code" "bs_price sig = price"
    by (metis fst_conv issue_signal_fields(1), metis fst_conv issue_signal_fields(2) scan_view_simps(1),
        metis fst_conv issue_signal_fields(3) scan_view_simps(3))
  with first_rule_sound [OF f] o(1) show ?thesis by (auto simp: r)
qed

text \<open>
  Claim C17. Every signal a strategy gives has passed every gate. When a call of the candle
  handler answers a signal that is not the early entry, there were enough candles, the clock
  was outside the opening window and the danger zone, the RSI was at most its limit, the macro
  context allowed entries, the regime was not falling, volume and VWAP were not both out of
  bounds, the stock had no stop-loss cooldown and no signal cooldown and the last candles no
  reversal pattern; and an enabled rule of the type of the signal had triggered.
\<close>

theorem signal_past_every_gate:
  assumes "redis_laws R up look" "up (sw_redis w)" "wt_connected (sw_watcher w)"
    "check_buy_signal R C E code si price w = (Inr (Some sig), w')" "bs_type sig \<noteq> ''WATCHLIST_CONVICTION_ENTRY''"
  shows "let sn = scan_view code si price w; bars = recent_bars w code in
      te_min_bars E \<le> int (length bars) \<and> check_no_trade_window (te_now E) \<and> check_danger_zone (te_now E)
    \<and> check_rsi_guard C (sn_rsi sn) \<and> check_macro_risk_gate (fst (get_trading_context E w))
    \<and> (cf_bool C ''ENABLE_BEAR_ENTRY_BLOCK'' True \<longrightarrow> wt_regime (sw_watcher w) \<notin> {''BEAR'', ''STRONG_BEAR''})
    \<and> (volume_ok C sn \<or> vwap_ok C sn)
    \<and> look (sw_redis w) (STOPLOSS_COOLDOWN_PREFIX @ code) = None \<and> look (sw_redis w) (cooldown_key code) = None
    \<and> (cf_bool C ''ENABLE_MICRO_TIMING'' True \<longrightarrow> check_micro_timing bars = Micro_ok)
    \<and> (\<exists>r \<in> set (rules_of C E (sw_watcher w) code si price (vi_ratio (sn_volume sn)) bars).
         ru_signal r = bs_type sig \<and> ru_enabled r \<and> ru_outcome r = Inr True)"
  using strategy_signal_gates [OF assms] by (simp only: gates_open_def scan_view_simps Let_def) blast

text \<open>What issuing a signal leaves on a reachable server.\<close>

lemma issue_signal_up:
  assumes "redis_laws R up look" "up (sw_redis w)" "wt_connected (sw_watcher w)" "0 < wt_cooldown_seconds (sw_watcher w)"
  shows "look (sw_redis (snd (issue_signal R E sn t w))) (cooldown_key (sn_code sn)) = Some (Text ''1'')"
    "up (sw_redis (snd (issue_signal R E sn t w)))"
proof -
  let ?w1 = "snd (get_trading_context E w)"
  let ?s = "snd (r_setex R (cooldown_key (sn_code sn)) (wt_cooldown_seconds (sw_watcher w)) (Text ''1'') (sw_redis w))"
  have s: "up ?s" "look ?s (cooldown_key (sn_code sn)) = Some (Text ''1'')"
    using redis_after(3,4) [OF assms(1,2,4)] by simp_all
  have "sw_redis (set_cooldown R (sn_code sn) ?w1) = ?s" "wt_connected (sw_watcher (set_cooldown R (sn_code sn) ?w1))"
    using assms(3) by (simp_all add: set_cooldown_def quiet_setex_def)
  moreover have "up (sw_redis (save_signal_history R E c n t p v))"
    "look (sw_redis (save_signal_history R E c n t p v)) (cooldown_key c') = look (sw_redis v) (cooldown_key c')"
    if "up (sw_redis v)" for c c' n p v
    using that by (auto simp: save_signal_history_def Let_def redis_rules [OF assms(1) that] cooldown_key_def
        split: option.splits sum.splits)
  ultimately show "look (sw_redis (snd (issue_signal R E sn t w))) (cooldown_key (sn_code sn)) = Some (Text ''1'')"
    "up (sw_redis (snd (issue_signal R E sn t w)))"
    using s by (simp_all add: issue_signal_def Let_def split_def)
qed

lemma snapshot_up:
  assumes "redis_laws R up look" "up (sw_redis w)"
  shows "up (sw_redis (save_snapshot R E sn ok gs ss t w))"
  using redis_after(3) [OF assms, of 60] assms(2) by (simp add: save_snapshot_def quiet_setex_def)

text \<open>
  Claim C18. A signal silences the strategies for the stock while its cooldown lasts. The call
  that answers a signal leaves the cooldown key on the server, and as long as the key is there
  every later call for the stock, whatever its price, environment, configuration and
  watchlist entry, answers no signal but the early entry.
\<close>

theorem cooldown_silences_strategies:
  assumes "redis_laws R up look" "up (sw_redis w)" "wt_connected (sw_watcher w)" "0 < wt_cooldown_seconds (sw_watcher w)"
    "check_buy_signal R C E code si price w = (Inr (Some sig), w')"
    "up (sw_redis w2)" "wt_connected (sw_watcher w2)"
    "look (sw_redis w2) (cooldown_key code) = look (sw_redis w') (cooldown_key code)"
    "check_buy_signal R C2 E2 code si2 price2 w2 = (Inr (Some sig2), w3)"
  shows "look (sw_redis w') (cooldown_key code) = Some (Text ''1'') \<and> bs_type sig2 = ''WATCHLIST_CONVICTION_ENTRY''"
proof -
  let ?sn = "scan_view code si price w"
  have issued: "look (sw_redis w') (cooldown_key code) = Some (Text ''1'')"
    if "(sig, w') = issue_signal R E ?sn t v" "up (sw_redis v)" "wt_connected (sw_watcher v)"
      "wt_cooldown_seconds (sw_watcher v) = wt_cooldown_seconds (sw_watcher w)" for t v
  proof -
    from that(1) have "w' = snd (issue_signal R E ?sn t v)" by (metis snd_conv)
    with issue_signal_up(1) [OF assms(1) that(2,3), of E ?sn t] that(4) assms(4) show ?thesis by simp
  qed
  have k: "look (sw_redis w') (cooldown_key code) = Some (Text ''1'')"
  proof (cases rule: call_signal_origin [OF assms(5)])
    case 1
    show ?thesis by (rule issued [OF 1]) (simp_all add: snapshot_up [OF assms(1)] assms(2,3))
  next
    case (2 cs w1)
    have w1: "w1 = snd (get_trading_context E (after_vwap code w))"
      using risk_gates_open [OF assms(1) _ _ 2(1)] assms(2,3) by simp
    obtain t cs' where i: "(sig, w') = issue_signal R E ?sn t (save_snapshot R E ?sn True cs cs' (Some t) (snd (get_trading_context E w1)))"
      by (rule scan_signal_origin [OF 2(2)])
    show ?thesis by (rule issued [OF i]) (simp_all add: w1 snapshot_up [OF assms(1)] assms(2,3))
  qed
  moreover have "bs_type sig2 = ''WATCHLIST_CONVICTION_ENTRY''"
  proof (rule ccontr)
    assume "bs_type sig2 \<noteq> ''WATCHLIST_CONVICTION_ENTRY''"
    from strategy_signal_gates [OF assms(1,6,7,9) this] k assms(8) show False by (simp add: gates_open_def)
  qed
  ultimately show ?thesis by blast
qed

section \<open>The early entry\<close>

text \<open>
  The early entry passes no gate. When the conditions of the conviction entry hold on at
  least three candles, the candle handler answers its signal: whatever the macro context (a
  risk-off level of 3 too), whatever the server holds (a stop-loss cooldown, the cooldown of
  a signal a moment ago) and whatever the candles look like.
\<close>

theorem early_entry_passes_no_gate:
  assumes "conviction_of C E (scan_view code si price w) (recent_bars w code) (sw_watcher w) = Inr True"
  shows "\<exists>sig. fst (check_buy_signal R C E code si price w) = Inr (Some sig)
    \<and> bs_type sig = ''WATCHLIST_CONVICTION_ENTRY'' \<and> bs_code sig = code \<and> bs_price sig = price"
proof -
  let ?sn = "scan_view code si price w"
  have "conviction_of C E ?sn (recent_bars w code) (sw_watcher (after_vwap code w)) = Inr True"
    using assms by (simp only: conviction_of_def after_vwap_keeps)
  then have "fst (check_buy_signal R C E code si price w) = Inr (Some (fst (issue_signal R E ?sn ''WATCHLIST_CONVICTION_ENTRY''
      (save_snapshot R E ?sn True [(''Early Conviction'', True)] [(''WATCHLIST_CONVICTION_ENTRY'', True)]
        (Some ''WATCHLIST_CONVICTION_ENTRY'') (after_vwap code w)))))"
    by (simp add: check_buy_signal_unfold Let_def split_def)
  then show ?thesis by (simp add: issue_signal_fields)
qed

section \<open>Confirmed momentum signals\<close>

text \<open>The context a second call at the same instant finds is that of the first.\<close>

lemma get_context_cong:
  assumes "wt_ctx (sw_watcher v) = wt_ctx (sw_watcher w)" "wt_ctx_at (sw_watcher v) = wt_ctx_at (sw_watcher w)" "sw_cache v = sw_cache w"
  shows "fst (get_trading_context E v) = fst (get_trading_context E w)"
  using assms by (simp add: get_trading_context_def load_trading_context_def Let_def split: option.splits prod.splits sum.splits)

lemma load_fails_or_loads:
  "load_trading_context E w = w \<or> wt_ctx_at (sw_watcher (load_trading_context E w)) = Some (te_now E)"
proof (cases "get_enhanced_trading_context (te_sources E) (te_now E) (kst_day (te_now E)) False (sw_cache w)")
  case (Pair r cc)
  show ?thesis
  proof (cases r)
    case (Inl e)
    with Pair have "cc = sw_cache w"
      by (cases "cache_fresh (te_now E) (sw_cache w)") (auto simp: get_enhanced_trading_context_def split: sum.splits)
    with Pair Inl show ?thesis by (simp add: load_trading_context_def)
  next
    case (Inr ctx)
    with Pair show ?thesis by (simp add: load_trading_context_def)
  qed
qed

lemma get_context_again: "fst (get_trading_context E (snd (get_trading_context E w))) = fst (get_trading_context E w)"
proof (cases "snd (get_trading_context E w) = w")
  case False
  then have l: "snd (get_trading_context E w) = load_trading_context E w" "load_trading_context E w \<noteq> w"
    using get_trading_context_snd [of E w] by auto
  then have "wt_ctx_at (sw_watcher (load_trading_context E w)) = Some (te_now E)" using load_fails_or_loads by blast
  then have "fst (get_trading_context E (load_trading_context E w)) = wt_ctx (sw_watcher (load_trading_context E w))"
    by (simp add: get_trading_context_def Let_def)
  then show ?thesis using l(1) get_trading_context_fst [of E w] by simp
qed simp

lemma publish_sends:
  assumes "te_publish E = Some pub"
  shows "sw_sent (snd (publish_signal E sig w)) = sw_sent w @ [message_of sig (fst (get_trading_context E w))]"
    "fst (get_trading_context E (snd (publish_signal E sig w))) = fst (get_trading_context E w)"
proof -
  let ?w1 = "snd (get_trading_context E w)"
  let ?w2 = "?w1\<lparr>sw_sent := sw_sent ?w1 @ [message_of sig (fst (get_trading_context E w))]\<rparr>"
  let ?w3 = "on_metrics (\<lambda>m. m\<lparr>mt_signals := mt_signals m + 1, mt_last_signal := Some (te_now E)\<rparr>) ?w2"
  have "snd (publish_signal E sig w) \<in> {?w2, ?w3}"
    using assms by (auto simp: publish_signal_def Let_def split_def split: sum.splits bool.splits)
  moreover have "fst (get_trading_context E ?w2) = fst (get_trading_context E ?w1)"
    "fst (get_trading_context E ?w3) = fst (get_trading_context E ?w1)"
    by (rule get_context_cong; simp)+
  ultimately show "sw_sent (snd (publish_signal E sig w)) = sw_sent w @ [message_of sig (fst (get_trading_context E w))]"
    "fst (get_trading_context E (snd (publish_signal E sig w))) = fst (get_trading_context E w)"
    by (auto simp: get_context_again)
qed

lemma flags_clear_up:
  assumes "redis_laws R up look" "up s" "look s TRADING_STOP_KEY = None" "look s TRADING_PAUSE_KEY = None"
  shows "is_trading_stopped R s = (Inr (PBool False), s)" "is_trading_paused R s = (Inr (PBool False), s)"
proof -
  have "get_trading_flag R ''stop'' s = (default_flag, s)" "get_trading_flag R ''pause'' s = (default_flag, s)"
    using get_flag_up [OF assms(1,2) flag_names(2)] get_flag_up [OF assms(1,2) flag_names(1)] assms(3,4) by simp_all
  then show "is_trading_stopped R s = (Inr (PBool False), s)" "is_trading_paused R s = (Inr (PBool False), s)"
    by (simp_all add: is_trading_stopped_def is_trading_paused_def default_flag_def)
qed

text \<open>
  A confirmed momentum signal is sent twice. When a tick completes the candle that
  confirms a waiting signal, the price callback hands the same message, with the closing price
  of the candle, to the publisher two times: once inside the confirmation and once for the
  signal that is returned.
\<close>

theorem confirmed_signal_sent_twice:
  assumes "redis_laws R up look" "up (sw_redis w)" "look (sw_redis w) TRADING_STOP_KEY = None"
    "look (sw_redis w) TRADING_PAUSE_KEY = None"
    "map_of (wt_watchlist (sw_watcher w)) code = Some si"
    "agg_update (te_now E) code price volume (wt_agg (sw_watcher w)) = (Inr (Some b), a)"
    "map_of (wt_pending (sw_watcher w)) code = Some pd" "pd_price pd \<le> br_close b"
    "te_publish E = Some pub"
  shows "\<exists>m. sw_sent (snd (price_callback R C E code price volume w)) = sw_sent w @ [m, m]
    \<and> bm_signal m = (pd_signal pd)\<lparr>bs_price := br_close b\<rparr>"
proof -
  let ?sig = "(pd_signal pd)\<lparr>bs_price := br_close b\<rparr>"
  define w3 where "w3 = on_watcher (\<lambda>v. v\<lparr>wt_pending := pop_key code (wt_pending v)\<rparr>)
    (on_metrics (\<lambda>m. m\<lparr>mt_bars := mt_bars m + 1\<rparr>) (on_watcher (\<lambda>v. v\<lparr>wt_agg := a\<rparr>)
      (on_metrics (\<lambda>m. m\<lparr>mt_ticks := mt_ticks m + 1, mt_last_tick := Some (te_now E)\<rparr>) w)))"
  have p: "on_price_update R C E code price volume w = (Inr (Some ?sig), snd (publish_signal E ?sig w3))"
    using assms(5-8) by (simp add: on_price_update_def check_pending_momentum_def Let_def split_def w3_def)
  have "price_callback R C E code price volume w = (Inr (), snd (publish_signal E ?sig (snd (publish_signal E ?sig w3))))"
    using p by (simp add: price_callback_def flags_clear_up [OF assms(1-4)])
  moreover have "sw_sent w3 = sw_sent w" by (simp add: w3_def)
  ultimately have "sw_sent (snd (price_callback R C E code price volume w)) =
      sw_sent w @ [message_of ?sig (fst (get_trading_context E w3)), message_of ?sig (fst (get_trading_context E w3))]"
    by (simp add: publish_sends [OF assms(9)])
  then show ?thesis by (intro exI conjI) (auto simp: message_of_def)
qed

section \<open>The council\<close>

lemma macro_rules:
  assumes "\<not> cf_bool C ''ENABLE_SHORT_TERM_HIGH_BREAKOUT'' False" "\<not> cf_bool C ''ENABLE_VOLUME_BREAKOUT_1MIN'' False"
    "\<not> cf_bool C ''ENABLE_VCP_BREAKOUT'' False" "r \<in> set (rules_of C E v code si price ratio bars)" "ru_macro r"
  shows "\<not> ru_enabled r"
  using assms by (auto simp: rules_of_def bull_rules_def dip_rule_def strategy_rule_def split: if_splits)

lemma first_rule_unfiltered: "(\<And>r. r \<in> set rs \<Longrightarrow> ru_macro r \<Longrightarrow> \<not> ru_enabled r) \<Longrightarrow> first_rule f rs = first_rule g rs"
proof (induction rs)
  case (Cons r rs)
  then have "first_rule f rs = first_rule g rs" "ru_macro r \<Longrightarrow> \<not> ru_enabled r" by auto
  then show ?case by (cases "ru_macro r"; cases "ru_enabled r"; cases "ru_outcome r") simp_all
qed simp

text \<open>
  The strategies the council wants avoided are not avoided. With a configuration that
  switches none of the three breakout strategies on, as the defaults do, the rule that
  triggers does not depend on the macro context: neither a list of strategies to avoid nor the
  list of a risk-off level removes any.
\<close>

theorem council_avoid_list_ignored:
  assumes "conf_unset F D now md ''ENABLE_SHORT_TERM_HIGH_BREAKOUT''" "conf_unset F D now md ''ENABLE_VOLUME_BREAKOUT_1MIN''"
    "conf_unset F D now md ''ENABLE_VCP_BREAKOUT''"
  shows "first_rule (strategy_allowed ctx) (rules_of (cfg_of F D now md) E v code si price ratio bars)
    = first_rule (strategy_allowed (map_option (mc_avoid_strategies_update (\<lambda>_. avoid)) ctx))
        (rules_of (cfg_of F D now md) E v code si price ratio bars)"
proof (rule first_rule_unfiltered)
  fix r assume "r \<in> set (rules_of (cfg_of F D now md) E v code si price ratio bars)" "ru_macro r"
  moreover have "\<not> cf_bool (cfg_of F D now md) k False" if "conf_unset F D now md k" for k
    using cm.bool_default [OF that] by simp
  ultimately show "\<not> ru_enabled r" using assms by (intro macro_rules) auto
qed

text \<open>
  The gate contradicts the level. A volatility index in crisis is one indicator: with
  the others quiet the context is not risk-off, its level is 1; yet the macro gate lets no
  entry pass.
\<close>

theorem one_indicator_blocks_entries:
  assumes "ms_vix_regime g = ''crisis''" "\<not> reading_below (fl (3/10)) (ms_treasury_spread g)"
    "\<not> reading_below (- fl (15/100)) (ms_korea_news g)" "ms_political_level g = ''low''"
    "build_trading_context now today (Some g) None = Inr ctx"
  shows "mc_level ctx = 1 \<and> \<not> is_risk_off ctx \<and> \<not> check_macro_risk_gate (Some ctx)"
proof -
  have fl: "0 \<le> fl (3/10)" "fl (15/100) \<le> fl (3/10)" by (rule fl_nonneg, simp, rule fl_mono, simp)
  have "\<not> reading_below 0 (ms_treasury_spread g)" "\<not> reading_below (- fl (3/10)) (ms_korea_news g)"
    using assms(2,3) fl by (auto simp: reading_below_def split: option.splits)
  then have "risk_signals (ms_vix g) (ms_vix_regime g) (ms_treasury_spread g) 50 (ms_korea_news g) ''low'' = [Vix_crisis]"
    using assms(1-3) by (simp add: risk_signals_def)
  then have "mc_level ctx = 1 \<and> mc_vix_regime ctx = ''crisis''"
    using assms(1,4,5) by (auto simp: build_trading_context_def calculate_risk_off_level_def level_of_def no_insight_def
        opt_or_def political_level_def extract_sector_signals_def Let_def)
  then show ?thesis by (simp add: is_risk_off_def check_macro_risk_gate_def)
qed

section \<open>Samples\<close>

text \<open>A configuration without values, a quiet environment, and a world with one watched stock.\<close>

definition default_watch_cfg :: watch_cfg where
  "default_watch_cfg = \<lparr>cf_int = (\<lambda>_ n. n), cf_float = (\<lambda>_ x. x), cf_bool = (\<lambda>_ b. b), cf_text = (\<lambda>_ t. t)\<rparr>"

definition quiet_sources :: macro_sources where
  "quiet_sources = \<lparr>so_today = Inr None, so_recent = Inr [], so_insight = Inr None\<rparr>"

definition sample_at :: "rat \<Rightarrow> scan_env" where
  "sample_at now = \<lparr>te_now = now, te_today = 0, te_stamp = [], te_min_bars = 2, te_sources = quiet_sources,
     te_publish = Some (\<lambda>_. Inr True), te_pow = (\<lambda>x _. x)\<rparr>"

definition sample_stock :: stock_info where
  "sample_stock = \<lparr>si_name = ''Samsung'', si_llm_score = 80, si_rank = 1, si_tradable = True,
     si_strategies = [bare_strat ''MOMENTUM''], si_trade_tier = None, si_hybrid_score = 80\<rparr>"

definition sample_aggregator :: "rat list \<Rightarrow> aggregator" where
  "sample_aggregator ps = (new_aggregator 60)\<lparr>ag_completed := [(''005930'', map (\<lambda>p. new_bar 0 p 10) ps)],
     ag_current := [(''005930'', new_bar 0 103 10)]\<rparr>"

definition sample_world_of :: "string \<Rightarrow> rat list \<Rightarrow> macro_context option \<Rightarrow> map_store scan_world" where
  "sample_world_of regime ps ctx =
     \<lparr>sw_watcher = \<lparr>wt_agg = sample_aggregator ps, wt_connected = True, wt_watchlist = [(''005930'', sample_stock)],
        wt_regime = regime, wt_threshold = 65, wt_last_load = 0, wt_version = None, wt_supply = [], wt_entries = [],
        wt_cooldown_seconds = 600, wt_pending = [], wt_confirmation_bars = 0, wt_ctx = ctx, wt_ctx_at = Some 0,
        wt_metrics = \<lparr>mt_ticks = 0, mt_bars = 0, mt_signals = 0, mt_window_blocked = 0, mt_loads = 0, mt_macro_blocked = 0,
          mt_last_tick = None, mt_last_signal = None\<rparr>\<rparr>,
      sw_redis = ms_empty, sw_cache = \<lparr>cc_context = None, cc_time = None\<rparr>, sw_sent = []\<rparr>"

lemma sample_watch_up: "alive (sw_redis (sample_world_of r ps ctx))" "wt_connected (sw_watcher (sample_world_of r ps ctx))"
  "wt_cooldown_seconds (sw_watcher (sample_world_of r ps ctx)) = 600"
  by (simp_all add: sample_world_of_def ms_empty_def)

lemma sample_momentum:
  "\<exists>sig w'. check_buy_signal map_redis default_watch_cfg (sample_at 1000) ''005930'' sample_stock 103
      (sample_world_of ''SIDEWAYS'' [100, 104] None) = (Inr (Some sig), w') \<and> bs_type sig = ''MOMENTUM''"
proof -
  let ?r = "check_buy_signal map_redis default_watch_cfg (sample_at 1000) ''005930'' sample_stock 103 (sample_world_of ''SIDEWAYS'' [100, 104] None)"
  have "(case fst ?r of Inr (Some sig) \<Rightarrow> bs_type sig = ''MOMENTUM'' | _ \<Rightarrow> False)" by code_simp
  then obtain sig where "fst ?r = Inr (Some sig)" "bs_type sig = ''MOMENTUM''" by (auto split: sum.splits option.splits)
  then show ?thesis by (cases ?r) auto
qed

lemma sample_conviction:
  "conviction_of default_watch_cfg (sample_at 1000) (scan_view ''005930'' sample_stock 101 (sample_world_of ''SIDEWAYS'' [100, 101, 101] ctx))
    (recent_bars (sample_world_of ''SIDEWAYS'' [100, 101, 101] ctx) ''005930'')
    (sw_watcher (sample_world_of ''SIDEWAYS'' [100, 101, 101] ctx)) = Inr True"
proof -
  let ?w = "\<lambda>c. sample_world_of ''SIDEWAYS'' [100, 101, 101] c"
  have "conviction_of default_watch_cfg (sample_at 1000) (scan_view ''005930'' sample_stock 101 (?w None))
    (recent_bars (?w None) ''005930'') (sw_watcher (?w None)) = Inr True" by code_simp
  moreover have "scan_view c si p (?w ctx) = scan_view c si p (?w None)" "recent_bars (?w ctx) c = recent_bars (?w None) c" for c si p
    by (simp_all add: scan_view_def recent_bars_def sample_world_of_def)
  moreover have "conviction_of C E sn bars (sw_watcher (?w ctx)) = conviction_of C E sn bars (sw_watcher (?w None))" for C :: watch_cfg and E sn bars
    unfolding conviction_of_def by (simp only: sample_world_of_def scan_world.select_convs watcher.select_convs)
  ultimately show ?thesis by (simp only:)
qed

lemma scan_view_redis: "scan_view c si p (w\<lparr>sw_redis := s\<rparr>) = scan_view c si p w" "recent_bars (w\<lparr>sw_redis := s\<rparr>) c = recent_bars w c"
  by (simp_all add: scan_view_def recent_bars_def)

lemma conviction_after: "conviction_of C E sn bars (sw_watcher (after_vwap c w)) = conviction_of C E sn bars (sw_watcher w)"
  by (simp only: conviction_of_def after_vwap_keeps)

theorem signal_past_every_gate_witness:
  "check_no_trade_window 1000 \<and> check_danger_zone 1000 \<and>
   ms_look (sw_redis (sample_world_of ''SIDEWAYS'' [100, 104] None)) (cooldown_key ''005930'') = None"
proof -
  obtain sig w' where e: "check_buy_signal map_redis default_watch_cfg (sample_at 1000) ''005930'' sample_stock 103
      (sample_world_of ''SIDEWAYS'' [100, 104] None) = (Inr (Some sig), w')" "bs_type sig = ''MOMENTUM''"
    using sample_momentum by blast
  have "bs_type sig \<noteq> ''WATCHLIST_CONVICTION_ENTRY''" by (simp add: e(2))
  from signal_past_every_gate [OF map_redis_laws, OF sample_watch_up(1) sample_watch_up(2) e(1) this]
  show ?thesis by (simp add: Let_def sample_at_def)
qed

theorem cooldown_silences_strategies_witness:
  "\<exists>sig w' sig2 w3. check_buy_signal map_redis default_watch_cfg (sample_at 1000) ''005930'' sample_stock 103
       (sample_world_of ''SIDEWAYS'' [100, 104] None) = (Inr (Some sig), w')
     \<and> check_buy_signal map_redis default_watch_cfg (sample_at 1000) ''005930'' sample_stock 101
         ((sample_world_of ''SIDEWAYS'' [100, 101, 101] None)\<lparr>sw_redis := sw_redis w'\<rparr>) = (Inr (Some sig2), w3)
     \<and> bs_type sig2 = ''WATCHLIST_CONVICTION_ENTRY''"
proof -
  let ?w = "sample_world_of ''SIDEWAYS'' [100, 104] None"
  obtain sig w' where e: "check_buy_signal map_redis default_watch_cfg (sample_at 1000) ''005930'' sample_stock 103 ?w = (Inr (Some sig), w')"
    using sample_momentum by blast
  let ?w2 = "(sample_world_of ''SIDEWAYS'' [100, 101, 101] None)\<lparr>sw_redis := sw_redis w'\<rparr>"
  have "conviction_of default_watch_cfg (sample_at 1000) (scan_view ''005930'' sample_stock 101 ?w2) (recent_bars ?w2 ''005930'')
      (sw_watcher (after_vwap ''005930'' ?w2)) = Inr True"
    using sample_conviction [of None] by (simp add: conviction_after scan_view_redis)
  then obtain sig2 w3 where e2: "check_buy_signal map_redis default_watch_cfg (sample_at 1000) ''005930'' sample_stock 101 ?w2 = (Inr (Some sig2), w3)"
    by (simp add: check_buy_signal_unfold Let_def split_def)
  have "(0::int) < 600" by simp
  have "alive (sw_redis w')"
  proof -
    have "(case check_buy_signal map_redis default_watch_cfg (sample_at 1000) ''005930'' sample_stock 103 ?w of (_, v) \<Rightarrow> alive (sw_redis v))"
      by code_simp
    with e show ?thesis by simp
  qed
  with cooldown_silences_strategies [OF map_redis_laws, OF sample_watch_up(1) sample_watch_up(2) _ e, of ?w2 default_watch_cfg "sample_at 1000" sample_stock 101 sig2 w3]
    e e2 show ?thesis by (auto simp: sample_watch_up sample_world_of_def)
qed

theorem early_entry_passes_no_gate_witness:
  "\<forall>ctx. \<exists>sig. fst (check_buy_signal map_redis default_watch_cfg (sample_at 1000) ''005930'' sample_stock 101
     (sample_world_of ''SIDEWAYS'' [100, 101, 101] ctx)) = Inr (Some sig)"
  using early_entry_passes_no_gate [OF sample_conviction] by blast

definition waiting_world :: "map_store scan_world" where
  "waiting_world = (let w = sample_world_of ''BULL'' [100, 104] None in
     on_watcher (\<lambda>v. v\<lparr>wt_pending := [(''005930'', \<lparr>pd_price = 100, pd_signal =
       make_signal (sample_at 1000) ''005930'' sample_stock ''MOMENTUM'' 100 ''BULL'' None\<rparr>)]\<rparr>) w)"

theorem confirmed_signal_sent_twice_witness:
  "\<exists>m. sw_sent (snd (price_callback map_redis default_watch_cfg (sample_at 1000) ''005930'' 90 1 waiting_world)) = [m, m]
     \<and> bs_price (bm_signal m) = 103"
proof -
  have flags: "ms_look (sw_redis waiting_world) k = None" for k
    by (simp add: waiting_world_def sample_world_of_def ms_empty_def ms_look_def Let_def)
  have stock: "map_of (wt_watchlist (sw_watcher waiting_world)) ''005930'' = Some sample_stock"
    by (simp add: waiting_world_def sample_world_of_def Let_def)
  obtain pd where pd: "map_of (wt_pending (sw_watcher waiting_world)) ''005930'' = Some pd" "pd_price pd = 100"
    by (simp add: waiting_world_def Let_def)
  have "fst (agg_update 1000 ''005930'' 90 1 (wt_agg (sw_watcher waiting_world))) = Inr (Some (new_bar 0 103 10))"
    by code_simp
  then obtain a where a: "agg_update (te_now (sample_at 1000)) ''005930'' 90 1 (wt_agg (sw_watcher waiting_world)) = (Inr (Some (new_bar 0 103 10)), a)"
    by (cases "agg_update 1000 ''005930'' 90 1 (wt_agg (sw_watcher waiting_world))") (simp add: sample_at_def)
  have up: "alive (sw_redis waiting_world)" by (simp add: waiting_world_def Let_def sample_watch_up)
  have le: "pd_price pd \<le> br_close (new_bar 0 103 10)" by (simp add: pd(2) new_bar_def)
  have pub: "te_publish (sample_at 1000) = Some (\<lambda>_. Inr True)" by (simp add: sample_at_def)
  have "sw_sent waiting_world = []" by (simp add: waiting_world_def sample_world_of_def Let_def)
  with confirmed_signal_sent_twice [OF map_redis_laws, OF up flags flags stock a pd(1) le pub, of default_watch_cfg]
  show ?thesis by (auto simp: new_bar_def)
qed

theorem council_avoid_list_ignored_witness:
  "\<forall>ctx. first_rule (strategy_allowed ctx)
      (rules_of (cfg_of (\<lambda>_. None) map_db 0 (new_conf 300, Map.empty)) (sample_at 1000)
        (sw_watcher (sample_world_of ''BULL'' [100, 104] None)) ''005930'' sample_stock 103 1 [])
    = first_rule (strategy_allowed (map_option (mc_avoid_strategies_update (\<lambda>_. [''MOMENTUM''])) ctx))
      (rules_of (cfg_of (\<lambda>_. None) map_db 0 (new_conf 300, Map.empty)) (sample_at 1000)
        (sw_watcher (sample_world_of ''BULL'' [100, 104] None)) ''005930'' sample_stock 103 1 [])"
proof -
  have u: "conf_unset (\<lambda>_. None) map_db 0 (new_conf 300, Map.empty) k" for k
    by (simp add: conf_unset_def new_conf_def cache_read_def get_from_db_def map_db_def)
  show ?thesis by (intro allI council_avoid_list_ignored u)
qed

theorem one_indicator_blocks_entries_witness:
  "\<exists>ctx. build_trading_context 0 0 (Some (no_snapshot\<lparr>ms_vix_regime := ''crisis''\<rparr>)) None = Inr ctx
     \<and> \<not> is_risk_off ctx \<and> \<not> check_macro_risk_gate (Some ctx)"
proof -
  let ?g = "no_snapshot\<lparr>ms_vix_regime := ''crisis''\<rparr>"
  obtain ctx where c: "build_trading_context 0 0 (Some ?g) None = Inr ctx"
    by (auto simp: build_trading_context_def calculate_risk_off_level_def extract_sector_signals_def opt_or_def no_insight_def Let_def)
  have g: "ms_vix_regime ?g = ''crisis''" "\<not> reading_below (fl (3/10)) (ms_treasury_spread ?g)"
    "\<not> reading_below (- fl (15/100)) (ms_korea_news ?g)" "ms_political_level ?g = ''low''"
    by (simp_all add: no_snapshot_def reading_below_def)
  from one_indicator_blocks_entries [OF g c] c show ?thesis by blast
qed

end
