(* ===== verification/Message_Streams.thy ===== *)
theory Message_Streams
  imports Redis_Iface
begin

text \<open>
  Messages between the services over Redis Streams: \<open>shared/messaging/stream_client.py\<close> (producer,
  consumer with recovery of unacknowledged messages, maintenance) and
  \<open>shared/messaging/trading_signals.py\<close> (publisher and worker of the trading signals). The
  commands of the server are the fields of a record; what the theorems rely on is the
  predicate \<open>stream_laws\<close>, the documented behaviour of a consumer group as one consumer sees
  it. A handler is a function of the number of calls made so far and of the message: its own
  effects are outside the stream. Blocking and the texts of the log are left out.
\<close>

section \<open>The server\<close>

text \<open>
  An entry is a dictionary; a trimmed one is empty. \<open>x_group_create\<close> answers whether the
  group is new (\<open>False\<close>: \<open>BUSYGROUP\<close>). Reading \<open>"0"\<close> is \<open>x_read_pending\<close>, reading
  \<open>">"\<close> is \<open>x_read_new\<close>.
\<close>

type_synonym entry = "(string \<times> payload) list"
type_synonym message = "string \<times> entry"

record 's streams =
  x_add :: "string \<Rightarrow> entry \<Rightarrow> 's \<Rightarrow> string res \<times> 's"
  x_group_create :: "string \<Rightarrow> string \<Rightarrow> 's \<Rightarrow> bool res \<times> 's"
  x_group_setid :: "string \<Rightarrow> string \<Rightarrow> 's \<Rightarrow> unit res \<times> 's"
  x_read_pending :: "string \<Rightarrow> string \<Rightarrow> string \<Rightarrow> nat \<Rightarrow> 's \<Rightarrow> message list res \<times> 's"
  x_read_new :: "string \<Rightarrow> string \<Rightarrow> string \<Rightarrow> nat \<Rightarrow> 's \<Rightarrow> message list res \<times> 's"
  x_ack :: "string \<Rightarrow> string \<Rightarrow> string \<Rightarrow> 's \<Rightarrow> unit res \<times> 's"
  x_len :: "string \<Rightarrow> 's \<Rightarrow> nat res \<times> 's"
  x_pending_count :: "string \<Rightarrow> string \<Rightarrow> 's \<Rightarrow> nat res \<times> 's"
  x_trim :: "string \<Rightarrow> nat \<Rightarrow> 's \<Rightarrow> unit res \<times> 's"

text \<open>Who reads: stream, group and consumer.\<close>

record consumer =
  co_stream :: string
  co_group :: string
  co_name :: string

text \<open>
  The server in view of a consumer: the messages not yet delivered, its pending ones, and all
  identifiers ever given.
\<close>

record 's stream_view =
  v_up :: "'s \<Rightarrow> bool"
  v_new :: "'s \<Rightarrow> message list"
  v_pending :: "'s \<Rightarrow> message list"
  v_ids :: "'s \<Rightarrow> string set"

text \<open>
  A command that answers has been carried out. A command that fails, which happens only while
  the server cannot be reached, may have been carried out or not.
\<close>

definition unchanged :: "'s stream_view \<Rightarrow> 's \<Rightarrow> 's \<Rightarrow> bool" where
  "unchanged V s s' \<longleftrightarrow> v_new V s' = v_new V s \<and> v_pending V s' = v_pending V s \<and> v_ids V s' = v_ids V s"

definition obeys :: "'s stream_view \<Rightarrow> 's \<Rightarrow> 'a res \<times> 's \<Rightarrow> ('a \<Rightarrow> 's \<Rightarrow> bool) \<Rightarrow> bool" where
  "obeys V s r effect \<longleftrightarrow> (case r of
     (Inr a, s') \<Rightarrow> effect a s' \<and> (v_up V s \<longrightarrow> v_up V s')
   | (Inl e, s') \<Rightarrow> \<not> v_up V s \<and> ((\<exists>a. effect a s') \<or> unchanged V s s'))"

definition stream_laws :: "'s streams \<Rightarrow> consumer \<Rightarrow> 's stream_view \<Rightarrow> bool" where
  "stream_laws X c V \<longleftrightarrow> (\<forall>s.
     distinct (map fst (v_pending V s @ v_new V s)) \<and> fst ` set (v_pending V s @ v_new V s) \<subseteq> v_ids V s \<and>
     obeys V s (x_group_create X (co_stream c) (co_group c) s) (\<lambda>_ s'. unchanged V s s') \<and>
     (\<forall>n>0. obeys V s (x_read_pending X (co_stream c) (co_group c) (co_name c) n s)
        (\<lambda>ms s'. ms = take n (v_pending V s) \<and> unchanged V s s')) \<and>
     (\<forall>n>0. obeys V s (x_read_new X (co_stream c) (co_group c) (co_name c) n s)
        (\<lambda>ms s'. ms = take n (v_new V s) \<and> v_new V s' = drop n (v_new V s) \<and> v_pending V s' = v_pending V s @ ms
           \<and> v_ids V s' = v_ids V s)) \<and>
     (\<forall>i. obeys V s (x_ack X (co_stream c) (co_group c) i s)
        (\<lambda>_ s'. v_new V s' = v_new V s \<and> v_pending V s' = filter (\<lambda>m. fst m \<noteq> i) (v_pending V s) \<and> v_ids V s' = v_ids V s)) \<and>
     (\<forall>d. obeys V s (x_add X (co_stream c) d s)
        (\<lambda>i s'. i \<notin> v_ids V s \<and> v_new V s' = v_new V s @ [(i, d)] \<and> v_pending V s' = v_pending V s
           \<and> v_ids V s' = insert i (v_ids V s))))"

text \<open>The program beside the server: the calls of the handler, with the identifier of the message.\<close>

record 's bus =
  bu_server :: 's
  bu_calls :: "(string \<times> pyval) list"

type_synonym handler = "nat \<Rightarrow> pyval \<Rightarrow> bool res"

definition on_server :: "('s \<Rightarrow> 'a res \<times> 's) \<Rightarrow> 's bus \<Rightarrow> 'a res \<times> 's bus" where
  "on_server f w = (case f (bu_server w) of (r, s) \<Rightarrow> (r, w\<lparr>bu_server := s\<rparr>))"

definition call_handler :: "handler \<Rightarrow> string \<Rightarrow> pyval \<Rightarrow> 's bus \<Rightarrow> bool res \<times> 's bus" where
  "call_handler h i v w = (h (length (bu_calls w)) v, w\<lparr>bu_calls := bu_calls w @ [(i, v)]\<rparr>)"

section \<open>News: producer\<close>

definition news_entry :: "string \<Rightarrow> string \<Rightarrow> pyval \<Rightarrow> entry" where
  "news_entry stamp page_content metadata =
     [(''page_content'', Text page_content), (''metadata'', Dumps metadata), (''published_at'', Text stamp)]"

definition publish_news :: "'s streams \<Rightarrow> string \<Rightarrow> string \<Rightarrow> string \<Rightarrow> pyval \<Rightarrow> 's bus \<Rightarrow> string res \<times> 's bus" where
  "publish_news X stamp stream_name page_content metadata =
     on_server (x_add X stream_name (news_entry stamp page_content metadata))"

text \<open>A pipeline sends the commands together; an error of one is raised at the end.\<close>

fun publish_news_batch :: "'s streams \<Rightarrow> string \<Rightarrow> string \<Rightarrow> (string \<times> pyval) list \<Rightarrow> 's bus \<Rightarrow> nat res \<times> 's bus" where
  "publish_news_batch X stamp stream_name [] w = (Inr 0, w)"
| "publish_news_batch X stamp stream_name ((page_content, metadata) # docs) w =
     (let (r, w1) = publish_news X stamp stream_name page_content metadata w;
          (rest, w2) = publish_news_batch X stamp stream_name docs w1
      in (res_bind r (\<lambda>i. res_bind rest (\<lambda>n. Inr (if i = [] then n else n + 1))), w2))"

section \<open>News: consumer\<close>

definition ensure_consumer_group :: "'s streams \<Rightarrow> string \<Rightarrow> string \<Rightarrow> bool \<Rightarrow> 's bus \<Rightarrow> bool res \<times> 's bus" where
  "ensure_consumer_group X stream_name group_name reset_cursor w =
     (case on_server (x_group_create X stream_name group_name) w of
        (Inr False, w1) \<Rightarrow> if reset_cursor
          then (case on_server (x_group_setid X stream_name group_name) w1 of
              (Inl e, w2) \<Rightarrow> (Inl e, w2) | (Inr _, w2) \<Rightarrow> (Inr True, w2))
          else (Inr True, w1)
      | (Inr True, w1) \<Rightarrow> (Inr True, w1)
      | (Inl e, w1) \<Rightarrow> (Inl e, w1))"

text \<open>\<open>msg_data[b"page_content"]\<close> and the decoded metadata; the handler gets both.\<close>

definition decode_text :: "payload \<Rightarrow> pyval" where
  "decode_text p = (case p of Text t \<Rightarrow> PStr t | Dumps v \<Rightarrow> v)"

definition news_of_entry :: "entry \<Rightarrow> pyval res" where
  "news_of_entry d = (case map_of d ''page_content'' of
     None \<Rightarrow> Inl (KeyError ''page_content'')
   | Some p \<Rightarrow> (case map_of d ''metadata'' of
        None \<Rightarrow> Inl (KeyError ''metadata'')
      | Some m \<Rightarrow> res_bind (json_loads m) (\<lambda>v. Inr (PList [decode_text p, v]))))"

definition handle_news :: "handler \<Rightarrow> message \<Rightarrow> 's bus \<Rightarrow> bool res \<times> 's bus" where
  "handle_news h = (\<lambda>(i, d) w. case news_of_entry d of Inl e \<Rightarrow> (Inl e, w) | Inr v \<Rightarrow> call_handler h i v w)"

definition ack :: "'s streams \<Rightarrow> consumer \<Rightarrow> string \<Rightarrow> 's bus \<Rightarrow> unit res \<times> 's bus" where
  "ack X c i = on_server (x_ack X (co_stream c) (co_group c) i)"

text \<open>
  One pending message. The counters are recovered and failed; \<open>Inl\<close> leaves the loop: the
  acknowledgement in the exception handler failed too.
\<close>

definition recover_message :: "'s streams \<Rightarrow> consumer \<Rightarrow> handler \<Rightarrow> message \<Rightarrow> nat \<times> nat \<Rightarrow> 's bus \<Rightarrow> (nat \<times> nat) res \<times> 's bus" where
  "recover_message X c h = (\<lambda>(i, d) (recovered, failed) w.
     let on_error = (\<lambda>w. case ack X c i w of (Inl e, w') \<Rightarrow> (Inl e, w') | (Inr _, w') \<Rightarrow> (Inr (recovered, failed + 1), w'))
     in if d = [] then (case ack X c i w of (Inl e, w1) \<Rightarrow> on_error w1 | (Inr _, w1) \<Rightarrow> (Inr (recovered, failed), w1))
        else (case handle_news h (i, d) w of
          (Inl e, w1) \<Rightarrow> on_error w1
        | (Inr success, w1) \<Rightarrow> (case ack X c i w1 of
             (Inl e, w2) \<Rightarrow> on_error w2
           | (Inr _, w2) \<Rightarrow> (Inr (if success then (recovered + 1, failed) else (recovered, failed + 1)), w2))))"

fun recover_batch :: "'s streams \<Rightarrow> consumer \<Rightarrow> handler \<Rightarrow> message list \<Rightarrow> nat \<times> nat \<Rightarrow> 's bus \<Rightarrow> bool \<times> (nat \<times> nat) \<times> 's bus" where
  "recover_batch X c h [] n w = (True, n, w)"
| "recover_batch X c h (m # ms) n w = (case recover_message X c h m n w of
     (Inl e, w1) \<Rightarrow> (False, n, w1)
   | (Inr n1, w1) \<Rightarrow> recover_batch X c h ms n1 w1)"

text \<open>The loop may run forever on a server that keeps acknowledged messages: not returning is \<open>None\<close>.\<close>

partial_function (option) recover_loop ::
  "'s streams \<Rightarrow> consumer \<Rightarrow> handler \<Rightarrow> nat \<Rightarrow> nat \<times> nat \<Rightarrow> 's bus \<Rightarrow> ((nat \<times> nat) \<times> 's bus) option" where
  "recover_loop X c h batch n w =
     (case on_server (x_read_pending X (co_stream c) (co_group c) (co_name c) batch) w of
        (Inl e, w1) \<Rightarrow> Some (n, w1)
      | (Inr ms, w1) \<Rightarrow>
          if ms = [] then Some (n, w1)
          else (let (ok, n1, w2) = recover_batch X c h ms n w1
                in if ok then recover_loop X c h batch n1 w2 else Some (n1, w2)))"

definition recover_pending_messages ::
  "'s streams \<Rightarrow> consumer \<Rightarrow> handler \<Rightarrow> nat \<Rightarrow> 's bus \<Rightarrow> (nat \<times> 's bus) option" where
  "recover_pending_messages X c h batch w = map_option (\<lambda>(n, w'). (fst n, w')) (recover_loop X c h batch (0, 0) w)"

text \<open>A new message is acknowledged only if the handler succeeds; every exception is logged.\<close>

definition consume_message :: "'s streams \<Rightarrow> consumer \<Rightarrow> handler \<Rightarrow> message \<Rightarrow> nat \<Rightarrow> 's bus \<Rightarrow> nat \<times> 's bus" where
  "consume_message X c h m done_so_far w = (case handle_news h m w of
     (Inr True, w1) \<Rightarrow> (case ack X c (fst m) w1 of (Inr _, w2) \<Rightarrow> (done_so_far + 1, w2) | (Inl _, w2) \<Rightarrow> (done_so_far, w2))
   | (_, w1) \<Rightarrow> (done_so_far, w1))"

fun consume_batch :: "'s streams \<Rightarrow> consumer \<Rightarrow> handler \<Rightarrow> message list \<Rightarrow> nat \<Rightarrow> 's bus \<Rightarrow> nat \<times> 's bus" where
  "consume_batch X c h [] done_so_far w = (done_so_far, w)"
| "consume_batch X c h (m # ms) done_so_far w =
     (let (t, w1) = consume_message X c h m done_so_far w in consume_batch X c h ms t w1)"

partial_function (option) consume_loop ::
  "'s streams \<Rightarrow> consumer \<Rightarrow> handler \<Rightarrow> nat \<Rightarrow> nat option \<Rightarrow> nat \<Rightarrow> nat \<Rightarrow> 's bus \<Rightarrow> (nat \<times> 's bus) option" where
  "consume_loop X c h batch max_iterations iteration done_so_far w =
     (if (case max_iterations of None \<Rightarrow> False | Some n \<Rightarrow> n \<noteq> 0 \<and> n \<le> iteration) then Some (done_so_far, w)
      else (case on_server (x_read_new X (co_stream c) (co_group c) (co_name c) batch) w of
        (Inl e, w1) \<Rightarrow> consume_loop X c h batch max_iterations (iteration + 1) done_so_far w1
      | (Inr ms, w1) \<Rightarrow> (let (t, w2) = consume_batch X c h ms done_so_far w1
           in consume_loop X c h batch max_iterations (iteration + 1) t w2)))"

text \<open>\<open>Inl\<close>: the group could not be ensured; \<open>None\<close>: the call does not return.\<close>

definition consume_messages ::
  "'s streams \<Rightarrow> consumer \<Rightarrow> handler \<Rightarrow> nat \<Rightarrow> nat option \<Rightarrow> 's bus \<Rightarrow> (nat res \<times> 's bus) option" where
  "consume_messages X c h batch max_iterations w =
     (case ensure_consumer_group X (co_stream c) (co_group c) False w of
        (Inl e, w1) \<Rightarrow> Some (Inl e, w1)
      | (Inr _, w1) \<Rightarrow> (case recover_pending_messages X c h batch w1 of
          None \<Rightarrow> None
        | Some (n, w2) \<Rightarrow> map_option (\<lambda>(t, w3). (Inr t, w3)) (consume_loop X c h batch max_iterations 0 n w2)))"

definition get_stream_length :: "'s streams \<Rightarrow> string \<Rightarrow> 's bus \<Rightarrow> nat res \<times> 's bus" where
  "get_stream_length X stream_name = on_server (x_len X stream_name)"

definition get_pending_count :: "'s streams \<Rightarrow> string \<Rightarrow> string \<Rightarrow> 's bus \<Rightarrow> nat \<times> 's bus" where
  "get_pending_count X stream_name group_name w = (case on_server (x_pending_count X stream_name group_name) w of
     (Inl _, w1) \<Rightarrow> (0, w1) | (Inr n, w1) \<Rightarrow> (n, w1))"

definition trim_stream :: "'s streams \<Rightarrow> string \<Rightarrow> nat \<Rightarrow> 's bus \<Rightarrow> int res \<times> 's bus" where
  "trim_stream X stream_name maxlen w = (case on_server (x_len X stream_name) w of
     (Inl e, w1) \<Rightarrow> (Inl e, w1)
   | (Inr before_trim, w1) \<Rightarrow> (case on_server (x_trim X stream_name maxlen) w1 of
       (Inl e, w2) \<Rightarrow> (Inl e, w2)
     | (Inr _, w2) \<Rightarrow> (case on_server (x_len X stream_name) w2 of
         (Inl e, w3) \<Rightarrow> (Inl e, w3) | (Inr after_trim, w3) \<Rightarrow> (Inr (int before_trim - int after_trim), w3))))"

section \<open>Trading signals\<close>

text \<open>The publisher: any failure answers no identifier.\<close>

definition publish :: "'s streams \<Rightarrow> string \<Rightarrow> pyval \<Rightarrow> 's bus \<Rightarrow> string option \<times> 's bus" where
  "publish X stream_name payload w = (case on_server (x_add X stream_name [(''payload'', Dumps payload)]) w of
     (Inl _, w1) \<Rightarrow> (None, w1) | (Inr i, w1) \<Rightarrow> (Some i, w1))"

text \<open>Acknowledge first, then decode, then handle; every exception ends in the log.\<close>

definition process_message :: "'s streams \<Rightarrow> consumer \<Rightarrow> handler \<Rightarrow> message \<Rightarrow> 's bus \<Rightarrow> 's bus" where
  "process_message X c h = (\<lambda>(i, d) w. case ack X c i w of
     (Inl _, w1) \<Rightarrow> w1
   | (Inr _, w1) \<Rightarrow> (case json_loads (dict_get d ''payload'' (Dumps (PDict []))) of
        Inl _ \<Rightarrow> w1
      | Inr v \<Rightarrow> snd (call_handler h i v w1)))"

fun recover_pending_list :: "'s streams \<Rightarrow> consumer \<Rightarrow> handler \<Rightarrow> message list \<Rightarrow> 's bus \<Rightarrow> 's bus" where
  "recover_pending_list X c h [] w = w"
| "recover_pending_list X c h ((i, d) # ms) w =
     (if d \<noteq> [] then recover_pending_list X c h ms (process_message X c h (i, d) w)
      else (case ack X c i w of (Inl _, w1) \<Rightarrow> w1 | (Inr _, w1) \<Rightarrow> recover_pending_list X c h ms w1))"

definition recover_pending :: "'s streams \<Rightarrow> consumer \<Rightarrow> handler \<Rightarrow> 's bus \<Rightarrow> 's bus" where
  "recover_pending X c h w = (case on_server (x_read_pending X (co_stream c) (co_group c) (co_name c) 100) w of
     (Inl _, w1) \<Rightarrow> w1 | (Inr ms, w1) \<Rightarrow> recover_pending_list X c h ms w1)"

record worker =
  wk_connected :: bool
  wk_reconnects :: nat
  wk_delay :: nat

definition handle_reconnect :: "worker \<Rightarrow> worker" where
  "handle_reconnect k = (let n = wk_reconnects k + 1 in k\<lparr>wk_connected := False, wk_reconnects := n, wk_delay := min (5 * n) 60\<rparr>)"

text \<open>One turn of the outer loop up to the inner one, and one turn of the inner loop.\<close>

definition worker_connect :: "'s streams \<Rightarrow> consumer \<Rightarrow> handler \<Rightarrow> worker \<times> 's bus \<Rightarrow> worker \<times> 's bus" where
  "worker_connect X c h = (\<lambda>(k, w). case on_server (x_group_create X (co_stream c) (co_group c)) w of
     (Inl _, w1) \<Rightarrow> (handle_reconnect k, w1)
   | (Inr _, w1) \<Rightarrow> (k\<lparr>wk_connected := True, wk_reconnects := 0, wk_delay := 0\<rparr>, recover_pending X c h w1))"

text \<open>
  The read fails with a lost connection (back to the outer loop at once) or with another
  error (after a delay).
\<close>

definition worker_poll :: "'s streams \<Rightarrow> consumer \<Rightarrow> handler \<Rightarrow> worker \<times> 's bus \<Rightarrow> worker \<times> 's bus" where
  "worker_poll X c h = (\<lambda>(k, w). case on_server (x_read_new X (co_stream c) (co_group c) (co_name c) 1) w of
     (Inl (Redis_Error _), w1) \<Rightarrow> (k\<lparr>wk_connected := False\<rparr>, w1)
   | (Inl _, w1) \<Rightarrow> (handle_reconnect k, w1)
   | (Inr ms, w1) \<Rightarrow> (k, foldl (\<lambda>w m. process_message X c h m w) w1 ms))"

definition worker_step :: "'s streams \<Rightarrow> consumer \<Rightarrow> handler \<Rightarrow> worker \<times> 's bus \<Rightarrow> worker \<times> 's bus" where
  "worker_step X c h kw = (if wk_connected (fst kw) then worker_poll X c h kw else worker_connect X c h kw)"

definition new_worker :: worker where "new_worker = \<lparr>wk_connected = False, wk_reconnects = 0, wk_delay = 0\<rparr>"

section \<open>The server while it can be reached\<close>

lemma obeys_up:
  assumes "obeys V s r effect" "v_up V s"
  obtains a s' where "r = (Inr a, s')" "effect a s'" "v_up V s'"
  using assms by (cases r; cases "fst r") (auto simp: obeys_def)

lemma laws_distinct:
  assumes "stream_laws X c V"
  shows "distinct (map fst (v_pending V s))" "distinct (map fst (v_new V s))"
    "fst ` set (v_pending V s) \<inter> fst ` set (v_new V s) = {}"
    "fst ` set (v_pending V s) \<subseteq> v_ids V s" "fst ` set (v_new V s) \<subseteq> v_ids V s"
proof -
  have "distinct (map fst (v_pending V s @ v_new V s)) \<and> fst ` set (v_pending V s @ v_new V s) \<subseteq> v_ids V s"
    using assms unfolding stream_laws_def by (elim allE [of _ s] conjE) (intro conjI)
  then show "distinct (map fst (v_pending V s))" "distinct (map fst (v_new V s))"
    "fst ` set (v_pending V s) \<inter> fst ` set (v_new V s) = {}"
    "fst ` set (v_pending V s) \<subseteq> v_ids V s" "fst ` set (v_new V s) \<subseteq> v_ids V s"
    by (simp_all add: image_Un)
qed

lemma stream_law:
  assumes "stream_laws X c V"
  shows "obeys V s (x_group_create X (co_stream c) (co_group c) s) (\<lambda>_ s'. unchanged V s s')"
    and "0 < n \<Longrightarrow> obeys V s (x_read_pending X (co_stream c) (co_group c) (co_name c) n s)
       (\<lambda>ms s'. ms = take n (v_pending V s) \<and> unchanged V s s')"
    and "0 < n \<Longrightarrow> obeys V s (x_read_new X (co_stream c) (co_group c) (co_name c) n s)
       (\<lambda>ms s'. ms = take n (v_new V s) \<and> v_new V s' = drop n (v_new V s) \<and> v_pending V s' = v_pending V s @ ms
           \<and> v_ids V s' = v_ids V s)"
    and "obeys V s (x_ack X (co_stream c) (co_group c) i s)
       (\<lambda>_ s'. v_new V s' = v_new V s \<and> v_pending V s' = filter (\<lambda>m. fst m \<noteq> i) (v_pending V s) \<and> v_ids V s' = v_ids V s)"
    and "obeys V s (x_add X (co_stream c) d s)
       (\<lambda>i s'. i \<notin> v_ids V s \<and> v_new V s' = v_new V s @ [(i, d)] \<and> v_pending V s' = v_pending V s
           \<and> v_ids V s' = insert i (v_ids V s))"
  using assms unfolding stream_laws_def by blast+

lemma group_create_up:
  assumes "stream_laws X c V" "v_up V (bu_server w)"
  obtains b s' where "on_server (x_group_create X (co_stream c) (co_group c)) w = (Inr b, w\<lparr>bu_server := s'\<rparr>)"
    "unchanged V (bu_server w) s'" "v_up V s'"
proof -
  from obeys_up [OF stream_law(1) [OF assms(1)] assms(2)] show thesis
  proof cases
    case (1 a s')
    then show thesis by (intro that [of a s']) (simp_all add: on_server_def)
  qed
qed

lemma read_pending_up:
  assumes "stream_laws X c V" "v_up V (bu_server w)" "0 < n"
  obtains s' where "on_server (x_read_pending X (co_stream c) (co_group c) (co_name c) n) w
      = (Inr (take n (v_pending V (bu_server w))), w\<lparr>bu_server := s'\<rparr>)" "unchanged V (bu_server w) s'" "v_up V s'"
proof -
  from obeys_up [OF stream_law(2) [OF assms(1) assms(3)] assms(2)] show thesis
  proof cases
    case (1 a s')
    then show thesis by (intro that [of s']) (simp_all add: on_server_def)
  qed
qed

lemma read_new_up:
  assumes "stream_laws X c V" "v_up V (bu_server w)" "0 < n"
  obtains s' where "on_server (x_read_new X (co_stream c) (co_group c) (co_name c) n) w
      = (Inr (take n (v_new V (bu_server w))), w\<lparr>bu_server := s'\<rparr>)" "v_up V s'"
    "v_new V s' = drop n (v_new V (bu_server w))" "v_pending V s' = v_pending V (bu_server w) @ take n (v_new V (bu_server w))"
proof -
  from obeys_up [OF stream_law(3) [OF assms(1) assms(3)] assms(2)] show thesis
  proof cases
    case (1 a s')
    then show thesis by (intro that [of s']) (simp_all add: on_server_def)
  qed
qed

lemma ack_up:
  assumes "stream_laws X c V" "v_up V (bu_server w)"
  obtains s' where "ack X c i w = (Inr (), w\<lparr>bu_server := s'\<rparr>)" "v_up V s'" "v_new V s' = v_new V (bu_server w)"
    "v_pending V s' = filter (\<lambda>m. fst m \<noteq> i) (v_pending V (bu_server w))"
proof -
  from obeys_up [OF stream_law(4) [OF assms(1), of _ i] assms(2)] show thesis
  proof cases
    case (1 a s')
    then show thesis by (intro that [of s']) (simp_all add: on_server_def ack_def)
  qed
qed

section \<open>Recovery ends\<close>

text \<open>The calls a list of news messages causes.\<close>

definition decoded :: "message list \<Rightarrow> (string \<times> pyval) list" where
  "decoded ms = concat (map (\<lambda>(i, d). case news_of_entry d of Inl _ \<Rightarrow> [] | Inr v \<Rightarrow> [(i, v)]) ms)"

lemma decoded_simps [simp]:
  "decoded [] = []" "decoded (ms @ ms') = decoded ms @ decoded ms'"
  by (simp_all add: decoded_def)

lemma decoded_Cons: "decoded (m # ms) = decoded [m] @ decoded ms"
  by (simp add: decoded_def)

lemma handle_news_calls:
  "bu_server (snd (handle_news h m w)) = bu_server w" "bu_calls (snd (handle_news h m w)) = bu_calls w @ decoded [m]"
  by (cases m; simp add: handle_news_def call_handler_def decoded_def split: sum.split)+

lemma news_of_empty [simp]: "decoded [(i, [])] = []"
  by (simp add: decoded_def news_of_entry_def)

lemma recover_message_up:
  assumes "stream_laws X c V" "v_up V (bu_server w)"
  obtains n' w' where "recover_message X c h m n w = (Inr n', w')" "v_up V (bu_server w')"
    "v_new V (bu_server w') = v_new V (bu_server w)"
    "v_pending V (bu_server w') = filter (\<lambda>x. fst x \<noteq> fst m) (v_pending V (bu_server w))"
    "bu_calls w' = bu_calls w @ decoded [m]" "fst n' \<le> fst n + length (decoded [m])"
proof -
  obtain i d where m: "m = (i, d)" by (cases m)
  obtain r f where n: "n = (r, f)" by (cases n)
  obtain s0 where s0: "ack X c i w = (Inr (), w\<lparr>bu_server := s0\<rparr>)" "v_up V s0" "v_new V s0 = v_new V (bu_server w)"
    "v_pending V s0 = filter (\<lambda>m. fst m \<noteq> i) (v_pending V (bu_server w))" by (rule ack_up [OF assms])
  obtain r1 w1 where hn: "handle_news h (i, d) w = (r1, w1)" by fastforce
  have w1: "bu_server w1 = bu_server w" "bu_calls w1 = bu_calls w @ decoded [(i, d)]"
    using handle_news_calls [of h "(i, d)" w] by (simp_all add: hn)
  have up1: "v_up V (bu_server w1)" using assms(2) by (simp add: w1)
  obtain s1 where s1: "ack X c i w1 = (Inr (), w1\<lparr>bu_server := s1\<rparr>)" "v_up V s1" "v_new V s1 = v_new V (bu_server w1)"
    "v_pending V s1 = filter (\<lambda>m. fst m \<noteq> i) (v_pending V (bu_server w1))" by (rule ack_up [OF assms(1) up1])
  show thesis
  proof (cases "d = []")
    case True
    with s0 show thesis
      by (intro that [of "(r, f)" "w\<lparr>bu_server := s0\<rparr>"]) (simp_all add: recover_message_def m n)
  next
    case False
    show thesis
    proof (cases r1)
      case (Inl e)
      with s1 False hn w1 show thesis
        by (intro that [of "(r, f + 1)" "w1\<lparr>bu_server := s1\<rparr>"]) (simp_all add: recover_message_def m n)
    next
      case (Inr b)
      then have "length (decoded [(i, d)]) = 1" using hn by (auto simp: handle_news_def decoded_def split: sum.splits)
      with s1 False hn w1 Inr show thesis
        by (intro that [of "if b then (r + 1, f) else (r, f + 1)" "w1\<lparr>bu_server := s1\<rparr>"])
          (simp_all add: recover_message_def m n)
    qed
  qed
qed

lemma recover_batch_up:
  assumes "stream_laws X c V" "v_up V (bu_server w)"
  shows "\<exists>n' w'. recover_batch X c h ms n w = (True, n', w') \<and> v_up V (bu_server w')
    \<and> v_new V (bu_server w') = v_new V (bu_server w)
    \<and> v_pending V (bu_server w') = filter (\<lambda>x. fst x \<notin> fst ` set ms) (v_pending V (bu_server w))
    \<and> bu_calls w' = bu_calls w @ decoded ms \<and> fst n' \<le> fst n + length (decoded ms)"
  using assms(2)
proof (induction ms arbitrary: n w)
  case (Cons m ms)
  obtain n1 w1 where 1: "recover_message X c h m n w = (Inr n1, w1)" "v_up V (bu_server w1)"
    "v_new V (bu_server w1) = v_new V (bu_server w)"
    "v_pending V (bu_server w1) = filter (\<lambda>x. fst x \<noteq> fst m) (v_pending V (bu_server w))"
    "bu_calls w1 = bu_calls w @ decoded [m]" "fst n1 \<le> fst n + length (decoded [m])"
    by (rule recover_message_up [OF assms(1) Cons.prems])
  from Cons.IH [OF 1(2), of n1] obtain n2 w2 where 2: "recover_batch X c h ms n1 w1 = (True, n2, w2)" "v_up V (bu_server w2)"
    "v_new V (bu_server w2) = v_new V (bu_server w1)"
    "v_pending V (bu_server w2) = filter (\<lambda>x. fst x \<notin> fst ` set ms) (v_pending V (bu_server w1))"
    "bu_calls w2 = bu_calls w1 @ decoded ms" "fst n2 \<le> fst n1 + length (decoded ms)" by blast
  have "v_pending V (bu_server w2) = filter (\<lambda>x. fst x \<notin> fst ` set (m # ms)) (v_pending V (bu_server w))"
    by (simp add: 1(4) 2(4) conj_commute)
  with 1 2 show ?case by (simp add: decoded_Cons [of m ms])
qed (simp add: filter_id_conv)

lemma filter_not_taken:
  assumes "distinct (map fst xs)"
  shows "filter (\<lambda>x. fst x \<notin> fst ` set (take n xs)) xs = drop n xs"
proof -
  have "distinct (map fst (take n xs @ drop n xs))" using assms by simp
  then have disj: "fst ` set (take n xs) \<inter> fst ` set (drop n xs) = {}"
    unfolding map_append distinct_append by simp
  have "filter (\<lambda>x. fst x \<notin> fst ` set (take n xs)) (take n xs @ drop n xs) = drop n xs"
    using disj by (simp only: filter_append) (auto simp: filter_id_conv filter_empty_conv)
  then show ?thesis by simp
qed

lemma recover_loop_up:
  assumes "stream_laws X c V" "v_up V (bu_server w)" "0 < batch"
  shows "\<exists>n' w'. recover_loop X c h batch n w = Some (n', w') \<and> v_up V (bu_server w')
    \<and> v_pending V (bu_server w') = [] \<and> v_new V (bu_server w') = v_new V (bu_server w)
    \<and> bu_calls w' = bu_calls w @ decoded (v_pending V (bu_server w)) \<and> fst n' \<le> fst n + length (decoded (v_pending V (bu_server w)))"
  using assms(2)
proof (induction "length (v_pending V (bu_server w))" arbitrary: n w rule: less_induct)
  case less
  let ?ms = "take batch (v_pending V (bu_server w))"
  obtain s1 where 1: "on_server (x_read_pending X (co_stream c) (co_group c) (co_name c) batch) w = (Inr ?ms, w\<lparr>bu_server := s1\<rparr>)"
    "unchanged V (bu_server w) s1" "v_up V s1"
    by (rule read_pending_up [OF assms(1) less.prems assms(3)])
  show ?case
  proof (cases "v_pending V (bu_server w) = []")
    case True
    with 1 show ?thesis by (subst recover_loop.simps) (simp add: unchanged_def)
  next
    case False
    with assms(3) have ne: "?ms \<noteq> []" by simp
    obtain n2 w2 where 2: "recover_batch X c h ?ms n (w\<lparr>bu_server := s1\<rparr>) = (True, n2, w2)" "v_up V (bu_server w2)"
      "v_new V (bu_server w2) = v_new V s1"
      "v_pending V (bu_server w2) = filter (\<lambda>x. fst x \<notin> fst ` set ?ms) (v_pending V s1)"
      "bu_calls w2 = bu_calls w @ decoded ?ms" "fst n2 \<le> fst n + length (decoded ?ms)"
      using recover_batch_up [OF assms(1), of "w\<lparr>bu_server := s1\<rparr>" h ?ms n] 1(3) by auto
    have rest: "v_pending V (bu_server w2) = drop batch (v_pending V (bu_server w))"
      using 1(2) filter_not_taken [OF laws_distinct(1) [OF assms(1)]] by (simp add: 2(4) unchanged_def)
    have "length (v_pending V (bu_server w2)) < length (v_pending V (bu_server w))" using False assms(3) by (simp add: rest)
    from less.hyps [OF this 2(2), of n2] obtain n3 w3 where 3: "recover_loop X c h batch n2 w2 = Some (n3, w3)"
      "v_up V (bu_server w3)" "v_pending V (bu_server w3) = []" "v_new V (bu_server w3) = v_new V (bu_server w2)"
      "bu_calls w3 = bu_calls w2 @ decoded (v_pending V (bu_server w2))"
      "fst n3 \<le> fst n2 + length (decoded (v_pending V (bu_server w2)))" by blast
    have "decoded (v_pending V (bu_server w)) = decoded ?ms @ decoded (drop batch (v_pending V (bu_server w)))"
      by (simp flip: decoded_simps(2))
    with 1 2 3 ne rest show ?thesis by (subst recover_loop.simps) (simp add: unchanged_def)
  qed
qed

text \<open>
  Claim C19. While the server can be reached, the recovery of the news consumer ends: every
  unacknowledged message is handed to the handler once, in order, and none is pending after,
  whatever the handler answers or raises.
\<close>

theorem recovery_terminates:
  assumes "stream_laws X c V" and "v_up V (bu_server w)" and "0 < batch"
  shows "\<exists>n w'. recover_pending_messages X c h batch w = Some (n, w') \<and> v_pending V (bu_server w') = []
    \<and> v_new V (bu_server w') = v_new V (bu_server w)
    \<and> bu_calls w' = bu_calls w @ decoded (v_pending V (bu_server w))
    \<and> n \<le> length (decoded (v_pending V (bu_server w)))"
  using recover_loop_up [OF assms, of h "(0, 0)"] by (auto simp: recover_pending_messages_def)

section \<open>The consumer\<close>

text \<open>The messages a consumer leaves pending: those not decoded or not handled with success.\<close>

fun unsettled :: "handler \<Rightarrow> nat \<Rightarrow> message list \<Rightarrow> message list" where
  "unsettled h n [] = []"
| "unsettled h n (m # ms) = (case news_of_entry (snd m) of
     Inl _ \<Rightarrow> m # unsettled h n ms
   | Inr v \<Rightarrow> (if h n v = Inr True then [] else [m]) @ unsettled h (n + 1) ms)"

lemma unsettled_append: "unsettled h n (ms @ ms') = unsettled h n ms @ unsettled h (n + length (decoded ms)) ms'"
  by (induction ms arbitrary: n) (auto simp: decoded_Cons [of _ "_ # _"] decoded_def split: sum.split prod.split)

lemma unsettled_subset: "set (unsettled h n ms) \<subseteq> set ms"
  by (induction ms arbitrary: n) (auto split: sum.splits)

lemma filter_one_out:
  assumes "distinct (map fst (P @ m # ms))"
  shows "filter (\<lambda>x. fst x \<noteq> fst m) (P @ m # ms) = P @ ms"
proof -
  have "\<forall>x\<in>set P. fst x \<noteq> fst m" "\<forall>x\<in>set ms. fst x \<noteq> fst m" using assms by (auto simp: image_iff)
  then show ?thesis by (simp add: filter_id_conv)
qed

lemma consume_message_up:
  assumes "stream_laws X c V" "v_up V (bu_server w)" "v_pending V (bu_server w) = P @ m # ms"
  obtains t w' where "consume_message X c h m n w = (t, w')" "v_up V (bu_server w')"
    "v_new V (bu_server w') = v_new V (bu_server w)"
    "v_pending V (bu_server w') = P @ unsettled h (length (bu_calls w)) [m] @ ms"
    "bu_calls w' = bu_calls w @ decoded [m]"
proof -
  obtain i d where m: "m = (i, d)" by (cases m)
  have out: "filter (\<lambda>x. fst x \<noteq> i) (P @ (i, d) # ms) = P @ ms"
    using filter_one_out [of P m ms] laws_distinct(1) [OF assms(1), of "bu_server w"] by (simp add: assms(3) m)
  show thesis
  proof (cases "news_of_entry d")
    case (Inl e)
    then show thesis using assms(2,3)
      by (intro that [of n w]) (simp_all add: consume_message_def handle_news_def decoded_def m)
  next
    case (Inr v)
    let ?w1 = "w\<lparr>bu_calls := bu_calls w @ [(i, v)]\<rparr>"
    have call: "handle_news h (i, d) w = (h (length (bu_calls w)) v, ?w1)"
      using Inr by (simp add: handle_news_def call_handler_def)
    obtain s1 where s1: "ack X c i ?w1 = (Inr (), ?w1\<lparr>bu_server := s1\<rparr>)" "v_up V s1" "v_new V s1 = v_new V (bu_server ?w1)"
      "v_pending V s1 = filter (\<lambda>m. fst m \<noteq> i) (v_pending V (bu_server ?w1))"
      by (rule ack_up [OF assms(1), of ?w1 i]) (use assms(2) in simp_all)
    show thesis
    proof (cases "h (length (bu_calls w)) v = Inr True")
      case True
      with call s1 Inr out assms(3) show thesis
        by (intro that [of "n + 1" "?w1\<lparr>bu_server := s1\<rparr>"]) (simp_all add: consume_message_def decoded_def m)
    next
      case False
      with call Inr assms(2,3) show thesis
        by (intro that [of n ?w1]) (auto simp: consume_message_def decoded_def m split: sum.split bool.split)
    qed
  qed
qed

lemma consume_batch_up:
  assumes "stream_laws X c V" "v_up V (bu_server w)" "v_pending V (bu_server w) = P @ ms"
  shows "\<exists>t w'. consume_batch X c h ms n w = (t, w') \<and> v_up V (bu_server w') \<and> v_new V (bu_server w') = v_new V (bu_server w)
    \<and> v_pending V (bu_server w') = P @ unsettled h (length (bu_calls w)) ms \<and> bu_calls w' = bu_calls w @ decoded ms"
  using assms(2,3)
proof (induction ms arbitrary: P n w)
  case (Cons m ms)
  obtain t w1 where 1: "consume_message X c h m n w = (t, w1)" "v_up V (bu_server w1)" "v_new V (bu_server w1) = v_new V (bu_server w)"
    "v_pending V (bu_server w1) = P @ unsettled h (length (bu_calls w)) [m] @ ms" "bu_calls w1 = bu_calls w @ decoded [m]"
    by (rule consume_message_up [OF assms(1) Cons.prems])
  have "v_pending V (bu_server w1) = (P @ unsettled h (length (bu_calls w)) [m]) @ ms" by (simp add: 1(4))
  from Cons.IH [OF 1(2) this, of t] obtain t2 w2 where 2: "consume_batch X c h ms t w1 = (t2, w2)" "v_up V (bu_server w2)"
    "v_new V (bu_server w2) = v_new V (bu_server w1)"
    "v_pending V (bu_server w2) = (P @ unsettled h (length (bu_calls w)) [m]) @ unsettled h (length (bu_calls w1)) ms"
    "bu_calls w2 = bu_calls w1 @ decoded ms" by blast
  have "unsettled h (length (bu_calls w)) (m # ms)
      = unsettled h (length (bu_calls w)) [m] @ unsettled h (length (bu_calls w) + length (decoded [m])) ms"
    using unsettled_append [of h _ "[m]" ms] by simp
  with 1 2 show ?case by (simp add: decoded_Cons [of m ms])
qed simp

lemma consume_loop_up:
  assumes "stream_laws X c V" "v_up V (bu_server w)" "0 < batch" "0 < k"
  shows "\<exists>t w'. consume_loop X c h batch (Some k) it n w = Some (t, w') \<and> v_up V (bu_server w')
    \<and> v_new V (bu_server w') = drop ((k - it) * batch) (v_new V (bu_server w))
    \<and> v_pending V (bu_server w') = v_pending V (bu_server w)
        @ unsettled h (length (bu_calls w)) (take ((k - it) * batch) (v_new V (bu_server w)))
    \<and> bu_calls w' = bu_calls w @ decoded (take ((k - it) * batch) (v_new V (bu_server w)))"
  using assms(2)
proof (induction "k - it" arbitrary: it n w)
  case 0
  with assms(4) show ?case by (subst consume_loop.simps) simp
next
  case (Suc j)
  let ?ms = "take batch (v_new V (bu_server w))"
  obtain s1 where 1: "on_server (x_read_new X (co_stream c) (co_group c) (co_name c) batch) w = (Inr ?ms, w\<lparr>bu_server := s1\<rparr>)"
    "v_up V s1" "v_new V s1 = drop batch (v_new V (bu_server w))" "v_pending V s1 = v_pending V (bu_server w) @ ?ms"
    by (rule read_new_up [OF assms(1) Suc.prems assms(3)])
  from consume_batch_up [OF assms(1), of "w\<lparr>bu_server := s1\<rparr>" "v_pending V (bu_server w)" ?ms h n] 1 obtain t2 w2 where
    2: "consume_batch X c h ?ms n (w\<lparr>bu_server := s1\<rparr>) = (t2, w2)" "v_up V (bu_server w2)"
      "v_new V (bu_server w2) = drop batch (v_new V (bu_server w))"
      "v_pending V (bu_server w2) = v_pending V (bu_server w) @ unsettled h (length (bu_calls w)) ?ms"
      "bu_calls w2 = bu_calls w @ decoded ?ms" by auto
  have j: "j = k - (it + 1)" using Suc.hyps(2) by simp
  from Suc.hyps(1) [OF j 2(2), of t2] obtain t3 w3 where 3: "consume_loop X c h batch (Some k) (it + 1) t2 w2 = Some (t3, w3)"
    "v_up V (bu_server w3)" "v_new V (bu_server w3) = drop ((k - (it + 1)) * batch) (v_new V (bu_server w2))"
    "v_pending V (bu_server w3) = v_pending V (bu_server w2)
        @ unsettled h (length (bu_calls w2)) (take ((k - (it + 1)) * batch) (v_new V (bu_server w2)))"
    "bu_calls w3 = bu_calls w2 @ decoded (take ((k - (it + 1)) * batch) (v_new V (bu_server w2)))" by blast
  let ?rest = "take ((k - (it + 1)) * batch) (drop batch (v_new V (bu_server w)))"
  have le: "\<not> (k \<noteq> 0 \<and> k \<le> it)" using Suc.hyps(2) by linarith
  have n: "(k - it) * batch = batch + (k - (it + 1)) * batch" using Suc.hyps(2) j by (metis mult_Suc)
  have tk: "take ((k - it) * batch) (v_new V (bu_server w)) = ?ms @ ?rest" by (simp only: n take_add)
  have dr: "drop ((k - it) * batch) (v_new V (bu_server w)) = drop ((k - (it + 1)) * batch) (drop batch (v_new V (bu_server w)))"
    by (simp add: n add.commute)
  have run: "consume_loop X c h batch (Some k) it n w = Some (t3, w3)"
    using 1(1) 2(1) 3(1) le by (subst consume_loop.simps) auto
  show ?case
    using run 3(2) by (simp add: 3(3-5) 2(3-5) tk dr unsettled_append del: drop_drop)
qed

lemma ensure_group_up:
  assumes "stream_laws X c V" "v_up V (bu_server w)"
  obtains s' where "ensure_consumer_group X (co_stream c) (co_group c) False w = (Inr True, w\<lparr>bu_server := s'\<rparr>)"
    "unchanged V (bu_server w) s'" "v_up V s'"
proof -
  obtain b s' where "on_server (x_group_create X (co_stream c) (co_group c)) w = (Inr b, w\<lparr>bu_server := s'\<rparr>)"
    "unchanged V (bu_server w) s'" "v_up V s'" by (rule group_create_up [OF assms])
  then show thesis by (intro that [of s']) (simp_all add: ensure_consumer_group_def split: bool.split)
qed

lemma consume_loop_unbounded:
  assumes "m = None \<or> m = Some 0"
  shows "consume_loop X c h batch m it n w = None"
proof (rule ccontr)
  assume "consume_loop X c h batch m it n w \<noteq> None"
  then obtain r where "consume_loop X c h batch m it n w = Some r" by blast
  then have "m \<noteq> None \<and> m \<noteq> Some 0"
    by (rule consume_loop.raw_induct [rotated, where P = "\<lambda>X c h batch m it n w r. m \<noteq> None \<and> m \<noteq> Some 0"])
      (auto split: if_splits sum.splits prod.splits option.splits)
  with assms show False by simp
qed

lemma consume_messages_bounded:
  assumes "stream_laws X c V" "v_up V (bu_server w)" "0 < batch" "0 < k"
  shows "\<exists>t w'. consume_messages X c h batch (Some k) w = Some (Inr t, w')
    \<and> v_new V (bu_server w') = drop (k * batch) (v_new V (bu_server w))
    \<and> v_pending V (bu_server w') = unsettled h (length (bu_calls w) + length (decoded (v_pending V (bu_server w))))
        (take (k * batch) (v_new V (bu_server w)))
    \<and> bu_calls w' = bu_calls w @ decoded (v_pending V (bu_server w)) @ decoded (take (k * batch) (v_new V (bu_server w)))"
proof -
  obtain s1 where 1: "ensure_consumer_group X (co_stream c) (co_group c) False w = (Inr True, w\<lparr>bu_server := s1\<rparr>)"
    "unchanged V (bu_server w) s1" "v_up V s1" by (rule ensure_group_up [OF assms(1,2)])
  have up: "v_up V (bu_server (w\<lparr>bu_server := s1\<rparr>))" using 1(3) by simp
  from recover_loop_up [OF assms(1) up assms(3), of h "(0, 0)"] obtain n w2 where
    2: "recover_loop X c h batch (0, 0) (w\<lparr>bu_server := s1\<rparr>) = Some (n, w2)" "v_up V (bu_server w2)"
      "v_pending V (bu_server w2) = []" "v_new V (bu_server w2) = v_new V s1"
      "bu_calls w2 = bu_calls w @ decoded (v_pending V s1)" by auto
  from consume_loop_up [OF assms(1) 2(2) assms(3,4), of h 0 "fst n"] obtain t w3 where
    3: "consume_loop X c h batch (Some k) 0 (fst n) w2 = Some (t, w3)"
      "v_new V (bu_server w3) = drop (k * batch) (v_new V (bu_server w2))"
      "v_pending V (bu_server w3) = unsettled h (length (bu_calls w2)) (take (k * batch) (v_new V (bu_server w2)))"
      "bu_calls w3 = bu_calls w2 @ decoded (take (k * batch) (v_new V (bu_server w2)))" using 2(3) by auto
  have run: "consume_messages X c h batch (Some k) w = Some (Inr t, w3)"
    by (simp add: consume_messages_def 1(1) recover_pending_messages_def 2(1) 3(1) split_beta)
  then show ?thesis using 1(2) by (simp add: 3(2-4) 2(4,5) unchanged_def)
qed

lemma consume_messages_unbounded:
  assumes "stream_laws X c V" "v_up V (bu_server w)" "m = None \<or> m = Some 0"
  shows "consume_messages X c h batch m w = None"
proof -
  obtain s1 where 1: "ensure_consumer_group X (co_stream c) (co_group c) False w = (Inr True, w\<lparr>bu_server := s1\<rparr>)"
    by (rule ensure_group_up [OF assms(1,2)])
  show ?thesis
    by (simp add: consume_messages_def 1 consume_loop_unbounded [OF assms(3)] split: option.split)
qed

text \<open>
  While the server can be reached, the news consumer returns exactly when it is given
  a positive number of iterations: a bound of 0 is no bound, it runs forever like \<open>None\<close>.
\<close>

theorem consumer_returns_iff_bounded:
  assumes "stream_laws X c V" and "v_up V (bu_server w)" and "0 < batch"
  shows "(\<exists>r. consume_messages X c h batch max_iterations w = Some r) \<longleftrightarrow> (\<exists>k>0. max_iterations = Some k)"
proof
  assume "\<exists>r. consume_messages X c h batch max_iterations w = Some r"
  then have "\<not> (max_iterations = None \<or> max_iterations = Some 0)"
    using consume_messages_unbounded [OF assms(1,2), of max_iterations h batch] by (metis option.distinct(1))
  then show "\<exists>k>0. max_iterations = Some k" by (metis gr_zeroI not_None_eq)
next
  assume "\<exists>k>0. max_iterations = Some k"
  then obtain k where "0 < k" "max_iterations = Some k" by blast
  with consume_messages_bounded [OF assms, of k h]
  show "\<exists>r. consume_messages X c h batch max_iterations w = Some r" by blast
qed

text \<open>
  Claim C20. What a bounded run of the news consumer does, against \<open>unsettled\<close>: the pending
  messages and the next \<open>k * batch\<close> new ones each reach the handler once and in order; a new
  message stays pending exactly when it cannot be decoded or the handler does not answer
  \<open>True\<close>, and it is not handed over again in this run. Those recovered are settled even if the
  handler refuses them.
\<close>

theorem consumer_leaves_unsettled:
  assumes "stream_laws X c V" and "v_up V (bu_server w)" and "0 < batch" and "0 < k"
  shows "\<exists>t w'. consume_messages X c h batch (Some k) w = Some (Inr t, w')
    \<and> v_new V (bu_server w') = drop (k * batch) (v_new V (bu_server w))
    \<and> v_pending V (bu_server w') = unsettled h (length (bu_calls w) + length (decoded (v_pending V (bu_server w))))
        (take (k * batch) (v_new V (bu_server w)))
    \<and> bu_calls w' = bu_calls w @ decoded (v_pending V (bu_server w)) @ decoded (take (k * batch) (v_new V (bu_server w)))"
  using consume_messages_bounded [OF assms] .

section \<open>The worker of the trading signals\<close>

text \<open>The identifiers of a list.\<close>

definition names :: "(string \<times> 'a) list \<Rightarrow> string set" where
  "names ms = fst ` set ms"

lemma names_Cons: "names (m # ms) = insert (fst m) (names ms)"
  by (simp add: names_def)

text \<open>What every command of this consumer, and whatever else happens on the server, keeps.\<close>

definition drains :: "'s stream_view \<Rightarrow> 's \<Rightarrow> 's \<Rightarrow> bool" where
  "drains V s s' \<longleftrightarrow> v_ids V s' = v_ids V s \<and> names (v_new V s') \<subseteq> names (v_new V s)
     \<and> names (v_pending V s') \<subseteq> names (v_pending V s) \<union> names (v_new V s)"

lemma drains_trans: "drains V s s' \<Longrightarrow> drains V s' s'' \<Longrightarrow> drains V s s''"
  unfolding drains_def by blast

lemma unchanged_drains: "unchanged V s s' \<Longrightarrow> drains V s s'"
  by (simp add: unchanged_def drains_def)

lemma obeys_drains:
  assumes "obeys V s r effect" "\<And>a s'. effect a s' \<Longrightarrow> drains V s s'"
  shows "drains V s (snd r)"
proof -
  obtain x s' where r: "r = (x, s')" by fastforce
  show ?thesis using assms(1) unfolding r by (cases x) (auto simp: obeys_def intro: assms(2) unchanged_drains)
qed

lemma drain_commands:
  assumes "stream_laws X c V"
  shows "drains V s (snd (x_group_create X (co_stream c) (co_group c) s))"
    "0 < n \<Longrightarrow> drains V s (snd (x_read_pending X (co_stream c) (co_group c) (co_name c) n s))"
    "0 < n \<Longrightarrow> drains V s (snd (x_read_new X (co_stream c) (co_group c) (co_name c) n s))"
    "drains V s (snd (x_ack X (co_stream c) (co_group c) i s))"
proof -
  note laws = stream_law [OF assms]
  show "drains V s (snd (x_group_create X (co_stream c) (co_group c) s))"
    by (rule obeys_drains [OF laws(1) unchanged_drains])
  show "0 < n \<Longrightarrow> drains V s (snd (x_read_pending X (co_stream c) (co_group c) (co_name c) n s))"
    by (rule obeys_drains [OF laws(2)]) (auto intro: unchanged_drains)
  show "0 < n \<Longrightarrow> drains V s (snd (x_read_new X (co_stream c) (co_group c) (co_name c) n s))"
    by (rule obeys_drains [OF laws(3)]) (auto simp: drains_def names_def dest: in_set_takeD in_set_dropD)
  show "drains V s (snd (x_ack X (co_stream c) (co_group c) i s))"
    by (rule obeys_drains [OF laws(4)]) (auto simp: drains_def names_def)
qed

text \<open>No message is handled twice, and none handled can be delivered again.\<close>

definition once :: "'s stream_view \<Rightarrow> 's bus \<Rightarrow> bool" where
  "once V w \<longleftrightarrow> distinct (map fst (bu_calls w)) \<and> names (bu_calls w) \<subseteq> v_ids V (bu_server w)
     \<and> names (bu_calls w) \<inter> (names (v_pending V (bu_server w)) \<union> names (v_new V (bu_server w))) = {}"

lemma once_drains: "once V w \<Longrightarrow> drains V (bu_server w) s' \<Longrightarrow> once V (w\<lparr>bu_server := s'\<rparr>)"
  unfolding once_def drains_def by (simp add: Int_Un_distrib) blast

lemma snd_on_server: "snd (on_server f w) = w\<lparr>bu_server := snd (f (bu_server w))\<rparr>"
  by (simp add: on_server_def split_beta)

text \<open>
  A list of delivered messages that may still be processed: distinct identifiers, none handled
  and none among the new messages.
\<close>

definition delivered :: "'s stream_view \<Rightarrow> message list \<Rightarrow> 's bus \<Rightarrow> bool" where
  "delivered V ms w \<longleftrightarrow> distinct (map fst ms) \<and> names ms \<subseteq> v_ids V (bu_server w)
     \<and> names ms \<inter> names (bu_calls w) = {} \<and> names ms \<inter> names (v_new V (bu_server w)) = {}"

lemma delivered_drains: "delivered V (m # ms) w \<Longrightarrow> drains V (bu_server w) s' \<Longrightarrow> delivered V ms (w\<lparr>bu_server := s'\<rparr>)"
  unfolding delivered_def drains_def by (simp add: names_Cons) blast

lemma ack_once:
  assumes "stream_laws X c V" "once V w" "delivered V ((i, d) # ms) w"
  shows "once V (snd (ack X c i w))" "delivered V ms (snd (ack X c i w))"
  using once_drains [OF assms(2) drain_commands(4) [OF assms(1)]] delivered_drains [OF assms(3) drain_commands(4) [OF assms(1)]]
  by (simp_all add: ack_def snd_on_server)

lemma process_message_once:
  assumes "stream_laws X c V" "once V w" "delivered V ((i, d) # ms) w"
  shows "once V (process_message X c h (i, d) w) \<and> delivered V ms (process_message X c h (i, d) w)"
proof -
  obtain a w1 where a: "ack X c i w = (a, w1)" by fastforce
  have w1: "once V w1" "delivered V ms w1" using ack_once [OF assms] by (simp_all add: a)
  show ?thesis
  proof (cases a)
    case (Inl e)
    with w1 show ?thesis by (simp add: process_message_def a)
  next
    case (Inr u)
    obtain s1 where s1: "x_ack X (co_stream c) (co_group c) i (bu_server w) = (Inr u, s1)" "w1 = w\<lparr>bu_server := s1\<rparr>"
      using a Inr by (auto simp: ack_def on_server_def split: prod.splits)
    have eff: "v_new V s1 = v_new V (bu_server w)" "v_pending V s1 = filter (\<lambda>m. fst m \<noteq> i) (v_pending V (bu_server w))"
      "v_ids V s1 = v_ids V (bu_server w)" using stream_law(4) [OF assms(1), of "bu_server w" i] by (simp_all add: s1(1) obeys_def)
    have "i \<notin> names (bu_calls w)" "i \<in> v_ids V (bu_server w)" "i \<notin> names (v_new V (bu_server w))" "i \<notin> names ms"
      using assms(3) by (auto simp: delivered_def names_def)
    then have called: "once V (snd (call_handler h i v w1))" "delivered V ms (snd (call_handler h i v w1))" for v
      using w1 by (auto simp: once_def delivered_def call_handler_def s1(2) eff names_def)
    with w1 show ?thesis by (simp add: process_message_def a Inr split: sum.split)
  qed
qed

lemma process_all_once:
  assumes "stream_laws X c V" "once V w" "delivered V ms w"
  shows "once V (foldl (\<lambda>w m. process_message X c h m w) w ms)"
  using assms(2,3)
proof (induction ms arbitrary: w)
  case (Cons m ms)
  then show ?case using process_message_once [OF assms(1) Cons.prems(1), of "fst m" "snd m" ms h] by simp
qed simp

lemma recover_list_once:
  assumes "stream_laws X c V" "once V w" "delivered V ms w"
  shows "once V (recover_pending_list X c h ms w)"
  using assms(2,3)
proof (induction ms arbitrary: w)
  case (Cons m ms)
  obtain i d where m: "m = (i, d)" by (cases m)
  show ?case
  proof (cases "d = []")
    case False
    then show ?thesis using process_message_once [OF assms(1) Cons.prems [unfolded m], of h] Cons.IH by (simp add: m)
  next
    case True
    then show ?thesis using ack_once [OF assms(1) Cons.prems [unfolded m]] Cons.IH
      by (cases "ack X c i w") (simp add: m split: sum.split)
  qed
qed simp

lemma worker_once:
  assumes "stream_laws X c V" "once V w"
  shows "once V (snd (worker_step X c h (k, w)))"
proof (cases "wk_connected k")
  case True
  obtain r s1 where r: "x_read_new X (co_stream c) (co_group c) (co_name c) 1 (bu_server w) = (r, s1)" by fastforce
  have o1: "once V (w\<lparr>bu_server := s1\<rparr>)"
    using once_drains [OF assms(2) drain_commands(3) [OF assms(1)], of 1] by (simp add: r del: One_nat_def)
  show ?thesis
  proof (cases r)
    case (Inl e)
    with True o1 show ?thesis by (simp add: worker_step_def worker_poll_def on_server_def r del: One_nat_def split: exn.split)
  next
    case (Inr ms)
    have eff: "ms = take 1 (v_new V (bu_server w))" "v_new V s1 = drop 1 (v_new V (bu_server w))"
      "v_ids V s1 = v_ids V (bu_server w)"
      using stream_law(3) [OF assms(1), of 1 "bu_server w"] by (simp_all add: obeys_def r Inr del: One_nat_def)
    have "delivered V ms (w\<lparr>bu_server := s1\<rparr>)"
      using laws_distinct(2,5) [OF assms(1), of "bu_server w"] assms(2)
      by (cases "v_new V (bu_server w)") (auto simp: delivered_def once_def names_def eff)
    with True o1 show ?thesis
      by (simp add: worker_step_def worker_poll_def on_server_def r Inr process_all_once [OF assms(1)] del: One_nat_def)
  qed
next
  case False
  obtain g s1 where g: "x_group_create X (co_stream c) (co_group c) (bu_server w) = (g, s1)" by fastforce
  let ?w1 = "w\<lparr>bu_server := s1\<rparr>"
  have o1: "once V ?w1" using once_drains [OF assms(2) drain_commands(1) [OF assms(1)]] by (simp add: g)
  obtain r s2 where r: "x_read_pending X (co_stream c) (co_group c) (co_name c) 100 s1 = (r, s2)" by fastforce
  have o2: "once V (w\<lparr>bu_server := s2\<rparr>)"
    using once_drains [OF o1 drain_commands(2) [OF assms(1)], of 100] by (simp add: r)
  have "once V (recover_pending X c h ?w1)"
  proof (cases r)
    case (Inl e)
    with o2 show ?thesis by (simp add: recover_pending_def on_server_def r)
  next
    case (Inr ms)
    have eff: "ms = take 100 (v_pending V s1)" "unchanged V s1 s2"
      using stream_law(2) [OF assms(1), of 100 s1] by (simp_all add: obeys_def r Inr)
    have "delivered V ms (w\<lparr>bu_server := s2\<rparr>)"
      using laws_distinct [OF assms(1), of s1] o1 eff
      by (auto simp: delivered_def once_def names_def unchanged_def take_map [symmetric] dest!: in_set_takeD)
    then show ?thesis using recover_list_once [OF assms(1) o2] by (simp add: recover_pending_def on_server_def r Inr)
  qed
  with False o1 show ?thesis by (simp add: worker_step_def worker_connect_def on_server_def g split: sum.split)
qed

text \<open>
  The runs of a worker: its own turns, restarts of the process, publications, and everything
  that happens on the server meanwhile (outages, other consumers of the group).
\<close>

inductive runs :: "'s streams \<Rightarrow> consumer \<Rightarrow> 's stream_view \<Rightarrow> handler \<Rightarrow> worker \<times> 's bus \<Rightarrow> bool"
  for X :: "'s streams" and c :: consumer and V :: "'s stream_view" and h :: handler where
  start: "runs X c V h (new_worker, \<lparr>bu_server = s, bu_calls = []\<rparr>)"
| turn: "runs X c V h kw \<Longrightarrow> runs X c V h (worker_step X c h kw)"
| restart: "runs X c V h (k, w) \<Longrightarrow> runs X c V h (new_worker, w)"
| publication: "runs X c V h (k, w) \<Longrightarrow> runs X c V h (k, snd (publish X (co_stream c) payload w))"
| elsewhere: "runs X c V h (k, w) \<Longrightarrow> drains V (bu_server w) s' \<Longrightarrow> runs X c V h (k, w\<lparr>bu_server := s'\<rparr>)"

inductive_cases runsE: "runs X c V h kw"

lemma publish_once:
  assumes "stream_laws X c V" "once V w"
  shows "once V (snd (publish X (co_stream c) payload w))"
proof -
  let ?d = "[(''payload'', Dumps payload)]"
  obtain r s1 where r: "x_add X (co_stream c) ?d (bu_server w) = (r, s1)" by fastforce
  from stream_law(5) [OF assms(1), of "bu_server w" ?d]
  consider i where "i \<notin> v_ids V (bu_server w)" "v_new V s1 = v_new V (bu_server w) @ [(i, ?d)]"
      "v_pending V s1 = v_pending V (bu_server w)" "v_ids V s1 = insert i (v_ids V (bu_server w))"
    | "unchanged V (bu_server w) s1" unfolding r by (cases r) (auto simp: obeys_def)
  then have "once V (w\<lparr>bu_server := s1\<rparr>)"
  proof cases
    case 1
    then show ?thesis using assms(2) by (auto simp: once_def names_def)
  next
    case 2
    then show ?thesis by (intro once_drains [OF assms(2)] unchanged_drains)
  qed
  then show ?thesis by (simp add: publish_def on_server_def r split: sum.split)
qed

lemma runs_once: "runs X c V h kw \<Longrightarrow> stream_laws X c V \<Longrightarrow> once V (snd kw)"
proof (induction rule: runs.induct)
  case (turn kw)
  then show ?case using worker_once [of X c V "snd kw" h "fst kw"] by simp
next
  case (publication k w payload)
  then show ?case using publish_once by fastforce
next
  case (elsewhere k w s')
  then show ?case using once_drains by fastforce
qed (simp_all add: once_def names_def)

text \<open>
  Claim C21. Trading signals are handled at most once: in every run of the worker, with failing
  commands, outages, restarts and publications anywhere between its turns, no message is handed
  to the handler twice, and none that was handed over is new or pending again.
\<close>

theorem signals_at_most_once:
  assumes "stream_laws X c V" and "runs X c V h (k, w)"
  shows "distinct (map fst (bu_calls w))
    \<and> (\<forall>i v. (i, v) \<in> set (bu_calls w) \<longrightarrow> i \<notin> fst ` set (v_pending V (bu_server w)) \<and> i \<notin> fst ` set (v_new V (bu_server w)))"
  using runs_once [OF assms(2,1)] by (force simp: once_def names_def)

section \<open>A published signal arrives\<close>

lemma process_message_up:
  assumes "stream_laws X c V" "v_up V (bu_server w)"
  shows "v_up V (bu_server (process_message X c h (i, d) w))
    \<and> v_new V (bu_server (process_message X c h (i, d) w)) = v_new V (bu_server w)
    \<and> bu_calls (process_message X c h (i, d) w) = bu_calls w
        @ (case json_loads (dict_get d ''payload'' (Dumps (PDict []))) of Inl _ \<Rightarrow> [] | Inr v \<Rightarrow> [(i, v)])"
proof -
  obtain s' where "ack X c i w = (Inr (), w\<lparr>bu_server := s'\<rparr>)" "v_up V s'" "v_new V s' = v_new V (bu_server w)"
    by (rule ack_up [OF assms])
  then show ?thesis by (simp add: process_message_def call_handler_def split: sum.split)
qed

lemma worker_turn_up:
  assumes "stream_laws X c V" "v_up V (bu_server w)" "wk_connected k" "v_new V (bu_server w) = (i, d) # ms"
  shows "\<exists>w'. worker_step X c h (k, w) = (k, w') \<and> v_up V (bu_server w') \<and> v_new V (bu_server w') = ms
    \<and> bu_calls w' = bu_calls w @ (case json_loads (dict_get d ''payload'' (Dumps (PDict []))) of Inl _ \<Rightarrow> [] | Inr v \<Rightarrow> [(i, v)])"
proof -
  obtain s1 where s1: "on_server (x_read_new X (co_stream c) (co_group c) (co_name c) 1) w
      = (Inr (take 1 (v_new V (bu_server w))), w\<lparr>bu_server := s1\<rparr>)" "v_up V s1" "v_new V s1 = drop 1 (v_new V (bu_server w))"
    by (rule read_new_up [OF assms(1,2), of 1]) simp
  have up: "v_up V (bu_server (w\<lparr>bu_server := s1\<rparr>))" using s1(2) by simp
  show ?thesis
    using process_message_up [OF assms(1) up, of h i d] s1(1,3) assms(3,4)
    by (simp add: worker_step_def worker_poll_def)
qed

lemma worker_turns_up:
  assumes "stream_laws X c V" "v_up V (bu_server w)" "wk_connected k" "v_new V (bu_server w) = ms"
  shows "\<exists>w'. (worker_step X c h ^^ length ms) (k, w) = (k, w') \<and> v_new V (bu_server w') = []
    \<and> bu_calls w' = bu_calls w @ concat (map (\<lambda>(i, d). case json_loads (dict_get d ''payload'' (Dumps (PDict []))) of
         Inl _ \<Rightarrow> [] | Inr v \<Rightarrow> [(i, v)]) ms)"
  using assms(2,4)
proof (induction ms arbitrary: w)
  case (Cons m ms)
  obtain i d where m: "m = (i, d)" by (cases m)
  from worker_turn_up [OF assms(1) Cons.prems(1) assms(3), of i d ms h] Cons.prems(2) obtain w1 where
    1: "worker_step X c h (k, w) = (k, w1)" "v_up V (bu_server w1)" "v_new V (bu_server w1) = ms"
      "bu_calls w1 = bu_calls w @ (case json_loads (dict_get d ''payload'' (Dumps (PDict []))) of Inl _ \<Rightarrow> [] | Inr v \<Rightarrow> [(i, v)])"
    by (auto simp: m)
  from Cons.IH [OF 1(2,3)] show ?case by (auto simp: funpow_swap1 [symmetric] funpow_Suc_right m 1(1,4) simp del: funpow.simps)
qed simp

lemma publish_up:
  assumes "stream_laws X c V" "v_up V (bu_server w)"
  obtains i s' where "publish X (co_stream c) payload w = (Some i, w\<lparr>bu_server := s'\<rparr>)" "v_up V s'"
    "v_new V s' = v_new V (bu_server w) @ [(i, [(''payload'', Dumps payload)])]"
proof -
  from obeys_up [OF stream_law(5) [OF assms(1), of _ "[(''payload'', Dumps payload)]"] assms(2)] show thesis
  proof cases
    case (1 i s')
    then show thesis by (intro that [of i s']) (simp_all add: publish_def on_server_def)
  qed
qed

text \<open>
  Claim C22. A trading signal published while the server can be reached is handed to the handler of
  a connected worker, with the payload that was published, after one turn for every message
  still to be read.
\<close>

theorem published_signal_arrives:
  assumes "stream_laws X c V" and "v_up V (bu_server w)" and "wk_connected k"
    and "publish X (co_stream c) payload w = (r, w1)"
  shows "\<exists>i w'. r = Some i \<and> (worker_step X c h ^^ (length (v_new V (bu_server w)) + 1)) (k, w1) = (k, w')
    \<and> bu_calls w' \<noteq> [] \<and> last (bu_calls w') = (i, payload)"
proof -
  obtain i s' where p: "publish X (co_stream c) payload w = (Some i, w\<lparr>bu_server := s'\<rparr>)" "v_up V s'"
    "v_new V s' = v_new V (bu_server w) @ [(i, [(''payload'', Dumps payload)])]"
    by (rule publish_up [OF assms(1,2)])
  have up: "v_up V (bu_server (w\<lparr>bu_server := s'\<rparr>))" using p(2) by simp
  show ?thesis
    using worker_turns_up [OF assms(1) up assms(3) refl, of h] p(1,3) assms(4) by (auto simp: dict_get_def)
qed

section \<open>A server that keeps the laws\<close>

text \<open>
  One stream with one consumer, for the witnesses: the messages read, each with whether it is
  acknowledged, and those still to be read. The identifier of a message is its position.
\<close>

record mini =
  mi_up :: bool
  mi_seen :: "(entry \<times> bool) list"
  mi_wait :: "entry list"

definition place :: "nat \<Rightarrow> string" where "place n = replicate n (CHR ''0'')"

lemma place_inj [simp]: "place i = place j \<longleftrightarrow> i = j"
  unfolding place_def by (metis length_replicate)

fun seen_msgs :: "nat \<Rightarrow> (entry \<times> bool) list \<Rightarrow> message list" where
  "seen_msgs j [] = []"
| "seen_msgs j ((e, a) # xs) = (if a then [] else [(place j, e)]) @ seen_msgs (Suc j) xs"

fun wait_msgs :: "nat \<Rightarrow> entry list \<Rightarrow> message list" where
  "wait_msgs j [] = []"
| "wait_msgs j (e # es) = (place j, e) # wait_msgs (Suc j) es"

fun acked :: "string \<Rightarrow> nat \<Rightarrow> (entry \<times> bool) list \<Rightarrow> (entry \<times> bool) list" where
  "acked i j [] = []"
| "acked i j ((e, a) # xs) = (e, a \<or> place j = i) # acked i (Suc j) xs"

definition answer :: "(mini \<Rightarrow> 'a \<times> mini) \<Rightarrow> mini \<Rightarrow> 'a res \<times> mini" where
  "answer f s = (if mi_up s then (case f s of (a, s') \<Rightarrow> (Inr a, s')) else (Inl (Redis_Error ''down''), s))"

definition mini_streams :: "mini streams" where
  "mini_streams = \<lparr>
     x_add = \<lambda>_ d. answer (\<lambda>s. (place (length (mi_seen s) + length (mi_wait s)), s\<lparr>mi_wait := mi_wait s @ [d]\<rparr>)),
     x_group_create = \<lambda>_ _. answer (\<lambda>s. (False, s)),
     x_group_setid = \<lambda>_ _. answer (\<lambda>s. ((), s)),
     x_read_pending = \<lambda>_ _ _ n. answer (\<lambda>s. (take n (seen_msgs 0 (mi_seen s)), s)),
     x_read_new = \<lambda>_ _ _ n. answer (\<lambda>s. (take n (wait_msgs (length (mi_seen s)) (mi_wait s)),
        s\<lparr>mi_seen := mi_seen s @ map (\<lambda>e. (e, False)) (take n (mi_wait s)), mi_wait := drop n (mi_wait s)\<rparr>)),
     x_ack = \<lambda>_ _ i. answer (\<lambda>s. ((), s\<lparr>mi_seen := acked i 0 (mi_seen s)\<rparr>)),
     x_len = \<lambda>_. answer (\<lambda>s. (length (mi_seen s) + length (mi_wait s), s)),
     x_pending_count = \<lambda>_ _. answer (\<lambda>s. (length (seen_msgs 0 (mi_seen s)), s)),
     x_trim = \<lambda>_ _. answer (\<lambda>s. ((), s))\<rparr>"

definition mini_view :: "mini stream_view" where
  "mini_view = \<lparr>v_up = mi_up, v_new = \<lambda>s. wait_msgs (length (mi_seen s)) (mi_wait s), v_pending = \<lambda>s. seen_msgs 0 (mi_seen s),
     v_ids = \<lambda>s. place ` {..<length (mi_seen s) + length (mi_wait s)}\<rparr>"

lemma seen_msgs_places: "fst ` set (seen_msgs j xs) \<subseteq> place ` {j..<j + length xs} \<and> distinct (map fst (seen_msgs j xs))"
proof (induction j xs rule: seen_msgs.induct)
  case (2 j e a xs)
  have "place j \<notin> place ` {Suc j..<Suc j + length xs}" by auto
  with 2 show ?case by auto
qed simp

lemma wait_msgs_places: "fst ` set (wait_msgs j es) = place ` {j..<j + length es} \<and> distinct (map fst (wait_msgs j es))"
proof (induction j es rule: wait_msgs.induct)
  case (2 j e es)
  have "{j..<j + length (e # es)} = insert j {Suc j..<Suc j + length es}" by auto
  with 2 show ?case by auto
qed simp

lemma seen_msgs_append: "seen_msgs j (xs @ ys) = seen_msgs j xs @ seen_msgs (j + length xs) ys"
  by (induction j xs rule: seen_msgs.induct) auto

lemma seen_msgs_fresh: "seen_msgs j (map (\<lambda>e. (e, False)) es) = wait_msgs j es"
  by (induction j es rule: wait_msgs.induct) auto

lemma wait_msgs_append: "wait_msgs j (es @ es') = wait_msgs j es @ wait_msgs (j + length es) es'"
  by (induction j es rule: wait_msgs.induct) auto

lemma wait_msgs_take: "take n (wait_msgs j es) = wait_msgs j (take n es)"
  by (induction j es arbitrary: n rule: wait_msgs.induct) (auto simp: take_Cons split: nat.split)

lemma wait_msgs_drop: "drop n (wait_msgs j es) = wait_msgs (j + n) (drop n es)"
  by (induction j es arbitrary: n rule: wait_msgs.induct) (auto simp: drop_Cons split: nat.split)

lemma wait_msgs_rest: "wait_msgs (j + min (length es) n) (drop n es) = drop n (wait_msgs j es)"
  by (cases "n \<le> length es") (simp_all add: wait_msgs_drop min_def)

lemma seen_msgs_acked: "seen_msgs j (acked i j xs) = filter (\<lambda>m. fst m \<noteq> i) (seen_msgs j xs)"
  by (induction i j xs rule: acked.induct) auto

lemma length_acked [simp]: "length (acked i j xs) = length xs"
  by (induction i j xs rule: acked.induct) auto

lemma disjoint_part: "A \<subseteq> B \<Longrightarrow> B \<inter> C = {} \<Longrightarrow> A \<inter> C = {}"
  by blast

lemma mini_distinct:
  "distinct (map fst (v_pending mini_view s @ v_new mini_view s))
    \<and> fst ` set (v_pending mini_view s @ v_new mini_view s) \<subseteq> v_ids mini_view s"
proof -
  let ?n = "length (mi_seen s)"
  have p: "fst ` set (seen_msgs 0 (mi_seen s)) \<subseteq> place ` {0..<?n}" "distinct (map fst (seen_msgs 0 (mi_seen s)))"
    using seen_msgs_places [of 0 "mi_seen s"] by simp_all
  have w: "fst ` set (wait_msgs ?n (mi_wait s)) = place ` {?n..<?n + length (mi_wait s)}"
    "distinct (map fst (wait_msgs ?n (mi_wait s)))" using wait_msgs_places [of ?n "mi_wait s"] by simp_all
  have "place ` {0..<?n} \<inter> place ` {?n..<?n + length (mi_wait s)} = {}" by auto
  then have disj: "fst ` set (seen_msgs 0 (mi_seen s)) \<inter> fst ` set (wait_msgs ?n (mi_wait s)) = {}"
    unfolding w(1) by (rule disjoint_part [OF p(1)])
  have "place ` {0..<?n} \<subseteq> place ` {..<?n + length (mi_wait s)}" by (intro image_mono) auto
  with p(1) have sub: "fst ` set (seen_msgs 0 (mi_seen s)) \<subseteq> place ` {..<?n + length (mi_wait s)}" by (rule subset_trans)
  have sub2: "fst ` set (wait_msgs ?n (mi_wait s)) \<subseteq> place ` {..<?n + length (mi_wait s)}"
    unfolding w(1) by (intro image_mono) auto
  show ?thesis using p(2) w(2) disj sub sub2 by (simp add: mini_view_def image_Un)
qed

lemma read_length: "m + min k n + (k - n) = m + (k :: nat)"
  by (simp add: min_def)

lemma mini_answer:
  assumes "mi_up s \<Longrightarrow> effect (fst (f s)) (snd (f s)) \<and> mi_up (snd (f s))"
  shows "obeys mini_view s (answer f s) effect"
  using assms by (cases "mi_up s"; cases "f s") (simp_all add: obeys_def answer_def mini_view_def unchanged_def)

lemma mini_laws: "stream_laws mini_streams c mini_view"
  unfolding stream_laws_def
proof (intro allI conjI impI)
  show "obeys mini_view s (x_add mini_streams (co_stream c) d s)
      (\<lambda>i s'. i \<notin> v_ids mini_view s \<and> v_new mini_view s' = v_new mini_view s @ [(i, d)]
        \<and> v_pending mini_view s' = v_pending mini_view s \<and> v_ids mini_view s' = insert i (v_ids mini_view s))" for s d
    by (simp add: mini_streams_def, rule mini_answer) (auto simp: mini_view_def wait_msgs_append lessThan_Suc)
qed (simp_all only: mini_distinct [THEN conjunct1] mini_distinct [THEN conjunct2] mini_streams_def streams.simps,
    (rule mini_answer, simp add: mini_view_def unchanged_def seen_msgs_append seen_msgs_fresh wait_msgs_take wait_msgs_rest
      seen_msgs_acked read_length)+)

definition sample_consumer :: consumer where
  "sample_consumer = \<lparr>co_stream = ''stream:news:raw'', co_group = ''group_archiver'', co_name = ''c1''\<rparr>"

definition sample_news :: "string \<Rightarrow> entry" where
  "sample_news t = news_entry ''2026'' t (PDict [])"

text \<open>A trimmed message and an unacknowledged one; two to read; a handler that refuses the second call.\<close>

definition sample_bus :: "mini bus" where
  "sample_bus = \<lparr>bu_server = \<lparr>mi_up = True, mi_seen = [([], False), (sample_news ''a'', False), (sample_news ''b'', True)],
     mi_wait = [sample_news ''c'', sample_news ''d'', sample_news ''e'']\<rparr>, bu_calls = []\<rparr>"

definition fussy :: handler where
  "fussy n v = (if n = 2 then Inr False else Inr True)"

lemma sample_view:
  "v_up mini_view (bu_server sample_bus)"
  "v_pending mini_view (bu_server sample_bus) = [(place 0, []), (place 1, sample_news ''a'')]"
  "v_new mini_view (bu_server sample_bus) = [(place 3, sample_news ''c''), (place 4, sample_news ''d''), (place 5, sample_news ''e'')]"
  by (simp_all add: mini_view_def sample_bus_def numeral_eq_Suc)

lemma recovery_terminates_witness:
  "\<exists>n w'. recover_pending_messages mini_streams sample_consumer fussy 1 sample_bus = Some (n, w')
    \<and> v_pending mini_view (bu_server w') = [] \<and> length (bu_calls w') = 1 \<and> n \<le> 1"
proof -
  have "length (decoded [(place 0, []), (place 1, sample_news ''a'')]) = 1" by code_simp
  moreover have "bu_calls sample_bus = []" by (simp add: sample_bus_def)
  ultimately show ?thesis
    using recovery_terminates [OF mini_laws [of sample_consumer] sample_view(1), of 1 fussy] unfolding sample_view by auto
qed

lemma consumer_returns_iff_bounded_witness:
  "(\<exists>r. consume_messages mini_streams sample_consumer fussy 2 (Some 3) sample_bus = Some r)
   \<and> \<not> (\<exists>r. consume_messages mini_streams sample_consumer fussy 2 (Some 0) sample_bus = Some r)"
  using consumer_returns_iff_bounded [OF mini_laws [of sample_consumer] sample_view(1), of 2 fussy "Some 3"]
    consumer_returns_iff_bounded [OF mini_laws [of sample_consumer] sample_view(1), of 2 fussy "Some 0"]
  by simp

lemma consumer_leaves_unsettled_witness:
  "\<exists>t w'. consume_messages mini_streams sample_consumer fussy 2 (Some 1) sample_bus = Some (Inr t, w')
    \<and> v_new mini_view (bu_server w') = [(place 5, sample_news ''e'')]
    \<and> v_pending mini_view (bu_server w') = [(place 4, sample_news ''d'')] \<and> length (bu_calls w') = 3"
proof -
  have "length (decoded [(place 0, []), (place 1, sample_news ''a'')]) = 1"
    "length (decoded [(place 3, sample_news ''c''), (place 4, sample_news ''d'')]) = 2"
    "unsettled fussy 1 [(place 3, sample_news ''c''), (place 4, sample_news ''d'')] = [(place 4, sample_news ''d'')]" by code_simp+
  moreover have "bu_calls sample_bus = []" by (simp add: sample_bus_def)
  ultimately show ?thesis
    using consumer_leaves_unsettled [OF mini_laws [of sample_consumer] sample_view(1), of 2 1 fussy] unfolding sample_view by auto
qed

definition empty_mini :: mini where "empty_mini = \<lparr>mi_up = True, mi_seen = [], mi_wait = []\<rparr>"

lemma signals_at_most_once_witness:
  "\<exists>w. (\<exists>k. runs mini_streams sample_consumer mini_view fussy (k, w)) \<and> length (bu_calls w) = 1 \<and> distinct (map fst (bu_calls w))"
proof -
  let ?w = "\<lparr>bu_server = empty_mini, bu_calls = []\<rparr>"
  let ?p = "snd (publish mini_streams (co_stream sample_consumer) (PStr ''buy'') ?w)"
  let ?kw = "worker_step mini_streams sample_consumer fussy (worker_step mini_streams sample_consumer fussy (new_worker, ?p))"
  have "runs mini_streams sample_consumer mini_view fussy (fst ?kw, snd ?kw)"
    unfolding prod.collapse by (intro runs.turn runs.publication runs.start)
  moreover have "length (bu_calls (snd ?kw)) = 1" by code_simp
  ultimately show ?thesis using signals_at_most_once [OF mini_laws, of sample_consumer fussy "fst ?kw" "snd ?kw"] by blast
qed

lemma published_signal_arrives_witness:
  "\<exists>i k w'. (worker_step mini_streams sample_consumer fussy ^^ 4)
      (new_worker\<lparr>wk_connected := True\<rparr>, snd (publish mini_streams (co_stream sample_consumer) (PStr ''buy'') sample_bus)) = (k, w')
    \<and> bu_calls w' \<noteq> [] \<and> last (bu_calls w') = (i, PStr ''buy'')"
  using published_signal_arrives [OF mini_laws [of sample_consumer] sample_view(1), of "new_worker\<lparr>wk_connected := True\<rparr>"
      "PStr ''buy''" "fst (publish mini_streams (co_stream sample_consumer) (PStr ''buy'') sample_bus)"
      "snd (publish mini_streams (co_stream sample_consumer) (PStr ''buy'') sample_bus)" fussy]
  unfolding sample_view prod.collapse by (auto simp: eval_nat_numeral)

end
