(* ===== verification/Performance_Report.thy ===== *)
theory Performance_Report
  imports PyFloat
begin

text \<open>
  The report of the investment results, \<open>shared/analysis/performance_calculator.py\<close>: costs of a
  sale, matching of sales with purchases first in first out, realised and unrealised profit,
  largest drawdown, statistics and the sums per stock. The rows of the queries, the current
  prices and the names are arguments; a timestamp is a number, dates are not rendered.
\<close>

section \<open>Costs of one sale\<close>

definition TRADING_TAX_RATE :: rat where "TRADING_TAX_RATE = fl (23 / 10000)"
definition BROKER_FEE_RATE :: rat where "BROKER_FEE_RATE = fl (15 / 1000000)"

record net_result =
  nr_gross :: rat
  nr_buy_fee :: rat
  nr_sell_fee :: rat
  nr_tax :: rat
  nr_total_fees :: rat
  nr_net :: rat

definition calculate_net_profit_for_trade :: "rat \<Rightarrow> rat \<Rightarrow> int \<Rightarrow> net_result" where
  "calculate_net_profit_for_trade buy_price sell_price quantity =
     (let buy_amount = fmul buy_price (of_py_int quantity);
          sell_amount = fmul sell_price (of_py_int quantity);
          gross_profit = fsub sell_amount buy_amount;
          buy_fee = fmul buy_amount BROKER_FEE_RATE;
          sell_fee = fmul sell_amount BROKER_FEE_RATE;
          tax = fmul sell_amount TRADING_TAX_RATE;
          net_profit = fsub (fsub (fsub gross_profit buy_fee) sell_fee) tax
      in \<lparr>nr_gross = gross_profit, nr_buy_fee = buy_fee, nr_sell_fee = sell_fee, nr_tax = tax,
          nr_total_fees = fadd (fadd buy_fee sell_fee) tax, nr_net = net_profit\<rparr>)"

section \<open>Trades and the matching queue\<close>

record trade_row =
  tr_code :: string
  tr_type :: string
  tr_price :: rat
  tr_qty :: int
  tr_at :: int

record queued_buy =
  qb_price :: rat
  qb_qty :: int
  qb_at :: int

text \<open>The query: the rows of the period by time; no start means from the beginning.\<close>

definition period_trades :: "int option \<Rightarrow> int \<Rightarrow> trade_row list \<Rightarrow> trade_row list" where
  "period_trades start finish rows = sort_key tr_at
     (filter (\<lambda>t. (case start of None \<Rightarrow> True | Some s \<Rightarrow> s \<le> tr_at t) \<and> tr_at t \<le> finish) rows)"

definition buys_of :: "trade_row list \<Rightarrow> trade_row list" where "buys_of = filter (\<lambda>t. tr_type t = ''BUY'')"
definition sells_of :: "trade_row list \<Rightarrow> trade_row list" where "sells_of = filter (\<lambda>t. tr_type t = ''SELL'')"

type_synonym buy_queues = "string \<Rightarrow> queued_buy list"

definition queue_buy :: "buy_queues \<Rightarrow> trade_row \<Rightarrow> buy_queues" where
  "queue_buy q t = q(tr_code t := q (tr_code t) @ [\<lparr>qb_price = tr_price t, qb_qty = tr_qty t, qb_at = tr_at t\<rparr>])"

text \<open>
  The loop: cost and quantity matched so far. It ends for every queue: either the head leaves
  it or nothing is left to match.
\<close>

function fifo_match :: "int \<Rightarrow> queued_buy list \<Rightarrow> rat \<Rightarrow> int \<Rightarrow> rat \<times> int \<times> queued_buy list" where
  "fifo_match sell_qty queue cost matched =
     (if 0 < sell_qty \<and> queue \<noteq> [] then
        let buy = hd queue;
            match_qty = min sell_qty (qb_qty buy);
            left_qty = qb_qty buy - match_qty
        in fifo_match (sell_qty - match_qty)
             (if left_qty = 0 then tl queue else buy\<lparr>qb_qty := left_qty\<rparr> # tl queue)
             (fadd cost (fmul (qb_price buy) (of_py_int match_qty))) (matched + match_qty)
      else (cost, matched, queue))"
  by pat_completeness auto

termination
  by (relation "measures [\<lambda>(s, q, _). length q, \<lambda>(s, q, _). nat s]") (auto simp: min_def)

declare fifo_match.simps [simp del]

section \<open>Realised profit\<close>

record realized_trade =
  rz_code :: string
  rz_at :: int
  rz_buy :: rat
  rz_sell :: rat
  rz_qty :: int
  rz_net :: rat
  rz_rate :: rat

record tally =
  ta_queue :: buy_queues
  ta_gross :: rat
  ta_fees :: rat
  ta_taxes :: rat
  ta_buy :: rat
  ta_sell :: rat
  ta_wins :: nat
  ta_losses :: nat
  ta_profit :: rat
  ta_loss :: rat
  ta_trades :: "realized_trade list"

definition empty_tally :: "buy_queues \<Rightarrow> tally" where
  "empty_tally q = \<lparr>ta_queue = q, ta_gross = 0, ta_fees = 0, ta_taxes = 0, ta_buy = 0, ta_sell = 0,
     ta_wins = 0, ta_losses = 0, ta_profit = 0, ta_loss = 0, ta_trades = []\<rparr>"

text \<open>\<open>x / y * 100 if y > 0 else 0\<close>\<close>

definition percent_of :: "rat \<Rightarrow> rat \<Rightarrow> rat" where
  "percent_of x y = (if 0 < y then fmul (fdiv x y) 100 else 0)"

definition tally_sell :: "tally \<Rightarrow> trade_row \<Rightarrow> tally" where
  "tally_sell s sell =
     (let code = tr_code sell;
          (cost, matched, queue) = fifo_match (tr_qty sell) (ta_queue s code) 0 0;
          s1 = s\<lparr>ta_queue := (ta_queue s)(code := queue)\<rparr>
      in if 0 < matched then
           let r = calculate_net_profit_for_trade (fdiv cost (of_py_int matched)) (tr_price sell) matched;
               sold = fmul (tr_price sell) (of_py_int matched);
               won = 0 < nr_net r
           in s1\<lparr>ta_gross := fadd (ta_gross s) (nr_gross r),
                 ta_fees := fadd (ta_fees s) (fadd (nr_buy_fee r) (nr_sell_fee r)),
                 ta_taxes := fadd (ta_taxes s) (nr_tax r),
                 ta_buy := fadd (ta_buy s) cost,
                 ta_sell := fadd (ta_sell s) sold,
                 ta_wins := (if won then ta_wins s + 1 else ta_wins s),
                 ta_losses := (if won then ta_losses s else ta_losses s + 1),
                 ta_profit := (if won then fadd (ta_profit s) (nr_net r) else ta_profit s),
                 ta_loss := (if won then ta_loss s else fadd (ta_loss s) \<bar>nr_net r\<bar>),
                 ta_trades := ta_trades s @ [\<lparr>rz_code = code, rz_at = tr_at sell, rz_buy = cost, rz_sell = sold,
                    rz_qty = matched, rz_net = nr_net r, rz_rate = percent_of (nr_net r) cost\<rparr>]\<rparr>
         else s1)"

definition realize :: "trade_row list \<Rightarrow> tally" where
  "realize trades = foldl tally_sell (empty_tally (foldl queue_buy (\<lambda>_. []) (buys_of trades))) (sells_of trades)"

section \<open>Unrealised profit, drawdown and sums per stock\<close>

record position_row =
  pr_code :: string
  pr_avg :: rat
  pr_qty :: int

text \<open>Cost and value; without current prices, or when their query fails, the purchase price.\<close>

definition unrealized :: "(string \<times> rat) list res \<Rightarrow> position_row list \<Rightarrow> rat \<times> rat" where
  "unrealized prices hs =
     (let known = (case prices of Inl _ \<Rightarrow> [] | Inr ps \<Rightarrow> ps)
      in foldl (\<lambda>(cost, val) h. (fadd cost (fmul (pr_avg h) (of_py_int (pr_qty h))),
           fadd val (fmul (dict_get known (pr_code h) (pr_avg h)) (of_py_int (pr_qty h))))) (0, 0) hs)"

definition INITIAL_CAPITAL :: rat where "INITIAL_CAPITAL = 200000000"

record curve =
  cu_total :: rat
  cu_peak :: rat
  cu_mdd :: rat
  cu_points :: "(int \<times> rat) list"

definition curve_step :: "curve \<Rightarrow> realized_trade \<Rightarrow> curve" where
  "curve_step c t =
     (let cumulative = fadd (cu_total c) (rz_net t);
          current_equity = fadd INITIAL_CAPITAL cumulative;
          peak = (if cu_peak c < current_equity then current_equity else cu_peak c);
          drawdown = fmul (fdiv (fsub current_equity peak) peak) 100
      in \<lparr>cu_total = cumulative, cu_peak = peak,
          cu_mdd = (if drawdown < cu_mdd c then drawdown else cu_mdd c),
          cu_points = cu_points c @ [(rz_at t, cumulative)]\<rparr>)"

definition profit_curve :: "realized_trade list \<Rightarrow> curve" where
  "profit_curve = foldl curve_step \<lparr>cu_total = 0, cu_peak = INITIAL_CAPITAL, cu_mdd = 0, cu_points = []\<rparr>"

record stock_sum =
  ss_buy :: rat
  ss_sell :: rat
  ss_net :: rat
  ss_qty :: int

definition add_to_stock :: "(string \<times> stock_sum) list \<Rightarrow> realized_trade \<Rightarrow> (string \<times> stock_sum) list" where
  "add_to_stock known_sums t =
     (let s = dict_get known_sums (rz_code t) (\<lparr>ss_buy = 0, ss_sell = 0, ss_net = 0, ss_qty = 0\<rparr>)
      in dict_set (rz_code t) \<lparr>ss_buy = fadd (ss_buy s) (rz_buy t), ss_sell = fadd (ss_sell s) (rz_sell t),
           ss_net = fadd (ss_net s) (rz_net t), ss_qty = ss_qty s + rz_qty t\<rparr> known_sums)"

record stock_line =
  sl_code :: string
  sl_name :: string
  sl_buy :: rat
  sl_sell :: rat
  sl_net :: rat
  sl_rate :: rat

definition by_stock_list :: "(string \<times> string) list \<Rightarrow> realized_trade list \<Rightarrow> stock_line list" where
  "by_stock_list stock_names trades =
     map (\<lambda>(code, d). \<lparr>sl_code = code, sl_name = dict_get stock_names code code, sl_buy = ss_buy d,
            sl_sell = ss_sell d, sl_net = ss_net d, sl_rate = percent_of (ss_net d) (ss_buy d)\<rparr>)
       (filter (\<lambda>(code, d). 0 < ss_buy d) (sort_key (\<lambda>(code, d). - ss_net d) (foldl add_to_stock [] trades)))"

section \<open>The report\<close>

record report =
  rp_buy :: rat
  rp_sell :: rat
  rp_gross :: rat
  rp_fees :: rat
  rp_taxes :: rat
  rp_net :: rat
  rp_net_rate :: rat
  rp_value :: rat
  rp_cost :: rat
  rp_unrealized :: rat
  rp_unrealized_rate :: rat
  rp_buy_count :: nat
  rp_sell_count :: nat
  rp_wins :: nat
  rp_losses :: nat
  rp_win_rate :: rat
  rp_profit_factor :: "rat option"
  rp_mdd :: rat
  rp_curve :: "(int \<times> rat) list"
  rp_stocks :: "stock_line list"

definition win_rate_of :: "nat \<Rightarrow> nat \<Rightarrow> rat" where
  "win_rate_of wins losses = (if 0 < wins + losses then fmul (fl (of_nat wins / of_nat (wins + losses))) 100 else 0)"

text \<open>Without a loss the factor is infinite and reported as missing.\<close>

definition profit_factor_of :: "rat \<Rightarrow> rat \<Rightarrow> rat option" where
  "profit_factor_of profit loss = (if 0 < loss then Some (fdiv profit loss) else None)"

definition get_performance_data ::
  "int option \<Rightarrow> int \<Rightarrow> trade_row list \<Rightarrow> (string \<times> rat) list res \<Rightarrow> position_row list \<Rightarrow> (string \<times> string) list \<Rightarrow> report" where
  "get_performance_data start finish rows prices hs stock_names =
     (let trades = period_trades start finish rows;
          t = realize trades;
          (cost, val) = unrealized prices hs;
          c = profit_curve (ta_trades t);
          net = fsub (fsub (ta_gross t) (ta_fees t)) (ta_taxes t)
      in \<lparr>rp_buy = ta_buy t, rp_sell = ta_sell t, rp_gross = ta_gross t, rp_fees = ta_fees t, rp_taxes = ta_taxes t,
          rp_net = net, rp_net_rate = percent_of net (ta_buy t), rp_value = val, rp_cost = cost,
          rp_unrealized = fsub val cost, rp_unrealized_rate = percent_of (fsub val cost) cost,
          rp_buy_count = length (buys_of trades), rp_sell_count = length (sells_of trades),
          rp_wins = ta_wins t, rp_losses = ta_losses t, rp_win_rate = win_rate_of (ta_wins t) (ta_losses t),
          rp_profit_factor = profit_factor_of (ta_profit t) (ta_loss t), rp_mdd = cu_mdd c,
          rp_curve = cu_points c, rp_stocks = by_stock_list stock_names (ta_trades t)\<rparr>)"

section \<open>Every share is matched once\<close>

lemma fifo_match_conserves:
  assumes "\<forall>b \<in> set queue. 0 < qb_qty b" "0 \<le> sell_qty" "fifo_match sell_qty queue cost matched = (c', m', q')"
  shows "m' = matched + min sell_qty (sum_list (map qb_qty queue))
    \<and> sum_list (map qb_qty q') = sum_list (map qb_qty queue) - min sell_qty (sum_list (map qb_qty queue))
    \<and> (\<forall>b \<in> set q'. 0 < qb_qty b)"
  using assms
proof (induction sell_qty queue cost matched rule: fifo_match.induct)
  case (1 sell_qty queue cost matched)
  have nonneg: "0 \<le> sum_list (map qb_qty bs)" if "\<forall>b \<in> set bs. 0 < qb_qty b" for bs :: "queued_buy list"
    using that by (induction bs) auto
  show ?case
  proof (cases "0 < sell_qty \<and> queue \<noteq> []")
    case False
    then show ?thesis using "1.prems" nonneg [of queue] by (subst (asm) fifo_match.simps) (auto simp: min_def)
  next
    case True
    then obtain b bs where q: "queue = b # bs" by (cases queue) auto
    let ?m = "min sell_qty (qb_qty b)"
    let ?q = "if qb_qty b - ?m = 0 then bs else b\<lparr>qb_qty := qb_qty b - ?m\<rparr> # bs"
    have pos: "0 < qb_qty b" "\<forall>b \<in> set bs. 0 < qb_qty b" using "1.prems"(1) by (simp_all add: q)
    have rest: "\<forall>b \<in> set ?q. 0 < qb_qty b" "0 \<le> sell_qty - ?m" using pos by (auto simp: min_def)
    have "fifo_match sell_qty queue cost matched
        = fifo_match (sell_qty - ?m) ?q (fadd cost (fmul (qb_price b) (of_py_int ?m))) (matched + ?m)"
      unfolding q by (subst fifo_match.simps) (use True in \<open>simp add: Let_def\<close>)
    with "1.prems"(3)
    have "fifo_match (sell_qty - ?m) ?q (fadd cost (fmul (qb_price b) (of_py_int ?m))) (matched + ?m) = (c', m', q')" by simp
    from "1.IH" [OF True refl refl refl, unfolded q list.sel, OF rest this]
    have IH: "m' = matched + ?m + min (sell_qty - ?m) (sum_list (map qb_qty ?q))"
      "sum_list (map qb_qty q') = sum_list (map qb_qty ?q) - min (sell_qty - ?m) (sum_list (map qb_qty ?q))"
      "\<forall>b \<in> set q'. 0 < qb_qty b" by blast+
    have s: "sum_list (map qb_qty ?q) = sum_list (map qb_qty queue) - ?m" by (simp add: q)
    show ?thesis using IH unfolding s by (simp add: min_def split: if_splits)
  qed
qed

text \<open>Shares of a stock in a list of trades, and matched in a list of results.\<close>

definition shares :: "string \<Rightarrow> trade_row list \<Rightarrow> int" where
  "shares c ts = sum_list (map tr_qty (filter (\<lambda>t. tr_code t = c) ts))"

definition matched_shares :: "string \<Rightarrow> realized_trade list \<Rightarrow> int" where
  "matched_shares c rs = sum_list (map rz_qty (filter (\<lambda>r. rz_code r = c) rs))"

definition sound_queues :: "buy_queues \<Rightarrow> bool" where
  "sound_queues q \<longleftrightarrow> (\<forall>c. \<forall>b \<in> set (q c). 0 < qb_qty b)"

lemma sound_queues_update: "sound_queues q \<Longrightarrow> \<forall>b \<in> set bs. 0 < qb_qty b \<Longrightarrow> sound_queues (q(c := bs))"
  by (simp add: sound_queues_def)

lemma shares_nonneg: "\<forall>t \<in> set ts. 0 < tr_qty t \<Longrightarrow> 0 \<le> shares c ts"
  unfolding shares_def by (intro sum_list_nonneg) (auto intro: less_imp_le)

lemma shares_Cons: "shares c (t # ts) = (if tr_code t = c then tr_qty t else 0) + shares c ts"
  by (simp add: shares_def)

lemma queue_buys:
  assumes "sound_queues q" "\<forall>t \<in> set ts. 0 < tr_qty t"
  shows "sound_queues (foldl queue_buy q ts)
    \<and> sum_list (map qb_qty (foldl queue_buy q ts c)) = sum_list (map qb_qty (q c)) + shares c ts"
  using assms
proof (induction ts arbitrary: q)
  case (Cons t ts)
  have "sound_queues (queue_buy q t)"
    using Cons.prems by (auto simp: queue_buy_def sound_queues_def)
  moreover have "sum_list (map qb_qty (queue_buy q t c)) = sum_list (map qb_qty (q c)) + (if tr_code t = c then tr_qty t else 0)"
    by (simp add: queue_buy_def)
  ultimately show ?case using Cons.IH [of "queue_buy q t"] Cons.prems(2) by (simp add: shares_Cons)
qed (simp add: shares_def)

lemma tally_sell_simps:
  assumes "fifo_match (tr_qty t) (ta_queue s (tr_code t)) 0 0 = (cost, m, q')"
  shows "ta_queue (tally_sell s t) = (ta_queue s)(tr_code t := q')"
    "matched_shares c (ta_trades (tally_sell s t))
      = matched_shares c (ta_trades s) + (if tr_code t = c \<and> 0 < m then m else 0)"
  using assms by (simp_all add: tally_sell_def Let_def matched_shares_def)

lemma tally_sells:
  assumes "sound_queues (ta_queue s)" "\<forall>t \<in> set ts. 0 < tr_qty t"
  shows "matched_shares c (ta_trades (foldl tally_sell s ts))
    = matched_shares c (ta_trades s) + min (shares c ts) (sum_list (map qb_qty (ta_queue s c)))"
  using assms
proof (induction ts arbitrary: s)
  case Nil
  have "0 \<le> sum_list (map qb_qty (ta_queue s c))"
    using Nil.prems(1) by (intro sum_list_nonneg) (auto simp: sound_queues_def intro: less_imp_le)
  then show ?case by (simp add: shares_def)
next
  case (Cons t ts)
  obtain cost m q' where f: "fifo_match (tr_qty t) (ta_queue s (tr_code t)) 0 0 = (cost, m, q')"
    by (metis prod_cases3)
  have pos: "0 \<le> tr_qty t" "\<forall>b \<in> set (ta_queue s (tr_code t)). 0 < qb_qty b"
    using Cons.prems by (auto simp: sound_queues_def)
  note cons = fifo_match_conserves [OF pos(2,1) f]
  have sound: "sound_queues (ta_queue (tally_sell s t))"
    unfolding tally_sell_simps(1) [OF f] using Cons.prems(1) cons by (intro sound_queues_update) simp_all
  have nn: "0 \<le> sum_list (map qb_qty (ta_queue s (tr_code t)))"
    using pos(2) by (intro sum_list_nonneg) (auto intro: less_imp_le)
  have sh: "0 \<le> shares c ts" using Cons.prems(2) by (intro shares_nonneg) simp
  have IH: "matched_shares c (ta_trades (foldl tally_sell (tally_sell s t) ts))
      = matched_shares c (ta_trades (tally_sell s t)) + min (shares c ts) (sum_list (map qb_qty (ta_queue (tally_sell s t) c)))"
    using Cons.IH [OF sound] Cons.prems(2) by simp
  show ?case
  proof (cases "tr_code t = c")
    case False
    then show ?thesis using IH by (simp add: tally_sell_simps [OF f] shares_Cons)
  next
    case True
    then show ?thesis using IH cons nn sh pos(1)
      by (simp add: tally_sell_simps [OF f] shares_Cons min_def split: if_splits)
  qed
qed

text \<open>
  Claim C23. The realised trades of a report match every share once: for each stock the matched
  quantity is the smaller of the shares sold and the shares bought in the period, in whatever
  order they were traded, so a sale is also matched with purchases made after it.
\<close>

theorem matching_conserves_shares:
  assumes "\<forall>t \<in> set trades. 0 < tr_qty t"
  shows "matched_shares c (ta_trades (realize trades)) = min (shares c (sells_of trades)) (shares c (buys_of trades))"
proof -
  have b: "\<forall>t \<in> set (buys_of trades). 0 < tr_qty t" and s: "\<forall>t \<in> set (sells_of trades). 0 < tr_qty t"
    using assms by (simp_all add: buys_of_def sells_of_def)
  have "sound_queues (\<lambda>_. [])" by (simp add: sound_queues_def)
  note q = queue_buys [OF this b, of c]
  let ?s = "empty_tally (foldl queue_buy (\<lambda>_. []) (buys_of trades))"
  have fields: "ta_queue ?s = foldl queue_buy (\<lambda>_. []) (buys_of trades)" "matched_shares c (ta_trades ?s) = 0"
    by (simp_all add: empty_tally_def matched_shares_def)
  have "sound_queues (ta_queue ?s)" using q by (simp only: fields)
  from tally_sells [OF this s, of c] q show ?thesis by (simp only: realize_def fields) simp
qed

section \<open>The drawdown against its definition\<close>

text \<open>The equity after each trade, and the fall from the highest one so far.\<close>

fun equities :: "rat \<Rightarrow> realized_trade list \<Rightarrow> rat list" where
  "equities so_far [] = []"
| "equities so_far (t # ts) = (let s = fadd so_far (rz_net t) in fadd INITIAL_CAPITAL s # equities s ts)"

definition fall_at :: "rat list \<Rightarrow> nat \<Rightarrow> rat" where
  "fall_at es k = (let peak = Max (set (INITIAL_CAPITAL # take (k + 1) es)) in fmul (fdiv (fsub (es ! k) peak) peak) 100)"

definition fall :: "rat \<Rightarrow> rat \<Rightarrow> rat" where
  "fall peak e = fmul (fdiv (fsub e (max peak e)) (max peak e)) 100"

fun falls :: "rat \<Rightarrow> rat list \<Rightarrow> rat list" where
  "falls peak [] = []"
| "falls peak (e # es) = fall peak e # falls (max peak e) es"

lemma curve_step_mdd:
  "cu_mdd (foldl curve_step c ts) = foldl min (cu_mdd c) (falls (cu_peak c) (equities (cu_total c) ts))"
  by (induction ts arbitrary: c)
    (simp_all add: curve_step_def Let_def fall_def max_def min_def not_less eq_commute split: if_split)

lemma falls_nth: "k < length es \<Longrightarrow> falls peak es ! k = fall (Max (set (peak # take k es))) (es ! k)"
proof (induction es arbitrary: peak k)
  case (Cons e es)
  show ?case
  proof (cases k)
    case (Suc j)
    have "Max (set (max peak e # take j es)) = Max (set (peak # take (Suc j) (e # es)))"
      by (cases "set (take j es) = {}") (simp_all add: Max_insert max.assoc del: set_empty take_eq_Nil)
    with Cons Suc show ?thesis by simp
  qed simp
qed simp

lemma length_falls [simp]: "length (falls peak es) = length es"
  by (induction es arbitrary: peak) auto

lemma length_equities [simp]: "length (equities so_far ts) = length ts"
  by (induction ts arbitrary: so_far) (auto simp: Let_def)

lemma falls_fall_at: "falls INITIAL_CAPITAL es = map (fall_at es) [0..<length es]"
proof (rule nth_equalityI)
  fix k assume "k < length (falls INITIAL_CAPITAL es)"
  then have k: "k < length es" by simp
  have "set (take (Suc k) es) = insert (es ! k) (set (take k es))" using k by (simp add: take_Suc_conv_app_nth)
  then have "Max (set (INITIAL_CAPITAL # take (k + 1) es)) = max (Max (set (INITIAL_CAPITAL # take k es))) (es ! k)"
    by (simp add: insert_commute [of INITIAL_CAPITAL] Max_insert max.commute)
  with k show "falls INITIAL_CAPITAL es ! k = map (fall_at es) [0..<length es] ! k"
    by (simp add: falls_nth fall_at_def fall_def Let_def)
qed simp

lemma foldl_min: "foldl min (m :: rat) xs = Min (insert m (set xs))"
proof (induction xs arbitrary: m)
  case (Cons a xs)
  have "Min (insert (min m a) (set xs)) = min (min m a) (Min (insert a (insert m (set xs))))"
    by (cases "set xs = {}") (simp_all add: Min_insert min.commute min.left_commute del: set_empty)
  also have "\<dots> = Min (insert m (insert a (set xs)))"
    by (cases "set xs = {}") (simp_all add: Min_insert min.commute min.left_commute del: set_empty)
  finally show ?case using Cons.IH by simp
qed simp

lemma profit_curve_mdd:
  "cu_mdd (profit_curve ts) = Min (insert 0 (fall_at (equities 0 ts) ` {..<length ts}))"
proof -
  have "cu_mdd (profit_curve ts) = foldl min 0 (falls INITIAL_CAPITAL (equities 0 ts))"
    by (simp add: profit_curve_def curve_step_mdd)
  also have "\<dots> = Min (insert 0 (fall_at (equities 0 ts) ` {..<length ts}))"
    by (simp add: foldl_min falls_fall_at lessThan_atLeast0)
  finally show ?thesis .
qed

text \<open>
  Claim C24. The drawdown of the report, computed in one pass, is the largest fall in per cent of
  the equity below its highest value so far, the initial capital included, and 0 without a fall.
\<close>

theorem mdd_is_largest_fall:
  "rp_mdd (get_performance_data start finish rows prices hs stock_names)
    = (let ts = ta_trades (realize (period_trades start finish rows))
       in Min (insert 0 (fall_at (equities 0 ts) ` {..<length ts})))"
  by (simp add: get_performance_data_def profit_curve_mdd Let_def split_beta)

section \<open>Statistics\<close>

lemma fall_lower:
  assumes "0 < peak" "fl peak = peak" "0 \<le> e" "fl e = e"
  shows "- 100 \<le> fall peak e"
proof -
  let ?p = "max peak e"
  have p: "0 < ?p" "fl ?p = ?p" using assms by (simp_all add: max_def)
  have "fl (- ?p) = - ?p" using p(2) by simp
  then have d: "- ?p \<le> fsub e ?p" unfolding fsub_def using assms(3) by (intro fl_ge_float) simp_all
  have one: "fl (- 1) = - 1" by simp
  have hundred: "fl (- 100) = - 100" by (simp add: fl_numeral)
  have "- 1 \<le> fsub e ?p / ?p" using d p(1) by (simp add: pos_le_divide_eq)
  then have "- 1 \<le> fdiv (fsub e ?p) ?p" unfolding fdiv_def by (rule fl_ge_float [OF one])
  then show ?thesis unfolding fall_def fmul_def by (intro fl_ge_float [OF hundred]) simp
qed

lemma falls_lower:
  assumes "0 < peak" "fl peak = peak" "\<forall>e \<in> set es. 0 \<le> e \<and> fl e = e" "x \<in> set (falls peak es)"
  shows "- 100 \<le> x"
  using assms
proof (induction es arbitrary: peak)
  case (Cons e es)
  have "0 < max peak e" "fl (max peak e) = max peak e" using Cons.prems by (simp_all add: max_def)
  with Cons fall_lower [of peak e] show ?case by auto
qed simp

lemma equities_floats: "e \<in> set (equities so_far ts) \<Longrightarrow> fl e = e"
  by (induction ts arbitrary: so_far) (auto simp: Let_def fadd_def)

lemma INITIAL_CAPITAL_float: "0 < INITIAL_CAPITAL" "fl INITIAL_CAPITAL = INITIAL_CAPITAL"
  by (simp_all add: INITIAL_CAPITAL_def fl_numeral)

lemma mdd_bounds:
  "cu_mdd (profit_curve ts) \<le> 0"
  "\<forall>e \<in> set (equities 0 ts). 0 \<le> e \<Longrightarrow> - 100 \<le> cu_mdd (profit_curve ts)"
proof -
  show "cu_mdd (profit_curve ts) \<le> 0" unfolding profit_curve_mdd by (rule Min_le) simp_all
  assume "\<forall>e \<in> set (equities 0 ts). 0 \<le> e"
  then have "\<forall>x \<in> set (falls INITIAL_CAPITAL (equities 0 ts)). - 100 \<le> x"
    using falls_lower [OF INITIAL_CAPITAL_float] equities_floats by blast
  then have "- 100 \<le> foldl min 0 (falls INITIAL_CAPITAL (equities 0 ts))"
    unfolding foldl_min by (intro Min.boundedI) auto
  then show "- 100 \<le> cu_mdd (profit_curve ts)" by (simp add: profit_curve_def curve_step_mdd)
qed

lemma tally_counts:
  "ta_wins (foldl tally_sell s ts) + ta_losses (foldl tally_sell s ts) + length (ta_trades s)
     = ta_wins s + ta_losses s + length (ta_trades (foldl tally_sell s ts))
   \<and> length (ta_trades (foldl tally_sell s ts)) \<le> length (ta_trades s) + length ts"
proof (induction ts arbitrary: s)
  case (Cons t ts)
  have "ta_wins (tally_sell s t) + ta_losses (tally_sell s t) + length (ta_trades s)
      = ta_wins s + ta_losses s + length (ta_trades (tally_sell s t))
    \<and> length (ta_trades (tally_sell s t)) \<le> length (ta_trades s) + 1"
    by (simp add: tally_sell_def Let_def split: prod.split)
  with Cons.IH [of "tally_sell s t"] show ?case by simp
qed simp

lemma tally_money: "0 \<le> ta_profit s \<Longrightarrow> 0 \<le> ta_loss s
    \<Longrightarrow> 0 \<le> ta_profit (foldl tally_sell s ts) \<and> 0 \<le> ta_loss (foldl tally_sell s ts)"
proof (induction ts arbitrary: s)
  case (Cons t ts)
  have "0 \<le> ta_profit (tally_sell s t)" "0 \<le> ta_loss (tally_sell s t)"
    using Cons.prems by (auto simp: tally_sell_def Let_def fadd_nonneg split: prod.split)
  with Cons.IH show ?case by simp
qed simp

lemma win_rate_bounds: "0 \<le> win_rate_of w l \<and> win_rate_of w l \<le> 100"
proof (cases "0 < w + l")
  case True
  let ?q = "of_nat w / of_nat (w + l) :: rat"
  have q: "0 \<le> ?q" "?q \<le> 1" using True by (simp_all add: divide_le_eq)
  have "0 \<le> fl ?q" "fl ?q \<le> 1" using fl_nonneg [OF q(1)] fl_mono [OF q(2)] by simp_all
  moreover have "fl 100 = 100" by (simp add: fl_numeral)
  ultimately have "0 \<le> fmul (fl ?q) 100" "fmul (fl ?q) 100 \<le> 100"
    unfolding fmul_def by (auto intro!: fl_nonneg fl_le_float)
  with True show ?thesis by (simp add: win_rate_of_def)
qed (simp add: win_rate_of_def)

text \<open>
  The statistics of every report are in range: the drawdown is at most 0; the wins and losses are the matched
  sales, at most all sales; the win rate lies between 0 and 100 and a profit factor is not negative.
\<close>

theorem report_statistics_bounded:
  "let trades = period_trades start finish rows; rep = get_performance_data start finish rows prices hs stock_names
   in rp_mdd rep \<le> 0
    \<and> rp_wins rep + rp_losses rep = length (ta_trades (realize trades)) \<and> rp_wins rep + rp_losses rep \<le> rp_sell_count rep
    \<and> 0 \<le> rp_win_rate rep \<and> rp_win_rate rep \<le> 100 \<and> (case rp_profit_factor rep of None \<Rightarrow> True | Some f \<Rightarrow> 0 \<le> f)"
proof -
  define trades where "trades = period_trades start finish rows"
  define rep where "rep = get_performance_data start finish rows prices hs stock_names"
  let ?t = "realize trades"
  have rep: "rp_mdd rep = cu_mdd (profit_curve (ta_trades ?t))" "rp_wins rep = ta_wins ?t" "rp_losses rep = ta_losses ?t"
    "rp_sell_count rep = length (sells_of trades)" "rp_win_rate rep = win_rate_of (ta_wins ?t) (ta_losses ?t)"
    "rp_profit_factor rep = profit_factor_of (ta_profit ?t) (ta_loss ?t)"
    by (simp_all add: rep_def trades_def get_performance_data_def Let_def split_beta)
  let ?s = "empty_tally (foldl queue_buy (\<lambda>_. []) (buys_of trades))"
  have counts: "ta_wins ?t + ta_losses ?t = length (ta_trades ?t)" "length (ta_trades ?t) \<le> length (sells_of trades)"
    using tally_counts [of ?s "sells_of trades"] by (simp_all add: realize_def empty_tally_def)
  have "0 \<le> ta_profit ?t" "0 \<le> ta_loss ?t"
    using tally_money [of ?s "sells_of trades"] by (simp_all add: realize_def empty_tally_def)
  then have f: "case profit_factor_of (ta_profit ?t) (ta_loss ?t) of None \<Rightarrow> True | Some f \<Rightarrow> 0 \<le> f"
    by (simp add: profit_factor_of_def fdiv_nonneg)
  show ?thesis unfolding Let_def trades_def [symmetric] rep_def [symmetric] rep
    using mdd_bounds counts win_rate_bounds f by auto
qed

section \<open>Witnesses\<close>

definition sample_trades :: "trade_row list" where
  "sample_trades = [\<lparr>tr_code = ''A'', tr_type = ''SELL'', tr_price = 110, tr_qty = 4, tr_at = 1\<rparr>,
     \<lparr>tr_code = ''A'', tr_type = ''BUY'', tr_price = 100, tr_qty = 6, tr_at = 2\<rparr>,
     \<lparr>tr_code = ''A'', tr_type = ''SELL'', tr_price = 90, tr_qty = 5, tr_at = 3\<rparr>]"

lemma matching_conserves_shares_witness:
  "matched_shares ''A'' (ta_trades (realize sample_trades)) = 6"
proof -
  have "\<forall>t \<in> set sample_trades. 0 < tr_qty t" by (simp add: sample_trades_def)
  moreover have "min (shares ''A'' (sells_of sample_trades)) (shares ''A'' (buys_of sample_trades)) = 6" by code_simp
  ultimately show ?thesis using matching_conserves_shares [of sample_trades "''A''"] by simp
qed

end
