(* ===== verification/Rate_Limiter.thy ===== *)
theory Rate_Limiter
  imports Py_Prelude
begin

text \<open>
  The rate limiter of the macro data clients, \<open>shared/macro_data/rate_limiter.py\<close>. Times are
  seconds of the local clock as rational numbers, midnights its multiples of 86400; the rounding
  of clock arithmetic is left out. The lock of a source makes each request one step: the limits
  are checked at \<open>now\<close>, the sleep ends at \<open>later\<close>, and the request is recorded then.
\<close>

section \<open>Configuration and state of a source\<close>

record limit_config =
  requests_per_minute :: nat
  daily_limit :: int
  burst_limit :: nat

record limit_state =
  minute_requests :: "rat list"
  daily_requests :: int
  daily_reset_time :: rat
  last_request_time :: rat

type_synonym limiter = "string \<Rightarrow> (limit_config \<times> limit_state) option"

text \<open>What \<open>wait_if_needed\<close> ends with: recorded, daily limit exceeded, or an exception.\<close>

datatype wait_outcome = Recorded | Rate_Exceeded rat | Limit_Error exn

definition next_midnight :: "rat \<Rightarrow> rat" where
  "next_midnight t = of_int (\<lfloor>t / 86400\<rfloor> + 1) * 86400"

definition fresh_state :: "rat \<Rightarrow> limit_state" where
  "fresh_state now = \<lparr>minute_requests = [], daily_requests = 0, daily_reset_time = next_midnight now, last_request_time = 0\<rparr>"

definition configure :: "rat \<Rightarrow> string \<Rightarrow> limit_config \<Rightarrow> limiter \<Rightarrow> limiter" where
  "configure now source c L = L(source \<mapsto> (c, fresh_state now))"

definition default_limits :: limit_config where
  "default_limits = \<lparr>requests_per_minute = 60, daily_limit = 10000, burst_limit = 10\<rparr>"

definition get_rate_limiter :: "rat \<Rightarrow> limiter" where
  "get_rate_limiter now =
     (let C = (\<lambda>m d. \<lparr>requests_per_minute = m, daily_limit = d, burst_limit = 10\<rparr>)
      in foldl (\<lambda>L (source, c). configure now source c L) (\<lambda>_. None)
        [(''finnhub'', C 60 5000), (''fred'', C 120 100000), (''bok_ecos'', C 30 50000), (''pykrx'', C 60 100000), (''rss'', C 30 10000)])"

section \<open>Operations\<close>

definition reset_daily :: "rat \<Rightarrow> limit_state \<Rightarrow> limit_state" where
  "reset_daily now st = (if daily_reset_time st \<le> now then st\<lparr>daily_requests := 0, daily_reset_time := next_midnight now\<rparr> else st)"

definition get_remaining :: "rat \<Rightarrow> string \<Rightarrow> limiter \<Rightarrow> (int \<times> int) \<times> limiter" where
  "get_remaining now source L = (case L source of
     None \<Rightarrow> ((0, 0), L)
   | Some (c, st) \<Rightarrow>
       let st1 = reset_daily now st;
           minute_count = length (filter (\<lambda>t. now - 60 < t) (minute_requests st1))
       in ((max 0 (int (requests_per_minute c) - int minute_count), max 0 (daily_limit c - daily_requests st1)),
           L(source \<mapsto> (c, st1))))"

text \<open>The wait that is needed; an allowance of 0 a minute reads the head of an empty queue.\<close>

definition check_source :: "limit_config \<Rightarrow> rat \<Rightarrow> limit_state \<Rightarrow> rat option res \<times> limit_state" where
  "check_source c now st =
     (let st1 = reset_daily now st
      in if daily_limit c \<le> daily_requests st1 then (Inr (Some (daily_reset_time st1 - now)), st1)
         else (let d = dropWhile (\<lambda>t. t < now - 60) (minute_requests st1); st2 = st1\<lparr>minute_requests := d\<rparr>
               in if requests_per_minute c \<le> length d
                  then (case d of [] \<Rightarrow> (Inl IndexError, st2)
                        | oldest # _ \<Rightarrow> (Inr (Some (max 0 (oldest + 60 - now + 1/10))), st2))
                  else (Inr None, st2)))"

definition check_rate_limit :: "rat \<Rightarrow> string \<Rightarrow> limiter \<Rightarrow> rat option res \<times> limiter" where
  "check_rate_limit now source L =
     (let L1 = (if L source = None then configure now source default_limits L else L)
      in case L1 source of
           None \<Rightarrow> (Inl (KeyError source), L1)
         | Some (c, st) \<Rightarrow> (let (r, st1) = check_source c now st in (r, L1(source \<mapsto> (c, st1)))))"

text \<open>The queue keeps its last 1000 entries.\<close>

definition push_request :: "rat \<Rightarrow> rat list \<Rightarrow> rat list" where
  "push_request now d = (if length d < 1000 then d @ [now] else tl d @ [now])"

definition record_source :: "rat \<Rightarrow> limit_state \<Rightarrow> limit_state" where
  "record_source now st = st\<lparr>minute_requests := push_request now (minute_requests st),
     daily_requests := daily_requests st + 1, last_request_time := now\<rparr>"

definition record_request :: "rat \<Rightarrow> string \<Rightarrow> limiter \<Rightarrow> limiter" where
  "record_request now source L = (case L source of None \<Rightarrow> L | Some (c, st) \<Rightarrow> L(source \<mapsto> (c, record_source now st)))"

definition wait_if_needed :: "rat \<Rightarrow> rat \<Rightarrow> string \<Rightarrow> limiter \<Rightarrow> wait_outcome \<times> limiter" where
  "wait_if_needed now later source L =
     (case check_rate_limit now source L of
        (Inl e, L1) \<Rightarrow> (Limit_Error e, L1)
      | (Inr None, L1) \<Rightarrow> (Recorded, record_request later source L1)
      | (Inr (Some w), L1) \<Rightarrow> if 3600 < w then (Rate_Exceeded w, L1) else (Recorded, record_request later source L1))"

text \<open>The sleep of \<open>wait_if_needed\<close>: when it may end.\<close>

definition wakes :: "rat \<Rightarrow> rat \<Rightarrow> string \<Rightarrow> limiter \<Rightarrow> bool" where
  "wakes now later source L \<longleftrightarrow> now \<le> later
     \<and> (case fst (check_rate_limit now source L) of Inr (Some w) \<Rightarrow> now + w \<le> later | _ \<Rightarrow> True)"

section \<open>Histories of a source\<close>

text \<open>
  The times of the recorded requests, oldest first, and the clock. The last argument becomes
  \<open>True\<close> when a request is recorded after a sleep for the daily limit.
\<close>

definition daily_full :: "limit_config \<Rightarrow> rat \<Rightarrow> limit_state \<Rightarrow> bool" where
  "daily_full c now st \<longleftrightarrow> daily_limit c \<le> daily_requests (reset_daily now st)"

inductive history :: "string \<Rightarrow> limit_config \<Rightarrow> limiter \<Rightarrow> rat list \<Rightarrow> rat \<Rightarrow> bool \<Rightarrow> bool"
  for source :: string and c :: limit_config where
  configured: "history source c (configure now source c L) [] now False"
| request: "history source c L h clock late \<Longrightarrow> clock \<le> now \<Longrightarrow> wakes now later source L
    \<Longrightarrow> wait_if_needed now later source L = (Recorded, L')
    \<Longrightarrow> history source c L' (h @ [later]) later (late \<or> daily_full c now (snd (the (L source))))"
| rejected: "history source c L h clock late \<Longrightarrow> clock \<le> now
    \<Longrightarrow> wait_if_needed now later source L = (r, L') \<Longrightarrow> r \<noteq> Recorded \<Longrightarrow> history source c L' h now late"
| asked: "history source c L h clock late \<Longrightarrow> clock \<le> now \<Longrightarrow> history source c (snd (get_remaining now source L)) h now late"

text \<open>
  What the queue \<open>d\<close> says about the history \<open>h\<close> at time \<open>b\<close>: it holds all requests of the last
  minute and at most one more than the limit, and requests the limit apart are over a minute apart.
\<close>

definition spaced :: "nat \<Rightarrow> rat list \<Rightarrow> bool" where
  "spaced n h \<longleftrightarrow> (\<forall>i. n \<le> i \<longrightarrow> i < length h \<longrightarrow> h ! (i - n) + 60 < h ! i)"

definition tracks :: "nat \<Rightarrow> rat \<Rightarrow> rat list \<Rightarrow> rat list \<Rightarrow> bool" where
  "tracks n b d h \<longleftrightarrow> sorted h \<and> (\<forall>t \<in> set h. t \<le> b) \<and> (\<exists>old. h = old @ d \<and> (\<forall>t \<in> set old. t < b - 60))
     \<and> length d \<le> n + 1 \<and> (length d = n + 1 \<longrightarrow> hd d < b - 60) \<and> spaced n h"

lemma tracksI:
  assumes "sorted h" "\<And>t. t \<in> set h \<Longrightarrow> t \<le> b" "h = old @ d" "\<And>t. t \<in> set old \<Longrightarrow> t < b - 60" "length d \<le> n + 1"
    "length d = n + 1 \<Longrightarrow> hd d < b - 60" "spaced n h"
  shows "tracks n b d h"
  using assms unfolding tracks_def by blast

lemma tracksE:
  assumes "tracks n b d h"
  obtains old where "sorted h" "\<And>t. t \<in> set h \<Longrightarrow> t \<le> b" "h = old @ d" "\<And>t. t \<in> set old \<Longrightarrow> t < b - 60" "length d \<le> n + 1"
    "length d = n + 1 \<Longrightarrow> hd d < b - 60" "spaced n h"
  using assms unfolding tracks_def by blast

lemma tracks_later:
  assumes "tracks n b d h" "b \<le> b'"
  shows "tracks n b' d h"
  using assms(1)
proof (rule tracksE)
  fix old
  assume a: "sorted h" "\<And>t. t \<in> set h \<Longrightarrow> t \<le> b" "h = old @ d" "\<And>t. t \<in> set old \<Longrightarrow> t < b - 60" "length d \<le> n + 1"
    "length d = n + 1 \<Longrightarrow> hd d < b - 60" "spaced n h"
  show ?thesis
    by (rule tracksI [OF a(1) _ a(3) _ a(5) _ a(7)]) (use a(2,4,6) assms(2) in \<open>force+\<close>)
qed

lemma tracks_clean:
  assumes "tracks n b d h" "b \<le> now"
  shows "tracks n now (dropWhile (\<lambda>t. t < now - 60) d) h" "length (dropWhile (\<lambda>t. t < now - 60) d) \<le> n"
proof -
  let ?d = "dropWhile (\<lambda>t. t < now - 60) d" and ?gone = "takeWhile (\<lambda>t. t < now - 60) d"
  from assms(1) obtain old where old: "sorted h" "\<And>t. t \<in> set h \<Longrightarrow> t \<le> b" "h = old @ d" "\<And>t. t \<in> set old \<Longrightarrow> t < b - 60"
    "length d \<le> n + 1" "length d = n + 1 \<Longrightarrow> hd d < b - 60" "spaced n h" by (rule tracksE) blast
  show len: "length ?d \<le> n"
  proof (cases "length d = n + 1")
    case True
    with old(6) assms(2) have "hd d < now - 60" "d \<noteq> []" by auto
    then have "?d = dropWhile (\<lambda>t. t < now - 60) (tl d)" by (cases d) auto
    then show ?thesis using True length_dropWhile_le [of "\<lambda>t. t < now - 60" "tl d"] by simp
  next
    case False
    then show ?thesis using old(5) length_dropWhile_le [of "\<lambda>t. t < now - 60" d] by simp
  qed
  show "tracks n now ?d h"
  proof (rule tracksI [OF old(1) _ _ _ _ _ old(7)])
    show "h = (old @ ?gone) @ ?d" using old(3) by simp
    show "t < now - 60" if "t \<in> set (old @ ?gone)" for t
      using that old(4) assms(2) by (fastforce dest: set_takeWhileD)
    show "t \<le> now" if "t \<in> set h" for t using old(2) [OF that] assms(2) by simp
  qed (use len in simp_all)
qed

lemma tracks_push:
  assumes "tracks n now d h" "length d \<le> n" "n \<le> 1000" "0 < n" "now \<le> later"
    and wait: "length d = n \<Longrightarrow> hd d + 60 < later"
  shows "tracks n later (push_request later d) (h @ [later])"
proof -
  obtain old where old: "h = old @ d" "\<forall>t \<in> set old. t < now - 60" using assms(1) by (auto simp: tracks_def)
  have le: "\<forall>t \<in> set h. t \<le> now" and srt: "sorted h" and sp: "spaced n h" using assms(1) by (simp_all add: tracks_def)
  have "h ! (length h - n) + 60 < later" if "n \<le> length h"
  proof (cases "length d = n")
    case True
    then have "h ! (length h - n) = hd d" using assms(4) by (cases d) (auto simp: old(1) nth_append)
    with wait True show ?thesis by simp
  next
    case False
    then have "length h - n < length old" using assms(2) that by (simp add: old(1))
    then have "h ! (length h - n) \<in> set old" by (simp add: old(1) nth_append)
    with old(2) assms(5) show ?thesis by fastforce
  qed
  then have sp': "spaced n (h @ [later])" using sp assms(4) by (auto simp: spaced_def nth_append less_Suc_eq)
  have srt': "sorted (h @ [later])" "\<forall>t \<in> set (h @ [later]). t \<le> later"
    using srt le assms(5) by (auto simp: sorted_append)
  have gone: "\<forall>t \<in> set old. t < later - 60" using old(2) assms(5) by fastforce
  show ?thesis
  proof (cases "length d < 1000")
    case True
    then have "hd (d @ [later]) < later - 60" if "length d = n" using wait [OF that] assms(4) that by (cases d) auto
    then have "push_request later d = d @ [later]" "length (d @ [later]) = n + 1 \<longrightarrow> hd (d @ [later]) < later - 60"
      using True by (auto simp: push_request_def)
    moreover have "h @ [later] = old @ (d @ [later])" by (simp add: old(1))
    ultimately show ?thesis using srt' sp' gone assms(2) unfolding tracks_def by auto
  next
    case False
    with assms(2,3) have n: "length d = n" "n = 1000" by simp_all
    then obtain x xs where d: "d = x # xs" using assms(4) by (cases d) auto
    have "push_request later d = xs @ [later]" using False by (simp add: push_request_def d)
    moreover have "h @ [later] = (old @ [x]) @ (xs @ [later])" by (simp add: old(1) d)
    moreover have "\<forall>t \<in> set (old @ [x]). t < later - 60" using gone wait [OF n(1)] by (auto simp: d)
    moreover have "length (xs @ [later]) = n" using n by (simp add: d)
    ultimately show ?thesis using srt' sp' unfolding tracks_def by auto
  qed
qed

lemma minute_reset [simp]: "minute_requests (reset_daily now st) = minute_requests st"
  by (simp add: reset_daily_def)

lemma check_source_minute:
  assumes "\<not> daily_full c now st" "0 < requests_per_minute c"
  shows "check_source c now st = (let d = dropWhile (\<lambda>t. t < now - 60) (minute_requests st)
    in (Inr (if requests_per_minute c \<le> length d then Some (max 0 (hd d + 60 - now + 1/10)) else None),
        (reset_daily now st)\<lparr>minute_requests := d\<rparr>))"
proof -
  define d where "d = dropWhile (\<lambda>t. t < now - 60) (minute_requests st)"
  show ?thesis
    using assms unfolding check_source_def daily_full_def Let_def minute_reset d_def [symmetric] by (cases d) simp_all
qed

lemma check_source_keeps: "minute_requests (snd (check_source c now st)) = minute_requests st
    \<or> minute_requests (snd (check_source c now st)) = dropWhile (\<lambda>t. t < now - 60) (minute_requests st)"
  by (auto simp: check_source_def Let_def split: list.split)

lemma check_rate_limit_known:
  assumes "L source = Some (c, st)"
  shows "check_rate_limit now source L = (fst (check_source c now st), L(source \<mapsto> (c, snd (check_source c now st))))"
  using assms by (simp add: check_rate_limit_def Let_def split_beta)

lemma wait_if_needed_known:
  assumes "L source = Some (c, st)" "wait_if_needed now later source L = (r, L')"
  shows "r = Recorded \<Longrightarrow> L' source = Some (c, record_source later (snd (check_source c now st)))"
    "r \<noteq> Recorded \<Longrightarrow> L' source = Some (c, snd (check_source c now st))"
  using assms(2) by (auto simp: wait_if_needed_def check_rate_limit_known [where L = L and source = source, OF assms(1)] record_request_def
      split: sum.splits option.splits if_splits)

lemma history_tracks:
  assumes "0 < requests_per_minute c" "requests_per_minute c \<le> 1000"
  shows "history source c L h clock late \<Longrightarrow> \<not> late
    \<Longrightarrow> \<exists>st. L source = Some (c, st) \<and> tracks (requests_per_minute c) clock (minute_requests st) h"
proof (induction rule: history.induct)
  case (configured now L)
  have "tracks (requests_per_minute c) now [] []" by (rule tracksI [where old = "[]"]) (simp_all add: spaced_def)
  then show ?case by (auto simp: configure_def fresh_state_def)
next
  case (request L h clock late now later L')
  then obtain st where st: "L source = Some (c, st)" "tracks (requests_per_minute c) clock (minute_requests st) h"
    and free: "\<not> daily_full c now st" by auto
  let ?d = "dropWhile (\<lambda>t. t < now - 60) (minute_requests st)"
  note clean = tracks_clean [OF st(2) request.hyps(2)]
  have cs: "check_source c now st = (Inr (if requests_per_minute c \<le> length ?d then Some (max 0 (hd ?d + 60 - now + 1/10)) else None),
      (reset_daily now st)\<lparr>minute_requests := ?d\<rparr>)"
    using check_source_minute [OF free assms(1)] by (simp add: Let_def)
  have now: "now \<le> later" and slept: "hd ?d + 60 < later" if "length ?d = requests_per_minute c"
    using request.hyps(3) that by (auto simp: wakes_def check_rate_limit_known [where L = L and source = source, OF st(1)] cs)
  have later: "now \<le> later" using request.hyps(3) by (simp add: wakes_def)
  have "tracks (requests_per_minute c) later (push_request later ?d) (h @ [later])"
    by (rule tracks_push [OF clean assms(2,1) later slept])
  moreover have "L' source = Some (c, record_source later (snd (check_source c now st)))"
    by (rule wait_if_needed_known(1) [where L = L and source = source, OF st(1) request.hyps(4) refl])
  ultimately show ?case by (auto simp: cs record_source_def)
next
  case (rejected L h clock late now later r L')
  then obtain st where st: "L source = Some (c, st)" "tracks (requests_per_minute c) clock (minute_requests st) h" by auto
  have "L' source = Some (c, snd (check_source c now st))"
    by (rule wait_if_needed_known(2) [where L = L and source = source, OF st(1) rejected.hyps(3,4)])
  then show ?case
    using check_source_keeps [of c now st] tracks_clean(1) [OF st(2) rejected.hyps(2)] tracks_later [OF st(2) rejected.hyps(2)]
    by auto
next
  case (asked L h clock late now)
  then obtain st where st: "L source = Some (c, st)" "tracks (requests_per_minute c) clock (minute_requests st) h" by auto
  then show ?case using tracks_later [OF st(2) asked.hyps(2)] by (simp add: get_remaining_def Let_def)
qed

text \<open>
  Claim C25. Requests are spaced: as long as no request slept for the daily limit, two recorded
  requests that are \<open>requests_per_minute\<close> apart are more than 60 seconds apart, so no window of a
  minute holds more requests than allowed, however the calls, questions and rejections interleave.
\<close>

theorem requests_spaced:
  assumes "history source c L h clock False" and "0 < requests_per_minute c" and "requests_per_minute c \<le> 1000"
    and "requests_per_minute c \<le> i" and "i < length h"
  shows "h ! (i - requests_per_minute c) + 60 < h ! i"
  using history_tracks [OF assms(2,3,1)] assms(4,5) by (auto simp: tracks_def spaced_def)

lemma wait_recorded:
  assumes "fst (wait_if_needed now later source L) = Recorded"
  shows "wait_if_needed now later source L = (Recorded, record_request later source (snd (check_rate_limit now source L)))"
  using assms by (auto simp: wait_if_needed_def split: prod.splits sum.splits option.splits if_splits)

definition slow_cfg :: limit_config where
  "slow_cfg = \<lparr>requests_per_minute = 1, daily_limit = 3, burst_limit = 10\<rparr>"

lemma two_requests: "history ''x'' slow_cfg (record_request (160 + 1/10) ''x'' (snd (check_rate_limit 101 ''x''
      (record_request 100 ''x'' (snd (check_rate_limit 100 ''x'' (configure 100 ''x'' slow_cfg Map.empty))))))) [100, 160 + 1/10] (160 + 1/10) False"
proof -
  let ?L0 = "configure 100 ''x'' slow_cfg Map.empty"
  let ?L1 = "record_request 100 ''x'' (snd (check_rate_limit 100 ''x'' ?L0))"
  let ?L2 = "record_request (160 + 1/10) ''x'' (snd (check_rate_limit 101 ''x'' ?L1))"
  have h0: "history ''x'' slow_cfg ?L0 [] 100 False" by (rule history.configured)
  have w1: "wakes 100 100 ''x'' ?L0" "fst (wait_if_needed 100 100 ''x'' ?L0) = Recorded"
    "\<not> daily_full slow_cfg 100 (snd (the (?L0 ''x'')))" by code_simp+
  have h1: "history ''x'' slow_cfg ?L1 [100] 100 False"
    using history.request [OF h0 _ w1(1) wait_recorded [OF w1(2)]] w1(3) by simp
  have w2: "wakes 101 (160 + 1/10) ''x'' ?L1" "fst (wait_if_needed 101 (160 + 1/10) ''x'' ?L1) = Recorded"
    "\<not> daily_full slow_cfg 101 (snd (the (?L1 ''x'')))" by code_simp+
  show ?thesis using history.request [OF h1 _ w2(1) wait_recorded [OF w2(2)]] w2(3) by simp
qed

lemma requests_spaced_witness: "(100 :: rat) + 60 < 160 + 1/10 \<and> requests_per_minute slow_cfg = 1"
  using requests_spaced [OF two_requests, of 1] by (simp add: slow_cfg_def)

text \<open>
  In the last hour before midnight a source that has used up its day is not refused: the
  request sleeps until midnight and is then recorded without a check of the minute and on the
  counter of the old day, which ends above the daily limit.
\<close>

theorem daily_sleep_exceeds_limit:
  assumes "L source = Some (c, st)" and "daily_full c now st"
    and "daily_reset_time (reset_daily now st) - now \<le> 3600" and "wait_if_needed now later source L = (r, L')"
  shows "r = Recorded \<and> (\<exists>st'. L' source = Some (c, st') \<and> daily_limit c < daily_requests st'
    \<and> minute_requests st' = push_request later (minute_requests st))"
proof -
  have cs: "check_source c now st = (Inr (Some (daily_reset_time (reset_daily now st) - now)), reset_daily now st)"
    using assms(2) by (simp add: check_source_def daily_full_def Let_def)
  have "r = Recorded"
    using assms(3,4) by (simp add: wait_if_needed_def check_rate_limit_known [where L = L and source = source, OF assms(1)] cs)
  then show ?thesis
    using wait_if_needed_known(1) [where L = L and source = source, OF assms(1,4)] assms(2)
    by (simp add: cs record_source_def daily_full_def)
qed

lemma daily_sleep_exceeds_limit_witness:
  "fst (wait_if_needed 86391 86400 ''x'' [''x'' \<mapsto> (slow_cfg,
     \<lparr>minute_requests = [86390], daily_requests = 3, daily_reset_time = 86400, last_request_time = 86390\<rparr>)]) = Recorded"
proof -
  let ?st = "\<lparr>minute_requests = [86390], daily_requests = 3, daily_reset_time = 86400, last_request_time = 86390\<rparr>"
  have "daily_full slow_cfg 86391 ?st" "daily_reset_time (reset_daily 86391 ?st) - 86391 \<le> 3600" by code_simp+
  then show ?thesis
    using daily_sleep_exceeds_limit [of "[''x'' \<mapsto> (slow_cfg, ?st)]" "''x''" slow_cfg ?st 86391 86400
      "fst (wait_if_needed 86391 86400 ''x'' [''x'' \<mapsto> (slow_cfg, ?st)])" "snd (wait_if_needed 86391 86400 ''x'' [''x'' \<mapsto> (slow_cfg, ?st)])"]
    by simp
qed

end
