(* ===== verification/Macro_Signal.thy ===== *)
theory Macro_Signal
  imports Py_Num Sector_Classifier
begin

text \<open>
  The macro signal from messages of Telegram channels: \<open>shared/macro_insight/macro_sentiment_analyzer.py\<close>
  (keywords, sentiment of a message, aggregation) and \<open>macro_signal_aggregator.py\<close> (the cache of
  messages and of the signal, the adjustment offered to the regime). The language model is the
  parameter \<open>llm\<close>: the score and confidence read from its answer, \<open>None\<close> when there is no
  provider, no JSON or an exception. Sets become lists without repetition; time is in minutes.
\<close>

section \<open>Constants and keywords\<close>

definition MAX_EXTERNAL_WEIGHT :: flt where "MAX_EXTERNAL_WEIGHT = lit (1/10)"
definition SIGNAL_THRESHOLD_RISK_ON :: flt where "SIGNAL_THRESHOLD_RISK_ON = lit (3/10)"
definition SIGNAL_THRESHOLD_RISK_OFF :: flt where "SIGNAL_THRESHOLD_RISK_OFF = lit (- 3/10)"
definition MIN_CONFIDENCE :: flt where "MIN_CONFIDENCE = lit (1/2)"
definition MIN_CONTRIBUTING_CHANNELS :: nat where "MIN_CONTRIBUTING_CHANNELS = 2"
definition SIGNAL_CACHE_TTL_MINUTES :: rat where "SIGNAL_CACHE_TTL_MINUTES = 30"
definition MAX_CACHED_MESSAGES :: nat where "MAX_CACHED_MESSAGES = 100"

datatype signal_type = RISK_ON | NEUTRAL | RISK_OFF_HINT

definition MACRO_TOPIC_KEYWORDS :: "(string \<times> string list) list" where
  "MACRO_TOPIC_KEYWORDS =
    [(utf8 [234, 184, 136, 235, 166, 172],
       [utf8 [234, 184, 136, 235, 166, 172],
        utf8 [234, 184, 176, 236, 164, 128, 234, 184, 136, 235, 166, 172],
        ''FOMC'',
        ''Fed'',
        utf8 [236, 151, 176, 236, 164, 128],
        utf8 [237, 140, 140, 236, 155, 148],
        utf8 [237, 134, 181, 237, 153, 148, 236, 160, 149, 236, 177, 133],
        utf8 [234, 184, 180, 236, 182, 149],
        utf8 [236, 153, 132, 237, 153, 148]]),
     (utf8 [236, 157, 184, 237, 148, 140, 235, 160, 136, 236, 157, 180, 236, 133, 152],
       [utf8 [236, 157, 184, 237, 148, 140, 235, 160, 136, 236, 157, 180, 236, 133, 152],
        utf8 [235, 172, 188, 234, 176, 128],
        ''CPI'',
        ''PCE'',
        utf8 [235, 148, 148, 237, 148, 140, 235, 160, 136, 236, 157, 180, 236, 133, 152]]),
     (utf8 [237, 153, 152, 236, 156, 168],
       [utf8 [237, 153, 152, 236, 156, 168],
        utf8 [235, 139, 172, 235, 159, 172],
        utf8 [236, 155, 144, 235, 139, 172, 235, 159, 172],
        utf8 [236, 151, 148, 237, 153, 148],
        utf8 [235, 139, 172, 235, 159, 172, 236, 157, 184, 235, 141, 177, 236, 138, 164],
        ''DXY'']),
     (utf8 [234, 178, 189, 234, 184, 176],
       [utf8 [234, 178, 189, 234, 184, 176],
        ''GDP'',
        utf8 [236, 132, 177, 236, 158, 165, 235, 165, 160],
        utf8 [236, 185, 168, 236, 178, 180],
        utf8 [235, 166, 172, 236, 132, 184, 236, 133, 152],
        utf8 [234, 178, 189, 236, 176, 169, 235, 165, 153],
        utf8 [236, 151, 176, 236, 176, 169, 235, 165, 153]]),
     (utf8 [235, 172, 180, 236, 151, 173],
       [utf8 [234, 180, 128, 236, 132, 184],
        utf8 [235, 172, 180, 236, 151, 173],
        utf8 [237, 138, 184, 235, 159, 188, 237, 148, 132],
        utf8 [235, 176, 148, 236, 157, 180, 235, 147, 160],
        utf8 [235, 175, 184, 236, 164, 145],
        utf8 [236, 136, 152, 236, 182, 156],
        utf8 [236, 136, 152, 236, 158, 133]]),
     (utf8 [236, 167, 128, 236, 160, 149, 237, 149, 153],
       [utf8 [236, 167, 128, 236, 160, 149, 237, 149, 153],
        utf8 [236, 160, 132, 236, 159, 129],
        utf8 [236, 154, 176, 237, 129, 172, 235, 157, 188, 236, 157, 180, 235, 130, 152],
        utf8 [235, 140, 128, 235, 167, 140],
        utf8 [236, 164, 145, 235, 143, 153],
        utf8 [236, 157, 180, 235, 158, 128]]),
     (utf8 [236, 156, 160, 235, 143, 153, 236, 132, 177],
       [utf8 [236, 156, 160, 235, 143, 153, 236, 132, 177],
        ''QE'',
        ''QT'',
        utf8 [236, 150, 145, 236, 160, 129, 236, 153, 132, 237, 153, 148],
        utf8 [236, 150, 145, 236, 160, 129, 234, 184, 180, 236, 182, 149],
        utf8 [236, 158, 144, 234, 184, 136]])]"

definition POSITIVE_KEYWORDS :: "string list" where
  "POSITIVE_KEYWORDS =
    [utf8 [236, 131, 129, 236, 138, 185],
     utf8 [234, 184, 137, 235, 147, 177],
     utf8 [234, 176, 149, 236, 132, 184],
     utf8 [237, 152, 184, 236, 161, 176],
     utf8 [234, 176, 156, 236, 132, 160],
     utf8 [237, 154, 140, 235, 179, 181],
     utf8 [236, 131, 129, 237, 150, 165],
     utf8 [235, 167, 164, 236, 136, 152],
     utf8 [234, 184, 176, 235, 140, 128],
     utf8 [234, 184, 141, 236, 160, 149],
     utf8 [236, 153, 132, 237, 153, 148],
     utf8 [235, 182, 128, 236, 150, 145],
     utf8 [237, 152, 184, 236, 158, 172],
     utf8 [235, 143, 140, 237, 140, 140],
     utf8 [235, 176, 152, 235, 147, 177]]"

definition NEGATIVE_KEYWORDS :: "string list" where
  "NEGATIVE_KEYWORDS =
    [utf8 [237, 149, 152, 235, 157, 189],
     utf8 [234, 184, 137, 235, 157, 189],
     utf8 [236, 149, 189, 236, 132, 184],
     utf8 [235, 182, 128, 236, 167, 132],
     utf8 [236, 149, 133, 237, 153, 148],
     utf8 [236, 154, 176, 235, 160, 164],
     utf8 [237, 149, 152, 237, 150, 165],
     utf8 [235, 167, 164, 235, 143, 132],
     utf8 [235, 182, 136, 236, 149, 136],
     utf8 [235, 182, 128, 236, 160, 149],
     utf8 [234, 184, 180, 236, 182, 149],
     utf8 [235, 166, 172, 236, 138, 164, 237, 129, 172],
     utf8 [236, 149, 133, 236, 158, 172],
     utf8 [236, 157, 180, 237, 131, 136],
     utf8 [235, 182, 149, 234, 180, 180],
     utf8 [236, 185, 168, 236, 178, 180]]"

section \<open>Sentiment of a message\<close>

definition extract_macro_topics :: "string \<Rightarrow> string list" where
  "extract_macro_topics content =
     map fst (filter (\<lambda>(topic, keywords). list_ex (\<lambda>kw. substr kw content) keywords) MACRO_TOPIC_KEYWORDS)"

definition extract_key_phrases :: "string \<Rightarrow> string list \<times> string list" where
  "extract_key_phrases content =
     (filter (\<lambda>kw. substr kw content) POSITIVE_KEYWORDS, filter (\<lambda>kw. substr kw content) NEGATIVE_KEYWORDS)"

definition compute_rule_based_sentiment :: "string \<Rightarrow> flt \<times> flt" where
  "compute_rule_based_sentiment content =
     (let (positive, negative) = extract_key_phrases content;
          pos_count = length positive; neg_count = length negative; both = pos_count + neg_count
      in if both = 0 then (Fin 0, lit (3/10))
         else (rnd ((of_nat pos_count - of_nat neg_count) / of_nat both),
               py_min (lit (9/10)) (xadd (lit (4/10)) (xmul (xint (int both)) (lit (1/10))))))"

record sentiment =
  se_channel :: string
  se_score :: flt
  se_confidence :: flt
  se_topics :: "string list"
  se_phrases :: "string list"
  se_weight :: flt

record channel_message =
  cm_content :: string
  cm_channel :: string
  cm_role :: string
  cm_weight :: flt

type_synonym llm = "string \<Rightarrow> (flt \<times> flt) option"

text \<open>\<open>\d{6}\.KS\<close> somewhere in the text, with ASCII digits.\<close>

fun names_a_stock :: "string \<Rightarrow> bool" where
  "names_a_stock [] = False"
| "names_a_stock (c # cs) =
     (length (c # cs) \<ge> 9 \<and> list_all (\<lambda>d. digit_val d \<noteq> None) (take 6 (c # cs)) \<and> take 3 (drop 6 (c # cs)) = ''.KS''
      \<or> names_a_stock cs)"

definition analyze_with_llm :: "llm option \<Rightarrow> string \<Rightarrow> (flt \<times> flt) option" where
  "analyze_with_llm llm content = (case llm of
     None \<Rightarrow> None
   | Some f \<Rightarrow> (case f content of
        None \<Rightarrow> None
      | Some (score, conf) \<Rightarrow> Some (clamp (- 1) 1 score, clamp 0 1 conf)))"

definition analyze_content :: "llm option \<Rightarrow> channel_message \<Rightarrow> sentiment" where
  "analyze_content llm m =
     (let content = cm_content m;
          (positive, negative) = extract_key_phrases content;
          (score, conf) = (case analyze_with_llm llm content of
             Some r \<Rightarrow> r | None \<Rightarrow> compute_rule_based_sentiment content);
          biased = cm_role m = ''stock_reference'' \<and> names_a_stock content
      in \<lparr>se_channel = cm_channel m, se_score = score,
          se_confidence = (if biased then xmul conf (lit (7/10)) else conf),
          se_topics = extract_macro_topics content, se_phrases = positive @ negative,
          se_weight = (if biased then xmul (cm_weight m) (lit (1/2)) else cm_weight m)\<rparr>)"

text \<open>A message whose fields cannot be read is \<open>None\<close>: it is logged and left out.\<close>

definition analyze_batch :: "llm option \<Rightarrow> channel_message option list \<Rightarrow> sentiment list" where
  "analyze_batch llm messages = map (analyze_content llm) (concat (map (\<lambda>m. case m of None \<Rightarrow> [] | Some x \<Rightarrow> [x]) messages))"

section \<open>Aggregation\<close>

datatype influence =
    No_Data | Low_Confidence | Normal | Insufficient_Channels | Hint_Alone | Low_Aggregated_Confidence | No_Cached_Messages

record macro_signal =
  sg_type :: signal_type
  sg_score :: flt
  sg_channels :: nat
  sg_messages :: nat
  sg_confidence :: flt
  sg_weight :: flt
  sg_influences :: bool
  sg_reason :: influence
  sg_topics :: "string list"
  sg_breakdown :: "(string \<times> flt) list"
  sg_positive :: nat
  sg_negative :: nat

definition neutral_signal :: "nat \<Rightarrow> influence \<Rightarrow> macro_signal" where
  "neutral_signal n reason = \<lparr>sg_type = NEUTRAL, sg_score = Fin 0, sg_channels = 0, sg_messages = n, sg_confidence = Fin 0,
     sg_weight = Fin 0, sg_influences = False, sg_reason = reason, sg_topics = [], sg_breakdown = [], sg_positive = 0, sg_negative = 0\<rparr>"

definition card_names :: "sentiment list \<Rightarrow> nat" where
  "card_names rs = length (remdups (map se_channel rs))"

definition xsum :: "flt list \<Rightarrow> flt" where "xsum xs = foldl xadd (Fin 0) xs"

definition judge_influence :: "nat \<Rightarrow> signal_type \<Rightarrow> flt \<Rightarrow> bool \<times> influence" where
  "judge_influence channels kind conf =
     (let (inf1, why1) = (if channels < MIN_CONTRIBUTING_CHANNELS then (False, Insufficient_Channels) else (True, Normal));
          (inf2, why2) = (if kind = RISK_OFF_HINT then (False, Hint_Alone) else (inf1, why1))
      in if xlt conf (lit (6/10)) then (False, Low_Aggregated_Confidence) else (inf2, why2))"

definition get_aggregated_signal :: "sentiment list \<Rightarrow> macro_signal" where
  "get_aggregated_signal results =
     (if results = [] then neutral_signal 0 No_Data
      else let rs = filter (\<lambda>r. xle MIN_CONFIDENCE (se_confidence r)) results
      in if rs = [] then neutral_signal (length results) Low_Confidence
         else
           let n = xint (int (length rs));
               total_weight = xsum (map (\<lambda>r. xmul (se_weight r) (se_confidence r)) rs);
               score = (if xeq total_weight (Fin 0) then xdiv (xsum (map se_score rs)) n
                        else xdiv (xsum (map (\<lambda>r. xmul (xmul (se_score r) (se_weight r)) (se_confidence r)) rs)) total_weight);
               channels = card_names rs;
               conf = xdiv (xsum (map se_confidence rs)) n;
               kind = (if xle SIGNAL_THRESHOLD_RISK_ON score then RISK_ON
                       else if xle score SIGNAL_THRESHOLD_RISK_OFF then RISK_OFF_HINT else NEUTRAL);
               (inf3, why3) = judge_influence channels kind conf
           in \<lparr>sg_type = kind, sg_score = score, sg_channels = channels, sg_messages = length results, sg_confidence = conf,
               sg_weight = (if inf3 then py_min MAX_EXTERNAL_WEIGHT (xmul conf (lit (15/100))) else Fin 0),
               sg_influences = inf3, sg_reason = why3,
               sg_topics = remdups (concat (map se_topics rs)),
               sg_breakdown = foldl (\<lambda>d r. dict_set (se_channel r) (se_score r) d) [] rs,
               sg_positive = length (filter (\<lambda>r. xlt (Fin 0) (se_score r)) rs),
               sg_negative = length (filter (\<lambda>r. xlt (se_score r) (Fin 0)) rs)\<rparr>)"

definition analyze_macro_messages :: "llm option \<Rightarrow> channel_message option list \<Rightarrow> macro_signal" where
  "analyze_macro_messages llm messages = get_aggregated_signal (analyze_batch llm messages)"

section \<open>The cache and the adjustment\<close>

record signal_cache =
  sc_signal :: "(macro_signal \<times> rat \<times> nat) option"
  sc_messages :: "channel_message option list"

definition empty_cache :: signal_cache where "empty_cache = \<lparr>sc_signal = None, sc_messages = []\<rparr>"

definition add_message :: "channel_message option \<Rightarrow> signal_cache \<Rightarrow> signal_cache" where
  "add_message m c =
     (let ms = sc_messages c @ [m]
      in \<lparr>sc_signal = None,
          sc_messages = (if MAX_CACHED_MESSAGES < length ms then drop (length ms - MAX_CACHED_MESSAGES) ms else ms)\<rparr>)"

definition set_signal :: "rat \<Rightarrow> macro_signal \<Rightarrow> nat \<Rightarrow> signal_cache \<Rightarrow> signal_cache" where
  "set_signal now s n c = c\<lparr>sc_signal := Some (s, now, n)\<rparr>"

definition get_signal :: "rat \<Rightarrow> signal_cache \<Rightarrow> macro_signal option" where
  "get_signal now c = (case sc_signal c of
     None \<Rightarrow> None | Some (s, created, _) \<Rightarrow> if now - created < SIGNAL_CACHE_TTL_MINUTES then Some s else None)"

definition get_current_signal :: "llm option \<Rightarrow> bool \<Rightarrow> rat \<Rightarrow> signal_cache \<Rightarrow> macro_signal \<times> signal_cache" where
  "get_current_signal llm force_refresh now c =
     (case (if force_refresh then None else get_signal now c) of
        Some s \<Rightarrow> (s, c)
      | None \<Rightarrow> if sc_messages c = [] then (neutral_signal 0 No_Cached_Messages, c)
          else (let s = get_aggregated_signal (analyze_batch llm (sc_messages c))
                in (s, set_signal now s (length (sc_messages c)) c)))"

datatype direction = Bullish | Neutral_Direction | Bearish_Hint

record adjustment =
  ad_adjust :: bool
  ad_weight :: flt
  ad_direction :: direction
  ad_signal :: macro_signal

definition get_regime_adjustment :: "llm option \<Rightarrow> rat \<Rightarrow> signal_cache \<Rightarrow> adjustment \<times> signal_cache" where
  "get_regime_adjustment llm now c =
     (let (s, c1) = get_current_signal llm False now c;
          a = \<lparr>ad_adjust = False, ad_weight = Fin 0, ad_direction = Neutral_Direction, ad_signal = s\<rparr>
      in (if \<not> sg_influences s then a
          else case sg_type s of
            RISK_ON \<Rightarrow> a\<lparr>ad_adjust := True, ad_weight := sg_weight s, ad_direction := Bullish\<rparr>
          | RISK_OFF_HINT \<Rightarrow> a\<lparr>ad_direction := Bearish_Hint\<rparr>
          | NEUTRAL \<Rightarrow> a, c1))"

section \<open>The limits of the signal\<close>

definition sound_signal :: "macro_signal \<Rightarrow> bool" where
  "sound_signal s \<longleftrightarrow> between 0 (fl (1/10)) (sg_weight s) \<and> (\<not> sg_influences s \<longrightarrow> sg_weight s = Fin 0)
     \<and> (sg_influences s \<longrightarrow> 2 \<le> sg_channels s \<and> sg_type s \<noteq> RISK_OFF_HINT \<and> \<not> xlt (sg_confidence s) (lit (6/10)))"

lemma tenth_nonneg: "0 \<le> fl (1/10)" "0 \<le> fl (15/100)" "0 \<le> fl (6/10)"
  by (simp_all add: fl_nonneg)

lemma neutral_sound [simp]: "sound_signal (neutral_signal n r)"
  by (simp add: sound_signal_def neutral_signal_def tenth_nonneg)

lemma weight_between:
  assumes "\<not> xlt conf (lit (6/10))"
  shows "between 0 (fl (1/10)) (py_min MAX_EXTERNAL_WEIGHT (xmul conf (lit (15/100))))"
proof -
  have "atleast 0 conf" using assms tenth_nonneg(3) by (cases conf) (auto simp: lit_def)
  then have "atleast 0 (xmul conf (lit (15/100)))" unfolding lit_def by (intro atleast_mul tenth_nonneg)
  then show ?thesis unfolding MAX_EXTERNAL_WEIGHT_def lit_def by (intro min_atleast tenth_nonneg)
qed

lemma judge_allows:
  assumes "fst (judge_influence channels kind conf)"
  shows "2 \<le> channels" "kind \<noteq> RISK_OFF_HINT" "\<not> xlt conf (lit (6/10))"
  using assms by (auto simp: judge_influence_def MIN_CONTRIBUTING_CHANNELS_def Let_def simp del: One_nat_def split: if_splits)

lemma aggregated_sound [simp]: "sound_signal (get_aggregated_signal results)"
proof -
  define rs where "rs = filter (\<lambda>r. xle MIN_CONFIDENCE (se_confidence r)) results"
  define conf where "conf = xdiv (xsum (map se_confidence rs)) (xint (int (length rs)))"
  show ?thesis
  proof (cases "results = [] \<or> rs = []")
    case True
    then show ?thesis unfolding get_aggregated_signal_def rs_def [symmetric] by (auto simp: Let_def)
  next
    case False
    then obtain kind ch where
      "sg_type (get_aggregated_signal results) = kind" "sg_channels (get_aggregated_signal results) = ch"
      "sg_confidence (get_aggregated_signal results) = conf"
      "sg_influences (get_aggregated_signal results) = fst (judge_influence ch kind conf)"
      "sg_weight (get_aggregated_signal results) =
         (if fst (judge_influence ch kind conf) then py_min MAX_EXTERNAL_WEIGHT (xmul conf (lit (15/100))) else Fin 0)"
      unfolding get_aggregated_signal_def rs_def [symmetric] conf_def [symmetric] Let_def
      by (simp add: split_beta)
    then show ?thesis
      using judge_allows [of ch kind conf] weight_between [of conf] by (auto simp: sound_signal_def tenth_nonneg)
  qed
qed

text \<open>The states of the shared cache.\<close>

inductive cache_state :: "llm option \<Rightarrow> signal_cache \<Rightarrow> bool" for llm :: "llm option" where
  start: "cache_state llm empty_cache"
| received: "cache_state llm c \<Longrightarrow> cache_state llm (add_message m c)"
| adjusted: "cache_state llm c \<Longrightarrow> cache_state llm (snd (get_regime_adjustment llm now c))"

definition cache_ok :: "signal_cache \<Rightarrow> bool" where
  "cache_ok c \<longleftrightarrow> length (sc_messages c) \<le> 100 \<and> (\<forall>s t n. sc_signal c = Some (s, t, n) \<longrightarrow> sound_signal s)"

lemma current_signal_ok:
  assumes "cache_ok c"
  shows "sound_signal (fst (get_current_signal llm f now c))" "cache_ok (snd (get_current_signal llm f now c))"
  using assms by (auto simp: get_current_signal_def get_signal_def cache_ok_def set_signal_def Let_def
      split: option.splits if_splits)

lemma cache_state_ok: "cache_state llm c \<Longrightarrow> cache_ok c"
proof (induction rule: cache_state.induct)
  case (received c m)
  then show ?case by (auto simp: cache_ok_def add_message_def MAX_CACHED_MESSAGES_def Let_def)
next
  case (adjusted c now)
  then show ?case using current_signal_ok(2) by (simp add: get_regime_adjustment_def Let_def split_beta)
qed (simp add: cache_ok_def empty_cache_def)

lemma adjustment_limits:
  assumes "cache_state llm c" and "get_regime_adjustment llm now c = (a, c')"
  shows "length (sc_messages c') \<le> 100 \<and> between 0 (fl (1/10)) (ad_weight a) \<and> ad_direction a \<noteq> Bearish_Hint
    \<and> (ad_adjust a \<longrightarrow> ad_direction a = Bullish \<and> 2 \<le> sg_channels (ad_signal a)
         \<and> \<not> xlt (sg_confidence (ad_signal a)) (lit (6/10)))
    \<and> (\<not> ad_adjust a \<longrightarrow> ad_weight a = Fin 0)"
proof -
  obtain s c1 where s: "get_current_signal llm False now c = (s, c1)" by fastforce
  have ok: "sound_signal s" "cache_ok c1"
    using current_signal_ok [OF cache_state_ok [OF assms(1)], of llm False now] by (simp_all add: s)
  have a: "a = fst (get_regime_adjustment llm now c)" using assms(2) by simp
  have "c' = snd (get_regime_adjustment llm now c)" using assms(2) by simp
  then have "c' = c1" by (simp add: get_regime_adjustment_def s Let_def)
  with ok a show ?thesis
    by (cases "sg_influences s"; cases "sg_type s")
      (simp_all add: get_regime_adjustment_def s sound_signal_def cache_ok_def tenth_nonneg Let_def)
qed

lemma adjustment_weight:
  "cache_state llm c \<Longrightarrow> get_regime_adjustment llm now c = (a, c') \<Longrightarrow> between 0 (fl (1/10)) (ad_weight a)"
  using adjustment_limits by blast

text \<open>
  Claim C26. Whatever messages arrive and whatever the language model answers, the cache holds at most
  100 messages and the offered adjustment is limited: its weight lies between 0 and a tenth, it is made
  only in the bullish direction and only on a signal of at least two channels with an average
  confidence of 0.6. The bearish hint is never offered, though the code has a branch for it.
\<close>

theorem macro_adjustment_limited:
  assumes "cache_state llm c" and "get_regime_adjustment llm now c = (a, c')"
  shows "length (sc_messages c') \<le> 100 \<and> between 0 (fl (1/10)) (ad_weight a) \<and> ad_direction a \<noteq> Bearish_Hint
    \<and> (ad_adjust a \<longrightarrow> ad_direction a = Bullish \<and> 2 \<le> sg_channels (ad_signal a)
         \<and> \<not> xlt (sg_confidence (ad_signal a)) (lit (6/10)))
    \<and> (\<not> ad_adjust a \<longrightarrow> ad_weight a = Fin 0)"
  using adjustment_limits [OF assms] .

lemma macro_adjustment_limited_witness:
  "\<exists>c a c'. cache_state None c \<and> get_regime_adjustment None 0 c = (a, c') \<and> sc_messages c' = [None] \<and> \<not> ad_adjust a
     \<and> between 0 (fl (1/10)) (ad_weight a)"
proof -
  let ?c = "add_message None empty_cache"
  have c: "cache_state None ?c" by (intro cache_state.intros)
  have "sc_messages (snd (get_regime_adjustment None 0 ?c)) = [None]" "\<not> ad_adjust (fst (get_regime_adjustment None 0 ?c))"
    by code_simp+
  then show ?thesis
    using macro_adjustment_limited [OF c, of 0 "fst (get_regime_adjustment None 0 ?c)" "snd (get_regime_adjustment None 0 ?c)"] c
    by (metis prod.collapse)
qed

end
