(* ===== verification/Market_Regime.thy ===== *)
theory Market_Regime
  imports Strategy_Indicators Macro_Signal
begin

text \<open>
  \<open>shared/market_regime.py\<close>: the regime of the market from the closing prices of the index and its
  current value, the risk setting and the strategies of a regime, and the regime enriched with the
  macro signal (\<open>apply_macro_adjustment_to_regime\<close> of \<open>macro_signal_aggregator.py\<close>).
  Logging is left out. The frame is the list of its closing prices, oldest first.
\<close>

section \<open>The regime of the prices\<close>

definition REGIME_STRONG_BULL :: string where "REGIME_STRONG_BULL = ''STRONG_BULL''"
definition REGIME_BULL :: string where "REGIME_BULL = ''BULL''"
definition REGIME_SIDEWAYS :: string where "REGIME_SIDEWAYS = ''SIDEWAYS''"
definition REGIME_BEAR :: string where "REGIME_BEAR = ''BEAR''"

lemmas regime_defs = REGIME_STRONG_BULL_def REGIME_BULL_def REGIME_SIDEWAYS_def REGIME_BEAR_def

record regime_context =
  rc_current :: flt
  rc_ma_period :: nat
  rc_ma :: flt
  rc_distance :: flt
  rc_return_1d :: flt
  rc_return_5d :: flt
  rc_using_ma10 :: bool
  rc_scores :: "(string \<times> flt) list"
  rc_regime :: string

datatype regime_answer = Too_Short | No_Average nat | Analysis_Failed exn | Scored regime_context

text \<open>\<open>((now - then) / then) * 100\<close>\<close>

definition index_change :: "flt \<Rightarrow> flt \<Rightarrow> flt res" where
  "index_change now past = (case pdiv (xsub now past) past of Inl e \<Rightarrow> Inl e | Inr q \<Rightarrow> Inr (xmul q (Fin 100)))"

definition momentum_part :: "flt \<Rightarrow> flt \<Rightarrow> flt" where
  "momentum_part r threshold =
     (if xlt (Fin 0) r then py_max (Fin 0) (py_min (Fin 50) (xmul (xdiv r threshold) (Fin 50))) else Fin 0)"

definition strong_bull_score :: "flt \<Rightarrow> flt \<Rightarrow> bool \<Rightarrow> flt \<Rightarrow> flt \<Rightarrow> flt" where
  "strong_bull_score current ma using_ma10 r1 r5 =
     (if xle ma current then
        let threshold_1d = lit (if using_ma10 then 5/2 else 2);
            threshold_5d = lit (if using_ma10 then 5 else 4);
            s = xadd (xadd (Fin 0) (momentum_part r1 threshold_1d)) (momentum_part r5 threshold_5d)
        in if using_ma10 then xmul s (lit (8/10)) else s
      else Fin 0)"

definition bull_score :: "flt \<Rightarrow> flt \<Rightarrow> bool \<Rightarrow> flt \<Rightarrow> flt \<Rightarrow> flt" where
  "bull_score current ma using_ma10 distance r5 =
     (if xle ma current then
        let s1 = xadd (Fin 0) (Fin (if using_ma10 then 25 else 30));
            s2 = (if xlt (Fin 0) r5 then xadd s1 (py_min (Fin 40) (xmul r5 (Fin 10))) else s1);
            s3 = (if xlt (Fin 0) distance then xadd s2 (py_min (Fin 30) (xmul distance (Fin 2))) else s2)
        in if using_ma10 then xmul s3 (lit (85/100)) else s3
      else Fin 0)"

definition bear_score :: "flt \<Rightarrow> flt \<Rightarrow> flt \<Rightarrow> flt \<Rightarrow> flt" where
  "bear_score current ma distance r5 =
     (if xlt current ma then
        let s1 = xadd (Fin 0) (Fin 40);
            s2 = (if xlt r5 (Fin 0) then xadd s1 (py_min (Fin 40) (xmul (xabs r5) (Fin 10))) else s1)
        in (if xlt distance (Fin 0) then xadd s2 (py_min (Fin 20) (xmul (xabs distance) (Fin 2))) else s2)
      else Fin 0)"

definition sideways_cutoff :: "bool \<Rightarrow> flt" where
  "sideways_cutoff using_ma10 = lit (if using_ma10 then 5/2 else 3)"

definition sideways_score :: "bool \<Rightarrow> flt \<Rightarrow> flt \<Rightarrow> flt \<Rightarrow> flt" where
  "sideways_score using_ma10 distance r1 r5 =
     (let ma_threshold = lit (if using_ma10 then 3/2 else 2)
      in if xle (sideways_cutoff using_ma10) (xabs distance) then Fin 0
         else let s1 = (if xlt (xabs distance) ma_threshold then xadd (Fin 0) (Fin 30) else Fin 0);
                  s2 = (if xlt (xabs r5) (lit 1) then xadd s1 (Fin 30) else s1)
              in if xlt (xabs r1) (lit (1/2)) then xadd s2 (Fin 40) else s2)"

text \<open>\<open>max(d, key=d.get)\<close>: the first key whose value no later one exceeds, in insertion order.\<close>

fun max_key_from :: "string \<times> flt \<Rightarrow> (string \<times> flt) list \<Rightarrow> string \<times> flt" where
  "max_key_from best [] = best"
| "max_key_from best (e # es) = max_key_from (if xlt (snd best) (snd e) then e else best) es"

definition max_key :: "(string \<times> flt) list \<Rightarrow> string" where
  "max_key d = fst (max_key_from (hd d) (tl d))"

definition regime_scores :: "flt \<Rightarrow> flt \<Rightarrow> bool \<Rightarrow> flt \<Rightarrow> flt \<Rightarrow> flt \<Rightarrow> (string \<times> flt) list" where
  "regime_scores current ma using_ma10 distance r1 r5 =
     [(REGIME_STRONG_BULL, strong_bull_score current ma using_ma10 r1 r5),
      (REGIME_BULL, bull_score current ma using_ma10 distance r5),
      (REGIME_BEAR, bear_score current ma distance r5),
      (REGIME_SIDEWAYS, sideways_score using_ma10 distance r1 r5)]"

text \<open>\<open>not ma_value\<close>: there is no average, or it is zero.\<close>

definition analyse_prices :: "rust_backend option \<Rightarrow> pandas \<Rightarrow> flt list \<Rightarrow> flt \<Rightarrow> (string \<times> regime_answer) res" where
  "analyse_prices B P prices current =
     (if length prices < 10 then Inr (REGIME_SIDEWAYS, Too_Short)
      else
        let ma_period = (if 20 \<le> length prices then 20 else 10); using_ma10 = (ma_period = 10)
        in (case calculate_moving_average B P (Some (rev prices)) ma_period of
          None \<Rightarrow> Inr (REGIME_SIDEWAYS, No_Average ma_period)
        | Some ma \<Rightarrow> if xeq ma (Fin 0) then Inr (REGIME_SIDEWAYS, No_Average ma_period)
            else res_bind (index_change current (at_end prices 5)) (\<lambda>r5.
                 res_bind (index_change current (at_end prices 1)) (\<lambda>r1.
                 res_bind (index_change current ma) (\<lambda>distance.
                 let scores = regime_scores current ma using_ma10 distance r1 r5; regime = max_key scores
                 in Inr (regime, Scored \<lparr>rc_current = current, rc_ma_period = ma_period, rc_ma = ma, rc_distance = distance,
                      rc_return_1d = r1, rc_return_5d = r5, rc_using_ma10 = using_ma10, rc_scores = scores,
                      rc_regime = regime\<rparr>))))))"

definition detect_regime :: "rust_backend option \<Rightarrow> pandas \<Rightarrow> flt list \<Rightarrow> flt \<Rightarrow> string \<times> regime_answer" where
  "detect_regime B P prices current = (case analyse_prices B P prices current of
     Inr r \<Rightarrow> r | Inl e \<Rightarrow> (REGIME_SIDEWAYS, Analysis_Failed e))"

section \<open>Risk setting and strategies\<close>

record regime_risk =
  rk_stop_loss_pct :: flt
  rk_target_profit_pct :: flt
  rk_position_size_ratio :: flt

definition get_dynamic_risk_setting :: "string \<Rightarrow> regime_risk" where
  "get_dynamic_risk_setting regime =
     (if regime = REGIME_STRONG_BULL then
        \<lparr>rk_stop_loss_pct = lit (- 7/100), rk_target_profit_pct = lit (15/100), rk_position_size_ratio = lit 1\<rparr>
      else if regime = REGIME_BULL then
        \<lparr>rk_stop_loss_pct = lit (- 5/100), rk_target_profit_pct = lit (10/100), rk_position_size_ratio = lit 1\<rparr>
      else if regime = REGIME_SIDEWAYS then
        \<lparr>rk_stop_loss_pct = lit (- 5/100), rk_target_profit_pct = lit (10/100), rk_position_size_ratio = lit (1/2)\<rparr>
      else if regime = REGIME_BEAR then
        \<lparr>rk_stop_loss_pct = lit (- 2/100), rk_target_profit_pct = lit (3/100), rk_position_size_ratio = lit (3/10)\<rparr>
      else
        \<lparr>rk_stop_loss_pct = lit (- 3/100), rk_target_profit_pct = lit (5/100), rk_position_size_ratio = lit (1/2)\<rparr>)"

datatype buy_strategy =
    Mean_Reversion | Trend_Following | Resistance_Breakout | Volume_Momentum | Bear_Snipe_Dip | Bear_Momentum_Breakout

text \<open>\<open>recon\<close> is the value of \<open>ENABLE_RECON_IN_BEAR\<close>.\<close>

definition select_strategies :: "bool \<Rightarrow> string \<Rightarrow> buy_strategy list" where
  "select_strategies recon regime =
     (if regime = REGIME_STRONG_BULL then [Volume_Momentum, Resistance_Breakout, Trend_Following]
      else if regime = REGIME_BULL then [Volume_Momentum, Trend_Following, Mean_Reversion]
      else if regime = REGIME_SIDEWAYS then [Mean_Reversion, Trend_Following]
      else if regime = REGIME_BEAR then (if recon then [Trend_Following] else [])
      else [Mean_Reversion])"

definition map_llm_strategy :: "string \<Rightarrow> buy_strategy option" where
  "map_llm_strategy strategy_type =
     (if strategy_type = ''SNIPE_DIP'' then Some Bear_Snipe_Dip
      else if strategy_type = ''MOMENTUM_BREAKOUT'' then Some Bear_Momentum_Breakout else None)"

section \<open>The macro signal on top\<close>

record macro_influence =
  mi_should_adjust :: bool
  mi_weight :: flt
  mi_direction :: direction
  mi_applied :: "bool option"
  mi_warning :: bool

record enriched =
  en_base :: regime_answer
  en_signal :: macro_signal
  en_influence :: macro_influence

definition scale_score :: "string \<Rightarrow> flt \<Rightarrow> (string \<times> flt) list \<Rightarrow> (string \<times> flt) list" where
  "scale_score k weight scores = (case map_of scores k of
     None \<Rightarrow> scores | Some v \<Rightarrow> dict_set k (xmul v (xadd (Fin 1) weight)) scores)"

definition apply_macro_adjustment_to_regime :: "string \<Rightarrow> regime_answer \<Rightarrow> adjustment \<Rightarrow> string \<times> enriched" where
  "apply_macro_adjustment_to_regime base_regime context a =
     (let inf = \<lparr>mi_should_adjust = ad_adjust a, mi_weight = ad_weight a, mi_direction = ad_direction a,
                 mi_applied = None, mi_warning = False\<rparr>
      in (base_regime,
          if \<not> ad_adjust a then \<lparr>en_base = context, en_signal = ad_signal a, en_influence = inf\<rparr>
          else (case context of
            Scored c \<Rightarrow> (case ad_direction a of
                Bullish \<Rightarrow> \<lparr>en_base = Scored (c\<lparr>rc_scores := scale_score REGIME_STRONG_BULL (ad_weight a)
                                (scale_score REGIME_BULL (ad_weight a) (rc_scores c))\<rparr>),
                            en_signal = ad_signal a, en_influence = inf\<lparr>mi_applied := Some True\<rparr>\<rparr>
              | Bearish_Hint \<Rightarrow> \<lparr>en_base = context, en_signal = ad_signal a,
                            en_influence = inf\<lparr>mi_applied := Some False, mi_warning := True\<rparr>\<rparr>
              | Neutral_Direction \<Rightarrow> \<lparr>en_base = context, en_signal = ad_signal a, en_influence = inf\<rparr>)
          | _ \<Rightarrow> \<lparr>en_base = context, en_signal = ad_signal a, en_influence = inf\<rparr>)))"

definition detect_regime_with_macro ::
    "rust_backend option \<Rightarrow> pandas \<Rightarrow> llm option \<Rightarrow> rat \<Rightarrow> flt list \<Rightarrow> flt \<Rightarrow> signal_cache \<Rightarrow> (string \<times> enriched) \<times> signal_cache" where
  "detect_regime_with_macro B P llm now prices current cache =
     (let (base_regime, base_context) = detect_regime B P prices current;
          (a, cache1) = get_regime_adjustment llm now cache
      in (apply_macro_adjustment_to_regime base_regime base_context a, cache1))"

section \<open>Bounds of the scores\<close>

lemma shrink_between:
  assumes "between 0 b x" "0 \<le> c" "c \<le> 1" "fl b = b" "b \<le> 2 ^ 53"
  shows "between 0 b (xmul x (Fin c))"
proof -
  obtain a where a: "x = Fin a" "0 \<le> a" "a \<le> b" using assms(1) by (auto simp: between_def)
  have "a * c \<le> b" using a assms(2,3) mult_left_le [of c a] by linarith
  then show ?thesis using a assms by (auto intro!: between_rnd)
qed

lemma fl_hundredths [simp]: "0 \<le> fl (4/5)" "fl (4/5) \<le> 1" "0 \<le> fl (17/20)" "fl (17/20) \<le> 1" "4/5 \<le> fl (17/20)"
  by code_simp+

lemma momentum_between: "between 0 50 (momentum_part r t)"
  using between_clamp [of 0 50] by (simp add: momentum_part_def clamp_def)

lemma add_between:
  assumes "between a (of_int b) x" "between 0 (of_int d) y" "fl a = a" "- (2 ^ 53) \<le> a" "\<bar>b + d\<bar> \<le> 2 ^ 53" "of_int (b + d) \<le> (2 ^ 53 :: rat)"
  shows "between a (of_int (b + d)) (xadd x y)"
  using between_add [OF assms(1,2)] fl_of_int [OF assms(5)] assms by simp

lemma strong_bull_between: "between 0 100 (strong_bull_score current ma m r1 r5)"
proof -
  have "between 0 100 (xadd (xadd (Fin 0) x) y)" if "between 0 50 x" "between 0 50 y" for x y
    using add_between [of 0 50 "xadd (Fin 0) x" 50 y] add_between [of 0 0 "Fin 0" 50 x] that by simp
  with momentum_between shrink_between [of 100] show ?thesis
    by (simp add: strong_bull_score_def Let_def lit_def fl_numeral)
qed

lemma min_part: "atleast 0 x \<Longrightarrow> 0 \<le> c \<Longrightarrow> between 0 c (py_min (Fin c) x)"
  by (rule min_atleast)

lemma positive_part: "xlt (Fin 0) x \<Longrightarrow> 0 \<le> k \<Longrightarrow> atleast 0 (xmul x (Fin k))"
  by (rule atleast_mul) (cases x; simp)+

lemma bull_sum_between:
  assumes "0 \<le> b" "b \<le> 30"
  shows "between (of_int b) 100
    (let s1 = xadd (Fin 0) (Fin (of_int b));
         s2 = (if xlt (Fin 0) r5 then xadd s1 (py_min (Fin 40) (xmul r5 (Fin 10))) else s1)
     in (if xlt (Fin 0) d then xadd s2 (py_min (Fin 30) (xmul d (Fin 2))) else s2))"
proof -
  have f: "fl (of_int b) = (of_int b :: rat)" using assms by (intro fl_of_int) auto
  have i: "(0 :: rat) \<le> of_int b" "of_int b \<le> (30 :: rat)" using assms by linarith+
  define s1 where "s1 = xadd (Fin 0) (Fin (of_int b :: rat))"
  have s1: "between (of_int b) 30 s1" using assms i f by (auto simp: s1_def intro!: between_rnd simp: fl_numeral)
  define s2 where "s2 = (if xlt (Fin 0) r5 then xadd s1 (py_min (Fin 40) (xmul r5 (Fin 10))) else s1)"
  have s2: "between (of_int b) 70 s2"
    using s1 add_between [of "of_int b" 30 s1 40] min_part [OF positive_part [of r5 10], of 40] f i
      between_weaken [OF s1, of "of_int b" 70] by (auto simp: s2_def)
  have "between (of_int b) 100 (if xlt (Fin 0) d then xadd s2 (py_min (Fin 30) (xmul d (Fin 2))) else s2)"
    using s2 add_between [of "of_int b" 70 s2 30] min_part [OF positive_part [of d 2], of 30] f i
      between_weaken [OF s2, of "of_int b" 100] by auto
  then show ?thesis unfolding s2_def s1_def Let_def .
qed

lemma bull_between: "between 0 100 (bull_score current ma m d r5)"
  and bull_positive: "xle ma current \<Longrightarrow> between 20 100 (bull_score current ma m d r5)"
proof -
  define s3 where "s3 = (let s1 = xadd (Fin 0) (Fin (if m then 25 else 30));
         s2 = (if xlt (Fin 0) r5 then xadd s1 (py_min (Fin 40) (xmul r5 (Fin 10))) else s1)
     in (if xlt (Fin 0) d then xadd s2 (py_min (Fin 30) (xmul d (Fin 2))) else s2))"
  have b: "bull_score current ma m d r5 = (if xle ma current then if m then xmul s3 (lit (85/100)) else s3 else Fin 0)"
    by (simp add: bull_score_def s3_def Let_def)
  have s3: "between (if m then 25 else 30) 100 s3"
    using bull_sum_between [of 25 r5 d] bull_sum_between [of 30 r5 d] by (simp add: s3_def)
  have "between 20 100 (xmul s3 (lit (85/100)))" if m
  proof -
    have "between 25 100 s3" using s3 that by simp
    then obtain a where a: "s3 = Fin a" "25 \<le> a" "a \<le> 100" by (auto simp: between_def)
    have "20 \<le> a * fl (17/20)" using mult_mono [of 25 a "4/5" "fl (17/20)"] a fl_hundredths(5) by linarith
    moreover have "a * fl (17/20) \<le> 100" using a mult_left_le [of "fl (17/20)" a] fl_hundredths(4) by linarith
    ultimately show ?thesis using a by (auto simp: lit_def fl_numeral intro!: between_rnd)
  qed
  moreover have "between 20 100 s3" using s3 by (rule between_weaken) auto
  ultimately have p: "between 20 100 (bull_score current ma m d r5)" if "xle ma current" using that by (simp add: b)
  then show "xle ma current \<Longrightarrow> between 20 100 (bull_score current ma m d r5)" .
  show "between 0 100 (bull_score current ma m d r5)"
  proof (cases "xle ma current")
    case True
    from p [OF this] show ?thesis by (rule between_weaken) auto
  qed (simp add: b)
qed

lemma abs_part: "0 \<le> k \<Longrightarrow> atleast 0 (xmul (xabs x) (Fin k))"
  by (rule atleast_mul) (cases x; simp)+

lemma bear_positive: "xlt current ma \<Longrightarrow> between 40 100 (bear_score current ma d r5)"
proof -
  define s2 where "s2 = (if xlt r5 (Fin 0) then xadd (Fin 40) (py_min (Fin 40) (xmul (xabs r5) (Fin 10))) else Fin 40)"
  have s2: "between 40 80 s2"
    using add_between [of 40 40 "Fin 40" 40] min_part [OF abs_part [of 10 r5], of 40] by (auto simp: s2_def fl_numeral)
  have "between 40 100 (if xlt d (Fin 0) then xadd s2 (py_min (Fin 20) (xmul (xabs d) (Fin 2))) else s2)"
    using s2 add_between [of 40 80 s2 20] min_part [OF abs_part [of 2 d], of 20] between_weaken [OF s2, of 40 100]
    by (auto simp: fl_numeral)
  moreover have "xadd (Fin 0) (Fin 40) = Fin 40" by code_simp
  moreover assume "xlt current ma"
  ultimately show ?thesis unfolding bear_score_def Let_def by (simp only: s2_def if_True)
qed

lemma bear_between: "between 0 100 (bear_score current ma d r5)"
  using between_weaken [OF bear_positive [of current ma d r5], of 0 100]
  by (cases "xlt current ma") (auto simp: bear_score_def)

lemma rnd_tens: "rnd 30 = Fin 30" "rnd 60 = Fin 60" "rnd 40 = Fin 40" "rnd 70 = Fin 70" "rnd 100 = Fin 100"
  by code_simp+

lemma sideways_between: "between 0 100 (sideways_score m d r1 r5)"
  by (simp add: sideways_score_def Let_def rnd_tens)

section \<open>The chosen regime\<close>

lemma max_key_from_in: "max_key_from best es \<in> insert best (set es)"
  by (induction es arbitrary: best) auto

lemma max_key_from_largest:
  assumes "\<exists>a. snd best = Fin a" "\<forall>e \<in> set es. \<exists>a. snd e = Fin a" "e \<in> insert best (set es)"
  shows "\<not> xlt (snd (max_key_from best es)) (snd e)"
  using assms
proof (induction es arbitrary: best e)
  case Nil
  then show ?case by auto
next
  case (Cons e1 es)
  define b where "b = (if xlt (snd best) (snd e1) then e1 else best)"
  have fin: "\<exists>a. snd b = Fin a" "\<forall>e \<in> set es. \<exists>a. snd e = Fin a" using Cons.prems by (auto simp: b_def)
  have top: "\<not> xlt (snd (max_key_from b es)) (snd b)" using Cons.IH [OF fin, of b] by simp
  obtain m where m: "snd (max_key_from b es) = Fin m" using max_key_from_in [of b es] fin by fastforce
  obtain p q where pq: "snd best = Fin p" "snd e1 = Fin q" using Cons.prems by auto
  have b: "snd b = Fin (max p q)" using pq by (simp add: b_def max_def)
  have eq: "max_key_from best (e1 # es) = max_key_from b es" by (simp add: b_def)
  have "\<not> xlt (snd (max_key_from b es)) (snd e)"
  proof (cases "e = best \<or> e = e1")
    case True
    with top m pq b show ?thesis by auto
  next
    case False
    with Cons.IH [OF fin, of e] Cons.prems(3) show ?thesis by simp
  qed
  then show ?case unfolding eq .
qed

lemma scores_between: "(k, v) \<in> set (regime_scores current ma m d r1 r5) \<Longrightarrow> between 0 100 v"
  using strong_bull_between bull_between bear_between sideways_between by (auto simp: regime_scores_def)

lemma regime_has_largest_score:
  assumes "(k, v) \<in> set (regime_scores current ma m d r1 r5)"
  shows "\<exists>w. (max_key (regime_scores current ma m d r1 r5), w) \<in> set (regime_scores current ma m d r1 r5) \<and> xle v w"
proof -
  let ?s = "regime_scores current ma m d r1 r5"
  let ?e = "max_key_from (hd ?s) (tl ?s)"
  have ne: "insert (hd ?s) (set (tl ?s)) = set ?s" by (simp add: regime_scores_def)
  have fin: "\<exists>a. snd e = Fin a" if "e \<in> set ?s" for e
    using scores_between [of "fst e" "snd e" current ma m d r1 r5] that by (simp add: between_def) blast
  have "\<exists>a. snd (hd ?s) = Fin a" "\<forall>e \<in> set (tl ?s). \<exists>a. snd e = Fin a" using fin ne by blast+
  from max_key_from_largest [OF this, of "(k, v)"] have "\<not> xlt (snd ?e) v" using assms ne by simp
  moreover have e: "?e \<in> set ?s" using max_key_from_in [of "hd ?s" "tl ?s"] ne by simp
  ultimately have "(fst ?e, snd ?e) \<in> set ?s \<and> xle v (snd ?e)" using fin [OF e] fin [OF assms] by (auto simp: xle_def)
  then show ?thesis unfolding max_key_def by blast
qed

lemma scored_context:
  assumes "detect_regime B P prices current = (r, Scored c)"
  shows "r = rc_regime c \<and> rc_current c = current \<and> r = max_key (rc_scores c)
    \<and> rc_scores c = regime_scores current (rc_ma c) (rc_using_ma10 c) (rc_distance c) (rc_return_1d c) (rc_return_5d c)"
  using assms
  by (auto simp: detect_regime_def analyse_prices_def Let_def res_bind_def split: sum.splits if_splits option.splits)

lemma unscored_is_sideways:
  assumes "detect_regime B P prices current = (r, x)" "\<And>c. x \<noteq> Scored c"
  shows "r = REGIME_SIDEWAYS"
  using assms
  by (auto simp: detect_regime_def analyse_prices_def Let_def res_bind_def split: sum.splits if_splits option.splits)

text \<open>
  Claim C27. Whatever the prices are, NaN and infinities included: the answered regime is one of the four,
  SIDEWAYS when nothing was scored, and otherwise all four scores are numbers from 0 to 100 and the
  regime's is the largest of them.
\<close>

theorem regime_well_scored:
  "case detect_regime B P prices current of
     (r, Scored c) \<Rightarrow> map fst (rc_scores c) = [REGIME_STRONG_BULL, REGIME_BULL, REGIME_BEAR, REGIME_SIDEWAYS]
       \<and> list_all (\<lambda>(k, v). between 0 100 v) (rc_scores c)
       \<and> list_ex (\<lambda>(k, w). k = r \<and> list_all (\<lambda>(_, v). xle v w) (rc_scores c)) (rc_scores c)
   | (r, _) \<Rightarrow> r = REGIME_SIDEWAYS"
proof -
  obtain r x where d: "detect_regime B P prices current = (r, x)" by fastforce
  show ?thesis
  proof (cases "\<exists>c. x = Scored c")
    case False
    with unscored_is_sideways [OF d] d show ?thesis by (cases x) auto
  next
    case True
    then obtain c where c: "detect_regime B P prices current = (r, Scored c)" using d by auto
    note s = scored_context [OF c]
    have keys: "map fst (rc_scores c) = [REGIME_STRONG_BULL, REGIME_BULL, REGIME_BEAR, REGIME_SIDEWAYS]"
      using s by (simp add: regime_scores_def)
    then have dist: "distinct (map fst (rc_scores c))" by (simp add: regime_defs)
    have "between 0 100 v" if "(k, v) \<in> set (rc_scores c)" for k v using scores_between that s by metis
    then have all: "list_all (\<lambda>(k, v). between 0 100 v) (rc_scores c)" by (auto simp: list_all_iff)
    have top: "\<exists>w. (r, w) \<in> set (rc_scores c) \<and> xle v w" if "(k, v) \<in> set (rc_scores c)" for k v
      using regime_has_largest_score that s by metis
    have "(REGIME_BEAR, bear_score current (rc_ma c) (rc_distance c) (rc_return_5d c)) \<in> set (rc_scores c)"
      using s by (simp add: regime_scores_def)
    then obtain w where w: "(r, w) \<in> set (rc_scores c)" using top by blast
    have le: "xle v w" if "(k, v) \<in> set (rc_scores c)" for k v
      using top [OF that] w dist by (metis eq_key_imp_eq_value)
    have "list_ex (\<lambda>(k, w). k = r \<and> list_all (\<lambda>(_, v). xle v w) (rc_scores c)) (rc_scores c)"
      unfolding list_ex_iff by (rule bexI [OF _ w]) (use le in \<open>auto simp: list_all_iff\<close>)
    with keys all c show ?thesis by simp
  qed
qed

text \<open>A regime is not chosen when another one has a larger score.\<close>

lemma not_chosen:
  assumes "detect_regime B P prices current = (r, Scored c)" "(k, v) \<in> set (rc_scores c)" "(k', v') \<in> set (rc_scores c)" "xlt v v'"
  shows "r \<noteq> k"
proof
  assume "r = k"
  note s = scored_context [OF assms(1)]
  have dist: "distinct (map fst (rc_scores c))" using s by (simp add: regime_scores_def regime_defs)
  obtain w where "(r, w) \<in> set (rc_scores c)" "xle v' w" using regime_has_largest_score assms(3) s by metis
  moreover from this have "w = v" using assms(2) dist \<open>r = k\<close> by (metis eq_key_imp_eq_value)
  ultimately show False using assms(4) by (simp add: xle_def)
qed

lemma regime_of_four:
  assumes "detect_regime B P prices current = (r, Scored c)"
  shows "r \<in> {REGIME_STRONG_BULL, REGIME_BULL, REGIME_BEAR, REGIME_SIDEWAYS}"
proof -
  let ?s = "rc_scores c"
  have s: "?s = regime_scores current (rc_ma c) (rc_using_ma10 c) (rc_distance c) (rc_return_1d c) (rc_return_5d c)"
    and r: "r = max_key ?s" using scored_context [OF assms] by blast+
  have "max_key_from (hd ?s) (tl ?s) \<in> set ?s" using max_key_from_in [of "hd ?s" "tl ?s"] by (simp add: s regime_scores_def)
  then have "r \<in> set (map fst ?s)" unfolding r max_key_def by simp
  then show ?thesis by (simp add: s regime_scores_def)
qed

lemma zero_below: "between 20 100 v \<Longrightarrow> xlt (Fin 0) v" "between 40 100 v \<Longrightarrow> xlt (Fin 0) v"
  by (auto simp: between_def)

text \<open>
  The regime agrees with the position of the index: at or above its moving average it is not
  BEAR, below it is BEAR or SIDEWAYS, and when the distance reaches the cutoff (2.5 per cent with ten
  days of data, 3 per cent with twenty) it is not SIDEWAYS.
\<close>

theorem regime_follows_average:
  assumes "detect_regime B P prices current = (r, Scored c)"
  shows "(xle (rc_ma c) current \<longrightarrow> r \<noteq> REGIME_BEAR)
    \<and> (xlt current (rc_ma c) \<longrightarrow> r = REGIME_BEAR \<or> r = REGIME_SIDEWAYS)
    \<and> (xle (sideways_cutoff (rc_using_ma10 c)) (xabs (rc_distance c)) \<and> current \<noteq> NaN \<and> rc_ma c \<noteq> NaN \<longrightarrow> r \<noteq> REGIME_SIDEWAYS)"
proof -
  let ?bull = "bull_score current (rc_ma c) (rc_using_ma10 c) (rc_distance c) (rc_return_5d c)"
  let ?bear = "bear_score current (rc_ma c) (rc_distance c) (rc_return_5d c)"
  let ?strong = "strong_bull_score current (rc_ma c) (rc_using_ma10 c) (rc_return_1d c) (rc_return_5d c)"
  let ?side = "sideways_score (rc_using_ma10 c) (rc_distance c) (rc_return_1d c) (rc_return_5d c)"
  have m: "(REGIME_BULL, ?bull) \<in> set (rc_scores c)" "(REGIME_BEAR, ?bear) \<in> set (rc_scores c)"
    "(REGIME_STRONG_BULL, ?strong) \<in> set (rc_scores c)" "(REGIME_SIDEWAYS, ?side) \<in> set (rc_scores c)"
    using scored_context [OF assms] by (simp_all add: regime_scores_def)
  note nc = not_chosen [OF assms]
  have excl: "xle (rc_ma c) current \<longleftrightarrow> \<not> xlt current (rc_ma c)" if "current \<noteq> NaN" "rc_ma c \<noteq> NaN"
    using that by (simp add: xle_def)
  have not_both: "\<not> xlt current (rc_ma c)" if "xle (rc_ma c) current" using that by (simp add: xle_def)
  have up: "xlt (Fin 0) ?bull" "?bear = Fin 0" if "xle (rc_ma c) current"
    using zero_below(1) [OF bull_positive] that not_both by (auto simp: bear_score_def)
  have down: "xlt (Fin 0) ?bear" "?bull = Fin 0" "?strong = Fin 0" if "xlt current (rc_ma c)"
    using zero_below(2) [OF bear_positive] that not_both by (auto simp: bull_score_def strong_bull_score_def)
  have flat: "?side = Fin 0" if "xle (sideways_cutoff (rc_using_ma10 c)) (xabs (rc_distance c))"
    using that by (simp add: sideways_score_def)
  have 1: "r \<noteq> REGIME_BEAR" if "xle (rc_ma c) current" using nc [OF m(2,1)] up [OF that] by simp
  have 2: "r = REGIME_BEAR \<or> r = REGIME_SIDEWAYS" if "xlt current (rc_ma c)"
    using nc [OF m(1,2)] nc [OF m(3,2)] down [OF that] regime_of_four [OF assms] by auto
  have 3: "r \<noteq> REGIME_SIDEWAYS"
    if "xle (sideways_cutoff (rc_using_ma10 c)) (xabs (rc_distance c))" "current \<noteq> NaN" "rc_ma c \<noteq> NaN"
    using nc [OF m(4,1)] nc [OF m(4,2)] flat [OF that(1)] up down excl [OF that(2,3)] by fastforce
  from 1 2 3 show ?thesis by blast
qed

definition flat_index :: "flt list" where "flat_index = replicate 10 (Fin 2)"

lemma flat_average:
  "calculate_moving_average None plain_pandas (Some (rev flat_index)) (if 20 \<le> length flat_index then 20 else 10) = Some (Fin 1)"
  "length flat_index = 10" "at_end flat_index 5 = Fin 2" "at_end flat_index 1 = Fin 2"
  by code_simp+

lemma regime_follows_average_witness:
  "\<exists>r c. detect_regime None plain_pandas flat_index MInf = (r, Scored c) \<and> (r = REGIME_BEAR \<or> r = REGIME_SIDEWAYS)"
proof -
  have p: "index_change MInf (Fin 2) = Inr MInf" "index_change MInf (Fin 1) = Inr MInf" by code_simp+
  have "\<exists>r c. detect_regime None plain_pandas flat_index MInf = (r, Scored c) \<and> rc_ma c = Fin 1"
    using flat_average by (simp add: detect_regime_def analyse_prices_def p xeq_def Let_def del: One_nat_def)
  then obtain r c where d: "detect_regime None plain_pandas flat_index MInf = (r, Scored c)" "rc_ma c = Fin 1" by blast
  with regime_follows_average [OF d(1)] show ?thesis by auto
qed

text \<open>
  A missing current value of the index (NaN) is not refused: with ten or more prices, no zero
  among the divisors and an average, it scores nothing anywhere and is classified as STRONG_BULL, the
  regime with the full position size and the widest stop.
\<close>

theorem missing_index_is_strong_bull:
  assumes "10 \<le> length prices"
    and "calculate_moving_average B P (Some (rev prices)) (if 20 \<le> length prices then 20 else 10) = Some ma"
    and "ma \<noteq> Fin 0" "at_end prices 5 \<noteq> Fin 0" "at_end prices 1 \<noteq> Fin 0"
  shows "\<exists>c. detect_regime B P prices NaN = (REGIME_STRONG_BULL, Scored c) \<and> list_all (\<lambda>(_, v). v = Fin 0) (rc_scores c)
    \<and> get_dynamic_risk_setting REGIME_STRONG_BULL = \<lparr>rk_stop_loss_pct = lit (- 7/100), rk_target_profit_pct = lit (15/100), rk_position_size_ratio = lit 1\<rparr>"
proof -
  have nan: "index_change NaN p = Inr NaN" if "p \<noteq> Fin 0" for p
    using that by (cases p) (simp_all add: index_change_def pdiv_def xsub_def xinf_def xsign_def)
  have z: "regime_scores NaN ma m NaN NaN NaN =
      [(REGIME_STRONG_BULL, Fin 0), (REGIME_BULL, Fin 0), (REGIME_BEAR, Fin 0), (REGIME_SIDEWAYS, Fin 0)]" for m
    by (cases ma) (simp_all add: regime_scores_def strong_bull_score_def bull_score_def bear_score_def sideways_score_def
        xle_def Let_def lit_def)
  have k: "max_key [(REGIME_STRONG_BULL, Fin 0), (REGIME_BULL, Fin 0), (REGIME_BEAR, Fin 0), (REGIME_SIDEWAYS, Fin 0)]
      = REGIME_STRONG_BULL" by (simp add: max_key_def)
  have "\<not> xeq ma (Fin 0)" using assms(3) by (simp add: xeq_def)
  then show ?thesis
    using assms(1,2) by (simp add: detect_regime_def analyse_prices_def nan assms(3-5) z k Let_def get_dynamic_risk_setting_def del: One_nat_def)
qed

lemma missing_index_is_strong_bull_witness:
  "\<exists>c. detect_regime None plain_pandas flat_index NaN = (REGIME_STRONG_BULL, Scored c)"
proof -
  have "at_end flat_index 5 \<noteq> Fin 0" "at_end flat_index 1 \<noteq> Fin 0" "10 \<le> length flat_index" "Fin 1 \<noteq> Fin 0"
    by (simp_all add: flat_average del: One_nat_def)
  with missing_index_is_strong_bull [OF _ flat_average(1)] show ?thesis by blast
qed

section \<open>The macro signal\<close>

lemma map_of_scale [simp]:
  "map_of (scale_score k w scores) k' = (if k' = k then map_option (\<lambda>v. xmul v (xadd (Fin 1) w)) (map_of scores k) else map_of scores k')"
  by (auto simp: scale_score_def split: option.splits)

text \<open>
  The macro signal never changes the regime, nor the risk setting and the strategies that follow
  from it. In the context it changes at most the scores of BULL and STRONG_BULL, both multiplied by one
  plus a weight of at most a tenth; the chosen regime is not computed again.
\<close>

theorem macro_keeps_regime:
  assumes "cache_state llm cache"
    and "detect_regime_with_macro B P llm now prices current cache = ((r, e), cache')"
  shows "r = fst (detect_regime B P prices current) \<and> select_strategies recon r = select_strategies recon (fst (detect_regime B P prices current))
    \<and> (\<exists>w. between 0 (fl (1/10)) w \<and> (case snd (detect_regime B P prices current) of
          Scored c \<Rightarrow> (\<exists>c'. en_base e = Scored c' \<and> c' = c\<lparr>rc_scores := rc_scores c'\<rparr>
            \<and> (\<forall>k. map_of (rc_scores c') k = map_of (rc_scores c) k
                 \<or> k \<in> {REGIME_BULL, REGIME_STRONG_BULL}
                   \<and> map_of (rc_scores c') k = map_option (\<lambda>v. xmul v (xadd (Fin 1) w)) (map_of (rc_scores c) k)))
        | x \<Rightarrow> en_base e = x))"
proof -
  obtain a where a: "get_regime_adjustment llm now cache = (a, cache')"
    and re: "(r, e) = apply_macro_adjustment_to_regime (fst (detect_regime B P prices current)) (snd (detect_regime B P prices current)) a"
    using assms(2) by (auto simp: detect_regime_with_macro_def split: prod.splits)
  have w: "between 0 (fl (1/10)) (ad_weight a)" by (rule adjustment_weight [OF assms(1) a])
  have r: "r = fst (detect_regime B P prices current)" using re by (simp add: apply_macro_adjustment_to_regime_def Let_def)
  define x where "x = snd (detect_regime B P prices current)"
  have e: "e = snd (apply_macro_adjustment_to_regime r x a)" using re r by (metis snd_conv x_def)
  have "case x of Scored c \<Rightarrow> (\<exists>c'. en_base e = Scored c' \<and> c' = c\<lparr>rc_scores := rc_scores c'\<rparr>
            \<and> (\<forall>k. map_of (rc_scores c') k = map_of (rc_scores c) k
                 \<or> k \<in> {REGIME_BULL, REGIME_STRONG_BULL}
                   \<and> map_of (rc_scores c') k = map_option (\<lambda>v. xmul v (xadd (Fin 1) (ad_weight a))) (map_of (rc_scores c) k)))
        | x \<Rightarrow> en_base e = x"
    unfolding e by (cases x; cases "ad_direction a")
      (auto simp: apply_macro_adjustment_to_regime_def Let_def regime_defs)
  with w r show ?thesis unfolding x_def by blast
qed

lemma macro_keeps_regime_witness:
  "\<exists>e cache'. detect_regime_with_macro None plain_pandas None 0 [] NaN empty_cache = ((REGIME_SIDEWAYS, e), cache')
     \<and> en_base e = Too_Short"
proof -
  let ?d = "detect_regime_with_macro None plain_pandas None 0 [] NaN empty_cache"
  obtain r e c where d: "?d = ((r, e), c)" by (metis prod.collapse)
  have "detect_regime None plain_pandas [] NaN = (REGIME_SIDEWAYS, Too_Short)"
    by (simp add: detect_regime_def analyse_prices_def)
  with macro_keeps_regime [OF cache_state.start d] d show ?thesis by auto
qed

end
