(* ===== verification/Command_Handler.thy ===== *)
theory Command_Handler
  imports Sell_Executor Buy_Executor Sector_Classifier
begin

text \<open>
  The Telegram commands, \<open>services/command-handler\<close>: \<open>limits.py\<close> (minimum interval, daily limit of
  manual trades), \<open>handler_trading.py\<close> (manual buy, sell, liquidation), \<open>handler.py\<close> (control, queries,
  watchlist, alerts, settings, dispatch and polling), and the two entry points of the executors
  that take a queued request (\<open>_process_sell_request\<close>, \<open>_process_buy_signal\<close>). Replies are
  the constructors of \<open>reply\<close> with the values their texts show; logging is left out. What the broker, the
  database queries and the publishers answer during one command is the record \<open>cmd_env\<close>.
\<close>

section \<open>Limits\<close>

definition rate_key :: "int \<Rightarrow> string" where
  "rate_key chat_id = ''telegram:rl:'' @ py_str_int chat_id"

definition manual_key :: "string \<Rightarrow> int \<Rightarrow> string" where
  "manual_key day chat_id = ''telegram:manual_trades:'' @ day @ '':'' @ py_str_int chat_id"

definition is_rate_limited :: "'s redis \<Rightarrow> int \<Rightarrow> int option \<Rightarrow> int \<Rightarrow> 's \<Rightarrow> bool \<times> 's" where
  "is_rate_limited R now chat_id min_interval_seconds s = (case chat_id of
     None \<Rightarrow> (False, s)
   | Some c \<Rightarrow> with_redis R False (\<lambda>s. catching False
       (cmd_bind (r_get R (rate_key c) s) (\<lambda>last_ts s.
          case (case last_ts of None \<Rightarrow> Inr False
                | Some p \<Rightarrow> if text_truthy p then res_bind (int_of_payload p) (\<lambda>t. Inr (now - t < min_interval_seconds))
                            else Inr False) of
            Inl e \<Rightarrow> (Inl e, s)
          | Inr True \<Rightarrow> (Inr True, s)
          | Inr False \<Rightarrow> cmd_bind (r_setex R (rate_key c) min_interval_seconds (Text (py_str_int now)) s)
                           (\<lambda>_ s. (Inr False, s))))) s)"

text \<open>The answer says whether the limit is exceeded.\<close>

definition check_and_increment_manual_trade_limit :: "'s redis \<Rightarrow> string \<Rightarrow> int option \<Rightarrow> int \<Rightarrow> 's \<Rightarrow> bool \<times> 's" where
  "check_and_increment_manual_trade_limit R day chat_id daily_limit s = (case chat_id of
     None \<Rightarrow> (False, s)
   | Some c \<Rightarrow> with_redis R False (\<lambda>s. catching False
       (cmd_bind (r_get R (manual_key day c) s) (\<lambda>v s.
          case (case v of None \<Rightarrow> Inr 0 | Some p \<Rightarrow> if text_truthy p then int_of_payload p else Inr 0) of
            Inl e \<Rightarrow> (Inl e, s)
          | Inr n \<Rightarrow> if daily_limit \<le> n then (Inr True, s)
              else cmd_bind (r_setex R (manual_key day c) 86400 (Text (py_str_int (n + 1))) s)
                     (\<lambda>_ s. (Inr False, s))))) s)"

section \<open>Commands, environment and state\<close>

record command =
  cm_name :: string
  cm_args :: "string list"
  cm_chat :: "int option"
  cm_user :: string

record watch_info =
  wi_name :: string
  wi_score :: rat
  wi_tradable :: bool

record today_trade =
  tt_type :: string
  tt_profit :: "rat option"

text \<open>
  \<open>ce_by_code\<close> and \<open>ce_by_name\<close> are the queries of \<open>StockMaster\<close>. A publisher is \<open>None\<close> when it is
  not initialised, otherwise its answer to a message, given how many it has taken so far.
\<close>

record cmd_env =
  ce_now :: int
  ce_day :: string
  ce_stamp :: string
  ce_dry_env :: string
  ce_mode :: string
  ce_min_interval :: int
  ce_daily_limit :: int
  ce_by_code :: "string \<Rightarrow> string option res"
  ce_by_name :: "string \<Rightarrow> (string \<times> string) option res"
  ce_snapshot :: "string \<Rightarrow> pyval res"
  ce_cash :: "rat res"
  ce_session :: "unit res"
  ce_buy_pub :: "(nat \<Rightarrow> string option res) option"
  ce_sell_pub :: "(nat \<Rightarrow> string option res) option"
  ce_watchlist :: "(string \<times> watch_info) list res"
  ce_save :: "unit res"
  ce_unwatch :: "int res"
  ce_today :: "today_trade list res"
  ce_alerts :: "(string \<times> string \<times> rat \<times> bool) list res"
  ce_min_score :: "int res"
  ce_diagnose :: "string res"

record buy_payload =
  bp_code :: string
  bp_name :: string
  bp_price :: rat
  bp_quantity :: int
  bp_dry_run :: pyval
  bp_user :: string
  bp_at :: string

record sell_payload =
  sp_code :: string
  sp_name :: string
  sp_quantity :: int
  sp_reason :: string
  sp_user :: string
  sp_at :: string
  sp_dry_run :: pyval

datatype reply =
    Unknown_Command string | Too_Fast int | Usage string | Help_Text
  | Pause_Set string | Resumed | Stop_Confirm | Stop_Set | Dryrun_Is bool | Dryrun_On | Dryrun_Off
  | Status_Of bool bool bool string | Config_Of bool bool pyval pyval bool
  | Bad_Quantity string | Limit_Exceeded int | No_Publisher | No_Such_Stock string | No_Price_For string
  | Bad_Price_For string | Cash_Too_Small rat rat | Cash_Failed exn | Publish_Failed | Failed_With exn
  | Buy_Accepted string string int rat string bool | Sell_Accepted string string int string bool
  | Not_Held string | Too_Many int int
  | Nothing_Held | Liquidation_Preview nat "(string \<times> int) list" | Liquidated bool nat nat
  | Portfolio_Of "(string \<times> string \<times> int \<times> rat \<times> rat \<times> rat) list" rat rat rat
  | Pnl_Of nat nat rat | No_Trades | Balance_Of rat | Price_Of string string rat rat rat rat
  | Already_Watched string | Watched string string | Unwatched string string | Not_Watched string
  | Watchlist_Empty | Watchlist_Of "(string \<times> watch_info) list"
  | Muted int | Unmuted | Bad_Number
  | Alert_Deleted string string | No_Alert string | Bad_Price string | Price_Not_Positive
  | Alert_Set string string int bool rat | Alerts_Empty | Alerts_Of "(string \<times> string \<times> rat \<times> bool) list"
  | Risk_Is pyval | Risk_Set string | Bad_Risk | Min_Score_Is pyval | Min_Score_Set int | Bad_Range
  | Max_Buy_Is pyval | Max_Buy_Set int | Diagnosis string

text \<open>\<open>cw_bought\<close> and \<open>cw_sold\<close> are the messages the publishers took, \<open>cw_watch\<close> the writes to the watchlist.\<close>

datatype watch_call = Save_To_Watchlist string string | Delete_From_Watchlist string

record 's cmd_world =
  cw_redis :: 's
  cw_ledger :: ledger
  cw_bought :: "buy_payload list"
  cw_sold :: "sell_payload list"
  cw_watch :: "watch_call list"
  cw_replies :: "(int option \<times> reply) list"

type_synonym 's cmd_handler = "cmd_env \<Rightarrow> command \<Rightarrow> bool \<Rightarrow> 's cmd_world \<Rightarrow> reply res \<times> 's cmd_world"

definition on_redis :: "('s \<Rightarrow> 'a \<times> 's) \<Rightarrow> 's cmd_world \<Rightarrow> 'a \<times> 's cmd_world" where
  "on_redis f w = (let (a, s) = f (cw_redis w) in (a, w\<lparr>cw_redis := s\<rparr>))"

text \<open>An \<open>except Exception as e\<close> whose answer is a reply.\<close>

definition reply_of :: "reply res \<times> 's cmd_world \<Rightarrow> reply res \<times> 's cmd_world" where
  "reply_of r = (case r of (Inl e, w) \<Rightarrow> (Inr (Failed_With e), w) | (Inr x, w) \<Rightarrow> (Inr x, w))"

definition six_digits :: "string \<Rightarrow> bool" where
  "six_digits s \<longleftrightarrow> length s = 6 \<and> list_all (\<lambda>d. digit_val d \<noteq> None) s"

definition resolve_stock :: "cmd_env \<Rightarrow> string \<Rightarrow> (string \<times> string) option" where
  "resolve_stock EV name_or_code =
     (if six_digits name_or_code then (case ce_by_code EV name_or_code of
          Inl e \<Rightarrow> None | Inr (Some name) \<Rightarrow> Some (name_or_code, name) | Inr None \<Rightarrow> Some (name_or_code, name_or_code))
      else (case ce_by_name EV name_or_code of
          Inr (Some (code, name)) \<Rightarrow> if code = [] then None else Some (code, name) | _ \<Rightarrow> None))"

text \<open>\<open>dry_run or is_dryrun_enabled()\<close>\<close>

definition effective_dry_run :: "'s redis \<Rightarrow> cmd_env \<Rightarrow> bool \<Rightarrow> 's cmd_world \<Rightarrow> pyval res \<times> 's cmd_world" where
  "effective_dry_run R EV dry_run w =
     (if dry_run then (Inr (PBool True), w) else on_redis (is_dryrun_enabled R (ce_dry_env EV)) w)"

text \<open>\<open>kis.get_stock_snapshot(code)\<close> and its price; \<open>Inr None\<close>: no snapshot.\<close>

definition snapshot_field :: "pyval \<Rightarrow> string \<Rightarrow> rat res" where
  "snapshot_field v k = res_bind (py_get v k (PInt 0)) as_num"

definition snapshot_now :: "cmd_env \<Rightarrow> string \<Rightarrow> rat option res" where
  "snapshot_now EV code = res_bind (ce_snapshot EV code) (\<lambda>v.
     if truthy v then res_bind (snapshot_field v ''price'') (\<lambda>p. Inr (Some p)) else Inr None)"

section \<open>Manual trades\<close>

text \<open>
  A publisher answers with a message id, with nothing, or raises; a message with an id is in the
  stream.
\<close>

definition publish_buy :: "cmd_env \<Rightarrow> (nat \<Rightarrow> string option res) \<Rightarrow> buy_payload \<Rightarrow> 's cmd_world \<Rightarrow> string option res \<times> 's cmd_world" where
  "publish_buy EV pub p w = (case pub (length (cw_bought w)) of
     Inr (Some i) \<Rightarrow> (Inr (Some i), w\<lparr>cw_bought := cw_bought w @ [p]\<rparr>) | r \<Rightarrow> (r, w))"

definition publish_sell :: "cmd_env \<Rightarrow> (nat \<Rightarrow> string option res) \<Rightarrow> sell_payload \<Rightarrow> 's cmd_world \<Rightarrow> string option res \<times> 's cmd_world" where
  "publish_sell EV pub p w = (case pub (length (cw_sold w)) of
     Inr (Some i) \<Rightarrow> (Inr (Some i), w\<lparr>cw_sold := cw_sold w @ [p]\<rparr>) | r \<Rightarrow> (r, w))"

text \<open>\<open>int(args[1])\<close>, when there is a second argument.\<close>

definition parse_quantity :: "string list \<Rightarrow> int option res" where
  "parse_quantity args = (if length args < 2 then Inr None else res_bind (parse_int (args ! 1)) (\<lambda>n. Inr (Some n)))"

datatype quantity_answer = Quantity int | No_Cash_For rat rat | Cash_Error exn

definition buy_quantity :: "cmd_env \<Rightarrow> int option \<Rightarrow> rat \<Rightarrow> quantity_answer" where
  "buy_quantity EV given price = (case given of
     Some n \<Rightarrow> Quantity n
   | None \<Rightarrow> (case ce_cash EV of
        Inl e \<Rightarrow> Cash_Error e
      | Inr cash \<Rightarrow> (let q = py_int (fdiv (fmul cash (fl (2/10))) price)
          in if q \<le> 0 then No_Cash_For cash price else Quantity q)))"

definition buy_request :: "'s redis \<Rightarrow> (nat \<Rightarrow> string option res) \<Rightarrow> string \<Rightarrow> string \<Rightarrow> rat \<Rightarrow> int \<Rightarrow> 's cmd_handler" where
  "buy_request R pub code name price q EV cmd dry_run w =
     cmd_bind (effective_dry_run R EV dry_run w) (\<lambda>dry w.
     cmd_bind (publish_buy EV pub \<lparr>bp_code = code, bp_name = name, bp_price = price, bp_quantity = q,
          bp_dry_run = dry, bp_user = cm_user cmd, bp_at = ce_stamp EV\<rparr> w) (\<lambda>i w.
       case i of None \<Rightarrow> (Inr Publish_Failed, w)
       | Some msg \<Rightarrow> (Inr (if msg = [] then Publish_Failed
                         else Buy_Accepted code name q (fmul price (of_py_int q)) msg (truthy dry)), w)))"

definition handle_manual_buy :: "'s redis \<Rightarrow> 's cmd_handler" where
  "handle_manual_buy R EV cmd dry_run w =
     (case cm_args cmd of [] \<Rightarrow> (Inr (Usage ''buy''), w)
      | stock_input # _ \<Rightarrow> (case parse_quantity (cm_args cmd) of
          Inl _ \<Rightarrow> (Inr (Bad_Quantity (cm_args cmd ! 1)), w)
        | Inr given \<Rightarrow> reply_of
            (case on_redis (check_and_increment_manual_trade_limit R (ce_day EV) (cm_chat cmd) (ce_daily_limit EV)) w of
               (True, w) \<Rightarrow> (Inr (Limit_Exceeded (ce_daily_limit EV)), w)
             | (False, w) \<Rightarrow> (case ce_buy_pub EV of
                 None \<Rightarrow> (Inr No_Publisher, w)
               | Some pub \<Rightarrow> (case resolve_stock EV stock_input of
                   None \<Rightarrow> (Inr (No_Such_Stock stock_input), w)
                 | Some (code, name) \<Rightarrow> (case snapshot_now EV code of
                     Inl e \<Rightarrow> (Inl e, w)
                   | Inr None \<Rightarrow> (Inr (No_Price_For name), w)
                   | Inr (Some price) \<Rightarrow> if price \<le> 0 then (Inr (Bad_Price_For name), w)
                       else (case buy_quantity EV given price of
                           No_Cash_For cash p \<Rightarrow> (Inr (Cash_Too_Small cash p), w)
                         | Cash_Error e \<Rightarrow> (Inr (Cash_Failed e), w)
                         | Quantity q \<Rightarrow> buy_request R pub code name price q EV cmd dry_run w)))))))"

definition sell_all_words :: "string list" where
  "sell_all_words = [utf8 [236, 160, 132, 235, 159, 137], ''all'', utf8 [235, 170, 168, 235, 145, 144]]"

text \<open>\<open>Inr None\<close>: everything is to be sold.\<close>

definition sell_quantity :: "string list \<Rightarrow> int option res" where
  "sell_quantity args = (if length args < 2 \<or> args ! 1 \<in> set sell_all_words then Inr None else parse_quantity args)"

definition sell_request_for :: "'s redis \<Rightarrow> (nat \<Rightarrow> string option res) \<Rightarrow> string \<Rightarrow> string \<Rightarrow> int \<Rightarrow> 's cmd_handler" where
  "sell_request_for R pub code name q EV cmd dry_run w =
     cmd_bind (effective_dry_run R EV dry_run w) (\<lambda>dry w.
     cmd_bind (publish_sell EV pub \<lparr>sp_code = code, sp_name = name, sp_quantity = q, sp_reason = ''MANUAL_SELL'',
          sp_user = cm_user cmd, sp_at = ce_stamp EV, sp_dry_run = dry\<rparr> w) (\<lambda>i w.
       case i of None \<Rightarrow> (Inr Publish_Failed, w)
       | Some msg \<Rightarrow> (Inr (if msg = [] then Publish_Failed else Sell_Accepted code name q msg (truthy dry)), w)))"

definition handle_manual_sell :: "'s redis \<Rightarrow> 's cmd_handler" where
  "handle_manual_sell R EV cmd dry_run w =
     (case cm_args cmd of [] \<Rightarrow> (Inr (Usage ''sell''), w)
      | stock_input # _ \<Rightarrow> (case sell_quantity (cm_args cmd) of
          Inl _ \<Rightarrow> (Inr (Bad_Quantity (cm_args cmd ! 1)), w)
        | Inr given \<Rightarrow> reply_of
            (case on_redis (check_and_increment_manual_trade_limit R (ce_day EV) (cm_chat cmd) (ce_daily_limit EV)) w of
               (True, w) \<Rightarrow> (Inr (Limit_Exceeded (ce_daily_limit EV)), w)
             | (False, w) \<Rightarrow> (case ce_sell_pub EV of
                 None \<Rightarrow> (Inr No_Publisher, w)
               | Some pub \<Rightarrow> (case resolve_stock EV stock_input of
                   None \<Rightarrow> (Inr (No_Such_Stock stock_input), w)
                 | Some (code, name) \<Rightarrow> (case ce_session EV of
                     Inl e \<Rightarrow> (Inl e, w)
                   | Inr _ \<Rightarrow> (case find_code code (get_active_portfolio (cw_ledger w)) of
                       None \<Rightarrow> (Inr (Not_Held name), w)
                     | Some h \<Rightarrow> (let q = (case given of None \<Rightarrow> h_quantity h | Some n \<Rightarrow> n)
                         in if h_quantity h < q then (Inr (Too_Many (h_quantity h) q), w)
                            else (case snapshot_now EV code of
                                Inl e \<Rightarrow> (Inl e, w)
                              | Inr None \<Rightarrow> (Inr (No_Price_For name), w)
                              | Inr (Some price) \<Rightarrow> if price \<le> 0 then (Inr (Bad_Price_For name), w)
                                  else sell_request_for R pub code name q EV cmd dry_run w)))))))))"

definition CONFIRM :: string where "CONFIRM = utf8 [237, 153, 149, 236, 157, 184]"

text \<open>The messages of a liquidation, one per holding, with the numbers of accepted and refused ones.\<close>

fun liquidate :: "cmd_env \<Rightarrow> (nat \<Rightarrow> string option res) \<Rightarrow> string \<Rightarrow> pyval \<Rightarrow> holding list \<Rightarrow> nat \<times> nat \<Rightarrow> 's cmd_world
    \<Rightarrow> (nat \<times> nat) res \<times> 's cmd_world" where
  "liquidate EV pub user dry [] n w = (Inr n, w)"
| "liquidate EV pub user dry (h # hs) (ok, bad) w =
     (if h_quantity h \<le> 0 then liquidate EV pub user dry hs (ok, bad) w
      else cmd_bind (publish_sell EV pub \<lparr>sp_code = h_code h, sp_name = h_name h, sp_quantity = h_quantity h,
             sp_reason = ''MANUAL_SELLALL'', sp_user = user, sp_at = ce_stamp EV, sp_dry_run = dry\<rparr> w) (\<lambda>i w.
             liquidate EV pub user dry hs (if i = None \<or> i = Some [] then (ok, bad + 1) else (ok + 1, bad)) w))"

definition handle_sellall :: "'s redis \<Rightarrow> 's cmd_handler" where
  "handle_sellall R EV cmd dry_run w =
     (if cm_args cmd = [] \<or> hd (cm_args cmd) \<noteq> CONFIRM
      then reply_of (case ce_session EV of
          Inl e \<Rightarrow> (Inl e, w)
        | Inr _ \<Rightarrow> (let hs = get_active_portfolio (cw_ledger w)
            in (Inr (if hs = [] then Nothing_Held
                     else Liquidation_Preview (length hs) (map (\<lambda>h. (h_name h, h_quantity h)) (take 5 hs))), w)))
      else cmd_bind (effective_dry_run R EV dry_run w) (\<lambda>dry w. reply_of
        (case ce_sell_pub EV of
           None \<Rightarrow> (Inr No_Publisher, w)
         | Some pub \<Rightarrow> (case ce_session EV of
             Inl e \<Rightarrow> (Inl e, w)
           | Inr _ \<Rightarrow> (let hs = get_active_portfolio (cw_ledger w)
               in if hs = [] then (Inr Nothing_Held, w)
                  else cmd_bind (liquidate EV pub (cm_user cmd) dry hs (0, 0) w)
                         (\<lambda>(ok, bad) w. (Inr (Liquidated (truthy dry) ok bad), w)))))))"

section \<open>Control of trading\<close>

definition USER_REQUEST :: string where
  "USER_REQUEST = utf8 [236, 130, 172, 236, 154, 169, 236, 158, 144, 32, 236, 154, 148, 236, 178, 173]"
definition EMERGENCY :: string where "EMERGENCY = utf8 [234, 184, 180, 234, 184, 137]"
definition EMERGENCY_STOP :: string where
  "EMERGENCY_STOP = utf8 [234, 184, 180, 234, 184, 137, 32, 236, 164, 145, 236, 167, 128]"
definition USER_SETTING :: string where
  "USER_SETTING = utf8 [236, 130, 172, 236, 154, 169, 236, 158, 144, 32, 236, 132, 164, 236, 160, 149]"

fun join_words :: "string list \<Rightarrow> string" where
  "join_words [] = []"
| "join_words [w] = w"
| "join_words (w # ws) = w @ '' '' @ join_words ws"

text \<open>The answer of \<open>set_trading_flag\<close> is not looked at.\<close>

definition set_flag :: "'s redis \<Rightarrow> cmd_env \<Rightarrow> string \<Rightarrow> bool \<Rightarrow> string \<Rightarrow> 's cmd_world \<Rightarrow> 's cmd_world" where
  "set_flag R EV name v why w = snd (on_redis (set_trading_flag R (ce_stamp EV) name v why 86400) w)"

definition handle_pause :: "'s redis \<Rightarrow> 's cmd_handler" where
  "handle_pause R EV cmd dry_run w =
     (let reason = (if cm_args cmd = [] then USER_REQUEST else join_words (cm_args cmd))
      in (Inr (Pause_Set reason), set_flag R EV ''pause'' True reason w))"

definition handle_resume :: "'s redis \<Rightarrow> 's cmd_handler" where
  "handle_resume R EV cmd dry_run w =
     (Inr Resumed, set_flag R EV ''stop'' False USER_REQUEST (set_flag R EV ''pause'' False USER_REQUEST w))"

definition handle_stop :: "'s redis \<Rightarrow> 's cmd_handler" where
  "handle_stop R EV cmd dry_run w =
     (if cm_args cmd = [] \<or> hd (cm_args cmd) \<notin> {CONFIRM, EMERGENCY} then (Inr Stop_Confirm, w)
      else (Inr Stop_Set, set_flag R EV ''pause'' True EMERGENCY_STOP (set_flag R EV ''stop'' True EMERGENCY_STOP w)))"

definition handle_dryrun :: "'s redis \<Rightarrow> 's cmd_handler" where
  "handle_dryrun R EV cmd dry_run w =
     (if cm_args cmd = []
      then cmd_bind (on_redis (is_dryrun_enabled R (ce_dry_env EV)) w) (\<lambda>v w. (Inr (Dryrun_Is (truthy v)), w))
      else (let val = str_lower (hd (cm_args cmd))
        in if val \<in> set [''on'', ''true'', ''1''] then (Inr Dryrun_On, set_flag R EV ''dryrun'' True USER_SETTING w)
           else if val \<in> set [''off'', ''false'', ''0''] then (Inr Dryrun_Off, set_flag R EV ''dryrun'' False USER_SETTING w)
           else (Inr (Usage ''dryrun''), w)))"

section \<open>Queries\<close>

definition flag_set :: "(string \<times> pyval) list \<Rightarrow> string \<Rightarrow> bool res" where
  "flag_set flags k = res_bind (py_get (dict_get flags k PNone) ''value'' PNone) (\<lambda>v. Inr (truthy v))"

definition handle_status :: "'s redis \<Rightarrow> 's cmd_handler" where
  "handle_status R EV cmd dry_run w =
     (let (flags, w1) = on_redis (get_all_trading_flags R) w
      in cmd_bind (flag_set flags ''pause'', w1) (\<lambda>p w. cmd_bind (flag_set flags ''stop'', w) (\<lambda>t w.
         cmd_bind (on_redis (is_dryrun_enabled R (ce_dry_env EV)) w) (\<lambda>d w.
         (Inr (Status_Of p t (truthy d) (ce_mode EV)), w)))))"

text \<open>The current price of a holding: the average price when the broker answers none.\<close>

definition price_or_average :: "cmd_env \<Rightarrow> holding \<Rightarrow> rat" where
  "price_or_average EV h = (case snapshot_now EV (h_code h) of
     Inr (Some p) \<Rightarrow> if p \<le> 0 then h_avg_price h else p | _ \<Rightarrow> h_avg_price h)"

definition portfolio_line :: "cmd_env \<Rightarrow> holding \<Rightarrow> string \<times> string \<times> int \<times> rat \<times> rat \<times> rat" where
  "portfolio_line EV h = (let cur = price_or_average EV h; avg = h_avg_price h
     in (h_name h, h_code h, h_quantity h, avg, cur,
         if 0 < avg \<and> 0 < cur then fmul (fdiv (fsub cur avg) avg) 100 else 0))"

definition portfolio_totals :: "cmd_env \<Rightarrow> holding list \<Rightarrow> rat \<times> rat" where
  "portfolio_totals EV hs = foldl (\<lambda>(v, p) h. let cur = price_or_average EV h
     in (fadd v (fmul (of_py_int (h_quantity h)) cur),
         fadd p (fmul (fsub cur (h_avg_price h)) (of_py_int (h_quantity h))))) (0, 0) hs"

text \<open>Every row of the table is listed.\<close>

definition handle_portfolio :: "'s cmd_handler" where
  "handle_portfolio EV cmd dry_run w = reply_of (case ce_session EV of
     Inl e \<Rightarrow> (Inl e, w)
   | Inr _ \<Rightarrow> (let hs = map row_holding (lg_positions (cw_ledger w)); (v, p) = portfolio_totals EV hs
       in if hs = [] then (Inr Nothing_Held, w)
          else (Inr (Portfolio_Of (map (portfolio_line EV) hs) v p
                 (if p < v then fmul (fdiv p (fsub v p)) 100 else 0)), w)))"

definition handle_pnl :: "'s cmd_handler" where
  "handle_pnl EV cmd dry_run w = reply_of (case res_bind (ce_session EV) (\<lambda>_. ce_today EV) of
     Inl e \<Rightarrow> (Inl e, w)
   | Inr ts \<Rightarrow> (let sold = filter (\<lambda>t. substr ''SELL'' (tt_type t)) ts
       in if ts = [] then (Inr No_Trades, w)
          else (Inr (Pnl_Of (length (filter (\<lambda>t. tt_type t = ''BUY'') ts)) (length sold)
                 (foldl fadd 0 (map (\<lambda>t. opt_or 0 (tt_profit t)) sold))), w)))"

definition handle_balance :: "'s cmd_handler" where
  "handle_balance EV cmd dry_run w =
     reply_of (res_bind (ce_cash EV) (\<lambda>cash. Inr (Balance_Of cash)), w)"

definition handle_price :: "'s cmd_handler" where
  "handle_price EV cmd dry_run w = (case cm_args cmd of [] \<Rightarrow> (Inr (Usage ''price''), w)
   | stock_input # _ \<Rightarrow> reply_of (case resolve_stock EV stock_input of
       None \<Rightarrow> (Inr (No_Such_Stock stock_input), w)
     | Some (code, name) \<Rightarrow> (res_bind (ce_snapshot EV code) (\<lambda>snap.
         if \<not> truthy snap then Inr (No_Price_For name)
         else res_bind (snapshot_field snap ''price'') (\<lambda>price. res_bind (snapshot_field snap ''open'') (\<lambda>open_price.
              res_bind (snapshot_field snap ''high'') (\<lambda>high. res_bind (snapshot_field snap ''low'') (\<lambda>low.
              Inr (Price_Of code name price
                (if 0 < open_price then fmul (fdiv (fsub price open_price) open_price) 100 else 0) high low)))))), w)))"

definition handle_config :: "'s redis \<Rightarrow> 's cmd_handler" where
  "handle_config R EV cmd dry_run w =
     (let (flags, w1) = on_redis (get_all_trading_flags R) w
      in cmd_bind (ce_min_score EV, w1) (\<lambda>d w.
         let (ms, w) = on_redis (get_config_value R ''min_llm_score'' (PInt d)) w;
             (mb, w) = on_redis (get_config_value R ''max_buy_per_day'' (PInt 5)) w;
             (muted, w) = on_redis (is_notification_muted R (ce_now EV)) w
         in cmd_bind (flag_set flags ''pause'', w) (\<lambda>p w.
            cmd_bind (on_redis (is_dryrun_enabled R (ce_dry_env EV)) w) (\<lambda>dry w.
            (Inr (Config_Of p (truthy dry) ms mb muted), w)))))"

definition handle_diagnose :: "'s cmd_handler" where
  "handle_diagnose EV cmd dry_run w = reply_of (res_bind (ce_diagnose EV) (\<lambda>r. Inr (Diagnosis r)), w)"

definition handle_help :: "'s cmd_handler" where
  "handle_help EV cmd dry_run w = (Inr Help_Text, w)"

section \<open>Watchlist\<close>

definition handle_watch :: "'s cmd_handler" where
  "handle_watch EV cmd dry_run w = (case cm_args cmd of [] \<Rightarrow> (Inr (Usage ''watch''), w)
   | stock_input # _ \<Rightarrow> reply_of (case resolve_stock EV stock_input of
       None \<Rightarrow> (Inr (No_Such_Stock stock_input), w)
     | Some (code, name) \<Rightarrow> (case res_bind (ce_session EV) (\<lambda>_. ce_watchlist EV) of
         Inl e \<Rightarrow> (Inl e, w)
       | Inr watchlist \<Rightarrow> if code \<in> fst ` set watchlist then (Inr (Already_Watched name), w)
           else (case ce_save EV of
               Inl e \<Rightarrow> (Inl e, w)
             | Inr _ \<Rightarrow> (Inr (Watched code name), w\<lparr>cw_watch := cw_watch w @ [Save_To_Watchlist code name]\<rparr>)))))"

definition handle_unwatch :: "'s cmd_handler" where
  "handle_unwatch EV cmd dry_run w = (case cm_args cmd of [] \<Rightarrow> (Inr (Usage ''unwatch''), w)
   | stock_input # _ \<Rightarrow> reply_of (case resolve_stock EV stock_input of
       None \<Rightarrow> (Inr (No_Such_Stock stock_input), w)
     | Some (code, name) \<Rightarrow> (case ce_unwatch EV of
         Inl e \<Rightarrow> (Inl e, w)
       | Inr deleted \<Rightarrow> (Inr (if 0 < deleted then Unwatched code name else Not_Watched name),
           w\<lparr>cw_watch := cw_watch w @ [Delete_From_Watchlist code]\<rparr>))))"

text \<open>Sorted by score, the largest first, equal scores in their order.\<close>

definition handle_watchlist :: "'s cmd_handler" where
  "handle_watchlist EV cmd dry_run w = reply_of (case res_bind (ce_session EV) (\<lambda>_. ce_watchlist EV) of
     Inl e \<Rightarrow> (Inl e, w)
   | Inr l \<Rightarrow> (Inr (if l = [] then Watchlist_Empty else Watchlist_Of (sort_key (\<lambda>x. - wi_score (snd x)) l)), w))"

section \<open>Notifications and alerts\<close>

definition handle_mute :: "'s redis \<Rightarrow> 's cmd_handler" where
  "handle_mute R EV cmd dry_run w = (case cm_args cmd of [] \<Rightarrow> (Inr (Usage ''mute''), w)
   | a # _ \<Rightarrow> (case parse_int a of
       Inl _ \<Rightarrow> (Inr Bad_Number, w)
     | Inr minutes \<Rightarrow> (Inr (Muted minutes),
         snd (on_redis (set_notification_mute R (ce_now EV) (ce_stamp EV) (ce_now EV + minutes * 60)) w))))"

definition handle_unmute :: "'s redis \<Rightarrow> 's cmd_handler" where
  "handle_unmute R EV cmd dry_run w = (Inr Unmuted, snd (on_redis (clear_notification_mute R) w))"

definition delete_words :: "string list" where
  "delete_words = [utf8 [236, 130, 173, 236, 160, 156], ''delete'', ''remove'', ''del'']"

text \<open>\<open>s.replace(pat, '')\<close> for a pattern that is not empty.\<close>

function remove_text :: "string \<Rightarrow> string \<Rightarrow> string" where
  "remove_text pat [] = []"
| "remove_text pat (c # cs) =
     (if pat \<noteq> [] \<and> take (length pat) (c # cs) = pat then remove_text pat (drop (length pat) (c # cs))
      else c # remove_text pat cs)"
  by pat_completeness auto
termination by (relation "measure (\<lambda>(pat, s). length s)") auto

definition parse_price :: "string \<Rightarrow> int res" where
  "parse_price s = parse_int (remove_text (utf8 [236, 155, 144]) (remove_text '','' s))"

text \<open>Whether the alert is for a price above, and the current price shown with it (0: none).\<close>

definition alert_direction :: "cmd_env \<Rightarrow> string \<Rightarrow> int \<Rightarrow> bool \<times> rat" where
  "alert_direction EV code target = (case snapshot_now EV code of
     Inr (Some p) \<Rightarrow> if 0 < p then (p < of_int target, p) else (True, 0) | _ \<Rightarrow> (True, 0))"

definition handle_alert :: "'s redis \<Rightarrow> 's cmd_handler" where
  "handle_alert R EV cmd dry_run w =
     (if length (cm_args cmd) < 2 then (Inr (Usage ''alert''), w)
      else (let stock_input = cm_args cmd ! 0; action = cm_args cmd ! 1
        in case resolve_stock EV stock_input of
          None \<Rightarrow> (Inr (No_Such_Stock stock_input), w)
        | Some (code, name) \<Rightarrow>
            if action \<in> set delete_words
            then (let (deleted, w) = on_redis (delete_price_alert R code) w
                  in (Inr (if deleted then Alert_Deleted code name else No_Alert name), w))
            else (case parse_price action of
                Inl _ \<Rightarrow> (Inr (Bad_Price action), w)
              | Inr target \<Rightarrow> if target \<le> 0 then (Inr Price_Not_Positive, w)
                  else (let (above, cur) = alert_direction EV code target
                    in (Inr (Alert_Set code name target above cur),
                        snd (on_redis (set_price_alert R (ce_stamp EV) code (of_int target) name
                          (if above then ''above'' else ''below'') (86400 * 7)) w))))))"

definition handle_alerts :: "'s cmd_handler" where
  "handle_alerts EV cmd dry_run w = reply_of
     (res_bind (ce_alerts EV) (\<lambda>l. Inr (if l = [] then Alerts_Empty else Alerts_Of l)), w)"

section \<open>Settings\<close>

definition set_config :: "'s redis \<Rightarrow> cmd_env \<Rightarrow> string \<Rightarrow> pyval \<Rightarrow> 's cmd_world \<Rightarrow> 's cmd_world" where
  "set_config R EV name v w = snd (on_redis (set_config_value R (ce_stamp EV) name v 86400) w)"

definition handle_risk :: "'s redis \<Rightarrow> 's cmd_handler" where
  "handle_risk R EV cmd dry_run w = (case cm_args cmd of
     [] \<Rightarrow> (let (v, w) = on_redis (get_config_value R ''risk_level'' (PStr ''moderate'')) w in (Inr (Risk_Is v), w))
   | a # _ \<Rightarrow> (let level = str_lower a
       in if level \<notin> set [''conservative'', ''moderate'', ''aggressive''] then (Inr Bad_Risk, w)
          else (Inr (Risk_Set level), set_config R EV ''risk_level'' (PStr level) w)))"

definition handle_minscore :: "'s redis \<Rightarrow> 's cmd_handler" where
  "handle_minscore R EV cmd dry_run w = (case cm_args cmd of
     [] \<Rightarrow> cmd_bind (ce_min_score EV, w) (\<lambda>d w.
        let (v, w) = on_redis (get_config_value R ''min_llm_score'' (PInt d)) w in (Inr (Min_Score_Is v), w))
   | a # _ \<Rightarrow> (case parse_int a of
       Inl _ \<Rightarrow> (Inr Bad_Number, w)
     | Inr score \<Rightarrow> if \<not> (0 \<le> score \<and> score \<le> 100) then (Inr Bad_Range, w)
         else (Inr (Min_Score_Set score), set_config R EV ''min_llm_score'' (PInt score) w)))"

definition handle_maxbuy :: "'s redis \<Rightarrow> 's cmd_handler" where
  "handle_maxbuy R EV cmd dry_run w = (case cm_args cmd of
     [] \<Rightarrow> (let (v, w) = on_redis (get_config_value R ''max_buy_per_day'' (PInt 5)) w in (Inr (Max_Buy_Is v), w))
   | a # _ \<Rightarrow> (case parse_int a of
       Inl _ \<Rightarrow> (Inr Bad_Number, w)
     | Inr n \<Rightarrow> if \<not> (0 \<le> n \<and> n \<le> 20) then (Inr Bad_Range, w)
         else (Inr (Max_Buy_Set n), set_config R EV ''max_buy_per_day'' (PInt n) w)))"

section \<open>Dispatch and polling\<close>

definition command_handlers :: "'s redis \<Rightarrow> (string \<times> 's cmd_handler) list" where
  "command_handlers R =
     [(''pause'', handle_pause R), (''resume'', handle_resume R), (''stop'', handle_stop R), (''dryrun'', handle_dryrun R),
      (''buy'', handle_manual_buy R), (''sell'', handle_manual_sell R), (''sellall'', handle_sellall R),
      (''status'', handle_status R), (''portfolio'', handle_portfolio), (''pnl'', handle_pnl),
      (''balance'', handle_balance), (''price'', handle_price),
      (''watch'', handle_watch), (''unwatch'', handle_unwatch), (''watchlist'', handle_watchlist),
      (''mute'', handle_mute R), (''unmute'', handle_unmute R), (''alert'', handle_alert R), (''alerts'', handle_alerts),
      (''risk'', handle_risk R), (''minscore'', handle_minscore R), (''maxbuy'', handle_maxbuy R), (''config'', handle_config R),
      (''diagnose'', handle_diagnose), (''report'', handle_diagnose), (''help'', handle_help)]"

definition send_reply :: "int option \<Rightarrow> reply \<Rightarrow> 's cmd_world \<Rightarrow> 's cmd_world" where
  "send_reply chat_id r w = w\<lparr>cw_replies := cw_replies w @ [(chat_id, r)]\<rparr>"

definition process_command :: "'s redis \<Rightarrow> cmd_env \<Rightarrow> command \<Rightarrow> bool \<Rightarrow> 's cmd_world \<Rightarrow> unit res \<times> 's cmd_world" where
  "process_command R EV cmd dry_run w = (case map_of (command_handlers R) (cm_name cmd) of
     None \<Rightarrow> (Inr (), send_reply (cm_chat cmd) (Unknown_Command (cm_name cmd)) w)
   | Some h \<Rightarrow> (case on_redis (is_rate_limited R (ce_now EV) (cm_chat cmd) (ce_min_interval EV)) w of
        (True, w) \<Rightarrow> (Inr (), send_reply (cm_chat cmd) (Too_Fast (ce_min_interval EV)) w)
      | (False, w) \<Rightarrow> cmd_bind (h EV cmd dry_run w) (\<lambda>r w. (Inr (), send_reply (cm_chat cmd) r w))))"

text \<open>
  Each command comes with the environment of its moment. The counts are of commands that ended
  normally and of those that raised.
\<close>

fun process_commands :: "'s redis \<Rightarrow> bool \<Rightarrow> (cmd_env \<times> command) list \<Rightarrow> nat \<times> nat \<Rightarrow> 's cmd_world \<Rightarrow> (nat \<times> nat) \<times> 's cmd_world" where
  "process_commands R dry_run [] n w = (n, w)"
| "process_commands R dry_run ((EV, cmd) # cs) (ok, bad) w = (case process_command R EV cmd dry_run w of
     (Inr _, w) \<Rightarrow> process_commands R dry_run cs (ok + 1, bad) w
   | (Inl e, w) \<Rightarrow> process_commands R dry_run cs (ok, bad + 1) (send_reply (cm_chat cmd) (Failed_With e) w))"

text \<open>\<open>pending\<close> is the answer of \<open>get_pending_commands\<close>; without a bot the poll is an error.\<close>

datatype poll_answer = No_Bot | Poll_Error exn | Polled nat nat

definition poll_and_process :: "'s redis \<Rightarrow> bool \<Rightarrow> (cmd_env \<times> command) list res option \<Rightarrow> 's cmd_world \<Rightarrow> poll_answer \<times> 's cmd_world" where
  "poll_and_process R dry_run pending w = (case pending of
     None \<Rightarrow> (No_Bot, w)
   | Some (Inl e) \<Rightarrow> (Poll_Error e, w)
   | Some (Inr cs) \<Rightarrow> (case process_commands R dry_run cs (0, 0) w of ((ok, bad), w) \<Rightarrow> (Polled ok bad, w)))"

section \<open>The requests at the executors\<close>

text \<open>
  \<open>env\<close> is \<open>os.getenv('DRY_RUN', 'true')\<close> of the executor's process; the key \<open>dry_run\<close> of a request is
  not read.
\<close>

record queued_sale =
  qs_code :: string
  qs_name :: string
  qs_quantity :: int
  qs_reason :: string
  qs_price :: "rat option"

definition queued_of :: "sell_payload \<Rightarrow> queued_sale" where
  "queued_of p = \<lparr>qs_code = sp_code p, qs_name = sp_name p, qs_quantity = sp_quantity p, qs_reason = sp_reason p, qs_price = None\<rparr>"

definition sale_request :: "string \<Rightarrow> queued_sale \<Rightarrow> sell_request" where
  "sale_request env p = \<lparr>sr_code = qs_code p, sr_name = qs_name p, sr_quantity = qs_quantity p, sr_reason = qs_reason p,
     sr_preset = PNone, sr_risk = PNone, sr_dry_run = (str_lower env = ''true''), sr_price = qs_price p\<rparr>"

definition process_sell_request ::
  "'s redis \<Rightarrow> 'd conf_db \<Rightarrow> sell_env \<Rightarrow> string \<Rightarrow> queued_sale \<Rightarrow> ('s, 'd) sell_world \<Rightarrow> sell_answer res \<times> ('s, 'd) sell_world" where
  "process_sell_request R D EV env p w =
     (if qs_code p = [] \<or> qs_name p = [] \<or> qs_quantity p = 0 then (Inl ValueError, w)
      else execute_sell_order R D EV (sale_request env p) w)"

definition signal_of :: "buy_payload \<Rightarrow> buy_signal" where
  "signal_of p = \<lparr>sg_candidates = [\<lparr>cd_code = bp_code p, cd_name = bp_name p, cd_score = 100, cd_tradable = False, cd_tier = [],
       cd_scored_on = None, cd_risk = [], cd_price = bp_price p, cd_signal = ''MANUAL_TELEGRAM'',
       cd_reason = ''[Telegram '' @ utf8 [236, 136, 152, 235, 143, 153, 235, 167, 164, 236, 136, 152] @ ''] ''
         @ utf8 [236, 130, 172, 236, 154, 169, 236, 158, 144] @ '' '' @ utf8 [236, 158, 133, 235, 160, 165],
       cd_manual = bp_quantity p\<rparr>],
     sg_regime = PStr ''MANUAL'', sg_preset = PDict [(''name'', PStr ''MANUAL_TELEGRAM''), (''params'', PDict [])],
     sg_risk = [(''position_size_ratio'', PFloat 1)], sg_source = ''telegram-manual'', sg_manual = bp_quantity p\<rparr>"

text \<open>A service that is shutting down takes no purchase; \<open>None\<close>: it was left out.\<close>

definition process_buy_request ::
  "'s redis \<Rightarrow> 'd conf_db \<Rightarrow> buy_env \<Rightarrow> string \<Rightarrow> bool \<Rightarrow> buy_signal \<Rightarrow> ('s, 'd) buy_world
    \<Rightarrow> buy_answer option res \<times> ('s, 'd) buy_world" where
  "process_buy_request R D EV env shutting_down sg w =
     (if shutting_down then (Inr None, w)
      else (case process_buy_signal R D EV sg (str_lower env = ''true'') w of
          (Inl e, w) \<Rightarrow> (Inl e, w) | (Inr a, w) \<Rightarrow> (Inr (Some a), w)))"

end
