(* ===== verification/Command_Facts.thy ===== *)
theory Command_Facts
  imports Command_Handler
begin

text \<open>
  Properties of the Telegram commands together with the executors: the emergency stop holds over
  every sequence of commands, purchases and automatic sales until it is resumed, the daily limit of manual
  trades, and what the commands confirm although it does not happen.
\<close>

section \<open>What a command leaves of a key\<close>

text \<open>
  A reachable server that also keeps its state when it refuses an expiry time that is not positive
  (Redis: \<open>invalid expire time\<close>).
\<close>

definition refuses_expiry :: "'s redis \<Rightarrow> ('s \<Rightarrow> bool) \<Rightarrow> ('s \<Rightarrow> string \<Rightarrow> payload option) \<Rightarrow> bool" where
  "refuses_expiry R up look \<longleftrightarrow> (\<forall>s k t v. up s \<and> t \<le> 0 \<longrightarrow>
     up (snd (r_setex R k t v s)) \<and> look (snd (r_setex R k t v s)) = look s)"

definition server :: "'s redis \<Rightarrow> ('s \<Rightarrow> bool) \<Rightarrow> ('s \<Rightarrow> string \<Rightarrow> payload option) \<Rightarrow> bool" where
  "server R up look \<longleftrightarrow> redis_laws R up look \<and> refuses_expiry R up look"

lemma map_redis_server: "server map_redis alive ms_look"
  using map_redis_laws by (auto simp: server_def refuses_expiry_def map_redis_def ms_guard_def)

text \<open>\<open>f\<close> keeps the server reachable and the cell of \<open>K\<close>.\<close>

definition keeps :: "('s \<Rightarrow> bool) \<Rightarrow> ('s \<Rightarrow> string \<Rightarrow> payload option) \<Rightarrow> string \<Rightarrow> 's \<Rightarrow> 's \<Rightarrow> bool" where
  "keeps up look K s s' \<longleftrightarrow> up s' \<and> look s' K = look s K"

lemma keeps_refl: "up s \<Longrightarrow> keeps up look K s s" by (simp add: keeps_def)

lemma keeps_trans: "keeps up look K s s' \<Longrightarrow> keeps up look K s' s'' \<Longrightarrow> keeps up look K s s''"
  by (simp add: keeps_def)

lemma setex_keeps:
  assumes "server R up look" "up s" "k \<noteq> K"
  shows "keeps up look K s (snd (r_setex R k t v s))"
proof (cases "0 < t")
  case True
  with assms show ?thesis by (auto simp: server_def keeps_def redis_after)
next
  case False
  then have "t \<le> 0" by simp
  then show ?thesis using assms by (simp add: server_def keeps_def refuses_expiry_def)
qed

lemma snd_write [simp]: "snd (catching d (cmd_bind r (\<lambda>_ s. (Inr x, s)))) = snd r"
  by (cases r; cases "fst r") (auto simp: cmd_bind_def)

lemma delete_keeps: "server R up look \<Longrightarrow> up s \<Longrightarrow> k \<noteq> K \<Longrightarrow> keeps up look K s (snd (r_delete R k s))"
  using redis_after(7,8) [of R up look s k] by (simp add: server_def keeps_def)

lemma rate_limit_keeps:
  assumes "server R up look" "up s" "\<And>c. rate_key c \<noteq> K"
  shows "keeps up look K s (snd (is_rate_limited R now ch n s))"
proof -
  have L: "redis_laws R up look" using assms(1) by (simp add: server_def)
  have w: "snd (catching False (cmd_bind (r_setex R (rate_key c) n v s) (\<lambda>_ s. (Inr False, s)))) = snd (r_setex R (rate_key c) n v s)" for c v
    by simp
  show ?thesis
    using setex_keeps [OF assms(1,2,3)] keeps_refl [of up s] assms(2)
    by (auto simp: is_rate_limited_def with_redis_up [OF L assms(2)] redis_bind [OF L assms(2)] w
        split: option.splits sum.splits bool.splits if_splits)
qed

lemma manual_limit_keeps:
  assumes "server R up look" "up s" "\<And>c. manual_key day c \<noteq> K"
  shows "keeps up look K s (snd (check_and_increment_manual_trade_limit R day ch n s))"
proof -
  have L: "redis_laws R up look" using assms(1) by (simp add: server_def)
  show ?thesis
    using setex_keeps [OF assms(1,2,3)] keeps_refl [of up s] assms(2)
    by (auto simp: check_and_increment_manual_trade_limit_def with_redis_up [OF L assms(2)] redis_bind [OF L assms(2)]
        split: option.splits sum.splits if_splits)
qed

lemma flag_keeps:
  assumes "server R up look" "up s" "flag_key_map (str_lower f) = Some k" "k \<noteq> K"
  shows "keeps up look K s (snd (set_trading_flag R st f v why t s))"
proof -
  have L: "redis_laws R up look" using assms(1) by (simp add: server_def)
  show ?thesis using setex_keeps [OF assms(1,2,4)] assms(3) by (simp add: set_trading_flag_def with_redis_up [OF L assms(2)])
qed

lemma config_keeps:
  assumes "server R up look" "up s" "config_key_map (str_lower f) = Some k" "k \<noteq> K"
  shows "keeps up look K s (snd (set_config_value R st f v t s))"
proof -
  have L: "redis_laws R up look" using assms(1) by (simp add: server_def)
  show ?thesis using setex_keeps [OF assms(1,2,4)] assms(3) by (simp add: set_config_value_def with_redis_up [OF L assms(2)])
qed

lemma mute_keeps:
  assumes "server R up look" "up s" "NOTIFICATION_MUTE_KEY \<noteq> K"
  shows "keeps up look K s (snd (set_notification_mute R now st until s))"
    "keeps up look K s (snd (clear_notification_mute R s))"
proof -
  have L: "redis_laws R up look" using assms(1) by (simp add: server_def)
  show "keeps up look K s (snd (set_notification_mute R now st until s))" "keeps up look K s (snd (clear_notification_mute R s))"
    using setex_keeps [OF assms] delete_keeps [OF assms]
    by (simp_all add: set_notification_mute_def clear_notification_mute_def with_redis_up [OF L assms(2)] Let_def)
qed

lemma alert_keeps:
  assumes "server R up look" "up s" "PRICE_ALERT_PREFIX @ c \<noteq> K"
  shows "keeps up look K s (snd (set_price_alert R st c p n a t s))"
    "keeps up look K s (snd (delete_price_alert R c s))"
proof -
  have L: "redis_laws R up look" using assms(1) by (simp add: server_def)
  have d: "snd (catching False (cmd_bind r (\<lambda>n s. (Inr (f n), s)))) = snd r" for r :: "nat res \<times> 'a" and f
    by (cases r; cases "fst r") (auto simp: cmd_bind_def)
  show "keeps up look K s (snd (set_price_alert R st c p n a t s))" "keeps up look K s (snd (delete_price_alert R c s))"
    using setex_keeps [OF assms] delete_keeps [OF assms]
    by (simp_all add: set_price_alert_def delete_price_alert_def with_redis_up [OF L assms(2)] d)
qed

text \<open>The queries leave the server as it is.\<close>

lemma query_same:
  assumes "server R up look" "up s"
  shows "snd (get_trading_flag R n s) = s" "snd (is_dryrun_enabled R env s) = s" "snd (get_all_trading_flags R s) = s"
    "snd (get_config_value R n d s) = s" "snd (is_notification_muted R now s) = s"
proof -
  have L: "redis_laws R up look" using assms(1) by (simp add: server_def)
  note f = flag_read_up [OF L assms(2)]
  show "snd (get_trading_flag R n s) = s" by (rule f)
  show "snd (is_dryrun_enabled R env s) = s" using f by (simp add: is_dryrun_enabled_def case_prod_beta Let_def)
  show "snd (get_all_trading_flags R s) = s" using f by (simp add: get_all_trading_flags_def case_prod_beta Let_def)
  show "snd (get_config_value R n d s) = s" "snd (is_notification_muted R now s) = s"
    by (auto simp: get_config_value_def is_notification_muted_def with_redis_up [OF L assms(2)] redis_bind [OF L assms(2)]
        catching_def split: option.splits sum.splits prod.splits)
qed

section \<open>What a handler leaves\<close>

text \<open>\<open>K\<close> is a cell the handler does not write; the ledger is never written by a command.\<close>

definition leaves :: "('s \<Rightarrow> bool) \<Rightarrow> ('s \<Rightarrow> string \<Rightarrow> payload option) \<Rightarrow> string \<Rightarrow> 's cmd_world \<Rightarrow> 's cmd_world \<Rightarrow> bool" where
  "leaves up look K w w' \<longleftrightarrow> keeps up look K (cw_redis w) (cw_redis w') \<and> cw_ledger w' = cw_ledger w"

lemma leaves_refl: "up (cw_redis w) \<Longrightarrow> leaves up look K w w" by (simp add: leaves_def keeps_refl)

lemma leaves_trans: "leaves up look K w w' \<Longrightarrow> leaves up look K w' w'' \<Longrightarrow> leaves up look K w w''"
  by (auto simp: leaves_def intro: keeps_trans)

lemma leaves_up: "leaves up look K w w' \<Longrightarrow> up (cw_redis w')" by (simp add: leaves_def keeps_def)

lemma on_redis_leaves: "keeps up look K (cw_redis w) (snd (f (cw_redis w))) \<Longrightarrow> leaves up look K w (snd (on_redis f w))"
  by (simp add: on_redis_def leaves_def case_prod_beta Let_def)

lemma on_redis_same: "snd (f (cw_redis w)) = cw_redis w \<Longrightarrow> on_redis f w = (fst (f (cw_redis w)), w)"
  by (simp add: on_redis_def case_prod_beta Let_def)

lemma snd_reply_of [simp]: "snd (reply_of r) = snd r"
  by (auto simp: reply_of_def split: prod.splits sum.splits)

lemma publish_leaves:
  "up (cw_redis w) \<Longrightarrow> leaves up look K w (snd (publish_buy EV pub p w))"
  "up (cw_redis w) \<Longrightarrow> leaves up look K w (snd (publish_sell EV pub p' w))"
  by (auto simp: publish_buy_def publish_sell_def leaves_def keeps_def split: sum.splits option.splits)

lemma bind_leaves:
  assumes "leaves up look K w (snd r)" "\<And>x w1. r = (Inr x, w1) \<Longrightarrow> leaves up look K w1 (snd (f x w1))"
  shows "leaves up look K w (snd (cmd_bind r f))"
  using assms by (cases r; cases "fst r") (auto simp: cmd_bind_def intro: leaves_trans)

lemma dry_run_same:
  assumes "server R up look" "up (cw_redis w)"
  shows "snd (effective_dry_run R EV d w) = w"
  using query_same(2) [OF assms] by (simp add: effective_dry_run_def on_redis_same)

lemma liquidate_leaves: "up (cw_redis w) \<Longrightarrow> leaves up look K w (snd (liquidate EV pub user dry hs n w))"
proof (induction EV pub user dry hs n w rule: liquidate.induct)
  case (2 EV pub user dry h hs ok bad w)
  show ?case
  proof (cases "h_quantity h \<le> 0")
    case True
    then show ?thesis using 2 by simp
  next
    case False
    show ?thesis unfolding liquidate.simps if_not_P [OF False]
    proof (rule bind_leaves, rule publish_leaves(2), rule "2.prems")
      fix i w1
      assume e: "publish_sell EV pub \<lparr>sp_code = h_code h, sp_name = h_name h, sp_quantity = h_quantity h,
        sp_reason = ''MANUAL_SELLALL'', sp_user = user, sp_at = ce_stamp EV, sp_dry_run = dry\<rparr> w = (Inr i, w1)"
      have "up (cw_redis w1)" using publish_leaves(2) [where up = up and w = w and look = look and K = K, OF "2.prems"] leaves_up e by (metis snd_conv)
      then show "leaves up look K w1 (snd (liquidate EV pub user dry hs
          (if i = None \<or> i = Some [] then (ok, bad + 1) else (ok + 1, bad)) w1))" by (rule "2.IH"(2) [OF False])
    qed
  qed
qed (simp add: leaves_refl)

lemma set_flag_leaves:
  assumes "server R up look" "up (cw_redis w)" "flag_key_map (str_lower f) = Some k" "k \<noteq> K"
  shows "leaves up look K w (set_flag R EV f v why w)"
  unfolding set_flag_def by (intro on_redis_leaves flag_keeps [OF assms])

lemma set_config_leaves:
  assumes "server R up look" "up (cw_redis w)" "config_key_map (str_lower f) = Some k" "k \<noteq> K"
  shows "leaves up look K w (set_config R EV f v w)"
  unfolding set_config_def by (intro on_redis_leaves config_keeps [OF assms])

lemma config_names [simp]:
  "config_key_map (str_lower ''risk_level'') = Some ''config:risk_level''"
  "config_key_map (str_lower ''min_llm_score'') = Some ''config:min_llm_score''"
  "config_key_map (str_lower ''max_buy_per_day'') = Some ''config:max_buy_per_day''"
  by code_simp+

lemma limit_leaves:
  assumes "server R up look" "up (cw_redis w)" "\<And>d c. manual_key d c \<noteq> K"
  shows "leaves up look K w (snd (on_redis (check_and_increment_manual_trade_limit R d ch n) w))"
  by (intro on_redis_leaves manual_limit_keeps [OF assms(1,2)]) (rule assms(3))

lemma snd_answer [simp]:
  "snd (cmd_bind r (\<lambda>i w. case i of None \<Rightarrow> (Inr a, w) | Some m \<Rightarrow> (Inr (f m), w))) = snd r"
  by (cases r; cases "fst r") (auto simp: cmd_bind_def split: option.split)

lemma request_leaves:
  assumes "server R up look" "up (cw_redis w)"
  shows "leaves up look K w (snd (buy_request R pub code name price q EV cmd d w))"
    "leaves up look K w (snd (sell_request_for R pub code name q EV cmd d w))"
proof -
  obtain r where e: "effective_dry_run R EV d w = (r, w)" using dry_run_same [OF assms, of EV d] by (metis prod.collapse)
  show "leaves up look K w (snd (buy_request R pub code name price q EV cmd d w))"
    "leaves up look K w (snd (sell_request_for R pub code name q EV cmd d w))"
    using publish_leaves [where up = up and w = w and look = look and K = K, OF assms(2)] leaves_refl [where up = up and w = w, OF assms(2)]
    by (cases r; simp add: buy_request_def sell_request_for_def e)+
qed

lemma manual_buy_leaves:
  assumes "server R up look" "up (cw_redis w)" "\<And>d c. manual_key d c \<noteq> K"
  shows "leaves up look K w (snd (handle_manual_buy R EV cmd dry w))"
proof -
  let ?c = "on_redis (check_and_increment_manual_trade_limit R (ce_day EV) (cm_chat cmd) (ce_daily_limit EV)) w"
  obtain b w1 where c: "?c = (b, w1)" by fastforce
  have l: "leaves up look K w w1" using limit_leaves [OF assms] c by (metis snd_conv)
  note u = leaves_up [OF this]
  have f: "leaves up look K w w2" if "leaves up look K w1 w2" for w2 using l that by (rule leaves_trans)
  show ?thesis
    using f [OF request_leaves(1) [OF assms(1) u]] l leaves_refl [where up = up and w = w, OF assms(2)]
    by (auto simp: handle_manual_buy_def c split: list.split sum.split option.split bool.split quantity_answer.split)
qed

lemma manual_sell_leaves:
  assumes "server R up look" "up (cw_redis w)" "\<And>d c. manual_key d c \<noteq> K"
  shows "leaves up look K w (snd (handle_manual_sell R EV cmd dry w))"
proof -
  let ?c = "on_redis (check_and_increment_manual_trade_limit R (ce_day EV) (cm_chat cmd) (ce_daily_limit EV)) w"
  obtain b w1 where c: "?c = (b, w1)" by fastforce
  have l: "leaves up look K w w1" using limit_leaves [OF assms] c by (metis snd_conv)
  note u = leaves_up [OF this]
  have f: "leaves up look K w w2" if "leaves up look K w1 w2" for w2 using l that by (rule leaves_trans)
  show ?thesis
    using f [OF request_leaves(2) [OF assms(1) u]] l leaves_refl [where up = up and w = w, OF assms(2)]
    by (auto simp: handle_manual_sell_def c Let_def split: list.split sum.split option.split bool.split)
qed

lemma sellall_leaves:
  assumes "server R up look" "up (cw_redis w)"
  shows "leaves up look K w (snd (handle_sellall R EV cmd dry w))"
proof -
  obtain r where e: "effective_dry_run R EV dry w = (r, w)" using dry_run_same [OF assms, of EV dry] by (metis prod.collapse)
  have s: "snd (cmd_bind (liquidate EV pub u d hs n w) (\<lambda>(ok, bad) w. (Inr (g ok bad), w))) = snd (liquidate EV pub u d hs n w)"
    for pub u d hs n and g :: "nat \<Rightarrow> nat \<Rightarrow> reply"
    by (cases "liquidate EV pub u d hs n w"; cases "fst (liquidate EV pub u d hs n w)") (auto simp: cmd_bind_def)
  show ?thesis
    using liquidate_leaves [where up = up and w = w and look = look and K = K, OF assms(2)] leaves_refl [where up = up and w = w, OF assms(2)]
    by (cases r) (auto simp: handle_sellall_def e s Let_def split: sum.split option.split)
qed

lemma flag_handlers_leave:
  assumes S: "server R up look" and U: "up (cw_redis w)"
  shows "TRADING_PAUSE_KEY \<noteq> K \<Longrightarrow> leaves up look K w (snd (handle_pause R EV cmd dry w))"
    "TRADING_PAUSE_KEY \<noteq> K \<Longrightarrow> TRADING_STOP_KEY \<noteq> K \<Longrightarrow> leaves up look K w (snd (handle_resume R EV cmd dry w))"
    "TRADING_PAUSE_KEY \<noteq> K \<Longrightarrow> TRADING_STOP_KEY \<noteq> K \<Longrightarrow> leaves up look K w (snd (handle_stop R EV cmd dry w))"
    "TRADING_DRYRUN_KEY \<noteq> K \<Longrightarrow> leaves up look K w (snd (handle_dryrun R EV cmd dry w))"
proof -
  note f = set_flag_leaves [OF S U]
  have two: "leaves up look K w (set_flag R EV a x y (set_flag R EV b x' y' w))"
    if "flag_key_map (str_lower a) = Some k" "flag_key_map (str_lower b) = Some k'" "k \<noteq> K" "k' \<noteq> K" for a b x y x' y' k k'
  proof -
    have l: "leaves up look K w (set_flag R EV b x' y' w)" by (rule f [OF that(2,4)])
    show ?thesis by (rule leaves_trans [OF l set_flag_leaves [OF S leaves_up [OF l] that(1,3)]])
  qed
  show "TRADING_PAUSE_KEY \<noteq> K \<Longrightarrow> leaves up look K w (snd (handle_pause R EV cmd dry w))"
    by (simp add: handle_pause_def Let_def f)
  show "TRADING_PAUSE_KEY \<noteq> K \<Longrightarrow> TRADING_STOP_KEY \<noteq> K \<Longrightarrow> leaves up look K w (snd (handle_resume R EV cmd dry w))"
    by (simp add: handle_resume_def two)
  show "TRADING_PAUSE_KEY \<noteq> K \<Longrightarrow> TRADING_STOP_KEY \<noteq> K \<Longrightarrow> leaves up look K w (snd (handle_stop R EV cmd dry w))"
    using leaves_refl [where up = up and w = w, OF U] by (simp add: handle_stop_def two)
  have q: "snd (cmd_bind (on_redis (is_dryrun_enabled R e) w) (\<lambda>v w. (Inr (g v), w))) = w" for e and g :: "pyval \<Rightarrow> reply"
    unfolding on_redis_same [of "is_dryrun_enabled R e" w, OF query_same(2) [OF S U]]
    by (cases "fst (is_dryrun_enabled R e (cw_redis w))") simp_all
  show "TRADING_DRYRUN_KEY \<noteq> K \<Longrightarrow> leaves up look K w (snd (handle_dryrun R EV cmd dry w))"
    using leaves_refl [where up = up and w = w, OF U] by (auto simp: handle_dryrun_def q f Let_def)
qed

lemma bind_same: "(\<And>x. snd (f x w) = w) \<Longrightarrow> snd (cmd_bind (r, w) f) = w"
  by (cases r) auto

text \<open>The queries leave everything as it is, but for the list of watchlist writes.\<close>

lemma queries_leave:
  assumes S: "server R up look" and U: "up (cw_redis w)"
  shows "snd (handle_status R EV cmd dry w) = w" "snd (handle_config R EV cmd dry w) = w"
    "snd (handle_portfolio EV cmd dry w) = w" "snd (handle_pnl EV cmd dry w) = w" "snd (handle_balance EV cmd dry w) = w"
    "snd (handle_price EV cmd dry w) = w" "snd (handle_watchlist EV cmd dry w) = w" "snd (handle_alerts EV cmd dry w) = w"
    "snd (handle_diagnose EV cmd dry w) = w" "snd (handle_help EV cmd dry w) = w"
proof -
  have same: "on_redis (is_dryrun_enabled R e) w = (fst (is_dryrun_enabled R e (cw_redis w)), w)"
    "on_redis (get_all_trading_flags R) w = (fst (get_all_trading_flags R (cw_redis w)), w)"
    "on_redis (get_config_value R n d) w = (fst (get_config_value R n d (cw_redis w)), w)"
    "on_redis (is_notification_muted R now) w = (fst (is_notification_muted R now (cw_redis w)), w)" for e n d now
    using query_same [OF S U] by (simp_all add: on_redis_same)
  show "snd (handle_status R EV cmd dry w) = w" "snd (handle_config R EV cmd dry w) = w"
    by (simp_all add: handle_status_def handle_config_def same bind_same)
  show "snd (handle_portfolio EV cmd dry w) = w" "snd (handle_pnl EV cmd dry w) = w" "snd (handle_balance EV cmd dry w) = w"
    "snd (handle_price EV cmd dry w) = w" "snd (handle_watchlist EV cmd dry w) = w" "snd (handle_alerts EV cmd dry w) = w"
    "snd (handle_diagnose EV cmd dry w) = w" "snd (handle_help EV cmd dry w) = w"
    by (auto simp: handle_portfolio_def handle_pnl_def handle_balance_def handle_price_def handle_watchlist_def
        handle_alerts_def handle_diagnose_def handle_help_def Let_def split: sum.split list.split option.split prod.split)
qed

lemma watch_leaves:
  assumes "up (cw_redis w)"
  shows "leaves up look K w (snd (handle_watch EV cmd dry w))" "leaves up look K w (snd (handle_unwatch EV cmd dry w))"
  using assms by (auto simp: handle_watch_def handle_unwatch_def leaves_def keeps_def
      split: list.split sum.split option.split)

lemma setting_handlers_leave:
  assumes S: "server R up look" and U: "up (cw_redis w)"
  shows "NOTIFICATION_MUTE_KEY \<noteq> K \<Longrightarrow> leaves up look K w (snd (handle_mute R EV cmd dry w))"
    "NOTIFICATION_MUTE_KEY \<noteq> K \<Longrightarrow> leaves up look K w (snd (handle_unmute R EV cmd dry w))"
    "(\<And>c. PRICE_ALERT_PREFIX @ c \<noteq> K) \<Longrightarrow> leaves up look K w (snd (handle_alert R EV cmd dry w))"
    "''config:risk_level'' \<noteq> K \<Longrightarrow> leaves up look K w (snd (handle_risk R EV cmd dry w))"
    "''config:min_llm_score'' \<noteq> K \<Longrightarrow> leaves up look K w (snd (handle_minscore R EV cmd dry w))"
    "''config:max_buy_per_day'' \<noteq> K \<Longrightarrow> leaves up look K w (snd (handle_maxbuy R EV cmd dry w))"
proof -
  note r = leaves_refl [where up = up and w = w and look = look and K = K, OF U]
  have same: "on_redis (get_config_value R n d) w = (fst (get_config_value R n d (cw_redis w)), w)" for n d
    using query_same [OF S U] by (simp add: on_redis_same)
  show "NOTIFICATION_MUTE_KEY \<noteq> K \<Longrightarrow> leaves up look K w (snd (handle_mute R EV cmd dry w))"
    "NOTIFICATION_MUTE_KEY \<noteq> K \<Longrightarrow> leaves up look K w (snd (handle_unmute R EV cmd dry w))"
    using mute_keeps [OF S U] r
    by (auto simp: handle_mute_def handle_unmute_def intro!: on_redis_leaves split: list.split sum.split)
  show "(\<And>c. PRICE_ALERT_PREFIX @ c \<noteq> K) \<Longrightarrow> leaves up look K w (snd (handle_alert R EV cmd dry w))"
    using alert_keeps [OF S U] r
    by (auto simp: handle_alert_def Let_def split_beta intro!: on_redis_leaves split: option.split sum.split)
  show "''config:risk_level'' \<noteq> K \<Longrightarrow> leaves up look K w (snd (handle_risk R EV cmd dry w))"
    "''config:max_buy_per_day'' \<noteq> K \<Longrightarrow> leaves up look K w (snd (handle_maxbuy R EV cmd dry w))"
    using set_config_leaves [OF S U] r
    by (auto simp: handle_risk_def handle_maxbuy_def same Let_def split: list.split sum.split)
  have "snd (cmd_bind (m, w) (\<lambda>d w. (let (v, w) = on_redis (get_config_value R n (PInt d)) w in (Inr (g v), w)))) = w"
    for m :: "int res" and n and g :: "pyval \<Rightarrow> reply" by (cases m) (simp_all add: same)
  then show "''config:min_llm_score'' \<noteq> K \<Longrightarrow> leaves up look K w (snd (handle_minscore R EV cmd dry w))"
    using set_config_leaves [OF S U] r
    by (auto simp: handle_minscore_def split: list.split sum.split)
qed

text \<open>The cells a command writes besides the cell of its chat's last command.\<close>

definition writes :: "string \<Rightarrow> string \<Rightarrow> bool" where
  "writes name K \<longleftrightarrow>
     name \<in> {''pause'', ''resume'', ''stop''} \<and> K = TRADING_PAUSE_KEY
     \<or> name \<in> {''resume'', ''stop''} \<and> K = TRADING_STOP_KEY
     \<or> name = ''dryrun'' \<and> K = TRADING_DRYRUN_KEY
     \<or> name \<in> {''buy'', ''sell''} \<and> (\<exists>d c. K = manual_key d c)
     \<or> name \<in> {''mute'', ''unmute''} \<and> K = NOTIFICATION_MUTE_KEY
     \<or> name = ''alert'' \<and> (\<exists>c. K = PRICE_ALERT_PREFIX @ c)
     \<or> name = ''risk'' \<and> K = ''config:risk_level''
     \<or> name = ''minscore'' \<and> K = ''config:min_llm_score''
     \<or> name = ''maxbuy'' \<and> K = ''config:max_buy_per_day''"

lemma handler_leaves:
  assumes S: "server R up look" and U: "up (cw_redis w)" and h: "map_of (command_handlers R) name = Some h"
    and K: "\<not> writes name K"
  shows "leaves up look K w (snd (h EV cmd dry w))"
proof -
  note r = leaves_refl [where up = up and w = w and look = look and K = K, OF U]
  note facts = manual_buy_leaves [OF S U] manual_sell_leaves [OF S U] sellall_leaves [OF S U]
    flag_handlers_leave [OF S U] watch_leaves [where up = up and w = w, OF U] setting_handlers_leave [OF S U]
  from h have "(name, h) \<in> set (command_handlers R)" by (rule map_of_SomeD)
  then show ?thesis
    using K unfolding command_handlers_def
    by (elim set_ConsD [elim_format] disjE)
      (auto simp: writes_def queries_leave [OF S U] r intro!: facts)
qed

lemma send_leaves: "leaves up look K w w' \<Longrightarrow> leaves up look K w (send_reply c r w')"
  by (simp add: send_reply_def leaves_def)

lemma rate_leaves:
  assumes "server R up look" "up (cw_redis w)" "\<And>c. rate_key c \<noteq> K"
  shows "leaves up look K w (snd (on_redis (is_rate_limited R now ch n) w))"
  by (intro on_redis_leaves rate_limit_keeps [OF assms(1,2)]) (rule assms(3))

lemma command_leaves:
  assumes S: "server R up look" and U: "up (cw_redis w)" and K: "\<not> writes (cm_name cmd) K" "\<And>c. rate_key c \<noteq> K"
  shows "leaves up look K w (snd (process_command R EV cmd dry w))"
proof (cases "map_of (command_handlers R) (cm_name cmd)")
  case None
  then show ?thesis using leaves_refl [where up = up and w = w, OF U] by (simp add: process_command_def send_leaves)
next
  case (Some h)
  obtain b w1 where c: "on_redis (is_rate_limited R (ce_now EV) (cm_chat cmd) (ce_min_interval EV)) w = (b, w1)" by fastforce
  have l: "leaves up look K w w1" using rate_leaves [OF S U K(2)] c by (metis snd_conv)
  have "leaves up look K w (snd (h EV cmd dry w1))"
    by (rule leaves_trans [OF l handler_leaves [OF S leaves_up [OF l] Some K(1)]])
  moreover have "leaves up look K w (snd (cmd_bind q (\<lambda>r w. (Inr (), send_reply ch r w))))" if "leaves up look K w (snd q)" for q ch
    using that by (cases q; cases "fst q") (auto simp: send_leaves)
  ultimately show ?thesis using l by (cases b) (simp_all add: process_command_def Some c send_leaves)
qed

section \<open>The emergency stop\<close>

text \<open>
  The command handler and the two executors on one server and one ledger: \<open>pf_cmd\<close> is the state of the
  handler; each executor has its configuration and the list of its orders.
\<close>

record ('s, 'd) platform =
  pf_cmd :: "'s cmd_world"
  pf_buy_conf :: "conf \<times> 'd"
  pf_sell_conf :: "conf \<times> 'd"
  pf_sizer :: sizer
  pf_buy_orders :: "(string \<times> int \<times> int) list"
  pf_sell_orders :: "(string \<times> int \<times> string option res) list"

datatype event =
    Command_Event cmd_env command bool
  | Sale_Event sell_env string queued_sale
  | Purchase_Event buy_env string bool buy_signal

definition sell_view :: "('s, 'd) platform \<Rightarrow> ('s, 'd) sell_world" where
  "sell_view p = \<lparr>sw_redis = cw_redis (pf_cmd p), sw_conf = pf_sell_conf p, sw_ledger = cw_ledger (pf_cmd p),
     sw_orders = pf_sell_orders p\<rparr>"

definition buy_view :: "('s, 'd) platform \<Rightarrow> ('s, 'd) buy_world" where
  "buy_view p = \<lparr>bw_redis = cw_redis (pf_cmd p), bw_conf = pf_buy_conf p, bw_sizer = pf_sizer p,
     bw_ledger = cw_ledger (pf_cmd p), bw_orders = pf_buy_orders p\<rparr>"

fun run_event :: "'s redis \<Rightarrow> 'd conf_db \<Rightarrow> event \<Rightarrow> ('s, 'd) platform \<Rightarrow> ('s, 'd) platform" where
  "run_event R D (Command_Event EV cmd dry) p = p\<lparr>pf_cmd := snd (process_command R EV cmd dry (pf_cmd p))\<rparr>"
| "run_event R D (Sale_Event EV env q) p =
     (let w = snd (process_sell_request R D EV env q (sell_view p))
      in p\<lparr>pf_cmd := (pf_cmd p)\<lparr>cw_redis := sw_redis w, cw_ledger := sw_ledger w\<rparr>, pf_sell_conf := sw_conf w,
           pf_sell_orders := sw_orders w\<rparr>)"
| "run_event R D (Purchase_Event EV env down sg) p =
     (let w = snd (process_buy_request R D EV env down sg (buy_view p))
      in p\<lparr>pf_cmd := (pf_cmd p)\<lparr>cw_redis := bw_redis w, cw_ledger := bw_ledger w\<rparr>, pf_buy_conf := bw_conf w,
           pf_sizer := bw_sizer w, pf_buy_orders := bw_orders w\<rparr>)"

definition run_events :: "'s redis \<Rightarrow> 'd conf_db \<Rightarrow> event list \<Rightarrow> ('s, 'd) platform \<Rightarrow> ('s, 'd) platform" where
  "run_events R D es p = foldl (\<lambda>p e. run_event R D e p) p es"

text \<open>What the stop is to hold back: everything but manual sales, until the command \<open>resume\<close>.\<close>

fun held_back :: "event \<Rightarrow> bool" where
  "held_back (Command_Event EV cmd dry) \<longleftrightarrow> cm_name cmd \<noteq> ''resume''"
| "held_back (Sale_Event EV env q) \<longleftrightarrow> \<not> is_manual (sale_request env q)"
| "held_back (Purchase_Event EV env down sg) \<longleftrightarrow> True"

definition orders_and_ledger :: "('s, 'd) platform \<Rightarrow>
    (string \<times> int \<times> int) list \<times> (string \<times> int \<times> string option res) list \<times> ledger" where
  "orders_and_ledger p = (pf_buy_orders p, pf_sell_orders p, cw_ledger (pf_cmd p))"

text \<open>A machine that stays in a mode while only admitted inputs arrive, and shows the same there.\<close>

locale frozen =
  fixes run :: "'e \<Rightarrow> 'w \<Rightarrow> 'w" and mode :: "'w \<Rightarrow> bool" and admitted :: "'e \<Rightarrow> bool" and shown :: "'w \<Rightarrow> 'v"
  assumes stays: "mode w \<Longrightarrow> admitted e \<Longrightarrow> mode (run e w)"
    and same_shown: "mode w \<Longrightarrow> admitted e \<Longrightarrow> shown (run e w) = shown w"
begin

lemma runs_frozen: "mode w \<Longrightarrow> list_all admitted es \<Longrightarrow> mode (foldl (\<lambda>w e. run e w) w es) \<and> shown (foldl (\<lambda>w e. run e w) w es) = shown w"
  by (induction es arbitrary: w) (simp_all add: stays same_shown)

end

definition stopped_cell :: "payload option \<Rightarrow> bool" where
  "stopped_cell c \<longleftrightarrow> (\<exists>v. stop_answer c = Inr v \<and> truthy v)"

definition stopped :: "'s redis \<Rightarrow> ('s \<Rightarrow> bool) \<Rightarrow> ('s \<Rightarrow> string \<Rightarrow> payload option) \<Rightarrow> ('s, 'd) platform \<Rightarrow> bool" where
  "stopped R up look p \<longleftrightarrow> server R up look \<and> up (cw_redis (pf_cmd p))
     \<and> stopped_cell (look (cw_redis (pf_cmd p)) TRADING_STOP_KEY)"

lemma stop_key_other: "rate_key c \<noteq> TRADING_STOP_KEY" "manual_key d c \<noteq> TRADING_STOP_KEY"
  "\<not> writes name TRADING_STOP_KEY \<longleftrightarrow> name \<notin> {''resume'', ''stop''}"
  by (auto simp: writes_def rate_key_def manual_key_def flag_keys NOTIFICATION_MUTE_KEY_def PRICE_ALERT_PREFIX_def)

lemma set_stop_flag:
  assumes "server R up look" "up (cw_redis w)"
    and "w' = set_flag R EV ''pause'' True why (set_flag R EV ''stop'' True why' w)"
  shows "up (cw_redis w') \<and> stopped_cell (look (cw_redis w') TRADING_STOP_KEY) \<and> cw_ledger w' = cw_ledger w"
proof -
  have L: "redis_laws R up look" using assms(1) by (simp add: server_def)
  define w1 where "w1 = set_flag R EV ''stop'' True why' w"
  have n: "(0 :: int) < 86400" by simp
  have 1: "up (cw_redis w1)" "look (cw_redis w1) TRADING_STOP_KEY =
      Some (Dumps (PDict [(''value'', PBool True), (''reason'', PStr why'), (''set_at'', PStr (ce_stamp EV))]))"
      "cw_ledger w1 = cw_ledger w"
    unfolding w1_def set_flag_def on_redis_def
    using set_flag_up [OF L assms(2) flag_names(2) n, of "ce_stamp EV" True why'] by (simp_all add: case_prod_beta Let_def)
  have "leaves up look TRADING_STOP_KEY w1 w'" unfolding assms(3) w1_def [symmetric]
    by (rule set_flag_leaves [OF assms(1) 1(1) flag_names(1)]) (simp add: flag_keys)
  with 1 show ?thesis
    by (simp add: leaves_def keeps_def stopped_cell_def stop_answer_def)
qed

lemma stop_command:
  assumes "server R up look" "up (cw_redis w)" "\<not> fst (is_rate_limited R (ce_now EV) (cm_chat cmd) (ce_min_interval EV) (cw_redis w))"
    "cm_name cmd = ''stop''" "cm_args cmd = a # as" "a = CONFIRM \<or> a = EMERGENCY"
  shows "up (cw_redis (snd (process_command R EV cmd dry w)))
    \<and> stopped_cell (look (cw_redis (snd (process_command R EV cmd dry w))) TRADING_STOP_KEY)
    \<and> cw_ledger (snd (process_command R EV cmd dry w)) = cw_ledger w"
proof -
  obtain w1 where c: "on_redis (is_rate_limited R (ce_now EV) (cm_chat cmd) (ce_min_interval EV)) w = (False, w1)"
    using assms(3) by (auto simp: on_redis_def case_prod_beta Let_def)
  have "leaves up look TRADING_STOP_KEY w w1"
    using rate_leaves [OF assms(1,2), of TRADING_STOP_KEY] stop_key_other c by (metis snd_conv)
  then have w1: "up (cw_redis w1)" "cw_ledger w1 = cw_ledger w" by (auto simp: leaves_def keeps_def)
  have "map_of (command_handlers R) ''stop'' = Some (handle_stop R)" by (simp add: command_handlers_def)
  then show ?thesis
    using set_stop_flag [OF assms(1) w1(1) refl, of EV EMERGENCY_STOP EMERGENCY_STOP] assms(4-6) w1
    by (auto simp: process_command_def c handle_stop_def send_reply_def)
qed

lemma stopped_event:
  assumes st: "stopped R up look p" and e: "held_back e"
  shows "stopped R up look (run_event R D e p) \<and> orders_and_ledger (run_event R D e p) = orders_and_ledger p"
proof -
  have S: "server R up look" and L: "redis_laws R up look" and U: "up (cw_redis (pf_cmd p))"
    and C: "stopped_cell (look (cw_redis (pf_cmd p)) TRADING_STOP_KEY)"
    using st by (simp_all add: stopped_def server_def)
  obtain v where v: "stop_answer (look (cw_redis (pf_cmd p)) TRADING_STOP_KEY) = Inr v" "truthy v"
    using C by (auto simp: stopped_cell_def)
  show ?thesis
  proof (cases e)
    case (Command_Event EV cmd dry)
    let ?w = "pf_cmd p" and ?w' = "snd (process_command R EV cmd dry (pf_cmd p))"
    have "up (cw_redis ?w') \<and> stopped_cell (look (cw_redis ?w') TRADING_STOP_KEY) \<and> cw_ledger ?w' = cw_ledger ?w"
    proof (cases "cm_name cmd = ''stop'' \<and> \<not> fst (is_rate_limited R (ce_now EV) (cm_chat cmd) (ce_min_interval EV) (cw_redis ?w))
        \<and> (\<exists>a as. cm_args cmd = a # as \<and> (a = CONFIRM \<or> a = EMERGENCY))")
      case True
      then show ?thesis using stop_command [OF S U] by blast
    next
      case False
      have "leaves up look TRADING_STOP_KEY ?w ?w'"
      proof (cases "cm_name cmd = ''stop''")
        case True
        obtain b w1 where c: "on_redis (is_rate_limited R (ce_now EV) (cm_chat cmd) (ce_min_interval EV)) ?w = (b, w1)" by fastforce
        have l: "leaves up look TRADING_STOP_KEY ?w w1"
          using rate_leaves [OF S U, of TRADING_STOP_KEY] stop_key_other c by (metis snd_conv)
        have b: "b = fst (is_rate_limited R (ce_now EV) (cm_chat cmd) (ce_min_interval EV) (cw_redis ?w))"
          using c by (auto simp: on_redis_def case_prod_beta Let_def)
        have m: "map_of (command_handlers R) ''stop'' = Some (handle_stop R)" by (simp add: command_handlers_def)
        show ?thesis using False True l b
          by (cases "cm_args cmd"; cases b) (auto simp: process_command_def c m handle_stop_def send_leaves)
      next
        case no: False
        show ?thesis
          by (rule command_leaves [OF S U]) (use no e Command_Event in \<open>simp_all add: stop_key_other\<close>)
      qed
      with C show ?thesis by (simp add: leaves_def keeps_def)
    qed
    then show ?thesis using S by (simp add: Command_Event stopped_def orders_and_ledger_def)
  next
    case (Sale_Event EV env q)
    have "sw_redis (sell_view p) = cw_redis (pf_cmd p)" by (simp add: sell_view_def)
    moreover from this have "\<not> passes_stop (sale_request env q) (look (sw_redis (sell_view p)) TRADING_STOP_KEY)"
      using e v Sale_Event by (simp add: passes_stop_def)
    ultimately have "snd (process_sell_request R D EV env q (sell_view p)) = sell_view p"
      using execute_up [OF L, of "sell_view p"] U by (simp add: process_sell_request_def)
    then show ?thesis using st
      by (simp add: Sale_Event Let_def) (simp add: sell_view_def stopped_def orders_and_ledger_def)
  next
    case (Purchase_Event EV env down sg)
    let ?w = "buy_view p"
    have r: "bw_redis ?w = cw_redis (pf_cmd p)" and upd: "?w\<lparr>bw_redis := cw_redis (pf_cmd p)\<rparr> = ?w"
      by (simp_all add: buy_view_def)
    have "check_permission R sg ?w = skip Stop_active (?w\<lparr>bw_redis := cw_redis (pf_cmd p)\<rparr>)"
      using v is_trading_stopped_up [OF L, of "bw_redis ?w"] U by (simp add: r check_permission_def read_flag_def)
    then have "check_permission R sg ?w = skip Stop_active ?w" by (simp only: upd)
    then have "snd (process_buy_signal R D EV sg (str_lower env = ''true'') ?w) = ?w"
      by (simp add: process_buy_signal_def skip_def)
    then have "snd (process_buy_request R D EV env down sg ?w) = ?w"
      by (auto simp: process_buy_request_def split: prod.split sum.split)
    then show ?thesis using st
      by (simp add: Purchase_Event Let_def) (simp add: buy_view_def stopped_def orders_and_ledger_def)
  qed
qed

interpretation es: frozen "run_event R D" "stopped R up look" held_back orders_and_ledger for R D up look
  by unfold_locales (use stopped_event in \<open>blast, blast\<close>)

text \<open>
  Claim C28. The emergency stop holds: after a confirmed \<open>/stop\<close> that is not too fast, on a server that keeps its
  keys, no sequence of further commands other than \<open>/resume\<close>, of purchases (manual ones too) and of
  sales that are not manual sends an order or changes the ledger, whatever the executors' environment is.
\<close>

theorem emergency_stop_holds:
  assumes "server R up look" "up (cw_redis (pf_cmd p))"
    and "\<not> fst (is_rate_limited R (ce_now EV) (cm_chat cmd) (ce_min_interval EV) (cw_redis (pf_cmd p)))"
    and "cm_name cmd = ''stop''" "cm_args cmd = a # as" "a = CONFIRM \<or> a = EMERGENCY"
    and "list_all held_back es"
  shows "orders_and_ledger (run_events R D (Command_Event EV cmd dry # es) p) = orders_and_ledger p"
proof -
  let ?p = "run_event R D (Command_Event EV cmd dry) p"
  note c = stop_command [OF assms(1-6), of dry]
  then have "stopped R up look ?p" "orders_and_ledger ?p = orders_and_ledger p"
    using assms(1) by (simp_all add: stopped_def orders_and_ledger_def)
  with es.runs_frozen [of R up look ?p es D] assms(7) show ?thesis by (simp add: run_events_def)
qed

definition sample_cmd_env :: cmd_env where
  "sample_cmd_env = \<lparr>ce_now = 1000, ce_day = ''20260101'', ce_stamp = ''t'', ce_dry_env = ''false'', ce_mode = ''REAL'',
     ce_min_interval = 5, ce_daily_limit = 20, ce_by_code = (\<lambda>_. Inr (Some ''s'')), ce_by_name = (\<lambda>_. Inr None),
     ce_snapshot = (\<lambda>_. Inr (PDict [(''price'', PInt 90)])), ce_cash = Inr 0, ce_session = Inr (),
     ce_buy_pub = Some (\<lambda>_. Inr (Some ''m'')), ce_sell_pub = Some (\<lambda>_. Inr (Some ''m'')), ce_watchlist = Inr [],
     ce_save = Inr (), ce_unwatch = Inr 0, ce_today = Inr [], ce_alerts = Inr [], ce_min_score = Inr 70,
     ce_diagnose = Inr ''ok''\<rparr>"

definition sample_cmd_world :: "map_store cmd_world" where
  "sample_cmd_world = \<lparr>cw_redis = ms_empty, cw_ledger = sw_ledger sample_world, cw_bought = [], cw_sold = [],
     cw_watch = [], cw_replies = []\<rparr>"

definition sample_platform :: "(map_store, string \<Rightarrow> cval option) platform" where
  "sample_platform = \<lparr>pf_cmd = sample_cmd_world, pf_buy_conf = sw_conf sample_world, pf_sell_conf = sw_conf sample_world,
     pf_sizer = bw_sizer sample_buy_world, pf_buy_orders = [], pf_sell_orders = []\<rparr>"

definition command_of :: "string \<Rightarrow> string list \<Rightarrow> command" where
  "command_of n args = \<lparr>cm_name = n, cm_args = args, cm_chat = Some 7, cm_user = ''u''\<rparr>"

definition sample_queued :: queued_sale where
  "sample_queued = \<lparr>qs_code = ''005930'', qs_name = ''s'', qs_quantity = 10, qs_reason = ''Stop Loss'', qs_price = Some 90\<rparr>"

lemma sample_not_limited:
  "\<not> fst (is_rate_limited map_redis (ce_now sample_cmd_env) (Some 7) (ce_min_interval sample_cmd_env) ms_empty)"
  by (simp add: is_rate_limited_def with_redis_def map_redis_def ms_guard_def ms_empty_def ms_look_def sample_cmd_env_def)

lemma emergency_stop_holds_witness:
  "orders_and_ledger (run_events map_redis map_db
     [Command_Event sample_cmd_env (command_of ''stop'' [CONFIRM]) False,
      Sale_Event (sample_env No_fault (Some ''n1'')) ''false'' sample_queued] sample_platform) = orders_and_ledger sample_platform"
proof (rule emergency_stop_holds [OF map_redis_server, where a = CONFIRM and as = "[]"])
  show "alive (cw_redis (pf_cmd sample_platform))" by (simp add: sample_platform_def sample_cmd_world_def ms_empty_def)
  show "\<not> fst (is_rate_limited map_redis (ce_now sample_cmd_env) (cm_chat (command_of ''stop'' [CONFIRM]))
      (ce_min_interval sample_cmd_env) (cw_redis (pf_cmd sample_platform)))"
    using sample_not_limited by (simp add: sample_platform_def sample_cmd_world_def command_of_def)
  have "\<not> is_manual (sale_request ''false'' sample_queued)" by code_simp
  then show "list_all held_back [Sale_Event (sample_env No_fault (Some ''n1'')) ''false'' sample_queued]" by simp
qed (simp_all add: command_of_def)

section \<open>What is confirmed and does not happen\<close>

text \<open>
  Without a connection to Redis the stop is confirmed all the same: the handler changes nothing and
  answers that trading has stopped, while both executors read the flags as not set.
\<close>

theorem stop_confirmed_without_effect:
  assumes "\<not> r_conn R (cw_redis w)" "cm_args cmd = a # as" "a = CONFIRM \<or> a = EMERGENCY"
  shows "handle_stop R EV cmd dry w = (Inr Stop_Set, w)
    \<and> is_trading_stopped R (cw_redis w) = (Inr (PBool False), cw_redis w)
    \<and> is_trading_paused R (cw_redis w) = (Inr (PBool False), cw_redis w)"
  using assms
  by (auto simp: handle_stop_def set_flag_def on_redis_def set_trading_flag_def with_redis_def is_trading_stopped_def
      is_trading_paused_def get_trading_flag_def default_flag_def)

lemma stop_confirmed_without_effect_witness:
  "\<exists>w. handle_stop map_redis sample_cmd_env (command_of ''stop'' [CONFIRM]) False w = (Inr Stop_Set, w)
     \<and> is_trading_stopped map_redis (cw_redis w) = (Inr (PBool False), cw_redis w)"
proof -
  let ?w = "sample_cmd_world\<lparr>cw_redis := ms_empty\<lparr>alive := False\<rparr>\<rparr>"
  have "\<not> r_conn map_redis (cw_redis ?w)" by (simp add: map_redis_def)
  from stop_confirmed_without_effect [OF this, of "command_of ''stop'' [CONFIRM]" CONFIRM "[]" sample_cmd_env False]
  show ?thesis by (auto simp: command_of_def)
qed

text \<open>
  The dry-run switch does not reach the executors: whatever the request that \<open>/sell\<close> or \<open>/sellall\<close>
  queued with the dry-run mark, an executor whose own environment says \<open>DRY_RUN=false\<close> that
  completes the sale has sent the order to the broker.
\<close>

theorem dry_run_mark_ignored:
  assumes "redis_laws R up look" "up (sw_redis w)" "str_lower env \<noteq> ''true''" "truthy (sp_dry_run p)"
    and "process_sell_request R D EV env (queued_of p) w = (Inr (Sold rc), w')"
  shows "sw_orders w' = sw_orders w @ [(sp_code p, sp_quantity p, Inr (Some (rc_order_no rc)))]"
proof -
  have e: "execute_sell_order R D EV (sale_request env (queued_of p)) w = (Inr (Sold rc), w')"
    using assms(5) by (auto simp: process_sell_request_def split: if_splits)
  from sold_effects [OF assms(1,2) e] assms(3)
  show ?thesis by (simp add: sale_request_def queued_of_def)
qed

definition marked_sale :: "int \<Rightarrow> sell_payload" where
  "marked_sale n = \<lparr>sp_code = ''005930'', sp_name = ''s'', sp_quantity = n, sp_reason = ''MANUAL_SELL'', sp_user = ''u'', sp_at = ''t'',
     sp_dry_run = PBool True\<rparr>"

definition quoted_env :: sell_env where
  "quoted_env = (sample_env No_fault (Some ''n1''))\<lparr>se_snapshot := Inr (PDict [(''price'', PInt 90)])\<rparr>"

lemma marked_sale_sold:
  assumes "n \<noteq> 0"
  shows "\<exists>rc w'. process_sell_request map_redis map_db quoted_env env (queued_of (marked_sale n)) sample_world = (Inr (Sold rc), w')"
proof -
  let ?q = "sale_request env (queued_of (marked_sale n))"
  let ?rc = "\<lparr>rc_order_no = (if sr_dry_run ?q then ''DRY_RUN_SELL_0'' else ''n1''), rc_quantity = n, rc_sell_price = 90, rc_buy_price = 100,
    rc_profit_pct = py_round 2 (fmul (fdiv (fsub 90 100) 100) 100),
    rc_profit_amount = py_round 0 (fmul (fsub 90 100) (of_py_int n)), rc_risk = PDict [], rc_dry_run = sr_dry_run ?q\<rparr>"
  have q: "sr_code ?q = ''005930''" "sr_quantity ?q = n" "sr_preset ?q = PNone" "sr_risk ?q = PNone" "sr_price ?q = None"
    by (simp_all add: sale_request_def queued_of_def marked_sale_def)
  have "sr_reason ?q = ''MANUAL_SELL''" by (simp add: sale_request_def queued_of_def marked_sale_def)
  moreover have "substr ''MANUAL'' (str_upper ''MANUAL_SELL'')" by code_simp
  ultimately have m: "is_manual ?q" by (simp add: is_manual_def)
  have ev: "se_regime quoted_env = PNone" "se_presets quoted_env = Inr []" "se_mode quoted_env = ''REAL''"
    "se_snapshot quoted_env = Inr (PDict [(''price'', PInt 90)])" "se_order quoted_env = Inr (Some ''n1'')"
    "se_session quoted_env = Inr ()" "se_commit quoted_env = Inr ()" "se_digits quoted_env = ''0''"
    by (simp_all add: quoted_env_def sample_env_def)
  have avg: "h_avg_price (row_holding (''005930'', new_position ''s'' 10 100 None 0)) = 100"
    by (simp add: row_holding_def new_position_def)
  have price: "sale_price quoted_env ?q = Some 90"
    by (simp add: sale_price_def q looked_up_def ev snapshot_price_def)
  have number: "sale_number quoted_env ?q = Some (rc_order_no ?rc)" by (simp add: sale_number_def ev)
  obtain params where preset: "choose_preset quoted_env PNone = Inr (params, PNone)"
    by (simp add: choose_preset_def ev val_or_def)
  have risk: "choose_risk quoted_env PNone PNone = Inr (PDict [])" by (simp add: choose_risk_def ev val_or_def)
  have terms: "sell_terms quoted_env ?q (sw_ledger sample_world) ?rc"
    unfolding sell_terms_def q
    by (rule exI [of _ "row_holding (''005930'', new_position ''s'' 10 100 None 0)"],
        rule exI [of _ params], rule exI [of _ PNone], intro conjI, rule sample_facts(3))
      (simp_all add: price number preset risk avg ev m)
  have stop: "passes_stop ?q (ms_look (sw_redis sample_world) TRADING_STOP_KEY)" using m by (simp add: passes_stop_def)
  have free: "ms_look (sw_redis sample_world) (lock_key (sr_code ?q)) = None"
    by (simp add: sample_world_def ms_empty_def ms_look_def)
  obtain w' where "execute_sell_order map_redis map_db quoted_env ?q sample_world = (Inr (Sold ?rc), w')"
    by (rule terms_suffice [OF map_redis_laws, OF sample_alive, OF stop, OF free, OF terms])
  then have "process_sell_request map_redis map_db quoted_env env (queued_of (marked_sale n)) sample_world = (Inr (Sold ?rc), w')"
    using assms by (simp add: process_sell_request_def queued_of_def marked_sale_def)
  then show ?thesis by blast
qed

lemma dry_run_mark_ignored_witness:
  "\<exists>rc w'. process_sell_request map_redis map_db quoted_env ''false'' (queued_of (marked_sale 10)) sample_world = (Inr (Sold rc), w')
     \<and> sw_orders w' = sw_orders sample_world @ [(''005930'', 10, Inr (Some (rc_order_no rc)))]"
proof -
  have n: "(10 :: int) \<noteq> 0" by simp
  obtain rc w' where s: "process_sell_request map_redis map_db quoted_env ''false'' (queued_of (marked_sale 10)) sample_world = (Inr (Sold rc), w')"
    using marked_sale_sold [OF n] by blast
  have "str_lower ''false'' \<noteq> ''true''" "truthy (sp_dry_run (marked_sale 10))" by code_simp+
  from dry_run_mark_ignored [OF map_redis_laws, OF sample_alive, OF this, OF s]
  have "sw_orders w' = sw_orders sample_world @ [(''005930'', 10, Inr (Some (rc_order_no rc)))]" by (simp add: marked_sale_def)
  with s show ?thesis by blast
qed

text \<open>
  A negative quantity is a sale that adds shares: \<open>/sell\<close> checks only that the quantity does not
  exceed the holding, and the executor that completes such a request writes a position that is larger than
  before by that number.
\<close>

theorem negative_sale_adds_shares:
  assumes "redis_laws R up look" "up (sw_redis w)" "qs_quantity q < 0" "se_ready EV" "se_fault EV = No_fault"
    and "map_of (lg_positions (sw_ledger w)) (qs_code q) = Some pos" "0 < ps_quantity pos"
    and "process_sell_request R D EV env q w = (Inr (Sold rc), w')"
  shows "\<exists>pos'. map_of (lg_positions (sw_ledger w')) (qs_code q) = Some pos'
    \<and> ps_quantity pos' = ps_quantity pos + \<bar>qs_quantity q\<bar>"
proof -
  have e: "execute_sell_order R D EV (sale_request env q) w = (Inr (Sold rc), w')"
    using assms(8) by (auto simp: process_sell_request_def split: if_splits)
  have "sw_ledger w' = snd (execute_trade_and_log (se_ready EV) (se_db EV) (se_fault EV) (se_now EV)
      (sale_of (sale_request env q) (rc_sell_price rc)) (sw_ledger w))"
    using sold_effects [OF assms(1,2) e] by blast
  then show ?thesis using assms(3-7)
    by (simp add: execute_trade_and_log_def write_trade_def sale_of_def sale_request_def sell_position_def Let_def)
qed

lemma negative_sale_adds_shares_witness:
  "\<exists>rc w' pos. process_sell_request map_redis map_db quoted_env ''true'' (queued_of (marked_sale (- 3))) sample_world = (Inr (Sold rc), w')
     \<and> map_of (lg_positions (sw_ledger w')) ''005930'' = Some pos \<and> ps_quantity pos = 13"
proof -
  have n: "(- 3 :: int) \<noteq> 0" by simp
  let ?q = "queued_of (marked_sale (- 3))" and ?pos = "new_position ''s'' 10 100 None 0"
  obtain rc w' where s: "process_sell_request map_redis map_db quoted_env ''true'' ?q sample_world = (Inr (Sold rc), w')"
    using marked_sale_sold [OF n] by blast
  have "qs_quantity ?q < 0" "se_ready quoted_env" "se_fault quoted_env = No_fault"
    "map_of (lg_positions (sw_ledger sample_world)) (qs_code ?q) = Some ?pos" "0 < ps_quantity ?pos"
    by (simp_all add: queued_of_def marked_sale_def quoted_env_def sample_env_def sample_world_def new_position_def)
  from negative_sale_adds_shares [OF map_redis_laws, OF sample_alive, OF this, OF s]
  have "\<exists>pos. map_of (lg_positions (sw_ledger w')) ''005930'' = Some pos \<and> ps_quantity pos = 13"
    by (simp add: queued_of_def marked_sale_def new_position_def)
  with s show ?thesis by blast
qed

section \<open>The daily limit of manual trades\<close>

text \<open>The queued purchases, and the queued sales whose reason counts.\<close>

definition queued_orders :: "(string \<Rightarrow> bool) \<Rightarrow> 's cmd_world \<Rightarrow> nat" where
  "queued_orders ct w = length (cw_bought w) + length (filter (\<lambda>p. ct (sp_reason p)) (cw_sold w))"

lemma on_redis_trades [simp]: "queued_orders ct (snd (on_redis f w)) = queued_orders ct w"
  by (simp add: on_redis_def queued_orders_def case_prod_beta Let_def)

lemma on_redis_trades_eq: "on_redis f w = (b, w1) \<Longrightarrow> queued_orders ct w1 = queued_orders ct w"
  using on_redis_trades [of ct f w] by simp

lemma bind_trades:
  "queued_orders ct (snd r) = m \<Longrightarrow> (\<And>x w1. queued_orders ct w1 = m \<Longrightarrow> queued_orders ct (snd (f x w1)) = m)
    \<Longrightarrow> queued_orders ct (snd (cmd_bind r f)) = m"
  by (cases r; cases "fst r") (auto simp: cmd_bind_def)

lemma append_trades [simp]:
  "queued_orders ct (w\<lparr>cw_sold := cw_sold w @ [p]\<rparr>) = queued_orders ct w + (if ct (sp_reason p) then 1 else 0)"
  "queued_orders ct (w\<lparr>cw_bought := cw_bought w @ [b]\<rparr>) = queued_orders ct w + 1"
  by (simp_all add: queued_orders_def)

lemma liquidate_trades: "\<not> ct ''MANUAL_SELLALL'' \<Longrightarrow> queued_orders ct (snd (liquidate EV pub user dry hs n w)) = queued_orders ct w"
proof (induction EV pub user dry hs n w rule: liquidate.induct)
  case (2 EV pub user dry h hs ok bad w)
  show ?case
  proof (cases "h_quantity h \<le> 0")
    case True
    then show ?thesis using 2 by simp
  next
    case False
    show ?thesis unfolding liquidate.simps if_not_P [OF False]
      by (rule bind_trades) (auto simp: publish_sell_def 2(3) "2.IH"(2) [OF False 2(3)] split: sum.split option.split)
  qed
qed simp

lemma dry_trades [simp]: "queued_orders ct (snd (effective_dry_run R EV d w)) = queued_orders ct w"
  by (simp add: effective_dry_run_def)

lemma flag_trades [simp]: "queued_orders ct (set_flag R EV f v why w) = queued_orders ct w"
  "queued_orders ct (set_config R EV f x w) = queued_orders ct w"
  by (simp_all add: set_flag_def set_config_def)

lemma sellall_trades: "\<not> ct ''MANUAL_SELLALL'' \<Longrightarrow> queued_orders ct (snd (handle_sellall R EV cmd dry w)) = queued_orders ct w"
  by (auto simp: handle_sellall_def Let_def liquidate_trades split: sum.split option.split prod.split intro!: bind_trades)

lemma other_trades:
  "queued_orders ct (snd (handle_pause R EV cmd dry w)) = queued_orders ct w" "queued_orders ct (snd (handle_resume R EV cmd dry w)) = queued_orders ct w"
  "queued_orders ct (snd (handle_stop R EV cmd dry w)) = queued_orders ct w" "queued_orders ct (snd (handle_dryrun R EV cmd dry w)) = queued_orders ct w"
  "queued_orders ct (snd (handle_portfolio EV cmd dry w)) = queued_orders ct w" "queued_orders ct (snd (handle_pnl EV cmd dry w)) = queued_orders ct w"
  "queued_orders ct (snd (handle_balance EV cmd dry w)) = queued_orders ct w" "queued_orders ct (snd (handle_price EV cmd dry w)) = queued_orders ct w"
  "queued_orders ct (snd (handle_watch EV cmd dry w)) = queued_orders ct w" "queued_orders ct (snd (handle_unwatch EV cmd dry w)) = queued_orders ct w"
  "queued_orders ct (snd (handle_watchlist EV cmd dry w)) = queued_orders ct w" "queued_orders ct (snd (handle_mute R EV cmd dry w)) = queued_orders ct w"
  "queued_orders ct (snd (handle_unmute R EV cmd dry w)) = queued_orders ct w" "queued_orders ct (snd (handle_alerts EV cmd dry w)) = queued_orders ct w"
  "queued_orders ct (snd (handle_diagnose EV cmd dry w)) = queued_orders ct w" "queued_orders ct (snd (handle_help EV cmd dry w)) = queued_orders ct w"
  by (auto simp: handle_pause_def handle_resume_def handle_stop_def handle_dryrun_def handle_portfolio_def handle_pnl_def
      handle_balance_def handle_price_def handle_watch_def handle_unwatch_def handle_watchlist_def handle_mute_def
      handle_unmute_def handle_alerts_def handle_diagnose_def handle_help_def Let_def queued_orders_def [of _ "_\<lparr>cw_watch := _\<rparr>"]
      split: sum.split option.split prod.split list.split intro!: bind_trades)
     (auto simp: queued_orders_def)

lemma setting_trades:
  "queued_orders ct (snd (handle_status R EV cmd dry w)) = queued_orders ct w" "queued_orders ct (snd (handle_config R EV cmd dry w)) = queued_orders ct w"
  "queued_orders ct (snd (handle_alert R EV cmd dry w)) = queued_orders ct w" "queued_orders ct (snd (handle_risk R EV cmd dry w)) = queued_orders ct w"
  "queued_orders ct (snd (handle_minscore R EV cmd dry w)) = queued_orders ct w" "queued_orders ct (snd (handle_maxbuy R EV cmd dry w)) = queued_orders ct w"
  by (auto simp: handle_status_def handle_config_def handle_alert_def handle_risk_def handle_minscore_def handle_maxbuy_def Let_def
      split_beta split: sum.split option.split list.split intro!: bind_trades)

text \<open>The counter of a chat on a day; an absent cell counts as zero.\<close>

definition counted :: "(string \<Rightarrow> payload option) \<Rightarrow> string \<Rightarrow> int \<Rightarrow> int \<Rightarrow> bool" where
  "counted f d c n \<longleftrightarrow> (case f (manual_key d c) of None \<Rightarrow> n = 0 | Some p \<Rightarrow> p = Text (py_str_int n))"

lemma limit_step:
  assumes "server R up look" "up s" "counted (look s) d c n"
  shows "fst (check_and_increment_manual_trade_limit R d (Some c) L s) = (L \<le> n)"
    "up (snd (check_and_increment_manual_trade_limit R d (Some c) L s))"
    "counted (look (snd (check_and_increment_manual_trade_limit R d (Some c) L s))) d c (if L \<le> n then n else n + 1)"
proof -
  have L: "redis_laws R up look" using assms(1) by (simp add: server_def)
  have v: "(case look s (manual_key d c) of None \<Rightarrow> Inr 0
      | Some p \<Rightarrow> if text_truthy p then int_of_payload p else Inr 0) = Inr n"
    using assms(3) by (auto simp: counted_def text_truthy_def int_of_payload_def split: option.splits)
  have t: "(0 :: int) < 86400" by simp
  show "fst (check_and_increment_manual_trade_limit R d (Some c) L s) = (L \<le> n)"
    "up (snd (check_and_increment_manual_trade_limit R d (Some c) L s))"
    "counted (look (snd (check_and_increment_manual_trade_limit R d (Some c) L s))) d c (if L \<le> n then n else n + 1)"
    using assms(2,3) redis_after [OF L assms(2)] t
    by (simp_all add: check_and_increment_manual_trade_limit_def with_redis_up [OF L assms(2)] redis_bind [OF L assms(2)] v)
      (simp_all add: counted_def)
qed

lemma request_trades:
  "queued_orders ct (snd (buy_request R pub code name price q EV cmd dd w)) \<le> queued_orders ct w + 1"
  "queued_orders ct (snd (sell_request_for R pub code name q EV cmd dd w)) \<le> queued_orders ct w + 1"
proof -
  obtain r w1 where e: "effective_dry_run R EV dd w = (r, w1)" by fastforce
  have "queued_orders ct w1 = queued_orders ct w" using dry_trades [of ct R EV dd w] e by simp
  then show "queued_orders ct (snd (buy_request R pub code name price q EV cmd dd w)) \<le> queued_orders ct w + 1"
    "queued_orders ct (snd (sell_request_for R pub code name q EV cmd dd w)) \<le> queued_orders ct w + 1"
    by (cases r; simp add: buy_request_def sell_request_for_def e publish_buy_def publish_sell_def split: sum.split option.split)+
qed

text \<open>A manual buy or sell: nothing happens to the counter before the limit is read, one step with it.\<close>

inductive requested :: "'s redis \<Rightarrow> cmd_env \<Rightarrow> command \<Rightarrow> bool \<Rightarrow> 's cmd_world \<Rightarrow> 's cmd_world \<Rightarrow> bool" for R EV cmd dry w where
  "requested R EV cmd dry w (snd (buy_request R pub code name price q EV cmd dry w))"
| "requested R EV cmd dry w (snd (sell_request_for R pub code name q EV cmd dry w))"

lemma manual_steps:
  assumes h: "h = handle_manual_buy R \<or> h = handle_manual_sell R"
    and c: "on_redis (check_and_increment_manual_trade_limit R (ce_day EV) (cm_chat cmd) (ce_daily_limit EV)) w = (b, w1)"
  shows "snd (h EV cmd dry w) \<in> {w, w1} \<or> \<not> b \<and> requested R EV cmd dry w1 (snd (h EV cmd dry w))"
  using h
proof
  assume "h = handle_manual_buy R"
  then show ?thesis
    by (auto simp: handle_manual_buy_def c requested.intros
        split: list.split sum.split option.split bool.split quantity_answer.split)
next
  assume "h = handle_manual_sell R"
  then show ?thesis
    by (auto simp: handle_manual_sell_def c Let_def requested.intros split: list.split sum.split option.split bool.split)
qed

lemma requested_leaves:
  assumes "requested R EV cmd dry w w'" "server R up look" "up (cw_redis w)"
  shows "leaves up look K w w'" "queued_orders ct w' \<le> queued_orders ct w + 1"
  using assms(1) request_leaves [OF assms(2,3)] request_trades by (auto elim!: requested.cases)

text \<open>A command keeps the counter ahead of the published trades and below the limit.\<close>

definition ahead :: "(string \<Rightarrow> bool) \<Rightarrow> (string \<Rightarrow> payload option) \<Rightarrow> string \<Rightarrow> int \<Rightarrow> int \<Rightarrow> int \<Rightarrow> 's cmd_world \<Rightarrow> (string \<Rightarrow> payload option) \<Rightarrow> 's cmd_world \<Rightarrow> bool" where
  "ahead ct f d c n L w f' w' \<longleftrightarrow> (\<exists>n'. counted f' d c n' \<and> n' \<le> max L n \<and> int (queued_orders ct w') + n \<le> int (queued_orders ct w) + n')"

lemma key_other: "rate_key c \<noteq> manual_key d c'" "\<not> writes name (manual_key d c') \<longleftrightarrow> name \<notin> {''buy'', ''sell''}"
  by (auto simp: writes_def rate_key_def manual_key_def flag_keys NOTIFICATION_MUTE_KEY_def PRICE_ALERT_PREFIX_def)

lemma kept_ahead:
  assumes "leaves up look (manual_key d c) w w'" "queued_orders ct w' = queued_orders ct w" "counted (look (cw_redis w)) d c n"
  shows "ahead ct (look (cw_redis w)) d c n L w (look (cw_redis w')) w'"
  using assms by (auto simp: ahead_def leaves_def keeps_def counted_def intro!: exI [of _ n])

lemma manual_ahead:
  assumes S: "server R up look" and U: "up (cw_redis w)" and C: "counted (look (cw_redis w)) d c n"
    and h: "h = handle_manual_buy R \<or> h = handle_manual_sell R"
    and e: "cm_chat cmd = Some c" "ce_day EV = d" "ce_daily_limit EV = L"
  shows "up (cw_redis (snd (h EV cmd dry w))) \<and> ahead ct (look (cw_redis w)) d c n L w (look (cw_redis (snd (h EV cmd dry w)))) (snd (h EV cmd dry w))"
proof -
  obtain b w1 where cc: "on_redis (check_and_increment_manual_trade_limit R (ce_day EV) (cm_chat cmd) (ce_daily_limit EV)) w = (b, w1)"
    by fastforce
  note st = limit_step [OF S U C, of L]
  have r1: "cw_redis w1 = snd (check_and_increment_manual_trade_limit R d (Some c) L (cw_redis w))" "b = (L \<le> n)"
    using cc st(1) by (auto simp: e on_redis_def case_prod_beta Let_def)
  have t1: "queued_orders ct w1 = queued_orders ct w" by (rule on_redis_trades_eq [OF cc])
  have u1: "up (cw_redis w1)" and c1: "counted (look (cw_redis w1)) d c (if L \<le> n then n else n + 1)" using st r1 by simp_all
  consider "snd (h EV cmd dry w) = w" | "snd (h EV cmd dry w) = w1" | "\<not> b" "requested R EV cmd dry w1 (snd (h EV cmd dry w))"
    using manual_steps [OF h cc, of dry] by blast
  then show ?thesis
  proof cases
    case 1
    then show ?thesis using U C by (auto simp: ahead_def intro!: exI [of _ n])
  next
    case 2
    then show ?thesis using u1 c1 t1 by (cases "L \<le> n") (auto simp: ahead_def intro!: exI [of _ "if L \<le> n then n else n + 1"])
  next
    case 3
    let ?w' = "snd (h EV cmd dry w)"
    note lv = requested_leaves [OF 3(2) S u1]
    have "counted (look (cw_redis w1)) d c (n + 1)" using c1 3(1) r1(2) by simp
    with lv(1) [of "manual_key d c"] have "up (cw_redis ?w')" "counted (look (cw_redis ?w')) d c (n + 1)"
      by (auto simp: leaves_def keeps_def counted_def)
    moreover have "n + 1 \<le> max L n" using 3(1) r1(2) by simp
    ultimately show ?thesis using lv(2) [of ct] t1 unfolding ahead_def by (intro conjI exI [of _ "n + 1"]) simp_all
  qed
qed

lemma handler_trades:
  assumes "map_of (command_handlers R) name = Some h" "name \<notin> {''buy'', ''sell''}" "ct ''MANUAL_SELLALL'' \<longrightarrow> name \<noteq> ''sellall''"
  shows "queued_orders ct (snd (h EV cmd dry w)) = queued_orders ct w"
proof -
  from assms(1) have "(name, h) \<in> set (command_handlers R)" by (rule map_of_SomeD)
  then show ?thesis using assms(2,3) unfolding command_handlers_def
    by (elim set_ConsD [elim_format] disjE) (auto simp: other_trades setting_trades sellall_trades)
qed

lemma command_ahead:
  assumes S: "server R up look" and U: "up (cw_redis w)" and C: "counted (look (cw_redis w)) d c n"
    and e: "cm_chat cmd = Some c" "ce_day EV = d" "ce_daily_limit EV = L"
    and sa: "ct ''MANUAL_SELLALL'' \<longrightarrow> cm_name cmd \<noteq> ''sellall''"
  shows "up (cw_redis (snd (process_command R EV cmd dry w)))
    \<and> ahead ct (look (cw_redis w)) d c n L w (look (cw_redis (snd (process_command R EV cmd dry w)))) (snd (process_command R EV cmd dry w))"
proof -
  have sr: "cw_redis (send_reply ch r x) = cw_redis x" "queued_orders ct (send_reply ch r x) = queued_orders ct x" for ch r x
    by (simp_all add: send_reply_def queued_orders_def)
  note a = ahead_def
  show ?thesis
  proof (cases "map_of (command_handlers R) (cm_name cmd)")
    case None
    then show ?thesis using U C by (auto simp: process_command_def sr a intro!: exI [of _ n])
  next
    case (Some h)
    obtain b w1 where c: "on_redis (is_rate_limited R (ce_now EV) (cm_chat cmd) (ce_min_interval EV)) w = (b, w1)" by fastforce
    have l: "leaves up look (manual_key d c) w w1" using rate_leaves [OF S U] key_other(1) c by (metis snd_conv)
    have t: "queued_orders ct w1 = queued_orders ct w" using on_redis_trades_eq [OF c] .
    note u = leaves_up [OF l]
    have c1: "counted (look (cw_redis w1)) d c n" using l C by (simp add: leaves_def keeps_def counted_def)
    have hh: "up (cw_redis (snd (h EV cmd dry w1))) \<and> ahead ct (look (cw_redis w1)) d c n L w1 (look (cw_redis (snd (h EV cmd dry w1)))) (snd (h EV cmd dry w1))"
    proof (cases "cm_name cmd \<in> {''buy'', ''sell''}")
      case True
      then have "h = handle_manual_buy R \<or> h = handle_manual_sell R" using Some by (auto simp: command_handlers_def)
      from manual_ahead [OF S u c1 this e] show ?thesis .
    next
      case False
      have lv: "leaves up look (manual_key d c) w1 (snd (h EV cmd dry w1))"
        by (rule handler_leaves [OF S u Some]) (use False in \<open>simp add: key_other\<close>)
      show ?thesis using kept_ahead [where look = look and w = w1, OF lv handler_trades [where ct = ct, OF Some False sa] c1] leaves_up [OF lv] by blast
    qed
    have bd: "cw_redis (snd (cmd_bind q (\<lambda>r w. (Inr (), send_reply ch r w)))) = cw_redis (snd q)"
      "queued_orders ct (snd (cmd_bind q (\<lambda>r w. (Inr (), send_reply ch r w)))) = queued_orders ct (snd q)" for q :: "reply res \<times> 'a cmd_world" and ch
      by (cases q; cases "fst q"; auto simp: sr)+
    show ?thesis
    proof (cases b)
      case True
      then show ?thesis using u c1 t by (auto simp: process_command_def Some c sr a intro!: exI [of _ n])
    next
      case False
      then have "snd (process_command R EV cmd dry w) = snd (cmd_bind (h EV cmd dry w1) (\<lambda>r w. (Inr (), send_reply (cm_chat cmd) r w)))"
        by (simp add: process_command_def Some c)
      with hh t show ?thesis by (simp add: bd a)
    qed
  qed
qed

lemma queued_limited:
  assumes "server R up look" "up (cw_redis w)" "counted (look (cw_redis w)) d c n" "n \<le> L"
    and "list_all (\<lambda>(EV, cmd). cm_chat cmd = Some c \<and> ce_day EV = d \<and> ce_daily_limit EV = L
      \<and> (ct ''MANUAL_SELLALL'' \<longrightarrow> cm_name cmd \<noteq> ''sellall'')) cs"
  shows "int (queued_orders ct (snd (process_commands R dry cs k w))) \<le> int (queued_orders ct w) + (L - n)"
proof -
  have "\<exists>n'. counted (look (cw_redis (snd (process_commands R dry cs k w)))) d c n' \<and> n' \<le> L
      \<and> int (queued_orders ct (snd (process_commands R dry cs k w))) + n \<le> int (queued_orders ct w) + n'"
    using assms
  proof (induction R dry cs k w arbitrary: n rule: process_commands.induct)
    case (1 R dry k w)
    then show ?case by auto
  next
    case (2 R dry EV cmd cs ok bad w)
    note e = 2(7)
    obtain r w1 where p: "process_command R EV cmd dry w = (r, w1)" by fastforce
    have "up (cw_redis w1) \<and> ahead ct (look (cw_redis w)) d c n L w (look (cw_redis w1)) w1"
      using command_ahead [OF 2(3-5), where cmd = cmd and EV = EV and L = L and dry = dry and ct = ct] e unfolding p by simp
    then obtain n1 where n1: "up (cw_redis w1)" "counted (look (cw_redis w1)) d c n1" "n1 \<le> L"
      "int (queued_orders ct w1) + n \<le> int (queued_orders ct w) + n1"
      using 2(6) by (auto simp: ahead_def max_def split: if_splits)
    have sr: "cw_redis (send_reply ch rp w1) = cw_redis w1" "queued_orders ct (send_reply ch rp w1) = queued_orders ct w1" for ch rp
      by (simp_all add: send_reply_def queued_orders_def)
    show ?case
    proof (cases r)
      case (Inr u)
      with 2(2) [OF p [symmetric] Inr 2(3), of n1] n1 e show ?thesis by (fastforce simp: p)
    next
      case (Inl x)
      with 2(1) [OF p [symmetric] Inl 2(3), of n1] n1 e show ?thesis by (fastforce simp: p sr)
    qed
  qed
  then show ?thesis by auto
qed

text \<open>
  Claim C29. The daily limit of manual trades: however many commands one chat sends on a day, in
  whatever order, the orders queued for it other than those of \<open>/sellall\<close> are at most as many as the limit has
  left, on a server that keeps its keys. A liquidation with \<open>/sellall\<close> is a manual trade the limit does not cover; when
  the chat sends none, all orders queued for it keep to the limit.
\<close>

theorem manual_trades_limited:
  assumes "server R up look" "up (cw_redis w)" "counted (look (cw_redis w)) d c n" "n \<le> L"
    and "list_all (\<lambda>(EV, cmd). cm_chat cmd = Some c \<and> ce_day EV = d \<and> ce_daily_limit EV = L) cs"
    and "w' = snd (process_commands R dry cs k w)"
  shows "int (queued_orders (\<lambda>r. r \<noteq> ''MANUAL_SELLALL'') w') \<le> int (queued_orders (\<lambda>r. r \<noteq> ''MANUAL_SELLALL'') w) + (L - n)
    \<and> (list_all (\<lambda>(EV, cmd). cm_name cmd \<noteq> ''sellall'') cs \<longrightarrow>
        int (length (cw_bought w') + length (cw_sold w')) \<le> int (length (cw_bought w) + length (cw_sold w)) + (L - n))"
proof -
  note lim = queued_limited [OF assms(1-4), where cs = cs and dry = dry and k = k]
  have "queued_orders (\<lambda>_. True) x = length (cw_bought x) + length (cw_sold x)" for x :: "'a cmd_world"
    by (simp add: queued_orders_def)
  with lim [of "\<lambda>r. r \<noteq> ''MANUAL_SELLALL''"] lim [of "\<lambda>_. True"] assms(5,6) show ?thesis
    by (auto simp: list_all_iff case_prod_beta)
qed

definition two_sales :: "(cmd_env \<times> command) list" where
  "two_sales = [(sample_cmd_env\<lparr>ce_daily_limit := 1\<rparr>, command_of ''sell'' [''005930'']),
     (sample_cmd_env\<lparr>ce_daily_limit := 1, ce_now := 1010\<rparr>, command_of ''sell'' [''005930''])]"

lemma manual_trades_limited_witness:
  "length (cw_sold (snd (process_commands map_redis False two_sales (0, 0) sample_cmd_world))) \<le> 1"
proof -
  have "alive (cw_redis sample_cmd_world)" "counted (ms_look (cw_redis sample_cmd_world)) ''20260101'' 7 0" "(0 :: int) \<le> 1"
    by (simp_all add: sample_cmd_world_def ms_empty_def counted_def ms_look_def)
  from manual_trades_limited [OF map_redis_server this, of two_sales "snd (process_commands map_redis False two_sales (0, 0) sample_cmd_world)" False "(0, 0)"]
  show ?thesis by (simp add: two_sales_def command_of_def sample_cmd_env_def) (simp add: sample_cmd_world_def)
qed

end
