(* ===== verification/Hot_Watchlist.thy ===== *)
theory Hot_Watchlist
  imports Buy_Watcher_Facts
begin

text \<open>
  The hot watchlist in Redis, \<open>shared/watchlist.py\<close>: saving under a versioned key with a pointer to the
  active version, reading, and the new regime of a stored list. The command \<open>EXPIRE\<close> is the parameter
  \<open>expire\<close>; \<open>now\<close> is the Unix time in seconds, \<open>stamp\<close> its text. Logging is left out.
\<close>

section \<open>Operations\<close>

definition ACTIVE_KEY :: string where "ACTIVE_KEY = ''hot_watchlist:active''"

definition version_key :: "int \<Rightarrow> string" where
  "version_key now = ''hot_watchlist:v'' @ py_str_int now"

definition has_key :: "pyval \<Rightarrow> string \<Rightarrow> bool" where
  "has_key v k = (case v of PDict kvs \<Rightarrow> map_of kvs k \<noteq> None | _ \<Rightarrow> False)"

text \<open>The entry of a stock; the KOSPI index has none.\<close>

definition stock_entry :: "nat \<Rightarrow> pyval \<Rightarrow> pyval option res" where
  "stock_entry idx s =
     res_bind (py_get s ''code'' PNone) (\<lambda>code.
       if code = PStr ''0001'' then Inr None
       else res_bind (py_get s ''name'' PNone) (\<lambda>name.
            res_bind (py_get s ''llm_score'' (PInt 0)) (\<lambda>score.
            res_bind (py_get s ''is_tradable'' (PBool True)) (\<lambda>tradable.
            res_bind (py_get s ''strategies'' (PList [])) (\<lambda>strategies.
            res_bind (py_get s ''trade_tier'' PNone) (\<lambda>tier.
            res_bind (py_get s ''hybrid_score'' (PInt 0)) (\<lambda>hybrid.
            res_bind (py_get s ''market_flow'' PNone) (\<lambda>flow.
            Inr (Some (PDict ([(''code'', code), (''name'', name), (''llm_score'', score), (''rank'', PInt (int idx + 1)),
                (''is_tradable'', tradable), (''strategies'', strategies), (''trade_tier'', tier), (''hybrid_score'', hybrid)]
              @ (if has_key s ''market_flow'' then [(''market_flow'', flow)] else []))))))))))))"

fun clean_stocks :: "nat \<Rightarrow> pyval list \<Rightarrow> pyval list res" where
  "clean_stocks idx [] = Inr []"
| "clean_stocks idx (s # ss) = res_bind (stock_entry idx s) (\<lambda>e. res_bind (clean_stocks (idx + 1) ss) (\<lambda>es.
     Inr (case e of None \<Rightarrow> es | Some x \<Rightarrow> x # es)))"

definition watchlist_payload :: "string \<Rightarrow> pyval list \<Rightarrow> pyval \<Rightarrow> int \<Rightarrow> pyval" where
  "watchlist_payload stamp entries market_regime score_threshold =
     PDict [(''generated_at'', PStr stamp), (''market_regime'', market_regime), (''score_threshold'', PInt score_threshold),
       (''stocks'', PList entries)]"

type_synonym 's expire_cmd = "string \<Rightarrow> int \<Rightarrow> 's \<Rightarrow> unit res \<times> 's"

definition save_hot_watchlist ::
  "'s redis \<Rightarrow> 's expire_cmd \<Rightarrow> int \<Rightarrow> string \<Rightarrow> pyval list \<Rightarrow> pyval \<Rightarrow> int \<Rightarrow> int \<Rightarrow> 's \<Rightarrow> bool \<times> 's" where
  "save_hot_watchlist R expire now stamp stocks market_regime score_threshold ttl_seconds =
     with_redis R False (\<lambda>s. catching False (case clean_stocks 0 stocks of
        Inl e \<Rightarrow> (Inl e, s)
      | Inr entries \<Rightarrow>
          cmd_bind (r_set R (version_key now) (Dumps (watchlist_payload stamp entries market_regime score_threshold)) s) (\<lambda>_ s.
          cmd_bind (expire (version_key now) ttl_seconds s) (\<lambda>_ s.
          cmd_bind (r_get R ACTIVE_KEY s) (\<lambda>old s.
          cmd_bind (r_set R ACTIVE_KEY (Text (version_key now)) s) (\<lambda>_ s. (Inr True, s)))))))"

definition get_hot_watchlist :: "'s redis \<Rightarrow> 's \<Rightarrow> pyval \<times> 's" where
  "get_hot_watchlist R =
     with_redis R PNone (\<lambda>s. catching PNone
       (cmd_bind (r_get R ACTIVE_KEY s) (\<lambda>key s. case key of
          None \<Rightarrow> (Inr PNone, s)
        | Some k \<Rightarrow> if \<not> text_truthy k then (Inr PNone, s)
            else cmd_bind (r_get R (version_text k) s) (\<lambda>data s. case data of
                None \<Rightarrow> (Inr PNone, s)
              | Some d \<Rightarrow> if text_truthy d then (json_loads d, s) else (Inr PNone, s)))))"

text \<open>The scores of the stocks; a score that is no number raises when it is compared, so not in a list of one.\<close>

fun watch_scores :: "pyval list \<Rightarrow> (rat \<times> pyval) list res" where
  "watch_scores [] = Inr []"
| "watch_scores (s # ss) = res_bind (py_get s ''llm_score'' (PInt 0)) (\<lambda>v. res_bind (as_num v) (\<lambda>x.
     res_bind (watch_scores ss) (\<lambda>rest. Inr ((x, s) # rest))))"

definition by_llm_score :: "pyval list \<Rightarrow> pyval list res" where
  "by_llm_score stocks = (case stocks of
     [s] \<Rightarrow> res_bind (py_get s ''llm_score'' (PInt 0)) (\<lambda>_. Inr [s])
   | _ \<Rightarrow> res_bind (watch_scores stocks) (\<lambda>xs. Inr (map snd (sort_key (\<lambda>x. - fst x) xs))))"

definition refilter_hot_watchlist_by_regime :: "'s redis \<Rightarrow> 's expire_cmd \<Rightarrow> int \<Rightarrow> string \<Rightarrow> string \<Rightarrow> 's \<Rightarrow> bool \<times> 's" where
  "refilter_hot_watchlist_by_regime R expire now stamp new_regime s =
     (let (current, s1) = get_hot_watchlist R s
      in catching False
        (if \<not> truthy current then (Inr True, s1)
         else case py_get current ''stocks'' PNone of
           Inl e \<Rightarrow> (Inl e, s1)
         | Inr stocks \<Rightarrow> if \<not> truthy stocks then (Inr True, s1)
             else case py_get current ''market_regime'' (PStr ''UNKNOWN'') of
               Inl e \<Rightarrow> (Inl e, s1)
             | Inr old_regime \<Rightarrow> if old_regime = PStr new_regime then (Inr True, s1)
                 else (case (case stocks of PList l \<Rightarrow> by_llm_score l | _ \<Rightarrow> Inl AttributeError) of
                     Inl e \<Rightarrow> (Inl e, s1)
                   | Inr sorted_stocks \<Rightarrow>
                       (case save_hot_watchlist R expire now stamp sorted_stocks (PStr new_regime) 0 86400 s1 of
                          (b, s2) \<Rightarrow> (Inr b, s2)))))"

section \<open>A saved list is read back\<close>

text \<open>\<open>EXPIRE\<close> with a positive time keeps what the keys hold now.\<close>

definition expire_law :: "('s \<Rightarrow> bool) \<Rightarrow> ('s \<Rightarrow> string \<Rightarrow> payload option) \<Rightarrow> 's expire_cmd \<Rightarrow> bool" where
  "expire_law up look expire \<longleftrightarrow> (\<forall>k t s. up s \<and> 0 < t \<longrightarrow>
     fst (expire k t s) = Inr () \<and> up (snd (expire k t s)) \<and> look (snd (expire k t s)) = look s)"

lemma version_not_active [simp]: "version_key n \<noteq> ACTIVE_KEY" "ACTIVE_KEY \<noteq> version_key n"
  by (simp_all add: version_key_def ACTIVE_KEY_def)

lemma save_up:
  assumes L: "redis_laws R up look" "expire_law up look expire" and U: "up s" and t: "0 < ttl"
    and c: "clean_stocks 0 stocks = Inr entries"
  shows "fst (save_hot_watchlist R expire now stamp stocks regime thr ttl s)"
    "up (snd (save_hot_watchlist R expire now stamp stocks regime thr ttl s))"
    "look (snd (save_hot_watchlist R expire now stamp stocks regime thr ttl s)) =
       (look s)(version_key now \<mapsto> Dumps (watchlist_payload stamp entries regime thr), ACTIVE_KEY \<mapsto> Text (version_key now))"
proof -
  obtain s1 where s1: "r_set R (version_key now) (Dumps (watchlist_payload stamp entries regime thr)) s = (Inr (), s1)" "up s1"
    "look s1 = (look s)(version_key now \<mapsto> Dumps (watchlist_payload stamp entries regime thr))"
    by (rule redis_set [OF L(1) U])
  obtain s2 where s2: "expire (version_key now) ttl s1 = (Inr (), s2)" "up s2" "look s2 = look s1"
    using L(2) s1(2) t unfolding expire_law_def by (metis prod.collapse)
  obtain s3 where s3: "r_set R ACTIVE_KEY (Text (version_key now)) s2 = (Inr (), s3)" "up s3"
    "look s3 = (look s2)(ACTIVE_KEY \<mapsto> Text (version_key now))"
    by (rule redis_set [OF L(1) s2(2)])
  have e: "save_hot_watchlist R expire now stamp stocks regime thr ttl s = (True, s3)"
    by (simp add: save_hot_watchlist_def with_redis_up [OF L(1) U] c s1(1) s2(1) redis_get [OF L(1) s2(2)] s3(1))
  show "fst (save_hot_watchlist R expire now stamp stocks regime thr ttl s)"
    "up (snd (save_hot_watchlist R expire now stamp stocks regime thr ttl s))"
    "look (snd (save_hot_watchlist R expire now stamp stocks regime thr ttl s)) =
       (look s)(version_key now \<mapsto> Dumps (watchlist_payload stamp entries regime thr), ACTIVE_KEY \<mapsto> Text (version_key now))"
    using s3 s2 s1 by (simp_all add: e)
qed

lemma get_up:
  assumes "redis_laws R up look" "up s" "look s ACTIVE_KEY = Some (Text (version_key n))" "look s (version_key n) = Some (Dumps v)"
  shows "get_hot_watchlist R s = (v, s)"
proof -
  have "version_key n \<noteq> []" by (simp add: version_key_def)
  then show ?thesis using assms(3,4)
    by (simp add: get_hot_watchlist_def with_redis_up [OF assms(1,2)] redis_bind [OF assms(1,2)] text_truthy_def version_text_def)
qed

section \<open>What the watcher loads\<close>

text \<open>
  The dictionaries a caller hands over, with the keys that are there, and the entry that is stored of the one at
  position \<open>i\<close>: the rank is the position, counted from one.
\<close>

definition opt_entry :: "string \<Rightarrow> ('a \<Rightarrow> pyval) \<Rightarrow> 'a option \<Rightarrow> (string \<times> pyval) list" where
  "opt_entry k f x = (case x of None \<Rightarrow> [] | Some v \<Rightarrow> [(k, f v)])"

definition strategy_dict :: "strat \<Rightarrow> pyval" where
  "strategy_dict st = PDict [(''id'', PStr (st_id st)), (''params'', PDict (opt_entry ''short_window'' PInt (st_short st)
     @ opt_entry ''long_window'' PInt (st_long st) @ opt_entry ''threshold'' PFloat (st_threshold st)
     @ opt_entry ''period'' PInt (st_period st)))]"

definition stock_dict :: "stored_stock \<Rightarrow> pyval" where
  "stock_dict s = PDict ((''code'', PStr (ss_code s)) # opt_entry ''name'' PStr (ss_name s)
     @ opt_entry ''llm_score'' PFloat (ss_llm_score s) @ opt_entry ''is_tradable'' PBool (ss_tradable s)
     @ opt_entry ''strategies'' (\<lambda>l. PList (map strategy_dict l)) (ss_strategies s)
     @ opt_entry ''trade_tier'' PStr (ss_tier s) @ opt_entry ''hybrid_score'' PFloat (ss_hybrid s))"

definition saved_stock :: "nat \<Rightarrow> stored_stock \<Rightarrow> stored_stock" where
  "saved_stock i s = s\<lparr>ss_llm_score := Some (opt_or 0 (ss_llm_score s)), ss_rank := Some (int i + 1),
     ss_tradable := Some (opt_or True (ss_tradable s)), ss_strategies := Some (opt_or [] (ss_strategies s)),
     ss_hybrid := Some (opt_or 0 (ss_hybrid s))\<rparr>"

fun saved_stocks :: "nat \<Rightarrow> stored_stock list \<Rightarrow> stored_stock list" where
  "saved_stocks i [] = []"
| "saved_stocks i (s # ss) = (if ss_code s = ''0001'' then saved_stocks (i + 1) ss else saved_stock i s # saved_stocks (i + 1) ss)"

lemma map_of_opt_entry: "map_of (opt_entry k f x) k' = (if k' = k then map_option f x else None)"
  by (simp add: opt_entry_def split: option.split)

lemma has_key_opt_entry: "map_option f x = None \<longleftrightarrow> x = None" by simp

lemma py_get_stock_dict:
  "py_get (stock_dict s) ''code'' d = Inr (PStr (ss_code s))"
  "py_get (stock_dict s) ''name'' d = Inr (case ss_name s of None \<Rightarrow> d | Some n \<Rightarrow> PStr n)"
  "py_get (stock_dict s) ''llm_score'' d = Inr (case ss_llm_score s of None \<Rightarrow> d | Some x \<Rightarrow> PFloat x)"
  "py_get (stock_dict s) ''is_tradable'' d = Inr (case ss_tradable s of None \<Rightarrow> d | Some b \<Rightarrow> PBool b)"
  "py_get (stock_dict s) ''strategies'' d = Inr (case ss_strategies s of None \<Rightarrow> d | Some l \<Rightarrow> PList (map strategy_dict l))"
  "py_get (stock_dict s) ''trade_tier'' d = Inr (case ss_tier s of None \<Rightarrow> d | Some t \<Rightarrow> PStr t)"
  "py_get (stock_dict s) ''hybrid_score'' d = Inr (case ss_hybrid s of None \<Rightarrow> d | Some x \<Rightarrow> PFloat x)"
  "has_key (stock_dict s) ''market_flow'' = False" "py_get (stock_dict s) ''market_flow'' d = Inr d"
  by (simp_all add: stock_dict_def has_key_def map_add_def map_of_opt_entry split: option.split)

lemma read_strategy_dict: "read_strategy (strategy_dict st) = Inr st"
  by (simp add: read_strategy_def strategy_dict_def text_value_def int_value_def read_field_def map_add_def map_of_opt_entry
      split: option.split)

lemma read_all_map: "(\<And>x. x \<in> set xs \<Longrightarrow> f (g x) = Inr (h x)) \<Longrightarrow> read_all f (map g xs) = Inr (map h xs)"
  by (induction xs) simp_all

lemma read_strategy_dicts: "read_strategies (PList (map strategy_dict l)) = Inr l"
  using read_all_map [of l read_strategy strategy_dict id] by (simp add: read_strategies_def read_strategy_dict)

lemma read_no_strategies: "read_strategies (PList []) = Inr []"
  by (simp add: read_strategies_def)

text \<open>What is stored of a stock is read as that stock with its rank and the defaults filled in.\<close>

lemma saved_stock_read:
  assumes "ss_name s \<noteq> None" "ss_code s \<noteq> ''0001''"
  shows "\<exists>v. stock_entry i (stock_dict s) = Inr (Some v) \<and> read_stock v = Inr (saved_stock i s)"
proof -
  obtain n where n: "ss_name s = Some n" using assms(1) by blast
  obtain v where v: "stock_entry i (stock_dict s) = Inr (Some v)"
    using assms(2) by (simp add: stock_entry_def py_get_stock_dict)
  moreover have "read_stock v = Inr (saved_stock i s)"
    using v [unfolded stock_entry_def] assms(2)
    by (cases "ss_llm_score s"; cases "ss_tradable s"; cases "ss_strategies s"; cases "ss_tier s"; cases "ss_hybrid s")
      (auto simp: py_get_stock_dict n read_stock_def read_field_def read_nullable_def text_value_def int_value_def bool_value_def
        saved_stock_def opt_or_def read_strategy_dicts read_no_strategies intro!: stored_stock.equality)
  ultimately show ?thesis by blast
qed

lemma saved_stocks_read:
  assumes "\<forall>s \<in> set ss. ss_name s \<noteq> None"
  shows "\<exists>entries. clean_stocks i (map stock_dict ss) = Inr entries \<and> read_all read_stock entries = Inr (saved_stocks i ss)"
  using assms
proof (induction ss arbitrary: i)
  case (Cons s ss)
  then obtain es where es: "clean_stocks (i + 1) (map stock_dict ss) = Inr es" "read_all read_stock es = Inr (saved_stocks (i + 1) ss)"
    by fastforce
  show ?case
  proof (cases "ss_code s = ''0001''")
    case True
    then have "stock_entry i (stock_dict s) = Inr None" by (simp add: stock_entry_def py_get_stock_dict)
    with es True show ?thesis by simp
  next
    case False
    with saved_stock_read [of s i] Cons.prems obtain v where
      "stock_entry i (stock_dict s) = Inr (Some v)" "read_stock v = Inr (saved_stock i s)" by auto
    with es False show ?thesis by simp
  qed
qed simp

text \<open>Different codes: the watcher knows every saved stock, and no other.\<close>

lemma watchlist_lookup: "map_of (watchlist_of ss) = map_of (rev (map (\<lambda>s. (ss_code s, stock_of s)) ss))"
proof -
  have "map_of (foldl (\<lambda>d s. dict_set (ss_code s) (stock_of s) d) d ss) =
      map_of d ++ map_of (rev (map (\<lambda>s. (ss_code s, stock_of s)) ss))" for d
    by (induction ss arbitrary: d) (simp_all add: map_add_upd_left)
  from this [of "[]"] show ?thesis by (simp add: watchlist_of_def)
qed

definition watched_stock :: "nat \<Rightarrow> stored_stock \<Rightarrow> stock_info" where
  "watched_stock i s = \<lparr>si_name = opt_or (ss_code s) (ss_name s), si_llm_score = opt_or 0 (ss_llm_score s), si_rank = int i + 1,
     si_tradable = opt_or True (ss_tradable s), si_strategies = opt_or [] (ss_strategies s), si_trade_tier = ss_tier s,
     si_hybrid_score = opt_or 0 (ss_hybrid s)\<rparr>"

lemma saved_codes: "ss_code ` set (saved_stocks i ss) = ss_code ` set ss - {''0001''}"
  by (induction ss arbitrary: i) (auto simp: saved_stock_def)

lemma saved_distinct: "distinct (map ss_code ss) \<Longrightarrow> distinct (map ss_code (saved_stocks i ss))"
proof (induction ss arbitrary: i)
  case (Cons s ss)
  have "ss_code s \<notin> ss_code ` set (saved_stocks (Suc i) ss)" using Cons.prems by (auto simp: saved_codes)
  then show ?case using Cons by (simp add: saved_stock_def)
qed simp

lemma saved_member: "i < length ss \<Longrightarrow> ss_code (ss ! i) \<noteq> ''0001'' \<Longrightarrow> saved_stock (j + i) (ss ! i) \<in> set (saved_stocks j ss)"
proof (induction ss arbitrary: i j)
  case (Cons s ss)
  then show ?case using Cons.IH [of "i - 1" "j + 1"] by (cases i) auto
qed simp

lemma saved_lookup:
  assumes "distinct (map ss_code ss)" "i < length ss" "ss_code (ss ! i) \<noteq> ''0001''"
  shows "map_of (watchlist_of (saved_stocks 0 ss)) (ss_code (ss ! i)) = Some (watched_stock i (ss ! i))"
proof -
  let ?l = "map (\<lambda>s. (ss_code s, stock_of s)) (saved_stocks 0 ss)"
  have "distinct (map fst (rev ?l))" using saved_distinct [OF assms(1), of 0] by (simp add: comp_def rev_map [symmetric])
  moreover have "(ss_code (saved_stock i (ss ! i)), stock_of (saved_stock i (ss ! i))) \<in> set (rev ?l)"
    using saved_member [OF assms(2,3), of 0] by simp
  then have "(ss_code (ss ! i), watched_stock i (ss ! i)) \<in> set (rev ?l)"
    by (simp add: saved_stock_def stock_of_def watched_stock_def opt_or_def)
  ultimately show ?thesis unfolding watchlist_lookup by (rule map_of_is_SomeI)
qed

text \<open>
  Claim C30. A saved watchlist is read back: after a save of named stocks, on a server that keeps its keys,
  \<open>get_hot_watchlist\<close> answers the stored document, and the watcher of the buy scanner, whatever it had before, loads
  from it that version, regime and threshold and knows exactly the saved codes but the KOSPI index; a stock of a list
  without duplicates with the fields it was saved with and its position as its rank.
\<close>

theorem watchlist_roundtrip:
  assumes "redis_laws R up look" "expire_law up look expire" "up s" "0 < ttl" "\<forall>st \<in> set ss. ss_name st \<noteq> None"
    and "s' = snd (save_hot_watchlist R expire now stamp (map stock_dict ss) (PStr regime) thr ttl s)" "sw_redis w = s'"
    and "v = sw_watcher (snd (load_hot_watchlist R D E w))"
  shows "(\<exists>entries. clean_stocks 0 (map stock_dict ss) = Inr entries
      \<and> fst (get_hot_watchlist R s') = watchlist_payload stamp entries (PStr regime) thr)
    \<and> fst (load_hot_watchlist R D E w) \<and> wt_version v = Some (version_key now) \<and> wt_regime v = regime \<and> wt_threshold v = of_int thr
    \<and> fst ` set (wt_watchlist v) = ss_code ` set ss - {''0001''}
    \<and> (distinct (map ss_code ss) \<longrightarrow> (\<forall>i < length ss. ss_code (ss ! i) \<noteq> ''0001'' \<longrightarrow>
        map_of (wt_watchlist v) (ss_code (ss ! i)) = Some (watched_stock i (ss ! i))))"
proof -
  obtain entries where en: "clean_stocks 0 (map stock_dict ss) = Inr entries" "read_all read_stock entries = Inr (saved_stocks 0 ss)"
    using saved_stocks_read [OF assms(5)] by blast
  let ?doc = "Dumps (watchlist_payload stamp entries (PStr regime) thr)"
  let ?sl = "\<lparr>sl_stocks = Some (saved_stocks 0 ss), sl_regime = Some regime, sl_threshold = Some (of_int thr)\<rparr>"
  note sv = save_up [OF assms(1-4) en(1), of now stamp "PStr regime" thr]
  have u: "up s'" and l: "look s' ACTIVE_KEY = Some (Text (version_key now))" "look s' (version_key now) = Some ?doc"
    using sv(2,3) by (simp_all add: assms(6))
  have t: "text_truthy (Text (version_key now))" by (simp add: text_truthy_def version_key_def)
  have k: "''hot_watchlist:active'' = ACTIVE_KEY" by (simp add: ACTIVE_KEY_def)
  have r: "read_watchlist ?doc = Inr ?sl"
    by (simp add: read_watchlist_def watchlist_payload_def read_field_def read_stocks_def en(2) text_value_def)
  have "fst (load_hot_watchlist R D E w)" and
    v: "v = accept_watchlist D (te_now E) (version_key now) ?sl ((sw_watcher w)\<lparr>wt_connected := True\<rparr>)"
    using u l t assms(7,8) r
    by (simp_all add: load_hot_watchlist_def ensure_redis_connection_def redis_conn [OF assms(1) u] redis_get [OF assms(1) u]
        on_watcher_def k version_text_def Let_def)
  moreover have "wt_watchlist v = watchlist_of (saved_stocks 0 ss) \<and> wt_version v = Some (version_key now) \<and> wt_regime v = regime
      \<and> wt_threshold v = of_int thr"
    by (simp add: v accept_watchlist_def Let_def opt_or_def load_watchlist_entries_def load_supply_demand_def split: sum.split)
  moreover have "fst ` set (watchlist_of xs) = ss_code ` set xs" for xs
    using arg_cong [where f = dom, OF watchlist_lookup, of xs] by (simp add: dom_map_of_conv_image_fst image_image)
  ultimately show ?thesis using get_up [OF assms(1) u l] en(1) saved_lookup saved_codes by simp
qed

definition one_stock :: stored_stock where
  "one_stock = \<lparr>ss_code = ''005930'', ss_name = Some ''s'', ss_llm_score = Some 72, ss_rank = None, ss_tradable = None,
     ss_strategies = Some [bare_strat ''MOMENTUM''], ss_tier = Some ''TIER1'', ss_hybrid = None\<rparr>"

definition quiet_db :: watch_db where
  "quiet_db = \<lparr>wd_supply = (\<lambda>_. Inr []), wd_entries = (\<lambda>_. Inr [])\<rparr>"

lemma watchlist_roundtrip_witness:
  "let s' = snd (save_hot_watchlist map_redis (\<lambda>k t s. (Inr (), s)) 100 ''t'' (map stock_dict [one_stock]) (PStr ''BULL'') 0 86400 ms_empty);
       v = sw_watcher (snd (load_hot_watchlist map_redis quiet_db (sample_at 0) ((sample_world_of ''005930'' [] None)\<lparr>sw_redis := s'\<rparr>)))
   in map_option si_llm_score (map_of (wt_watchlist v) ''005930'') = Some 72 \<and> map_option si_rank (map_of (wt_watchlist v) ''005930'') = Some 1"
proof -
  have e: "expire_law alive ms_look (\<lambda>k t s. (Inr (), s))" by (simp add: expire_law_def)
  have a: "alive ms_empty" "(0 :: int) < 86400" "\<forall>st \<in> set [one_stock]. ss_name st \<noteq> None"
    by (simp_all add: ms_empty_def one_stock_def)
  let ?s' = "snd (save_hot_watchlist map_redis (\<lambda>k t s. (Inr (), s)) 100 ''t'' (map stock_dict [one_stock]) (PStr ''BULL'') 0 86400 ms_empty)"
  have w: "sw_redis ((sample_world_of ''005930'' [] None)\<lparr>sw_redis := ?s'\<rparr>) = ?s'" by simp
  from watchlist_roundtrip [OF map_redis_laws e a refl w refl, of quiet_db "sample_at 0"]
  show ?thesis by (simp add: Let_def one_stock_def watched_stock_def opt_or_def)
qed

end
