(* ===== verification/Scheduler_Service.thy ===== *)
theory Scheduler_Service
  imports Message_Streams PyFloat
begin

text \<open>
  The job scheduler, \<open>services/scheduler-service/main.py\<close>: the table of jobs, the cycle that
  publishes the jobs that are due, and the operations of its interface. Times are whole
  microseconds. The library that reads cron expressions (\<open>croniter\<close>) is a parameter: whether an
  expression is valid and its next occurrence after a time; so is whether the database accepts a
  commit. The columns \<open>created_at\<close> and \<open>updated_at\<close>, filled by the database and only shown, and
  the texts of the log are left out.
\<close>

section \<open>Jobs\<close>

record job =
  jb_id :: string
  jb_scope :: string
  jb_mode :: string
  jb_interval :: "int option"
  jb_description :: "string option"
  jb_queue :: string
  jb_cron :: string
  jb_enabled :: "bool option"
  jb_parallel :: "int option"
  jb_params :: "payload option"
  jb_timeout :: "int option"
  jb_retry :: "int option"
  jb_label :: "string option"
  jb_next_due :: "int option"
  jb_last_run :: "int option"
  jb_status :: "string option"
  jb_error :: "string option"

text \<open>
  The environment of the process, and the moment of one operation: the reading of the clock it
  starts with, the later one some functions take themselves, the identifier and the text of the
  time a message gets, and whether the commit of a job's row succeeds.
\<close>

record sched_env =
  sc_scope :: string
  sc_cron_ok :: "string \<Rightarrow> bool"
  sc_cron_next :: "string \<Rightarrow> int \<Rightarrow> int res"

record moment =
  mo_now :: int
  mo_later :: int
  mo_uuid :: "string \<Rightarrow> string"
  mo_iso :: string
  mo_commit :: "string \<Rightarrow> bool"

record 's sched =
  sd_jobs :: "job list"
  sd_bus :: "'s bus"

definition job_json_load :: "payload option \<Rightarrow> pyval" where
  "job_json_load d = (case d of None \<Rightarrow> PDict []
     | Some p \<Rightarrow> if text_truthy p then (case json_loads p of Inl _ \<Rightarrow> PDict [] | Inr v \<Rightarrow> v) else PDict [])"

definition job_json_dump :: "(string \<times> pyval) list option \<Rightarrow> payload option" where
  "job_json_dump d = map_option (\<lambda>kvs. Dumps (PDict kvs)) d"

definition find_job :: "string \<Rightarrow> job list \<Rightarrow> job option" where
  "find_job k js = List.find (\<lambda>j. jb_id j = k) js"

definition put_job :: "job \<Rightarrow> job list \<Rightarrow> job list" where
  "put_job j js = map (\<lambda>j'. if jb_id j' = jb_id j then j else j') js"

section \<open>When a job is due\<close>

definition SECOND :: int where "SECOND = 1000000"

definition compute_next_due :: "sched_env \<Rightarrow> string \<Rightarrow> int \<Rightarrow> int res" where
  "compute_next_due E cron_expr reference = sc_cron_next E cron_expr reference"

text \<open>\<open>int\<close> of the seconds between two times cuts towards zero.\<close>

definition whole_seconds :: "int \<Rightarrow> int" where
  "whole_seconds d = (if 0 \<le> d then d div SECOND else - ((- d) div SECOND))"

definition cron_interval :: "sched_env \<Rightarrow> int \<Rightarrow> job \<Rightarrow> int res" where
  "cron_interval E clock j =
     res_bind (compute_next_due E (jb_cron j) (opt_or clock (jb_last_run j))) (\<lambda>next_time.
     res_bind (sc_cron_next E (jb_cron j) next_time) (\<lambda>subsequent.
     Inr (max 1 (whole_seconds (subsequent - next_time)))))"

definition job_interval_seconds :: "sched_env \<Rightarrow> int \<Rightarrow> job \<Rightarrow> int res" where
  "job_interval_seconds E clock j = (case jb_interval j of
     Some n \<Rightarrow> if n \<noteq> 0 then Inr n else cron_interval E clock j
   | None \<Rightarrow> cron_interval E clock j)"

section \<open>Publication\<close>

definition STREAM_JOBS_PREFIX :: string where "STREAM_JOBS_PREFIX = ''stream:jobs:''"

definition publisher_stream :: "string \<Rightarrow> string" where
  "publisher_stream queue_name =
     (if take 7 queue_name = ''stream:'' then queue_name else STREAM_JOBS_PREFIX @ queue_name)"

definition scoped_queue_name :: "sched_env \<Rightarrow> string \<Rightarrow> string" where
  "scoped_queue_name E queue =
     (let prefix = sc_scope E @ ''.''
      in if take (length prefix) queue = prefix then queue else prefix @ queue)"

definition job_payload :: "moment \<Rightarrow> job \<Rightarrow> string \<Rightarrow> (string \<times> pyval) list \<Rightarrow> pyval" where
  "job_payload m j trigger_source params = PDict
     [(''job_id'', PStr (jb_id j)), (''scope'', PStr (jb_scope j)), (''run_id'', PStr (mo_uuid m (jb_id j))),
      (''trigger_source'', PStr trigger_source), (''params'', PDict params),
      (''timeout_sec'', case jb_timeout j of None \<Rightarrow> PNone | Some n \<Rightarrow> PInt n),
      (''retry_limit'', case jb_retry j of None \<Rightarrow> PNone | Some n \<Rightarrow> PInt n),
      (''telemetry_label'', case jb_label j of None \<Rightarrow> PNone | Some t \<Rightarrow> PStr t),
      (''queued_at'', PStr (mo_iso m)), (''auto_reschedule'', PBool False)]"

text \<open>
  The publisher takes a delay and a time to live and uses neither (it keeps them for
  compatibility); \<open>{**defaults, **params}\<close> raises when the stored defaults are no dictionary.
\<close>

definition publish_job :: "'s streams \<Rightarrow> string \<Rightarrow> pyval \<Rightarrow> int \<Rightarrow> int option \<Rightarrow> 's bus \<Rightarrow> string option \<times> 's bus" where
  "publish_job X stream_name payload delay_seconds message_ttl_ms = publish X stream_name payload"

definition schedule_job_execution ::
  "'s streams \<Rightarrow> sched_env \<Rightarrow> moment \<Rightarrow> job \<Rightarrow> string \<Rightarrow> (string \<times> pyval) list option \<Rightarrow> int \<Rightarrow> int option
     \<Rightarrow> 's bus \<Rightarrow> string option res \<times> 's bus" where
  "schedule_job_execution X E m j trigger_source params_override delay_seconds ttl_seconds w =
     (case job_json_load (jb_params j) of
        PDict kvs \<Rightarrow>
          (let params = foldl (\<lambda>d (k, v). dict_set k v d) kvs (opt_or [] params_override);
               ttl_ms = (case ttl_seconds of None \<Rightarrow> None | Some t \<Rightarrow> if t \<noteq> 0 then Some (t * 1000) else None);
               (message_id, w1) = publish_job X (publisher_stream (scoped_queue_name E (jb_queue j)))
                 (job_payload m j trigger_source params) delay_seconds ttl_ms w
           in (Inr message_id, w1))
      | _ \<Rightarrow> (Inl TypeError, w))"

definition job_ttl :: "int \<Rightarrow> int" where
  "job_ttl interval = max 1 (py_int (fmul (of_py_int interval) (fl (8/10))))"

section \<open>The cycle\<close>

text \<open>
  One job of a cycle, with what is published: the job and the identifier of the message. An
  exception is logged and the next job follows; the row is written after the message is sent.
\<close>

definition cycle_job ::
  "'s streams \<Rightarrow> sched_env \<Rightarrow> moment \<Rightarrow> job \<Rightarrow> 's sched \<Rightarrow> (string \<times> string option) list \<times> 's sched" where
  "cycle_job X E m j w = (case job_interval_seconds E (mo_later m) j of
     Inl _ \<Rightarrow> ([], w)
   | Inr interval \<Rightarrow>
      (let last_run = opt_or (mo_now m - interval * SECOND) (jb_last_run j);
           next_due = last_run + interval * SECOND
       in if mo_now m < next_due then ([], w)
          else (case schedule_job_execution X E m j ''scheduler'' None 0 (Some (job_ttl interval)) (sd_bus w) of
              (Inl _, b) \<Rightarrow> ([], w\<lparr>sd_bus := b\<rparr>)
            | (Inr message_id, b) \<Rightarrow> ([(jb_id j, message_id)],
                if mo_commit m (jb_id j)
                then w\<lparr>sd_bus := b, sd_jobs := put_job (j\<lparr>jb_last_run := Some (mo_now m), jb_next_due := Some next_due,
                       jb_status := Some ''queued'', jb_error := None\<rparr>) (sd_jobs w)\<rparr>
                else w\<lparr>sd_bus := b\<rparr>))))"

fun cycle_jobs ::
  "'s streams \<Rightarrow> sched_env \<Rightarrow> moment \<Rightarrow> job list \<Rightarrow> 's sched \<Rightarrow> (string \<times> string option) list \<times> 's sched" where
  "cycle_jobs X E m [] w = ([], w)"
| "cycle_jobs X E m (j # js) w =
     (let (sent, w1) = cycle_job X E m j w; (rest, w2) = cycle_jobs X E m js w1 in (sent @ rest, w2))"

definition selected_jobs :: "sched_env \<Rightarrow> job list \<Rightarrow> job list" where
  "selected_jobs E js = filter (\<lambda>j. jb_scope j = sc_scope E \<and> jb_enabled j = Some True) js"

definition run_scheduler_cycle ::
  "'s streams \<Rightarrow> sched_env \<Rightarrow> moment \<Rightarrow> 's sched \<Rightarrow> (string \<times> string option) list \<times> 's sched" where
  "run_scheduler_cycle X E m w = cycle_jobs X E m (selected_jobs E (sd_jobs w)) w"

section \<open>The interface\<close>

datatype api_error = Not_Found | Job_Exists | Unprocessable | Server_Error exn

text \<open>
  A new job as the body of the request gives it. Defaults are filled in, except for the
  interval: \<open>None\<close> means the field was not sent, and its validator does not run then.
\<close>

record job_create =
  jc_id :: string
  jc_description :: "string option"
  jc_queue :: string
  jc_cron :: string
  jc_enabled :: bool
  jc_mode :: string
  jc_interval :: "int option option"
  jc_parallel :: int
  jc_params :: "(string \<times> pyval) list"
  jc_timeout :: int
  jc_retry :: int
  jc_label :: "string option"

definition RESCHEDULE_MODES :: "string list" where "RESCHEDULE_MODES = [''scheduler'', ''queue'']"

definition validate_interval :: "string \<Rightarrow> int option option \<Rightarrow> bool" where
  "validate_interval mode v = (case v of None \<Rightarrow> True
     | Some None \<Rightarrow> mode \<noteq> ''queue''
     | Some (Some n) \<Rightarrow> 5 \<le> n)"

definition validate_create :: "sched_env \<Rightarrow> job_create \<Rightarrow> bool" where
  "validate_create E c \<longleftrightarrow> 3 \<le> length (jc_id c) \<and> 1 \<le> length (jc_queue c) \<and> 3 \<le> length (jc_cron c)
     \<and> sc_cron_ok E (jc_cron c) \<and> jc_mode c \<in> set RESCHEDULE_MODES \<and> validate_interval (jc_mode c) (jc_interval c)
     \<and> 1 \<le> jc_parallel c \<and> 10 \<le> jc_timeout c \<and> 0 \<le> jc_retry c"

definition new_job :: "sched_env \<Rightarrow> job_create \<Rightarrow> int \<Rightarrow> job" where
  "new_job E c due = \<lparr>jb_id = jc_id c, jb_scope = sc_scope E, jb_mode = jc_mode c,
     jb_interval = opt_or None (jc_interval c), jb_description = jc_description c, jb_queue = jc_queue c,
     jb_cron = jc_cron c, jb_enabled = Some (jc_enabled c), jb_parallel = Some (jc_parallel c),
     jb_params = job_json_dump (Some (jc_params c)), jb_timeout = Some (jc_timeout c), jb_retry = Some (jc_retry c),
     jb_label = jc_label c, jb_next_due = Some due, jb_last_run = None, jb_status = None, jb_error = None\<rparr>"

text \<open>What \<open>create_job\<close>, \<open>run_job\<close> and \<open>resume_job\<close> share: publish with the time to live of the interval.\<close>

definition publish_now ::
  "'s streams \<Rightarrow> sched_env \<Rightarrow> moment \<Rightarrow> job \<Rightarrow> string \<Rightarrow> (string \<times> pyval) list option \<Rightarrow> int \<Rightarrow> 's sched
     \<Rightarrow> (api_error + string option) \<times> 's sched" where
  "publish_now X E m j source override delay w = (case job_interval_seconds E (mo_later m) j of
     Inl e \<Rightarrow> (Inl (Server_Error e), w)
   | Inr interval \<Rightarrow> (case schedule_job_execution X E m j source override delay (Some (job_ttl interval)) (sd_bus w) of
       (Inl e, b) \<Rightarrow> (Inl (Server_Error e), w\<lparr>sd_bus := b\<rparr>)
     | (Inr i, b) \<Rightarrow> (Inr i, w\<lparr>sd_bus := b\<rparr>)))"

definition then_answer :: "job \<Rightarrow> (api_error + 'a) \<times> 's sched \<Rightarrow> (api_error + job) \<times> 's sched" where
  "then_answer j r = (case r of (Inl e, w) \<Rightarrow> (Inl e, w) | (Inr _, w) \<Rightarrow> (Inr j, w))"

text \<open>The primary key is the identifier alone.\<close>

definition create_job ::
  "'s streams \<Rightarrow> sched_env \<Rightarrow> moment \<Rightarrow> job_create \<Rightarrow> 's sched \<Rightarrow> (api_error + job) \<times> 's sched" where
  "create_job X E m c w =
     (if \<not> validate_create E c then (Inl Unprocessable, w)
      else case compute_next_due E (jc_cron c) (mo_now m) of
        Inl e \<Rightarrow> (Inl (Server_Error e), w)
      | Inr due \<Rightarrow>
         (let j = new_job E c due
          in if find_job (jc_id c) (sd_jobs w) \<noteq> None then (Inl Job_Exists, w)
             else if \<not> mo_commit m (jc_id c) then (Inl (Server_Error (DB_Error ''commit'')), w)
             else (let w1 = w\<lparr>sd_jobs := sd_jobs w @ [j]\<rparr>
                   in if jb_enabled j = Some True
                      then then_answer j (publish_now X E m j ''bootstrap'' None 0 w1)
                      else (Inr j, w1))))"

text \<open>A field a request sets; the columns that must not be empty refuse \<open>None\<close> at the commit.\<close>

datatype setting =
    Set_Description "string option"
  | Set_Queue "string option"
  | Set_Cron "string option"
  | Set_Enabled "bool option"
  | Set_Mode "string option"
  | Set_Interval "int option"
  | Set_Parallel "int option"
  | Set_Params "(string \<times> pyval) list option"
  | Set_Timeout "int option"
  | Set_Retry "int option"
  | Set_Label "string option"

definition not_null :: "string option \<Rightarrow> (string \<Rightarrow> job) \<Rightarrow> job res" where
  "not_null v f = (case v of None \<Rightarrow> Inl (DB_Error ''null'') | Some t \<Rightarrow> Inr (f t))"

fun apply_setting :: "sched_env \<Rightarrow> moment \<Rightarrow> setting \<Rightarrow> job \<Rightarrow> job res" where
  "apply_setting E m (Set_Description v) j = Inr (j\<lparr>jb_description := v\<rparr>)"
| "apply_setting E m (Set_Queue v) j = not_null v (\<lambda>t. j\<lparr>jb_queue := t\<rparr>)"
| "apply_setting E m (Set_Cron v) j = (case v of
     Some t \<Rightarrow> if t \<noteq> [] then res_bind (compute_next_due E t (mo_now m)) (\<lambda>due. Inr (j\<lparr>jb_cron := t, jb_next_due := Some due\<rparr>))
       else Inr (j\<lparr>jb_cron := t\<rparr>)
   | None \<Rightarrow> not_null None (\<lambda>t. j))"
| "apply_setting E m (Set_Enabled v) j = Inr (j\<lparr>jb_enabled := v\<rparr>)"
| "apply_setting E m (Set_Mode v) j = not_null v (\<lambda>t. j\<lparr>jb_mode := t\<rparr>)"
| "apply_setting E m (Set_Interval v) j = Inr (j\<lparr>jb_interval := v\<rparr>)"
| "apply_setting E m (Set_Parallel v) j = Inr (j\<lparr>jb_parallel := v\<rparr>)"
| "apply_setting E m (Set_Params v) j = Inr (j\<lparr>jb_params := job_json_dump v\<rparr>)"
| "apply_setting E m (Set_Timeout v) j = Inr (j\<lparr>jb_timeout := v\<rparr>)"
| "apply_setting E m (Set_Retry v) j = Inr (j\<lparr>jb_retry := v\<rparr>)"
| "apply_setting E m (Set_Label v) j = Inr (j\<lparr>jb_label := v\<rparr>)"

fun apply_settings :: "sched_env \<Rightarrow> moment \<Rightarrow> setting list \<Rightarrow> job \<Rightarrow> job res" where
  "apply_settings E m [] j = Inr j"
| "apply_settings E m (v # vs) j = res_bind (apply_setting E m v j) (apply_settings E m vs)"

definition update_mode :: "setting list \<Rightarrow> string" where
  "update_mode vs = (case List.find (\<lambda>v. case v of Set_Mode _ \<Rightarrow> True | _ \<Rightarrow> False) vs of
     Some (Set_Mode (Some t)) \<Rightarrow> t | _ \<Rightarrow> [])"

fun validate_setting :: "sched_env \<Rightarrow> string \<Rightarrow> setting \<Rightarrow> bool" where
  "validate_setting E mode (Set_Cron v) = (case v of None \<Rightarrow> True | Some t \<Rightarrow> sc_cron_ok E t)"
| "validate_setting E mode (Set_Mode v) = (case v of None \<Rightarrow> True | Some t \<Rightarrow> t = [] \<or> t \<in> set RESCHEDULE_MODES)"
| "validate_setting E mode (Set_Interval v) = validate_interval mode (Some v)"
| "validate_setting E mode (Set_Parallel v) = (case v of None \<Rightarrow> True | Some n \<Rightarrow> 1 \<le> n)"
| "validate_setting E mode (Set_Timeout v) = (case v of None \<Rightarrow> True | Some n \<Rightarrow> 10 \<le> n)"
| "validate_setting E mode (Set_Retry v) = (case v of None \<Rightarrow> True | Some n \<Rightarrow> 0 \<le> n)"
| "validate_setting E mode _ = True"

text \<open>The job of a request, if it exists in the scope; the commit that ends an operation.\<close>

definition own_job :: "string \<Rightarrow> string \<Rightarrow> 's sched \<Rightarrow> job option" where
  "own_job scope k w = (case find_job k (sd_jobs w) of
     None \<Rightarrow> None | Some j \<Rightarrow> if jb_scope j = scope then Some j else None)"

definition save_job :: "moment \<Rightarrow> job \<Rightarrow> 's sched \<Rightarrow> (api_error + job) \<times> 's sched" where
  "save_job m j w = (if mo_commit m (jb_id j) then (Inr j, w\<lparr>sd_jobs := put_job j (sd_jobs w)\<rparr>)
     else (Inl (Server_Error (DB_Error ''commit'')), w))"

definition update_job ::
  "sched_env \<Rightarrow> moment \<Rightarrow> string \<Rightarrow> setting list \<Rightarrow> 's sched \<Rightarrow> (api_error + job) \<times> 's sched" where
  "update_job E m k vs w =
     (if \<not> list_all (validate_setting E (update_mode vs)) vs then (Inl Unprocessable, w)
      else case own_job (sc_scope E) k w of
        None \<Rightarrow> (Inl Not_Found, w)
      | Some j \<Rightarrow> (case apply_settings E m vs j of
          Inl e \<Rightarrow> (Inl (Server_Error e), w)
        | Inr j' \<Rightarrow> save_job m j' w))"

definition run_job ::
  "'s streams \<Rightarrow> sched_env \<Rightarrow> moment \<Rightarrow> string \<Rightarrow> (string \<times> pyval) list option \<Rightarrow> int \<Rightarrow> string \<Rightarrow> 's sched
     \<Rightarrow> (api_error + string option) \<times> 's sched" where
  "run_job X E m k params delay_seconds trigger_source w =
     (if delay_seconds < 0 \<or> 50 < length trigger_source then (Inl Unprocessable, w)
      else case own_job (sc_scope E) k w of
        None \<Rightarrow> (Inl Not_Found, w)
      | Some j \<Rightarrow> publish_now X E m j trigger_source params delay_seconds w)"

definition mark_job_last_run ::
  "sched_env \<Rightarrow> moment \<Rightarrow> string \<Rightarrow> string option \<Rightarrow> 's sched \<Rightarrow> (api_error + job) \<times> 's sched" where
  "mark_job_last_run E m k scope w =
     (let target_scope = (case scope of None \<Rightarrow> sc_scope E | Some t \<Rightarrow> if t = [] then sc_scope E else t)
      in case own_job target_scope k w of
        None \<Rightarrow> (Inl Not_Found, w)
      | Some j \<Rightarrow> save_job m (j\<lparr>jb_last_run := Some (mo_now m), jb_status := Some ''done'', jb_error := None\<rparr>) w)"

definition pause_job :: "sched_env \<Rightarrow> moment \<Rightarrow> string \<Rightarrow> 's sched \<Rightarrow> (api_error + job) \<times> 's sched" where
  "pause_job E m k w = (case own_job (sc_scope E) k w of
     None \<Rightarrow> (Inl Not_Found, w)
   | Some j \<Rightarrow> save_job m (j\<lparr>jb_enabled := Some False, jb_status := Some ''paused''\<rparr>) w)"

definition resume_job ::
  "'s streams \<Rightarrow> sched_env \<Rightarrow> moment \<Rightarrow> string \<Rightarrow> 's sched \<Rightarrow> (api_error + job) \<times> 's sched" where
  "resume_job X E m k w = (case own_job (sc_scope E) k w of
     None \<Rightarrow> (Inl Not_Found, w)
   | Some j \<Rightarrow>
      (case (case jb_next_due j of Some d \<Rightarrow> Inr (j\<lparr>jb_enabled := Some True\<rparr>)
          | None \<Rightarrow> res_bind (compute_next_due E (jb_cron j) (mo_now m))
              (\<lambda>due. Inr (j\<lparr>jb_enabled := Some True, jb_next_due := Some due\<rparr>))) of
        Inl e \<Rightarrow> (Inl (Server_Error e), w)
      | Inr j' \<Rightarrow> (case save_job m j' w of
          (Inl e, w1) \<Rightarrow> (Inl e, w1)
        | (Inr _, w1) \<Rightarrow> then_answer j' (publish_now X E m j' ''resume'' None 0 w1))))"

section \<open>The jobs of the program itself\<close>

definition default_job :: "sched_env \<Rightarrow> string \<Rightarrow> string \<Rightarrow> string \<Rightarrow> string \<Rightarrow> int \<Rightarrow> (string \<times> pyval) list \<Rightarrow> int \<Rightarrow> job" where
  "default_job E k description queue_suffix cron timeout params due = \<lparr>jb_id = k, jb_scope = sc_scope E,
     jb_mode = ''scheduler'', jb_interval = None, jb_description = Some description,
     jb_queue = sc_scope E @ ''.'' @ queue_suffix, jb_cron = cron, jb_enabled = Some True, jb_parallel = Some 1,
     jb_params = job_json_dump (Some params), jb_timeout = Some timeout, jb_retry = Some 3, jb_label = None,
     jb_next_due = Some due, jb_last_run = None, jb_status = None, jb_error = None\<rparr>"

definition DEFAULT_JOBS :: "(string \<times> string \<times> string \<times> string \<times> int \<times> (string \<times> pyval) list) list" where
  "DEFAULT_JOBS =
    [(''scout-job'', ''AI Scout Job (Market Hours 08:00-15:30)'', ''jobs.scout'', ''*/30 8-15 * * 1-5'', 7200, []),
     (''price-monitor-pulse'', ''Price Monitor Pulse (Keep-Alive)'', ''jobs.price-monitor'', ''*/5 9-15 * * 1-5'', 60,
      [(''action'', PStr ''pulse'')])]"

fun missing_defaults ::
  "sched_env \<Rightarrow> moment \<Rightarrow> job list \<Rightarrow> (string \<times> string \<times> string \<times> string \<times> int \<times> (string \<times> pyval) list) list \<Rightarrow> job list res" where
  "missing_defaults E m js [] = Inr []"
| "missing_defaults E m js ((k, description, suffix, cron, timeout, params) # ds) =
     (if \<exists>j \<in> set js. jb_id j = k \<and> jb_scope j = sc_scope E then missing_defaults E m js ds
      else res_bind (compute_next_due E cron (mo_now m)) (\<lambda>due. res_bind (missing_defaults E m js ds) (\<lambda>rest.
        Inr (default_job E k description suffix cron timeout params due # rest))))"

text \<open>All missing jobs are written by one commit; any failure leaves the table as it was.\<close>

definition bootstrap_default_jobs :: "sched_env \<Rightarrow> moment \<Rightarrow> 's sched \<Rightarrow> 's sched" where
  "bootstrap_default_jobs E m w = (case missing_defaults E m (sd_jobs w) DEFAULT_JOBS of
     Inl _ \<Rightarrow> w
   | Inr added \<Rightarrow> if list_all (\<lambda>j. find_job (jb_id j) (sd_jobs w) = None \<and> mo_commit m (jb_id j)) added
       then w\<lparr>sd_jobs := sd_jobs w @ added\<rparr> else w)"


section \<open>The table\<close>

lemma find_job_put [simp]:
  "find_job k (put_job j js) = (if k = jb_id j \<and> find_job k js \<noteq> None then Some j else find_job k js)"
  by (induction js) (auto simp: find_job_def put_job_def)

lemma ids_put [simp]: "map jb_id (put_job j js) = map jb_id js"
  by (simp add: put_job_def)

lemma find_job_id: "find_job k js = Some j \<Longrightarrow> jb_id j = k"
  by (auto simp: find_job_def find_Some_iff)

lemma find_job_None: "find_job k js = None \<longleftrightarrow> k \<notin> jb_id ` set js"
  by (auto simp: find_job_def find_None_iff)

lemma find_job_distinct: "\<lbrakk>distinct (map jb_id js); j \<in> set js\<rbrakk> \<Longrightarrow> find_job (jb_id j) js = Some j"
  by (induction js) (auto simp: find_job_def)

lemma find_job_append: "find_job k (js @ js') = (case find_job k js of None \<Rightarrow> find_job k js' | Some j \<Rightarrow> Some j)"
  by (induction js) (auto simp: find_job_def)

section \<open>The operations on one row\<close>

text \<open>The jobs a step of the service publishes on schedule, and the table after it.\<close>

datatype sched_event =
    Cycle moment
  | Create moment job_create
  | Update moment string "setting list"
  | Run moment string "(string \<times> pyval) list option" int string
  | Mark moment string "string option"
  | Pause moment string
  | Resume moment string
  | Bootstrap moment

fun event_moment :: "sched_event \<Rightarrow> moment" where
  "event_moment (Cycle m) = m" | "event_moment (Create m _) = m" | "event_moment (Update m _ _) = m"
| "event_moment (Run m _ _ _ _) = m" | "event_moment (Mark m _ _) = m" | "event_moment (Pause m _) = m"
| "event_moment (Resume m _) = m" | "event_moment (Bootstrap m) = m"

definition event_time :: "sched_event \<Rightarrow> int" where "event_time e = mo_now (event_moment e)"

fun sched_step :: "'s streams \<Rightarrow> sched_env \<Rightarrow> sched_event \<Rightarrow> 's sched \<Rightarrow> (string \<times> int) list \<times> 's sched" where
  "sched_step X E (Cycle m) w = (let (sent, w1) = run_scheduler_cycle X E m w in (map (\<lambda>(k, _). (k, mo_now m)) sent, w1))"
| "sched_step X E (Create m c) w = ([], snd (create_job X E m c w))"
| "sched_step X E (Update m k vs) w = ([], snd (update_job E m k vs w))"
| "sched_step X E (Run m k ps d t) w = ([], snd (run_job X E m k ps d t w))"
| "sched_step X E (Mark m k sc) w = ([], snd (mark_job_last_run E m k sc w))"
| "sched_step X E (Pause m k) w = ([], snd (pause_job E m k w))"
| "sched_step X E (Resume m k) w = ([], snd (resume_job X E m k w))"
| "sched_step X E (Bootstrap m) w = ([], bootstrap_default_jobs E m w)"

fun sched_run :: "'s streams \<Rightarrow> sched_env \<Rightarrow> sched_event list \<Rightarrow> 's sched \<Rightarrow> (string \<times> int) list \<times> 's sched" where
  "sched_run X E [] w = ([], w)"
| "sched_run X E (e # es) w = (let (sent, w1) = sched_step X E e w; (rest, w2) = sched_run X E es w1 in (sent @ rest, w2))"

lemma publish_now_jobs [simp]: "sd_jobs (snd (publish_now X E m j src ps d w)) = sd_jobs w"
  by (simp add: publish_now_def split: sum.split prod.split)

lemma then_answer_snd [simp]: "snd (then_answer j r) = snd r"
  by (simp add: then_answer_def split: sum.split prod.split)

lemma save_job_jobs:
  "sd_jobs (snd (save_job m j w)) = (if mo_commit m (jb_id j) then put_job j (sd_jobs w) else sd_jobs w)"
  by (simp add: save_job_def)

lemma cycle_job_cases:
  obtains "cycle_job X E m j w = ([], w)"
  | b where "cycle_job X E m j w = ([], w\<lparr>sd_bus := b\<rparr>)"
  | interval i w' where "job_interval_seconds E (mo_later m) j = Inr interval"
      "opt_or (mo_now m - interval * SECOND) (jb_last_run j) + interval * SECOND \<le> mo_now m"
      "cycle_job X E m j w = ([(jb_id j, i)], w')"
      "sd_jobs w' = (if mo_commit m (jb_id j)
         then put_job (j\<lparr>jb_last_run := Some (mo_now m),
           jb_next_due := Some (opt_or (mo_now m - interval * SECOND) (jb_last_run j) + interval * SECOND),
           jb_status := Some ''queued'', jb_error := None\<rparr>) (sd_jobs w) else sd_jobs w)"
proof (cases "job_interval_seconds E (mo_later m) j")
  case (Inr interval)
  obtain r b where "schedule_job_execution X E m j ''scheduler'' None 0 (Some (job_ttl interval)) (sd_bus w) = (r, b)"
    by fastforce
  note run = Inr this
  let ?due = "opt_or (mo_now m - interval * SECOND) (jb_last_run j) + interval * SECOND"
  show ?thesis
  proof (cases "mo_now m < ?due")
    case True
    with run(1) show ?thesis by (intro that(1)) (simp add: cycle_job_def Let_def)
  next
    case False
    show ?thesis
    proof (cases r)
      case (Inl e)
      with run False show ?thesis by (intro that(2) [of b]) (simp add: cycle_job_def Let_def)
    next
      case (Inr i)
      with run False show ?thesis
        by (intro that(3) [OF run(1), of i "snd (cycle_job X E m j w)"]) (simp_all add: cycle_job_def Let_def)
    qed
  qed
qed (use that(1) in \<open>simp add: cycle_job_def\<close>)

lemma cycle_job_other:
  assumes "jb_id j \<noteq> k"
  shows "find_job k (sd_jobs (snd (cycle_job X E m j w))) = find_job k (sd_jobs w)"
    "k \<notin> fst ` set (fst (cycle_job X E m j w))"
  using assms by (cases rule: cycle_job_cases [of X E m j w]; simp)+

lemma cycle_job_ids: "map jb_id (sd_jobs (snd (cycle_job X E m j w))) = map jb_id (sd_jobs w)"
  by (cases rule: cycle_job_cases [of X E m j w]) simp_all

lemma cycle_jobs_ids: "map jb_id (sd_jobs (snd (cycle_jobs X E m js w))) = map jb_id (sd_jobs w)"
  by (induction js arbitrary: w) (auto simp: Let_def split_beta cycle_job_ids)

lemma cycle_jobs_other:
  assumes "k \<notin> jb_id ` set js"
  shows "find_job k (sd_jobs (snd (cycle_jobs X E m js w))) = find_job k (sd_jobs w)
    \<and> k \<notin> fst ` set (fst (cycle_jobs X E m js w))"
  using assms by (induction js arbitrary: w) (simp_all add: Let_def split_beta cycle_job_other image_Un eq_commute)

lemma cycle_jobs_split: "cycle_jobs X E m (js @ js') w =
  (let (a, w1) = cycle_jobs X E m js w; (b, w2) = cycle_jobs X E m js' w1 in (a @ b, w2))"
  by (induction js arbitrary: w) (auto simp: Let_def split_beta)

text \<open>What a cycle does to one row: nothing, or it publishes the job once and moves its last run.\<close>

definition published :: "string \<Rightarrow> (string \<times> 'a) list \<Rightarrow> (string \<times> 'a) list" where
  "published k = filter (\<lambda>x. fst x = k)"

lemma published_simps [simp]: "published k [] = []" "published k (xs @ ys) = published k xs @ published k ys"
  "published k (x # xs) = (if fst x = k then x # published k xs else published k xs)"
  by (simp_all add: published_def)

lemma published_none: "k \<notin> fst ` set xs \<Longrightarrow> published k xs = []"
  by (auto simp: published_def filter_empty_conv)

lemma cycle_selected:
  assumes "distinct (map jb_id (sd_jobs w))" "find_job k (sd_jobs w) = Some j" "j \<in> set (selected_jobs E (sd_jobs w))"
  shows "\<exists>w1. find_job k (sd_jobs w1) = Some j
    \<and> published k (fst (run_scheduler_cycle X E m w)) = published k (fst (cycle_job X E m j w1))
    \<and> find_job k (sd_jobs (snd (run_scheduler_cycle X E m w))) = find_job k (sd_jobs (snd (cycle_job X E m j w1)))"
proof -
  note id = find_job_id [OF assms(2)]
  obtain js js' where sel: "selected_jobs E (sd_jobs w) = js @ j # js'" using assms(3) by (auto simp: in_set_conv_decomp)
  have "distinct (map jb_id (selected_jobs E (sd_jobs w)))" using assms(1) by (simp add: selected_jobs_def distinct_map_filter)
  with sel id have k: "k \<notin> jb_id ` set js" "k \<notin> jb_id ` set js'" by auto
  let ?w1 = "snd (cycle_jobs X E m js w)"
  have 1: "find_job k (sd_jobs ?w1) = Some j" "published k (fst (cycle_jobs X E m js w)) = []"
    using cycle_jobs_other [OF k(1), of X E m w] assms(2) by (simp_all add: published_none)
  with cycle_jobs_other [OF k(2), of X E m "snd (cycle_job X E m j ?w1)"] show ?thesis
    by (intro exI [of _ ?w1]) (simp add: run_scheduler_cycle_def sel cycle_jobs_split Let_def split_beta published_none)
qed

lemma cycle_row:
  assumes "distinct (map jb_id (sd_jobs w))" "find_job k (sd_jobs w) = Some j"
  obtains "published k (fst (run_scheduler_cycle X E m w)) = []"
      "find_job k (sd_jobs (snd (run_scheduler_cycle X E m w))) = Some j"
  | interval i where "published k (fst (run_scheduler_cycle X E m w)) = [(k, i)]"
      "jb_enabled j = Some True" "jb_scope j = sc_scope E" "job_interval_seconds E (mo_later m) j = Inr interval"
      "opt_or (mo_now m - interval * SECOND) (jb_last_run j) + interval * SECOND \<le> mo_now m"
      "find_job k (sd_jobs (snd (run_scheduler_cycle X E m w))) = (if mo_commit m k
         then Some (j\<lparr>jb_last_run := Some (mo_now m),
           jb_next_due := Some (opt_or (mo_now m - interval * SECOND) (jb_last_run j) + interval * SECOND),
           jb_status := Some ''queued'', jb_error := None\<rparr>) else Some j)"
proof (cases "j \<in> set (selected_jobs E (sd_jobs w))")
  case False
  have "k \<notin> jb_id ` set (selected_jobs E (sd_jobs w))"
    using False find_job_distinct [OF assms(1)] assms(2) by (auto simp: selected_jobs_def)
  from cycle_jobs_other [OF this, of X E m w] that(1) assms(2) show ?thesis
    by (simp add: run_scheduler_cycle_def published_none)
next
  case True
  note id = find_job_id [OF assms(2)]
  from cycle_selected [OF assms True] obtain w1 where 1: "find_job k (sd_jobs w1) = Some j"
    and 2: "published k (fst (run_scheduler_cycle X E m w)) = published k (fst (cycle_job X E m j w1))"
    "find_job k (sd_jobs (snd (run_scheduler_cycle X E m w))) = find_job k (sd_jobs (snd (cycle_job X E m j w1)))" by blast
  have own: "jb_enabled j = Some True" "jb_scope j = sc_scope E" using True by (simp_all add: selected_jobs_def)
  show ?thesis
    by (cases rule: cycle_job_cases [of X E m j w1]) (use that 1 2 id own in \<open>auto split: if_splits\<close>)
qed

text \<open>A due job with a dictionary of parameters is published.\<close>

lemma cycle_due:
  assumes "distinct (map jb_id (sd_jobs w))" "find_job k (sd_jobs w) = Some j" "jb_enabled j = Some True"
    "jb_scope j = sc_scope E" "job_interval_seconds E (mo_later m) j = Inr interval"
    "opt_or (mo_now m - interval * SECOND) (jb_last_run j) + interval * SECOND \<le> mo_now m"
    "job_json_load (jb_params j) = PDict kvs"
  shows "\<exists>i. published k (fst (run_scheduler_cycle X E m w)) = [(k, i)]
      \<and> ((\<forall>st p b. fst (publish X st p b) = None) \<longrightarrow> i = None)"
proof -
  note id = find_job_id [OF assms(2)]
  have "j \<in> set (selected_jobs E (sd_jobs w))"
    using assms(2-4) by (auto simp: selected_jobs_def find_job_def find_Some_iff)
  from cycle_selected [OF assms(1,2) this] obtain w1 where
    1: "published k (fst (run_scheduler_cycle X E m w)) = published k (fst (cycle_job X E m j w1))" by blast
  have "\<exists>i b. schedule_job_execution X E m j ''scheduler'' None 0 (Some (job_ttl interval)) (sd_bus w1) = (Inr i, b)
      \<and> ((\<forall>st p b. fst (publish X st p b) = None) \<longrightarrow> i = None)"
    using assms(7) by (auto simp: schedule_job_execution_def publish_job_def Let_def split_beta)
  then obtain i b where 2: "schedule_job_execution X E m j ''scheduler'' None 0 (Some (job_ttl interval)) (sd_bus w1) = (Inr i, b)"
    "(\<forall>st p b. fst (publish X st p b) = None) \<longrightarrow> i = None" by blast
  have "fst (cycle_job X E m j w1) = [(jb_id j, i)]"
    using assms(5,6) 2(1) by (simp add: cycle_job_def Let_def)
  with 1 2(2) id show ?thesis by auto
qed

section \<open>The service over time\<close>

lemma missing_ids:
  assumes "missing_defaults E m js ds = Inr added"
  shows "jb_id ` set added \<subseteq> fst ` set ds" "distinct (map fst ds) \<Longrightarrow> distinct (map jb_id added)"
proof -
  have "jb_id ` set added \<subseteq> fst ` set ds \<and> (distinct (map fst ds) \<longrightarrow> distinct (map jb_id added))"
    using assms
  proof (induction E m js ds arbitrary: added rule: missing_defaults.induct)
    case (2 E m js k description suffix cron timeout params ds)
    show ?case
    proof (cases "\<exists>j \<in> set js. jb_id j = k \<and> jb_scope j = sc_scope E")
      case True
      with 2(1) [OF True, of added] 2(3) show ?thesis by auto
    next
      case False
      with 2(3) obtain due rest where rest: "missing_defaults E m js ds = Inr rest"
        "added = default_job E k description suffix cron timeout params due # rest"
        by (auto simp: res_bind_Inr_iff)
      from 2(2) [OF False rest(1)] rest(2) show ?thesis by (auto simp: default_job_def)
    qed
  qed simp
  then show "jb_id ` set added \<subseteq> fst ` set ds" "distinct (map fst ds) \<Longrightarrow> distinct (map jb_id added)" by auto
qed

lemma settings_keep:
  "apply_settings E m vs j = Inr j' \<Longrightarrow> jb_id j' = jb_id j \<and> jb_last_run j' = jb_last_run j
     \<and> ((\<forall>v. Set_Interval v \<notin> set vs) \<longrightarrow> jb_interval j' = jb_interval j)"
proof (induction vs arbitrary: j)
  case (Cons v vs)
  from Cons.prems obtain j1 where 1: "apply_setting E m v j = Inr j1" "apply_settings E m vs j1 = Inr j'"
    by (auto simp: res_bind_Inr_iff)
  have "jb_id j1 = jb_id j \<and> jb_last_run j1 = jb_last_run j \<and> ((\<forall>x. v \<noteq> Set_Interval x) \<longrightarrow> jb_interval j1 = jb_interval j)"
    using 1(1) by (cases v) (auto simp: not_null_def res_bind_Inr_iff split: option.splits if_splits)
  with Cons.IH [OF 1(2)] show ?case by auto
qed simp

definition keys_unique :: "'s sched \<Rightarrow> bool" where
  "keys_unique w \<longleftrightarrow> distinct (map jb_id (sd_jobs w))"

lemma save_unique [simp]: "keys_unique (snd (save_job m j w)) = keys_unique w"
  by (simp add: keys_unique_def save_job_jobs)

lemma publish_unique [simp]: "keys_unique (snd (publish_now X E m j src ps d w)) = keys_unique w"
  by (simp add: keys_unique_def)

lemma own_jobD: "own_job sc k w = Some j \<Longrightarrow> find_job k (sd_jobs w) = Some j \<and> jb_id j = k"
  by (auto simp: own_job_def dest: find_job_id split: option.splits if_splits)

text \<open>The three writing operations on an existing job, seen from the row of any job.\<close>

lemma create_row:
  "find_job k (sd_jobs w) = Some j \<Longrightarrow> find_job k (sd_jobs (snd (create_job X E m c w))) = Some j"
  by (auto simp: create_job_def Let_def find_job_append split: sum.split)

lemma update_table:
  "sd_jobs (snd (update_job E m k' vs w)) = sd_jobs w \<or> (\<exists>j j'. own_job (sc_scope E) k' w = Some j \<and>
     apply_settings E m vs j = Inr j' \<and> sd_jobs (snd (update_job E m k' vs w)) = put_job j' (sd_jobs w))"
  by (auto simp: update_job_def save_job_jobs split: option.split sum.split)

lemma update_row:
  assumes "find_job k (sd_jobs w) = Some j" "k' = k \<Longrightarrow> \<forall>v. Set_Interval v \<notin> set vs"
  shows "\<exists>j'. find_job k (sd_jobs (snd (update_job E m k' vs w))) = Some j' \<and> jb_interval j' = jb_interval j
     \<and> jb_last_run j' = jb_last_run j"
  using update_table [of E m k' vs w] assms
  by (cases "k' = k") (auto dest!: own_jobD settings_keep)

lemma mark_row:
  assumes "find_job k (sd_jobs w) = Some j"
  shows "\<exists>j'. find_job k (sd_jobs (snd (mark_job_last_run E m k' sc w))) = Some j' \<and> jb_interval j' = jb_interval j
     \<and> (jb_last_run j' = jb_last_run j \<or> jb_last_run j' = Some (mo_now m))"
  using assms by (auto simp: mark_job_last_run_def Let_def save_job_jobs dest!: own_jobD split: option.split)

lemma pause_row:
  assumes "find_job k (sd_jobs w) = Some j"
  shows "\<exists>j'. find_job k (sd_jobs (snd (pause_job E m k' w))) = Some j' \<and> jb_interval j' = jb_interval j
     \<and> jb_last_run j' = jb_last_run j"
  using assms by (auto simp: pause_job_def save_job_jobs dest!: own_jobD split: option.split)

lemma resume_table:
  "sd_jobs (snd (resume_job X E m k' w)) = sd_jobs w \<or> (\<exists>j due. own_job (sc_scope E) k' w = Some j \<and>
     sd_jobs (snd (resume_job X E m k' w)) = put_job (j\<lparr>jb_enabled := Some True, jb_next_due := due\<rparr>) (sd_jobs w))"
proof (cases "own_job (sc_scope E) k' w")
  case None
  then show ?thesis by (simp add: resume_job_def)
next
  case (Some j)
  show ?thesis
  proof (cases "jb_next_due j")
    case None
    with Some show ?thesis
      by (cases "compute_next_due E (jb_cron j) (mo_now m)") (auto simp: resume_job_def save_job_def)
  next
    case (Some d)
    then have "j\<lparr>jb_enabled := Some True, jb_next_due := Some d\<rparr> = j\<lparr>jb_enabled := Some True\<rparr>" by simp
    note same = this
    show ?thesis
    proof (cases "mo_commit m (jb_id j)")
      case True
      then have "sd_jobs (snd (resume_job X E m k' w)) = put_job (j\<lparr>jb_enabled := Some True\<rparr>) (sd_jobs w)"
        using Some \<open>own_job (sc_scope E) k' w = Some j\<close> by (simp add: resume_job_def save_job_def)
      then show ?thesis using \<open>own_job (sc_scope E) k' w = Some j\<close>
        by (intro disjI2 exI [of _ j] exI [of _ "Some d"]) (simp only: same simp_thms)
    next
      case False
      then show ?thesis using Some \<open>own_job (sc_scope E) k' w = Some j\<close> by (simp add: resume_job_def save_job_def)
    qed
  qed
qed

lemma resume_row:
  assumes "find_job k (sd_jobs w) = Some j"
  shows "\<exists>j'. find_job k (sd_jobs (snd (resume_job X E m k' w))) = Some j' \<and> jb_interval j' = jb_interval j
     \<and> jb_last_run j' = jb_last_run j"
  using assms resume_table [of X E m k' w] by (auto dest!: own_jobD)

lemma bootstrap_row:
  "find_job k (sd_jobs w) = Some j \<Longrightarrow> find_job k (sd_jobs (bootstrap_default_jobs E m w)) = Some j"
  by (auto simp: bootstrap_default_jobs_def find_job_append split: sum.split)

text \<open>No operation writes two rows of one identifier.\<close>

lemma step_unique: "keys_unique w \<Longrightarrow> keys_unique (snd (sched_step X E e w))"
proof (cases e)
  case (Cycle m)
  then show "keys_unique w \<Longrightarrow> ?thesis"
    by (simp add: Let_def split_beta run_scheduler_cycle_def keys_unique_def cycle_jobs_ids)
next
  case (Create m c)
  then show "keys_unique w \<Longrightarrow> ?thesis"
    by (auto simp: create_job_def Let_def keys_unique_def find_job_None new_job_def split: sum.split)
next
  case (Resume m k)
  then show "keys_unique w \<Longrightarrow> ?thesis" using resume_table [of X E m k w] by (auto simp: keys_unique_def)
next
  case (Bootstrap m)
  have "distinct (map fst DEFAULT_JOBS)" by (simp add: DEFAULT_JOBS_def)
  with Bootstrap show "keys_unique w \<Longrightarrow> ?thesis"
    by (auto simp: bootstrap_default_jobs_def keys_unique_def list_all_iff find_job_None dest: missing_ids(2)
      split: sum.split) (metis imageI)
qed (auto simp: update_job_def run_job_def mark_job_last_run_def pause_job_def Let_def split: option.split sum.split)


lemma published_map_fst: "published k (map (\<lambda>(i, _). (i, t)) xs) = map (\<lambda>(i, _). (i, t)) (published k xs)"
  by (induction xs) auto

text \<open>A request that sets the interval of a job; a commit of the job's row that succeeds.\<close>

definition sets_interval :: "string \<Rightarrow> sched_event \<Rightarrow> bool" where
  "sets_interval k e = (case e of Update _ k' vs \<Rightarrow> k' = k \<and> list_ex (\<lambda>v. case v of Set_Interval _ \<Rightarrow> True | _ \<Rightarrow> False) vs | _ \<Rightarrow> False)"

definition commits :: "string \<Rightarrow> sched_event \<Rightarrow> bool" where
  "commits k e = mo_commit (event_moment e) k"

lemma step_row:
  assumes u: "keys_unique w" and j: "find_job k (sd_jobs w) = Some j"
    and n: "jb_interval j = Some n" "0 < n" and e: "\<not> sets_interval k e" "commits k e"
  shows "\<exists>j'. find_job k (sd_jobs (snd (sched_step X E e w))) = Some j' \<and> jb_interval j' = Some n \<and>
     (published k (fst (sched_step X E e w)) = []
        \<and> (jb_last_run j' = jb_last_run j \<or> jb_last_run j' = Some (event_time e))
      \<or> published k (fst (sched_step X E e w)) = [(k, event_time e)] \<and> jb_last_run j' = Some (event_time e)
        \<and> (\<forall>t. jb_last_run j = Some t \<longrightarrow> t + n * SECOND \<le> event_time e))"
proof (cases e)
  case (Cycle m)
  note c = e(2)[unfolded commits_def Cycle event_moment.simps]
  show ?thesis
  proof (cases rule: cycle_row [OF u [unfolded keys_unique_def] j, of X E m])
    case 1
    with n show ?thesis
      by (simp add: Cycle Let_def split_beta published_map_fst)
  next
    case (2 interval i)
    from 2(4) n have "interval = n" by (simp add: job_interval_seconds_def)
    with 2 n c show ?thesis
      by (auto simp: Cycle Let_def split_beta published_map_fst event_time_def opt_or_def)
  qed
next
  case (Update m k' vs)
  have "k' = k \<Longrightarrow> \<forall>v. Set_Interval v \<notin> set vs"
    using e(1) by (auto simp: Update sets_interval_def list_ex_iff)
  from update_row [OF j this, where E = E and m = m] n(1) show ?thesis by (auto simp: Update)
next
  case (Mark m k' sc)
  show ?thesis using mark_row [OF j, of E m k' sc] n(1) by (auto simp: Mark event_time_def)
next
  case (Resume m k')
  show ?thesis using resume_row [OF j, of X E m k'] n(1) by (auto simp: Resume)
next
  case (Pause m k')
  show ?thesis using pause_row [OF j, of E m k'] n(1) by (auto simp: Pause)
next
  case (Create m c)
  show ?thesis using create_row [OF j, of X E m c] n(1) by (auto simp: Create)
next
  case (Bootstrap m)
  show ?thesis using bootstrap_row [OF j, of E m] n(1) by (auto simp: Bootstrap)
next
  case (Run m k' ps d t)
  have "sd_jobs (snd (run_job X E m k' ps d t w)) = sd_jobs w" by (simp add: run_job_def split: option.split)
  with j n(1) show ?thesis by (auto simp: Run)
qed

text \<open>The times a job is published, by the scheduled cycles of a run.\<close>

definition run_times :: "string \<Rightarrow> (string \<times> int) list \<Rightarrow> int list" where
  "run_times k sent = map snd (published k sent)"

definition interval_apart :: "int \<Rightarrow> int list \<Rightarrow> bool" where
  "interval_apart n ts = successively (\<lambda>a b. a + n * SECOND \<le> b) ts"

lemma run_spaced:
  assumes "keys_unique w" "find_job k (sd_jobs w) = Some j" "jb_interval j = Some n" "0 < n"
    "\<And>e. e \<in> set es \<Longrightarrow> \<not> sets_interval k e \<and> commits k e"
    "sorted (map event_time es)" "\<And>t e. jb_last_run j = Some t \<Longrightarrow> e \<in> set es \<Longrightarrow> t \<le> event_time e"
  shows "interval_apart n (run_times k (fst (sched_run X E es w))) \<and>
    (\<forall>t x. jb_last_run j = Some t \<longrightarrow> x \<in> set (run_times k (fst (sched_run X E es w))) \<longrightarrow> t + n * SECOND \<le> x)"
  using assms
proof (induction es arbitrary: w j)
  case Nil
  then show ?case by (simp add: run_times_def interval_apart_def)
next
  case (Cons e es)
  let ?w1 = "snd (sched_step X E e w)"
  have ok: "\<not> sets_interval k e" "commits k e" using Cons.prems(5) [of e] by auto
  obtain j' where j': "find_job k (sd_jobs ?w1) = Some j'" "jb_interval j' = Some n" and
    d: "published k (fst (sched_step X E e w)) = [] \<and> (jb_last_run j' = jb_last_run j \<or> jb_last_run j' = Some (event_time e))
      \<or> published k (fst (sched_step X E e w)) = [(k, event_time e)] \<and> jb_last_run j' = Some (event_time e)
        \<and> (\<forall>t. jb_last_run j = Some t \<longrightarrow> t + n * SECOND \<le> event_time e)"
    using step_row [OF Cons.prems(1-4) ok, of X E] by blast
  have later: "t \<le> event_time x" if "jb_last_run j' = Some t" "x \<in> set es" for t x
    using d Cons.prems(6) Cons.prems(7) [of t x] that by auto
  have IH: "interval_apart n (run_times k (fst (sched_run X E es ?w1))) \<and>
    (\<forall>t x. jb_last_run j' = Some t \<longrightarrow> x \<in> set (run_times k (fst (sched_run X E es ?w1))) \<longrightarrow> t + n * SECOND \<le> x)"
    using Cons.prems(5,6) later by (intro Cons.IH [OF step_unique [OF Cons.prems(1)] j' Cons.prems(4)]) auto
  have split: "run_times k (fst (sched_run X E (e # es) w)) =
      run_times k (fst (sched_step X E e w)) @ run_times k (fst (sched_run X E es ?w1))"
    by (simp add: run_times_def Let_def split_beta)
  have mono: "t \<le> event_time e" if "jb_last_run j = Some t" for t using Cons.prems(7) that by simp
  have "0 \<le> n * SECOND" using Cons.prems(4) by (simp add: SECOND_def)
  let ?rest = "run_times k (fst (sched_run X E es ?w1))"
  from d show ?case
  proof
    assume 1: "published k (fst (sched_step X E e w)) = [] \<and> (jb_last_run j' = jb_last_run j \<or> jb_last_run j' = Some (event_time e))"
    have "t + n * SECOND \<le> x" if "jb_last_run j = Some t" "x \<in> set ?rest" for t x
    proof (cases "jb_last_run j' = jb_last_run j")
      case True
      with IH that show ?thesis by metis
    next
      case False
      with 1 IH that mono [OF that(1)] show ?thesis by fastforce
    qed
    moreover have "run_times k (fst (sched_run X E (e # es) w)) = ?rest"
      using 1 unfolding split by (simp add: run_times_def)
    ultimately show ?case using IH by metis
  next
    assume 2: "published k (fst (sched_step X E e w)) = [(k, event_time e)] \<and> jb_last_run j' = Some (event_time e)
        \<and> (\<forall>t. jb_last_run j = Some t \<longrightarrow> t + n * SECOND \<le> event_time e)"
    then have runs: "run_times k (fst (sched_run X E (e # es) w)) = event_time e # ?rest"
      unfolding split by (simp add: run_times_def)
    have after: "event_time e + n * SECOND \<le> x" if "x \<in> set ?rest" for x using IH 2 that by blast
    then have "interval_apart n (event_time e # ?rest)"
      using IH by (cases ?rest) (auto simp: interval_apart_def)
    moreover have "t + n * SECOND \<le> x" if "jb_last_run j = Some t" "x \<in> set (event_time e # ?rest)" for t x
      using 2 that after [of x] \<open>0 \<le> n * SECOND\<close> by fastforce
    ultimately show ?case unfolding runs by blast
  qed
qed


text \<open>
  Claim C31. Two scheduled publications of a job with an interval of its own are at least the
  interval apart, and the first is at least the interval after the last run, whatever else the
  service is asked to do in between (creations, updates, manual runs, pauses, completions), as
  long as the clock does not go back, the commits of the row succeed and nobody changes the
  interval.
\<close>

theorem scheduled_runs_spaced:
  assumes "keys_unique w" and "find_job k (sd_jobs w) = Some j" and "jb_interval j = Some n" and "0 < n"
    and "\<forall>e \<in> set es. \<not> sets_interval k e \<and> commits k e" and "sorted (map event_time es)"
    and "\<forall>e \<in> set es. opt_or (event_time e) (jb_last_run j) \<le> event_time e"
  shows "interval_apart n (run_times k (fst (sched_run X E es w)))
    \<and> (\<forall>t x. jb_last_run j = Some t \<longrightarrow> x \<in> set (run_times k (fst (sched_run X E es w))) \<longrightarrow> t + n * SECOND \<le> x)"
  using assms(5,7) by (intro run_spaced [OF assms(1-4) _ assms(6)]) (auto simp: opt_or_def)

text \<open>
  A publication that cannot be recorded is repeated: the message is sent before the commit, and
  the next cycle finds the row as it was.
\<close>

theorem uncommitted_run_repeats:
  assumes "keys_unique w" and "find_job k (sd_jobs w) = Some j" and "jb_enabled j = Some True" and "jb_scope j = sc_scope E"
    and "job_json_load (jb_params j) = PDict kvs" and "jb_interval j = Some n" and "0 < n"
    and "opt_or (mo_now m - n * SECOND) (jb_last_run j) + n * SECOND \<le> mo_now m" and "\<not> mo_commit m k"
    and "mo_now m \<le> mo_now m'"
  shows "published k (fst (run_scheduler_cycle X E m w)) \<noteq> []
    \<and> published k (fst (run_scheduler_cycle X E m' (snd (run_scheduler_cycle X E m w)))) \<noteq> []"
proof -
  note u = assms(1) [unfolded keys_unique_def]
  have i: "job_interval_seconds E t j = Inr n" for t using assms(6,7) by (simp add: job_interval_seconds_def)
  have 1: "published k (fst (run_scheduler_cycle X E m w)) \<noteq> []"
    using cycle_due [OF u assms(2-4) i assms(8,5), of X] by auto
  have row: "find_job k (sd_jobs (snd (run_scheduler_cycle X E m w))) = Some j"
    by (cases rule: cycle_row [OF u assms(2), of X E m]) (use 1 assms(9) in auto)
  have u': "distinct (map jb_id (sd_jobs (snd (run_scheduler_cycle X E m w))))"
    using u by (simp add: run_scheduler_cycle_def cycle_jobs_ids)
  have "opt_or (mo_now m' - n * SECOND) (jb_last_run j) + n * SECOND \<le> mo_now m'"
    using assms(8,10) by (cases "jb_last_run j") (simp_all add: opt_or_def)
  from cycle_due [OF u' row assms(3,4) i this assms(5), of X] 1 show ?thesis by auto
qed

text \<open>
  A message that could not be sent counts as a run all the same: its row is marked as queued and
  the next attempt waits for a whole interval.
\<close>

theorem lost_message_counts_as_run:
  assumes "keys_unique w" and "find_job k (sd_jobs w) = Some j" and "jb_enabled j = Some True" and "jb_scope j = sc_scope E"
    and "job_json_load (jb_params j) = PDict kvs" and "jb_interval j = Some n" and "0 < n"
    and "opt_or (mo_now m - n * SECOND) (jb_last_run j) + n * SECOND \<le> mo_now m" and "mo_commit m k"
    and "\<forall>st p b. fst (publish X st p b) = None"
  shows "published k (fst (run_scheduler_cycle X E m w)) = [(k, None)]
    \<and> (\<exists>j'. find_job k (sd_jobs (snd (run_scheduler_cycle X E m w))) = Some j' \<and> jb_status j' = Some ''queued''
        \<and> jb_last_run j' = Some (mo_now m))"
proof -
  note u = assms(1) [unfolded keys_unique_def]
  have i: "job_interval_seconds E t j = Inr n" for t using assms(6,7) by (simp add: job_interval_seconds_def)
  have 1: "published k (fst (run_scheduler_cycle X E m w)) = [(k, None)]"
    using cycle_due [OF u assms(2-4) i assms(8,5), of X] assms(10) by auto
  then show ?thesis
    by (cases rule: cycle_row [OF u assms(2), of X E m]) (use assms(9) in auto)
qed

text \<open>
  A job without an interval of its own runs by the distance of two occurrences of its
  cron expression, not by the expression: it is published before its next occurrence as soon as
  that distance has passed since the last run, at night as well as at the weekend.
\<close>

theorem cron_window_ignored:
  assumes "keys_unique w" and "find_job k (sd_jobs w) = Some j" and "jb_enabled j = Some True" and "jb_scope j = sc_scope E"
    and "job_json_load (jb_params j) = PDict kvs" and "jb_interval j = None" and "jb_last_run j = Some t"
    and "sc_cron_next E (jb_cron j) t = Inr next_time" and "sc_cron_next E (jb_cron j) next_time = Inr subsequent"
    and "t + max 1 (whole_seconds (subsequent - next_time)) * SECOND \<le> mo_now m" and "mo_now m < next_time"
  shows "\<exists>i. published k (fst (run_scheduler_cycle X E m w)) = [(k, i)]"
proof -
  have "job_interval_seconds E (mo_later m) j = Inr (max 1 (whole_seconds (subsequent - next_time)))"
    using assms(6-9) by (simp add: job_interval_seconds_def cron_interval_def compute_next_due_def opt_or_def)
  from cycle_due [OF assms(1) [unfolded keys_unique_def] assms(2-4) this _ assms(5), of X] assms(7,10) show ?thesis
    by (auto simp: opt_or_def)
qed

lemma publish_now_bus:
  assumes "publish_now X E m j src ps d w = (Inr r, w1)"
  shows "\<exists>st p. sd_bus w1 = snd (publish X st p (sd_bus w))"
proof -
  from assms obtain interval b where 1: "schedule_job_execution X E m j src ps d (Some (job_ttl interval)) (sd_bus w) = (Inr r, b)"
    "w1 = w\<lparr>sd_bus := b\<rparr>"
    by (auto simp: publish_now_def split: sum.splits prod.splits)
  then obtain kvs where "job_json_load (jb_params j) = PDict kvs"
    by (auto simp: schedule_job_execution_def split: pyval.splits)
  with 1 show ?thesis by (auto simp: schedule_job_execution_def publish_job_def Let_def split_beta)
qed

text \<open>A new job is published when it is created and once more by the next cycle.\<close>

theorem created_job_published_twice:
  assumes "create_job X E m c w = (Inr j, w1)" and "jc_enabled c" and "keys_unique w"
    and "job_interval_seconds E (mo_later m') j = Inr n"
  shows "(\<exists>st p. sd_bus w1 = snd (publish X st p (sd_bus w)))
    \<and> (\<exists>i. published (jc_id c) (fst (run_scheduler_cycle X E m' w1)) = [(jc_id c, i)])"
proof -
  have u: "distinct (map jb_id (sd_jobs w1))"
    using step_unique [OF assms(3), of X E "Create m c"] assms(1) by (simp add: keys_unique_def)
  obtain due where due: "compute_next_due E (jc_cron c) (mo_now m) = Inr due" "validate_create E c"
      "find_job (jc_id c) (sd_jobs w) = None" "mo_commit m (jc_id c)"
    using assms(1) by (auto simp: create_job_def Let_def split: if_splits sum.splits)
  let ?w = "w\<lparr>sd_jobs := sd_jobs w @ [new_job E c due]\<rparr>"
  have all: "then_answer (new_job E c due) (publish_now X E m (new_job E c due) ''bootstrap'' None 0 ?w) = (Inr j, w1)"
    using assms(1,2) due by (simp add: create_job_def Let_def new_job_def)
  then obtain r where p: "publish_now X E m (new_job E c due) ''bootstrap'' None 0 ?w = (Inr r, w1)"
    by (auto simp: then_answer_def split: sum.splits prod.splits)
  have j: "j = new_job E c due" using all p by (simp add: then_answer_def)
  have w1: "sd_jobs w1 = sd_jobs w @ [j]" "find_job (jc_id c) (sd_jobs w) = None"
    using publish_now_jobs [of X E m "new_job E c due" "''bootstrap''" None 0 ?w] p due(3) j by simp_all
  have "find_job (jc_id c) (sd_jobs w1) = Some j" unfolding w1(1) find_job_append w1(2)
    by (simp add: j find_job_def new_job_def)
  from cycle_due [OF u this _ _ assms(4), of "jc_params c" X] assms(2)
  have "\<exists>i. published (jc_id c) (fst (run_scheduler_cycle X E m' w1)) = [(jc_id c, i)]"
    by (auto simp: j new_job_def opt_or_def job_json_load_def job_json_dump_def)
  moreover have "\<exists>st p. sd_bus w1 = snd (publish X st p (sd_bus w))"
    using publish_now_bus [OF p] by simp
  ultimately show ?thesis by blast
qed


text \<open>
  The key is the identifier alone: one job of another scope with the name of a default job keeps
  every default job from being created.
\<close>

theorem foreign_job_blocks_defaults:
  assumes "keys_unique w" and "find_job k (sd_jobs w) = Some j" and "jb_scope j \<noteq> sc_scope E" and "k \<in> fst ` set DEFAULT_JOBS"
  shows "bootstrap_default_jobs E m w = w"
proof -
  have other: "\<not> (\<exists>j' \<in> set (sd_jobs w). jb_id j' = k \<and> jb_scope j' = sc_scope E)"
    using assms(2,3) find_job_distinct [OF assms(1) [unfolded keys_unique_def]] by fastforce
  have "k \<in> jb_id ` set added" if "missing_defaults E m (sd_jobs w) ds = Inr added" "k \<in> fst ` set ds" for ds added
    using that
  proof (induction ds arbitrary: added)
    case (Cons d ds)
    obtain k' description suffix cron timeout params where d: "d = (k', description, suffix, cron, timeout, params)"
      by (cases d)
    show ?case
    proof (cases "\<exists>j \<in> set (sd_jobs w). jb_id j = k' \<and> jb_scope j = sc_scope E")
      case True
      with other have "k' \<noteq> k" by blast
      with True Cons d show ?thesis by auto
    next
      case False
      with Cons.prems(1) obtain due rest where rest: "missing_defaults E m (sd_jobs w) ds = Inr rest"
        "added = default_job E k' description suffix cron timeout params due # rest"
        unfolding d by (auto simp: res_bind_Inr_iff)
      with Cons d show ?thesis by (auto simp: default_job_def)
    qed
  qed simp
  note added = this [OF _ assms(4)]
  have "\<not> list_all (\<lambda>j. find_job (jb_id j) (sd_jobs w) = None \<and> mo_commit m (jb_id j)) a"
    if "missing_defaults E m (sd_jobs w) DEFAULT_JOBS = Inr a" for a
    using added [OF that] assms(2) by (auto simp: list_all_iff)
  then show ?thesis by (auto simp: bootstrap_default_jobs_def split: sum.split)
qed

section \<open>Concrete inputs\<close>

text \<open>
  A cron stand-in of occurrences every half hour from 8:00 to 15:30 of every day, in
  microseconds from the midnight before a first day.
\<close>

definition half_hours :: "string \<Rightarrow> int \<Rightarrow> int res" where
  "half_hours expr t =
     (let d = 86400 * SECOND; s = 1800 * SECOND; day = t div d; n = max 16 ((t - day * d) div s + 1)
      in Inr (if 31 < n then (day + 1) * d + 16 * s else day * d + n * s))"

definition scope_env :: sched_env where
  "scope_env = \<lparr>sc_scope = ''real'', sc_cron_ok = (\<lambda>_. True), sc_cron_next = half_hours\<rparr>"

definition sample_job :: job where
  "sample_job = default_job scope_env ''scout-job'' [] ''jobs.scout'' ''*/30 8-15 * * *'' 7200 [] 0"

definition at_second :: "int \<Rightarrow> moment" where
  "at_second n = \<lparr>mo_now = n * SECOND, mo_later = n * SECOND, mo_uuid = (\<lambda>k. k), mo_iso = [], mo_commit = (\<lambda>_. True)\<rparr>"

lemma scheduled_runs_spaced_witness:
  "interval_apart 300 (run_times ''scout-job'' (fst (sched_run mini_streams scope_env
     [Cycle (at_second 1000), Run (at_second 1100) ''scout-job'' None 0 ''manual'', Cycle (at_second 1299),
      Pause (at_second 1300) ''scout-job'', Resume (at_second 1301) ''scout-job'', Cycle (at_second 1302)]
     \<lparr>sd_jobs = [sample_job\<lparr>jb_interval := Some 300\<rparr>], sd_bus = sample_bus\<rparr>)))"
  using scheduled_runs_spaced [of "\<lparr>sd_jobs = [sample_job\<lparr>jb_interval := Some 300\<rparr>], sd_bus = sample_bus\<rparr>" "''scout-job''"
      "sample_job\<lparr>jb_interval := Some 300\<rparr>" 300
      "[Cycle (at_second 1000), Run (at_second 1100) ''scout-job'' None 0 ''manual'', Cycle (at_second 1299),
      Pause (at_second 1300) ''scout-job'', Resume (at_second 1301) ''scout-job'', Cycle (at_second 1302)]"
      mini_streams scope_env]
  by (simp add: keys_unique_def find_job_def sample_job_def default_job_def sets_interval_def commits_def at_second_def
    event_time_def opt_or_def SECOND_def)

text \<open>The last run ended at 15:31; at 16:01 the job runs again, and then every half hour of the night.\<close>

lemma cron_window_ignored_witness:
  "\<exists>i. published ''scout-job'' (fst (run_scheduler_cycle mini_streams scope_env (at_second 57660)
     \<lparr>sd_jobs = [sample_job\<lparr>jb_last_run := Some (55860 * SECOND)\<rparr>], sd_bus = sample_bus\<rparr>)) = [(''scout-job'', i)]"
  using cron_window_ignored [of "\<lparr>sd_jobs = [sample_job\<lparr>jb_last_run := Some (55860 * SECOND)\<rparr>], sd_bus = sample_bus\<rparr>"
      "''scout-job''" "sample_job\<lparr>jb_last_run := Some (55860 * SECOND)\<rparr>" scope_env "[]" "55860 * SECOND"
      "(86400 + 28800) * SECOND" "(86400 + 30600) * SECOND" "at_second 57660" mini_streams]
  by (simp add: keys_unique_def find_job_def sample_job_def default_job_def scope_env_def at_second_def half_hours_def
    job_json_load_def job_json_dump_def SECOND_def whole_seconds_def)

end
