(* ===== verification/Graceful_Shutdown.thy ===== *)
theory Graceful_Shutdown
  imports PyFloat
begin

text \<open>
  Orderly shutdown of a service, \<open>shared/graceful_shutdown.py\<close>: the counter of running tasks,
  the request to stop, and the wait for the tasks that still run. The clock, the sleep and the
  tasks of the other threads are the fields of a record \<open>machine\<close> over a world; times are exact
  rationals (seconds). Locks, the registration of the signal handlers and the texts of the log
  are left out.
\<close>

section \<open>State\<close>

record shutdown_state =
  ss_requested :: bool
  ss_time :: "rat option"
  ss_in_flight :: int

definition new_state :: shutdown_state where
  "new_state = \<lparr>ss_requested = False, ss_time = None, ss_in_flight = 0\<rparr>"

definition state_request :: "rat \<Rightarrow> shutdown_state \<Rightarrow> shutdown_state" where
  "state_request now st = st\<lparr>ss_requested := True, ss_time := Some now\<rparr>"

definition increment_tasks :: "shutdown_state \<Rightarrow> int \<times> shutdown_state" where
  "increment_tasks st = (ss_in_flight st + 1, st\<lparr>ss_in_flight := ss_in_flight st + 1\<rparr>)"

definition decrement_tasks :: "shutdown_state \<Rightarrow> int \<times> shutdown_state" where
  "decrement_tasks st = (max 0 (ss_in_flight st - 1), st\<lparr>ss_in_flight := max 0 (ss_in_flight st - 1)\<rparr>)"

text \<open>The handler of a service. Its callback acts on the world of the service and may raise.\<close>

record handler_config =
  gs_timeout :: int
  gs_name :: string
  gs_started :: rat

record shutdown =
  sh_config :: handler_config
  sh_state :: shutdown_state
  sh_event :: bool

definition new_shutdown :: "int \<Rightarrow> string \<Rightarrow> rat \<Rightarrow> shutdown" where
  "new_shutdown timeout service_name now =
     \<lparr>sh_config = \<lparr>gs_timeout = timeout, gs_name = service_name, gs_started = now\<rparr>, sh_state = new_state, sh_event = False\<rparr>"

text \<open>The same steps for a signal and for a call; an exception of the callback is logged.\<close>

definition request_shutdown :: "rat \<Rightarrow> ('w \<Rightarrow> unit res \<times> 'w) option \<Rightarrow> shutdown \<times> 'w \<Rightarrow> shutdown \<times> 'w" where
  "request_shutdown now on_shutdown = (\<lambda>(h, w).
     (h\<lparr>sh_state := state_request now (sh_state h), sh_event := True\<rparr>,
      case on_shutdown of None \<Rightarrow> w | Some f \<Rightarrow> snd (f w)))"

definition is_shutting_down :: "shutdown \<Rightarrow> bool" where
  "is_shutting_down h = ss_requested (sh_state h)"

definition track_task_start :: "shutdown \<Rightarrow> int \<times> shutdown" where
  "track_task_start h = (case increment_tasks (sh_state h) of (n, st) \<Rightarrow> (n, h\<lparr>sh_state := st\<rparr>))"

definition track_task_end :: "shutdown \<Rightarrow> int \<times> shutdown" where
  "track_task_end h = (case decrement_tasks (sh_state h) of (n, st) \<Rightarrow> (n, h\<lparr>sh_state := st\<rparr>))"

text \<open>\<open>with tracker.track(): body\<close>: the end is counted whether the body raises or not.\<close>

definition tracked :: "(shutdown \<Rightarrow> 'a res \<times> shutdown) \<Rightarrow> shutdown \<Rightarrow> 'a res \<times> shutdown" where
  "tracked body h = (case body (snd (track_task_start h)) of (r, h') \<Rightarrow> (r, snd (track_task_end h')))"

record health =
  he_shutting_down :: bool
  he_in_flight :: int
  he_uptime :: rat
  he_ready :: bool

definition get_health_status :: "rat \<Rightarrow> shutdown \<Rightarrow> health" where
  "get_health_status now h = \<lparr>he_shutting_down = is_shutting_down h, he_in_flight = ss_in_flight (sh_state h),
     he_uptime = py_round 1 (now - gs_started (sh_config h)), he_ready = (\<not> is_shutting_down h)\<rparr>"

section \<open>Waiting for the running tasks\<close>

text \<open>
  A world of the waiting thread: the clock, the counter as the other threads have left it, and
  a sleep, which raises \<open>ValueError\<close> for a negative time.
\<close>

record 'w machine =
  mc_time :: "'w \<Rightarrow> rat \<times> 'w"
  mc_in_flight :: "'w \<Rightarrow> int \<times> 'w"
  mc_sleep :: "rat \<Rightarrow> 'w \<Rightarrow> 'w"

partial_function (option) wait_loop :: "'w machine \<Rightarrow> rat \<Rightarrow> rat \<Rightarrow> 'w \<Rightarrow> (bool res \<times> 'w) option" where
  "wait_loop M deadline poll_interval w =
     (case mc_time M w of (t, w1) \<Rightarrow>
        if t < deadline
        then (case mc_in_flight M w1 of (in_flight, w2) \<Rightarrow>
            if in_flight = 0 then Some (Inr True, w2)
            else (case mc_time M w2 of (t2, w3) \<Rightarrow>
              (let pause = min poll_interval (deadline - t2)
               in if pause < 0 then Some (Inl ValueError, w3)
                  else wait_loop M deadline poll_interval (mc_sleep M pause w3))))
        else Some (Inr False, snd (mc_in_flight M w1)))"

definition wait_for_in_flight_tasks :: "'w machine \<Rightarrow> shutdown \<Rightarrow> rat \<Rightarrow> 'w \<Rightarrow> (bool res \<times> 'w) option" where
  "wait_for_in_flight_tasks M h poll_interval w =
     (case mc_time M w of (t, w1) \<Rightarrow> wait_loop M (t + of_int (gs_timeout (sh_config h))) poll_interval w1)"

text \<open>What the wait relies on: the clock does not go back, and a sleep lasts at least as long as asked.\<close>

definition machine_laws :: "'w machine \<Rightarrow> ('w \<Rightarrow> rat) \<Rightarrow> bool" where
  "machine_laws M clock \<longleftrightarrow> (\<forall>w.
     (\<exists>w'. mc_time M w = (fst (mc_time M w), w') \<and> clock w \<le> fst (mc_time M w) \<and> fst (mc_time M w) \<le> clock w')
     \<and> clock w \<le> clock (snd (mc_in_flight M w)) \<and> (\<forall>d\<ge>0. clock w + d \<le> clock (mc_sleep M d w)))"

section \<open>Tasks\<close>

datatype task_step = Task_Start | Task_End | Stop_Requested rat

fun shutdown_step :: "task_step \<Rightarrow> shutdown \<Rightarrow> shutdown" where
  "shutdown_step Task_Start h = snd (track_task_start h)"
| "shutdown_step Task_End h = snd (track_task_end h)"
| "shutdown_step (Stop_Requested now) h = fst (request_shutdown now None (h, ()))"

fun task_balance :: "int \<Rightarrow> task_step list \<Rightarrow> int option" where
  "task_balance n [] = Some n"
| "task_balance n (Task_Start # es) = task_balance (n + 1) es"
| "task_balance n (Task_End # es) = (if n = 0 then None else task_balance (n - 1) es)"
| "task_balance n (Stop_Requested _ # es) = task_balance n es"

lemma task_step_in_flight:
  "ss_in_flight (sh_state (shutdown_step e h)) = (case e of Task_Start \<Rightarrow> ss_in_flight (sh_state h) + 1
     | Task_End \<Rightarrow> max 0 (ss_in_flight (sh_state h) - 1) | Stop_Requested _ \<Rightarrow> ss_in_flight (sh_state h))"
  by (cases e) (simp_all add: track_task_start_def track_task_end_def increment_tasks_def decrement_tasks_def
    request_shutdown_def state_request_def)

text \<open>
  While no task ends that has not started, the counter is the number of running tasks,
  whatever the order in which they start and end.
\<close>

theorem counter_is_running_tasks:
  "\<lbrakk>task_balance (ss_in_flight (sh_state h)) es = Some n; 0 \<le> ss_in_flight (sh_state h)\<rbrakk>
     \<Longrightarrow> ss_in_flight (sh_state (fold shutdown_step es h)) = n"
proof (induction es arbitrary: h)
  case (Cons e es)
  from Cons.IH [of "shutdown_step e h"] Cons.prems show ?case
    by (cases e) (auto simp: task_step_in_flight simp del: shutdown_step.simps split: if_splits)
qed simp

theorem counter_never_negative:
  "0 \<le> ss_in_flight (sh_state h) \<Longrightarrow> 0 \<le> ss_in_flight (sh_state (fold shutdown_step es h))"
  by (induction es arbitrary: h) (auto simp: task_step_in_flight split: task_step.split)

theorem never_ready_again:
  "is_shutting_down h \<Longrightarrow> \<not> he_ready (get_health_status now (fold shutdown_step es h))"
proof -
  have "is_shutting_down h \<Longrightarrow> is_shutting_down (shutdown_step e h)" for e h
    by (cases e) (simp_all add: is_shutting_down_def track_task_start_def track_task_end_def increment_tasks_def
      decrement_tasks_def request_shutdown_def state_request_def)
  then have "is_shutting_down h \<Longrightarrow> is_shutting_down (fold shutdown_step es h)" by (induction es arbitrary: h) auto
  then show "is_shutting_down h \<Longrightarrow> ?thesis" by (simp add: get_health_status_def)
qed

section \<open>The wait ends\<close>

lemma laws_time: "machine_laws M clock \<Longrightarrow> mc_time M w = (t, w') \<Longrightarrow> clock w \<le> t \<and> t \<le> clock w'"
  unfolding machine_laws_def by (metis fst_conv prod.inject)

lemma laws_in_flight: "machine_laws M clock \<Longrightarrow> mc_in_flight M w = (n, w') \<Longrightarrow> clock w \<le> clock w'"
  unfolding machine_laws_def by (metis snd_conv)

lemma laws_sleep: "machine_laws M clock \<Longrightarrow> 0 \<le> d \<Longrightarrow> clock w + d \<le> clock (mc_sleep M d w)"
  unfolding machine_laws_def by blast

lemma wait_loop_ends:
  assumes "machine_laws M clock" "0 < poll" "deadline - clock w \<le> of_nat k * poll"
  shows "\<exists>r w'. wait_loop M deadline poll w = Some (r, w')
    \<and> (r = Inr True \<and> (\<exists>v. mc_in_flight M v = (0, w'))
      \<or> (r = Inr False \<or> r = Inl ValueError) \<and> deadline \<le> clock w')"
  using assms(3)
proof (induction k arbitrary: w)
  case 0
  obtain t w1 where t: "mc_time M w = (t, w1)" by fastforce
  obtain n w2 where n: "mc_in_flight M w1 = (n, w2)" by fastforce
  from laws_time [OF assms(1) t] laws_in_flight [OF assms(1) n] 0 show ?case
    by (subst wait_loop.simps) (simp add: t n)
next
  case (Suc k)
  obtain t w1 where t: "mc_time M w = (t, w1)" by fastforce
  obtain n w2 where n: "mc_in_flight M w1 = (n, w2)" by fastforce
  obtain t2 w3 where t2: "mc_time M w2 = (t2, w3)" by fastforce
  note order = laws_time [OF assms(1) t] laws_in_flight [OF assms(1) n] laws_time [OF assms(1) t2]
  show ?case
  proof (cases "t < deadline \<and> n \<noteq> 0 \<and> 0 \<le> min poll (deadline - t2)")
    case False
    show ?thesis
    proof (cases "t < deadline \<and> n = 0")
      case True
      with n show ?thesis by (subst wait_loop.simps) (auto simp: t Let_def)
    next
      case other: False
      with False order assms(2) show ?thesis by (subst wait_loop.simps) (auto simp: t n t2 Let_def)
    qed
  next
    case True
    let ?p = "min poll (deadline - t2)"
    from laws_sleep [OF assms(1), of ?p w3] True have s: "clock w3 + ?p \<le> clock (mc_sleep M ?p w3)" by blast
    have "deadline - clock (mc_sleep M ?p w3) \<le> of_nat k * poll"
    proof (cases "poll \<le> deadline - t2")
      case True
      with s order Suc.prems show ?thesis by (simp add: algebra_simps)
    next
      case False
      with s order have "deadline \<le> clock (mc_sleep M ?p w3)" by simp
      moreover have "0 \<le> of_nat k * poll" using assms(2) by simp
      ultimately show ?thesis by linarith
    qed
    moreover have "\<not> ?p < 0" using True by linarith
    ultimately show ?thesis using Suc.IH True by (subst wait_loop.simps) (simp only: t n t2 Let_def split if_True if_False simp_thms)
  qed
qed


text \<open>
  The wait for the running tasks always ends when the clock goes on: it answers that
  all tasks have ended only after it has seen none running, and otherwise, with \<open>False\<close> or an
  exception, only after the deadline.
\<close>

theorem wait_ends:
  assumes "machine_laws M clock" and "0 < poll"
  shows "\<exists>r w'. wait_for_in_flight_tasks M h poll w = Some (r, w')
    \<and> (r = Inr True \<and> (\<exists>v. mc_in_flight M v = (0, w'))
      \<or> (r = Inr False \<or> r = Inl ValueError) \<and> fst (mc_time M w) + of_int (gs_timeout (sh_config h)) \<le> clock w')"
proof -
  obtain t w1 where t: "mc_time M w = (t, w1)" by fastforce
  let ?D = "t + of_int (gs_timeout (sh_config h))"
  obtain k :: nat where "(?D - clock w1) / poll \<le> of_nat k" using real_arch_simple by blast
  then have "?D - clock w1 \<le> of_nat k * poll" using assms(2) by (simp add: pos_divide_le_eq)
  from wait_loop_ends [OF assms this] t show ?thesis by (simp add: wait_for_in_flight_tasks_def)
qed

section \<open>Concrete inputs\<close>

text \<open>
  A clock in seconds that every command advances by its cost, with the times the counter
  changes.
\<close>

definition sample_machine :: "rat \<Rightarrow> (rat \<Rightarrow> int) \<Rightarrow> rat machine" where
  "sample_machine cost running = \<lparr>mc_time = \<lambda>t. (t, t + cost), mc_in_flight = \<lambda>t. (running t, t),
     mc_sleep = \<lambda>d t. t + d\<rparr>"

lemma sample_machine_laws: "0 \<le> cost \<Longrightarrow> machine_laws (sample_machine cost running) (\<lambda>t. t)"
  by (simp add: machine_laws_def sample_machine_def)

lemma wait_ends_witness:
  "\<exists>r w'. wait_for_in_flight_tasks (sample_machine 0 (\<lambda>_. 1)) (new_shutdown 30 ''service'' 0) (1/2) 100 = Some (r, w')
    \<and> (r = Inr False \<or> r = Inl ValueError) \<and> 130 \<le> w'"
  using wait_ends [OF sample_machine_laws [of 0 "\<lambda>_. 1"], of "1/2" "new_shutdown 30 ''service'' 0" 100]
  by (auto simp: sample_machine_def new_shutdown_def)

text \<open>
  Tasks that end while the wait sleeps up to the deadline are not noticed: the answer is
  \<open>False\<close> although none runs any more. And when the deadline passes between two readings of the
  clock, the sleep gets a negative time and the wait raises.
\<close>

theorem finished_at_deadline_not_noticed:
  "wait_for_in_flight_tasks (sample_machine 0 (\<lambda>t. if t < 101 then 1 else 0)) (new_shutdown 1 ''service'' 0) 2 100
     = Some (Inr False, 101)"
  by (simp add: wait_for_in_flight_tasks_def wait_loop.simps new_shutdown_def sample_machine_def)

theorem deadline_between_readings_raises:
  "wait_for_in_flight_tasks (sample_machine (3/2) (\<lambda>t. 1)) (new_shutdown 2 ''service'' 0) 2 100
     = Some (Inl ValueError, 209/2)"
  by (simp add: wait_for_in_flight_tasks_def wait_loop.simps new_shutdown_def sample_machine_def)

end
