(* ===== verification/KIS_Trading.thy ===== *)
theory KIS_Trading
  imports Py_Text
begin

text \<open>
  The client of the broker's HTTP interface: \<open>shared/kis/request.py\<close> (one request with its single
  retry), \<open>shared/kis/client.py\<close> (headers) and \<open>shared/kis/trading.py\<close> (orders, state of orders,
  balances). The broker's server and the source of access tokens are the fields of a record
  \<open>net\<close> over an arbitrary state; the world of the client keeps the requests it has sent, in
  order. Texts of the log and the pauses after a request are left out.
\<close>

section \<open>Requests and answers\<close>

datatype http_method = GET | POST

text \<open>\<open>hq_fields\<close> are the query parameters of a \<open>GET\<close> and the body of a \<open>POST\<close>.\<close>

record http_request =
  hq_method :: http_method
  hq_path :: string
  hq_fields :: "(string \<times> pyval) list"
  hq_tr_id :: string

text \<open>A body is blank, no JSON, or a JSON value; a request may fail to connect or otherwise.\<close>

datatype http_body = Blank | Garbled | Json pyval
datatype http_answer = Connection_Failed | Request_Failed | Answered int http_body

record 's net =
  nt_send :: "string option \<Rightarrow> http_request \<Rightarrow> 's \<Rightarrow> http_answer \<times> 's"
  nt_token :: "bool \<Rightarrow> 's \<Rightarrow> string option res \<times> 's"

text \<open>The client: the server's state, the token in its headers, and the requests sent so far.\<close>

record 's kis =
  ks_server :: 's
  ks_token :: "string option"
  ks_sent :: "http_request list"

definition authenticate :: "'s net \<Rightarrow> bool \<Rightarrow> 's kis \<Rightarrow> bool res \<times> 's kis" where
  "authenticate N force_new w = (case nt_token N force_new (ks_server w) of
     (Inl e, s) \<Rightarrow> (Inl e, w\<lparr>ks_server := s\<rparr>)
   | (Inr None, s) \<Rightarrow> (Inr False, w\<lparr>ks_server := s\<rparr>)
   | (Inr (Some t), s) \<Rightarrow> if t = [] then (Inr False, w\<lparr>ks_server := s\<rparr>)
       else (Inr True, w\<lparr>ks_server := s, ks_token := Some t\<rparr>))"

definition send_request :: "'s net \<Rightarrow> http_request \<Rightarrow> 's kis \<Rightarrow> http_answer \<times> 's kis" where
  "send_request N q w = (case nt_send N (ks_token w) q (ks_server w) of
     (a, s) \<Rightarrow> (a, w\<lparr>ks_server := s, ks_sent := ks_sent w @ [q]\<rparr>))"

text \<open>Entries of an answer; every \<open>get\<close> of a value that is no dictionary raises.\<close>

definition token_errors :: "pyval list" where "token_errors = [PStr ''EGW00121'', PStr ''EGW00123'']"

definition entry_of :: "pyval \<Rightarrow> string \<Rightarrow> pyval" where
  "entry_of v k = (case v of PDict kvs \<Rightarrow> dict_get kvs k PNone | _ \<Rightarrow> PNone)"

definition is_dict :: "pyval \<Rightarrow> bool" where
  "is_dict v = (case v of PDict _ \<Rightarrow> True | _ \<Rightarrow> False)"

text \<open>
  What one attempt decides: an answer of the call, or one more attempt, with a new token for a
  refused one and for a blank failure.
\<close>

datatype retry = Token_Refused | Blank_Failure | Server_Failure
datatype verdict = Done "pyval option" | Again retry

definition judge_answer :: "bool \<Rightarrow> string \<Rightarrow> http_answer \<Rightarrow> verdict" where
  "judge_answer first tr_id a = (case a of
     Answered status (Json v) \<Rightarrow>
       (if \<not> is_dict v then Done None
        else if entry_of v ''msg_cd'' \<in> set token_errors \<and> first then Again Token_Refused
        else if status = 500 \<and> entry_of v ''rt_cd'' = PStr ''1'' \<and> \<not> truthy (entry_of v ''msg_cd'') \<and> \<not> truthy (entry_of v ''msg1'')
          then (if first then Again Blank_Failure else Done None)
        else if status = 500 \<and> first then Again Server_Failure
        else if 400 \<le> status \<and> status < 600 then Done None
        else if tr_id = ''KIS-WS-AUTH'' \<and> truthy (entry_of v ''approval_key'') then Done (Some v)
        else if entry_of v ''rt_cd'' \<noteq> PStr ''0'' then Done None
        else Done (Some v))
   | _ \<Rightarrow> Done None)"

text \<open>
  One attempt: a client without a token asks for one first and goes on whether it gets one or
  not. An exception of any step ends the call with no answer; only a \<open>TypeError\<close> or \<open>KeyError\<close>
  while the token is renewed after a blank failure is caught nearer and the attempt repeated.
\<close>

definition attempt_request :: "'s net \<Rightarrow> bool \<Rightarrow> http_request \<Rightarrow> 's kis \<Rightarrow> verdict \<times> 's kis" where
  "attempt_request N first q w =
     (case (if ks_token w = None then authenticate N True w else (Inr True, w)) of
        (Inl _, w1) \<Rightarrow> (Done None, w1)
      | (Inr _, w1) \<Rightarrow> (case send_request N q w1 of (a, w2) \<Rightarrow>
          (case judge_answer first (hq_tr_id q) a of
             Done r \<Rightarrow> (Done r, w2)
           | Again Server_Failure \<Rightarrow> (Again Server_Failure, w2)
           | Again why \<Rightarrow> (case authenticate N True w2 of
                 (Inl e, w3) \<Rightarrow> (if why = Blank_Failure \<and> (e = TypeError \<or> (\<exists>k. e = KeyError k)) then Again Server_Failure else Done None, w3)
               | (Inr _, w3) \<Rightarrow> (Again why, w3)))))"

definition safe_request :: "'s net \<Rightarrow> http_request \<Rightarrow> 's kis \<Rightarrow> pyval option \<times> 's kis" where
  "safe_request N q w = (case attempt_request N True q w of
     (Done r, w1) \<Rightarrow> (r, w1)
   | (Again _, w1) \<Rightarrow> (case attempt_request N False q w1 of (Done r, w2) \<Rightarrow> (r, w2) | (Again _, w2) \<Rightarrow> (None, w2)))"

section \<open>Orders\<close>

record kis_account =
  ka_mock :: bool
  ka_prefix :: string
  ka_suffix :: string

datatype order_side = Buy_Side | Sell_Side

definition order_tr_id :: "kis_account \<Rightarrow> order_side \<Rightarrow> string" where
  "order_tr_id A side = (if ka_mock A then (if side = Buy_Side then ''VTTC0012U'' else ''VTTC0011U'')
     else (if side = Buy_Side then ''TTTC0012U'' else ''TTTC0011U''))"

definition order_request :: "kis_account \<Rightarrow> order_side \<Rightarrow> string \<Rightarrow> int \<Rightarrow> int \<Rightarrow> http_request" where
  "order_request A side stock_code quantity price = \<lparr>hq_method = POST,
     hq_path = ''/uapi/domestic-stock/v1/trading/order-cash'',
     hq_fields = [(''CANO'', PStr (ka_prefix A)), (''ACNT_PRDT_CD'', PStr (ka_suffix A)), (''PDNO'', PStr stock_code),
       (''ORD_DVSN'', PStr (if price = 0 then ''01'' else ''00'')), (''ORD_QTY'', PStr (py_str_int quantity)),
       (''ORD_UNPR'', PStr (if price = 0 then ''0'' else py_str_int price))],
     hq_tr_id = order_tr_id A side\<rparr>"

text \<open>The order number, or nothing; an \<open>output\<close> that is no dictionary raises.\<close>

definition kis_place_order ::
  "'s net \<Rightarrow> kis_account \<Rightarrow> order_side \<Rightarrow> string \<Rightarrow> int \<Rightarrow> int \<Rightarrow> 's kis \<Rightarrow> pyval res \<times> 's kis" where
  "kis_place_order N A side stock_code quantity price w =
     (case safe_request N (order_request A side stock_code quantity price) w of
        (None, w1) \<Rightarrow> (Inr PNone, w1)
      | (Some v, w1) \<Rightarrow> if truthy (entry_of v ''output'') then (py_get (entry_of v ''output'') ''ODNO'' PNone, w1)
          else (Inr PNone, w1))"

definition cancel_request :: "kis_account \<Rightarrow> string \<Rightarrow> http_request" where
  "cancel_request A order_no = \<lparr>hq_method = POST, hq_path = ''/uapi/domestic-stock/v1/trading/order-rvsecncl'',
     hq_fields = [(''CANO'', PStr (ka_prefix A)), (''ACNT_PRDT_CD'', PStr (ka_suffix A)), (''KRX_FWDG_ORD_ORG_NO'', PStr []),
       (''ORGN_ODNO'', PStr order_no), (''ORD_DVSN'', PStr ''01''), (''RVSE_CNCL_DVSN_CD'', PStr ''02''),
       (''QTY_ALL_DVSN_CD'', PStr ''1''), (''ORD_QTY'', PStr ''0''), (''ORD_UNPR'', PStr ''0'')],
     hq_tr_id = (if ka_mock A then ''VTTC0013U'' else ''TTTC0013U'')\<rparr>"

definition kis_cancel_order :: "'s net \<Rightarrow> kis_account \<Rightarrow> string \<Rightarrow> int \<Rightarrow> 's kis \<Rightarrow> bool \<times> 's kis" where
  "kis_cancel_order N A order_no quantity w = (case safe_request N (cancel_request A order_no) w of
     (None, w1) \<Rightarrow> (False, w1)
   | (Some v, w1) \<Rightarrow> (truthy v \<and> entry_of v ''rt_cd'' = PStr ''0'', w1))"

section \<open>The state of an order\<close>

text \<open>\<open>int(v)\<close> and \<open>float(v)\<close> of a value of an answer.\<close>

fun int_of_value :: "pyval \<Rightarrow> int res" where
  "int_of_value (PInt n) = Inr n"
| "int_of_value (PBool b) = Inr (if b then 1 else 0)"
| "int_of_value (PFloat x) = Inr (if 0 \<le> x then \<lfloor>x\<rfloor> else - \<lfloor>- x\<rfloor>)"
| "int_of_value (PStr t) = parse_int t"
| "int_of_value _ = Inl TypeError"

fun float_of_value :: "pyval \<Rightarrow> rat res" where
  "float_of_value (PInt n) = Inr (fl (of_int n))"
| "float_of_value (PBool b) = Inr (if b then 1 else 0)"
| "float_of_value (PFloat x) = Inr x"
| "float_of_value (PStr t) = parse_float t"
| "float_of_value _ = Inl TypeError"

definition inquiry_request :: "kis_account \<Rightarrow> string \<Rightarrow> string \<Rightarrow> string \<Rightarrow> http_request" where
  "inquiry_request A today division order_no = \<lparr>hq_method = GET,
     hq_path = ''/uapi/domestic-stock/v1/trading/inquire-daily-ccld'',
     hq_fields = [(''CANO'', PStr (ka_prefix A)), (''ACNT_PRDT_CD'', PStr (ka_suffix A)), (''INQR_STRT_DT'', PStr today),
       (''INQR_END_DT'', PStr today), (''SLL_BUY_DVSN_CD'', PStr ''00''), (''INQR_DVSN'', PStr ''00''), (''PDNO'', PStr []),
       (''CCLD_DVSN'', PStr division), (''ORD_GNO_BRNO'', PStr []), (''ODNO'', PStr order_no), (''INQR_DVSN_3'', PStr ''00''),
       (''INQR_DVSN_1'', PStr []), (''CTX_AREA_FK100'', PStr []), (''CTX_AREA_NK100'', PStr [])],
     hq_tr_id = (if ka_mock A then ''VTTC0081R'' else ''TTTC0081R'')\<rparr>"

text \<open>The rows of an answer, if \<open>output1\<close> is a list that is not empty.\<close>

definition order_rows :: "pyval option \<Rightarrow> pyval list" where
  "order_rows r = (case r of None \<Rightarrow> [] | Some v \<Rightarrow> (case entry_of v ''output1'' of PList xs \<Rightarrow> xs | _ \<Rightarrow> []))"

definition first_filled :: "pyval list \<Rightarrow> bool res" where
  "first_filled rows = (case rows of [] \<Rightarrow> Inr False
     | row # _ \<Rightarrow> res_bind (py_get row ''tot_ccld_qty'' (PInt 0)) (\<lambda>q. res_bind (int_of_value q) (\<lambda>tot_ccld_qty.
         res_bind (py_get row ''avg_prvs'' (PInt 0)) (\<lambda>p. res_bind (float_of_value p) (\<lambda>avg_price.
         Inr (0 < tot_ccld_qty))))))"

text \<open>
  The second inquiry: filled entirely, or not; a \<open>ValueError\<close>, \<open>TypeError\<close> or \<open>KeyError\<close> of
  its fields answers \<open>False\<close>, a row that is no dictionary raises \<open>AttributeError\<close>.
\<close>

definition row_complete :: "pyval \<Rightarrow> bool res" where
  "row_complete row = res_bind (py_get row ''tot_ccld_qty'' (PInt 0)) (\<lambda>q. res_bind (int_of_value q) (\<lambda>tot_ccld_qty.
     res_bind (py_get row ''rmn_qty'' (PInt 0)) (\<lambda>r. res_bind (int_of_value r) (\<lambda>rmn_qty.
     res_bind (py_get row ''ord_qty'' (PInt 0)) (\<lambda>t. res_bind (int_of_value t) (\<lambda>ord_qty.
     if 0 < tot_ccld_qty \<and> rmn_qty = 0
     then res_bind (py_get row ''avg_prvs'' (PInt 0)) (\<lambda>p. res_bind (float_of_value p) (\<lambda>avg_price. Inr True))
     else Inr False))))))"

definition check_order_status :: "'s net \<Rightarrow> kis_account \<Rightarrow> string \<Rightarrow> string \<Rightarrow> 's kis \<Rightarrow> bool res \<times> 's kis" where
  "check_order_status N A today order_no w =
     (case safe_request N (inquiry_request A today ''01'' order_no) w of (filled, w1) \<Rightarrow>
       (case first_filled (order_rows filled) of
          Inl e \<Rightarrow> (Inl e, w1)
        | Inr True \<Rightarrow> (Inr True, w1)
        | Inr False \<Rightarrow> (case safe_request N (inquiry_request A today ''00'' order_no) w1 of (all, w2) \<Rightarrow>
            (case order_rows all of
               [] \<Rightarrow> (Inr False, w2)
             | row # _ \<Rightarrow> (case row_complete row of
                 Inl AttributeError \<Rightarrow> (Inl AttributeError, w2)
               | Inl _ \<Rightarrow> (Inr False, w2)
               | Inr b \<Rightarrow> (Inr b, w2))))))"

record fill_details =
  fd_avg_price :: rat
  fd_filled_qty :: int

definition filled_details :: "pyval \<Rightarrow> fill_details option res" where
  "filled_details row = res_bind (py_get row ''avg_prvs'' (PInt 0)) (\<lambda>p. res_bind (float_of_value p) (\<lambda>avg.
     res_bind (py_get row ''tot_ccld_qty'' (PInt 0)) (\<lambda>q. res_bind (int_of_value q) (\<lambda>filled_qty.
     res_bind (if avg = 0 \<and> 0 < filled_qty
       then res_bind (py_get row ''tot_ccld_amt'' (PInt 0)) (\<lambda>a. res_bind (float_of_value a) (\<lambda>amount.
         if 0 < amount then Inr (fdiv amount (of_py_int filled_qty)) else Inr avg))
       else Inr avg) (\<lambda>avg_price.
     Inr (if 0 < filled_qty \<and> 0 < avg_price then Some \<lparr>fd_avg_price = avg_price, fd_filled_qty = filled_qty\<rparr> else None))))))"

definition get_filled_order_details ::
  "'s net \<Rightarrow> kis_account \<Rightarrow> string \<Rightarrow> string \<Rightarrow> 's kis \<Rightarrow> fill_details option res \<times> 's kis" where
  "get_filled_order_details N A today order_no w =
     (case safe_request N (inquiry_request A today ''01'' order_no) w of (r, w1) \<Rightarrow>
       (case order_rows r of [] \<Rightarrow> (Inr None, w1) | row # _ \<Rightarrow> (filled_details row, w1)))"


section \<open>Balances\<close>

definition balance_request :: "kis_account \<Rightarrow> http_request" where
  "balance_request A = \<lparr>hq_method = GET, hq_path = ''/uapi/domestic-stock/v1/trading/inquire-balance'',
     hq_fields = [(''CANO'', PStr (ka_prefix A)), (''ACNT_PRDT_CD'', PStr (ka_suffix A)), (''AFHR_FLPR_YN'', PStr ''N''),
       (''OFL_YN'', PStr []), (''INQR_DVSN'', PStr ''02''), (''UNPR_DVSN'', PStr ''01''), (''FUND_STTL_ICLD_YN'', PStr ''N''),
       (''FNCG_AMT_AUTO_RDPT_YN'', PStr ''N''), (''PRCS_DVSN'', PStr ''01''), (''CTX_AREA_FK100'', PStr []),
       (''CTX_AREA_NK100'', PStr [])],
     hq_tr_id = (if ka_mock A then ''VTTC8434R'' else ''TTTC8434R'')\<rparr>"

text \<open>\<open>if not res_data or res_data.get('rt_cd') != '0'\<close>.\<close>

definition accepted :: "pyval option \<Rightarrow> pyval option" where
  "accepted r = (case r of None \<Rightarrow> None
     | Some v \<Rightarrow> if truthy v \<and> entry_of v ''rt_cd'' = PStr ''0'' then Some v else None)"

record account_holding =
  ah_code :: string
  ah_name :: string
  ah_quantity :: int
  ah_avg_price :: rat
  ah_current_price :: rat

definition strip_value :: "pyval \<Rightarrow> string res" where
  "strip_value v = (case v of PStr t \<Rightarrow> Inr (py_strip t) | _ \<Rightarrow> Inl AttributeError)"

definition holding_of_item :: "pyval \<Rightarrow> account_holding option res" where
  "holding_of_item item = res_bind (py_get item ''hldg_qty'' (PInt 0)) (\<lambda>q. res_bind (int_of_value q) (\<lambda>quantity.
     if quantity \<le> 0 then Inr None
     else res_bind (py_get item ''pdno'' (PStr [])) (\<lambda>c. res_bind (strip_value c) (\<lambda>code.
       res_bind (py_get item ''prdt_name'' (PStr [])) (\<lambda>n. res_bind (strip_value n) (\<lambda>name.
       res_bind (py_get item ''pchs_avg_pric'' (PInt 0)) (\<lambda>a. res_bind (float_of_value a) (\<lambda>avg_price.
       res_bind (py_get item ''prpr'' (PInt 0)) (\<lambda>p. res_bind (float_of_value p) (\<lambda>current_price.
       Inr (if code = [] then None else Some \<lparr>ah_code = code, ah_name = name, ah_quantity = quantity,
         ah_avg_price = avg_price, ah_current_price = current_price\<rparr>)))))))))))"

fun holdings_of :: "pyval list \<Rightarrow> account_holding list res" where
  "holdings_of [] = Inr []"
| "holdings_of (item # items) = res_bind (holding_of_item item) (\<lambda>h. res_bind (holdings_of items) (\<lambda>hs.
     Inr (case h of None \<Rightarrow> hs | Some x \<Rightarrow> x # hs)))"

definition get_account_balance :: "'s net \<Rightarrow> kis_account \<Rightarrow> 's kis \<Rightarrow> account_holding list res \<times> 's kis" where
  "get_account_balance N A w = (case safe_request N (balance_request A) w of (r, w1) \<Rightarrow>
     (case accepted r of
        None \<Rightarrow> (Inr [], w1)
      | Some (PDict kvs) \<Rightarrow> (case dict_get kvs ''output1'' (PList []) of
            PList items \<Rightarrow> (holdings_of items, w1) | _ \<Rightarrow> (Inr [], w1))
      | Some _ \<Rightarrow> (Inr [], w1)))"

text \<open>\<open>output2[0]\<close> of an answer, if \<open>output2\<close> is not empty.\<close>

definition first_of :: "pyval \<Rightarrow> pyval option res" where
  "first_of v = (if \<not> truthy v then Inr None else case v of
     PList (x # _) \<Rightarrow> Inr (Some x) | PStr (c # _) \<Rightarrow> Inr (Some (PStr [c])) | PDict _ \<Rightarrow> Inl (KeyError ''0'')
   | _ \<Rightarrow> Inl TypeError)"

definition cash_balance_fallback :: "'s net \<Rightarrow> kis_account \<Rightarrow> 's kis \<Rightarrow> rat res \<times> 's kis" where
  "cash_balance_fallback N A w = (case safe_request N (balance_request A) w of (r, w1) \<Rightarrow>
     (case accepted r of
        None \<Rightarrow> (Inr 0, w1)
      | Some v \<Rightarrow> (res_bind (first_of (entry_of v ''output2'')) (\<lambda>x. case x of
            None \<Rightarrow> Inr 0
          | Some row \<Rightarrow> res_bind (py_get row ''dnca_tot_amt'' (PStr ''0'')) (\<lambda>a.
              if truthy a then float_of_value a else Inr 0)), w1)))"

definition cash_request :: "kis_account \<Rightarrow> http_request" where
  "cash_request A = \<lparr>hq_method = GET, hq_path = ''/uapi/domestic-stock/v1/trading/inquire-psbl-order'',
     hq_fields = [(''CANO'', PStr (ka_prefix A)), (''ACNT_PRDT_CD'', PStr (ka_suffix A)), (''PDNO'', PStr ''005930''),
       (''ORD_UNPR'', PStr ''0''), (''ORD_DVSN'', PStr ''01''), (''CMA_EVLU_AMT_ICLD_YN'', PStr ''Y''),
       (''OVRS_ICLD_YN'', PStr ''N'')],
     hq_tr_id = (if ka_mock A then ''VTTC8908R'' else ''TTTC8908R'')\<rparr>"

text \<open>An amount of the answer: \<open>Inr None\<close> for an empty or blank text.\<close>

definition amount_text :: "pyval \<Rightarrow> rat option res" where
  "amount_text v = (if \<not> truthy v then Inr None
     else res_bind (strip_value v) (\<lambda>t. if t = [] then Inr None else map_sum id Some (float_of_value v)))"

definition kis_cash_balance :: "'s net \<Rightarrow> kis_account \<Rightarrow> 's kis \<Rightarrow> rat res \<times> 's kis" where
  "kis_cash_balance N A w = (case safe_request N (cash_request A) w of (r, w1) \<Rightarrow>
     (case accepted r of
        None \<Rightarrow> cash_balance_fallback N A w1
      | Some v \<Rightarrow>
         (case (case v of PDict kvs \<Rightarrow> dict_get kvs ''output'' (PDict []) | _ \<Rightarrow> PDict []) of
            PDict output \<Rightarrow>
              (case amount_text (dict_get output ''nrcvb_buy_amt'' (PStr [])) of
                 Inl e \<Rightarrow> (Inl e, w1)
               | Inr (Some x) \<Rightarrow> (Inr x, w1)
               | Inr None \<Rightarrow> (case amount_text (dict_get output ''ord_psbl_cash'' (PStr [])) of
                   Inl e \<Rightarrow> (Inl e, w1)
                 | Inr (Some x) \<Rightarrow> (Inr x, w1)
                 | Inr None \<Rightarrow> cash_balance_fallback N A w1))
          | _ \<Rightarrow> (Inl AttributeError, w1))))"

record asset_summary =
  as_total :: rat
  as_cash :: rat
  as_stock :: rat
  as_pnl :: rat

text \<open>\<open>ValueError\<close> and \<open>TypeError\<close> of the part that reads the amounts answer nothing.\<close>

definition soft :: "'a option res \<Rightarrow> 'a option res" where
  "soft r = (case r of Inl ValueError \<Rightarrow> Inr None | Inl TypeError \<Rightarrow> Inr None | _ \<Rightarrow> r)"

definition get_asset_summary :: "'s net \<Rightarrow> kis_account \<Rightarrow> 's kis \<Rightarrow> asset_summary option res \<times> 's kis" where
  "get_asset_summary N A w = (case safe_request N (balance_request A) w of (r, w1) \<Rightarrow>
     (case accepted r of
        None \<Rightarrow> (Inr None, w1)
      | Some v \<Rightarrow> (case first_of (entry_of v ''output2'') of
          Inl e \<Rightarrow> (Inl e, w1)
        | Inr None \<Rightarrow> (Inr None, w1)
        | Inr (Some summary) \<Rightarrow> (case kis_cash_balance N A w1 of (cash, w2) \<Rightarrow>
            (soft (res_bind cash (\<lambda>cash_balance.
               res_bind (py_get summary ''scts_evlu_amt'' (PInt 0)) (\<lambda>a. res_bind (float_of_value a) (\<lambda>stock_eval.
               res_bind (py_get summary ''evlu_pfls_smtl_amt'' (PInt 0)) (\<lambda>p. res_bind (float_of_value p) (\<lambda>total_pnl.
               Inr (Some \<lparr>as_total = fadd stock_eval cash_balance, as_cash = cash_balance, as_stock = stock_eval,
                 as_pnl = total_pnl\<rparr>))))))), w2)))))"

definition pnl_request :: "kis_account \<Rightarrow> http_request" where
  "pnl_request A = \<lparr>hq_method = GET, hq_path = ''/uapi/domestic-stock/v1/trading/inquire-balance-rlz-pl'',
     hq_fields = [(''CANO'', PStr (ka_prefix A)), (''ACNT_PRDT_CD'', PStr (ka_suffix A)), (''AFHR_FLPR_YN'', PStr ''N''),
       (''OFL_YN'', PStr []), (''INQR_DVSN'', PStr ''00''), (''UNPR_DVSN'', PStr ''01''), (''FUND_STTL_ICLD_YN'', PStr ''N''),
       (''FNCG_AMT_AUTO_RDPT_YN'', PStr ''N''), (''PRCS_DVSN'', PStr ''01''), (''COST_ICLD_YN'', PStr ''N''),
       (''CTX_AREA_FK100'', PStr []), (''CTX_AREA_NK100'', PStr [])],
     hq_tr_id = ''TTTC8494R''\<rparr>"

text \<open>The date asked for is only logged. Amounts that cannot be read answer 0.\<close>

definition get_today_realized_pnl :: "'s net \<Rightarrow> kis_account \<Rightarrow> 's kis \<Rightarrow> rat res \<times> 's kis" where
  "get_today_realized_pnl N A w = (if ka_mock A then (Inr 0, w)
     else case safe_request N (pnl_request A) w of (r, w1) \<Rightarrow>
       (case accepted r of
          None \<Rightarrow> (Inr 0, w1)
        | Some v \<Rightarrow> (let out = entry_of v ''output2'' in
            if \<not> truthy out then (Inr 0, w1)
            else (res_bind (case out of PBool _ \<Rightarrow> Inl TypeError | PInt _ \<Rightarrow> Inl TypeError | PFloat _ \<Rightarrow> Inl TypeError | _ \<Rightarrow> Inr ()) (\<lambda>_.
                 res_bind (soft (res_bind (first_of out) (\<lambda>x. case x of None \<Rightarrow> Inr None
                   | Some summary \<Rightarrow> res_bind (py_get summary ''rlzt_pfls'' (PInt 0)) (\<lambda>p. map_sum id Some (float_of_value p)))))
                 (\<lambda>x. Inr (opt_or 0 x))), w1))))"


section \<open>What is sent\<close>

text \<open>The answers after which a request is sent again.\<close>

definition retried_answer :: "http_answer \<Rightarrow> bool" where
  "retried_answer a = (case a of Answered status (Json v) \<Rightarrow> status = 500 \<or> entry_of v ''msg_cd'' \<in> set token_errors
     | _ \<Rightarrow> False)"

lemma authenticate_sent [simp]: "ks_sent (snd (authenticate N f w)) = ks_sent w"
  by (simp add: authenticate_def split: sum.split prod.split option.split)

lemma judge_again: "judge_answer first t a = Again v \<Longrightarrow> first \<and> retried_answer a"
  by (auto simp: judge_answer_def retried_answer_def split: http_answer.splits http_body.splits if_splits)

lemma attempt_sent:
  obtains "fst (attempt_request N first q w) = Done None" "ks_sent (snd (attempt_request N first q w)) = ks_sent w"
  | t s where "ks_sent (snd (attempt_request N first q w)) = ks_sent w @ [q]"
      "\<And>v. fst (attempt_request N first q w) = Again v \<Longrightarrow> first \<and> retried_answer (fst (nt_send N t q s))"
      "\<And>v. fst (attempt_request N first q w) = Done (Some v) \<Longrightarrow> \<exists>st. (st < 400 \<or> 600 \<le> st) \<and> fst (nt_send N t q s) = Answered st (Json v)"
proof -
  obtain r w1 where 1: "(if ks_token w = None then authenticate N True w else (Inr True, w)) = (r, w1)" by fastforce
  then have s1: "ks_sent w1 = ks_sent w" using authenticate_sent [of N True w] by (auto split: if_splits simp del: authenticate_sent)
  show thesis
  proof (cases r)
    case (Inl e)
    with 1 s1 that(1) show ?thesis by (simp add: attempt_request_def)
  next
    case (Inr b)
    obtain a s where a: "nt_send N (ks_token w1) q (ks_server w1) = (a, s)" by fastforce
    let ?w2 = "w1\<lparr>ks_server := s, ks_sent := ks_sent w1 @ [q]\<rparr>"
    obtain r' w3 where 3: "authenticate N True ?w2 = (r', w3)" by fastforce
    have s3: "ks_sent w3 = ks_sent w @ [q]" using authenticate_sent [of N True ?w2] 3 s1 by (simp del: authenticate_sent)
    have ok: "\<exists>st. (st < 400 \<or> 600 \<le> st) \<and> a = Answered st (Json v)" if "judge_answer first (hq_tr_id q) a = Done (Some v)" for v
      using that by (auto simp: judge_answer_def split: http_answer.splits http_body.splits if_splits)
    let ?j = "judge_answer first (hq_tr_id q) a"
    have eq: "attempt_request N first q w = (case ?j of Done x \<Rightarrow> (Done x, ?w2)
        | Again Server_Failure \<Rightarrow> (Again Server_Failure, ?w2)
        | Again why \<Rightarrow> (case r' of Inl e \<Rightarrow> (if why = Blank_Failure \<and> (e = TypeError \<or> (\<exists>k. e = KeyError k))
            then Again Server_Failure else Done None, w3) | Inr _ \<Rightarrow> (Again why, w3)))"
      unfolding attempt_request_def 1 by (simp add: Inr send_request_def a 3 split: verdict.split retry.split sum.split)
    have "ks_sent (snd (attempt_request N first q w)) = ks_sent w @ [q]"
      unfolding eq by (simp add: s1 s3 split: verdict.split retry.split sum.split)
    moreover have "\<exists>v'. ?j = Again v'" if "fst (attempt_request N first q w) = Again v" for v
      using that unfolding eq by (cases ?j) simp_all
    moreover have "?j = Done (Some v)" if "fst (attempt_request N first q w) = Done (Some v)" for v
      using that unfolding eq by (simp split: verdict.splits retry.splits sum.splits if_splits)
    ultimately show ?thesis
      using that(2) [of "ks_token w1" "ks_server w1"] judge_again [of first "hq_tr_id q" a] ok a by (metis fst_conv)
  qed
qed


lemma safe_request_sent:
  obtains n where "n \<le> 2" "ks_sent (snd (safe_request N q w)) = ks_sent w @ replicate n q"
    "n = 2 \<Longrightarrow> \<exists>t s. retried_answer (fst (nt_send N t q s))"
    "\<And>v. fst (safe_request N q w) = Some v \<Longrightarrow> 0 < n"
proof -
  obtain v1 w1 where 1: "attempt_request N True q w = (v1, w1)" by fastforce
  obtain v2 w2 where 2: "attempt_request N False q w1 = (v2, w2)" by fastforce
  show thesis
  proof (cases v1)
    case (Done r)
    then have run: "safe_request N q w = (r, w1)" by (simp add: safe_request_def 1)
    show ?thesis
    proof (cases rule: attempt_sent [of N True q w])
      case 1
      with \<open>attempt_request N True q w = (v1, w1)\<close> Done show ?thesis by (intro that [of 0]) (simp_all add: run)
    next
      case (2 t s)
      with \<open>attempt_request N True q w = (v1, w1)\<close> show ?thesis by (intro that [of 1]) (simp_all add: run)
    qed
  next
    case (Again y)
    obtain t s where first: "ks_sent w1 = ks_sent w @ [q]" "retried_answer (fst (nt_send N t q s))"
      by (cases rule: attempt_sent [of N True q w]) (use 1 Again in auto)
    have "v2 \<noteq> Again y'" for y' by (cases rule: attempt_sent [of N False q w1]) (use 2 in auto)
    then obtain r where r: "v2 = Done r" by (cases v2) auto
    then have run: "safe_request N q w = (r, w2)" by (simp add: safe_request_def 1 2 Again)
    show ?thesis
    proof (cases rule: attempt_sent [of N False q w1])
      case 1
      with 2 r first show ?thesis by (intro that [of 1]) (simp_all add: run)
    next
      case (2 t' s')
      with \<open>attempt_request N False q w1 = (v2, w2)\<close> r first show ?thesis
        by (intro that [of 2]) (auto simp: run numeral_2_eq_2)
    qed
  qed
qed

text \<open>
  Claim C32. An order is sent at most twice, as the same request and nothing else, and a second
  time only after the server has answered 500 or refused the token; a call that names an order
  number has sent it.
\<close>

theorem order_sent_at_most_twice:
  "\<exists>n \<le> 2. ks_sent (snd (kis_place_order N A side code qty price w))
      = ks_sent w @ replicate n (order_request A side code qty price)
    \<and> (n = 2 \<longrightarrow> (\<exists>t s. retried_answer (fst (nt_send N t (order_request A side code qty price) s))))
    \<and> (\<forall>v. fst (kis_place_order N A side code qty price w) = Inr v \<longrightarrow> v \<noteq> PNone \<longrightarrow> 0 < n)"
proof -
  let ?q = "order_request A side code qty price"
  obtain n where n: "n \<le> 2" "ks_sent (snd (safe_request N ?q w)) = ks_sent w @ replicate n ?q"
    "n = 2 \<Longrightarrow> \<exists>t s. retried_answer (fst (nt_send N t ?q s))"
    "\<And>v. fst (safe_request N ?q w) = Some v \<Longrightarrow> 0 < n" using safe_request_sent by blast
  have "snd (kis_place_order N A side code qty price w) = snd (safe_request N ?q w)"
    by (simp add: kis_place_order_def split: prod.split option.split)
  moreover have "\<exists>v'. fst (safe_request N ?q w) = Some v'"
    if "fst (kis_place_order N A side code qty price w) = Inr v" "v \<noteq> PNone" for v
    using that by (cases "safe_request N ?q w"; cases "fst (safe_request N ?q w)") (auto simp: kis_place_order_def)
  ultimately show ?thesis using n by (intro exI [of _ n]) auto
qed

text \<open>
  No answer says nothing about the order: a server that executes the order and answers 500 gets
  it again, and executes it twice.
\<close>

definition slow_server :: "http_request list net" where
  "slow_server = \<lparr>nt_send = \<lambda>_ q book. (if book = [] then Answered 500 (Json (PDict [(''rt_cd'', PStr ''1''), (''msg1'', PStr ''timeout'')]))
      else Answered 200 (Json (PDict [(''rt_cd'', PStr ''0''), (''output'', PDict [(''ODNO'', PStr ''2'')])])), book @ [q]),
     nt_token = \<lambda>_ s. (Inr (Some ''t''), s)\<rparr>"

theorem retried_order_executed_twice:
  "fst (kis_place_order slow_server A side code qty price \<lparr>ks_server = [], ks_token = Some ''t'', ks_sent = []\<rparr>) = Inr (PStr ''2'')
    \<and> ks_server (snd (kis_place_order slow_server A side code qty price \<lparr>ks_server = [], ks_token = Some ''t'', ks_sent = []\<rparr>))
      = replicate 2 (order_request A side code qty price)"
  by (simp add: kis_place_order_def safe_request_def attempt_request_def send_request_def slow_server_def judge_answer_def
    is_dict_def entry_of_def dict_get_def token_errors_def numeral_2_eq_2)

section \<open>The state of orders and balances\<close>

text \<open>
  The state of an order is \<open>filled\<close> as soon as the first inquiry shows one filled
  share, whatever is still open, although the second inquiry treats a partly filled order as not
  filled.
\<close>

theorem partial_fill_is_filled:
  assumes "fst (safe_request N (inquiry_request A today ''01'' order_no) w) = Some (PDict kvs)"
    and "dict_get kvs ''output1'' PNone = PList (PDict row # rows)"
    and "int_of_value (dict_get row ''tot_ccld_qty'' (PInt 0)) = Inr n" and "0 < n"
    and "float_of_value (dict_get row ''avg_prvs'' (PInt 0)) = Inr p"
  shows "fst (check_order_status N A today order_no w) = Inr True"
proof -
  obtain r w1 where 1: "safe_request N (inquiry_request A today ''01'' order_no) w = (r, w1)" by fastforce
  have "first_filled (order_rows (Some (PDict kvs))) = Inr True"
    using assms(2-5) by (simp add: order_rows_def entry_of_def first_filled_def dict_get_def)
  with assms(1) 1 show ?thesis by (simp add: check_order_status_def)
qed

text \<open>No answer of the server reads as an empty account.\<close>

theorem failed_balance_is_empty:
  assumes "fst (safe_request N (balance_request A) w) = None"
  shows "fst (get_account_balance N A w) = Inr []"
  using assms by (cases "safe_request N (balance_request A) w") (simp add: get_account_balance_def accepted_def)

lemma holdings_wellformed:
  "holdings_of items = Inr hs \<Longrightarrow> list_all (\<lambda>h. 0 < ah_quantity h \<and> ah_code h \<noteq> []) hs"
proof (induction items arbitrary: hs)
  case (Cons item items)
  from Cons.prems obtain h hs' where 1: "holding_of_item item = Inr h" "holdings_of items = Inr hs'"
    "hs = (case h of None \<Rightarrow> hs' | Some x \<Rightarrow> x # hs')" by (auto simp: res_bind_Inr_iff)
  have "0 < ah_quantity x \<and> ah_code x \<noteq> []" if "h = Some x" for x
    using 1(1) that by (auto simp: holding_of_item_def res_bind_Inr_iff split: if_splits)
  with Cons.IH [OF 1(2)] 1(3) show ?case by (auto split: option.split)
qed simp

lemma balance_wellformed:
  "fst (get_account_balance N A w) = Inr hs \<Longrightarrow> list_all (\<lambda>h. 0 < ah_quantity h \<and> ah_code h \<noteq> []) hs"
  by (auto simp: get_account_balance_def holdings_wellformed split: prod.splits option.splits pyval.splits)


section \<open>Concrete inputs\<close>

definition real_account :: kis_account where
  "real_account = \<lparr>ka_mock = False, ka_prefix = ''12345678'', ka_suffix = ''01''\<rparr>"

lemma order_sent_at_most_twice_witness:
  "length (ks_sent (snd (kis_place_order slow_server real_account Buy_Side ''005930'' 3 0
     \<lparr>ks_server = [], ks_token = Some ''t'', ks_sent = []\<rparr>))) \<le> 2"
  using order_sent_at_most_twice [of slow_server real_account Buy_Side "''005930''" 3 0
    "\<lparr>ks_server = [], ks_token = Some ''t'', ks_sent = []\<rparr>"] by auto

text \<open>Ten of thirty shares are filled, twenty are open.\<close>

definition part_filled :: "unit net" where
  "part_filled = \<lparr>nt_send = \<lambda>_ _ s. (Answered 200 (Json (PDict [(''rt_cd'', PStr ''0''), (''output1'', PList [PDict
     [(''ord_qty'', PStr ''30''), (''tot_ccld_qty'', PStr ''10''), (''rmn_qty'', PStr ''20''), (''avg_prvs'', PInt 1000)]])])), s),
     nt_token = \<lambda>_ s. (Inr (Some ''t''), s)\<rparr>"

lemma partial_fill_is_filled_witness:
  "fst (check_order_status part_filled real_account ''20260101'' ''7'' \<lparr>ks_server = (), ks_token = Some ''t'', ks_sent = []\<rparr>) = Inr True"
proof (rule partial_fill_is_filled)
  show "fst (safe_request part_filled (inquiry_request real_account ''20260101'' ''01'' ''7'')
      \<lparr>ks_server = (), ks_token = Some ''t'', ks_sent = []\<rparr>) = Some (PDict [(''rt_cd'', PStr ''0''), (''output1'', PList [PDict
      [(''ord_qty'', PStr ''30''), (''tot_ccld_qty'', PStr ''10''), (''rmn_qty'', PStr ''20''), (''avg_prvs'', PInt 1000)]])])"
    by (simp add: safe_request_def attempt_request_def send_request_def part_filled_def judge_answer_def is_dict_def entry_of_def
      dict_get_def token_errors_def)
  show "int_of_value (dict_get [(''ord_qty'', PStr ''30''), (''tot_ccld_qty'', PStr ''10''), (''rmn_qty'', PStr ''20''),
      (''avg_prvs'', PInt 1000)] ''tot_ccld_qty'' (PInt 0)) = Inr 10"
    by code_simp
qed (simp_all add: dict_get_def)

end
