(* ===== verification/KIS_Market.thy ===== *)
theory KIS_Market
  imports KIS_Trading
begin

text \<open>
  The market data of the broker, \<open>shared/kis/market_data.py\<close>: is the market open, is a day a trading day, daily and
  minute prices, the snapshot of a stock, and the trades of the investors. The clock of a call gives
  weekday, hour and minute and the texts the requests need; \<open>mc_iso\<close> and \<open>mc_instant\<close> are \<open>strptime\<close>
  with the formats of the code. Texts of the log are left out.
\<close>

section \<open>Time\<close>

text \<open>
  \<open>mc_days_ago\<close>: the date that many days ago. \<open>mc_iso\<close> reads a date \<open>YYYYMMDD\<close> and prints it in ISO form,
  \<open>mc_instant\<close> a date and a time, \<open>mc_given\<close> an ISO date as weekday and \<open>YYYYMMDD\<close>; they fail on any other text.
\<close>

record market_clock =
  mc_weekday :: nat
  mc_hour :: nat
  mc_minute :: nat
  mc_today :: string
  mc_time :: string
  mc_days_ago :: "int \<Rightarrow> string"
  mc_iso :: "string \<Rightarrow> string option"
  mc_instant :: "pyval \<Rightarrow> pyval \<Rightarrow> string option"
  mc_given :: "string \<Rightarrow> (nat \<times> string) option"

definition regular_hours :: "market_clock \<Rightarrow> bool" where
  "regular_hours T \<longleftrightarrow> mc_weekday T \<le> 4 \<and>
     (mc_hour T = 9 \<or> 10 \<le> mc_hour T \<and> mc_hour T \<le> 14 \<or> mc_hour T = 15 \<and> mc_minute T \<le> 30)"

section \<open>Answers\<close>

text \<open>\<open>v[k]\<close> for a text \<open>k\<close>, the elements of \<open>for x in v\<close>, and \<open>a or b\<close>.\<close>

definition py_item :: "pyval \<Rightarrow> string \<Rightarrow> pyval res" where
  "py_item v k = (case v of PDict kvs \<Rightarrow> (case map_of kvs k of Some x \<Rightarrow> Inr x | None \<Rightarrow> Inl (KeyError k)) | _ \<Rightarrow> Inl TypeError)"

definition elements_of :: "pyval \<Rightarrow> pyval list res" where
  "elements_of v = (case v of PList xs \<Rightarrow> Inr xs | PDict kvs \<Rightarrow> Inr (map (PStr \<circ> fst) kvs)
     | PStr t \<Rightarrow> Inr (map (\<lambda>c. PStr [c]) t) | _ \<Rightarrow> Inl TypeError)"

definition either :: "pyval \<Rightarrow> pyval \<Rightarrow> pyval" where
  "either a b = (if truthy a then a else b)"

text \<open>\<open>res_data and res_data.get('output')\<close>: the output, when both are true.\<close>

definition output_of :: "pyval option \<Rightarrow> pyval option" where
  "output_of r = (case r of None \<Rightarrow> None
     | Some v \<Rightarrow> if truthy (entry_of v ''output'') then Some (entry_of v ''output'') else None)"

definition float_entry :: "pyval \<Rightarrow> string \<Rightarrow> pyval res" where
  "float_entry v k = res_bind (py_get v k (PInt 0)) (\<lambda>x. res_bind (float_of_value x) (\<lambda>y. Inr (PFloat y)))"

definition int_entry :: "pyval \<Rightarrow> string \<Rightarrow> int res" where
  "int_entry v k = res_bind (py_get v k (PInt 0)) int_of_value"

definition caught :: "'a res \<Rightarrow> 'a option" where
  "caught r = (case r of Inr x \<Rightarrow> Some x | Inl _ \<Rightarrow> None)"

section \<open>Is the market open?\<close>

definition holiday_request :: "string \<Rightarrow> http_request" where
  "holiday_request day = \<lparr>hq_method = GET, hq_path = ''/uapi/domestic-stock/v1/quotations/chk-holiday'',
     hq_fields = [(''BASS_DT'', PStr day), (''CTX_AREA_NK'', PStr []), (''CTX_AREA_FK'', PStr [])], hq_tr_id = ''CTCA0903R''\<rparr>"

text \<open>\<open>output[0]['opnd_yn'] == 'Y'\<close>; no verdict without an output, or after an exception.\<close>

definition day_verdict :: "pyval option \<Rightarrow> bool option" where
  "day_verdict r = (case output_of r of None \<Rightarrow> None
     | Some out \<Rightarrow> caught (res_bind (first_of out) (\<lambda>x. case x of None \<Rightarrow> Inl IndexError
         | Some row \<Rightarrow> res_bind (py_item row ''opnd_yn'') (\<lambda>y. Inr (y = PStr ''Y'')))))"

text \<open>Out of hours the test of the mock mode reads the variable \<open>mock_skip_time_check\<close>, which is defined nowhere.\<close>

definition check_market_open :: "'s net \<Rightarrow> kis_account \<Rightarrow> market_clock \<Rightarrow> 's kis \<Rightarrow> bool res \<times> 's kis" where
  "check_market_open N A T w =
     (if \<not> regular_hours T then (if ka_mock A then Inl NameError else Inr False, w)
      else if ka_mock A then (Inr True, w)
      else (case safe_request N (holiday_request (mc_today T)) w of (r, w1) \<Rightarrow> (Inr (opt_or False (day_verdict r)), w1)))"

definition is_trading_day :: "'s net \<Rightarrow> kis_account \<Rightarrow> nat \<times> string \<Rightarrow> 's kis \<Rightarrow> bool res \<times> 's kis" where
  "is_trading_day N A = (\<lambda>(weekday, day) w.
     if 5 \<le> weekday then (Inr False, w)
     else if ka_mock A then (Inr True, w)
     else (case safe_request N (holiday_request day) w of (r, w1) \<Rightarrow> (Inr (opt_or True (day_verdict r)), w1)))"

section \<open>Prices\<close>

definition daily_request :: "market_clock \<Rightarrow> string \<Rightarrow> int \<Rightarrow> http_request" where
  "daily_request T stock_code num_days = \<lparr>hq_method = GET, hq_path = ''/uapi/domestic-stock/v1/quotations/inquire-daily-price'',
     hq_fields = [(''FID_COND_MRKT_DIV_CODE'', PStr ''J''), (''FID_INPUT_ISCD'', PStr stock_code),
       (''FID_INPUT_DATE_1'', PStr (mc_days_ago T num_days)), (''FID_INPUT_DATE_2'', PStr (mc_today T)),
       (''FID_PERIOD_DIV_CODE'', PStr ''D''), (''FID_ORG_ADJ_PRC'', PStr ''0'')], hq_tr_id = ''FHKST01010400''\<rparr>"

definition iso_date :: "market_clock \<Rightarrow> pyval \<Rightarrow> string res" where
  "iso_date T v = (case v of PStr t \<Rightarrow> (case mc_iso T t of Some d \<Rightarrow> Inr d | None \<Rightarrow> Inl ValueError) | _ \<Rightarrow> Inl TypeError)"

definition float_item :: "pyval \<Rightarrow> string \<Rightarrow> pyval res" where
  "float_item v k = res_bind (py_item v k) (\<lambda>x. res_bind (float_of_value x) (\<lambda>y. Inr (PFloat y)))"

definition daily_row :: "market_clock \<Rightarrow> pyval \<Rightarrow> pyval res" where
  "daily_row T day = res_bind (py_item day ''stck_bsop_date'') (\<lambda>t. res_bind (iso_date T t) (\<lambda>date.
     res_bind (float_item day ''stck_clpr'') (\<lambda>price. res_bind (float_item day ''stck_hgpr'') (\<lambda>high.
     res_bind (float_item day ''stck_lwpr'') (\<lambda>low.
     Inr (PDict [(''date'', PStr date), (''price'', price), (''high'', high), (''low'', low)]))))))"

fun daily_rows :: "market_clock \<Rightarrow> pyval list \<Rightarrow> pyval list res" where
  "daily_rows T [] = Inr []"
| "daily_rows T (d # ds) = res_bind (daily_row T d) (\<lambda>r. res_bind (daily_rows T ds) (\<lambda>rs. Inr (r # rs)))"

definition get_stock_daily_prices :: "'s net \<Rightarrow> market_clock \<Rightarrow> string \<Rightarrow> int \<Rightarrow> 's kis \<Rightarrow> pyval res \<times> 's kis" where
  "get_stock_daily_prices N T stock_code num_days w = (case safe_request N (daily_request T stock_code num_days) w of (r, w1) \<Rightarrow>
     (case output_of r of None \<Rightarrow> (Inr PNone, w1)
      | Some out \<Rightarrow> (res_bind (elements_of out) (\<lambda>ds. res_bind (daily_rows T ds) (\<lambda>rows. Inr (PList rows))), w1)))"

definition snapshot_request :: "string \<Rightarrow> bool \<Rightarrow> http_request" where
  "snapshot_request stock_code is_index = \<lparr>hq_method = GET,
     hq_path = (if is_index then ''/uapi/domestic-stock/v1/quotations/inquire-index-price'' else ''/uapi/domestic-stock/v1/quotations/inquire-price''),
     hq_fields = [(''FID_COND_MRKT_DIV_CODE'', PStr (if is_index then ''U'' else ''J'')), (''FID_INPUT_ISCD'', PStr stock_code)],
     hq_tr_id = (if is_index then ''FHPUP02100000'' else ''FHKST01010100'')\<rparr>"

text \<open>The capitalisation in millions, from price and number of shares.\<close>

definition stock_figures :: "pyval \<Rightarrow> (string \<times> pyval) list res" where
  "stock_figures out = res_bind (float_entry out ''per'') (\<lambda>per. res_bind (float_entry out ''pbr'') (\<lambda>pbr.
     res_bind (float_entry out ''eps'') (\<lambda>eps. res_bind (float_entry out ''bps'') (\<lambda>bps.
     res_bind (int_entry out ''stck_prpr'') (\<lambda>p. res_bind (int_entry out ''lstn_stcn'') (\<lambda>n.
     Inr [(''per'', per), (''pbr'', pbr), (''eps'', eps), (''bps'', bps), (''market_cap'', PInt (p * n div 1000000))]))))))"

definition snapshot_of_output :: "string \<Rightarrow> bool \<Rightarrow> pyval \<Rightarrow> pyval res" where
  "snapshot_of_output stock_code is_index out =
     (let key = (\<lambda>a b. if is_index then a else b)
      in res_bind (py_get out ''hts_kor_isnm'' (PStr ''N/A'')) (\<lambda>name.
         res_bind (float_entry out (key ''bstp_nmix_prpr'' ''stck_prpr'')) (\<lambda>price.
         res_bind (float_entry out (key ''bstp_nmix_hgpr'' ''stck_hgpr'')) (\<lambda>high.
         res_bind (float_entry out (key ''bstp_nmix_lwpr'' ''stck_lwpr'')) (\<lambda>low.
         res_bind (float_entry out (key ''bstp_nmix_oprc'' ''stck_oprc'')) (\<lambda>open_price.
         res_bind (int_entry out ''acml_vol'') (\<lambda>volume.
         res_bind (if is_index then Inr [] else stock_figures out) (\<lambda>figures.
         Inr (PDict ([(''code'', PStr stock_code), (''name'', name), (''price'', price), (''high'', high), (''low'', low),
           (''open'', open_price), (''volume'', PInt volume)] @ figures))))))))))"

definition get_stock_snapshot :: "'s net \<Rightarrow> kis_account \<Rightarrow> string \<Rightarrow> bool \<Rightarrow> 's kis \<Rightarrow> pyval res \<times> 's kis" where
  "get_stock_snapshot N A stock_code is_index w =
     (if is_index \<and> ka_mock A then (Inr PNone, w)
      else (case safe_request N (snapshot_request stock_code is_index) w of (r, w1) \<Rightarrow>
        (case output_of r of None \<Rightarrow> (Inr PNone, w1) | Some out \<Rightarrow> (snapshot_of_output stock_code is_index out, w1))))"

definition minute_request :: "market_clock \<Rightarrow> string \<Rightarrow> string \<Rightarrow> http_request" where
  "minute_request T stock_code target = \<lparr>hq_method = GET,
     hq_path = ''/uapi/domestic-stock/v1/quotations/inquire-time-itemchartprice'',
     hq_fields = [(''FID_ETC_CLS_CODE'', PStr []), (''FID_COND_MRKT_DIV_CODE'', PStr ''J''), (''FID_INPUT_ISCD'', PStr stock_code),
       (''FID_INPUT_HOUR_1'', PStr (if target = mc_today T then mc_time T else ''153000'')), (''FID_PW_DATA_INCU_YN'', PStr ''N'')],
     hq_tr_id = ''FHKST03010200''\<rparr>"

text \<open>A bar without a readable time, high, low or close is passed over, as one that raises.\<close>

definition minute_row :: "market_clock \<Rightarrow> string \<Rightarrow> pyval \<Rightarrow> pyval option" where
  "minute_row T target m = (case m of
     PDict kvs \<Rightarrow>
       (let g = (\<lambda>k. dict_get kvs k PNone);
            date = either (g ''stck_bsop_date'') (PStr target);
            time = either (either (g ''stck_cntg_hour'') (g ''stck_time'')) (PStr ''090000'')
        in case mc_instant T date time of None \<Rightarrow> None
           | Some dt \<Rightarrow>
               if \<not> truthy (g ''stck_hgpr'') \<or> \<not> truthy (g ''stck_lwpr'') \<or> \<not> truthy (g ''stck_clpr'') then None
               else caught
                 (res_bind (float_of_value (either (either (g ''stck_stdprc'') (g ''stck_oprc'')) (g ''stck_clpr''))) (\<lambda>open_price.
                  res_bind (float_of_value (g ''stck_hgpr'')) (\<lambda>high.
                  res_bind (float_of_value (g ''stck_lwpr'')) (\<lambda>low.
                  res_bind (float_of_value (g ''stck_clpr'')) (\<lambda>close_price.
                  res_bind (int_of_value (either (either (g ''acml_vol'') (g ''acml_tr_pbmn'')) (PInt 0))) (\<lambda>volume.
                  Inr (PDict [(''datetime'', PStr dt), (''open'', PFloat open_price), (''high'', PFloat high), (''low'', PFloat low),
                    (''close'', PFloat close_price), (''volume'', PInt volume)]))))))))
   | _ \<Rightarrow> None)"

definition get_stock_minute_prices :: "'s net \<Rightarrow> market_clock \<Rightarrow> string \<Rightarrow> string \<Rightarrow> 's kis \<Rightarrow> pyval res \<times> 's kis" where
  "get_stock_minute_prices N T stock_code target w = (case safe_request N (minute_request T stock_code target) w of
     (None, w1) \<Rightarrow> (Inr (PList []), w1)
   | (Some v, w1) \<Rightarrow>
       (let out = either (entry_of v ''output'') (entry_of v ''output2'')
        in if \<not> truthy v \<or> entry_of v ''rt_cd'' \<noteq> PStr ''0'' \<or> \<not> truthy out then (Inr (PList []), w1)
           else (res_bind (elements_of out) (\<lambda>ms. Inr (PList (List.map_filter (minute_row T target) ms))), w1)))"

section \<open>Investors\<close>

definition trend_request :: "market_clock \<Rightarrow> string \<Rightarrow> string option \<Rightarrow> string option \<Rightarrow> http_request" where
  "trend_request T stock_code start_date end_date = \<lparr>hq_method = GET,
     hq_path = ''/uapi/domestic-stock/v1/quotations/inquire-investor'',
     hq_fields = [(''FID_COND_MRKT_DIV_CODE'', PStr ''J''), (''FID_INPUT_ISCD'', PStr stock_code),
       (''FID_INPUT_DATE_1'', PStr (case start_date of Some (c # cs) \<Rightarrow> c # cs | _ \<Rightarrow> mc_days_ago T 30)),
       (''FID_INPUT_DATE_2'', PStr (case end_date of Some (c # cs) \<Rightarrow> c # cs | _ \<Rightarrow> mc_today T))],
     hq_tr_id = ''FHKST01010900''\<rparr>"

definition trend_row :: "pyval \<Rightarrow> pyval option" where
  "trend_row item = caught (res_bind (py_item item ''stck_bsop_date'') (\<lambda>date.
     res_bind (float_entry item ''stck_clpr'') (\<lambda>price.
     res_bind (int_entry item ''prsn_ntby_qty'') (\<lambda>individual.
     res_bind (int_entry item ''frgn_ntby_qty'') (\<lambda>foreigner.
     res_bind (int_entry item ''orgn_ntby_qty'') (\<lambda>institution.
     res_bind (py_get item ''ntik_ntby_qty'' (PInt 0)) (\<lambda>p. res_bind (int_of_value (either p (PInt 0))) (\<lambda>pension.
     Inr (PDict [(''date'', date), (''price'', price), (''individual_net_buy'', PInt individual), (''foreigner_net_buy'', PInt foreigner),
       (''institution_net_buy'', PInt institution), (''pension_net_buy'', PInt pension), (''program_net_buy'', PInt 0)])))))))))"

definition get_investor_trend ::
  "'s net \<Rightarrow> market_clock \<Rightarrow> string \<Rightarrow> string option \<Rightarrow> string option \<Rightarrow> 's kis \<Rightarrow> pyval res \<times> 's kis" where
  "get_investor_trend N T stock_code start_date end_date w =
     (case safe_request N (trend_request T stock_code start_date end_date) w of (r, w1) \<Rightarrow>
       (case output_of r of None \<Rightarrow> (Inr (PList []), w1)
        | Some out \<Rightarrow> (res_bind (elements_of out) (\<lambda>items. Inr (PList (List.map_filter trend_row items))), w1)))"

section \<open>Days and hours\<close>

text \<open>An open market is a trading day; the test of the day needs no hours, and without an answer it says yes.\<close>

theorem open_market_is_trading_day:
  assumes "fst (check_market_open N A T w) = Inr True"
  shows "fst (is_trading_day N A (mc_weekday T, mc_today T) w) = Inr True \<and> regular_hours T"
proof -
  have h: "regular_hours T" using assms by (cases "ka_mock A") (auto simp: check_market_open_def split: if_splits)
  then have "mc_weekday T \<le> 4" by (simp add: regular_hours_def)
  with assms h show ?thesis
    by (auto simp: check_market_open_def is_trading_day_def opt_or_def split: if_splits prod.splits option.splits)
qed

lemma open_market_is_trading_day_witness:
  "fst (is_trading_day \<lparr>nt_send = \<lambda>_ _ s. (Connection_Failed, s), nt_token = \<lambda>_ s. (Inr None, s)\<rparr> \<lparr>ka_mock = True, ka_prefix = [], ka_suffix = []\<rparr>
     (2, ''20260107'') \<lparr>ks_server = (), ks_token = None, ks_sent = []\<rparr>) = Inr True"
  using open_market_is_trading_day [where T = "\<lparr>mc_weekday = 2, mc_hour = 10, mc_minute = 0, mc_today = ''20260107'', mc_time = ''100000'',
      mc_days_ago = \<lambda>_. [], mc_iso = \<lambda>_. None, mc_instant = \<lambda>_ _. None, mc_given = \<lambda>_. None\<rparr>"
      and A = "\<lparr>ka_mock = True, ka_prefix = [], ka_suffix = []\<rparr>" and w = "\<lparr>ks_server = (), ks_token = None, ks_sent = []\<rparr>"
      and N = "\<lparr>nt_send = \<lambda>_ _ s. (Connection_Failed, s), nt_token = \<lambda>_ s. (Inr None, s)\<rparr>"]
  by (simp add: check_market_open_def regular_hours_def)

end
