(* ===== verification/KIS_Gateway.thy ===== *)
theory KIS_Gateway
  imports KIS_Market
begin

text \<open>
  The gateway to the broker, \<open>services/kis-gateway/main.py\<close>, and its client,
  \<open>shared/kis/gateway_client.py\<close>: the endpoints that place and cancel orders, read balances and
  market data, with the counters of the requests and the one circuit breaker around every call of the broker. The
  breaker (\<open>pybreaker\<close>), the decision of the rate limiter (\<open>flask-limiter\<close>) and the daily prices of the database are
  parameters; a request between client and gateway may get lost on either way. The
  tokens, the price stream, the history of requests and the number of trips are left out.
\<close>

section \<open>The circuit breaker\<close>

text \<open>
  \<open>pb_admits\<close>: is a call let through; \<open>pb_success\<close> and \<open>pb_failure\<close> after it; a failure may raise
  \<open>CircuitBreakerError\<close> in place of the exception of the call. An excluded exception counts as a
  success.
\<close>

record 'b pybreaker =
  pb_admits :: "'b \<Rightarrow> bool \<times> 'b"
  pb_success :: "'b \<Rightarrow> 'b"
  pb_failure :: "'b \<Rightarrow> bool \<times> 'b"

definition excluded :: "exn \<Rightarrow> bool" where
  "excluded e = (case e of KeyError _ \<Rightarrow> True | ValueError \<Rightarrow> True | _ \<Rightarrow> False)"

record ('s, 'b) gateway =
  gw_kis :: "'s kis"
  gw_breaker :: 'b
  gw_total :: nat
  gw_successful :: nat
  gw_failed :: nat
  gw_limited :: nat

text \<open>\<open>None\<close>: \<open>CircuitBreakerError\<close>.\<close>

definition call_kis_api_with_breaker ::
  "'b pybreaker \<Rightarrow> ('s kis \<Rightarrow> 'a res \<times> 's kis) \<Rightarrow> ('s, 'b) gateway \<Rightarrow> 'a res option \<times> ('s, 'b) gateway" where
  "call_kis_api_with_breaker P api_func g = (case pb_admits P (gw_breaker g) of
     (False, b) \<Rightarrow> (None, g\<lparr>gw_breaker := b\<rparr>)
   | (True, b) \<Rightarrow> (case api_func (gw_kis g) of
       (Inr x, k) \<Rightarrow> (Some (Inr x), g\<lparr>gw_kis := k, gw_breaker := pb_success P b\<rparr>)
     | (Inl e, k) \<Rightarrow> if excluded e then (Some (Inl e), g\<lparr>gw_kis := k, gw_breaker := pb_success P b\<rparr>)
         else (case pb_failure P b of (tripped, b') \<Rightarrow>
           (if tripped then None else Some (Inl e), g\<lparr>gw_kis := k, gw_breaker := b'\<rparr>))))"

section \<open>Endpoints\<close>

text \<open>The body of an answer, or the HTTP status of a refusal.\<close>

datatype 'a gw_reply = Reply 'a | Refused nat

text \<open>
  The handlers share one shape: count the request, check its fields (400), call the broker
  behind the breaker (503 when it is open, 500 on an exception), and judge the result (500).
\<close>

definition endpoint ::
  "'b pybreaker \<Rightarrow> bool \<Rightarrow> ('s kis \<Rightarrow> 'a res \<times> 's kis) \<Rightarrow> ('a \<Rightarrow> bool) \<Rightarrow> ('s, 'b) gateway
     \<Rightarrow> 'a gw_reply \<times> ('s, 'b) gateway" where
  "endpoint P valid api_func good g =
     (let g1 = g\<lparr>gw_total := gw_total g + 1\<rparr>
      in if \<not> valid then (Refused 400, g1\<lparr>gw_failed := gw_failed g1 + 1\<rparr>)
         else (case call_kis_api_with_breaker P api_func g1 of
             (None, g2) \<Rightarrow> (Refused 503, g2\<lparr>gw_failed := gw_failed g2 + 1\<rparr>)
           | (Some (Inl e), g2) \<Rightarrow> (Refused 500, g2\<lparr>gw_failed := gw_failed g2 + 1\<rparr>)
           | (Some (Inr x), g2) \<Rightarrow> if good x then (Reply x, g2\<lparr>gw_successful := gw_successful g2 + 1\<rparr>)
               else (Refused 500, g2\<lparr>gw_failed := gw_failed g2 + 1\<rparr>)))"

text \<open>A request over the limit is counted apart and answered 429.\<close>

definition limited :: "bool \<Rightarrow> (('s, 'b) gateway \<Rightarrow> 'a gw_reply \<times> ('s, 'b) gateway) \<Rightarrow> ('s, 'b) gateway
    \<Rightarrow> 'a gw_reply \<times> ('s, 'b) gateway" where
  "limited allowed h g = (if allowed then h g else (Refused 429, g\<lparr>gw_limited := gw_limited g + 1\<rparr>))"

definition place_buy_endpoint ::
  "'b pybreaker \<Rightarrow> 's net \<Rightarrow> kis_account \<Rightarrow> bool \<Rightarrow> string \<Rightarrow> int \<Rightarrow> int \<Rightarrow> ('s, 'b) gateway \<Rightarrow> pyval gw_reply \<times> ('s, 'b) gateway" where
  "place_buy_endpoint P N A allowed stock_code quantity price =
     limited allowed (endpoint P (stock_code \<noteq> [] \<and> quantity \<noteq> 0) (kis_place_order N A Buy_Side stock_code quantity price) truthy)"

definition place_sell_endpoint ::
  "'b pybreaker \<Rightarrow> 's net \<Rightarrow> kis_account \<Rightarrow> bool \<Rightarrow> string \<Rightarrow> int \<Rightarrow> int \<Rightarrow> ('s, 'b) gateway \<Rightarrow> pyval gw_reply \<times> ('s, 'b) gateway" where
  "place_sell_endpoint P N A allowed stock_code quantity price =
     limited allowed (endpoint P (stock_code \<noteq> [] \<and> quantity \<noteq> 0) (kis_place_order N A Sell_Side stock_code quantity price) truthy)"

definition returns :: "'a \<times> 'w \<Rightarrow> 'a res \<times> 'w" where
  "returns r = (case r of (x, w) \<Rightarrow> (Inr x, w))"

definition cancel_endpoint ::
  "'b pybreaker \<Rightarrow> 's net \<Rightarrow> kis_account \<Rightarrow> bool \<Rightarrow> string \<Rightarrow> int \<Rightarrow> ('s, 'b) gateway \<Rightarrow> bool gw_reply \<times> ('s, 'b) gateway" where
  "cancel_endpoint P N A allowed order_no quantity =
     limited allowed (endpoint P (order_no \<noteq> []) (\<lambda>k. returns (kis_cancel_order N A order_no quantity k)) (\<lambda>_. True))"

definition balance_endpoint ::
  "'b pybreaker \<Rightarrow> 's net \<Rightarrow> kis_account \<Rightarrow> bool \<Rightarrow> ('s, 'b) gateway \<Rightarrow> account_holding list gw_reply \<times> ('s, 'b) gateway" where
  "balance_endpoint P N A allowed = limited allowed (endpoint P True (get_account_balance N A) (\<lambda>_. True))"

definition cash_endpoint ::
  "'b pybreaker \<Rightarrow> 's net \<Rightarrow> kis_account \<Rightarrow> bool \<Rightarrow> ('s, 'b) gateway \<Rightarrow> rat gw_reply \<times> ('s, 'b) gateway" where
  "cash_endpoint P N A allowed = limited allowed (endpoint P True (kis_cash_balance N A) (\<lambda>_. True))"

section \<open>Market data\<close>

text \<open>A request turned down before the broker is called.\<close>

definition rejected :: "nat \<Rightarrow> ('s, 'b) gateway \<Rightarrow> 'a gw_reply \<times> ('s, 'b) gateway" where
  "rejected status g = (Refused status, g\<lparr>gw_total := gw_total g + 1, gw_failed := gw_failed g + 1\<rparr>)"

definition snapshot_endpoint ::
  "'b pybreaker \<Rightarrow> 's net \<Rightarrow> kis_account \<Rightarrow> bool \<Rightarrow> string \<Rightarrow> bool \<Rightarrow> ('s, 'b) gateway \<Rightarrow> pyval gw_reply \<times> ('s, 'b) gateway" where
  "snapshot_endpoint P N A allowed stock_code is_index =
     limited allowed (endpoint P (stock_code \<noteq> []) (get_stock_snapshot N A stock_code is_index) (\<lambda>v. v \<noteq> PNone))"

text \<open>The interval is converted first, and used for nothing else.\<close>

definition minute_chart_endpoint ::
  "'b pybreaker \<Rightarrow> 's net \<Rightarrow> market_clock \<Rightarrow> bool \<Rightarrow> string \<Rightarrow> string \<Rightarrow> pyval \<Rightarrow> ('s, 'b) gateway \<Rightarrow> pyval gw_reply \<times> ('s, 'b) gateway" where
  "minute_chart_endpoint P N T allowed stock_code target_date minute_interval = limited allowed
     (case int_of_value minute_interval of
        Inl _ \<Rightarrow> rejected 500
      | Inr _ \<Rightarrow> endpoint P (stock_code \<noteq> [])
          (get_stock_minute_prices N T stock_code (if target_date = [] then mc_today T else target_date)) (\<lambda>_. True))"

text \<open>
  Daily prices: the index and more than thirty days come from the database only; a call that fails, also one the
  breaker refuses, falls back to it (\<open>db\<close>: nothing when it has none or cannot be asked).
\<close>

definition daily_prices_endpoint ::
  "'b pybreaker \<Rightarrow> 's net \<Rightarrow> market_clock \<Rightarrow> (string \<Rightarrow> int \<Rightarrow> pyval option) \<Rightarrow> bool \<Rightarrow> string \<Rightarrow> int \<Rightarrow> ('s, 'b) gateway
     \<Rightarrow> pyval gw_reply \<times> ('s, 'b) gateway" where
  "daily_prices_endpoint P N T db allowed stock_code num_days = limited allowed (\<lambda>g.
     if stock_code = [] then rejected 400 g
     else (let g1 = g\<lparr>gw_total := gw_total g + 1\<rparr>;
               (api, g2) = (if stock_code = ''0001'' \<or> 30 < num_days then (None, g1)
                 else (case call_kis_api_with_breaker P (get_stock_daily_prices N T stock_code num_days) g1 of
                     (Some (Inr v), g2) \<Rightarrow> (if v = PNone \<or> v = PList [] then None else Some v, g2)
                   | (_, g2) \<Rightarrow> (None, g2)))
           in case (case api of None \<Rightarrow> db stock_code num_days | Some v \<Rightarrow> Some v) of
                None \<Rightarrow> (Refused 500, g2\<lparr>gw_failed := gw_failed g2 + 1\<rparr>)
              | Some v \<Rightarrow> (Reply v, g2\<lparr>gw_successful := gw_successful g2 + 1\<rparr>)))"

definition investor_trend_endpoint ::
  "'b pybreaker \<Rightarrow> 's net \<Rightarrow> market_clock \<Rightarrow> bool \<Rightarrow> string \<Rightarrow> string option \<Rightarrow> string option \<Rightarrow> ('s, 'b) gateway
     \<Rightarrow> pyval gw_reply \<times> ('s, 'b) gateway" where
  "investor_trend_endpoint P N T allowed stock_code start_date end_date =
     limited allowed (endpoint P (stock_code \<noteq> []) (get_investor_trend N T stock_code start_date end_date) (\<lambda>v. v \<noteq> PNone))"

text \<open>The given date, or today; a text that is no date is refused before the broker is called.\<close>

definition trading_day_endpoint ::
  "'b pybreaker \<Rightarrow> 's net \<Rightarrow> kis_account \<Rightarrow> market_clock \<Rightarrow> bool \<Rightarrow> string option \<Rightarrow> ('s, 'b) gateway \<Rightarrow> bool gw_reply \<times> ('s, 'b) gateway" where
  "trading_day_endpoint P N A T allowed date = limited allowed
     (case (case date of Some (c # cs) \<Rightarrow> mc_given T (c # cs) | _ \<Rightarrow> Some (mc_weekday T, mc_today T)) of
        None \<Rightarrow> rejected 500
      | Some day \<Rightarrow> endpoint P True (is_trading_day N A day) (\<lambda>_. True))"

definition market_open_endpoint ::
  "'b pybreaker \<Rightarrow> 's net \<Rightarrow> kis_account \<Rightarrow> market_clock \<Rightarrow> bool \<Rightarrow> ('s, 'b) gateway \<Rightarrow> bool gw_reply \<times> ('s, 'b) gateway" where
  "market_open_endpoint P N A T allowed = limited allowed (endpoint P True (check_market_open N A T) (\<lambda>_. True))"

section \<open>The client\<close>

text \<open>A request is answered, is lost on its way, or its answer comes too late.\<close>

datatype delivery = Delivered | Request_Lost | Answer_Lost

definition gateway_request ::
  "delivery \<Rightarrow> (('s, 'b) gateway \<Rightarrow> 'a gw_reply \<times> ('s, 'b) gateway) \<Rightarrow> ('s, 'b) gateway \<Rightarrow> 'a option \<times> ('s, 'b) gateway" where
  "gateway_request d h g = (case d of
     Request_Lost \<Rightarrow> (None, g)
   | Answer_Lost \<Rightarrow> (None, snd (h g))
   | Delivered \<Rightarrow> (case h g of (Reply x, g') \<Rightarrow> (Some x, g') | (Refused _, g') \<Rightarrow> (None, g')))"

definition client_buy_order ::
  "delivery \<Rightarrow> 'b pybreaker \<Rightarrow> 's net \<Rightarrow> kis_account \<Rightarrow> bool \<Rightarrow> string \<Rightarrow> int \<Rightarrow> int \<Rightarrow> ('s, 'b) gateway
     \<Rightarrow> pyval option \<times> ('s, 'b) gateway" where
  "client_buy_order d P N A allowed stock_code quantity price =
     gateway_request d (place_buy_endpoint P N A allowed stock_code quantity price)"

definition client_sell_order ::
  "delivery \<Rightarrow> 'b pybreaker \<Rightarrow> 's net \<Rightarrow> kis_account \<Rightarrow> bool \<Rightarrow> string \<Rightarrow> int \<Rightarrow> int \<Rightarrow> ('s, 'b) gateway
     \<Rightarrow> pyval option \<times> ('s, 'b) gateway" where
  "client_sell_order d P N A allowed stock_code quantity price =
     gateway_request d (place_sell_endpoint P N A allowed stock_code quantity price)"

definition client_cancel_order ::
  "delivery \<Rightarrow> 'b pybreaker \<Rightarrow> 's net \<Rightarrow> kis_account \<Rightarrow> bool \<Rightarrow> string \<Rightarrow> int \<Rightarrow> ('s, 'b) gateway
     \<Rightarrow> bool \<times> ('s, 'b) gateway" where
  "client_cancel_order d P N A allowed order_no quantity g =
     (case gateway_request d (cancel_endpoint P N A allowed order_no quantity) g of
        (Some cancelled, g') \<Rightarrow> (cancelled, g') | (None, g') \<Rightarrow> (False, g'))"

definition client_account_balance ::
  "delivery \<Rightarrow> 'b pybreaker \<Rightarrow> 's net \<Rightarrow> kis_account \<Rightarrow> bool \<Rightarrow> ('s, 'b) gateway
     \<Rightarrow> account_holding list option \<times> ('s, 'b) gateway" where
  "client_account_balance d P N A allowed = gateway_request d (balance_endpoint P N A allowed)"

definition client_cash_balance ::
  "delivery \<Rightarrow> 'b pybreaker \<Rightarrow> 's net \<Rightarrow> kis_account \<Rightarrow> bool \<Rightarrow> ('s, 'b) gateway \<Rightarrow> rat \<times> ('s, 'b) gateway" where
  "client_cash_balance d P N A allowed g = (case gateway_request d (cash_endpoint P N A allowed) g of
     (Some x, g') \<Rightarrow> (x, g') | (None, g') \<Rightarrow> (0, g'))"

section \<open>Counters\<close>

text \<open>The requests of the clients to all endpoints behind the breaker.\<close>

datatype kis_call =
    Call_Buy string int int
  | Call_Sell string int int
  | Call_Cancel string int
  | Call_Balance
  | Call_Cash
  | Call_Snapshot string bool
  | Call_Minutes string string pyval
  | Call_Daily string int
  | Call_Trend string "string option" "string option"
  | Call_Trading_Day "string option"
  | Call_Market_Open

text \<open>A request, what happens to it on its way, whether the limiter lets it pass, and the time it is handled at.\<close>

definition gateway_step ::
  "'b pybreaker \<Rightarrow> 's net \<Rightarrow> kis_account \<Rightarrow> (string \<Rightarrow> int \<Rightarrow> pyval option) \<Rightarrow> delivery \<times> bool \<times> market_clock \<times> kis_call
     \<Rightarrow> ('s, 'b) gateway \<Rightarrow> ('s, 'b) gateway" where
  "gateway_step P N A db = (\<lambda>(d, allowed, T, c) g. case c of
     Call_Buy code qty price \<Rightarrow> snd (client_buy_order d P N A allowed code qty price g)
   | Call_Sell code qty price \<Rightarrow> snd (client_sell_order d P N A allowed code qty price g)
   | Call_Cancel no qty \<Rightarrow> snd (client_cancel_order d P N A allowed no qty g)
   | Call_Balance \<Rightarrow> snd (client_account_balance d P N A allowed g)
   | Call_Cash \<Rightarrow> snd (client_cash_balance d P N A allowed g)
   | Call_Snapshot code is_index \<Rightarrow> snd (gateway_request d (snapshot_endpoint P N A allowed code is_index) g)
   | Call_Minutes code target interval \<Rightarrow> snd (gateway_request d (minute_chart_endpoint P N T allowed code target interval) g)
   | Call_Daily code days \<Rightarrow> snd (gateway_request d (daily_prices_endpoint P N T db allowed code days) g)
   | Call_Trend code from until \<Rightarrow> snd (gateway_request d (investor_trend_endpoint P N T allowed code from until) g)
   | Call_Trading_Day date \<Rightarrow> snd (gateway_request d (trading_day_endpoint P N A T allowed date) g)
   | Call_Market_Open \<Rightarrow> snd (gateway_request d (market_open_endpoint P N A T allowed) g))"

definition all_counted :: "('s, 'b) gateway \<Rightarrow> bool" where
  "all_counted g \<longleftrightarrow> gw_total g = gw_successful g + gw_failed g"

text \<open>What holds after an endpoint holds after every delivery of a request to it.\<close>

lemma delivered_keeps:
  assumes "I g" "I (snd (h g))"
  shows "I (snd (gateway_request d h g))"
  using assms by (cases d) (auto simp: gateway_request_def split: prod.split gw_reply.split)

lemma snd_cancel: "snd (client_cancel_order d P N A allowed no qty g)
    = snd (gateway_request d (cancel_endpoint P N A allowed no qty) g)"
  "snd (client_cash_balance d P N A allowed g) = snd (gateway_request d (cash_endpoint P N A allowed) g)"
  by (simp_all add: client_cancel_order_def client_cash_balance_def split: prod.split option.split)

lemma call_counters:
  "call_kis_api_with_breaker P f g = (r, g2) \<Longrightarrow>
     gw_total g2 = gw_total g \<and> gw_successful g2 = gw_successful g \<and> gw_failed g2 = gw_failed g"
  by (auto simp: call_kis_api_with_breaker_def split: prod.splits bool.splits sum.splits if_splits)

lemma endpoint_counted: "all_counted g \<Longrightarrow> all_counted (snd (endpoint P valid f good g))"
proof -
  assume g: "all_counted g"
  obtain r g2 where 1: "call_kis_api_with_breaker P f (g\<lparr>gw_total := gw_total g + 1\<rparr>) = (r, g2)" by fastforce
  from call_counters [OF 1] g show ?thesis
    unfolding endpoint_def Let_def 1 by (auto simp: all_counted_def split: option.split sum.split)
qed

lemma limited_counted: "all_counted g \<Longrightarrow> all_counted (snd (limited allowed (endpoint P valid f good) g))"
  by (simp add: limited_def endpoint_counted) (simp add: all_counted_def)

lemma rejected_counted: "all_counted g \<Longrightarrow> all_counted (snd (limited allowed (rejected status) g))"
  by (simp add: limited_def rejected_def all_counted_def)

lemma daily_counted: "all_counted g \<Longrightarrow> all_counted (snd (daily_prices_endpoint P N T db allowed code days g))"
proof -
  assume g: "all_counted g"
  obtain r g2 where 1: "call_kis_api_with_breaker P (get_stock_daily_prices N T code days) (g\<lparr>gw_total := gw_total g + 1\<rparr>) = (r, g2)" by fastforce
  from call_counters [OF 1] g show ?thesis
    unfolding daily_prices_endpoint_def limited_def Let_def 1
    by (auto simp: rejected_def all_counted_def split: option.split sum.split)
qed

lemma market_counted:
  assumes "all_counted g"
  shows "all_counted (snd (snapshot_endpoint P N A allowed code is_index g))"
    "all_counted (snd (minute_chart_endpoint P N T allowed code target interval g))"
    "all_counted (snd (investor_trend_endpoint P N T allowed code from until g))"
    "all_counted (snd (trading_day_endpoint P N A T allowed date g))"
    "all_counted (snd (market_open_endpoint P N A T allowed g))"
  using assms unfolding snapshot_endpoint_def minute_chart_endpoint_def investor_trend_endpoint_def trading_day_endpoint_def market_open_endpoint_def
  by (simp_all add: limited_counted rejected_counted split: sum.split option.split list.split)

text \<open>Every request that reaches a handler is counted as a success or as a failure.\<close>

theorem requests_counted: "all_counted g \<Longrightarrow> all_counted (fold (gateway_step P N A db) cs g)"
proof (induction cs arbitrary: g)
  case (Cons c cs)
  obtain d allowed T k where c: "c = (d, allowed, T, k)" by (cases c)
  have "all_counted (gateway_step P N A db c g)"
    by (cases k) (simp_all add: c gateway_step_def snd_cancel client_buy_order_def client_sell_order_def client_account_balance_def
      place_buy_endpoint_def place_sell_endpoint_def cancel_endpoint_def balance_endpoint_def cash_endpoint_def
      delivered_keeps [where I = all_counted] Cons.prems limited_counted market_counted daily_counted)
  with Cons.IH show ?case by simp
qed simp

section \<open>What the client knows of an order\<close>

lemma place_order_sent:
  assumes "fst (kis_place_order N A side code qty price k) = Inr v" "truthy v"
  shows "order_request A side code qty price \<in> set (ks_sent (snd (kis_place_order N A side code qty price k)))"
proof -
  let ?q = "order_request A side code qty price"
  obtain n where n: "ks_sent (snd (safe_request N ?q k)) = ks_sent k @ replicate n ?q"
    "\<And>v. fst (safe_request N ?q k) = Some v \<Longrightarrow> 0 < n" using safe_request_sent by blast
  obtain r k1 where r: "safe_request N ?q k = (r, k1)" by fastforce
  with assms obtain x where "r = Some x" by (cases r) (auto simp: kis_place_order_def)
  moreover from this r have "snd (kis_place_order N A side code qty price k) = k1" by (simp add: kis_place_order_def)
  ultimately show ?thesis using n r by simp
qed

text \<open>An order number that reaches the client stands for an order that was sent.\<close>

theorem order_number_was_sent:
  assumes "client_buy_order d P N A allowed code qty price g = (Some v, g')"
  shows "d = Delivered \<and> allowed \<and> truthy v
    \<and> order_request A Buy_Side code qty price \<in> set (ks_sent (gw_kis g'))"
proof -
  from assms have d: "d = Delivered" by (cases d) (simp_all add: client_buy_order_def gateway_request_def)
  with assms have 1: "place_buy_endpoint P N A allowed code qty price g = (Reply v, g')"
    by (auto simp: client_buy_order_def gateway_request_def split: prod.splits gw_reply.splits)
  then have a: "allowed" by (auto simp: place_buy_endpoint_def limited_def split: if_splits)
  let ?f = "kis_place_order N A Buy_Side code qty price" and ?g1 = "g\<lparr>gw_total := gw_total g + 1\<rparr>"
  obtain r g2 where c: "call_kis_api_with_breaker P ?f ?g1 = (r, g2)" by fastforce
  from 1 a c have 2: "r = Some (Inr v)" "truthy v" "gw_kis g' = gw_kis g2"
    by (auto simp: place_buy_endpoint_def limited_def endpoint_def Let_def split: if_splits option.splits sum.splits)
  from c 2(1) have "fst (?f (gw_kis g)) = Inr v" "gw_kis g2 = snd (?f (gw_kis g))"
    by (auto simp: call_kis_api_with_breaker_def split: prod.splits bool.splits sum.splits if_splits)
  with place_order_sent [OF _ 2(2)] 2 d a show ?thesis by simp
qed

section \<open>A broker out of service\<close>

text \<open>
  No answer, no readable one, or an error: a status from 400 on with any body, among them the blank failure 500 of a
  maintenance. No request to a silent server is answered in any other way.
\<close>

definition no_service :: "http_answer \<Rightarrow> bool" where
  "no_service a = (case a of Answered status (Json _) \<Rightarrow> 400 \<le> status \<and> status < 600 | _ \<Rightarrow> True)"

definition silent :: "'s net \<Rightarrow> bool" where
  "silent N \<longleftrightarrow> (\<forall>t q s. no_service (fst (nt_send N t q s)))"

lemma no_service_verdict: "no_service a \<Longrightarrow> judge_answer first tr_id a = Done None \<or> first \<and> (\<exists>why. judge_answer first tr_id a = Again why)"
  by (auto simp: no_service_def judge_answer_def split: http_answer.splits http_body.splits)

lemma silent_attempt:
  assumes "silent N"
  shows "fst (attempt_request N b q w) = Done None \<or> b \<and> (\<exists>why. fst (attempt_request N b q w) = Again why)"
proof -
  obtain r w1 where w1: "(if ks_token w = None then authenticate N True w else (Inr True, w)) = (r, w1)"
    by (cases "if ks_token w = None then authenticate N True w else (Inr True, w)") simp
  obtain a s where a: "nt_send N (ks_token w1) q (ks_server w1) = (a, s)" by fastforce
  have "no_service a" using assms a by (metis silent_def fst_conv)
  from no_service_verdict [OF this, of b "hq_tr_id q"] show ?thesis
    unfolding attempt_request_def w1 by (cases r) (auto simp: send_request_def a split: retry.split prod.split sum.split)
qed

lemma silent_request: assumes "silent N" shows "fst (safe_request N q w) = None"
proof -
  obtain v w1 where v: "attempt_request N True q w = (v, w1)" by fastforce
  obtain v' w2 where v': "attempt_request N False q w1 = (v', w2)" by fastforce
  show ?thesis using silent_attempt [OF assms, of True q w] silent_attempt [OF assms, of False q w1]
    by (auto simp: safe_request_def v v')
qed

text \<open>Over a silent server no call of the broker raises.\<close>

lemma silent_calls:
  assumes "silent N"
  shows "fst (kis_place_order N A side code qty price k) = Inr PNone" "fst (kis_cancel_order N A no qty k) = False"
    "fst (get_account_balance N A k) = Inr []" "fst (kis_cash_balance N A k) = Inr 0"
proof -
  note none = silent_request [OF assms]
  show "fst (kis_place_order N A side code qty price k) = Inr PNone"
    using none [of "order_request A side code qty price" k]
    by (cases "safe_request N (order_request A side code qty price) k") (simp add: kis_place_order_def)
  show "fst (kis_cancel_order N A no qty k) = False"
    using none [of "cancel_request A no" k] by (cases "safe_request N (cancel_request A no) k") (simp add: kis_cancel_order_def)
  show "fst (get_account_balance N A k) = Inr []"
    using none [of "balance_request A" k]
    by (cases "safe_request N (balance_request A) k") (simp add: get_account_balance_def accepted_def)
  have fb: "fst (cash_balance_fallback N A k) = Inr 0" for k
    using none [of "balance_request A" k]
    by (cases "safe_request N (balance_request A) k") (simp add: cash_balance_fallback_def accepted_def)
  show "fst (kis_cash_balance N A k) = Inr 0"
    using none [of "cash_request A" k] fb
    by (cases "safe_request N (cash_request A) k") (simp add: kis_cash_balance_def accepted_def)
qed

lemma silent_market:
  assumes "silent N"
  shows "\<exists>x. fst (get_stock_snapshot N A code is_index k) = Inr x" "\<exists>x. fst (get_stock_minute_prices N T code target k) = Inr x"
    "\<exists>x. fst (get_stock_daily_prices N T code days k) = Inr x" "\<exists>x. fst (get_investor_trend N T code from until k) = Inr x"
    "\<exists>x. fst (is_trading_day N A day k) = Inr x" "ka_mock A \<longrightarrow> regular_hours T \<Longrightarrow> \<exists>x. fst (check_market_open N A T k) = Inr x"
proof -
  have none: "\<exists>k'. safe_request N q k = (None, k')" for q k
    using silent_request [OF assms, of q k] by (cases "safe_request N q k") simp
  show "\<exists>x. fst (get_stock_snapshot N A code is_index k) = Inr x"
    using none [of "snapshot_request code is_index" k] by (auto simp: get_stock_snapshot_def output_of_def)
  show "\<exists>x. fst (get_stock_minute_prices N T code target k) = Inr x"
    using none [of "minute_request T code target" k] by (auto simp: get_stock_minute_prices_def)
  show "\<exists>x. fst (get_stock_daily_prices N T code days k) = Inr x"
    using none [of "daily_request T code days" k] by (auto simp: get_stock_daily_prices_def output_of_def)
  show "\<exists>x. fst (get_investor_trend N T code from until k) = Inr x"
    using none [of "trend_request T code from until" k] by (auto simp: get_investor_trend_def output_of_def)
  show "\<exists>x. fst (is_trading_day N A day k) = Inr x"
    using none [of "holiday_request (snd day)" k] by (cases day) (auto simp: is_trading_day_def)
  show "\<exists>x. fst (check_market_open N A T k) = Inr x" if "ka_mock A \<longrightarrow> regular_hours T"
    using none [of "holiday_request (mc_today T)" k] that by (auto simp: check_market_open_def)
qed

definition closed_breaker :: "'b pybreaker \<Rightarrow> ('b \<Rightarrow> bool) \<Rightarrow> bool" where
  "closed_breaker P isclosed \<longleftrightarrow> (\<forall>b. isclosed b \<longrightarrow> fst (pb_admits P b) \<and> isclosed (snd (pb_admits P b)) \<and> isclosed (pb_success P b))"

lemma quiet_call:
  assumes "closed_breaker P isclosed" "isclosed (gw_breaker g)" "\<And>k. \<exists>x. fst (f k) = Inr x"
  obtains x g2 where "call_kis_api_with_breaker P f g = (Some (Inr x), g2)" "isclosed (gw_breaker g2)" "fst (f (gw_kis g)) = Inr x"
proof -
  obtain y b where b: "pb_admits P (gw_breaker g) = (y, b)" by (cases "pb_admits P (gw_breaker g)") simp
  from assms(1,2) have "fst (pb_admits P (gw_breaker g))" "isclosed (snd (pb_admits P (gw_breaker g)))"
    by (simp_all add: closed_breaker_def)
  with b assms(1) have ok: "y" "isclosed (pb_success P b)" by (simp_all add: closed_breaker_def)
  obtain r k where f: "f (gw_kis g) = (r, k)" by (cases "f (gw_kis g)") simp
  with assms(3) [of "gw_kis g"] obtain x where "r = Inr x" by auto
  with b ok f show ?thesis by (intro that [of x "g\<lparr>gw_kis := k, gw_breaker := pb_success P b\<rparr>"])
    (simp_all add: call_kis_api_with_breaker_def)
qed

lemma quiet_endpoint:
  assumes "closed_breaker P isclosed" "isclosed (gw_breaker g)" "\<And>k. \<exists>x. fst (f k) = Inr x"
  shows "isclosed (gw_breaker (snd (limited allowed (endpoint P valid f good) g)))"
proof -
  let ?g1 = "g\<lparr>gw_total := gw_total g + 1\<rparr>"
  have "isclosed (gw_breaker ?g1)" using assms(2) by simp
  obtain x g2 where "call_kis_api_with_breaker P f ?g1 = (Some (Inr x), g2)" "isclosed (gw_breaker g2)"
    by (rule quiet_call [OF assms(1) \<open>isclosed (gw_breaker ?g1)\<close> assms(3)])
  with assms(2) show ?thesis unfolding limited_def endpoint_def Let_def by simp
qed

text \<open>The endpoints of the market data keep a closed breaker closed, whatever the database answers.\<close>

lemma quiet_rejected: "isclosed (gw_breaker g) \<Longrightarrow> isclosed (gw_breaker (snd (limited allowed (rejected status) g)))"
  by (simp add: limited_def rejected_def)

lemma quiet_daily:
  assumes "closed_breaker P isclosed" "isclosed (gw_breaker g)" "silent N"
  shows "isclosed (gw_breaker (snd (daily_prices_endpoint P N T db allowed code days g)))"
proof -
  let ?g1 = "g\<lparr>gw_total := gw_total g + 1\<rparr>"
  have "isclosed (gw_breaker ?g1)" using assms(2) by simp
  obtain x g2 where "call_kis_api_with_breaker P (get_stock_daily_prices N T code days) ?g1 = (Some (Inr x), g2)" "isclosed (gw_breaker g2)"
    by (rule quiet_call [OF assms(1) \<open>isclosed (gw_breaker ?g1)\<close> silent_market(3) [OF assms(3)]])
  with assms(2) show ?thesis
    by (auto simp: daily_prices_endpoint_def limited_def rejected_def Let_def split: option.split)
qed

lemma quiet_market:
  assumes "closed_breaker P isclosed" "isclosed (gw_breaker g)" "silent N"
  shows "isclosed (gw_breaker (snd (snapshot_endpoint P N A allowed code is_index g)))"
    "isclosed (gw_breaker (snd (minute_chart_endpoint P N T allowed code target interval g)))"
    "isclosed (gw_breaker (snd (investor_trend_endpoint P N T allowed code from until g)))"
    "isclosed (gw_breaker (snd (trading_day_endpoint P N A T allowed date g)))"
    "ka_mock A \<longrightarrow> regular_hours T \<Longrightarrow> isclosed (gw_breaker (snd (market_open_endpoint P N A T allowed g)))"
  unfolding snapshot_endpoint_def minute_chart_endpoint_def investor_trend_endpoint_def trading_day_endpoint_def market_open_endpoint_def
  by (simp_all add: quiet_endpoint [OF assms(1,2)] quiet_rejected [where isclosed = isclosed, OF assms(2)] silent_market [OF assms(3)]
      split: sum.split option.split list.split)


text \<open>
  In the mock mode the check of the market hours opens the breaker: out of hours it reads an undefined variable, and
  the breaker counts the exception as a failure of the broker. Twenty checks in a row block every endpoint.
\<close>

theorem market_check_opens_breaker:
  assumes "ka_mock A" "\<not> regular_hours T" "P = \<lparr>pb_admits = \<lambda>n. (n < m, n), pb_success = \<lambda>_. 0, pb_failure = \<lambda>n. (m \<le> n + 1, n + 1)\<rparr>"
    and "gw_breaker g = b" "b + n \<le> m"
  shows "gw_breaker (fold (gateway_step P N A db) (replicate n (Delivered, True, T, Call_Market_Open)) g) = b + n"
  using assms(4,5)
proof (induction n arbitrary: g b)
  case (Suc n)
  have "gw_breaker (gateway_step P N A db (Delivered, True, T, Call_Market_Open) g) = b + 1"
    using assms(1-3) Suc.prems
    by (simp add: gateway_step_def gateway_request_def market_open_endpoint_def limited_def endpoint_def Let_def
        call_kis_api_with_breaker_def check_market_open_def excluded_def split: option.split)
  from Suc.IH [OF this] Suc.prems(2) show ?case by simp
qed simp

text \<open>An outage reads as an empty account, and as a cancellation that came too late.\<close>

lemma silent_balance:
  assumes "closed_breaker P isclosed" "silent N" "isclosed (gw_breaker g)"
  shows "fst (client_account_balance Delivered P N A True g) = Some []"
proof -
  have "isclosed (gw_breaker (g\<lparr>gw_total := gw_total g + 1\<rparr>))" using assms(3) by simp
  moreover have "\<exists>x. fst (get_account_balance N A k) = Inr x" for k using silent_calls(3) [OF assms(2)] by blast
  ultimately obtain x g2 where 1: "call_kis_api_with_breaker P (get_account_balance N A) (g\<lparr>gw_total := gw_total g + 1\<rparr>) = (Some (Inr x), g2)"
    "fst (get_account_balance N A (gw_kis (g\<lparr>gw_total := gw_total g + 1\<rparr>))) = Inr x" by (rule quiet_call [OF assms(1)])
  from 1(2) silent_calls(3) [OF assms(2)] have "x = []" by simp
  with 1(1) show ?thesis
    unfolding client_account_balance_def gateway_request_def balance_endpoint_def limited_def endpoint_def Let_def by simp
qed

lemma failed_cancel: "d \<noteq> Delivered \<or> \<not> allowed \<or> silent N \<Longrightarrow> fst (client_cancel_order d P N A allowed no qty g) = False"
proof -
  assume *: "d \<noteq> Delivered \<or> \<not> allowed \<or> silent N"
  let ?f = "\<lambda>k. returns (kis_cancel_order N A no qty k)" and ?g1 = "g\<lparr>gw_total := gw_total g + 1\<rparr>"
  obtain r g2 where c: "call_kis_api_with_breaker P ?f ?g1 = (r, g2)" by fastforce
  have no: "r \<noteq> Some (Inr True)" if "silent N"
  proof
    assume "r = Some (Inr True)"
    with c have "fst (?f (gw_kis ?g1)) = Inr True"
      by (auto simp: call_kis_api_with_breaker_def split: prod.splits bool.splits sum.splits if_splits)
    with silent_calls(2) [OF that, of A no qty "gw_kis ?g1"] show False by (simp add: returns_def split: prod.splits)
  qed
  have "fst (gateway_request d (cancel_endpoint P N A allowed no qty) g) \<noteq> Some True"
    unfolding gateway_request_def cancel_endpoint_def limited_def endpoint_def Let_def c using * no
    by (auto split: delivery.split option.split sum.split)
  then show ?thesis by (cases "gateway_request d (cancel_endpoint P N A allowed no qty) g") (auto simp: client_cancel_order_def split: option.split)
qed

section \<open>Concrete inputs\<close>

text \<open>A breaker that opens after \<open>fail_max\<close> failures in a row, without the way back.\<close>

definition counting_breaker :: "nat \<Rightarrow> nat pybreaker" where
  "counting_breaker fail_max = \<lparr>pb_admits = \<lambda>n. (n < fail_max, n), pb_success = \<lambda>_. 0, pb_failure = \<lambda>n. (fail_max \<le> n + 1, n + 1)\<rparr>"

definition silent_net :: "unit net" where
  "silent_net = \<lparr>nt_send = \<lambda>_ _ s. (Connection_Failed, s), nt_token = \<lambda>_ s. (Inr None, s)\<rparr>"

definition fresh_gateway :: "(unit, nat) gateway" where
  "fresh_gateway = \<lparr>gw_kis = \<lparr>ks_server = (), ks_token = Some ''t'', ks_sent = []\<rparr>, gw_breaker = 0, gw_total = 0,
     gw_successful = 0, gw_failed = 0, gw_limited = 0\<rparr>"

lemma outage_setting:
  "closed_breaker (counting_breaker 20) (\<lambda>n. n = 0)" "silent silent_net" "gw_breaker fresh_gateway = 0"
  by (simp_all add: closed_breaker_def counting_breaker_def silent_def silent_net_def no_service_def fresh_gateway_def)

definition morning :: market_clock where
  "morning = \<lparr>mc_weekday = 2, mc_hour = 7, mc_minute = 30, mc_today = ''20260107'', mc_time = ''073000'', mc_days_ago = \<lambda>_. ''20251208'',
     mc_iso = \<lambda>_. None, mc_instant = \<lambda>_ _. None, mc_given = \<lambda>_. None\<rparr>"


lemma market_check_opens_breaker_witness:
  "gw_breaker (fold (gateway_step (counting_breaker 20) silent_net \<lparr>ka_mock = True, ka_prefix = [], ka_suffix = []\<rparr> (\<lambda>_ _. None))
     (replicate 20 (Delivered, True, morning, Call_Market_Open)) fresh_gateway) = 20"
  using market_check_opens_breaker [where A = "\<lparr>ka_mock = True, ka_prefix = [], ka_suffix = []\<rparr>" and T = morning and m = 20 and b = 0 and n = 20
    and g = fresh_gateway and P = "counting_breaker 20" and N = silent_net and db = "\<lambda>_ _. None"]
  by (simp add: regular_hours_def morning_def counting_breaker_def fresh_gateway_def)

lemma order_number_was_sent_witness:
  "order_request \<lparr>ka_mock = False, ka_prefix = [], ka_suffix = []\<rparr> Buy_Side ''005930'' 3 0
     \<in> set (ks_sent (gw_kis (snd (client_buy_order Delivered (counting_breaker 20) slow_server \<lparr>ka_mock = False, ka_prefix = [], ka_suffix = []\<rparr>
        True ''005930'' 3 0 \<lparr>gw_kis = \<lparr>ks_server = [], ks_token = Some ''t'', ks_sent = []\<rparr>, gw_breaker = 0, gw_total = 0,
          gw_successful = 0, gw_failed = 0, gw_limited = 0\<rparr>))))"
  (is "?q \<in> set (ks_sent (gw_kis (snd ?r)))")
proof -
  have "fst ?r = Some (PStr ''2'')"
    by (simp add: client_buy_order_def gateway_request_def place_buy_endpoint_def limited_def endpoint_def call_kis_api_with_breaker_def
      counting_breaker_def kis_place_order_def safe_request_def attempt_request_def send_request_def slow_server_def judge_answer_def
      is_dict_def entry_of_def dict_get_def token_errors_def)
  then have "?r = (Some (PStr ''2''), snd ?r)" by (metis prod.collapse)
  from order_number_was_sent [OF this] show ?thesis by simp
qed

end
