(* ===== verification/Portfolio_Sync.thy ===== *)
theory Portfolio_Sync
  imports KIS_Gateway Trade_Ledger
begin

text \<open>
  The synchronisation of the ledger with the broker's account,
  \<open>utilities/sync_portfolio_from_account.py\<close>: the comparison of the holdings with the rows of
  \<open>ACTIVE_PORTFOLIO\<close>, the changes it makes, and the whole script. Sets of codes are gone through
  in some order; the model takes the order of the holdings and of the rows. The report is left out.
\<close>

section \<open>Comparison\<close>

text \<open>\<open>{h['code']: h for h in kis_holdings}\<close>: the last holding of a code counts.\<close>

definition kis_map :: "account_holding list \<Rightarrow> (string \<times> account_holding) list" where
  "kis_map hs = foldl (\<lambda>d h. dict_set (ah_code h) h d) [] hs"

record comparison =
  cp_only_in_kis :: "account_holding list"
  cp_only_in_db :: "string list"
  cp_quantity_mismatch :: "account_holding list"
  cp_price_mismatch :: "account_holding list"
  cp_matched :: "account_holding list"

definition qty_match :: "(string \<times> position) list \<Rightarrow> string \<times> account_holding \<Rightarrow> bool" where
  "qty_match ps = (\<lambda>(code, h). case map_of ps code of None \<Rightarrow> False | Some p \<Rightarrow> ah_quantity h = ps_quantity p)"

definition price_match :: "(string \<times> position) list \<Rightarrow> string \<times> account_holding \<Rightarrow> bool" where
  "price_match ps = (\<lambda>(code, h). case map_of ps code of None \<Rightarrow> False
     | Some p \<Rightarrow> abs (fsub (ah_avg_price h) (ps_average p)) < 1)"

definition compare_holdings :: "account_holding list \<Rightarrow> (string \<times> position) list \<Rightarrow> comparison" where
  "compare_holdings kis_holdings db_portfolio =
     (let ks = kis_map kis_holdings;
          both = filter (\<lambda>(code, h). map_of db_portfolio code \<noteq> None) ks
      in \<lparr>cp_only_in_kis = map snd (filter (\<lambda>(code, h). map_of db_portfolio code = None) ks),
          cp_only_in_db = filter (\<lambda>code. map_of ks code = None) (map fst db_portfolio),
          cp_quantity_mismatch = map snd (filter (\<lambda>x. \<not> qty_match db_portfolio x) both),
          cp_price_mismatch = map snd (filter (\<lambda>x. qty_match db_portfolio x \<and> \<not> price_match db_portfolio x) both),
          cp_matched = map snd (filter (\<lambda>x. qty_match db_portfolio x \<and> price_match db_portfolio x) both)\<rparr>)"

definition total_changes :: "comparison \<Rightarrow> nat" where
  "total_changes c = length (cp_only_in_db c) + length (cp_quantity_mismatch c) + length (cp_price_mismatch c)
     + length (cp_only_in_kis c)"

section \<open>Changes\<close>

definition update_row :: "(position \<Rightarrow> position) \<Rightarrow> (string \<times> position) list \<Rightarrow> string \<Rightarrow> (string \<times> position) list" where
  "update_row f ps code = (case map_of ps code of None \<Rightarrow> ps | Some p \<Rightarrow> dict_set code (f p) ps)"

definition set_quantity :: "account_holding \<Rightarrow> position \<Rightarrow> position" where
  "set_quantity h p = p\<lparr>ps_quantity := ah_quantity h, ps_average := ah_avg_price h,
     ps_total := fmul (of_py_int (ah_quantity h)) (ah_avg_price h)\<rparr>"

definition set_average :: "account_holding \<Rightarrow> position \<Rightarrow> position" where
  "set_average h p = p\<lparr>ps_average := ah_avg_price h, ps_total := fmul (of_py_int (ps_quantity p)) (ah_avg_price h)\<rparr>"

definition added_row :: "rat \<Rightarrow> account_holding \<Rightarrow> position" where
  "added_row now h = \<lparr>ps_name = ah_name h, ps_quantity = ah_quantity h, ps_average = ah_avg_price h,
     ps_total = fmul (of_py_int (ah_quantity h)) (ah_avg_price h), ps_stop_loss = fmul (ah_avg_price h) (fl (97/100)),
     ps_high = ah_current_price h, ps_created = now\<rparr>"

text \<open>The rows a commit would leave.\<close>

definition synced_rows :: "rat \<Rightarrow> comparison \<Rightarrow> (string \<times> position) list \<Rightarrow> (string \<times> position) list" where
  "synced_rows now c ps =
     (let ps1 = foldl (\<lambda>ps code. dict_pop code ps) ps (cp_only_in_db c);
          ps2 = foldl (\<lambda>ps h. update_row (set_quantity h) ps (ah_code h)) ps1 (cp_quantity_mismatch c);
          ps3 = foldl (\<lambda>ps h. update_row (set_average h) ps (ah_code h)) ps2 (cp_price_mismatch c)
      in foldl (\<lambda>ps h. dict_set (ah_code h) (added_row now h) ps) ps3 (cp_only_in_kis c))"

text \<open>A commit that fails is rolled back and raised.\<close>

definition apply_sync ::
  "rat \<Rightarrow> bool \<Rightarrow> comparison \<Rightarrow> bool \<Rightarrow> (string \<times> position) list \<Rightarrow> unit res \<times> (string \<times> position) list" where
  "apply_sync now commit_ok c dry_run ps =
     (if dry_run \<or> total_changes c = 0 then (Inr (), ps)
      else if commit_ok then (Inr (), synced_rows now c ps)
      else (Inl (DB_Error ''commit''), ps))"

section \<open>The script\<close>

definition get_kis_holdings :: "account_holding list option \<Rightarrow> account_holding list" where
  "get_kis_holdings answer = (case answer of None \<Rightarrow> [] | Some holdings \<Rightarrow> holdings)"

record sync_options =
  so_dry_run :: bool
  so_auto_confirm :: bool

text \<open>\<open>answer_yes\<close> is what the operator types when asked.\<close>

definition sync_main ::
  "rat \<Rightarrow> bool \<Rightarrow> sync_options \<Rightarrow> bool \<Rightarrow> account_holding list option \<Rightarrow> (string \<times> position) list
     \<Rightarrow> unit res \<times> (string \<times> position) list" where
  "sync_main now commit_ok opts answer_yes answer ps =
     (let kis_holdings = get_kis_holdings answer
      in if ps = [] \<and> kis_holdings = [] then (Inr (), ps)
         else (let c = compare_holdings kis_holdings ps
               in if total_changes c = 0 then (Inr (), ps)
                  else if so_dry_run opts then apply_sync now commit_ok c True ps
                  else if so_auto_confirm opts \<or> answer_yes then apply_sync now commit_ok c False ps
                  else (Inr (), ps)))"

section \<open>What a synchronisation leaves\<close>

lemma kis_map_code: "map_of (kis_map hs) code = Some h \<Longrightarrow> ah_code h = code"
proof -
  have "(\<And>c h. map_of d c = Some h \<Longrightarrow> ah_code h = c) \<Longrightarrow>
      map_of (foldl (\<lambda>d h. dict_set (ah_code h) h d) d hs) code = Some h \<Longrightarrow> ah_code h = code" for d
  proof (induction hs arbitrary: d)
    case (Cons a hs)
    show ?case
      by (rule Cons.IH [of "dict_set (ah_code a) a d"])
        (use Cons.prems in \<open>auto split: if_splits\<close>)
  qed simp
  from this [of "[]"] show "map_of (kis_map hs) code = Some h \<Longrightarrow> ah_code h = code" by (simp add: kis_map_def)
qed

lemma kis_map_distinct: "distinct (map fst (kis_map hs))"
proof -
  have "distinct (map fst d) \<Longrightarrow> distinct (map fst (foldl (\<lambda>d h. dict_set (ah_code h) h d) d hs))" for d
    by (induction hs arbitrary: d) auto
  from this [of "[]"] show ?thesis by (simp add: kis_map_def)
qed

lemma kis_map_set: "(code, h) \<in> set (kis_map hs) \<longleftrightarrow> map_of (kis_map hs) code = Some h"
  by (simp add: kis_map_distinct)

lemma pops: "map_of (foldl (\<lambda>ps code. dict_pop code ps) ps cs) code = (if code \<in> set cs then None else map_of ps code)"
  by (induction cs arbitrary: ps) auto

lemma updates:
  "distinct (map ah_code hs) \<Longrightarrow> map_of (foldl (\<lambda>ps h. update_row (f h) ps (ah_code h)) ps hs) code =
     (case find (\<lambda>h. ah_code h = code) hs of None \<Rightarrow> map_of ps code | Some h \<Rightarrow> map_option (f h) (map_of ps code))"
proof (induction hs arbitrary: ps)
  case (Cons h hs)
  have "find (\<lambda>h. ah_code h = ah_code h') hs = None" if "h' = h" for h'
    using Cons.prems that by (simp add: find_None_iff) (metis imageI)
  with Cons show ?case by (auto simp: update_row_def split: option.split)
qed simp

lemma additions:
  "distinct (map ah_code hs) \<Longrightarrow> map_of (foldl (\<lambda>ps h. dict_set (ah_code h) (g h) ps) ps hs) code =
     (case find (\<lambda>h. ah_code h = code) hs of None \<Rightarrow> map_of ps code | Some h \<Rightarrow> Some (g h))"
proof (induction hs arbitrary: ps)
  case (Cons h hs)
  have "find (\<lambda>h. ah_code h = ah_code h') hs = None" if "h' = h" for h'
    using Cons.prems that by (simp add: find_None_iff) (metis imageI)
  with Cons show ?case by (auto split: option.split)
qed simp


lemma part_codes: "map ah_code (map snd (filter P (kis_map hs))) = map fst (filter P (kis_map hs))"
  using kis_map_code [of hs] kis_map_set [of _ _ hs] by (auto simp: map_eq_conv)

lemma part_distinct: "distinct (map ah_code (map snd (filter P (kis_map hs))))"
  unfolding part_codes using kis_map_distinct by (simp add: distinct_map_filter)

lemma part_find: "find (\<lambda>h. ah_code h = code) (map snd (filter P (kis_map hs))) =
  (case map_of (kis_map hs) code of None \<Rightarrow> None | Some h \<Rightarrow> if P (code, h) then Some h else None)"
proof -
  have "find (\<lambda>h. ah_code h = code) (map snd (filter P ks)) =
      (case map_of ks code of None \<Rightarrow> None | Some h \<Rightarrow> if P (code, h) then Some h else None)"
    if "distinct (map fst ks)" "\<forall>(c, h) \<in> set ks. ah_code h = c" for ks
    using that
  proof (induction ks)
    case (Cons x ks)
    obtain c h where x: "x = (c, h)" by (cases x)
    have "find (\<lambda>h. ah_code h = code) (map snd (filter P ks)) = None" if "c = code"
      using Cons.prems that by (force simp: x find_None_iff)
    with Cons show ?case by (auto simp: x split: option.split)
  qed simp
  from this [OF kis_map_distinct [of hs]] kis_map_code [of hs] kis_map_set [of _ _ hs] show ?thesis by blast
qed

text \<open>The row of a code after the changes.\<close>

definition synced_row :: "rat \<Rightarrow> account_holding option \<Rightarrow> position option \<Rightarrow> position option" where
  "synced_row now h p = (case h of None \<Rightarrow> None
     | Some h \<Rightarrow> (case p of None \<Rightarrow> Some (added_row now h)
         | Some p \<Rightarrow> Some (if ah_quantity h \<noteq> ps_quantity p then set_quantity h p
             else if \<not> abs (fsub (ah_avg_price h) (ps_average p)) < 1 then set_average h p else p)))"

lemma synced_rows_row:
  "map_of (synced_rows now (compare_holdings hs ps) ps) code = synced_row now (map_of (kis_map hs) code) (map_of ps code)"
proof -
  have gone: "code \<in> set (filter (\<lambda>code. map_of (kis_map hs) code = None) (map fst ps))
      \<longleftrightarrow> map_of (kis_map hs) code = None \<and> map_of ps code \<noteq> None"
    by (auto simp: map_of_eq_None_iff)
  show ?thesis
    unfolding synced_rows_def compare_holdings_def Let_def comparison.select_convs
    apply (simp only: additions [OF part_distinct] part_find filter_filter updates [OF part_distinct] pops gone)
    by (auto simp: synced_row_def qty_match_def price_match_def split: option.split)
qed

lemma no_changes: "total_changes c = 0 \<Longrightarrow> synced_rows now c ps = ps"
  by (simp add: total_changes_def synced_rows_def)

lemma sync_rows:
  assumes "\<not> so_dry_run opts" "so_auto_confirm opts \<or> answer_yes" "commit_ok"
  shows "snd (sync_main now commit_ok opts answer_yes a ps) = synced_rows now (compare_holdings (get_kis_holdings a) ps) ps"
proof -
  have "total_changes (compare_holdings [] []) = 0" by (simp add: total_changes_def compare_holdings_def kis_map_def)
  with assms show ?thesis by (auto simp: sync_main_def Let_def apply_sync_def no_changes)
qed

lemma sync_matches_account':
  assumes "\<not> so_dry_run opts" and "so_auto_confirm opts \<or> answer_yes" and "commit_ok"
  shows "case map_of (kis_map hs) code of
      None \<Rightarrow> map_of (snd (sync_main now commit_ok opts answer_yes (Some hs) ps)) code = None
    | Some h \<Rightarrow> (\<exists>p. map_of (snd (sync_main now commit_ok opts answer_yes (Some hs) ps)) code = Some p
        \<and> ps_quantity p = ah_quantity h \<and> abs (fsub (ah_avg_price h) (ps_average p)) < 1)"
proof -
  have same: "fsub x x = 0" for x :: rat by (simp add: fsub_def)
  have row: "case map_of (kis_map hs) code of None \<Rightarrow> synced_row now None q = None
    | Some h \<Rightarrow> (\<exists>p. synced_row now (Some h) q = Some p
        \<and> ps_quantity p = ah_quantity h \<and> abs (fsub (ah_avg_price h) (ps_average p)) < 1)" for q
    by (auto simp: synced_row_def added_row_def set_quantity_def set_average_def same split: option.split)
  from row [of "map_of ps code"] show ?thesis
    unfolding sync_rows [OF assms] get_kis_holdings_def option.case synced_rows_row
    by (cases "map_of (kis_map hs) code") simp_all
qed

text \<open>
  Claim C34. A confirmed synchronisation makes the ledger agree with the account: a code has a
  row exactly if the account holds it, with the quantity of the account and an average price
  less than one won away from the account's: an average that close is left as it is.
\<close>

theorem sync_matches_account:
  assumes "\<not> so_dry_run opts" and "so_auto_confirm opts \<or> answer_yes" and "commit_ok"
  shows "case map_of (kis_map hs) code of
      None \<Rightarrow> map_of (snd (sync_main now commit_ok opts answer_yes (Some hs) ps)) code = None
    | Some h \<Rightarrow> (\<exists>p. map_of (snd (sync_main now commit_ok opts answer_yes (Some hs) ps)) code = Some p
        \<and> ps_quantity p = ah_quantity h \<and> abs (fsub (ah_avg_price h) (ps_average p)) < 1)"
  by (rule sync_matches_account' [OF assms])

text \<open>A second synchronisation against the same account finds nothing to change.\<close>

theorem sync_idempotent:
  assumes "\<not> so_dry_run opts" and "so_auto_confirm opts \<or> answer_yes" and "commit_ok"
  shows "total_changes (compare_holdings hs (snd (sync_main now commit_ok opts answer_yes (Some hs) ps))) = 0"
proof -
  let ?ps = "snd (sync_main now commit_ok opts answer_yes (Some hs) ps)"
  note row = sync_matches_account' [OF assms, where hs = hs and now = now and ps = ps]
  have none: "map_of ?ps code = None \<longleftrightarrow> map_of (kis_map hs) code = None" for code
    using row [where code = code] by (cases "map_of (kis_map hs) code") auto
  have good: "qty_match ?ps (code, h) \<and> price_match ?ps (code, h)" if "(code, h) \<in> set (kis_map hs)" for code h
    using row [where code = code] that by (auto simp: kis_map_set qty_match_def price_match_def)
  have "filter (\<lambda>(code, h). map_of ?ps code = None) (kis_map hs) = []"
    by (auto simp: filter_empty_conv none kis_map_set)
  moreover have "filter (\<lambda>code. map_of (kis_map hs) code = None) (map fst ?ps) = []"
    using none by (force simp: filter_empty_conv map_of_eq_None_iff)
  ultimately show ?thesis
    using good by (auto simp: total_changes_def compare_holdings_def Let_def filter_empty_conv)
qed


text \<open>
  Claim C35. When the broker cannot be reached the script deletes the whole ledger: the outage
  reads as an empty account, which the script takes for stocks that have been sold.
\<close>

theorem outage_deletes_ledger:
  assumes "closed_breaker P isclosed" and "silent N" and "isclosed (gw_breaker g)"
    and "\<not> so_dry_run opts" and "so_auto_confirm opts \<or> answer_yes" and "commit_ok"
  shows "map_of (snd (sync_main now commit_ok opts answer_yes
     (fst (client_account_balance Delivered P N A True g)) ps)) code = None"
  using sync_matches_account' [OF assms(4-6), where hs = "[]" and code = code and now = now and ps = ps]
  by (simp add: silent_balance [OF assms(1-3)] kis_map_def)

section \<open>Concrete inputs\<close>

definition sample_row :: position where
  "sample_row = \<lparr>ps_name = ''s'', ps_quantity = 10, ps_average = 1000, ps_total = 10000, ps_stop_loss = 970, ps_high = 1100,
     ps_created = 0\<rparr>"

definition held_stock :: account_holding where
  "held_stock = \<lparr>ah_code = ''005930'', ah_name = ''s'', ah_quantity = 7, ah_avg_price = 1000, ah_current_price = 1010\<rparr>"

lemma sync_matches_account_witness:
  "\<exists>p. map_of (snd (sync_main 0 True \<lparr>so_dry_run = False, so_auto_confirm = True\<rparr> False (Some [held_stock])
     [(''005930'', sample_row), (''000660'', sample_row)])) ''005930'' = Some p \<and> ps_quantity p = 7"
  using sync_matches_account [where opts = "\<lparr>so_dry_run = False, so_auto_confirm = True\<rparr>" and hs = "[held_stock]" and code = "''005930''" and now = 0
    and commit_ok = True and answer_yes = False and ps = "[(''005930'', sample_row), (''000660'', sample_row)]"]
  by (auto simp: kis_map_def held_stock_def)

lemma outage_deletes_ledger_witness:
  "map_of (snd (sync_main 0 True \<lparr>so_dry_run = False, so_auto_confirm = True\<rparr> False
     (fst (client_account_balance Delivered (counting_breaker 20) silent_net real_account True fresh_gateway))
     [(''005930'', sample_row), (''000660'', sample_row)])) ''005930'' = None"
  by (rule outage_deletes_ledger [OF outage_setting]) simp_all

end
