(* ===== verification/Order_Facts.thy ===== *)
theory Order_Facts
  imports Buy_Executor KIS_Gateway
begin

text \<open>
  The buy executor over the gateway: what becomes of an order whose cancellation gets no answer.
\<close>

text \<open>
  A limit order counts as filled when its cancellation fails, and a cancellation fails also when
  the gateway or the broker does not answer: the order is then recorded as a purchase whether a
  share was bought or not.
\<close>

theorem unanswered_cancel_counts_as_fill:
  assumes "use_limit C c" and "be_order EV = Inr (Some no)" and "no \<noteq> []"
    and "be_cancel EV = Inr (fst (client_cancel_order d P N A allowed no qty g))"
    and "d \<noteq> Delivered \<or> \<not> allowed \<or> silent N"
  shows "place_order C EV False c qty price w =
    (Next no, w\<lparr>bw_orders := bw_orders w @ [(cd_code c, qty, limit_price_of C price)]\<rparr>)"
  using assms failed_cancel [OF assms(5), of P A no qty g]
  by (simp add: place_order_def call_broker_def lift_res_def)

end
