(* ===== verification/Macro_Data.thy ===== *)
theory Macro_Data
  imports Py_Num
begin

text \<open>
  The global macro data: the points and the snapshot (\<open>shared/macro_data/models.py\<close>), the
  validation (\<open>validator.py\<close>) and the aggregation of the points of all sources into one snapshot
  (\<open>aggregator.py\<close>). Times are whole microseconds, and the clock stands still during one call.
  The clients that fetch the points are a parameter: the points arrive as a list. The optional
  numbers of a snapshot are kept by the name of their field, the texts of errors as data.
\<close>

section \<open>Data points\<close>

text \<open>
  A timestamp without a zone counts as UTC, but cannot be compared with one that has a zone. Of
  the metadata the program reads the numbers and the text \<open>risk_level\<close>.
\<close>

record data_point =
  dp_indicator :: string
  dp_value :: flt
  dp_time :: int
  dp_aware :: bool
  dp_source :: string
  dp_numbers :: "(string \<times> flt) list"
  dp_risk_level :: "string option"

datatype data_quality = FRESH | RECENT | STALE | EXPIRED

definition age_hours :: "int \<Rightarrow> data_point \<Rightarrow> rat" where
  "age_hours now p = fdiv (fl (of_int (now - dp_time p) / 1000000)) 3600"

definition quality_of :: "int \<Rightarrow> data_point \<Rightarrow> data_quality" where
  "quality_of now p = (let age = age_hours now p
     in if age \<le> 1 then FRESH else if age \<le> 6 then RECENT else if age \<le> 24 then STALE else EXPIRED)"

definition point_is_valid :: "int \<Rightarrow> int \<Rightarrow> data_point \<Rightarrow> bool" where
  "point_is_valid now max_age_hours p \<longleftrightarrow> age_hours now p \<le> of_int max_age_hours"

section \<open>Validation\<close>

record validator_config =
  vc_max_age_hours :: int
  vc_warning_age_hours :: int
  vc_indicator_max_age :: "(string \<times> int) list"
  vc_required :: "string list"
  vc_multi_source :: "string list"
  vc_ranges :: "(string \<times> rat \<times> rat) list"

definition default_validator :: validator_config where
  "default_validator = \<lparr>vc_max_age_hours = 24, vc_warning_age_hours = 6,
     vc_indicator_max_age = [(''spy'', 72), (''qqq'', 72), (''vxx'', 72), (''ewy'', 72), (''vix'', 72), (''kospi_index'', 72),
       (''kosdaq_index'', 72), (''usd_krw'', 72), (''usd_krw_bok'', 72), (''fed_rate'', 96), (''treasury_10y'', 96),
       (''treasury_2y'', 96), (''bok_rate'', 96), (''us_cpi_yoy'', 65 * 24), (''us_pce_yoy'', 65 * 24),
       (''us_unemployment'', 65 * 24), (''korea_cpi_yoy'', 65 * 24), (''korea_news_sentiment'', 6),
       (''global_news_sentiment'', 6)],
     vc_required = [''fed_rate'', ''vix'', ''usd_krw'', ''bok_rate'', ''kospi_index'', ''kosdaq_index''],
     vc_multi_source = [''usd_krw'', ''vix''],
     vc_ranges = [(''fed_rate'', 0, 20), (''bok_rate'', 0, 15), (''vix'', 5, 100), (''vxx'', 10, 200), (''usd_krw'', 900, 1800),
       (''kospi_index'', 1500, 6000), (''kosdaq_index'', 400, 1500), (''us_cpi_yoy'', -5, 20), (''korea_cpi_yoy'', -5, 20),
       (''spy'', 100, 1000), (''qqq'', 100, 1000), (''ewy'', 20, 200)]\<rparr>"

datatype data_issue =
    Too_Old string
  | Out_Of_Range string
  | In_Future string
  | Too_Many_Missing nat nat
  | Old_Data string
  | Required_Missing string
  | One_Source string

definition max_age_of :: "validator_config \<Rightarrow> string \<Rightarrow> int" where
  "max_age_of V k = dict_get (vc_indicator_max_age V) k (vc_max_age_hours V)"

definition in_range :: "validator_config \<Rightarrow> string \<Rightarrow> flt \<Rightarrow> bool" where
  "in_range V k x = (case map_of (vc_ranges V) k of None \<Rightarrow> True | Some (lo, hi) \<Rightarrow> xle (Fin lo) x \<and> xle x (Fin hi))"

definition point_errors :: "validator_config \<Rightarrow> int \<Rightarrow> data_point \<Rightarrow> data_issue list" where
  "point_errors V now p =
     (if \<not> point_is_valid now (max_age_of V (dp_indicator p)) p then [Too_Old (dp_indicator p)] else [])
     @ (if \<not> in_range V (dp_indicator p) (dp_value p) then [Out_Of_Range (dp_indicator p)] else [])
     @ (if now + 3600 * 1000000 < dp_time p then [In_Future (dp_indicator p)] else [])"

definition validate_data_point :: "validator_config \<Rightarrow> int \<Rightarrow> data_point \<Rightarrow> bool \<times> data_issue list" where
  "validate_data_point V now p = (point_errors V now p = [], point_errors V now p)"

record validation_result =
  vr_valid :: bool
  vr_errors :: "data_issue list"
  vr_warnings :: "data_issue list"
  vr_filtered :: "string list"
  vr_stale :: "string list"
  vr_missing :: "string list"

text \<open>One point: an age error goes to the stale indicators, the others to the errors.\<close>

definition validate_step :: "validator_config \<Rightarrow> int \<Rightarrow> validation_result \<Rightarrow> data_point \<Rightarrow> validation_result" where
  "validate_step V now r p =
     (case validate_data_point V now p of
        (False, errors) \<Rightarrow> r\<lparr>vr_filtered := vr_filtered r @ [dp_indicator p],
           vr_stale := vr_stale r @ (if Too_Old (dp_indicator p) \<in> set errors then [dp_indicator p] else []),
           vr_errors := vr_errors r @ filter (\<lambda>e. e \<noteq> Too_Old (dp_indicator p)) errors\<rparr>
      | (True, _) \<Rightarrow> if of_int (vc_warning_age_hours V) < age_hours now p
          then r\<lparr>vr_warnings := vr_warnings r @ [Old_Data (dp_indicator p)]\<rparr> else r)"

definition missing_required :: "validator_config \<Rightarrow> data_point list \<Rightarrow> string list" where
  "missing_required V ps = filter (\<lambda>k. k \<notin> dp_indicator ` set ps) (vc_required V)"

definition single_sourced :: "validator_config \<Rightarrow> data_point list \<Rightarrow> string list" where
  "single_sourced V ps = filter (\<lambda>k. (\<exists>p \<in> set ps. dp_indicator p = k)
     \<and> card (dp_source ` {p \<in> set ps. dp_indicator p = k}) < 2) (vc_multi_source V)"

definition validate_points :: "validator_config \<Rightarrow> int \<Rightarrow> data_point list \<Rightarrow> validation_result" where
  "validate_points V now ps =
     (let r1 = foldl (validate_step V now) \<lparr>vr_valid = True, vr_errors = [], vr_warnings = [], vr_filtered = [], vr_stale = [],
            vr_missing = []\<rparr> ps;
          missing = missing_required V ps;
          r2 = r1\<lparr>vr_missing := missing, vr_warnings := vr_warnings r1 @ map Required_Missing missing
            @ map One_Source (single_sourced V ps)\<rparr>;
          r3 = (if (of_nat (length (vc_required V)) :: rat) / 2 < of_nat (length missing)
            then r2\<lparr>vr_valid := False, vr_errors := vr_errors r2 @ [Too_Many_Missing (length missing) (length (vc_required V))]\<rparr>
            else r2)
      in if vr_errors r3 \<noteq> [] then r3\<lparr>vr_valid := False\<rparr> else r3)"

definition filter_valid_points :: "validator_config \<Rightarrow> int \<Rightarrow> data_point list \<Rightarrow> data_point list" where
  "filter_valid_points V now ps = filter (\<lambda>p. fst (validate_data_point V now p)) ps"

definition source_priority :: "string \<Rightarrow> int" where
  "source_priority s = dict_get [(''fred'', 1), (''bok_ecos'', 1), (''finnhub'', 2), (''pykrx'', 2), (''rss'', 3)] s 10"

text \<open>
  \<open>max\<close> with the key \<open>(timestamp, -priority)\<close>: is the key of the first greater? Timestamps with
  and without a zone are never equal and cannot be ordered.
\<close>

definition newer :: "data_point \<Rightarrow> data_point \<Rightarrow> bool res" where
  "newer p q = (if dp_aware p \<noteq> dp_aware q then Inl TypeError
     else Inr (dp_time q < dp_time p \<or> dp_time p = dp_time q \<and> source_priority (dp_source p) < source_priority (dp_source q)))"

fun best_point :: "data_point \<Rightarrow> data_point list \<Rightarrow> data_point res" where
  "best_point best [] = Inr best"
| "best_point best (p # ps) = res_bind (newer p best) (\<lambda>b. best_point (if b then p else best) ps)"

definition select_best_value :: "validator_config \<Rightarrow> int \<Rightarrow> data_point list \<Rightarrow> data_point option res" where
  "select_best_value V now ps = (case filter_valid_points V now ps of
     [] \<Rightarrow> Inr None | p # rest \<Rightarrow> map_sum id Some (best_point p rest))"

definition quality_score :: "data_quality \<Rightarrow> rat" where
  "quality_score q = (case q of FRESH \<Rightarrow> 1 | RECENT \<Rightarrow> fl (8/10) | STALE \<Rightarrow> 1/2 | EXPIRED \<Rightarrow> 0)"

text \<open>The sum adds from left to right, as Python does before version 3.12.\<close>

definition get_data_freshness_score :: "int \<Rightarrow> data_point list \<Rightarrow> rat" where
  "get_data_freshness_score now ps = (if ps = [] then 0
     else fdiv (foldl fadd 0 (map (\<lambda>p. quality_score (quality_of now p)) ps)) (of_nat (length ps)))"

section \<open>The snapshot\<close>

record macro_state =
  gs_time :: int
  gs_fields :: "(string \<times> flt) list"
  gs_vix_regime :: string
  gs_risk_level :: string
  gs_sources :: "string list"
  gs_missing :: "string list"
  gs_stale :: "string list"
  gs_errors :: "data_issue list"
  gs_freshness :: rat
  gs_points :: "data_point list"

text \<open>\<open>getattr(snapshot, name, None)\<close> of a number; only the count of alerts has a default.\<close>

definition state_field :: "macro_state \<Rightarrow> string \<Rightarrow> flt option" where
  "state_field s k = (case map_of (gs_fields s) k of Some v \<Rightarrow> Some v
     | None \<Rightarrow> if k = ''political_alert_count'' then Some (Fin 0) else None)"

definition vix_regime_of :: "flt \<Rightarrow> string" where
  "vix_regime_of v = (if xlt v (Fin 15) then ''low_vol'' else if xlt v (Fin 25) then ''normal''
     else if xlt v (Fin 35) then ''elevated'' else ''crisis'')"

definition difference :: "string \<Rightarrow> string \<Rightarrow> string \<Rightarrow> macro_state \<Rightarrow> macro_state" where
  "difference k a b s = (case (state_field s a, state_field s b) of
     (Some x, Some y) \<Rightarrow> s\<lparr>gs_fields := dict_set k (xsub x y) (gs_fields s)\<rparr> | _ \<Rightarrow> s)"

definition post_init :: "macro_state \<Rightarrow> macro_state" where
  "post_init s =
     (let s1 = (case state_field s ''vix'' of None \<Rightarrow> s | Some v \<Rightarrow> s\<lparr>gs_vix_regime := vix_regime_of v\<rparr>);
          s2 = difference ''rate_differential'' ''fed_rate'' ''bok_rate'' s1
      in difference ''treasury_spread'' ''treasury_10y'' ''treasury_2y'' s2)"

definition holds :: "macro_state \<Rightarrow> string \<Rightarrow> (flt \<Rightarrow> bool) \<Rightarrow> bool" where
  "holds s k P = (case state_field s k of None \<Rightarrow> False | Some v \<Rightarrow> P v)"

definition risk_off_signals :: "macro_state \<Rightarrow> nat" where
  "risk_off_signals s =
     (if holds s ''vix'' (xle (Fin 35)) then 1 else 0)
     + (if holds s ''treasury_spread'' (\<lambda>v. xlt v (Fin (- 1/2))) then 1 else 0)
     + (if holds s ''dxy_index'' (xlt (Fin 110)) then 1 else 0)
     + (if holds s ''global_news_sentiment'' (\<lambda>v. xlt v (Fin (- 1/2))) then 1 else 0)
     + (if gs_risk_level s \<in> {''critical'', ''high''} then 1 else 0)"

definition is_risk_off_environment :: "macro_state \<Rightarrow> bool" where
  "is_risk_off_environment s \<longleftrightarrow> 2 \<le> risk_off_signals s"

definition krw_pressure_direction :: "macro_state \<Rightarrow> string" where
  "krw_pressure_direction s = (case state_field s ''rate_differential'' of None \<Rightarrow> ''neutral''
     | Some d \<Rightarrow> if xlt (Fin (3/2)) d then ''krw_weakness'' else if xlt d (Fin (- 1/2)) then ''krw_strength'' else ''neutral'')"

definition ESSENTIAL :: "string list" where
  "ESSENTIAL = [''fed_rate'', ''vix'', ''dxy_index'', ''usd_krw'', ''bok_rate'', ''kospi_index'', ''kosdaq_index'']"

definition get_completeness_score :: "macro_state \<Rightarrow> rat" where
  "get_completeness_score s = fdiv (of_nat (length (filter (\<lambda>k. state_field s k \<noteq> None) ESSENTIAL))) 7"


section \<open>Stored snapshots\<close>

text \<open>The numbers \<open>to_dict\<close> writes and \<open>from_dict\<close> reads, and the dictionary between them.\<close>

definition STORED_FIELDS :: "string list" where
  "STORED_FIELDS = [''fed_rate'', ''us_cpi_yoy'', ''us_pce_yoy'', ''treasury_2y'', ''treasury_10y'', ''treasury_spread'',
     ''us_unemployment'', ''us_pmi'', ''vix'', ''dxy_index'', ''usd_krw'', ''usd_jpy'', ''usd_cny'', ''bok_rate'',
     ''korea_cpi_yoy'', ''kospi_index'', ''kosdaq_index'', ''kospi_change_pct'', ''kosdaq_change_pct'', ''kospi_foreign_net'',
     ''kosdaq_foreign_net'', ''kospi_institutional_net'', ''kospi_retail_net'', ''rate_differential'',
     ''global_news_sentiment'', ''korea_news_sentiment'', ''political_risk_score'', ''political_alert_count'']"

record snapshot_dict =
  sj_time :: int
  sj_numbers :: "(string \<times> flt option) list"
  sj_vix_regime :: string
  sj_risk_level :: string
  sj_sources :: "string list"
  sj_missing :: "string list"
  sj_stale :: "string list"
  sj_errors :: "data_issue list"
  sj_freshness :: rat
  sj_completeness :: rat
  sj_risk_off :: bool
  sj_krw_pressure :: string

definition snapshot_to_dict :: "macro_state \<Rightarrow> snapshot_dict" where
  "snapshot_to_dict s = \<lparr>sj_time = gs_time s, sj_numbers = map (\<lambda>k. (k, state_field s k)) STORED_FIELDS,
     sj_vix_regime = gs_vix_regime s, sj_risk_level = gs_risk_level s, sj_sources = gs_sources s, sj_missing = gs_missing s,
     sj_stale = gs_stale s, sj_errors = gs_errors s, sj_freshness = gs_freshness s,
     sj_completeness = get_completeness_score s, sj_risk_off = is_risk_off_environment s,
     sj_krw_pressure = krw_pressure_direction s\<rparr>"

definition snapshot_from_dict :: "snapshot_dict \<Rightarrow> macro_state" where
  "snapshot_from_dict d = post_init \<lparr>gs_time = sj_time d,
     gs_fields = List.map_filter (\<lambda>(k, v). map_option (Pair k) v) (sj_numbers d),
     gs_vix_regime = sj_vix_regime d, gs_risk_level = sj_risk_level d, gs_sources = sj_sources d, gs_missing = sj_missing d,
     gs_stale = sj_stale d, gs_errors = sj_errors d, gs_freshness = sj_freshness d, gs_points = []\<rparr>"

section \<open>Aggregation\<close>

definition INDICATOR_TO_SNAPSHOT :: "(string \<times> string) list" where
  "INDICATOR_TO_SNAPSHOT = [(''fed_rate'', ''fed_rate''), (''treasury_10y'', ''treasury_10y''), (''treasury_2y'', ''treasury_2y''),
     (''us_cpi_yoy'', ''us_cpi_yoy''), (''us_pce_yoy'', ''us_pce_yoy''), (''us_unemployment'', ''us_unemployment''),
     (''us_pmi'', ''us_pmi''), (''vix'', ''vix''), (''vxx'', ''vix''), (''uvxy'', ''vix''), (''spy'', ''spy_price''),
     (''qqq'', ''qqq_price''), (''ewy'', ''ewy_price''), (''dxy_index'', ''dxy_index''), (''usd_krw'', ''usd_krw''),
     (''usd_krw_bok'', ''usd_krw''), (''usd_jpy'', ''usd_jpy''), (''usd_cny'', ''usd_cny''), (''bok_rate'', ''bok_rate''),
     (''korea_cpi_yoy'', ''korea_cpi_yoy''), (''korea_cpi'', ''korea_cpi_yoy''), (''kospi_index'', ''kospi_index''),
     (''kosdaq_index'', ''kosdaq_index''), (''kospi_change_pct'', ''kospi_change_pct''),
     (''kosdaq_change_pct'', ''kosdaq_change_pct''), (''kospi_foreign_net'', ''kospi_foreign_net''),
     (''kosdaq_foreign_net'', ''kosdaq_foreign_net''), (''global_news_sentiment'', ''global_news_sentiment''),
     (''korea_news_sentiment'', ''korea_news_sentiment''), (''political_risk_score'', ''political_risk_score''),
     (''political_alert_count'', ''political_alert_count'')]"

text \<open>The points of each indicator, in the order the indicators first appear.\<close>

definition group_points :: "data_point list \<Rightarrow> (string \<times> data_point list) list" where
  "group_points ps = foldl (\<lambda>d p. dict_set (dp_indicator p) (dict_get d (dp_indicator p) [] @ [p]) d) [] ps"

definition copy_number :: "data_point \<Rightarrow> string \<Rightarrow> string \<Rightarrow> macro_state \<Rightarrow> macro_state" where
  "copy_number p k target s = (case map_of (dp_numbers p) k of None \<Rightarrow> s
     | Some v \<Rightarrow> s\<lparr>gs_fields := dict_set target v (gs_fields s)\<rparr>)"

definition copy_metadata :: "string \<Rightarrow> data_point \<Rightarrow> macro_state \<Rightarrow> macro_state" where
  "copy_metadata indicator p s =
     (if indicator = ''kospi_index'' then copy_number p ''change_pct'' ''kospi_change_pct'' s
      else if indicator = ''kosdaq_index'' then copy_number p ''change_pct'' ''kosdaq_change_pct'' s
      else if indicator = ''political_risk_score'' then (case dp_risk_level p of None \<Rightarrow> s
        | Some l \<Rightarrow> copy_number p ''alert_count'' ''political_alert_count'' (s\<lparr>gs_risk_level := l\<rparr>))
      else if indicator = ''kospi_foreign_net'' then
        copy_number p ''retail'' ''kospi_retail_net'' (copy_number p ''institutional'' ''kospi_institutional_net'' s)
      else s)"

definition aggregate_group ::
  "validator_config \<Rightarrow> int \<Rightarrow> string \<times> data_point list \<Rightarrow> macro_state \<Rightarrow> macro_state res" where
  "aggregate_group V now = (\<lambda>(indicator, ps) s. res_bind (select_best_value V now ps) (\<lambda>best. case best of
     None \<Rightarrow> Inr s
   | Some p \<Rightarrow>
      (let s1 = (case map_of INDICATOR_TO_SNAPSHOT indicator of None \<Rightarrow> s
          | Some target \<Rightarrow> copy_metadata indicator p (s\<lparr>gs_fields := dict_set target (dp_value p) (gs_fields s)\<rparr>))
       in Inr (if quality_of now p \<in> {STALE, EXPIRED} then s1\<lparr>gs_stale := gs_stale s1 @ [indicator]\<rparr> else s1))))"

fun aggregate_groups ::
  "validator_config \<Rightarrow> int \<Rightarrow> (string \<times> data_point list) list \<Rightarrow> macro_state \<Rightarrow> macro_state res" where
  "aggregate_groups V now [] s = Inr s"
| "aggregate_groups V now (g # gs) s = res_bind (aggregate_group V now g s) (aggregate_groups V now gs)"

text \<open>The indicators missing are a set in the code; the model lists them in the order of the table.\<close>

definition aggregate_points ::
  "validator_config \<Rightarrow> int \<Rightarrow> data_point list \<Rightarrow> string list \<Rightarrow> macro_state res" where
  "aggregate_points V now data_points sources_used =
     (let valid_points = filter_valid_points V now data_points;
          groups = group_points valid_points
      in res_bind (aggregate_groups V now groups \<lparr>gs_time = now, gs_fields = [], gs_vix_regime = ''normal'', gs_risk_level = ''low'',
            gs_sources = sources_used, gs_missing = [], gs_stale = [], gs_errors = [], gs_freshness = 0, gs_points = valid_points\<rparr>)
         (\<lambda>s. let r = validate_points V now valid_points
              in Inr (post_init (s\<lparr>gs_missing := filter (\<lambda>k. map_of groups k = None) (map fst INDICATOR_TO_SNAPSHOT),
                   gs_freshness := get_data_freshness_score now valid_points, gs_errors := vr_errors r @ vr_warnings r\<rparr>))))"

text \<open>
  The collection: each source answers its points, or nothing for a failure (\<open>None\<close>: not within
  the time). The order is the order in which the finished tasks are gone through.
\<close>

record collection_result =
  cr_success :: bool
  cr_points :: "data_point list"
  cr_used :: "string list"
  cr_failed :: "string list"
  cr_timeouts :: "string list"

definition collect_step :: "collection_result \<Rightarrow> string \<times> data_point list option \<Rightarrow> collection_result" where
  "collect_step r = (\<lambda>(source, answer). case answer of
     None \<Rightarrow> r\<lparr>cr_failed := cr_failed r @ [source], cr_timeouts := cr_timeouts r @ [source]\<rparr>
   | Some [] \<Rightarrow> r\<lparr>cr_failed := cr_failed r @ [source]\<rparr>
   | Some points \<Rightarrow> r\<lparr>cr_points := cr_points r @ points, cr_used := cr_used r @ [source]\<rparr>)"

definition collect_all :: "bool \<Rightarrow> (string \<times> data_point list option) list \<Rightarrow> collection_result" where
  "collect_all allow_partial_failure answers =
     (let r = foldl collect_step \<lparr>cr_success = True, cr_points = [], cr_used = [], cr_failed = [], cr_timeouts = []\<rparr> answers
      in r\<lparr>cr_success := (allow_partial_failure \<or> cr_failed r = []) \<and> cr_used r \<noteq> []\<rparr>)"

definition collect_fresh ::
  "validator_config \<Rightarrow> bool \<Rightarrow> int \<Rightarrow> (string \<times> data_point list option) list \<Rightarrow> macro_state option res" where
  "collect_fresh V allow_partial_failure now answers =
     (let r = collect_all allow_partial_failure answers
      in if \<not> cr_success r \<and> \<not> allow_partial_failure \<or> cr_points r = [] then Inr None
         else map_sum id Some (aggregate_points V now (cr_points r) (cr_used r)))"

text \<open>\<open>Inr None\<close>: no snapshot. The cache answers a stored snapshot or nothing.\<close>

definition collect_and_aggregate ::
  "validator_config \<Rightarrow> bool \<Rightarrow> bool \<Rightarrow> int \<Rightarrow> snapshot_dict option \<Rightarrow> (string \<times> data_point list option) list
     \<Rightarrow> macro_state option res" where
  "collect_and_aggregate V use_cache allow_partial_failure now stored answers =
     (case (if use_cache then map_option snapshot_from_dict stored else None) of
        Some s \<Rightarrow> if fl (7/10) < gs_freshness s then Inr (Some s)
          else collect_fresh V allow_partial_failure now answers
      | None \<Rightarrow> collect_fresh V allow_partial_failure now answers)"


section \<open>Stored and restored\<close>

lemma state_field_set: "state_field (s\<lparr>gs_fields := dict_set k v (gs_fields s)\<rparr>) x = (if x = k then Some v else state_field s x)"
  by (simp add: state_field_def map_of_dict_set)

lemma state_field_difference:
  "state_field (difference k a b s) x = (if x = k \<and> state_field s a \<noteq> None \<and> state_field s b \<noteq> None
     then Some (xsub (the (state_field s a)) (the (state_field s b))) else state_field s x)"
proof (cases "state_field s a")
  case (Some v)
  then show ?thesis
    by (cases "state_field s b") (simp_all add: difference_def state_field_set)
qed (simp add: difference_def)

lemma difference_rest [simp]:
  "gs_vix_regime (difference k a b s) = gs_vix_regime s" "gs_risk_level (difference k a b s) = gs_risk_level s"
  "gs_errors (difference k a b s) = gs_errors s" "gs_freshness (difference k a b s) = gs_freshness s"
  "gs_stale (difference k a b s) = gs_stale s" "gs_missing (difference k a b s) = gs_missing s"
  "gs_sources (difference k a b s) = gs_sources s" "gs_time (difference k a b s) = gs_time s"
  by (simp_all add: difference_def split: option.split)

lemma state_field_regime [simp]: "state_field (s\<lparr>gs_vix_regime := r\<rparr>) x = state_field s x"
  by (simp add: state_field_def)

lemma state_field_post_init:
  "state_field (post_init s) x =
     (if x = ''rate_differential'' \<and> state_field s ''fed_rate'' \<noteq> None \<and> state_field s ''bok_rate'' \<noteq> None
      then Some (xsub (the (state_field s ''fed_rate'')) (the (state_field s ''bok_rate'')))
      else if x = ''treasury_spread'' \<and> state_field s ''treasury_10y'' \<noteq> None \<and> state_field s ''treasury_2y'' \<noteq> None
      then Some (xsub (the (state_field s ''treasury_10y'')) (the (state_field s ''treasury_2y'')))
      else state_field s x)"
  by (cases "state_field s ''vix''"; clarsimp simp: post_init_def Let_def state_field_difference; auto)

lemma post_init_rest [simp]:
  "gs_vix_regime (post_init s) = (case state_field s ''vix'' of None \<Rightarrow> gs_vix_regime s | Some v \<Rightarrow> vix_regime_of v)"
  "gs_risk_level (post_init s) = gs_risk_level s" "gs_errors (post_init s) = gs_errors s"
  "gs_freshness (post_init s) = gs_freshness s" "gs_stale (post_init s) = gs_stale s"
  "gs_missing (post_init s) = gs_missing s" "gs_sources (post_init s) = gs_sources s" "gs_time (post_init s) = gs_time s"
  by (simp_all add: post_init_def Let_def split: option.split)

lemma map_of_stored: "distinct ks \<Longrightarrow>
  map_of (List.map_filter (\<lambda>(k, v). map_option (Pair k) v) (map (\<lambda>k. (k, f k)) ks)) k = (if k \<in> set ks then f k else None)"
  by (induction ks) (auto simp: map_filter_simps split: option.split)

lemma stored_distinct: "distinct STORED_FIELDS" by (simp add: STORED_FIELDS_def)

definition unstored :: "macro_state \<Rightarrow> macro_state" where
  "unstored s = \<lparr>gs_time = gs_time s, gs_fields = List.map_filter (\<lambda>(k, v). map_option (Pair k) v) (map (\<lambda>k. (k, state_field s k)) STORED_FIELDS),
     gs_vix_regime = gs_vix_regime s, gs_risk_level = gs_risk_level s, gs_sources = gs_sources s, gs_missing = gs_missing s,
     gs_stale = gs_stale s, gs_errors = gs_errors s, gs_freshness = gs_freshness s, gs_points = []\<rparr>"

lemma from_to_dict: "snapshot_from_dict (snapshot_to_dict s) = post_init (unstored s)"
  by (simp add: snapshot_from_dict_def snapshot_to_dict_def unstored_def)

lemma state_field_unstored:
  assumes "k \<in> set STORED_FIELDS"
  shows "state_field (unstored s) k = state_field s k"
proof -
  have "map_of (gs_fields (unstored s)) k = state_field s k"
    using map_of_stored [OF stored_distinct, of "state_field s" k] assms by (simp add: unstored_def)
  then show ?thesis
    unfolding state_field_def [of "unstored s"]
    by (cases "state_field s k") (auto simp: state_field_def split: option.splits if_splits)
qed

lemma stored_names: "''fed_rate'' \<in> set STORED_FIELDS" "''bok_rate'' \<in> set STORED_FIELDS" "''treasury_10y'' \<in> set STORED_FIELDS"
  "''treasury_2y'' \<in> set STORED_FIELDS" "''vix'' \<in> set STORED_FIELDS" "''treasury_spread'' \<in> set STORED_FIELDS"
  "''dxy_index'' \<in> set STORED_FIELDS" "''global_news_sentiment'' \<in> set STORED_FIELDS" "''rate_differential'' \<in> set STORED_FIELDS"
  by (simp_all add: STORED_FIELDS_def)

lemma restored_field:
  assumes "s = post_init s0" "k \<in> set STORED_FIELDS"
  shows "state_field (snapshot_from_dict (snapshot_to_dict s)) k = state_field s k"
  using assms(2) by (auto simp: from_to_dict state_field_post_init state_field_unstored stored_names assms(1))

lemma same_snapshot:
  assumes same: "\<And>k. k \<in> set STORED_FIELDS \<Longrightarrow> state_field t k = state_field s k"
    and rest: "gs_time t = gs_time s" "gs_vix_regime t = gs_vix_regime s" "gs_risk_level t = gs_risk_level s"
      "gs_sources t = gs_sources s" "gs_missing t = gs_missing s" "gs_stale t = gs_stale s" "gs_errors t = gs_errors s"
      "gs_freshness t = gs_freshness s"
  shows "is_risk_off_environment t = is_risk_off_environment s" "krw_pressure_direction t = krw_pressure_direction s"
    "snapshot_to_dict t = snapshot_to_dict s"
proof -
  show risk: "is_risk_off_environment t = is_risk_off_environment s"
    by (simp add: is_risk_off_environment_def risk_off_signals_def holds_def same stored_names rest)
  show krw: "krw_pressure_direction t = krw_pressure_direction s" by (simp add: krw_pressure_direction_def same stored_names)
  have "filter (\<lambda>k. state_field t k \<noteq> None) ESSENTIAL = filter (\<lambda>k. state_field s k \<noteq> None) ESSENTIAL"
    by (rule filter_cong [OF refl]) (auto simp: same ESSENTIAL_def STORED_FIELDS_def)
  then have complete: "get_completeness_score t = get_completeness_score s" by (simp only: get_completeness_score_def)
  have fields: "map (\<lambda>k. (k, state_field t k)) STORED_FIELDS = map (\<lambda>k. (k, state_field s k)) STORED_FIELDS"
    by (simp add: same)
  show "snapshot_to_dict t = snapshot_to_dict s"
    by (simp only: snapshot_to_dict_def risk krw complete fields rest)
qed

text \<open>
  Claim C41. A snapshot that is stored and read back has the same numbers, the same regime and
  the same verdicts, and is written the same way again; only the prices of the three funds,
  which are not written, and the points are lost.
\<close>

theorem snapshot_roundtrip:
  assumes "s = post_init s0"
  shows "(\<forall>k \<in> set STORED_FIELDS. state_field (snapshot_from_dict (snapshot_to_dict s)) k = state_field s k)
    \<and> gs_vix_regime (snapshot_from_dict (snapshot_to_dict s)) = gs_vix_regime s
    \<and> is_risk_off_environment (snapshot_from_dict (snapshot_to_dict s)) = is_risk_off_environment s
    \<and> krw_pressure_direction (snapshot_from_dict (snapshot_to_dict s)) = krw_pressure_direction s
    \<and> snapshot_to_dict (snapshot_from_dict (snapshot_to_dict s)) = snapshot_to_dict s"
proof -
  note same = restored_field [OF assms]
  have regime: "gs_vix_regime (snapshot_from_dict (snapshot_to_dict s)) = gs_vix_regime s"
    using assms by (simp add: from_to_dict state_field_unstored stored_names state_field_post_init)
      (simp add: unstored_def state_field_post_init split: option.split)
  note all = same_snapshot [of "snapshot_from_dict (snapshot_to_dict s)" s, OF same _ regime]
  have "gs_time (snapshot_from_dict (snapshot_to_dict s)) = gs_time s"
    "gs_risk_level (snapshot_from_dict (snapshot_to_dict s)) = gs_risk_level s"
    "gs_sources (snapshot_from_dict (snapshot_to_dict s)) = gs_sources s"
    "gs_missing (snapshot_from_dict (snapshot_to_dict s)) = gs_missing s"
    "gs_stale (snapshot_from_dict (snapshot_to_dict s)) = gs_stale s"
    "gs_errors (snapshot_from_dict (snapshot_to_dict s)) = gs_errors s"
    "gs_freshness (snapshot_from_dict (snapshot_to_dict s)) = gs_freshness s"
    by (simp_all add: from_to_dict unstored_def)
  note all = all [OF _ this]
  show ?thesis by (intro conjI ballI same regime all)
qed

section \<open>Where the numbers of a snapshot come from\<close>

lemma dict_set_member: "kv \<in> set (dict_set k v kvs) \<Longrightarrow> kv = (k, v) \<or> kv \<in> set kvs"
  by (induction k v kvs rule: dict_set.induct) (auto split: if_splits)

lemma group_points_snoc:
  "group_points (ps @ [p]) = dict_set (dp_indicator p) (dict_get (group_points ps) (dp_indicator p) [] @ [p]) (group_points ps)"
  by (simp add: group_points_def)

lemma group_member:
  "(k, qs) \<in> set (group_points ps) \<Longrightarrow> q \<in> set qs \<Longrightarrow> q \<in> set ps \<and> dp_indicator q = k"
proof (induction ps arbitrary: k qs rule: rev_induct)
  case (snoc p ps)
  let ?d = "group_points ps"
  from dict_set_member [OF snoc.prems(1) [unfolded group_points_snoc]]
  consider "(k, qs) \<in> set ?d" | "k = dp_indicator p" "qs = dict_get ?d k [] @ [p]" by auto
  then show ?case
  proof cases
    case 1
    then show ?thesis using snoc.IH [of k qs] snoc.prems(2) by auto
  next
    case 2
    then show ?thesis using snoc.prems(2) snoc.IH [of k] by (cases "map_of ?d k") (auto simp: dict_get_def dest: map_of_SomeD)
  qed
qed (simp add: group_points_def)

lemma best_point_member: "best_point b ps = Inr q \<Longrightarrow> q = b \<or> q \<in> set ps"
proof (induction b ps rule: best_point.induct)
  case (2 best p ps)
  then obtain c where "newer p best = Inr c" "best_point (if c then p else best) ps = Inr q"
    by (auto simp: res_bind_Inr_iff)
  with "2.IH" [of c] show ?case by (cases c) auto
qed simp

lemma select_best_member:
  assumes "select_best_value V now ps = Inr (Some q)"
  shows "q \<in> set ps"
proof (cases "filter_valid_points V now ps")
  case (Cons p rest)
  with assms have "best_point p rest = Inr q" by (auto simp: select_best_value_def map_sum_def split: sum.splits)
  then have "q \<in> set (filter_valid_points V now ps)" using best_point_member Cons by fastforce
  then show ?thesis by (simp add: filter_valid_points_def)
qed (use assms in \<open>simp add: select_best_value_def\<close>)

definition METADATA_FIELDS :: "string list" where
  "METADATA_FIELDS = [''kospi_change_pct'', ''kosdaq_change_pct'', ''political_alert_count'', ''kospi_retail_net'',
     ''kospi_institutional_net'']"

lemma copy_number_other: "k \<noteq> target \<Longrightarrow> map_of (gs_fields (copy_number p n target s)) k = map_of (gs_fields s) k"
  by (simp add: copy_number_def split: option.split)

lemma copy_metadata_other:
  "k \<notin> set METADATA_FIELDS \<Longrightarrow> map_of (gs_fields (copy_metadata ind p s)) k = map_of (gs_fields s) k"
  by (simp add: copy_metadata_def METADATA_FIELDS_def copy_number_other split: option.split)

definition from_points :: "data_point list \<Rightarrow> macro_state \<Rightarrow> bool" where
  "from_points ps s \<longleftrightarrow> (\<forall>k v. k \<notin> set METADATA_FIELDS \<longrightarrow> map_of (gs_fields s) k = Some v
     \<longrightarrow> (\<exists>p \<in> set ps. map_of INDICATOR_TO_SNAPSHOT (dp_indicator p) = Some k \<and> v = dp_value p))"

lemma aggregate_group_from_points:
  assumes "aggregate_group V now (ind, qs) s = Inr t" "from_points ps s"
    and mem: "\<And>q. q \<in> set qs \<Longrightarrow> q \<in> set ps \<and> dp_indicator q = ind"
  shows "from_points ps t"
proof -
  from assms(1) obtain best where best: "select_best_value V now qs = Inr best"
    by (auto simp: aggregate_group_def res_bind_Inr_iff)
  show ?thesis
  proof (cases best)
    case None
    then show ?thesis using assms best by (simp add: aggregate_group_def)
  next
    case (Some p)
    from select_best_member [OF best [unfolded Some]] mem have p: "p \<in> set ps" "dp_indicator p = ind" by auto
    show ?thesis
    proof (cases "map_of INDICATOR_TO_SNAPSHOT ind")
      case None
      with assms(1,2) best Some show ?thesis by (auto simp: aggregate_group_def from_points_def split: if_splits)
    next
      case (Some target)
      have f: "gs_fields t = gs_fields (copy_metadata ind p (s\<lparr>gs_fields := dict_set target (dp_value p) (gs_fields s)\<rparr>))"
        using assms(1) best \<open>best = Some p\<close> Some by (auto simp: aggregate_group_def Let_def split: if_splits)
      show ?thesis using assms(2) p Some
        unfolding from_points_def f by (auto simp: copy_metadata_other split: if_splits)
    qed
  qed
qed

lemma aggregate_groups_from_points:
  assumes "aggregate_groups V now gs s = Inr t" "from_points ps s"
    and "\<And>ind qs q. (ind, qs) \<in> set gs \<Longrightarrow> q \<in> set qs \<Longrightarrow> q \<in> set ps \<and> dp_indicator q = ind"
  shows "from_points ps t"
  using assms
proof (induction gs arbitrary: s)
  case (Cons g gs)
  obtain ind qs where g: "g = (ind, qs)" by (cases g)
  from Cons.prems(1) obtain u where u: "aggregate_group V now (ind, qs) s = Inr u" "aggregate_groups V now gs u = Inr t"
    by (auto simp: res_bind_Inr_iff g)
  have "from_points ps u" by (rule aggregate_group_from_points [OF u(1) Cons.prems(2)]) (use Cons.prems(3) g in auto)
  then show ?case using Cons.IH [OF u(2)] Cons.prems(3) by auto
qed simp

definition COMPUTED_FIELDS :: "string list" where
  "COMPUTED_FIELDS = METADATA_FIELDS @ [''rate_differential'', ''treasury_spread'']"

lemma valid_point_in_range:
  "fst (validate_data_point V now p) \<Longrightarrow> in_range V (dp_indicator p) (dp_value p)
     \<and> age_hours now p \<le> of_int (max_age_of V (dp_indicator p)) \<and> dp_time p \<le> now + 3600 * 1000000"
  by (auto simp: validate_data_point_def point_errors_def point_is_valid_def split: if_splits)

lemma aggregate_points_parts:
  assumes "aggregate_points V now ps used = Inr s"
  obtains t where "from_points (filter_valid_points V now ps) t"
    "\<And>k. k \<notin> set COMPUTED_FIELDS \<Longrightarrow> state_field s k = state_field t k"
    "gs_errors s = (let r = validate_points V now (filter_valid_points V now ps) in vr_errors r @ vr_warnings r)"
proof -
  let ?vs = "filter_valid_points V now ps"
  from assms obtain t where t: "aggregate_groups V now (group_points ?vs) \<lparr>gs_time = now, gs_fields = [], gs_vix_regime = ''normal'',
      gs_risk_level = ''low'', gs_sources = used, gs_missing = [], gs_stale = [], gs_errors = [], gs_freshness = 0,
      gs_points = ?vs\<rparr> = Inr t"
    and s: "s = post_init (t\<lparr>gs_missing := filter (\<lambda>k. map_of (group_points ?vs) k = None) (map fst INDICATOR_TO_SNAPSHOT),
      gs_freshness := get_data_freshness_score now ?vs,
      gs_errors := (let r = validate_points V now ?vs in vr_errors r @ vr_warnings r)\<rparr>)"
    by (auto simp: aggregate_points_def Let_def res_bind_Inr_iff)
  have "from_points ?vs t"
    by (rule aggregate_groups_from_points [OF t]) (auto simp: from_points_def dest: group_member)
  then show thesis
  proof (rule that)
    fix k assume "k \<notin> set COMPUTED_FIELDS"
    then show "state_field s k = state_field t k"
      unfolding s state_field_post_init by (auto simp: COMPUTED_FIELDS_def state_field_def)
  qed (simp add: s)
qed

text \<open>
  Claim C36. Every number of a snapshot that is not computed or copied from the metadata is the value of a
  point of a source that was not too old for its indicator, at most one hour ahead of the clock, and in the
  range of its indicator. The two exchange rates and the three volatility prices share a field.
\<close>

theorem snapshot_from_valid_points:
  assumes "aggregate_points V now ps used = Inr s" "state_field s k = Some v" "k \<notin> set COMPUTED_FIELDS"
  shows "\<exists>p \<in> set ps. map_of INDICATOR_TO_SNAPSHOT (dp_indicator p) = Some k \<and> v = dp_value p
    \<and> in_range V (dp_indicator p) (dp_value p) \<and> age_hours now p \<le> of_int (max_age_of V (dp_indicator p))
    \<and> dp_time p \<le> now + 3600 * 1000000"
proof -
  obtain t where t: "from_points (filter_valid_points V now ps) t"
    "\<And>k. k \<notin> set COMPUTED_FIELDS \<Longrightarrow> state_field s k = state_field t k" by (rule aggregate_points_parts [OF assms(1)]) blast
  from t(2) [OF assms(3)] assms(2,3) have "map_of (gs_fields t) k = Some v"
    by (auto simp: state_field_def COMPUTED_FIELDS_def METADATA_FIELDS_def split: option.splits if_splits)
  with t(1) assms(3) obtain p where p: "p \<in> set (filter_valid_points V now ps)"
    "map_of INDICATOR_TO_SNAPSHOT (dp_indicator p) = Some k" "v = dp_value p"
    unfolding from_points_def COMPUTED_FIELDS_def by auto
  then show ?thesis using valid_point_in_range by (auto simp: filter_valid_points_def)
qed

definition vix_point :: data_point where
  "vix_point = \<lparr>dp_indicator = ''vix'', dp_value = Fin 18, dp_time = 0, dp_aware = True, dp_source = ''fred'', dp_numbers = [],
     dp_risk_level = None\<rparr>"

definition vix_collected :: "flt option res" where
  "vix_collected = map_sum id (\<lambda>s. state_field s ''vix'') (aggregate_points default_validator 0 [vix_point] [''fred''])"

lemma snapshot_from_valid_points_witness:
  "vix_collected = Inr (Some (Fin 18)) \<and> in_range default_validator ''vix'' (Fin 18)"
proof -
  have *: "vix_collected = Inr (Some (Fin 18))" by code_simp
  then obtain s where "aggregate_points default_validator 0 [vix_point] [''fred''] = Inr s" "state_field s ''vix'' = Some (Fin 18)"
    by (auto simp: vix_collected_def map_sum_def split: sum.splits)
  from snapshot_from_valid_points [OF this] show ?thesis
    by (simp add: * COMPUTED_FIELDS_def METADATA_FIELDS_def vix_point_def)
qed

text \<open>
  The points are validated twice: the second validation sees only the points the first let
  through, so the errors of a snapshot never name a point that was dropped for its age, its
  range or its time.
\<close>

lemma validate_valid_points:
  assumes "\<forall>p \<in> set ps. fst (validate_data_point V now p)" "vr_errors r = []" "range Old_Data \<inter> set (vr_warnings r) = set (vr_warnings r)"
  shows "vr_errors (foldl (validate_step V now) r ps) = []
    \<and> set (vr_warnings (foldl (validate_step V now) r ps)) \<subseteq> range Old_Data"
  using assms
proof (induction ps arbitrary: r)
  case (Cons p ps)
  have "validate_step V now r p = (if of_int (vc_warning_age_hours V) < age_hours now p
      then r\<lparr>vr_warnings := vr_warnings r @ [Old_Data (dp_indicator p)]\<rparr> else r)"
    using Cons.prems(1) by (simp add: validate_step_def validate_data_point_def)
  then have "vr_errors (validate_step V now r p) = []" "range Old_Data \<inter> set (vr_warnings (validate_step V now r p)) = set (vr_warnings (validate_step V now r p))"
    using Cons.prems(2,3) by auto
  from Cons.IH [OF _ this] Cons.prems(1) show ?case by simp
qed auto

theorem dropped_points_unreported:
  assumes "aggregate_points V now ps used = Inr s" "e \<in> set (gs_errors s)"
  shows "\<forall>k. e \<noteq> Too_Old k \<and> e \<noteq> Out_Of_Range k \<and> e \<noteq> In_Future k"
proof -
  let ?vs = "filter_valid_points V now ps"
  have e: "gs_errors s = (let r = validate_points V now ?vs in vr_errors r @ vr_warnings r)"
    by (rule aggregate_points_parts [OF assms(1)]) blast
  have "vr_errors (foldl (validate_step V now) \<lparr>vr_valid = True, vr_errors = [], vr_warnings = [], vr_filtered = [],
      vr_stale = [], vr_missing = []\<rparr> ?vs) = [] \<and> set (vr_warnings (foldl (validate_step V now) \<lparr>vr_valid = True,
      vr_errors = [], vr_warnings = [], vr_filtered = [], vr_stale = [], vr_missing = []\<rparr> ?vs)) \<subseteq> range Old_Data"
    by (rule validate_valid_points) (simp_all add: filter_valid_points_def)
  with assms(2) show ?thesis unfolding e by (auto simp: validate_points_def Let_def split: if_splits)
qed

text \<open>
  The level of the index itself and the price of the fund on its futures share the field
  \<open>vix\<close>: of the two the one that arrives later counts, and the sources finish in any order.
\<close>

definition vxx_point :: data_point where
  "vxx_point = \<lparr>dp_indicator = ''vxx'', dp_value = Fin 40, dp_time = 0, dp_aware = True, dp_source = ''finnhub'',
     dp_numbers = [], dp_risk_level = None\<rparr>"

definition regime_collected :: "(string \<times> data_point list option) list \<Rightarrow> string option" where
  "regime_collected answers = (case collect_and_aggregate default_validator False True 0 None answers of
     Inr (Some s) \<Rightarrow> Some (gs_vix_regime s) | _ \<Rightarrow> None)"

theorem arrival_order_decides_regime:
  "regime_collected [(''finnhub'', Some [vxx_point]), (''fred'', Some [vix_point])] = Some ''normal''"
  "regime_collected [(''fred'', Some [vix_point]), (''finnhub'', Some [vxx_point])] = Some ''crisis''"
  by code_simp+

section \<open>Validation of a snapshot\<close>

datatype snapshot_issue =
    Low_Completeness | Missing_Field string | Field_Out_Of_Range string | Snapshot_Too_Old | Risk_Off_Detected | Too_Many_Fields_Missing

definition REQUIRED_ATTRS :: "string list" where
  "REQUIRED_ATTRS = [''fed_rate'', ''bok_rate'', ''vix'', ''usd_krw'', ''kospi_index'', ''kosdaq_index'']"

text \<open>The result: valid, the errors, the warnings and the missing indicators.\<close>

definition validate_snapshot ::
  "validator_config \<Rightarrow> int \<Rightarrow> macro_state \<Rightarrow> bool \<times> snapshot_issue list \<times> snapshot_issue list \<times> string list" where
  "validate_snapshot V now s =
     (let missing = filter (\<lambda>k. state_field s k = None) REQUIRED_ATTRS;
          warnings = (if get_completeness_score s < 1/2 then [Low_Completeness] else []) @ map Missing_Field missing;
          errors = map Field_Out_Of_Range (filter (\<lambda>k. case state_field s k of None \<Rightarrow> False | Some v \<Rightarrow> \<not> in_range V k v)
              (map fst (vc_ranges V)))
            @ (if 24 < fdiv (fl (of_int (now - gs_time s) / 1000000)) 3600 then [Snapshot_Too_Old] else []);
          all_warnings = warnings @ (if is_risk_off_environment s then [Risk_Off_Detected] else [])
      in if errors \<noteq> [] then (False, errors, all_warnings, missing)
         else if (of_nat (length REQUIRED_ATTRS) :: rat) / 2 < of_nat (length missing)
           then (False, [Too_Many_Fields_Missing], all_warnings, missing)
         else (True, [], all_warnings, missing))"

text \<open>A snapshot that passes is not old, has at least three of the six required numbers, and all of its numbers in range.\<close>

theorem validated_snapshot:
  assumes "fst (validate_snapshot V now s)"
  shows "3 \<le> length (filter (\<lambda>k. state_field s k \<noteq> None) REQUIRED_ATTRS)
    \<and> fdiv (fl (of_int (now - gs_time s) / 1000000)) 3600 \<le> 24
    \<and> (\<forall>k v. state_field s k = Some v \<longrightarrow> in_range V k v)"
proof -
  have six: "length (filter (\<lambda>k. state_field s k = None) REQUIRED_ATTRS) + length (filter (\<lambda>k. state_field s k \<noteq> None) REQUIRED_ATTRS) = 6"
    using sum_length_filter_compl [of "\<lambda>k. state_field s k = None" REQUIRED_ATTRS] by (simp add: REQUIRED_ATTRS_def)
  have len: "length REQUIRED_ATTRS = 6" by (simp add: REQUIRED_ATTRS_def)
  from assms have few: "\<not> (of_nat (length REQUIRED_ATTRS) :: rat) / 2 < of_nat (length (filter (\<lambda>k. state_field s k = None) REQUIRED_ATTRS))"
    and age: "\<not> 24 < fdiv (fl (of_int (now - gs_time s) / 1000000)) 3600"
    and range: "filter (\<lambda>k. case state_field s k of None \<Rightarrow> False | Some v \<Rightarrow> \<not> in_range V k v) (map fst (vc_ranges V)) = []"
    by (auto simp: validate_snapshot_def Let_def split: if_splits)
  have "in_range V k v" if "state_field s k = Some v" for k v
  proof (cases "map_of (vc_ranges V) k")
    case (Some b)
    then have "k \<in> set (map fst (vc_ranges V))" using map_of_SomeD [OF Some] by force
    with range that show ?thesis by (auto simp: filter_empty_conv)
  qed (simp add: in_range_def)
  moreover have "length (filter (\<lambda>k. state_field s k = None) REQUIRED_ATTRS) \<le> 3" using few by (simp add: len)
  ultimately show ?thesis using six age by simp
qed

end
