(* ===== verification/Scout_Universe.thy ===== *)
theory Scout_Universe
  imports Sector_Budget
begin

text \<open>
  Where the scout's candidates come from, \<open>services/scout-job/scout_universe.py\<close>: the analysis of the
  sectors from the stocks with the largest capitalisation, the stocks of the hot sectors, the
  momentum of all stocks against the index, and the filter against the table of stocks. The scraper and
  the queries are parameters, a day is a number, and a query gives numbers or an exception.
\<close>

section \<open>Sector momentum\<close>

record top_stock =
  ts_code :: string
  ts_name :: string
  ts_sector :: string
  ts_change :: rat

record sector_stats =
  sw_avg_return :: rat
  sw_count :: nat
  sw_stocks :: "(string \<times> string) list"
  sw_penalty :: int
  sw_trend :: string

definition float_sum :: "rat list \<Rightarrow> rat" where "float_sum xs = foldl fadd 0 xs"

definition float_mean :: "rat list \<Rightarrow> rat" where "float_mean xs = fdiv (float_sum xs) (of_nat (length xs))"

text \<open>Before the market opens all changes are 0: the last two closing prices of the table replace them.\<close>

definition close_change :: "rat list \<Rightarrow> rat option" where
  "close_change closes = (if length closes < 2 then None
     else (let latest = closes ! (length closes - 1); prev = closes ! (length closes - 2)
       in if 0 < prev then Some (py_round 2 (fmul (fdiv (fsub latest prev) prev) 100)) else None))"

definition premarket :: "(string \<Rightarrow> rat list option) res option \<Rightarrow> top_stock list \<Rightarrow> top_stock list" where
  "premarket batch stocks =
     (if stocks \<noteq> [] \<and> (\<forall>s \<in> set stocks. ts_change s = 0) then
        (case batch of Some (Inr prices) \<Rightarrow>
             map (\<lambda>s. case Option.bind (prices (ts_code s)) close_change of Some c \<Rightarrow> s\<lparr>ts_change := c\<rparr> | None \<Rightarrow> s) stocks
         | _ \<Rightarrow> stocks)
      else stocks)"

type_synonym grouped = "(string \<times> (string \<times> string) list \<times> rat list) list"

definition add_top_stock :: "grouped \<Rightarrow> top_stock \<Rightarrow> grouped" where
  "add_top_stock d s = (if 30 < \<bar>ts_change s\<bar> then d
     else (let (stocks, returns) = dict_get d (ts_sector s) ([], [])
       in dict_set (ts_sector s) (stocks @ [(ts_code s, ts_name s)], returns @ [ts_change s]) d))"

definition sector_table :: "top_stock list \<Rightarrow> (string \<times> sector_stats) list" where
  "sector_table stocks = map (\<lambda>(sector, ss, returns). (sector, \<lparr>sw_avg_return = float_mean returns, sw_count = length ss,
     sw_stocks = take 5 ss, sw_penalty = 0, sw_trend = ''NEUTRAL''\<rparr>)) (foldl add_top_stock [] stocks)"

definition target_sectors :: "(string \<times> sector_stats) list \<Rightarrow> string list" where
  "target_sectors rows = take 5 (map fst (filter (\<lambda>(_, r). sw_avg_return r < - 1) (sort_key (sw_avg_return \<circ> snd) rows)))"

text \<open>
  The history of a sector: the prices of its first three stocks by day. A query that fails with a
  \<open>ValueError\<close> or \<open>TypeError\<close> and a short one are passed over, any other exception ends the analysis.
\<close>

definition add_day :: "(int \<times> rat list) list \<Rightarrow> int \<times> rat \<Rightarrow> (int \<times> rat list) list" where
  "add_day h = (\<lambda>(d, p). dict_set d (dict_get h d [] @ [p]) h)"

fun sector_history ::
  "(string \<Rightarrow> (int \<times> rat) list res) \<Rightarrow> string list \<Rightarrow> (int \<times> rat list) list \<times> nat \<Rightarrow> ((int \<times> rat list) list \<times> nat) res" where
  "sector_history query [] acc = Inr acc"
| "sector_history query (code # codes) (h, n) = (case query code of
     Inr rows \<Rightarrow> sector_history query codes (if 20 \<le> length rows then (foldl add_day h rows, n + 1) else (h, n))
   | Inl e \<Rightarrow> if e \<in> {ValueError, TypeError} then sector_history query codes (h, n) else Inl e)"

definition sector_index :: "(int \<times> rat list) list \<Rightarrow> rat list" where
  "sector_index h = map (\<lambda>d. float_mean (dict_get h d [])) (sort (map fst h))"

text \<open>The verdict on an index of at least twenty days; the price of five days ago divides.\<close>

definition falling_knife :: "rat list \<Rightarrow> bool res" where
  "falling_knife ix =
     (let n = length ix; curr_price = ix ! (n - 1); price_5d_ago = ix ! (n - 6)
      in if price_5d_ago = 0 then Inl ZeroDivisionError
         else Inr (fmul (fdiv (fsub curr_price price_5d_ago) price_5d_ago) 100 < - 3
           \<and> fdiv (float_sum (drop (n - 5) ix)) 5 < fdiv (float_sum (drop (n - 20) ix)) 20))"

definition judge_sector :: "(string \<Rightarrow> (int \<times> rat) list res) \<Rightarrow> sector_stats \<Rightarrow> sector_stats res" where
  "judge_sector query row = res_bind (sector_history query (map fst (take 3 (sw_stocks row))) ([], 0)) (\<lambda>(h, n).
     if n = 0 \<or> length h < 20 then Inr row
     else res_bind (falling_knife (sector_index h)) (\<lambda>falling.
       Inr (if falling then row\<lparr>sw_penalty := - 10, sw_trend := ''FALLING_KNIFE''\<rparr> else row\<lparr>sw_trend := ''WEAK''\<rparr>)))"

fun judge_sectors ::
  "(string \<Rightarrow> (int \<times> rat) list res) \<Rightarrow> string list \<Rightarrow> (string \<times> sector_stats) list \<Rightarrow> (string \<times> sector_stats) list res" where
  "judge_sectors query [] rows = Inr rows"
| "judge_sectors query (s # ss) rows = (case map_of rows s of
     None \<Rightarrow> judge_sectors query ss rows
   | Some row \<Rightarrow> res_bind (judge_sector query row) (\<lambda>row'. judge_sectors query ss (dict_set s row' rows)))"

definition analyze_sector_momentum ::
  "(string \<Rightarrow> rat list option) res option \<Rightarrow> (string \<Rightarrow> (int \<times> rat) list res) \<Rightarrow> top_stock list \<Rightarrow> (string \<times> sector_stats) list" where
  "analyze_sector_momentum batch query top_stocks =
     (let rows = sector_table (premarket batch top_stocks)
      in case judge_sectors query (target_sectors rows) rows of
           Inl _ \<Rightarrow> []
         | Inr judged \<Rightarrow> sort_key (\<lambda>(_, r). - sw_avg_return r) judged)"

record hot_stock =
  ht_code :: string
  ht_name :: string
  ht_sector :: string
  ht_momentum :: rat

definition get_hot_sector_stocks :: "(string \<times> sector_stats) list \<Rightarrow> nat \<Rightarrow> hot_stock list" where
  "get_hot_sector_stocks sector_analysis top_n =
     take top_n (concat (map (\<lambda>(sector, r). map (\<lambda>(code, name). \<lparr>ht_code = code, ht_name = name, ht_sector = sector,
       ht_momentum = sw_avg_return r\<rparr>) (sw_stocks r)) (take 3 sector_analysis)))"

text \<open>What the sector budget reads of a row.\<close>

definition budget_view :: "(string \<times> sector_stats) list \<Rightarrow> (string \<times> sector_info) list" where
  "budget_view = map (\<lambda>(s, r). (s, \<lparr>si_avg_return = Some (sw_avg_return r), si_stock_count = Some (int (sw_count r)),
     si_trend_status = Some (sw_trend r)\<rparr>))"

section \<open>Momentum against the index\<close>

record momentum_stock =
  ms_code :: string
  ms_name :: string
  ms_momentum :: rat

definition BLUE_CHIP_STOCKS :: "(string \<times> string) list" where
  "BLUE_CHIP_STOCKS = [(''0001'', ''KOSPI''), (''005930'', utf8 [236, 130, 188, 236, 132, 177, 236, 160, 132, 236, 158, 144]),
     (''000660'', ''SK'' @ utf8 [237, 149, 152, 236, 157, 180, 235, 139, 137, 236, 138, 164]), (''035420'', ''NAVER''),
     (''035720'', utf8 [236, 185, 180, 236, 185, 180, 236, 152, 164])]"

text \<open>All codes of the table, without their names; else the tradable stocks of the watchlist; else the blue chips.\<close>

definition stocks_to_check :: "string list \<Rightarrow> (string \<times> string \<times> bool) list \<Rightarrow> (string \<times> string) list" where
  "stocks_to_check all_codes watchlist =
     (if all_codes \<noteq> [] then map (\<lambda>c. (c, c)) all_codes
      else if watchlist \<noteq> [] then map (\<lambda>(c, n, _). (c, n)) (filter (\<lambda>(_, _, t). t) watchlist)
      else filter (\<lambda>(c, _). c \<noteq> ''0001'') BLUE_CHIP_STOCKS)"

definition enough_days :: "nat \<Rightarrow> rat list \<Rightarrow> bool" where
  "enough_days period_days closes \<longleftrightarrow> closes \<noteq> [] \<and> fmul (of_nat period_days) (fl (8/10)) \<le> of_nat (length closes)"

definition momentum_return :: "rat list \<Rightarrow> rat res" where
  "momentum_return closes = (if hd closes = 0 then Inl ZeroDivisionError
     else Inr (fmul (fsub (fdiv (List.last closes) (hd closes)) 1) 100))"

definition stock_momentum :: "(string \<Rightarrow> rat list res) \<Rightarrow> nat \<Rightarrow> rat \<Rightarrow> string \<times> string \<Rightarrow> momentum_stock option" where
  "stock_momentum query period_days kospi_return = (\<lambda>(code, name). case query code of
     Inl _ \<Rightarrow> None
   | Inr closes \<Rightarrow> if \<not> enough_days period_days closes then None
       else (case momentum_return closes of Inl _ \<Rightarrow> None
         | Inr r \<Rightarrow> Some \<lparr>ms_code = code, ms_name = name, ms_momentum = fsub r kospi_return\<rparr>))"

definition get_momentum_stocks ::
  "(string \<Rightarrow> rat list res) \<Rightarrow> string list res \<Rightarrow> (string \<times> string \<times> bool) list \<Rightarrow> nat \<Rightarrow> nat \<Rightarrow> momentum_stock list" where
  "get_momentum_stocks query all_codes watchlist period_months top_n =
     (let period_days = period_months * 30
      in case query ''0001'' of
           Inl _ \<Rightarrow> []
         | Inr kospi \<Rightarrow> if \<not> enough_days period_days kospi then []
             else (case momentum_return kospi of
                 Inl _ \<Rightarrow> []
               | Inr kospi_return \<Rightarrow> (case all_codes of
                   Inl _ \<Rightarrow> []
                 | Inr codes \<Rightarrow> take top_n (sort_key (\<lambda>m. - ms_momentum m)
                     (List.map_filter (stock_momentum query period_days kospi_return) (stocks_to_check codes watchlist))))))"

section \<open>Registered stocks\<close>

text \<open>
  The query names the candidates but the index; an empty list of names is an error of the
  server, which the query's answer stands for.
\<close>

definition filter_valid_stocks ::
  "(string list \<Rightarrow> string list res) \<Rightarrow> (string \<times> 'c) list \<Rightarrow> (string \<times> 'c) list" where
  "filter_valid_stocks registered candidates = (if candidates = [] then []
     else (case registered (filter (\<lambda>c. c \<noteq> ''0001'') (map fst candidates)) of
         Inl _ \<Rightarrow> candidates
       | Inr valid_codes \<Rightarrow> filter (\<lambda>(c, _). c \<in> set valid_codes) candidates))"

section \<open>What the analysis answers\<close>

lemma judge_sector_keeps:
  assumes "judge_sector query row = Inr row'"
  shows "sw_avg_return row' = sw_avg_return row"
    and "sw_penalty row' = sw_penalty row \<or> sw_penalty row' = - 10 \<and> sw_trend row' = ''FALLING_KNIFE''"
  using assms by (auto simp: judge_sector_def res_bind_Inr_iff split: if_splits prod.splits)

text \<open>The returns stay, and only the sectors judged get a penalty.\<close>

definition penalised_within :: "string set \<Rightarrow> (string \<times> sector_stats) list \<Rightarrow> bool" where
  "penalised_within T rows \<longleftrightarrow> (\<forall>(s, r) \<in> set rows. sw_penalty r \<noteq> 0 \<longrightarrow>
     s \<in> T \<and> sw_penalty r = - 10 \<and> sw_trend r = ''FALLING_KNIFE'')"

lemma dict_set_entry: "kv \<in> set (dict_set k v d) \<Longrightarrow> kv = (k, v) \<or> kv \<in> set d"
  by (induction k v d rule: dict_set.induct) (auto split: if_splits)

lemma dict_set_same_view:
  "map_of d k = Some w \<Longrightarrow> f v = f w \<Longrightarrow> map (\<lambda>(s, r). (s, f r)) (dict_set k v d) = map (\<lambda>(s, r). (s, f r)) d"
  by (induction k v d rule: dict_set.induct) auto

lemma judge_sectors_keep:
  assumes "judge_sectors query ss rows = Inr rows'" "distinct ss" "set ss \<inter> T = {}" "penalised_within T rows"
  shows "map (\<lambda>(s, r). (s, sw_avg_return r)) rows' = map (\<lambda>(s, r). (s, sw_avg_return r)) rows \<and> penalised_within (T \<union> set ss) rows'"
  using assms
proof (induction query ss rows arbitrary: T rule: judge_sectors.induct)
  case (2 query s ss rows)
  have weak: "penalised_within (insert s T) rows" using "2.prems"(4) by (auto simp: penalised_within_def)
  show ?case
  proof (cases "map_of rows s")
    case None
    then show ?thesis using "2.IH"(1) [OF None, of "insert s T"] "2.prems" weak by simp
  next
    case (Some row)
    with "2.prems"(1) obtain row' where row': "judge_sector query row = Inr row'"
      and rest: "judge_sectors query ss (dict_set s row' rows) = Inr rows'" by (auto simp: res_bind_Inr_iff)
    have "sw_penalty row = 0" using "2.prems"(3,4) map_of_SomeD [OF Some] by (auto simp: penalised_within_def)
    then have "penalised_within (insert s T) (dict_set s row' rows)"
      using weak judge_sector_keeps(2) [OF row'] unfolding penalised_within_def by (auto dest!: dict_set_entry)
    with "2.IH"(2) [OF Some rest, of "insert s T"] "2.prems"(2,3) show ?thesis
      using dict_set_same_view [where f = sw_avg_return, OF Some judge_sector_keeps(1) [OF row']] by simp
  qed
qed simp

lemma sector_table_distinct: "distinct (map fst (sector_table stocks))"
proof -
  have "distinct (map fst d) \<Longrightarrow> distinct (map fst (foldl add_top_stock d ss))" for d ss
    by (induction ss arbitrary: d) (simp_all add: add_top_stock_def case_prod_beta Let_def)
  from this [of "[]" stocks] show ?thesis by (simp add: sector_table_def comp_def case_prod_beta)
qed

lemma target_sectors_distinct: "distinct (map fst rows) \<Longrightarrow> distinct (target_sectors rows)"
  unfolding target_sectors_def
  by (intro distinct_take) (metis distinct_map_filter distinct_map distinct_sort set_sort)

lemma sector_table_unpenalised: "penalised_within {} (sector_table stocks)"
  by (auto simp: penalised_within_def sector_table_def)

lemma view_entry:
  assumes "(s, r) \<in> set xs" and e: "map (\<lambda>(s, r). (s, f r)) xs = map (\<lambda>(s, r). (s, f r)) ys"
  shows "\<exists>r'. (s, r') \<in> set ys \<and> f r' = f r"
proof -
  have "(s, f r) \<in> set (map (\<lambda>(s, r). (s, f r)) xs)"
    using imageI [OF assms(1), of "\<lambda>(s, r). (s, f r)"] by simp
  then show ?thesis unfolding e by auto
qed

text \<open>
  The analysis answers the sectors by falling return, so the hot sectors are those with the largest; a penalty
  is -10, stands with the status of a falling knife, and falls on at most five sectors, all
  with an average change below -1 per cent.
\<close>

theorem sector_analysis_sound:
  assumes "rows = analyze_sector_momentum batch query stocks"
  shows "sorted_wrt (\<ge>) (map (sw_avg_return \<circ> snd) rows)
    \<and> (\<forall>(s, r) \<in> set rows. sw_penalty r \<noteq> 0 \<longrightarrow> sw_penalty r = - 10 \<and> sw_trend r = ''FALLING_KNIFE'')
    \<and> (\<exists>T. length T \<le> 5 \<and> (\<forall>(s, r) \<in> set rows. sw_penalty r \<noteq> 0 \<longrightarrow> s \<in> set T \<and> (\<exists>a < - 1. \<exists>r'. (s, r') \<in> set rows \<and> sw_avg_return r' = a)))"
proof (cases "judge_sectors query (target_sectors (sector_table (premarket batch stocks))) (sector_table (premarket batch stocks))")
  case (Inl e)
  then show ?thesis using assms by (auto simp: analyze_sector_momentum_def Let_def intro: exI [of _ "[]"])
next
  case (Inr judged)
  let ?t = "sector_table (premarket batch stocks)"
  let ?T = "target_sectors ?t"
  have rows: "rows = sort_key (\<lambda>(_, r). - sw_avg_return r) judged" using Inr assms by (simp add: analyze_sector_momentum_def Let_def)
  from judge_sectors_keep [OF Inr target_sectors_distinct [OF sector_table_distinct] _ sector_table_unpenalised]
  have view: "map (\<lambda>(s, r). (s, sw_avg_return r)) judged = map (\<lambda>(s, r). (s, sw_avg_return r)) ?t"
    and pen: "penalised_within (set ?T) judged" by auto
  have "sorted (map (\<lambda>(_, r). - sw_avg_return r) rows)" unfolding rows by (rule sorted_sort_key)
  then have "sorted_wrt (\<ge>) (map (sw_avg_return \<circ> snd) rows)"
    by (simp add: sorted_wrt_map sorted_map case_prod_beta)
  moreover have "\<exists>a < - 1. \<exists>r'. (s, r') \<in> set rows \<and> sw_avg_return r' = a" if "s \<in> set ?T" for s
  proof -
    from that obtain r where "(s, r) \<in> set ?t" "sw_avg_return r < - 1"
      unfolding target_sectors_def by (auto dest!: in_set_takeD)
    with view_entry [where f = sw_avg_return, OF _ view [symmetric]] show ?thesis unfolding rows by fastforce
  qed
  moreover have "length ?T \<le> 5" by (simp add: target_sectors_def)
  ultimately show ?thesis using pen unfolding penalised_within_def rows
    by (intro conjI exI [of _ ?T]) auto
qed

text \<open>The index is asked for by no query, so it leaves the candidates here whenever the query answers.\<close>

theorem index_filtered:
  assumes "registered (filter (\<lambda>c. c \<noteq> ''0001'') (map fst candidates)) = Inr valid"
    and "set valid \<subseteq> set (filter (\<lambda>c. c \<noteq> ''0001'') (map fst candidates))"
  shows "''0001'' \<notin> fst ` set (filter_valid_stocks registered candidates)"
  using assms by (auto simp: filter_valid_stocks_def split: if_splits)

lemma momentum_sorted:
  "sorted_wrt (\<ge>) (map ms_momentum (get_momentum_stocks query all_codes watchlist m n)) \<and> length (get_momentum_stocks query all_codes watchlist m n) \<le> n"
proof -
  have "sorted_wrt (\<ge>) (map ms_momentum (sort_key (\<lambda>m. - ms_momentum m) xs))" for xs
    using sorted_sort_key [of "\<lambda>m. - ms_momentum m" xs] by (simp add: sorted_wrt_map sorted_map)
  then have srt: "sorted_wrt (\<ge>) (map ms_momentum (take n (sort_key (\<lambda>m. - ms_momentum m) xs)))" for xs
    unfolding take_map [symmetric] by (rule sorted_wrt_take)
  show ?thesis by (simp add: get_momentum_stocks_def Let_def srt split: sum.split)
qed

end
