(* ===== verification/Scout_Pipeline.thy ===== *)
theory Scout_Pipeline
  imports Quant_Scorer
begin

text \<open>
  The evaluation of one candidate by the scout, \<open>services/scout-job/scout_pipeline.py\<close>: the
  quantitative score from the queries, the filter before the language model, and the analyst that joins
  both scores into approval, trade tier and grade. The language model is a parameter (its answer to all it is told of
  a stock), as are the queries and the bonus that Redis holds for the stock. What the archivist is told is returned as a list of entries.
\<close>

section \<open>The quantitative score of a candidate\<close>

text \<open>
  The answers to the queries of the task: the daily prices, the investors' trades of ten days, and
  the foreign holding ratios of twenty-five days (none without a frame or its column).
\<close>

record quant_sources =
  qs_prices :: "price_frame res"
  qs_investors :: "investor_frame res"
  qs_ratios :: "flt list option"
  qs_trend :: "financial_trend option"
  qs_momentum :: "flt option"

record scout_info =
  fo_name :: string
  fo_sector :: "string option"
  fo_sentiment :: "flt option"
  fo_flow :: "(int option \<times> int option) option"
  fo_reasons :: "string list"

record snapshot =
  sn_per :: "flt option"
  sn_pbr :: "flt option"
  sn_market_cap :: "flt option"

definition foreign_ratio_trend :: "flt list option \<Rightarrow> flt option" where
  "foreign_ratio_trend col = (case map_option (filter (\<lambda>x. x \<noteq> NaN)) col of
     Some ratios \<Rightarrow> if 20 \<le> length ratios then Some (xsub (at_end ratios 1) (at_end ratios 20)) else None
   | None \<Rightarrow> None)"

definition task_input ::
  "quant_sources \<Rightarrow> price_frame option \<Rightarrow> scout_info \<Rightarrow> snapshot option \<Rightarrow> string \<Rightarrow> price_frame \<Rightarrow> quant_input" where
  "task_input S kospi info snap code df =
     \<lparr>qi_code = code, qi_name = fo_name info, qi_prices = Some df, qi_kospi = kospi, qi_roe = None, qi_sales = None, qi_eps = None,
      qi_pbr = Option.bind snap sn_pbr, qi_per = Option.bind snap sn_per,
      qi_sentiment = (case fo_sentiment info of Some s \<Rightarrow> s | None \<Rightarrow> Fin 50), qi_category = None,
      qi_foreign = Option.bind (fo_flow info) fst, qi_institution = Option.bind (fo_flow info) snd, qi_holding = None,
      qi_sector = fo_sector info,
      qi_investors = (case qs_investors S of Inr iv \<Rightarrow> Some iv | Inl _ \<Rightarrow> None),
      qi_trend = qs_trend S, qi_sentiment_momentum = qs_momentum S, qi_ratio_trend = foreign_ratio_trend (qs_ratios S)\<rparr>"

definition short_data_result :: "string \<Rightarrow> string \<Rightarrow> score_result" where
  "short_data_result code name = (blank_result code name)\<lparr>sr_valid := False, sr_details := [(''note'', DFact FNote)]\<rparr>"

text \<open>A failing query of the prices gives an invalid result, a failing query of the trades is passed over.\<close>

definition process_quant_scoring_task ::
  "scorer_env \<Rightarrow> quant_sources \<Rightarrow> price_frame option \<Rightarrow> scout_info \<Rightarrow> snapshot option \<Rightarrow> string \<Rightarrow> scorer_caches
     \<Rightarrow> score_result \<times> scorer_caches" where
  "process_quant_scoring_task E S kospi info snap code c = (case qs_prices S of
     Inl _ \<Rightarrow> (invalid_result code (fo_name info), c)
   | Inr df \<Rightarrow> if frame_len df < 30 then (short_data_result code (fo_name info), c)
       else calculate_total_quant_score E (task_input S kospi info snap code df) c)"

section \<open>The filter before the language model\<close>

datatype smart_skip = Low_Quant | High_Rsi | Bad_News | Low_Hunter

text \<open>A number directly among the details of a result.\<close>

definition detail_num :: "score_result \<Rightarrow> string \<Rightarrow> flt option" where
  "detail_num r k = (case map_of (sr_details r) k of
     Some (DFact (FNum v)) \<Rightarrow> Some v | Some (DFact (FInt n)) \<Rightarrow> Some (xint n) | _ \<Rightarrow> None)"

definition below :: "flt option \<Rightarrow> rat \<Rightarrow> bool" where
  "below v x = (case v of Some y \<Rightarrow> xlt y (Fin x) | None \<Rightarrow> False)"

definition above :: "flt option \<Rightarrow> rat \<Rightarrow> bool" where
  "above v x = (case v of Some y \<Rightarrow> xlt (Fin x) y | None \<Rightarrow> False)"

definition should_skip_hunter :: "cfg \<Rightarrow> score_result \<Rightarrow> flt option \<Rightarrow> flt option \<Rightarrow> flt \<Rightarrow> smart_skip option" where
  "should_skip_hunter C r cached_hunter_score news_sentiment competitor_bonus =
     (if xlt (Fin 0) competitor_bonus then None
      else if xlt (sr_total r) (Fin (cf_float C ''SMART_SKIP_QUANT_MIN'' 25)) then Some Low_Quant
      else if above (detail_num r ''rsi'') (cf_float C ''SMART_SKIP_RSI_MAX'' 80) then Some High_Rsi
      else if below news_sentiment (cf_float C ''SMART_SKIP_SENTIMENT_MIN'' (- 50)) then Some Bad_News
      else if below cached_hunter_score (cf_float C ''SMART_SKIP_CACHED_HUNTER_MIN'' 30) then Some Low_Hunter
      else None)"

section \<open>The analyst\<close>

text \<open>The score of the language model is held within 15 points of the quantitative score; the bonus comes on top.\<close>

definition guardrail :: "flt \<Rightarrow> flt \<Rightarrow> flt" where
  "guardrail quant raw = py_max (xsub quant (Fin 15)) (py_min (xadd quant (Fin 15)) raw)"

definition with_bonus :: "flt \<Rightarrow> flt \<Rightarrow> flt" where
  "with_bonus competitor_bonus llm = (if xlt (Fin 0) competitor_bonus then py_min (Fin 100) (xadd llm competitor_bonus) else llm)"

definition mix :: "rat \<Rightarrow> rat \<Rightarrow> flt \<Rightarrow> flt \<Rightarrow> flt" where
  "mix a b quant llm = xadd (xmul quant (lit a)) (xmul llm (lit b))"

definition blended_score :: "flt \<Rightarrow> flt \<Rightarrow> flt" where
  "blended_score quant llm =
     (if xle (Fin 30) (xabs (xsub quant llm))
      then (if xlt quant llm then mix (75/100) (25/100) quant llm else mix (40/100) (60/100) quant llm)
      else if xlt llm (Fin 40) then mix (45/100) (55/100) quant llm
      else mix (60/100) (40/100) quant llm)"

datatype recon_signal = Golden_Cross | Volume_Trend | Ma20_Slope_Up | Momentum_High

definition recon_signals :: "cfg \<Rightarrow> score_result \<Rightarrow> recon_signal list" where
  "recon_signals C r =
     (let tech = detail_facts r ''technical''
      in (if map_of tech ''golden_cross_5_20'' = Some (FFlag True) then [Golden_Cross] else [])
       @ (case fact_num tech ''volume_ratio'' of
            Some v \<Rightarrow> if xle (Fin (cf_float C ''RECON_VOLUME_RATIO_MIN'' (3/2))) v then [Volume_Trend] else [] | None \<Rightarrow> [])
       @ (if above (fact_num tech ''ma20_slope_5d'') 0 then [Ma20_Slope_Up] else [])
       @ (if xle (Fin (cf_float C ''RECON_MOMENTUM_MIN'' 20)) (sr_momentum r) then [Momentum_High] else []))"

datatype trade_tier = TIER1 | RECON | BLOCKED

definition grade_of :: "flt \<Rightarrow> string" where
  "grade_of h = (if xle (Fin 80) h then ''S'' else if xle (Fin 70) h then ''A'' else if xle (Fin 60) h then ''B''
     else if xle (Fin 50) h then ''C'' else ''D'')"

record analyst_meta =
  am_grade :: string
  am_quant_score :: flt
  am_raw_score :: flt
  am_clamped_score :: flt
  am_hybrid_score :: flt
  am_win_rate :: "rat option"
  am_tier :: trade_tier
  am_recon :: "recon_signal list"
  am_risk_tag :: string
  am_veto :: bool

text \<open>The record of a decision; without a snapshot there are no metadata.\<close>

record decision =
  dn_code :: string
  dn_name :: string
  dn_tradable :: bool
  dn_score :: flt
  dn_reason :: string
  dn_approved :: bool
  dn_meta :: "analyst_meta option"
  dn_tier :: trade_tier
  dn_snapshot :: "snapshot option"

text \<open>
  What the archivist writes down: of a rejection code, name, both scores and the reason of the answer; of every
  decision code, name, score, regime, keywords, verdict and reason.
\<close>

datatype archive_entry =
    Shadow_Radar string string flt flt string
  | Decision_Ledger string string flt string "string list" bool string

definition SNAPSHOT_FAILED :: string where
  "SNAPSHOT_FAILED = utf8 [236, 138, 164, 235, 131, 133, 236, 131, 183, 32, 236, 161, 176, 237, 154, 140, 32, 236, 139, 164, 237, 140, 168]"

text \<open>The texts in place of news: an empty cache, a stock without news, no vector store, a search that failed.\<close>

definition NO_NEWS_CACHE :: string where
  "NO_NEWS_CACHE = utf8 [235, 137, 180, 236, 138, 164, 32, 236, 186, 144, 236, 139, 156, 32, 236, 151, 134, 236, 157, 140]"

definition NO_RECENT_NEWS :: string where
  "NO_RECENT_NEWS = utf8 [236, 181, 156, 234, 183, 188, 32, 234, 180, 128, 235, 160, 168, 32, 235, 137, 180, 236, 138, 164, 32,
     236, 151, 134, 236, 157, 140]"

definition NO_NEWS_DB :: string where
  "NO_NEWS_DB = utf8 [235, 137, 180, 236, 138, 164, 32, 68, 66, 32, 235, 175, 184, 236, 151, 176, 234, 178, 176]"

definition NEWS_SEARCH_ERROR :: string where
  "NEWS_SEARCH_ERROR = utf8 [235, 137, 180, 236, 138, 164, 32, 234, 178, 128, 236, 131, 137, 32, 236, 152, 164, 235, 165, 152]"

text \<open>The benefit from a competitor: its score, the score as it is printed, and its reason.\<close>

record competitor_benefit =
  cb_score :: flt
  cb_shown :: string
  cb_reason :: string

definition benefit_line :: "competitor_benefit \<Rightarrow> string" where
  "benefit_line b = [CHR 0x0A, CHR 0x0A] @ utf8 [226, 154, 161] @ '' ['' @ utf8 [234, 178, 189, 236, 159, 129, 236, 130, 172, 32,
     236, 136, 152, 237, 152, 156, 32, 234, 184, 176, 237, 154, 140] @ ''] '' @ cb_reason b @ '' (+'' @ cb_shown b @ utf8 [236, 160, 144] @ '')''"

definition news_text :: "(string \<Rightarrow> string option) option \<Rightarrow> competitor_benefit \<Rightarrow> string \<Rightarrow> string" where
  "news_text news_cache b code =
     (let news = (case news_cache of None \<Rightarrow> NO_NEWS_CACHE | Some f \<Rightarrow> opt_or NO_RECENT_NEWS (f code))
      in if xlt (Fin 0) (cb_score b) then news @ benefit_line b else news)"

fun comma_joined :: "string list \<Rightarrow> string" where
  "comma_joined [] = []"
| "comma_joined [t] = t"
| "comma_joined (t # ts) = t @ '', '' @ comma_joined ts"

text \<open>The news for the model, or the reasons of the candidate when the news could not be searched.\<close>

definition news_reason :: "string \<Rightarrow> string list \<Rightarrow> string" where
  "news_reason news reasons = (if news \<in> {NO_NEWS_DB, NEWS_SEARCH_ERROR} then comma_joined reasons else news)"

text \<open>
  What the model is told: the facts of the stock, and the quantitative result as text. (The lessons of
  the feedback are the same for all stocks of a run.)
\<close>

record analyst_prompt =
  ap_code :: string
  ap_name :: string
  ap_news :: string
  ap_per :: "flt option"
  ap_pbr :: "flt option"
  ap_market_cap :: "flt option"
  ap_quant :: score_result

text \<open>The words of a text; the characters of a word are its bytes but the continuation bytes of UTF-8.\<close>

fun words_from :: "string \<Rightarrow> string \<Rightarrow> string list" where
  "words_from w [] = (if w = [] then [] else [w])"
| "words_from w (c # cs) = (if is_space c then (if w = [] then [] else [w]) @ words_from [] cs else words_from (w @ [c]) cs)"

definition char_count :: "string \<Rightarrow> nat" where
  "char_count w = length (filter (\<lambda>c. (of_char c :: nat) < 128 \<or> 192 \<le> (of_char c :: nat)) w)"

definition dominant_keywords :: "string list \<Rightarrow> string list" where
  "dominant_keywords reasons = concat (map (\<lambda>r. take 3 (filter (\<lambda>w. 1 < char_count w) (words_from [] r))) reasons)"

text \<open>
  The answer of the model is its score and its reason. The archivist is told of every decision,
  and of a rejection once more.
\<close>

definition process_unified_analyst_task ::
  "cfg \<Rightarrow> competitor_benefit \<Rightarrow> (analyst_prompt \<Rightarrow> flt \<times> string) \<Rightarrow> (string \<Rightarrow> string option) option \<Rightarrow> string \<Rightarrow> snapshot option
     \<Rightarrow> string \<Rightarrow> scout_info \<Rightarrow> score_result \<Rightarrow> decision \<times> archive_entry list" where
  "process_unified_analyst_task C benefit brain news_cache market_regime snap code info r = (case snap of
     None \<Rightarrow> (\<lparr>dn_code = code, dn_name = fo_name info, dn_tradable = False, dn_score = Fin 0, dn_reason = SNAPSHOT_FAILED,
        dn_approved = False, dn_meta = None, dn_tier = BLOCKED, dn_snapshot = None\<rparr>, [])
   | Some s \<Rightarrow>
     (let (raw, reason) = brain \<lparr>ap_code = code, ap_name = fo_name info,
            ap_news = news_reason (news_text news_cache benefit code) (fo_reasons info),
            ap_per = sn_per s, ap_pbr = sn_pbr s, ap_market_cap = sn_market_cap s, ap_quant = r\<rparr>;
          quant = sr_total r;
          llm = with_bonus (cb_score benefit) (guardrail quant raw);
          risk_tag = classify_risk_tag r;
          hybrid = blended_score quant llm;
          veto = (risk_tag = ''DISTRIBUTION_RISK'');
          approved = (xle (Fin 50) hybrid \<and> \<not> veto);
          signals = recon_signals C r;
          is_recon = (xle (Fin 60) hybrid \<and> xlt hybrid (Fin 75) \<and> signals \<noteq> []);
          tradable = ((xle (Fin 75) hybrid \<or> is_recon) \<and> \<not> veto);
          tier = (if veto then BLOCKED else if xle (Fin 75) hybrid then TIER1 else if is_recon then RECON else BLOCKED);
          meta = \<lparr>am_grade = grade_of hybrid, am_quant_score = quant, am_raw_score = raw, am_clamped_score = llm,
            am_hybrid_score = hybrid, am_win_rate = sr_win_rate r, am_tier = tier, am_recon = signals,
            am_risk_tag = risk_tag, am_veto = veto\<rparr>
      in (\<lparr>dn_code = code, dn_name = fo_name info, dn_tradable = tradable, dn_score = hybrid, dn_reason = reason, dn_approved = approved,
           dn_meta = Some meta, dn_tier = tier, dn_snapshot = Some s\<rparr>,
          (if approved then [] else [Shadow_Radar code (fo_name info) llm hybrid reason])
          @ [Decision_Ledger code (fo_name info) llm market_regime (dominant_keywords (fo_reasons info)) approved reason])))"

section \<open>The filter\<close>

lemma no_top_rsi: "detail_num (fst (calculate_total_quant_score E q c)) ''rsi'' = None"
  by (simp add: detail_num_def calculate_total_quant_score_def calculate_total_quant_score_v2_def calculate_total_v1_def case_prod_beta
      Let_def invalid_result_def blank_result_def block_detail_def split: option.splits)

lemma task_cases:
  "fst (process_quant_scoring_task E S kospi info snap code c) = invalid_result code (fo_name info)
   \<or> fst (process_quant_scoring_task E S kospi info snap code c) = short_data_result code (fo_name info)
   \<or> (\<exists>q c'. process_quant_scoring_task E S kospi info snap code c = calculate_total_quant_score E q c')"
  by (auto simp: process_quant_scoring_task_def split: sum.split)

text \<open>
  The filter reads the RSI where no result has it: no candidate is ever skipped as overbought, although
  the RSI is the second of the four documented conditions.
\<close>

theorem rsi_never_skips:
  "should_skip_hunter C (fst (process_quant_scoring_task E S kospi info snap code c)) h n b \<noteq> Some High_Rsi"
proof -
  have "detail_num (fst (process_quant_scoring_task E S kospi info snap code c)) ''rsi'' = None"
    using task_cases [of E S kospi info snap code c] no_top_rsi
    by (auto simp: detail_num_def invalid_result_def short_data_result_def)
  then show ?thesis by (simp add: should_skip_hunter_def above_def)
qed

section \<open>What the analyst can decide\<close>

lemma fl_abs_error: "\<bar>x\<bar> \<le> 256 \<Longrightarrow> \<bar>fl x - x\<bar> \<le> 1 / 1000000"
proof (cases "\<bar>x\<bar> \<le> two_pow (- 21)")
  case True
  have g: "fl (two_pow (- 21)) = two_pow (- 21)" using fl_representable [of 1 "- 21"] by simp
  have "- two_pow (- 21) \<le> fl x" "fl x \<le> two_pow (- 21)"
    using True fl_le_float [OF g, of x] fl_ge_float [of "- two_pow (- 21)" x] g by (auto simp: abs_le_iff)
  moreover have "two_pow (- 21) + two_pow (- 21) \<le> (1 / 1000000 :: rat)" by (simp add: two_pow_def)
  ultimately show ?thesis using True by linarith
next
  case False
  assume x: "\<bar>x\<bar> \<le> 256"
  have "two_pow (- 1022) \<le> (two_pow (- 21) :: rat)" by (simp add: two_pow_le_iff)
  then have "\<bar>fl x - x\<bar> \<le> \<bar>x\<bar> * two_pow (- 53)" using False by (intro fl_rel_error) linarith
  also have "\<dots> \<le> 256 * two_pow (- 53)" using x by (intro mult_right_mono) (auto intro: less_imp_le)
  also have "\<dots> \<le> 1 / 1000000" by (simp add: two_pow_def)
  finally show ?thesis .
qed

lemma fl_near: "\<bar>x\<bar> \<le> 256 \<Longrightarrow> x - 1 / 1000000 \<le> fl x \<and> fl x \<le> x + 1 / 1000000"
  using fl_abs_error [of x] by linarith

lemma mul_close:
  assumes "\<bar>x\<bar> \<le> 150" "0 \<le> a" "a \<le> 1"
  shows "\<exists>y. xmul (Fin x) (lit a) = Fin y \<and> \<bar>y - a * x\<bar> \<le> 1 / 1000"
proof -
  have a: "\<bar>fl a - a\<bar> \<le> 1 / 1000000" using assms by (intro fl_abs_error) auto
  have "\<bar>x * fl a - a * x\<bar> = \<bar>x\<bar> * \<bar>fl a - a\<bar>" by (simp add: abs_mult [symmetric] algebra_simps)
  also have "\<dots> \<le> 150 * (1 / 1000000)" using assms(1) a by (intro mult_mono) auto
  finally have d: "\<bar>x * fl a - a * x\<bar> \<le> 150 / 1000000" by simp
  have "\<bar>a * x\<bar> \<le> 1 * 150" using assms unfolding abs_mult by (intro mult_mono) auto
  with d have p: "\<bar>x * fl a\<bar> \<le> 256" by linarith
  then have "xmul (Fin x) (lit a) = Fin (fl (x * fl a))" by (simp add: lit_def rnd_small)
  moreover have "\<bar>fl (x * fl a) - a * x\<bar> \<le> 1 / 1000" using fl_abs_error [OF p] d by linarith
  ultimately show ?thesis by blast
qed

lemma mix_close:
  assumes "\<bar>q\<bar> \<le> 150" "\<bar>l\<bar> \<le> 150" "0 \<le> a" "0 \<le> b" "a + b = 1"
  shows "\<exists>h. mix a b (Fin q) (Fin l) = Fin h \<and> \<bar>h - (a * q + b * l)\<bar> \<le> 1 / 100"
proof -
  from mul_close [of q a] mul_close [of l b] assms obtain y z
    where y: "xmul (Fin q) (lit a) = Fin y" "\<bar>y - a * q\<bar> \<le> 1 / 1000"
      and z: "xmul (Fin l) (lit b) = Fin z" "\<bar>z - b * l\<bar> \<le> 1 / 1000" by force
  have "\<bar>a * q\<bar> \<le> a * 150" "\<bar>b * l\<bar> \<le> b * 150" using assms by (auto simp: abs_mult intro: mult_left_mono)
  moreover have "a * 150 + b * 150 = 150" using assms(5) by (simp add: distrib_right [symmetric])
  ultimately have "\<bar>y + z\<bar> \<le> 256" using y(2) z(2) by linarith
  moreover from this fl_abs_error [of "y + z"] y(2) z(2) have "\<bar>fl (y + z) - (a * q + b * l)\<bar> \<le> 1 / 100" by linarith
  ultimately show ?thesis using y(1) z(1) by (simp add: mix_def rnd_small)
qed

text \<open>The score of the model after the guardrail and the bonus, for every answer.\<close>

lemma guardrail_close:
  assumes "0 \<le> q" "q \<le> 120"
  shows "\<exists>l. guardrail (Fin q) raw = Fin l \<and> q - 15 - 1 / 1000 \<le> l \<and> l \<le> q + 15 + 1 / 1000"
proof -
  have up: "xadd (Fin q) (Fin 15) = Fin (fl (q + 15))" and dn: "xsub (Fin q) (Fin 15) = Fin (fl (q - 15))"
    using assms by (simp_all add: xsub_def rnd_small)
  have "q + 15 - 1 / 1000000 \<le> fl (q + 15)" "fl (q + 15) \<le> q + 15 + 1 / 1000000"
    "q - 15 - 1 / 1000000 \<le> fl (q - 15)" "fl (q - 15) \<le> q - 15 + 1 / 1000000"
    using assms fl_near [of "q + 15"] fl_near [of "q - 15"] by auto
  then show ?thesis unfolding guardrail_def up dn by (cases raw) (auto simp: py_max_def py_min_def)
qed

lemma llm_close:
  assumes "0 \<le> q" "q \<le> 120" "atmost 10 b"
  shows "\<exists>l. with_bonus b (guardrail (Fin q) raw) = Fin l \<and> q - 21 \<le> l \<and> l \<le> q + 26 \<and> (q \<le> 100 \<longrightarrow> q - 16 \<le> l)
     \<and> (\<not> xlt (Fin 0) b \<longrightarrow> l \<le> q + 16)"
proof -
  obtain l where l: "guardrail (Fin q) raw = Fin l" "q - 15 - 1 / 1000 \<le> l" "l \<le> q + 15 + 1 / 1000"
    using guardrail_close [OF assms(1,2)] by blast
  show ?thesis
  proof (cases "xlt (Fin 0) b")
    case True
    then obtain c where c: "b = Fin c" "0 < c" "c \<le> 10" using assms(3) by (cases b) auto
    have "\<bar>l + c\<bar> \<le> 256" using l c assms by linarith
    then have "xadd (Fin l) b = Fin (fl (l + c))" "l + c - 1 / 1000000 \<le> fl (l + c)" "fl (l + c) \<le> l + c + 1 / 1000000"
      using c fl_near [of "l + c"] by (auto simp: rnd_small)
    with True l c(2,3) assms(1,2) show ?thesis by (auto simp del: xadd.simps simp: with_bonus_def py_min_def)
  qed (use l assms in \<open>auto simp: with_bonus_def\<close>)
qed

text \<open>The two scores never differ by 30 points: the two blends for a large difference are never used.\<close>

lemma hybrid_close:
  assumes "0 \<le> q" "q \<le> 120" "q - 21 \<le> l" "l \<le> q + 26"
  shows "\<exists>h. blended_score (Fin q) (Fin l) = Fin h
    \<and> \<bar>h - (if l < 40 then 45/100 * q + 55/100 * l else 60/100 * q + 40/100 * l)\<bar> \<le> 1 / 100"
proof -
  have q: "\<bar>q\<bar> \<le> 150" "\<bar>l\<bar> \<le> 150" using assms by auto
  have "q - l - 1 / 1000000 \<le> fl (q - l)" "fl (q - l) \<le> q - l + 1 / 1000000"
    using assms fl_near [of "q - l"] by auto
  then have "\<not> xle (Fin 30) (xabs (xsub (Fin q) (Fin l)))" using assms by (auto simp: xsub_def rnd_small xle_def)
  then show ?thesis
    using mix_close [OF q, of "45/100" "55/100"] mix_close [OF q, of "60/100" "40/100"] by (simp add: blended_score_def)
qed

theorem safety_lock_never_engages:
  assumes "between 0 120 (sr_total r)" "atmost 10 b"
  shows "\<not> xle (Fin 30) (xabs (xsub (sr_total r) (with_bonus b (guardrail (sr_total r) raw))))"
proof -
  obtain q where q: "sr_total r = Fin q" "0 \<le> q" "q \<le> 120" using assms(1) by (auto simp: between_def)
  obtain l where l: "with_bonus b (guardrail (Fin q) raw) = Fin l" "q - 21 \<le> l" "l \<le> q + 26"
    using llm_close [OF q(2,3) assms(2)] by blast
  have "q - l - 1 / 1000000 \<le> fl (q - l)" "fl (q - l) \<le> q - l + 1 / 1000000"
    using q l fl_near [of "q - l"] by auto
  then show ?thesis using q l by (auto simp: xsub_def rnd_small xle_def)
qed

lemma hybrid_bounds:
  assumes "between 0 120 (sr_total r)" "atmost 10 b"
  obtains q h where "sr_total r = Fin q" "blended_score (sr_total r) (with_bonus b (guardrail (sr_total r) raw)) = Fin h"
    "50 \<le> h \<Longrightarrow> (if xlt (Fin 0) b then 39 else 43) \<le> q" "60 \<le> h \<Longrightarrow> (if xlt (Fin 0) b then 49 else 53) \<le> q"
    "57 \<le> q \<Longrightarrow> 50 \<le> h"
proof -
  obtain q where q: "sr_total r = Fin q" "0 \<le> q" "q \<le> 120" using assms(1) by (auto simp: between_def)
  obtain l where l: "with_bonus b (guardrail (Fin q) raw) = Fin l" "q - 21 \<le> l" "l \<le> q + 26" "q \<le> 100 \<longrightarrow> q - 16 \<le> l"
    "\<not> xlt (Fin 0) b \<longrightarrow> l \<le> q + 16"
    using llm_close [OF q(2,3) assms(2)] by blast
  obtain h where h: "blended_score (Fin q) (Fin l) = Fin h"
    "\<bar>h - (if l < 40 then 45/100 * q + 55/100 * l else 60/100 * q + 40/100 * l)\<bar> \<le> 1 / 100"
    using hybrid_close [OF q(2,3) l(2,3)] by blast
  show thesis
  proof (rule that [of q h])
    have h': "h \<le> (if l < 40 then 45/100 * q + 55/100 * l else 60/100 * q + 40/100 * l) + 1 / 100"
      "(if l < 40 then 45/100 * q + 55/100 * l else 60/100 * q + 40/100 * l) - 1 / 100 \<le> h" using h(2) by linarith+
    show "50 \<le> h \<Longrightarrow> (if xlt (Fin 0) b then 39 else 43) \<le> q" "60 \<le> h \<Longrightarrow> (if xlt (Fin 0) b then 49 else 53) \<le> q"
      "57 \<le> q \<Longrightarrow> 50 \<le> h"
      using h' l(2-) q(2,3) by (auto split: if_splits)
  qed (use q l h in auto)
qed

text \<open>
  Claim C37. What the language model can decide: whatever it answers, a stock with a quantitative score of
  at least 57 is approved, one below 43 without a bonus (39 with a bonus) is not, and
  a stock becomes tradable only from 53 (49) on. Between these lines the model decides.
\<close>

theorem analyst_decides_narrowly:
  assumes "between 0 120 (sr_total r)" "atmost 10 (cb_score b)" "classify_risk_tag r \<noteq> ''DISTRIBUTION_RISK''"
    and "process_unified_analyst_task C b brain news regime (Some snap) code info r = (d, entries)"
  shows "(xle (Fin 57) (sr_total r) \<longrightarrow> dn_approved d)
    \<and> (dn_approved d \<longrightarrow> xle (Fin (if xlt (Fin 0) (cb_score b) then 39 else 43)) (sr_total r))
    \<and> (dn_tradable d \<longrightarrow> xle (Fin (if xlt (Fin 0) (cb_score b) then 49 else 53)) (sr_total r))"
proof -
  obtain raw reason where a: "brain \<lparr>ap_code = code, ap_name = fo_name info,
      ap_news = news_reason (news_text news b code) (fo_reasons info), ap_per = sn_per snap, ap_pbr = sn_pbr snap,
      ap_market_cap = sn_market_cap snap, ap_quant = r\<rparr> = (raw, reason)" by fastforce
  obtain q h where q: "sr_total r = Fin q" "blended_score (sr_total r) (with_bonus (cb_score b) (guardrail (sr_total r) raw)) = Fin h"
    "50 \<le> h \<Longrightarrow> (if xlt (Fin 0) (cb_score b) then 39 else 43) \<le> q" "60 \<le> h \<Longrightarrow> (if xlt (Fin 0) (cb_score b) then 49 else 53) \<le> q"
    "57 \<le> q \<Longrightarrow> 50 \<le> h"
    using hybrid_bounds [OF assms(1,2)] by blast
  have d: "dn_approved d \<longleftrightarrow> xle (Fin 50) (Fin h)" "dn_tradable d \<Longrightarrow> xle (Fin 60) (Fin h)"
    using assms(3,4) by (auto simp: process_unified_analyst_task_def a Let_def q(2) xle_def)
  show ?thesis using d q by (auto simp: xle_def)
qed

text \<open>
  The verdicts of a decision fit together: exactly the tradable stocks have a tier that
  buys; a tradable stock is approved; tier one has at least 75 points, the reconnaissance tier 60 and
  a signal; nothing vetoed is approved; a record without a snapshot is blocked.
\<close>

theorem decision_consistent:
  assumes "process_unified_analyst_task C b brain news regime snap code info r = (d, entries)"
  shows "(dn_tradable d \<longleftrightarrow> dn_tier d \<noteq> BLOCKED) \<and> (dn_tradable d \<longrightarrow> dn_approved d)
    \<and> (dn_tier d = TIER1 \<longrightarrow> xle (Fin 75) (dn_score d))
    \<and> (dn_tier d = RECON \<longrightarrow> xle (Fin 60) (dn_score d) \<and> xlt (dn_score d) (Fin 75) \<and> recon_signals C r \<noteq> [])
    \<and> (dn_approved d \<longrightarrow> classify_risk_tag r \<noteq> ''DISTRIBUTION_RISK'' \<and> snap \<noteq> None)
    \<and> (\<forall>c n l g ks a why. Decision_Ledger c n l g ks a why \<in> set entries \<longrightarrow> c = code \<and> a = dn_approved d)"
proof (cases snap)
  case (Some s)
  obtain raw reason where a: "brain \<lparr>ap_code = code, ap_name = fo_name info,
      ap_news = news_reason (news_text news b code) (fo_reasons info), ap_per = sn_per s, ap_pbr = sn_pbr s,
      ap_market_cap = sn_market_cap s, ap_quant = r\<rparr> = (raw, reason)" by fastforce
  have up: "xle (Fin y) h \<Longrightarrow> x \<le> y \<Longrightarrow> xle (Fin x) h" for x y h by (cases h) (auto simp: xle_def)
  show ?thesis using assms by (auto simp: process_unified_analyst_task_def Some a Let_def up split: if_splits)
qed (use assms in \<open>auto simp: process_unified_analyst_task_def\<close>)

text \<open>
  The reasons of a candidate reach the model only in place of news that could not be searched, and the archive only as
  keywords: otherwise the decision does not depend on them.
\<close>

fun without_keywords :: "archive_entry \<Rightarrow> archive_entry" where
  "without_keywords (Decision_Ledger c n l g ks a why) = Decision_Ledger c n l g [] a why"
| "without_keywords (Shadow_Radar c n l h why) = Shadow_Radar c n l h why"

lemma reasons_only_keywords:
  assumes "news_text news b code \<notin> {NO_NEWS_DB, NEWS_SEARCH_ERROR}"
    and "process_unified_analyst_task C b brain news regime snap code info r = (d, entries)"
  shows "\<exists>entries'. process_unified_analyst_task C b brain news regime snap code (info\<lparr>fo_reasons := reasons\<rparr>) r = (d, entries')
    \<and> map without_keywords entries' = map without_keywords entries"
proof (cases snap)
  case (Some s)
  have n: "news_reason (news_text news b code) rs = news_text news b code" for rs using assms(1) by (simp add: news_reason_def)
  obtain raw reason where a: "brain \<lparr>ap_code = code, ap_name = fo_name info, ap_news = news_text news b code, ap_per = sn_per s,
      ap_pbr = sn_pbr s, ap_market_cap = sn_market_cap s, ap_quant = r\<rparr> = (raw, reason)" by fastforce
  show ?thesis using assms(2) by (auto simp: process_unified_analyst_task_def Some n a Let_def)
qed (use assms(2) in \<open>auto simp: process_unified_analyst_task_def\<close>)

text \<open>The veto never applies to a score the scorer has computed: its risk tag is never \<open>DISTRIBUTION_RISK\<close>.\<close>

theorem veto_never_applies:
  "classify_risk_tag (fst (process_quant_scoring_task E S kospi info snap code c)) \<noteq> ''DISTRIBUTION_RISK''"
proof -
  have "classify_risk_tag (fst (calculate_total_quant_score E q c')) \<noteq> ''DISTRIBUTION_RISK''" for q c'
    using risk_tag_two_values [of E q c'] by (auto simp: Let_def split: option.splits if_splits)
  moreover have "classify_risk_tag (invalid_result code (fo_name info)) \<noteq> ''DISTRIBUTION_RISK''"
    "classify_risk_tag (short_data_result code (fo_name info)) \<noteq> ''DISTRIBUTION_RISK''"
    by (simp_all add: classify_risk_tag_def invalid_result_def short_data_result_def blank_result_def detail_facts_def
        fact_num_def fact_text_def)
  ultimately show ?thesis using task_cases [of E S kospi info snap code c] by metis
qed

section \<open>Witnesses\<close>

definition graded :: "rat \<Rightarrow> score_result" where
  "graded q = (blank_result ''005930'' ''s'')\<lparr>sr_total := Fin q\<rparr>"

definition no_numbers :: snapshot where "no_numbers = \<lparr>sn_per = None, sn_pbr = None, sn_market_cap = None\<rparr>"

definition plain_info :: scout_info where
  "plain_info = \<lparr>fo_name = ''s'', fo_sector = None, fo_sentiment = None, fo_flow = None, fo_reasons = [''KOSPI top'']\<rparr>"

definition no_benefit :: competitor_benefit where "no_benefit = \<lparr>cb_score = Fin 0, cb_shown = ''0'', cb_reason = []\<rparr>"

lemma analyst_decides_narrowly_witness:
  "dn_approved (fst (process_unified_analyst_task plain_cfg no_benefit (\<lambda>_. (Fin 0, [])) None ''BULL'' (Some no_numbers) ''005930'' plain_info
     (graded 60)))"
proof -
  have tag: "classify_risk_tag (graded 60) \<noteq> ''DISTRIBUTION_RISK''"
    by (simp add: classify_risk_tag_def graded_def blank_result_def detail_facts_def fact_num_def fact_text_def)
  from analyst_decides_narrowly [OF _ _ tag prod.collapse [symmetric], of no_benefit plain_cfg "\<lambda>_. (Fin 0, [])" None "''BULL''" no_numbers
      "''005930''" plain_info]
  show ?thesis by (simp add: graded_def xle_def no_benefit_def)
qed

lemma decision_consistent_witness:
  "let d = fst (process_unified_analyst_task plain_cfg no_benefit (\<lambda>_. (Fin 90, [])) None ''BULL'' (Some no_numbers) ''005930'' plain_info (graded 80))
   in dn_tradable d \<and> dn_tier d = TIER1 \<and> dn_approved d"
proof -
  let ?p = "process_unified_analyst_task plain_cfg no_benefit (\<lambda>_. (Fin 90, [])) None ''BULL'' (Some no_numbers) ''005930'' plain_info (graded 80)"
  have "dn_tier (fst ?p) = TIER1" by code_simp
  with decision_consistent [OF prod.collapse [symmetric], of plain_cfg no_benefit "\<lambda>_. (Fin 90, [])" None "''BULL''" "Some no_numbers" "''005930''"
      plain_info "graded 80"]
  show ?thesis by (simp add: Let_def)
qed

end
