(* ===== verification/Scout_Job.thy ===== *)
theory Scout_Job
  imports Scout_Universe Scout_Pipeline Hot_Watchlist
begin

text \<open>
  The run of the scout, \<open>main\<close> of \<open>services/scout-job/scout.py\<close>: the candidates from five sources, the
  marks of sector, council and intraday volume, the filters, the two scores, the selection and
  what is stored at the end. Scraper, queries, vector store, broker and language model are parameters. The
  evaluations run in threads: \<open>sx_finish\<close> is the order in which they end.
\<close>

section \<open>Candidates\<close>

datatype reason =
    Kospi_Top | Hot_Sector string rat | Static_Chip | Rag_News string | Momentum_Found rat | Falling_Sector int
  | Council_Avoid string | Council_Favor string | Intraday_Surge rat

text \<open>A number with a fixed count of decimals, rounded half to even on its exact value.\<close>

definition py_fixed :: "nat \<Rightarrow> rat \<Rightarrow> string" where
  "py_fixed n x =
     (let k = nat (round_half_even (\<bar>x\<bar> * 10 ^ n)); frac = show_nat (k mod 10 ^ n)
      in (if x < 0 then ''-'' else []) @ show_nat (k div 10 ^ n)
         @ (if n = 0 then [] else CHR ''.'' # replicate (n - length frac) (CHR ''0'') @ frac))"

fun reason_text :: "reason \<Rightarrow> string" where
  "reason_text Kospi_Top = ''KOSPI '' @ utf8 [236, 139, 156, 236, 180, 157, 32, 236, 131, 129, 236, 156, 132]"
| "reason_text (Hot_Sector sector m) =
     utf8 [237, 149, 171, 32, 236, 132, 185, 237, 132, 176] @ '' ('' @ sector @ '', +'' @ py_fixed 1 m @ ''%)''"
| "reason_text Static_Chip = utf8 [236, 160, 149, 236, 160, 129, 32, 236, 154, 176, 235, 159, 137, 236, 163, 188]"
| "reason_text (Rag_News tag) = ''RAG ('' @ tag @ '')''"
| "reason_text (Momentum_Found m) = utf8 [235, 170, 168, 235, 169, 152, 237, 133, 128] @ '' ('' @ py_fixed 1 m @ ''%)''"
| "reason_text (Falling_Sector n) = utf8 [226, 154, 160, 239, 184, 143, 32, 236, 132, 185, 237, 132, 176, 32, 237, 149, 152, 235, 157, 189,
     236, 132, 184] @ '' (Falling Knife, '' @ py_str_int n @ utf8 [236, 160, 144] @ '')''"
| "reason_text (Council_Avoid sector) = utf8 [226, 154, 160, 239, 184, 143] @ '' Council '' @ utf8 [237, 154, 140, 237, 148, 188, 32,
     236, 132, 185, 237, 132, 176] @ '' ('' @ sector @ '')''"
| "reason_text (Council_Favor sector) = utf8 [226, 156, 168] @ '' Council '' @ utf8 [236, 132, 160, 237, 152, 184, 32,
     236, 132, 185, 237, 132, 176] @ '' ('' @ sector @ '')''"
| "reason_text (Intraday_Surge v) = utf8 [240, 159, 148, 165, 32, 236, 158, 165, 236, 164, 145, 32, 236, 136, 152, 234, 184, 137, 32,
     234, 184, 137, 235, 147, 177] @ '' (Vol '' @ py_fixed 0 v @ ''%)''"

record scout_cand =
  sc_name :: string
  sc_sector :: "string option"
  sc_reasons :: "reason list"
  sc_penalty :: bool
  sc_avoid :: bool
  sc_favor :: bool
  sc_surge :: bool
  sc_price :: "rat option"
  sc_sentiment :: "flt option"
  sc_flow :: "(int option \<times> int option) option"

type_synonym cands = "(string \<times> scout_cand) list"

definition new_cand :: "string \<Rightarrow> string option \<Rightarrow> reason list \<Rightarrow> scout_cand" where
  "new_cand name sector reasons = \<lparr>sc_name = name, sc_sector = sector, sc_reasons = reasons, sc_penalty = False, sc_avoid = False,
     sc_favor = False, sc_surge = False, sc_price = None, sc_sentiment = None, sc_flow = None\<rparr>"

definition add_reason :: "reason \<Rightarrow> scout_cand \<Rightarrow> scout_cand" where
  "add_reason r c = c\<lparr>sc_reasons := sc_reasons c @ [r]\<rparr>"

definition add_blue_chip :: "cands \<Rightarrow> top_stock \<Rightarrow> cands" where
  "add_blue_chip d s = dict_set (ts_code s) (new_cand (ts_name s) (Some (ts_sector s)) [Kospi_Top]) d"

definition add_hot :: "cands \<Rightarrow> hot_stock \<Rightarrow> cands" where
  "add_hot d h = (let r = Hot_Sector (ht_sector h) (ht_momentum h)
     in case map_of d (ht_code h) of
          None \<Rightarrow> dict_set (ht_code h) (new_cand (ht_name h) (Some (ht_sector h)) [r]) d
        | Some c \<Rightarrow> dict_set (ht_code h) (add_reason r c) d)"

definition add_static :: "cands \<Rightarrow> string \<times> string \<Rightarrow> cands" where
  "add_static d = (\<lambda>(code, name). if map_of d code = None then dict_set code (new_cand name None [Static_Chip]) d else d)"

text \<open>The documents of one query: code and name of the stock, empty where the metadata have none.\<close>

definition add_document :: "string \<Rightarrow> cands \<times> string set \<Rightarrow> string \<times> string \<Rightarrow> cands \<times> string set" where
  "add_document tag = (\<lambda>(d, seen) (code, name).
     if code = [] \<or> name = [] \<or> code \<in> seen then (d, seen)
     else (dict_set code (add_reason (Rag_News tag) (case map_of d code of Some c \<Rightarrow> c | None \<Rightarrow> new_cand name None [])) d,
           insert code seen))"

definition add_rag :: "(string \<times> (string \<times> string) list res) list \<Rightarrow> cands \<Rightarrow> cands" where
  "add_rag queries d = fst (foldl (\<lambda>acc (tag, docs). case docs of Inl _ \<Rightarrow> acc | Inr ds \<Rightarrow> foldl (add_document tag) acc ds) (d, {}) queries)"

definition add_momentum :: "cands \<Rightarrow> momentum_stock \<Rightarrow> cands" where
  "add_momentum d m = (if map_of d (ms_code m) = None
     then dict_set (ms_code m) (new_cand (ms_name m) None [Momentum_Found (ms_momentum m)]) d else d)"

definition find_candidates ::
  "top_stock list \<Rightarrow> (string \<times> sector_stats) list \<Rightarrow> nat \<Rightarrow> (string \<times> (string \<times> string) list res) list
     \<Rightarrow> (string list \<Rightarrow> string list res) \<Rightarrow> momentum_stock list \<Rightarrow> cands" where
  "find_candidates tops sector_analysis top_n rag registered momentum =
     (let a = foldl add_blue_chip [] tops;
          e = foldl add_hot a (get_hot_sector_stocks sector_analysis top_n);
          b = foldl add_static e BLUE_CHIP_STOCKS;
          c = add_rag rag b
      in foldl add_momentum (filter_valid_stocks registered c) momentum)"

section \<open>Marks and filters\<close>

definition on_stocks :: "(string \<Rightarrow> scout_cand \<Rightarrow> scout_cand) \<Rightarrow> cands \<Rightarrow> cands" where
  "on_stocks f d = map (\<lambda>(code, c). (code, if code = ''0001'' then c else f code c)) d"

text \<open>The sector of a candidate: its own, or the one of the table (\<open>resolve\<close>).\<close>

definition fill_sector :: "(string \<Rightarrow> string) \<Rightarrow> string \<Rightarrow> scout_cand \<Rightarrow> scout_cand" where
  "fill_sector resolve code c = (case sc_sector c of Some (x # xs) \<Rightarrow> c | _ \<Rightarrow> c\<lparr>sc_sector := Some (resolve code)\<rparr>)"

definition penalise :: "(string \<times> sector_stats) list \<Rightarrow> scout_cand \<Rightarrow> scout_cand" where
  "penalise sector_analysis c = (case Option.bind (sc_sector c) (map_of sector_analysis) of
     Some r \<Rightarrow> if sw_penalty r < 0 then (add_reason (Falling_Sector (sw_penalty r)) c)\<lparr>sc_penalty := True\<rparr> else c
   | None \<Rightarrow> c)"

definition sector_match :: "string \<Rightarrow> string \<Rightarrow> bool" where
  "sector_match s t \<longleftrightarrow> substr (str_lower s) (str_lower t) \<or> substr (str_lower t) (str_lower s)"

text \<open>The sectors to avoid and to favour, when there is a context.\<close>

definition council_marks :: "(string list \<times> string list) option \<Rightarrow> scout_cand \<Rightarrow> scout_cand" where
  "council_marks ctx c = (case ctx of None \<Rightarrow> c
   | Some (avoid, favor) \<Rightarrow>
     (let s = opt_or SECTOR_OTHER (sc_sector c);
          c1 = (if \<exists>t \<in> set avoid. sector_match s t then (add_reason (Council_Avoid s) c)\<lparr>sc_avoid := True\<rparr> else c)
      in if \<exists>t \<in> set favor. sector_match s t then (add_reason (Council_Favor s) c1)\<lparr>sc_favor := True\<rparr> else c1))"

definition exclude :: "string list \<Rightarrow> cands \<Rightarrow> cands" where
  "exclude codes d = filter (\<lambda>(c, _). c \<notin> set codes) d"

text \<open>The latest prices and sentiments; when the first query fails the second is not made.\<close>

definition enrich_candidates_with_market_data ::
  "(string \<times> rat option) list res \<Rightarrow> (string \<times> flt option) list res \<Rightarrow> cands \<Rightarrow> cands" where
  "enrich_candidates_with_market_data prices sentiments d = (case prices of
     Inl _ \<Rightarrow> d
   | Inr ps \<Rightarrow>
     (let d1 = map (\<lambda>(code, c). (code, case map_of (rev ps) code of Some p \<Rightarrow> c\<lparr>sc_price := Some (opt_or 0 p)\<rparr> | None \<Rightarrow> c)) d
      in case sentiments of
           Inl _ \<Rightarrow> d1
         | Inr ss \<Rightarrow> map (\<lambda>(code, c). (code, case map_of (rev (filter (\<lambda>(_, v). v \<noteq> None) ss)) code of
               Some v \<Rightarrow> c\<lparr>sc_sentiment := v\<rparr> | None \<Rightarrow> c)) d1))"

definition is_junk :: "int \<Rightarrow> int \<Rightarrow> (string \<times> snapshot) list \<Rightarrow> string \<Rightarrow> scout_cand \<Rightarrow> bool" where
  "is_junk min_cap min_price snapshots code c \<longleftrightarrow>
     opt_or 0 (sc_price c) < of_int min_price
     \<or> xlt (opt_or (Fin 0) (Option.bind (map_of snapshots code) sn_market_cap)) (Fin (of_int min_cap))"

definition junk_filter :: "int \<Rightarrow> int \<Rightarrow> (string \<times> snapshot) list \<Rightarrow> cands \<Rightarrow> cands" where
  "junk_filter min_cap min_price snapshots d = filter (\<lambda>(code, c). code = ''0001'' \<or> \<not> is_junk min_cap min_price snapshots code c) d"

definition attach_flow :: "(string \<Rightarrow> (int option \<times> int option) option) \<Rightarrow> cands \<Rightarrow> cands" where
  "attach_flow flow d = map (\<lambda>(code, c). (code, case flow code of Some f \<Rightarrow> c\<lparr>sc_flow := Some f\<rparr> | None \<Rightarrow> c)) d"

record five_bar =
  mb_open :: rat
  mb_close :: rat
  mb_volume :: int

text \<open>The last three bars of five minutes against the three before, as a percentage when it is a surge; \<open>age\<close> is the age of
  the latest in seconds.\<close>

definition volume_surge :: "five_bar list \<Rightarrow> rat \<Rightarrow> rat option" where
  "volume_surge bars age =
     (if length bars < 6 \<or> 900 < age then None
      else (let n = length bars; recent = drop (n - 3) bars; prev = take 3 (drop (n - 6) bars);
                recent_vol = fdiv (of_int (sum_list (map mb_volume recent))) 3;
                prev_vol = fdiv (of_int (sum_list (map mb_volume prev))) 3
            in if 0 < prev_vol \<and> fmul prev_vol (fl (18/10)) \<le> recent_vol
                  \<and> 2 \<le> length (filter (\<lambda>b. mb_open b < mb_close b) recent)
                  \<and> mb_close (prev ! 2) < mb_close (recent ! 2)
               then Some (fmul (fdiv recent_vol prev_vol) 100) else None))"

definition mark_surges :: "(string \<Rightarrow> five_bar list \<times> rat) \<Rightarrow> cands \<Rightarrow> cands" where
  "mark_surges bars d = map (\<lambda>(code, c). (code, case bars code of (bs, age) \<Rightarrow>
     (case volume_surge bs age of Some v \<Rightarrow> (add_reason (Intraday_Surge v) c)\<lparr>sc_surge := True\<rparr> | None \<Rightarrow> c))) d"

record preparation =
  pr_resolve :: "string \<Rightarrow> string"
  pr_context :: "(string list \<times> string list) option"
  pr_excluded :: "string list"
  pr_prices :: "(string \<times> rat option) list res"
  pr_sentiments :: "(string \<times> flt option) list res"
  pr_snapshots :: "(string \<times> snapshot) list"
  pr_min_cap :: int
  pr_min_price :: int
  pr_flow :: "string \<Rightarrow> (int option \<times> int option) option"
  pr_bars :: "string \<Rightarrow> five_bar list \<times> rat"

text \<open>The analysis of the sectors is the one that found the hot stocks.\<close>

definition prepare :: "(string \<times> sector_stats) list \<Rightarrow> preparation \<Rightarrow> cands \<Rightarrow> cands" where
  "prepare sector_analysis P d =
     (let d1 = on_stocks (\<lambda>code c. penalise sector_analysis (fill_sector (pr_resolve P) code c)) d;
          d2 = on_stocks (\<lambda>_. council_marks (pr_context P)) d1;
          d3 = exclude (pr_excluded P) d2;
          d4 = enrich_candidates_with_market_data (pr_prices P) (pr_sentiments P) d3;
          d5 = junk_filter (pr_min_cap P) (pr_min_price P) (pr_snapshots P) d4;
          d6 = attach_flow (pr_flow P) d5
      in mark_surges (pr_bars P) d6)"

text \<open>What the scores see of a candidate.\<close>

definition scout_infos :: "cands \<Rightarrow> (string \<times> scout_info) list" where
  "scout_infos = map (\<lambda>(code, c). (code, \<lparr>fo_name = sc_name c, fo_sector = sc_sector c, fo_sentiment = sc_sentiment c,
     fo_flow = sc_flow c, fo_reasons = map reason_text (sc_reasons c)\<rparr>))"

section \<open>Scores and approval\<close>

text \<open>
  The holdings and the stocks sold within a day, and the settings. \<open>sx_risk_off\<close> is the level of the
  context, when there is one; \<open>sx_search\<close> is the search for news by code, name and sector, none without a vector
  store; \<open>sx_finish\<close> names the stocks in the order in which their evaluation ends. The sectors and the snapshots
  are those of the preparation.
\<close>

record scout_run =
  sx_scorer :: scorer_env
  sx_sources :: "string \<Rightarrow> quant_sources"
  sx_kospi :: "price_frame option"
  sx_snapshots :: "(string \<times> snapshot) list"
  sx_benefit :: "string \<Rightarrow> competitor_benefit"
  sx_cached :: "string \<Rightarrow> flt option"
  sx_brain :: "analyst_prompt \<Rightarrow> flt \<times> string"
  sx_search :: "(string \<Rightarrow> string \<Rightarrow> string option \<Rightarrow> string) option"
  sx_finish :: "string list"
  sx_held :: "string list res"
  sx_cooled :: "string list \<Rightarrow> string list res"
  sx_max :: nat
  sx_risk_off :: "nat option"
  sx_budget_on :: bool
  sx_sectors :: "(string \<times> sector_stats) list"

definition quant_step ::
  "scout_run \<Rightarrow> (string \<times> score_result) list \<times> scorer_caches \<Rightarrow> string \<times> scout_info \<Rightarrow> (string \<times> score_result) list \<times> scorer_caches" where
  "quant_step X = (\<lambda>(rs, c) (code, info).
     case process_quant_scoring_task (sx_scorer X) (sx_sources X code) (sx_kospi X) info (map_of (sx_snapshots X) code) code c of
       (r, c') \<Rightarrow> (rs @ [(code, r)], c'))"

definition quant_scores :: "scout_run \<Rightarrow> (string \<times> scout_info) list \<Rightarrow> (string \<times> score_result) list" where
  "quant_scores X infos = fst (foldl (quant_step X) ([], empty_caches) (filter (\<lambda>(c, _). c \<noteq> ''0001'') infos))"

definition quant_passed :: "scout_run \<Rightarrow> (string \<times> score_result) list \<Rightarrow> string list" where
  "quant_passed X rs = map sr_stock_code (filter_candidates (sx_scorer X) (map snd rs) (Some (fl (6/10))))"

definition not_skipped :: "scout_run \<Rightarrow> (string \<times> scout_info) list \<Rightarrow> (string \<times> score_result) list \<Rightarrow> string \<Rightarrow> bool" where
  "not_skipped X infos rs code \<longleftrightarrow> (case (map_of rs code, map_of infos code) of
     (Some r, Some info) \<Rightarrow> should_skip_hunter (se_cfg (sx_scorer X)) r (sx_cached X code) (fo_sentiment info) (cb_score (sx_benefit X code)) = None
   | _ \<Rightarrow> False)"

text \<open>The news of the prefetch, one text for each candidate.\<close>

definition news_cache :: "scout_run \<Rightarrow> (string \<times> scout_info) list \<Rightarrow> (string \<Rightarrow> string option) option" where
  "news_cache X infos = map_option (\<lambda>search code. map_option (\<lambda>info. search code (fo_name info) (fo_sector info)) (map_of infos code)) (sx_search X)"

definition evaluation ::
  "scout_run \<Rightarrow> (string \<times> scout_info) list \<Rightarrow> (string \<times> score_result) list \<Rightarrow> string \<Rightarrow> (decision \<times> archive_entry list) option" where
  "evaluation X infos rs code = (case (map_of rs code, map_of infos code) of
     (Some r, Some info) \<Rightarrow> Some (process_unified_analyst_task (se_cfg (sx_scorer X)) (sx_benefit X code) (sx_brain X) (news_cache X infos)
        (se_regime (sx_scorer X)) (map_of (sx_snapshots X) code) code info r)
   | _ \<Rightarrow> None)"

definition evaluate :: "scout_run \<Rightarrow> (string \<times> scout_info) list \<Rightarrow> (string \<times> score_result) list \<Rightarrow> string \<Rightarrow> decision option" where
  "evaluate X infos rs code = map_option fst (evaluation X infos rs code)"

definition evaluated :: "scout_run \<Rightarrow> (string \<times> scout_info) list \<Rightarrow> (string \<times> score_result) list \<Rightarrow> string list \<Rightarrow> string list" where
  "evaluated X infos rs passed = filter (\<lambda>c. c \<in> set passed \<and> not_skipped X infos rs c) (sx_finish X)"

text \<open>
  An entry of the watchlist. The field \<open>hybrid_score\<close> is looked up in the record, which has it only
  among its metadata, so it is the default. The entry of the index has no score.
\<close>

record watch_entry =
  we_code :: string
  we_name :: string
  we_tradable :: bool
  we_score :: flt
  we_tier :: trade_tier
  we_hybrid :: flt
  we_snapshot :: "snapshot option"

definition record_to_watchlist_entry :: "decision \<Rightarrow> watch_entry" where
  "record_to_watchlist_entry d = \<lparr>we_code = dn_code d, we_name = dn_name d, we_tradable = dn_tradable d, we_score = dn_score d,
     we_tier = dn_tier d, we_hybrid = Fin 0, we_snapshot = dn_snapshot d\<rparr>"

definition kospi_entry :: watch_entry where
  "kospi_entry = \<lparr>we_code = ''0001'', we_name = ''KOSPI'', we_tradable = False, we_score = Fin 0, we_tier = BLOCKED,
     we_hybrid = Fin 0, we_snapshot = None\<rparr>"

definition kospi_entries :: "(string \<times> scout_info) list \<Rightarrow> watch_entry list" where
  "kospi_entries infos = (if map_of infos ''0001'' = None then [] else [kospi_entry])"

definition approved_entries ::
  "scout_run \<Rightarrow> (string \<times> scout_info) list \<Rightarrow> (string \<times> score_result) list \<Rightarrow> string list \<Rightarrow> watch_entry list" where
  "approved_entries X infos rs passed =
     map record_to_watchlist_entry (filter dn_approved (List.map_filter (evaluate X infos rs) (evaluated X infos rs passed)))"

section \<open>Selection\<close>

text \<open>Holdings and recent sales leave the list; a failing query leaves it as it is.\<close>

definition drop_untradable :: "scout_run \<Rightarrow> watch_entry list \<Rightarrow> watch_entry list" where
  "drop_untradable X entries =
     (let codes = filter (\<lambda>c. c \<noteq> [] \<and> c \<noteq> ''0001'') (map we_code entries)
      in case sx_held X of Inl _ \<Rightarrow> entries
         | Inr held \<Rightarrow> (case (if codes = [] then Inr [] else sx_cooled X codes) of Inl _ \<Rightarrow> entries
             | Inr cooled \<Rightarrow> filter (\<lambda>e. we_code e \<notin> set held \<union> set cooled) entries))"

definition watchlist_size :: "scout_run \<Rightarrow> nat" where
  "watchlist_size X = (case sx_risk_off X of Some l \<Rightarrow> if 2 \<le> l then max 8 (sx_max X div 2) else sx_max X | None \<Rightarrow> sx_max X)"

definition group_of :: "(string \<times> scout_info) list \<Rightarrow> string \<Rightarrow> string" where
  "group_of infos code = (case Option.bind (map_of infos code) fo_sector of
     Some (x # xs) \<Rightarrow> get_sector_group (x # xs) | _ \<Rightarrow> SECTOR_OTHER)"

definition held_per_group :: "(string \<times> scout_info) list \<Rightarrow> string list res \<Rightarrow> (string \<times> int) list" where
  "held_per_group infos held = (case held of Inl _ \<Rightarrow> []
   | Inr codes \<Rightarrow> foldl (\<lambda>d c. dict_set (group_of infos c) (dict_get d (group_of infos c) 0 + 1) d) [] codes)"

definition entry_score :: "watch_entry \<Rightarrow> rat" where
  "entry_score e = (case we_score e of Fin a \<Rightarrow> a | _ \<Rightarrow> 0)"

definition as_candidate :: "watch_entry \<Rightarrow> candidate" where
  "as_candidate e = \<lparr>cand_code = we_code e, cand_name = we_name e, cand_score = entry_score e\<rparr>"

definition best_entries :: "watch_entry list \<Rightarrow> watch_entry list" where
  "best_entries entries = sort_key (\<lambda>e. - entry_score e) entries"

definition sector_budget :: "scout_run \<Rightarrow> (string \<times> scout_info) list \<Rightarrow> (string \<times> budget_entry) list" where
  "sector_budget X infos = compute_sector_budget
     (assign_sector_tiers (aggregate_sector_analysis_to_groups (budget_view (sx_sectors X)))) (held_per_group infos (sx_held X))"

text \<open>The selection with its budget, when one was used; scores are finite numbers here.\<close>

definition choose_entries ::
  "scout_run \<Rightarrow> (string \<times> scout_info) list \<Rightarrow> watch_entry list \<Rightarrow> watch_entry list \<times> (string \<times> budget_entry) list option" where
  "choose_entries X infos entries =
     (if length entries \<le> watchlist_size X then (entries, None)
      else if sx_budget_on X \<and> sx_sectors X \<noteq> [] then
        (let chosen = select_with_sector_budget (sector_budget X infos) (watchlist_size X) (\<lambda>c _. group_of infos c)
               (map as_candidate entries)
         in (List.map_filter (\<lambda>c. find (\<lambda>e. we_code e = cand_code c) entries) chosen, Some (sector_budget X infos)))
      else (take (watchlist_size X) (best_entries entries), None))"

text \<open>The log line after the filter divides by the number of stocks that passed.\<close>

definition hybrid_selection ::
  "scout_run \<Rightarrow> (string \<times> scout_info) list \<Rightarrow> (watch_entry list \<times> (string \<times> budget_entry) list option) res" where
  "hybrid_selection X infos =
     (let rs = quant_scores X infos; passed = quant_passed X rs
      in if passed = [] then Inl ZeroDivisionError
         else Inr (choose_entries X infos (drop_untradable X (kospi_entries infos @ approved_entries X infos rs passed))))"

definition final_list ::
  "bool \<Rightarrow> scout_run \<Rightarrow> (string \<times> scout_info) list \<Rightarrow> watch_entry list \<times> (string \<times> budget_entry) list option" where
  "final_list enabled X infos = (if enabled
     then (case hybrid_selection X infos of Inr p \<Rightarrow> p | Inl _ \<Rightarrow> (kospi_entries infos, None))
     else (kospi_entries infos, None))"

text \<open>What the archivist is told by the evaluations, when the run gets that far.\<close>

definition archived :: "bool \<Rightarrow> scout_run \<Rightarrow> (string \<times> scout_info) list \<Rightarrow> archive_entry list" where
  "archived enabled X infos =
     (let rs = quant_scores X infos; passed = quant_passed X rs
      in if \<not> enabled \<or> passed = [] then []
         else concat (map snd (List.map_filter (evaluation X infos rs) (evaluated X infos rs passed))))"

section \<open>The stored watchlist\<close>

text \<open>
  The table of the watchlist with the time of each row: a save deletes the rows older than a day and
  writes the entries; an empty list changes nothing.
\<close>

definition save_to_watchlist ::
  "int \<Rightarrow> watch_entry list \<Rightarrow> (string \<times> watch_entry \<times> int) list \<Rightarrow> (string \<times> watch_entry \<times> int) list" where
  "save_to_watchlist now entries rows = (if entries = [] then rows
     else foldl (\<lambda>d e. dict_set (we_code e) (e, now) d) (filter (\<lambda>(_, _, t). now - 86400 \<le> t) rows) entries)"

fun tier_text :: "trade_tier \<Rightarrow> string" where
  "tier_text TIER1 = ''TIER1''" | "tier_text RECON = ''RECON''" | "tier_text BLOCKED = ''BLOCKED''"

definition entry_json :: "watch_entry \<Rightarrow> pyval" where
  "entry_json e = PDict [(''code'', PStr (we_code e)), (''name'', PStr (we_name e)), (''is_tradable'', PBool (we_tradable e)),
     (''llm_score'', PFloat (entry_score e)), (''trade_tier'', PStr (tier_text (we_tier e))), (''hybrid_score'', PInt 0)]"

definition hot_stocks :: "watch_entry list \<Rightarrow> pyval list" where
  "hot_stocks entries = map entry_json (best_entries (filter (\<lambda>e. we_code e \<noteq> ''0001'') entries))"

record 's scout_store =
  st_table :: "(string \<times> watch_entry \<times> int) list"
  st_redis :: 's
  st_archive :: "archive_entry list"

text \<open>The budget is stored first; the hot watchlist lives a day.\<close>

definition store_selection ::
  "'s redis \<Rightarrow> 's expire_cmd \<Rightarrow> int \<Rightarrow> string \<Rightarrow> string \<Rightarrow> watch_entry list \<times> (string \<times> budget_entry) list option
     \<Rightarrow> 's scout_store \<Rightarrow> 's scout_store" where
  "store_selection R expire now stamp regime = (\<lambda>(entries, budget) w.
     (let r1 = (case budget of None \<Rightarrow> st_redis w | Some b \<Rightarrow> snd (save_sector_budget_to_redis R b (st_redis w)));
          r2 = snd (save_hot_watchlist R expire now stamp (hot_stocks entries) (PStr regime) 0 86400 r1)
      in w\<lparr>st_table := save_to_watchlist now entries (st_table w), st_redis := r2\<rparr>))"

text \<open>
  The regime of the run: a fall to BEAR seen only in yesterday's prices does not replace a better regime
  stored before (\<open>live\<close>: the index could be read).
\<close>

definition guarded_regime :: "bool \<Rightarrow> string option \<Rightarrow> string \<Rightarrow> string" where
  "guarded_regime live previous current = (case previous of
     Some p \<Rightarrow> if current = ''BEAR'' \<and> \<not> live \<and> p \<noteq> [] \<and> p \<notin> {''BEAR'', ''STRONG_BEAR''} then p else current
   | None \<Rightarrow> current)"

text \<open>
  The sources of the candidates: the largest stocks, what the analysis of the sectors reads, the documents of the vector
  store, the table of stocks, and the momentum stocks.
\<close>

record discovery =
  di_tops :: "top_stock list"
  di_sector_tops :: "top_stock list"
  di_batch :: "(string \<Rightarrow> rat list option) res option"
  di_history :: "string \<Rightarrow> (int \<times> rat) list res"
  di_top_n :: nat
  di_rag :: "(string \<times> (string \<times> string) list res) list"
  di_registered :: "string list \<Rightarrow> string list res"
  di_momentum :: "momentum_stock list"

definition sectors_of :: "discovery \<Rightarrow> (string \<times> sector_stats) list" where
  "sectors_of D = analyze_sector_momentum (di_batch D) (di_history D) (di_sector_tops D)"

definition candidates_of :: "discovery \<Rightarrow> cands" where
  "candidates_of D = find_candidates (di_tops D) (sectors_of D) (di_top_n D) (di_rag D) (di_registered D) (di_momentum D)"

text \<open>
  One analysis of the sectors serves the hot stocks, the penalties and the budget, one prefetch of the snapshots the junk
  filter and the scores. The stored regime is unknown when the scores are switched off.
\<close>

definition scout_main ::
  "'s redis \<Rightarrow> 's expire_cmd \<Rightarrow> int \<Rightarrow> string \<Rightarrow> bool \<Rightarrow> discovery \<Rightarrow> preparation \<Rightarrow> scout_run \<Rightarrow> 's scout_store \<Rightarrow> 's scout_store" where
  "scout_main R expire now stamp enabled D P X0 w =
     (let X = X0\<lparr>sx_sectors := sectors_of D, sx_snapshots := pr_snapshots P\<rparr>;
          infos = scout_infos (prepare (sectors_of D) P (candidates_of D));
          regime = (if enabled then se_regime (sx_scorer X) else ''UNKNOWN'')
      in store_selection R expire now stamp regime (final_list enabled X infos) (w\<lparr>st_archive := st_archive w @ archived enabled X infos\<rparr>))"

section \<open>What is selected\<close>

text \<open>
  The demands on an entry: the index, or a stock whose score passed the quantitative filter and the filter before the
  language model, whose evaluation approved it and made this entry, and which is neither held nor
  sold lately when both could be asked.
\<close>

definition entry_ok :: "scout_run \<Rightarrow> (string \<times> scout_info) list \<Rightarrow> watch_entry \<Rightarrow> bool" where
  "entry_ok X infos e \<longleftrightarrow> e = kospi_entry \<or>
     (\<exists>d. evaluate X infos (quant_scores X infos) (we_code e) = Some d \<and> dn_approved d \<and> e = record_to_watchlist_entry d
        \<and> we_code e \<in> set (quant_passed X (quant_scores X infos)) \<and> not_skipped X infos (quant_scores X infos) (we_code e)
        \<and> (\<forall>held. sx_held X = Inr held \<and> (\<forall>cs. \<exists>cooled. sx_cooled X cs = Inr cooled) \<longrightarrow> we_code e \<notin> set held))"

lemma evaluate_code: "evaluate X infos rs code = Some d \<Longrightarrow> dn_code d = code"
  by (auto simp: evaluate_def evaluation_def process_unified_analyst_task_def Let_def case_prod_beta split: option.splits)

lemma approved_entries_ok:
  assumes "e \<in> set (approved_entries X infos rs passed)"
  shows "\<exists>d. evaluate X infos rs (we_code e) = Some d \<and> dn_approved d \<and> e = record_to_watchlist_entry d
    \<and> we_code e \<in> set passed \<and> not_skipped X infos rs (we_code e)"
proof -
  from assms obtain c d where "c \<in> set passed" "not_skipped X infos rs c" "evaluate X infos rs c = Some d" "dn_approved d"
    "e = record_to_watchlist_entry d"
    by (auto simp: approved_entries_def evaluated_def map_filter_def)
  moreover from this have "we_code e = c" using evaluate_code by (auto simp: record_to_watchlist_entry_def)
  ultimately show ?thesis by blast
qed

lemma dropped_subset: "set (drop_untradable X es) \<subseteq> set es"
  by (auto simp: drop_untradable_def Let_def split: sum.split)

lemma dropped_not_held:
  assumes "sx_held X = Inr held" "\<forall>cs. \<exists>cooled. sx_cooled X cs = Inr cooled" "e \<in> set (drop_untradable X es)"
  shows "we_code e \<notin> set held"
proof -
  obtain cooled where "(if filter (\<lambda>c. c \<noteq> [] \<and> c \<noteq> ''0001'') (map we_code es) = [] then Inr []
      else sx_cooled X (filter (\<lambda>c. c \<noteq> [] \<and> c \<noteq> ''0001'') (map we_code es))) = Inr cooled"
    using assms(2) by (cases "filter (\<lambda>c. c \<noteq> [] \<and> c \<noteq> ''0001'') (map we_code es) = []") auto
  with assms(1,3) show ?thesis by (auto simp: drop_untradable_def Let_def)
qed

lemma select_length: "length (select_with_sector_budget b n resolver cs) \<le> n"
  using greedy_length [of "cap_of b" "\<lambda>c. resolver (cand_code c) (cand_name c)" n "[]" "by_score cs"]
  by (auto simp: select_with_sector_budget_def case_prod_beta Let_def)

lemma find_in: "find P xs = Some x \<Longrightarrow> x \<in> set xs"
  by (auto simp: find_Some_iff)

lemma choose_entries_ok:
  "length (fst (choose_entries X infos es)) \<le> watchlist_size X \<and> set (fst (choose_entries X infos es)) \<subseteq> set es"
proof -
  have found: "set (List.map_filter (\<lambda>c. find (\<lambda>e. we_code e = cand_code c) es) cs) \<subseteq> set es" for cs
    unfolding map_filter_def using find_in by fastforce
  have len: "length (List.map_filter f xs) \<le> length xs" for f :: "candidate \<Rightarrow> watch_entry option" and xs
    by (simp add: map_filter_def)
  show ?thesis
    using found order_trans [OF len select_length] set_take_subset [of _ "best_entries es"]
    by (auto simp: choose_entries_def Let_def best_entries_def dest!: in_set_takeD)
qed


section \<open>Marks do not count\<close>

definition strip :: "scout_cand \<Rightarrow> scout_cand" where
  "strip c = c\<lparr>sc_reasons := [], sc_penalty := False, sc_avoid := False, sc_favor := False, sc_surge := False\<rparr>"

definition strips :: "cands \<Rightarrow> cands" where "strips d = map (\<lambda>(k, c). (k, strip c)) d"

lemma strip_simps [simp]:
  "strip (add_reason r c) = strip c" "strip (c\<lparr>sc_penalty := b\<rparr>) = strip c" "strip (c\<lparr>sc_avoid := b\<rparr>) = strip c"
  "strip (c\<lparr>sc_favor := b\<rparr>) = strip c" "strip (c\<lparr>sc_surge := b\<rparr>) = strip c" "strip (penalise sa c) = strip c"
  "strip (council_marks ctx c) = strip c"
  by (simp_all add: strip_def add_reason_def penalise_def council_marks_def Let_def split: option.split)

lemma strips_stages:
  "strips (mark_surges b d) = strips d"
  "strips (attach_flow f d) = attach_flow f (strips d)"
  "strips (junk_filter mc mp sn d) = junk_filter mc mp sn (strips d)"
  "strips (enrich_candidates_with_market_data ps ss d) = enrich_candidates_with_market_data ps ss (strips d)"
  "strips (exclude e d) = exclude e (strips d)"
  "strips (on_stocks (\<lambda>_. council_marks ctx) d) = strips d"
  "strips (on_stocks (\<lambda>code c. penalise sa (fill_sector r code c)) d) = strips (on_stocks (fill_sector r) d)"
proof -
  show "strips (mark_surges b d) = strips d"
    by (auto simp: strips_def mark_surges_def split: prod.split option.split)
  show "strips (attach_flow f d) = attach_flow f (strips d)"
    by (auto simp: strips_def attach_flow_def strip_def split: option.split)
  show "strips (junk_filter mc mp sn d) = junk_filter mc mp sn (strips d)"
    by (induction d) (auto simp: strips_def junk_filter_def strip_def is_junk_def)
  show "strips (enrich_candidates_with_market_data ps ss d) = enrich_candidates_with_market_data ps ss (strips d)"
    by (auto simp: strips_def enrich_candidates_with_market_data_def strip_def Let_def split: option.split sum.split)
  show "strips (exclude e d) = exclude e (strips d)"
    by (induction d) (auto simp: strips_def exclude_def)
  show "strips (on_stocks (\<lambda>_. council_marks ctx) d) = strips d"
    by (auto simp: strips_def on_stocks_def)
  show "strips (on_stocks (\<lambda>code c. penalise sa (fill_sector r code c)) d) = strips (on_stocks (fill_sector r) d)"
    by (auto simp: strips_def on_stocks_def)
qed

lemma strips_prepare:
  "strips (prepare sectors P d) = attach_flow (pr_flow P) (junk_filter (pr_min_cap P) (pr_min_price P) (pr_snapshots P)
     (enrich_candidates_with_market_data (pr_prices P) (pr_sentiments P) (exclude (pr_excluded P) (strips (on_stocks (fill_sector (pr_resolve P)) d)))))"
  by (simp add: prepare_def Let_def strips_stages)

text \<open>The informations without their reasons.\<close>

definition bare :: "(string \<times> scout_info) list \<Rightarrow> (string \<times> scout_info) list" where
  "bare = map (\<lambda>(code, info). (code, info\<lparr>fo_reasons := []\<rparr>))"

lemma bare_infos: "bare (scout_infos d) = scout_infos (strips d)"
  by (auto simp: bare_def scout_infos_def strips_def strip_def)

lemma map_of_bare [simp]: "map_of (bare infos) code = map_option (\<lambda>info. info\<lparr>fo_reasons := []\<rparr>) (map_of infos code)"
  by (induction infos) (auto simp: bare_def)

lemma quant_scores_bare: "quant_scores X (bare infos) = quant_scores X infos"
proof -
  have "process_quant_scoring_task E S k (info\<lparr>fo_reasons := []\<rparr>) snap code c = process_quant_scoring_task E S k info snap code c" for E S k info snap code c
    by (simp add: process_quant_scoring_task_def task_input_def split: sum.split)
  then have "quant_step X acc (code, info\<lparr>fo_reasons := []\<rparr>) = quant_step X acc (code, info)" for acc code info
    by (simp add: quant_step_def split: prod.split)
  then have "foldl (quant_step X) acc (filter (\<lambda>(c, _). c \<noteq> ''0001'') (bare infos)) = foldl (quant_step X) acc (filter (\<lambda>(c, _). c \<noteq> ''0001'') infos)" for acc
    by (induction infos arbitrary: acc) (auto simp: bare_def)
  then show ?thesis by (simp add: quant_scores_def)
qed

lemma parts_bare:
  "news_cache X (bare infos) = news_cache X infos" "not_skipped X (bare infos) rs code = not_skipped X infos rs code"
  "evaluated X (bare infos) rs passed = evaluated X infos rs passed" "kospi_entries (bare infos) = kospi_entries infos"
  "group_of (bare infos) = group_of infos"
proof -
  show "news_cache X (bare infos) = news_cache X infos"
    by (auto simp: news_cache_def option.map_comp comp_def)
  show s: "not_skipped X (bare infos) rs code = not_skipped X infos rs code" for code
    by (auto simp: not_skipped_def split: option.split)
  show "evaluated X (bare infos) rs passed = evaluated X infos rs passed" by (simp add: evaluated_def s)
  show "kospi_entries (bare infos) = kospi_entries infos" by (simp add: kospi_entries_def)
  have "Option.bind (map_option (\<lambda>info. info\<lparr>fo_reasons := []\<rparr>) x) fo_sector = Option.bind x fo_sector" for x :: "scout_info option" by (cases x) simp_all
  then show "group_of (bare infos) = group_of infos" by (simp add: group_of_def fun_eq_iff)
qed

lemma choose_bare: "choose_entries X (bare infos) es = choose_entries X infos es"
  by (simp add: choose_entries_def sector_budget_def held_per_group_def parts_bare cong: option.case_cong sum.case_cong)

text \<open>No news text is one of the two failures: the search worked, and the line of a benefit ends differently.\<close>

definition search_works :: "scout_run \<Rightarrow> bool" where
  "search_works X \<longleftrightarrow> (\<forall>search code name sector. sx_search X = Some search \<longrightarrow>
     search code name sector \<noteq> NO_NEWS_DB \<and> search code name sector \<noteq> NEWS_SEARCH_ERROR)"

lemma news_found:
  assumes "search_works X"
  shows "news_text (news_cache X infos) b code \<notin> {NO_NEWS_DB, NEWS_SEARCH_ERROR}"
proof -
  have "last (benefit_line b) = CHR '')''" "benefit_line b \<noteq> []" by (simp_all add: benefit_line_def)
  then have "last (t @ benefit_line b) = CHR '')''" for t by simp
  moreover have "last NO_NEWS_DB \<noteq> CHR '')''" "last NEWS_SEARCH_ERROR \<noteq> CHR '')''"
    by code_simp+
  ultimately have line: "t @ benefit_line b \<noteq> NO_NEWS_DB" "t @ benefit_line b \<noteq> NEWS_SEARCH_ERROR" for t by metis+
  have "NO_NEWS_CACHE \<noteq> NO_NEWS_DB" "NO_NEWS_CACHE \<noteq> NEWS_SEARCH_ERROR" "NO_RECENT_NEWS \<noteq> NO_NEWS_DB" "NO_RECENT_NEWS \<noteq> NEWS_SEARCH_ERROR"
    by (simp_all add: NO_NEWS_CACHE_def NO_RECENT_NEWS_def NO_NEWS_DB_def NEWS_SEARCH_ERROR_def utf8_def)
  with line assms show ?thesis
    by (auto simp: news_text_def news_cache_def search_works_def opt_or_def Let_def split: option.split)
qed

lemma evaluation_bare:
  assumes "search_works X"
  shows "map_option (\<lambda>(d, es). (d, map without_keywords es)) (evaluation X (bare infos) rs code)
    = map_option (\<lambda>(d, es). (d, map without_keywords es)) (evaluation X infos rs code)"
proof (cases "map_of rs code = None \<or> map_of infos code = None")
  case False
  then obtain r info where m: "map_of rs code = Some r" "map_of infos code = Some info" by auto
  obtain d es where e: "process_unified_analyst_task (se_cfg (sx_scorer X)) (sx_benefit X code) (sx_brain X) (news_cache X infos)
      (se_regime (sx_scorer X)) (map_of (sx_snapshots X) code) code info r = (d, es)" by fastforce
  from reasons_only_keywords [OF news_found [OF assms] e, of "[]"] e m show ?thesis
    by (auto simp: evaluation_def parts_bare)
qed (auto simp: evaluation_def split: option.split)

lemma evaluate_bare:
  assumes "search_works X" shows "evaluate X (bare infos) rs code = evaluate X infos rs code"
  using arg_cong [where f = "map_option fst", OF evaluation_bare [OF assms, of infos rs code]]
  by (simp add: evaluate_def option.map_comp comp_def case_prod_beta)

lemma final_list_bare: assumes "search_works X" shows "final_list enabled X (bare infos) = final_list enabled X infos"
proof -
  have "evaluate X (bare infos) rs = evaluate X infos rs" for rs by (rule ext) (rule evaluate_bare [OF assms])
  then have "approved_entries X (bare infos) rs passed = approved_entries X infos rs passed" for rs passed
    by (simp add: approved_entries_def parts_bare)
  then have "hybrid_selection X (bare infos) = hybrid_selection X infos"
    by (simp add: hybrid_selection_def Let_def quant_scores_bare parts_bare choose_bare)
  then show ?thesis by (simp add: final_list_def parts_bare split: sum.split)
qed

lemma archived_bare:
  assumes "search_works X"
  shows "map without_keywords (archived enabled X (bare infos)) = map without_keywords (archived enabled X infos)"
proof -
  let ?g = "\<lambda>infos rs c. map_option (\<lambda>(d, es). (d, map without_keywords es)) (evaluation X infos rs c)"
  have "map without_keywords (concat (map snd (List.map_filter (evaluation X i rs) cs))) = concat (map snd (List.map_filter (?g i rs) cs))" for i rs cs
    by (induction cs) (auto simp: map_filter_def)
  moreover have "?g (bare infos) rs = ?g infos rs" for rs by (rule ext) (rule evaluation_bare [OF assms])
  ultimately show ?thesis by (simp add: archived_def quant_scores_bare parts_bare Let_def)
qed

text \<open>
  Claim C39. The marks of the council and of the intraday volume are without effect on the selection: with other sectors to
  avoid or favour and other bars, a run whose searches for news work stores the same watchlists, and its
  archive differs at most in the keywords of the decisions. (When the search fails, the reasons of a candidate are told to the
  language model in place of the news.)
\<close>

theorem marks_change_only_keywords:
  assumes "search_works X"
    and "w1 = scout_main R expire now stamp enabled D P X w"
    and "w2 = scout_main R expire now stamp enabled D (P\<lparr>pr_context := council, pr_bars := bars\<rparr>) X w"
  shows "st_table w2 = st_table w1 \<and> st_redis w2 = st_redis w1
    \<and> map without_keywords (st_archive w2) = map without_keywords (st_archive w1)"
proof -
  let ?X = "X\<lparr>sx_sectors := sectors_of D, sx_snapshots := pr_snapshots P\<rparr>"
  let ?i = "\<lambda>P. scout_infos (prepare (sectors_of D) P (candidates_of D))" and ?P = "P\<lparr>pr_context := council, pr_bars := bars\<rparr>"
  have w: "search_works ?X" using assms(1) by (simp add: search_works_def)
  have "bare (?i ?P) = bare (?i P)" by (simp add: bare_infos strips_prepare)
  then have "final_list enabled ?X (?i ?P) = final_list enabled ?X (?i P)"
    "map without_keywords (archived enabled ?X (?i ?P)) = map without_keywords (archived enabled ?X (?i P))"
    using final_list_bare [OF w] archived_bare [OF w] by metis+
  then show ?thesis unfolding assms(2,3) scout_main_def Let_def store_selection_def case_prod_beta by (simp cong: option.case_cong)
qed

text \<open>The penalty of a falling sector is such a mark too: what it changes of a candidate is its reasons.\<close>

lemma penalty_is_a_mark: "bare (scout_infos (prepare sectors P d)) = bare (scout_infos (prepare sectors' P d))"
  by (simp add: bare_infos strips_prepare)

section \<open>A failure empties the watchlist\<close>

lemma stage_codes:
  "map fst (attach_flow f d) = map fst d" "map fst (enrich_candidates_with_market_data ps ss d) = map fst d"
  "map fst (strips (on_stocks g d)) = map fst d"
  by (simp_all add: attach_flow_def enrich_candidates_with_market_data_def strips_def on_stocks_def comp_def case_prod_beta Let_def
      split: sum.split)

lemma key_set: "fst ` set d = set (map fst d)" by simp

lemma kept_code: "(a, b) \<in> set (strips (on_stocks g d)) \<Longrightarrow> a \<in> fst ` set d"
  using stage_codes(3) [of g d] by (metis fst_conv image_eqI key_set)

lemma prepare_codes: "fst ` set (prepare sectors P d) \<subseteq> fst ` set d"
proof -
  have "map fst (prepare sectors P d) = map fst (strips (prepare sectors P d))" by (simp add: strips_def comp_def case_prod_beta)
  also have "\<dots> = map fst (junk_filter (pr_min_cap P) (pr_min_price P) (pr_snapshots P)
     (enrich_candidates_with_market_data (pr_prices P) (pr_sentiments P) (exclude (pr_excluded P) (strips (on_stocks (fill_sector (pr_resolve P)) d)))))"
    by (simp add: strips_prepare stage_codes)
  finally have "fst ` set (prepare sectors P d) \<subseteq> set (map fst (enrich_candidates_with_market_data (pr_prices P) (pr_sentiments P)
      (exclude (pr_excluded P) (strips (on_stocks (fill_sector (pr_resolve P)) d)))))"
    unfolding key_set by (auto simp: junk_filter_def)
  also have "\<dots> \<subseteq> set (map fst (strips (on_stocks (fill_sector (pr_resolve P)) d)))"
    unfolding stage_codes by (auto simp: exclude_def dest: kept_code)
  finally show ?thesis by (simp only: stage_codes key_set)
qed

lemma junk_without_snapshots:
  assumes "pr_snapshots P = []" "0 < pr_min_cap P" "''0001'' \<notin> fst ` set d"
  shows "prepare sectors P d = []"
proof -
  let ?e = "enrich_candidates_with_market_data (pr_prices P) (pr_sentiments P) (exclude (pr_excluded P) (strips (on_stocks (fill_sector (pr_resolve P)) d)))"
  have "set (map fst ?e) \<subseteq> fst ` set d"
    unfolding stage_codes by (auto simp: exclude_def dest: kept_code)
  then have "c \<noteq> ''0001''" if "(c, x) \<in> set ?e" for c x using assms(3) that by (auto simp del: prod.collapse) force
  then have "junk_filter (pr_min_cap P) (pr_min_price P) (pr_snapshots P) ?e = []"
    using assms by (auto simp: junk_filter_def filter_empty_conv is_junk_def opt_or_def)
  then have "strips (prepare sectors P d) = []" by (simp add: strips_prepare attach_flow_def)
  then show ?thesis by (simp add: strips_def)
qed

lemma no_candidates: "final_list enabled X [] = ([], None)"
  by (simp add: final_list_def hybrid_selection_def quant_scores_def quant_passed_def filter_candidates_def ranked_def sort_desc_def
      Let_def kospi_entries_def)

text \<open>
  Claim C40. An outage of the broker empties the watchlist: when no snapshot can be read, every candidate counts as a
  company without value and is dropped; the run then divides by zero, and what it stores over the
  hot watchlist of the last run is the empty list. The table keeps its rows.
\<close>

theorem snapshot_outage_clears_watchlist:
  assumes "redis_laws R up look" "expire_law up look expire" "up (st_redis w)"
    and "pr_snapshots P = []" "0 < pr_min_cap P" "''0001'' \<notin> fst ` set (candidates_of D)"
    and "w' = scout_main R expire now stamp enabled D P X w"
  shows "fst (get_hot_watchlist R (st_redis w'))
      = watchlist_payload stamp [] (PStr (if enabled then se_regime (sx_scorer X) else ''UNKNOWN'')) 0
    \<and> st_table w' = st_table w"
proof -
  define g where "g = (if enabled then se_regime (sx_scorer X) else ''UNKNOWN'')"
  have "scout_infos (prepare (sectors_of D) P (candidates_of D)) = []" using junk_without_snapshots [OF assms(4-6)] by (simp add: scout_infos_def)
  then have r: "st_redis w' = snd (save_hot_watchlist R expire now stamp [] (PStr g) 0 86400 (st_redis w)) \<and> st_table w' = st_table w"
    by (simp add: assms(7) scout_main_def no_candidates store_selection_def hot_stocks_def best_entries_def save_to_watchlist_def Let_def g_def)
  have t: "0 < (86400 :: int)" and c: "clean_stocks 0 [] = Inr []" by simp_all
  note sv = save_up [OF assms(1-3) t c, of now stamp "PStr g" 0]
  have "fst (get_hot_watchlist R (snd (save_hot_watchlist R expire now stamp [] (PStr g) 0 86400 (st_redis w)))) = watchlist_payload stamp [] (PStr g) 0"
    using get_up [OF assms(1) sv(2), of now "watchlist_payload stamp [] (PStr g) 0"] sv(3) by simp
  with r show ?thesis unfolding g_def by simp
qed

definition one_source :: discovery where
  "one_source = \<lparr>di_tops = [\<lparr>ts_code = ''005930'', ts_name = ''s'', ts_sector = ''IT'', ts_change = 1\<rparr>], di_sector_tops = [],
     di_batch = None, di_history = \<lambda>_. Inr [], di_top_n = 30, di_rag = [], di_registered = \<lambda>_. Inr [''005930''], di_momentum = []\<rparr>"

definition no_snapshots :: preparation where
  "no_snapshots = \<lparr>pr_resolve = \<lambda>_. SECTOR_OTHER, pr_context = None, pr_excluded = [], pr_prices = Inr [(''005930'', Some 70000)],
     pr_sentiments = Inr [], pr_snapshots = [], pr_min_cap = 50000, pr_min_price = 1000, pr_flow = \<lambda>_. None, pr_bars = \<lambda>_. ([], 0)\<rparr>"

lemma found_code: "map fst (candidates_of one_source) = [''005930'']"
  by (simp add: candidates_of_def sectors_of_def one_source_def find_candidates_def analyze_sector_momentum_def sector_table_def premarket_def
      target_sectors_def get_hot_sector_stocks_def add_blue_chip_def add_static_def BLUE_CHIP_STOCKS_def add_rag_def filter_valid_stocks_def Let_def)

lemma snapshot_outage_clears_watchlist_witness:
  "\<forall>X. fst (get_hot_watchlist map_redis (st_redis (scout_main map_redis (\<lambda>k t s. (Inr (), s)) 100 ''t'' False one_source no_snapshots
      X \<lparr>st_table = [], st_redis = ms_empty, st_archive = []\<rparr>)))
    = watchlist_payload ''t'' [] (PStr ''UNKNOWN'') 0"
proof
  fix X
  have e: "expire_law alive ms_look (\<lambda>k t s. (Inr (), s))" by (simp add: expire_law_def)
  have a: "alive ms_empty" by (simp add: ms_empty_def)
  have "''0001'' \<notin> set (map fst (candidates_of one_source))" by (simp only: found_code) simp
  then have "''0001'' \<notin> fst ` set (candidates_of one_source)" by simp
  note found = this
  have p: "alive (st_redis \<lparr>st_table = [], st_redis = ms_empty, st_archive = []\<rparr>)" "pr_snapshots no_snapshots = []" "0 < pr_min_cap no_snapshots"
    using a by (simp_all add: no_snapshots_def)
  show "fst (get_hot_watchlist map_redis (st_redis (scout_main map_redis (\<lambda>k t s. (Inr (), s)) 100 ''t'' False one_source no_snapshots
      X \<lparr>st_table = [], st_redis = ms_empty, st_archive = []\<rparr>))) = watchlist_payload ''t'' [] (PStr ''UNKNOWN'') 0"
    using conjunct1 [OF snapshot_outage_clears_watchlist [OF map_redis_laws e p found refl, of 100 "''t''" False X]] by (simp only: if_False)
qed

definition silent_run :: "scorer_env \<Rightarrow> scout_run" where
  "silent_run E = \<lparr>sx_scorer = E, sx_sources = \<lambda>_. \<lparr>qs_prices = Inl ValueError, qs_investors = Inl ValueError, qs_ratios = None, qs_trend = None,
       qs_momentum = None\<rparr>, sx_kospi = None, sx_snapshots = [], sx_benefit = \<lambda>_. no_benefit, sx_cached = \<lambda>_. None,
     sx_brain = \<lambda>_. (Fin 50, []), sx_search = Some (\<lambda>_ _ _. ''news''), sx_finish = [''005930''], sx_held = Inr [], sx_cooled = \<lambda>_. Inr [], sx_max = 20,
     sx_risk_off = None, sx_budget_on = True, sx_sectors = []\<rparr>"

definition one_company :: "(string list \<times> string list) option \<Rightarrow> preparation" where
  "one_company council = no_snapshots\<lparr>pr_context := council, pr_snapshots := [(''005930'', no_numbers\<lparr>sn_market_cap := Some (Fin 400000)\<rparr>)]\<rparr>"

lemma found_candidate:
  "candidates_of one_source = [(''005930'', new_cand ''s'' (Some ''IT'') [Kospi_Top])]" "sectors_of one_source = []"
  by (simp_all add: candidates_of_def sectors_of_def one_source_def find_candidates_def analyze_sector_momentum_def sector_table_def premarket_def
      target_sectors_def get_hot_sector_stocks_def add_blue_chip_def add_static_def BLUE_CHIP_STOCKS_def add_rag_def filter_valid_stocks_def
      new_cand_def Let_def)

lemma prepared_company:
  "map (sc_reasons \<circ> snd) (prepare [] (one_company (Some ([''IT''], []))) (candidates_of one_source)) = [[Kospi_Top, Council_Avoid ''IT'']]"
  "map (sc_reasons \<circ> snd) (prepare [] (one_company None) (candidates_of one_source)) = [[Kospi_Top]]"
proof -
  have "sector_match ''IT'' ''IT''" by code_simp
  then show
  "map (sc_reasons \<circ> snd) (prepare [] (one_company (Some ([''IT''], []))) (candidates_of one_source)) = [[Kospi_Top, Council_Avoid ''IT'']]"
  "map (sc_reasons \<circ> snd) (prepare [] (one_company None) (candidates_of one_source)) = [[Kospi_Top]]"
  by (simp_all add: found_candidate one_company_def no_snapshots_def prepare_def on_stocks_def fill_sector_def penalise_def council_marks_def
      exclude_def enrich_candidates_with_market_data_def junk_filter_def is_junk_def attach_flow_def mark_surges_def volume_surge_def
      add_reason_def new_cand_def opt_or_def no_numbers_def Let_def)
qed

text \<open>The stock of an avoided sector: its reasons differ, what is stored does not.\<close>

lemma marks_change_only_keywords_witness:
  "(\<forall>E. let run = (\<lambda>council. scout_main map_redis (\<lambda>k t s. (Inr (), s)) 100 ''t'' True one_source (one_company council) (silent_run E)
          \<lparr>st_table = [], st_redis = ms_empty, st_archive = []\<rparr>)
      in st_table (run (Some ([''IT''], []))) = st_table (run None) \<and> st_redis (run (Some ([''IT''], []))) = st_redis (run None)
        \<and> map without_keywords (st_archive (run (Some ([''IT''], [])))) = map without_keywords (st_archive (run None)))
   \<and> prepare (sectors_of one_source) (one_company (Some ([''IT''], []))) (candidates_of one_source)
       \<noteq> prepare (sectors_of one_source) (one_company None) (candidates_of one_source)"
proof -
  have "search_works (silent_run E)" for E
    by (simp add: search_works_def silent_run_def NO_NEWS_DB_def NEWS_SEARCH_ERROR_def utf8_def)
  note run = marks_change_only_keywords [where R = map_redis and expire = "\<lambda>k t s. (Inr (), s)" and now = 100 and stamp = "''t''" and enabled = True
      and D = one_source and P = "one_company None" and council = "Some ([''IT''], [])" and bars = "\<lambda>_. ([], 0)"
      and w = "\<lparr>st_table = [], st_redis = ms_empty, st_archive = []\<rparr>", OF this refl refl]
  have c: "(one_company None)\<lparr>pr_context := Some ([''IT''], []), pr_bars := \<lambda>_. ([], 0)\<rparr> = one_company (Some ([''IT''], []))"
    by (simp add: one_company_def no_snapshots_def)
  have d: "prepare (sectors_of one_source) (one_company (Some ([''IT''], []))) (candidates_of one_source)
      \<noteq> prepare (sectors_of one_source) (one_company None) (candidates_of one_source)"
    using prepared_company by (metis found_candidate(2) list.inject not_Cons_self2)
  show ?thesis unfolding Let_def using run [unfolded c] d by blast
qed

text \<open>The stored entries carry no hybrid score: what the watcher reads there is 0 for every stock.\<close>

theorem stored_hybrid_score_is_zero:
  assumes "we_code e \<noteq> ''0001''"
  shows "\<exists>fields. stock_entry n (entry_json e) = Inr (Some (PDict fields)) \<and> map_of fields ''hybrid_score'' = Some (PInt 0)
    \<and> map_of fields ''llm_score'' = Some (PFloat (entry_score e))"
  using assms by (simp add: stock_entry_def entry_json_def has_key_def)

end
