(* ===== verification/Spec2Isabelle.thy ===== *)
theory Spec2Isabelle
  imports Circuit_Breaker Redis_Cache Redis_Lock Deploy_Safety Config_Manager Position_Sizing
    Sector_Classifier Sector_Budget Portfolio_Guard Diversification Price_Monitor
    Trade_Ledger Strategy_Presets Sell_Executor Buy_Rules Buy_Executor Hybrid_Scorer Buy_Watcher_Facts
    Message_Streams Performance_Report Rate_Limiter Market_Regime Command_Facts Hot_Watchlist Scheduler_Service
    Graceful_Shutdown Portfolio_Sync Order_Facts Macro_Data
    Scout_Job
begin

text \<open>
  Verification development of the trading core of \<open>my-prime-jennie\<close>, an automatic trading system
  for the Korean stock market, written in Python as a dozen services that share one Redis server
  and one database.

  \<^bold>\<open>The program.\<close> The macro clients collect economic figures and messages, from which the market
  regime and the trading context of the day are derived. The scout scores the stocks (quantitative
  and hybrid scorer) and stores the chosen ones as the hot watchlist. The buy scanner turns price
  ticks into minute candles, checks gates and strategies for every watched stock and publishes
  buy signals; the buy executor sizes a purchase, asks the portfolio guards, places the order
  and writes the ledger. The price monitor follows the holdings and publishes sell signals, the sell
  executor carries them out. Both executors reach the broker through the KIS gateway with its
  circuit breaker. The signals travel over Redis Streams. Operators steer the system by Telegram
  commands that set flags in Redis and queue manual trades. The scheduler starts the periodic jobs.

  \<^bold>\<open>Foundations.\<close> \<open>Py_Prelude\<close>: dynamically typed values, dictionaries, exceptions as the left
  side of a sum (\<open>res\<close>), and the state threaded through a sequence of calls. \<open>PyFloat\<close>: binary64 as
  rationals with rounding to nearest even (\<open>fl\<close>), so every sum, product and quotient of the code is
  rounded where the code rounds. \<open>Py_Num\<close>: the same with infinities and NaN (\<open>flt\<close>). \<open>Py_Text\<close>:
  strings, Korean text as UTF-8 bytes. \<open>Pandas\<close>: columns and frames, with the statistics of the
  library as a record of parameters. \<open>Redis_Iface\<close>: the commands of the server as a record of
  parameters with the laws the code relies on, and the instance that keeps a map.

  \<^bold>\<open>Configuration and shared state.\<close> \<open>Config_Manager\<close> (\<open>shared/config.py\<close>, \<open>shared/settings\<close>),
  \<open>Redis_Cache\<close> (\<open>shared/redis_cache.py\<close>), \<open>Redis_Lock\<close> (\<open>shared/redis_lock.py\<close>), \<open>Deploy_Safety\<close>
  (\<open>shared/deploy_safety.py\<close>), \<open>Hot_Watchlist\<close> (\<open>shared/watchlist.py\<close>), \<open>Trade_Ledger\<close>
  (\<open>shared/database/trading.py\<close>, \<open>shared/db/repository.py\<close>), \<open>Graceful_Shutdown\<close>
  (\<open>shared/graceful_shutdown.py\<close>).

  \<^bold>\<open>Market view.\<close> \<open>Macro_Data\<close> (\<open>shared/macro_data\<close>), \<open>Rate_Limiter\<close>, \<open>Macro_Signal\<close> and
  \<open>Trading_Context\<close> (\<open>shared/macro_insight\<close>), \<open>Market_Regime\<close> (\<open>shared/market_regime.py\<close>).

  \<^bold>\<open>Selection.\<close> \<open>Strategy_Indicators\<close> (\<open>shared/strategy.py\<close>), and of \<open>shared/hybrid_scoring\<close>:
  \<open>Chart_Phase\<close>, \<open>Quant_Base\<close>, \<open>Quant_Factors\<close>, \<open>Quant_Factors_V2\<close>, \<open>Quant_Scorer\<close>,
  \<open>Hybrid_Scorer\<close>;
  \<open>Scout_Universe\<close>, \<open>Scout_Pipeline\<close>, \<open>Scout_Job\<close> (\<open>services/scout-job\<close>: where the candidates come from, the
  evaluation of one candidate with the facts of its prompt and its entry in the archive, and the run from the
  candidates to the stored watchlist; one analysis of the sectors serves the hot stocks, the penalties and the
  sector budget).

  \<^bold>\<open>Entry and exit.\<close> \<open>Bar_Aggregator\<close>, \<open>Buy_Signals\<close>, \<open>Buy_Watcher\<close>, \<open>Buy_Watcher_Facts\<close>
  (\<open>services/buy-scanner\<close>, with the reader of the watchlist document field by field); \<open>Sector_Classifier\<close>, \<open>Sector_Budget\<close>, \<open>Portfolio_Guard\<close>,
  \<open>Diversification\<close>, \<open>Position_Sizing\<close>, \<open>Strategy_Presets\<close>, \<open>Buy_Rules\<close>, \<open>Buy_Executor\<close>
  (\<open>services/buy-executor\<close>); \<open>Price_Monitor\<close> (\<open>services/price-monitor\<close>), \<open>Sell_Executor\<close>
  (\<open>services/sell-executor\<close>).

  \<^bold>\<open>Broker and messages.\<close> \<open>Circuit_Breaker\<close>, \<open>KIS_Trading\<close>, \<open>KIS_Market\<close>, \<open>KIS_Gateway\<close> (\<open>shared/kis\<close>,
  \<open>services/kis-gateway\<close>: orders and balances, market data, and every endpoint behind the gateway's breaker), \<open>Order_Facts\<close>, \<open>Portfolio_Sync\<close>
  (\<open>utilities/sync_portfolio_from_account.py\<close>), \<open>Message_Streams\<close> (\<open>shared/messaging\<close>).

  \<^bold>\<open>Operation.\<close> \<open>Command_Handler\<close>, \<open>Command_Facts\<close> (\<open>services/command-handler\<close>, the entry points of
  the executors), \<open>Scheduler_Service\<close> (\<open>services/scheduler-service\<close>), \<open>Performance_Report\<close>
  (\<open>shared/analysis/performance_calculator.py\<close>).

  \<^bold>\<open>How the code is rendered.\<close> A class is a record, a method a definition on it with its name. The
  state of Redis, the ledger, the broker and the queues is passed explicitly, and an operation
  returns it together with its result; \<open>Inl\<close> is a raised exception. An \<open>except\<close> clause of the code is
  a case on \<open>Inl\<close>. A loop over a list is a recursion or a fold. What the processes do to shared
  state is a step relation (circuit breaker, lock) or a fold over a list of events (orders, commands,
  streams, scheduler), so that a property about every interleaving is an induction over it.

  \<^bold>\<open>Interfaces.\<close> The locale \<open>sell_guard\<close> states what the price monitor needs of its safety checks and is
  interpreted on them; \<open>config_source\<close>, \<open>amount_guard\<close>, \<open>sector_caps\<close>, \<open>classifier\<close>,
  \<open>bounded_factor\<close> and \<open>frozen\<close> do the same for the configuration, the portfolio guard, the sector
  budget, the classifier, the six factors of the quantitative scorer, and the steps of the
  platform that an emergency stop holds back.

  \<^bold>\<open>What the lemmas show.\<close> Invariants over all reachable states: breaker, lock, ledger, aggregator,
  signal consumption, emergency stop. Limits: sizes of orders, guards, factors and scores, number of requests,
  commands and order transmissions. Refinement: the incremental candles against the candles
  of the ticks, the consumer against the set of unsettled messages. Equivalence: the largest fall
  against its definition, and scout runs that differ in the marks of the candidates. Round trips: the watchlist
  from the scout to the watcher, and the snapshot. Termination and progress: the
  recovery of the streams, the breaker, delivery of a signal. A number of theorems state what the code does
  although its comments or its purpose say otherwise; they stand beside the component they concern.

  \<^bold>\<open>Bounds and fuel.\<close> Loops over their input are structural recursions; those that count towards
  a limit (business days, the matching of sales, the removal of a text) are functions with a
  measure. The loops that may not end (the recovery and the consumption of the streams, the wait of the shutdown)
  are partial functions into \<open>option\<close>: not returning is \<open>None\<close>, and \<open>recovery_terminates\<close>,
  \<open>consumer_returns_iff_bounded\<close> and \<open>wait_ends\<close> prove when they return. No definition carries fuel. The exponent of a
  float has no upper limit in \<open>fl\<close>: amounts of the program stay far below \<open>10\<close> to the \<open>308\<close>. Subnormal
  numbers are rounded as the format prescribes.

  \<^bold>\<open>Not modelled.\<close> Text and presentation (dashboards, briefings, reports, prompts); the language models
  and their providers, whose answers are parameters; crawlers and HTTP clients of data sources, whose
  answers are parameters; the SQL of listings and the schema; the research tools (backtests, factor
  studies, one-off scripts, migrations); start-up of the services, threads, logging, metrics. Code outside the
  repository (Redis, the database, pandas, numpy, pybreaker, croniter, the broker's server) is a
  parameter with what is relied on as a named hypothesis, and a concrete instance in the witnesses.
\<close>

end
